(* ===== verification/Prelude.thy ===== *)
theory Prelude
  imports Main "HOL-Library.Word" "HOL-Library.Sublist" "HOL-Library.AList"
begin

text \<open>
  Shared vocabulary of the development: C integer widths, \<open>errno\<close> values, C strings and
  the few libc string routines the sources use, byte copies into bounded buffers, and the
  generic interfaces (locales) the components are proved against.

  C strings are HOL strings (\<open>char list\<close>): the terminating NUL is the end of the list, so
  \<open>strlen\<close> is \<open>length\<close> and \<open>s[i] == '\0'\<close> is \<open>length s = i\<close>.
\<close>

unbundle bit_operations_syntax

section \<open>Widths\<close>

type_synonym u8 = "8 word"
type_synonym u16 = "16 word"
type_synonym u32 = "32 word"
type_synonym u64 = "64 word"
type_synonym path = string

section \<open>Error numbers (Linux, aarch64)\<close>

abbreviation EPERM :: int where "EPERM \<equiv> 1"
abbreviation ENOENT :: int where "ENOENT \<equiv> 2"
abbreviation ESRCH :: int where "ESRCH \<equiv> 3"
abbreviation EINTR :: int where "EINTR \<equiv> 4"
abbreviation E2BIG :: int where "E2BIG \<equiv> 7"
abbreviation EBADF :: int where "EBADF \<equiv> 9"
abbreviation ENOMEM :: int where "ENOMEM \<equiv> 12"
abbreviation EFAULT :: int where "EFAULT \<equiv> 14"
abbreviation EEXIST :: int where "EEXIST \<equiv> 17"
abbreviation EXDEV :: int where "EXDEV \<equiv> 18"
abbreviation ENOTDIR :: int where "ENOTDIR \<equiv> 20"
abbreviation EISDIR :: int where "EISDIR \<equiv> 21"
abbreviation EINVAL :: int where "EINVAL \<equiv> 22"
abbreviation ENOSPC :: int where "ENOSPC \<equiv> 28"
abbreviation ERANGE :: int where "ERANGE \<equiv> 34"
abbreviation ENAMETOOLONG :: int where "ENAMETOOLONG \<equiv> 36"
abbreviation ENOSYS :: int where "ENOSYS \<equiv> 38"
abbreviation ELOOP :: int where "ELOOP \<equiv> 40"
abbreviation ENODATA :: int where "ENODATA \<equiv> 61"
abbreviation EPROTO :: int where "EPROTO \<equiv> 71"
abbreviation EOVERFLOW :: int where "EOVERFLOW \<equiv> 75"
abbreviation EMSGSIZE :: int where "EMSGSIZE \<equiv> 90"
abbreviation EOPNOTSUPP :: int where "EOPNOTSUPP \<equiv> 95"
abbreviation ECONNRESET :: int where "ECONNRESET \<equiv> 104"

abbreviation PATH_MAX :: nat where "PATH_MAX \<equiv> 4096"

section \<open>C strings\<close>

text \<open>\<open>snprintf(out, n, ...)\<close> stores at most \<open>n - 1\<close> characters and returns the untruncated length.\<close>

definition c_snprintf :: "nat \<Rightarrow> string \<Rightarrow> string \<times> nat" where
  "c_snprintf n s = (take (n - 1) s, length s)"

text \<open>The bounded copy idiom \<open>if (snprintf(out, n, ...) >= (int)n) return error\<close>.\<close>

definition c_format :: "nat \<Rightarrow> string \<Rightarrow> string option" where
  "c_format n s = (if n \<le> length s then None else Some s)"

text \<open>\<open>strchr\<close> as a split: the text before the first \<open>c\<close> and the text from it on.\<close>

definition c_split :: "char \<Rightarrow> string \<Rightarrow> string \<times> string" where
  "c_split c s = (takeWhile (\<lambda>x. x \<noteq> c) s, dropWhile (\<lambda>x. x \<noteq> c) s)"

text \<open>\<open>strrchr(s, c)\<close>: the part up to and including the last \<open>c\<close>, if there is one.\<close>

definition c_rprefix :: "char \<Rightarrow> string \<Rightarrow> string option" where
  "c_rprefix c s = (if c \<in> set s then Some (rev (dropWhile (\<lambda>x. x \<noteq> c) (rev s))) else None)"

text \<open>\<open>strstr(s, sub) != NULL\<close>.\<close>

definition c_strstr :: "string \<Rightarrow> string \<Rightarrow> bool" where
  "c_strstr s sub = sublist sub s"

lemma c_format_Some [simp]: "c_format n s = Some t \<longleftrightarrow> length s < n \<and> t = s"
  by (auto simp: c_format_def)

lemma c_format_None [simp]: "c_format n s = None \<longleftrightarrow> n \<le> length s"
  by (simp add: c_format_def)

lemma c_snprintf_fits: "length s < n \<Longrightarrow> fst (c_snprintf n s) = s"
  by (simp add: c_snprintf_def)

lemma c_rprefix_prefix: "c_rprefix c s = Some d \<Longrightarrow> prefix d s"
proof -
  assume "c_rprefix c s = Some d"
  then have d: "d = rev (dropWhile (\<lambda>x. x \<noteq> c) (rev s))"
    by (auto simp: c_rprefix_def split: if_splits)
  have "suffix (dropWhile (\<lambda>x. x \<noteq> c) (rev s)) (rev s)"
    by (rule suffix_dropWhile)
  then show ?thesis by (simp add: d suffix_to_prefix)
qed

section \<open>Finite tables keyed by association lists\<close>

lemma distinct_fst_delete [intro]: "distinct (map fst xs) \<Longrightarrow> distinct (map fst (AList.delete k xs))"
  by (rule distinct_delete)

lemma distinct_fst_update [intro]: "distinct (map fst xs) \<Longrightarrow> distinct (map fst (AList.update k v xs))"
  by (rule distinct_update)

section \<open>Interfaces\<close>

text \<open>
  A component with many operations and one invariant: every operation \<open>allowed\<close> in its state
  keeps the invariant \<open>inv\<close> and relates the states by the preorder \<open>same\<close> (what the operation
  may not change). The client runs a whole list of operations.
\<close>

locale guarded_system =
  fixes step :: "'op \<Rightarrow> 's \<Rightarrow> 's"
    and allowed :: "'s \<Rightarrow> 'op \<Rightarrow> bool"
    and inv :: "'s \<Rightarrow> bool"
    and same :: "'s \<Rightarrow> 's \<Rightarrow> bool"
  assumes step_inv: "inv s \<Longrightarrow> allowed s a \<Longrightarrow> inv (step a s)"
    and step_same: "inv s \<Longrightarrow> allowed s a \<Longrightarrow> same s (step a s)"
    and same_refl: "same s s"
    and same_trans: "same s t \<Longrightarrow> same t u \<Longrightarrow> same s u"
begin

fun all_allowed :: "'s \<Rightarrow> 'op list \<Rightarrow> bool" where
  "all_allowed s [] = True"
| "all_allowed s (a # as) = (allowed s a \<and> all_allowed (step a s) as)"

lemma run_inv: "inv s \<Longrightarrow> all_allowed s as \<Longrightarrow> inv (fold step as s)"
  by (induction as arbitrary: s) (auto intro: step_inv)

lemma run_same: "inv s \<Longrightarrow> all_allowed s as \<Longrightarrow> same s (fold step as s)"
proof (induction as arbitrary: s)
  case Nil
  then show ?case by (simp add: same_refl)
next
  case (Cons a as)
  then have "same s (step a s)" and "same (step a s) (fold step as (step a s))"
    by (auto intro: step_same step_inv)
  then show ?case by (auto intro: same_trans)
qed

end

end
