(* ===== verification/Posix_Fs.thy ===== *)
theory Posix_Fs
  imports Prelude
begin

text \<open>
  The part of the Linux file system and descriptor interface that \<open>libcow.c\<close> calls through the
  C library: directory entries that are hard links to inodes, open file descriptions shared by
  descriptors, and the calls \<open>stat\<close>, \<open>open\<close>, \<open>mkstemp\<close>, \<open>read\<close>, \<open>write\<close>, \<open>copy_file_range\<close>,
  \<open>rename\<close>, \<open>unlink\<close>, \<open>fchmod\<close> and the metadata calls.

  A directory entry is identified by an opaque name; \<open>namei\<close> is the kernel's walk of a path string
  to the entry it names, without following the last component. Every call first takes one reply
  from \<open>script\<close>: an error, a bound on the bytes transferred, or success, so that theorems about all
  scripts cover every error path and every short read and write. \<open>stat\<close> has a script of its own.
  A call that a killed process would make has no effect.
\<close>

section \<open>State\<close>

type_synonym entry = string

datatype ikind = KReg | KDir | KLnk path | KOther

record inode =
  ikind :: ikind
  idata :: string
  imode :: u32
  iuid :: nat
  igid :: nat
  itimes :: "int \<times> int"
  ixattrs :: "(string \<times> string) list"

record ofd =
  o_ino :: nat
  o_off :: nat
  o_read :: bool
  o_write :: bool
  o_append :: bool

datatype nbase = AtCwd | AtFd int | AtLink entry

datatype kreply = KOk | KShort nat | KErr int

record kernel =
  dents :: "(entry \<times> nat) list"
  inodes :: "nat \<Rightarrow> inode"
  next_ino :: nat
  fds :: "(nat \<times> nat) list"
  ofds :: "nat \<Rightarrow> ofd"
  next_ofd :: nat
  namei :: "nbase \<Rightarrow> path \<Rightarrow> entry"
  kcwd :: "path option"
  proc_fd :: "int \<Rightarrow> path option"
  script :: "kreply list"
  stat_script :: "kreply list"
  suffixes :: "string list"
  euid :: nat
  egid :: nat
  clock :: int
  alive :: bool
  errno :: int

text \<open>The struct \<open>stat\<close> fields the sources read.\<close>

record kstat =
  st_ino :: nat
  st_kind :: ikind
  st_mode :: u32
  st_nlink :: nat
  st_size :: nat

section \<open>Open flags\<close>

abbreviation O_ACCMODE :: u32 where "O_ACCMODE \<equiv> 3"
abbreviation O_RDONLY :: u32 where "O_RDONLY \<equiv> 0"
abbreviation O_WRONLY :: u32 where "O_WRONLY \<equiv> 1"
abbreviation O_RDWR :: u32 where "O_RDWR \<equiv> 2"
abbreviation O_CREAT :: u32 where "O_CREAT \<equiv> 0x40"
abbreviation O_EXCL :: u32 where "O_EXCL \<equiv> 0x80"
abbreviation O_TRUNC :: u32 where "O_TRUNC \<equiv> 0x200"
abbreviation O_APPEND :: u32 where "O_APPEND \<equiv> 0x400"
abbreviation O_DIRECTORY :: u32 where "O_DIRECTORY \<equiv> 0x4000"
abbreviation O_NOFOLLOW :: u32 where "O_NOFOLLOW \<equiv> 0x8000"
abbreviation O_TMPFILE :: u32 where "O_TMPFILE \<equiv> 0x404000"

definition has_bits :: "u32 \<Rightarrow> u32 \<Rightarrow> bool" where
  "has_bits flags b = (flags AND b \<noteq> 0)"

section \<open>Name lookup\<close>

definition k_lookup :: "'a kernel_scheme \<Rightarrow> entry \<Rightarrow> nat option" where
  "k_lookup s e = map_of (dents s) e"

definition k_nlink :: "'a kernel_scheme \<Rightarrow> nat \<Rightarrow> nat" where
  "k_nlink s i = length (filter (\<lambda>d. snd d = i) (dents s))"

text \<open>Following a final symbolic link; 40 links is the kernel's limit (ELOOP).\<close>

fun k_walk :: "nat \<Rightarrow> 'a kernel_scheme \<Rightarrow> entry \<Rightarrow> entry option" where
  "k_walk 0 s e = None"
| "k_walk (Suc n) s e =
     (case k_lookup s e of
        None \<Rightarrow> Some e
      | Some i \<Rightarrow> (case ikind (inodes s i) of
                     KLnk t \<Rightarrow> k_walk n s (namei s (AtLink e) t)
                   | _ \<Rightarrow> Some e))"

definition k_resolve :: "bool \<Rightarrow> nbase \<Rightarrow> path \<Rightarrow> 'a kernel_scheme \<Rightarrow> entry option" where
  "k_resolve follow b p s = (if follow then k_walk 40 s (namei s b p) else Some (namei s b p))"

section \<open>Calls\<close>

definition k_fail :: "int \<Rightarrow> 'a kernel_scheme \<Rightarrow> 'b option \<times> 'a kernel_scheme" where
  "k_fail e s = (None, s\<lparr>errno := e\<rparr>)"

definition kcall :: "(kreply \<Rightarrow> 'a kernel_scheme \<Rightarrow> 'b option \<times> 'a kernel_scheme)
    \<Rightarrow> 'a kernel_scheme \<Rightarrow> 'b option \<times> 'a kernel_scheme" where
  "kcall f s =
     (if \<not> alive s then (None, s)
      else case script s of
             [] \<Rightarrow> f KOk s
           | KErr e # rs \<Rightarrow> k_fail e (s\<lparr>script := rs\<rparr>)
           | r # rs \<Rightarrow> f r (s\<lparr>script := rs\<rparr>))"

definition k_upd_inode :: "nat \<Rightarrow> (inode \<Rightarrow> inode) \<Rightarrow> 'a kernel_scheme \<Rightarrow> 'a kernel_scheme" where
  "k_upd_inode i f s = s\<lparr>inodes := (inodes s)(i := f (inodes s i))\<rparr>"

definition k_set_dent :: "entry \<Rightarrow> nat \<Rightarrow> 'a kernel_scheme \<Rightarrow> 'a kernel_scheme" where
  "k_set_dent e i s = s\<lparr>dents := AList.update e i (dents s)\<rparr>"

definition k_del_dent :: "entry \<Rightarrow> 'a kernel_scheme \<Rightarrow> 'a kernel_scheme" where
  "k_del_dent e s = s\<lparr>dents := AList.delete e (dents s)\<rparr>"

definition k_new_inode :: "inode \<Rightarrow> 'a kernel_scheme \<Rightarrow> nat \<times> 'a kernel_scheme" where
  "k_new_inode nd s =
     (next_ino s, s\<lparr>inodes := (inodes s)(next_ino s := nd), next_ino := Suc (next_ino s)\<rparr>)"

definition k_fresh_reg :: "u32 \<Rightarrow> 'a kernel_scheme \<Rightarrow> inode" where
  "k_fresh_reg m s = \<lparr>ikind = KReg, idata = [], imode = m, iuid = euid s, igid = egid s,
     itimes = (clock s, clock s), ixattrs = []\<rparr>"

text \<open>The lowest unused descriptor number.\<close>

definition k_free_fd :: "'a kernel_scheme \<Rightarrow> nat" where
  "k_free_fd s = hd (filter (\<lambda>n. n \<notin> set (map fst (fds s))) [0..<Suc (length (fds s))])"

definition k_install_fd :: "ofd \<Rightarrow> 'a kernel_scheme \<Rightarrow> nat \<times> 'a kernel_scheme" where
  "k_install_fd d s =
     (k_free_fd s,
      s\<lparr>fds := AList.update (k_free_fd s) (next_ofd s) (fds s),
        ofds := (ofds s)(next_ofd s := d), next_ofd := Suc (next_ofd s)\<rparr>)"

definition k_ofd :: "int \<Rightarrow> 'a kernel_scheme \<Rightarrow> nat option" where
  "k_ofd fd s = (if fd < 0 then None else map_of (fds s) (nat fd))"

definition k_stat_inode :: "'a kernel_scheme \<Rightarrow> nat \<Rightarrow> kstat" where
  "k_stat_inode s i = \<lparr>st_ino = i, st_kind = ikind (inodes s i), st_mode = imode (inodes s i),
     st_nlink = k_nlink s i, st_size = length (idata (inodes s i))\<rparr>"

definition k_stat :: "bool \<Rightarrow> nbase \<Rightarrow> path \<Rightarrow> 'a kernel_scheme \<Rightarrow> kstat option \<times> 'a kernel_scheme" where
  "k_stat follow b p s =
     (if \<not> alive s then (None, s)
      else case stat_script s of
        KErr e # rs \<Rightarrow> k_fail e (s\<lparr>stat_script := rs\<rparr>)
      | rs \<Rightarrow> (let s = s\<lparr>stat_script := tl rs\<rparr> in
          case k_resolve follow b p s of
            None \<Rightarrow> k_fail ELOOP s
          | Some e \<Rightarrow> (case k_lookup s e of
                         None \<Rightarrow> k_fail ENOENT s
                       | Some i \<Rightarrow> (Some (k_stat_inode s i), s))))"

definition open_ofd :: "nat \<Rightarrow> u32 \<Rightarrow> ofd" where
  "open_ofd i flags = (let acc = flags AND O_ACCMODE in
     \<lparr>o_ino = i, o_off = 0, o_read = (acc = O_RDONLY \<or> acc = O_RDWR),
      o_write = (acc = O_WRONLY \<or> acc = O_RDWR), o_append = has_bits flags O_APPEND\<rparr>)"

definition k_open_ino :: "nat \<Rightarrow> u32 \<Rightarrow> 'a kernel_scheme \<Rightarrow> nat option \<times> 'a kernel_scheme" where
  "k_open_ino i flags s = (let (fd, s) = k_install_fd (open_ofd i flags) s in (Some fd, s))"

definition k_open_existing :: "nat \<Rightarrow> u32 \<Rightarrow> 'a kernel_scheme \<Rightarrow> nat option \<times> 'a kernel_scheme" where
  "k_open_existing i flags s =
     (case ikind (inodes s i) of
        KLnk t \<Rightarrow> k_fail ELOOP s
      | KDir \<Rightarrow> if flags AND O_ACCMODE = O_RDONLY \<and> \<not> has_bits flags O_CREAT \<and> \<not> has_bits flags O_TRUNC
                then k_open_ino i flags s else k_fail EISDIR s
      | KReg \<Rightarrow>
          if has_bits flags O_DIRECTORY then k_fail ENOTDIR s
          else k_open_ino i flags
            (if has_bits flags O_TRUNC then k_upd_inode i (\<lambda>d. d\<lparr>idata := []\<rparr>) s else s)
      | KOther \<Rightarrow> if has_bits flags O_DIRECTORY then k_fail ENOTDIR s
                  else k_open_ino i flags s)"

definition k_open_body :: "nbase \<Rightarrow> path \<Rightarrow> u32 \<Rightarrow> u32 \<Rightarrow> 'a kernel_scheme \<Rightarrow> nat option \<times> 'a kernel_scheme" where
  "k_open_body b p flags mode s =
     (let excl = has_bits flags O_CREAT \<and> has_bits flags O_EXCL in
      if has_bits flags 0x400000 then
        (if \<not> has_bits flags O_DIRECTORY \<or> flags AND O_ACCMODE = O_RDONLY then k_fail EINVAL s
         else let (i, s) = k_new_inode (k_fresh_reg mode s) s in k_open_ino i flags s)
      else case k_resolve (\<not> excl \<and> \<not> has_bits flags O_NOFOLLOW) b p s of
        None \<Rightarrow> k_fail ELOOP s
      | Some e \<Rightarrow>
         (case k_lookup s e of
            None \<Rightarrow>
              (if has_bits flags O_CREAT then
                 let (i, s) = k_new_inode (k_fresh_reg mode s) s;
                     s = k_set_dent e i s
                 in k_open_ino i flags s
               else k_fail ENOENT s)
          | Some i \<Rightarrow>
              (if excl then k_fail EEXIST s
               else k_open_existing i flags s)))"

definition k_open :: "nbase \<Rightarrow> path \<Rightarrow> u32 \<Rightarrow> u32 \<Rightarrow> 'a kernel_scheme \<Rightarrow> nat option \<times> 'a kernel_scheme" where
  "k_open b p flags mode = kcall (\<lambda>_. k_open_body b p flags mode)"

text \<open>
  \<open>mkstemp\<close>: the first candidate suffix whose name does not exist yet; a new file, mode 0600,
  opened read-write. The candidates are the C library's random names.
\<close>

definition k_mkstemp :: "path \<Rightarrow> 'a kernel_scheme \<Rightarrow> (nat \<times> path) option \<times> 'a kernel_scheme" where
  "k_mkstemp stem = kcall (\<lambda>_ s.
     (case filter (\<lambda>x. k_lookup s (namei s AtCwd (stem @ x)) = None) (suffixes s) of
        [] \<Rightarrow> k_fail EEXIST s
      | x # _ \<Rightarrow>
          (let tmp = stem @ x;
               (i, s) = k_new_inode (k_fresh_reg 0x180 s) s;
               s = k_set_dent (namei s AtCwd tmp) i s;
               (fd, s) = k_install_fd (open_ofd i O_RDWR) s
           in (Some (fd, tmp), s))))"

definition xfer :: "kreply \<Rightarrow> nat \<Rightarrow> nat" where
  "xfer r n = (case r of KShort k \<Rightarrow> min n (max 1 k) | _ \<Rightarrow> n)"

definition splice :: "nat \<Rightarrow> string \<Rightarrow> string \<Rightarrow> string" where
  "splice off bs d =
     (let d' = d @ replicate (off - length d) (CHR 0x00)
      in take off d' @ bs @ drop (off + length bs) d')"

definition k_read :: "nat \<Rightarrow> nat \<Rightarrow> 'a kernel_scheme \<Rightarrow> string option \<times> 'a kernel_scheme" where
  "k_read fd n = kcall (\<lambda>r s.
     (case map_of (fds s) fd of
        None \<Rightarrow> k_fail EBADF s
      | Some od \<Rightarrow>
         (let d = ofds s od; bs = take (xfer r n) (drop (o_off d) (idata (inodes s (o_ino d)))) in
          if \<not> o_read d then k_fail EBADF s
          else (Some bs, s\<lparr>ofds := (ofds s)(od := d\<lparr>o_off := o_off d + length bs\<rparr>)\<rparr>))))"

definition k_write :: "nat \<Rightarrow> string \<Rightarrow> 'a kernel_scheme \<Rightarrow> nat option \<times> 'a kernel_scheme" where
  "k_write fd buf = kcall (\<lambda>r s.
     (case map_of (fds s) fd of
        None \<Rightarrow> k_fail EBADF s
      | Some od \<Rightarrow>
         (let d = ofds s od; bs = take (xfer r (length buf)) buf;
              off = (if o_append d then length (idata (inodes s (o_ino d))) else o_off d) in
          if \<not> o_write d then k_fail EBADF s
          else (Some (length bs),
                k_upd_inode (o_ino d) (\<lambda>nd. nd\<lparr>idata := splice off bs (idata nd)\<rparr>)
                  (s\<lparr>ofds := (ofds s)(od := d\<lparr>o_off := off + length bs\<rparr>)\<rparr>)))))"

definition k_copy_file_range :: "nat \<Rightarrow> nat \<Rightarrow> nat \<Rightarrow> 'a kernel_scheme \<Rightarrow> nat option \<times> 'a kernel_scheme" where
  "k_copy_file_range sfd tfd want = kcall (\<lambda>r s.
     (case (map_of (fds s) sfd, map_of (fds s) tfd) of
        (Some o1, Some o2) \<Rightarrow>
          (let d1 = ofds s o1; d2 = ofds s o2;
               bs = take (xfer r want) (drop (o_off d1) (idata (inodes s (o_ino d1)))) in
           if \<not> o_read d1 \<or> \<not> o_write d2 \<or> o_append d2 then k_fail EBADF s
           else if o_ino d1 = o_ino d2 then k_fail EINVAL s
           else (Some (length bs),
                 k_upd_inode (o_ino d2) (\<lambda>nd. nd\<lparr>idata := splice (o_off d2) bs (idata nd)\<rparr>)
                   (s\<lparr>ofds := (ofds s)(o1 := d1\<lparr>o_off := o_off d1 + length bs\<rparr>,
                                      o2 := d2\<lparr>o_off := o_off d2 + length bs\<rparr>)\<rparr>)))
      | _ \<Rightarrow> k_fail EBADF s))"

definition k_rewind :: "nat \<Rightarrow> 'a kernel_scheme \<Rightarrow> unit option \<times> 'a kernel_scheme" where
  "k_rewind fd = kcall (\<lambda>_ s.
     (case map_of (fds s) fd of
        None \<Rightarrow> k_fail EBADF s
      | Some od \<Rightarrow> (Some (), s\<lparr>ofds := (ofds s)(od := (ofds s od)\<lparr>o_off := 0\<rparr>)\<rparr>)))"

definition set_len :: "nat \<Rightarrow> string \<Rightarrow> string" where
  "set_len n d = take n d @ replicate (n - length d) (CHR 0x00)"

definition k_ftruncate :: "int \<Rightarrow> nat \<Rightarrow> 'a kernel_scheme \<Rightarrow> unit option \<times> 'a kernel_scheme" where
  "k_ftruncate fd n = kcall (\<lambda>_ s.
     (case k_ofd fd s of
        None \<Rightarrow> k_fail EBADF s
      | Some od \<Rightarrow>
         (if \<not> o_write (ofds s od) then k_fail EINVAL s
          else (Some (), k_upd_inode (o_ino (ofds s od)) (\<lambda>d. d\<lparr>idata := set_len n (idata d)\<rparr>) s))))"

definition k_truncate :: "path \<Rightarrow> nat \<Rightarrow> 'a kernel_scheme \<Rightarrow> unit option \<times> 'a kernel_scheme" where
  "k_truncate p n = kcall (\<lambda>_ s.
     (case k_resolve True AtCwd p s of
        None \<Rightarrow> k_fail ELOOP s
      | Some e \<Rightarrow> (case k_lookup s e of
          None \<Rightarrow> k_fail ENOENT s
        | Some i \<Rightarrow> (case ikind (inodes s i) of
            KReg \<Rightarrow> (Some (), k_upd_inode i (\<lambda>d. d\<lparr>idata := set_len n (idata d)\<rparr>) s)
          | KDir \<Rightarrow> k_fail EISDIR s
          | _ \<Rightarrow> k_fail EINVAL s))))"

text \<open>The metadata calls: one inode update, by path or by descriptor.\<close>

definition k_setattr :: "bool \<Rightarrow> nbase \<Rightarrow> path \<Rightarrow> (inode \<Rightarrow> inode) \<Rightarrow> 'a kernel_scheme
    \<Rightarrow> unit option \<times> 'a kernel_scheme" where
  "k_setattr follow b p f = kcall (\<lambda>_ s.
     (case k_resolve follow b p s of
        None \<Rightarrow> k_fail ELOOP s
      | Some e \<Rightarrow> (case k_lookup s e of
          None \<Rightarrow> k_fail ENOENT s
        | Some i \<Rightarrow> (Some (), k_upd_inode i f s))))"

definition k_fsetattr :: "int \<Rightarrow> (inode \<Rightarrow> inode) \<Rightarrow> 'a kernel_scheme \<Rightarrow> unit option \<times> 'a kernel_scheme" where
  "k_fsetattr fd f = kcall (\<lambda>_ s.
     (case k_ofd fd s of
        None \<Rightarrow> k_fail EBADF s
      | Some od \<Rightarrow> (Some (), k_upd_inode (o_ino (ofds s od)) f s)))"

definition set_mode :: "u32 \<Rightarrow> inode \<Rightarrow> inode" where
  "set_mode m d = d\<lparr>imode := m AND 0xFFF\<rparr>"

definition set_owner :: "nat option \<Rightarrow> nat option \<Rightarrow> inode \<Rightarrow> inode" where
  "set_owner u g d = d\<lparr>iuid := (case u of None \<Rightarrow> iuid d | Some x \<Rightarrow> x),
                       igid := (case g of None \<Rightarrow> igid d | Some x \<Rightarrow> x)\<rparr>"

definition set_times :: "int \<times> int \<Rightarrow> inode \<Rightarrow> inode" where
  "set_times t d = d\<lparr>itimes := t\<rparr>"

definition set_xattr :: "string \<Rightarrow> string \<Rightarrow> inode \<Rightarrow> inode" where
  "set_xattr n v d = d\<lparr>ixattrs := AList.update n v (ixattrs d)\<rparr>"

definition remove_xattr :: "string \<Rightarrow> inode \<Rightarrow> inode" where
  "remove_xattr n d = d\<lparr>ixattrs := AList.delete n (ixattrs d)\<rparr>"

definition k_listxattr :: "path \<Rightarrow> 'a kernel_scheme \<Rightarrow> string list option \<times> 'a kernel_scheme" where
  "k_listxattr p = kcall (\<lambda>_ s.
     (case k_lookup s (namei s AtCwd p) of
        None \<Rightarrow> k_fail ENOENT s
      | Some i \<Rightarrow> (Some (map fst (ixattrs (inodes s i))), s)))"

definition k_getxattr :: "path \<Rightarrow> string \<Rightarrow> 'a kernel_scheme \<Rightarrow> string option \<times> 'a kernel_scheme" where
  "k_getxattr p n = kcall (\<lambda>_ s.
     (case k_lookup s (namei s AtCwd p) of
        None \<Rightarrow> k_fail ENOENT s
      | Some i \<Rightarrow> (case map_of (ixattrs (inodes s i)) n of
                     None \<Rightarrow> k_fail ENODATA s
                   | Some v \<Rightarrow> (Some v, s))))"

text \<open>Linux releases the descriptor even when \<open>close\<close> reports an error.\<close>

definition k_close :: "int \<Rightarrow> 'a kernel_scheme \<Rightarrow> unit option \<times> 'a kernel_scheme" where
  "k_close fd s =
     (if \<not> alive s then (None, s)
      else case k_ofd fd s of
        None \<Rightarrow> k_fail EBADF s
      | Some _ \<Rightarrow> kcall (\<lambda>_ s. (Some (), s)) (s\<lparr>fds := AList.delete (nat fd) (fds s)\<rparr>))"

definition k_unlink :: "path \<Rightarrow> 'a kernel_scheme \<Rightarrow> unit option \<times> 'a kernel_scheme" where
  "k_unlink p = kcall (\<lambda>_ s.
     (let e = namei s AtCwd p in
      case k_lookup s e of
        None \<Rightarrow> k_fail ENOENT s
      | Some i \<Rightarrow> if ikind (inodes s i) = KDir then k_fail EISDIR s
                  else (Some (), k_del_dent e s)))"

definition k_link :: "path \<Rightarrow> path \<Rightarrow> 'a kernel_scheme \<Rightarrow> unit option \<times> 'a kernel_scheme" where
  "k_link p q = kcall (\<lambda>_ s.
     (case k_lookup s (namei s AtCwd p) of
        None \<Rightarrow> k_fail ENOENT s
      | Some i \<Rightarrow>
         (if ikind (inodes s i) = KDir then k_fail EPERM s
          else if k_lookup s (namei s AtCwd q) \<noteq> None then k_fail EEXIST s
          else (Some (), k_set_dent (namei s AtCwd q) i s))))"

text \<open>
  \<open>rename\<close>: if both names are links to one inode it succeeds and does nothing; otherwise the
  old entry replaces whatever the new name held, atomically.
\<close>

definition k_rename :: "nbase \<Rightarrow> path \<Rightarrow> nbase \<Rightarrow> path \<Rightarrow> 'a kernel_scheme \<Rightarrow> unit option \<times> 'a kernel_scheme" where
  "k_rename b1 p b2 q = kcall (\<lambda>_ s.
     (let e1 = namei s b1 p; e2 = namei s b2 q in
      case k_lookup s e1 of
        None \<Rightarrow> k_fail ENOENT s
      | Some i \<Rightarrow>
         (if k_lookup s e2 = Some i then (Some (), s)
          else (Some (), k_set_dent e2 i (k_del_dent e1 s)))))"

definition k_dup :: "int \<Rightarrow> 'a kernel_scheme \<Rightarrow> nat option \<times> 'a kernel_scheme" where
  "k_dup fd = kcall (\<lambda>_ s.
     (case k_ofd fd s of
        None \<Rightarrow> k_fail EBADF s
      | Some od \<Rightarrow> (Some (k_free_fd s), s\<lparr>fds := AList.update (k_free_fd s) od (fds s)\<rparr>)))"

definition k_dup2 :: "int \<Rightarrow> int \<Rightarrow> 'a kernel_scheme \<Rightarrow> nat option \<times> 'a kernel_scheme" where
  "k_dup2 old new = kcall (\<lambda>_ s.
     (case k_ofd old s of
        None \<Rightarrow> k_fail EBADF s
      | Some od \<Rightarrow> if new < 0 then k_fail EBADF s
                  else (Some (nat new), s\<lparr>fds := AList.update (nat new) od (fds s)\<rparr>)))"

definition k_dup3 :: "int \<Rightarrow> int \<Rightarrow> 'a kernel_scheme \<Rightarrow> nat option \<times> 'a kernel_scheme" where
  "k_dup3 old new = (\<lambda>s. if alive s \<and> old = new then k_fail EINVAL s else k_dup2 old new s)"

text \<open>\<open>raise(SIGKILL)\<close>.\<close>

definition k_sigkill :: "'a kernel_scheme \<Rightarrow> 'a kernel_scheme" where
  "k_sigkill s = s\<lparr>alive := False\<rparr>"

end
