(* ===== verification/Copy_Steps.thy ===== *)
theory Copy_Steps
  imports Posix_Fs
begin

text \<open>
  One \<open>read\<close> and one \<open>write\<close> of a copy in progress, for the copy loops of the shim and of the tracer.
\<close>

lemma k_write_EINTR:
  "k_write fd buf s = (None, s') \<Longrightarrow> errno s' = EINTR \<Longrightarrow> alive s \<Longrightarrow>
   length (script s') < length (script s)"
  by (auto simp: k_write_def kcall_def k_fail_def k_upd_inode_def Let_def
      split: list.splits kreply.splits option.splits if_splits)

lemma k_write_progress:
  "k_write fd buf s = (Some w, s') \<Longrightarrow>
   w \<le> length buf \<and> (buf \<noteq> [] \<longrightarrow> 0 < w) \<and> length (script s') \<le> length (script s)"
  by (auto simp: k_write_def kcall_def k_fail_def k_upd_inode_def xfer_def Let_def min_def
      split: list.splits kreply.splits option.splits if_splits)

section \<open>What a copy may change\<close>

text \<open>The data of one inode, the offsets of open files, and the bookkeeping of the calls.\<close>

definition only_data :: "nat \<Rightarrow> 'a kernel_scheme \<Rightarrow> 'a kernel_scheme \<Rightarrow> bool" where
  "only_data j s t \<longleftrightarrow> (\<exists>sc er od X. t = s\<lparr>script := sc, errno := er, ofds := od,
     inodes := (inodes s)(j := (inodes s j)\<lparr>idata := X\<rparr>)\<rparr>)"

lemma only_data_refl [simp]: "only_data j s s"
  unfolding only_data_def
  by (rule exI[of _ "script s"], rule exI[of _ "errno s"], rule exI[of _ "ofds s"],
      rule exI[of _ "idata (inodes s j)"]) simp

lemma only_data_trans: "only_data j s t \<Longrightarrow> only_data j t u \<Longrightarrow> only_data j s u"
  unfolding only_data_def by (elim exE, simp) blast

lemma only_data_quiet [simp]: "only_data j s (s\<lparr>script := sc, errno := er\<rparr>)"
  unfolding only_data_def
  by (rule exI[of _ sc], rule exI[of _ er], rule exI[of _ "ofds s"],
      rule exI[of _ "idata (inodes s j)"]) simp

lemma only_data_ofds: "only_data j s (s\<lparr>script := sc, ofds := od\<rparr>)"
  unfolding only_data_def
  by (rule exI[of _ sc], rule exI[of _ "errno s"], rule exI[of _ od],
      rule exI[of _ "idata (inodes s j)"]) simp

lemma only_data_write:
  "only_data j s (k_upd_inode j (\<lambda>d. d\<lparr>idata := h d\<rparr>) (s\<lparr>script := sc, ofds := od\<rparr>))"
  unfolding only_data_def k_upd_inode_def
  by (rule exI[of _ sc], rule exI[of _ "errno s"], rule exI[of _ od],
      rule exI[of _ "h (inodes s j)"]) simp

lemma kcallE:
  assumes "kcall f s = (x, t)"
  obtains (refused) sc er where "x = None" "t = s\<lparr>script := sc, errno := er\<rparr>"
  | (ran) r sc where "alive s" "f r (s\<lparr>script := sc\<rparr>) = (x, t)"
proof -
  consider "\<not> alive s" | "alive s" "script s = []" | r rs where "alive s" "script s = r # rs"
    by (cases "script s") auto
  then show ?thesis
  proof cases
    case 1
    then show ?thesis using assms refused[where sc = "script s" and er = "errno s"] by (simp add: kcall_def)
  next
    case 2
    then have "kcall f s = f KOk s" by (simp add: kcall_def)
    moreover have "s\<lparr>script := script s\<rparr> = s" by simp
    ultimately show ?thesis using assms 2(1) ran[where r = KOk and sc = "script s"] by argo
  next
    case (3 r rs)
    then show ?thesis
      using assms ran[where r = r and sc = rs] refused[where sc = rs]
      by (cases r) (auto simp: kcall_def k_fail_def)
  qed
qed

lemma take_length_take: "take (length (take n xs)) xs = take n xs"
  by (cases "n \<le> length xs") simp_all

section \<open>The copy in progress\<close>

text \<open>
  \<open>sfd\<close> reads inode \<open>i\<close>, which holds \<open>D\<close>, at offset \<open>k\<close>; \<open>tfd\<close> has written \<open>pre\<close> to inode \<open>j\<close>.
\<close>

definition copying :: "nat \<Rightarrow> nat \<Rightarrow> nat \<Rightarrow> nat \<Rightarrow> string \<Rightarrow> nat \<Rightarrow> string \<Rightarrow> 'a kernel_scheme \<Rightarrow> bool" where
  "copying sfd tfd i j D k pre s \<longleftrightarrow>
     (\<exists>a b. a \<noteq> b \<and> map_of (fds s) sfd = Some a \<and> map_of (fds s) tfd = Some b \<and>
        o_ino (ofds s a) = i \<and> o_off (ofds s a) = k \<and> o_read (ofds s a) \<and>
        o_ino (ofds s b) = j \<and> o_off (ofds s b) = length pre \<and> o_write (ofds s b) \<and> \<not> o_append (ofds s b) \<and>
        i \<noteq> j \<and> idata (inodes s i) = D \<and> idata (inodes s j) = pre)"

lemma copying_quiet [simp]:
  "copying sfd tfd i j D k pre (s\<lparr>script := sc, errno := er\<rparr>) = copying sfd tfd i j D k pre s"
  by (simp add: copying_def)

lemma splice_end [simp]: "splice (length d) bs d = d @ bs"
  by (simp add: splice_def)

lemma xfer_pos: "0 < n \<Longrightarrow> 0 < xfer r n" and xfer_le: "xfer r n \<le> n"
  by (auto simp: xfer_def split: kreply.splits)

lemma k_read_copying:
  assumes c: "copying sfd tfd i j D k pre s" and r: "k_read sfd 65536 s = (x, t)"
  shows "only_data j s t" and "x = None \<Longrightarrow> copying sfd tfd i j D k pre t"
    and "x = Some bs \<Longrightarrow> copying sfd tfd i j D (k + length bs) pre t \<and>
      bs = take (length bs) (drop k D) \<and> (bs = [] \<longrightarrow> length D \<le> k)"
proof -
  obtain a b where ab: "a \<noteq> b" "map_of (fds s) sfd = Some a" "map_of (fds s) tfd = Some b"
      "o_ino (ofds s a) = i" "o_off (ofds s a) = k" "o_read (ofds s a)"
      "o_ino (ofds s b) = j" "o_off (ofds s b) = length pre" "o_write (ofds s b)" "\<not> o_append (ofds s b)"
      "i \<noteq> j" "idata (inodes s i) = D" "idata (inodes s j) = pre"
    using c by (auto simp: copying_def)
  have main: "only_data j s t \<and> (x = None \<longrightarrow> copying sfd tfd i j D k pre t) \<and>
      (\<forall>bs. x = Some bs \<longrightarrow> copying sfd tfd i j D (k + length bs) pre t \<and>
        bs = take (length bs) (drop k D) \<and> (bs = [] \<longrightarrow> length D \<le> k))"
    using r unfolding k_read_def
  proof (cases rule: kcallE)
    case (refused sc er)
    with c show ?thesis by simp
  next
    case (ran r sc)
    let ?bs = "take (xfer r 65536) (drop k D)"
    have x: "x = Some ?bs"
      and t: "t = s\<lparr>script := sc, ofds := (ofds s)(a := (ofds s a)\<lparr>o_off := k + length ?bs\<rparr>)\<rparr>"
      using ran(2) by (simp_all add: ab Let_def)
    have "copying sfd tfd i j D (k + length ?bs) pre t"
      unfolding copying_def by (rule exI[of _ a], rule exI[of _ b]) (use ab in \<open>simp add: t\<close>)
    moreover have "?bs = [] \<Longrightarrow> length D \<le> k" using xfer_pos[of 65536 r] by auto
    moreover have "?bs = take (length ?bs) (drop k D)" by (simp only: take_length_take)
    moreover have "only_data j s t" unfolding t by (rule only_data_ofds)
    ultimately show ?thesis unfolding x by blast
  qed
  then show "only_data j s t" "x = None \<Longrightarrow> copying sfd tfd i j D k pre t"
    "x = Some bs \<Longrightarrow> copying sfd tfd i j D (k + length bs) pre t \<and>
      bs = take (length bs) (drop k D) \<and> (bs = [] \<longrightarrow> length D \<le> k)" by blast+
qed

lemma k_write_copying:
  assumes c: "copying sfd tfd i j D k pre s" and r: "k_write tfd buf s = (x, t)"
  shows "only_data j s t" and "x = None \<Longrightarrow> copying sfd tfd i j D k pre t"
    and "x = Some w \<Longrightarrow> copying sfd tfd i j D k (pre @ take w buf) t"
proof -
  obtain a b where ab: "a \<noteq> b" "map_of (fds s) sfd = Some a" "map_of (fds s) tfd = Some b"
      "o_ino (ofds s a) = i" "o_off (ofds s a) = k" "o_read (ofds s a)"
      "o_ino (ofds s b) = j" "o_off (ofds s b) = length pre" "o_write (ofds s b)" "\<not> o_append (ofds s b)"
      "i \<noteq> j" "idata (inodes s i) = D" "idata (inodes s j) = pre"
    using c by (auto simp: copying_def)
  have "only_data j s t \<and> (x = None \<longrightarrow> copying sfd tfd i j D k pre t) \<and>
      (\<forall>w. x = Some w \<longrightarrow> copying sfd tfd i j D k (pre @ take w buf) t)"
    using r unfolding k_write_def
  proof (cases rule: kcallE)
    case (refused sc er)
    with c show ?thesis by simp
  next
    case (ran r sc)
    let ?bs = "take (xfer r (length buf)) buf"
    have x: "x = Some (length ?bs)"
      and t: "t = k_upd_inode j (\<lambda>nd. nd\<lparr>idata := splice (length pre) ?bs (idata nd)\<rparr>)
        (s\<lparr>script := sc, ofds := (ofds s)(b := (ofds s b)\<lparr>o_off := length pre + length ?bs\<rparr>)\<rparr>)"
      using ran(2) by (simp_all add: ab Let_def)
    have "take (length ?bs) buf = ?bs" by (rule take_length_take)
    moreover have "copying sfd tfd i j D k (pre @ ?bs) t"
      unfolding copying_def
      by (rule exI[of _ a], rule exI[of _ b]) (use ab splice_end[of pre ?bs] in \<open>simp add: t k_upd_inode_def\<close>)
    moreover have "only_data j s t" unfolding t by (rule only_data_write)
    ultimately show ?thesis using x by simp
  qed
  then show "only_data j s t" "x = None \<Longrightarrow> copying sfd tfd i j D k pre t"
    "x = Some w \<Longrightarrow> copying sfd tfd i j D k (pre @ take w buf) t" by blast+
qed

section \<open>New descriptors\<close>

lemma k_free_fd_fresh: "k_free_fd s \<notin> set (map fst (fds s))"
proof -
  let ?K = "set (map fst (fds s))" and ?xs = "filter (\<lambda>n. n \<notin> set (map fst (fds s))) [0..<Suc (length (fds s))]"
  have "?xs \<noteq> []"
  proof
    assume "?xs = []"
    then have "{0..<Suc (length (fds s))} \<subseteq> ?K" by (auto simp: filter_empty_conv simp del: upt_Suc)
    then have "card {0..<Suc (length (fds s))} \<le> card ?K" by (intro card_mono) auto
    also have "\<dots> \<le> length (map fst (fds s))" by (rule card_length)
    finally show False by simp
  qed
  then have "hd ?xs \<in> set ?xs" by (rule hd_in_set)
  then show ?thesis unfolding k_free_fd_def by (simp del: upt_Suc)
qed

lemma k_free_fd_cong: "fds t = fds s \<Longrightarrow> k_free_fd t = k_free_fd s"
  by (simp only: k_free_fd_def)

lemma k_free_fd_None [simp]: "map_of (fds s) (k_free_fd s) = None"
  using k_free_fd_fresh[of s] by (simp add: map_of_eq_None_iff)

section \<open>Evaluation\<close>

text \<open>The walk unfolded at its limit, for runs on concrete states.\<close>

lemma walk_40: "k_walk 40 s e =
   (case k_lookup s e of
      None \<Rightarrow> Some e
    | Some i \<Rightarrow> (case ikind (inodes s i) of
                   KLnk t \<Rightarrow> k_walk 39 s (namei s (AtLink e) t)
                 | _ \<Rightarrow> Some e))"
  using k_walk.simps(2)[of 39 s e] by (simp del: k_walk.simps)

lemma walk_39: "k_walk 39 s e =
   (case k_lookup s e of
      None \<Rightarrow> Some e
    | Some i \<Rightarrow> (case ikind (inodes s i) of
                   KLnk t \<Rightarrow> k_walk 38 s (namei s (AtLink e) t)
                 | _ \<Rightarrow> Some e))"
  using k_walk.simps(2)[of 38 s e] by (simp del: k_walk.simps)

end
