(* ===== verification/Cow_Model.thy ===== *)
theory Cow_Model
  imports Copy_Steps
begin

text \<open>
  The copy-on-write preload shim \<open>docker-proot-setup/src/overlay/libcow.c\<close>: its descriptor-to-path
  table, the fault-injection switches, path resolution for the \<open>*at\<close> calls, the copy loops, the
  copy-up itself (\<open>break_hardlink_copy_stat\<close>) and every intercepted symbol.

  The process state extends the kernel's: \<open>fd_paths\<close> holds the table's \<open>char *\<close> values, \<open>heap\<close> the
  live \<open>strdup\<close> blocks, and \<open>uaf\<close> records that freed memory was read. A C function that returns 0 or
  -1 is a function to \<open>bool\<close> (True for 0); one that returns a descriptor or -1 is a function to
  \<open>nat option\<close>. Null paths are \<open>None\<close>.
\<close>

section \<open>Process state\<close>

record cow = kernel +
  c_getenv :: "string \<Rightarrow> string option"
  cow_copy_xattrs :: bool
  cow_track_readonly_fds :: bool
  fd_paths :: "nat \<Rightarrow> nat option"
  heap :: "nat \<Rightarrow> string option"
  next_ptr :: nat
  uaf :: bool
  stuck :: bool

definition FD_TABLE_MAX :: nat where "FD_TABLE_MAX = 4096"

text \<open>A \<open>const char *\<close>: null, a caller's buffer, or a block of the heap.\<close>

datatype cptr = PNull | PBuf string | PHeap nat

definition deref :: "cow \<Rightarrow> cptr \<Rightarrow> string option" where
  "deref s p = (case p of PNull \<Rightarrow> None | PBuf x \<Rightarrow> Some x | PHeap a \<Rightarrow> heap s a)"

definition c_free :: "nat option \<Rightarrow> cow \<Rightarrow> cow" where
  "c_free p s = (case p of None \<Rightarrow> s | Some a \<Rightarrow> s\<lparr>heap := (heap s)(a := None)\<rparr>)"

text \<open>\<open>strdup\<close>: reading a freed block is recorded in \<open>uaf\<close>.\<close>

definition c_strdup :: "cptr \<Rightarrow> cow \<Rightarrow> nat option \<times> cow" where
  "c_strdup p s =
     (case deref s p of
        Some x \<Rightarrow> (Some (next_ptr s), s\<lparr>heap := (heap s)(next_ptr s := Some x), next_ptr := Suc (next_ptr s)\<rparr>)
      | None \<Rightarrow> (None, s\<lparr>uaf := True\<rparr>))"

section \<open>The descriptor table\<close>

definition fd_in_table :: "int \<Rightarrow> bool" where
  "fd_in_table fd = (\<not> (fd < 0 \<or> int FD_TABLE_MAX \<le> fd))"

definition fdtab_set :: "int \<Rightarrow> cptr \<Rightarrow> cow \<Rightarrow> cow" where
  "fdtab_set fd abspath s =
     (if \<not> fd_in_table fd then s
      else let s1 = c_free (fd_paths s (nat fd)) s in
           if abspath = PNull then s1\<lparr>fd_paths := (fd_paths s1)(nat fd := None)\<rparr>
           else let (p, s2) = c_strdup abspath s1 in s2\<lparr>fd_paths := (fd_paths s2)(nat fd := p)\<rparr>)"

definition fdtab_clear :: "int \<Rightarrow> cow \<Rightarrow> cow" where
  "fdtab_clear fd s =
     (if \<not> fd_in_table fd then s
      else if fd_paths s (nat fd) = None then s
      else (c_free (fd_paths s (nat fd)) s)\<lparr>fd_paths := (fd_paths s)(nat fd := None)\<rparr>)"

definition fdtab_get :: "int \<Rightarrow> cow \<Rightarrow> cptr" where
  "fdtab_get fd s =
     (if \<not> fd_in_table fd then PNull
      else case fd_paths s (nat fd) of None \<Rightarrow> PNull | Some a \<Rightarrow> PHeap a)"

text \<open>The string \<open>fdtab_get\<close>'s pointer points to, for the callers that only read it.\<close>

definition fdtab_path :: "int \<Rightarrow> cow \<Rightarrow> path option" where
  "fdtab_path fd s = deref s (fdtab_get fd s)"

section \<open>Switches\<close>

definition env_enabled :: "string \<Rightarrow> cow \<Rightarrow> bool" where
  "env_enabled name s =
     (case c_getenv s name of
        None \<Rightarrow> False
      | Some v \<Rightarrow> v \<noteq> [] \<and> v \<noteq> ''0'' \<and> v \<noteq> ''false'')"

text \<open>The result: does the value name the step, and does it ask for a kill.\<close>

definition env_fail_step_matches :: "string option \<Rightarrow> string \<Rightarrow> bool \<times> bool" where
  "env_fail_step_matches value step =
     (case value of
        None \<Rightarrow> (False, False)
      | Some v \<Rightarrow>
         (if v = [] \<or> step = [] then (False, False)
          else if v = step then (True, False)
          else if take 5 v = ''fail:'' \<and> drop 5 v = step then (True, False)
          else if take 5 v = ''kill:'' \<and> drop 5 v = step then (True, True)
          else if take (length step) v = step \<and> take 1 (drop (length step) v) = '':'' then
            (let action = drop (length step + 1) v in
             if action = ''fail'' then (True, False)
             else if action = ''kill'' then (True, True)
             else (False, False))
          else (False, False)))"

definition cow_fail_step :: "string \<Rightarrow> int \<Rightarrow> cow \<Rightarrow> bool \<times> cow" where
  "cow_fail_step step err s =
     (let (m, kill) = env_fail_step_matches (c_getenv s ''PDOCKER_COW_FAIL_STEP'') step in
      if \<not> m then (True, s)
      else if kill then (False, k_sigkill s)
      else (False, s\<lparr>errno := err\<rparr>))"

text \<open>The part of the constructor that sets the library's own state.\<close>

definition libcow_init :: "cow \<Rightarrow> cow" where
  "libcow_init s = s\<lparr>cow_track_readonly_fds := env_enabled ''PDOCKER_COW_TRACK_READONLY_FDS'' s \<or>
                                               env_enabled ''COW_TRACK_READONLY_FDS'' s,
                     cow_copy_xattrs := env_enabled ''PDOCKER_COW_COPY_XATTRS'' s \<or>
                                        env_enabled ''COW_COPY_XATTRS'' s\<rparr>"

section \<open>Remembering and resolving paths\<close>

definition remember_open :: "int \<Rightarrow> path option \<Rightarrow> cow \<Rightarrow> cow" where
  "remember_open fd path s =
     (case path of
        None \<Rightarrow> s
      | Some p \<Rightarrow>
         (if fd < 0 then s
          else if take 1 p = ''/'' then fdtab_set fd (PBuf p) s
          else case kcwd s of
                 None \<Rightarrow> s
               | Some cwd \<Rightarrow>
                   if PATH_MAX \<le> length cwd + 1 + length p + 1 then s
                   else fdtab_set fd (PBuf (cwd @ ''/'' @ p)) s))"

text \<open>\<open>int dirfd\<close>: the current directory, or a descriptor.\<close>

abbreviation AT_FDCWD :: int where "AT_FDCWD \<equiv> -100"

definition at_base :: "int \<Rightarrow> nbase" where
  "at_base dirfd = (if dirfd = AT_FDCWD then AtCwd else AtFd dirfd)"

text \<open>The buffer passed for \<open>out\<close> is always \<open>PATH_MAX\<close> bytes and \<open>path\<close> is not null at the call sites.\<close>

definition resolve_at_path :: "int \<Rightarrow> path \<Rightarrow> cow \<Rightarrow> path option \<times> cow" where
  "resolve_at_path dirfd path s =
     (if take 1 path = ''/'' then
        (if PATH_MAX \<le> length path then (None, s\<lparr>errno := ENAMETOOLONG\<rparr>) else (Some path, s))
      else
        let base = (if dirfd = AT_FDCWD then
                      (case kcwd s of
                         None \<Rightarrow> Inl ERANGE
                       | Some c \<Rightarrow> if PATH_MAX \<le> length c then Inl ERANGE else Inr c)
                    else case fdtab_path dirfd s of
                      Some tracked \<Rightarrow> if PATH_MAX \<le> length tracked then Inl ENAMETOOLONG else Inr tracked
                    | None \<Rightarrow> (case proc_fd s dirfd of
                        None \<Rightarrow> Inl ENOENT
                      | Some t \<Rightarrow> Inr (take (PATH_MAX - 1) t)))
        in case base of
             Inl e \<Rightarrow> (None, s\<lparr>errno := e\<rparr>)
           | Inr b \<Rightarrow> if PATH_MAX < length b + 1 + length path + 1
                      then (None, s\<lparr>errno := ENAMETOOLONG\<rparr>)
                      else (Some (b @ ''/'' @ path), s))"

section \<open>Flag tests\<close>

definition flags_write :: "u32 \<Rightarrow> bool" where
  "flags_write flags =
     (let acc = flags AND O_ACCMODE in
      if acc = O_WRONLY \<or> acc = O_RDWR then True
      else if flags AND O_TRUNC \<noteq> 0 then True
      else if flags AND O_APPEND \<noteq> 0 then True
      else False)"

fun mode_write :: "string \<Rightarrow> bool" where
  "mode_write [] = False"
| "mode_write (c # cs) =
     (if c = CHR ''w'' \<or> c = CHR ''a'' \<or> c = CHR ''+'' then True else mode_write cs)"

definition mode_truncates :: "string \<Rightarrow> bool" where
  "mode_truncates mode = (take 1 mode = ''w'')"

definition remember_open_for_flags :: "int \<Rightarrow> path option \<Rightarrow> u32 \<Rightarrow> cow \<Rightarrow> cow" where
  "remember_open_for_flags fd path flags s =
     (if fd < 0 \<or> path = None then s
      else if \<not> cow_track_readonly_fds s \<and> \<not> flags_write flags then s
      else remember_open fd path s)"

section \<open>The copy loops\<close>

text \<open>
  \<open>write\<close> until the buffer is out. \<open>EINTR\<close> retries; each retry has used up one reply of the
  kernel's script, so the loop ends.
\<close>

function write_all :: "nat \<Rightarrow> string \<Rightarrow> cow \<Rightarrow> bool \<times> cow" where
  "write_all tfd buf s =
     (if buf = [] \<or> \<not> alive s then (buf = [], s)
      else case k_write tfd buf s of
             (None, s') \<Rightarrow> if errno s' = EINTR then write_all tfd buf s' else (False, s')
           | (Some w, s') \<Rightarrow> write_all tfd (drop w buf) s')"
  by pat_completeness auto
termination
proof (relation "measure (\<lambda>(fd, buf, s). length buf + length (script s))", goal_cases)
  case 1
  show ?case by simp
next
  case (2 tfd buf s)
  then show ?case by (auto dest: k_write_EINTR[OF sym])
next
  case (3 tfd buf s)
  then show ?case by (auto dest!: k_write_progress[OF sym])
qed

declare write_all.simps [simp del]

text \<open>
  The outer loop reads up to 64 KiB at a time. \<open>fuel\<close> bounds the number of reads; running out
  is recorded in \<open>stuck\<close>, and \<open>copy_fuel\<close> is always enough for a source that the copy does not
  itself extend.
\<close>

fun copy_file_fallback_loop :: "nat \<Rightarrow> nat \<Rightarrow> nat \<Rightarrow> cow \<Rightarrow> bool \<times> cow" where
  "copy_file_fallback_loop 0 sfd tfd s = (False, s\<lparr>stuck := True\<rparr>)"
| "copy_file_fallback_loop (Suc fuel) sfd tfd s =
     (case k_read sfd 65536 s of
        (None, s') \<Rightarrow> (False, s')
      | (Some bs, s') \<Rightarrow>
          (if bs = [] then (True, s')
           else case write_all tfd bs s' of
                  (False, s'') \<Rightarrow> (False, s'')
                | (True, s'') \<Rightarrow> copy_file_fallback_loop fuel sfd tfd s''))"

definition copy_fuel :: "nat \<Rightarrow> cow \<Rightarrow> nat" where
  "copy_fuel sfd s =
     (case map_of (fds s) sfd of
        None \<Rightarrow> 1
      | Some od \<Rightarrow> length (idata (inodes s (o_ino (ofds s od)))) + 2)"

definition copy_file_fallback :: "nat \<Rightarrow> nat \<Rightarrow> cow \<Rightarrow> bool \<times> cow" where
  "copy_file_fallback sfd tfd s = copy_file_fallback_loop (copy_fuel sfd s) sfd tfd s"

lemma k_copy_EINTR:
  "k_copy_file_range sfd tfd want s = (None, s') \<Longrightarrow> errno s' = EINTR \<Longrightarrow> alive s \<Longrightarrow>
   length (script s') < length (script s)"
  by (auto simp: k_copy_file_range_def kcall_def k_fail_def k_upd_inode_def Let_def
      split: list.splits kreply.splits option.splits if_splits)

lemma k_copy_progress:
  "k_copy_file_range sfd tfd want s = (Some n, s') \<Longrightarrow>
   n \<le> want \<and> length (script s') \<le> length (script s)"
  by (auto simp: k_copy_file_range_def kcall_def k_fail_def k_upd_inode_def xfer_def Let_def min_def
      split: list.splits kreply.splits option.splits if_splits)

text \<open>
  \<open>ftruncate\<close> inside the library is the library's own interposed symbol, so the caller passes it
  as \<open>ftrunc\<close>.
\<close>

definition copy_file_restart :: "(nat \<Rightarrow> cow \<Rightarrow> bool \<times> cow) \<Rightarrow> nat \<Rightarrow> nat \<Rightarrow> cow \<Rightarrow> bool \<times> cow" where
  "copy_file_restart ftrunc sfd tfd s =
     (case k_rewind sfd s of
        (None, s1) \<Rightarrow> (False, s1)
      | (Some _, s1) \<Rightarrow> (case k_rewind tfd s1 of
          (None, s2) \<Rightarrow> (False, s2)
        | (Some _, s2) \<Rightarrow> (case ftrunc tfd s2 of
            (False, s3) \<Rightarrow> (False, s3)
          | (True, s3) \<Rightarrow> copy_file_fallback sfd tfd s3)))"

function copy_file_fast_loop :: "(nat \<Rightarrow> cow \<Rightarrow> bool \<times> cow) \<Rightarrow> nat \<Rightarrow> nat \<Rightarrow> nat \<Rightarrow> nat \<Rightarrow> cow \<Rightarrow> bool \<times> cow" where
  "copy_file_fast_loop ftrunc sfd tfd sz copied s =
     (if sz \<le> copied \<or> \<not> alive s then (sz \<le> copied, s)
      else let want = (if 1024 * 1024 < sz - copied then 1024 * 1024 else sz - copied) in
        case k_copy_file_range sfd tfd want s of
          (Some n, s') \<Rightarrow>
             if 0 < n then copy_file_fast_loop ftrunc sfd tfd sz (copied + n) s' else (True, s')
        | (None, s') \<Rightarrow>
             if errno s' = EINTR then copy_file_fast_loop ftrunc sfd tfd sz copied s'
             else if errno s' \<in> {ENOSYS, EINVAL, EXDEV, EPERM, EOPNOTSUPP} then
               copy_file_restart ftrunc sfd tfd s'
             else (False, s'))"
  by pat_completeness auto
termination
proof (relation "measure (\<lambda>(ft, sfd, tfd, sz, copied, s). (sz - copied) + length (script s))", goal_cases)
  case 1
  show ?case by simp
qed (auto dest!: k_copy_progress[OF sym] dest: k_copy_EINTR[OF sym])

declare copy_file_fast_loop.simps [simp del]

definition copy_file_fast :: "(nat \<Rightarrow> cow \<Rightarrow> bool \<times> cow) \<Rightarrow> nat \<Rightarrow> nat \<Rightarrow> nat \<Rightarrow> cow \<Rightarrow> bool \<times> cow" where
  "copy_file_fast ftrunc sfd tfd sz s =
     (if 0 < sz then copy_file_fast_loop ftrunc sfd tfd sz 0 s
      else copy_file_fallback sfd tfd s)"

end
