(* ===== verification/Cow_Hooks.thy ===== *)
theory Cow_Hooks
  imports Cow_Model
begin

text \<open>
  \<open>break_hardlink_copy_stat\<close> and the intercepted symbols of \<open>libcow.c\<close>. Inside the copy-up the calls
  \<open>fchmod\<close>, \<open>ftruncate\<close>, \<open>close\<close> and \<open>lsetxattr\<close> are the library's own interposed symbols, which may
  copy up again when the table still holds a stale path for the temporary descriptor; \<open>fuel\<close> bounds
  that nesting, and running out is recorded in \<open>stuck\<close>.
\<close>

section \<open>The copy-up\<close>

definition cret :: "'b option \<times> cow \<Rightarrow> bool \<times> cow" where
  "cret x = (fst x \<noteq> None, snd x)"

definition hook_close :: "int \<Rightarrow> cow \<Rightarrow> bool \<times> cow" where
  "hook_close fd s = cret (k_close fd (fdtab_clear fd s))"

type_synonym breaker = "path \<Rightarrow> bool \<Rightarrow> cow \<Rightarrow> bool \<times> cow"

definition fchmod_with :: "breaker \<Rightarrow> int \<Rightarrow> u32 \<Rightarrow> cow \<Rightarrow> bool \<times> cow" where
  "fchmod_with brk fd mode s =
     (case fdtab_path fd s of
        Some p \<Rightarrow> (case brk p True s of
                     (True, s1) \<Rightarrow> cret (k_setattr True AtCwd p (set_mode mode) s1)
                   | (False, s1) \<Rightarrow> (False, s1))
      | None \<Rightarrow> cret (k_fsetattr fd (set_mode mode) s))"

definition ftruncate_with :: "breaker \<Rightarrow> int \<Rightarrow> nat \<Rightarrow> cow \<Rightarrow> bool \<times> cow" where
  "ftruncate_with brk fd n s =
     (case fdtab_path fd s of
        Some p \<Rightarrow> (case brk p (n \<noteq> 0) s of
                     (True, s1) \<Rightarrow> cret (k_truncate p n s1)
                   | (False, s1) \<Rightarrow> (False, s1))
      | None \<Rightarrow> cret (k_ftruncate fd n s))"

definition lsetxattr_with :: "breaker \<Rightarrow> path \<Rightarrow> string \<Rightarrow> string \<Rightarrow> cow \<Rightarrow> bool \<times> cow" where
  "lsetxattr_with brk p n v s =
     (case brk p True s of
        (True, s1) \<Rightarrow> cret (k_setattr False AtCwd p (set_xattr n v) s1)
      | (False, s1) \<Rightarrow> (False, s1))"

text \<open>The temporary name's stem: the directory part of the path, then \<open>.cow\<close>.\<close>

definition tmp_stem :: "path \<Rightarrow> path option" where
  "tmp_stem p =
     (case c_rprefix CHR ''/'' p of
        Some d \<Rightarrow> if PATH_MAX \<le> length d + 16 then None else Some (d @ ''.cow'')
      | None \<Rightarrow> Some ''.cow'')"

text \<open>The cleanup of every failure path: \<open>errno\<close> is restored after it.\<close>

definition fail_unlink :: "path \<Rightarrow> int \<Rightarrow> cow \<Rightarrow> bool \<times> cow" where
  "fail_unlink tmp e s = (False, (snd (k_unlink tmp s))\<lparr>errno := e\<rparr>)"

definition copy_up_data :: "breaker \<Rightarrow> path \<Rightarrow> nat \<Rightarrow> path \<Rightarrow> nat \<Rightarrow> cow \<Rightarrow> bool \<times> cow" where
  "copy_up_data brk path tfd tmp sz s =
     (case k_open AtCwd path O_RDONLY 0 s of
        (None, s1) \<Rightarrow> fail_unlink tmp (errno s1) (snd (hook_close (int tfd) s1))
      | (Some sfd, s1) \<Rightarrow>
          (case copy_file_fast (\<lambda>fd. ftruncate_with brk (int fd) 0) sfd tfd sz s1 of
             (False, s2) \<Rightarrow> fail_unlink tmp (errno s2)
                (snd (hook_close (int tfd) (snd (hook_close (int sfd) s2))))
           | (True, s2) \<Rightarrow> (True, snd (hook_close (int sfd) s2))))"

fun copy_xattrs_loop :: "breaker \<Rightarrow> path \<Rightarrow> path \<Rightarrow> string list \<Rightarrow> cow \<Rightarrow> cow" where
  "copy_xattrs_loop brk path tmp [] s = s"
| "copy_xattrs_loop brk path tmp (n # ns) s =
     copy_xattrs_loop brk path tmp ns
       (case k_getxattr path n s of
          (None, s1) \<Rightarrow> s1
        | (Some v0, s1) \<Rightarrow>
            (if v0 = [] then s1
             else case k_getxattr path n s1 of
                    (None, s2) \<Rightarrow> s2
                  | (Some v, s2) \<Rightarrow> if v = [] then s2 else snd (lsetxattr_with brk tmp n v s2)))"

definition copy_xattrs :: "breaker \<Rightarrow> path \<Rightarrow> path \<Rightarrow> cow \<Rightarrow> cow" where
  "copy_xattrs brk path tmp s =
     (if \<not> cow_copy_xattrs s then s
      else case k_listxattr path s of
             (None, s1) \<Rightarrow> s1
           | (Some ns0, s1) \<Rightarrow>
               (if ns0 = [] then s1
                else case k_listxattr path s1 of
                       (None, s2) \<Rightarrow> s2
                     | (Some ns, s2) \<Rightarrow> copy_xattrs_loop brk path tmp ns s2))"

text \<open>The last steps: the injected failure, then the rename that makes the copy visible.\<close>

definition copy_up_commit :: "path \<Rightarrow> path \<Rightarrow> cow \<Rightarrow> bool \<times> cow" where
  "copy_up_commit tmp path s =
     (case cow_fail_step ''copyup.before_rename'' ENOMEM s of
        (False, s1) \<Rightarrow> fail_unlink tmp ENOMEM s1
      | (True, s1) \<Rightarrow>
          (if env_enabled ''PDOCKER_COW_FAIL_BEFORE_RENAME'' s1 then fail_unlink tmp ENOMEM s1
           else case k_rename AtCwd tmp AtCwd path s1 of
                  (None, s2) \<Rightarrow> fail_unlink tmp (errno s2) s2
                | (Some _, s2) \<Rightarrow> (True, s2)))"

text \<open>What follows \<open>mkstemp\<close>.\<close>

definition copy_up_file :: "breaker \<Rightarrow> path \<Rightarrow> bool \<Rightarrow> kstat \<Rightarrow> nat \<Rightarrow> path \<Rightarrow> cow \<Rightarrow> bool \<times> cow" where
  "copy_up_file brk path copy_data st tfd tmp s =
     (let s1 = snd (fchmod_with brk (int tfd) (st_mode st AND 0xFFF) s) in
      case (if copy_data then copy_up_data brk path tfd tmp (st_size st) s1 else (True, s1)) of
        (False, s2) \<Rightarrow> (False, s2)
      | (True, s2) \<Rightarrow>
          (case hook_close (int tfd) s2 of
             (False, s3) \<Rightarrow> fail_unlink tmp (errno s3) s3
           | (True, s3) \<Rightarrow> copy_up_commit tmp path (copy_xattrs brk path tmp s3)))"

fun break_hardlink_copy_stat :: "nat \<Rightarrow> path \<Rightarrow> bool \<Rightarrow> bool \<Rightarrow> cow \<Rightarrow> bool \<times> cow" where
  "break_hardlink_copy_stat 0 path copy_data follow s = (False, s\<lparr>stuck := True\<rparr>)"
| "break_hardlink_copy_stat (Suc fuel) path copy_data follow s =
     (case k_stat follow AtCwd path s of
        (None, s1) \<Rightarrow> (True, s1)
      | (Some st, s1) \<Rightarrow>
          (if st_kind st \<noteq> KReg then (True, s1)
           else if st_nlink st \<le> 1 then (True, s1)
           else case tmp_stem path of
             None \<Rightarrow> (False, s1\<lparr>errno := ENAMETOOLONG\<rparr>)
           | Some stem \<Rightarrow>
               (case k_mkstemp stem s1 of
                  (None, s2) \<Rightarrow> (False, s2)
                | (Some (tfd, tmp), s2) \<Rightarrow>
                    copy_up_file (\<lambda>p cd. break_hardlink_copy_stat fuel p cd True)
                      path copy_data st tfd tmp s2)))"

definition break_fuel :: nat where "break_fuel = Suc FD_TABLE_MAX"

definition break_hardlink_copy :: "path option \<Rightarrow> bool \<Rightarrow> cow \<Rightarrow> bool \<times> cow" where
  "break_hardlink_copy path copy_data s =
     (case path of None \<Rightarrow> (True, s)
      | Some p \<Rightarrow> break_hardlink_copy_stat break_fuel p copy_data True s)"

definition break_hardlink_copy_entry :: "path option \<Rightarrow> bool \<Rightarrow> cow \<Rightarrow> bool \<times> cow" where
  "break_hardlink_copy_entry path copy_data s =
     (case path of None \<Rightarrow> (True, s)
      | Some p \<Rightarrow> break_hardlink_copy_stat break_fuel p copy_data False s)"

definition break_hardlink :: "path option \<Rightarrow> cow \<Rightarrow> bool \<times> cow" where
  "break_hardlink path s = break_hardlink_copy path True s"

definition maybe_break :: "path option \<Rightarrow> u32 \<Rightarrow> cow \<Rightarrow> bool \<times> cow" where
  "maybe_break path flags s =
     (if \<not> flags_write flags then (True, s)
      else if flags AND O_TMPFILE \<noteq> 0 then (True, s)
      else if flags AND O_CREAT \<noteq> 0 \<and> flags AND O_EXCL \<noteq> 0 then (True, s)
      else break_hardlink_copy path (\<not> flags AND O_TRUNC \<noteq> 0) s)"

section \<open>Opening calls\<close>

text \<open>A null path makes the kernel call fail with EFAULT.\<close>

definition on_path :: "path option \<Rightarrow> (path \<Rightarrow> cow \<Rightarrow> 'b option \<times> cow) \<Rightarrow> cow \<Rightarrow> 'b option \<times> cow" where
  "on_path path f s = (case path of None \<Rightarrow> k_fail EFAULT s | Some p \<Rightarrow> f p s)"

definition open_mode :: "u32 \<Rightarrow> u32 \<Rightarrow> u32" where
  "open_mode flags mode = (if flags AND (O_CREAT OR O_TMPFILE) \<noteq> 0 then mode else 0)"

definition hook_open :: "path option \<Rightarrow> u32 \<Rightarrow> u32 \<Rightarrow> cow \<Rightarrow> nat option \<times> cow" where
  "hook_open path flags mode s =
     (case maybe_break path flags s of
        (False, s1) \<Rightarrow> (None, s1)
      | (True, s1) \<Rightarrow>
          (case on_path path (\<lambda>p. k_open AtCwd p flags (open_mode flags mode)) s1 of
             (None, s2) \<Rightarrow> (None, s2)
           | (Some fd, s2) \<Rightarrow> (Some fd, remember_open_for_flags (int fd) path flags s2)))"

definition at_cow_path :: "int \<Rightarrow> path option \<Rightarrow> cow \<Rightarrow> path option \<times> cow" where
  "at_cow_path dirfd path s =
     (case path of
        None \<Rightarrow> (None, s)
      | Some p \<Rightarrow> if take 1 p \<noteq> ''/'' \<and> dirfd \<noteq> AT_FDCWD then resolve_at_path dirfd p s
                  else (Some p, s))"

definition hook_openat :: "int \<Rightarrow> path option \<Rightarrow> u32 \<Rightarrow> u32 \<Rightarrow> cow \<Rightarrow> nat option \<times> cow" where
  "hook_openat dirfd path flags mode s =
     (let (cow_path, s0) = at_cow_path dirfd path s in
      case (case cow_path of None \<Rightarrow> (True, s0) | Some cp \<Rightarrow> maybe_break (Some cp) flags s0) of
        (False, s1) \<Rightarrow> (None, s1)
      | (True, s1) \<Rightarrow>
          (case on_path path (\<lambda>p. k_open (at_base dirfd) p flags (open_mode flags mode)) s1 of
             (None, s2) \<Rightarrow> (None, s2)
           | (Some fd, s2) \<Rightarrow> (Some fd, remember_open_for_flags (int fd) cow_path flags s2)))"

definition hook_creat :: "path option \<Rightarrow> u32 \<Rightarrow> cow \<Rightarrow> nat option \<times> cow" where
  "hook_creat path mode s =
     (case break_hardlink_copy path False s of
        (False, s1) \<Rightarrow> (None, s1)
      | (True, s1) \<Rightarrow>
          (case on_path path (\<lambda>p. k_open AtCwd p (O_WRONLY OR O_CREAT OR O_TRUNC) mode) s1 of
             (None, s2) \<Rightarrow> (None, s2)
           | (Some fd, s2) \<Rightarrow> (Some fd, remember_open (int fd) path s2)))"

definition hook_truncate :: "path option \<Rightarrow> nat \<Rightarrow> cow \<Rightarrow> bool \<times> cow" where
  "hook_truncate path n s =
     (case break_hardlink_copy path (n \<noteq> 0) s of
        (False, s1) \<Rightarrow> (False, s1)
      | (True, s1) \<Rightarrow> cret (on_path path (\<lambda>p. k_truncate p n) s1))"

abbreviation top_breaker :: breaker where
  "top_breaker \<equiv> (\<lambda>p cd. break_hardlink_copy (Some p) cd)"

definition hook_ftruncate :: "int \<Rightarrow> nat \<Rightarrow> cow \<Rightarrow> bool \<times> cow" where
  "hook_ftruncate fd n s = ftruncate_with top_breaker fd n s"

text \<open>The C library's reading of an \<open>fopen\<close> mode.\<close>

definition fopen_flags :: "string \<Rightarrow> u32 option" where
  "fopen_flags mode =
     (let rest = take 6 (tl mode);
          rw = (if CHR ''+'' \<in> set rest then O_RDWR else 0);
          ex = (if CHR ''x'' \<in> set rest then O_EXCL else 0)
      in case mode of
           [] \<Rightarrow> None
         | c # _ \<Rightarrow>
            (if c = CHR ''r'' then Some (rw OR ex)
             else if c = CHR ''w'' then
               Some ((if rw = 0 then O_WRONLY else rw) OR O_CREAT OR O_TRUNC OR ex)
             else if c = CHR ''a'' then
               Some ((if rw = 0 then O_WRONLY else rw) OR O_CREAT OR O_APPEND OR ex)
             else None))"

definition libc_fopen :: "path \<Rightarrow> string \<Rightarrow> cow \<Rightarrow> nat option \<times> cow" where
  "libc_fopen p mode s =
     (case fopen_flags mode of
        None \<Rightarrow> k_fail EINVAL s
      | Some fl \<Rightarrow> k_open AtCwd p fl 0x1B6 s)"

definition hook_fopen :: "path option \<Rightarrow> string \<Rightarrow> cow \<Rightarrow> nat option \<times> cow" where
  "hook_fopen path mode s =
     (if mode_write mode then
        (case break_hardlink_copy path (\<not> mode_truncates mode) s of
           (False, s1) \<Rightarrow> (None, s1)
         | (True, s1) \<Rightarrow> on_path path (\<lambda>p. libc_fopen p mode) s1)
      else on_path path (\<lambda>p. libc_fopen p mode) s)"

text \<open>
  \<open>freopen\<close>: the C library closes the stream's descriptor by itself, not through the intercepted \<open>close\<close>, and
  opens the path; without a path only the stream's mode changes. The stream is its descriptor here.
\<close>

definition libc_freopen :: "path option \<Rightarrow> string \<Rightarrow> nat \<Rightarrow> cow \<Rightarrow> nat option \<times> cow" where
  "libc_freopen path mode fd s =
     (case path of
        None \<Rightarrow> (Some fd, s)
      | Some p \<Rightarrow> libc_fopen p mode (snd (k_close (int fd) s)))"

definition hook_freopen :: "path option \<Rightarrow> string \<Rightarrow> nat \<Rightarrow> cow \<Rightarrow> nat option \<times> cow" where
  "hook_freopen path mode fd s =
     (if path \<noteq> None \<and> mode_write mode then
        (case break_hardlink_copy path (\<not> mode_truncates mode) s of
           (False, s1) \<Rightarrow> (None, s1)
         | (True, s1) \<Rightarrow> libc_freopen path mode fd s1)
      else libc_freopen path mode fd s)"

section \<open>rename\<close>

definition same_existing_entry :: "nbase \<Rightarrow> path \<Rightarrow> nbase \<Rightarrow> path \<Rightarrow> cow \<Rightarrow> bool \<times> cow" where
  "same_existing_entry sb src db dst s =
     (case k_stat False sb src s of
        (None, s1) \<Rightarrow> (False, s1)
      | (Some ss, s1) \<Rightarrow>
          (case k_stat False db dst s1 of
             (None, s2) \<Rightarrow> (False, s2)
           | (Some ds, s2) \<Rightarrow> (st_ino ss = st_ino ds, s2)))"

definition prepare_rename_destination ::
  "nbase \<Rightarrow> path \<Rightarrow> nbase \<Rightarrow> path \<Rightarrow> path \<Rightarrow> cow \<Rightarrow> bool \<times> cow" where
  "prepare_rename_destination sb src db dst resolved_dst s =
     (case same_existing_entry sb src db dst s of
        (True, s1) \<Rightarrow> (True, s1)
      | (False, s1) \<Rightarrow> break_hardlink_copy_entry (Some resolved_dst) True s1)"

definition hook_rename :: "path \<Rightarrow> path \<Rightarrow> cow \<Rightarrow> bool \<times> cow" where
  "hook_rename src dst s =
     (case prepare_rename_destination AtCwd src AtCwd dst dst s of
        (False, s1) \<Rightarrow> (False, s1)
      | (True, s1) \<Rightarrow> cret (k_rename AtCwd src AtCwd dst s1))"

definition hook_renameat :: "int \<Rightarrow> path \<Rightarrow> int \<Rightarrow> path \<Rightarrow> cow \<Rightarrow> bool \<times> cow" where
  "hook_renameat sfd src dfd dst s =
     (let (cow_dst, s0) = at_cow_path dfd (Some dst) s in
      case (case cow_dst of
              None \<Rightarrow> (True, s0)
            | Some rd \<Rightarrow> prepare_rename_destination (at_base sfd) src (at_base dfd) dst rd s0) of
        (False, s1) \<Rightarrow> (False, s1)
      | (True, s1) \<Rightarrow> cret (k_rename (at_base sfd) src (at_base dfd) dst s1))"

section \<open>Inode metadata\<close>

text \<open>\<open>chmod\<close>, \<open>chown\<close>, \<open>utime\<close>, \<open>utimes\<close>, \<open>setxattr\<close>, \<open>removexattr\<close> and their \<open>l\<close> forms: break, then apply.\<close>

definition break_then_setattr :: "bool \<Rightarrow> path option \<Rightarrow> (inode \<Rightarrow> inode) \<Rightarrow> cow \<Rightarrow> bool \<times> cow" where
  "break_then_setattr follow path f s =
     (case break_hardlink path s of
        (False, s1) \<Rightarrow> (False, s1)
      | (True, s1) \<Rightarrow> cret (on_path path (\<lambda>p. k_setattr follow AtCwd p f) s1))"

definition hook_chmod :: "path option \<Rightarrow> u32 \<Rightarrow> cow \<Rightarrow> bool \<times> cow" where
  "hook_chmod path mode = break_then_setattr True path (set_mode mode)"

definition hook_chown :: "path option \<Rightarrow> nat option \<Rightarrow> nat option \<Rightarrow> cow \<Rightarrow> bool \<times> cow" where
  "hook_chown path u g = break_then_setattr True path (set_owner u g)"

definition hook_lchown :: "path option \<Rightarrow> nat option \<Rightarrow> nat option \<Rightarrow> cow \<Rightarrow> bool \<times> cow" where
  "hook_lchown path u g s = cret (on_path path (\<lambda>p. k_setattr False AtCwd p (set_owner u g)) s)"

definition hook_utimes :: "path option \<Rightarrow> int \<times> int \<Rightarrow> cow \<Rightarrow> bool \<times> cow" where
  "hook_utimes path t = break_then_setattr True path (set_times t)"

definition hook_setxattr :: "path option \<Rightarrow> string \<Rightarrow> string \<Rightarrow> cow \<Rightarrow> bool \<times> cow" where
  "hook_setxattr path n v = break_then_setattr True path (set_xattr n v)"

definition hook_lsetxattr :: "path option \<Rightarrow> string \<Rightarrow> string \<Rightarrow> cow \<Rightarrow> bool \<times> cow" where
  "hook_lsetxattr path n v = break_then_setattr False path (set_xattr n v)"

definition hook_removexattr :: "path option \<Rightarrow> string \<Rightarrow> cow \<Rightarrow> bool \<times> cow" where
  "hook_removexattr path n = break_then_setattr True path (remove_xattr n)"

definition hook_lremovexattr :: "path option \<Rightarrow> string \<Rightarrow> cow \<Rightarrow> bool \<times> cow" where
  "hook_lremovexattr path n = break_then_setattr False path (remove_xattr n)"

text \<open>The \<open>*at\<close> forms; \<open>nofollow\<close> is the \<open>AT_SYMLINK_NOFOLLOW\<close> bit of the flags.\<close>

definition hook_fchmodat :: "int \<Rightarrow> path option \<Rightarrow> u32 \<Rightarrow> bool \<Rightarrow> cow \<Rightarrow> bool \<times> cow" where
  "hook_fchmodat dirfd path mode nofollow s =
     (let (cow_path, s0) = at_cow_path dirfd path s in
      case (case cow_path of None \<Rightarrow> (True, s0) | Some cp \<Rightarrow> break_hardlink (Some cp) s0) of
        (False, s1) \<Rightarrow> (False, s1)
      | (True, s1) \<Rightarrow> cret (on_path path (\<lambda>p. k_setattr (\<not> nofollow) (at_base dirfd) p (set_mode mode)) s1))"

definition hook_fchownat :: "int \<Rightarrow> path option \<Rightarrow> nat option \<Rightarrow> nat option \<Rightarrow> bool \<Rightarrow> cow \<Rightarrow> bool \<times> cow" where
  "hook_fchownat dirfd path u g nofollow s =
     (let (cow_path, s0) = at_cow_path dirfd path s in
      case (if cow_path \<noteq> None \<and> \<not> nofollow then break_hardlink cow_path s0 else (True, s0)) of
        (False, s1) \<Rightarrow> (False, s1)
      | (True, s1) \<Rightarrow> cret (on_path path (\<lambda>p. k_setattr (\<not> nofollow) (at_base dirfd) p (set_owner u g)) s1))"

definition k_utimensat :: "int \<Rightarrow> path option \<Rightarrow> int \<times> int \<Rightarrow> bool \<Rightarrow> cow \<Rightarrow> unit option \<times> cow" where
  "k_utimensat dirfd path t nofollow s =
     (case path of
        None \<Rightarrow> k_fsetattr dirfd (set_times t) s
      | Some p \<Rightarrow> k_setattr (\<not> nofollow) (at_base dirfd) p (set_times t) s)"

definition hook_utimensat :: "int \<Rightarrow> path option \<Rightarrow> int \<times> int \<Rightarrow> bool \<Rightarrow> cow \<Rightarrow> bool \<times> cow" where
  "hook_utimensat dirfd path t nofollow s =
     (case path of
        None \<Rightarrow> cret (k_utimensat dirfd path t nofollow s)
      | Some p \<Rightarrow>
         (if nofollow then cret (k_utimensat dirfd path t nofollow s)
          else if take 1 p = ''/'' \<or> dirfd = AT_FDCWD then
            (case break_hardlink path s of
               (False, s1) \<Rightarrow> (False, s1)
             | (True, s1) \<Rightarrow> cret (k_utimensat dirfd path t nofollow s1))
          else (case resolve_at_path dirfd p s of
                  (None, s0) \<Rightarrow> cret (k_utimensat dirfd path t nofollow s0)
                | (Some r, s0) \<Rightarrow>
                    (case break_hardlink (Some r) s0 of
                       (False, s1) \<Rightarrow> (False, s1)
                     | (True, s1) \<Rightarrow> cret (k_utimensat dirfd path t nofollow s1)))))"

text \<open>Descriptor forms: the tracked path is broken and changed by name; untracked ones go to the kernel.\<close>

definition fd_break_then_setattr :: "int \<Rightarrow> (inode \<Rightarrow> inode) \<Rightarrow> cow \<Rightarrow> bool \<times> cow" where
  "fd_break_then_setattr fd f s =
     (case fdtab_path fd s of
        Some p \<Rightarrow> (case break_hardlink (Some p) s of
                     (True, s1) \<Rightarrow> cret (k_setattr True AtCwd p f s1)
                   | (False, s1) \<Rightarrow> (False, s1))
      | None \<Rightarrow> cret (k_fsetattr fd f s))"

definition hook_fchmod :: "int \<Rightarrow> u32 \<Rightarrow> cow \<Rightarrow> bool \<times> cow" where
  "hook_fchmod fd mode = fd_break_then_setattr fd (set_mode mode)"

definition hook_fchown :: "int \<Rightarrow> nat option \<Rightarrow> nat option \<Rightarrow> cow \<Rightarrow> bool \<times> cow" where
  "hook_fchown fd u g = fd_break_then_setattr fd (set_owner u g)"

definition hook_futimens :: "int \<Rightarrow> int \<times> int \<Rightarrow> cow \<Rightarrow> bool \<times> cow" where
  "hook_futimens fd t = fd_break_then_setattr fd (set_times t)"

definition hook_fsetxattr :: "int \<Rightarrow> string \<Rightarrow> string \<Rightarrow> cow \<Rightarrow> bool \<times> cow" where
  "hook_fsetxattr fd n v = fd_break_then_setattr fd (set_xattr n v)"

definition hook_fremovexattr :: "int \<Rightarrow> string \<Rightarrow> cow \<Rightarrow> bool \<times> cow" where
  "hook_fremovexattr fd n = fd_break_then_setattr fd (remove_xattr n)"

section \<open>Descriptor lifecycle\<close>

definition hook_dup :: "int \<Rightarrow> cow \<Rightarrow> nat option \<times> cow" where
  "hook_dup oldfd s =
     (case k_dup oldfd s of
        (None, s1) \<Rightarrow> (None, s1)
      | (Some newfd, s1) \<Rightarrow>
          (let p = fdtab_get oldfd s1 in
           (Some newfd, if p \<noteq> PNull then fdtab_set (int newfd) p s1 else s1)))"

definition hook_dup2 :: "int \<Rightarrow> int \<Rightarrow> cow \<Rightarrow> nat option \<times> cow" where
  "hook_dup2 oldfd newfd s =
     (case k_dup2 oldfd newfd s of
        (None, s1) \<Rightarrow> (None, s1)
      | (Some r, s1) \<Rightarrow> (Some r, fdtab_set newfd (fdtab_get oldfd s1) s1))"

definition hook_dup3 :: "int \<Rightarrow> int \<Rightarrow> cow \<Rightarrow> nat option \<times> cow" where
  "hook_dup3 oldfd newfd s =
     (case k_dup3 oldfd newfd s of
        (None, s1) \<Rightarrow> (None, s1)
      | (Some r, s1) \<Rightarrow> (Some r, fdtab_set newfd (fdtab_get oldfd s1) s1))"

section \<open>The \<open>syscall\<close> catch-all\<close>

datatype csys =
    SysChmod "path option" u32
  | SysFchmodat int "path option" u32
  | SysChown "path option" "nat option" "nat option"
  | SysFchownat int "path option" "nat option" "nat option" bool
  | SysTruncate "path option" nat
  | SysFtruncate int nat
  | SysUtimensat int "path option" "int \<times> int" bool
  | SysSetxattr "path option" string string
  | SysRemovexattr "path option" string
  | SysFchmod int u32
  | SysFchown int "nat option" "nat option"
  | SysFsetxattr int string string
  | SysFremovexattr int string
  | SysClose int

text \<open>What the kernel does for each number.\<close>

fun real_syscall :: "csys \<Rightarrow> cow \<Rightarrow> unit option \<times> cow" where
  "real_syscall (SysChmod p m) = on_path p (\<lambda>q. k_setattr True AtCwd q (set_mode m))"
| "real_syscall (SysFchmodat d p m) = on_path p (\<lambda>q. k_setattr True (at_base d) q (set_mode m))"
| "real_syscall (SysChown p u g) = on_path p (\<lambda>q. k_setattr True AtCwd q (set_owner u g))"
| "real_syscall (SysFchownat d p u g nf) = on_path p (\<lambda>q. k_setattr (\<not> nf) (at_base d) q (set_owner u g))"
| "real_syscall (SysTruncate p n) = on_path p (\<lambda>q. k_truncate q n)"
| "real_syscall (SysFtruncate fd n) = k_ftruncate fd n"
| "real_syscall (SysUtimensat d p t nf) = k_utimensat d p t nf"
| "real_syscall (SysSetxattr p n v) = on_path p (\<lambda>q. k_setattr True AtCwd q (set_xattr n v))"
| "real_syscall (SysRemovexattr p n) = on_path p (\<lambda>q. k_setattr True AtCwd q (remove_xattr n))"
| "real_syscall (SysFchmod fd m) = k_fsetattr fd (set_mode m)"
| "real_syscall (SysFchown fd u g) = k_fsetattr fd (set_owner u g)"
| "real_syscall (SysFsetxattr fd n v) = k_fsetattr fd (set_xattr n v)"
| "real_syscall (SysFremovexattr fd n) = k_fsetattr fd (remove_xattr n)"
| "real_syscall (SysClose fd) = k_close fd"

definition abs_or_cwd :: "int \<Rightarrow> path option \<Rightarrow> bool" where
  "abs_or_cwd d p = (case p of None \<Rightarrow> False | Some q \<Rightarrow> take 1 q = ''/'' \<or> d = AT_FDCWD)"

definition break_tracked :: "int \<Rightarrow> bool \<Rightarrow> cow \<Rightarrow> bool \<times> cow" where
  "break_tracked fd cd s =
     (case fdtab_path fd s of None \<Rightarrow> (True, s) | Some p \<Rightarrow> break_hardlink_copy (Some p) cd s)"

fun syscall_break :: "csys \<Rightarrow> cow \<Rightarrow> bool \<times> cow" where
  "syscall_break (SysChmod p m) s = break_hardlink p s"
| "syscall_break (SysFchmodat d p m) s = (if abs_or_cwd d p then break_hardlink p s else (True, s))"
| "syscall_break (SysChown p u g) s = break_hardlink p s"
| "syscall_break (SysFchownat d p u g nf) s =
     (if abs_or_cwd d p \<and> \<not> nf then break_hardlink p s else (True, s))"
| "syscall_break (SysTruncate p n) s = break_hardlink_copy p (n \<noteq> 0) s"
| "syscall_break (SysFtruncate fd n) s = break_tracked fd (n \<noteq> 0) s"
| "syscall_break (SysUtimensat d p t nf) s =
     (if abs_or_cwd d p \<and> \<not> nf then break_hardlink p s else (True, s))"
| "syscall_break (SysSetxattr p n v) s = break_hardlink p s"
| "syscall_break (SysRemovexattr p n) s = break_hardlink p s"
| "syscall_break (SysFchmod fd m) s = break_tracked fd True s"
| "syscall_break (SysFchown fd u g) s = break_tracked fd True s"
| "syscall_break (SysFsetxattr fd n v) s = break_tracked fd True s"
| "syscall_break (SysFremovexattr fd n) s = break_tracked fd True s"
| "syscall_break (SysClose fd) s = (True, s)"

definition hook_syscall :: "csys \<Rightarrow> cow \<Rightarrow> bool \<times> cow" where
  "hook_syscall c s =
     (case syscall_break c s of
        (False, s1) \<Rightarrow> (False, s1)
      | (True, s1) \<Rightarrow> cret (real_syscall c s1))"

end
