(* ===== verification/Cow_Frame.thy ===== *)
theory Cow_Frame
  imports Cow_Hooks
begin

text \<open>
  What a call may not change: the entries of a lower layer \<open>L\<close> (the image the container was cloned
  from with hard links) and the inodes they name. \<open>cow_ok\<close> is the invariant under which the shim
  works; \<open>frame\<close> relates the states around a call that neither touches the lower layer nor makes
  a container entry share a lower inode. One lemma per kernel call, collected in \<open>frame_intros\<close>.
\<close>

named_theorems frame_intros

section \<open>The lower layer\<close>

definition lower_inos :: "entry set \<Rightarrow> cow \<Rightarrow> nat set" where
  "lower_inos L s = {i. \<exists>e\<in>L. k_lookup s e = Some i}"

definition lower_same :: "entry set \<Rightarrow> cow \<Rightarrow> cow \<Rightarrow> bool" where
  "lower_same L s t \<longleftrightarrow>
     (\<forall>e\<in>L. k_lookup t e = k_lookup s e) \<and> (\<forall>i\<in>lower_inos L s. inodes t i = inodes s i)"

definition fd_ok :: "entry set \<Rightarrow> cow \<Rightarrow> nat \<Rightarrow> bool" where
  "fd_ok L s od \<longleftrightarrow> od < next_ofd s \<and> o_ino (ofds s od) < next_ino s \<and>
     (o_write (ofds s od) \<longrightarrow> o_ino (ofds s od) \<notin> lower_inos L s)"

text \<open>
  \<open>layer_ok\<close> is the property of the file system and of the process: no path of the container names
  an entry of the lower layer, no open descriptor writes one of its inodes, and what the container
  shares with it are regular files.  \<open>cow_ok\<close> adds that no \<open>stat\<close> is made to fail, so that a
  \<open>stat\<close> fails only where the path names nothing.
\<close>

definition layer_ok :: "entry set \<Rightarrow> cow \<Rightarrow> bool" where
  "layer_ok L s \<longleftrightarrow>
     distinct (map fst (dents s)) \<and>
     (\<forall>e i. k_lookup s e = Some i \<longrightarrow> i < next_ino s) \<and>
     (\<forall>b p. namei s b p \<notin> L) \<and>
     (\<forall>fd od. map_of (fds s) fd = Some od \<longrightarrow> fd_ok L s od) \<and>
     (\<forall>e i. e \<notin> L \<longrightarrow> k_lookup s e = Some i \<longrightarrow> i \<in> lower_inos L s \<longrightarrow> ikind (inodes s i) = KReg)"

definition cow_ok :: "entry set \<Rightarrow> cow \<Rightarrow> bool" where
  "cow_ok L s \<longleftrightarrow>
     stat_script s = [] \<and> distinct (map fst (dents s)) \<and>
     (\<forall>e i. k_lookup s e = Some i \<longrightarrow> i < next_ino s) \<and>
     (\<forall>b p. namei s b p \<notin> L) \<and>
     (\<forall>fd od. map_of (fds s) fd = Some od \<longrightarrow> fd_ok L s od) \<and>
     (\<forall>e i. e \<notin> L \<longrightarrow> k_lookup s e = Some i \<longrightarrow> i \<in> lower_inos L s \<longrightarrow> ikind (inodes s i) = KReg)"

lemma cow_ok_split: "cow_ok L s \<longleftrightarrow> stat_script s = [] \<and> layer_ok L s"
  by (simp add: cow_ok_def layer_ok_def)

text \<open>An entry that does not share its inode with the lower layer, and a path that names none.\<close>

definition unshared :: "entry set \<Rightarrow> cow \<Rightarrow> entry \<Rightarrow> bool" where
  "unshared L s e \<longleftrightarrow> (\<forall>i. k_lookup s e = Some i \<longrightarrow> i \<notin> lower_inos L s)"

definition unshared_path :: "entry set \<Rightarrow> cow \<Rightarrow> nbase \<Rightarrow> path \<Rightarrow> bool" where
  "unshared_path L s b p \<longleftrightarrow> (alive s \<longrightarrow> (\<forall>e. k_resolve True b p s = Some e \<longrightarrow> unshared L s e))"

definition frame :: "entry set \<Rightarrow> cow \<Rightarrow> cow \<Rightarrow> bool" where
  "frame L s t \<longleftrightarrow> cow_ok L t \<and> lower_same L s t \<and> namei t = namei s \<and>
     (\<forall>e i. k_lookup t e = Some i \<longrightarrow>
        (k_lookup s e = Some i \<and> ikind (inodes t i) = ikind (inodes s i)) \<or>
        (i \<notin> lower_inos L s \<and> ikind (inodes t i) = KReg))"

text \<open>An entry that is free or names a regular file of the container's own.\<close>

definition own_reg :: "entry set \<Rightarrow> cow \<Rightarrow> entry \<Rightarrow> bool" where
  "own_reg L s e \<longleftrightarrow> (\<forall>i. k_lookup s e = Some i \<longrightarrow> i \<notin> lower_inos L s \<and> ikind (inodes s i) = KReg)"

lemma lower_inos_same: "lower_same L s t \<Longrightarrow> lower_inos L t = lower_inos L s"
  by (auto simp: lower_same_def lower_inos_def)

lemma lower_same_refl [simp, intro]: "lower_same L s s"
  by (simp add: lower_same_def)

lemma lower_same_trans: "lower_same L s t \<Longrightarrow> lower_same L t u \<Longrightarrow> lower_same L s u"
  using lower_inos_same[of L s t] by (auto simp: lower_same_def)

lemma frame_refl [simp, intro]: "cow_ok L s \<Longrightarrow> frame L s s"
  by (simp add: frame_def)

lemma frame_trans: "frame L s t \<Longrightarrow> frame L t u \<Longrightarrow> frame L s u"
  unfolding frame_def using lower_inos_same[of L s t] lower_same_trans[of L s t u]
  by (elim conjE, intro conjI allI impI) (simp, simp, simp, metis)

lemma frame_ok: "frame L s t \<Longrightarrow> cow_ok L t"
  by (simp add: frame_def)

lemma frame_same: "frame L s t \<Longrightarrow> lower_same L s t"
  by (simp add: frame_def)

lemma own_reg_frame: "frame L s t \<Longrightarrow> own_reg L s e \<Longrightarrow> own_reg L t e"
  unfolding frame_def own_reg_def using lower_inos_same[of L s t] by metis

lemma frame_namei: "frame L s t \<Longrightarrow> namei t = namei s"
  by (simp add: frame_def)

section \<open>Fields the frame does not read\<close>

lemma k_lookup_upd [simp]:
  "k_lookup (s\<lparr>errno := x\<rparr>) = k_lookup s"
  "k_lookup (s\<lparr>script := sc\<rparr>) = k_lookup s"
  "k_lookup (s\<lparr>alive := a\<rparr>) = k_lookup s"
  "k_lookup (s\<lparr>fds := fd\<rparr>) = k_lookup s"
  "k_lookup (s\<lparr>ofds := od\<rparr>) = k_lookup s"
  "k_lookup (s\<lparr>next_ofd := n\<rparr>) = k_lookup s"
  "k_lookup (s\<lparr>inodes := im\<rparr>) = k_lookup s"
  "k_lookup (s\<lparr>next_ino := n\<rparr>) = k_lookup s"
  "k_lookup (s\<lparr>stat_script := sc\<rparr>) = k_lookup s"
  by (simp_all add: fun_eq_iff k_lookup_def)

lemma k_lookup_cow [simp]:
  "k_lookup (c\<lparr>fd_paths := fp\<rparr>) = k_lookup c"
  "k_lookup (c\<lparr>heap := hp\<rparr>) = k_lookup c"
  "k_lookup (c\<lparr>next_ptr := n\<rparr>) = k_lookup c"
  "k_lookup (c\<lparr>uaf := a\<rparr>) = k_lookup c"
  "k_lookup (c\<lparr>stuck := a\<rparr>) = k_lookup c"
  by (simp_all add: fun_eq_iff k_lookup_def)

text \<open>Two states that agree on everything the frame reads.\<close>

definition core_eq :: "cow \<Rightarrow> cow \<Rightarrow> bool" where
  "core_eq s t \<longleftrightarrow> stat_script t = stat_script s \<and> dents t = dents s \<and> next_ino t = next_ino s \<and>
     namei t = namei s \<and> fds t = fds s \<and> ofds t = ofds s \<and> next_ofd t = next_ofd s \<and> inodes t = inodes s"

lemma core_eq_frame [frame_intros]:
  assumes ok: "cow_ok L s" and eq: "core_eq s t"
  shows "frame L s t"
proof -
  have lk: "k_lookup t = k_lookup s" using eq by (simp add: fun_eq_iff k_lookup_def core_eq_def)
  have li: "lower_inos L t = lower_inos L s" by (simp add: lower_inos_def lk)
  have fdo: "fd_ok L t = fd_ok L s" using eq by (simp add: fun_eq_iff fd_ok_def li core_eq_def)
  show ?thesis
    using ok eq by (simp add: frame_def cow_ok_def lower_same_def li lk fdo core_eq_def)
qed

lemma core_eq_refl [simp, intro]: "core_eq s s"
  by (simp add: core_eq_def)

lemma core_eq_trans: "core_eq s t \<Longrightarrow> core_eq t u \<Longrightarrow> core_eq s u"
  by (simp add: core_eq_def)

lemma core_eq_upd [simp, intro]:
  "core_eq s (s\<lparr>errno := x\<rparr>)" "core_eq s (s\<lparr>script := sc\<rparr>)" "core_eq s (s\<lparr>alive := a\<rparr>)"
  "core_eq s (s\<lparr>script := sc, errno := x\<rparr>)"
  "core_eq s (s\<lparr>fd_paths := fp\<rparr>)" "core_eq s (s\<lparr>heap := hp\<rparr>)" "core_eq s (s\<lparr>uaf := a\<rparr>)"
  "core_eq s (s\<lparr>stuck := a\<rparr>)"
  by (simp_all add: core_eq_def)

lemma core_eq_k_fail [simp, intro]: "core_eq s (snd (k_fail e s))"
  by (simp add: k_fail_def)

lemma core_eq_fdtab [simp, intro]:
  "core_eq s (fdtab_set fd p s)" "core_eq s (fdtab_clear fd s)"
  "core_eq s (remember_open fd q s)" "core_eq s (remember_open_for_flags fd q fl s)"
proof -
  have set: "core_eq s (fdtab_set fd p s)" for fd p
    by (auto simp: core_eq_def fdtab_set_def c_free_def c_strdup_def Let_def split: option.splits prod.splits)
  show "core_eq s (fdtab_set fd p s)" by (rule set)
  show "core_eq s (fdtab_clear fd s)"
    by (auto simp: core_eq_def fdtab_clear_def c_free_def split: option.splits)
  show rem: "core_eq s (remember_open fd q s)"
    using set by (auto simp: remember_open_def split: option.splits)
  show "core_eq s (remember_open_for_flags fd q fl s)"
    using set by (auto simp: remember_open_for_flags_def remember_open_def split: option.splits)
qed

lemma core_eq_resolve_at [simp, intro]: "core_eq s (snd (resolve_at_path d p s))"
  by (auto simp: resolve_at_path_def Let_def split: sum.splits option.splits)

lemma core_eq_at_cow_path [simp, intro]: "core_eq s (snd (at_cow_path d p s))"
  by (auto simp: at_cow_path_def split: option.splits)

lemma core_eq_fail_step [simp, intro]: "core_eq s (snd (cow_fail_step st e s))"
  by (auto simp: cow_fail_step_def k_sigkill_def split: prod.splits)

section \<open>Primitive updates\<close>

definition keeps_kind :: "(inode \<Rightarrow> inode) \<Rightarrow> bool" where
  "keeps_kind f \<longleftrightarrow> (\<forall>d. ikind (f d) = ikind d)"

lemma keeps_kind_ops [simp]:
  "keeps_kind (set_mode m)" "keeps_kind (set_owner u g)" "keeps_kind (set_times t)"
  "keeps_kind (set_xattr n v)" "keeps_kind (remove_xattr n)"
  "keeps_kind (\<lambda>d. d\<lparr>idata := h d\<rparr>)"
  by (simp_all add: keeps_kind_def set_mode_def set_owner_def set_times_def set_xattr_def remove_xattr_def)

lemma frame_upd_inode [frame_intros]:
  assumes "cow_ok L s" "i \<notin> lower_inos L s" "keeps_kind f"
  shows "frame L s (k_upd_inode i f s)"
  using assms
  by (auto simp: frame_def cow_ok_def lower_same_def lower_inos_def k_upd_inode_def fd_ok_def keeps_kind_def)

lemma k_lookup_set_dent: "k_lookup (k_set_dent e i s) x = (if x = e then Some i else k_lookup s x)"
  by (simp add: k_lookup_def k_set_dent_def AList.update_conv)

lemma k_lookup_del_dent: "k_lookup (k_del_dent e s) x = (if x = e then None else k_lookup s x)"
  by (simp add: k_lookup_def k_del_dent_def AList.delete_conv)

lemma del_dent_fields [simp]:
  "stat_script (k_del_dent e s) = stat_script s" "namei (k_del_dent e s) = namei s"
  "fds (k_del_dent e s) = fds s" "ofds (k_del_dent e s) = ofds s"
  "next_ofd (k_del_dent e s) = next_ofd s" "inodes (k_del_dent e s) = inodes s"
  "next_ino (k_del_dent e s) = next_ino s" "alive (k_del_dent e s) = alive s"
  "script (k_del_dent e s) = script s"
  by (simp_all add: k_del_dent_def)

lemma del_dent_distinct:
  "distinct (map fst (dents s)) \<Longrightarrow> distinct (map fst (dents (k_del_dent e s)))"
  by (simp add: k_del_dent_def distinct_delete)

lemma frame_del_dent [frame_intros]: "cow_ok L s \<Longrightarrow> e \<notin> L \<Longrightarrow> frame L s (k_del_dent e s)"
proof -
  assume ok: "cow_ok L s" and e: "e \<notin> L"
  have li: "lower_inos L (k_del_dent e s) = lower_inos L s"
    using e by (auto simp: lower_inos_def k_lookup_del_dent)
  show ?thesis
    using ok e unfolding frame_def cow_ok_def lower_same_def li fd_ok_def
    by (auto simp: k_lookup_del_dent split: if_splits intro: del_dent_distinct)
qed

lemma set_dent_fields [simp]:
  "stat_script (k_set_dent e i s) = stat_script s" "namei (k_set_dent e i s) = namei s"
  "fds (k_set_dent e i s) = fds s" "ofds (k_set_dent e i s) = ofds s"
  "next_ofd (k_set_dent e i s) = next_ofd s" "inodes (k_set_dent e i s) = inodes s"
  "next_ino (k_set_dent e i s) = next_ino s" "alive (k_set_dent e i s) = alive s"
  "script (k_set_dent e i s) = script s"
  by (simp_all add: k_set_dent_def)

lemma set_dent_distinct:
  "distinct (map fst (dents s)) \<Longrightarrow> distinct (map fst (dents (k_set_dent e i s)))"
  by (simp add: k_set_dent_def distinct_update)

lemma set_dent_ok:
  assumes ok: "cow_ok L s" and e: "e \<notin> L" and i: "i < next_ino s"
    and reg: "i \<in> lower_inos L s \<Longrightarrow> ikind (inodes s i) = KReg"
  shows "cow_ok L (k_set_dent e i s)" and "lower_same L s (k_set_dent e i s)"
proof -
  have li: "lower_inos L (k_set_dent e i s) = lower_inos L s"
    using e by (auto simp: lower_inos_def k_lookup_set_dent)
  show "cow_ok L (k_set_dent e i s)"
    using ok e i reg unfolding cow_ok_def li fd_ok_def
    by (auto simp: k_lookup_set_dent split: if_splits intro: set_dent_distinct)
  show "lower_same L s (k_set_dent e i s)"
    using e by (auto simp: lower_same_def k_lookup_set_dent)
qed

lemma frame_set_dent [frame_intros]:
  assumes "cow_ok L s" "e \<notin> L" "i < next_ino s" "i \<notin> lower_inos L s" "ikind (inodes s i) = KReg"
  shows "frame L s (k_set_dent e i s)"
  using assms(5) set_dent_ok[OF assms(1-3)] assms(4) by (simp add: frame_def k_lookup_set_dent)

lemma new_inode_frame:
  assumes ok: "cow_ok L s" and n: "k_new_inode nd s = (i, t)"
  shows "frame L s t" and "i \<notin> lower_inos L t" and "i < next_ino t" and "alive t = alive s"
    and "i = next_ino s" and "inodes t i = nd" and "\<And>e. k_lookup t e \<noteq> Some i"
proof -
  have t: "t = s\<lparr>inodes := (inodes s)(next_ino s := nd), next_ino := Suc (next_ino s)\<rparr>" and i: "i = next_ino s"
    using n by (auto simp: k_new_inode_def)
  have lt: "j < next_ino s" if "j \<in> lower_inos L s" for j
    using ok that by (auto simp: cow_ok_def lower_inos_def)
  have li: "lower_inos L t = lower_inos L s"
    by (simp add: lower_inos_def t)
  have fr: "j < Suc (next_ino s)" if "k_lookup s e = Some j" for e j
    using ok that by (force simp: cow_ok_def)
  have neq: "j \<noteq> next_ino s" if "k_lookup s e = Some j" for e j
    using ok that by (force simp: cow_ok_def)
  have lk: "k_lookup t = k_lookup s" by (simp add: t)
  have fdo: "fd_ok L t od" if "fd_ok L s od" for od
    using that by (simp add: fd_ok_def li) (simp add: t)
  have ino: "inodes t j = inodes s j" if "j \<noteq> next_ino s" for j using that by (simp add: t)
  have "cow_ok L t"
    unfolding cow_ok_def lk li
  proof (intro conjI allI impI)
    fix e j assume "k_lookup s e = Some j"
    then show "j < next_ino t" using fr by (simp add: t)
  next
    fix fd od assume "map_of (fds t) fd = Some od"
    then have "fd_ok L s od" using ok by (simp add: cow_ok_def t)
    then show "fd_ok L t od" by (rule fdo)
  next
    fix e j assume j: "e \<notin> L" "k_lookup s e = Some j" "j \<in> lower_inos L s"
    then have "ikind (inodes s j) = KReg" using ok by (auto simp: cow_ok_def)
    with ino[OF neq[OF j(2)]] show "ikind (inodes t j) = KReg" by simp
  qed (use ok in \<open>simp_all add: cow_ok_def t\<close>)
  then show "frame L s t"
    unfolding frame_def lower_same_def lk using lt ino neq by (auto simp: t)
  show "i \<notin> lower_inos L t" using lt i li by auto
  show "i < next_ino t" "alive t = alive s" "i = next_ino s" "inodes t i = nd" by (simp_all add: t i)
  show "\<And>e. k_lookup t e \<noteq> Some i" using neq by (auto simp: t i)
qed

lemma frame_fds:
  assumes ok: "cow_ok L s"
    and t: "stat_script t = stat_script s" "dents t = dents s" "next_ino t = next_ino s" "namei t = namei s"
      "inodes t = inodes s"
    and fd: "\<And>fd od. map_of (fds t) fd = Some od \<Longrightarrow> fd_ok L t od"
  shows "frame L s t"
proof -
  have lk: "k_lookup t = k_lookup s" by (simp add: fun_eq_iff k_lookup_def t)
  have li: "lower_inos L t = lower_inos L s" by (simp add: lower_inos_def lk)
  have "cow_ok L t"
    unfolding cow_ok_def li lk
  proof (intro conjI allI impI)
    fix x od assume "map_of (fds t) x = Some od"
    then show "fd_ok L t od" by (rule fd)
  next
    fix e i assume "k_lookup s e = Some i"
    with ok show "i < next_ino t" by (simp add: cow_ok_def t)
  next
    fix b p show "namei t b p \<notin> L" using ok by (simp add: cow_ok_def t)
  next
    fix e i assume "e \<notin> L" "k_lookup s e = Some i" "i \<in> lower_inos L s"
    with ok show "ikind (inodes t i) = KReg" by (simp add: cow_ok_def t)
  next
    show "distinct (map fst (dents t))" "stat_script t = []" using ok by (simp_all add: cow_ok_def t)
  qed
  then show ?thesis
    unfolding frame_def lower_same_def lk by (simp add: t)
qed

lemma install_fd_frame:
  assumes ok: "cow_ok L s" and n: "k_install_fd d s = (fd, t)"
    and d: "o_ino d < next_ino s" "o_write d \<Longrightarrow> o_ino d \<notin> lower_inos L s"
  shows "frame L s t" and "map_of (fds t) fd = Some (next_ofd s)" and "ofds t (next_ofd s) = d"
    and "k_lookup t = k_lookup s" and "inodes t = inodes s" and "alive t = alive s" and "next_ino t = next_ino s"
proof -
  have t: "t = s\<lparr>fds := AList.update (k_free_fd s) (next_ofd s) (fds s),
        ofds := (ofds s)(next_ofd s := d), next_ofd := Suc (next_ofd s)\<rparr>" and fd: "fd = k_free_fd s"
    using n by (auto simp: k_install_fd_def)
  have li: "lower_inos L t = lower_inos L s" by (simp add: lower_inos_def t)
  show "frame L s t"
  proof (rule frame_fds[OF ok])
    fix x od
    assume "map_of (fds t) x = Some od"
    then have "od = next_ofd s \<or> map_of (fds s) x = Some od"
      by (simp add: t AList.update_conv split: if_splits)
    then show "fd_ok L t od"
    proof (elim disjE)
      assume "od = next_ofd s"
      then show ?thesis using d by (simp add: fd_ok_def li) (simp add: t)
    next
      assume "map_of (fds s) x = Some od"
      then have "fd_ok L s od" using ok by (simp add: cow_ok_def)
      then show ?thesis by (simp add: fd_ok_def li) (simp add: t)
    qed
  qed (simp_all add: t)
  show "map_of (fds t) fd = Some (next_ofd s)" "ofds t (next_ofd s) = d"
    "k_lookup t = k_lookup s" "inodes t = inodes s" "alive t = alive s" "next_ino t = next_ino s"
    by (simp_all add: t fd AList.update_conv)
qed

lemma frame_ofd_off [frame_intros]:
  "cow_ok L s \<Longrightarrow> frame L s (s\<lparr>ofds := (ofds s)(od := (ofds s od)\<lparr>o_off := n\<rparr>)\<rparr>)"
proof (rule frame_fds)
  fix fd x
  let ?t = "s\<lparr>ofds := (ofds s)(od := (ofds s od)\<lparr>o_off := n\<rparr>)\<rparr>"
  assume ok: "cow_ok L s" and "map_of (fds ?t) fd = Some x"
  then have "fd_ok L s x" by (simp add: cow_ok_def)
  then show "fd_ok L ?t x" by (cases "x = od") (simp_all add: fd_ok_def lower_inos_def)
qed simp_all

lemma frame_fds_delete [frame_intros]:
  "cow_ok L s \<Longrightarrow> frame L s (s\<lparr>fds := AList.delete x (fds s)\<rparr>)"
proof (rule frame_fds)
  fix fd od
  assume ok: "cow_ok L s" and m: "map_of (fds (s\<lparr>fds := AList.delete x (fds s)\<rparr>)) fd = Some od"
  then have "map_of (fds s) fd = Some od" by (auto simp: AList.delete_conv split: if_splits)
  with ok show "fd_ok L (s\<lparr>fds := AList.delete x (fds s)\<rparr>) od"
    by (auto simp: cow_ok_def fd_ok_def lower_inos_def)
qed simp_all

lemma frame_fds_update:
  assumes ok: "cow_ok L s" and y: "map_of (fds s) y = Some od"
  shows "frame L s (s\<lparr>fds := AList.update x od (fds s)\<rparr>)"
proof (rule frame_fds[OF ok])
  fix fd od'
  assume "map_of (fds (s\<lparr>fds := AList.update x od (fds s)\<rparr>)) fd = Some od'"
  then have "map_of (fds s) fd = Some od' \<or> od' = od" by (auto simp: AList.update_conv split: if_splits)
  then have "fd_ok L s od'" using ok y by (auto simp: cow_ok_def)
  then show "fd_ok L (s\<lparr>fds := AList.update x od (fds s)\<rparr>) od'"
    by (simp add: fd_ok_def lower_inos_def)
qed simp_all

end
