(* ===== verification/Cow_Calls.thy ===== *)
theory Cow_Calls
  imports Cow_Frame
begin

text \<open>
  Each kernel call the shim makes stays inside the frame: unconditionally where the call works
  through a descriptor that was opened for writing, and for a path once the path names no lower
  inode. The loops of the copy follow by induction.
\<close>

section \<open>The scripted call\<close>

lemma kcall_rel:
  assumes core: "\<And>s t. cow_ok L s \<Longrightarrow> core_eq s t \<Longrightarrow> R s t"
    and trans: "\<And>s t u. R s t \<Longrightarrow> R t u \<Longrightarrow> R s u"
    and ok: "cow_ok L s"
    and f: "\<And>r s'. alive s \<Longrightarrow> core_eq s s' \<Longrightarrow> cow_ok L s' \<Longrightarrow> alive s' \<Longrightarrow> R s' (snd (f r s'))"
  shows "R s (snd (kcall f s))"
proof -
  have run: "R s (snd (f r (s\<lparr>script := rs\<rparr>)))" if "alive s" for r rs
    using core[OF ok, of "s\<lparr>script := rs\<rparr>"] that
      frame_ok[OF core_eq_frame[OF ok, of "s\<lparr>script := rs\<rparr>"]]
    by (intro trans[OF core[OF ok, of "s\<lparr>script := rs\<rparr>"] f]) simp_all
  show ?thesis
  proof (cases "alive s")
    case False
    then show ?thesis using core[OF ok, of s] by (simp add: kcall_def)
  next
    case True
    show ?thesis
    proof (cases "script s")
      case Nil
      with True f[of s KOk] ok show ?thesis by (simp add: kcall_def)
    next
      case (Cons r rs)
      with True run[OF True] ok show ?thesis
        by (cases r) (simp_all add: kcall_def k_fail_def core)
    qed
  qed
qed

lemma kcall_frame:
  assumes "cow_ok L s"
    and "\<And>r s'. alive s \<Longrightarrow> core_eq s s' \<Longrightarrow> cow_ok L s' \<Longrightarrow> alive s' \<Longrightarrow> frame L s' (snd (f r s'))"
  shows "frame L s (snd (kcall f s))"
  by (rule kcall_rel[where R = "frame L", OF core_eq_frame frame_trans assms])

lemma frame_fail [simp]: "cow_ok L s \<Longrightarrow> frame L s (snd (k_fail e s))"
  by (rule core_eq_frame) auto

lemma k_fail_fst [simp]: "fst (k_fail e s) = None"
  by (simp add: k_fail_def)

lemma snd_Pair_frame [simp]: "frame L s t \<Longrightarrow> frame L s (snd (x, t))"
  by simp

section \<open>Names\<close>

lemma k_walk_props:
  "k_walk n s e = Some e' \<Longrightarrow> e \<notin> L \<Longrightarrow> \<forall>b p. namei s b p \<notin> L \<Longrightarrow>
     e' \<notin> L \<and> (\<forall>i t. k_lookup s e' = Some i \<longrightarrow> ikind (inodes s i) \<noteq> KLnk t)"
proof (induction n arbitrary: e)
  case (Suc n)
  show ?case
  proof (cases "k_lookup s e")
    case (Some i)
    with Suc show ?thesis by (cases "ikind (inodes s i)") auto
  qed (use Suc in auto)
qed simp

lemma k_resolve_notin: "cow_ok L s \<Longrightarrow> k_resolve follow b p s = Some e \<Longrightarrow> e \<notin> L"
  using k_walk_props[of 40 s "namei s b p" e L]
  by (auto simp: k_resolve_def cow_ok_def split: if_splits)

lemma k_walk_stop: "k_lookup s e = Some i \<Longrightarrow> ikind (inodes s i) = KReg \<Longrightarrow> k_walk 40 s e = Some e"
  by (simp add: numeral_eq_Suc)

lemma k_lookup_lt: "cow_ok L s \<Longrightarrow> k_lookup s e = Some i \<Longrightarrow> i < next_ino s"
  by (simp add: cow_ok_def)

lemma unshared_kind:
  "cow_ok L s \<Longrightarrow> e \<notin> L \<Longrightarrow> k_lookup s e = Some i \<Longrightarrow> ikind (inodes s i) \<noteq> KReg \<Longrightarrow> unshared L s e"
  by (auto simp: cow_ok_def unshared_def)

text \<open>A path whose followed entry is unshared names an unshared entry without following too.\<close>

lemma unshared_resolve:
  assumes ok: "cow_ok L s" and al: "alive s" and u: "unshared_path L s b p"
    and r: "k_resolve follow b p s = Some e"
  shows "unshared L s e"
proof (cases follow)
  case True
  with u al r show ?thesis by (simp add: unshared_path_def)
next
  case False
  then have e: "e = namei s b p" using r by (simp add: k_resolve_def)
  show ?thesis
  proof (cases "k_lookup s e")
    case None
    then show ?thesis by (simp add: unshared_def)
  next
    case (Some i)
    show ?thesis
    proof (cases "ikind (inodes s i) = KReg")
      case True
      then have "k_resolve True b p s = Some e"
        using k_walk_stop[OF Some] by (simp add: k_resolve_def e)
      with u al show ?thesis by (simp add: unshared_path_def)
    next
      case False
      with Some ok show ?thesis
        using k_resolve_notin[OF ok r] by (intro unshared_kind)
    qed
  qed
qed

lemma unshared_path_core:
  assumes "core_eq s t" "alive t \<Longrightarrow> alive s"
  shows "unshared_path L s b p \<Longrightarrow> unshared_path L t b p"
proof -
  have lk: "k_lookup t = k_lookup s" using assms by (simp add: fun_eq_iff k_lookup_def core_eq_def)
  have li: "lower_inos L t = lower_inos L s" by (simp add: lower_inos_def lk)
  have w: "k_walk n t e = k_walk n s e" for n e
    using assms by (induction n arbitrary: e) (auto simp: lk core_eq_def split: option.splits ikind.splits)
  show "unshared_path L s b p \<Longrightarrow> unshared_path L t b p"
    using assms by (auto simp: unshared_path_def k_resolve_def w unshared_def lk li core_eq_def)
qed

section \<open>Calls by path\<close>

lemma upd_resolved_frame:
  assumes ok: "cow_ok L s" and al: "alive s" and u: "unshared_path L s b p"
    and r: "k_resolve follow b p s = Some e" and l: "k_lookup s e = Some i" and k: "keeps_kind f"
  shows "frame L s (k_upd_inode i f s)"
  using unshared_resolve[OF ok al u r] l by (intro frame_upd_inode ok k) (simp add: unshared_def)

lemma k_setattr_frame:
  assumes "cow_ok L s" "unshared_path L s b p" "keeps_kind f"
  shows "frame L s (snd (k_setattr follow b p f s))"
  unfolding k_setattr_def
proof (rule kcall_frame[OF assms(1)])
  fix r s' assume c: "alive s" "core_eq s s'" "cow_ok L s'" "alive s'"
  have u: "unshared_path L s' b p" using c assms(2) by (auto intro: unshared_path_core)
  show "frame L s' (snd (case k_resolve follow b p s' of None \<Rightarrow> k_fail ELOOP s'
      | Some e \<Rightarrow> (case k_lookup s' e of None \<Rightarrow> k_fail ENOENT s'
        | Some i \<Rightarrow> (Some (), k_upd_inode i f s'))))"
    using c u assms(3) by (auto split: option.splits intro: upd_resolved_frame)
qed

lemma k_truncate_frame:
  assumes "cow_ok L s" "unshared_path L s AtCwd p"
  shows "frame L s (snd (k_truncate p n s))"
  unfolding k_truncate_def
proof (rule kcall_frame[OF assms(1)])
  fix r s' assume c: "alive s" "core_eq s s'" "cow_ok L s'" "alive s'"
  have u: "unshared_path L s' AtCwd p" using c assms(2) by (auto intro: unshared_path_core)
  show "frame L s' (snd (case k_resolve True AtCwd p s' of None \<Rightarrow> k_fail ELOOP s'
      | Some e \<Rightarrow> (case k_lookup s' e of None \<Rightarrow> k_fail ENOENT s'
        | Some i \<Rightarrow> (case ikind (inodes s' i) of
            KReg \<Rightarrow> (Some (), k_upd_inode i (\<lambda>d. d\<lparr>idata := set_len n (idata d)\<rparr>) s')
          | KDir \<Rightarrow> k_fail EISDIR s'
          | _ \<Rightarrow> k_fail EINVAL s'))))"
    using c u by (auto split: option.splits ikind.splits intro: upd_resolved_frame)
qed

section \<open>Calls by descriptor\<close>

lemma fd_ok_writable:
  "cow_ok L s \<Longrightarrow> map_of (fds s) fd = Some od \<Longrightarrow> o_write (ofds s od) \<Longrightarrow>
   o_ino (ofds s od) \<notin> lower_inos L s"
  by (simp add: cow_ok_def fd_ok_def)

lemma frame_off_then_data:
  assumes ok: "cow_ok L s" and i: "i \<notin> lower_inos L s"
    and t: "frame L s t" and k: "keeps_kind f"
  shows "frame L s (k_upd_inode i f t)"
  using frame_trans[OF t] frame_upd_inode[OF frame_ok[OF t] _ k, of i] i
    lower_inos_same[OF frame_same[OF t]] by simp

lemma k_read_frame: "cow_ok L s \<Longrightarrow> frame L s (snd (k_read fd n s))"
  unfolding k_read_def
  by (rule kcall_frame) (auto simp: Let_def split: option.splits intro: frame_ofd_off)

lemma k_write_frame: "cow_ok L s \<Longrightarrow> frame L s (snd (k_write fd buf s))"
  unfolding k_write_def
  by (rule kcall_frame)
    (auto simp: Let_def fd_ok_writable split: option.splits intro!: frame_off_then_data intro: frame_ofd_off)

lemma k_rewind_frame: "cow_ok L s \<Longrightarrow> frame L s (snd (k_rewind fd s))"
  unfolding k_rewind_def
  by (rule kcall_frame) (auto split: option.splits intro: frame_ofd_off)

lemma frame_ofd_off2:
  assumes "cow_ok L s"
  shows "frame L s (s\<lparr>ofds := (ofds s)(x := (ofds s x)\<lparr>o_off := n\<rparr>, y := (ofds s y)\<lparr>o_off := m\<rparr>)\<rparr>)"
proof (rule frame_fds[OF assms])
  fix fd z
  let ?t = "s\<lparr>ofds := (ofds s)(x := (ofds s x)\<lparr>o_off := n\<rparr>, y := (ofds s y)\<lparr>o_off := m\<rparr>)\<rparr>"
  assume "map_of (fds ?t) fd = Some z"
  then have "fd_ok L s z" using assms by (simp add: cow_ok_def)
  then show "fd_ok L ?t z"
    by (cases "z = y"; cases "z = x") (simp_all add: fd_ok_def lower_inos_def)
qed simp_all

lemma k_copy_frame: "cow_ok L s \<Longrightarrow> frame L s (snd (k_copy_file_range sfd tfd want s))"
  unfolding k_copy_file_range_def
  by (rule kcall_frame)
    (auto simp: Let_def fd_ok_writable split: option.splits intro!: frame_off_then_data frame_ofd_off2)

lemma k_ofd_map: "k_ofd fd s = Some od \<Longrightarrow> map_of (fds s) (nat fd) = Some od"
  by (simp add: k_ofd_def split: if_splits)

lemma k_ftruncate_frame: "cow_ok L s \<Longrightarrow> frame L s (snd (k_ftruncate fd n s))"
  unfolding k_ftruncate_def
  by (rule kcall_frame)
    (auto split: option.splits intro!: frame_upd_inode dest!: k_ofd_map simp: fd_ok_writable)

text \<open>A descriptor whose open file is no lower inode.\<close>

definition fd_unshared :: "entry set \<Rightarrow> cow \<Rightarrow> int \<Rightarrow> bool" where
  "fd_unshared L s fd \<longleftrightarrow> (\<forall>od. k_ofd fd s = Some od \<longrightarrow> o_ino (ofds s od) \<notin> lower_inos L s)"

lemma fd_unshared_core: "core_eq s t \<Longrightarrow> fd_unshared L s fd \<Longrightarrow> fd_unshared L t fd"
proof -
  assume eq: "core_eq s t" and u: "fd_unshared L s fd"
  have "k_lookup t = k_lookup s" using eq by (simp add: fun_eq_iff k_lookup_def core_eq_def)
  then show ?thesis using u eq by (simp add: fd_unshared_def k_ofd_def core_eq_def lower_inos_def)
qed

lemma k_fsetattr_frame:
  assumes "cow_ok L s" "fd_unshared L s fd" "keeps_kind f"
  shows "frame L s (snd (k_fsetattr fd f s))"
  unfolding k_fsetattr_def
proof (rule kcall_frame[OF assms(1)])
  fix r s' assume c: "core_eq s s'" "cow_ok L s'"
  have "fd_unshared L s' fd" using c(1) assms(2) by (rule fd_unshared_core)
  then show "frame L s' (snd (case k_ofd fd s' of None \<Rightarrow> k_fail EBADF s'
      | Some od \<Rightarrow> (Some (), k_upd_inode (o_ino (ofds s' od)) f s')))"
    using c(2) assms(3) by (auto simp: fd_unshared_def split: option.splits intro: frame_upd_inode)
qed

lemma k_close_frame: "cow_ok L s \<Longrightarrow> frame L s (snd (k_close fd s))"
proof -
  assume ok: "cow_ok L s"
  let ?t = "s\<lparr>fds := AList.delete (nat fd) (fds s)\<rparr>"
  have t: "frame L s ?t" using ok by (rule frame_fds_delete)
  have "frame L ?t (snd (kcall (\<lambda>_ s. (Some (), s)) ?t))"
    by (rule kcall_frame[OF frame_ok[OF t]]) (simp add: frame_refl)
  with t ok show ?thesis
    unfolding k_close_def by (auto split: option.splits intro: frame_trans)
qed

section \<open>Directory calls and metadata reads\<close>

lemma k_unlink_frame: "cow_ok L s \<Longrightarrow> frame L s (snd (k_unlink p s))"
  unfolding k_unlink_def
  by (rule kcall_frame) (auto simp: Let_def cow_ok_def split: option.splits intro!: frame_del_dent)

lemma k_listxattr_frame: "cow_ok L s \<Longrightarrow> frame L s (snd (k_listxattr p s))"
  unfolding k_listxattr_def by (rule kcall_frame) (auto split: option.splits)

lemma k_getxattr_frame: "cow_ok L s \<Longrightarrow> frame L s (snd (k_getxattr p n s))"
  unfolding k_getxattr_def by (rule kcall_frame) (auto split: option.splits)

lemma k_stat_core: "core_eq s t \<Longrightarrow> core_eq s (t\<lparr>stat_script := stat_script s\<rparr>)"
  by (simp add: core_eq_def)

lemma k_stat_cases:
  assumes ok: "cow_ok L s"
  shows "core_eq s (snd (k_stat follow b p s))" and "alive (snd (k_stat follow b p s)) = alive s"
  using ok by (auto simp: k_stat_def cow_ok_def k_fail_def Let_def core_eq_def
      split: list.splits kreply.splits option.splits)

end
