(* ===== verification/Cow_Breaks.thy ===== *)
theory Cow_Breaks
  imports Cow_Calls
begin

text \<open>
  The copy-up stays inside the frame and, when it reports success, leaves its path naming no lower
  inode: \<open>good_brk\<close>, by induction on the nesting fuel. The same holds for every opening call.
\<close>

section \<open>Creating and moving names\<close>

lemma new_file_frame:
  assumes ok: "cow_ok L s" and n: "k_new_inode (k_fresh_reg m s) s = (i, t)" and e: "e \<notin> L"
  shows "frame L s (k_set_dent e i t)" and "own_reg L (k_set_dent e i t) e"
    and "i < next_ino (k_set_dent e i t)" and "i \<notin> lower_inos L (k_set_dent e i t)"
proof -
  note f = new_inode_frame[OF ok n]
  have reg: "ikind (inodes t i) = KReg" by (simp add: f(6) k_fresh_reg_def)
  have g: "frame L t (k_set_dent e i t)"
    by (rule frame_set_dent[OF frame_ok[OF f(1)] e f(3) f(2) reg])
  show "frame L s (k_set_dent e i t)" by (rule frame_trans[OF f(1) g])
  have li: "lower_inos L (k_set_dent e i t) = lower_inos L t" using lower_inos_same[OF frame_same[OF g]] .
  show "own_reg L (k_set_dent e i t) e"
    using f(2) reg by (simp add: own_reg_def k_lookup_set_dent li)
  show "i < next_ino (k_set_dent e i t)" "i \<notin> lower_inos L (k_set_dent e i t)"
    using f(2,3) by (simp_all add: li)
qed

lemma kcall_frame_post:
  assumes ok: "cow_ok L s"
    and f: "\<And>r s' x t. alive s \<Longrightarrow> core_eq s s' \<Longrightarrow> cow_ok L s' \<Longrightarrow> alive s' \<Longrightarrow> f r s' = (Some x, t) \<Longrightarrow>
       frame L s' t \<and> P x t"
    and k: "kcall f s = (Some x, t)"
  shows "frame L s t \<and> P x t"
proof -
  have al: "alive s" using k by (cases "alive s") (auto simp: kcall_def)
  obtain r s' where s': "core_eq s s'" "alive s'" "f r s' = (Some x, t)"
    using k al by (auto simp: kcall_def k_fail_def split: list.splits kreply.splits) (force+)
  have fr: "frame L s s'" using ok s'(1) by (rule core_eq_frame)
  show ?thesis using f[OF al s'(1) frame_ok[OF fr] s'(2,3)] frame_trans[OF fr] by blast
qed

lemma k_mkstemp_frame: "cow_ok L s \<Longrightarrow> frame L s (snd (k_mkstemp stem s))"
  unfolding k_mkstemp_def
proof (rule kcall_frame, assumption)
  fix r s' assume ok: "cow_ok L s'"
  show "frame L s' (snd (case filter (\<lambda>x. k_lookup s' (namei s' AtCwd (stem @ x)) = None) (suffixes s') of
       [] \<Rightarrow> k_fail EEXIST s'
     | x # _ \<Rightarrow>
          (let tmp = stem @ x;
               (i, s) = k_new_inode (k_fresh_reg 0x180 s') s';
               s = k_set_dent (namei s AtCwd tmp) i s;
               (fd, s) = k_install_fd (open_ofd i O_RDWR) s
           in (Some (fd, tmp), s))))"
  proof (cases "filter (\<lambda>x. k_lookup s' (namei s' AtCwd (stem @ x)) = None) (suffixes s')")
    case Nil
    with ok show ?thesis by simp
  next
    case (Cons x xs)
    obtain i t where n: "k_new_inode (k_fresh_reg 0x180 s') s' = (i, t)" by fastforce
    let ?e = "namei t AtCwd (stem @ x)"
    have e: "?e \<notin> L" using new_inode_frame(1)[OF ok n] by (auto simp: frame_def cow_ok_def)
    note nf = new_file_frame[OF ok n e]
    obtain fd u where ins: "k_install_fd (open_ofd i O_RDWR) (k_set_dent ?e i t) = (fd, u)" by fastforce
    have "frame L (k_set_dent ?e i t) u"
      using install_fd_frame(1)[OF frame_ok[OF nf(1)] ins] nf(3,4) by (simp add: open_ofd_def Let_def)
    from frame_trans[OF nf(1) this] show ?thesis
      by (simp add: Cons n ins Let_def)
  qed
qed

lemma k_mkstemp_Some:
  assumes ok: "cow_ok L s" and m: "k_mkstemp stem s = (Some (fd, tmp), t)"
  shows "frame L s t" and "own_reg L t (namei t AtCwd tmp)" and "fd_unshared L t (int fd)"
proof -
  have "frame L s t \<and> (\<lambda>(fd, tmp) t. own_reg L t (namei t AtCwd tmp) \<and> fd_unshared L t (int fd)) (fd, tmp) t"
    using m unfolding k_mkstemp_def
  proof (rule kcall_frame_post[OF ok, rotated])
    fix r s' and x :: "nat \<times> path" and t
    assume ok: "cow_ok L s'"
      and c: "(case filter (\<lambda>x. k_lookup s' (namei s' AtCwd (stem @ x)) = None) (suffixes s') of
       [] \<Rightarrow> k_fail EEXIST s'
     | x # _ \<Rightarrow>
          (let tmp = stem @ x;
               (i, s) = k_new_inode (k_fresh_reg 0x180 s') s';
               s = k_set_dent (namei s AtCwd tmp) i s;
               (fd, s) = k_install_fd (open_ofd i O_RDWR) s
           in (Some (fd, tmp), s))) = (Some x, t)"
    then obtain y i t1 fd t2 where
      n: "k_new_inode (k_fresh_reg 0x180 s') s' = (i, t1)" and
      ins: "k_install_fd (open_ofd i O_RDWR) (k_set_dent (namei t1 AtCwd (stem @ y)) i t1) = (fd, t2)" and
      x: "x = (fd, stem @ y)" and t: "t = t2"
      by (auto simp: k_fail_def Let_def split: list.splits prod.splits)
    let ?e = "namei t1 AtCwd (stem @ y)"
    have e: "?e \<notin> L" using new_inode_frame(1)[OF ok n] by (auto simp: frame_def cow_ok_def)
    note nf = new_file_frame[OF ok n e]
    note ii = install_fd_frame[OF frame_ok[OF nf(1)] ins]
    have d: "o_ino (open_ofd i O_RDWR) < next_ino (k_set_dent ?e i t1)"
      "o_ino (open_ofd i O_RDWR) \<notin> lower_inos L (k_set_dent ?e i t1)"
      using nf(3,4) by (simp_all add: open_ofd_def Let_def)
    note fr = ii(1)[OF d] and od = ii(2,3)[OF d, unfolded set_dent_fields]
    have nm: "namei t2 = namei t1" using frame_namei[OF fr] by simp
    have "i \<notin> lower_inos L t2" using nf(4) lower_inos_same[OF frame_same[OF fr]] by simp
    then have "fd_unshared L t2 (int fd)"
      by (simp add: fd_unshared_def k_ofd_def od open_ofd_def Let_def)
    then show "frame L s' t \<and> (\<lambda>(fd, tmp) t. own_reg L t (namei t AtCwd tmp) \<and> fd_unshared L t (int fd)) x t"
      using frame_trans[OF nf(1) fr] own_reg_frame[OF fr nf(2)] by (simp add: x t nm)
  qed
  then show "frame L s t" "own_reg L t (namei t AtCwd tmp)" "fd_unshared L t (int fd)" by simp_all
qed

text \<open>The rename that commits the copy.\<close>

lemma own_reg_unshared_path: "own_reg L s (namei s AtCwd p) \<Longrightarrow> unshared_path L s AtCwd p"
proof -
  assume own: "own_reg L s (namei s AtCwd p)"
  show ?thesis
  proof (cases "k_lookup s (namei s AtCwd p)")
    case None
    then have "k_walk 40 s (namei s AtCwd p) = Some (namei s AtCwd p)" by (simp add: numeral_eq_Suc)
    with own show ?thesis by (auto simp: unshared_path_def k_resolve_def unshared_def own_reg_def)
  next
    case (Some i)
    with own have "k_walk 40 s (namei s AtCwd p) = Some (namei s AtCwd p)"
      by (intro k_walk_stop[OF Some]) (simp add: own_reg_def)
    with own show ?thesis by (auto simp: unshared_path_def k_resolve_def unshared_def own_reg_def)
  qed
qed

lemma rename_body_frame:
  assumes ok: "cow_ok L s" and own: "own_reg L s (namei s AtCwd tmp)"
    and l: "k_lookup s (namei s AtCwd tmp) = Some i"
  shows "frame L s (k_set_dent (namei s AtCwd p) i (k_del_dent (namei s AtCwd tmp) s))"
    and "own_reg L (k_set_dent (namei s AtCwd p) i (k_del_dent (namei s AtCwd tmp) s)) (namei s AtCwd p)"
proof -
  let ?d = "k_del_dent (namei s AtCwd tmp) s"
  have e: "namei s AtCwd tmp \<notin> L" "namei s AtCwd p \<notin> L" using ok by (simp_all add: cow_ok_def)
  have d: "frame L s ?d" by (rule frame_del_dent[OF ok e(1)])
  have i: "i < next_ino s" "i \<notin> lower_inos L s" "ikind (inodes s i) = KReg"
    using ok own l by (auto simp: own_reg_def dest: k_lookup_lt)
  have li: "lower_inos L ?d = lower_inos L s" using lower_inos_same[OF frame_same[OF d]] .
  have f: "frame L ?d (k_set_dent (namei s AtCwd p) i ?d)"
    by (rule frame_set_dent) (use i e frame_ok[OF d] li in simp_all)
  show "frame L s (k_set_dent (namei s AtCwd p) i ?d)" by (rule frame_trans[OF d f])
  show "own_reg L (k_set_dent (namei s AtCwd p) i ?d) (namei s AtCwd p)"
    using i lower_inos_same[OF frame_same[OF f]] li by (simp add: own_reg_def k_lookup_set_dent)
qed

lemma k_rename_commit:
  assumes ok: "cow_ok L s" and own: "own_reg L s (namei s AtCwd tmp)"
  shows "frame L s (snd (k_rename AtCwd tmp AtCwd p s))"
    and "fst (k_rename AtCwd tmp AtCwd p s) \<noteq> None \<Longrightarrow>
      unshared_path L (snd (k_rename AtCwd tmp AtCwd p s)) AtCwd p"
proof -
  have own': "own_reg L s' (namei s' AtCwd tmp)" if "core_eq s s'" for s'
    using own_reg_frame[OF core_eq_frame[OF ok that] own] that by (simp add: core_eq_def)
  show "frame L s (snd (k_rename AtCwd tmp AtCwd p s))"
    unfolding k_rename_def
    by (rule kcall_frame[OF ok]) (auto simp: Let_def split: option.splits dest: own' intro: rename_body_frame(1))
  assume "fst (k_rename AtCwd tmp AtCwd p s) \<noteq> None"
  then obtain u t where k: "k_rename AtCwd tmp AtCwd p s = (Some u, t)"
    by (cases "k_rename AtCwd tmp AtCwd p s") auto
  have "frame L s t \<and> own_reg L t (namei t AtCwd p)"
    using k unfolding k_rename_def
  proof (rule kcall_frame_post[OF ok, rotated, where P = "\<lambda>_ t. own_reg L t (namei t AtCwd p)"])
    fix r s' x t
    assume c: "core_eq s s'" "cow_ok L s'"
      and b: "(let e1 = namei s' AtCwd tmp; e2 = namei s' AtCwd p in
        case k_lookup s' e1 of None \<Rightarrow> k_fail ENOENT s'
        | Some i \<Rightarrow> (if k_lookup s' e2 = Some i then (Some (), s')
            else (Some (), k_set_dent e2 i (k_del_dent e1 s')))) = (Some x, t)"
    then obtain i where i: "k_lookup s' (namei s' AtCwd tmp) = Some i"
      by (auto simp: Let_def k_fail_def split: option.splits)
    note own'' = own'[OF c(1)]
    show "frame L s' t \<and> own_reg L t (namei t AtCwd p)"
    proof (cases "k_lookup s' (namei s' AtCwd p) = Some i")
      case True
      with b i c own'' show ?thesis by (auto simp: own_reg_def)
    next
      case False
      with b i have "t = k_set_dent (namei s' AtCwd p) i (k_del_dent (namei s' AtCwd tmp) s')"
        by (simp add: Let_def)
      with rename_body_frame[OF c(2) own'' i, of p] show ?thesis by simp
    qed
  qed
  then show "unshared_path L (snd (k_rename AtCwd tmp AtCwd p s)) AtCwd p"
    by (simp add: k own_reg_unshared_path)
qed

section \<open>The copy\<close>

definition good_brk :: "entry set \<Rightarrow> breaker \<Rightarrow> bool" where
  "good_brk L brk \<longleftrightarrow> (\<forall>p cd s. cow_ok L s \<longrightarrow> frame L s (snd (brk p cd s)) \<and>
     (fst (brk p cd s) \<longrightarrow> unshared_path L (snd (brk p cd s)) AtCwd p))"

lemma good_brkD:
  assumes "good_brk L brk" "cow_ok L s" "brk p cd s = (r, t)"
  shows "frame L s t" and "cow_ok L t" and "r \<Longrightarrow> unshared_path L t AtCwd p"
  using assms unfolding good_brk_def by (metis fst_conv snd_conv frame_ok)+

lemma snd_cret [simp]: "snd (cret x) = snd x" and fst_cret [simp]: "fst (cret x) = (fst x \<noteq> None)"
  by (simp_all add: cret_def)

lemma fchmod_with_frame:
  assumes g: "good_brk L brk" and ok: "cow_ok L s" and fd: "fd_unshared L s fd"
  shows "frame L s (snd (fchmod_with brk fd m s))"
proof (cases "fdtab_path fd s")
  case None
  with ok fd show ?thesis by (simp add: fchmod_with_def k_fsetattr_frame)
next
  case (Some p)
  obtain r t where b: "brk p True s = (r, t)" by fastforce
  note gb = good_brkD[OF g ok b]
  show ?thesis
    using gb frame_trans[OF gb(1) k_setattr_frame[OF gb(2)]]
    by (cases r) (simp_all add: fchmod_with_def Some b)
qed

lemma ftruncate_with_frame:
  assumes g: "good_brk L brk" and ok: "cow_ok L s"
  shows "frame L s (snd (ftruncate_with brk fd n s))"
proof (cases "fdtab_path fd s")
  case None
  with ok show ?thesis by (simp add: ftruncate_with_def k_ftruncate_frame)
next
  case (Some p)
  obtain r t where b: "brk p (n \<noteq> 0) s = (r, t)" by fastforce
  note gb = good_brkD[OF g ok b]
  show ?thesis
    using gb frame_trans[OF gb(1) k_truncate_frame[OF gb(2)]]
    by (cases r) (simp_all add: ftruncate_with_def Some b[simplified])
qed

lemma lsetxattr_with_frame:
  assumes g: "good_brk L brk" and ok: "cow_ok L s"
  shows "frame L s (snd (lsetxattr_with brk p n v s))"
proof -
  obtain r t where b: "brk p True s = (r, t)" by fastforce
  note gb = good_brkD[OF g ok b]
  show ?thesis
    using gb frame_trans[OF gb(1) k_setattr_frame[OF gb(2)]]
    by (cases r) (simp_all add: lsetxattr_with_def b)
qed

lemma hook_close_frame: "cow_ok L s \<Longrightarrow> frame L s (snd (hook_close fd s))"
proof -
  assume ok: "cow_ok L s"
  have c: "frame L s (fdtab_clear fd s)" using ok by (rule core_eq_frame) simp
  show ?thesis
    using frame_trans[OF c k_close_frame[OF frame_ok[OF c]]] by (simp add: hook_close_def)
qed

lemma fail_unlink_frame: "cow_ok L s \<Longrightarrow> frame L s (snd (fail_unlink tmp e s))"
proof -
  assume ok: "cow_ok L s"
  note u = k_unlink_frame[OF ok, of tmp]
  show ?thesis
    unfolding fail_unlink_def
    by (simp, rule frame_trans[OF u core_eq_frame[OF frame_ok[OF u]]]) simp
qed

lemma fail_unlink_fst [simp]: "fst (fail_unlink tmp e s) = False"
  by (simp add: fail_unlink_def)

lemma write_all_frame: "cow_ok L s \<Longrightarrow> frame L s (snd (write_all tfd buf s))"
proof (induction tfd buf s rule: write_all.induct)
  case (1 tfd buf s)
  note w = k_write_frame[OF 1(3), of tfd buf]
  show ?case
  proof (cases "buf = [] \<or> \<not> alive s")
    case True
    then show ?thesis using 1(3) by (simp add: write_all.simps)
  next
    case False
    obtain r s' where k: "k_write tfd buf s = (r, s')" by fastforce
    then have f: "frame L s s'" using w by simp
    show ?thesis
      using 1(1)[OF False k[symmetric]] 1(2)[OF False k[symmetric]] f frame_ok[OF f] frame_trans[OF f] False
      by (subst write_all.simps) (cases r; simp add: k)
  qed
qed

lemma fallback_loop_frame: "cow_ok L s \<Longrightarrow> frame L s (snd (copy_file_fallback_loop n sfd tfd s))"
proof (induction n arbitrary: s)
  case 0
  then show ?case by (simp add: core_eq_frame)
next
  case (Suc n)
  obtain r s1 where k: "k_read sfd 65536 s = (r, s1)" by fastforce
  have f1: "frame L s s1" using k_read_frame[OF Suc.prems, of sfd 65536] k by simp
  show ?case
  proof (cases r)
    case None
    then show ?thesis using f1 k by simp
  next
    case (Some bs)
    obtain b s2 where w: "write_all tfd bs s1 = (b, s2)" by fastforce
    have f2: "frame L s s2"
      using frame_trans[OF f1] write_all_frame[OF frame_ok[OF f1], of tfd bs] w by simp
    show ?thesis
      using f1 f2 frame_trans[OF f2 Suc.IH[OF frame_ok[OF f2]]] by (cases b) (simp_all add: k Some w)
  qed
qed

lemma fallback_frame: "cow_ok L s \<Longrightarrow> frame L s (snd (copy_file_fallback sfd tfd s))"
  by (simp add: copy_file_fallback_def fallback_loop_frame)

lemma fast_restart_frame:
  assumes ft: "\<And>fd s. cow_ok L s \<Longrightarrow> frame L s (snd (ft fd s))" and ok: "cow_ok L s"
  shows "frame L s (snd (copy_file_restart ft sfd tfd s))"
proof -
  obtain a s1 where a: "k_rewind sfd s = (a, s1)" by fastforce
  obtain b s2 where b: "k_rewind tfd s1 = (b, s2)" by fastforce
  obtain c s3 where c: "ft tfd s2 = (c, s3)" by fastforce
  have f1: "frame L s s1" using k_rewind_frame[OF ok, of sfd] a by simp
  have f2: "frame L s s2" using frame_trans[OF f1] k_rewind_frame[OF frame_ok[OF f1], of tfd] b by simp
  have f3: "frame L s s3" using frame_trans[OF f2] ft[OF frame_ok[OF f2], of tfd] c by simp
  note f4 = frame_trans[OF f3 fallback_frame[OF frame_ok[OF f3]]]
  show ?thesis using f1 f2 f3 f4 by (cases a; cases b; cases c) (simp_all add: copy_file_restart_def a b c)
qed

lemma fast_loop_frame:
  assumes ft: "\<And>fd s. cow_ok L s \<Longrightarrow> frame L s (snd (ft fd s))"
  shows "cow_ok L s \<Longrightarrow> frame L s (snd (copy_file_fast_loop ft sfd tfd sz c s))"
  using ft
proof (induction ft sfd tfd sz c s rule: copy_file_fast_loop.induct)
  case (1 ft sfd tfd sz c s)
  show ?case
  proof (cases "sz \<le> c \<or> \<not> alive s")
    case True
    then show ?thesis using 1(3) by (simp add: copy_file_fast_loop.simps)
  next
    case False
    define want where "want = (if 1024 * 1024 < sz - c then 1024 * 1024 else sz - c)"
    obtain r s' where k: "k_copy_file_range sfd tfd want s = (r, s')" by fastforce
    have f: "frame L s s'" using k_copy_frame[OF 1(3), of sfd tfd want] k by simp
    have step: "copy_file_fast_loop ft sfd tfd sz c s =
        (case (r, s') of
          (Some n, s') \<Rightarrow> if 0 < n then copy_file_fast_loop ft sfd tfd sz (c + n) s' else (True, s')
        | (None, s') \<Rightarrow>
             if errno s' = EINTR then copy_file_fast_loop ft sfd tfd sz c s'
             else if errno s' \<in> {ENOSYS, EINVAL, EXDEV, EPERM, EOPNOTSUPP} then
               copy_file_restart ft sfd tfd s'
             else (False, s'))"
      by (subst copy_file_fast_loop.simps) (simp only: False if_False Let_def want_def[symmetric] k)
    show ?thesis
    proof (cases r)
      case None
      have "errno s' = EINTR \<Longrightarrow> frame L s' (snd (copy_file_fast_loop ft sfd tfd sz c s'))"
        using 1(1)[OF False want_def k[symmetric] None] frame_ok[OF f] 1(4) by blast
      with f fast_restart_frame[where ft = ft and sfd = sfd and tfd = tfd, OF 1(4) frame_ok[OF f]] show ?thesis
        unfolding step None prod.case option.case by (auto intro: frame_trans[OF f])
    next
      case (Some n)
      have "0 < n \<Longrightarrow> frame L s' (snd (copy_file_fast_loop ft sfd tfd sz (c + n) s'))"
        using 1(2)[OF False want_def k[symmetric] Some] frame_ok[OF f] 1(4) by blast
      with f show ?thesis
        unfolding step Some prod.case option.case by (auto intro: frame_trans[OF f])
    qed
  qed
qed

lemma fast_frame:
  assumes "good_brk L brk" "cow_ok L s"
  shows "frame L s (snd (copy_file_fast (\<lambda>fd. ftruncate_with brk (int fd) 0) sfd tfd sz s))"
  using assms
  by (simp add: copy_file_fast_def fast_loop_frame ftruncate_with_frame fallback_frame)


section \<open>Opening a file\<close>

lemma k_open_ino_frame:
  assumes ok: "cow_ok L s" and i: "i < next_ino s" and w: "o_write (open_ofd i fl) \<Longrightarrow> i \<notin> lower_inos L s"
  shows "frame L s (snd (k_open_ino i fl s))"
proof -
  obtain fd t where n: "k_install_fd (open_ofd i fl) s = (fd, t)" by fastforce
  have "o_ino (open_ofd i fl) = i" by (simp add: open_ofd_def Let_def)
  with install_fd_frame(1)[OF ok n] i w show ?thesis by (simp add: k_open_ino_def n)
qed

lemma k_open_new_frame:
  assumes ok: "cow_ok L s" and n: "k_new_inode (k_fresh_reg m s) s = (i, t)"
  shows "frame L s (snd (k_open_ino i fl t))"
    and "e \<notin> L \<Longrightarrow> frame L s (snd (k_open_ino i fl (k_set_dent e i t)))"
proof -
  note f = new_inode_frame[OF ok n]
  show "frame L s (snd (k_open_ino i fl t))"
    by (rule frame_trans[OF f(1) k_open_ino_frame[OF frame_ok[OF f(1)] f(3) f(2)]])
  assume e: "e \<notin> L"
  note g = new_file_frame[OF ok n e]
  show "frame L s (snd (k_open_ino i fl (k_set_dent e i t)))"
    by (rule frame_trans[OF g(1) k_open_ino_frame[OF frame_ok[OF g(1)] g(3) g(4)]])
qed

text \<open>
  Opening stays inside the frame when the flags ask for no change, or the path names no lower
  inode, or the open can only create.
\<close>

definition open_safe :: "entry set \<Rightarrow> cow \<Rightarrow> nbase \<Rightarrow> path \<Rightarrow> u32 \<Rightarrow> bool" where
  "open_safe L s b p fl \<longleftrightarrow> \<not> flags_write fl \<or> unshared_path L s b p \<or>
     fl AND O_TMPFILE \<noteq> 0 \<or> (fl AND O_CREAT \<noteq> 0 \<and> fl AND O_EXCL \<noteq> 0)"

lemma open_ofd_write: "o_write (open_ofd i fl) \<Longrightarrow> flags_write fl"
  by (auto simp: open_ofd_def flags_write_def Let_def)

lemma tmpfile_bits: "fl AND O_TMPFILE \<noteq> 0 \<longleftrightarrow> has_bits fl 0x400000 \<or> has_bits fl O_DIRECTORY"
proof -
  have "(0x404000 :: u32) = 0x400000 OR 0x4000" by simp
  then have "fl AND O_TMPFILE = (fl AND 0x400000) OR (fl AND O_DIRECTORY)"
    by (simp only: bit.conj_disj_distrib)
  then show ?thesis by (simp add: has_bits_def or_eq_0_iff)
qed

lemma k_open_existing_frame:
  assumes ok: "cow_ok L s" and al: "alive s" and safe: "open_safe L s b p fl"
    and nt: "\<not> has_bits fl 0x400000" and ne: "\<not> (has_bits fl O_CREAT \<and> has_bits fl O_EXCL)"
    and r: "k_resolve fo b p s = Some e" and l: "k_lookup s e = Some i"
  shows "frame L s (snd (k_open_existing i fl s))"
proof -
  have i: "i < next_ino s" using ok l by (rule k_lookup_lt)
  have e: "e \<notin> L" using ok r by (rule k_resolve_notin)
  have other: "i \<notin> lower_inos L s" if "ikind (inodes s i) \<noteq> KReg"
    using unshared_kind[OF ok e l that] l by (simp add: unshared_def)
  have reg: "i \<notin> lower_inos L s" if "flags_write fl" "\<not> has_bits fl O_DIRECTORY"
  proof -
    have "unshared_path L s b p"
      using safe that nt ne by (auto simp: open_safe_def tmpfile_bits) (auto simp: has_bits_def)
    from unshared_resolve[OF ok al this r] l show ?thesis by (simp add: unshared_def)
  qed
  have plain: "frame L s (snd (k_open_ino i fl s))" if "\<not> has_bits fl O_DIRECTORY \<or> ikind (inodes s i) \<noteq> KReg"
    by (rule k_open_ino_frame[OF ok i]) (use that reg other open_ofd_write in blast)
  have trunc: "frame L s (snd (k_open_ino i fl (k_upd_inode i (\<lambda>d. d\<lparr>idata := []\<rparr>) s)))"
    if "has_bits fl O_TRUNC" "\<not> has_bits fl O_DIRECTORY"
  proof -
    have "flags_write fl" using that(1) by (simp add: flags_write_def has_bits_def Let_def)
    then have ni: "i \<notin> lower_inos L s" using reg that by simp
    have u: "frame L s (k_upd_inode i (\<lambda>d. d\<lparr>idata := []\<rparr>) s)"
      using ok ni by (rule frame_upd_inode) simp
    show ?thesis
      using i ni lower_inos_same[OF frame_same[OF u]]
      by (intro frame_trans[OF u k_open_ino_frame[OF frame_ok[OF u]]]) (simp_all add: k_upd_inode_def)
  qed
  show ?thesis using plain trunc ok by (auto simp: k_open_existing_def split: ikind.splits)
qed

lemma k_open_body_frame:
  assumes ok: "cow_ok L s" and al: "alive s" and safe: "open_safe L s b p fl"
  shows "frame L s (snd (k_open_body b p fl m s))"
proof -
  obtain i t where n: "k_new_inode (k_fresh_reg m s) s = (i, t)" by fastforce
  note new = k_open_new_frame[where fl = fl, OF ok n]
  show ?thesis
  proof (cases "has_bits fl 0x400000")
    case True
    with new(1) ok show ?thesis by (simp add: k_open_body_def n)
  next
    case False
    let ?fo = "\<not> (has_bits fl O_CREAT \<and> has_bits fl O_EXCL) \<and> \<not> has_bits fl O_NOFOLLOW"
    let ?ex = "has_bits fl O_CREAT \<and> has_bits fl O_EXCL"
    have body: "k_open_body b p fl m s = (case k_resolve ?fo b p s of
        None \<Rightarrow> k_fail ELOOP s
      | Some e \<Rightarrow> (case k_lookup s e of
            None \<Rightarrow> (if has_bits fl O_CREAT then k_open_ino i fl (k_set_dent e i t) else k_fail ENOENT s)
          | Some j \<Rightarrow> (if ?ex then k_fail EEXIST s else k_open_existing j fl s)))"
      unfolding k_open_body_def Let_def n prod.case by (simp only: False if_False)
    show ?thesis
    proof (cases "k_resolve ?fo b p s")
      case None
      with ok show ?thesis unfolding body by simp
    next
      case (Some e)
      have e: "e \<notin> L" using ok Some by (rule k_resolve_notin)
      show ?thesis
      proof (cases "k_lookup s e")
        case None
        then show ?thesis unfolding body Some using new(2)[OF e] ok by simp
      next
        case (Some j)
        note ex = k_open_existing_frame[OF ok al safe False _ \<open>k_resolve ?fo b p s = Some e\<close> Some]
        show ?thesis unfolding body \<open>k_resolve ?fo b p s = Some e\<close> Some option.case
          using ok ex by (simp only: split: if_split) simp
      qed
    qed
  qed
qed

lemma k_open_frame:
  assumes ok: "cow_ok L s" and safe: "open_safe L s b p fl"
  shows "frame L s (snd (k_open b p fl m s))"
  unfolding k_open_def
proof (rule kcall_frame[OF ok])
  fix r s' assume c: "alive s" "core_eq s s'" "cow_ok L s'" "alive s'"
  have "open_safe L s' b p fl" using safe c by (auto simp: open_safe_def intro: unshared_path_core)
  then show "frame L s' (snd (k_open_body b p fl m s'))" using c by (intro k_open_body_frame)
qed

lemma k_open_rdonly_frame: "cow_ok L s \<Longrightarrow> frame L s (snd (k_open b p O_RDONLY m s))"
  by (rule k_open_frame) (simp_all add: open_safe_def flags_write_def)

end
