(* ===== verification/Cow_Safety.thy ===== *)
theory Cow_Safety
  imports Cow_Breaks
begin

text \<open>
  The isolation of the lower layer: the copy-up and every intercepted call, composed over any
  sequence of operations of a process.
\<close>

section \<open>The copy-up\<close>

lemma copy_up_data_frame:
  assumes g: "good_brk L brk" and ok: "cow_ok L s"
  shows "frame L s (snd (copy_up_data brk path tfd tmp sz s))"
proof -
  obtain r s1 where r: "k_open AtCwd path O_RDONLY 0 s = (r, s1)" by fastforce
  have f1: "frame L s s1" using k_open_rdonly_frame[OF ok, of AtCwd path 0] r by simp
  show ?thesis
  proof (cases r)
    case None
    have c: "frame L s (snd (hook_close (int tfd) s1))"
      by (rule frame_trans[OF f1 hook_close_frame[OF frame_ok[OF f1]]])
    show ?thesis
      using frame_trans[OF c fail_unlink_frame[OF frame_ok[OF c]]] by (simp add: copy_up_data_def r None)
  next
    case (Some sfd)
    obtain b s2 where b: "copy_file_fast (\<lambda>fd. ftruncate_with brk (int fd) 0) sfd tfd sz s1 = (b, s2)"
      by fastforce
    have f2: "frame L s s2"
      using frame_trans[OF f1 fast_frame[OF g frame_ok[OF f1], of sfd tfd sz]] b by simp
    have f3: "frame L s (snd (hook_close (int sfd) s2))"
      by (rule frame_trans[OF f2 hook_close_frame[OF frame_ok[OF f2]]])
    have f4: "frame L s (snd (hook_close (int tfd) (snd (hook_close (int sfd) s2))))"
      by (rule frame_trans[OF f3 hook_close_frame[OF frame_ok[OF f3]]])
    show ?thesis
      using f3 frame_trans[OF f4 fail_unlink_frame[OF frame_ok[OF f4]]]
      by (cases b) (simp_all add: copy_up_data_def r Some b)
  qed
qed

lemma copy_xattrs_step_frame:
  assumes g: "good_brk L brk" and ok: "cow_ok L s"
  shows "frame L s (case k_getxattr path n s of
          (None, s1) \<Rightarrow> s1
        | (Some v0, s1) \<Rightarrow>
            (if v0 = [] then s1
             else case k_getxattr path n s1 of
                    (None, s2) \<Rightarrow> s2
                  | (Some v, s2) \<Rightarrow> if v = [] then s2 else snd (lsetxattr_with brk tmp n v s2)))"
proof -
  obtain a s1 where a: "k_getxattr path n s = (a, s1)" by fastforce
  obtain b s2 where b: "k_getxattr path n s1 = (b, s2)" by fastforce
  have f1: "frame L s s1" using k_getxattr_frame[OF ok, of path n] a by simp
  have f2: "frame L s s2" using frame_trans[OF f1 k_getxattr_frame[OF frame_ok[OF f1], of path n]] b by simp
  show ?thesis
    using f1 f2 frame_trans[OF f2 lsetxattr_with_frame[OF g frame_ok[OF f2]]]
    by (cases a; cases b) (simp_all add: a b)
qed

lemma copy_xattrs_loop_frame:
  assumes g: "good_brk L brk"
  shows "cow_ok L s \<Longrightarrow> frame L s (copy_xattrs_loop brk path tmp ns s)"
proof (induction ns arbitrary: s)
  case (Cons n ns)
  note st = copy_xattrs_step_frame[where path = path and tmp = tmp and n = n, OF g Cons.prems]
  show ?case
    using frame_trans[OF st Cons.IH[OF frame_ok[OF st]]] by simp
qed simp

lemma copy_xattrs_frame:
  assumes g: "good_brk L brk" and ok: "cow_ok L s"
  shows "frame L s (copy_xattrs brk path tmp s)"
proof -
  obtain a s1 where a: "k_listxattr path s = (a, s1)" by fastforce
  obtain b s2 where b: "k_listxattr path s1 = (b, s2)" by fastforce
  have f1: "frame L s s1" using k_listxattr_frame[OF ok, of path] a by simp
  have f2: "frame L s s2" using frame_trans[OF f1 k_listxattr_frame[OF frame_ok[OF f1], of path]] b by simp
  show ?thesis
    using ok f1 f2 frame_trans[OF f2 copy_xattrs_loop_frame[OF g frame_ok[OF f2]]]
    by (cases a; cases b) (simp_all add: copy_xattrs_def a b)
qed

lemma copy_up_commit_frame:
  assumes ok: "cow_ok L s" and own: "own_reg L s (namei s AtCwd tmp)"
    and c: "copy_up_commit tmp path s = (r, t)"
  shows "frame L s t" and "r \<Longrightarrow> unshared_path L t AtCwd path"
proof -
  obtain f s1 where f: "cow_fail_step ''copyup.before_rename'' ENOMEM s = (f, s1)" by fastforce
  have f1: "frame L s s1" using core_eq_frame[OF ok core_eq_fail_step] f by (metis snd_conv)
  have own1: "own_reg L s1 (namei s1 AtCwd tmp)"
    using own_reg_frame[OF f1 own] frame_namei[OF f1] by simp
  obtain x s2 where x: "k_rename AtCwd tmp AtCwd path s1 = (x, s2)" by fastforce
  note rn = k_rename_commit[OF frame_ok[OF f1] own1, of path, unfolded x snd_conv fst_conv]
  have f2: "frame L s s2" by (rule frame_trans[OF f1 rn(1)])
  note u1 = frame_trans[OF f1 fail_unlink_frame[OF frame_ok[OF f1]]]
  note u2 = frame_trans[OF f2 fail_unlink_frame[OF frame_ok[OF f2]]]
  have e: "copy_up_commit tmp path s = (if f \<and> \<not> env_enabled ''PDOCKER_COW_FAIL_BEFORE_RENAME'' s1
      then (case x of None \<Rightarrow> fail_unlink tmp (errno s2) s2 | Some _ \<Rightarrow> (True, s2))
      else fail_unlink tmp ENOMEM s1)"
    by (cases f) (simp_all add: copy_up_commit_def f x)
  have t: "t = snd (copy_up_commit tmp path s)" and r: "r = fst (copy_up_commit tmp path s)" using c by simp_all
  show "frame L s t"
    unfolding t e using u1 u2 f2 by (auto split: option.splits)
  show "unshared_path L t AtCwd path" if r
    using that rn(2) unfolding t r e by (auto split: option.splits if_splits)
qed

lemma copy_up_file_frame:
  assumes g: "good_brk L brk" and ok: "cow_ok L s"
    and own: "own_reg L s (namei s AtCwd tmp)" and fd: "fd_unshared L s (int tfd)"
    and c: "copy_up_file brk path cd st tfd tmp s = (r, t)"
  shows "frame L s t \<and> (r \<longrightarrow> unshared_path L t AtCwd path)"
proof -
  define s1 where "s1 = snd (fchmod_with brk (int tfd) (st_mode st AND 0xFFF) s)"
  have f1: "frame L s s1" unfolding s1_def by (rule fchmod_with_frame[OF g ok fd])
  obtain b s2 where b: "(if cd then copy_up_data brk path tfd tmp (st_size st) s1 else (True, s1)) = (b, s2)"
    by fastforce
  have f2: "frame L s s2"
    using f1 frame_trans[OF f1 copy_up_data_frame[OF g frame_ok[OF f1], of path tfd tmp "st_size st"]] b
    by (auto split: if_splits)
  obtain d s3 where d: "hook_close (int tfd) s2 = (d, s3)" by fastforce
  have f3: "frame L s s3"
    using frame_trans[OF f2 hook_close_frame[OF frame_ok[OF f2], of "int tfd"]] d by simp
  define s4 where "s4 = copy_xattrs brk path tmp s3"
  have f4: "frame L s s4"
    unfolding s4_def by (rule frame_trans[OF f3 copy_xattrs_frame[OF g frame_ok[OF f3]]])
  have own4: "own_reg L s4 (namei s4 AtCwd tmp)"
    using own_reg_frame[OF f4 own] frame_namei[OF f4] by simp
  have e: "copy_up_file brk path cd st tfd tmp s =
      (if b then (if d then copy_up_commit tmp path s4 else fail_unlink tmp (errno s3) s3) else (False, s2))"
    by (cases b; cases d) (simp_all add: copy_up_file_def s1_def[symmetric] b d s4_def)
  obtain r' t' where k: "copy_up_commit tmp path s4 = (r', t')" by fastforce
  note cm = copy_up_commit_frame[OF frame_ok[OF f4] own4 k]
  note u3 = frame_trans[OF f3 fail_unlink_frame[OF frame_ok[OF f3]]]
  have t: "t = snd (copy_up_file brk path cd st tfd tmp s)"
    and r: "r = fst (copy_up_file brk path cd st tfd tmp s)" using c by simp_all
  show ?thesis
    unfolding t r e using f2 u3 cm frame_trans[OF f4 cm(1)] by (simp add: k)
qed

text \<open>A link of the container and one of the lower layer on the same inode: the link count is at least two.\<close>

lemma nlink_two:
  assumes "k_lookup s e = Some i" "k_lookup s e' = Some i" "e \<noteq> e'"
  shows "2 \<le> k_nlink s i"
proof -
  have m: "(e, i) \<in> set (filter (\<lambda>d. snd d = i) (dents s))" "(e', i) \<in> set (filter (\<lambda>d. snd d = i) (dents s))"
    using assms by (auto simp: k_lookup_def dest: map_of_SomeD)
  then have "card {(e, i), (e', i)} \<le> card (set (filter (\<lambda>d. snd d = i) (dents s)))"
    by (intro card_mono) auto
  also have "\<dots> \<le> k_nlink s i" unfolding k_nlink_def by (rule card_length)
  finally show ?thesis using assms(3) by simp
qed

lemma nlink_unshared:
  assumes ok: "cow_ok L s" and e: "e \<notin> L" "k_lookup s e = Some i" and n: "k_nlink s i \<le> 1"
  shows "unshared L s e"
proof -
  have "i \<notin> lower_inos L s"
  proof
    assume "i \<in> lower_inos L s"
    then obtain e' where "e' \<in> L" "k_lookup s e' = Some i" by (auto simp: lower_inos_def)
    with e nlink_two[of s e i e'] n show False by auto
  qed
  with e show ?thesis by (simp add: unshared_def)
qed

text \<open>What \<open>stat\<close> says of a path that needs no copy.\<close>

lemma k_stat_None_unshared:
  assumes ok: "cow_ok L s" and k: "k_stat True b p s = (None, t)"
  shows "unshared_path L t b p"
proof (cases "alive s")
  case False
  with k show ?thesis by (simp add: k_stat_def unshared_path_def)
next
  case True
  have ss: "stat_script s = []" using ok by (simp add: cow_ok_def)
  have same: "s\<lparr>stat_script := []\<rparr> = s" by (rule cow.equality) (simp_all add: ss)
  have "\<And>e. k_resolve True b p s = Some e \<Longrightarrow> unshared L s e"
    using k True by (auto simp: k_stat_def ss same Let_def unshared_def split: option.splits)
  then have "unshared_path L s b p" by (simp add: unshared_path_def)
  moreover have "core_eq s t" using k_stat_cases(1)[OF ok, of True b p] k by simp
  ultimately show ?thesis using True by (auto intro: unshared_path_core)
qed


lemma k_stat_SomeD:
  assumes ok: "cow_ok L s" and k: "k_stat follow b p s = (Some st, t)"
  obtains e i where "alive s" "core_eq s t" "k_resolve follow b p s = Some e" "k_lookup s e = Some i"
    "st = k_stat_inode s i"
proof -
  have ss: "stat_script s = []" using ok by (simp add: cow_ok_def)
  have same: "s\<lparr>stat_script := []\<rparr> = s" by (rule cow.equality) (simp_all add: ss)
  show ?thesis
    using k by (auto simp: k_stat_def ss same k_fail_def Let_def intro: that split: option.splits if_splits)
qed

lemma stat_done_unshared:
  assumes ok: "cow_ok L s" and k: "k_stat True b p s = (Some st, t)"
    and d: "st_kind st \<noteq> KReg \<or> st_nlink st \<le> 1"
  shows "unshared_path L t b p"
proof -
  obtain e i where e: "alive s" "core_eq s t" "k_resolve True b p s = Some e" "k_lookup s e = Some i"
    "st = k_stat_inode s i" using k_stat_SomeD[OF ok k] .
  have "e \<notin> L" using ok e(3) by (rule k_resolve_notin)
  then have "unshared L s e"
    using d e nlink_unshared[OF ok _ e(4)] unshared_kind[OF ok _ e(4)] by (auto simp: k_stat_inode_def)
  then have "unshared_path L s b p" by (simp add: unshared_path_def e(3))
  with e(1,2) show ?thesis by (auto intro: unshared_path_core)
qed

lemma break_stat_frame:
  "cow_ok L s \<Longrightarrow> break_hardlink_copy_stat n p cd follow s = (r, t) \<Longrightarrow>
   frame L s t \<and> (r \<longrightarrow> follow \<longrightarrow> unshared_path L t AtCwd p)"
proof (induction n arbitrary: p cd follow s r t)
  case 0
  then show ?case by (auto intro: core_eq_frame)
next
  case (Suc n)
  note ok = Suc.prems(1)
  have g: "good_brk L (\<lambda>p cd. break_hardlink_copy_stat n p cd True)"
    unfolding good_brk_def using Suc.IH by (metis prod.collapse)
  obtain x s1 where x: "k_stat follow AtCwd p s = (x, s1)" by fastforce
  have f1: "frame L s s1" using core_eq_frame[OF ok k_stat_cases(1)[OF ok, of follow AtCwd p]] x by simp
  show ?case
  proof (cases x)
    case None
    with Suc.prems x f1 show ?thesis by (auto dest: k_stat_None_unshared)
  next
    case (Some st)
    note x' = x[unfolded Some]
    show ?thesis
    proof (cases "st_kind st \<noteq> KReg \<or> st_nlink st \<le> 1")
      case True
      then have "t = s1" using Suc.prems(2) by (auto simp: x' split: if_splits)
      with f1 x' stat_done_unshared[OF ok _ True] show ?thesis by auto
    next
      case False
      show ?thesis
      proof (cases "tmp_stem p")
        case None
        then have "r = False" "t = s1\<lparr>errno := ENAMETOOLONG\<rparr>" using Suc.prems(2) False by (auto simp: x')
        then show ?thesis using frame_trans[OF f1 core_eq_frame[OF frame_ok[OF f1]]] by simp
      next
        case stem: (Some stem)
        obtain m s2 where m: "k_mkstemp stem s1 = (m, s2)" by fastforce
        show ?thesis
        proof (cases m)
          case None
          then have "r = False" "t = s2" using Suc.prems(2) False by (auto simp: x' stem m)
          then show ?thesis using frame_trans[OF f1 k_mkstemp_frame[OF frame_ok[OF f1], of stem]] m by simp
        next
          case (Some ft)
          obtain tfd tmp where ft: "ft = (tfd, tmp)" by fastforce
          note ms = k_mkstemp_Some[OF frame_ok[OF f1] m[unfolded Some ft]]
          have c: "copy_up_file (\<lambda>p cd. break_hardlink_copy_stat n p cd True) p cd st tfd tmp s2 = (r, t)"
            using Suc.prems(2) False by (simp add: x' stem m Some ft)
          have "frame L s2 t \<and> (r \<longrightarrow> unshared_path L t AtCwd p)"
            by (rule copy_up_file_frame[OF g frame_ok[OF ms(1)] ms(2,3) c])
          with frame_trans[OF f1 ms(1)] show ?thesis by (blast intro: frame_trans)
        qed
      qed
    qed
  qed
qed

lemma good_top: "good_brk L top_breaker"
  unfolding good_brk_def break_hardlink_copy_def
  using break_stat_frame by (metis option.simps(5) prod.collapse)

section \<open>Hooks\<close>

lemma frame_post_step:
  assumes b: "frame L s t" and n: "r \<Longrightarrow> frame L t (snd (g t))"
  shows "frame L s (snd (if r then g t else (False, t)))"
  using frame_trans[OF b n] b by simp

lemma break_path_frame:
  assumes ok: "cow_ok L s" and b: "break_hardlink_copy p cd s = (r, t)"
  shows "frame L s t" and "r \<Longrightarrow> p = Some q \<Longrightarrow> unshared_path L t AtCwd q"
  using break_stat_frame[OF ok, of break_fuel "the p" cd True r t] b ok
  by (auto simp: break_hardlink_copy_def split: option.splits)

lemma break_entry_frame: "cow_ok L s \<Longrightarrow> frame L s (snd (break_hardlink_copy_entry p cd s))"
  using break_stat_frame[of L s break_fuel "the p" cd False]
  by (cases p) (auto simp: break_hardlink_copy_entry_def, metis prod.collapse)

lemma on_path_frame:
  "cow_ok L s \<Longrightarrow> (\<And>p. q = Some p \<Longrightarrow> frame L s (snd (f p s))) \<Longrightarrow> frame L s (snd (on_path q f s))"
  by (simp add: on_path_def split: option.splits)

lemma break_then_setattr_frame:
  assumes ok: "cow_ok L s" and k: "keeps_kind f"
  shows "frame L s (snd (break_then_setattr follow p f s))"
proof -
  obtain r t where b: "break_hardlink_copy p True s = (r, t)" by fastforce
  note bf = break_path_frame[OF ok b]
  have "r \<Longrightarrow> frame L t (snd (on_path p (\<lambda>q. k_setattr follow AtCwd q f) t))"
    using frame_ok[OF bf(1)] bf(2) k by (intro on_path_frame k_setattr_frame) auto
  with bf(1) show ?thesis
    by (cases r) (auto simp: break_then_setattr_def break_hardlink_def b intro: frame_trans)
qed

end
