(* ===== verification/Cow_Run.thy ===== *)
theory Cow_Run
  imports Cow_Safety
begin

text \<open>
  A process under the preload shim: every intercepted call, the calls the shim does not intercept
  and that change files (\<open>write\<close>, \<open>unlink\<close>, \<open>link\<close>), and a change of the name walk (\<open>chdir\<close>, a mount).
  \<open>cow_allowed\<close> collects, per call, what the shim needs to keep the lower layer untouched; the calls
  it lets pass without conditions are \<open>True\<close> there.
\<close>

section \<open>Operations\<close>

datatype cow_op =
    OpInit
  | OpOpen "path option" u32 u32
  | OpOpenat int "path option" u32 u32
  | OpCreat "path option" u32
  | OpTruncate "path option" nat
  | OpFtruncate int nat
  | OpFopen "path option" string
  | OpFreopen "path option" string nat
  | OpRename path path
  | OpRenameat int path int path
  | OpChmod "path option" u32
  | OpChown "path option" "nat option" "nat option"
  | OpLchown "path option" "nat option" "nat option"
  | OpUtimes "path option" "int \<times> int"
  | OpSetxattr "path option" string string
  | OpLsetxattr "path option" string string
  | OpRemovexattr "path option" string
  | OpLremovexattr "path option" string
  | OpFchmodat int "path option" u32 bool
  | OpFchownat int "path option" "nat option" "nat option" bool
  | OpUtimensat int "path option" "int \<times> int" bool
  | OpFchmod int u32
  | OpFchown int "nat option" "nat option"
  | OpFutimens int "int \<times> int"
  | OpFsetxattr int string string
  | OpFremovexattr int string
  | OpClose int
  | OpDup int
  | OpDup2 int int
  | OpDup3 int int
  | OpSyscall csys
  | OpWrite nat string
  | OpUnlink path
  | OpLink path path
  | OpNamei "nbase \<Rightarrow> path \<Rightarrow> entry"

fun cow_step :: "cow_op \<Rightarrow> cow \<Rightarrow> cow" where
  "cow_step OpInit s = libcow_init s"
| "cow_step (OpOpen p fl m) s = snd (hook_open p fl m s)"
| "cow_step (OpOpenat d p fl m) s = snd (hook_openat d p fl m s)"
| "cow_step (OpCreat p m) s = snd (hook_creat p m s)"
| "cow_step (OpTruncate p n) s = snd (hook_truncate p n s)"
| "cow_step (OpFtruncate fd n) s = snd (hook_ftruncate fd n s)"
| "cow_step (OpFopen p m) s = snd (hook_fopen p m s)"
| "cow_step (OpFreopen p m fd) s = snd (hook_freopen p m fd s)"
| "cow_step (OpRename p q) s = snd (hook_rename p q s)"
| "cow_step (OpRenameat d p e q) s = snd (hook_renameat d p e q s)"
| "cow_step (OpChmod p m) s = snd (hook_chmod p m s)"
| "cow_step (OpChown p u g) s = snd (hook_chown p u g s)"
| "cow_step (OpLchown p u g) s = snd (hook_lchown p u g s)"
| "cow_step (OpUtimes p t) s = snd (hook_utimes p t s)"
| "cow_step (OpSetxattr p n v) s = snd (hook_setxattr p n v s)"
| "cow_step (OpLsetxattr p n v) s = snd (hook_lsetxattr p n v s)"
| "cow_step (OpRemovexattr p n) s = snd (hook_removexattr p n s)"
| "cow_step (OpLremovexattr p n) s = snd (hook_lremovexattr p n s)"
| "cow_step (OpFchmodat d p m nf) s = snd (hook_fchmodat d p m nf s)"
| "cow_step (OpFchownat d p u g nf) s = snd (hook_fchownat d p u g nf s)"
| "cow_step (OpUtimensat d p t nf) s = snd (hook_utimensat d p t nf s)"
| "cow_step (OpFchmod fd m) s = snd (hook_fchmod fd m s)"
| "cow_step (OpFchown fd u g) s = snd (hook_fchown fd u g s)"
| "cow_step (OpFutimens fd t) s = snd (hook_futimens fd t s)"
| "cow_step (OpFsetxattr fd n v) s = snd (hook_fsetxattr fd n v s)"
| "cow_step (OpFremovexattr fd n) s = snd (hook_fremovexattr fd n s)"
| "cow_step (OpClose fd) s = snd (hook_close fd s)"
| "cow_step (OpDup fd) s = snd (hook_dup fd s)"
| "cow_step (OpDup2 a b) s = snd (hook_dup2 a b s)"
| "cow_step (OpDup3 a b) s = snd (hook_dup3 a b s)"
| "cow_step (OpSyscall c) s = snd (hook_syscall c s)"
| "cow_step (OpWrite fd b) s = snd (k_write fd b s)"
| "cow_step (OpUnlink p) s = snd (k_unlink p s)"
| "cow_step (OpLink p q) s = snd (k_link p q s)"
| "cow_step (OpNamei f) s = s\<lparr>namei := f\<rparr>"

section \<open>What each call needs\<close>

text \<open>The path the shim copies up is the one the kernel will use.\<close>

definition at_ok :: "cow \<Rightarrow> int \<Rightarrow> path option \<Rightarrow> bool" where
  "at_ok s d p =
     (case p of None \<Rightarrow> True
      | Some q \<Rightarrow> (case fst (at_cow_path d p s) of
                     None \<Rightarrow> False
                   | Some r \<Rightarrow> namei s (at_base d) q = namei s AtCwd r))"

definition own_name :: "entry set \<Rightarrow> cow \<Rightarrow> nbase \<Rightarrow> path option \<Rightarrow> bool" where
  "own_name L s b p = (case p of None \<Rightarrow> True | Some q \<Rightarrow> unshared L s (namei s b q))"

definition own_fd :: "entry set \<Rightarrow> cow \<Rightarrow> int \<Rightarrow> bool" where
  "own_fd L s fd = (fdtab_path fd s \<noteq> None \<or> fd_unshared L s fd)"

fun sys_allowed :: "entry set \<Rightarrow> cow \<Rightarrow> csys \<Rightarrow> bool" where
  "sys_allowed L s (SysFchmodat d p m) =
     (if abs_or_cwd d p then at_ok s d p
      else (case p of None \<Rightarrow> True | Some q \<Rightarrow> unshared_path L s (at_base d) q))"
| "sys_allowed L s (SysFchownat d p u g nf) =
     (if abs_or_cwd d p \<and> \<not> nf then at_ok s d p
      else (case p of None \<Rightarrow> True | Some q \<Rightarrow> unshared_path L s (at_base d) q))"
| "sys_allowed L s (SysUtimensat d p t nf) =
     (if abs_or_cwd d p \<and> \<not> nf then at_ok s d p
      else (case p of None \<Rightarrow> fd_unshared L s d | Some q \<Rightarrow> unshared_path L s (at_base d) q))"
| "sys_allowed L s (SysFchmod fd m) = fd_unshared L (snd (syscall_break (SysFchmod fd m) s)) fd"
| "sys_allowed L s (SysFchown fd u g) = fd_unshared L (snd (syscall_break (SysFchown fd u g) s)) fd"
| "sys_allowed L s (SysFsetxattr fd n v) = fd_unshared L (snd (syscall_break (SysFsetxattr fd n v) s)) fd"
| "sys_allowed L s (SysFremovexattr fd n) = fd_unshared L (snd (syscall_break (SysFremovexattr fd n) s)) fd"
| "sys_allowed L s _ = True"

fun cow_allowed :: "entry set \<Rightarrow> cow \<Rightarrow> cow_op \<Rightarrow> bool" where
  "cow_allowed L s (OpOpenat d p fl m) = (flags_write fl \<longrightarrow> at_ok s d p)"
| "cow_allowed L s (OpLchown p u g) = own_name L s AtCwd p"
| "cow_allowed L s (OpFchmodat d p m nf) = at_ok s d p"
| "cow_allowed L s (OpFchownat d p u g nf) =
     (if nf then own_name L s (at_base d) p else at_ok s d p)"
| "cow_allowed L s (OpUtimensat d p t nf) =
     (case p of None \<Rightarrow> fd_unshared L s d
      | Some _ \<Rightarrow> if nf then own_name L s (at_base d) p else at_ok s d p)"
| "cow_allowed L s (OpFchmod fd m) = own_fd L s fd"
| "cow_allowed L s (OpFchown fd u g) = own_fd L s fd"
| "cow_allowed L s (OpFutimens fd t) = own_fd L s fd"
| "cow_allowed L s (OpFsetxattr fd n v) = own_fd L s fd"
| "cow_allowed L s (OpFremovexattr fd n) = own_fd L s fd"
| "cow_allowed L s (OpSyscall c) = sys_allowed L s c"
| "cow_allowed L s (OpNamei f) = (\<forall>b p. f b p \<notin> L)"
| "cow_allowed L s _ = True"

section \<open>Every call keeps the invariant and the lower layer\<close>

definition keeps :: "entry set \<Rightarrow> cow \<Rightarrow> cow \<Rightarrow> bool" where
  "keeps L s t \<longleftrightarrow> cow_ok L t \<and> lower_same L s t"

lemma keeps_refl [simp]: "cow_ok L s \<Longrightarrow> keeps L s s"
  by (simp add: keeps_def)

lemma keeps_trans: "keeps L s t \<Longrightarrow> keeps L t u \<Longrightarrow> keeps L s u"
  by (auto simp: keeps_def intro: lower_same_trans)

lemma frame_keeps: "frame L s t \<Longrightarrow> keeps L s t"
  by (simp add: keeps_def frame_def)

lemma kcall_keeps:
  assumes "cow_ok L s"
    and "\<And>r s'. alive s \<Longrightarrow> core_eq s s' \<Longrightarrow> cow_ok L s' \<Longrightarrow> alive s' \<Longrightarrow> keeps L s' (snd (f r s'))"
  shows "keeps L s (snd (kcall f s))"
  by (rule kcall_rel[where R = "keeps L", OF frame_keeps[OF core_eq_frame] keeps_trans assms])

text \<open>Giving another name to the inode of a container entry.\<close>

lemma set_dent_keeps:
  assumes ok: "cow_ok L s" and e: "e \<notin> L" and x: "x \<notin> L" and l: "k_lookup s x = Some i"
  shows "keeps L s (k_set_dent e i s)"
  unfolding keeps_def
  using ok x l by (intro conjI set_dent_ok[OF ok e k_lookup_lt[OF ok l]]) (auto simp: cow_ok_def)

lemma k_link_keeps: "cow_ok L s \<Longrightarrow> keeps L s (snd (k_link p q s))"
  unfolding k_link_def
proof (rule kcall_keeps, assumption)
  fix s' assume ok: "cow_ok L s'"
  then have "namei s' AtCwd p \<notin> L" "namei s' AtCwd q \<notin> L" by (simp_all add: cow_ok_def)
  with ok show "keeps L s' (snd (case k_lookup s' (namei s' AtCwd p) of
        None \<Rightarrow> k_fail ENOENT s'
      | Some i \<Rightarrow>
         (if ikind (inodes s' i) = KDir then k_fail EPERM s'
          else if k_lookup s' (namei s' AtCwd q) \<noteq> None then k_fail EEXIST s'
          else (Some (), k_set_dent (namei s' AtCwd q) i s'))))"
    by (auto split: option.splits intro: frame_keeps set_dent_keeps)
qed

lemma k_rename_keeps: "cow_ok L s \<Longrightarrow> keeps L s (snd (k_rename b1 p b2 q s))"
  unfolding k_rename_def
proof (rule kcall_keeps, assumption)
  fix s' assume ok: "cow_ok L s'"
  let ?e1 = "namei s' b1 p" and ?e2 = "namei s' b2 q"
  have e: "?e1 \<notin> L" "?e2 \<notin> L" using ok by (simp_all add: cow_ok_def)
  have d: "frame L s' (k_del_dent ?e1 s')" by (rule frame_del_dent[OF ok e(1)])
  have li: "lower_inos L (k_del_dent ?e1 s') = lower_inos L s'" using lower_inos_same[OF frame_same[OF d]] .
  have "keeps L s' (k_set_dent ?e2 i (k_del_dent ?e1 s'))" if l: "k_lookup s' ?e1 = Some i" for i
  proof -
    have "i < next_ino s'" "i \<in> lower_inos L s' \<Longrightarrow> ikind (inodes s' i) = KReg"
      using ok l e unfolding cow_ok_def by blast+
    then have "keeps L (k_del_dent ?e1 s') (k_set_dent ?e2 i (k_del_dent ?e1 s'))"
      unfolding keeps_def using li by (intro conjI set_dent_ok[OF frame_ok[OF d] e(2)]) simp_all
    then show ?thesis by (rule keeps_trans[OF frame_keeps[OF d]])
  qed
  with ok show "keeps L s' (snd (let e1 = ?e1; e2 = ?e2 in
      case k_lookup s' e1 of
        None \<Rightarrow> k_fail ENOENT s'
      | Some i \<Rightarrow>
         (if k_lookup s' e2 = Some i then (Some (), s')
          else (Some (), k_set_dent e2 i (k_del_dent e1 s')))))"
    by (auto simp: Let_def split: option.splits intro: frame_keeps)
qed


section \<open>Opening calls\<close>

lemma unshared_path_move:
  "unshared_path L t AtCwd r \<Longrightarrow> namei t b q = namei t AtCwd r \<Longrightarrow> unshared_path L t b q"
  by (simp add: unshared_path_def k_resolve_def)

lemma open_safe_move:
  "open_safe L t AtCwd r fl \<Longrightarrow> namei t b q = namei t AtCwd r \<Longrightarrow> open_safe L t b q fl"
  by (auto simp: open_safe_def intro: unshared_path_move)

lemma maybe_break_frame:
  assumes ok: "cow_ok L s" and b: "maybe_break p fl s = (r, t)"
  shows "frame L s t" and "r \<Longrightarrow> p = Some q \<Longrightarrow> open_safe L t AtCwd q fl"
  using ok b break_path_frame[OF ok, of p "\<not> fl AND O_TRUNC \<noteq> 0" r t]
  by (auto simp: maybe_break_def open_safe_def split: if_splits)

lemma remember_frame:
  assumes "frame L s t"
  shows "frame L s (remember_open_for_flags fd p fl t)" "frame L s (remember_open fd p t)"
    "frame L s (fdtab_set i c t)"
  by (auto intro!: frame_trans[OF assms] core_eq_frame frame_ok[OF assms])

lemma on_open_frame:
  assumes ok: "cow_ok L s" and safe: "\<And>q. p = Some q \<Longrightarrow> open_safe L s b q fl"
  shows "frame L s (snd (on_path p (\<lambda>q. k_open b q fl m) s))"
  using safe by (intro on_path_frame[OF ok] k_open_frame[OF ok])

lemma hook_open_frame: "cow_ok L s \<Longrightarrow> frame L s (snd (hook_open p fl m s))"
proof -
  assume ok: "cow_ok L s"
  obtain r t where b: "maybe_break p fl s = (r, t)" by fastforce
  note mb = maybe_break_frame[OF ok b]
  obtain x u where x: "on_path p (\<lambda>q. k_open AtCwd q fl (open_mode fl m)) t = (x, u)" by fastforce
  have "r \<Longrightarrow> frame L s u"
    using frame_trans[OF mb(1) on_open_frame[OF frame_ok[OF mb(1)] mb(2)]] by (metis snd_conv x)
  with mb(1) show ?thesis
    by (cases r; cases x) (simp_all add: hook_open_def b x remember_frame)
qed

lemma at_path_frame:
  assumes ok: "cow_ok L s" and a: "at_cow_path d p s = (cp, s0)"
  shows "frame L s s0" and "at_ok s d p \<Longrightarrow> p = Some q \<Longrightarrow> \<exists>r. cp = Some r \<and> namei s0 (at_base d) q = namei s0 AtCwd r"
proof -
  have c: "core_eq s s0" using core_eq_at_cow_path[of s d p] a by simp
  show "frame L s s0" using ok c by (rule core_eq_frame)
  show "at_ok s d p \<Longrightarrow> p = Some q \<Longrightarrow> \<exists>r. cp = Some r \<and> namei s0 (at_base d) q = namei s0 AtCwd r"
    using a c by (auto simp: at_ok_def core_eq_def split: option.splits)
qed

lemma hook_openat_frame:
  assumes ok: "cow_ok L s" and al: "flags_write fl \<Longrightarrow> at_ok s d p"
  shows "frame L s (snd (hook_openat d p fl m s))"
proof -
  obtain cp s0 where a: "at_cow_path d p s = (cp, s0)" by fastforce
  note ap = at_path_frame[OF ok a]
  obtain r t where b: "(case cp of None \<Rightarrow> (True, s0) | Some c \<Rightarrow> maybe_break (Some c) fl s0) = (r, t)" by fastforce
  have f: "frame L s t"
    using ap(1) frame_trans[OF ap(1) maybe_break_frame(1)[OF frame_ok[OF ap(1)], of cp fl r t]] b
    by (auto split: option.splits)
  have safe: "open_safe L t (at_base d) q fl" if r: "r" and pq: "p = Some q" for q
  proof (cases "flags_write fl")
    case False
    then show ?thesis by (simp add: open_safe_def)
  next
    case True
    then obtain x where x: "cp = Some x" "namei s0 (at_base d) q = namei s0 AtCwd x"
      using ap(2)[OF al pq] by blast
    note mb = maybe_break_frame[OF frame_ok[OF ap(1)], of cp fl r t]
    have os: "open_safe L t AtCwd x fl" using mb(2) b r x(1) by simp
    have "frame L s0 t" using mb(1) b x(1) by simp
    then show ?thesis using x(2) frame_namei by (intro open_safe_move[OF os]) simp
  qed
  obtain x u where x: "on_path p (\<lambda>q. k_open (at_base d) q fl (open_mode fl m)) t = (x, u)" by fastforce
  have "r \<Longrightarrow> frame L s u"
    using frame_trans[OF f on_open_frame[OF frame_ok[OF f] safe]] by (metis snd_conv x)
  with f show ?thesis
    by (cases r; cases x) (simp_all add: hook_openat_def a b x remember_frame)
qed

lemma hook_creat_frame: "cow_ok L s \<Longrightarrow> frame L s (snd (hook_creat p m s))"
proof -
  assume ok: "cow_ok L s"
  obtain r t where b: "break_hardlink_copy p False s = (r, t)" by fastforce
  note bf = break_path_frame[OF ok b]
  obtain x u where x: "on_path p (\<lambda>q. k_open AtCwd q (O_WRONLY OR O_CREAT OR O_TRUNC) m) t = (x, u)" by fastforce
  have "r \<Longrightarrow> frame L s u"
    using frame_trans[OF bf(1) on_open_frame[OF frame_ok[OF bf(1)]]] bf(2)
    by (metis (no_types) open_safe_def snd_conv x)
  with bf(1) show ?thesis
    by (cases r; cases x) (simp_all add: hook_creat_def b x[simplified] remember_frame)
qed

lemma fopen_flags_read: "fopen_flags mode = Some fl \<Longrightarrow> \<not> mode_write mode \<Longrightarrow> \<not> flags_write fl"
proof -
  assume fl: "fopen_flags mode = Some fl" and nw: "\<not> mode_write mode"
  have mw: "mode_write m \<longleftrightarrow> (\<exists>c\<in>set m. c = CHR ''w'' \<or> c = CHR ''a'' \<or> c = CHR ''+'')" for m
    by (induction m) auto
  have "CHR ''+'' \<notin> set (take 6 (tl mode))"
    using nw mw in_set_takeD[of "CHR ''+''" 6 "tl mode"] by (cases mode) auto
  with fl nw show ?thesis
    unfolding mw by (cases mode) (auto simp: fopen_flags_def Let_def flags_write_def split: if_splits)
qed

lemma hook_fopen_frame: "cow_ok L s \<Longrightarrow> frame L s (snd (hook_fopen p mode s))"
proof -
  assume ok: "cow_ok L s"
  have op: "frame L t (snd (on_path p (\<lambda>q. libc_fopen q mode) t))"
    if "cow_ok L t" "\<And>q fl. p = Some q \<Longrightarrow> fopen_flags mode = Some fl \<Longrightarrow> open_safe L t AtCwd q fl" for t
    using that by (auto intro!: on_path_frame k_open_frame simp: libc_fopen_def split: option.splits)
  obtain r t where b: "break_hardlink_copy p (\<not> mode_truncates mode) s = (r, t)" by fastforce
  note bf = break_path_frame[OF ok b]
  have w: "r \<Longrightarrow> frame L s (snd (on_path p (\<lambda>q. libc_fopen q mode) t))"
    using bf(2) by (intro frame_trans[OF bf(1) op[OF frame_ok[OF bf(1)]]]) (auto simp: open_safe_def)
  have n: "\<not> mode_write mode \<Longrightarrow> frame L s (snd (on_path p (\<lambda>q. libc_fopen q mode) s))"
    using fopen_flags_read by (intro op[OF ok]) (auto simp: open_safe_def)
  show ?thesis using bf(1) w n by (cases r) (auto simp: hook_fopen_def b)
qed

lemma unshared_path_close:
  assumes "unshared_path L s b p" "k_close fd s = (r, t)"
  shows "unshared_path L t b p"
proof -
  have c: "alive t = alive s \<and> dents t = dents s \<and> inodes t = inodes s \<and> namei t = namei s"
    using assms(2) by (auto simp: k_close_def kcall_def k_fail_def split: if_splits option.splits list.splits kreply.splits)
  then have l: "k_lookup t = k_lookup s" by (simp add: k_lookup_def fun_eq_iff)
  have "k_walk n t e = k_walk n s e" for n e
    by (induction n arbitrary: e) (auto simp: l c split: option.splits ikind.splits)
  then show ?thesis using assms(1) by (simp add: unshared_path_def unshared_def lower_inos_def k_resolve_def l c)
qed

lemma hook_freopen_frame: "cow_ok L s \<Longrightarrow> frame L s (snd (hook_freopen p mode fd s))"
proof -
  assume ok: "cow_ok L s"
  have op: "frame L t (snd (libc_freopen p mode fd t))"
    if t: "cow_ok L t" and sf: "\<And>q. p = Some q \<Longrightarrow> mode_write mode \<Longrightarrow> unshared_path L t AtCwd q" for t
  proof (cases p)
    case (Some q)
    obtain r u where k: "k_close (int fd) t = (r, u)" by fastforce
    have f: "frame L t u" using k_close_frame[OF t, of "int fd"] k by simp
    have "frame L u (snd (libc_fopen q mode u))"
      using frame_ok[OF f] unshared_path_close[OF sf[OF Some] k] fopen_flags_read[of mode]
      by (cases "mode_write mode") (auto simp: libc_fopen_def open_safe_def split: option.splits intro!: k_open_frame)
    then show ?thesis using f k Some by (auto simp: libc_freopen_def intro: frame_trans)
  qed (simp add: libc_freopen_def t)
  obtain r t where b: "break_hardlink_copy p (\<not> mode_truncates mode) s = (r, t)" by fastforce
  note bf = break_path_frame[OF ok b]
  have "r \<Longrightarrow> frame L s (snd (libc_freopen p mode fd t))"
    using bf(2) by (intro frame_trans[OF bf(1) op[OF frame_ok[OF bf(1)]]]) simp
  moreover have "\<not> (p \<noteq> None \<and> mode_write mode) \<Longrightarrow> frame L s (snd (libc_freopen p mode fd s))"
    by (intro op[OF ok]) auto
  ultimately show ?thesis using bf(1) by (cases r) (auto simp: hook_freopen_def b)
qed


section \<open>Truncation, rename, metadata\<close>

lemma hook_truncate_frame: "cow_ok L s \<Longrightarrow> frame L s (snd (hook_truncate p n s))"
proof -
  assume ok: "cow_ok L s"
  obtain r t where b: "break_hardlink_copy p (n \<noteq> 0) s = (r, t)" by fastforce
  note bf = break_path_frame[OF ok b]
  have "r \<Longrightarrow> frame L t (snd (on_path p (\<lambda>q. k_truncate q n) t))"
    using bf(2) by (intro on_path_frame[OF frame_ok[OF bf(1)]] k_truncate_frame[OF frame_ok[OF bf(1)]])
  with bf(1) show ?thesis
    by (cases r) (auto simp: hook_truncate_def b[simplified] intro: frame_trans)
qed

lemma same_entry_frame: "cow_ok L s \<Longrightarrow> frame L s (snd (same_existing_entry sb src db dst s))"
proof -
  assume ok: "cow_ok L s"
  obtain x s1 where x: "k_stat False sb src s = (x, s1)" by fastforce
  obtain y s2 where y: "k_stat False db dst s1 = (y, s2)" by fastforce
  have f1: "frame L s s1" using core_eq_frame[OF ok k_stat_cases(1)[OF ok, of False sb src]] x by simp
  have f2: "frame L s s2"
    using frame_trans[OF f1 core_eq_frame[OF frame_ok[OF f1] k_stat_cases(1)[OF frame_ok[OF f1], of False db dst]]] y
    by simp
  show ?thesis using f1 f2 by (cases x; cases y) (simp_all add: same_existing_entry_def x y)
qed

lemma prepare_frame: "cow_ok L s \<Longrightarrow> frame L s (snd (prepare_rename_destination sb src db dst rd s))"
proof -
  assume ok: "cow_ok L s"
  obtain b s1 where b: "same_existing_entry sb src db dst s = (b, s1)" by fastforce
  have f1: "frame L s s1" using same_entry_frame[OF ok, of sb src db dst] b by simp
  show ?thesis
    using f1 frame_trans[OF f1 break_entry_frame[OF frame_ok[OF f1]]]
    by (cases b) (simp_all add: prepare_rename_destination_def b)
qed

lemma hook_rename_keeps: "cow_ok L s \<Longrightarrow> keeps L s (snd (hook_rename p q s))"
proof -
  assume ok: "cow_ok L s"
  obtain b t where b: "prepare_rename_destination AtCwd p AtCwd q q s = (b, t)" by fastforce
  have f: "keeps L s t" using frame_keeps[OF prepare_frame[OF ok, of AtCwd p AtCwd q q]] b by simp
  then have "cow_ok L t" by (simp add: keeps_def)
  with f show ?thesis
    by (cases b) (auto simp: hook_rename_def b intro: keeps_trans k_rename_keeps)
qed

lemma hook_renameat_keeps: "cow_ok L s \<Longrightarrow> keeps L s (snd (hook_renameat sd p dd q s))"
proof -
  assume ok: "cow_ok L s"
  obtain cp s0 where a: "at_cow_path dd (Some q) s = (cp, s0)" by fastforce
  note ap = at_path_frame(1)[OF ok a]
  obtain b t where b: "(case cp of None \<Rightarrow> (True, s0)
      | Some rd \<Rightarrow> prepare_rename_destination (at_base sd) p (at_base dd) q rd s0) = (b, t)" by fastforce
  have f: "keeps L s t"
    using frame_keeps[OF ap] frame_keeps[OF frame_trans[OF ap prepare_frame[OF frame_ok[OF ap]]],
      of "at_base sd" p "at_base dd" q "the cp"] b
    by (cases cp) simp_all
  then have "cow_ok L t" by (simp add: keeps_def)
  with f show ?thesis
    by (cases b) (auto simp: hook_renameat_def a b intro: keeps_trans k_rename_keeps)
qed

text \<open>Metadata by path: the entry is the container's own, or the break made it so.\<close>

lemma k_setattr_nofollow_frame:
  assumes ok: "cow_ok L s" and u: "unshared L s (namei s b p)" and k: "keeps_kind f"
  shows "frame L s (snd (k_setattr False b p f s))"
  unfolding k_setattr_def
proof (rule kcall_frame[OF ok])
  fix r s' assume c: "core_eq s s'" "cow_ok L s'"
  have "k_lookup s' = k_lookup s" "namei s' = namei s"
    using c by (simp_all add: fun_eq_iff k_lookup_def core_eq_def)
  then show "frame L s' (snd (case k_resolve False b p s' of None \<Rightarrow> k_fail ELOOP s'
      | Some e \<Rightarrow> (case k_lookup s' e of None \<Rightarrow> k_fail ENOENT s'
        | Some i \<Rightarrow> (Some (), k_upd_inode i f s'))))"
    using c u k by (auto simp: k_resolve_def unshared_def lower_inos_def split: option.splits intro!: frame_upd_inode)
qed

lemma hook_lchown_frame:
  "cow_ok L s \<Longrightarrow> own_name L s AtCwd p \<Longrightarrow> frame L s (snd (hook_lchown p u g s))"
  by (auto simp: hook_lchown_def own_name_def on_path_def split: option.splits intro: k_setattr_nofollow_frame)

text \<open>The shape shared by the \<open>*at\<close> hooks: copy up the resolved path, then change through \<open>dirfd\<close>.\<close>

lemma at_setattr_frame:
  assumes ok: "cow_ok L s" and al: "at_ok s d p" and k: "keeps_kind f"
    and a: "at_cow_path d p s = (cp, s0)"
    and b: "(case cp of None \<Rightarrow> (True, s0) | Some c \<Rightarrow> break_hardlink (Some c) s0) = (r, t)"
  shows "frame L s t" and "r \<Longrightarrow> frame L s (snd (on_path p (\<lambda>q. k_setattr fo (at_base d) q f) t))"
proof -
  note ap = at_path_frame[OF ok a]
  show f: "frame L s t"
    using ap(1) frame_trans[OF ap(1) break_path_frame(1)[OF frame_ok[OF ap(1)], of cp True r t]] b
    by (auto simp: break_hardlink_def split: option.splits)
  assume r: r
  have "unshared_path L t (at_base d) q" if pq: "p = Some q" for q
  proof -
    obtain x where x: "cp = Some x" "namei s0 (at_base d) q = namei s0 AtCwd x" using ap(2)[OF al pq] by blast
    note bf = break_path_frame[OF frame_ok[OF ap(1)], of "Some x" True r t]
    have up: "unshared_path L t AtCwd x" and fr: "frame L s0 t"
      using bf b r x(1) by (simp_all add: break_hardlink_def)
    show ?thesis using x(2) frame_namei[OF fr] by (intro unshared_path_move[OF up]) simp
  qed
  then show "frame L s (snd (on_path p (\<lambda>q. k_setattr fo (at_base d) q f) t))"
    by (intro frame_trans[OF f] on_path_frame k_setattr_frame frame_ok[OF f] k)
qed

lemma hook_fchmodat_frame:
  assumes ok: "cow_ok L s" and al: "at_ok s d p"
  shows "frame L s (snd (hook_fchmodat d p m nf s))"
proof -
  obtain cp s0 where a: "at_cow_path d p s = (cp, s0)" by fastforce
  obtain r t where b: "(case cp of None \<Rightarrow> (True, s0) | Some c \<Rightarrow> break_hardlink (Some c) s0) = (r, t)" by fastforce
  show ?thesis
    using at_setattr_frame(1)[where f = "set_mode m", OF ok al _ a b]
      at_setattr_frame(2)[where f = "set_mode m" and fo = "\<not> nf", OF ok al _ a b]
    by (cases r) (simp_all add: hook_fchmodat_def a b)
qed

lemma on_own_name_frame:
  assumes "cow_ok L s" "own_name L s b p" "keeps_kind f"
  shows "frame L s (snd (on_path p (\<lambda>q. k_setattr False b q f) s))"
  using assms by (auto simp: own_name_def on_path_def split: option.splits intro: k_setattr_nofollow_frame)

lemma own_name_frame_core: "core_eq s t \<Longrightarrow> own_name L s b p \<Longrightarrow> own_name L t b p"
proof -
  assume eq: "core_eq s t" and u: "own_name L s b p"
  have lk: "k_lookup t = k_lookup s" using eq by (simp add: fun_eq_iff k_lookup_def core_eq_def)
  then show ?thesis
    using u eq by (simp add: own_name_def unshared_def lower_inos_def lk core_eq_def split: option.splits)
qed

lemma hook_fchownat_frame:
  assumes ok: "cow_ok L s" and al: "if nf then own_name L s (at_base d) p else at_ok s d p"
  shows "frame L s (snd (hook_fchownat d p u g nf s))"
proof -
  obtain cp s0 where a: "at_cow_path d p s = (cp, s0)" by fastforce
  show ?thesis
  proof (cases nf)
    case False
    obtain r t where b: "(case cp of None \<Rightarrow> (True, s0) | Some c \<Rightarrow> break_hardlink (Some c) s0) = (r, t)"
      by fastforce
    have at: "at_ok s d p" using al False by simp
    have "(if cp \<noteq> None \<and> \<not> nf then break_hardlink cp s0 else (True, s0)) = (r, t)"
      using b False by (cases cp) auto
    then show ?thesis
      using at_setattr_frame(1)[where f = "set_owner u g", OF ok at _ a b]
      at_setattr_frame(2)[where f = "set_owner u g" and fo = "\<not> nf", OF ok at _ a b]
      by (cases r) (simp_all add: hook_fchownat_def a)
  next
    case True
    have c: "core_eq s s0" using core_eq_at_cow_path[of s d p] a by simp
    have f: "frame L s s0" using ok c by (rule core_eq_frame)
    have "own_name L s0 (at_base d) p" using al True own_name_frame_core[OF c] by simp
    then show ?thesis
      using True frame_trans[OF f on_own_name_frame[OF frame_ok[OF f]]]
      by (simp add: hook_fchownat_def a)
  qed
qed

lemma hook_utimensat_alt:
  "hook_utimensat d (Some p) t False s =
     (let (cp, s0) = at_cow_path d (Some p) s in
      case (case cp of None \<Rightarrow> (True, s0) | Some c \<Rightarrow> break_hardlink (Some c) s0) of
        (False, s1) \<Rightarrow> (False, s1)
      | (True, s1) \<Rightarrow> cret (on_path (Some p) (\<lambda>q. k_setattr True (at_base d) q (set_times t)) s1))"
  by (auto simp: hook_utimensat_def at_cow_path_def on_path_def k_utimensat_def split: option.splits prod.splits bool.splits)

lemma hook_utimensat_frame:
  assumes ok: "cow_ok L s"
    and al: "case p of None \<Rightarrow> fd_unshared L s d
      | Some _ \<Rightarrow> if nf then own_name L s (at_base d) p else at_ok s d p"
  shows "frame L s (snd (hook_utimensat d p t nf s))"
proof (cases p)
  case None
  with al ok show ?thesis by (simp add: hook_utimensat_def k_utimensat_def k_fsetattr_frame)
next
  case (Some q)
  show ?thesis
  proof (cases nf)
    case True
    with al ok Some show ?thesis
      by (simp add: hook_utimensat_def k_utimensat_def own_name_def k_setattr_nofollow_frame)
  next
    case False
    obtain cp s0 where a: "at_cow_path d p s = (cp, s0)" by fastforce
    obtain r u where b: "(case cp of None \<Rightarrow> (True, s0) | Some c \<Rightarrow> break_hardlink (Some c) s0) = (r, u)"
      by fastforce
    have at: "at_ok s d p" using al False Some by simp
    have e: "hook_utimensat d p t nf s = (if r then cret (on_path p (\<lambda>q. k_setattr True (at_base d) q (set_times t)) u)
        else (False, u))"
      unfolding Some False[simplified] using a b by (cases r) (simp_all add: hook_utimensat_alt Some False)
    show ?thesis
      unfolding e using at_setattr_frame(1)[where f = "set_times t", OF ok at _ a b]
      at_setattr_frame(2)[where f = "set_times t" and fo = "True", OF ok at _ a b] by simp
  qed
qed

end
