(* ===== verification/Cow_Isolation.thy ===== *)
theory Cow_Isolation
  imports Cow_Run
begin

text \<open>
  The descriptor calls, the \<open>syscall\<close> catch-all, and the composition: over any sequence of allowed
  calls the lower layer does not change.
\<close>

section \<open>Descriptor calls\<close>

lemma fd_break_setattr_frame:
  assumes ok: "cow_ok L s" and al: "own_fd L s fd" and k: "keeps_kind f"
  shows "frame L s (snd (fd_break_then_setattr fd f s))"
proof (cases "fdtab_path fd s")
  case None
  with al ok k show ?thesis by (simp add: fd_break_then_setattr_def own_fd_def k_fsetattr_frame)
next
  case (Some p)
  obtain r t where b: "break_hardlink_copy (Some p) True s = (r, t)" by fastforce
  note bf = break_path_frame[OF ok b]
  have "r \<Longrightarrow> frame L s (snd (k_setattr True AtCwd p f t))"
    using bf(2) by (intro frame_trans[OF bf(1) k_setattr_frame[OF frame_ok[OF bf(1)] _ k]]) simp
  with bf(1) show ?thesis
    by (cases r) (simp_all add: fd_break_then_setattr_def Some break_hardlink_def b)
qed

lemma hook_ftruncate_frame: "cow_ok L s \<Longrightarrow> frame L s (snd (hook_ftruncate fd n s))"
  unfolding hook_ftruncate_def by (rule ftruncate_with_frame[OF good_top])

lemma k_dup_frame: "cow_ok L s \<Longrightarrow> frame L s (snd (k_dup fd s))"
  unfolding k_dup_def
  by (rule kcall_frame) (auto split: option.splits intro: frame_fds_update dest: k_ofd_map)

lemma k_dup2_frame: "cow_ok L s \<Longrightarrow> frame L s (snd (k_dup2 a b s))"
  unfolding k_dup2_def
  by (rule kcall_frame) (auto split: option.splits intro: frame_fds_update dest: k_ofd_map)

lemma k_dup3_frame: "cow_ok L s \<Longrightarrow> frame L s (snd (k_dup3 a b s))"
  by (simp add: k_dup3_def k_dup2_frame)

lemma hook_dup_frame: "cow_ok L s \<Longrightarrow> frame L s (snd (hook_dup fd s))"
  using k_dup_frame[of L s fd]
  by (auto simp: hook_dup_def Let_def remember_frame split: prod.splits option.splits)

lemma hook_dup2_frame: "cow_ok L s \<Longrightarrow> frame L s (snd (hook_dup2 a b s))"
  using k_dup2_frame[of L s a b]
  by (auto simp: hook_dup2_def remember_frame split: prod.splits option.splits)

lemma hook_dup3_frame: "cow_ok L s \<Longrightarrow> frame L s (snd (hook_dup3 a b s))"
  using k_dup3_frame[of L s a b]
  by (auto simp: hook_dup3_def remember_frame split: prod.splits option.splits)

section \<open>The \<open>syscall\<close> catch-all\<close>

lemma break_tracked_frame: "cow_ok L s \<Longrightarrow> frame L s (snd (break_tracked fd cd s))"
  using break_path_frame(1)[of L s "fdtab_path fd s" cd]
  by (cases "fdtab_path fd s") (auto simp: break_tracked_def intro: prod.collapse[symmetric])

lemma syscall_break_frame: "cow_ok L s \<Longrightarrow> frame L s (snd (syscall_break c s))"
proof -
  assume ok: "cow_ok L s"
  have b: "frame L s (snd (break_hardlink_copy p cd s))" for p cd
    using break_path_frame(1)[OF ok, of p cd] by (metis prod.collapse)
  show ?thesis
    using ok by (cases c) (simp_all add: break_hardlink_def b break_tracked_frame)
qed

text \<open>The kernel's part of the call is safe in the state after the break.\<close>

lemma path_break_sys:
  assumes ok: "cow_ok L s" and b: "break_hardlink_copy p cd s = (True, t)"
    and f: "\<And>q. p = Some q \<Longrightarrow> cow_ok L t \<Longrightarrow> unshared_path L t AtCwd q \<Longrightarrow> frame L t (snd (f q t))"
  shows "frame L t (snd (on_path p f t))"
proof -
  note okt = frame_ok[OF break_path_frame(1)[OF ok b]]
  show ?thesis
  proof (rule on_path_frame[OF okt])
    fix q assume q: "p = Some q"
    show "frame L t (snd (f q t))" by (rule f[OF q okt break_path_frame(2)[OF ok b TrueI q]])
  qed
qed

lemma at_sys_setattr:
  assumes ok: "cow_ok L s" and b: "(if abs_or_cwd d p \<and> x then break_hardlink p s else (True, s)) = (True, t)"
    and k: "keeps_kind f"
    and al: "if abs_or_cwd d p \<and> x then at_ok s d p
      else (case p of None \<Rightarrow> True | Some q \<Rightarrow> unshared_path L s (at_base d) q)"
  shows "frame L t (snd (on_path p (\<lambda>q. k_setattr fo (at_base d) q f) t))"
proof (cases p)
  case None
  with ok b show ?thesis by (simp add: on_path_def abs_or_cwd_def)
next
  case (Some q)
  show ?thesis
  proof (cases "abs_or_cwd d p \<and> x")
    case False
    have "t = s" using b unfolding if_not_P[OF False] by simp
    moreover have "unshared_path L s (at_base d) q" using al Some unfolding if_not_P[OF False] by simp
    ultimately show ?thesis using ok k Some by (simp add: on_path_def k_setattr_frame)
  next
    case True
    then have nm: "namei s (at_base d) q = namei s AtCwd q"
      using al Some by (auto simp: at_ok_def at_cow_path_def abs_or_cwd_def split: if_splits)
    have bk: "break_hardlink_copy p True s = (True, t)" using b True by (simp add: break_hardlink_def)
    note bf = break_path_frame[OF ok bk]
    have "unshared_path L t (at_base d) q"
      by (rule unshared_path_move[OF bf(2)[OF TrueI Some]]) (simp only: frame_namei[OF bf(1)] nm)
    then show ?thesis
      using frame_ok[OF bf(1)] k Some by (simp add: on_path_def k_setattr_frame)
  qed
qed

lemma hook_syscall_frame:
  assumes ok: "cow_ok L s" and al: "sys_allowed L s c"
  shows "frame L s (snd (hook_syscall c s))"
proof -
  obtain r t where b: "syscall_break c s = (r, t)" by fastforce
  have f: "frame L s t" using syscall_break_frame[OF ok, of c] b by simp
  note okt = frame_ok[OF f]
  have "frame L t (snd (real_syscall c t))" if "r"
    using that b al okt
  proof (cases c)
    case c: (SysUtimensat d p tm nf)
    show ?thesis
    proof (cases p)
      case None
      with c that b al okt show ?thesis by (simp add: k_utimensat_def abs_or_cwd_def k_fsetattr_frame)
    next
      case (Some q)
      have "(if abs_or_cwd d p \<and> \<not> nf then break_hardlink p s else (True, s)) = (True, t)"
        using c that b by simp
      moreover have "if abs_or_cwd d p \<and> \<not> nf then at_ok s d p
          else (case p of None \<Rightarrow> True | Some q \<Rightarrow> unshared_path L s (at_base d) q)"
        using c al Some by (simp split: if_splits)
      ultimately have "frame L t (snd (on_path p (\<lambda>q. k_setattr (\<not> nf) (at_base d) q (set_times tm)) t))"
        by (intro at_sys_setattr[OF ok]) simp_all
      with c Some show ?thesis by (simp add: k_utimensat_def on_path_def)
    qed
  qed (simp_all add: break_hardlink_def path_break_sys[OF ok] k_setattr_frame k_truncate_frame
      k_ftruncate_frame k_fsetattr_frame k_close_frame at_sys_setattr[OF ok, where x = True, simplified]
      at_sys_setattr[OF ok])
  then show ?thesis using f by (cases r) (auto simp: hook_syscall_def b intro: frame_trans)
qed

section \<open>One step, any run\<close>

lemmas hook_frames = hook_open_frame hook_openat_frame hook_creat_frame hook_truncate_frame
  hook_ftruncate_frame hook_fopen_frame hook_freopen_frame hook_lchown_frame hook_fchmodat_frame hook_fchownat_frame
  hook_utimensat_frame hook_close_frame hook_dup_frame hook_dup2_frame hook_dup3_frame
  hook_syscall_frame k_write_frame k_unlink_frame fd_break_setattr_frame break_then_setattr_frame

lemmas setattr_hooks = hook_chmod_def hook_chown_def hook_utimes_def hook_setxattr_def hook_lsetxattr_def
  hook_removexattr_def hook_lremovexattr_def hook_fchmod_def hook_fchown_def hook_futimens_def
  hook_fsetxattr_def hook_fremovexattr_def

lemma init_frame: "cow_ok L s \<Longrightarrow> frame L s (libcow_init s)"
  by (rule core_eq_frame) (simp_all add: libcow_init_def core_eq_def)

lemma namei_keeps:
  assumes ok: "cow_ok L s" and f: "\<forall>b p. f b p \<notin> L"
  shows "keeps L s (s\<lparr>namei := f\<rparr>)"
proof -
  have lk: "k_lookup (s\<lparr>namei := f\<rparr>) = k_lookup s" by (simp add: fun_eq_iff k_lookup_def)
  have li: "lower_inos L (s\<lparr>namei := f\<rparr>) = lower_inos L s" by (simp add: lower_inos_def lk)
  have fd: "fd_ok L (s\<lparr>namei := f\<rparr>) = fd_ok L s" by (simp add: fun_eq_iff fd_ok_def li)
  show ?thesis using ok f by (simp add: keeps_def cow_ok_def lower_same_def lk li fd)
qed

lemma cow_step_keeps: "cow_ok L s \<Longrightarrow> cow_allowed L s a \<Longrightarrow> keeps L s (cow_step a s)"
  by (cases a)
    (simp_all add: setattr_hooks hook_frames frame_keeps hook_rename_keeps hook_renameat_keeps
      k_link_keeps namei_keeps init_frame split: option.splits)

interpretation shim: guarded_system cow_step "cow_allowed L" "cow_ok L" "lower_same L" for L
proof (unfold_locales)
  show "cow_ok L s \<Longrightarrow> cow_allowed L s a \<Longrightarrow> cow_ok L (cow_step a s)" for s a
    using cow_step_keeps by (auto simp: keeps_def)
  show "cow_ok L s \<Longrightarrow> cow_allowed L s a \<Longrightarrow> lower_same L s (cow_step a s)" for s a
    using cow_step_keeps by (auto simp: keeps_def)
qed (auto intro: lower_same_trans)

end
