(* ===== verification/Cow_Copy.thy ===== *)
theory Cow_Copy
  imports Cow_Hooks
begin

text \<open>
  The copy loops move the bytes exactly, whatever short transfers, interruptions and refusals the
  kernel answers with: the temporary file ends up equal to the source, or the loop reports failure;
  the fuel is never exhausted.
\<close>

section \<open>The read and write loop\<close>

lemma write_all_copying:
  "copying sfd tfd i j D k pre s \<Longrightarrow> write_all tfd buf s = (r, t) \<Longrightarrow>
   only_data j s t \<and> (r \<longrightarrow> copying sfd tfd i j D k (pre @ buf) t)"
proof (induction tfd buf s arbitrary: pre rule: write_all.induct)
  case (1 tfd buf s)
  show ?case
  proof (cases "buf = [] \<or> \<not> alive s")
    case True
    then show ?thesis using 1(3,4) by (auto simp: write_all.simps[of tfd buf s])
  next
    case False
    obtain x s' where k: "k_write tfd buf s = (x, s')" by fastforce
    note kw = k_write_copying[OF 1(3) k]
    show ?thesis
    proof (cases x)
      case None
      have c: "copying sfd tfd i j D k pre s'" using kw(2) None by simp
      show ?thesis
        using 1(1)[OF False k[symmetric] None _ c] kw(1) 1(4) False
        by (auto simp: write_all.simps[of tfd buf s] k None intro: only_data_trans split: if_splits)
    next
      case (Some w)
      have c: "copying sfd tfd i j D k (pre @ take w buf) s'" using kw(3) Some by simp
      have e: "write_all tfd (drop w buf) s' = (r, t)"
        using 1(4) False by (simp add: write_all.simps[of tfd buf s] k Some)
      have "only_data j s' t \<and> (r \<longrightarrow> copying sfd tfd i j D k ((pre @ take w buf) @ drop w buf) t)"
        using 1(2)[OF False k[symmetric] Some c e] .
      with kw(1) show ?thesis by (auto intro: only_data_trans)
    qed
  qed
qed

text \<open>The read/write loop: \<open>length D + 1 - k\<close> reads are enough.\<close>

lemma fallback_loop_copying:
  "copying sfd tfd i j D k (take k D) s \<Longrightarrow> length D < n + k \<Longrightarrow> k \<le> length D \<Longrightarrow>
   copy_file_fallback_loop n sfd tfd s = (r, t) \<Longrightarrow>
   only_data j s t \<and> (r \<longrightarrow> idata (inodes t j) = D)"
proof (induction n arbitrary: k s)
  case (Suc n)
  obtain x s1 where x: "k_read sfd 65536 s = (x, s1)" by fastforce
  note kr = k_read_copying[OF Suc.prems(1) x]
  show ?case
  proof (cases x)
    case None
    with Suc.prems(4) kr(1) show ?thesis by (auto simp: x)
  next
    case (Some bs)
    note kb = kr(3)[OF Some]
    show ?thesis
    proof (cases "bs = []")
      case True
      then have "t = s1" "k = length D" using Suc.prems(3,4) kb by (auto simp: x Some)
      then show ?thesis using kb kr(1) by (auto simp: copying_def)
    next
      case False
      obtain b s2 where w: "write_all tfd bs s1 = (b, s2)" by fastforce
      note wc = write_all_copying[OF conjunct1[OF kb] w]
      have bs: "bs = take (length bs) (drop k D)" using kb by blast
      have "length bs = length (take (length bs) (drop k D))" by (rule arg_cong[where f = length, OF bs])
      then have kl: "k + length bs \<le> length D" using Suc.prems(3) by simp
      have pre: "take k D @ bs = take (k + length bs) D" using take_add[of k "length bs" D] bs by simp
      show ?thesis
      proof (cases b)
        case False
        with Suc.prems(4) kr(1) wc \<open>bs \<noteq> []\<close> show ?thesis
          by (auto simp: x Some w intro: only_data_trans)
      next
        case True
        have c2: "copying sfd tfd i j D (k + length bs) (take (k + length bs) D) s2"
          using wc True pre by simp
        have e: "copy_file_fallback_loop n sfd tfd s2 = (r, t)"
          using Suc.prems(4) \<open>bs \<noteq> []\<close> by (simp add: x Some w True)
        have "0 < length bs" using \<open>bs \<noteq> []\<close> by simp
        then have "length D < n + (k + length bs)" using Suc.prems(2) by linarith
        from Suc.IH[OF c2 this kl e] kr(1) wc show ?thesis by (blast intro: only_data_trans)
      qed
    qed
  qed
qed simp

text \<open>Two bounds on the number of reads, both enough, give the same copy.\<close>

lemma fallback_loop_fuel:
  "copying sfd tfd i j D k (take k D) s \<Longrightarrow> k \<le> length D \<Longrightarrow> length D < n + k \<Longrightarrow> length D < m + k \<Longrightarrow>
   copy_file_fallback_loop n sfd tfd s = copy_file_fallback_loop m sfd tfd s"
proof (induction n arbitrary: m k s)
  case (Suc n)
  obtain m' where m: "m = Suc m'" using Suc.prems by (cases m) auto
  obtain x s1 where x: "k_read sfd 65536 s = (x, s1)" by fastforce
  show ?case
  proof (cases "x = None \<or> x = Some []")
    case False
    then obtain bs where bs: "x = Some bs" "bs \<noteq> []" by auto
    note kb = k_read_copying(3)[OF Suc.prems(1) x bs(1)]
    obtain b s2 where w: "write_all tfd bs s1 = (b, s2)" by fastforce
    have t: "bs = take (length bs) (drop k D)" using kb by blast
    then have e: "take k D @ bs = take (k + length bs) D" by (simp add: take_add)
    have "length bs = length (take (length bs) (drop k D))" by (rule arg_cong[where f = length, OF t])
    then have l: "k + length bs \<le> length D" using Suc.prems(2) by simp
    have "copy_file_fallback_loop n sfd tfd s2 = copy_file_fallback_loop m' sfd tfd s2" if b
      by (rule Suc.IH[OF _ l])
        (use write_all_copying[OF conjunct1[OF kb] w] that e bs(2) Suc.prems(3,4) in \<open>auto simp: m Suc_le_eq neq_Nil_conv\<close>)
    then show ?thesis by (cases b) (simp_all add: m x bs w)
  qed (auto simp: m x)
qed simp

lemma fallback_copying:
  assumes c: "copying sfd tfd i j D 0 [] s" and r: "copy_file_fallback sfd tfd s = (r, t)"
  shows "only_data j s t \<and> (r \<longrightarrow> idata (inodes t j) = D)"
proof -
  have "copy_fuel sfd s = length D + 2" using c by (auto simp: copying_def copy_fuel_def)
  with fallback_loop_copying[of sfd tfd i j D 0 s "copy_fuel sfd s" r t] c r show ?thesis
    by (simp add: copy_file_fallback_def)
qed


section \<open>The \<open>copy_file_range\<close> loop\<close>

lemma k_copy_copying:
  assumes c: "copying sfd tfd i j D (length pre) pre s" and p: "pre = take (length pre) D"
    and r: "k_copy_file_range sfd tfd want s = (x, t)"
  shows "only_data j s t" and "x = None \<Longrightarrow> copying sfd tfd i j D (length pre) pre t"
    and "x = Some n \<Longrightarrow> length pre + n \<le> length D \<and>
      copying sfd tfd i j D (length pre + n) (take (length pre + n) D) t \<and>
      (n = 0 \<longrightarrow> 0 < want \<longrightarrow> length D \<le> length pre)"
proof -
  obtain a b where ab: "a \<noteq> b" "map_of (fds s) sfd = Some a" "map_of (fds s) tfd = Some b"
      "o_ino (ofds s a) = i" "o_off (ofds s a) = length pre" "o_read (ofds s a)"
      "o_ino (ofds s b) = j" "o_off (ofds s b) = length pre" "o_write (ofds s b)" "\<not> o_append (ofds s b)"
      "i \<noteq> j" "idata (inodes s i) = D" "idata (inodes s j) = pre"
    using c by (auto simp: copying_def)
  have pl: "length pre \<le> length D" using arg_cong[where f = length, OF p] by simp
  have "only_data j s t \<and> (x = None \<longrightarrow> copying sfd tfd i j D (length pre) pre t) \<and>
      (\<forall>n. x = Some n \<longrightarrow> length pre + n \<le> length D \<and>
        copying sfd tfd i j D (length pre + n) (take (length pre + n) D) t \<and>
        (n = 0 \<longrightarrow> 0 < want \<longrightarrow> length D \<le> length pre))"
    using r unfolding k_copy_file_range_def
  proof (cases rule: kcallE)
    case (refused sc er)
    with c show ?thesis by simp
  next
    case (ran r sc)
    let ?bs = "take (xfer r want) (drop (length pre) D)"
    have x: "x = Some (length ?bs)"
      and t: "t = k_upd_inode j (\<lambda>nd. nd\<lparr>idata := splice (length pre) ?bs (idata nd)\<rparr>)
        (s\<lparr>script := sc, ofds := (ofds s)(a := (ofds s a)\<lparr>o_off := length pre + length ?bs\<rparr>,
           b := (ofds s b)\<lparr>o_off := length pre + length ?bs\<rparr>)\<rparr>)"
      using ran(2) by (simp_all add: ab Let_def)
    have bs: "pre @ ?bs = take (length pre + length ?bs) D"
      using take_add[of "length pre" "length ?bs" D] p take_length_take[of "xfer r want" "drop (length pre) D"]
      by argo
    have le: "length pre + length ?bs \<le> length D" using pl by simp
    have ln: "length (take (length pre + length ?bs) D) = length pre + length ?bs" using le by simp
    have "idata (inodes t j) = pre @ ?bs" using ab by (simp add: t k_upd_inode_def)
    then have dat: "idata (inodes t j) = take (length pre + length ?bs) D" unfolding bs .
    have "copying sfd tfd i j D (length pre + length ?bs) (take (length pre + length ?bs) D) t"
      unfolding copying_def ln
    proof (intro exI conjI)
      show "a \<noteq> b" "i \<noteq> j" by (fact ab)+
      show "idata (inodes t j) = take (length pre + length ?bs) D" by (rule dat)
      show "map_of (fds t) sfd = Some a" "map_of (fds t) tfd = Some b" "o_ino (ofds t a) = i"
        "o_off (ofds t a) = length pre + length ?bs" "o_read (ofds t a)" "o_ino (ofds t b) = j"
        "o_off (ofds t b) = length pre + length ?bs" "o_write (ofds t b)" "\<not> o_append (ofds t b)"
        "idata (inodes t i) = D"
        using ab by (simp_all add: t k_upd_inode_def)
    qed
    moreover have "length ?bs = 0 \<Longrightarrow> 0 < want \<Longrightarrow> length D \<le> length pre" using xfer_pos[of want r] by auto
    moreover have "only_data j s t" unfolding t by (rule only_data_write)
    ultimately show ?thesis unfolding x using le by blast
  qed
  then show "only_data j s t" "x = None \<Longrightarrow> copying sfd tfd i j D (length pre) pre t"
    "x = Some n \<Longrightarrow> length pre + n \<le> length D \<and>
      copying sfd tfd i j D (length pre + n) (take (length pre + n) D) t \<and>
      (n = 0 \<longrightarrow> 0 < want \<longrightarrow> length D \<le> length pre)" by blast+
qed

lemma k_rewind_off:
  assumes r: "k_rewind fd s = (x, t)"
  shows "only_data j s t" and "x = Some u \<Longrightarrow> \<exists>sc od. map_of (fds s) fd = Some od \<and>
    t = s\<lparr>script := sc, ofds := (ofds s)(od := (ofds s od)\<lparr>o_off := 0\<rparr>)\<rparr>"
proof -
  have "only_data j s t \<and> (x \<noteq> None \<longrightarrow> (\<exists>sc od. map_of (fds s) fd = Some od \<and>
    t = s\<lparr>script := sc, ofds := (ofds s)(od := (ofds s od)\<lparr>o_off := 0\<rparr>)\<rparr>))"
    using r unfolding k_rewind_def
  proof (cases rule: kcallE)
    case (ran r sc)
    then show ?thesis
      by (cases "map_of (fds s) fd") (auto simp: k_fail_def intro: only_data_ofds)
  qed simp
  then show "only_data j s t" "x = Some u \<Longrightarrow> \<exists>sc od. map_of (fds s) fd = Some od \<and>
    t = s\<lparr>script := sc, ofds := (ofds s)(od := (ofds s od)\<lparr>o_off := 0\<rparr>)\<rparr>" by blast+
qed

lemma k_ftruncate_zero:
  assumes r: "k_ftruncate (int fd) 0 s = (x, t)"
    and od: "map_of (fds s) fd = Some od" "o_ino (ofds s od) = j"
  shows "only_data j s t" and "x = Some u \<Longrightarrow> \<exists>sc. t = k_upd_inode j (\<lambda>d. d\<lparr>idata := []\<rparr>) (s\<lparr>script := sc\<rparr>)"
proof -
  have "only_data j s t \<and> (x \<noteq> None \<longrightarrow> (\<exists>sc. t = k_upd_inode j (\<lambda>d. d\<lparr>idata := []\<rparr>) (s\<lparr>script := sc\<rparr>)))"
    using r unfolding k_ftruncate_def
  proof (cases rule: kcallE)
    case (ran r sc)
    have "only_data j s (k_upd_inode j (\<lambda>d. d\<lparr>idata := []\<rparr>) (s\<lparr>script := sc\<rparr>))"
      using only_data_write[where s = s and j = j and h = "\<lambda>_. []" and sc = sc and od = "ofds s"] by simp
    with ran od show ?thesis by (auto simp: k_ofd_def set_len_def k_fail_def split: if_splits)
  qed simp
  then show "only_data j s t" "x = Some u \<Longrightarrow> \<exists>sc. t = k_upd_inode j (\<lambda>d. d\<lparr>idata := []\<rparr>) (s\<lparr>script := sc\<rparr>)"
    by blast+
qed

text \<open>After a refusal: both descriptors rewound, the temporary file emptied, the loop started again.\<close>

lemma restart_copying:
  assumes c: "copying sfd tfd i j D k pre s"
    and ft: "\<And>s. ft tfd s = cret (k_ftruncate (int tfd) 0 s) \<or> fd_paths s tfd \<noteq> None"
    and np: "fd_paths s tfd = None"
    and r: "copy_file_restart ft sfd tfd s = (r, t)"
  shows "only_data j s t \<and> (r \<longrightarrow> idata (inodes t j) = D)"
proof -
  obtain a b where ab: "a \<noteq> b" "map_of (fds s) sfd = Some a" "map_of (fds s) tfd = Some b"
      "o_ino (ofds s a) = i" "o_off (ofds s a) = k" "o_read (ofds s a)"
      "o_ino (ofds s b) = j" "o_off (ofds s b) = length pre" "o_write (ofds s b)" "\<not> o_append (ofds s b)"
      "i \<noteq> j" "idata (inodes s i) = D" "idata (inodes s j) = pre"
    using c by (auto simp: copying_def)
  obtain x1 s1 where x1: "k_rewind sfd s = (x1, s1)" by fastforce
  obtain x2 s2 where x2: "k_rewind tfd s1 = (x2, s2)" by fastforce
  note r1 = k_rewind_off(1)[OF x1, where j = j] k_rewind_off(2)[OF x1]
  note r2 = k_rewind_off(1)[OF x2, where j = j] k_rewind_off(2)[OF x2]
  note d2 = only_data_trans[OF r1(1) r2(1)]
  show ?thesis
  proof (cases "x1 = None \<or> x2 = None")
    case True
    then show ?thesis using r r1(1) d2 by (cases x1; cases x2) (auto simp: copy_file_restart_def x1 x2)
  next
    case False
    then obtain u1 u2 where u: "x1 = Some u1" "x2 = Some u2" by auto
    obtain sc1 where s1: "s1 = s\<lparr>script := sc1, ofds := (ofds s)(a := (ofds s a)\<lparr>o_off := 0\<rparr>)\<rparr>"
      using r1(2)[OF u(1)] ab by auto
    obtain sc2 where s2: "s2 = s1\<lparr>script := sc2, ofds := (ofds s1)(b := (ofds s1 b)\<lparr>o_off := 0\<rparr>)\<rparr>"
      using r2(2)[OF u(2)] ab by (auto simp: s1)
    have np2: "fd_paths s2 tfd = None" using np by (simp add: s2 s1)
    obtain x3 s3 where x3: "k_ftruncate (int tfd) 0 s2 = (x3, s3)" by fastforce
    have f: "ft tfd s2 = (x3 \<noteq> None, s3)" using ft[of s2] np2 by (simp add: cret_def x3)
    note tr = k_ftruncate_zero[where od = b and j = j, OF x3]
    have od: "map_of (fds s2) tfd = Some b" "o_ino (ofds s2 b) = j" using ab by (simp_all add: s2 s1)
    note d3 = only_data_trans[OF d2 tr(1)[OF od]]
    show ?thesis
    proof (cases x3)
      case None
      then show ?thesis using r d3 by (auto simp: copy_file_restart_def x1 x2 u f)
    next
      case (Some u3)
      obtain sc3 where s3: "s3 = k_upd_inode j (\<lambda>d. d\<lparr>idata := []\<rparr>) (s2\<lparr>script := sc3\<rparr>)"
        using tr(2)[OF od Some] by blast
      have "copying sfd tfd i j D 0 [] s3"
        unfolding copying_def
        by (rule exI[of _ a], rule exI[of _ b]) (use ab in \<open>simp add: s3 s2 s1 k_upd_inode_def\<close>)
      moreover have "copy_file_fallback sfd tfd s3 = (r, t)"
        using r by (simp add: copy_file_restart_def x1 x2 u f Some)
      ultimately show ?thesis using fallback_copying d3 by (blast intro: only_data_trans)
    qed
  qed
qed


lemma only_data_fd_paths: "only_data j s t \<Longrightarrow> fd_paths t = fd_paths s"
  by (auto simp: only_data_def)

lemma fast_loop_copying:
  assumes ft: "\<And>s. ft tfd s = cret (k_ftruncate (int tfd) 0 s) \<or> fd_paths s tfd \<noteq> None"
  shows "copying sfd tfd i j D c (take c D) s \<Longrightarrow> c \<le> length D \<Longrightarrow> fd_paths s tfd = None \<Longrightarrow>
    copy_file_fast_loop ft sfd tfd (length D) c s = (r, t) \<Longrightarrow>
    only_data j s t \<and> (r \<longrightarrow> idata (inodes t j) = D)"
  using ft
proof (induction ft sfd tfd "length D" c s rule: copy_file_fast_loop.induct)
  case (1 ft sfd tfd c s)
  note cp = 1(3) and cl = 1(4) and np = 1(5) and res = 1(6) and ft = 1(7)
  show ?case
  proof (cases "length D \<le> c \<or> \<not> alive s")
    case True
    then show ?thesis using cp cl res by (auto simp: copy_file_fast_loop.simps[of ft sfd tfd] copying_def)
  next
    case False
    define want where "want = (if 1024 * 1024 < length D - c then 1024 * 1024 else length D - c)"
    have want0: "0 < want" using False by (simp add: want_def)
    obtain x s' where k: "k_copy_file_range sfd tfd want s = (x, s')" by fastforce
    have lc: "length (take c D) = c" using cl by simp
    note kc = k_copy_copying[of sfd tfd i j D "take c D", unfolded lc, OF cp refl k]
    note np' = only_data_fd_paths[OF kc(1)]
    show ?thesis
    proof (cases x)
      case None
      have c': "copying sfd tfd i j D c (take c D) s'" using kc(2) None by simp
      consider "errno s' = EINTR" | "errno s' \<noteq> EINTR" "errno s' \<in> {ENOSYS, EINVAL, EXDEV, EPERM, EOPNOTSUPP}"
        | "errno s' \<noteq> EINTR" "errno s' \<notin> {ENOSYS, EINVAL, EXDEV, EPERM, EOPNOTSUPP}" by blast
      then show ?thesis
      proof cases
        case 1
        then have "copy_file_fast_loop ft sfd tfd (length D) c s' = (r, t)"
          using res False
          by (subst (asm) copy_file_fast_loop.simps) (simp only: False if_False Let_def want_def[symmetric] k None prod.case option.case if_True simp_thms)
        then show ?thesis
          using 1 "1.hyps"(1)[OF False want_def k[symmetric] None _ c' cl] np np' ft kc(1)
          by (auto intro: only_data_trans)
      next
        case 2
        then have "copy_file_restart ft sfd tfd s' = (r, t)"
          using res
          by (subst (asm) copy_file_fast_loop.simps) (simp only: False if_False Let_def want_def[symmetric] k None prod.case option.case if_True simp_thms)
        then show ?thesis
          using restart_copying[where ft = ft, OF c' ft] np np' kc(1) by (auto intro: only_data_trans)
      next
        case 3
        then have "(False, s') = (r, t)"
          using res
          by (subst (asm) copy_file_fast_loop.simps) (simp only: False if_False Let_def want_def[symmetric] k None prod.case option.case)
        then show ?thesis using kc(1) by auto
      qed
    next
      case (Some n)
      note kn = kc(3)[OF Some]
      show ?thesis
      proof (cases "0 < n")
        case True
        then have "copy_file_fast_loop ft sfd tfd (length D) (c + n) s' = (r, t)"
          using res
          by (subst (asm) copy_file_fast_loop.simps) (simp only: False if_False Let_def want_def[symmetric] k Some prod.case option.case if_True simp_thms)
        then show ?thesis
          using "1.hyps"(2)[OF False want_def k[symmetric] Some True] kn np np' ft kc(1)
          by (auto intro: only_data_trans)
      next
        case False
        then show ?thesis using kn want0 \<open>\<not> (length D \<le> c \<or> \<not> alive s)\<close> by auto
      qed
    qed
  qed
qed

lemma copy_file_fast_copying:
  assumes ft: "\<And>s. ft tfd s = cret (k_ftruncate (int tfd) 0 s) \<or> fd_paths s tfd \<noteq> None"
    and c: "copying sfd tfd i j D 0 [] s" and np: "fd_paths s tfd = None"
    and r: "copy_file_fast ft sfd tfd (length D) s = (r, t)"
  shows "only_data j s t \<and> (r \<longrightarrow> idata (inodes t j) = D)"
proof (cases "0 < length D")
  case True
  then show ?thesis
    using fast_loop_copying[of ft tfd sfd i j D 0 s r t] ft c np r by (simp add: copy_file_fast_def)
next
  case False
  with r fallback_copying[OF c] show ?thesis by (simp add: copy_file_fast_def)
qed

end
