(* ===== verification/Cow_Atomic.thy ===== *)
theory Cow_Atomic
  imports Cow_Copy
begin

text \<open>
  The copy-up is atomic: whatever the kernel answers and wherever an injected failure or kill
  strikes, the path names either the old inode or a complete private copy, the old inode and every
  other existing name are untouched, and the nesting fuel is not used up.
\<close>

section \<open>The state while the temporary file exists\<close>

text \<open>
  \<open>e\<close> is the temporary entry, \<open>j\<close> its inode, \<open>M\<close> the modes it may have; the rest is as in \<open>s0\<close>.
\<close>

definition mid :: "cow \<Rightarrow> entry \<Rightarrow> nat \<Rightarrow> u32 set \<Rightarrow> cow \<Rightarrow> bool" where
  "mid s0 e j M t \<longleftrightarrow> dents t = AList.update e j (dents s0) \<and> namei t = namei s0 \<and>
     (\<forall>k. k \<noteq> j \<longrightarrow> inodes t k = inodes s0 k) \<and> ikind (inodes t j) = KReg \<and> imode (inodes t j) \<in> M \<and>
     stuck t = stuck s0"

lemma mid_quiet [simp]:
  "mid s0 e j M (t\<lparr>script := sc, errno := er\<rparr>) = mid s0 e j M t"
  "mid s0 e j M (t\<lparr>errno := er\<rparr>) = mid s0 e j M t"
  "mid s0 e j M (t\<lparr>stat_script := ss\<rparr>) = mid s0 e j M t"
  "mid s0 e j M (t\<lparr>stat_script := ss, errno := er\<rparr>) = mid s0 e j M t"
  "mid s0 e j M (t\<lparr>script := sc\<rparr>) = mid s0 e j M t"
  "mid s0 e j M (t\<lparr>alive := al\<rparr>) = mid s0 e j M t"
  "mid s0 e j M (t\<lparr>fds := f\<rparr>) = mid s0 e j M t"
  "mid s0 e j M (t\<lparr>heap := hp\<rparr>) = mid s0 e j M t"
  "mid s0 e j M (t\<lparr>fd_paths := fp\<rparr>) = mid s0 e j M t"
  by (simp_all add: mid_def)

lemma mid_only_data: "mid s0 e j M s \<Longrightarrow> only_data j s t \<Longrightarrow> mid s0 e j M t"
  by (auto simp: mid_def only_data_def)

lemma mid_lookup:
  "mid s0 e j M t \<Longrightarrow> k_lookup t x = (if x = e then Some j else k_lookup s0 x)"
  by (simp add: mid_def k_lookup_def AList.update_conv)

text \<open>Closing a descriptor changes neither names nor inodes.\<close>

lemma hook_close_mid:
  assumes "hook_close fd s = (r, t)"
  shows "mid s0 e j M s \<Longrightarrow> mid s0 e j M t" and "inodes t = inodes s"
proof -
  have c: "mid s0 e j M (fdtab_clear fd s) = mid s0 e j M s" for s
    by (auto simp: fdtab_clear_def c_free_def split: option.splits)
  have ci: "inodes (fdtab_clear fd s) = inodes s"
    by (auto simp: fdtab_clear_def c_free_def split: option.splits)
  have k: "(mid s0 e j M s \<longrightarrow> mid s0 e j M (snd (k_close fd s))) \<and> inodes (snd (k_close fd s)) = inodes s" for s
    by (auto simp: k_close_def kcall_def k_fail_def split: option.splits list.splits kreply.splits)
  show "mid s0 e j M s \<Longrightarrow> mid s0 e j M t" "inodes t = inodes s"
    using assms c k[of "fdtab_clear fd s"] ci by (auto simp: hook_close_def cret_def)
qed

section \<open>The promise\<close>

definition source_ino :: "path \<Rightarrow> cow \<Rightarrow> nat" where
  "source_ino p s = the (k_lookup s (the (k_resolve True AtCwd p s)))"

definition copied_up :: "path \<Rightarrow> bool \<Rightarrow> cow \<Rightarrow> bool \<Rightarrow> cow \<Rightarrow> bool" where
  "copied_up p cd s r t \<longleftrightarrow>
     (let e = namei s AtCwd p; i = source_ino p s in
      (\<forall>x. x \<noteq> e \<longrightarrow> k_lookup s x \<noteq> None \<longrightarrow> k_lookup t x = k_lookup s x) \<and>
      (\<forall>k < next_ino s. inodes t k = inodes s k) \<and> stuck t = stuck s \<and>
      (if r then
         (\<exists>j. next_ino s \<le> j \<and> k_lookup t e = Some j \<and> (\<forall>x. k_lookup t x = Some j \<longrightarrow> x = e) \<and>
            ikind (inodes t j) = KReg \<and> idata (inodes t j) = (if cd then idata (inodes s i) else []) \<and>
            imode (inodes t j) \<in> {imode (inodes s i) AND 0xFFF, 0x180})
       else k_lookup t e = k_lookup s e))"

text \<open>The path leads, perhaps through symbolic links, to a regular file with another link.\<close>

definition breakable :: "path \<Rightarrow> cow \<Rightarrow> bool" where
  "breakable p s \<longleftrightarrow>
     distinct (map fst (dents s)) \<and> (\<forall>e i. k_lookup s e = Some i \<longrightarrow> i < next_ino s) \<and>
     (\<forall>fd od. map_of (fds s) fd = Some od \<longrightarrow> od < next_ofd s) \<and>
     (\<exists>e i. k_resolve True AtCwd p s = Some e \<and> k_lookup s e = Some i \<and>
        ikind (inodes s i) = KReg \<and> 1 < k_nlink s i)"

text \<open>No path is remembered for a descriptor that is not open.\<close>

definition no_stale_paths :: "cow \<Rightarrow> bool" where
  "no_stale_paths s \<longleftrightarrow> (\<forall>fd. map_of (fds s) fd = None \<longrightarrow> fd_paths s fd = None)"

text \<open>
  What a copy-up comes to under any replies: when the first \<open>stat\<close> is made to fail it reports success
  and has changed nothing.
\<close>

definition stat_fails :: "cow \<Rightarrow> bool" where
  "stat_fails s \<longleftrightarrow> (\<exists>e rs. stat_script s = KErr e # rs)"

lemma k_stat_ran:
  assumes "alive s" "\<not> stat_fails s" "u = s\<lparr>stat_script := tl (stat_script s)\<rparr>"
  shows "k_stat follow b p s =
    (case k_resolve follow b p u of
       None \<Rightarrow> k_fail ELOOP u
     | Some e \<Rightarrow> (case k_lookup u e of None \<Rightarrow> k_fail ENOENT u | Some i \<Rightarrow> (Some (k_stat_inode u i), u)))"
proof (cases "stat_script s")
  case Nil
  show ?thesis using assms(1) unfolding assms(3) Nil list.sel by (simp add: k_stat_def Let_def Nil)
next
  case (Cons a rs)
  show ?thesis using assms(1,2) unfolding assms(3) Cons list.sel by (cases a) (simp_all add: k_stat_def stat_fails_def Let_def Cons)
qed

lemma mid_fail:
  assumes m: "mid s0 e j M s" and e: "k_lookup s0 e = None" "namei s0 AtCwd tmp = e"
    and p: "k_lookup s0 (namei s0 AtCwd p) = Some l" and j: "next_ino s0 \<le> j"
    and s: "fail_unlink tmp er s = (r, t)"
  shows "copied_up p cd s0 r t"
proof -
  obtain x u where u: "k_unlink tmp s = (x, u)" by fastforce
  have t: "r = False" "t = u\<lparr>errno := er\<rparr>" using s by (simp_all add: fail_unlink_def u)
  have "(\<forall>y. y \<noteq> e \<longrightarrow> k_lookup u y = k_lookup s0 y) \<and> inodes u = inodes s \<and> stuck u = stuck s"
    using u unfolding k_unlink_def
  proof (cases rule: kcallE)
    case (refused sc er)
    then show ?thesis using mid_lookup[OF m] by (simp add: k_lookup_def)
  next
    case (ran rr sc)
    let ?s = "s\<lparr>script := sc\<rparr>"
    have lk: "k_lookup ?s y = (if y = e then Some j else k_lookup s0 y)" for y
      using mid_lookup[OF m, of y] by (simp add: k_lookup_def)
    have nm: "namei s AtCwd tmp = e" and kd: "ikind (inodes s j) \<noteq> KDir"
      using m e by (simp_all add: mid_def)
    have "u = k_del_dent e ?s" using ran(2) kd by (simp add: nm lk Let_def)
    then show ?thesis using lk by (simp add: k_del_dent_def k_lookup_def AList.delete_conv)
  qed
  moreover have "e \<noteq> namei s0 AtCwd p" using e p by auto
  moreover have "k_lookup t y = k_lookup u y" for y by (simp add: t k_lookup_def)
  ultimately have un: "\<And>y. y \<noteq> e \<Longrightarrow> k_lookup t y = k_lookup s0 y" and inu: "inodes u = inodes s"
    and st: "stuck u = stuck s" and ne: "e \<noteq> namei s0 AtCwd p" by auto
  have ex: "x \<noteq> e" if "k_lookup s0 x \<noteq> None" for x using that e(1) by auto
  show ?thesis
    using m p j un ex ne unfolding copied_up_def t(1) Let_def
    by (auto simp: t(2) mid_def inu st simp del: mid_quiet)
qed


section \<open>The temporary file\<close>

lemma k_mkstemp_cases:
  assumes m: "k_mkstemp stem s = (x, t)"
  obtains (failed) sc er where "x = None" "t = s\<lparr>script := sc, errno := er\<rparr>"
  | (made) tmp sc nd where "x = Some (k_free_fd s, tmp)" "k_lookup s (namei s AtCwd tmp) = None"
      "ikind nd = KReg" "imode nd = 0x180" "idata nd = []"
      "t = s\<lparr>script := sc, inodes := (inodes s)(next_ino s := nd), next_ino := Suc (next_ino s),
         dents := AList.update (namei s AtCwd tmp) (next_ino s) (dents s),
         fds := AList.update (k_free_fd s) (next_ofd s) (fds s),
         ofds := (ofds s)(next_ofd s := open_ofd (next_ino s) O_RDWR), next_ofd := Suc (next_ofd s)\<rparr>"
  using m unfolding k_mkstemp_def
proof (cases rule: kcallE)
  case (refused sc er)
  then show ?thesis by (rule failed)
next
  case (ran r sc)
  let ?s = "s\<lparr>script := sc\<rparr>"
  have lk: "k_lookup ?s = k_lookup s" by (simp add: fun_eq_iff k_lookup_def)
  show ?thesis
  proof (cases "filter (\<lambda>x. k_lookup ?s (namei ?s AtCwd (stem @ x)) = None) (suffixes ?s)")
    case Nil
    then show ?thesis using ran(2) failed[where sc = sc and er = EEXIST] by (simp add: k_fail_def)
  next
    case (Cons y ys)
    then have "y \<in> set (filter (\<lambda>x. k_lookup ?s (namei ?s AtCwd (stem @ x)) = None) (suffixes ?s))" by simp
    then have free: "k_lookup s (namei s AtCwd (stem @ y)) = None" by (simp add: lk)
    let ?nd = "k_fresh_reg 0x180 ?s"
    have fr: "k_free_fd (k_set_dent x i (?s\<lparr>inodes := im, next_ino := n\<rparr>)) = k_free_fd s" for x i im n
      by (rule k_free_fd_cong) (simp add: k_set_dent_def)
    show ?thesis
    proof (rule made[OF _ free])
      show "ikind ?nd = KReg" "imode ?nd = 0x180" "idata ?nd = []" by (simp_all add: k_fresh_reg_def)
      show "x = Some (k_free_fd s, stem @ y)"
        using ran(2) Cons by (simp add: Let_def k_new_inode_def k_install_fd_def fr)
      show "t = s\<lparr>script := sc, inodes := (inodes s)(next_ino s := ?nd), next_ino := Suc (next_ino s),
         dents := AList.update (namei s AtCwd (stem @ y)) (next_ino s) (dents s),
         fds := AList.update (k_free_fd s) (next_ofd s) (fds s),
         ofds := (ofds s)(next_ofd s := open_ofd (next_ino s) O_RDWR), next_ofd := Suc (next_ofd s)\<rparr>"
        using ran(2) Cons by (simp add: Let_def k_new_inode_def k_install_fd_def fr) (simp add: k_set_dent_def)
    qed
  qed
qed

text \<open>\<open>fchmod\<close> through a descriptor the table does not hold: the kernel call, and its failure is ignored.\<close>

lemma fdtab_path_None: "fd_paths s n = None \<Longrightarrow> fdtab_path (int n) s = None"
  by (simp add: fdtab_path_def fdtab_get_def deref_def)

lemma fchmod_untracked:
  assumes np: "fd_paths s fd = None" and od: "map_of (fds s) fd = Some b" "o_ino (ofds s b) = j"
  obtains sc er m where "snd (fchmod_with brk (int fd) md s) =
      s\<lparr>script := sc, errno := er, inodes := (inodes s)(j := (inodes s j)\<lparr>imode := m\<rparr>)\<rparr>"
    "m \<in> {md AND 0xFFF, imode (inodes s j)}"
proof -
  obtain x t where k: "k_fsetattr (int fd) (set_mode md) s = (x, t)" by fastforce
  have e: "snd (fchmod_with brk (int fd) md s) = t"
    by (simp add: fchmod_with_def fdtab_path_None[OF np] cret_def k)
  show ?thesis
    using k unfolding k_fsetattr_def
  proof (cases rule: kcallE)
    case (refused sc er)
    then show ?thesis using that[where sc = sc and er = er and m = "imode (inodes s j)"] e by simp
  next
    case (ran r sc)
    then have "t = k_upd_inode j (set_mode md) (s\<lparr>script := sc\<rparr>)" using od by (simp add: k_ofd_def)
    then show ?thesis
      using that[where sc = sc and er = "errno s" and m = "md AND 0xFFF"] e by (simp add: k_upd_inode_def set_mode_def)
  qed
qed


section \<open>The commit\<close>

lemma commit_rename:
  assumes m: "mid s0 e j M s" and e: "namei s0 AtCwd tmp = e" and p: "k_lookup s0 (namei s0 AtCwd p) = Some l"
    and ne: "e \<noteq> namei s0 AtCwd p" and ij: "l \<noteq> j"
    and k: "k_rename AtCwd tmp AtCwd p s = (Some u, t)"
  shows "inodes t = inodes s" and "stuck t = stuck s"
    and "k_lookup t x = (if x = namei s0 AtCwd p then Some j else if x = e then None else k_lookup s0 x)"
proof -
  have "inodes t = inodes s \<and> stuck t = stuck s \<and>
      (\<forall>x. k_lookup t x = (if x = namei s0 AtCwd p then Some j else if x = e then None else k_lookup s0 x))"
    using k unfolding k_rename_def
  proof (cases rule: kcallE)
    case (ran rr sc)
    let ?s = "s\<lparr>script := sc\<rparr>"
    have lk: "k_lookup ?s y = (if y = e then Some j else k_lookup s0 y)" for y
      using mid_lookup[OF m, of y] by (simp add: k_lookup_def)
    have nm: "namei s AtCwd tmp = e" "namei s AtCwd p = namei s0 AtCwd p" using m e by (simp_all add: mid_def)
    have t: "t = k_set_dent (namei s0 AtCwd p) j (k_del_dent e ?s)"
      using ran(2) ne p ij by (simp add: nm lk Let_def)
    have "k_lookup (k_del_dent e ?s) x = (if x = e then None else k_lookup s0 x)" for x
      using lk[of x] by (simp add: k_lookup_def k_del_dent_def AList.delete_conv)
    then have "k_lookup t x = (if x = namei s0 AtCwd p then Some j else if x = e then None else k_lookup s0 x)" for x
      unfolding t by (simp add: k_lookup_def k_set_dent_def AList.update_conv)
    then show ?thesis by (simp add: t k_set_dent_def k_del_dent_def)
  qed simp
  then show "inodes t = inodes s" "stuck t = stuck s"
    "k_lookup t x = (if x = namei s0 AtCwd p then Some j else if x = e then None else k_lookup s0 x)" by blast+
qed

lemma cow_fail_step_mid:
  "cow_fail_step st er s = (r, t) \<Longrightarrow> mid s0 e j M s \<Longrightarrow> mid s0 e j M t \<and> inodes t = inodes s"
  by (auto simp: cow_fail_step_def k_sigkill_def split: prod.splits if_splits)

lemma k_rename_None_mid:
  "k_rename b p b' q s = (None, t) \<Longrightarrow> mid s0 e j M s \<Longrightarrow> mid s0 e j M t"
  unfolding k_rename_def
  by (cases rule: kcallE) (auto simp: Let_def k_fail_def split: option.splits if_splits)

lemma commit_copied_up:
  assumes m: "mid s0 e j {imode (inodes s0 i) AND 0xFFF, 0x180} s"
    and e: "k_lookup s0 e = None" "namei s0 AtCwd tmp = e"
    and p: "k_lookup s0 (namei s0 AtCwd p) = Some l" and src: "source_ino p s0 = i" and j: "next_ino s0 \<le> j"
    and wf: "\<forall>x k. k_lookup s0 x = Some k \<longrightarrow> k < next_ino s0"
    and d: "idata (inodes s j) = (if cd then idata (inodes s0 i) else [])"
    and c: "copy_up_commit tmp p s = (r, t)"
  shows "copied_up p cd s0 r t"
proof -
  obtain f s1 where f: "cow_fail_step ''copyup.before_rename'' ENOMEM s = (f, s1)" by fastforce
  note m1 = cow_fail_step_mid[OF f m]
  obtain x s2 where x: "k_rename AtCwd tmp AtCwd p s1 = (x, s2)" by fastforce
  have ne: "e \<noteq> namei s0 AtCwd p" using e p by auto
  have ij: "l \<noteq> j" using wf p j by fastforce
  have eq: "copy_up_commit tmp p s = (if f \<and> \<not> env_enabled ''PDOCKER_COW_FAIL_BEFORE_RENAME'' s1
      then (case x of None \<Rightarrow> fail_unlink tmp (errno s2) s2 | Some _ \<Rightarrow> (True, s2))
      else fail_unlink tmp ENOMEM s1)"
    by (cases f) (simp_all add: copy_up_commit_def f x)
  show ?thesis
  proof (cases "f \<and> \<not> env_enabled ''PDOCKER_COW_FAIL_BEFORE_RENAME'' s1")
    case False
    then have "fail_unlink tmp ENOMEM s1 = (r, t)" using c unfolding eq if_not_P[OF False] by simp
    then show ?thesis using mid_fail[OF conjunct1[OF m1] e p j] by simp
  next
    case go: True
    show ?thesis
    proof (cases x)
    case None
    then have "fail_unlink tmp (errno s2) s2 = (r, t)" using c unfolding eq if_P[OF go] by simp
    then show ?thesis using mid_fail[OF k_rename_None_mid[OF x[unfolded None] conjunct1[OF m1]] e p j] by simp
  next
    case (Some u)
    then have rt: "r = True" "t = s2" using c unfolding eq if_P[OF go] by simp_all
    note cr = commit_rename[OF conjunct1[OF m1] e(2) p ne ij x[unfolded Some]]
    have uniq: "k_lookup s0 y \<noteq> Some j" for y using wf j by fastforce
    have md: "ikind (inodes s j) = KReg" "imode (inodes s j) \<in> {imode (inodes s0 i) AND 0xFFF, 0x180}"
      "\<And>k. k \<noteq> j \<Longrightarrow> inodes s k = inodes s0 k" "stuck s1 = stuck s0" using m m1 by (auto simp: mid_def)
    have ex: "y \<noteq> e" if "k_lookup s0 y \<noteq> None" for y using that e(1) by auto
    show ?thesis
      unfolding copied_up_def Let_def rt
    proof (intro conjI)
      show "\<forall>y. y \<noteq> namei s0 AtCwd p \<longrightarrow> k_lookup s0 y \<noteq> None \<longrightarrow> k_lookup s2 y = k_lookup s0 y"
        using cr(3) ex by auto
      show "\<forall>k<next_ino s0. inodes s2 k = inodes s0 k" using md(3) j m1 cr(1) by auto
      show "stuck s2 = stuck s0" using cr(2) md(4) by simp
      show "if True then \<exists>j\<ge>next_ino s0. k_lookup s2 (namei s0 AtCwd p) = Some j \<and>
          (\<forall>x. k_lookup s2 x = Some j \<longrightarrow> x = namei s0 AtCwd p) \<and> ikind (inodes s2 j) = KReg \<and>
          idata (inodes s2 j) = (if cd then idata (inodes s0 (source_ino p s0)) else []) \<and>
          imode (inodes s2 j) \<in> {imode (inodes s0 (source_ino p s0)) AND 4095, 384}
        else k_lookup s2 (namei s0 AtCwd p) = k_lookup s0 (namei s0 AtCwd p)"
        unfolding if_True
      proof (intro exI[of _ j] conjI allI impI)
        show "y = namei s0 AtCwd p" if "k_lookup s2 y = Some j" for y
          using that uniq[of y] unfolding cr(3)[of y] by (metis option.distinct(1))
      qed (use j cr(1,3) md(1,2) d p src m1 in simp_all)
    qed
    qed
  qed
qed

section \<open>Extended attributes\<close>

text \<open>Attributes go to the temporary name; the nested check finds a single link and copies nothing.\<close>

lemma k_setattr_mid:
  assumes m: "mid s0 e j M s" and e: "namei s0 AtCwd tmp = e"
    and k: "k_setattr False AtCwd tmp (set_xattr n v) s = (x, t)"
  shows "mid s0 e j M t \<and> idata (inodes t j) = idata (inodes s j) \<and> dents t = dents s \<and> alive t = alive s"
  using k unfolding k_setattr_def
proof (cases rule: kcallE)
  case (refused sc er)
  with m show ?thesis by simp
next
  case (ran r sc)
  have "k_lookup (s\<lparr>script := sc\<rparr>) e = Some j"
    using mid_lookup[OF m, of e] by (simp add: k_lookup_def)
  then have "t = k_upd_inode j (set_xattr n v) (s\<lparr>script := sc\<rparr>)"
    using ran(2) m e by (simp add: k_resolve_def mid_def)
  with m show ?thesis by (simp add: mid_def k_upd_inode_def set_xattr_def)
qed

lemma update_new: "e \<notin> fst ` set xs \<Longrightarrow> AList.update e j xs = xs @ [(e, j)]"
  by (induction xs) auto

lemma nlink_fresh:
  assumes "\<forall>x k. k_lookup s x = Some k \<longrightarrow> k < n" "k_lookup s e = None" "n \<le> j" "distinct (map fst (dents s))"
  shows "length (filter (\<lambda>d. snd d = j) (AList.update e j (dents s))) = 1"
proof -
  have "e \<notin> fst ` set (dents s)" using assms(2) by (simp add: k_lookup_def map_of_eq_None_iff)
  then have u: "AList.update e j (dents s) = dents s @ [(e, j)]" by (rule update_new)
  have "filter (\<lambda>d. snd d = j) (dents s) = []"
  proof -
    have "snd d \<noteq> j" if "d \<in> set (dents s)" for d
    proof -
      have "k_lookup s (fst d) = Some (snd d)" using that assms(4) by (simp add: k_lookup_def)
      with assms(1,3) show ?thesis by fastforce
    qed
    then show ?thesis by (simp add: filter_empty_conv)
  qed
  then show ?thesis by (simp add: u)
qed


lemma break_tmp_noop:
  assumes m: "mid s0 e j M s" and e: "namei s0 AtCwd tmp = e"
    and n: "length (filter (\<lambda>d. snd d = j) (AList.update e j (dents s0))) = 1"
  shows "\<exists>s'. break_hardlink_copy_stat (Suc f) tmp cd True s = (True, s') \<and> mid s0 e j M s' \<and> inodes s' = inodes s"
proof -
  have nm: "namei s AtCwd tmp = e" using m e by (simp add: mid_def)
  have l: "k_lookup (s\<lparr>stat_script := sc\<rparr>) e = Some j" for sc
    using mid_lookup[OF m, of e] by (simp add: k_lookup_def)
  have kd: "ikind (inodes s j) = KReg" using m by (simp add: mid_def)
  have w: "k_walk 40 (s\<lparr>stat_script := sc\<rparr>) e = Some e" for sc using l kd by (simp add: numeral_eq_Suc)
  have nl: "k_nlink (s\<lparr>stat_script := sc\<rparr>) j = 1" for sc using m n by (simp add: k_nlink_def mid_def)
  show ?thesis
  proof (cases "alive s")
    case False
    then show ?thesis using m by (simp add: k_stat_def)
  next
    case True
    show ?thesis
    proof (cases "stat_fails s")
      case True
      then obtain er rs where "stat_script s = KErr er # rs" by (auto simp: stat_fails_def)
      then have "k_stat True AtCwd tmp s = (None, s\<lparr>stat_script := rs, errno := er\<rparr>)"
        using \<open>alive s\<close> by (simp add: k_stat_def k_fail_def)
      then show ?thesis using m by simp
    next
      case False
      let ?s = "s\<lparr>stat_script := tl (stat_script s)\<rparr>"
      have "k_stat True AtCwd tmp s = (Some (k_stat_inode ?s j), ?s)"
        by (simp add: k_stat_ran[OF \<open>alive s\<close> False refl] k_resolve_def nm w l)
      then show ?thesis using m nl[of "tl (stat_script s)"] by (simp add: k_stat_inode_def)
    qed
  qed
qed

lemma quiet_calls:
  "k_getxattr p n s = (x, t) \<Longrightarrow> mid s0 e j M s \<Longrightarrow> mid s0 e j M t \<and> idata (inodes t j) = idata (inodes s j)"
  "k_listxattr p s = (y, t) \<Longrightarrow> mid s0 e j M s \<Longrightarrow> mid s0 e j M t \<and> idata (inodes t j) = idata (inodes s j)"
  unfolding k_getxattr_def k_listxattr_def
  by ((cases rule: kcallE, assumption, simp, fastforce simp: k_fail_def split: option.splits)+)

lemma xattrs_mid:
  assumes e: "namei s0 AtCwd tmp = e"
    and n: "\<And>s. mid s0 e j M s \<Longrightarrow> \<exists>s'. brk tmp True s = (True, s') \<and> mid s0 e j M s' \<and> inodes s' = inodes s"
  shows "mid s0 e j M s \<Longrightarrow> mid s0 e j M (copy_xattrs_loop brk p tmp ns s) \<and>
    idata (inodes (copy_xattrs_loop brk p tmp ns s) j) = idata (inodes s j)"
proof (induction ns arbitrary: s)
  case (Cons a ns)
  obtain x1 s1 where g1: "k_getxattr p a s = (x1, s1)" by fastforce
  note q1 = quiet_calls(1)[OF g1 Cons.prems]
  obtain x2 s2 where g2: "k_getxattr p a s1 = (x2, s2)" by fastforce
  note q2 = quiet_calls(1)[OF g2 conjunct1[OF q1]]
  have set: "mid s0 e j M (snd (lsetxattr_with brk tmp a v s2)) \<and>
      idata (inodes (snd (lsetxattr_with brk tmp a v s2)) j) = idata (inodes s j)" for v
  proof -
    obtain s2' where b: "brk tmp True s2 = (True, s2')" "mid s0 e j M s2'" "inodes s2' = inodes s2"
      using n[OF conjunct1[OF q2]] by blast
    obtain x3 s3 where k: "k_setattr False AtCwd tmp (set_xattr a v) s2' = (x3, s3)" by fastforce
    show ?thesis
      using k_setattr_mid[OF b(2) e k] q1 q2 b
      by (simp add: lsetxattr_with_def k cret_def)
  qed
  show ?case
    using Cons.IH q1 q2 set by (cases x1; cases x2) (simp_all add: g1 g2)
qed simp

lemma copy_xattrs_mid:
  assumes e: "namei s0 AtCwd tmp = e"
    and n: "\<And>s. mid s0 e j M s \<Longrightarrow> \<exists>s'. brk tmp True s = (True, s') \<and> mid s0 e j M s' \<and> inodes s' = inodes s"
    and m: "mid s0 e j M s"
  shows "mid s0 e j M (copy_xattrs brk p tmp s) \<and>
    idata (inodes (copy_xattrs brk p tmp s) j) = idata (inodes s j)"
proof -
  obtain x1 s1 where g1: "k_listxattr p s = (x1, s1)" by fastforce
  note q1 = quiet_calls(2)[OF g1 m]
  obtain x2 s2 where g2: "k_listxattr p s1 = (x2, s2)" by fastforce
  note q2 = quiet_calls(2)[OF g2 conjunct1[OF q1]]
  show ?thesis
    using m q1 q2 xattrs_mid[where brk = brk, OF e n conjunct1[OF q2]] by (cases x1; cases x2) (simp_all add: copy_xattrs_def g1 g2)
qed

section \<open>The whole copy-up\<close>

text \<open>The temporary entry does not disturb the walk to an existing file.\<close>

lemma k_walk_mid:
  "mid s0 e j M s \<Longrightarrow> k_lookup s0 e = None \<Longrightarrow> \<forall>x k. k_lookup s0 x = Some k \<longrightarrow> k \<noteq> j \<Longrightarrow>
   k_walk n s0 x = Some y \<Longrightarrow> k_lookup s0 y \<noteq> None \<Longrightarrow> k_walk n s x = Some y"
proof (induction n arbitrary: x)
  case (Suc n)
  note lk = mid_lookup[OF Suc.prems(1)]
  show ?case
  proof (cases "k_lookup s0 x")
    case None
    with Suc.prems(4,5) show ?thesis by auto
  next
    case (Some i)
    then have "x \<noteq> e" "inodes s i = inodes s0 i" "namei s = namei s0" using Suc.prems by (auto simp: mid_def)
    with Some lk[of x] Suc.IH[OF Suc.prems(1-3) _ Suc.prems(5)] Suc.prems(4) show ?thesis
      by (auto split: ikind.splits)
  qed
qed simp

text \<open>Opening the source: its inode, at offset zero, under a new descriptor.\<close>

lemma k_open_source:
  assumes m: "mid s0 e j M s" and e: "k_lookup s0 e = None"
    and p: "k_resolve True AtCwd p s0 = Some x0" "k_lookup s0 x0 = Some i" "ikind (inodes s0 i) = KReg"
    and wf: "\<forall>x k. k_lookup s0 x = Some k \<longrightarrow> k \<noteq> j"
    and k: "k_open AtCwd p O_RDONLY 0 s = (x, t)"
  obtains (failed) sc er where "x = None" "t = s\<lparr>script := sc, errno := er\<rparr>"
  | (opened) sc where "x = Some (k_free_fd s)"
      "t = s\<lparr>script := sc, fds := AList.update (k_free_fd s) (next_ofd s) (fds s),
         ofds := (ofds s)(next_ofd s := open_ofd i O_RDONLY), next_ofd := Suc (next_ofd s)\<rparr>"
  using k unfolding k_open_def
proof (cases rule: kcallE)
  case (refused sc er)
  then show ?thesis by (rule failed)
next
  case (ran r sc)
  let ?s = "s\<lparr>script := sc\<rparr>"
  have l: "k_lookup ?s x0 = Some i"
    using mid_lookup[OF m, of x0] p e by (auto simp: k_lookup_def)
  have kd: "ikind (inodes s i) = KReg" using m p wf by (auto simp: mid_def)
  have w: "k_resolve True AtCwd p ?s = Some x0"
    using k_walk_mid[of s0 e j M ?s 40 "namei s0 AtCwd p" x0] m e p wf by (simp add: k_resolve_def mid_def)
  have fr: "k_free_fd ?s = k_free_fd s" by (rule k_free_fd_cong) simp
  have hb: "has_bits O_RDONLY b = False" for b by (simp add: has_bits_def)
  have "(x, t) = k_open_ino i O_RDONLY ?s"
    using ran(2) by (simp add: k_open_body_def hb w l k_open_existing_def kd)
  then show ?thesis
    by (intro opened[where sc = sc]) (simp_all add: k_open_ino_def k_install_fd_def fr)
qed


lemma ftruncate_untracked:
  "ftruncate_with brk (int fd) 0 s = cret (k_ftruncate (int fd) 0 s) \<or> fd_paths s fd \<noteq> None"
  by (cases "fd_paths s fd") (simp_all add: ftruncate_with_def fdtab_path_None)

lemma copy_up_data_mid:
  assumes m: "mid s0 e j M s" and e: "k_lookup s0 e = None" "namei s0 AtCwd tmp = e"
    and p: "k_resolve True AtCwd p s0 = Some x0" "k_lookup s0 x0 = Some i" "ikind (inodes s0 i) = KReg"
    and pl: "k_lookup s0 (namei s0 AtCwd p) = Some l"
    and j: "next_ino s0 \<le> j" and wf: "\<forall>x k. k_lookup s0 x = Some k \<longrightarrow> k < next_ino s0"
    and od: "map_of (fds s) tfd = Some b" "b < next_ofd s" "ofds s b = open_ofd j O_RDWR"
    and nd: "idata (inodes s j) = []" and np: "fd_paths s tfd = None"
    and c: "copy_up_data brk p tfd tmp (length (idata (inodes s0 i))) s = (r, t)"
  shows "if r then mid s0 e j M t \<and> idata (inodes t j) = idata (inodes s0 i) else copied_up p cd s0 False t"
proof -
  let ?D = "idata (inodes s0 i)"
  have wf': "\<forall>x k. k_lookup s0 x = Some k \<longrightarrow> k \<noteq> j" using wf j by fastforce
  then have ij: "i \<noteq> j" using p by blast
  obtain x s1 where op: "k_open AtCwd p O_RDONLY 0 s = (x, s1)" by fastforce
  show ?thesis
    using m e(1) p wf' op
  proof (cases rule: k_open_source)
    case (failed sc er)
    obtain q s2 where cl: "hook_close (int tfd) s1 = (q, s2)" by fastforce
    have m1: "mid s0 e j M s1" using m failed by simp
    have "fail_unlink tmp (errno s1) s2 = (r, t)" using c by (simp add: copy_up_data_def op failed(1) cl)
    then show ?thesis
      using mid_fail[OF hook_close_mid(1)[OF cl m1] e pl j, of "errno s1" r t cd]
      by (auto simp: fail_unlink_def)
  next
    case (opened sc)
    have m1: "mid s0 e j M s1" using m by (simp add: opened mid_def)
    have cp: "copying (k_free_fd s) tfd i j ?D 0 [] s1"
      unfolding copying_def
      by (rule exI[of _ "next_ofd s"], rule exI[of _ b])
        (use od ij nd m in \<open>auto simp: opened(2) AList.update_conv open_ofd_def has_bits_def Let_def mid_def\<close>)
    have np1: "fd_paths s1 tfd = None" using np by (simp add: opened)
    obtain q s2 where cf: "copy_file_fast (\<lambda>fd. ftruncate_with brk (int fd) 0) (k_free_fd s) tfd (length ?D) s1 = (q, s2)"
      by fastforce
    note cc = copy_file_fast_copying[where ft = "\<lambda>fd. ftruncate_with brk (int fd) 0", OF ftruncate_untracked cp np1 cf]
    have m2: "mid s0 e j M s2" using mid_only_data[OF m1] cc by blast
    obtain q1 s3 where cl: "hook_close (int (k_free_fd s)) s2 = (q1, s3)" by fastforce
    note m3 = hook_close_mid(1)[OF cl m2]
    obtain q2 s4 where cl2: "hook_close (int tfd) s3 = (q2, s4)" by fastforce
    show ?thesis
    proof (cases q)
      case True
      then have "r" "t = s3" using c by (simp_all add: copy_up_data_def op opened(1) cf cl)
      with cc m3 hook_close_mid(2)[OF cl] True show ?thesis by simp
    next
      case False
      then have "fail_unlink tmp (errno s2) s4 = (r, t)"
        using c by (simp add: copy_up_data_def op opened(1) cf cl cl2)
      then show ?thesis
        using mid_fail[OF hook_close_mid(1)[OF cl2 m3] e pl j, of "errno s2" r t cd]
        by (auto simp: fail_unlink_def)
    qed
  qed
qed

lemma copied_up_quiet:
  "copied_up p cd s False (s\<lparr>script := sc, errno := er\<rparr>)" "copied_up p cd s False (s\<lparr>errno := er\<rparr>)"
proof -
  have "k_lookup (s\<lparr>script := sc, errno := er\<rparr>) = k_lookup s" "k_lookup (s\<lparr>errno := er\<rparr>) = k_lookup s"
    by (simp_all add: fun_eq_iff k_lookup_def)
  then show "copied_up p cd s False (s\<lparr>script := sc, errno := er\<rparr>)" "copied_up p cd s False (s\<lparr>errno := er\<rparr>)"
    by (simp_all add: copied_up_def Let_def)
qed

lemma k_stat_inode_sel [simp]:
  "st_kind (k_stat_inode s i) = ikind (inodes s i)" "st_nlink (k_stat_inode s i) = k_nlink s i"
  "st_mode (k_stat_inode s i) = imode (inodes s i)" "st_size (k_stat_inode s i) = length (idata (inodes s i))"
  by (simp_all add: k_stat_inode_def)

lemma copy_up_file_copied:
  assumes b: "breakable p s0" and st: "no_stale_paths s0"
    and p: "k_resolve True AtCwd p s0 = Some x0" "k_lookup s0 x0 = Some i" "ikind (inodes s0 i) = KReg"
    and pl: "k_lookup s0 (namei s0 AtCwd p) = Some l" and tmp: "k_lookup s0 (namei s0 AtCwd tmp) = None"
    and nd: "ikind nd = KReg" "imode nd = 0x180" "idata nd = []"
    and s: "s = s0\<lparr>script := sc, inodes := (inodes s0)(next_ino s0 := nd), next_ino := Suc (next_ino s0),
         dents := AList.update (namei s0 AtCwd tmp) (next_ino s0) (dents s0),
         fds := AList.update (k_free_fd s0) (next_ofd s0) (fds s0),
         ofds := (ofds s0)(next_ofd s0 := open_ofd (next_ino s0) O_RDWR), next_ofd := Suc (next_ofd s0)\<rparr>"
    and c: "copy_up_file (\<lambda>p cd. break_hardlink_copy_stat (Suc f) p cd True) p cd (k_stat_inode s0 i)
      (k_free_fd s0) tmp s = (r, t)"
  shows "copied_up p cd s0 r t"
proof -
  let ?j = "next_ino s0" and ?e = "namei s0 AtCwd tmp" and ?tfd = "k_free_fd s0"
  let ?brk = "\<lambda>p cd. break_hardlink_copy_stat (Suc f) p cd True"
  let ?M = "{imode (inodes s0 i) AND 0xFFF, 0x180}"
  have wf: "\<forall>x k. k_lookup s0 x = Some k \<longrightarrow> k < next_ino s0"
    and dist: "distinct (map fst (dents s0))" and cl: "fd_paths s0 ?tfd = None"
    using b st k_free_fd_None by (auto simp: breakable_def no_stale_paths_def)
  have src: "source_ino p s0 = i" using p by (simp add: source_ino_def)
  have n: "length (filter (\<lambda>d. snd d = ?j) (AList.update ?e ?j (dents s0))) = 1"
    using nlink_fresh[OF wf tmp le_refl dist] .
  have np: "fd_paths s ?tfd = None" and od: "map_of (fds s) ?tfd = Some (next_ofd s0)"
    "o_ino (ofds s (next_ofd s0)) = ?j"
    using cl by (simp_all add: s AList.update_conv open_ofd_def Let_def)
  obtain sc1 er1 md where
    f: "snd (fchmod_with ?brk (int ?tfd) (imode (inodes s0 i) AND 0xFFF) s) =
      s\<lparr>script := sc1, errno := er1, inodes := (inodes s)(?j := (inodes s ?j)\<lparr>imode := md\<rparr>)\<rparr>"
    and md: "md \<in> {(imode (inodes s0 i) AND 0xFFF) AND 0xFFF, imode (inodes s ?j)}"
    by (rule fchmod_untracked[where brk = ?brk and md = "imode (inodes s0 i) AND 0xFFF", OF np od]) (rule that)
  define s1 where "s1 = s\<lparr>script := sc1, errno := er1, inodes := (inodes s)(?j := (inodes s ?j)\<lparr>imode := md\<rparr>)\<rparr>"
  have m1: "mid s0 ?e ?j ?M s1" using md nd by (auto simp: mid_def s1_def s and.assoc)
  have d1: "idata (inodes s1 ?j) = []" using nd by (simp add: s1_def s)
  obtain q s2 where q: "(if cd then copy_up_data ?brk p ?tfd tmp (length (idata (inodes s0 i))) s1 else (True, s1)) = (q, s2)"
    by fastforce
  have data: "if q then mid s0 ?e ?j ?M s2 \<and> idata (inodes s2 ?j) = (if cd then idata (inodes s0 i) else [])
      else copied_up p cd s0 False s2"
  proof (cases cd)
    case False
    then show ?thesis using q m1 d1 by auto
  next
    case True
    then have "copy_up_data ?brk p ?tfd tmp (length (idata (inodes s0 i))) s1 = (q, s2)" using q by simp
    from copy_up_data_mid[OF m1 tmp refl p pl le_refl wf _ _ _ d1 _ this, of "next_ofd s0" True] np od True
    show ?thesis by (simp add: s1_def s AList.update_conv)
  qed
  have eq: "copy_up_file ?brk p cd (k_stat_inode s0 i) ?tfd tmp s =
      (if q then (case hook_close (int ?tfd) s2 of
             (False, s3) \<Rightarrow> fail_unlink tmp (errno s3) s3
           | (True, s3) \<Rightarrow> copy_up_commit tmp p (copy_xattrs ?brk p tmp s3)) else (False, s2))"
    unfolding copy_up_file_def Let_def k_stat_inode_sel f s1_def[symmetric] q prod.case
    by (cases q) (simp_all only: bool.case if_True if_False)
  show ?thesis
  proof (cases q)
    case False
    with c eq data show ?thesis by simp
  next
    case True
    obtain q3 s3 where cl3: "hook_close (int ?tfd) s2 = (q3, s3)" by fastforce
    have m3: "mid s0 ?e ?j ?M s3" using hook_close_mid(1)[OF cl3] data True by simp
    have d3: "idata (inodes s3 ?j) = (if cd then idata (inodes s0 i) else [])"
      using hook_close_mid(2)[OF cl3] data True by simp
    show ?thesis
    proof (cases q3)
      case False
      then have "fail_unlink tmp (errno s3) s3 = (r, t)" using c True by (simp add: eq cl3)
      then show ?thesis using mid_fail[OF m3 tmp refl pl le_refl] by simp
    next
      case go: True
      note xm = copy_xattrs_mid[where brk = ?brk and p = p, OF refl break_tmp_noop[OF _ refl n] m3]
      have "copy_up_commit tmp p (copy_xattrs ?brk p tmp s3) = (r, t)" using c True go by (simp add: eq cl3)
      from commit_copied_up[OF conjunct1[OF xm] tmp refl pl src le_refl wf trans[OF conjunct2[OF xm] d3] this]
      show ?thesis .
    qed
  qed
qed

lemma stat_script_copied_up [simp]: "copied_up p cd (s\<lparr>stat_script := sc\<rparr>) r t = copied_up p cd s r t"
proof -
  have w: "k_walk n (s\<lparr>stat_script := sc\<rparr>) e = k_walk n s e" for n e
    by (induction n arbitrary: e) (simp_all add: k_lookup_def split: option.splits ikind.splits)
  have l: "k_lookup (s\<lparr>stat_script := sc\<rparr>) = k_lookup s" by (simp add: k_lookup_def fun_eq_iff)
  have rs: "k_resolve True AtCwd p (s\<lparr>stat_script := sc\<rparr>) = k_resolve True AtCwd p s"
    by (simp add: k_resolve_def w l)
  show ?thesis by (simp add: copied_up_def source_ino_def l rs)
qed

lemma stat_script_breakable [simp]: "breakable p (s\<lparr>stat_script := sc\<rparr>) = breakable p s"
proof -
  have w: "k_walk n (s\<lparr>stat_script := sc\<rparr>) e = k_walk n s e" for n e
    by (induction n arbitrary: e) (simp_all add: k_lookup_def split: option.splits ikind.splits)
  have l: "k_lookup (s\<lparr>stat_script := sc\<rparr>) = k_lookup s" by (simp add: k_lookup_def fun_eq_iff)
  have rs: "k_resolve True AtCwd p (s\<lparr>stat_script := sc\<rparr>) = k_resolve True AtCwd p s"
    by (simp add: k_resolve_def w l)
  show ?thesis by (simp add: breakable_def l rs k_nlink_def)
qed

lemma break_fuel_Suc: "break_fuel = Suc (Suc 4095)"
  by (simp add: break_fuel_def FD_TABLE_MAX_def)

lemma break_stat_failed:
  assumes "alive s" "stat_script s = KErr e # rs"
  shows "break_hardlink_copy (Some p) cd s = (True, s\<lparr>stat_script := rs, errno := e\<rparr>)"
  unfolding break_hardlink_copy_def break_fuel_Suc option.case
  by (subst break_hardlink_copy_stat.simps) (use assms in \<open>simp add: k_stat_def k_fail_def del: break_hardlink_copy_stat.simps\<close>)

lemma break_copied_up:
  assumes b: "breakable p s" and al: "alive s" and ns: "no_stale_paths s" and ok: "\<not> stat_fails s"
    and c: "break_hardlink_copy (Some p) cd s = (r, t)"
  shows "copied_up p cd s r t"
proof -
  define u where "u = s\<lparr>stat_script := tl (stat_script s)\<rparr>"
  have bu: "breakable p u" and nu: "no_stale_paths u" using b ns by (simp_all add: u_def no_stale_paths_def)
  obtain x0 i where i: "k_resolve True AtCwd p u = Some x0" "k_lookup u x0 = Some i" "ikind (inodes u i) = KReg" "1 < k_nlink u i"
    using bu by (auto simp: breakable_def)
  obtain l where pl: "k_lookup u (namei u AtCwd p) = Some l"
    using i by (cases "k_lookup u (namei u AtCwd p)") (auto simp: k_resolve_def numeral_eq_Suc)
  have st: "k_stat True AtCwd p s = (Some (k_stat_inode u i), u)" by (simp add: k_stat_ran[OF al ok u_def] i)
  have eq: "break_hardlink_copy (Some p) cd s = (case tmp_stem p of
       None \<Rightarrow> (False, u\<lparr>errno := ENAMETOOLONG\<rparr>)
     | Some stem \<Rightarrow> (case k_mkstemp stem u of
                  (None, s2) \<Rightarrow> (False, s2)
                | (Some (tfd, tmp), s2) \<Rightarrow>
                    copy_up_file (\<lambda>p cd. break_hardlink_copy_stat (Suc 4095) p cd True)
                      p cd (k_stat_inode u i) tfd tmp s2))"
    unfolding break_hardlink_copy_def break_fuel_Suc option.case
    by (subst break_hardlink_copy_stat.simps) (use i in \<open>simp add: st del: break_hardlink_copy_stat.simps\<close>)
  have "copied_up p cd u r t"
  proof (cases "tmp_stem p")
    case None
    then show ?thesis using c eq copied_up_quiet(2) by auto
  next
    case (Some stem)
    obtain x v where k: "k_mkstemp stem u = (x, v)" by fastforce
    show ?thesis
      using k
    proof (cases rule: k_mkstemp_cases)
      case (failed sc er)
      then show ?thesis using c eq Some copied_up_quiet(1) by (auto simp: k)
    next
      case (made tmp sc nd)
      have "copy_up_file (\<lambda>p cd. break_hardlink_copy_stat (Suc 4095) p cd True) p cd
          (k_stat_inode u i) (k_free_fd u) tmp v = (r, t)"
        using c unfolding eq Some option.case k made(1) prod.case .
      then show ?thesis by (rule copy_up_file_copied[OF bu nu i(1-3) pl made(2-6)])
    qed
  qed
  then show ?thesis by (simp add: u_def)
qed

end
