(* ===== verification/Cow_Theorems.thy ===== *)
theory Cow_Theorems
  imports Cow_Isolation Cow_Atomic
begin

text \<open>
  The properties of the copy-on-write shim, with concrete instances. The sample state holds one
  regular file with two links: \<open>low\<close>, the image's entry, and \<open>u/f\<close>, the container's.
\<close>

section \<open>A sample process\<close>

definition sample_cow :: cow where
  "sample_cow = \<lparr>dents = [(''low'', 0), (''u/f'', 0)],
     inodes = (\<lambda>_. \<lparr>ikind = KReg, idata = ''hello'', imode = 0x1A4, iuid = 0, igid = 0, itimes = (1, 1), ixattrs = []\<rparr>),
     next_ino = 1, fds = [(0, 0)],
     ofds = (\<lambda>_. \<lparr>o_ino = 0, o_off = 0, o_read = True, o_write = False, o_append = False\<rparr>), next_ofd = 1,
     namei = (\<lambda>_ p. ''u'' @ p), kcwd = Some ''/'', proc_fd = (\<lambda>_. None), script = [KShort 2, KShort 3],
     stat_script = [], suffixes = [''AAAAAA''], euid = 0, egid = 0, clock = 5, alive = True, errno = 0,
     c_getenv = (\<lambda>_. None), cow_copy_xattrs = False, cow_track_readonly_fds = False, fd_paths = (\<lambda>_. None),
     heap = (\<lambda>_. None), next_ptr = 0, uaf = False, stuck = False\<rparr>"

lemma sample_lookup: "k_lookup sample_cow e = (if e = ''low'' \<or> e = ''u/f'' then Some 0 else None)"
  by (simp add: k_lookup_def sample_cow_def)

lemma sample_lower: "lower_inos {''low''} sample_cow = {0}"
  by (auto simp: lower_inos_def sample_lookup)

lemma sample_ok: "cow_ok {''low''} sample_cow"
  unfolding cow_ok_def sample_lower fd_ok_def
  by (auto simp: sample_lookup) (simp_all add: sample_cow_def split: if_splits)

lemma sample_breakable: "breakable ''/f'' sample_cow"
proof -
  have "k_resolve True AtCwd ''/f'' sample_cow = Some ''u/f''"
    by (simp add: k_resolve_def numeral_eq_Suc sample_lookup) (simp add: sample_cow_def sample_lookup)
  moreover have "k_nlink sample_cow 0 = 2" by (simp add: k_nlink_def sample_cow_def)
  ultimately show ?thesis
    unfolding breakable_def by (auto simp: sample_lookup) (simp_all add: sample_cow_def split: if_splits)
qed

text \<open>Evaluation of a copy-up on a concrete state, stage by stage.\<close>

lemma break_unfold: "break_hardlink_copy (Some p) cd = break_hardlink_copy_stat (Suc (Suc 4095)) p cd True"
  by (simp add: break_hardlink_copy_def fun_eq_iff break_fuel_def FD_TABLE_MAX_def)

lemmas kernel_eval = kcall_def k_resolve_def walk_40 walk_39 k_lookup_def Let_def k_set_dent_def k_del_dent_def
  k_install_fd_def k_free_fd_def open_ofd_def k_ofd_def k_upd_inode_def cret_def fd_in_table_def FD_TABLE_MAX_def

lemmas stage_mkstemp = k_stat_def k_stat_inode_def k_nlink_def tmp_stem_def c_rprefix_def k_mkstemp_def
  k_new_inode_def k_fresh_reg_def

lemmas stage_fchmod = copy_up_file_def fchmod_with_def fdtab_path_def fdtab_get_def deref_def k_fsetattr_def set_mode_def

lemmas stage_source = copy_up_data_def k_open_def k_open_body_def has_bits_def k_open_existing_def k_open_ino_def

lemmas stage_copy = copy_file_fast_def copy_file_fast_loop.simps k_copy_file_range_def xfer_def splice_def

lemmas stage_commit = hook_close_def fdtab_clear_def k_close_def copy_xattrs_def copy_up_commit_def cow_fail_step_def
  env_fail_step_matches_def env_enabled_def k_rename_def

section \<open>Isolation\<close>

text \<open>
  C1. For any sequence of intercepted and plain calls, each allowed where it is made, from a state in which names are unique
  and name existing inodes, no path of the container names an entry of the lower layer, any other name of one of its inodes
  names a regular file, no descriptor writes one of its inodes, and no \<open>stat\<close> is made to fail (it fails only on a path that
  names nothing): whatever the kernel replies to every other call (errors, short transfers, injected failures and kills
  included), the entries of the lower layer keep their inodes, those inodes keep their data and metadata, and the state is
  such a one again. Path-based writes, truncations, renames and mode changes are always allowed.
\<close>

theorem cow_run_isolation:
  assumes "layer_ok L s" "stat_script s = []" "shim.all_allowed L s ops"
  shows "lower_same L s (fold cow_step ops s) \<and> layer_ok L (fold cow_step ops s) \<and> stat_script (fold cow_step ops s) = []"
  using shim.run_same[of L s ops] shim.run_inv[of L s ops] assms by (simp add: cow_ok_split)

lemma cow_run_isolation_witness:
  "lower_same {''low''} sample_cow (fold cow_step
     [OpOpen (Some ''/f'') (O_WRONLY OR O_TRUNC) 0, OpWrite 1 ''bye'', OpChmod (Some ''/f'') 0, OpRename ''/f'' ''/g'']
     sample_cow)"
  using cow_run_isolation[of "{''low''}" sample_cow "[OpOpen (Some ''/f'') (O_WRONLY OR O_TRUNC) 0, OpWrite 1 ''bye'',
     OpChmod (Some ''/f'') 0, OpRename ''/f'' ''/g'']"] sample_ok by (simp add: cow_ok_split)

text \<open>
  Why the condition on \<open>stat\<close> is there: \<open>break_hardlink_copy_stat\<close> takes any failure of \<open>stat\<close> for a
  path that does not exist, so a call that opens an existing file for writing goes on without a
  copy-up and reaches the inode of the lower layer.
\<close>

theorem failed_stat_leaks:
  assumes "alive s" "script s = []" "stat_script s = KErr e # rs"
    and "k_lookup s (namei s AtCwd p) = Some i" "ikind (inodes s i) = KReg"
  shows "idata (inodes (snd (hook_open (Some p) (O_WRONLY OR O_TRUNC) m s)) i) = []"
proof -
  let ?s = "s\<lparr>stat_script := rs, errno := e\<rparr>"
  have b: "maybe_break (Some p) (O_WRONLY OR O_TRUNC) s = (True, ?s)"
    using break_stat_failed[OF assms(1,3)] by (simp add: maybe_break_def flags_write_def)
  have l: "k_lookup ?s (namei s AtCwd p) = Some i" using assms(4) by (simp add: k_lookup_def)
  have rs: "k_resolve True AtCwd p ?s = Some (namei s AtCwd p)"
    using assms(5) l by (simp add: k_resolve_def numeral_eq_Suc)
  obtain fd t where o: "k_open AtCwd p (O_WRONLY OR O_TRUNC) (open_mode (O_WRONLY OR O_TRUNC) m) ?s = (Some fd, t)"
    and t: "inodes t = inodes (k_upd_inode i (\<lambda>d. d\<lparr>idata := []\<rparr>) ?s)"
    using assms(1,2,5) l rs
    by (simp add: k_open_def kcall_def k_open_body_def has_bits_def k_open_existing_def k_open_ino_def k_install_fd_def
        k_upd_inode_def Let_def)
  have "inodes (remember_open_for_flags f q fl t) = inodes t" for f q fl
    using core_eq_fdtab(4)[of t f q fl] by (simp add: core_eq_def)
  then show ?thesis
    unfolding hook_open_def b on_path_def prod.case bool.case option.case o by (simp add: t k_upd_inode_def)
qed

lemma failed_stat_leaks_witness:
  "let s = sample_cow\<lparr>script := [], stat_script := [KErr ENOMEM]\<rparr> in 0 \<in> lower_inos {''low''} s \<and>
     idata (inodes s 0) = ''hello'' \<and> idata (inodes (snd (hook_open (Some ''/f'') (O_WRONLY OR O_TRUNC) 0 s)) 0) = []"
proof -
  let ?s = "sample_cow\<lparr>script := [], stat_script := [KErr ENOMEM]\<rparr>"
  have "alive ?s" "script ?s = []" "stat_script ?s = KErr ENOMEM # []"
    "k_lookup ?s (namei ?s AtCwd ''/f'') = Some 0" "ikind (inodes ?s 0) = KReg" "idata (inodes ?s 0) = ''hello''"
    by (simp_all add: sample_cow_def k_lookup_def)
  with failed_stat_leaks[OF this(1-5), of 0] show ?thesis
    by (simp add: lower_inos_def k_lookup_def sample_cow_def)
qed

section \<open>Atomic copy-up\<close>

text \<open>
  C5. What a copy-up of a regular file with another link comes to, in a file system whose names are unique and name
  existing inodes and in a running process that remembers no path for a closed descriptor. When its
  \<open>stat\<close> is made to fail, it reports success and nothing has changed. Otherwise it either fails with
  every existing name and inode as before, or makes the path name a fresh regular file of its own, with a single name,
  the old bytes (none, when the caller will truncate) and the old permission bits (or 0600 when \<open>fchmod\<close>
  was refused); in both cases no other existing name and no existing inode changes, for every script of kernel
  replies, every configured failure step and a kill at that step, and the nesting fuel is not used up.
\<close>

theorem copy_up_atomic:
  assumes "breakable p s" "alive s" "no_stale_paths s" "break_hardlink_copy (Some p) copy_data s = (r, t)"
  shows "if stat_fails s then r \<and> dents t = dents s \<and> inodes t = inodes s else copied_up p copy_data s r t"
proof (cases "stat_fails s")
  case True
  then obtain e rs where "stat_script s = KErr e # rs" by (auto simp: stat_fails_def)
  from break_stat_failed[OF assms(2) this] show ?thesis using True assms(4) by auto
qed (use break_copied_up[OF assms(1-3) _ assms(4)] in simp)

lemma sample_break_succeeds: "fst (break_hardlink_copy (Some ''/f'') True sample_cow)"
  unfolding break_unfold
  apply (subst break_hardlink_copy_stat.simps)
  apply (simp add: sample_cow_def kernel_eval stage_mkstemp del: break_hardlink_copy_stat.simps k_walk.simps)
  apply (simp add: kernel_eval stage_fchmod del: break_hardlink_copy_stat.simps k_walk.simps)
  apply (simp add: kernel_eval stage_source del: break_hardlink_copy_stat.simps k_walk.simps)
  apply (simp add: kernel_eval stage_copy del: break_hardlink_copy_stat.simps k_walk.simps)
  apply (simp add: kernel_eval stage_commit del: break_hardlink_copy_stat.simps k_walk.simps)
  done

lemma copy_up_atomic_witness:
  "\<exists>t. break_hardlink_copy (Some ''/f'') True sample_cow = (True, t) \<and> copied_up ''/f'' True sample_cow True t"
proof -
  have s: "alive sample_cow" "no_stale_paths sample_cow" "\<not> stat_fails sample_cow"
    by (simp_all add: sample_cow_def no_stale_paths_def stat_fails_def)
  obtain t where t: "break_hardlink_copy (Some ''/f'') True sample_cow = (True, t)"
    using sample_break_succeeds by (metis prod.collapse)
  show ?thesis using copy_up_atomic[OF sample_breakable s(1,2) t] s(3) t by simp
qed

section \<open>Exact copies\<close>

text \<open>
  C15. The copy loop, called with the library's own \<open>ftruncate\<close> on an untracked descriptor: when it
  reports success the destination holds exactly the source's bytes, whatever short reads and writes,
  \<open>EINTR\<close> and refusals of \<open>copy_file_range\<close> (with the restart through \<open>read\<close>/\<open>write\<close>) happened; it
  changes nothing but the destination's data, and always returns within its fuel.
\<close>

theorem copy_file_exact:
  assumes "copying sfd tfd i j D 0 [] s" "fd_paths s tfd = None"
    and "copy_file_fast (\<lambda>fd. hook_ftruncate (int fd) 0) sfd tfd (length D) s = (r, t)"
  shows "(r \<longrightarrow> idata (inodes t j) = D) \<and> only_data j s t \<and> stuck t = stuck s"
proof -
  have ft: "hook_ftruncate (int tfd) 0 u = cret (k_ftruncate (int tfd) 0 u) \<or> fd_paths u tfd \<noteq> None" for u
    unfolding hook_ftruncate_def by (rule ftruncate_untracked)
  have "only_data j s t \<and> (r \<longrightarrow> idata (inodes t j) = D)"
    by (rule copy_file_fast_copying[where ft = "\<lambda>fd. hook_ftruncate (int fd) 0", OF ft assms(1,2,3)])
  then show ?thesis by (auto simp: only_data_def)
qed

definition sample_copying :: cow where
  "sample_copying = sample_cow\<lparr>fds := [(0, 0), (1, 1)],
     inodes := (inodes sample_cow)(1 := (inodes sample_cow 0)\<lparr>idata := []\<rparr>),
     ofds := (\<lambda>n. \<lparr>o_ino = n, o_off = 0, o_read = True, o_write = True, o_append = False\<rparr>)\<rparr>"

lemma copying_sample: "copying 0 1 0 1 ''hello'' 0 [] sample_copying"
  unfolding copying_def
  by (rule exI[of _ 0], rule exI[of _ 1]) (simp add: sample_copying_def sample_cow_def)

lemma copy_file_exact_witness:
  "let (r, t) = copy_file_fast (\<lambda>fd. hook_ftruncate (int fd) 0) 0 1 (length ''hello'') sample_copying
   in (r \<longrightarrow> idata (inodes t 1) = ''hello'') \<and> only_data 1 sample_copying t \<and> stuck t = stuck sample_copying"
proof -
  have p: "fd_paths sample_copying 1 = None" by (simp add: sample_copying_def sample_cow_def)
  show ?thesis using copy_file_exact[OF copying_sample p] by (auto split: prod.splits)
qed

text \<open>
  C16. The read and write loop of the copy ends: whatever the kernel answers, it has returned after at most one read more
  than the source has bytes left, so that any larger bound gives the same result and the bound is never what stops it.
\<close>

theorem copy_loop_ends:
  assumes "copying sfd tfd i j D k (take k D) s" "k \<le> length D" "length D - k < n"
  shows "copy_file_fallback_loop n sfd tfd s = copy_file_fallback_loop (Suc (length D - k)) sfd tfd s \<and>
    stuck (snd (copy_file_fallback_loop n sfd tfd s)) = stuck s"
proof
  have n: "length D < n + k" using assms(3) by simp
  show "copy_file_fallback_loop n sfd tfd s = copy_file_fallback_loop (Suc (length D - k)) sfd tfd s"
    by (rule fallback_loop_fuel[OF assms(1,2) n]) (use assms(2) in simp)
  obtain r t where "copy_file_fallback_loop n sfd tfd s = (r, t)" by fastforce
  with fallback_loop_copying[OF assms(1) n assms(2) this]
  show "stuck (snd (copy_file_fallback_loop n sfd tfd s)) = stuck s" by (auto simp: only_data_def)
qed

lemma copy_loop_ends_witness:
  "copy_file_fallback_loop 100 0 1 sample_copying = copy_file_fallback_loop 6 0 1 sample_copying \<and>
   stuck (snd (copy_file_fallback_loop 100 0 1 sample_copying)) = stuck sample_copying"
proof -
  have c: "copying 0 1 0 1 ''hello'' 0 (take 0 ''hello'') sample_copying" using copying_sample by simp
  have l: "length ''hello'' - 0 < 100" and n: "Suc (length ''hello'' - 0) = 6" by simp_all
  show ?thesis using copy_loop_ends[OF c le0 l] unfolding n .
qed

section \<open>The descriptor table\<close>

text \<open>Every table slot owns one live heap block.\<close>

definition fdtab_ok :: "cow \<Rightarrow> bool" where
  "fdtab_ok s \<longleftrightarrow> \<not> uaf s \<and>
     (\<forall>n a. fd_paths s n = Some a \<longrightarrow> n < FD_TABLE_MAX \<and> heap s a \<noteq> None) \<and>
     (\<forall>a. heap s a \<noteq> None \<longrightarrow> a < next_ptr s) \<and>
     (\<forall>n m a. fd_paths s n = Some a \<longrightarrow> fd_paths s m = Some a \<longrightarrow> n = m)"

lemma fdtab_set_ok:
  assumes ok: "fdtab_ok s" and p: "p \<noteq> PNull \<longrightarrow> deref s p \<noteq> None" "\<forall>a. p = PHeap a \<longrightarrow> fd_paths s (nat fd) \<noteq> Some a"
  shows "fdtab_ok (fdtab_set fd p s) \<and>
    (fd_in_table fd \<longrightarrow> fdtab_path fd (fdtab_set fd p s) = deref s p)"
proof (cases "fd_in_table fd")
  case False
  then show ?thesis using ok by (simp add: fdtab_set_def)
next
  case True
  then have n: "nat fd < FD_TABLE_MAX" by (auto simp: fd_in_table_def)
  define s1 where "s1 = c_free (fd_paths s (nat fd)) s"
  have s1: "fd_paths s1 = fd_paths s" "next_ptr s1 = next_ptr s" "uaf s1 = uaf s"
    "\<And>a. heap s1 a = (if fd_paths s (nat fd) = Some a then None else heap s a)"
    by (auto simp: s1_def c_free_def split: option.splits)
  have d: "deref s1 p = deref s p" using p(2) s1(4) by (cases p) (auto simp: deref_def)
  show ?thesis
  proof (cases "p = PNull")
    case True
    then have e: "fdtab_set fd p s = s1\<lparr>fd_paths := (fd_paths s1)(nat fd := None)\<rparr>"
      using \<open>fd_in_table fd\<close> by (simp add: fdtab_set_def s1_def Let_def)
    show ?thesis
      unfolding e using ok True \<open>fd_in_table fd\<close>
      by (auto simp: fdtab_ok_def s1 fdtab_path_def fdtab_get_def deref_def)
  next
    case False
    then obtain x where x: "deref s1 p = Some x" using p(1) d by auto
    have e: "fdtab_set fd p s = s1\<lparr>heap := (heap s1)(next_ptr s := Some x), next_ptr := Suc (next_ptr s),
        fd_paths := (fd_paths s)(nat fd := Some (next_ptr s))\<rparr>"
      using False \<open>fd_in_table fd\<close>
      by (simp add: fdtab_set_def s1_def[symmetric] Let_def c_strdup_def x s1)
    have fresh: "fd_paths s m \<noteq> Some (next_ptr s)" for m using ok by (auto simp: fdtab_ok_def)
    have "fdtab_ok (fdtab_set fd p s)"
      unfolding e fdtab_ok_def
    proof (intro conjI allI impI)
      fix a assume "heap (s1\<lparr>heap := (heap s1)(next_ptr s := Some x), next_ptr := Suc (next_ptr s),
        fd_paths := (fd_paths s)(nat fd := Some (next_ptr s))\<rparr>) a \<noteq> None"
      then have "a = next_ptr s \<or> heap s a \<noteq> None" by (auto simp: s1 split: if_splits)
      then show "a < next_ptr (s1\<lparr>heap := (heap s1)(next_ptr s := Some x), next_ptr := Suc (next_ptr s),
        fd_paths := (fd_paths s)(nat fd := Some (next_ptr s))\<rparr>)"
        using ok by (auto simp: fdtab_ok_def less_Suc_eq)
    qed (use ok fresh n in \<open>auto simp: fdtab_ok_def s1 split: if_splits\<close>)
    moreover have "fdtab_path fd (fdtab_set fd p s) = deref s p"
      using \<open>fd_in_table fd\<close> x d unfolding e by (simp add: fdtab_path_def fdtab_get_def deref_def)
    ultimately show ?thesis by simp
  qed
qed


text \<open>Kernel calls leave the table alone.\<close>

definition table_eq :: "cow \<Rightarrow> cow \<Rightarrow> bool" where
  "table_eq s t \<longleftrightarrow> fd_paths t = fd_paths s \<and> heap t = heap s \<and> next_ptr t = next_ptr s \<and> uaf t = uaf s"

lemma kcall_table: "(\<And>r s'. table_eq s' (snd (f r s'))) \<Longrightarrow> table_eq s (snd (kcall f s))"
proof -
  assume f: "\<And>r s'. table_eq s' (snd (f r s'))"
  obtain x t where k: "kcall f s = (x, t)" by fastforce
  then show ?thesis
  proof (cases rule: kcallE)
    case (ran r sc)
    then show ?thesis using f[of "s\<lparr>script := sc\<rparr>" r] k by (simp add: table_eq_def)
  qed (simp add: k table_eq_def)
qed

lemma dup_table: "table_eq s (snd (k_dup fd s))" "table_eq s (snd (k_dup2 a b s))" "table_eq s (snd (k_dup3 a b s))"
proof -
  show d2: "table_eq s (snd (k_dup2 a b s))"
    unfolding k_dup2_def by (rule kcall_table) (auto simp: table_eq_def k_fail_def split: option.splits)
  show "table_eq s (snd (k_dup fd s))"
    unfolding k_dup_def by (rule kcall_table) (auto simp: table_eq_def k_fail_def split: option.splits)
  show "table_eq s (snd (k_dup3 a b s))"
    using d2 by (simp add: k_dup3_def table_eq_def k_fail_def)
qed

lemma table_eq_ok: "table_eq s t \<Longrightarrow> fdtab_ok s \<Longrightarrow> fdtab_ok t"
  by (simp add: table_eq_def fdtab_ok_def)

lemma table_eq_path: "table_eq s t \<Longrightarrow> fdtab_path fd t = fdtab_path fd s"
proof -
  assume "table_eq s t"
  then have "fdtab_get fd t = fdtab_get fd s" "heap t = heap s" by (simp_all add: table_eq_def fdtab_get_def)
  then show ?thesis by (simp add: fdtab_path_def deref_def split: cptr.splits)
qed

lemma fdtab_get_deref: "fdtab_ok s \<Longrightarrow> fdtab_get fd s \<noteq> PNull \<Longrightarrow> deref s (fdtab_get fd s) \<noteq> None"
  by (auto simp: fdtab_get_def deref_def fdtab_ok_def split: option.splits if_splits)

lemma fdtab_get_other:
  "fdtab_ok s \<Longrightarrow> a \<noteq> b \<Longrightarrow> fd_in_table b \<Longrightarrow> fdtab_get a s = PHeap x \<Longrightarrow> fd_paths s (nat b) \<noteq> Some x"
  unfolding fdtab_get_def fdtab_ok_def fd_in_table_def
  by (auto split: option.splits if_splits) (metis eq_nat_nat_iff linorder_not_less)

lemma fdtab_copy_ok:
  assumes ok: "fdtab_ok s" and ne: "a \<noteq> b"
  shows "fdtab_ok (fdtab_set b (fdtab_get a s) s) \<and>
    (fd_in_table b \<longrightarrow> fdtab_path b (fdtab_set b (fdtab_get a s) s) = fdtab_path a s)"
proof (cases "fd_in_table b")
  case True
  then show ?thesis
    using fdtab_set_ok[OF ok, of "fdtab_get a s" b] fdtab_get_deref[OF ok, of a] fdtab_get_other[OF ok ne True]
    by (auto simp: fdtab_path_def)
next
  case False
  then show ?thesis using ok by (simp add: fdtab_set_def)
qed

text \<open>
  \<open>dup2\<close> and \<open>dup3\<close> onto another descriptor keep every table slot the owner of one live block, read
  no freed memory, and when they succeed the new descriptor is remembered under the old one's path.
\<close>

theorem dup_copies_path:
  assumes "fdtab_ok s" "old \<noteq> new"
  shows "fdtab_ok (snd (hook_dup2 old new s)) \<and> fdtab_ok (snd (hook_dup3 old new s)) \<and>
    (fst (hook_dup2 old new s) \<noteq> None \<and> fd_in_table new \<longrightarrow>
       fdtab_path new (snd (hook_dup2 old new s)) = fdtab_path old s)"
proof -
  obtain x t where k: "k_dup2 old new s = (x, t)" by fastforce
  obtain y u where k3: "k_dup3 old new s = (y, u)" by fastforce
  have e: "table_eq s t" "table_eq s u" using dup_table(2,3)[of s old new] k k3 by simp_all
  note ok = e[THEN table_eq_ok, OF assms(1)]
  have "fdtab_ok (snd (hook_dup2 old new s))"
    using ok(1) fdtab_copy_ok[OF ok(1) assms(2)] by (cases x) (simp_all add: hook_dup2_def k)
  moreover have "fdtab_ok (snd (hook_dup3 old new s))"
    using ok(2) fdtab_copy_ok[OF ok(2) assms(2)] by (cases y) (simp_all add: hook_dup3_def k3)
  moreover have "fst (hook_dup2 old new s) \<noteq> None \<and> fd_in_table new \<longrightarrow>
      fdtab_path new (snd (hook_dup2 old new s)) = fdtab_path old s"
    using fdtab_copy_ok[OF ok(1) assms(2)] table_eq_path[OF e(1)]
    by (cases x) (simp_all add: hook_dup2_def k)
  ultimately show ?thesis by blast
qed

definition sample_tracked :: cow where
  "sample_tracked = sample_cow\<lparr>fd_paths := (\<lambda>_. None)(0 := Some 0), heap := (\<lambda>_. None)(0 := Some ''/f''), next_ptr := 1\<rparr>"

lemma dup_copies_path_witness:
  "fdtab_ok sample_tracked \<and> fdtab_ok (snd (hook_dup2 0 1 sample_tracked)) \<and>
   fdtab_path 1 (snd (hook_dup2 0 1 sample_tracked)) = Some ''/f''"
proof -
  have ok: "fdtab_ok sample_tracked"
    by (auto simp: fdtab_ok_def sample_tracked_def sample_cow_def FD_TABLE_MAX_def split: if_splits)
  have t: "fd_in_table 1" "fdtab_path 0 sample_tracked = Some ''/f''"
    by (simp_all add: fd_in_table_def FD_TABLE_MAX_def fdtab_path_def fdtab_get_def deref_def sample_tracked_def)
  have "fst (hook_dup2 0 1 sample_tracked) \<noteq> None"
    by (simp add: hook_dup2_def k_dup2_def kcall_def k_ofd_def sample_tracked_def sample_cow_def)
  with dup_copies_path[OF ok, of 0 1] ok t show ?thesis by simp
qed

text \<open>
  \<open>dup2(fd, fd)\<close> on a tracked descriptor is a no-op for the kernel, but the hook frees the slot's
  path and then duplicates the freed string: freed memory is read, and the descriptor is no longer
  tracked under its path.
\<close>

theorem dup2_same_fd_reads_freed:
  assumes "fdtab_ok s" "fdtab_path fd s = Some p" "fst (hook_dup2 fd fd s) \<noteq> None"
  shows "uaf (snd (hook_dup2 fd fd s)) \<and> fdtab_path fd (snd (hook_dup2 fd fd s)) = None"
proof -
  obtain x t where k: "k_dup2 fd fd s = (x, t)" by fastforce
  have e: "table_eq s t" using dup_table(2)[of s fd fd] k by simp
  obtain n a where n: "fd_in_table fd" "nat fd = n" "fd_paths t n = Some a" "heap t a = Some p"
    using assms(2) e by (auto simp: fdtab_path_def fdtab_get_def deref_def table_eq_def split: option.splits if_splits)
  obtain r where x: "x = Some r" using assms(3) by (cases x) (auto simp: hook_dup2_def k)
  have g: "fdtab_get fd t = PHeap a" using n by (simp add: fdtab_get_def)
  have "fdtab_set fd (PHeap a) t = t\<lparr>heap := (heap t)(a := None), uaf := True, fd_paths := (fd_paths t)(n := None)\<rparr>"
    using n by (simp add: fdtab_set_def Let_def c_free_def c_strdup_def deref_def)
  then show ?thesis
    using n by (simp add: hook_dup2_def k x g fdtab_path_def fdtab_get_def deref_def)
qed

lemma dup2_same_fd_reads_freed_witness:
  "fst (hook_dup2 0 0 sample_tracked) = Some 0 \<and> uaf (snd (hook_dup2 0 0 sample_tracked))"
proof -
  have ok: "fdtab_ok sample_tracked"
    by (auto simp: fdtab_ok_def sample_tracked_def sample_cow_def FD_TABLE_MAX_def split: if_splits)
  have t: "fdtab_path 0 sample_tracked = Some ''/f''"
    by (simp add: fd_in_table_def FD_TABLE_MAX_def fdtab_path_def fdtab_get_def deref_def sample_tracked_def)
  have "fst (hook_dup2 0 0 sample_tracked) = Some 0"
    by (simp add: hook_dup2_def k_dup2_def kcall_def k_ofd_def sample_tracked_def sample_cow_def)
  with dup2_same_fd_reads_freed[OF ok t] show ?thesis by simp
qed

section \<open>Where the lower layer leaks\<close>

text \<open>
  The \<open>syscall\<close> wrapper copies the tracked path up but then runs the raw call on the descriptor.
  When the path already has its own file and the descriptor still refers to the image's inode (a
  read-only descriptor tracked before the copy-up), \<open>SYS_fchmod\<close> changes the image's inode; the
  interposed \<open>fchmod\<close> on the same descriptor changes the container's copy and keeps the image.
\<close>

theorem raw_fchmod_changes_lower:
  assumes "cow_ok L s" "alive s" "script s = []" "fdtab_path fd s = Some p"
    and "k_resolve True AtCwd p s = Some e" "k_lookup s e = Some j" "k_nlink s j \<le> 1"
    and "k_ofd fd s = Some od" "o_ino (ofds s od) \<in> lower_inos L s"
  shows "inodes (snd (hook_syscall (SysFchmod fd m) s)) (o_ino (ofds s od)) = set_mode m (inodes s (o_ino (ofds s od)))
    \<and> lower_same L s (snd (hook_fchmod fd m s))"
proof -
  have ss: "stat_script s = []" using assms(1) by (simp add: cow_ok_def)
  have same: "s\<lparr>stat_script := []\<rparr> = s" by (rule cow.equality) (simp_all add: ss)
  have bf: "break_fuel = Suc FD_TABLE_MAX" by (simp add: break_fuel_def)
  have st: "k_stat True AtCwd p s = (Some (k_stat_inode s j), s)"
    using assms(2,5,6) by (simp add: k_stat_def ss same Let_def)
  have "break_hardlink_copy (Some p) True s = (True, s)"
    using assms(7) by (simp add: break_hardlink_copy_def bf st)
  then have "hook_syscall (SysFchmod fd m) s = cret (k_fsetattr fd (set_mode m) s)"
    using assms(4) by (simp add: hook_syscall_def break_tracked_def)
  then have "inodes (snd (hook_syscall (SysFchmod fd m) s)) (o_ino (ofds s od)) = set_mode m (inodes s (o_ino (ofds s od)))"
    using assms(2,3,8) by (simp add: k_fsetattr_def kcall_def k_upd_inode_def)
  moreover have "own_fd L s fd" using assms(4) by (simp add: own_fd_def)
  ultimately show ?thesis
    using frame_same[OF fd_break_setattr_frame[OF assms(1), of fd "set_mode m"]] by (simp add: hook_fchmod_def)
qed

definition sample_leak :: cow where
  "sample_leak = sample_tracked\<lparr>dents := [(''low'', 0), (''u/f'', 1)], next_ino := 2, script := []\<rparr>"

lemma sample_leak_lookup: "k_lookup sample_leak e = (if e = ''low'' then Some 0 else if e = ''u/f'' then Some 1 else None)"
  by (simp add: k_lookup_def sample_leak_def)

lemma sample_leak_lower: "lower_inos {''low''} sample_leak = {0}"
  by (auto simp: lower_inos_def sample_leak_lookup)

lemma raw_fchmod_changes_lower_witness:
  "0 \<in> lower_inos {''low''} sample_leak \<and> imode (inodes sample_leak 0) = 0x1A4 \<and>
   imode (inodes (snd (hook_syscall (SysFchmod 0 0) sample_leak)) 0) = 0"
proof -
  have ok: "cow_ok {''low''} sample_leak"
    unfolding cow_ok_def sample_leak_lower fd_ok_def
    by (auto simp: sample_leak_lookup split: if_splits)
      (simp_all add: sample_leak_def sample_tracked_def sample_cow_def split: if_splits)
  have r: "k_resolve True AtCwd ''/f'' sample_leak = Some ''u/f''"
    by (simp add: k_resolve_def numeral_eq_Suc sample_leak_lookup)
      (simp add: sample_leak_def sample_tracked_def sample_cow_def sample_leak_lookup)
  have f: "alive sample_leak" "script sample_leak = []" "fdtab_path 0 sample_leak = Some ''/f''"
    "k_lookup sample_leak ''u/f'' = Some 1" "k_nlink sample_leak 1 \<le> 1" "k_ofd 0 sample_leak = Some 0"
    "o_ino (ofds sample_leak 0) = 0" "imode (inodes sample_leak 0) = 0x1A4"
    by (simp_all add: sample_leak_def sample_tracked_def sample_cow_def fdtab_path_def fdtab_get_def fd_in_table_def
        FD_TABLE_MAX_def deref_def k_lookup_def k_nlink_def k_ofd_def)
  show ?thesis
    using raw_fchmod_changes_lower[OF ok f(1-3) r f(4-6), of 0] f(7,8)
    by (simp add: sample_leak_lower set_mode_def)
qed

text \<open>
  \<open>lchown\<close> (like \<open>fchownat\<close> and \<open>utimensat\<close> with \<open>AT_SYMLINK_NOFOLLOW\<close>) is passed to the kernel
  without a copy-up: on a path that is a regular file shared with the image, the image's inode changes
  its owner.
\<close>

theorem lchown_changes_lower:
  assumes "alive s" "script s = []" "k_lookup s (namei s AtCwd p) = Some i"
  shows "inodes (snd (hook_lchown (Some p) u g s)) i = set_owner u g (inodes s i)"
  using assms by (simp add: hook_lchown_def on_path_def k_setattr_def kcall_def k_resolve_def k_upd_inode_def)

lemma lchown_changes_lower_witness:
  "let s = sample_cow\<lparr>script := []\<rparr> in 0 \<in> lower_inos {''low''} s \<and>
     iuid (inodes s 0) = 0 \<and> iuid (inodes (snd (hook_lchown (Some ''/f'') (Some 7) None s)) 0) = 7"
proof -
  have "alive (sample_cow\<lparr>script := []\<rparr>)" "script (sample_cow\<lparr>script := []\<rparr>) = []"
    "k_lookup (sample_cow\<lparr>script := []\<rparr>) (namei (sample_cow\<lparr>script := []\<rparr>) AtCwd ''/f'') = Some 0"
    "iuid (inodes (sample_cow\<lparr>script := []\<rparr>) 0) = 0"
    by (simp_all add: sample_cow_def k_lookup_def)
  with lchown_changes_lower[OF this(1-3), of "Some 7" None] show ?thesis
    by (simp add: set_owner_def lower_inos_def k_lookup_def sample_cow_def)
qed


text \<open>
  A copy-up through a symbolic link copies the link's target but renames the copy over the link
  itself: afterwards the path is a private regular file, no longer a link, while the target's own entry
  still names the shared inode.
\<close>

theorem copy_up_replaces_symlink:
  assumes "breakable p s" "alive s" "no_stale_paths s" "\<not> stat_fails s"
    and "k_lookup s (namei s AtCwd p) = Some l" "ikind (inodes s l) = KLnk q"
    and "k_resolve True AtCwd p s = Some x" "break_hardlink_copy (Some p) copy_data s = (True, t)"
  shows "(\<exists>j. k_lookup t (namei s AtCwd p) = Some j \<and> ikind (inodes t j) = KReg) \<and> x \<noteq> namei s AtCwd p \<and>
    k_lookup t x = k_lookup s x \<and> k_lookup s x \<noteq> None"
proof -
  obtain i where i: "k_lookup s x = Some i" "ikind (inodes s i) = KReg"
    using assms(1,7) by (auto simp: breakable_def)
  have ne: "x \<noteq> namei s AtCwd p" using i assms(5,6) by auto
  show ?thesis using break_copied_up[OF assms(1-4,8)] i ne by (auto simp: copied_up_def Let_def)
qed

definition sample_link :: cow where
  "sample_link = sample_cow\<lparr>dents := [(''low'', 0), (''u/f'', 0), (''u/l'', 1)], next_ino := 2,
     inodes := (inodes sample_cow)(1 := (inodes sample_cow 0)\<lparr>ikind := KLnk ''/f''\<rparr>)\<rparr>"

lemma sample_link_succeeds: "fst (break_hardlink_copy (Some ''/l'') True sample_link)"
  unfolding break_unfold
  apply (subst break_hardlink_copy_stat.simps)
  apply (simp add: sample_link_def sample_cow_def kernel_eval stage_mkstemp del: break_hardlink_copy_stat.simps k_walk.simps)
  apply (simp add: kernel_eval stage_fchmod del: break_hardlink_copy_stat.simps k_walk.simps)
  apply (simp add: kernel_eval stage_source del: break_hardlink_copy_stat.simps k_walk.simps)
  apply (simp add: kernel_eval stage_copy del: break_hardlink_copy_stat.simps k_walk.simps)
  apply (simp add: kernel_eval stage_commit del: break_hardlink_copy_stat.simps k_walk.simps)
  done

lemma copy_up_replaces_symlink_witness:
  "let s = sample_link; t = snd (break_hardlink_copy (Some ''/l'') True s) in
     ikind (inodes s (the (k_lookup s ''u/l''))) = KLnk ''/f'' \<and>
     (\<exists>j. k_lookup t ''u/l'' = Some j \<and> ikind (inodes t j) = KReg) \<and> k_lookup t ''u/f'' = Some 0"
proof -
  have lk: "k_lookup sample_link e =
      (if e = ''low'' \<or> e = ''u/f'' then Some 0 else if e = ''u/l'' then Some 1 else None)" for e
    by (simp add: k_lookup_def sample_link_def)
  have r: "k_resolve True AtCwd ''/l'' sample_link = Some ''u/f''"
    by (simp add: kernel_eval sample_link_def sample_cow_def del: k_walk.simps)
  have n: "k_nlink sample_link 0 = 2" by (simp add: k_nlink_def sample_link_def)
  have b: "breakable ''/l'' sample_link"
    using n r unfolding breakable_def
    by (auto simp: lk) (simp_all add: sample_link_def sample_cow_def split: if_splits)
  have s: "alive sample_link" "no_stale_paths sample_link" "\<not> stat_fails sample_link"
    by (simp_all add: sample_link_def sample_cow_def no_stale_paths_def stat_fails_def)
  have l: "k_lookup sample_link (namei sample_link AtCwd ''/l'') = Some 1" "ikind (inodes sample_link 1) = KLnk ''/f''"
    and nm: "namei sample_link AtCwd ''/l'' = ''u/l''"
    by (simp_all add: sample_link_def sample_cow_def k_lookup_def)
  have t: "break_hardlink_copy (Some ''/l'') True sample_link =
      (True, snd (break_hardlink_copy (Some ''/l'') True sample_link))"
    using sample_link_succeeds by (metis prod.collapse)
  show ?thesis using copy_up_replaces_symlink[OF b s l r t] l(2) nm lk by (simp add: Let_def)
qed

end
