(* ===== verification/Bind_Paths.thy ===== *)
theory Bind_Paths
  imports Prelude
begin

text \<open>
  The string side of the path translator of \<open>pdocker_direct_exec.c\<close>: the bind-mount table and its
  longest-match lookups, component-wise prefixes, lexical normalisation of absolute paths, and the
  helpers built on them. Functions that fill an output buffer of \<open>out_len\<close> bytes return the text; a C
  result of 0, a negative errno or 1 is \<open>PNo\<close>, \<open>PErr\<close> and \<open>POk\<close>.
\<close>

section \<open>The bind table\<close>

record bind_map =
  b_host :: path
  b_guest :: path
  b_readonly :: bool

datatype presult = PNo | PErr int | POk path

definition MAX_BIND_MAPS :: nat where "MAX_BIND_MAPS = 96"

function trim_trailing_slashes :: "path \<Rightarrow> path" where
  "trim_trailing_slashes p =
     (if 1 < length p \<and> last p = CHR ''/'' then trim_trailing_slashes (butlast p) else p)"
  by pat_completeness auto
termination by (relation "measure length") auto

declare trim_trailing_slashes.simps [simp del]

text \<open>
  \<open>tmp\<close> is a buffer of twice \<open>PATH_MAX\<close>, the fields of \<open>PATH_MAX\<close> bytes each; \<open>realpath\<close> is the C
  library's, with a result of at most \<open>PATH_MAX - 1\<close> characters.
\<close>

definition parse_bind_spec :: "(path \<Rightarrow> path option) \<Rightarrow> string \<Rightarrow> bind_map list \<Rightarrow> bind_map list" where
  "parse_bind_spec realpath spec binds =
     (if spec = [] \<or> MAX_BIND_MAPS \<le> length binds then binds
      else let tmp = fst (c_snprintf (2 * PATH_MAX) spec);
               (host, rest) = c_split CHR '':'' tmp in
        if rest = [] then binds
        else let (guest, rest2) = c_split CHR '':'' (tl rest);
                 opts = (if rest2 = [] then None else Some (tl rest2)) in
          if host = [] \<or> guest = [] \<or> hd guest \<noteq> CHR ''/'' then binds
          else let h = (case realpath host of Some r \<Rightarrow> r | None \<Rightarrow> host) in
            binds @ [\<lparr>b_host = trim_trailing_slashes (fst (c_snprintf PATH_MAX h)),
                      b_guest = trim_trailing_slashes (fst (c_snprintf PATH_MAX guest)),
                      b_readonly = (case opts of None \<Rightarrow> False | Some s \<Rightarrow> c_strstr s ''ro'')\<rparr>])"

definition bind_guest_match :: "bind_map \<Rightarrow> path \<Rightarrow> path option" where
  "bind_guest_match m guest =
     (let glen = length (b_guest m) in
      if b_guest m = ''/'' then Some guest
      else if take glen guest \<noteq> b_guest m then None
      else if drop glen guest \<noteq> [] \<and> hd (drop glen guest) \<noteq> CHR ''/'' then None
      else Some (drop glen guest))"

definition host_path_is_under_prefix :: "path \<Rightarrow> path \<Rightarrow> bool" where
  "host_path_is_under_prefix pre p =
     (if pre = [] \<or> p = [] then False
      else take (length pre) p = pre \<and> (drop (length pre) p = [] \<or> hd (drop (length pre) p) = CHR ''/''))"

text \<open>The scan shared by both lookups: the longest key that matches, the last one among equals.\<close>

definition best_step :: "('m \<Rightarrow> path option) \<Rightarrow> ('m \<Rightarrow> nat) \<Rightarrow> 'm \<Rightarrow>
    ('m \<times> path) option \<times> nat \<Rightarrow> ('m \<times> path) option \<times> nat" where
  "best_step mt len m b =
     (case mt m of
        None \<Rightarrow> b
      | Some sfx \<Rightarrow> if snd b \<le> len m then (Some (m, sfx), len m) else b)"

definition best_match :: "('m \<Rightarrow> path option) \<Rightarrow> ('m \<Rightarrow> nat) \<Rightarrow> 'm list \<Rightarrow> ('m \<times> path) option" where
  "best_match mt len ms = fst (fold (best_step mt len) ms (None, 0))"

definition to_buffer :: "nat \<Rightarrow> path \<Rightarrow> presult" where
  "to_buffer n s = (if n \<le> length s then PErr (- ENAMETOOLONG) else POk s)"

definition resolve_bind_path :: "bind_map list \<Rightarrow> path \<Rightarrow> nat \<Rightarrow> presult" where
  "resolve_bind_path binds guest out_len =
     (case best_match (\<lambda>m. bind_guest_match m guest) (\<lambda>m. length (b_guest m)) binds of
        None \<Rightarrow> PNo
      | Some (m, sfx) \<Rightarrow>
          (if sfx = [] then to_buffer out_len (b_host m)
           else if b_host m = ''/'' then to_buffer out_len sfx
           else to_buffer out_len (b_host m @ sfx)))"

definition bind_host_match :: "bind_map \<Rightarrow> path \<Rightarrow> path option" where
  "bind_host_match m host_path =
     (if host_path_is_under_prefix (b_host m) host_path then Some (drop (length (b_host m)) host_path) else None)"

definition bind_host_to_guest_path :: "bind_map list \<Rightarrow> path \<Rightarrow> nat \<Rightarrow> presult" where
  "bind_host_to_guest_path binds host_path out_len =
     (case best_match (\<lambda>m. bind_host_match m host_path) (\<lambda>m. length (b_host m)) binds of
        None \<Rightarrow> PNo
      | Some (m, sfx) \<Rightarrow>
          (if sfx = [] then to_buffer out_len (b_guest m)
           else if b_guest m = ''/'' then to_buffer out_len sfx
           else to_buffer out_len (b_guest m @ sfx)))"

definition host_path_is_under_bind_host :: "bind_map list \<Rightarrow> path \<Rightarrow> bool" where
  "host_path_is_under_bind_host binds p = (\<exists>m\<in>set binds. host_path_is_under_prefix (b_host m) p)"

definition host_path_is_under_allowed_host_path :: "bind_map list \<Rightarrow> path \<Rightarrow> path \<Rightarrow> bool" where
  "host_path_is_under_allowed_host_path binds rootfs p =
     (host_path_is_under_prefix rootfs p \<or> host_path_is_under_bind_host binds p)"

section \<open>Which paths are translated\<close>

definition should_rewrite_path :: "path \<Rightarrow> path \<Rightarrow> bool" where
  "should_rewrite_path rootfs p =
     (if rootfs = [] \<or> p = [] \<or> hd p \<noteq> CHR ''/'' then False
      else if take (length rootfs) p = rootfs \<and>
              (drop (length rootfs) p = [] \<or> hd (drop (length rootfs) p) = CHR ''/'') then False
      else if take 6 p = ''/proc/'' \<or> p = ''/proc'' then False
      else if take 5 p = ''/dev/'' \<or> p = ''/dev'' then False
      else if take 5 p = ''/sys/'' \<or> p = ''/sys'' then False
      else True)"

text \<open>The answer and whether a bind mount gave it; \<open>access_ok\<close> and \<open>tty\<close> are the \<open>access\<close> and \<open>isatty\<close> replies.\<close>

definition resolve_guest_host_path ::
  "bind_map list \<Rightarrow> (path \<Rightarrow> bool) \<Rightarrow> bool \<Rightarrow> path \<Rightarrow> path \<Rightarrow> nat \<Rightarrow> presult \<times> bool" where
  "resolve_guest_host_path binds access_ok tty rootfs guest out_len =
     (if guest = ''/proc'' \<or> take 6 guest = ''/proc/'' then
        (if take 13 guest = ''/proc/self/fd'' \<or> guest = ''/proc/self/exe'' \<or> guest = ''/proc/thread-self/exe''
         then (PNo, False)
         else (case to_buffer out_len (rootfs @ ''/.pdocker-proc'' @ drop 5 guest) of
                 POk out \<Rightarrow> (if access_ok out then POk out else PNo, False)
               | e \<Rightarrow> (e, False)))
      else if guest = ''/dev/tty'' \<and> tty then (to_buffer out_len ''/proc/self/fd/0'', False)
      else if \<not> should_rewrite_path rootfs guest then (PNo, False)
      else (case resolve_bind_path binds guest out_len of
              PErr e \<Rightarrow> (PErr e, False)
            | POk out \<Rightarrow> (POk out, True)
            | PNo \<Rightarrow> (to_buffer out_len (rootfs @ guest), False)))"

definition should_skip_unix_socket_rewrite :: "path \<Rightarrow> bool" where
  "should_skip_unix_socket_rewrite guest = (guest = ''/var/run/nscd/socket'' \<or> guest = ''/run/nscd/socket'')"

section \<open>Segments\<close>

text \<open>The scanners' inner loops: skip slashes, then take the characters up to the next slash.\<close>

definition skip_slashes :: "path \<Rightarrow> path" where
  "skip_slashes p = dropWhile (\<lambda>c. c = CHR ''/'') p"

definition seg_of :: "path \<Rightarrow> path" where
  "seg_of p = takeWhile (\<lambda>c. c \<noteq> CHR ''/'') p"

definition after_seg :: "path \<Rightarrow> path" where
  "after_seg p = dropWhile (\<lambda>c. c \<noteq> CHR ''/'') p"

lemma after_seg_le: "length (after_seg p) \<le> length p"
  by (simp add: after_seg_def length_dropWhile_le)

lemma skip_slashes_le: "length (skip_slashes p) \<le> length p"
  by (simp add: skip_slashes_def length_dropWhile_le)

lemma seg_split: "seg_of p @ after_seg p = p"
  by (simp add: seg_of_def after_seg_def)

lemma scan_shorter: "p \<noteq> [] \<Longrightarrow> length (after_seg (skip_slashes p)) < length p"
proof (cases p)
  case (Cons c cs)
  show ?thesis
  proof (cases "c = CHR ''/''")
    case True
    then have "skip_slashes p = skip_slashes cs" by (simp add: Cons skip_slashes_def)
    moreover have "length (after_seg (skip_slashes cs)) \<le> length cs"
      using le_trans[OF after_seg_le skip_slashes_le] .
    ultimately show ?thesis by (simp add: Cons)
  next
    case False
    then have "skip_slashes p = p" "after_seg p = after_seg cs" by (simp_all add: Cons skip_slashes_def after_seg_def)
    then show ?thesis using after_seg_le[of cs] by (simp add: Cons)
  qed
qed simp

function path_has_parent_segment :: "path \<Rightarrow> bool" where
  "path_has_parent_segment p =
     (if p = [] then False
      else let q = skip_slashes p in
        if take 2 q = ''..'' \<and> (drop 2 q = [] \<or> hd (drop 2 q) = CHR ''/'') then True
        else path_has_parent_segment (after_seg q))"
  by pat_completeness auto
termination by (relation "measure length") (auto simp: scan_shorter)

declare path_has_parent_segment.simps [simp del]

definition path_parent :: "nat \<Rightarrow> path \<Rightarrow> path + int" where
  "path_parent out_len p =
     (if out_len = 0 \<or> p = [] then Inr (- EINVAL)
      else if PATH_MAX \<le> length p then Inr (- ENAMETOOLONG)
      else let tmp = trim_trailing_slashes p in
        (case c_rprefix CHR ''/'' tmp of
           None \<Rightarrow> if out_len \<le> 1 then Inr (- ENAMETOOLONG) else Inl ''.''
         | Some d \<Rightarrow> (let r = (if d = ''/'' then ''/'' else butlast d) in
                       if out_len \<le> length r then Inr (- ENAMETOOLONG) else Inl r)))"

function normalize_loop :: "nat \<Rightarrow> path \<Rightarrow> nat list \<Rightarrow> path \<Rightarrow> path option" where
  "normalize_loop out_len p marks out =
     (if p = [] then Some out
      else let q = skip_slashes p; seg = seg_of q; rest = after_seg q in
        if seg = [] \<or> seg = ''.'' then normalize_loop out_len rest marks out
        else if seg = ''..'' then
          (case marks of
             [] \<Rightarrow> normalize_loop out_len rest [] out
           | m # ms \<Rightarrow> normalize_loop out_len rest ms (take m out))
        else if PATH_MAX div 2 \<le> length marks then None
        else if 1 < length out \<and> out_len \<le> length out + 1 then None
        else let out1 = (if 1 < length out then out @ ''/'' else out) in
          if out_len \<le> length out1 + length seg then None
          else normalize_loop out_len rest (length out # marks) (out1 @ seg))"
  by pat_completeness auto
termination by (relation "measure (\<lambda>(n, p, m, out). length p)") (auto simp: scan_shorter)

declare normalize_loop.simps [simp del]

definition normalize_absolute_path_lexical :: "path \<Rightarrow> nat \<Rightarrow> path + int" where
  "normalize_absolute_path_lexical p out_len =
     (if p = [] \<or> hd p \<noteq> CHR ''/'' \<or> out_len < 2 then Inr (- EINVAL)
      else case normalize_loop out_len p [] ''/'' of
             None \<Rightarrow> Inr (- ENAMETOOLONG)
           | Some out \<Rightarrow> Inl out)"


section \<open>The guest's working directory\<close>

text \<open>\<open>strtok_r\<close> on slashes.\<close>

function path_tokens :: "path \<Rightarrow> path list" where
  "path_tokens p =
     (if p = [] then []
      else let q = skip_slashes p in
        if q = [] then [] else seg_of q # path_tokens (after_seg q))"
  by pat_completeness auto
termination by (relation "measure length") (auto simp: scan_shorter)

declare path_tokens.simps [simp del]

fun guest_parts :: "path list \<Rightarrow> path list \<Rightarrow> path list" where
  "guest_parts [] parts = parts"
| "guest_parts (t # ts) parts =
     (if 256 \<le> length parts then parts
      else if t = ''.'' then guest_parts ts parts
      else if t = ''..'' then guest_parts ts (butlast parts)
      else guest_parts ts (parts @ [t]))"

fun join_parts :: "nat \<Rightarrow> bool \<Rightarrow> path list \<Rightarrow> path \<Rightarrow> path" where
  "join_parts out_len first [] out = out"
| "join_parts out_len first (s # ss) out =
     (if out_len \<le> length out + 1 then out
      else let out1 = (if \<not> first \<and> length out + 1 < out_len then out @ ''/'' else out) in
        join_parts out_len False ss (out1 @ take (out_len - length out1 - 1) s))"

definition normalize_guest_path :: "path \<Rightarrow> path \<Rightarrow> nat \<Rightarrow> path" where
  "normalize_guest_path base p out_len =
     (let b = (if base = [] then ''/'' else base) in
      if p = [] then fst (c_snprintf out_len b)
      else let combined = fst (c_snprintf PATH_MAX (if hd p = CHR ''/'' then p else b @ ''/'' @ p))
           in join_parts out_len True (guest_parts (path_tokens combined) []) ''/'')"

section \<open>Relative link targets\<close>

text \<open>The common prefix: the index of its last slash and of its end.\<close>

fun common_scan :: "path \<Rightarrow> path \<Rightarrow> nat \<Rightarrow> nat \<Rightarrow> nat \<times> nat" where
  "common_scan (a # as) (b # bs) common last_slash =
     (if a = b then common_scan as bs (Suc common) (if a = CHR ''/'' then common else last_slash)
      else (common, last_slash))"
| "common_scan _ _ common last_slash = (common, last_slash)"

definition relative_path_between :: "path \<Rightarrow> path \<Rightarrow> nat \<Rightarrow> path option" where
  "relative_path_between from_dir to_path out_len =
     (let (common, last0) = common_scan from_dir to_path 0 0;
          last_slash = (if drop common from_dir = [] \<and>
                           (drop common to_path = [] \<or> hd (drop common to_path) = CHR ''/'')
                        then common else last0) in
      if last_slash = 0 then None
      else let ups = concat (map (\<lambda>_. ''../'') (path_tokens (drop last_slash from_dir)));
               rest_to = skip_slashes (drop last_slash to_path);
               tmp = (if ups = [] \<and> rest_to = [] then ''.'' else take (2 * PATH_MAX - 1) (ups @ rest_to)) in
        if out_len < length tmp + 1 then None else Some tmp)"

section \<open>Names\<close>

definition path_basename :: "path \<Rightarrow> path" where
  "path_basename p = (case c_rprefix CHR ''/'' p of None \<Rightarrow> p | Some d \<Rightarrow> drop (length d) p)"

definition basename_is :: "path \<Rightarrow> path \<Rightarrow> bool" where
  "basename_is p name = (path_basename p = name)"

definition should_skip_ldconfig :: "(string \<Rightarrow> string option) \<Rightarrow> path \<Rightarrow> bool" where
  "should_skip_ldconfig getenv p =
     (if getenv ''PDOCKER_DIRECT_LDCONFIG_REAL'' \<noteq> None then False
      else path_basename p = ''ldconfig'' \<or> path_basename p = ''ldconfig.real'')"

definition guest_exec_path :: "path \<Rightarrow> path \<Rightarrow> nat \<Rightarrow> path" where
  "guest_exec_path rootfs p out_len =
     (let rest = drop (length rootfs) p;
          guest = (if take (length rootfs) p = rootfs \<and> (rest = [] \<or> hd rest = CHR ''/'')
                   then (if rest = [] then ''/'' else rest) else p)
      in fst (c_snprintf out_len guest))"

definition path_context_follows_final_component :: "string \<Rightarrow> bool" where
  "path_context_follows_final_component ctx =
     (ctx \<noteq> ''unlinkat'' \<and> ctx \<noteq> ''symlinkat'' \<and> ctx \<noteq> ''mkdirat'' \<and> ctx \<noteq> ''mknodat'')"

end
