(* ===== verification/Path_Lemmas.thy ===== *)
theory Path_Lemmas
  imports Bind_Paths
begin

text \<open>
  What the string functions compute: an absolute path is the rendering of a list of segments, and
  lexical normalisation is the fold of a stack machine over the tokens of the path.
\<close>

section \<open>Paths as segment lists\<close>

definition render :: "path list \<Rightarrow> path" where
  "render segs = (if segs = [] then ''/'' else concat (map (\<lambda>s. CHR ''/'' # s) segs))"

definition clean_seg :: "path \<Rightarrow> bool" where
  "clean_seg s \<longleftrightarrow> s \<noteq> [] \<and> CHR ''/'' \<notin> set s \<and> s \<noteq> ''.'' \<and> s \<noteq> ''..''"

definition canon_step :: "path \<Rightarrow> path list \<Rightarrow> path list" where
  "canon_step t st = (if t = ''.'' then st else if t = ''..'' then tl st else t # st)"

text \<open>The segments a path means, \<open>.\<close> and \<open>..\<close> resolved, \<open>..\<close> at the root staying there.\<close>

definition canon :: "path \<Rightarrow> path list" where
  "canon p = rev (fold canon_step (path_tokens p) [])"

lemma skip_slashes_hd: "skip_slashes p = [] \<or> hd (skip_slashes p) \<noteq> CHR ''/''"
  unfolding skip_slashes_def by (metis (mono_tags, lifting) hd_dropWhile)

lemma seg_empty: "seg_of (skip_slashes p) = [] \<longleftrightarrow> skip_slashes p = []"
  using skip_slashes_hd[of p] by (cases "skip_slashes p") (auto simp: seg_of_def)

lemma tokens_clean: "t \<in> set (path_tokens p) \<Longrightarrow> t \<noteq> [] \<and> CHR ''/'' \<notin> set t"
proof (induction p rule: path_tokens.induct)
  case (1 p)
  show ?case
  proof (cases "p = [] \<or> skip_slashes p = []")
    case True
    then have "path_tokens p = []" by (subst path_tokens.simps) auto
    with 1(2) show ?thesis by simp
  next
    case False
    then have "t = seg_of (skip_slashes p) \<or> t \<in> set (path_tokens (after_seg (skip_slashes p)))"
      using 1(2) by (simp add: path_tokens.simps[of p] Let_def)
    then show ?thesis
      using 1(1) False seg_empty[of p] by (auto simp: seg_of_def dest: set_takeWhileD)
  qed
qed

lemma canon_step_clean:
  "\<lbrakk>t \<noteq> []; CHR ''/'' \<notin> set t; \<forall>s\<in>set st. clean_seg s\<rbrakk> \<Longrightarrow> \<forall>s\<in>set (canon_step t st). clean_seg s"
  by (cases st) (simp_all add: canon_step_def clean_seg_def)

lemma canon_clean: "s \<in> set (canon p) \<Longrightarrow> clean_seg s"
proof -
  have "\<forall>s\<in>set (fold canon_step ts st). clean_seg s"
    if "\<forall>t\<in>set ts. t \<noteq> [] \<and> CHR ''/'' \<notin> set t" "\<forall>s\<in>set st. clean_seg s" for ts st
    using that by (induction ts arbitrary: st) (simp, metis canon_step_clean fold_simps(2) list.set_intros(1) list.set_intros(2))
  from this[of "path_tokens p" "[]"] show "s \<in> set (canon p) \<Longrightarrow> clean_seg s"
    using tokens_clean by (auto simp: canon_def)
qed

lemma render_snoc: "render (segs @ [s]) = (if segs = [] then [] else render segs) @ CHR ''/'' # s"
  by (simp add: render_def)

lemma render_hd: "render segs \<noteq> [] \<and> hd (render segs) = CHR ''/''"
  by (cases segs) (simp_all add: render_def)

lemma render_length: "1 \<le> length (render segs)"
  using render_hd[of segs] by (cases "render segs") auto

lemma render_gt1: "\<forall>s\<in>set segs. s \<noteq> [] \<Longrightarrow> segs \<noteq> [] \<longleftrightarrow> 1 < length (render segs)"
  by (cases segs) (auto simp: render_def)

text \<open>The tokens of a rendered path are its segments.\<close>

lemma tokens_slash: "path_tokens (CHR ''/'' # p) = path_tokens p"
proof (cases "p = []")
  case True
  then show ?thesis by (simp add: path_tokens.simps skip_slashes_def)
next
  case False
  have "skip_slashes (CHR ''/'' # p) = skip_slashes p" by (simp add: skip_slashes_def)
  with False show ?thesis by (simp add: path_tokens.simps[of p] path_tokens.simps[of "CHR ''/'' # p"])
qed

lemma tokens_seg_app:
  assumes "s \<noteq> []" "CHR ''/'' \<notin> set s" "r = [] \<or> hd r = CHR ''/''"
  shows "path_tokens (s @ r) = s # path_tokens r"
proof -
  have tw: "takeWhile (\<lambda>c. c \<noteq> CHR ''/'') r = []" "dropWhile (\<lambda>c. c \<noteq> CHR ''/'') r = r"
    using assms(3) by (cases r; auto)+
  have all: "\<forall>x\<in>set s. x \<noteq> CHR ''/''" using assms(2) by auto
  have "skip_slashes (s @ r) = s @ r" using assms(1,2) by (cases s) (auto simp: skip_slashes_def)
  moreover have "seg_of (s @ r) = s" "after_seg (s @ r) = r"
    using all tw by (simp_all add: seg_of_def after_seg_def takeWhile_append2 dropWhile_append2)
  ultimately show ?thesis using assms(1) by (simp add: path_tokens.simps[of "s @ r"] Let_def)
qed

lemma tokens_render: "\<forall>s\<in>set segs. s \<noteq> [] \<and> CHR ''/'' \<notin> set s \<Longrightarrow> path_tokens (render segs) = segs"
proof -
  have "path_tokens (concat (map (\<lambda>s. CHR ''/'' # s) segs)) = segs"
    if "\<forall>s\<in>set segs. s \<noteq> [] \<and> CHR ''/'' \<notin> set s" for segs
    using that
  proof (induction segs)
    case Nil
    then show ?case by (simp add: path_tokens.simps)
  next
    case (Cons s segs)
    have "concat (map (\<lambda>s. CHR ''/'' # s) segs) = [] \<or> hd (concat (map (\<lambda>s. CHR ''/'' # s) segs)) = CHR ''/''"
      by (cases segs) auto
    with Cons show ?case by (simp add: tokens_slash tokens_seg_app)
  qed
  moreover have "path_tokens ''/'' = []" by (simp add: path_tokens.simps skip_slashes_def)
  ultimately show "\<forall>s\<in>set segs. s \<noteq> [] \<and> CHR ''/'' \<notin> set s \<Longrightarrow> path_tokens (render segs) = segs"
    by (simp add: render_def)
qed

lemma canon_render: "\<forall>s\<in>set segs. clean_seg s \<Longrightarrow> canon (render segs) = segs"
proof -
  assume c: "\<forall>s\<in>set segs. clean_seg s"
  have "fold canon_step segs st = rev segs @ st" if "\<forall>s\<in>set segs. clean_seg s" for st
    using that by (induction segs arbitrary: st) (auto simp: canon_step_def clean_seg_def)
  with c show ?thesis by (simp add: canon_def tokens_render clean_seg_def)
qed

section \<open>Lexical normalisation\<close>

text \<open>The buffer and the mark stack represent a stack of segments.\<close>

inductive stack_rep :: "nat list \<Rightarrow> path \<Rightarrow> path list \<Rightarrow> bool" where
  empty: "stack_rep [] ''/'' []"
| push: "stack_rep marks out st \<Longrightarrow> s \<noteq> [] \<Longrightarrow>
    stack_rep (length out # marks) ((if 1 < length out then out @ ''/'' else out) @ s) (s # st)"

inductive_cases stack_rep_NilE: "stack_rep [] out st"
inductive_cases stack_rep_ConsE: "stack_rep (m # ms) out st"

lemma stack_rep_render: "stack_rep marks out st \<Longrightarrow> out = render (rev st) \<and> (\<forall>s\<in>set st. s \<noteq> []) \<and> length marks = length st"
proof (induction rule: stack_rep.induct)
  case (push marks out st s)
  then have "rev st \<noteq> [] \<longleftrightarrow> 1 < length out" using render_gt1[of "rev st"] by simp
  with push show ?case by (auto simp: render_snoc) (simp add: render_def)
qed (simp add: render_def)


text \<open>The loop reads its path only through the tokens: the same loop over the list of them.\<close>

fun token_loop :: "nat \<Rightarrow> path list \<Rightarrow> nat list \<Rightarrow> path \<Rightarrow> path option" where
  "token_loop n [] marks out = Some out"
| "token_loop n (seg # ts) marks out =
     (if seg = ''.'' then token_loop n ts marks out
      else if seg = ''..'' then
        (case marks of [] \<Rightarrow> token_loop n ts [] out | m # ms \<Rightarrow> token_loop n ts ms (take m out))
      else if PATH_MAX div 2 \<le> length marks then None
      else if 1 < length out \<and> n \<le> length out + 1 then None
      else let out1 = (if 1 < length out then out @ ''/'' else out) in
        if n \<le> length out1 + length seg then None
        else token_loop n ts (length out # marks) (out1 @ seg))"

lemma tokens_Nil [simp]: "path_tokens [] = []"
  by (subst path_tokens.simps) simp

lemma tokens_step:
  "p \<noteq> [] \<Longrightarrow> path_tokens p = (if seg_of (skip_slashes p) = [] then []
     else seg_of (skip_slashes p) # path_tokens (after_seg (skip_slashes p)))"
  using seg_empty[of p] by (subst path_tokens.simps) (auto simp: Let_def)

lemma normalize_loop_Nil [simp]: "normalize_loop n [] marks out = Some out"
  by (subst normalize_loop.simps) simp

lemma normalize_loop_tokens: "normalize_loop n p marks out = token_loop n (path_tokens p) marks out"
proof (induction "length p" arbitrary: p marks out rule: less_induct)
  case less
  show ?case
  proof (cases "p = []")
    case False
    let ?seg = "seg_of (skip_slashes p)" and ?rest = "after_seg (skip_slashes p)"
    have IH: "normalize_loop n ?rest m r = token_loop n (path_tokens ?rest) m r" for m r
      using less[of ?rest] scan_shorter[OF False] by blast
    show ?thesis
    proof (cases "?seg = []")
      case True
      then have "?rest = []" using seg_empty[of p] by (simp add: after_seg_def)
      with True False show ?thesis by (subst normalize_loop.simps) (simp add: tokens_step)
    next
      case seg: False
      show ?thesis
        by (subst normalize_loop.simps, simp only: tokens_step[OF False] token_loop.simps Let_def IH)
          (simp add: False seg split: list.split)
    qed
  qed simp
qed

lemma stack_rep_pop: "stack_rep (m # ms) out st \<Longrightarrow> stack_rep ms (take m out) (tl st)"
  by (elim stack_rep_ConsE) (simp split: if_splits)

lemma stack_rep_empty: "stack_rep [] out st \<Longrightarrow> st = []"
  by (elim stack_rep_NilE) simp

lemma token_loop_sound:
  "token_loop n ts marks out = Some r \<Longrightarrow> stack_rep marks out st \<Longrightarrow> \<forall>t\<in>set ts. t \<noteq> [] \<Longrightarrow>
   r = render (rev (fold canon_step ts st))"
proof (induction ts arbitrary: marks out st)
  case Nil
  then show ?case by (simp add: stack_rep_render)
next
  case (Cons seg ts)
  have ts: "\<forall>t\<in>set ts. t \<noteq> []" and seg: "seg \<noteq> []" using Cons.prems(3) by auto
  show ?case
  proof (cases "seg = ''.'' \<or> seg = ''..''")
    case True
    then show ?thesis
      using Cons.prems(1,2) Cons.IH[OF _ _ ts] stack_rep_empty[of out st] stack_rep_pop[of _ _ out st]
      by (auto simp: canon_step_def split: list.splits)
  next
    case False
    let ?out1 = "if 1 < length out then out @ ''/'' else out"
    have "token_loop n ts (length out # marks) (?out1 @ seg) = Some r"
      using Cons.prems(1) False by (simp add: Let_def split: if_splits)
    from Cons.IH[OF this stack_rep.push[OF Cons.prems(2) seg] ts] False show ?thesis
      by (simp add: canon_step_def)
  qed
qed

text \<open>With a buffer longer than the path the loop never gives up.\<close>

fun tokens_len :: "path list \<Rightarrow> nat" where
  "tokens_len [] = 0"
| "tokens_len (t # ts) = Suc (length t) + tokens_len ts"

lemma tokens_len_le: "tokens_len (path_tokens p) \<le> length p + (if p \<noteq> [] \<and> hd p = CHR ''/'' then 0 else 1)"
proof (induction "length p" arbitrary: p rule: less_induct)
  case less
  show ?case
  proof (cases "p = [] \<or> seg_of (skip_slashes p) = []")
    case False
    let ?q = "skip_slashes p"
    have len: "length (seg_of ?q) + length (after_seg ?q) = length ?q"
      using seg_split[of ?q] by (metis length_append)
    have "after_seg ?q \<noteq> [] \<Longrightarrow> hd (after_seg ?q) = CHR ''/''"
      unfolding after_seg_def by (metis (mono_tags, lifting) hd_dropWhile)
    then have "tokens_len (path_tokens (after_seg ?q)) \<le> length (after_seg ?q)"
      using less[of "after_seg ?q"] scan_shorter[of p] False
      by (cases "after_seg ?q = []") auto
    moreover have "length ?q + (if hd p = CHR ''/'' then 1 else 0) \<le> length p"
      using False skip_slashes_le[of "tl p"] by (cases p) (auto simp: skip_slashes_def)
    ultimately show ?thesis using False len by (auto simp: tokens_step split: if_splits)
  next
    case True
    then show ?thesis by (cases "p = []") (simp_all add: tokens_step)
  qed
qed

lemma token_loop_fits:
  assumes "length out + tokens_len ts < n" "2 * length marks + tokens_len ts + 1 \<le> PATH_MAX"
    "\<forall>t\<in>set ts. t \<noteq> []"
  shows "token_loop n ts marks out \<noteq> None"
  using assms
proof (induction ts arbitrary: marks out)
  case (Cons seg ts)
  have "1 \<le> length seg" using Cons.prems(3) by (cases seg) auto
  with Cons show ?case by (auto simp: Let_def split: list.split)
qed simp

lemma normalize_lexical_exact:
  assumes "p \<noteq> []" "hd p = CHR ''/''" "length p + 1 < n" "length p < PATH_MAX"
  shows "normalize_absolute_path_lexical p n = Inl (render (canon p))"
proof -
  have ne: "\<forall>t\<in>set (path_tokens p). t \<noteq> []" using tokens_clean by blast
  have "tokens_len (path_tokens p) \<le> length p" using tokens_len_le[of p] assms by simp
  then have "normalize_loop n p [] ''/'' \<noteq> None"
    unfolding normalize_loop_tokens using assms ne by (intro token_loop_fits) auto
  then obtain r where r: "normalize_loop n p [] ''/'' = Some r" by blast
  then have "r = render (canon p)"
    using token_loop_sound[OF _ stack_rep.empty ne, of n r] by (simp add: canon_def normalize_loop_tokens)
  with r assms show ?thesis by (simp add: normalize_absolute_path_lexical_def)
qed

section \<open>Component-wise prefixes\<close>

text \<open>\<open>boundary s\<close>: the text after a matched prefix, empty or starting a new component.\<close>

definition boundary :: "path \<Rightarrow> bool" where
  "boundary s \<longleftrightarrow> s = [] \<or> hd s = CHR ''/''"

lemma tokens_append: "boundary r \<Longrightarrow> path_tokens (p @ r) = path_tokens p @ path_tokens r"
proof (induction "length p" arbitrary: p rule: less_induct)
  case less
  consider "p = []" | p' where "p = CHR ''/'' # p'" | "p \<noteq> []" "hd p \<noteq> CHR ''/''" by (cases p) auto
  then show ?case
  proof cases
    case (2 p')
    with less show ?thesis by (simp add: tokens_slash)
  next
    case 3
    have q: "skip_slashes p = p" using 3 by (cases p) (auto simp: skip_slashes_def)
    have seg: "seg_of p \<noteq> []" "CHR ''/'' \<notin> set (seg_of p)"
      using 3 by (cases p; auto simp: seg_of_def dest: set_takeWhileD)+
    have bd: "boundary (after_seg p)"
      unfolding after_seg_def boundary_def by (metis (mono_tags, lifting) hd_dropWhile)
    then have bd2: "boundary (after_seg p @ r)" using less.prems by (cases "after_seg p") (auto simp: boundary_def)
    have "path_tokens (p @ r) = path_tokens (seg_of p @ (after_seg p @ r))" by (simp flip: append_assoc add: seg_split)
    also have "\<dots> = seg_of p # path_tokens (after_seg p @ r)"
      using tokens_seg_app[OF seg, of "after_seg p @ r"] bd2 by (simp add: boundary_def)
    also have "path_tokens (after_seg p @ r) = path_tokens (after_seg p) @ path_tokens r"
      using less scan_shorter[OF 3(1)] by (simp add: q)
    also have "seg_of p # (path_tokens (after_seg p) @ path_tokens r) = path_tokens p @ path_tokens r"
      using tokens_seg_app[OF seg, of "after_seg p"] bd by (simp add: boundary_def seg_split)
    finally show ?thesis .
  qed simp
qed

lemma under_prefix_iff:
  "host_path_is_under_prefix pre p \<longleftrightarrow> pre \<noteq> [] \<and> (\<exists>r. p = pre @ r \<and> boundary r)"
proof
  assume a: "host_path_is_under_prefix pre p"
  then have "p = pre @ drop (length pre) p" "boundary (drop (length pre) p)"
    by (auto simp: host_path_is_under_prefix_def boundary_def split: if_splits) (metis append_take_drop_id)+
  with a show "pre \<noteq> [] \<and> (\<exists>r. p = pre @ r \<and> boundary r)"
    by (auto simp: host_path_is_under_prefix_def split: if_splits)
next
  assume "pre \<noteq> [] \<and> (\<exists>r. p = pre @ r \<and> boundary r)"
  then show "host_path_is_under_prefix pre p" by (auto simp: host_path_is_under_prefix_def boundary_def)
qed

lemma under_prefix_tokens:
  "host_path_is_under_prefix pre p \<Longrightarrow> prefix (path_tokens pre) (path_tokens p)"
  by (auto simp: under_prefix_iff tokens_append)

lemma render_append: "ps \<noteq> [] \<Longrightarrow> render (ps @ rs) = render ps @ (if rs = [] then [] else render rs)"
  by (simp add: render_def)

lemma under_prefix_render:
  assumes "\<forall>s\<in>set ps. clean_seg s" "\<forall>s\<in>set qs. clean_seg s" "ps \<noteq> []"
  shows "host_path_is_under_prefix (render ps) (render qs) \<longleftrightarrow> prefix ps qs"
proof
  assume "host_path_is_under_prefix (render ps) (render qs)"
  then show "prefix ps qs" using under_prefix_tokens assms by (fastforce simp: tokens_render clean_seg_def)
next
  assume "prefix ps qs"
  then obtain rs where "qs = ps @ rs" by (auto simp: prefix_def)
  with assms(3) show "host_path_is_under_prefix (render ps) (render qs)"
    using render_hd[of ps] render_hd[of rs] by (auto simp: under_prefix_iff render_append boundary_def)
qed

section \<open>The longest match\<close>

lemma best_fold:
  assumes "fold (best_step mt len) ms (None, 0) = (r, n)"
  shows "case r of
           None \<Rightarrow> n = 0 \<and> (\<forall>m\<in>set ms. mt m = None)
         | Some (m, s) \<Rightarrow> m \<in> set ms \<and> mt m = Some s \<and> n = len m \<and> (\<forall>k\<in>set ms. mt k \<noteq> None \<longrightarrow> len k \<le> n)"
  using assms
proof (induction ms arbitrary: r n rule: rev_induct)
  case (snoc m ms)
  obtain r0 n0 where f: "fold (best_step mt len) ms (None, 0) = (r0, n0)" by fastforce
  from snoc.prems f have step: "best_step mt len m (r0, n0) = (r, n)" by simp
  show ?case
    using snoc.IH[OF f] step
    by (cases r0; cases "mt m") (auto simp: best_step_def split: if_splits, meson le_trans)
qed simp

lemma best_match_Some:
  "best_match mt len ms = Some (m, s) \<Longrightarrow>
   m \<in> set ms \<and> mt m = Some s \<and> (\<forall>k\<in>set ms. mt k \<noteq> None \<longrightarrow> len k \<le> len m)"
  using best_fold[of mt len ms] by (cases "fold (best_step mt len) ms (None, 0)") (auto simp: best_match_def)

lemma best_match_None: "best_match mt len ms = None \<longleftrightarrow> (\<forall>m\<in>set ms. mt m = None)"
proof -
  obtain r n where f: "fold (best_step mt len) ms (None, 0) = (r, n)" by fastforce
  show ?thesis using best_fold[OF f] f by (cases r) (auto simp: best_match_def)
qed

text \<open>
  The contract of a lookup by longest key: a match splits the path at a component boundary, and every
  such split is found. The key \<open>/\<close> is a case of its own.
\<close>

locale longest_prefix =
  fixes mt :: "'m \<Rightarrow> path \<Rightarrow> path option"
    and key :: "'m \<Rightarrow> path"
  assumes matched: "mt m p = Some s \<Longrightarrow> key m \<noteq> ''/'' \<Longrightarrow> p = key m @ s \<and> boundary s"
    and complete: "p = key m @ s \<Longrightarrow> boundary s \<Longrightarrow> key m \<noteq> [] \<Longrightarrow> key m \<noteq> ''/'' \<Longrightarrow> mt m p = Some s"
begin

lemma pick:
  assumes "best_match (\<lambda>m. mt m p) (\<lambda>m. length (key m)) ms = Some (m, s)" "key m \<noteq> ''/''"
  shows "m \<in> set ms \<and> p = key m @ s \<and> boundary s \<and>
    (\<forall>k\<in>set ms. \<forall>r. p = key k @ r \<longrightarrow> boundary r \<longrightarrow> key k \<noteq> [] \<longrightarrow> key k \<noteq> ''/'' \<longrightarrow> length (key k) \<le> length (key m))"
  using best_match_Some[OF assms(1)] matched[OF _ assms(2)] complete by blast

lemma pick_none:
  assumes "best_match (\<lambda>m. mt m p) (\<lambda>m. length (key m)) ms = None" "k \<in> set ms" "key k \<noteq> []" "key k \<noteq> ''/''"
  shows "\<not> (\<exists>r. p = key k @ r \<and> boundary r)"
  using assms best_match_None[of "\<lambda>m. mt m p" "\<lambda>m. length (key m)" ms] complete[of p k] by auto

lemma pick_unique:
  assumes "m \<in> set ms" "mt m p = Some s" "\<And>k. k \<in> set ms \<Longrightarrow> mt k p \<noteq> None \<Longrightarrow> k = m"
  shows "best_match (\<lambda>m. mt m p) (\<lambda>m. length (key m)) ms = Some (m, s)"
proof (cases "best_match (\<lambda>m. mt m p) (\<lambda>m. length (key m)) ms")
  case None
  with assms(1,2) show ?thesis by (simp add: best_match_None)
next
  case (Some b)
  then obtain k r where b: "b = (k, r)" by fastforce
  note k = best_match_Some[OF Some[unfolded b]]
  then have "k = m" using assms(3)[of k] by simp
  with k assms(2) Some b show ?thesis by simp
qed

end

lemma guest_match_split: "bind_guest_match m p = Some s \<Longrightarrow> b_guest m \<noteq> ''/'' \<Longrightarrow> p = b_guest m @ s \<and> boundary s"
  by (auto simp: bind_guest_match_def boundary_def Let_def split: if_splits) (metis append_take_drop_id)+

interpretation guest_side: longest_prefix bind_guest_match b_guest
  by unfold_locales (auto simp: guest_match_split, auto simp: bind_guest_match_def boundary_def Let_def)

interpretation host_side: longest_prefix bind_host_match b_host
proof unfold_locales
  show "bind_host_match m p = Some s \<Longrightarrow> b_host m \<noteq> ''/'' \<Longrightarrow> p = b_host m @ s \<and> boundary s" for m p s
    by (auto simp: bind_host_match_def under_prefix_iff split: if_splits)
  show "p = b_host m @ s \<Longrightarrow> boundary s \<Longrightarrow> b_host m \<noteq> [] \<Longrightarrow> b_host m \<noteq> ''/'' \<Longrightarrow> bind_host_match m p = Some s" for p m s
    by (auto simp: bind_host_match_def under_prefix_iff)
qed

end
