(* ===== verification/Path_Guard.thy ===== *)
theory Path_Guard
  imports Path_Lemmas
begin

text \<open>
  The check that a host path stays inside the container (\<open>validate_host_path_under_allowed\<close>) and the
  two caches in front of it. The replies of the operating system for one moment are a record
  \<open>os\<close>; \<open>realpath\<close> answers a path or the error number. Profiling counters are left out.
\<close>

section \<open>The operating system and the configuration\<close>

record os =
  os_realpath :: "path \<Rightarrow> int + path"
  os_access :: "path \<Rightarrow> u64 \<Rightarrow> int"
  os_readlink :: "path \<Rightarrow> int + path"
  os_tty :: bool

record conf =
  cf_rootfs :: path
  cf_binds :: "bind_map list"
  cf_rootfd_rewrite :: bool
  cf_rootfs_fd :: int
  cf_cache :: bool

definition allowed_host :: "conf \<Rightarrow> path \<Rightarrow> bool" where
  "allowed_host cf p = host_path_is_under_allowed_host_path (cf_binds cf) (cf_rootfs cf) p"

section \<open>The caches\<close>

definition PATH_VALIDATION_CACHE_SIZE :: nat where "PATH_VALIDATION_CACHE_SIZE = 512"
definition PATH_REALPATH_CACHE_SIZE :: nat where "PATH_REALPATH_CACHE_SIZE = 256"

record ventry =
  ve_gen :: u64
  ve_follow :: bool
  ve_rc :: int
  ve_host :: path

record rentry =
  re_gen :: u64
  re_path :: path
  re_resolved :: path

record guard =
  g_gen :: u64
  g_store_disabled :: int
  g_inflight :: int
  g_vcache :: "nat \<Rightarrow> ventry"
  g_rcache :: "nat \<Rightarrow> rentry"

definition zero_ventry :: ventry where
  "zero_ventry = \<lparr>ve_gen = 0, ve_follow = False, ve_rc = 0, ve_host = []\<rparr>"

definition zero_rentry :: rentry where
  "zero_rentry = \<lparr>re_gen = 0, re_path = [], re_resolved = []\<rparr>"

definition guard_init :: guard where
  "guard_init = \<lparr>g_gen = 1, g_store_disabled = 0, g_inflight = 0,
     g_vcache = (\<lambda>_. zero_ventry), g_rcache = (\<lambda>_. zero_rentry)\<rparr>"

definition path_cache_hash :: "path \<Rightarrow> u32 \<Rightarrow> u64" where
  "path_cache_hash s salt =
     fold (\<lambda>c h. (h XOR of_char c) * 1099511628211) s (1469598103934665603 XOR ucast salt)"

definition invalidate_path_caches :: "guard \<Rightarrow> guard" where
  "invalidate_path_caches g =
     (let g = g\<lparr>g_gen := g_gen g + 1\<rparr> in
      if g_gen g = 0 then g\<lparr>g_vcache := (\<lambda>_. zero_ventry), g_rcache := (\<lambda>_. zero_rentry), g_gen := 1\<rparr>
      else g)"

definition begin_path_cache_mutation :: "guard \<Rightarrow> guard" where
  "begin_path_cache_mutation g =
     (let g = invalidate_path_caches g in
      g\<lparr>g_inflight := g_inflight g + 1, g_store_disabled := g_store_disabled g + 1\<rparr>)"

definition finish_path_cache_mutation :: "guard \<Rightarrow> guard" where
  "finish_path_cache_mutation g =
     (let g = (if 0 < g_inflight g then g\<lparr>g_inflight := g_inflight g - 1\<rparr> else g) in
      if 0 < g_store_disabled g then g\<lparr>g_store_disabled := g_store_disabled g - 1\<rparr> else g)"

definition vslot :: "path \<Rightarrow> bool \<Rightarrow> nat" where
  "vslot host follow = unat (path_cache_hash host (if follow then 1 else 0)) mod PATH_VALIDATION_CACHE_SIZE"

definition rslot :: "path \<Rightarrow> nat" where
  "rslot p = unat (path_cache_hash p 17) mod PATH_REALPATH_CACHE_SIZE"

definition path_validation_cache_get :: "conf \<Rightarrow> path \<Rightarrow> bool \<Rightarrow> guard \<Rightarrow> int option" where
  "path_validation_cache_get cf host follow g =
     (if \<not> cf_cache cf \<or> host = [] then None
      else let e = g_vcache g (vslot host follow) in
        if ve_gen e = g_gen g \<and> ve_follow e = follow \<and> ve_host e = host then Some (ve_rc e) else None)"

definition path_validation_cache_put :: "conf \<Rightarrow> path \<Rightarrow> bool \<Rightarrow> int \<Rightarrow> guard \<Rightarrow> guard" where
  "path_validation_cache_put cf host follow rc g =
     (if \<not> cf_cache cf \<or> g_store_disabled g \<noteq> 0 \<or> 0 < g_inflight g \<or> host = [] then g
      else if rc \<noteq> 0 then g
      else g\<lparr>g_vcache := (g_vcache g)(vslot host follow :=
             \<lparr>ve_gen = g_gen g, ve_follow = follow, ve_rc = rc, ve_host = fst (c_snprintf PATH_MAX host)\<rparr>)\<rparr>)"

definition cached_realpath :: "conf \<Rightarrow> os \<Rightarrow> path \<Rightarrow> guard \<Rightarrow> (int + path) \<times> guard" where
  "cached_realpath cf w p g =
     (if \<not> cf_cache cf \<or> p = [] then (os_realpath w p, g)
      else let e = g_rcache g (rslot p) in
        if re_gen e = g_gen g \<and> re_path e = p then (Inr (fst (c_snprintf PATH_MAX (re_resolved e))), g)
        else case os_realpath w p of
               Inl e \<Rightarrow> (Inl e, g)
             | Inr r \<Rightarrow>
                 (Inr r,
                  if g_store_disabled g = 0 \<and> g_inflight g = 0
                  then g\<lparr>g_rcache := (g_rcache g)(rslot p :=
                         \<lparr>re_gen = g_gen g, re_path = fst (c_snprintf PATH_MAX p),
                          re_resolved = fst (c_snprintf PATH_MAX r)\<rparr>)\<rparr>
                  else g))"

section \<open>Validation\<close>

lemma trim_length: "length (trim_trailing_slashes p) \<le> length p"
proof (induction p rule: trim_trailing_slashes.induct)
  case (1 p)
  then show ?case by (subst trim_trailing_slashes.simps) (auto simp: Let_def)
qed

lemma path_parent_shorter: "path_parent n p = Inl r \<Longrightarrow> r = ''/'' \<or> r = ''.'' \<or> length r < length p"
proof -
  assume a: "path_parent n p = Inl r"
  show ?thesis
  proof (cases "c_rprefix CHR ''/'' (trim_trailing_slashes p)")
    case None
    with a show ?thesis by (auto simp: path_parent_def Let_def split: if_splits)
  next
    case (Some d)
    then have "length d \<le> length p"
      using trim_length[of p] prefix_length_le[OF c_rprefix_prefix[OF Some]] by simp
    moreover have "d \<noteq> []" using Some by (auto simp: c_rprefix_def dropWhile_eq_Nil_conv split: if_splits)
    ultimately show ?thesis
      using a Some by (cases d) (auto simp: path_parent_def Let_def split: if_splits)
  qed
qed

definition host_verdict :: "conf \<Rightarrow> path \<Rightarrow> int" where
  "host_verdict cf p = (if allowed_host cf p then 0 else - EXDEV)"

text \<open>The climb to the nearest ancestor that exists.\<close>

function parent_loop :: "conf \<Rightarrow> os \<Rightarrow> path \<Rightarrow> bool \<Rightarrow> path \<Rightarrow> guard \<Rightarrow> int \<times> guard" where
  "parent_loop cf w host follow probe g =
     (case cached_realpath cf w probe g of
        (Inr r, g1) \<Rightarrow> (host_verdict cf r, path_validation_cache_put cf host follow (host_verdict cf r) g1)
      | (Inl e, g1) \<Rightarrow>
          (if e \<noteq> ENOENT \<and> e \<noteq> ENOTDIR then (- e, path_validation_cache_put cf host follow (- e) g1)
           else if probe = ''/'' \<or> probe = ''.'' then (- e, path_validation_cache_put cf host follow (- e) g1)
           else case path_parent PATH_MAX probe of
                  Inr rc \<Rightarrow> (rc, path_validation_cache_put cf host follow rc g1)
                | Inl up \<Rightarrow> parent_loop cf w host follow up g1))"
  by pat_completeness auto
termination
  by (relation "measure (\<lambda>(cf, w, host, follow, probe, g). if probe = ''/'' \<or> probe = ''.'' then 0 else Suc (length probe))")
    (auto dest: path_parent_shorter)

declare parent_loop.simps [simp del]

definition validate_host_path_under_allowed :: "conf \<Rightarrow> os \<Rightarrow> path \<Rightarrow> bool \<Rightarrow> guard \<Rightarrow> int \<times> guard" where
  "validate_host_path_under_allowed cf w host follow g =
     (if host = [] then (- ENOENT, g)
      else case normalize_absolute_path_lexical host PATH_MAX of
        Inr rc \<Rightarrow> (rc, path_validation_cache_put cf host follow rc g)
      | Inl normalized \<Rightarrow>
          (if normalized = ''/proc/self/fd/0'' \<and> os_tty w then (0, path_validation_cache_put cf host follow 0 g)
           else if \<not> allowed_host cf normalized then (- EXDEV, path_validation_cache_put cf host follow (- EXDEV) g)
           else case path_validation_cache_get cf host follow g of
             Some rc \<Rightarrow> (rc, g)
           | None \<Rightarrow>
               (let climb = (\<lambda>g. case path_parent PATH_MAX host of
                                   Inr rc \<Rightarrow> (rc, g)
                                 | Inl probe \<Rightarrow> parent_loop cf w host follow probe g) in
                if \<not> follow then climb g
                else case cached_realpath cf w host g of
                       (Inr r, g1) \<Rightarrow> (host_verdict cf r, path_validation_cache_put cf host follow (host_verdict cf r) g1)
                     | (Inl e, g1) \<Rightarrow>
                         (if e \<noteq> ENOENT \<and> e \<noteq> ENOTDIR
                          then (- e, path_validation_cache_put cf host follow (- e) g1)
                          else climb g1))))"

section \<open>The check without the caches\<close>

function plain_parent :: "conf \<Rightarrow> os \<Rightarrow> path \<Rightarrow> int" where
  "plain_parent cf w probe =
     (case os_realpath w probe of
        Inr r \<Rightarrow> host_verdict cf r
      | Inl e \<Rightarrow>
          (if e \<noteq> ENOENT \<and> e \<noteq> ENOTDIR then - e
           else if probe = ''/'' \<or> probe = ''.'' then - e
           else case path_parent PATH_MAX probe of Inr rc \<Rightarrow> rc | Inl up \<Rightarrow> plain_parent cf w up))"
  by pat_completeness auto
termination
  by (relation "measure (\<lambda>(cf, w, probe). if probe = ''/'' \<or> probe = ''.'' then 0 else Suc (length probe))")
    (auto dest: path_parent_shorter)

declare plain_parent.simps [simp del]

definition plain_climb :: "conf \<Rightarrow> os \<Rightarrow> path \<Rightarrow> int" where
  "plain_climb cf w host = (case path_parent PATH_MAX host of Inr rc \<Rightarrow> rc | Inl probe \<Rightarrow> plain_parent cf w probe)"

definition plain_validate :: "conf \<Rightarrow> os \<Rightarrow> path \<Rightarrow> bool \<Rightarrow> int" where
  "plain_validate cf w host follow =
     (if host = [] then - ENOENT
      else case normalize_absolute_path_lexical host PATH_MAX of
        Inr rc \<Rightarrow> rc
      | Inl normalized \<Rightarrow>
          (if normalized = ''/proc/self/fd/0'' \<and> os_tty w then 0
           else if \<not> allowed_host cf normalized then - EXDEV
           else if \<not> follow then plain_climb cf w host
           else case os_realpath w host of
                  Inr r \<Rightarrow> host_verdict cf r
                | Inl e \<Rightarrow> if e \<noteq> ENOENT \<and> e \<noteq> ENOTDIR then - e else plain_climb cf w host))"

section \<open>Coherent caches\<close>

definition real_ok :: "os \<Rightarrow> bool" where
  "real_ok w \<longleftrightarrow> (\<forall>p r. os_realpath w p = Inr r \<longrightarrow> length r < PATH_MAX) \<and>
     (\<forall>p e. os_realpath w p = Inl e \<longrightarrow> 0 < e)"

definition fresh :: "u64 \<Rightarrow> guard \<Rightarrow> bool" where
  "fresh n g \<longleftrightarrow> (\<forall>i. ve_gen (g_vcache g i) \<le> n \<and> re_gen (g_rcache g i) \<le> n)"

definition no_current :: "guard \<Rightarrow> bool" where
  "no_current g \<longleftrightarrow> (\<forall>i. ve_gen (g_vcache g i) \<noteq> g_gen g \<and> re_gen (g_rcache g i) \<noteq> g_gen g)"

text \<open>Entries of the current generation tell the truth about \<open>w\<close>; none exist while a mutation runs.\<close>

definition coherent :: "conf \<Rightarrow> os \<Rightarrow> guard \<Rightarrow> bool" where
  "coherent cf w g \<longleftrightarrow>
     g_gen g \<noteq> 0 \<and> fresh (g_gen g) g \<and> (0 < g_inflight g \<longrightarrow> no_current g) \<and>
     (\<forall>i. ve_gen (g_vcache g i) = g_gen g \<longrightarrow>
        ve_rc (g_vcache g i) = 0 \<and> plain_validate cf w (ve_host (g_vcache g i)) (ve_follow (g_vcache g i)) = 0) \<and>
     (\<forall>i. re_gen (g_rcache g i) = g_gen g \<longrightarrow>
        os_realpath w (re_path (g_rcache g i)) = Inr (re_resolved (g_rcache g i)))"

lemma coherent_init: "coherent cf w guard_init"
  by (simp add: coherent_def guard_init_def zero_ventry_def zero_rentry_def fresh_def)

lemma no_current_coherent:
  "g_gen g \<noteq> 0 \<Longrightarrow> fresh (g_gen g) g \<Longrightarrow> no_current g \<Longrightarrow> coherent cf w g"
  by (simp add: coherent_def no_current_def)

lemma word_bump: "(x :: u64) \<le> g \<Longrightarrow> g + 1 \<noteq> 0 \<Longrightarrow> x \<noteq> g + 1 \<and> x \<le> g + 1"
proof -
  assume a: "x \<le> g" "g + 1 \<noteq> 0"
  then have "unat (g + 1) = Suc (unat g)" using unatSuc[of g] by (simp add: add.commute)
  moreover have "unat x \<le> unat g" using a(1) by (simp add: word_le_nat_alt)
  ultimately show ?thesis by (auto simp: word_le_nat_alt)
qed

lemma begin_no_current:
  assumes "fresh (g_gen g) g"
  shows "no_current (begin_path_cache_mutation g) \<and> g_gen (begin_path_cache_mutation g) \<noteq> 0 \<and>
    fresh (g_gen (begin_path_cache_mutation g)) (begin_path_cache_mutation g)"
  using assms word_bump[of _ "g_gen g"]
  by (auto simp: begin_path_cache_mutation_def invalidate_path_caches_def Let_def no_current_def fresh_def
      zero_ventry_def zero_rentry_def)

lemma begin_coherent: "coherent cf w g \<Longrightarrow> coherent cf w' (begin_path_cache_mutation g)"
  using begin_no_current[of g] no_current_coherent by (auto simp: coherent_def[of cf w g])

lemma finish_fields [simp]:
  "g_gen (finish_path_cache_mutation g) = g_gen g"
  "g_vcache (finish_path_cache_mutation g) = g_vcache g"
  "g_rcache (finish_path_cache_mutation g) = g_rcache g"
  "g_inflight (finish_path_cache_mutation g) = (if 0 < g_inflight g then g_inflight g - 1 else g_inflight g)"
  by (simp_all add: finish_path_cache_mutation_def Let_def)

lemma finish_coherent: "coherent cf w g \<Longrightarrow> coherent cf w (finish_path_cache_mutation g)"
  by (auto simp: coherent_def fresh_def no_current_def)

lemma change_coherent: "coherent cf w g \<Longrightarrow> 0 < g_inflight g \<Longrightarrow> coherent cf w' g"
  by (auto simp: coherent_def no_current_def)

lemma put_coherent:
  assumes "coherent cf w g" "length host < PATH_MAX" "plain_validate cf w host follow = rc"
  shows "coherent cf w (path_validation_cache_put cf host follow rc g)"
  using assms
  by (auto simp: coherent_def path_validation_cache_put_def fresh_def no_current_def c_snprintf_fits)

lemma cached_realpath_exact:
  assumes "coherent cf w g" "length p < PATH_MAX" "real_ok w"
  shows "\<exists>g'. cached_realpath cf w p g = (os_realpath w p, g') \<and> coherent cf w g'"
proof (cases "cf_cache cf \<and> p \<noteq> [] \<and> \<not> (re_gen (g_rcache g (rslot p)) = g_gen g \<and> re_path (g_rcache g (rslot p)) = p)")
  case True
  show ?thesis
  proof (cases "os_realpath w p")
    case (Inr r)
    then have "length r < PATH_MAX" using assms(3) by (auto simp: real_ok_def)
    with True Inr assms(1,2) show ?thesis
      by (auto simp: cached_realpath_def Let_def coherent_def fresh_def no_current_def c_snprintf_fits)
  qed (use True assms in \<open>auto simp: cached_realpath_def Let_def\<close>)
next
  case False
  have "length (re_resolved (g_rcache g (rslot p))) < PATH_MAX"
    if "re_gen (g_rcache g (rslot p)) = g_gen g" "re_path (g_rcache g (rslot p)) = p"
    using assms that by (auto simp: coherent_def real_ok_def)
  with False assms(1) show ?thesis
    by (auto simp: cached_realpath_def Let_def c_snprintf_fits coherent_def)
qed

lemma parent_short: "path_parent n p = Inl up \<Longrightarrow> length p < PATH_MAX \<Longrightarrow> length up < PATH_MAX"
  using path_parent_shorter[of n p up] by auto

lemma parent_loop_exact:
  assumes "coherent cf w g" "length probe < PATH_MAX" "length host < PATH_MAX" "real_ok w"
    "plain_validate cf w host follow = plain_parent cf w probe"
  shows "\<exists>g'. parent_loop cf w host follow probe g = (plain_parent cf w probe, g') \<and> coherent cf w g'"
  using assms
proof (induction cf w host follow probe g rule: parent_loop.induct)
  case (1 cf w host follow probe g)
  obtain g1 where g1: "cached_realpath cf w probe g = (os_realpath w probe, g1)" "coherent cf w g1"
    using cached_realpath_exact[OF "1.prems"(1,2,4)] by blast
  have put: "coherent cf w (path_validation_cache_put cf host follow (plain_parent cf w probe) g1)"
    using put_coherent[OF g1(2) "1.prems"(3,5)] .
  show ?case
  proof (cases "(\<exists>e. os_realpath w probe = Inl e \<and> (e = ENOENT \<or> e = ENOTDIR)) \<and> probe \<noteq> ''/'' \<and> probe \<noteq> ''.'' \<and>
      (\<exists>up. path_parent PATH_MAX probe = Inl up)")
    case True
    then obtain e up where e: "os_realpath w probe = Inl e" "e = ENOENT \<or> e = ENOTDIR"
      "probe \<noteq> ''/''" "probe \<noteq> ''.''" "path_parent PATH_MAX probe = Inl up" by blast
    then have pp: "plain_parent cf w probe = plain_parent cf w up" by (subst plain_parent.simps) auto
    have loop: "parent_loop cf w host follow probe g = parent_loop cf w host follow up g1"
      using e g1(1) by (subst parent_loop.simps) auto
    show ?thesis
      unfolding loop pp
      using "1.IH"[OF g1(1)[unfolded e(1), symmetric] refl] e g1(2) "1.prems" parent_short[OF e(5) "1.prems"(2)] pp
      by auto
  next
    case False
    then show ?thesis using put g1
      by (subst parent_loop.simps, subst (asm) plain_parent.simps, subst plain_parent.simps)
        (auto split: sum.splits if_splits)
  qed
qed

lemma get_exact:
  "coherent cf w g \<Longrightarrow> path_validation_cache_get cf host follow g = Some rc \<Longrightarrow>
   rc = 0 \<and> plain_validate cf w host follow = 0"
  by (auto simp: path_validation_cache_get_def coherent_def Let_def split: if_splits)

lemma climb_exact:
  assumes "coherent cf w g" "length host < PATH_MAX" "real_ok w"
    "plain_validate cf w host follow = plain_climb cf w host"
  shows "\<exists>g'. (case path_parent PATH_MAX host of
            Inr rc \<Rightarrow> (rc, g)
          | Inl probe \<Rightarrow> parent_loop cf w host follow probe g) = (plain_climb cf w host, g') \<and> coherent cf w g'"
proof (cases "path_parent PATH_MAX host")
  case (Inl probe)
  then show ?thesis
    using parent_loop_exact[OF assms(1) parent_short[OF Inl assms(2)] assms(2,3), of follow] assms(4)
    by (simp add: plain_climb_def)
qed (simp add: plain_climb_def assms(1))

lemma validate_exact:
  assumes "coherent cf w g" "length host < PATH_MAX" "real_ok w"
  shows "\<exists>g'. validate_host_path_under_allowed cf w host follow g = (plain_validate cf w host follow, g') \<and>
    coherent cf w g'"
proof (cases "host = []")
  case True
  then show ?thesis using assms(1) by (simp add: validate_host_path_under_allowed_def plain_validate_def)
next
  case ne: False
  note V = validate_host_path_under_allowed_def and P = plain_validate_def[of cf w host follow]
  note put = put_coherent[OF _ assms(2), of cf w _ follow]
  show ?thesis
  proof (cases "normalize_absolute_path_lexical host PATH_MAX")
    case (Inr rc)
    with ne put[OF assms(1)] show ?thesis by (simp add: V P)
  next
    case (Inl n)
    show ?thesis
    proof (cases "n = ''/proc/self/fd/0'' \<and> os_tty w \<or> \<not> allowed_host cf n")
      case True
      with ne Inl put[OF assms(1)] show ?thesis by (auto simp: V P)
    next
      case ok: False
      show ?thesis
      proof (cases "path_validation_cache_get cf host follow g")
        case (Some rc)
        with ne Inl ok get_exact[OF assms(1) Some] assms(1) show ?thesis by (auto simp: V)
      next
        case None
        show ?thesis
        proof (cases "follow")
          case False
          then have f: "follow = False" by simp
          have c: "plain_validate cf w host False = plain_climb cf w host"
            using ne Inl ok by (auto simp: plain_validate_def)
          from climb_exact[OF assms(1-3) c] show ?thesis
            using ne Inl ok None c unfolding f by (auto simp: V)
        next
          case True
          obtain g1 where g1: "cached_realpath cf w host g = (os_realpath w host, g1)" "coherent cf w g1"
            using cached_realpath_exact[OF assms(1-3)] by blast
          show ?thesis
          proof (cases "\<exists>e. os_realpath w host = Inl e \<and> (e = ENOENT \<or> e = ENOTDIR)")
            case True
            have f: "follow = True" using \<open>follow\<close> by simp
            have c: "plain_validate cf w host True = plain_climb cf w host"
              using ne Inl ok True by (auto simp: plain_validate_def)
            from climb_exact[OF g1(2) assms(2,3) c] show ?thesis
              using ne Inl ok None g1(1) True c unfolding f by (auto simp: V)
          next
            case False
            have f: "follow = True" using \<open>follow\<close> by simp
            have PV: "plain_validate cf w host True = (case os_realpath w host of
                Inr r \<Rightarrow> host_verdict cf r
              | Inl e \<Rightarrow> if e \<noteq> ENOENT \<and> e \<noteq> ENOTDIR then - e else plain_climb cf w host)"
              using ne Inl ok by (auto simp: plain_validate_def)
            from put[OF g1(2)] False show ?thesis
              using ne Inl ok None g1(1) unfolding f PV by (auto simp: V split: sum.splits)
          qed
        qed
      qed
    qed
  qed
qed

section \<open>Runs\<close>

text \<open>
  What happens to the caches between two checks: a traced mutating call begins (once, or again for a
  tracee whose flag is still set), changes the file system while it is in flight, finishes, or is
  dropped with its tracee. \<open>rs_pending\<close> counts the tracees whose flag is set.
\<close>

record run_state =
  rs_guard :: guard
  rs_os :: os
  rs_pending :: nat

datatype guard_op = MBegin | MRebegin | MFinish | MDrop | MChange os | MValidate path bool

definition guard_step :: "conf \<Rightarrow> guard_op \<Rightarrow> run_state \<Rightarrow> run_state" where
  "guard_step cf a s = (case a of
     MBegin \<Rightarrow> s\<lparr>rs_guard := begin_path_cache_mutation (rs_guard s), rs_pending := Suc (rs_pending s)\<rparr>
   | MRebegin \<Rightarrow> s\<lparr>rs_guard := begin_path_cache_mutation (rs_guard s)\<rparr>
   | MFinish \<Rightarrow> s\<lparr>rs_guard := finish_path_cache_mutation (rs_guard s), rs_pending := rs_pending s - 1\<rparr>
   | MDrop \<Rightarrow> s\<lparr>rs_pending := rs_pending s - 1\<rparr>
   | MChange w \<Rightarrow> s\<lparr>rs_os := w\<rparr>
   | MValidate p follow \<Rightarrow>
       s\<lparr>rs_guard := snd (validate_host_path_under_allowed cf (rs_os s) p follow (rs_guard s))\<rparr>)"

definition guard_allowed :: "run_state \<Rightarrow> guard_op \<Rightarrow> bool" where
  "guard_allowed s a = (case a of
     MBegin \<Rightarrow> True
   | MValidate p follow \<Rightarrow> length p < PATH_MAX
   | MChange w \<Rightarrow> 0 < rs_pending s \<and> real_ok w
   | _ \<Rightarrow> 0 < rs_pending s)"

definition guard_inv :: "conf \<Rightarrow> run_state \<Rightarrow> bool" where
  "guard_inv cf s \<longleftrightarrow> coherent cf (rs_os s) (rs_guard s) \<and> int (rs_pending s) \<le> g_inflight (rs_guard s) \<and>
     real_ok (rs_os s)"

lemma begin_inflight [simp]: "g_inflight (begin_path_cache_mutation g) = g_inflight g + 1"
  by (simp add: begin_path_cache_mutation_def invalidate_path_caches_def Let_def)

lemma put_inflight [simp]: "g_inflight (path_validation_cache_put cf h f rc g) = g_inflight g"
  by (simp add: path_validation_cache_put_def)

lemma cached_inflight: "cached_realpath cf w p g = (r, g') \<Longrightarrow> g_inflight g' = g_inflight g"
  by (auto simp: cached_realpath_def Let_def split: if_splits sum.splits)

lemma parent_inflight: "g_inflight (snd (parent_loop cf w host follow probe g)) = g_inflight g"
proof (induction cf w host follow probe g rule: parent_loop.induct)
  case (1 cf w host follow probe g)
  obtain r g1 where g1: "cached_realpath cf w probe g = (r, g1)" by fastforce
  with 1 cached_inflight[OF g1] show ?case
    by (subst parent_loop.simps) (auto split: sum.splits)
qed

lemma validate_inflight: "g_inflight (snd (validate_host_path_under_allowed cf w host follow g)) = g_inflight g"
proof -
  obtain r g1 where g1: "cached_realpath cf w host g = (r, g1)" by fastforce
  with cached_inflight[OF g1] show ?thesis
    by (auto simp: validate_host_path_under_allowed_def Let_def parent_inflight split: sum.splits option.splits)
qed

interpretation guard_run: guarded_system "guard_step cf" guard_allowed "guard_inv cf" "\<lambda>_ _. True" for cf
proof unfold_locales
  fix s a
  assume inv: "guard_inv cf s" and ok: "guard_allowed s a"
  show "guard_inv cf (guard_step cf a s)"
  proof (cases a)
    case (MValidate p follow)
    then obtain g' where "validate_host_path_under_allowed cf (rs_os s) p follow (rs_guard s) =
        (plain_validate cf (rs_os s) p follow, g')" "coherent cf (rs_os s) g'"
      using inv ok validate_exact[of cf "rs_os s" "rs_guard s" p follow] by (auto simp: guard_inv_def guard_allowed_def)
    moreover have "g_inflight g' = g_inflight (rs_guard s)"
      using validate_inflight[of cf "rs_os s" p follow "rs_guard s"] calculation(1) by simp
    ultimately show ?thesis using inv MValidate by (simp add: guard_inv_def guard_step_def)
  next
    case (MChange w)
    with inv ok change_coherent[of cf "rs_os s" "rs_guard s" w] show ?thesis
      by (auto simp: guard_inv_def guard_step_def guard_allowed_def)
  qed (use inv ok in \<open>auto simp: guard_inv_def guard_step_def guard_allowed_def begin_coherent finish_coherent\<close>)
qed simp_all

end
