(* ===== verification/Linkat_Copy.thy ===== *)
theory Linkat_Copy
  imports Copy_Steps
begin

text \<open>
  \<open>copy_file_for_linkat\<close> of \<open>pdocker_direct_exec.c\<close>: hard links are emulated by a copy the tracer makes.
  A C result of \<open>-errno\<close> is that integer. \<open>None\<close> is the copy loop running out of \<open>fuel\<close>.
\<close>

section \<open>The copy\<close>

text \<open>The inner loop; a \<open>write\<close> error is the result.\<close>

function linkat_write :: "nat \<Rightarrow> string \<Rightarrow> kernel \<Rightarrow> int \<times> kernel" where
  "linkat_write dst buf s =
     (if buf = [] then (0, s)
      else case k_write dst buf s of
             (None, s') \<Rightarrow> (- errno s', s')
           | (Some w, s') \<Rightarrow> linkat_write dst (drop w buf) s')"
  by pat_completeness auto
termination
  by (relation "measure (\<lambda>(fd, buf, s). length buf)") (auto dest!: k_write_progress[OF sym])

declare linkat_write.simps [simp del]

fun linkat_loop :: "nat \<Rightarrow> nat \<Rightarrow> nat \<Rightarrow> kernel \<Rightarrow> int option \<times> kernel" where
  "linkat_loop 0 src dst s = (None, s)"
| "linkat_loop (Suc fuel) src dst s =
     (case k_read src 65536 s of
        (None, s1) \<Rightarrow> (Some (- errno s1), s1)
      | (Some bs, s1) \<Rightarrow>
          (if bs = [] then (Some 0, s1)
           else case linkat_write dst bs s1 of
                  (rc, s2) \<Rightarrow> if rc \<noteq> 0 then (Some rc, s2) else linkat_loop fuel src dst s2))"

definition linkat_fuel :: "nat \<Rightarrow> kernel \<Rightarrow> nat" where
  "linkat_fuel src s =
     (case map_of (fds s) src of
        None \<Rightarrow> 1
      | Some od \<Rightarrow> length (idata (inodes s (o_ino (ofds s od)))) + 2)"

abbreviation O_CLOEXEC :: u32 where "O_CLOEXEC \<equiv> 0x80000"
abbreviation AT_SYMLINK_FOLLOW :: u32 where "AT_SYMLINK_FOLLOW \<equiv> 0x400"

definition linkat_open_dst :: "path \<Rightarrow> u32 \<Rightarrow> kernel \<Rightarrow> nat option \<times> kernel" where
  "linkat_open_dst new_host mode s =
     (let fl = O_WRONLY OR O_CREAT OR O_EXCL OR O_CLOEXEC in
      case k_open AtCwd new_host fl mode s of
        (Some dst, s1) \<Rightarrow> (Some dst, s1)
      | (None, s1) \<Rightarrow>
          (if errno s1 = EEXIST \<and> c_strstr new_host ''/var/lib/dpkg/status-old''
           then k_open AtCwd new_host fl mode (snd (k_unlink new_host s1))
           else (None, s1)))"

text \<open>The end: mode, both closes, and the removal of a failed copy.\<close>

definition linkat_finish :: "path \<Rightarrow> u32 \<Rightarrow> nat \<Rightarrow> nat \<Rightarrow> int \<Rightarrow> kernel \<Rightarrow> int \<times> kernel" where
  "linkat_finish new_host mode src dst rc0 s =
     (let (rc1, s1) = (if rc0 = 0 then
                         (case k_fsetattr (int dst) (set_mode (mode AND 0xFFF)) s of
                            (None, t) \<Rightarrow> (- errno t, t)
                          | (Some _, t) \<Rightarrow> (0, t))
                       else (rc0, s));
          (rc2, s2) = (case k_close (int dst) s1 of
                         (None, t) \<Rightarrow> (if rc1 = 0 then - errno t else rc1, t)
                       | (Some _, t) \<Rightarrow> (rc1, t));
          s3 = snd (k_close (int src) s2)
      in (rc2, if rc2 \<noteq> 0 then snd (k_unlink new_host s3) else s3))"

definition copy_file_for_linkat :: "path \<Rightarrow> path \<Rightarrow> u32 \<Rightarrow> kernel \<Rightarrow> int option \<times> kernel" where
  "copy_file_for_linkat old_host new_host flags s =
     (if flags AND NOT AT_SYMLINK_FOLLOW \<noteq> 0 then (Some (- EINVAL), s)
      else case k_stat True AtCwd old_host s of
        (None, s1) \<Rightarrow> (Some (- errno s1), s1)
      | (Some st, s1) \<Rightarrow>
          (if st_kind st \<noteq> KReg then (Some (- EXDEV), s1)
           else case k_open AtCwd old_host (O_RDONLY OR O_CLOEXEC) 0 s1 of
             (None, s2) \<Rightarrow> (Some (- errno s2), s2)
           | (Some src, s2) \<Rightarrow>
               (case linkat_open_dst new_host (st_mode st AND 0x1FF) s2 of
                  (None, s3) \<Rightarrow> (Some (- errno s3), snd (k_close (int src) s3))
                | (Some dst, s3) \<Rightarrow>
                    (case linkat_loop (linkat_fuel src s3) src dst s3 of
                       (None, s4) \<Rightarrow> (None, s4)
                     | (Some rc, s4) \<Rightarrow>
                         (let (rc', s5) = linkat_finish new_host (st_mode st) src dst rc s4
                          in (Some rc', s5))))))"

section \<open>Replies\<close>

text \<open>A tracer that is alive, and error replies that are error numbers.\<close>

definition good :: "kernel \<Rightarrow> bool" where
  "good s \<longleftrightarrow> alive s \<and> (\<forall>e. KErr e \<in> set (script s) \<longrightarrow> 0 < e)"

lemma good_cong: "alive t = alive s \<Longrightarrow> script t = script s \<Longrightarrow> good t = good s"
  by (simp add: good_def)

lemma kcall_good:
  assumes "good s" "kcall f s = (x, t)"
  obtains (refused) sc er where "x = None" "t = s\<lparr>script := sc, errno := er\<rparr>" "0 < er" "good t"
  | (ran) r sc where "f r (s\<lparr>script := sc\<rparr>) = (x, t)" "good (s\<lparr>script := sc\<rparr>)"
proof (cases "script s")
  case Nil
  have u: "s\<lparr>script := script s\<rparr> = s" by simp
  have "f KOk s = (x, t)" using assms Nil by (simp add: kcall_def good_def)
  then have "f KOk (s\<lparr>script := script s\<rparr>) = (x, t)" unfolding u .
  then show ?thesis by (rule ran) (unfold u, rule assms(1))
next
  case (Cons r rs)
  have g: "good (s\<lparr>script := rs\<rparr>)" using assms(1) Cons by (simp add: good_def)
  have a: "alive s" using assms(1) by (simp add: good_def)
  show ?thesis
  proof (cases "\<exists>e. r = KErr e")
    case True
    then obtain e where e: "r = KErr e" by blast
    then have "t = s\<lparr>script := rs, errno := e\<rparr>" "x = None"
      using assms(2) Cons a by (simp_all add: kcall_def k_fail_def)
    moreover have "0 < e" using assms(1) Cons e by (simp add: good_def)
    ultimately show ?thesis using g by (intro refused[where sc = rs and er = e]) (simp_all add: good_def)
  next
    case False
    then have "f r (s\<lparr>script := rs\<rparr>) = (x, t)" using assms(2) Cons a by (cases r) (simp_all add: kcall_def)
    then show ?thesis using g by (rule ran)
  qed
qed

lemma k_read_good: "good s \<Longrightarrow> k_read fd n s = (x, t) \<Longrightarrow> good t \<and> (x = None \<longrightarrow> 0 < errno t)"
  unfolding k_read_def
  by (erule kcall_good, assumption)
    (auto simp: k_fail_def Let_def good_def split: option.splits if_splits)

lemma k_write_good: "good s \<Longrightarrow> k_write fd b s = (x, t) \<Longrightarrow> good t \<and> (x = None \<longrightarrow> 0 < errno t)"
  unfolding k_write_def
  by (erule kcall_good, assumption)
    (auto simp: k_fail_def Let_def good_def k_upd_inode_def split: option.splits if_splits)

section \<open>The loop copies exactly\<close>

lemma linkat_write_copying:
  "copying src dst i j D k pre s \<Longrightarrow> good s \<Longrightarrow> linkat_write dst buf s = (r, t) \<Longrightarrow>
   only_data j s t \<and> good t \<and> (r = 0 \<longrightarrow> copying src dst i j D k (pre @ buf) t)"
proof (induction dst buf s arbitrary: pre rule: linkat_write.induct)
  case (1 dst buf s)
  show ?case
  proof (cases "buf = []")
    case True
    have "linkat_write dst buf s = (0, s)" unfolding True by (subst linkat_write.simps) simp
    with "1.prems" True show ?thesis by simp
  next
    case False
    obtain x s' where k: "k_write dst buf s = (x, s')" by fastforce
    note kw = k_write_copying[OF "1.prems"(1) k] and kg = k_write_good[OF "1.prems"(2) k]
    show ?thesis
    proof (cases x)
      case None
      then show ?thesis using "1.prems"(3) False kw(1) kg by (auto simp: linkat_write.simps[of dst buf s] k)
    next
      case (Some w)
      have c: "copying src dst i j D k (pre @ take w buf) s'" using kw(3) Some by simp
      have e: "linkat_write dst (drop w buf) s' = (r, t)"
        using "1.prems"(3) False by (simp add: linkat_write.simps[of dst buf s] k Some)
      have "only_data j s' t \<and> good t \<and> (r = 0 \<longrightarrow> copying src dst i j D k ((pre @ take w buf) @ drop w buf) t)"
        using "1.IH"[OF False k[symmetric] Some c _ e] kg by blast
      with kw(1) show ?thesis by (auto intro: only_data_trans)
    qed
  qed
qed

lemma linkat_loop_copying:
  "copying src dst i j D k (take k D) s \<Longrightarrow> good s \<Longrightarrow> length D < n + k \<Longrightarrow> k \<le> length D \<Longrightarrow>
   linkat_loop n src dst s = (r, t) \<Longrightarrow>
   r \<noteq> None \<and> only_data j s t \<and> good t \<and> (r = Some 0 \<longrightarrow> idata (inodes t j) = D \<and> copying src dst i j D (length D) D t)"
proof (induction n arbitrary: k s)
  case (Suc n)
  obtain x s1 where x: "k_read src 65536 s = (x, s1)" by fastforce
  note kr = k_read_copying[OF Suc.prems(1) x] and g1 = k_read_good[OF Suc.prems(2) x]
  show ?case
  proof (cases x)
    case None
    with Suc.prems(5) kr(1) g1 show ?thesis by (auto simp: x)
  next
    case (Some bs)
    note kb = kr(3)[OF Some]
    show ?thesis
    proof (cases "bs = []")
      case True
      then have t: "t = s1" "k = length D" "r = Some 0" using Suc.prems(4,5) kb by (auto simp: x Some)
      then show ?thesis using kb kr(1) g1 True by (auto simp: copying_def)
    next
      case False
      obtain rc s2 where w: "linkat_write dst bs s1 = (rc, s2)" by fastforce
      note wc = linkat_write_copying[OF conjunct1[OF kb] conjunct1[OF g1] w]
      have bs: "bs = take (length bs) (drop k D)" using kb by blast
      have "length bs = length (take (length bs) (drop k D))" by (rule arg_cong[where f = length, OF bs])
      then have kl: "k + length bs \<le> length D" using Suc.prems(4) by simp
      have pre: "take k D @ bs = take (k + length bs) D" using take_add[of k "length bs" D] bs by simp
      show ?thesis
      proof (cases "rc = 0")
        case False
        with Suc.prems(5) kr(1) wc \<open>bs \<noteq> []\<close> show ?thesis
          by (auto simp: x Some w intro: only_data_trans)
      next
        case True
        have c2: "copying src dst i j D (k + length bs) (take (k + length bs) D) s2"
          using wc True pre by simp
        have e: "linkat_loop n src dst s2 = (r, t)"
          using Suc.prems(5) \<open>bs \<noteq> []\<close> by (simp add: x Some w True)
        have "0 < length bs" using \<open>bs \<noteq> []\<close> by simp
        then have "length D < n + (k + length bs)" using Suc.prems(3) by linarith
        from Suc.IH[OF c2 _ this kl e] kr(1) wc show ?thesis by (blast intro: only_data_trans)
      qed
    qed
  qed
qed simp

section \<open>The whole copy\<close>

text \<open>Old inodes keep their contents, whatever happens.\<close>

definition keeps_old :: "kernel \<Rightarrow> kernel \<Rightarrow> bool" where
  "keeps_old s t \<longleftrightarrow> next_ino s \<le> next_ino t \<and> (\<forall>k < next_ino s. inodes t k = inodes s k) \<and> namei t = namei s"

lemma keeps_old_refl [simp]: "keeps_old s s"
  by (simp add: keeps_old_def)

lemma keeps_old_trans: "keeps_old s t \<Longrightarrow> keeps_old t u \<Longrightarrow> keeps_old s u"
  by (auto simp: keeps_old_def)

lemma keeps_old_quiet: "next_ino t = next_ino s \<Longrightarrow> inodes t = inodes s \<Longrightarrow> namei t = namei s \<Longrightarrow> keeps_old s t"
  by (simp add: keeps_old_def)

lemma only_data_keeps: "only_data j s t \<Longrightarrow> next_ino s0 \<le> j \<Longrightarrow> keeps_old s0 s \<Longrightarrow> keeps_old s0 t"
  by (auto simp: only_data_def keeps_old_def)

lemma k_unlink_keeps:
  "good s \<Longrightarrow> k_unlink p s = (x, t) \<Longrightarrow>
   good t \<and> keeps_old s t \<and> fds t = fds s \<and> ofds t = ofds s \<and> next_ofd t = next_ofd s"
  unfolding k_unlink_def
  by (erule kcall_good, assumption)
    (auto simp: k_fail_def k_del_dent_def good_def keeps_old_def Let_def split: option.splits if_splits)

lemma k_open_excl:
  assumes "good s" "k_open AtCwd p (O_WRONLY OR O_CREAT OR O_EXCL OR O_CLOEXEC) m s = (x, t)"
  obtains (failed) "x = None" "good t" "keeps_old s t" "fds t = fds s" "ofds t = ofds s" "0 < errno t"
  | (made) sc where "x = Some (k_free_fd s)" "k_lookup s (namei s AtCwd p) = None" "good t"
      "t = s\<lparr>script := sc, inodes := (inodes s)(next_ino s := k_fresh_reg m s), next_ino := Suc (next_ino s),
         dents := AList.update (namei s AtCwd p) (next_ino s) (dents s),
         fds := AList.update (k_free_fd s) (next_ofd s) (fds s),
         ofds := (ofds s)(next_ofd s := open_ofd (next_ino s) O_WRONLY), next_ofd := Suc (next_ofd s)\<rparr>"
  using assms(2) unfolding k_open_def
proof (rule kcall_good[OF assms(1)])
  fix sc er
  assume "x = None" "t = s\<lparr>script := sc, errno := er\<rparr>" "0 < er" "good t"
  then show ?thesis by (intro failed) (simp_all add: keeps_old_def)
next
  fix r sc
  let ?s = "s\<lparr>script := sc\<rparr>"
  assume run: "k_open_body AtCwd p (O_WRONLY OR O_CREAT OR O_EXCL OR O_CLOEXEC) m ?s = (x, t)" and g: "good ?s"
  show ?thesis
  proof (cases "k_lookup ?s (namei s AtCwd p)")
    case (Some i)
    with run have "x = None \<and> t = ?s\<lparr>errno := EEXIST\<rparr>"
      by (simp add: k_open_body_def has_bits_def k_resolve_def k_fail_def)
    with g show ?thesis by (intro failed) (simp_all add: keeps_old_def good_def)
  next
    case None
    have fr: "k_free_fd (s\<lparr>script := sc, inodes := im, next_ino := n, dents := ds\<rparr>) = k_free_fd s" for im n ds
      by (rule k_free_fd_cong) simp
    have "k_lookup s (namei s AtCwd p) = None" using None by (simp add: k_lookup_def)
    with run None g show ?thesis
      by (intro made[where sc = sc])
        (auto simp: k_open_body_def has_bits_def k_resolve_def k_new_inode_def k_open_ino_def k_install_fd_def fr
          k_set_dent_def open_ofd_def k_fresh_reg_def good_def)
  qed
qed


lemma k_fsetattr_cases:
  assumes "good s" "map_of (fds s) fd = Some od" "k_fsetattr (int fd) f s = (x, t)"
  obtains (failed) sc er where "x = None" "t = s\<lparr>script := sc, errno := er\<rparr>" "0 < er" "good t"
  | (updated) sc where "x = Some ()" "t = k_upd_inode (o_ino (ofds s od)) f (s\<lparr>script := sc\<rparr>)" "good t"
  using assms(3) unfolding k_fsetattr_def
proof (rule kcall_good[OF assms(1)])
  fix r sc
  assume run: "(case k_ofd (int fd) (s\<lparr>script := sc\<rparr>) of None \<Rightarrow> k_fail EBADF (s\<lparr>script := sc\<rparr>)
     | Some od \<Rightarrow> (Some (), k_upd_inode (o_ino (ofds (s\<lparr>script := sc\<rparr>) od)) f (s\<lparr>script := sc\<rparr>))) = (x, t)"
    and g: "good (s\<lparr>script := sc\<rparr>)"
  have "k_ofd (int fd) (s\<lparr>script := sc\<rparr>) = Some od" using assms(2) by (simp add: k_ofd_def)
  with run g show ?thesis by (intro updated[where sc = sc]) (auto simp: k_upd_inode_def good_def)
qed (rule failed)

lemma k_close_good:
  "good s \<Longrightarrow> k_close fd s = (x, t) \<Longrightarrow>
   good t \<and> (x = None \<longrightarrow> 0 < errno t) \<and> inodes t = inodes s \<and> dents t = dents s \<and> namei t = namei s \<and>
   next_ino t = next_ino s"
proof (cases "k_ofd fd s")
  case None
  then show "good s \<Longrightarrow> k_close fd s = (x, t) \<Longrightarrow> ?thesis"
    by (auto simp: k_close_def k_fail_def good_def)
next
  case (Some od)
  let ?s = "s\<lparr>fds := AList.delete (nat fd) (fds s)\<rparr>"
  assume g: "good s" and k: "k_close fd s = (x, t)"
  have "good ?s" using g by (simp add: good_def)
  moreover have "kcall (\<lambda>_ s. (Some (), s)) ?s = (x, t)" using k g Some by (simp add: k_close_def good_def)
  ultimately show ?thesis by (rule kcall_good) (auto simp: good_def)
qed

lemma linkat_finish_ok:
  assumes g: "good s" and c: "rc0 = 0 \<Longrightarrow> copying src dst i j D k pre s"
    and f: "linkat_finish new_host m src dst rc0 s = (rc, t)" and j: "next_ino s0 \<le> j" and ks: "keeps_old s0 s"
    and l: "k_lookup s e = Some j"
  shows "good t \<and> keeps_old s0 t \<and>
    (rc = 0 \<longrightarrow> rc0 = 0 \<and> k_lookup t e = Some j \<and> idata (inodes t j) = pre \<and> imode (inodes t j) = m AND 0xFFF)"
proof -
  let ?a = "if rc0 = 0 then (case k_fsetattr (int dst) (set_mode (m AND 0xFFF)) s of
       (None, t) \<Rightarrow> (- errno t, t) | (Some _, t) \<Rightarrow> (0, t)) else (rc0, s)"
  obtain rc1 s1 where a: "?a = (rc1, s1)" by fastforce
  have s1: "good s1 \<and> keeps_old s0 s1 \<and> k_lookup s1 e = Some j \<and>
      (rc1 = 0 \<longrightarrow> rc0 = 0 \<and> idata (inodes s1 j) = pre \<and> imode (inodes s1 j) = m AND 0xFFF)"
  proof (cases "rc0 = 0")
    case True
    then obtain od where od: "map_of (fds s) dst = Some od" "o_ino (ofds s od) = j" "idata (inodes s j) = pre"
      using c by (auto simp: copying_def)
    obtain x u where x: "k_fsetattr (int dst) (set_mode (m AND 0xFFF)) s = (x, u)" by fastforce
    from g od(1) x show ?thesis
    proof (cases rule: k_fsetattr_cases)
      case (failed sc er)
      with a True x ks l show ?thesis by (auto simp: keeps_old_def k_lookup_def)
    next
      case (updated sc)
      with a True x ks l od j show ?thesis
        by (auto simp: keeps_old_def k_lookup_def k_upd_inode_def set_mode_def)
    qed
  qed (use a g ks l in auto)
  obtain x2 s2 where x2: "k_close (int dst) s1 = (x2, s2)" by fastforce
  obtain x3 s3 where x3: "k_close (int src) s2 = (x3, s3)" by fastforce
  note c2 = k_close_good[OF conjunct1[OF s1] x2]
  note c3 = k_close_good[OF conjunct1[OF c2] x3]
  let ?rc = "case x2 of None \<Rightarrow> if rc1 = 0 then - errno s2 else rc1 | Some _ \<Rightarrow> rc1"
  have r: "rc = ?rc" and t: "t = (if ?rc \<noteq> 0 then snd (k_unlink new_host s3) else s3)"
    using f a x2 x3 by (auto simp: linkat_finish_def Let_def split: option.splits)
  obtain x4 s4 where x4: "k_unlink new_host s3 = (x4, s4)" by fastforce
  note u = k_unlink_keeps[OF conjunct1[OF c3] x4]
  have k3: "keeps_old s0 s3" using s1 c2 c3 by (auto simp: keeps_old_def)
  show ?thesis
  proof (cases "?rc = 0")
    case True
    then have "rc1 = 0" using c2 by (auto split: option.splits if_splits)
    moreover have "t = s3" "rc = 0" using t r True by simp_all
    moreover have "k_lookup s3 e = k_lookup s1 e" "inodes s3 = inodes s1" using c2 c3 by (simp_all add: k_lookup_def)
    ultimately show ?thesis using s1 k3 c3 by simp
  next
    case False
    then have "t = s4" "rc \<noteq> 0" using t r x4 by simp_all
    then show ?thesis using u k3 by (blast intro: keeps_old_trans)
  qed
qed

lemma k_open_rdonly:
  assumes g: "good s" and k: "k_open AtCwd p (O_RDONLY OR O_CLOEXEC) 0 s = (x, t)"
    and e: "k_resolve True AtCwd p s = Some e" "k_lookup s e = Some i" "ikind (inodes s i) = KReg"
  obtains (failed) sc er where "x = None" "t = s\<lparr>script := sc, errno := er\<rparr>" "0 < er" "good t"
  | (opened) sc where "x = Some (k_free_fd s)" "good t"
      "t = s\<lparr>script := sc, fds := AList.update (k_free_fd s) (next_ofd s) (fds s),
         ofds := (ofds s)(next_ofd s := open_ofd i O_RDONLY), next_ofd := Suc (next_ofd s)\<rparr>"
  using k unfolding k_open_def
proof (rule kcall_good[OF g])
  fix r sc
  let ?s = "s\<lparr>script := sc\<rparr>"
  assume run: "k_open_body AtCwd p (O_RDONLY OR O_CLOEXEC) 0 ?s = (x, t)" and gs: "good ?s"
  have w: "k_walk n ?s e0 = k_walk n s e0" for n e0
    by (induction n arbitrary: e0) (simp_all add: k_lookup_def split: option.split ikind.split)
  have fr: "k_free_fd ?s = k_free_fd s" by (rule k_free_fd_cong) simp
  have l: "k_lookup ?s e = Some i" using e(2) by (simp add: k_lookup_def)
  have "k_resolve True AtCwd p ?s = Some e" using e(1) by (simp add: k_resolve_def w)
  with run l e(3) gs show ?thesis
    by (intro opened[where sc = sc])
      (auto simp: k_open_body_def has_bits_def k_open_existing_def k_open_ino_def k_install_fd_def fr open_ofd_def good_def)
qed (rule failed)

lemma k_stat_outcome:
  assumes "alive s" "\<forall>e. KErr e \<in> set (stat_script s) \<longrightarrow> 0 < e" "k_stat True b p s = (x, t)"
  obtains (failed) sc er where "x = None" "t = s\<lparr>stat_script := sc, errno := er\<rparr>" "0 < er"
  | (found) sc e i where "x = Some (k_stat_inode t i)" "t = s\<lparr>stat_script := sc\<rparr>"
      "k_resolve True b p s = Some e" "k_lookup s e = Some i"
proof -
  have w: "k_walk n (s\<lparr>stat_script := sc\<rparr>) e0 = k_walk n s e0" for n sc e0
    by (induction n arbitrary: e0) (simp_all add: k_lookup_def split: option.split ikind.split)
  have rs: "k_resolve True b p (s\<lparr>stat_script := sc\<rparr>) = k_resolve True b p s" for sc
    by (simp add: k_resolve_def w)
  have lk: "k_lookup (s\<lparr>stat_script := sc\<rparr>) e = k_lookup s e" for sc e by (simp add: k_lookup_def)
  show ?thesis
  proof (cases "\<exists>e rs. stat_script s = KErr e # rs")
    case True
    then obtain e rs where "stat_script s = KErr e # rs" by blast
    with assms show ?thesis by (intro failed[where sc = rs and er = e]) (auto simp: k_stat_def k_fail_def)
  next
    case False
    let ?t = "s\<lparr>stat_script := tl (stat_script s)\<rparr>"
    have st: "k_stat True b p s = (case k_resolve True b p s of
        None \<Rightarrow> k_fail ELOOP ?t
      | Some e \<Rightarrow> (case k_lookup s e of None \<Rightarrow> k_fail ENOENT ?t | Some i \<Rightarrow> (Some (k_stat_inode ?t i), ?t)))"
      using False assms(1) by (simp add: k_stat_def Let_def rs lk split: list.split kreply.split option.split)
    show ?thesis
    proof (cases "k_resolve True b p s")
      case None
      with st assms(3) show ?thesis by (intro failed[where sc = "tl (stat_script s)" and er = ELOOP]) (auto simp: k_fail_def)
    next
      case (Some e)
      show ?thesis
      proof (cases "k_lookup s e")
        case None
        with Some st assms(3) show ?thesis
          by (intro failed[where sc = "tl (stat_script s)" and er = ENOENT]) (auto simp: k_fail_def)
      next
        case (Some i)
        with \<open>k_resolve True b p s = Some e\<close> st assms(3) show ?thesis
          by (intro found[where sc = "tl (stat_script s)" and e = e and i = i]) auto
      qed
    qed
  qed
qed


text \<open>The state after the destination is open, from the state \<open>u\<close> in which it was created.\<close>

lemma linkat_open_dst_cases:
  assumes g: "good s" and k: "linkat_open_dst p m s = (x, t)"
  obtains (failed) "x = None" "good t" "keeps_old s t" "0 < errno t"
  | (made) u sc where "x = Some (k_free_fd u)" "keeps_old s u" "fds u = fds s" "ofds u = ofds s"
      "next_ofd u = next_ofd s" "good t"
      "t = u\<lparr>script := sc, inodes := (inodes u)(next_ino u := k_fresh_reg m u), next_ino := Suc (next_ino u),
         dents := AList.update (namei u AtCwd p) (next_ino u) (dents u),
         fds := AList.update (k_free_fd u) (next_ofd u) (fds u),
         ofds := (ofds u)(next_ofd u := open_ofd (next_ino u) O_WRONLY), next_ofd := Suc (next_ofd u)\<rparr>"
proof -
  let ?op = "k_open AtCwd p (O_WRONLY OR O_CREAT OR O_EXCL OR O_CLOEXEC) m"
  obtain y s1 where y: "?op s = (y, s1)" by fastforce
  from g y show ?thesis
  proof (cases rule: k_open_excl)
    case (made sc)
    with k y show ?thesis by (intro that(2)[of s sc]) (simp_all add: linkat_open_dst_def)
  next
    case failed
    show ?thesis
    proof (cases "errno s1 = EEXIST \<and> c_strstr p ''/var/lib/dpkg/status-old''")
      case False
      with k y failed show ?thesis by (intro that(1)) (auto simp: linkat_open_dst_def)
    next
      case True
      obtain z s2 where z: "k_unlink p s1 = (z, s2)" by fastforce
      note u = k_unlink_keeps[OF failed(2) z]
      have "next_ofd s1 = next_ofd s" using y unfolding k_open_def
        by (rule kcall_good[OF g])
          (use failed(1) in \<open>auto simp: k_open_body_def has_bits_def k_resolve_def k_fail_def k_new_inode_def
            k_open_ino_def k_install_fd_def Let_def split: option.splits\<close>)
      then have s2: "keeps_old s s2" "fds s2 = fds s" "ofds s2 = ofds s" "next_ofd s2 = next_ofd s" "good s2"
        using u failed(3-5) keeps_old_trans[OF failed(3)] by auto
      have op2: "?op s2 = (x, t)" using k y z True failed(1) by (simp add: linkat_open_dst_def)
      from s2(5) op2 show ?thesis
      proof (cases rule: k_open_excl)
        case failed
        with s2(1) show ?thesis by (intro that(1)) (auto intro: keeps_old_trans)
      next
        case (made sc)
        with s2 show ?thesis by (intro that(2)[of s2 sc]) simp_all
      qed
    qed
  qed
qed

lemma linkat_exact:
  assumes g: "good s" and ss: "\<forall>e. KErr e \<in> set (stat_script s) \<longrightarrow> 0 < e"
    and wf: "\<forall>e i. k_lookup s e = Some i \<longrightarrow> i < next_ino s"
    and c: "copy_file_for_linkat old_host new_host flags s = (r, t)"
  shows "r \<noteq> None \<and> good t \<and> keeps_old s t \<and>
    (r = Some 0 \<longrightarrow> (\<exists>e i j. k_resolve True AtCwd old_host s = Some e \<and> k_lookup s e = Some i \<and>
       k_lookup t (namei s AtCwd new_host) = Some j \<and> next_ino s \<le> j \<and>
       idata (inodes t j) = idata (inodes s i) \<and> imode (inodes t j) = imode (inodes s i) AND 0xFFF))"
proof (cases "flags AND NOT AT_SYMLINK_FOLLOW \<noteq> 0")
  case True
  with c g show ?thesis by (auto simp: copy_file_for_linkat_def)
next
  case fl: False
  obtain xs s1 where xs: "k_stat True AtCwd old_host s = (xs, s1)" by fastforce
  note C = c[unfolded copy_file_for_linkat_def] 
  have al: "alive s" using g by (simp add: good_def)
  from al ss xs show ?thesis
  proof (cases rule: k_stat_outcome)
    case (failed sc er)
    then have "good s1" "keeps_old s s1" using g by (simp_all add: good_def keeps_old_def)
    with C fl xs failed show ?thesis by auto
  next
    case (found sc e i)
    have g1: "good s1" and k1: "keeps_old s s1" and i: "i < next_ino s"
      using g found wf by (auto simp: good_def keeps_old_def)
    have e1: "k_resolve True AtCwd old_host s1 = Some e" "k_lookup s1 e = Some i" "inodes s1 = inodes s"
    proof -
      have w: "k_walk n s1 e0 = k_walk n s e0" for n e0
        by (induction n arbitrary: e0) (simp_all add: found(2) k_lookup_def split: option.split ikind.split)
      have "namei s1 = namei s" by (simp add: found(2))
      then show "k_resolve True AtCwd old_host s1 = Some e" using found(3) by (simp add: k_resolve_def w)
      show "k_lookup s1 e = Some i" "inodes s1 = inodes s" using found by (simp_all add: k_lookup_def)
    qed
    show ?thesis
    proof (cases "ikind (inodes s i) = KReg")
      case False
      with C fl xs found g1 k1 e1 show ?thesis by (auto simp: k_stat_inode_def)
    next
      case reg: True
      then have reg1: "ikind (inodes s1 i) = KReg" using e1 by simp
      obtain x2 s2 where x2: "k_open AtCwd old_host (O_RDONLY OR O_CLOEXEC) 0 s1 = (x2, s2)" by fastforce
      from g1 x2 e1(1,2) reg1 show ?thesis
      proof (cases rule: k_open_rdonly)
        case (failed sc er)
        then have "keeps_old s s2" using k1 by (simp add: keeps_old_def)
        with C fl xs found x2 failed reg e1 show ?thesis by (auto simp: k_stat_inode_def)
      next
        case (opened sc2)
        have k2: "keeps_old s s2" using k1 opened by (simp add: keeps_old_def)
        obtain x3 s3 where x3: "linkat_open_dst new_host (imode (inodes s i) AND 0x1FF) s2 = (x3, s3)" by fastforce
        from opened(2) x3 show ?thesis
        proof (cases rule: linkat_open_dst_cases)
          case failed
          obtain y s4 where y: "k_close (int (k_free_fd s1)) s3 = (y, s4)" by fastforce
          note cl = k_close_good[OF failed(2) y]
          have "keeps_old s s4" using keeps_old_trans[OF k2 failed(3)] cl by (auto simp: keeps_old_def)
          with C fl xs found x2 opened x3 failed reg e1 y cl show ?thesis
            by (auto simp: k_stat_inode_def)
        next
          case (made u sc3)
          let ?src = "k_free_fd s1" and ?dst = "k_free_fd u" and ?j = "next_ino u" and ?D = "idata (inodes s i)"
          have ku: "keeps_old s u" using k2 made(2) by (rule keeps_old_trans)
          then have j: "next_ino s \<le> ?j" and ui: "inodes u i = inodes s i" and nu: "namei u = namei s"
            using i by (auto simp: keeps_old_def)
          have src: "map_of (fds u) ?src = Some (next_ofd s1)" using made(3) opened(3) by (simp add: update_conv')
          then have ne: "?dst \<noteq> ?src" using k_free_fd_None[of u] by (metis option.distinct(1))
          have k3: "keeps_old s s3" using ku made(7) by (auto simp: keeps_old_def)
          have cp: "copying ?src ?dst i ?j ?D 0 [] s3"
            unfolding copying_def
          proof (intro exI conjI)
            show "next_ofd s1 \<noteq> next_ofd u" using made(5) opened(3) by simp
            show "map_of (fds s3) ?src = Some (next_ofd s1)" using src ne made(7) by (simp add: update_conv')
            show "map_of (fds s3) ?dst = Some (next_ofd u)" using made(7) by (simp add: update_conv')
          qed (use made opened i j ui in \<open>auto simp: open_ofd_def k_fresh_reg_def has_bits_def\<close>)
          then have fuel: "linkat_fuel ?src s3 = length ?D + 2" by (auto simp: copying_def linkat_fuel_def)
          obtain rl s4 where rl: "linkat_loop (length ?D + 2) ?src ?dst s3 = (rl, s4)" by fastforce
          note lp = linkat_loop_copying[of ?src ?dst i ?j ?D 0 s3 "length ?D + 2" rl s4, simplified, OF cp made(6) rl[simplified]]
          obtain rc0 where rc0: "rl = Some rc0" using lp by blast
          obtain rc s5 where fin: "linkat_finish new_host (imode (inodes s i)) ?src ?dst rc0 s4 = (rc, s5)" by fastforce
          have res: "r = Some rc" "t = s5"
            using C fl xs found x2 opened x3 made(1) reg e1 fuel rl rc0 fin by (auto simp: k_stat_inode_def)
          have ks4: "keeps_old s s4" using only_data_keeps[OF _ j k3] lp by blast
          have g4: "good s4" using lp by blast
          have l4: "k_lookup s4 (namei s AtCwd new_host) = Some ?j"
          proof -
            have "dents s4 = dents s3" using lp by (auto simp: only_data_def)
            then show ?thesis using made(7) nu by (simp add: k_lookup_def update_conv')
          qed
          have cp4: "rc0 = 0 \<Longrightarrow> copying ?src ?dst i ?j ?D (length ?D) ?D s4" using lp rc0 by simp
          from linkat_finish_ok[OF g4 cp4 fin j ks4 l4] res e1 found(3,4) j show ?thesis
            by auto
        qed
      qed
    qed
  qed
qed

end
