(* ===== verification/Tracee_Args.thy ===== *)
theory Tracee_Args
  imports Path_Guard Linkat_Copy
begin

text \<open>
  One stop of a traced process: its registers and memory as the tracer sees them, the registers and
  system call number the kernel will resume it with, and the rewriting of path arguments. Register
  numbers are the aarch64 calling convention's: arguments in 0 to 5, the call's number in 8.
\<close>

section \<open>Registers and memory\<close>

record uregs =
  ur_x :: "nat \<Rightarrow> u64"
  ur_sp :: u64
  ur_pc :: u64

text \<open>
  \<open>vm_rlen\<close> and \<open>vm_wlen\<close> answer how much of a transfer at an address \<open>process_vm_readv\<close> and
  \<open>process_vm_writev\<close> complete, \<open>None\<close> for an error; \<open>vm_peek\<close> whether \<open>PTRACE_PEEKDATA\<close> succeeds;
  \<open>vm_errno\<close> is \<open>errno\<close> after a transfer that was not complete.
\<close>

record vm =
  vm_byte :: "u64 \<Rightarrow> char"
  vm_rlen :: "u64 \<Rightarrow> nat \<Rightarrow> nat option"
  vm_wlen :: "u64 \<Rightarrow> nat \<Rightarrow> nat option"
  vm_peek :: "u64 \<Rightarrow> bool"
  vm_errno :: int

record tstop =
  ts_regs :: uregs
  ts_kregs :: uregs
  ts_knr :: int
  ts_vm :: vm
  ts_guard :: guard
  ts_fs :: kernel
  ts_setnr_ok :: bool
  ts_setregs_ok :: bool

abbreviation NUL :: char where "NUL \<equiv> CHR 0x00"

definition vm_readv :: "vm \<Rightarrow> u64 \<Rightarrow> nat \<Rightarrow> string option" where
  "vm_readv m a n =
     (case vm_rlen m a n of
        None \<Rightarrow> None
      | Some k \<Rightarrow> Some (map (\<lambda>i. vm_byte m (a + of_nat i)) [0..<min k n]))"

definition vm_writev :: "vm \<Rightarrow> u64 \<Rightarrow> string \<Rightarrow> nat option \<times> vm" where
  "vm_writev m a bs =
     (case vm_wlen m a (length bs) of
        None \<Rightarrow> (None, m)
      | Some k \<Rightarrow> (Some (min k (length bs)),
          m\<lparr>vm_byte := (\<lambda>b. if unat (b - a) < min k (length bs) then bs ! unat (b - a) else vm_byte m b)\<rparr>))"

definition reg :: "nat \<Rightarrow> tstop \<Rightarrow> u64" where
  "reg i s = ur_x (ts_regs s) i"

definition set_reg :: "nat \<Rightarrow> u64 \<Rightarrow> tstop \<Rightarrow> tstop" where
  "set_reg i v s = s\<lparr>ts_regs := (ts_regs s)\<lparr>ur_x := (ur_x (ts_regs s))(i := v)\<rparr>\<rparr>"

text \<open>\<open>(int)regs->regs[i]\<close>.\<close>

definition reg_int :: "nat \<Rightarrow> tstop \<Rightarrow> int" where
  "reg_int i s = sint (ucast (reg i s) :: u32)"

function read_str_loop :: "vm \<Rightarrow> u64 \<Rightarrow> nat \<Rightarrow> string \<Rightarrow> string option" where
  "read_str_loop m a cap buf =
     (if cap \<le> length buf + 1 then Some buf
      else case vm_readv m (a + of_nat (length buf)) (min 128 (cap - 1 - length buf)) of
             None \<Rightarrow> None
           | Some bs \<Rightarrow>
               (if bs = [] then None
                else if NUL \<in> set bs then Some (buf @ takeWhile (\<lambda>c. c \<noteq> NUL) bs)
                else read_str_loop m a cap (buf @ bs)))"
  by pat_completeness auto
termination by (relation "measure (\<lambda>(m, a, cap, buf). cap - length buf)") (auto simp: neq_Nil_conv)

declare read_str_loop.simps [simp del]

definition read_tracee_string :: "vm \<Rightarrow> u64 \<Rightarrow> nat \<Rightarrow> string option" where
  "read_tracee_string m a cap = (if a = 0 \<or> cap = 0 then None else read_str_loop m a cap [])"

definition write_tracee_data :: "u64 \<Rightarrow> string \<Rightarrow> tstop \<Rightarrow> bool \<times> tstop" where
  "write_tracee_data a bs s =
     (let (n, m) = vm_writev (ts_vm s) a bs in (n = Some (length bs), s\<lparr>ts_vm := m\<rparr>))"

definition write_tracee_string :: "u64 \<Rightarrow> string \<Rightarrow> tstop \<Rightarrow> bool \<times> tstop" where
  "write_tracee_string a v s = write_tracee_data a (v @ [NUL]) s"

definition peek_word :: "vm \<Rightarrow> u64 \<Rightarrow> u64 option" where
  "peek_word m a =
     (if vm_peek m a
      then Some (fold (\<lambda>i w. w OR push_bit (8 * i) (of_char (vm_byte m (a + of_nat i)))) [0..<8] 0)
      else None)"

definition read_tracee_u32 :: "vm \<Rightarrow> u64 \<Rightarrow> u64 option" where
  "read_tracee_u32 m a =
     (let aligned = a AND NOT 7; sh = unat ((a - aligned) * 8) in
      case peek_word m aligned of None \<Rightarrow> None | Some w \<Rightarrow> Some (drop_bit sh w AND 0xffffffff))"

definition maybe_advance_past_svc :: "tstop \<Rightarrow> tstop" where
  "maybe_advance_past_svc s =
     (if read_tracee_u32 (ts_vm s) (ur_pc (ts_regs s)) = Some 0xd4000001
      then s\<lparr>ts_regs := (ts_regs s)\<lparr>ur_pc := ur_pc (ts_regs s) + 4\<rparr>\<rparr> else s)"

definition set_regs :: "tstop \<Rightarrow> bool \<times> tstop" where
  "set_regs s = (if ts_setregs_ok s then (True, s\<lparr>ts_kregs := ts_regs s\<rparr>) else (False, s))"

definition complete_emulated_syscall :: "u64 \<Rightarrow> tstop \<Rightarrow> bool \<times> tstop" where
  "complete_emulated_syscall result s =
     (let s = set_reg 8 (- 1) (set_reg 0 result s) in
      if \<not> ts_setnr_ok s then (False, s)
      else set_regs (maybe_advance_past_svc (s\<lparr>ts_knr := - 1\<rparr>)))"

section \<open>Validation of relative paths\<close>

fun dec_nat :: "nat \<Rightarrow> string" where
  "dec_nat n = (if n < 10 then [char_of (48 + n)] else dec_nat (n div 10) @ [char_of (48 + n mod 10)])"

declare dec_nat.simps [simp del]

definition dec_int :: "int \<Rightarrow> string" where
  "dec_int i = (if i < 0 then CHR ''-'' # dec_nat (nat (- i)) else dec_nat (nat i))"

abbreviation AT_FDCWD :: int where "AT_FDCWD \<equiv> -100"

definition proc_link :: "int \<Rightarrow> int \<Rightarrow> path" where
  "proc_link pid dirfd =
     (if dirfd = AT_FDCWD then ''/proc/'' @ dec_int pid @ ''/cwd''
      else ''/proc/'' @ dec_int pid @ ''/fd/'' @ dec_int dirfd)"

definition tracee_dirfd_base :: "os \<Rightarrow> int \<Rightarrow> int \<Rightarrow> nat \<Rightarrow> int + path" where
  "tracee_dirfd_base w pid dirfd out_len =
     (case os_readlink w (proc_link pid dirfd) of Inl e \<Rightarrow> Inl (- e) | Inr p \<Rightarrow> Inr (take (out_len - 1) p))"

definition validate_relative_tracee_path ::
  "conf \<Rightarrow> os \<Rightarrow> int \<Rightarrow> int \<Rightarrow> path \<Rightarrow> bool \<Rightarrow> guard \<Rightarrow> int \<times> guard" where
  "validate_relative_tracee_path cf w pid dirfd p follow g =
     (case tracee_dirfd_base w pid dirfd PATH_MAX of
        Inl rc \<Rightarrow> (rc, g)
      | Inr base \<Rightarrow>
          (if \<not> allowed_host cf base then (- EXDEV, g)
           else if p = [] then (0, g)
           else if PATH_MAX \<le> length (base @ ''/'' @ p) then (- ENAMETOOLONG, g)
           else validate_host_path_under_allowed cf w (base @ ''/'' @ p) follow g))"

section \<open>Rewriting\<close>

definition REWRITE_SYSCALL_COMPLETED :: int where "REWRITE_SYSCALL_COMPLETED = 2"

definition deny_path_syscall :: "int \<Rightarrow> tstop \<Rightarrow> int \<times> tstop" where
  "deny_path_syscall err s =
     (let err = (if 0 \<le> err then EXDEV else err);
          (ok, s) = complete_emulated_syscall (of_int err) s
      in (if \<not> ok then 0 else REWRITE_SYSCALL_COMPLETED, s))"

text \<open>The path validation and its effect on the caches, at a stop.\<close>

definition validate_at_stop :: "conf \<Rightarrow> os \<Rightarrow> path \<Rightarrow> bool \<Rightarrow> tstop \<Rightarrow> int \<times> tstop" where
  "validate_at_stop cf w p follow s =
     (let (rc, g) = validate_host_path_under_allowed cf w p follow (ts_guard s) in (rc, s\<lparr>ts_guard := g\<rparr>))"

definition resolve_at_stop :: "conf \<Rightarrow> os \<Rightarrow> path \<Rightarrow> presult \<times> bool" where
  "resolve_at_stop cf w p =
     resolve_guest_host_path (cf_binds cf) (\<lambda>q. os_access w q 0 = 0) (os_tty w) (cf_rootfs cf) p PATH_MAX"

text \<open>Put a rewritten path below the stack and point the argument at it.\<close>

definition put_scratch :: "nat \<Rightarrow> u64 \<Rightarrow> path \<Rightarrow> tstop \<Rightarrow> int \<times> tstop" where
  "put_scratch i off p s =
     (let scratch = (ur_sp (ts_regs s) - off) AND NOT 15;
          (ok, s) = write_tracee_string scratch p s
      in if ok then (1, set_reg i scratch s) else (0, s))"

definition rewrite_path_arg_scratch :: "conf \<Rightarrow> os \<Rightarrow> nat \<Rightarrow> u64 \<Rightarrow> tstop \<Rightarrow> int \<times> tstop" where
  "rewrite_path_arg_scratch cf w i off s =
     (case read_tracee_string (ts_vm s) (reg i s) PATH_MAX of
        None \<Rightarrow> (0, s)
      | Some original \<Rightarrow>
          (case fst (resolve_at_stop cf w original) of
             PNo \<Rightarrow> (0, s)
           | PErr e \<Rightarrow> (0, s)
           | POk rewritten \<Rightarrow>
               (let (rc, s) = validate_at_stop cf w rewritten True s in
                if rc < 0 then deny_path_syscall rc s
                else put_scratch i off rewritten s)))"

definition rewrite_path_arg :: "conf \<Rightarrow> os \<Rightarrow> nat \<Rightarrow> tstop \<Rightarrow> int \<times> tstop" where
  "rewrite_path_arg cf w i s = rewrite_path_arg_scratch cf w i 8192 s"

text \<open>The rewrite that leaves the path in place and replaces the directory by the rootfs descriptor.\<close>

definition rootfd_rewritable :: "conf \<Rightarrow> bool \<Rightarrow> path \<Rightarrow> bool" where
  "rootfd_rewritable cf bind_path original =
     (\<not> bind_path \<and> cf_rootfd_rewrite cf \<and> 0 \<le> cf_rootfs_fd cf \<and>
      take 1 original = ''/'' \<and> drop 1 original \<noteq> [] \<and> hd (drop 1 original) \<noteq> CHR ''/'' \<and>
      \<not> path_has_parent_segment original)"

definition rewrite_at_path_arg :: "conf \<Rightarrow> os \<Rightarrow> int \<Rightarrow> nat \<Rightarrow> nat \<Rightarrow> string \<Rightarrow> u64 \<Rightarrow> tstop \<Rightarrow> int \<times> tstop" where
  "rewrite_at_path_arg cf w pid di pi context off s =
     (case read_tracee_string (ts_vm s) (reg pi s) PATH_MAX of
        None \<Rightarrow> (0, s)
      | Some original \<Rightarrow>
          (let follow = path_context_follows_final_component context in
           if original = [] then (0, s)
           else if hd original \<noteq> CHR ''/'' then
             (let (rc, g) = validate_relative_tracee_path cf w pid (reg_int di s) original follow (ts_guard s);
                  s = s\<lparr>ts_guard := g\<rparr>
              in if rc < 0 then deny_path_syscall rc s else (0, s))
           else case resolve_at_stop cf w original of
             (PNo, _) \<Rightarrow> (0, s)
           | (PErr e, _) \<Rightarrow> deny_path_syscall e s
           | (POk rewritten, bind_path) \<Rightarrow>
               (let (rc, s) = validate_at_stop cf w rewritten follow s in
                if rc < 0 then deny_path_syscall rc s
                else if rootfd_rewritable cf bind_path original
                then (1, set_reg pi (reg pi s + 1) (set_reg di (of_int (cf_rootfs_fd cf)) s))
                else put_scratch pi off rewritten s)))"

definition rewrite_at_path_args ::
  "conf \<Rightarrow> os \<Rightarrow> int \<Rightarrow> nat \<Rightarrow> nat \<Rightarrow> nat \<Rightarrow> nat \<Rightarrow> string \<Rightarrow> tstop \<Rightarrow> int \<times> tstop" where
  "rewrite_at_path_args cf w pid di1 pi1 di2 pi2 context s =
     (let (rc1, s1) = rewrite_at_path_arg cf w pid di1 pi1 context 16384 s in
      if rc1 = REWRITE_SYSCALL_COMPLETED then (rc1, s1)
      else let (rc2, s2) = rewrite_at_path_arg cf w pid di2 pi2 context 8192 s1 in
        if rc2 = REWRITE_SYSCALL_COMPLETED then (rc2, s2)
        else (rc1 OR rc2, s2))"

text \<open>
  \<open>struct sockaddr_un\<close> is a 16-bit family and 108 bytes of path. \<open>junk\<close> is what the uninitialised
  local buffer \<open>guest\<close> holds before it is filled.
\<close>

definition SUN_PATH :: nat where "SUN_PATH = 108"

definition c_string :: "string \<Rightarrow> string" where
  "c_string bs = takeWhile (\<lambda>c. c \<noteq> NUL) bs"

definition sockaddr_guest :: "string \<Rightarrow> nat \<Rightarrow> string \<Rightarrow> path" where
  "sockaddr_guest junk max_path sun_path =
     (let n = min (SUN_PATH - 1) max_path;
          copied = (if NUL \<in> set (take n sun_path) then c_string (take n sun_path) @ [NUL] else take n sun_path)
      in c_string (take (SUN_PATH - 1) (copied @ drop (length copied) junk)))"

definition rewrite_unix_sockaddr_arg :: "conf \<Rightarrow> os \<Rightarrow> string \<Rightarrow> tstop \<Rightarrow> int \<times> tstop" where
  "rewrite_unix_sockaddr_arg cf w junk s =
     (let len = unat (reg 2 s) in
      if reg 1 s = 0 \<or> len < 2 + 1 then (0, s)
      else let to_read = (if len < 2 + SUN_PATH then len else 2 + SUN_PATH) in
        case vm_readv (ts_vm s) (reg 1 s) to_read of
          None \<Rightarrow> (0, s)
        | Some bs \<Rightarrow>
            (if length bs \<noteq> to_read then (0, s)
             else let addr = bs @ replicate (2 + SUN_PATH - to_read) NUL; sun_path = drop 2 addr in
               if take 2 addr \<noteq> [CHR 0x01, NUL] \<or> hd sun_path \<noteq> CHR ''/'' then (0, s)
               else let guest = sockaddr_guest junk (to_read - 2) sun_path in
                 if take 1 guest \<noteq> ''/'' then (0, s)
                 else if should_skip_unix_socket_rewrite guest then (0, s)
                 else case fst (resolve_at_stop cf w guest) of
                   POk rewritten \<Rightarrow>
                     (if SUN_PATH \<le> length rewritten then (0, s)
                      else let addr2 = [CHR 0x01, NUL] @ rewritten @ replicate (SUN_PATH - length rewritten) NUL;
                               scratch = (ur_sp (ts_regs s) - 24576) AND NOT 15;
                               (ok, s) = write_tracee_data scratch addr2 s
                           in if \<not> ok then (0, s)
                              else (1, set_reg 2 (of_nat (2 + length rewritten + 1)) (set_reg 1 scratch s)))
                 | _ \<Rightarrow> (0, s)))"


section \<open>Calls made by the tracer itself\<close>

text \<open>The tracer's notes on one process that these calls read.\<close>

record cwd_state =
  cs_guest_cwd :: path
  cs_pending_cwd :: path
  cs_exec_path :: path

definition rewrite_chdir_arg :: "conf \<Rightarrow> os \<Rightarrow> cwd_state \<Rightarrow> tstop \<Rightarrow> int \<times> cwd_state \<times> tstop" where
  "rewrite_chdir_arg cf w c s =
     (let c = (case read_tracee_string (ts_vm s) (reg 0 s) PATH_MAX of
                 None \<Rightarrow> c
               | Some original \<Rightarrow>
                   c\<lparr>cs_pending_cwd := normalize_guest_path (cs_guest_cwd c) original PATH_MAX\<rparr>);
          (rc, s) = rewrite_path_arg cf w 0 s
      in (rc, c, s))"

definition path_syscall_invalidates_cache :: "int \<Rightarrow> bool" where
  "path_syscall_invalidates_cache nr =
     (nr = 33 \<or> nr = 35 \<or> nr = 36 \<or> nr = 37 \<or> nr = 38 \<or> nr = 276)"

text \<open>The working directory a process is told: the result and, where text is written, the new stop.\<close>

definition emulate_getcwd :: "conf \<Rightarrow> os \<Rightarrow> int \<Rightarrow> cwd_state \<Rightarrow> tstop \<Rightarrow> int \<times> tstop" where
  "emulate_getcwd cf w pid c s =
     (if reg 0 s = 0 \<or> reg 1 s = 0 then (- EINVAL, s)
      else let root = cf_rootfs cf;
               answer = (if cs_guest_cwd c \<noteq> [] then Inr (cs_guest_cwd c)
                         else case tracee_dirfd_base w pid AT_FDCWD PATH_MAX of
                           Inl e \<Rightarrow> Inl e
                         | Inr host \<Rightarrow>
                             (let rest = drop (length root) host in
                              if take (length root) host = root \<and> (rest = [] \<or> hd rest = CHR ''/'')
                              then Inr (if rest = [] then ''/'' else rest) else Inr ''/'')) in
        case answer of
          Inl e \<Rightarrow> (e, s)
        | Inr guest \<Rightarrow>
            (if unat (reg 1 s) < length guest + 1 then (- ERANGE, s)
             else let (ok, s') = write_tracee_data (reg 0 s) (guest @ [NUL]) s in
               if \<not> ok then (- vm_errno (ts_vm s), s') else (int (length guest) + 1, s')))"

definition names_own_exe :: "path \<Rightarrow> bool" where
  "names_own_exe p =
     (p = ''/proc/self/exe'' \<or> p = ''/proc/thread-self/exe'' \<or>
      (take 6 p = ''/proc/'' \<and> dropWhile (\<lambda>c. c \<in> set ''0123456789'') (drop 6 p) = ''/exe''))"

definition emulate_proc_self_exe_readlinkat :: "cwd_state \<Rightarrow> tstop \<Rightarrow> int option \<times> tstop" where
  "emulate_proc_self_exe_readlinkat c s =
     (if cs_exec_path c = [] then (None, s)
      else case read_tracee_string (ts_vm s) (reg 1 s) PATH_MAX of
        None \<Rightarrow> (None, s)
      | Some p \<Rightarrow>
          (if \<not> names_own_exe p then (None, s)
           else if reg 2 s = 0 \<or> reg 3 s = 0 then (Some (- EINVAL), s)
           else let bs = take (unat (reg 3 s)) (cs_exec_path c);
                    (ok, s') = write_tracee_data (reg 2 s) bs s
                in if \<not> ok then (Some (- vm_errno (ts_vm s)), s') else (Some (int (length bs)), s')))"

definition resolve_tracee_host_path :: "conf \<Rightarrow> os \<Rightarrow> int \<Rightarrow> int \<Rightarrow> u64 \<Rightarrow> tstop \<Rightarrow> presult" where
  "resolve_tracee_host_path cf w pid dirfd addr s =
     (case read_tracee_string (ts_vm s) addr PATH_MAX of
        None \<Rightarrow> PNo
      | Some guest \<Rightarrow>
          (if guest = [] then PErr (- ENOENT)
           else if hd guest = CHR ''/'' then fst (resolve_at_stop cf w guest)
           else case tracee_dirfd_base w pid dirfd PATH_MAX of
             Inl e \<Rightarrow> PNo
           | Inr base \<Rightarrow>
               (if \<not> host_path_is_under_prefix (cf_rootfs cf) base then PNo
                else to_buffer PATH_MAX (base @ ''/'' @ guest))))"

definition linkat_at_stop :: "path \<Rightarrow> path \<Rightarrow> u32 \<Rightarrow> tstop \<Rightarrow> int option \<times> tstop" where
  "linkat_at_stop old_host new_host flags s =
     (let (rc, k) = copy_file_for_linkat old_host new_host flags (ts_fs s) in (rc, s\<lparr>ts_fs := k\<rparr>))"

text \<open>\<open>None\<close>: the call is left to the kernel.\<close>

definition emulate_linkat_copy :: "conf \<Rightarrow> os \<Rightarrow> int \<Rightarrow> tstop \<Rightarrow> int option \<times> tstop" where
  "emulate_linkat_copy cf w pid s =
     (case (resolve_tracee_host_path cf w pid (reg_int 0 s) (reg 1 s) s,
            resolve_tracee_host_path cf w pid (reg_int 2 s) (reg 3 s) s) of
        (PNo, _) \<Rightarrow> (None, s)
      | (_, PNo) \<Rightarrow> (None, s)
      | (PErr e, _) \<Rightarrow> (Some e, s)
      | (_, PErr e) \<Rightarrow> (Some e, s)
      | (POk old_host, POk new_host) \<Rightarrow> linkat_at_stop old_host new_host (ucast (reg 4 s)) s)"

definition emulate_runtime_tmp_symlinkat :: "conf \<Rightarrow> os \<Rightarrow> int \<Rightarrow> tstop \<Rightarrow> int option \<times> tstop" where
  "emulate_runtime_tmp_symlinkat cf w pid s =
     (case read_tracee_string (ts_vm s) (reg 0 s) PATH_MAX of
        None \<Rightarrow> (None, s)
      | Some target_guest \<Rightarrow>
          (case read_tracee_string (ts_vm s) (reg 2 s) PATH_MAX of
             None \<Rightarrow> (None, s)
           | Some link_guest \<Rightarrow>
               (if take 1 target_guest \<noteq> ''/'' \<or> \<not> c_strstr target_guest ''/var/cache/apt/archives/'' then (None, s)
                else if \<not> should_rewrite_path (cf_rootfs cf) target_guest then (None, s)
                else if PATH_MAX \<le> length (cf_rootfs cf @ target_guest) then (Some (- ENAMETOOLONG), s)
                else case resolve_tracee_host_path cf w pid (reg_int 1 s) (reg 2 s) s of
                       PErr e \<Rightarrow> (Some e, s)
                     | PNo \<Rightarrow> (Some (- ENOENT), s)
                     | POk link_host \<Rightarrow> linkat_at_stop (cf_rootfs cf @ target_guest) link_host 0 s)))"

text \<open>\<open>os_access\<close> answers 0 or an error number.\<close>

definition emulate_faccessat_path :: "conf \<Rightarrow> os \<Rightarrow> int \<Rightarrow> tstop \<Rightarrow> int" where
  "emulate_faccessat_path cf w pid s =
     (case resolve_tracee_host_path cf w pid (reg_int 0 s) (reg 1 s) s of
        PErr e \<Rightarrow> e
      | POk host \<Rightarrow> - os_access w host (reg 2 s)
      | PNo \<Rightarrow>
          (case read_tracee_string (ts_vm s) (reg 1 s) PATH_MAX of
             None \<Rightarrow> - EFAULT
           | Some original \<Rightarrow>
               (if take 1 original = ''/'' then - os_access w original (reg 2 s) else - ENOENT)))"

end
