(* ===== verification/Path_Theorems.thy ===== *)
theory Path_Theorems
  imports Tracee_Args
begin

text \<open>
  The properties of the path translator and its guard, each with a run of the model at which its
  hypotheses hold. The sample container is rooted at \<open>/r\<close> and binds \<open>/h/data\<close> to \<open>/mnt\<close>.
\<close>

section \<open>A sample container\<close>

definition sample_conf :: conf where
  "sample_conf = \<lparr>cf_rootfs = ''/r'', cf_binds = [\<lparr>b_host = ''/h/data'', b_guest = ''/mnt'', b_readonly = False\<rparr>],
     cf_rootfd_rewrite = False, cf_rootfs_fd = -1, cf_cache = True\<rparr>"

text \<open>A host on which only \<open>/r\<close>, \<open>/r/etc\<close> and \<open>/r/etc/passwd\<close> exist.\<close>

definition sample_os :: os where
  "sample_os = \<lparr>os_realpath = (\<lambda>p. if p \<in> {''/r'', ''/r/etc'', ''/r/etc/passwd''} then Inr p else Inl ENOENT),
     os_access = (\<lambda>_ _. ENOENT), os_readlink = (\<lambda>_. Inl ENOENT), os_tty = False\<rparr>"

lemma sample_real: "real_ok sample_os"
  by (auto simp: real_ok_def sample_os_def split: if_splits)

section \<open>Normalisation\<close>



section \<open>Bind mounts\<close>

text \<open>
  A guest path in a bind's guest directory, with what is left of it: the whole path for the directory
  \<open>/\<close>, else what follows the directory, which ends at a component.  The bind that translates a path is
  one whose directory is the longest of those.
\<close>

definition in_bind :: "bind_map \<Rightarrow> path \<Rightarrow> path \<Rightarrow> bool" where
  "in_bind m guest s \<longleftrightarrow> (if b_guest m = ''/'' then s = guest else guest = b_guest m @ s \<and> boundary s)"

definition longest_bind :: "bind_map list \<Rightarrow> path \<Rightarrow> bind_map \<Rightarrow> path \<Rightarrow> bool" where
  "longest_bind binds guest m s \<longleftrightarrow> m \<in> set binds \<and> in_bind m guest s \<and>
     (\<forall>k\<in>set binds. \<forall>r. in_bind k guest r \<longrightarrow> length (b_guest k) \<le> length (b_guest m))"

text \<open>A host directory and what is left of the path: the directory \<open>/\<close> gives way to a path that is left.\<close>

definition graft :: "path \<Rightarrow> path \<Rightarrow> path" where
  "graft h s = (if h = ''/'' \<and> s \<noteq> [] then s else h @ s)"

lemma bind_guest_match_iff: "bind_guest_match m guest = Some s \<longleftrightarrow> in_bind m guest s"
proof (cases "b_guest m = ''/''")
  case False
  have "bind_guest_match m guest = Some s" if "guest = b_guest m @ s" "boundary s"
    using that False by (auto simp: bind_guest_match_def boundary_def Let_def)
  with False guest_match_split[of m guest s] show ?thesis by (auto simp: in_bind_def)
qed (auto simp: bind_guest_match_def in_bind_def)

text \<open>
  C40. What a guest path becomes, for any binds, those of the root directory included. It is translated
  exactly when it lies in a bind's guest directory, component-wise: by a bind whose directory is the
  longest of those that contain it, to that bind's host directory followed by the rest of the path
  (the rest alone, when the host directory is the root), unless this does not fit the buffer.
\<close>

theorem resolve_bind_longest:
  "case resolve_bind_path binds guest n of
     PNo \<Rightarrow> \<not> (\<exists>m\<in>set binds. \<exists>s. in_bind m guest s)
   | POk out \<Rightarrow> \<exists>m s. longest_bind binds guest m s \<and> out = graft (b_host m) s \<and> length out < n
   | PErr e \<Rightarrow> e = - ENAMETOOLONG \<and> (\<exists>m s. longest_bind binds guest m s \<and> n \<le> length (graft (b_host m) s))"
proof (cases "best_match (\<lambda>m. bind_guest_match m guest) (\<lambda>m. length (b_guest m)) binds")
  case None
  then have "bind_guest_match m guest = None" if "m \<in> set binds" for m
    using that by (simp add: best_match_None)
  then have "\<not> (\<exists>m\<in>set binds. \<exists>s. in_bind m guest s)"
    unfolding bind_guest_match_iff[symmetric] by force
  with None show ?thesis by (simp add: resolve_bind_path_def)
next
  case (Some b)
  then obtain m s where b: "best_match (\<lambda>m. bind_guest_match m guest) (\<lambda>m. length (b_guest m)) binds = Some (m, s)"
    by (cases b) simp
  from best_match_Some[OF this] have l: "longest_bind binds guest m s"
    by (auto simp: longest_bind_def bind_guest_match_iff)
  have r: "resolve_bind_path binds guest n = to_buffer n (graft (b_host m) s)"
    using b by (simp add: resolve_bind_path_def graft_def)
  show ?thesis
  proof (cases "n \<le> length (graft (b_host m) s)")
    case True
    then show ?thesis using l by (auto simp: r to_buffer_def)
  next
    case False
    then show ?thesis using l by (auto simp: r to_buffer_def)
  qed
qed

text \<open>
  Translating a guest path to the host by a bind mount and back gives the guest path, when the bind
  is the only one whose host directory contains the result.
\<close>

theorem bind_round_trip:
  assumes "best_match (\<lambda>m. bind_guest_match m guest) (\<lambda>m. length (b_guest m)) binds = Some (m, s)"
    and "resolve_bind_path binds guest n = POk out"
    and "b_guest m \<noteq> ''/''" "b_host m \<noteq> ''/''" "b_host m \<noteq> []" "length guest < n'"
    and "\<forall>k\<in>set binds. host_path_is_under_prefix (b_host k) out \<longrightarrow> k = m"
  shows "bind_host_to_guest_path binds out n' = POk guest"
proof -
  note g = guest_side.pick[OF assms(1,3)]
  then have out: "out = b_host m @ s"
    using assms(1,2,4) by (auto simp: resolve_bind_path_def to_buffer_def split: if_splits)
  have "bind_host_match m out = Some s" using host_side.complete[of out m s] out g assms(4,5) by blast
  moreover have "k = m" if "k \<in> set binds" "bind_host_match k out \<noteq> None" for k
    using that assms(7) by (auto simp: bind_host_match_def split: if_splits)
  ultimately have "best_match (\<lambda>m. bind_host_match m out) (\<lambda>m. length (b_host m)) binds = Some (m, s)"
    using g by (intro host_side.pick_unique) auto
  with g assms(3,6) show ?thesis by (auto simp: bind_host_to_guest_path_def to_buffer_def)
qed

lemma bind_round_trip_witness: "bind_host_to_guest_path (cf_binds sample_conf) ''/h/data/a'' 64 = POk ''/mnt/a''"
  by (rule bind_round_trip[where m = "\<lparr>b_host = ''/h/data'', b_guest = ''/mnt'', b_readonly = False\<rparr>" and s = "''/a''" and n = 64])
    (simp_all add: sample_conf_def resolve_bind_path_def best_match_def best_step_def bind_guest_match_def to_buffer_def
      Let_def)

section \<open>The guard\<close>

text \<open>
  C6. The caches never change an answer. After any sequence of checks and of traced mutations that
  begin, overlap, change the file system, finish or are dropped, a check answers what the uncached
  check answers on the file system as it is now.
\<close>

theorem cached_validation_exact:
  assumes "guard_run.all_allowed cf \<lparr>rs_guard = guard_init, rs_os = w, rs_pending = 0\<rparr> ops" "real_ok w" "length p < PATH_MAX"
  shows "let s = fold (guard_step cf) ops \<lparr>rs_guard = guard_init, rs_os = w, rs_pending = 0\<rparr> in
    fst (validate_host_path_under_allowed cf (rs_os s) p follow (rs_guard s)) = plain_validate cf (rs_os s) p follow"
proof -
  have "guard_inv cf \<lparr>rs_guard = guard_init, rs_os = w, rs_pending = 0\<rparr>"
    using assms(2) coherent_init[of cf w] by (simp add: guard_inv_def) (simp add: guard_init_def)
  from guard_run.run_inv[OF this assms(1)] validate_exact[OF _ assms(3), of cf] show ?thesis
    unfolding guard_inv_def Let_def by (metis fst_conv)
qed

text \<open>The gap that a dropped flag or an untraced change would leave is excluded by \<open>all_allowed\<close>.\<close>

lemma cached_validation_exact_witness:
  "let s = fold (guard_step sample_conf) [MValidate ''/r/etc/passwd'' True, MBegin,
       MChange (sample_os\<lparr>os_realpath := (\<lambda>p. if p = ''/r'' then Inr p else Inl ENOENT)\<rparr>), MFinish]
     \<lparr>rs_guard = guard_init, rs_os = sample_os, rs_pending = 0\<rparr> in
   fst (validate_host_path_under_allowed sample_conf (rs_os s) ''/r/etc/passwd'' True (rs_guard s))
     = plain_validate sample_conf (rs_os s) ''/r/etc/passwd'' True"
  by (rule cached_validation_exact)
    (simp_all add: sample_real guard_allowed_def guard_step_def real_ok_def sample_os_def)

text \<open>
  The first of a path and its ancestors, as \<open>path_parent\<close> gives them, that exists, and its real path;
  those before it are missing and none is the root.
\<close>

definition missing :: "os \<Rightarrow> path \<Rightarrow> bool" where
  "missing w p \<longleftrightarrow> os_realpath w p = Inl ENOENT \<or> os_realpath w p = Inl ENOTDIR"

inductive nearest :: "os \<Rightarrow> path \<Rightarrow> path \<Rightarrow> path \<Rightarrow> bool" for w where
  exists: "os_realpath w p = Inr r \<Longrightarrow> nearest w p p r"
| above: "missing w p \<Longrightarrow> p \<noteq> ''/'' \<Longrightarrow> p \<noteq> ''.'' \<Longrightarrow> path_parent PATH_MAX p = Inl up \<Longrightarrow> nearest w up q r \<Longrightarrow>
    nearest w p q r"

lemma path_parent_err: "path_parent n p = Inr e \<Longrightarrow> e < 0"
  by (auto simp: path_parent_def Let_def split: if_splits option.splits)

lemma nearest_exists: "os_realpath w p = Inr r \<Longrightarrow> nearest w p q x \<longleftrightarrow> q = p \<and> x = r"
  by (subst nearest.simps) (auto simp: missing_def)

lemma nearest_missing:
  "os_realpath w p = Inl e \<Longrightarrow> nearest w p q x \<longleftrightarrow> missing w p \<and> p \<noteq> ''/'' \<and> p \<noteq> ''.'' \<and>
     (\<exists>up. path_parent PATH_MAX p = Inl up \<and> nearest w up q x)"
  by (subst nearest.simps) auto

lemma plain_parent_nearest:
  "real_ok w \<Longrightarrow> plain_parent cf w probe = 0 \<longleftrightarrow> (\<exists>q r. nearest w probe q r \<and> allowed_host cf r)"
proof (induction cf w probe rule: plain_parent.induct)
  case (1 cf w probe)
  show ?case
  proof (cases "os_realpath w probe")
    case (Inr r)
    then show ?thesis
      by (simp add: plain_parent.simps[of cf w probe] host_verdict_def nearest_exists)
  next
    case (Inl e)
    then have "0 < e" using 1(2) by (auto simp: real_ok_def)
    show ?thesis
    proof (cases "missing w probe \<and> probe \<noteq> ''/'' \<and> probe \<noteq> ''.''")
      case False
      then show ?thesis
        using Inl \<open>0 < e\<close> by (auto simp: plain_parent.simps[of cf w probe] nearest_missing missing_def)
    next
      case True
      then have e: "e = ENOENT \<or> e = ENOTDIR" using Inl by (auto simp: missing_def)
      show ?thesis
      proof (cases "path_parent PATH_MAX probe")
        case up: (Inl up)
        have "plain_parent cf w up = 0 \<longleftrightarrow> (\<exists>q r. nearest w up q r \<and> allowed_host cf r)"
          using 1(1)[OF Inl _ _ up 1(2)] e True by auto
        then show ?thesis
          using Inl e True up by (auto simp: plain_parent.simps[of cf w probe] nearest_missing)
      next
        case rc: (Inr rc)
        then show ?thesis
          using Inl e True path_parent_err[OF rc] by (auto simp: plain_parent.simps[of cf w probe] nearest_missing)
      qed
    qed
  qed
qed

text \<open>Where a path leads: its own real path, or that of the nearest ancestor of a missing one.\<close>

definition leads_to :: "os \<Rightarrow> path \<Rightarrow> bool \<Rightarrow> path \<Rightarrow> bool" where
  "leads_to w host follow r \<longleftrightarrow>
     (if follow \<and> \<not> missing w host then os_realpath w host = Inr r
      else \<exists>up q. path_parent PATH_MAX host = Inl up \<and> nearest w up q r)"

lemma plain_climb_nearest:
  "real_ok w \<Longrightarrow> plain_climb cf w host = 0 \<longleftrightarrow>
   (\<exists>up q r. path_parent PATH_MAX host = Inl up \<and> nearest w up q r \<and> allowed_host cf r)"
  by (auto simp: plain_climb_def plain_parent_nearest dest: path_parent_err split: sum.splits)

lemma plain_follow:
  assumes "real_ok w"
  shows "(if \<not> follow then plain_climb cf w host
          else case os_realpath w host of
                 Inr r \<Rightarrow> host_verdict cf r
               | Inl e \<Rightarrow> if e \<noteq> ENOENT \<and> e \<noteq> ENOTDIR then - e else plain_climb cf w host) = 0 \<longleftrightarrow>
         (\<exists>r. leads_to w host follow r \<and> allowed_host cf r)"
proof (cases "os_realpath w host")
  case (Inl e)
  then have "0 < e" using assms by (auto simp: real_ok_def)
  then show ?thesis
    using Inl plain_climb_nearest[OF assms, of cf host] by (auto simp: leads_to_def missing_def)
next
  case (Inr r)
  then show ?thesis
    using plain_climb_nearest[OF assms, of cf host] by (auto simp: leads_to_def missing_def host_verdict_def)
qed

text \<open>
  C7. What the check, with its caches as any run has left them, lets through, of the paths that are not
  empty and shorter than \<open>PATH_MAX\<close>, when \<open>realpath\<close> returns paths of that length or a positive error:
  exactly the paths that lie in the container lexically and also lead into it. A path leads to its own
  real path when the call follows links and the path is not missing, and else to that of the nearest of
  its ancestors that exists. The one exception is the terminal.
\<close>

theorem validated_confined:
  assumes "guard_run.all_allowed cf \<lparr>rs_guard = guard_init, rs_os = w, rs_pending = 0\<rparr> ops" "real_ok w"
    and "host \<noteq> []" "length host < PATH_MAX"
  shows "let s = fold (guard_step cf) ops \<lparr>rs_guard = guard_init, rs_os = w, rs_pending = 0\<rparr> in
    fst (validate_host_path_under_allowed cf (rs_os s) host follow (rs_guard s)) = 0 \<longleftrightarrow>
    (\<exists>n. normalize_absolute_path_lexical host PATH_MAX = Inl n \<and>
       (n = ''/proc/self/fd/0'' \<and> os_tty (rs_os s) \<or>
        allowed_host cf n \<and> (\<exists>r. leads_to (rs_os s) host follow r \<and> allowed_host cf r)))"
proof -
  define s where "s = fold (guard_step cf) ops \<lparr>rs_guard = guard_init, rs_os = w, rs_pending = 0\<rparr>"
  have "guard_inv cf \<lparr>rs_guard = guard_init, rs_os = w, rs_pending = 0\<rparr>"
    using assms(2) coherent_init[of cf w] by (simp add: guard_inv_def) (simp add: guard_init_def)
  from guard_run.run_inv[OF this assms(1)] have c: "coherent cf (rs_os s) (rs_guard s)" "real_ok (rs_os s)"
    by (simp_all add: guard_inv_def s_def)
  obtain g' where v: "validate_host_path_under_allowed cf (rs_os s) host follow (rs_guard s) =
      (plain_validate cf (rs_os s) host follow, g')"
    using validate_exact[OF c(1) assms(4) c(2)] by blast
  have "plain_validate cf (rs_os s) host follow = 0 \<longleftrightarrow>
    (\<exists>n. normalize_absolute_path_lexical host PATH_MAX = Inl n \<and>
       (n = ''/proc/self/fd/0'' \<and> os_tty (rs_os s) \<or>
        allowed_host cf n \<and> (\<exists>r. leads_to (rs_os s) host follow r \<and> allowed_host cf r)))"
  proof (cases "normalize_absolute_path_lexical host PATH_MAX")
    case (Inl n)
    show ?thesis
    proof (cases "n = ''/proc/self/fd/0'' \<and> os_tty (rs_os s)")
      case False
      then show ?thesis
        using assms(3) Inl plain_follow[OF c(2), of follow cf host]
        by (cases "allowed_host cf n") (auto simp: plain_validate_def)
    qed (use assms(3) Inl in \<open>simp add: plain_validate_def\<close>)
  next
    case (Inr rc)
    then have "rc \<noteq> 0"
      by (auto simp: normalize_absolute_path_lexical_def split: if_splits option.splits)
    then show ?thesis using assms(3) Inr by (simp add: plain_validate_def)
  qed
  then show ?thesis by (simp add: v s_def[symmetric])
qed


lemma validated_confined_witness:
  "let s = fold (guard_step sample_conf) [MValidate ''/r/etc/passwd'' True]
     \<lparr>rs_guard = guard_init, rs_os = sample_os, rs_pending = 0\<rparr> in
   fst (validate_host_path_under_allowed sample_conf (rs_os s) ''/r/etc/passwd'' True (rs_guard s)) = 0"
proof -
  let ?p = "''/r/etc/passwd''"
  have a: "guard_run.all_allowed sample_conf \<lparr>rs_guard = guard_init, rs_os = sample_os, rs_pending = 0\<rparr> [MValidate ?p True]"
    by (simp add: guard_allowed_def)
  have n: "normalize_absolute_path_lexical ?p PATH_MAX = Inl ?p" "allowed_host sample_conf ?p"
    by (simp_all add: normalize_absolute_path_lexical_def normalize_loop.simps skip_slashes_def seg_of_def after_seg_def
        allowed_host_def host_path_is_under_allowed_host_path_def host_path_is_under_prefix_def sample_conf_def Let_def)
  have l: "leads_to sample_os ?p True ?p" by (simp add: leads_to_def missing_def sample_os_def)
  have os: "rs_os (fold (guard_step sample_conf) [MValidate ?p True] \<lparr>rs_guard = guard_init, rs_os = sample_os, rs_pending = 0\<rparr>)
      = sample_os"
    by (simp add: guard_step_def)
  from validated_confined[OF a sample_real, of ?p True] n l os show ?thesis
    unfolding Let_def os by auto
qed

text \<open>
  A dangling symbolic link escapes the check: \<open>realpath\<close> reports the link as missing, the check
  falls back to the link's directory and accepts, and the kernel's \<open>open\<close> with \<open>O_CREAT\<close> then follows
  the link and creates its target, wherever that is.
\<close>

theorem dangling_link_escapes:
  assumes "normalize_absolute_path_lexical host PATH_MAX = Inl n" "allowed_host cf n"
    and "os_realpath w host = Inl ENOENT" "path_parent PATH_MAX host = Inl up"
    and "os_realpath w up = Inr r" "allowed_host cf r"
    and "k_lookup k (namei k AtCwd host) = Some i" "ikind (inodes k i) = KLnk t"
    and "k_lookup k (namei k (AtLink (namei k AtCwd host)) t) = None"
    and "alive k" "script k = []"
  shows "plain_validate cf w host True = 0 \<and>
    k_lookup (snd (k_open AtCwd host (O_WRONLY OR O_CREAT) m k)) (namei k (AtLink (namei k AtCwd host)) t) = Some (next_ino k)"
proof
  have "host \<noteq> []" using assms(1) by (auto simp: normalize_absolute_path_lexical_def)
  then show "plain_validate cf w host True = 0"
    using assms(1-6) by (auto simp: plain_validate_def plain_climb_def plain_parent.simps[of cf w up] host_verdict_def)
  have "k_walk 40 k (namei k AtCwd host) = Some (namei k (AtLink (namei k AtCwd host)) t)"
    using assms(7-9) by (simp add: eval_nat_numeral)
  then show "k_lookup (snd (k_open AtCwd host (O_WRONLY OR O_CREAT) m k)) (namei k (AtLink (namei k AtCwd host)) t) = Some (next_ino k)"
    using assms(9-11)
    by (simp add: k_open_def kcall_def k_open_body_def has_bits_def k_resolve_def k_new_inode_def k_open_ino_def
        k_install_fd_def k_set_dent_def k_lookup_def update_conv')
qed

definition sample_dangling :: kernel where
  "sample_dangling = \<lparr>dents = [(''/r/etc/l'', 0)],
     inodes = (\<lambda>_. \<lparr>ikind = KLnk ''/data/out'', idata = [], imode = 0, iuid = 0, igid = 0, itimes = (0, 0), ixattrs = []\<rparr>),
     next_ino = 1, fds = [], ofds = (\<lambda>_. open_ofd 0 0), next_ofd = 0, namei = (\<lambda>_ p. p), kcwd = None,
     proc_fd = (\<lambda>_. None), script = [], stat_script = [], suffixes = [], euid = 0, egid = 0, clock = 0, alive = True,
     errno = 0\<rparr>"

lemma dangling_link_escapes_witness:
  "plain_validate sample_conf sample_os ''/r/etc/l'' True = 0 \<and>
   k_lookup (snd (k_open AtCwd ''/r/etc/l'' (O_WRONLY OR O_CREAT) 0 sample_dangling)) ''/data/out'' = Some 1"
  using dangling_link_escapes[of "''/r/etc/l''" "''/r/etc/l''" sample_conf sample_os "''/r/etc''" "''/r/etc''" sample_dangling 0
      "''/data/out''" 0]
  by (simp add: sample_dangling_def k_lookup_def normalize_absolute_path_lexical_def normalize_loop.simps skip_slashes_def
      seg_of_def after_seg_def sample_conf_def sample_os_def allowed_host_def host_path_is_under_allowed_host_path_def
      host_path_is_under_prefix_def path_parent_def trim_trailing_slashes.simps c_rprefix_def Let_def)

section \<open>The arguments of a stopped process\<close>









text \<open>A process stopped at \<open>openat(AT_FDCWD, "/etc/passwd")\<close>, its path at address 4096.\<close>

definition sample_vm :: "path \<Rightarrow> vm" where
  "sample_vm p = \<lparr>vm_byte = (\<lambda>a. if unat (a - 4096) < length p then p ! unat (a - 4096) else NUL),
     vm_rlen = (\<lambda>_ n. Some (min n 16)), vm_wlen = (\<lambda>_ n. Some n), vm_peek = (\<lambda>_. False), vm_errno = 0\<rparr>"

definition sample_regs :: uregs where
  "sample_regs = \<lparr>ur_x = (\<lambda>i. if i = 0 then -100 else if i = 1 then 4096 else 0), ur_sp = 1048576, ur_pc = 0\<rparr>"

definition sample_stop :: "path \<Rightarrow> tstop" where
  "sample_stop p = \<lparr>ts_regs = sample_regs, ts_kregs = sample_regs, ts_knr = 56, ts_vm = sample_vm p, ts_guard = guard_init,
     ts_fs = sample_dangling, ts_setnr_ok = True, ts_setregs_ok = True\<rparr>"






text \<open>
  A path under \<open>/dev/\<close> (the same holds of \<open>/sys/\<close> and of paths that already start with the rootfs)
  is passed to the kernel as it is: no translation and no check, whatever follows the prefix. So
  \<open>/dev/../x\<close> names the host's \<open>/x\<close>.
\<close>

theorem device_paths_pass_unchecked:
  assumes "read_tracee_string (ts_vm s) (reg pi s) PATH_MAX = Some (''/dev/'' @ rest)" "rest \<noteq> ''tty''"
  shows "rewrite_at_path_arg cf w pid di pi context off s = (0, s) \<and> rewrite_path_arg_scratch cf w pi off s = (0, s)"
proof -
  have "\<not> should_rewrite_path (cf_rootfs cf) (''/dev/'' @ rest)" by (simp add: should_rewrite_path_def)
  then have "resolve_at_stop cf w (''/dev/'' @ rest) = (PNo, False)"
    using assms(2) by (simp add: resolve_at_stop_def resolve_guest_host_path_def)
  with assms(1) show ?thesis by (simp add: rewrite_at_path_arg_def rewrite_path_arg_scratch_def Let_def)
qed

lemma sample_dev_read: "read_tracee_string (sample_vm ''/dev/../x'') 4096 PATH_MAX = Some (''/dev/'' @ ''../x'')"
  by code_simp

lemma device_paths_pass_unchecked_witness:
  "rewrite_at_path_arg sample_conf sample_os 7 0 1 ''openat'' 8192 (sample_stop ''/dev/../x'') = (0, sample_stop ''/dev/../x'') \<and>
   \<not> allowed_host sample_conf (render (canon ''/dev/../x''))"
proof -
  have "read_tracee_string (ts_vm (sample_stop ''/dev/../x'')) (reg 1 (sample_stop ''/dev/../x'')) PATH_MAX = Some (''/dev/'' @ ''../x'')"
    using sample_dev_read by (simp add: sample_stop_def reg_def sample_regs_def)
  from device_paths_pass_unchecked[OF this] have
    "rewrite_at_path_arg sample_conf sample_os 7 0 1 ''openat'' 8192 (sample_stop ''/dev/../x'') = (0, sample_stop ''/dev/../x'')"
    by simp
  moreover have "render (canon ''/dev/../x'') = ''/x''"
    by (simp add: canon_def canon_step_def path_tokens.simps skip_slashes_def seg_of_def after_seg_def render_def)
  ultimately show ?thesis
    by (simp add: allowed_host_def host_path_is_under_allowed_host_path_def host_path_is_under_bind_host_def
        host_path_is_under_prefix_def sample_conf_def)
qed

section \<open>Emulated hard links\<close>

text \<open>
  C38. The copy that stands for a hard link is exact: the call always returns; on success the new name
  refers to a new file with the old one's bytes and permission bits, through every short transfer; and
  in every case all files that existed before keep their contents.
\<close>

theorem linkat_copy_exact:
  assumes "good s" "\<forall>e. KErr e \<in> set (stat_script s) \<longrightarrow> 0 < e" "\<forall>e i. k_lookup s e = Some i \<longrightarrow> i < next_ino s"
    and "copy_file_for_linkat old_host new_host flags s = (r, t)"
  shows "r \<noteq> None \<and> (\<forall>k < next_ino s. inodes t k = inodes s k) \<and>
    (r = Some 0 \<longrightarrow> (\<exists>e i j. k_resolve True AtCwd old_host s = Some e \<and> k_lookup s e = Some i \<and>
       k_lookup t (namei s AtCwd new_host) = Some j \<and> next_ino s \<le> j \<and>
       idata (inodes t j) = idata (inodes s i) \<and> imode (inodes t j) = imode (inodes s i) AND 0xFFF))"
  using linkat_exact[OF assms] unfolding keeps_old_def by blast

definition sample_link_fs :: "kreply list \<Rightarrow> kernel" where
  "sample_link_fs sc = sample_dangling\<lparr>dents := [(''/r/../s'', 0)], script := sc,
     inodes := (\<lambda>_. \<lparr>ikind = KReg, idata = ''xyz'', imode = 0x1A4, iuid = 0, igid = 0, itimes = (0, 0), ixattrs = []\<rparr>)\<rparr>"

text \<open>With a read of two bytes and a write of one.\<close>

lemmas link_eval = kcall_def k_resolve_def walk_40 k_lookup_def Let_def k_set_dent_def k_install_fd_def k_free_fd_def
  open_ofd_def k_ofd_def k_upd_inode_def

lemmas link_stat = copy_file_for_linkat_def k_stat_def sample_link_fs_def sample_dangling_def k_stat_inode_def
lemmas link_open = k_open_def k_open_body_def has_bits_def k_open_existing_def k_open_ino_def linkat_open_dst_def
  k_new_inode_def k_fresh_reg_def
lemmas link_copy = linkat_fuel_def linkat_loop.simps k_read_def k_write_def xfer_def splice_def linkat_write.simps
lemmas link_end = linkat_finish_def k_fsetattr_def k_close_def set_mode_def

lemma sample_link_ok: "fst (copy_file_for_linkat ''/r/../s'' ''/r/t'' 0 (sample_link_fs [KOk, KOk, KShort 2, KShort 1])) = Some 0"
  apply (simp add: link_stat link_eval del: k_walk.simps linkat_loop.simps)
  apply (simp add: link_eval link_open del: k_walk.simps linkat_loop.simps)
  apply (simp add: link_eval link_copy del: k_walk.simps)
  apply (simp add: link_eval link_end del: k_walk.simps)
  done

lemma linkat_copy_exact_witness:
  "\<exists>t j. copy_file_for_linkat ''/r/../s'' ''/r/t'' 0 (sample_link_fs [KOk, KOk, KShort 2, KShort 1]) = (Some 0, t) \<and>
     k_lookup t ''/r/t'' = Some j \<and> idata (inodes t j) = ''xyz''"
proof -
  let ?s = "sample_link_fs [KOk, KOk, KShort 2, KShort 1]"
  obtain r t where t: "copy_file_for_linkat ''/r/../s'' ''/r/t'' 0 ?s = (r, t)" by fastforce
  have r: "r = Some 0" using sample_link_ok t by simp
  have "\<exists>e i j. k_resolve True AtCwd ''/r/../s'' ?s = Some e \<and> k_lookup ?s e = Some i \<and>
      k_lookup t (namei ?s AtCwd ''/r/t'') = Some j \<and> next_ino ?s \<le> j \<and>
      idata (inodes t j) = idata (inodes ?s i) \<and> imode (inodes t j) = imode (inodes ?s i) AND 0xFFF"
    using linkat_copy_exact[OF _ _ _ t] r
    by (simp add: good_def sample_link_fs_def sample_dangling_def k_lookup_def)
  then show ?thesis using t r by (auto simp: sample_link_fs_def sample_dangling_def)
qed

text \<open>
  The emulation of \<open>linkat\<close> copies between the two translated host paths without the check: also
  when the check would refuse them, as it does for a guest path that climbs out with \<open>..\<close>.
\<close>

theorem linkat_emulation_unchecked:
  assumes "read_tracee_string (ts_vm s) (reg 1 s) PATH_MAX = Some g1" "g1 \<noteq> []" "hd g1 = CHR ''/''"
    and "read_tracee_string (ts_vm s) (reg 3 s) PATH_MAX = Some g2" "g2 \<noteq> []" "hd g2 = CHR ''/''"
    and "fst (resolve_at_stop cf w g1) = POk h1" "fst (resolve_at_stop cf w g2) = POk h2"
    and "plain_validate cf w h1 False < 0"
  shows "fst (emulate_linkat_copy cf w pid s) = fst (copy_file_for_linkat h1 h2 (ucast (reg 4 s)) (ts_fs s)) \<and>
    ts_fs (snd (emulate_linkat_copy cf w pid s)) = snd (copy_file_for_linkat h1 h2 (ucast (reg 4 s)) (ts_fs s))"
  using assms
  by (auto simp: emulate_linkat_copy_def resolve_tracee_host_path_def linkat_at_stop_def Let_def split: prod.split)

definition sample_two_vm :: vm where
  "sample_two_vm = (sample_vm [])\<lparr>vm_byte := (\<lambda>a. if 4096 \<le> a \<and> a < 4101 then ''/../s'' ! unat (a - 4096)
     else if 8192 \<le> a \<and> a < 8194 then ''/t'' ! unat (a - 8192) else NUL)\<rparr>"

definition sample_link_stop :: tstop where
  "sample_link_stop = (sample_stop [])\<lparr>ts_vm := sample_two_vm, ts_fs := sample_link_fs [],
     ts_regs := sample_regs\<lparr>ur_x := (\<lambda>i. if i = 1 then 4096 else if i = 3 then 8192 else 0)\<rparr>\<rparr>"

lemma sample_two_read:
  "read_tracee_string sample_two_vm 4096 PATH_MAX = Some ''/../s''"
  "read_tracee_string sample_two_vm 8192 PATH_MAX = Some ''/t''"
  by code_simp+

lemma linkat_emulation_unchecked_witness:
  "fst (emulate_linkat_copy sample_conf sample_os 7 sample_link_stop)
     = fst (copy_file_for_linkat ''/r/../s'' ''/r/t'' 0 (sample_link_fs []))"
proof -
  have "canon ''/r/../s'' = [''s'']"
    by (simp add: canon_def canon_step_def path_tokens.simps skip_slashes_def seg_of_def after_seg_def)
  then have "normalize_absolute_path_lexical ''/r/../s'' PATH_MAX = Inl ''/s''"
    using normalize_lexical_exact[of "''/r/../s''" PATH_MAX] by (simp add: render_def)
  then have v: "plain_validate sample_conf sample_os ''/r/../s'' False < 0"
    by (simp add: plain_validate_def sample_conf_def sample_os_def allowed_host_def host_path_is_under_allowed_host_path_def
        host_path_is_under_bind_host_def host_path_is_under_prefix_def)
  have R: "fst (resolve_at_stop sample_conf sample_os ''/../s'') = POk ''/r/../s''"
    "fst (resolve_at_stop sample_conf sample_os ''/t'') = POk ''/r/t''"
    by (simp_all add: resolve_at_stop_def resolve_guest_host_path_def sample_conf_def sample_os_def should_rewrite_path_def
      resolve_bind_path_def best_match_def best_step_def bind_guest_match_def to_buffer_def)
  from linkat_emulation_unchecked[of sample_link_stop "''/../s''" "''/t''", OF _ _ _ _ _ _ R v]
  show ?thesis using sample_two_read by (simp add: sample_link_stop_def reg_def)
qed

text \<open>
  A Unix socket address whose path fills its length without a terminating zero, which \<open>connect\<close>
  allows, is read together with whatever the tracer's uninitialised buffer holds after it.
\<close>

theorem sockaddr_reads_uninitialised:
  assumes "NUL \<notin> set (take n sun_path)" "n \<le> length sun_path" "n < SUN_PATH - 1"
  shows "sockaddr_guest junk n sun_path = take n sun_path @ c_string (take (SUN_PATH - 1 - n) (drop n junk))"
proof -
  have m: "min (SUN_PATH - 1) n = n" and l: "length (take n sun_path) = n" using assms by auto
  have "\<forall>c\<in>set (take n sun_path). c \<noteq> NUL" using assms(1) by blast
  then show ?thesis
    using assms by (simp add: sockaddr_guest_def m l Let_def c_string_def takeWhile_append2 min_def SUN_PATH_def)
qed

lemma sockaddr_reads_uninitialised_witness:
  "sockaddr_guest (replicate 108 CHR ''x'') 2 (''/a'' @ replicate 106 NUL) = ''/a'' @ replicate 105 CHR ''x''"
  using sockaddr_reads_uninitialised[of 2 "''/a'' @ replicate 106 NUL" "replicate 108 CHR ''x''"]
  by (simp add: SUN_PATH_def c_string_def)

end
