(* ===== verification/Trace_Pager.thy ===== *)
theory Trace_Pager
  imports Prelude
begin

text \<open>
  The transparent pager of \<open>pdocker_direct_exec.c\<close>: large private anonymous mappings of a traced
  process are kept inaccessible, a bounded number of their pages is resident, and the rest live in a
  backing file. Memory is modelled page by page: the process's page at an address, its protection,
  and the page of a backing file at an index.

  Every call of the tracer that can fail (allocation, \<open>process_vm_readv\<close>, \<open>process_vm_writev\<close>,
  \<open>pread\<close>, \<open>pwrite\<close>, the injected \<open>mprotect\<close>, \<open>PTRACE_SETREGSET\<close>) takes one reply from a script; the
  transfers also need the page's protection to allow them. A C result of 0, 1 or -1 is that integer.
\<close>

section \<open>The world\<close>

record pworld =
  pw_page :: "u64 \<Rightarrow> string"
  pw_prot :: "u64 \<Rightarrow> u32"
  pw_file :: "int \<Rightarrow> nat \<Rightarrow> string"
  pw_script :: "bool list"
  pw_traced :: bool

abbreviation PROT_NONE :: u32 where "PROT_NONE \<equiv> 0"
abbreviation PROT_READ :: u32 where "PROT_READ \<equiv> 1"
abbreviation PROT_WRITE :: u32 where "PROT_WRITE \<equiv> 2"
abbreviation PROT_EXEC :: u32 where "PROT_EXEC \<equiv> 4"
abbreviation MAP_PRIVATE :: u32 where "MAP_PRIVATE \<equiv> 2"
abbreviation MAP_FIXED :: u32 where "MAP_FIXED \<equiv> 0x10"
abbreviation MAP_ANONYMOUS :: u32 where "MAP_ANONYMOUS \<equiv> 0x20"

definition pw_ask :: "pworld \<Rightarrow> bool \<times> pworld" where
  "pw_ask w = (case pw_script w of [] \<Rightarrow> (True, w) | b # bs \<Rightarrow> (b, w\<lparr>pw_script := bs\<rparr>))"

text \<open>Reading needs any access (a writable page is readable), writing needs \<open>PROT_WRITE\<close>.\<close>

definition vm_read_page :: "u64 \<Rightarrow> pworld \<Rightarrow> string option \<times> pworld" where
  "vm_read_page a w =
     (let (ok, w) = pw_ask w in
      (if ok \<and> pw_prot w a AND (PROT_READ OR PROT_WRITE) \<noteq> 0 then Some (pw_page w a) else None, w))"

definition vm_write_page :: "u64 \<Rightarrow> string \<Rightarrow> pworld \<Rightarrow> bool \<times> pworld" where
  "vm_write_page a p w =
     (let (ok, w) = pw_ask w in
      if ok \<and> pw_prot w a AND PROT_WRITE \<noteq> 0 then (True, w\<lparr>pw_page := (pw_page w)(a := p)\<rparr>) else (False, w))"

definition file_write_page :: "int \<Rightarrow> nat \<Rightarrow> string \<Rightarrow> pworld \<Rightarrow> bool \<times> pworld" where
  "file_write_page fd i p w =
     (let (ok, w) = pw_ask w in
      if ok then (True, w\<lparr>pw_file := (pw_file w)(fd := (pw_file w fd)(i := p))\<rparr>) else (False, w))"

text \<open>A short \<open>pread\<close> is filled with zeros by the caller, as \<open>pw_file\<close>'s pages are.\<close>

definition file_read_page :: "int \<Rightarrow> nat \<Rightarrow> pworld \<Rightarrow> string option \<times> pworld" where
  "file_read_page fd i w = (let (ok, w) = pw_ask w in (if ok then Some (pw_file w fd i) else None, w))"

text \<open>
  The injected \<open>mprotect\<close>: the call's result, \<open>None\<close> when the injection itself fails. When the
  process's seccomp filter traces \<open>mprotect\<close> (\<open>pw_traced\<close>), the process stops at the filter before the
  call runs, and what is read as the result is the first argument.
\<close>

definition inject_mprotect :: "u64 \<Rightarrow> u32 \<Rightarrow> pworld \<Rightarrow> u64 option \<times> pworld" where
  "inject_mprotect a prot w =
     (let (ok, w) = pw_ask w in
      if \<not> ok then (None, w)
      else if pw_traced w then (Some a, w)
      else (Some 0, w\<lparr>pw_prot := (pw_prot w)(a := prot)\<rparr>))"

section \<open>Regions\<close>

definition MAX_MANAGED_TRACE_REGIONS :: nat where "MAX_MANAGED_TRACE_REGIONS = 8"

record region =
  rg_active :: bool
  rg_base :: u64
  rg_length :: u64
  rg_prot :: u32
  rg_page_size :: u64
  rg_page_count :: nat
  rg_limit :: nat
  rg_count :: nat
  rg_max :: nat
  rg_hand :: u64
  rg_fd :: int
  rg_resident :: "bool list"
  rg_loaded :: "bool list"
  rg_page_ins :: u64
  rg_page_outs :: u64
  rg_dirty_outs :: u64
  rg_bytes_in :: u64
  rg_bytes_out :: u64

definition zero_region :: region where
  "zero_region = \<lparr>rg_active = False, rg_base = 0, rg_length = 0, rg_prot = 0, rg_page_size = 0, rg_page_count = 0,
     rg_limit = 0, rg_count = 0, rg_max = 0, rg_hand = 0, rg_fd = -1, rg_resident = [], rg_loaded = [],
     rg_page_ins = 0, rg_page_outs = 0, rg_dirty_outs = 0, rg_bytes_in = 0, rg_bytes_out = 0\<rparr>"

record pager_conf =
  pc_enabled :: bool
  pc_min_request :: u64
  pc_max_region :: u64
  pc_resident_pages :: u64
  pc_page_size :: u64

text \<open>The admission counters of the candidates that are refused, in the order of the tests.\<close>

datatype admission = NotEnabled | FixedAddress | BelowThreshold | TooLarge | UnsupportedFlags | FileBacked
  | UnsupportedProtection | Candidate

definition managed_trace_is_candidate_mmap :: "pager_conf \<Rightarrow> (nat \<Rightarrow> u64) \<Rightarrow> admission" where
  "managed_trace_is_candidate_mmap pc args =
     (let addr = args 0; len = args 1; prot = args 2; flags = args 3; fd = args 4 in
      if \<not> pc_enabled pc then NotEnabled
      else if addr \<noteq> 0 then FixedAddress
      else if len < pc_min_request pc then BelowThreshold
      else if pc_max_region pc \<noteq> 0 \<and> pc_max_region pc < len then TooLarge
      else if flags AND ucast MAP_ANONYMOUS = 0 \<or> flags AND ucast MAP_PRIVATE = 0 \<or> flags AND ucast MAP_FIXED \<noteq> 0
      then UnsupportedFlags
      else if fd \<noteq> 0xffffffffffffffff \<and> fd \<noteq> 0xffffffff then FileBacked
      else if prot AND ucast (PROT_READ OR PROT_WRITE) = 0 \<or> prot AND ucast PROT_EXEC \<noteq> 0 then UnsupportedProtection
      else Candidate)"

definition free_one_managed_region :: "region \<Rightarrow> region" where
  "free_one_managed_region r = (if \<not> rg_active r then r else zero_region)"

text \<open>The regions of a process: not yet allocated, or \<open>MAX_MANAGED_TRACE_REGIONS\<close> slots.\<close>

type_synonym regions = "region list option"

definition free_managed_trace_regions :: "regions \<Rightarrow> regions" where
  "free_managed_trace_regions rs = None"

definition in_region :: "u64 \<Rightarrow> region \<Rightarrow> bool" where
  "in_region a r \<longleftrightarrow> rg_active r \<and> rg_base r \<le> a \<and> a < rg_base r + rg_length r"

fun find_in :: "region list \<Rightarrow> nat \<Rightarrow> u64 \<Rightarrow> (nat \<times> nat) option" where
  "find_in [] i a = None"
| "find_in (r # rs) i a =
     (if in_region a r then
        (let idx = unat ((a - rg_base r) div rg_page_size r) in
         if rg_page_count r \<le> idx then None else Some (i, idx))
      else find_in rs (Suc i) a)"

definition find_managed_region_for_addr :: "regions \<Rightarrow> u64 \<Rightarrow> (nat \<times> nat) option" where
  "find_managed_region_for_addr rs a = (case rs of None \<Rightarrow> None | Some l \<Rightarrow> find_in l 0 a)"

fun free_slot :: "region list \<Rightarrow> nat \<Rightarrow> nat option" where
  "free_slot [] i = None"
| "free_slot (r # rs) i = (if \<not> rg_active r then Some i else free_slot rs (Suc i))"

definition alloc_managed_region_slot :: "regions \<Rightarrow> pworld \<Rightarrow> nat option \<times> regions \<times> pworld" where
  "alloc_managed_region_slot rs w =
     (case rs of
        Some l \<Rightarrow> (free_slot l 0, rs, w)
      | None \<Rightarrow>
          (let (ok, w) = pw_ask w in
           if \<not> ok then (None, None, w)
           else let l = replicate MAX_MANAGED_TRACE_REGIONS zero_region in (free_slot l 0, Some l, w)))"

definition syscall_failed_result :: "u64 \<Rightarrow> bool" where
  "syscall_failed_result result \<longleftrightarrow> - 4095 \<le> result"

text \<open>\<open>open_backing\<close> answers the descriptor of a new backing file, extended to the region's length.\<close>

definition register_managed_mmap_region ::
  "pager_conf \<Rightarrow> (pworld \<Rightarrow> int option \<times> pworld) \<Rightarrow> u64 \<Rightarrow> u64 \<Rightarrow> u32 \<Rightarrow> regions \<Rightarrow> pworld \<Rightarrow> bool \<times> regions \<times> pworld" where
  "register_managed_mmap_region pc open_backing base len prot rs w =
     (if syscall_failed_result base \<or> base = 0 \<or> len = 0 then (False, rs, w)
      else let ps = pc_page_size pc; pages = (len + ps - 1) div ps in
        if pages = 0 \<or> 0x7fffffffffffffff < pages then (False, rs, w)
        else case alloc_managed_region_slot rs w of
          (None, rs, w) \<Rightarrow> (False, rs, w)
        | (Some i, rs, w) \<Rightarrow>
            (let lim0 = (if pc_resident_pages pc = 0 then 1 else unat (pc_resident_pages pc));
                 n = unat pages;
                 r = zero_region\<lparr>rg_base := base, rg_length := pages * ps, rg_prot := (if prot \<noteq> 0 then prot else PROT_READ OR PROT_WRITE),
                       rg_page_size := ps, rg_page_count := n, rg_limit := min lim0 n,
                       rg_resident := replicate n False, rg_loaded := replicate n False\<rparr>;
                 failed = (\<lambda>w. (False, map_option (\<lambda>l. l[i := r]) rs, w));
                 (ok1, w) = pw_ask w; (ok2, w) = pw_ask w in
             if \<not> ok1 \<or> \<not> ok2 then failed w
             else case open_backing w of
               (None, w) \<Rightarrow> failed w
             | (Some fd, w) \<Rightarrow>
                 (let (ok3, w) = pw_ask w in
                  if \<not> ok3 then (False, map_option (\<lambda>l. l[i := r\<lparr>rg_fd := fd\<rparr>]) rs, w)
                  else (True, map_option (\<lambda>l. l[i := r\<lparr>rg_fd := fd, rg_active := True\<rparr>]) rs,
                        w\<lparr>pw_file := (pw_file w)(fd := (\<lambda>_. replicate (unat ps) (CHR 0x00)))\<rparr>))))"

section \<open>Faults\<close>

definition page_addr :: "region \<Rightarrow> nat \<Rightarrow> u64" where
  "page_addr r i = rg_base r + of_nat i * rg_page_size r"

text \<open>The page at \<open>idx\<close> goes to the backing file and becomes inaccessible.\<close>

definition evict_page :: "nat \<Rightarrow> region \<Rightarrow> pworld \<Rightarrow> bool \<times> region \<times> pworld" where
  "evict_page idx r w =
     (let (ok, w) = pw_ask w in
      if \<not> ok then (False, r, w)
      else case vm_read_page (page_addr r idx) w of
        (None, w) \<Rightarrow> (False, r, w)
      | (Some p, w) \<Rightarrow>
          (case file_write_page (rg_fd r) idx p w of
             (False, w) \<Rightarrow> (False, r, w)
           | (True, w) \<Rightarrow>
               (let r = r\<lparr>rg_dirty_outs := rg_dirty_outs r + 1, rg_bytes_out := rg_bytes_out r + rg_page_size r\<rparr> in
                case inject_mprotect (page_addr r idx) PROT_NONE w of
                  (None, w) \<Rightarrow> (False, r, w)
                | (Some result, w) \<Rightarrow>
                    (if result \<noteq> 0 then (False, r, w)
                     else (True, r\<lparr>rg_resident := (rg_resident r)[idx := False], rg_count := rg_count r - 1,
                             rg_page_outs := rg_page_outs r + 1\<rparr>, w)))))"

fun evict_scan :: "nat \<Rightarrow> nat \<Rightarrow> region \<Rightarrow> pworld \<Rightarrow> bool \<times> region \<times> pworld" where
  "evict_scan 0 avoid r w = (False, r, w)"
| "evict_scan (Suc n) avoid r w =
     (let idx = unat (rg_hand r) mod rg_page_count r;
          r = r\<lparr>rg_hand := rg_hand r + 1\<rparr> in
      if idx = avoid \<or> \<not> rg_resident r ! idx then evict_scan n avoid r w
      else evict_page idx r w)"

definition evict_one_managed_trace_page :: "nat \<Rightarrow> region \<Rightarrow> pworld \<Rightarrow> bool \<times> region \<times> pworld" where
  "evict_one_managed_trace_page avoid r w =
     (if rg_count r = 0 then (False, r, w) else evict_scan (rg_page_count r * 2) avoid r w)"

lemma evict_page_count:
  "evict_page idx r w = (ok, r', w') \<Longrightarrow> rg_limit r' = rg_limit r \<and> rg_count r' = (if ok then rg_count r - 1 else rg_count r)"
  by (auto simp: evict_page_def Let_def split: prod.splits option.splits bool.splits if_splits)

lemma evict_scan_count:
  "evict_scan n avoid r w = (ok, r', w') \<Longrightarrow> rg_limit r' = rg_limit r \<and> rg_count r' = (if ok then rg_count r - 1 else rg_count r)"
  by (induction n arbitrary: r) (auto simp: Let_def dest: evict_page_count split: if_splits)

lemma evict_one_count:
  "evict_one_managed_trace_page avoid r w = (True, r', w') \<Longrightarrow> rg_limit r' = rg_limit r \<and> rg_count r' < rg_count r"
  by (auto simp: evict_one_managed_trace_page_def dest: evict_scan_count split: if_splits)

function evict_until :: "nat \<Rightarrow> region \<Rightarrow> pworld \<Rightarrow> bool \<times> region \<times> pworld" where
  "evict_until idx r w =
     (if rg_count r < rg_limit r then (True, r, w)
      else case evict_one_managed_trace_page idx r w of
             (False, r', w') \<Rightarrow> (False, r', w')
           | (True, r', w') \<Rightarrow> evict_until idx r' w')"
  by pat_completeness auto
termination by (relation "measure (\<lambda>(i, r, w). rg_count r)") (auto dest: evict_one_count[OF sym])

declare evict_until.simps [simp del]

definition zero_page :: "region \<Rightarrow> string" where
  "zero_page r = replicate (unat (rg_page_size r)) (CHR 0x00)"

text \<open>The page at \<open>idx\<close> is filled from the backing file, or with zeros the first time.\<close>

definition load_page :: "nat \<Rightarrow> region \<Rightarrow> pworld \<Rightarrow> bool \<times> region \<times> pworld" where
  "load_page idx r w =
     (let (ok, w) = pw_ask w in
      if \<not> ok then (False, r, w)
      else let (src, w) = (if rg_loaded r ! idx then file_read_page (rg_fd r) idx w else (Some (zero_page r), w)) in
        case src of
          None \<Rightarrow> (False, r, w)
        | Some p \<Rightarrow>
            (case vm_write_page (page_addr r idx) p w of
               (False, w) \<Rightarrow> (False, r, w)
             | (True, w) \<Rightarrow>
                 (True, r\<lparr>rg_resident := (rg_resident r)[idx := True], rg_loaded := (rg_loaded r)[idx := True],
                          rg_count := rg_count r + 1, rg_max := max (rg_max r) (rg_count r + 1),
                          rg_page_ins := rg_page_ins r + 1, rg_bytes_in := rg_bytes_in r + rg_page_size r\<rparr>, w)))"

definition fault_in_region :: "nat \<Rightarrow> region \<Rightarrow> pworld \<Rightarrow> int \<times> region \<times> pworld" where
  "fault_in_region idx r w =
     (case evict_until idx r w of
        (False, r, w) \<Rightarrow> (-1, r, w)
      | (True, r, w) \<Rightarrow>
          (case inject_mprotect (page_addr r idx) (rg_prot r) w of
             (None, w) \<Rightarrow> (-1, r, w)
           | (Some result, w) \<Rightarrow>
               (if result \<noteq> 0 then (-1, r, w)
                else case (if rg_resident r ! idx then (True, r, w) else load_page idx r w) of
                       (False, r, w) \<Rightarrow> (-1, r, w)
                     | (True, r, w) \<Rightarrow> (let (ok, w) = pw_ask w in (if ok then 1 else -1, r, w)))))"

definition handle_managed_memory_fault :: "u64 \<Rightarrow> regions \<Rightarrow> pworld \<Rightarrow> int \<times> regions \<times> pworld" where
  "handle_managed_memory_fault a rs w =
     (case find_managed_region_for_addr rs a of
        None \<Rightarrow> (0, rs, w)
      | Some (i, idx) \<Rightarrow>
          (case rs of
             None \<Rightarrow> (0, rs, w)
           | Some l \<Rightarrow> (let (rc, r, w) = fault_in_region idx (l ! i) w in (rc, Some (l[i := r]), w))))"

section \<open>Interception of \<open>mmap\<close>\<close>

record pending =
  mp_len :: u64
  mp_prot :: u64
  mp_flags :: u64

text \<open>The result, the pending request, and the value put into the protection argument.\<close>

definition maybe_prepare_managed_mmap ::
  "pager_conf \<Rightarrow> (nat \<Rightarrow> u64) \<Rightarrow> pending \<Rightarrow> pworld \<Rightarrow> int \<times> pending \<times> u64 option \<times> pworld" where
  "maybe_prepare_managed_mmap pc args p w =
     (if managed_trace_is_candidate_mmap pc args \<noteq> Candidate then (0, p\<lparr>mp_len := 0\<rparr>, None, w)
      else let p = p\<lparr>mp_len := args 1, mp_prot := args 2, mp_flags := args 3\<rparr>; (ok, w) = pw_ask w in
        if \<not> ok then (-1, p\<lparr>mp_len := 0\<rparr>, Some (ucast PROT_NONE), w)
        else (1, p, Some (ucast PROT_NONE), w))"

definition inject_munmap :: "u64 \<Rightarrow> pworld \<Rightarrow> u64 option \<times> pworld" where
  "inject_munmap a w = (let (ok, w) = pw_ask w in (if \<not> ok then None else if pw_traced w then Some a else Some 0, w))"

text \<open>The value put into the result register, when the request fails closed.\<close>

definition maybe_finish_managed_mmap ::
  "pager_conf \<Rightarrow> (pworld \<Rightarrow> int option \<times> pworld) \<Rightarrow> u64 \<Rightarrow> pending \<Rightarrow> regions \<Rightarrow> pworld \<Rightarrow>
   u64 option \<times> pending \<times> regions \<times> pworld" where
  "maybe_finish_managed_mmap pc open_backing result p rs w =
     (if mp_len p = 0 then (None, p, rs, w)
      else let len = mp_len p; prot = ucast (mp_prot p); p = p\<lparr>mp_len := 0\<rparr> in
        if syscall_failed_result result \<or> result = 0 then (None, p, rs, w)
        else case register_managed_mmap_region pc open_backing result len prot rs w of
          (True, rs, w) \<Rightarrow> (None, p, rs, w)
        | (False, rs, w) \<Rightarrow> (Some (of_int (- ENOMEM)), p, rs, snd (pw_ask (snd (inject_munmap result w)))))"

end
