(* ===== verification/Simulation.thy ===== *)
theory Simulation
  imports Prelude
begin

text \<open>
  The contract of a component that implements a simpler one: each operation, where it is carried out,
  gives the output of the abstract operation and ends in a state that represents the abstract result.
\<close>

fun run_steps :: "('op \<Rightarrow> 's \<Rightarrow> ('out \<times> 's) option) \<Rightarrow> 'op list \<Rightarrow> 's \<Rightarrow> ('out list \<times> 's) option" where
  "run_steps step [] s = Some ([], s)"
| "run_steps step (a # as) s =
     (case step a s of
        None \<Rightarrow> None
      | Some (out, s') \<Rightarrow> (case run_steps step as s' of None \<Rightarrow> None | Some (outs, t) \<Rightarrow> Some (out # outs, t)))"

fun spec_steps :: "('op \<Rightarrow> 'a \<Rightarrow> 'out \<times> 'a) \<Rightarrow> 'op list \<Rightarrow> 'a \<Rightarrow> 'out list \<times> 'a" where
  "spec_steps astep [] m = ([], m)"
| "spec_steps astep (a # as) m = (let (out, m') = astep a m; (outs, m'') = spec_steps astep as m' in (out # outs, m''))"

locale simulation =
  fixes step :: "'op \<Rightarrow> 's \<Rightarrow> ('out \<times> 's) option"
    and astep :: "'op \<Rightarrow> 'a \<Rightarrow> 'out \<times> 'a"
    and abs :: "'s \<Rightarrow> 'a"
    and inv :: "'s \<Rightarrow> bool"
  assumes step_inv: "inv s \<Longrightarrow> step a s = Some (out, s') \<Longrightarrow> inv s'"
    and step_abs: "inv s \<Longrightarrow> step a s = Some (out, s') \<Longrightarrow> astep a (abs s) = (out, abs s')"
begin

lemma run_refines: "inv s \<Longrightarrow> run_steps step as s = Some (outs, t) \<Longrightarrow> inv t \<and> spec_steps astep as (abs s) = (outs, abs t)"
proof (induction as arbitrary: s outs)
  case (Cons a as)
  from Cons.prems(2) obtain out s' os where st: "step a s = Some (out, s')" "run_steps step as s' = Some (os, t)" "outs = out # os"
    by (auto split: option.splits)
  with Cons step_inv[OF Cons.prems(1) st(1)] step_abs[OF Cons.prems(1) st(1)] show ?case by fastforce
qed simp

end

end
