(* ===== verification/Byte_Codec.thy ===== *)
theory Byte_Codec
  imports Prelude
begin

text \<open>
  Little-endian integers in byte strings, as the structures of the sources have them in memory, and
  fields at offsets of a byte string.
\<close>

lemma unat_of_nat64: "n < 2 ^ 64 \<Longrightarrow> unat (of_nat n :: u64) = n"
  by (simp add: unsigned_of_nat take_bit_nat_eq_self)

lemma unat_lt64: "unat (x :: u64) < 2 ^ 64"
  by (rule order_less_le_trans[OF unsigned_less]) simp

primrec to_le :: "nat \<Rightarrow> 'a::len word \<Rightarrow> string" where
  "to_le 0 w = []"
| "to_le (Suc n) w = char_of (unat (take_bit 8 w)) # to_le n (drop_bit 8 w)"

primrec of_le :: "string \<Rightarrow> 'a::len word" where
  "of_le [] = 0"
| "of_le (c # cs) = of_char c OR push_bit 8 (of_le cs)"

lemma length_to_le [simp]: "length (to_le n w) = n"
  by (induction n arbitrary: w) auto

lemma of_char_byte: "(of_char (char_of (unat (take_bit 8 w))) :: 'a::len word) = take_bit 8 w"
proof -
  let ?n = "unat (take_bit 8 w)"
  have "(of_char (char_of ?n) :: nat) = ?n"
    by (simp only: of_char_of unsigned_take_bit_eq) (simp add: take_bit_eq_mod)
  then have "of_nat (of_char (char_of ?n)) = (of_nat ?n :: 'a word)" by (rule arg_cong)
  then show ?thesis by (simp only: of_nat_of_char unsigned_of_nat) simp
qed

lemma of_to_le: "(of_le (to_le n w) :: 'a::len word) = take_bit (8 * n) w"
proof (induction n arbitrary: w)
  case (Suc n)
  show ?case
    by (simp add: Suc of_char_byte, rule bit_word_eqI) (auto simp: bit_simps)
qed simp

text \<open>A field of \<open>n\<close> bytes at an offset.\<close>

definition field :: "nat \<Rightarrow> nat \<Rightarrow> string \<Rightarrow> 'a::len word" where
  "field off n bs = of_le (take n (drop off bs))"

end
