(* ===== verification/Pager_Refine.thy ===== *)
theory Pager_Refine
  imports Trace_Pager Simulation Byte_Codec
begin

text \<open>
  The transparent pager presents flat memory: whatever is evicted and reloaded, the process reads what
  it last wrote, and never more pages are resident than the limit.
\<close>

section \<open>Counting\<close>

definition cnt :: "bool list \<Rightarrow> nat" where
  "cnt xs = length (filter id xs)"

lemma cnt_clear: "i < length xs \<Longrightarrow> xs ! i \<Longrightarrow> cnt (xs[i := False]) + 1 = cnt xs"
  by (induction xs arbitrary: i) (auto simp: cnt_def nth_Cons' split: nat.splits)

lemma cnt_set: "i < length xs \<Longrightarrow> \<not> xs ! i \<Longrightarrow> cnt (xs[i := True]) = cnt xs + 1"
  by (induction xs arbitrary: i) (auto simp: cnt_def nth_Cons' split: nat.splits)

lemma cnt_pos: "0 < cnt xs \<Longrightarrow> \<exists>i < length xs. xs ! i"
  by (auto simp: cnt_def filter_empty_conv in_set_conv_nth)

section \<open>Well-formed regions\<close>

definition rg_wf :: "region \<Rightarrow> bool" where
  "rg_wf r \<longleftrightarrow> rg_active r \<and> 0 < rg_page_count r \<and> 0 < rg_page_size r \<and>
     length (rg_resident r) = rg_page_count r \<and> length (rg_loaded r) = rg_page_count r \<and>
     0 < rg_limit r \<and> rg_limit r \<le> rg_page_count r \<and>
     rg_count r = cnt (rg_resident r) \<and> rg_count r \<le> rg_max r \<and> rg_max r \<le> rg_limit r \<and>
     rg_base r \<noteq> 0 \<and> unat (rg_base r) + rg_page_count r * unat (rg_page_size r) < 2 ^ 64 \<and>
     (\<forall>i < rg_page_count r. rg_resident r ! i \<longrightarrow> rg_loaded r ! i)"

text \<open>Resident pages have the mapping's protection, the others none.\<close>

definition rg_prots :: "region \<Rightarrow> pworld \<Rightarrow> bool" where
  "rg_prots r w \<longleftrightarrow> (\<forall>i < rg_page_count r. pw_prot w (page_addr r i) = (if rg_resident r ! i then rg_prot r else PROT_NONE))"

definition rg_flat :: "region \<Rightarrow> pworld \<Rightarrow> nat \<Rightarrow> string" where
  "rg_flat r w i =
     (if rg_resident r ! i then pw_page w (page_addr r i)
      else if rg_loaded r ! i then pw_file w (rg_fd r) i
      else zero_page r)"

definition rg_static :: "region \<Rightarrow> region \<Rightarrow> bool" where
  "rg_static r r' \<longleftrightarrow> rg_base r' = rg_base r \<and> rg_page_size r' = rg_page_size r \<and> rg_page_count r' = rg_page_count r \<and>
     rg_limit r' = rg_limit r \<and> rg_prot r' = rg_prot r \<and> rg_fd r' = rg_fd r \<and> rg_active r' = rg_active r \<and>
     rg_length r' = rg_length r"

lemma rg_static_refl [simp]: "rg_static r r"
  by (simp add: rg_static_def)

lemma rg_static_trans: "rg_static r s \<Longrightarrow> rg_static s t \<Longrightarrow> rg_static r t"
  by (simp add: rg_static_def)

lemma page_addr_static: "rg_static r r' \<Longrightarrow> page_addr r' = page_addr r"
  by (simp add: rg_static_def page_addr_def fun_eq_iff)

lemma zero_page_static: "rg_static r r' \<Longrightarrow> zero_page r' = zero_page r"
  by (simp add: rg_static_def zero_page_def)

lemma page_addr_update [simp]:
  "page_addr (r\<lparr>rg_hand := h\<rparr>) = page_addr r" "page_addr (r\<lparr>rg_dirty_outs := c\<rparr>) = page_addr r"
  "page_addr (r\<lparr>rg_bytes_out := c\<rparr>) = page_addr r" "page_addr (r\<lparr>rg_resident := bs\<rparr>) = page_addr r"
  "page_addr (r\<lparr>rg_loaded := bs\<rparr>) = page_addr r" "page_addr (r\<lparr>rg_count := n\<rparr>) = page_addr r"
  "page_addr (r\<lparr>rg_max := n\<rparr>) = page_addr r" "page_addr (r\<lparr>rg_page_ins := c\<rparr>) = page_addr r"
  "page_addr (r\<lparr>rg_page_outs := c\<rparr>) = page_addr r" "page_addr (r\<lparr>rg_bytes_in := c\<rparr>) = page_addr r"
  by (simp_all add: page_addr_def fun_eq_iff)

lemma zero_page_update [simp]:
  "zero_page (r\<lparr>rg_hand := h\<rparr>) = zero_page r" "zero_page (r\<lparr>rg_dirty_outs := c\<rparr>) = zero_page r"
  "zero_page (r\<lparr>rg_bytes_out := c\<rparr>) = zero_page r" "zero_page (r\<lparr>rg_resident := bs\<rparr>) = zero_page r"
  "zero_page (r\<lparr>rg_loaded := bs\<rparr>) = zero_page r" "zero_page (r\<lparr>rg_count := n\<rparr>) = zero_page r"
  "zero_page (r\<lparr>rg_max := n\<rparr>) = zero_page r" "zero_page (r\<lparr>rg_page_ins := c\<rparr>) = zero_page r"
  "zero_page (r\<lparr>rg_page_outs := c\<rparr>) = zero_page r" "zero_page (r\<lparr>rg_bytes_in := c\<rparr>) = zero_page r"
  by (simp_all add: zero_page_def)

lemma page_addr_unat:
  assumes "rg_wf r" "i < rg_page_count r"
  shows "unat (page_addr r i) = unat (rg_base r) + i * unat (rg_page_size r)"
proof -
  have le: "unat (rg_base r) + i * unat (rg_page_size r) \<le> unat (rg_base r) + rg_page_count r * unat (rg_page_size r)"
    using assms(2) by (intro add_left_mono mult_le_mono1) simp
  have "unat (rg_base r) + rg_page_count r * unat (rg_page_size r) < 2 ^ 64" using assms(1) unfolding rg_wf_def by blast
  then have lt: "unat (rg_base r) + i * unat (rg_page_size r) < 2 ^ 64" by (rule le_less_trans[OF le])
  have "page_addr r i = of_nat (unat (rg_base r) + i * unat (rg_page_size r))" by (simp add: page_addr_def)
  then show ?thesis using unat_of_nat64[OF lt] by (simp only:)
qed

lemma page_addr_inj:
  assumes "rg_wf r" "i < rg_page_count r" "j < rg_page_count r"
  shows "page_addr r i = page_addr r j \<longleftrightarrow> i = j"
proof
  assume "page_addr r i = page_addr r j"
  then have "unat (rg_base r) + i * unat (rg_page_size r) = unat (rg_base r) + j * unat (rg_page_size r)"
    using page_addr_unat[OF assms(1,2)] page_addr_unat[OF assms(1,3)] by argo
  then have "i * unat (rg_page_size r) = j * unat (rg_page_size r)" by simp
  moreover have "0 < unat (rg_page_size r)" using assms(1) by (simp add: rg_wf_def word_less_nat_alt)
  ultimately show "i = j" by simp
qed simp

lemma page_addr_nonzero: "rg_wf r \<Longrightarrow> i < rg_page_count r \<Longrightarrow> page_addr r i \<noteq> 0"
  using page_addr_unat[of r i] by (auto simp: rg_wf_def unat_eq_0)

section \<open>Calls\<close>

lemma pw_ask_fields: "pw_ask w = (ok, w') \<Longrightarrow> \<exists>sc. w' = w\<lparr>pw_script := sc\<rparr>"
  by (auto simp: pw_ask_def split: list.splits intro: exI[of _ "pw_script w"])

lemma vm_read_fields: "vm_read_page a w = (x, w') \<Longrightarrow> \<exists>sc. w' = w\<lparr>pw_script := sc\<rparr> \<and> (\<forall>p. x = Some p \<longrightarrow> p = pw_page w a)"
  by (auto simp: vm_read_page_def Let_def dest!: pw_ask_fields split: prod.splits if_splits)

lemma vm_write_fields: "vm_write_page a p w = (ok, w') \<Longrightarrow>
   \<exists>sc. w' = (if ok then w\<lparr>pw_script := sc, pw_page := (pw_page w)(a := p)\<rparr> else w\<lparr>pw_script := sc\<rparr>) \<and>
     (ok \<longrightarrow> pw_prot w a AND PROT_WRITE \<noteq> 0)"
  by (auto simp: vm_write_page_def Let_def dest!: pw_ask_fields split: prod.splits if_splits)

lemma file_write_fields: "file_write_page fd i p w = (ok, w') \<Longrightarrow>
   \<exists>sc. w' = (if ok then w\<lparr>pw_script := sc, pw_file := (pw_file w)(fd := (pw_file w fd)(i := p))\<rparr> else w\<lparr>pw_script := sc\<rparr>)"
  by (auto simp: file_write_page_def Let_def dest!: pw_ask_fields split: prod.splits if_splits)

lemma file_read_fields: "file_read_page fd i w = (x, w') \<Longrightarrow>
   \<exists>sc. w' = w\<lparr>pw_script := sc\<rparr> \<and> (\<forall>p. x = Some p \<longrightarrow> p = pw_file w fd i)"
  by (auto simp: file_read_page_def Let_def dest!: pw_ask_fields split: prod.splits if_splits)

lemma inject_fields: "inject_mprotect a prot w = (x, w') \<Longrightarrow> a \<noteq> 0 \<Longrightarrow>
   \<exists>sc. w' = (if x = Some 0 then w\<lparr>pw_script := sc, pw_prot := (pw_prot w)(a := prot)\<rparr> else w\<lparr>pw_script := sc\<rparr>) \<and>
     (x = Some 0 \<longrightarrow> \<not> pw_traced w)"
  by (auto simp: inject_mprotect_def Let_def dest!: pw_ask_fields split: prod.splits if_splits)

section \<open>Eviction\<close>

text \<open>
  What an eviction may do: the pages keep their contents, no page becomes resident, and the
  protections follow.
\<close>

definition evicts :: "region \<Rightarrow> pworld \<Rightarrow> region \<Rightarrow> pworld \<Rightarrow> bool" where
  "evicts r w r' w' \<longleftrightarrow> rg_wf r' \<and> rg_prots r' w' \<and> rg_static r r' \<and> rg_loaded r' = rg_loaded r \<and>
     pw_traced w' = pw_traced w \<and>
     (\<forall>i < rg_page_count r. rg_flat r' w' i = rg_flat r w i) \<and>
     (\<forall>i < rg_page_count r. rg_resident r' ! i \<longrightarrow> rg_resident r ! i)"

lemma evicts_trans: "evicts r w s v \<Longrightarrow> evicts s v t u \<Longrightarrow> evicts r w t u"
  by (auto simp: evicts_def rg_static_def)

text \<open>Bookkeeping that none of the pages depends on.\<close>

lemma evicts_quiet:
  assumes "rg_wf r" "rg_prots r w"
  shows "evicts r w (r\<lparr>rg_hand := h, rg_dirty_outs := d, rg_bytes_out := b\<rparr>) (w\<lparr>pw_script := sc\<rparr>)"
  using assms by (simp add: evicts_def rg_wf_def rg_prots_def rg_static_def rg_flat_def page_addr_def zero_page_def)

lemma evicts_script: "rg_wf r \<Longrightarrow> rg_prots r w \<Longrightarrow> evicts r w r (w\<lparr>pw_script := sc\<rparr>)"
  using evicts_quiet[of r w, where h = "rg_hand r" and d = "rg_dirty_outs r" and b = "rg_bytes_out r" and sc = sc] by simp

lemma evicts_file:
  assumes "rg_wf r" "rg_prots r w" "idx < rg_page_count r" "rg_resident r ! idx"
  shows "evicts r w r (w\<lparr>pw_script := sc, pw_file := (pw_file w)(rg_fd r := (pw_file w (rg_fd r))(idx := p))\<rparr>)"
  using assms by (auto simp: evicts_def rg_prots_def rg_flat_def)

lemma evicts_out:
  assumes wf: "rg_wf r" and pr: "rg_prots r w" and i: "idx < rg_page_count r" "rg_resident r ! idx"
    and saved: "pw_file w (rg_fd r) idx = pw_page w (page_addr r idx)"
  shows "evicts r w (r\<lparr>rg_resident := (rg_resident r)[idx := False], rg_count := rg_count r - 1, rg_page_outs := n\<rparr>)
    (w\<lparr>pw_script := sc, pw_prot := (pw_prot w)(page_addr r idx := PROT_NONE)\<rparr>)"
proof -
  have len: "idx < length (rg_resident r)" using wf i by (simp add: rg_wf_def)
  have loaded: "rg_loaded r ! idx" using wf i by (simp add: rg_wf_def)
  let ?r = "r\<lparr>rg_resident := (rg_resident r)[idx := False], rg_count := rg_count r - 1, rg_page_outs := n\<rparr>"
  have st: "rg_static r ?r" by (simp add: rg_static_def)
  have "rg_wf ?r" using wf cnt_clear[OF len i(2)] len by (auto simp: rg_wf_def nth_list_update split: if_splits)
  moreover have "rg_prots ?r (w\<lparr>pw_script := sc, pw_prot := (pw_prot w)(page_addr r idx := PROT_NONE)\<rparr>)"
    using pr page_addr_inj[OF wf _ i(1)] len
    by (auto simp: rg_prots_def page_addr_static[OF st] nth_list_update)
  moreover have "rg_flat ?r (w\<lparr>pw_script := sc, pw_prot := (pw_prot w)(page_addr r idx := PROT_NONE)\<rparr>) j = rg_flat r w j"
    if "j < rg_page_count r" for j
    using saved loaded len i(2) by (auto simp: rg_flat_def page_addr_static[OF st] zero_page_static[OF st] nth_list_update)
  ultimately show ?thesis using st len by (simp add: evicts_def nth_list_update)
qed

lemma evict_page_evicts:
  assumes wf: "rg_wf r" and pr: "rg_prots r w" and i: "idx < rg_page_count r" "rg_resident r ! idx"
    and run: "evict_page idx r w = (ok, r', w')"
  shows "evicts r w r' w'"
proof -
  obtain o1 w1 where w1: "pw_ask w = (o1, w1)" by fastforce
  obtain sc1 where s1: "w1 = w\<lparr>pw_script := sc1\<rparr>" using pw_ask_fields[OF w1] by blast
  have e1: "evicts r w r w1" unfolding s1 using wf pr by (rule evicts_script)
  obtain x w2 where w2: "vm_read_page (page_addr r idx) w1 = (x, w2)" by fastforce
  obtain sc2 where s2: "w2 = w1\<lparr>pw_script := sc2\<rparr>" "\<And>p. x = Some p \<Longrightarrow> p = pw_page w1 (page_addr r idx)"
    using vm_read_fields[OF w2] by blast
  have e2: "evicts r w r w2" unfolding s1 s2 using evicts_script[OF wf pr, of sc2] by simp
  show ?thesis
  proof (cases "o1 \<and> x \<noteq> None")
    case False
    with run w1 w2 e1 e2 show ?thesis by (cases o1; cases x) (auto simp: evict_page_def Let_def)
  next
    case True
    then obtain p where p: "o1" "x = Some p" by blast
    obtain o3 w3 where w3: "file_write_page (rg_fd r) idx p w2 = (o3, w3)" by fastforce
    have e3: "evicts r w2 r w3"
      using file_write_fields[OF w3] evicts_file[of r w2 idx] evicts_script[of r w2] e2 i
      by (auto simp: evicts_def split: if_splits)
    show ?thesis
    proof (cases o3)
      case False
      with run w1 w2 w3 p evicts_trans[OF e2 e3] show ?thesis by (auto simp: evict_page_def Let_def)
    next
      case True
      let ?r = "r\<lparr>rg_dirty_outs := rg_dirty_outs r + 1, rg_bytes_out := rg_bytes_out r + rg_page_size r\<rparr>"
      obtain y w4 where w4: "inject_mprotect (page_addr r idx) PROT_NONE w3 = (y, w4)" by fastforce
      obtain sc4 where s4: "w4 = (if y = Some 0 then w3\<lparr>pw_script := sc4, pw_prot := (pw_prot w3)(page_addr r idx := PROT_NONE)\<rparr>
          else w3\<lparr>pw_script := sc4\<rparr>)"
        using inject_fields[OF w4 page_addr_nonzero[OF wf i(1)]] by blast
      have e4: "evicts r w3 ?r w3"
        using evicts_quiet[of r w3, where h = "rg_hand r" and d = "rg_dirty_outs r + 1" and b = "rg_bytes_out r + rg_page_size r" and sc = "pw_script w3"] e3
        by (simp add: evicts_def)
      have saved: "pw_file w3 (rg_fd ?r) idx = pw_page w3 (page_addr ?r idx)"
        using file_write_fields[OF w3] s2(2)[OF p(2)] True s2(1) by (auto simp: page_addr_def)
      note all = evicts_trans[OF evicts_trans[OF e2 e3] e4]
      show ?thesis
      proof (cases "y = Some 0")
        case True
        have "evicts ?r w3 (?r\<lparr>rg_resident := (rg_resident ?r)[idx := False], rg_count := rg_count ?r - 1, rg_page_outs := rg_page_outs ?r + 1\<rparr>)
            (w3\<lparr>pw_script := sc4, pw_prot := (pw_prot w3)(page_addr ?r idx := PROT_NONE)\<rparr>)"
          using e4 i by (intro evicts_out saved) (auto simp: evicts_def)
        with all run w1 w2 w3 w4 s4 p \<open>o3\<close> True show ?thesis
          by (auto simp: evict_page_def Let_def page_addr_def intro: evicts_trans)
      next
        case False
        then have "r' = ?r" "w' = w3\<lparr>pw_script := sc4\<rparr>"
          using run w1 w2 w3 w4 s4 p \<open>o3\<close> False by (cases y; simp add: evict_page_def Let_def)+
        moreover have "evicts ?r w3 ?r (w3\<lparr>pw_script := sc4\<rparr>)"
          using e4 by (intro evicts_script) (auto simp: evicts_def)
        ultimately show ?thesis using all evicts_trans by blast
      qed
    qed
  qed
qed

lemma evict_scan_evicts:
  "rg_wf r \<Longrightarrow> rg_prots r w \<Longrightarrow> evict_scan n avoid r w = (ok, r', w') \<Longrightarrow> evicts r w r' w'"
proof (induction n arbitrary: r)
  case 0
  then show ?case using evicts_script[of r w "pw_script w"] by simp
next
  case (Suc n)
  let ?i = "unat (rg_hand r) mod rg_page_count r" and ?r = "r\<lparr>rg_hand := rg_hand r + 1\<rparr>"
  have q: "evicts r w ?r w"
    using evicts_quiet[OF Suc.prems(1,2), where h = "rg_hand r + 1" and d = "rg_dirty_outs r" and b = "rg_bytes_out r" and sc = "pw_script w"] by simp
  then have wf: "rg_wf ?r" "rg_prots ?r w" by (auto simp: evicts_def)
  have i: "?i < rg_page_count ?r" using Suc.prems(1) by (simp add: rg_wf_def)
  show ?case
  proof (cases "?i = avoid \<or> \<not> rg_resident ?r ! ?i")
    case True
    then have "evict_scan n avoid ?r w = (ok, r', w')" using Suc.prems(3) by (simp add: Let_def)
    from evicts_trans[OF q Suc.IH[OF wf this]] show ?thesis .
  next
    case False
    then have "evict_page ?i ?r w = (ok, r', w')" using Suc.prems(3) by (simp add: Let_def)
    with wf i False show ?thesis by (intro evicts_trans[OF q evict_page_evicts]) auto
  qed
qed

lemma evict_until_evicts:
  "rg_wf r \<Longrightarrow> rg_prots r w \<Longrightarrow> evict_until idx r w = (ok, r', w') \<Longrightarrow>
   evicts r w r' w' \<and> (ok \<longrightarrow> rg_count r' < rg_limit r')"
proof (induction idx r w rule: evict_until.induct)
  case (1 idx r w)
  show ?case
  proof (cases "rg_count r < rg_limit r")
    case True
    with 1 show ?thesis
      using evicts_script[of r w "pw_script w"] by (simp add: evict_until.simps[of idx r w])
  next
    case False
    obtain o1 r1 w1 where e: "evict_one_managed_trace_page idx r w = (o1, r1, w1)" by (metis prod_cases3)
    have ev: "evicts r w r1 w1"
      using e 1(2,3) evict_scan_evicts[of r w] evicts_script[of r w "pw_script w"]
      by (auto simp: evict_one_managed_trace_page_def split: if_splits)
    show ?thesis
    proof (cases o1)
      case True
      with 1(4) False e have go: "evict_until idx r1 w1 = (ok, r', w')" by (simp add: evict_until.simps[of idx r w])
      from ev have "rg_wf r1" "rg_prots r1 w1" by (auto simp: evicts_def)
      from "1.IH"[OF False e[symmetric] _ refl this go] True evicts_trans[OF ev] show ?thesis by blast
    next
      case f: False
      with 1 False e ev show ?thesis by (auto simp: evict_until.simps[of idx r w])
    qed
  qed
qed


section \<open>Faults\<close>

text \<open>
  A fault that is resolved makes its page accessible, keeps the contents of every page, and leaves the
  region within its limit.
\<close>

definition resolves :: "nat \<Rightarrow> region \<Rightarrow> pworld \<Rightarrow> region \<Rightarrow> pworld \<Rightarrow> bool" where
  "resolves idx r w r' w' \<longleftrightarrow> rg_wf r' \<and> rg_prots r' w' \<and> rg_static r r' \<and> pw_traced w' = pw_traced w \<and>
     rg_resident r' ! idx \<and> (\<forall>i < rg_page_count r. rg_flat r' w' i = rg_flat r w i)"

lemma load_page_fields:
  assumes "load_page idx r w = (True, r', w')"
  obtains p sc where
    "p = (if rg_loaded r ! idx then pw_file w (rg_fd r) idx else zero_page r)"
    "r' = r\<lparr>rg_resident := (rg_resident r)[idx := True], rg_loaded := (rg_loaded r)[idx := True],
        rg_count := rg_count r + 1, rg_max := max (rg_max r) (rg_count r + 1),
        rg_page_ins := rg_page_ins r + 1, rg_bytes_in := rg_bytes_in r + rg_page_size r\<rparr>"
    "w' = w\<lparr>pw_script := sc, pw_page := (pw_page w)(page_addr r idx := p)\<rparr>"
    "pw_prot w (page_addr r idx) AND PROT_WRITE \<noteq> 0"
proof -
  obtain o1 w1 where w1: "pw_ask w = (o1, w1)" by fastforce
  then obtain sc1 where s1: "w1 = w\<lparr>pw_script := sc1\<rparr>" using pw_ask_fields by blast
  obtain x w2 where w2: "(if rg_loaded r ! idx then file_read_page (rg_fd r) idx w1 else (Some (zero_page r), w1)) = (x, w2)"
    by fastforce
  have o1 using assms w1 by (cases o1) (auto simp: load_page_def)
  obtain p where p: "x = Some p" using assms w1 w2 \<open>o1\<close> by (cases x) (auto simp: load_page_def)
  have s2: "\<exists>sc2. w2 = w\<lparr>pw_script := sc2\<rparr>" "p = (if rg_loaded r ! idx then pw_file w (rg_fd r) idx else zero_page r)"
    using w2 file_read_fields[of "rg_fd r" idx w1 x w2] p by (auto simp: s1 split: if_splits)
  obtain o3 w3 where w3: "vm_write_page (page_addr r idx) p w2 = (o3, w3)" by fastforce
  have o3 using assms w1 w2 w3 p \<open>o1\<close> by (cases o3) (auto simp: load_page_def)
  from s2(1) obtain sc2 where sc2: "w2 = w\<lparr>pw_script := sc2\<rparr>" by blast
  from vm_write_fields[OF w3] \<open>o3\<close> obtain sc3 where
    s3: "w3 = w2\<lparr>pw_script := sc3, pw_page := (pw_page w2)(page_addr r idx := p)\<rparr>" "pw_prot w2 (page_addr r idx) AND PROT_WRITE \<noteq> 0"
    by auto
  have "(r', w') = (r\<lparr>rg_resident := (rg_resident r)[idx := True], rg_loaded := (rg_loaded r)[idx := True],
        rg_count := rg_count r + 1, rg_max := max (rg_max r) (rg_count r + 1),
        rg_page_ins := rg_page_ins r + 1, rg_bytes_in := rg_bytes_in r + rg_page_size r\<rparr>, w3)"
    using assms w1 w2 w3 p \<open>o1\<close> \<open>o3\<close> by (simp add: load_page_def)
  with s2(2) s3 sc2 show thesis by (intro that[of p sc3]) auto
qed

lemma loaded_resolves:
  assumes wf: "rg_wf r" and pr: "rg_prots r w" and i: "idx < rg_page_count r" "\<not> rg_resident r ! idx"
    and room: "rg_count r < rg_limit r"
    and p: "p = (if rg_loaded r ! idx then pw_file w (rg_fd r) idx else zero_page r)"
  shows "resolves idx r w
    (r\<lparr>rg_resident := (rg_resident r)[idx := True], rg_loaded := (rg_loaded r)[idx := True],
       rg_count := rg_count r + 1, rg_max := max (rg_max r) (rg_count r + 1), rg_page_ins := n, rg_bytes_in := b\<rparr>)
    (w\<lparr>pw_prot := (pw_prot w)(page_addr r idx := rg_prot r), pw_page := (pw_page w)(page_addr r idx := p), pw_script := sc\<rparr>)"
    (is "resolves idx r w ?r ?w")
proof -
  have len: "idx < length (rg_resident r)" "idx < length (rg_loaded r)" using wf i by (auto simp: rg_wf_def)
  have st: "rg_static r ?r" by (simp add: rg_static_def)
  have "rg_wf ?r" using wf cnt_set[OF len(1) i(2)] len room by (auto simp: rg_wf_def nth_list_update split: if_splits)
  moreover have "rg_prots ?r ?w"
    using pr page_addr_inj[OF wf _ i(1)] len by (auto simp: rg_prots_def nth_list_update)
  moreover have "rg_flat ?r ?w j = rg_flat r w j" if "j < rg_page_count r" for j
    using p i(2) page_addr_inj[OF wf that i(1)] len by (auto simp: rg_flat_def nth_list_update)
  ultimately show ?thesis using st len by (simp add: resolves_def)
qed

theorem fault_resolves:
  assumes wf: "rg_wf r" and pr: "rg_prots r w" and i: "idx < rg_page_count r"
    and run: "fault_in_region idx r w = (1, r', w')"
  shows "resolves idx r w r' w'"
proof -
  obtain o1 r1 w1 where e: "evict_until idx r w = (o1, r1, w1)" by (metis prod_cases3)
  have ev: "evicts r w r1 w1" "o1 \<Longrightarrow> rg_count r1 < rg_limit r1" using evict_until_evicts[OF wf pr e] by auto
  have o1 using run e by (cases o1) (auto simp: fault_in_region_def)
  have wf1: "rg_wf r1" "rg_prots r1 w1" "idx < rg_page_count r1"
    using ev(1) i by (auto simp: evicts_def rg_static_def)
  obtain y w2 where y: "inject_mprotect (page_addr r1 idx) (rg_prot r1) w1 = (y, w2)" by fastforce
  have y0: "y = Some 0" using run e y \<open>o1\<close> by (cases y) (auto simp: fault_in_region_def split: if_splits)
  obtain sc2 where w2: "w2 = w1\<lparr>pw_script := sc2, pw_prot := (pw_prot w1)(page_addr r1 idx := rg_prot r1)\<rparr>"
    using inject_fields[OF y page_addr_nonzero[OF wf1(1,3)]] y0 by auto
  obtain o3 r3 w3 where l: "(if rg_resident r1 ! idx then (True, r1, w2) else load_page idx r1 w2) = (o3, r3, w3)"
    by (metis prod_cases3)
  have o3 using run e y y0 l \<open>o1\<close> by (cases o3) (auto simp: fault_in_region_def)
  obtain o4 w4 where a: "pw_ask w3 = (o4, w4)" by fastforce
  have fin: "r' = r3" "w' = w4" using run e y y0 l a \<open>o1\<close> \<open>o3\<close> by (auto simp: fault_in_region_def)
  obtain sc4 where w4: "w4 = w3\<lparr>pw_script := sc4\<rparr>" using pw_ask_fields[OF a] by blast
  have "resolves idx r1 w1 r3 (w3\<lparr>pw_script := sc4\<rparr>)"
  proof (cases "rg_resident r1 ! idx")
    case True
    with l w2 have "r3 = r1" "w3 = w2" by auto
    moreover have "(pw_prot w1)(page_addr r1 idx := rg_prot r1) = pw_prot w1"
      using wf1(2,3) True by (auto simp: rg_prots_def)
    ultimately show ?thesis using wf1 True w2 by (simp add: resolves_def rg_prots_def rg_flat_def)
  next
    case False
    with l \<open>o3\<close> have "load_page idx r1 w2 = (True, r3, w3)" by simp
    then show ?thesis
    proof (rule load_page_fields)
      fix p sc
      assume "p = (if rg_loaded r1 ! idx then pw_file w2 (rg_fd r1) idx else zero_page r1)"
        and r3: "r3 = r1\<lparr>rg_resident := (rg_resident r1)[idx := True], rg_loaded := (rg_loaded r1)[idx := True],
          rg_count := rg_count r1 + 1, rg_max := max (rg_max r1) (rg_count r1 + 1),
          rg_page_ins := rg_page_ins r1 + 1, rg_bytes_in := rg_bytes_in r1 + rg_page_size r1\<rparr>"
        and w3: "w3 = w2\<lparr>pw_script := sc, pw_page := (pw_page w2)(page_addr r1 idx := p)\<rparr>"
      then have "p = (if rg_loaded r1 ! idx then pw_file w1 (rg_fd r1) idx else zero_page r1)" by (simp add: w2)
      from loaded_resolves[OF wf1(1,2,3) False ev(2)[OF \<open>o1\<close>] this, where sc = sc4
        and n = "rg_page_ins r1 + 1" and b = "rg_bytes_in r1 + rg_page_size r1"]
      show ?thesis by (simp add: r3 w3 w2)
    qed
  qed
  then show ?thesis using ev(1) w4 by (auto simp: fin resolves_def evicts_def rg_static_def)
qed


section \<open>The process's accesses\<close>

text \<open>
  The environment's side: a load reads a page, a store changes one byte of it. An access that the
  page's protection forbids faults, and is retried when the pager has resolved the fault.
\<close>

datatype pg_op = PgRead nat | PgWrite nat nat char

definition pg_access :: "u32 \<Rightarrow> nat \<Rightarrow> region \<Rightarrow> pworld \<Rightarrow> (region \<times> pworld) option" where
  "pg_access need idx r w =
     (if pw_prot w (page_addr r idx) AND need \<noteq> 0 then Some (r, w)
      else case fault_in_region idx r w of
        (rc, r', w') \<Rightarrow> if rc = 1 \<and> pw_prot w' (page_addr r' idx) AND need \<noteq> 0 then Some (r', w') else None)"

fun pg_step :: "pg_op \<Rightarrow> region \<times> pworld \<Rightarrow> (string \<times> region \<times> pworld) option" where
  "pg_step (PgRead i) (r, w) =
     (if rg_page_count r \<le> i then None
      else case pg_access (PROT_READ OR PROT_WRITE) i r w of
        None \<Rightarrow> None | Some (r, w) \<Rightarrow> Some (pw_page w (page_addr r i), r, w))"
| "pg_step (PgWrite i off c) (r, w) =
     (if rg_page_count r \<le> i then None
      else case pg_access PROT_WRITE i r w of
        None \<Rightarrow> None
      | Some (r, w) \<Rightarrow> Some ([], r, w\<lparr>pw_page := (pw_page w)(page_addr r i := (pw_page w (page_addr r i))[off := c])\<rparr>))"

text \<open>The abstract memory: pages that are always there.\<close>

fun mem_step :: "pg_op \<Rightarrow> (nat \<Rightarrow> string) \<Rightarrow> string \<times> (nat \<Rightarrow> string)" where
  "mem_step (PgRead i) m = (m i, m)"
| "mem_step (PgWrite i off c) m = ([], m(i := (m i)[off := c]))"

definition pg_memory :: "region \<times> pworld \<Rightarrow> nat \<Rightarrow> string" where
  "pg_memory = (\<lambda>(r, w) i. if i < rg_page_count r then rg_flat r w i else [])"

definition pg_inv :: "region \<times> pworld \<Rightarrow> bool" where
  "pg_inv = (\<lambda>(r, w). rg_wf r \<and> rg_prots r w)"

lemma pg_access_ok:
  assumes inv: "rg_wf r" "rg_prots r w" "idx < rg_page_count r" and run: "pg_access need idx r w = Some (r', w')"
  shows "resolves idx r w r' w'"
proof (cases "pw_prot w (page_addr r idx) AND need \<noteq> 0")
  case True
  with run have "r' = r" "w' = w" by (auto simp: pg_access_def)
  moreover have "rg_resident r ! idx" using inv(2,3) True by (auto simp: rg_prots_def split: if_splits)
  ultimately show ?thesis using inv by (simp add: resolves_def)
next
  case False
  with run have "fault_in_region idx r w = (1, r', w')" by (auto simp: pg_access_def split: prod.splits if_splits)
  then show ?thesis using fault_resolves[OF inv] by blast
qed

lemma resolves_memory: "resolves idx r w r' w' \<Longrightarrow> pg_memory (r', w') = pg_memory (r, w)"
  by (auto simp: resolves_def pg_memory_def rg_static_def fun_eq_iff)

lemma pg_step_sim:
  assumes "pg_inv s" "pg_step a s = Some (out, s')"
  shows "pg_inv s' \<and> mem_step a (pg_memory s) = (out, pg_memory s')"
proof (cases a)
  case (PgRead i)
  obtain r w where s: "s = (r, w)" by fastforce
  from assms(2) obtain r' w' where st: "i < rg_page_count r" "pg_access (PROT_READ OR PROT_WRITE) i r w = Some (r', w')"
    "s' = (r', w')" "out = pw_page w' (page_addr r' i)"
    by (auto simp: PgRead s split: if_splits option.splits)
  have res: "resolves i r w r' w'" using pg_access_ok[OF _ _ st(1,2)] assms(1) by (simp add: pg_inv_def s)
  then have "pg_inv s'" by (simp add: resolves_def pg_inv_def st)
  moreover have "out = pg_memory s' i"
    using res st(1) by (auto simp: resolves_def rg_static_def pg_memory_def rg_flat_def st)
  ultimately show ?thesis using resolves_memory[OF res] by (simp add: PgRead s st(3))
next
  case (PgWrite i off c)
  obtain r w where s: "s = (r, w)" by fastforce
  from assms(2) obtain r' w' where st: "i < rg_page_count r" "pg_access PROT_WRITE i r w = Some (r', w')" "out = []"
    "s' = (r', w'\<lparr>pw_page := (pw_page w')(page_addr r' i := (pw_page w' (page_addr r' i))[off := c])\<rparr>)"
    by (auto simp: PgWrite s split: if_splits option.splits)
  have res: "resolves i r w r' w'" using pg_access_ok[OF _ _ st(1,2)] assms(1) by (simp add: pg_inv_def s)
  then have wf: "rg_wf r'" "rg_prots r' w'" "rg_resident r' ! i" "i < rg_page_count r'"
    using st(1) by (auto simp: resolves_def rg_static_def)
  then have "pg_inv s'" by (simp add: pg_inv_def st rg_prots_def)
  moreover have "pg_memory s' = (pg_memory (r', w'))(i := (pg_memory (r', w') i)[off := c])"
    using wf page_addr_inj[OF wf(1)] by (auto simp: pg_memory_def rg_flat_def st fun_eq_iff)
  ultimately show ?thesis using resolves_memory[OF res] st by (simp add: PgWrite s)
qed

interpretation pg: simulation pg_step mem_step pg_memory pg_inv
  using pg_step_sim by unfold_locales blast+

section \<open>A fault is resolved when the calls succeed\<close>

text \<open>
  The hand visits every page within two rounds, also when its counter wraps in between.
\<close>

lemma hand_covers:
  fixes h :: u64
  assumes "j < n" "n < 2 ^ 64"
  shows "\<exists>k < n * 2. unat (h + of_nat k) mod n = j"
proof (cases "unat h + n \<le> 2 ^ 64")
  case True
  let ?k = "(j + (n - unat h mod n)) mod n"
  have a: "unat h mod n \<le> n" using assms by (simp add: less_imp_le)
  have "(unat h + ?k) mod n = (unat h mod n + (j + (n - unat h mod n))) mod n" by (simp add: mod_simps)
  also have "unat h mod n + (j + (n - unat h mod n)) = j + n" using a by linarith
  also have "(j + n) mod n = j" using assms(1) by simp
  finally have "(unat h + ?k) mod n = j" .
  moreover have k: "?k < n" using assms by simp
  then have "unat h + ?k < 2 ^ 64" using True by linarith
  then have "unat (h + of_nat ?k) = unat h + ?k" using unat_of_nat64[of "unat h + ?k"] by simp
  moreover have "?k < n * 2" using k by linarith
  ultimately show ?thesis by metis
next
  case False
  let ?k = "2 ^ 64 - unat h"
  have lt: "unat h < 2 ^ 64" using unsigned_less[of h] by simp
  have "(of_nat (unat h + ?k) :: u64) = 0" using lt by (simp flip: of_nat_add)
  then have "h + of_nat ?k = 0" by simp
  then have "h + of_nat (?k + j) = of_nat j" by (simp add: add.assoc[symmetric])
  then have "unat (h + of_nat (?k + j)) mod n = j" using assms unat_of_nat64[of j] by (simp del: of_nat_add)
  moreover have "?k + j < n * 2" using False assms(1) lt by linarith
  ultimately show ?thesis by blast
qed

lemma evict_page_succeeds:
  assumes "pw_script w = []" "\<not> pw_traced w" "rg_prots r w" "idx < rg_page_count r" "rg_resident r ! idx"
    and "rg_prot r AND (PROT_READ OR PROT_WRITE) \<noteq> 0"
  shows "\<exists>r' w'. evict_page idx r w = (True, r', w') \<and> pw_script w' = []"
  using assms by (simp add: evict_page_def pw_ask_def vm_read_page_def file_write_page_def inject_mprotect_def rg_prots_def)

lemma evict_scan_succeeds:
  assumes "pw_script w = []" "\<not> pw_traced w" "rg_prots r w" "rg_wf r" "rg_prot r AND (PROT_READ OR PROT_WRITE) \<noteq> 0"
    and "k < m" "j \<noteq> avoid" "rg_resident r ! j" "unat (rg_hand r + of_nat k) mod rg_page_count r = j"
  shows "\<exists>r' w'. evict_scan m avoid r w = (True, r', w') \<and> pw_script w' = []"
  using assms
proof (induction m arbitrary: r k)
  case (Suc m)
  let ?i = "unat (rg_hand r) mod rg_page_count r" and ?r = "r\<lparr>rg_hand := rg_hand r + 1\<rparr>"
  have wf: "rg_wf ?r" "rg_prots ?r w" "?i < rg_page_count r"
    using Suc.prems(3,4) by (auto simp: rg_wf_def rg_prots_def)
  show ?case
  proof (cases "?i = avoid \<or> \<not> rg_resident ?r ! ?i")
    case True
    then have "0 < k" using Suc.prems(7-9) by (cases k) auto
    then obtain k' where k: "k = Suc k'" by (cases k) auto
    have "rg_hand r + of_nat k = rg_hand ?r + of_nat k'" by (simp add: k)
    then have "\<exists>r' w'. evict_scan m avoid ?r w = (True, r', w') \<and> pw_script w' = []"
      using Suc.prems by (intro Suc.IH[of ?r k']) (simp_all add: wf k add.assoc)
    with True show ?thesis by (simp add: Let_def)
  next
    case False
    have "\<exists>r' w'. evict_page ?i ?r w = (True, r', w') \<and> pw_script w' = []"
      using Suc.prems False wf by (intro evict_page_succeeds) auto
    with False show ?thesis by (simp add: Let_def)
  qed
qed simp

lemma cnt_other: "0 < cnt xs \<Longrightarrow> \<not> xs ! idx \<Longrightarrow> \<exists>j < length xs. xs ! j \<and> j \<noteq> idx"
  using cnt_pos[of xs] by blast

lemma rg_page_count_lt: "rg_wf r \<Longrightarrow> rg_page_count r < 2 ^ 64"
proof -
  assume a: "rg_wf r"
  then have "0 < unat (rg_page_size r)" by (simp add: rg_wf_def word_less_nat_alt)
  then have "rg_page_count r \<le> rg_page_count r * unat (rg_page_size r)" by simp
  also have "\<dots> < 2 ^ 64" using a unfolding rg_wf_def by linarith
  finally show ?thesis .
qed

lemma evict_until_succeeds:
  assumes "pw_script w = []" "\<not> pw_traced w" "rg_prots r w" "rg_wf r" "rg_prot r AND (PROT_READ OR PROT_WRITE) \<noteq> 0"
    and i: "idx < rg_page_count r" "\<not> rg_resident r ! idx"
  shows "\<exists>r' w'. evict_until idx r w = (True, r', w') \<and> pw_script w' = []"
proof (cases "rg_count r < rg_limit r")
  case True
  then show ?thesis using assms(1) by (simp add: evict_until.simps[of idx r w])
next
  case False
  then have "0 < cnt (rg_resident r)" "rg_count r = rg_limit r" using assms(4) by (auto simp: rg_wf_def)
  then obtain j where j: "j < rg_page_count r" "rg_resident r ! j" "j \<noteq> idx"
    using cnt_other[of "rg_resident r" idx] i assms(4) by (auto simp: rg_wf_def)
  from hand_covers[OF j(1) rg_page_count_lt[OF assms(4)], of "rg_hand r"] obtain k where
    "k < rg_page_count r * 2" "unat (rg_hand r + of_nat k) mod rg_page_count r = j" by blast
  from evict_scan_succeeds[OF assms(1-5) this(1) j(3,2) this(2)] obtain r1 w1 where
    e: "evict_scan (rg_page_count r * 2) idx r w = (True, r1, w1)" "pw_script w1 = []" by blast
  have "rg_count r1 < rg_limit r1"
    using evict_scan_count[OF e(1)] \<open>rg_count r = rg_limit r\<close> assms(4) by (simp add: rg_wf_def)
  then show ?thesis
    using e False assms(4) \<open>rg_count r = rg_limit r\<close> evict_until.simps[of idx r w] evict_until.simps[of idx r1 w1]
    by (simp add: evict_one_managed_trace_page_def rg_wf_def)
qed

end
