(* ===== verification/Pager_Theorems.thy ===== *)
theory Pager_Theorems
  imports Pager_Refine
begin

text \<open>The properties of the transparent pager.\<close>

section \<open>Helpers\<close>

lemma evict_until_keeps:
  assumes "rg_wf r" "rg_prots r w" "evict_until idx r w = (ok, r', w')"
  shows "rg_wf r'" "rg_prots r' w'" "rg_static r r'" "pw_traced w' = pw_traced w"
    "\<And>i. i < rg_page_count r \<Longrightarrow> rg_resident r' ! i \<Longrightarrow> rg_resident r ! i"
  using evict_until_evicts[OF assms] by (auto simp: evicts_def)

lemma writable_accessible: "(p :: u32) AND PROT_WRITE \<noteq> 0 \<Longrightarrow> p AND (PROT_READ OR PROT_WRITE) \<noteq> 0"
proof
  have q: "(PROT_READ OR PROT_WRITE) AND PROT_WRITE = PROT_WRITE" by simp
  have "p AND PROT_WRITE = (p AND (PROT_READ OR PROT_WRITE)) AND PROT_WRITE" by (simp only: and.assoc q)
  moreover assume "p AND PROT_WRITE \<noteq> 0" "p AND (PROT_READ OR PROT_WRITE) = 0"
  ultimately show False by (simp only: and_zero_eq and.left_commute zero_and_eq)
qed

text \<open>Pages are only written at the faulting page.\<close>

lemma evict_page_pages: "evict_page idx r w = (ok, r', w') \<Longrightarrow> pw_page w' = pw_page w"
  by (auto simp: evict_page_def Let_def vm_read_page_def file_write_page_def inject_mprotect_def pw_ask_def
      split: prod.splits option.splits bool.splits if_splits list.splits)

lemma evict_scan_pages: "evict_scan n avoid r w = (ok, r', w') \<Longrightarrow> pw_page w' = pw_page w"
  by (induction n arbitrary: r) (auto simp: Let_def dest: evict_page_pages split: if_splits)

lemma evict_until_pages: "evict_until idx r w = (ok, r', w') \<Longrightarrow> pw_page w' = pw_page w"
proof (induction idx r w rule: evict_until.induct)
  case (1 idx r w)
  show ?case
  proof (cases "rg_count r < rg_limit r")
    case True
    with "1.prems" show ?thesis by (simp add: evict_until.simps[of idx r w])
  next
    case False
    obtain o1 r1 w1 where e: "evict_one_managed_trace_page idx r w = (o1, r1, w1)" by (metis prod_cases3)
    then have p: "pw_page w1 = pw_page w"
      by (auto simp: evict_one_managed_trace_page_def dest: evict_scan_pages split: if_splits)
    show ?thesis
    proof (cases o1)
      case True
      with "1.prems" False e have "evict_until idx r1 w1 = (ok, r', w')" by (simp add: evict_until.simps[of idx r w])
      with "1.IH"[OF False e[symmetric] _ refl] True p show ?thesis by simp
    next
      case f: False
      with "1.prems" False e p show ?thesis by (simp add: evict_until.simps[of idx r w])
    qed
  qed
qed

lemma pw_ask_pages: "pw_page (snd (pw_ask w)) = pw_page w"
  by (simp add: pw_ask_def split: list.split)

lemma inject_pages: "inject_mprotect a prot w = (x, w') \<Longrightarrow> pw_page w' = pw_page w"
  by (auto simp: inject_mprotect_def Let_def pw_ask_def split: list.splits if_splits)

lemma load_page_pages: "load_page idx r w = (ok, r', w') \<Longrightarrow> a \<noteq> page_addr r idx \<Longrightarrow> pw_page w' a = pw_page w a"
  by (auto simp: load_page_def Let_def pw_ask_def vm_write_page_def file_read_page_def
      split: list.splits if_splits option.splits prod.splits bool.splits)

lemma free_slot_bound: "free_slot l k = Some i \<Longrightarrow> k \<le> i \<and> i < k + length l"
  by (induction l arbitrary: k) (fastforce split: if_splits)+

lemma alloc_slot_bound:
  assumes "alloc_managed_region_slot rs w = (Some i, rs', w')"
  obtains l where "rs' = Some l" "i < length l" "pw_prot w' = pw_prot w"
proof (cases rs)
  case None
  with assms show ?thesis
    using free_slot_bound[of "replicate MAX_MANAGED_TRACE_REGIONS zero_region" 0 i]
    by (intro that) (auto simp: alloc_managed_region_slot_def Let_def pw_ask_def split: prod.splits if_splits list.splits)
next
  case (Some l)
  with assms show ?thesis using free_slot_bound[of l 0 i] by (intro that) (auto simp: alloc_managed_region_slot_def)
qed

lemma cnt_none [simp]: "cnt (replicate n False) = 0"
  by (simp add: cnt_def)

lemma pages_unat:
  fixes len ps :: u64
  assumes "0 < ps" "unat len + unat ps < 2 ^ 64"
  shows "unat ((len + ps - 1) div ps) = (unat len + unat ps - 1) div unat ps"
proof -
  have "0 < unat ps" using assms(1) by (simp add: word_less_nat_alt)
  then have "len + ps - 1 = of_nat (unat len + unat ps - 1)" by (simp add: of_nat_diff)
  then have "unat (len + ps - 1) = unat len + unat ps - 1" using assms(2) unat_of_nat64[of "unat len + unat ps - 1"] by simp
  then show ?thesis by (simp add: unat_div)
qed

lemma register_success:
  assumes "register_managed_mmap_region pc open_backing base len prot rs w = (True, rs', w')"
    and keep: "\<And>w. pw_prot (snd (open_backing w)) = pw_prot w"
  obtains i l fd n where "rs' = Some l" "i < length l" "n = unat ((len + pc_page_size pc - 1) div pc_page_size pc)" "0 < n" "base \<noteq> 0"
    "l ! i = zero_region\<lparr>rg_active := True, rg_base := base, rg_length := (len + pc_page_size pc - 1) div pc_page_size pc * pc_page_size pc,
       rg_prot := (if prot \<noteq> 0 then prot else PROT_READ OR PROT_WRITE), rg_page_size := pc_page_size pc, rg_page_count := n,
       rg_limit := min (if pc_resident_pages pc = 0 then 1 else unat (pc_resident_pages pc)) n, rg_fd := fd,
       rg_resident := replicate n False, rg_loaded := replicate n False\<rparr>"
    "pw_prot w' = pw_prot w"
proof -
  let ?pages = "(len + pc_page_size pc - 1) div pc_page_size pc"
  obtain x rs1 w1 where al: "alloc_managed_region_slot rs w = (x, rs1, w1)" by (metis prod_cases3)
  have c: "\<not> syscall_failed_result base" "base \<noteq> 0" "len \<noteq> 0" "?pages \<noteq> 0" "\<not> 0x7fffffffffffffff < ?pages" "x \<noteq> None"
    using assms(1) al by (auto simp: register_managed_mmap_region_def Let_def split: if_splits option.splits)
  then obtain i where i: "x = Some i" by blast
  from al[unfolded i] obtain l1 where l1: "rs1 = Some l1" "i < length l1" "pw_prot w1 = pw_prot w"
    by (rule alloc_slot_bound)
  obtain o2 w2 where w2: "pw_ask w1 = (o2, w2)" by fastforce
  obtain o3 w3 where w3: "pw_ask w2 = (o3, w3)" by fastforce
  obtain y w4 where w4: "open_backing w3 = (y, w4)" by fastforce
  obtain o5 w5 where w5: "pw_ask w4 = (o5, w5)" by fastforce
  have "o2" "o3" "y \<noteq> None" "o5"
    using assms(1) c al i w2 w3 w4 w5
    by (auto simp: register_managed_mmap_region_def Let_def split: if_splits option.splits)
  then obtain fd where y: "y = Some fd" by blast
  have prots: "pw_prot w5 = pw_prot w"
    using l1(3) pw_ask_fields[OF w2] pw_ask_fields[OF w3] keep[of w3] w4 pw_ask_fields[OF w5] by auto
  show thesis
    by (rule that[of "l1[i := (zero_region\<lparr>rg_base := base, rg_length := ?pages * pc_page_size pc,
       rg_prot := (if prot \<noteq> 0 then prot else PROT_READ OR PROT_WRITE), rg_page_size := pc_page_size pc, rg_page_count := unat ?pages,
       rg_limit := min (if pc_resident_pages pc = 0 then 1 else unat (pc_resident_pages pc)) (unat ?pages),
       rg_resident := replicate (unat ?pages) False, rg_loaded := replicate (unat ?pages) False\<rparr>)\<lparr>rg_fd := fd, rg_active := True\<rparr>]" i
       "unat ?pages" fd])
      (use assms(1) c al i w2 w3 w4 w5 y l1 prots \<open>o2\<close> \<open>o3\<close> \<open>o5\<close> in
        \<open>auto simp: register_managed_mmap_region_def Let_def unat_gt_0 word_gt_0 split: if_splits\<close>)
qed

lemma traced_fault_fails:
  assumes "rg_wf r" "rg_prots r w" "idx < rg_page_count r" "pw_traced w"
  shows "fst (fault_in_region idx r w) = -1"
proof (rule ccontr)
  obtain ok r1 w1 where e: "evict_until idx r w = (ok, r1, w1)" by (metis prod_cases3)
  note keep = evict_until_keeps[OF assms(1,2) e]
  assume "fst (fault_in_region idx r w) \<noteq> -1"
  then have ok: ok "fst (inject_mprotect (page_addr r1 idx) (rg_prot r1) w1) = Some 0"
    using e by (auto simp: fault_in_region_def split: prod.splits option.splits if_splits bool.splits)
  have "page_addr r1 idx \<noteq> 0" using page_addr_nonzero[OF keep(1)] keep(3) assms(3) by (simp add: rg_static_def)
  with ok(2) keep(4) assms(4) inject_fields[of "page_addr r1 idx" "rg_prot r1" w1] show False
    by (metis prod.collapse)
qed

section \<open>A sample region\<close>

text \<open>Three pages of two bytes at 4096, of which two may be resident.\<close>

definition sample_region :: region where
  "sample_region = zero_region\<lparr>rg_active := True, rg_base := 4096, rg_length := 6, rg_prot := PROT_READ OR PROT_WRITE, rg_page_size := 2,
     rg_page_count := 3, rg_limit := 2, rg_fd := 7, rg_resident := [False, False, False], rg_loaded := [False, False, False]\<rparr>"

definition sample_pworld :: "bool list \<Rightarrow> bool \<Rightarrow> pworld" where
  "sample_pworld sc traced = \<lparr>pw_page = (\<lambda>_. ''..''), pw_prot = (\<lambda>_. PROT_NONE),
     pw_file = (\<lambda>_ _. [CHR 0x00, CHR 0x00]), pw_script = sc, pw_traced = traced\<rparr>"

lemmas sample_pager_defs = sample_region_def sample_pworld_def zero_region_def

lemma sample_wf: "rg_wf sample_region" "rg_wf (sample_region\<lparr>rg_prot := PROT_READ\<rparr>)"
  by (auto simp: rg_wf_def sample_pager_defs cnt_def less_Suc_eq numeral_3_eq_3)

lemma sample_prots: "rg_prots sample_region (sample_pworld sc t)" "rg_prots (sample_region\<lparr>rg_prot := PROT_READ\<rparr>) (sample_pworld sc t)"
  by (auto simp: rg_prots_def sample_pager_defs less_Suc_eq numeral_3_eq_3)

section \<open>Properties\<close>

text \<open>C9. The transparent pager is memory. Whatever the limit, the order of evictions and the calls that fail,
  a run of loads and stores that the process completes gives the bytes that flat memory gives, ends with the
  memory flat memory ends with, and never has more pages resident than the limit.\<close>

theorem pager_is_flat_memory:
  assumes "rg_wf r" "rg_prots r w" "run_steps pg_step ops (r, w) = Some (outs, (r', w'))"
  shows "spec_steps mem_step ops (pg_memory (r, w)) = (outs, pg_memory (r', w')) \<and> rg_count r' = cnt (rg_resident r') \<and>
    cnt (rg_resident r') \<le> rg_limit r'"
proof -
  have "pg_inv (r, w)" using assms by (simp add: pg_inv_def)
  from pg.run_refines[OF this assms(3)] show ?thesis by (auto simp: pg_inv_def rg_wf_def)
qed

lemma pager_is_flat_memory_witness:
  "\<exists>r' w'. run_steps pg_step [PgWrite 0 1 (CHR ''a''), PgRead 1, PgRead 2, PgRead 0] (sample_region, sample_pworld [] False) =
      Some ([[], [CHR 0x00, CHR 0x00], [CHR 0x00, CHR 0x00], [CHR 0x00, CHR ''a'']], (r', w')) \<and>
     spec_steps mem_step [PgWrite 0 1 (CHR ''a''), PgRead 1, PgRead 2, PgRead 0] (pg_memory (sample_region, sample_pworld [] False)) =
      ([[], [CHR 0x00, CHR 0x00], [CHR 0x00, CHR 0x00], [CHR 0x00, CHR ''a'']], pg_memory (r', w'))"
proof -
  have "map_option fst (run_steps pg_step [PgWrite 0 1 (CHR ''a''), PgRead 1, PgRead 2, PgRead 0] (sample_region, sample_pworld [] False)) =
      Some [[], [CHR 0x00, CHR 0x00], [CHR 0x00, CHR 0x00], [CHR 0x00, CHR ''a'']]"
    by code_simp
  then obtain r' w' where
    "run_steps pg_step [PgWrite 0 1 (CHR ''a''), PgRead 1, PgRead 2, PgRead 0] (sample_region, sample_pworld [] False) =
      Some ([[], [CHR 0x00, CHR 0x00], [CHR 0x00, CHR 0x00], [CHR 0x00, CHR ''a'']], (r', w'))"
    by fastforce
  then show ?thesis using pager_is_flat_memory[OF sample_wf(1) sample_prots(1)] by blast
qed

text \<open>C17. A fault is resolved. When the calls succeed, the process's filter does not trace \<open>mprotect\<close> and the
  mapping is writable, every fault on a page that is not resident returns 1 and leaves the page resident, also
  when the limit is reached and also when the clock hand's counter wraps.\<close>

theorem fault_is_resolved:
  assumes "rg_wf r" "rg_prots r w" "idx < rg_page_count r" "\<not> rg_resident r ! idx"
    and "pw_script w = []" "\<not> pw_traced w" "rg_prot r AND PROT_WRITE \<noteq> 0"
  shows "\<exists>r' w'. fault_in_region idx r w = (1, r', w') \<and> rg_resident r' ! idx"
proof -
  from evict_until_succeeds[OF assms(5,6,2,1) writable_accessible[OF assms(7)] assms(3,4)] obtain r1 w1 where
    e: "evict_until idx r w = (True, r1, w1)" "pw_script w1 = []" by blast
  note keep = evict_until_keeps[OF assms(1,2) e(1)]
  have 1: "\<not> rg_resident r1 ! idx" "\<not> pw_traced w1" "rg_prot r1 AND PROT_WRITE \<noteq> 0"
    using keep(3-5) assms by (auto simp: rg_static_def)
  have "\<exists>r' w'. fault_in_region idx r w = (1, r', w')"
    using e 1 by (cases "rg_loaded r1 ! idx")
      (simp_all add: fault_in_region_def inject_mprotect_def load_page_def pw_ask_def file_read_page_def vm_write_page_def)
  then show ?thesis using fault_resolves[OF assms(1-3)] by (auto simp: resolves_def)
qed

lemma fault_is_resolved_witness:
  "\<exists>r' w'. fault_in_region 1 sample_region (sample_pworld [] False) = (1, r', w') \<and> rg_resident r' ! 1"
  by (rule fault_is_resolved[OF sample_wf(1) sample_prots(1)]) (simp_all add: sample_pager_defs)

text \<open>Tracing \<open>mprotect\<close> defeats the pager. When the process's filter stops \<open>mprotect\<close> for the tracer, the
  injected call never runs, and every fault on a managed page fails.\<close>

theorem traced_pager_always_fails:
  assumes "rg_wf r" "rg_prots r w" "idx < rg_page_count r" "pw_traced w"
  shows "fst (fault_in_region idx r w) = -1"
  by (rule traced_fault_fails[OF assms])

lemma traced_pager_always_fails_witness: "fst (fault_in_region 0 sample_region (sample_pworld [] True)) = -1"
  by (rule traced_pager_always_fails[OF sample_wf(1) sample_prots(1)]) (simp_all add: sample_pager_defs)

text \<open>A read-only mapping is admitted but never served. The admission accepts a mapping that is only readable;
  the pager fills a page with \<open>process_vm_writev\<close>, which needs the page to be writable, so every first access
  of such a mapping fails.\<close>

theorem read_only_mapping_never_served:
  assumes "rg_wf r" "rg_prots r w" "idx < rg_page_count r" "\<not> rg_resident r ! idx" "rg_prot r AND PROT_WRITE = 0"
  shows "fst (fault_in_region idx r w) = -1"
proof (rule ccontr)
  obtain ok r1 w1 where e: "evict_until idx r w = (ok, r1, w1)" by (metis prod_cases3)
  note keep = evict_until_keeps[OF assms(1,2) e]
  have 1: "\<not> rg_resident r1 ! idx" "rg_prot r1 AND PROT_WRITE = 0" "page_addr r1 idx \<noteq> 0"
    using keep(5)[OF assms(3)] assms(3-5) keep(3) page_addr_nonzero[OF keep(1), of idx] by (auto simp: rg_static_def)
  assume n: "fst (fault_in_region idx r w) \<noteq> -1"
  obtain x w2 where x: "inject_mprotect (page_addr r1 idx) (rg_prot r1) w1 = (x, w2)" by fastforce
  have ok "x = Some 0" using n e x by (auto simp: fault_in_region_def split: option.splits if_splits bool.splits)
  moreover obtain o3 r3 w3 where l: "load_page idx r1 w2 = (o3, r3, w3)" by (metis prod_cases3)
  ultimately have "o3" using n e x 1(1) by (auto simp: fault_in_region_def split: bool.splits)
  with l have "pw_prot w2 (page_addr r1 idx) AND PROT_WRITE \<noteq> 0" by (auto elim: load_page_fields)
  moreover have "pw_prot w2 (page_addr r1 idx) = rg_prot r1"
    using inject_fields[OF x 1(3)] \<open>x = Some 0\<close> by auto
  ultimately show False using 1(2) by simp
qed

lemma read_only_mapping_never_served_witness:
  "fst (fault_in_region 2 (sample_region\<lparr>rg_prot := PROT_READ\<rparr>) (sample_pworld [] False)) = -1"
  by (rule read_only_mapping_never_served[OF sample_wf(2) sample_prots(2)]) (simp_all add: sample_pager_defs)

text \<open>The limit bounds the accessible pages, not the memory. Evicting a page saves it and forbids access to it, and
  never releases it: a fault changes at most the faulting page, every other page keeps its contents in the process.\<close>

theorem fault_releases_no_page:
  assumes "rg_wf r" "rg_prots r w" "idx < rg_page_count r" "fault_in_region idx r w = (rc, r', w')" "a \<noteq> page_addr r idx"
  shows "pw_page w' a = pw_page w a"
proof -
  obtain ok r1 w1 where e: "evict_until idx r w = (ok, r1, w1)" by (metis prod_cases3)
  have a: "page_addr r1 = page_addr r" "pw_page w1 = pw_page w"
    using evict_until_keeps(3)[OF assms(1,2) e] evict_until_pages[OF e] by (auto simp: page_addr_static)
  obtain x w2 where x: "inject_mprotect (page_addr r1 idx) (rg_prot r1) w1 = (x, w2)" by fastforce
  obtain o3 r3 w3 where l: "(if rg_resident r1 ! idx then (True, r1, w2) else load_page idx r1 w2) = (o3, r3, w3)"
    by (metis prod_cases3)
  have w3: "pw_page w3 a = pw_page w2 a" using l load_page_pages[of idx r1 w2] a assms(5) by (auto split: if_splits)
  have "w' = w1 \<or> w' = w2 \<or> w' = w3 \<or> w' = snd (pw_ask w3)"
    using assms(4) e x l by (auto simp: fault_in_region_def Let_def split: bool.splits option.splits if_splits prod.splits)
  then show ?thesis using a w3 inject_pages[OF x] pw_ask_pages[of w3] by auto
qed

lemma fault_releases_no_page_witness:
  "pw_page (snd (snd (fault_in_region 0 sample_region (sample_pworld [] False)))) 4098 = ''..''"
proof -
  obtain rc r' w' where f: "fault_in_region 0 sample_region (sample_pworld [] False) = (rc, r', w')" by (metis prod_cases3)
  have "pw_page w' 4098 = pw_page (sample_pworld [] False) 4098"
    by (rule fault_releases_no_page[OF sample_wf(1) sample_prots(1) _ f]) (simp_all add: sample_pager_defs page_addr_def)
  then show ?thesis by (simp add: f) (simp add: sample_pworld_def)
qed

text \<open>Registration gives zeroed memory. A mapping that is registered, its pages inaccessible as the kernel made
  them, is a well-formed region within its limit whose every page reads as zeros.\<close>

theorem registered_mapping_is_zero_memory:
  assumes "register_managed_mmap_region pc open_backing base len prot rs w = (True, rs', w')"
    and "\<And>w. pw_prot (snd (open_backing w)) = pw_prot w"
    and "0 < pc_page_size pc" "unat base + unat len + unat (pc_page_size pc) < 2 ^ 64"
    and "\<And>i. pw_prot w (base + of_nat i * pc_page_size pc) = PROT_NONE"
  shows "\<exists>l i. rs' = Some l \<and> i < length l \<and> rg_wf (l ! i) \<and> rg_prots (l ! i) w' \<and>
    rg_page_count (l ! i) = (unat len + unat (pc_page_size pc) - 1) div unat (pc_page_size pc) \<and>
    (\<forall>k < rg_page_count (l ! i). pg_memory (l ! i, w') k = replicate (unat (pc_page_size pc)) (CHR 0x00))"
proof (rule register_success[OF assms(1,2)])
  fix i l fd n
  assume a: "rs' = Some l" "i < length l" "n = unat ((len + pc_page_size pc - 1) div pc_page_size pc)" "0 < n" "base \<noteq> 0"
    and r: "l ! i = zero_region\<lparr>rg_active := True, rg_base := base, rg_length := (len + pc_page_size pc - 1) div pc_page_size pc * pc_page_size pc,
       rg_prot := (if prot \<noteq> 0 then prot else PROT_READ OR PROT_WRITE), rg_page_size := pc_page_size pc, rg_page_count := n,
       rg_limit := min (if pc_resident_pages pc = 0 then 1 else unat (pc_resident_pages pc)) n, rg_fd := fd,
       rg_resident := replicate n False, rg_loaded := replicate n False\<rparr>"
    and p: "pw_prot w' = pw_prot w"
  let ?ps = "unat (pc_page_size pc)"
  have n: "n = (unat len + ?ps - 1) div ?ps" unfolding a(3) by (rule pages_unat) (use assms(3,4) in auto)
  have "n * ?ps \<le> unat len + ?ps - 1" unfolding n by (simp add: div_times_less_eq_dividend)
  then have "unat base + n * ?ps < 2 ^ 64" using assms(4) by linarith
  then have "rg_wf (l ! i)" using a r assms(3) by (auto simp: rg_wf_def zero_region_def word_gt_0 unat_gt_0 min_def)
  moreover have "rg_prots (l ! i) w'" using p assms(5) by (simp add: r rg_prots_def page_addr_def)
  ultimately show ?thesis using a r n by (intro exI[of _ l] exI[of _ i]) (simp add: pg_memory_def rg_flat_def zero_page_def)
qed

lemma registered_mapping_is_zero_memory_witness:
  "\<exists>rs' w'. register_managed_mmap_region \<lparr>pc_enabled = True, pc_min_request = 1, pc_max_region = 0, pc_resident_pages = 2, pc_page_size = 2\<rparr>
       (\<lambda>w. (Some 7, w)) 4096 5 0 None (sample_pworld [] False) = (True, rs', w') \<and>
     (\<exists>l i. rs' = Some l \<and> i < length l \<and> rg_wf (l ! i) \<and> rg_page_count (l ! i) = 3)"
proof -
  let ?pc = "\<lparr>pc_enabled = True, pc_min_request = 1, pc_max_region = 0, pc_resident_pages = 2, pc_page_size = 2\<rparr>"
  have "fst (register_managed_mmap_region ?pc (\<lambda>w. (Some 7, w)) 4096 5 0 None (sample_pworld [] False))"
    by code_simp
  then obtain rs' w' where r: "register_managed_mmap_region ?pc (\<lambda>w. (Some 7, w)) 4096 5 0 None (sample_pworld [] False) = (True, rs', w')"
    by (metis prod.collapse)
  show ?thesis using r registered_mapping_is_zero_memory[OF r] by (auto simp: sample_pworld_def)
qed

end
