(* ===== verification/Exec_Rewrite.thy ===== *)
theory Exec_Rewrite
  imports Tracee_Args Byte_Codec
begin

text \<open>
  The rewriting of \<open>execve\<close>: which host file is run, how a script's interpreter is found, and the
  argument vector that runs the file through the container's dynamic loader. The vector is built in
  the process's memory below its stack.
\<close>

section \<open>Files the tracer reads and writes\<close>

text \<open>
  \<open>xf_file\<close> is a file's contents, \<open>None\<close> when it cannot be opened and read; \<open>xf_append\<close> whether
  \<open>fopen(path, "a")\<close> succeeds; \<open>xf_env\<close> the environment; \<open>xf_realloc\<close> whether memory of a size is given.
\<close>

record xfiles =
  xf_file :: "path \<Rightarrow> string option"
  xf_append :: "path \<Rightarrow> bool"
  xf_env :: "string \<Rightarrow> string option"
  xf_realloc :: "nat \<Rightarrow> bool"

definition file_starts_with :: "xfiles \<Rightarrow> path \<Rightarrow> string \<Rightarrow> bool" where
  "file_starts_with x p magic = (case xf_file x p of None \<Rightarrow> False | Some bs \<Rightarrow> take (length magic) (take 4 bs) = magic)"

text \<open>
  \<open>Elf64_Ehdr\<close> is 64 bytes (class at 4, \<open>e_phoff\<close> at 32, \<open>e_phentsize\<close> at 54, \<open>e_phnum\<close> at 56), \<open>Elf64_Phdr\<close> 56 bytes
  with its type first; \<open>PT_INTERP\<close> is 3. The result is 1, 0 or -1.
\<close>

fun phdr_scan :: "nat \<Rightarrow> string \<Rightarrow> int" where
  "phdr_scan 0 bs = 0"
| "phdr_scan (Suc n) bs =
     (if length bs < 56 then -1
      else if (field 0 4 bs :: u32) = 3 then 1
      else phdr_scan n (drop 56 bs))"

definition elf_has_interp :: "xfiles \<Rightarrow> path \<Rightarrow> int" where
  "elf_has_interp x p =
     (case xf_file x p of
        None \<Rightarrow> -1
      | Some bs \<Rightarrow>
          (let phoff = (field 32 8 bs :: u64) in
           if length bs < 64 \<or> take 4 bs \<noteq> [CHR 0x7F, CHR ''E'', CHR ''L'', CHR ''F''] \<or> bs ! 4 \<noteq> CHR 0x02 \<or>
              phoff = 0 \<or> (field 54 2 bs :: u16) \<noteq> 56
           then -1
           else if sint phoff < 0 then -1
           else phdr_scan (unat (field 56 2 bs :: u16)) (drop (unat phoff) bs)))"

definition resolve_guest_program :: "path \<Rightarrow> os \<Rightarrow> string \<Rightarrow> nat \<Rightarrow> path option" where
  "resolve_guest_program rootfs w program out_len =
     (if program = [] then None
      else if hd program = CHR ''/'' then
        (if out_len \<le> length (rootfs @ program) then None
         else if os_access w (rootfs @ program) 1 = 0 then Some (rootfs @ program) else None)
      else List.find (\<lambda>out. length out < out_len \<and> os_access w out 1 = 0)
             (map (\<lambda>dir. rootfs @ ''/'' @ dir @ ''/'' @ program)
               [''usr/local/sbin'', ''usr/local/bin'', ''usr/sbin'', ''usr/bin'', ''sbin'', ''bin'']))"

section \<open>Scripts\<close>

text \<open>A line as \<open>fgets\<close> gives it to a buffer of \<open>n\<close> bytes, and the rest of the file.\<close>

definition fgets_line :: "nat \<Rightarrow> string \<Rightarrow> string \<times> string" where
  "fgets_line n bs =
     (let upto = length (takeWhile (\<lambda>c. c \<noteq> CHR 0x0A) bs) + 1; k = min upto (n - 1) in (take k bs, drop k bs))"

lemma fgets_shorter: "1 < n \<Longrightarrow> bs \<noteq> [] \<Longrightarrow> length (snd (fgets_line n bs)) < length bs"
  by (simp add: fgets_line_def Let_def)

definition blank :: "char \<Rightarrow> bool" where
  "blank c \<longleftrightarrow> c = CHR '' '' \<or> c = CHR 0x09"

definition word_end :: "char \<Rightarrow> bool" where
  "word_end c \<longleftrightarrow> blank c \<or> c = CHR 0x0D \<or> c = CHR 0x0A"

definition parse_shebang :: "xfiles \<Rightarrow> path \<Rightarrow> nat \<Rightarrow> nat \<Rightarrow> (string \<times> string) option" where
  "parse_shebang x p program_len arg_len =
     (case xf_file x p of
        None \<Rightarrow> None
      | Some bs \<Rightarrow>
          (if bs = [] then None
           else let line = c_string (fst (fgets_line PATH_MAX bs)) in
             if take 2 line \<noteq> ''#!'' then None
             else let p = dropWhile blank (drop 2 line);
                      prog = takeWhile (\<lambda>c. \<not> word_end c) p;
                      p = dropWhile blank (drop 1 (dropWhile (\<lambda>c. \<not> word_end c) p));
                      first_arg = takeWhile (\<lambda>c. \<not> word_end c) p;
                      (prog, first_arg) = (if prog = ''/usr/bin/env'' \<and> first_arg \<noteq> [] then (first_arg, []) else (prog, first_arg));
                      program = fst (c_snprintf program_len prog)
                  in if program = [] then None else Some (program, fst (c_snprintf arg_len first_arg))))"

section \<open>The emulated \<open>groupadd\<close>\<close>

function has_group :: "string \<Rightarrow> string \<Rightarrow> bool" where
  "has_group name bs =
     (if bs = [] then False
      else let (line, rest) = fgets_line 1024 bs in
        if take (length name + 1) (c_string line) = name @ '':'' then True else has_group name rest)"
  by pat_completeness auto
termination by (relation "measure (\<lambda>(n, bs). length bs)") (auto dest: fgets_shorter[of 1024] simp: fgets_line_def Let_def)

declare has_group.simps [simp del]

definition group_exists_in_rootfs :: "path \<Rightarrow> string \<Rightarrow> xfiles \<Rightarrow> bool" where
  "group_exists_in_rootfs rootfs name x =
     (if PATH_MAX \<le> length (rootfs @ ''/etc/group'') then False
      else case xf_file x (rootfs @ ''/etc/group'') of None \<Rightarrow> False | Some bs \<Rightarrow> has_group name bs)"

definition append_file :: "path \<Rightarrow> string \<Rightarrow> xfiles \<Rightarrow> xfiles" where
  "append_file p bs x =
     (if PATH_MAX \<le> length p \<or> \<not> xf_append x p then x
      else x\<lparr>xf_file := (xf_file x)(p := Some ((case xf_file x p of None \<Rightarrow> [] | Some old \<Rightarrow> old) @ bs))\<rparr>)"

definition append_group_to_rootfs :: "path \<Rightarrow> string \<Rightarrow> string \<Rightarrow> xfiles \<Rightarrow> xfiles" where
  "append_group_to_rootfs rootfs name gid x =
     (if name = [] \<or> group_exists_in_rootfs rootfs name x then x
      else append_file (rootfs @ ''/etc/gshadow'') (name @ '':!::'' @ [CHR 0x0A])
             (append_file (rootfs @ ''/etc/group'')
                (name @ '':x:'' @ (if gid \<noteq> [] then gid else ''999'') @ '':'' @ [CHR 0x0A]) x))"

text \<open>The options: the group's id and the last argument that is not an option.\<close>

function groupadd_args :: "vm \<Rightarrow> u64 list \<Rightarrow> string \<Rightarrow> string \<Rightarrow> string \<times> string" where
  "groupadd_args m [] gid name = (gid, name)"
| "groupadd_args m (p # ps) gid name =
     (case read_tracee_string m p PATH_MAX of
        None \<Rightarrow> groupadd_args m ps gid name
      | Some arg \<Rightarrow>
          (if arg = ''-g'' \<and> ps \<noteq> [] then
             groupadd_args m (tl ps) (case read_tracee_string m (hd ps) 64 of None \<Rightarrow> gid | Some next \<Rightarrow> next) name
           else groupadd_args m ps gid (if take 1 arg \<noteq> ''-'' then fst (c_snprintf 256 arg) else name)))"
  by pat_completeness auto
termination by (relation "measure (\<lambda>(m, ps, g, n). length ps)") auto

definition emulate_groupadd_from_argv :: "path \<Rightarrow> vm \<Rightarrow> u64 list \<Rightarrow> xfiles \<Rightarrow> bool \<times> xfiles" where
  "emulate_groupadd_from_argv rootfs m argv_ptrs x =
     (let (gid, name) = groupadd_args m (drop 1 argv_ptrs) ''999'' [] in
      if name = [] then (False, x) else (True, append_group_to_rootfs rootfs name gid x))"

section \<open>The argument arena\<close>

definition EXEC_REWRITE_MAX_ARGC :: nat where "EXEC_REWRITE_MAX_ARGC = 511"
definition EXEC_REWRITE_STACK_SAFETY :: nat where "EXEC_REWRITE_STACK_SAFETY = 16384"
definition EXEC_REWRITE_MAX_SCRATCH :: nat where "EXEC_REWRITE_MAX_SCRATCH = 2097152"
definition EXEC_REWRITE_MAX_ARG_BYTES :: nat where
  "EXEC_REWRITE_MAX_ARG_BYTES = EXEC_REWRITE_MAX_SCRATCH - EXEC_REWRITE_STACK_SAFETY"

record arena =
  ar_data :: string
  ar_cap :: nat

function arena_next :: "nat \<Rightarrow> nat \<Rightarrow> nat" where
  "arena_next need next =
     (if need \<le> next then next
      else if EXEC_REWRITE_MAX_ARG_BYTES div 2 < next then EXEC_REWRITE_MAX_ARG_BYTES
      else if next = 0 then 0
      else arena_next need (next * 2))"
  by pat_completeness auto
termination by (relation "measure (\<lambda>(need, next). need - next)") auto

declare arena_next.simps [simp del]

definition reserve_exec_arg_arena :: "xfiles \<Rightarrow> nat \<Rightarrow> arena \<Rightarrow> bool \<times> arena" where
  "reserve_exec_arg_arena x need a =
     (if EXEC_REWRITE_MAX_ARG_BYTES < need then (False, a)
      else if need \<le> ar_cap a then (True, a)
      else let next = arena_next need (if ar_cap a \<noteq> 0 then ar_cap a else 8192) in
        if next < need then (False, a)
        else if \<not> xf_realloc x next then (False, a)
        else (True, a\<lparr>ar_cap := next\<rparr>))"

function arena_read :: "xfiles \<Rightarrow> vm \<Rightarrow> u64 \<Rightarrow> nat \<Rightarrow> arena \<Rightarrow> bool \<times> arena" where
  "arena_read x m addr local_len a =
     (if EXEC_REWRITE_MAX_ARG_BYTES \<le> local_len then (False, a)
      else if EXEC_REWRITE_MAX_ARG_BYTES \<le> length (ar_data a) + 1 then (False, a)
      else let want = min 512 (EXEC_REWRITE_MAX_ARG_BYTES - length (ar_data a) - 1);
               (ok, a') = reserve_exec_arg_arena x (length (ar_data a) + want + 1) a in
        if \<not> ok then (False, a')
        else case vm_readv m (addr + of_nat local_len) want of
          None \<Rightarrow> (False, a')
        | Some bs \<Rightarrow>
            (if bs = [] then (False, a')
             else if NUL \<in> set bs then (True, a'\<lparr>ar_data := ar_data a' @ c_string bs @ [NUL]\<rparr>)
             else arena_read x m addr (local_len + length bs) (a'\<lparr>ar_data := ar_data a' @ bs\<rparr>)))"
  by pat_completeness auto
termination by (relation "measure (\<lambda>(x, m, addr, l, a). EXEC_REWRITE_MAX_ARG_BYTES - l)") (auto simp: neq_Nil_conv)

declare arena_read.simps [simp del]

text \<open>The offset of the string that was read.\<close>

definition read_tracee_string_to_arena :: "xfiles \<Rightarrow> vm \<Rightarrow> u64 \<Rightarrow> arena \<Rightarrow> nat option \<times> arena" where
  "read_tracee_string_to_arena x m addr a =
     (if addr = 0 then (None, a)
      else let (ok, a') = arena_read x m addr 0 a in (if ok then Some (length (ar_data a)) else None, a'))"

fun copy_args :: "xfiles \<Rightarrow> vm \<Rightarrow> u64 list \<Rightarrow> nat list \<Rightarrow> arena \<Rightarrow> (nat list \<times> arena) option" where
  "copy_args x m [] offs a = Some (offs, a)"
| "copy_args x m (p # ps) offs a =
     (case read_tracee_string_to_arena x m p a of
        (None, a') \<Rightarrow> None
      | (Some k, a') \<Rightarrow> copy_args x m ps (offs @ [k]) a')"

definition arena_string :: "arena \<Rightarrow> nat \<Rightarrow> string" where
  "arena_string a off = c_string (drop off (ar_data a))"

section \<open>What is run\<close>

text \<open>
  The host file and the guest name a bind mount gives it. \<open>junk\<close> is what the uninitialised buffer
  \<open>target\<close> holds when the path is empty.
\<close>

definition exec_target :: "conf \<Rightarrow> os \<Rightarrow> int \<Rightarrow> string \<Rightarrow> path \<Rightarrow> path \<Rightarrow> guard \<Rightarrow> (path \<times> path) option \<times> guard" where
  "exec_target cf w pid loader junk original g =
     (if original = loader then (None, g)
      else case bind_host_to_guest_path (cf_binds cf) original PATH_MAX of
        PErr e \<Rightarrow> (None, g)
      | POk guest \<Rightarrow> (Some (original, guest), g)
      | PNo \<Rightarrow>
          (if take (length (cf_rootfs cf)) original = cf_rootfs cf then (Some (original, []), g)
           else if take 1 original \<noteq> ''/'' then
             (let (rc, g') = validate_relative_tracee_path cf w pid AT_FDCWD original True g in
              if rc < 0 then (None, g')
              else if original = [] then (Some (junk, []), g')
              else case tracee_dirfd_base w pid AT_FDCWD PATH_MAX of
                     Inl e \<Rightarrow> (None, g')
                   | Inr base \<Rightarrow> (Some (base @ ''/'' @ original, []), g'))
           else if should_rewrite_path (cf_rootfs cf) original then
             (case c_format PATH_MAX (cf_rootfs cf @ original) of None \<Rightarrow> (None, g) | Some t \<Rightarrow> (Some (t, []), g))
           else (None, g)))"

text \<open>A script's interpreter, the name it is told, and its argument.\<close>

definition exec_interpreter :: "path \<Rightarrow> os \<Rightarrow> xfiles \<Rightarrow> path \<Rightarrow> (path \<times> string \<times> string option) option" where
  "exec_interpreter rootfs w x target =
     (let fallback =
            (if PATH_MAX \<le> length (rootfs @ ''/bin/bash'') \<or> os_access w (rootfs @ ''/bin/bash'') 1 \<noteq> 0
             then (if PATH_MAX \<le> length (rootfs @ ''/bin/sh'') then None else Some (rootfs @ ''/bin/sh'', ''/bin/sh'', None))
             else Some (rootfs @ ''/bin/bash'', ''/bin/bash'', None))
      in case parse_shebang x target PATH_MAX PATH_MAX of
           None \<Rightarrow> fallback
         | Some (interp, arg) \<Rightarrow>
             (case resolve_guest_program rootfs w interp PATH_MAX of
                None \<Rightarrow> fallback
              | Some program \<Rightarrow> Some (program, interp, if arg = [] then None else Some arg)))"

fun read_argv_ptrs :: "vm \<Rightarrow> u64 \<Rightarrow> nat \<Rightarrow> u64 list \<Rightarrow> u64 list" where
  "read_argv_ptrs m argv 0 acc = acc"
| "read_argv_ptrs m argv (Suc n) acc =
     (case vm_readv m (argv + of_nat (8 * length acc)) 8 of
        None \<Rightarrow> acc
      | Some bs \<Rightarrow>
          (if length bs \<noteq> 8 then acc
           else let p = of_le bs in if p = 0 then acc else read_argv_ptrs m argv n (acc @ [p])))"

section \<open>The new argument vector\<close>

definition align16 :: "nat \<Rightarrow> nat" where
  "align16 n = (n + 15) div 16 * 16"

fun write_strings :: "u64 \<Rightarrow> string list \<Rightarrow> u64 list \<Rightarrow> tstop \<Rightarrow> u64 list option \<times> u64 \<times> tstop" where
  "write_strings cursor [] addrs s = (Some addrs, cursor, s)"
| "write_strings cursor (v # vs) addrs s =
     (case write_tracee_string cursor v s of
        (False, s') \<Rightarrow> (None, cursor, s')
      | (True, s') \<Rightarrow> write_strings (cursor + of_nat (length v + 1)) vs (addrs @ [cursor]) s')"

text \<open>The texts in the order they are stored, and the pointers in the order of the vector.\<close>

definition exec_strings :: "string \<Rightarrow> string \<Rightarrow> string \<Rightarrow> path \<Rightarrow> string option \<Rightarrow> string option \<Rightarrow> string list \<Rightarrow> string list" where
  "exec_strings loader libpath argv0 prog sname interp_arg args =
     [loader, ''--library-path'', libpath, ''--argv0'', argv0, prog] @
     (case sname of None \<Rightarrow> [] | Some g \<Rightarrow> [g]) @ (case interp_arg of None \<Rightarrow> [] | Some a \<Rightarrow> [a]) @ args"

definition exec_pointers :: "bool \<Rightarrow> bool \<Rightarrow> u64 list \<Rightarrow> u64 list" where
  "exec_pointers is_script has_interp_arg addrs =
     (let fixed = take 6 addrs;
          rest = drop 6 addrs;
          sname = (if is_script then take 1 rest else []);
          rest = (if is_script then drop 1 rest else rest);
          interp = (if has_interp_arg then take 1 rest else []);
          rest = (if has_interp_arg then drop 1 rest else rest);
          head = fixed @ interp @ sname
      in head @ take (EXEC_REWRITE_MAX_ARGC + 9 - length head) rest @ [0])"

definition exec_scratch_span :: "string list \<Rightarrow> nat" where
  "exec_scratch_span strs =
     align16 (align16 (sum_list (map (\<lambda>v. length v + 1) strs)) + (length strs + 1) * 8 + EXEC_REWRITE_STACK_SAFETY)"

definition exec_build ::
  "string \<Rightarrow> string \<Rightarrow> string \<Rightarrow> path \<Rightarrow> string option \<Rightarrow> string option \<Rightarrow> string list \<Rightarrow> tstop \<Rightarrow> bool \<times> tstop" where
  "exec_build loader libpath argv0 prog sname interp_arg args s =
     (let strs = exec_strings loader libpath argv0 prog sname interp_arg args;
          span = exec_scratch_span strs in
      if EXEC_REWRITE_MAX_SCRATCH < span \<or> unat (ur_sp (ts_regs s)) \<le> span then (False, s)
      else let scratch = (ur_sp (ts_regs s) - of_nat span) AND NOT 15 in
        case write_strings scratch strs [] s of
          (None, _, s1) \<Rightarrow> (False, s1)
        | (Some addrs, cursor, s1) \<Rightarrow>
            (let cursor = (cursor + 15) AND NOT 15;
                 ptrs = exec_pointers (sname \<noteq> None) (interp_arg \<noteq> None) addrs;
                 (ok, s2) = write_tracee_data cursor (concat (map (to_le 8) ptrs)) s1
             in if \<not> ok then (False, s2)
                else (True, set_reg 1 cursor (set_reg 0 (hd addrs) s2))))"

text \<open>A program without an interpreter segment is run as it is, by its host path.\<close>

definition exec_static :: "path \<Rightarrow> tstop \<Rightarrow> bool \<times> tstop" where
  "exec_static target s =
     (let span = align16 (length target + 1 + EXEC_REWRITE_STACK_SAFETY) in
      if EXEC_REWRITE_MAX_SCRATCH < span \<or> unat (ur_sp (ts_regs s)) \<le> span then (False, s)
      else let scratch = (ur_sp (ts_regs s) - of_nat span) AND NOT 15;
               (ok, s1) = write_tracee_string scratch target s
           in if \<not> ok then (False, s1) else (True, set_reg 0 scratch s1))"

text \<open>
  The call with the target known. \<open>argv0_junk\<close> is what the buffer of the old first argument holds when
  reading it fails.
\<close>

definition exec_with_target ::
  "conf \<Rightarrow> os \<Rightarrow> string \<Rightarrow> string \<Rightarrow> string \<Rightarrow> path \<Rightarrow> path \<Rightarrow> path \<Rightarrow> cwd_state \<Rightarrow> xfiles \<Rightarrow> tstop \<Rightarrow> int \<times> cwd_state \<times> xfiles \<times> tstop" where
  "exec_with_target cf w loader libpath argv0_junk original override target c x s =
     (let root = cf_rootfs cf;
          is_script = file_starts_with x target ''#!'';
          interp = (if is_script then exec_interpreter root w x target else Some ([], [], None)) in
      case interp of
        None \<Rightarrow> (0, c, x, s)
      | Some (program, program_argv0, interp_arg) \<Rightarrow>
          (if \<not> is_script \<and> elf_has_interp x target = 0 then
             (let (ok, s1) = exec_static target s in
              if ok then (1, c\<lparr>cs_exec_path := guest_exec_path root original PATH_MAX\<rparr>, x, s1) else (0, c, x, s1))
           else let ptrs = read_argv_ptrs (ts_vm s) (reg 1 s) EXEC_REWRITE_MAX_ARGC [] in
             if length ptrs = EXEC_REWRITE_MAX_ARGC then (0, c, x, s)
             else let (grouped, x) = (if basename_is target ''groupadd'' then emulate_groupadd_from_argv root (ts_vm s) ptrs x
                                      else (False, x));
                      target = (if grouped then (case resolve_guest_program root w ''true'' PATH_MAX of
                                                   None \<Rightarrow> target | Some t \<Rightarrow> t) else target);
                      old_argv0 = (if ptrs = [] then []
                                   else case read_tracee_string (ts_vm s) (hd ptrs) PATH_MAX of
                                          None \<Rightarrow> argv0_junk | Some a \<Rightarrow> a);
                      original_guest = (if override \<noteq> [] then override else guest_exec_path root original PATH_MAX);
                      argv0 = (if is_script \<and> program_argv0 \<noteq> [] then program_argv0
                               else if old_argv0 \<noteq> [] then old_argv0 else original_guest)
                  in case copy_args x (ts_vm s) (drop 1 ptrs) [] \<lparr>ar_data = [], ar_cap = 0\<rparr> of
                       None \<Rightarrow> (0, c, x, s)
                     | Some (offs, a) \<Rightarrow>
                         (let (ok, s1) = exec_build loader libpath argv0 (if is_script then program else target)
                                (if is_script then Some original_guest else None) interp_arg (map (arena_string a) offs) s
                          in if ok then (1, c\<lparr>cs_exec_path := original_guest\<rparr>, x, s1) else (0, c, x, s1))))"

definition rewrite_execve_arg ::
  "conf \<Rightarrow> os \<Rightarrow> int \<Rightarrow> string \<Rightarrow> string \<Rightarrow> path \<Rightarrow> string \<Rightarrow> cwd_state \<Rightarrow> xfiles \<Rightarrow> tstop \<Rightarrow> int \<times> cwd_state \<times> xfiles \<times> tstop" where
  "rewrite_execve_arg cf w pid loader libpath junk argv0_junk c x s =
     (case read_tracee_string (ts_vm s) (reg 0 s) PATH_MAX of
        None \<Rightarrow> (0, c, x, s)
      | Some original \<Rightarrow>
          (case exec_target cf w pid loader junk original (ts_guard s) of
             (None, g) \<Rightarrow> (0, c, x, s\<lparr>ts_guard := g\<rparr>)
           | (Some (target, override), g) \<Rightarrow>
               (let s = s\<lparr>ts_guard := g\<rparr> in
                if os_access w target 0 \<noteq> 0 then (0, c, x, s)
                else let target = (if should_skip_ldconfig (xf_env x) target
                                   then (case resolve_guest_program (cf_rootfs cf) w ''true'' PATH_MAX of
                                           None \<Rightarrow> target | Some t \<Rightarrow> t) else target)
                     in exec_with_target cf w loader libpath argv0_junk original override target c x s)))"

end
