(* ===== verification/Exec_Lemmas.thy ===== *)
theory Exec_Lemmas
  imports Exec_Rewrite
begin

text \<open>
  What a sequence of writes leaves in the memory of a stopped process. Addresses are offsets from a
  base, so that the lemmas need no case for the wrap-around of an address.
\<close>

section \<open>Alignment\<close>

lemma and_not15: "(x :: u64) AND NOT 15 = x - take_bit 4 x"
proof -
  have m: "x AND 15 = take_bit 4 x" by (simp add: take_bit_eq_mask mask_eq_exp_minus_1)
  have x: "x = (x AND NOT 15) OR (x AND 15)" by (rule bit_word_eqI) (auto simp: bit_simps)
  have "(x AND NOT 15) AND (x AND 15) = 0" by (rule bit_word_eqI) (auto simp: bit_simps)
  from disjunctive_add_eq_or[OF this] x have "x = (x AND NOT 15) + take_bit 4 x" by (simp only: m)
  then show ?thesis by (simp only: eq_diff_eq)
qed

lemma aligned_take: "take_bit 4 ((x :: u64) AND NOT 15) = 0"
proof -
  have "take_bit 4 (x AND NOT 15) = (x AND NOT 15) AND 15" by (simp add: take_bit_eq_mask mask_eq_exp_minus_1)
  also have "\<dots> = 0" by (rule bit_word_eqI) (auto simp: bit_simps)
  finally show ?thesis .
qed

lemma align_up:
  fixes a :: u64
  assumes "take_bit 4 a = 0"
  shows "(a + of_nat n + 15) AND NOT 15 = a + of_nat (align16 n)"
proof -
  have e: "a + of_nat n + 15 = a + of_nat (n + 15)" by simp
  have "unat a mod 16 = unat (take_bit 4 a)" by (simp only: unsigned_take_bit_eq) (simp add: take_bit_eq_mod)
  then have m: "unat a mod 16 = 0" by (simp only: assms unsigned_0)
  have "a + of_nat (n + 15) = of_nat (unat a + (n + 15))" by simp
  then have "take_bit 4 (a + of_nat (n + 15)) = of_nat (take_bit 4 (unat a + (n + 15)))" by (simp only: of_nat_take_bit)
  also have "take_bit 4 (unat a + (n + 15)) = (unat a + (n + 15)) mod 16" by (simp only: take_bit_eq_mod) simp
  also have "\<dots> = (unat a mod 16 + (n + 15)) mod 16" by (simp only: mod_add_left_eq)
  also have "\<dots> = (n + 15) mod 16" by (simp only: m add_0_left)
  finally have t: "take_bit 4 (a + of_nat (n + 15)) = of_nat ((n + 15) mod 16)" .
  have "n + 15 = align16 n + (n + 15) mod 16" by (simp only: align16_def div_mult_mod_eq)
  then have "(of_nat (n + 15) :: u64) = of_nat (align16 n) + of_nat ((n + 15) mod 16)" by (metis of_nat_add)
  then show ?thesis unfolding e and_not15 t by (simp only: add_diff_eq[symmetric] diff_self add_0_right)
qed

lemma align16_ge: "n \<le> align16 n"
  by (simp add: align16_def)

lemma align16_le: "align16 n \<le> n + 15"
  by (simp add: align16_def)

section \<open>Writes at an offset\<close>

lemma offset_unat: "n < 2 ^ 64 \<Longrightarrow> unat (a + of_nat n - (a :: u64)) = n"
  by (simp add: unsigned_of_nat take_bit_nat_eq_self)

lemma offset_back: "(a :: u64) + of_nat (unat (b - a)) = b"
  by simp

lemma write_data_fields:
  "write_tracee_data ad bs s = (ok, s') \<Longrightarrow> \<exists>m. s' = s\<lparr>ts_vm := m\<rparr>"
  by (auto simp: write_tracee_data_def split: prod.splits)

lemma write_data_ok:
  "write_tracee_data ad bs s = (True, s') \<Longrightarrow>
   vm_byte (ts_vm s') b = (if unat (b - ad) < length bs then bs ! unat (b - ad) else vm_byte (ts_vm s) b)"
  by (auto simp: write_tracee_data_def vm_writev_def split: prod.splits option.splits)

lemma write_data_far:
  assumes "write_tracee_data ad bs s = (ok, s')" "length bs \<le> unat (b - ad)"
  shows "vm_byte (ts_vm s') b = vm_byte (ts_vm s) b"
  using assms by (auto simp: write_tracee_data_def vm_writev_def split: option.splits)

lemma offset_far:
  fixes a :: u64
  assumes "off + n < 2 ^ 64" "unat (b - a) < off \<or> off + n \<le> unat (b - a)"
  shows "n \<le> unat (b - (a + of_nat off))"
proof -
  let ?d = "unat (b - a)"
  have d: "b - (a + of_nat off) = of_nat ?d - of_nat off" by simp
  show ?thesis
  proof (cases "?d < off")
    case True
    have "(of_nat ?d - of_nat off :: u64) = of_nat (2 ^ 64 - (off - ?d))"
    proof -
      have "(of_nat (2 ^ 64 - (off - ?d)) + of_nat (off - ?d) :: u64) = of_nat (2 ^ 64)"
        using assms(1) by (simp only: of_nat_add[symmetric]) simp
      also have "\<dots> = 0" by simp
      finally show ?thesis using True by (simp add: of_nat_diff eq_neg_iff_add_eq_0 algebra_simps)
    qed
    then have "unat (b - (a + of_nat off)) = 2 ^ 64 - (off - ?d)"
      using True unat_of_nat64[of "2 ^ 64 - (off - ?d)"] unfolding d by simp
    then show ?thesis using assms(1) by linarith
  next
    case False
    then have "(of_nat ?d - of_nat off :: u64) = of_nat (?d - off)" by (simp add: of_nat_diff)
    moreover have "?d < 2 ^ 64" using unsigned_less[of "b - a"] by simp
    ultimately have "unat (b - (a + of_nat off)) = ?d - off"
      unfolding d by (simp only:) (simp add: unsigned_of_nat take_bit_nat_eq_self)
    then show ?thesis using False assms(2) by linarith
  qed
qed

lemma write_outside:
  assumes "write_tracee_data (a + of_nat off) bs s = (ok, s')" "off + length bs < 2 ^ 64"
    and "unat (b - a) < off \<or> off + length bs \<le> unat (b - a)"
  shows "vm_byte (ts_vm s') b = vm_byte (ts_vm s) b"
  using write_data_far[OF assms(1) offset_far[OF assms(2,3)]] .

lemma write_inside:
  assumes "write_tracee_data ad bs s = (True, s')" "i < length bs" "length bs < 2 ^ 64"
  shows "vm_byte (ts_vm s') (ad + of_nat i) = bs ! i"
proof -
  have "unat (ad + of_nat i - ad) = i" using assms by (intro offset_unat) linarith
  then show ?thesis using write_data_ok[OF assms(1)] assms(2) by simp
qed

section \<open>Texts and words in memory\<close>

definition bytes_at :: "vm \<Rightarrow> u64 \<Rightarrow> nat \<Rightarrow> string" where
  "bytes_at m a n = map (\<lambda>i. vm_byte m (a + of_nat i)) [0..<n]"

definition str_at :: "vm \<Rightarrow> u64 \<Rightarrow> string \<Rightarrow> bool" where
  "str_at m a v \<longleftrightarrow> bytes_at m a (length v + 1) = v @ [NUL]"

definition word_at :: "vm \<Rightarrow> u64 \<Rightarrow> u64" where
  "word_at m a = of_le (bytes_at m a 8)"

lemma bytes_at_cong: "(\<And>i. i < n \<Longrightarrow> vm_byte m' (a + of_nat i) = vm_byte m (a + of_nat i)) \<Longrightarrow> bytes_at m' a n = bytes_at m a n"
  by (simp add: bytes_at_def)

lemma bytes_at_write:
  "write_tracee_data ad bs s = (True, s') \<Longrightarrow> length bs < 2 ^ 64 \<Longrightarrow> bytes_at (ts_vm s') ad (length bs) = bs"
  by (rule nth_equalityI) (auto simp: bytes_at_def write_inside)

text \<open>A text below an offset is not changed by what is written from the offset on.\<close>

lemma str_at_keeps:
  assumes "str_at m (a + of_nat k) v" "k + length v + 1 \<le> off" "off < 2 ^ 64"
    and "\<And>b. unat (b - a) < off \<Longrightarrow> vm_byte m' b = vm_byte m b"
  shows "str_at m' (a + of_nat k) v"
proof -
  have "bytes_at m' (a + of_nat k) (length v + 1) = bytes_at m (a + of_nat k) (length v + 1)"
  proof (rule bytes_at_cong)
    fix i assume "i < length v + 1"
    then have "unat (a + of_nat (k + i) - a) < off" using assms(2,3) by (subst offset_unat) auto
    then show "vm_byte m' (a + of_nat k + of_nat i) = vm_byte m (a + of_nat k + of_nat i)"
      using assms(4) by (simp add: add.assoc)
  qed
  with assms(1) show ?thesis by (simp add: str_at_def)
qed

definition total :: "string list \<Rightarrow> nat" where
  "total vs = sum_list (map (\<lambda>v. length v + 1) vs)"

lemma total_simps [simp]: "total [] = 0" "total (v # vs) = length v + 1 + total vs"
  by (simp_all add: total_def)

lemma write_strings_ok:
  assumes "write_strings (a + of_nat off) vs addrs s = (res, cur, s')" "off + total vs < 2 ^ 64"
  shows "ts_regs s' = ts_regs s \<and>
    (\<forall>b. unat (b - a) < off \<or> off + total vs \<le> unat (b - a) \<longrightarrow> vm_byte (ts_vm s') b = vm_byte (ts_vm s) b) \<and>
    (\<forall>addrs'. res = Some addrs' \<longrightarrow> cur = a + of_nat (off + total vs) \<and>
       (\<exists>new. addrs' = addrs @ new \<and> (\<exists>ks. new = map (\<lambda>k. a + of_nat k) ks \<and> length ks = length vs \<and>
          (\<forall>i < length vs. ks ! i + length (vs ! i) + 1 \<le> off + total vs \<and> str_at (ts_vm s') (new ! i) (vs ! i)))))"
  using assms
proof (induction vs arbitrary: off addrs s)
  case Nil
  then show ?case by (auto intro!: exI[of _ "[] :: nat list"])
next
  case (Cons v vs)
  obtain ok s1 where w: "write_tracee_string (a + of_nat off) v s = (ok, s1)" by fastforce
  note w' = w[unfolded write_tracee_string_def]
  have b: "off + length (v @ [NUL]) < 2 ^ 64" using Cons.prems(2) by simp
  have out: "vm_byte (ts_vm s1) b = vm_byte (ts_vm s) b" if "unat (b - a) < off \<or> off + (length v + 1) \<le> unat (b - a)" for b
    using write_outside[OF w' b] that by simp
  have regs: "ts_regs s1 = ts_regs s" using write_data_fields[OF w'] by auto
  show ?case
  proof (cases ok)
    case False
    then show ?thesis using Cons.prems w regs out by auto
  next
    case True
    have e: "a + of_nat off + of_nat (length v + 1) = a + of_nat (off + (length v + 1))" by (simp add: add.assoc)
    have run: "write_strings (a + of_nat (off + (length v + 1))) vs (addrs @ [a + of_nat off]) s1 = (res, cur, s')"
      using Cons.prems(1) w True unfolding e[symmetric] by simp
    have lim: "off + (length v + 1) + total vs < 2 ^ 64" using Cons.prems(2) by simp
    note ih = Cons.IH[OF run lim]
    have far: "vm_byte (ts_vm s') b = vm_byte (ts_vm s1) b" if "unat (b - a) < off + (length v + 1)" for b
      using ih that by blast
    have "write_tracee_data (a + of_nat off) (v @ [NUL]) s = (True, s1)" using w' True by simp
    then have "str_at (ts_vm s1) (a + of_nat off) v"
      using bytes_at_write[of _ "v @ [NUL]" s s1] b by (simp add: str_at_def)
    then have str: "str_at (ts_vm s') (a + of_nat off) v"
      by (rule str_at_keeps[OF _ _ _ far]) (use lim in auto)
    have frame: "\<forall>b. unat (b - a) < off \<or> off + total (v # vs) \<le> unat (b - a) \<longrightarrow> vm_byte (ts_vm s') b = vm_byte (ts_vm s) b"
      using ih out by auto
    {
      fix addrs' assume "res = Some addrs'"
      with ih obtain ks where k: "cur = a + of_nat (off + (length v + 1) + total vs)"
        "addrs' = (addrs @ [a + of_nat off]) @ map (\<lambda>k. a + of_nat k) ks" "length ks = length vs"
        "\<And>i. i < length vs \<Longrightarrow> ks ! i + length (vs ! i) + 1 \<le> off + (length v + 1) + total vs \<and>
            str_at (ts_vm s') (map (\<lambda>k. a + of_nat k) ks ! i) (vs ! i)"
        by blast
      have "cur = a + of_nat (off + total (v # vs)) \<and>
       (\<exists>new. addrs' = addrs @ new \<and> (\<exists>ks. new = map (\<lambda>k. a + of_nat k) ks \<and> length ks = length (v # vs) \<and>
          (\<forall>i < length (v # vs). ks ! i + length ((v # vs) ! i) + 1 \<le> off + total (v # vs) \<and> str_at (ts_vm s') (new ! i) ((v # vs) ! i))))"
        using k str by (intro conjI exI[of _ "map (\<lambda>k. a + of_nat k) (off # ks)"] exI[of _ "off # ks"])
          (auto simp: add.assoc nth_Cons' less_Suc_eq_0_disj)
    }
    then show ?thesis using ih regs frame by simp
  qed
qed

section \<open>The vector\<close>

definition argv_at :: "vm \<Rightarrow> u64 \<Rightarrow> string list \<Rightarrow> bool" where
  "argv_at m a vs \<longleftrightarrow>
     (\<forall>i < length vs. word_at m (a + of_nat (8 * i)) \<noteq> 0 \<and> str_at m (word_at m (a + of_nat (8 * i))) (vs ! i)) \<and>
     word_at m (a + of_nat (8 * length vs)) = 0"

definition exec_argv :: "string \<Rightarrow> string \<Rightarrow> string \<Rightarrow> path \<Rightarrow> string option \<Rightarrow> string option \<Rightarrow> string list \<Rightarrow> string list" where
  "exec_argv loader libpath argv0 prog sname interp_arg args =
     [loader, ''--library-path'', libpath, ''--argv0'', argv0, prog] @
     (case interp_arg of None \<Rightarrow> [] | Some a \<Rightarrow> [a]) @ (case sname of None \<Rightarrow> [] | Some g \<Rightarrow> [g]) @ args"

lemma pointers_follow:
  assumes "list_all2 P addrs (exec_strings loader libpath argv0 prog sname interp_arg args)" "length args \<le> 512"
  shows "\<exists>ps. exec_pointers (sname \<noteq> None) (interp_arg \<noteq> None) addrs = ps @ [0] \<and>
    list_all2 P ps (exec_argv loader libpath argv0 prog sname interp_arg args)"
proof -
  from assms(1) obtain f sc it ra where a: "addrs = f @ sc @ it @ ra"
    and f: "list_all2 P f [loader, ''--library-path'', libpath, ''--argv0'', argv0, prog]"
    and sc: "list_all2 P sc (case sname of None \<Rightarrow> [] | Some g \<Rightarrow> [g])"
    and it: "list_all2 P it (case interp_arg of None \<Rightarrow> [] | Some a \<Rightarrow> [a])"
    and ra: "list_all2 P ra args"
    unfolding exec_strings_def by (elim list_all2_append2[THEN iffD1, elim_format] exE conjE) blast
  have l: "length f = 6" "length sc = (if sname = None then 0 else 1)" "length it = (if interp_arg = None then 0 else 1)"
    "length ra \<le> 512"
    using f sc it ra assms(2) by (auto dest!: list_all2_lengthD split: option.splits)
  have "exec_pointers (sname \<noteq> None) (interp_arg \<noteq> None) addrs = (f @ it @ sc @ ra) @ [0]"
    using l by (auto simp: exec_pointers_def a EXEC_REWRITE_MAX_ARGC_def Let_def)
  moreover have "list_all2 P (f @ it @ sc @ ra) (exec_argv loader libpath argv0 prog sname interp_arg args)"
    unfolding exec_argv_def by (intro list_all2_appendI f sc it ra)
  ultimately show ?thesis by blast
qed

lemma bytes_at_sub: "k + n \<le> l \<Longrightarrow> bytes_at m (a + of_nat k) n = take n (drop k (bytes_at m a l))"
  by (rule nth_equalityI) (auto simp: bytes_at_def add.assoc)

lemma take_words:
  "i < length ps \<Longrightarrow> take 8 (drop (8 * i) (concat (map (to_le 8) ps))) = to_le 8 (ps ! i)"
proof (induction ps arbitrary: i)
  case (Cons p ps)
  then show ?case by (cases i) (auto simp del: to_le.simps)
qed simp

lemma length_words [simp]: "length (concat (map (to_le 8) ps)) = 8 * length ps"
  by (induction ps) (simp_all del: to_le.simps)

lemma word_at_written:
  assumes "bytes_at m a (8 * length ps) = concat (map (to_le 8) ps)" "i < length ps"
  shows "word_at m (a + of_nat (8 * i)) = ps ! i"
proof -
  have "bytes_at m (a + of_nat (8 * i)) 8 = to_le 8 (ps ! i)"
    using bytes_at_sub[of "8 * i" 8 "8 * length ps" m a] assms take_words[of i ps] by simp
  then show ?thesis by (simp add: word_at_def of_to_le take_bit_word_eq_self del: to_le.simps)
qed

lemma scratch_room:
  fixes sp :: u64
  assumes "exec_scratch_span strs + 16 \<le> unat sp"
  defines "a \<equiv> (sp - of_nat (exec_scratch_span strs)) AND NOT 15"
  shows "0 < unat a" "unat a + align16 (total strs) + 8 * (length strs + 1) + EXEC_REWRITE_STACK_SAFETY \<le> unat sp"
proof -
  let ?x = "sp - of_nat (exec_scratch_span strs)"
  have lt: "exec_scratch_span strs < 2 ^ 64" using assms(1) unat_lt64[of sp] by linarith
  have le: "of_nat (exec_scratch_span strs) \<le> sp" using assms(1) unat_of_nat64[OF lt] by (simp add: word_le_nat_alt)
  have x: "unat ?x = unat sp - exec_scratch_span strs" using unat_sub[OF le] unat_of_nat64[OF lt] by simp
  have t: "unat (take_bit 4 ?x) = unat ?x mod 16" by (simp only: unsigned_take_bit_eq) (simp add: take_bit_eq_mod)
  have "take_bit 4 ?x \<le> ?x" unfolding word_le_nat_alt t by (rule mod_less_eq_dividend)
  then have a: "unat a = unat ?x - unat ?x mod 16" unfolding a_def and_not15 by (simp only: unat_sub t)
  have "16 \<le> unat ?x" using x assms(1) by linarith
  moreover have "unat ?x mod 16 < 16" by (rule mod_less_divisor) simp
  ultimately show "0 < unat a" using a by linarith
  have "align16 (total strs) + 8 * (length strs + 1) + EXEC_REWRITE_STACK_SAFETY \<le> exec_scratch_span strs"
    using align16_ge[of "align16 (total strs) + (length strs + 1) * 8 + EXEC_REWRITE_STACK_SAFETY"]
    by (simp add: exec_scratch_span_def total_def mult.commute)
  then show "unat a + align16 (total strs) + 8 * (length strs + 1) + EXEC_REWRITE_STACK_SAFETY \<le> unat sp"
    using a x assms(1) by linarith
qed

lemma length_pointers:
  assumes "length addrs = length (exec_strings loader libpath argv0 prog sname interp_arg args)" "length args \<le> 512"
  shows "length (exec_pointers (sname \<noteq> None) (interp_arg \<noteq> None) addrs) =
    length (exec_strings loader libpath argv0 prog sname interp_arg args) + 1"
proof -
  have "list_all2 (\<lambda>_ _. True) addrs (exec_strings loader libpath argv0 prog sname interp_arg args)"
    using assms(1) by (simp add: list_all2_conv_all_nth)
  from pointers_follow[OF this assms(2)] obtain ps where
    "exec_pointers (sname \<noteq> None) (interp_arg \<noteq> None) addrs = ps @ [0]"
    "length ps = length (exec_argv loader libpath argv0 prog sname interp_arg args)"
    by (auto dest: list_all2_lengthD)
  then show ?thesis by (simp add: exec_argv_def exec_strings_def)
qed

lemma exec_build_steps:
  assumes "exec_build loader libpath argv0 prog sname interp_arg args s = (True, s')"
  defines "strs \<equiv> exec_strings loader libpath argv0 prog sname interp_arg args"
  defines "a \<equiv> (ur_sp (ts_regs s) - of_nat (exec_scratch_span strs)) AND NOT 15"
  obtains addrs cur s1 s2 where "write_strings a strs [] s = (Some addrs, cur, s1)"
    "write_tracee_data ((cur + 15) AND NOT 15)
       (concat (map (to_le 8) (exec_pointers (sname \<noteq> None) (interp_arg \<noteq> None) addrs))) s1 = (True, s2)"
    "s' = set_reg 1 ((cur + 15) AND NOT 15) (set_reg 0 (hd addrs) s2)"
proof -
  obtain res cur s1 where w: "write_strings a strs [] s = (res, cur, s1)" by (metis prod_cases3)
  have run: "(case (res, cur, s1) of (None, _, s1) \<Rightarrow> (False, s1)
        | (Some addrs, cursor, s1) \<Rightarrow>
            (let cursor = (cursor + 15) AND NOT 15;
                 ptrs = exec_pointers (sname \<noteq> None) (interp_arg \<noteq> None) addrs;
                 (ok, s2) = write_tracee_data cursor (concat (map (to_le 8) ptrs)) s1
             in if \<not> ok then (False, s2)
                else (True, set_reg 1 cursor (set_reg 0 (hd addrs) s2)))) = (True, s')"
    using assms(1) unfolding w[symmetric] exec_build_def a_def strs_def Let_def by (simp only: split: if_splits) simp
  then obtain addrs where r: "res = Some addrs" by (cases res) auto
  obtain ok s2 where w2: "write_tracee_data ((cur + 15) AND NOT 15)
       (concat (map (to_le 8) (exec_pointers (sname \<noteq> None) (interp_arg \<noteq> None) addrs))) s1 = (ok, s2)" by fastforce
  with run r have ok "s' = set_reg 1 ((cur + 15) AND NOT 15) (set_reg 0 (hd addrs) s2)"
    by (cases ok; simp add: Let_def)+
  with w r w2 show thesis by (intro that) auto
qed

lemma regs_after [simp]:
  "reg (Suc 0) (set_reg (Suc 0) x s) = x" "reg 0 (set_reg (Suc 0) x (set_reg 0 y s)) = y" "ts_vm (set_reg i x s) = ts_vm s"
  by (simp_all add: reg_def set_reg_def)

lemma add_offset_nonzero: "0 < unat (a :: u64) \<Longrightarrow> unat a + k < 2 ^ 64 \<Longrightarrow> a + of_nat k \<noteq> 0"
proof
  assume a: "0 < unat a" "unat a + k < 2 ^ 64" and z: "a + of_nat k = 0"
  have "a + of_nat k = of_nat (unat a + k)" by simp
  then have "unat (a + of_nat k) = unat a + k" using unat_of_nat64[OF a(2)] by simp
  with a z show False by simp
qed

text \<open>
  What the build leaves: the texts at the addresses, the pointers in the aligned place behind them, and
  everything outside unchanged.
\<close>

lemma exec_build_layout:
  assumes run: "exec_build loader libpath argv0 prog sname interp_arg args s = (True, s')"
    and room: "exec_scratch_span (exec_strings loader libpath argv0 prog sname interp_arg args) + 16 \<le> unat (ur_sp (ts_regs s))"
    and few: "length args \<le> 512"
  defines "strs \<equiv> exec_strings loader libpath argv0 prog sname interp_arg args"
  obtains a addrs s2 where
    "s' = set_reg 1 (a + of_nat (align16 (total strs))) (set_reg 0 (hd addrs) s2)"
    "unat a + align16 (total strs) + 8 * (length strs + 1) + EXEC_REWRITE_STACK_SAFETY \<le> unat (ur_sp (ts_regs s))"
    "list_all2 (\<lambda>ad v. ad \<noteq> 0 \<and> str_at (ts_vm s2) ad v) addrs strs"
    "bytes_at (ts_vm s2) (a + of_nat (align16 (total strs)))
       (8 * length (exec_pointers (sname \<noteq> None) (interp_arg \<noteq> None) addrs)) =
     concat (map (to_le 8) (exec_pointers (sname \<noteq> None) (interp_arg \<noteq> None) addrs))"
    "\<And>b. align16 (total strs) + 8 * (length strs + 1) \<le> unat (b - a) \<Longrightarrow> vm_byte (ts_vm s2) b = vm_byte (ts_vm s) b"
proof -
  let ?sp = "ur_sp (ts_regs s)" and ?A = "align16 (total strs)"
  define a where "a = (?sp - of_nat (exec_scratch_span strs)) AND NOT 15"
  note room' = scratch_room[OF room, folded strs_def, folded a_def]
  have sp: "unat ?sp < 2 ^ 64" by (rule unat_lt64)
  from exec_build_steps[OF run, folded strs_def, folded a_def] obtain addrs cur s1 s2 where w: "write_strings a strs [] s = (Some addrs, cur, s1)"
    and w2: "write_tracee_data ((cur + 15) AND NOT 15)
       (concat (map (to_le 8) (exec_pointers (sname \<noteq> None) (interp_arg \<noteq> None) addrs))) s1 = (True, s2)"
    and s': "s' = set_reg 1 ((cur + 15) AND NOT 15) (set_reg 0 (hd addrs) s2)" by blast
  have tot: "0 + total strs < 2 ^ 64" using room'(2) align16_ge[of "total strs"] sp by linarith
  note ws = write_strings_ok[of a 0 strs "[]", simplified, OF w tot[simplified]]
  from ws obtain ks where cur: "cur = a + of_nat (total strs)" and ks: "addrs = map (\<lambda>k. a + of_nat k) ks"
    "length ks = length strs"
    "\<And>i. i < length strs \<Longrightarrow> ks ! i + length (strs ! i) + 1 \<le> total strs \<and> str_at (ts_vm s1) (addrs ! i) (strs ! i)"
    by (auto simp: Suc_le_eq)
  let ?ptrs = "exec_pointers (sname \<noteq> None) (interp_arg \<noteq> None) addrs"
  have cur2: "(cur + 15) AND NOT 15 = a + of_nat ?A" unfolding cur by (rule align_up) (simp only: a_def aligned_take)
  have lp: "length ?ptrs = length strs + 1" by (unfold strs_def, rule length_pointers[OF _ few]) (simp add: ks flip: strs_def)
  note w2 = w2[unfolded cur2]
  have lim: "?A + length (concat (map (to_le 8) ?ptrs)) < 2 ^ 64" using room'(2) sp unfolding length_words lp by linarith
  note out = write_outside[OF w2 lim]
  have str2: "addrs ! i \<noteq> 0 \<and> str_at (ts_vm s2) (addrs ! i) (strs ! i)" if i: "i < length strs" for i
  proof -
    have ad: "addrs ! i = a + of_nat (ks ! i)" using ks(1,2) i by simp
    note k = ks(3)[OF i]
    have b: "ks ! i + length (strs ! i) + 1 \<le> ?A" using k align16_ge[of "total strs"] by linarith
    have "str_at (ts_vm s2) (a + of_nat (ks ! i)) (strs ! i)"
    proof (rule str_at_keeps[OF _ b])
      show "str_at (ts_vm s1) (a + of_nat (ks ! i)) (strs ! i)" using k ad by simp
      show "?A < 2 ^ 64" using lim by linarith
      show "vm_byte (ts_vm s2) b = vm_byte (ts_vm s1) b" if "unat (b - a) < ?A" for b using out[of b] that by blast
    qed
    moreover have "a + of_nat (ks ! i) \<noteq> 0" using room' b sp by (intro add_offset_nonzero) linarith+
    ultimately show ?thesis by (simp add: ad)
  qed
  then have all: "list_all2 (\<lambda>ad v. ad \<noteq> 0 \<and> str_at (ts_vm s2) ad v) addrs strs" by (simp add: list_all2_conv_all_nth ks)
  have bytes: "bytes_at (ts_vm s2) (a + of_nat ?A) (8 * length ?ptrs) = concat (map (to_le 8) ?ptrs)"
    using bytes_at_write[OF w2] lim by (simp only: length_words)
  show thesis
  proof (rule that[OF _ room'(2) all bytes])
    show "s' = set_reg 1 (a + of_nat ?A) (set_reg 0 (hd addrs) s2)" by (simp only: s' cur2)
    show "vm_byte (ts_vm s2) b = vm_byte (ts_vm s) b" if "?A + 8 * (length strs + 1) \<le> unat (b - a)" for b
    proof -
      have "total strs \<le> unat (b - a)" "?A + length (concat (map (to_le 8) ?ptrs)) \<le> unat (b - a)"
        using that align16_ge[of "total strs"] unfolding length_words lp by linarith+
      then show ?thesis using out[of b] ws by simp
    qed
  qed
qed

lemma argv_at_pointers:
  assumes bytes: "bytes_at m a (8 * length (ps @ [0])) = concat (map (to_le 8) (ps @ [0]))"
    and ps: "list_all2 (\<lambda>ad v. ad \<noteq> 0 \<and> str_at m ad v) ps argv"
  shows "argv_at m a argv"
proof -
  have len: "length ps = length argv" using ps by (rule list_all2_lengthD)
  have "word_at m (a + of_nat (8 * i)) = ps ! i" if "i < length argv" for i
    using word_at_written[OF bytes, of i] that len by (simp add: nth_append)
  moreover have "word_at m (a + of_nat (8 * length argv)) = 0"
    using word_at_written[OF bytes, of "length ps"] len by (simp add: nth_append)
  ultimately show ?thesis using list_all2_nthD2[OF ps] by (simp add: argv_at_def)
qed

section \<open>The arena\<close>

definition arena_ok :: "arena \<Rightarrow> bool" where
  "arena_ok a \<longleftrightarrow> length (ar_data a) \<le> ar_cap a \<and> ar_cap a \<le> EXEC_REWRITE_MAX_ARG_BYTES"

lemma arena_next_max: "next \<le> EXEC_REWRITE_MAX_ARG_BYTES \<Longrightarrow> arena_next need next \<le> EXEC_REWRITE_MAX_ARG_BYTES"
proof (induction need "next" rule: arena_next.induct)
  case (1 need n)
  then show ?case by (simp add: arena_next.simps[of need n])
qed

lemma arena_next_enough: "0 < next \<Longrightarrow> need \<le> EXEC_REWRITE_MAX_ARG_BYTES \<Longrightarrow> need \<le> arena_next need next"
proof (induction need "next" rule: arena_next.induct)
  case (1 need n)
  then show ?case by (simp add: arena_next.simps[of need n])
qed

lemma reserve_fields:
  assumes "reserve_exec_arg_arena x need a = (ok, a')" "ar_cap a \<le> EXEC_REWRITE_MAX_ARG_BYTES"
  shows "ar_data a' = ar_data a \<and> ar_cap a \<le> ar_cap a' \<and> ar_cap a' \<le> EXEC_REWRITE_MAX_ARG_BYTES \<and> (ok \<longrightarrow> need \<le> ar_cap a')"
  using assms arena_next_max[of "if ar_cap a \<noteq> 0 then ar_cap a else 8192" need]
  by (auto simp: reserve_exec_arg_arena_def Let_def EXEC_REWRITE_MAX_ARG_BYTES_def EXEC_REWRITE_MAX_SCRATCH_def
      EXEC_REWRITE_STACK_SAFETY_def split: if_splits)

lemma vm_readv_length: "vm_readv m a n = Some bs \<Longrightarrow> length bs \<le> n"
  by (auto simp: vm_readv_def split: option.splits)

lemma arena_read_ok: "arena_read x m addr l a = (ok, a') \<Longrightarrow> arena_ok a \<Longrightarrow> arena_ok a' \<and> prefix (ar_data a) (ar_data a')"
proof (induction x m addr l a rule: arena_read.induct)
  case (1 x m addr l a)
  let ?want = "min 512 (EXEC_REWRITE_MAX_ARG_BYTES - length (ar_data a) - 1)"
  show ?case
  proof (cases "EXEC_REWRITE_MAX_ARG_BYTES \<le> l \<or> EXEC_REWRITE_MAX_ARG_BYTES \<le> length (ar_data a) + 1")
    case True
    with "1.prems" show ?thesis by (auto simp: arena_read.simps[of x m addr l a] split: if_splits)
  next
    case False
    obtain o1 a1 where r: "reserve_exec_arg_arena x (length (ar_data a) + ?want + 1) a = (o1, a1)" by fastforce
    from reserve_fields[OF this] "1.prems"(2) have f: "ar_data a1 = ar_data a" "ar_cap a1 \<le> EXEC_REWRITE_MAX_ARG_BYTES"
      "o1 \<Longrightarrow> length (ar_data a) + ?want + 1 \<le> ar_cap a1" "arena_ok a1"
      by (auto simp: arena_ok_def)
    show ?thesis
    proof (cases "o1 \<and> vm_readv m (addr + of_nat l) ?want \<noteq> None \<and> vm_readv m (addr + of_nat l) ?want \<noteq> Some []")
      case bad: False
      then have "a' = a1" using "1.prems"(1) False r
        by (auto simp: arena_read.simps[of x m addr l a] Let_def split: option.splits if_splits)
      then show ?thesis using f by simp
    next
      case True
      then obtain bs where bs: "vm_readv m (addr + of_nat l) ?want = Some bs" "bs \<noteq> []" and o1 by blast
      have len: "length bs \<le> ?want" by (rule vm_readv_length[OF bs(1)])
      show ?thesis
      proof (cases "NUL \<in> set bs")
        case nul: True
        have "length (c_string bs) \<le> ?want" using len length_takeWhile_le[of "\<lambda>c. c \<noteq> NUL" bs] by (simp add: c_string_def)
        then have "length (ar_data a1) + length (c_string bs) + 1 \<le> ar_cap a1" using f(3)[OF \<open>o1\<close>] unfolding f(1) by linarith
        moreover have "a' = a1\<lparr>ar_data := ar_data a1 @ c_string bs @ [NUL]\<rparr>"
          using "1.prems"(1) False r bs \<open>o1\<close> nul by (simp add: arena_read.simps[of x m addr l a] Let_def)
        ultimately show ?thesis using f \<open>o1\<close> by (simp add: arena_ok_def)
      next
        case no: False
        have run: "arena_read x m addr (l + length bs) (a1\<lparr>ar_data := ar_data a1 @ bs\<rparr>) = (ok, a')"
          using "1.prems"(1) False r bs \<open>o1\<close> no by (simp add: arena_read.simps[of x m addr l a] Let_def)
        have "length (ar_data a1) + length bs \<le> ar_cap a1" using f(3)[OF \<open>o1\<close>] len unfolding f(1) by linarith
        then have "arena_ok (a1\<lparr>ar_data := ar_data a1 @ bs\<rparr>)" using f(2) by (simp add: arena_ok_def)
        with "1.IH"[OF _ _ refl refl r[symmetric] _ bs(1) bs(2) no run] False \<open>o1\<close> f(1)
        show ?thesis by (auto elim: prefixE)
      qed
    qed
  qed
qed

text \<open>The bytes a transfer gives are those of the text, up to its end.\<close>

lemma str_at_byte: "str_at m addr v \<Longrightarrow> i \<le> length v \<Longrightarrow> vm_byte m (addr + of_nat i) = (v @ [NUL]) ! i"
  unfolding str_at_def bytes_at_def by (drule arg_cong[where f = "\<lambda>l. l ! i"]) (simp del: upt_Suc)

lemma chunk_of_text:
  assumes str: "str_at m addr v" "NUL \<notin> set v" "l \<le> length v" and bs: "vm_readv m (addr + of_nat l) n = Some bs" "bs \<noteq> []"
  shows "if NUL \<in> set bs then c_string bs = drop l v else bs = take (length bs) (drop l v) \<and> l + length bs \<le> length v"
proof -
  have nth: "bs ! i = (v @ [NUL]) ! (l + i)" if "i < length bs" "l + i \<le> length v" for i
    using bs(1) that str_at_byte[OF str(1) that(2)] by (auto simp: vm_readv_def add.assoc split: option.splits)
  show ?thesis
  proof (cases "l + length bs \<le> length v")
    case True
    then have "bs = take (length bs) (drop l v)"
      by (intro nth_equalityI) (auto simp: nth nth_append)
    moreover from this str(2) have "NUL \<notin> set bs" by (metis in_set_dropD in_set_takeD)
    ultimately show ?thesis using True by simp
  next
    case False
    have "take (length v - l) bs = drop l v"
      using False by (intro nth_equalityI) (auto simp: nth nth_append)
    moreover have "bs ! (length v - l) = NUL" "length v - l < length bs"
      using False str(3) nth[of "length v - l"] by auto
    ultimately have d: "bs = drop l v @ NUL # drop (Suc (length v - l)) bs"
      by (metis id_take_nth_drop)
    have "\<forall>c\<in>set (drop l v). c \<noteq> NUL" using str(2) by (metis in_set_dropD)
    then have "c_string bs = drop l v" unfolding c_string_def by (subst d) (simp add: takeWhile_append2)
    moreover have "NUL \<in> set bs" by (subst d) simp
    ultimately show ?thesis by simp
  qed
qed

lemma arena_read_text:
  "arena_read x m addr l a = (True, a') \<Longrightarrow> arena_ok a \<Longrightarrow> str_at m addr v \<Longrightarrow> NUL \<notin> set v \<Longrightarrow> l \<le> length v \<Longrightarrow>
   ar_data a' = ar_data a @ drop l v @ [NUL]"
proof (induction x m addr l a rule: arena_read.induct)
  case (1 x m addr l a)
  let ?want = "min 512 (EXEC_REWRITE_MAX_ARG_BYTES - length (ar_data a) - 1)"
  have big: "\<not> EXEC_REWRITE_MAX_ARG_BYTES \<le> l" "\<not> EXEC_REWRITE_MAX_ARG_BYTES \<le> length (ar_data a) + 1"
    using "1.prems"(1) by (auto simp: arena_read.simps[of x m addr l a] split: if_splits)
  obtain o1 a1 where r: "reserve_exec_arg_arena x (length (ar_data a) + ?want + 1) a = (o1, a1)" by fastforce
  from reserve_fields[OF this] "1.prems"(2) have f: "ar_data a1 = ar_data a" "ar_cap a1 \<le> EXEC_REWRITE_MAX_ARG_BYTES"
    "o1 \<Longrightarrow> length (ar_data a) + ?want + 1 \<le> ar_cap a1" by (auto simp: arena_ok_def)
  have o1 using "1.prems"(1) big r by (cases o1) (auto simp: arena_read.simps[of x m addr l a] Let_def)
  obtain bs where bs: "vm_readv m (addr + of_nat l) ?want = Some bs" "bs \<noteq> []"
    using "1.prems"(1) big r \<open>o1\<close> by (auto simp: arena_read.simps[of x m addr l a] Let_def split: option.splits if_splits)
  note chunk = chunk_of_text[OF "1.prems"(3-5) bs]
  show ?case
  proof (cases "NUL \<in> set bs")
    case True
    then have "a' = a1\<lparr>ar_data := ar_data a1 @ c_string bs @ [NUL]\<rparr>"
      using "1.prems"(1) big r bs \<open>o1\<close> by (simp add: arena_read.simps[of x m addr l a] Let_def)
    then show ?thesis using chunk True f(1) by simp
  next
    case False
    then have c: "bs = take (length bs) (drop l v)" "l + length bs \<le> length v" using chunk by auto
    have run: "arena_read x m addr (l + length bs) (a1\<lparr>ar_data := ar_data a1 @ bs\<rparr>) = (True, a')"
      using "1.prems"(1) big r bs \<open>o1\<close> False by (simp add: arena_read.simps[of x m addr l a] Let_def)
    have "length (ar_data a1) + length bs \<le> ar_cap a1" using f(3)[OF \<open>o1\<close>] vm_readv_length[OF bs(1)] unfolding f(1) by linarith
    then have ok: "arena_ok (a1\<lparr>ar_data := ar_data a1 @ bs\<rparr>)" using f(2) by (simp add: arena_ok_def)
    have "ar_data a' = ar_data (a1\<lparr>ar_data := ar_data a1 @ bs\<rparr>) @ drop (l + length bs) v @ [NUL]"
      using "1.IH"[OF big refl refl r[symmetric] _ bs(1) bs(2) False run ok "1.prems"(3,4) c(2)] \<open>o1\<close> by simp
    moreover have "bs @ drop (l + length bs) v = drop l v"
      using c(1) by (metis append_take_drop_id drop_drop add.commute)
    ultimately show ?thesis using f(1) by simp
  qed
qed

lemma arena_init_ok [simp]: "arena_ok \<lparr>ar_data = [], ar_cap = 0\<rparr>"
  by (simp add: arena_ok_def)

lemma c_string_text: "NUL \<notin> set v \<Longrightarrow> c_string (v @ NUL # w) = v"
  unfolding c_string_def by (subst takeWhile_append2) auto

lemma copy_args_text:
  assumes "copy_args x m ps offs a = Some (offs', a')" "arena_ok a" "list_all2 (str_at m) ps vs" "\<forall>v\<in>set vs. NUL \<notin> set v"
  shows "prefix (ar_data a) (ar_data a') \<and> (\<exists>new. offs' = offs @ new \<and> map (arena_string a') new = vs)"
  using assms
proof (induction x m ps offs a arbitrary: vs rule: copy_args.induct)
  case (2 x m p ps offs a)
  from "2.prems"(3) obtain v vs' where vs: "vs = v # vs'" "str_at m p v" "list_all2 (str_at m) ps vs'" by (auto simp: list_all2_Cons1)
  obtain k a1 where r: "read_tracee_string_to_arena x m p a = (Some k, a1)" "copy_args x m ps (offs @ [k]) a1 = Some (offs', a')"
    using "2.prems"(1) by (auto split: prod.splits option.splits)
  then have rd: "arena_read x m p 0 a = (True, a1)" "k = length (ar_data a)"
    by (auto simp: read_tracee_string_to_arena_def split: if_splits prod.splits)
  have d: "ar_data a1 = ar_data a @ v @ [NUL]" using arena_read_text[OF rd(1) "2.prems"(2) vs(2)] "2.prems"(4) vs(1) by simp
  have ok: "arena_ok a1" using arena_read_ok[OF rd(1) "2.prems"(2)] by blast
  from "2.IH"[OF r(1)[symmetric] refl r(2) ok vs(3)] "2.prems"(4) vs(1) obtain new where
    new: "prefix (ar_data a1) (ar_data a')" "offs' = (offs @ [k]) @ new" "map (arena_string a') new = vs'" by auto
  from new(1) d obtain w where w: "ar_data a' = ar_data a @ v @ NUL # w" by (auto elim: prefixE)
  have "arena_string a' k = v" using "2.prems"(4) vs(1) rd(2) by (simp add: arena_string_def w c_string_text)
  with new w vs(1) show ?case by (intro conjI exI[of _ "k # new"]) auto
qed auto

lemma read_argv_length: "length (read_argv_ptrs m argv n acc) \<le> length acc + n"
proof (induction m argv n acc rule: read_argv_ptrs.induct)
  case (2 m argv n acc)
  then show ?case by (fastforce simp: Let_def split: option.split)
qed simp

section \<open>The rewrite succeeds when the writes do\<close>

lemma write_data_full:
  "\<forall>a n. vm_wlen (ts_vm s) a n = Some n \<Longrightarrow>
   \<exists>s'. write_tracee_data ad bs s = (True, s') \<and> (\<forall>a n. vm_wlen (ts_vm s') a n = Some n)"
  by (simp add: write_tracee_data_def vm_writev_def)

lemma write_strings_full:
  "\<forall>a n. vm_wlen (ts_vm s) a n = Some n \<Longrightarrow>
   \<exists>res cur s'. write_strings c vs addrs s = (Some res, cur, s') \<and> (\<forall>a n. vm_wlen (ts_vm s') a n = Some n)"
proof (induction c vs addrs s rule: write_strings.induct)
  case (2 c v vs addrs s)
  from write_data_full[OF "2.prems", of c "v @ [NUL]"] obtain s1 where
    "write_tracee_string c v s = (True, s1)" "\<forall>a n. vm_wlen (ts_vm s1) a n = Some n" by (auto simp: write_tracee_string_def)
  with "2.IH"[of True s1] show ?case by simp
qed simp

lemma exec_build_succeeds:
  assumes "\<forall>a n. vm_wlen (ts_vm s) a n = Some n"
    and "exec_scratch_span (exec_strings loader libpath argv0 prog sname interp_arg args) \<le> EXEC_REWRITE_MAX_SCRATCH"
    and "exec_scratch_span (exec_strings loader libpath argv0 prog sname interp_arg args) < unat (ur_sp (ts_regs s))"
  shows "\<exists>s'. exec_build loader libpath argv0 prog sname interp_arg args s = (True, s')"
proof -
  let ?strs = "exec_strings loader libpath argv0 prog sname interp_arg args"
  obtain addrs cur s1 where w: "write_strings ((ur_sp (ts_regs s) - of_nat (exec_scratch_span ?strs)) AND NOT 15) ?strs [] s = (Some addrs, cur, s1)"
    "\<forall>a n. vm_wlen (ts_vm s1) a n = Some n" using write_strings_full[OF assms(1)] by blast
  from write_data_full[OF w(2)] obtain s2 where
    "write_tracee_data ((cur + 15) AND NOT 15) (concat (map (to_le 8) (exec_pointers (sname \<noteq> None) (interp_arg \<noteq> None) addrs))) s1 = (True, s2)"
    by blast
  with w assms(2,3) show ?thesis unfolding exec_build_def Let_def by (simp only: if_False not_less not_le simp_thms) simp
qed

end
