(* ===== verification/Exec_Theorems.thy ===== *)
theory Exec_Theorems
  imports Exec_Lemmas
begin

text \<open>The properties of the rewriting of \<open>execve\<close>.\<close>

section \<open>The vector that was built\<close>

lemma exec_vector_built':
  assumes run: "exec_build loader libpath argv0 prog sname interp_arg args s = (True, s')"
    and room: "exec_scratch_span (exec_strings loader libpath argv0 prog sname interp_arg args) + 16 \<le> unat (ur_sp (ts_regs s))"
    and few: "length args \<le> 512"
  shows "argv_at (ts_vm s') (reg 1 s') (exec_argv loader libpath argv0 prog sname interp_arg args) \<and>
    str_at (ts_vm s') (reg 0 s') loader \<and>
    (\<forall>b. unat (ur_sp (ts_regs s)) \<le> unat b + EXEC_REWRITE_STACK_SAFETY \<longrightarrow> vm_byte (ts_vm s') b = vm_byte (ts_vm s) b)"
proof -
  let ?strs = "exec_strings loader libpath argv0 prog sname interp_arg args" and ?argv = "exec_argv loader libpath argv0 prog sname interp_arg args"
  let ?A = "align16 (total ?strs)"
  from exec_build_layout[OF run room few] obtain a addrs s2 where s': "s' = set_reg 1 (a + of_nat ?A) (set_reg 0 (hd addrs) s2)"
    and fit: "unat a + ?A + 8 * (length ?strs + 1) + EXEC_REWRITE_STACK_SAFETY \<le> unat (ur_sp (ts_regs s))"
    and all: "list_all2 (\<lambda>ad v. ad \<noteq> 0 \<and> str_at (ts_vm s2) ad v) addrs ?strs"
    and bytes: "bytes_at (ts_vm s2) (a + of_nat ?A) (8 * length (exec_pointers (sname \<noteq> None) (interp_arg \<noteq> None) addrs)) =
       concat (map (to_le 8) (exec_pointers (sname \<noteq> None) (interp_arg \<noteq> None) addrs))"
    and out: "\<And>b. ?A + 8 * (length ?strs + 1) \<le> unat (b - a) \<Longrightarrow> vm_byte (ts_vm s2) b = vm_byte (ts_vm s) b" by blast
  from pointers_follow[OF all few] obtain ps where ps: "exec_pointers (sname \<noteq> None) (interp_arg \<noteq> None) addrs = ps @ [0]"
    "list_all2 (\<lambda>ad v. ad \<noteq> 0 \<and> str_at (ts_vm s2) ad v) ps ?argv" by blast
  have "argv_at (ts_vm s2) (a + of_nat ?A) ?argv" by (rule argv_at_pointers[OF bytes[unfolded ps(1)] ps(2)])
  moreover have "str_at (ts_vm s2) (hd addrs) loader"
    using all by (auto simp: exec_strings_def list_all2_Cons2)
  moreover have "vm_byte (ts_vm s2) b = vm_byte (ts_vm s) b" if b: "unat (ur_sp (ts_regs s)) \<le> unat b + EXEC_REWRITE_STACK_SAFETY" for b
  proof (rule out)
    have "unat a \<le> unat b" using b fit by linarith
    then have "unat (b - a) = unat b - unat a" by (simp add: unat_sub word_le_nat_alt)
    then show "?A + 8 * (length ?strs + 1) \<le> unat (b - a)" using b fit by linarith
  qed
  ultimately show ?thesis by (simp add: s')
qed

section \<open>A sample process\<close>

text \<open>
  A stack pointer at 32768; at 4096 the argument vector of \<open>a b\<close>, and its texts behind it.
\<close>

definition sample_image :: string where
  "sample_image = to_le 8 (4120 :: u64) @ to_le 8 (4122 :: u64) @ to_le 8 (0 :: u64) @ ''a'' @ [NUL] @ ''b'' @ [NUL]"

definition sample_exec_vm :: vm where
  "sample_exec_vm = \<lparr>vm_byte = (\<lambda>b. if unat (b - 4096) < length sample_image then sample_image ! unat (b - 4096) else NUL),
     vm_rlen = (\<lambda>_ n. Some (min n 8)), vm_wlen = (\<lambda>_ n. Some n), vm_peek = (\<lambda>_. True), vm_errno = 14\<rparr>"

definition sample_exec_stop :: tstop where
  "sample_exec_stop = \<lparr>ts_regs = \<lparr>ur_x = (\<lambda>i. if i = 1 then 4096 else 0), ur_sp = 32768, ur_pc = 0\<rparr>,
     ts_kregs = \<lparr>ur_x = (\<lambda>_. 0), ur_sp = 0, ur_pc = 0\<rparr>, ts_knr = 221, ts_vm = sample_exec_vm, ts_guard = guard_init,
     ts_fs = undefined, ts_setnr_ok = True, ts_setregs_ok = True\<rparr>"

lemma sample_span: "exec_scratch_span (exec_strings ''/l'' ''/p'' ''a'' ''/t'' None None [''b'']) = 16496"
  by (simp add: exec_scratch_span_def exec_strings_def align16_def EXEC_REWRITE_STACK_SAFETY_def)

lemma sample_build: "\<exists>s'. exec_build ''/l'' ''/p'' ''a'' ''/t'' None None [''b''] sample_exec_stop = (True, s')"
  by (rule exec_build_succeeds) (simp_all add: sample_span sample_exec_stop_def sample_exec_vm_def EXEC_REWRITE_MAX_SCRATCH_def)

lemma sample_argv: "read_argv_ptrs sample_exec_vm 4096 EXEC_REWRITE_MAX_ARGC [] = [4120, 4122]"
  by code_simp

definition sample_xfiles :: xfiles where
  "sample_xfiles = \<lparr>xf_file = (\<lambda>_. None), xf_append = (\<lambda>_. False), xf_env = (\<lambda>_. None), xf_realloc = (\<lambda>_. True)\<rparr>"

definition sample_exec_conf :: conf where
  "sample_exec_conf = \<lparr>cf_rootfs = ''/r'', cf_binds = [], cf_rootfd_rewrite = False, cf_rootfs_fd = -1, cf_cache = False\<rparr>"

lemma sample_chunk: "vm_readv sample_exec_vm 4122 512 = Some (''b'' @ replicate 7 NUL)" "vm_readv sample_exec_vm 4120 128 = Some (''a'' @ NUL # ''b'' @ replicate 5 NUL)"
  by code_simp+

lemma sample_texts: "str_at sample_exec_vm 4120 ''a''" "str_at sample_exec_vm 4122 ''b''"
  unfolding str_at_def bytes_at_def by code_simp+

lemma sample_arg0: "read_tracee_string sample_exec_vm 4120 PATH_MAX = Some ''a''"
  by (simp add: read_tracee_string_def read_str_loop.simps sample_chunk)

lemma sample_copy: "copy_args sample_xfiles sample_exec_vm [4122] [] \<lparr>ar_data = [], ar_cap = 0\<rparr> = Some ([0], \<lparr>ar_data = ''b'' @ [NUL], ar_cap = 8192\<rparr>)"
  by (simp add: read_tracee_string_to_arena_def arena_read.simps reserve_exec_arg_arena_def arena_next.simps sample_chunk
      EXEC_REWRITE_MAX_ARG_BYTES_def EXEC_REWRITE_MAX_SCRATCH_def EXEC_REWRITE_STACK_SAFETY_def c_string_def sample_xfiles_def)

section \<open>Properties\<close>

text \<open>C10. The program gets the arguments that were built. When the rewrite succeeds, the argument vector the kernel reads
  at the new argument register is exactly the loader, its options, the program, the script's argument and name, and
  the old arguments in their order, ended by a null pointer; the path register points at the loader; and no byte within
  16384 bytes below the stack pointer, or above it, is changed.\<close>

theorem exec_vector_built:
  assumes run: "exec_build loader libpath argv0 prog sname interp_arg args s = (True, s')"
    and room: "exec_scratch_span (exec_strings loader libpath argv0 prog sname interp_arg args) + 16 \<le> unat (ur_sp (ts_regs s))"
    and few: "length args \<le> 512"
  shows "argv_at (ts_vm s') (reg 1 s') (exec_argv loader libpath argv0 prog sname interp_arg args) \<and>
    str_at (ts_vm s') (reg 0 s') loader \<and>
    (\<forall>b. unat (ur_sp (ts_regs s)) \<le> unat b + EXEC_REWRITE_STACK_SAFETY \<longrightarrow> vm_byte (ts_vm s') b = vm_byte (ts_vm s) b)"
  using exec_vector_built'[OF assms] .

lemma exec_vector_built_witness:
  "\<exists>s'. exec_build ''/l'' ''/p'' ''a'' ''/t'' None None [''b''] sample_exec_stop = (True, s') \<and>
     argv_at (ts_vm s') (reg 1 s') [''/l'', ''--library-path'', ''/p'', ''--argv0'', ''a'', ''/t'', ''b'']"
proof -
  from sample_build obtain s' where b: "exec_build ''/l'' ''/p'' ''a'' ''/t'' None None [''b''] sample_exec_stop = (True, s')" by blast
  have "argv_at (ts_vm s') (reg 1 s') (exec_argv ''/l'' ''/p'' ''a'' ''/t'' None None [''b''])"
    using exec_vector_built[OF b] by (simp add: sample_span) (simp add: sample_exec_stop_def)
  with b show ?thesis by (simp add: exec_argv_def)
qed

text \<open>The first argument as it is read into a buffer of \<open>PATH_MAX\<close>.\<close>

lemma read_str_text:
  "read_str_loop m a cap buf = Some r \<Longrightarrow> str_at m a v \<Longrightarrow> NUL \<notin> set v \<Longrightarrow> length buf \<le> length v \<Longrightarrow>
   buf = take (length buf) v \<Longrightarrow> length buf \<le> cap - 1 \<Longrightarrow> r = take (cap - 1) v"
proof (induction m a cap buf rule: read_str_loop.induct)
  case (1 m a cap buf)
  show ?case
  proof (cases "cap \<le> length buf + 1")
    case True
    then have "r = buf" "length buf = cap - 1" using 1(2,7) by (simp_all add: read_str_loop.simps[of m a cap buf])
    then show ?thesis using 1(6) by simp
  next
    case False
    obtain bs where bs: "vm_readv m (a + of_nat (length buf)) (min 128 (cap - 1 - length buf)) = Some bs" "bs \<noteq> []"
      using 1(2) False by (auto simp: read_str_loop.simps[of m a cap buf] split: option.splits if_splits)
    note chunk = chunk_of_text[OF 1(3-5) bs]
    have lb: "length bs \<le> cap - 1 - length buf" using vm_readv_length[OF bs(1)] by simp
    show ?thesis
    proof (cases "NUL \<in> set bs")
      case True
      then have r: "r = buf @ c_string bs"
        using 1(2) False bs by (simp add: read_str_loop.simps[of m a cap buf] c_string_def)
      have c: "c_string bs = drop (length buf) v" using chunk True by simp
      have "length (c_string bs) \<le> length bs" by (simp add: c_string_def length_takeWhile_le)
      then have "length v \<le> cap - 1" using c lb 1(5,7) by simp
      then show ?thesis using r c 1(6) by (metis append_take_drop_id take_all)
    next
      case nf: False
      then have c: "bs = take (length bs) (drop (length buf) v)" "length buf + length bs \<le> length v" using chunk by auto
      have run: "read_str_loop m a cap (buf @ bs) = Some r"
        using 1(2) False bs nf by (simp add: read_str_loop.simps[of m a cap buf])
      have "buf @ bs = take (length (buf @ bs)) v"
        using c(1) 1(6) by (metis length_append take_add)
      then show ?thesis
        using 1(1)[OF False bs nf run 1(3,4)] c(2) lb False by simp
    qed
  qed
qed

text \<open>What a program is told its name is.\<close>

definition kept_argv0 :: "conf \<Rightarrow> path \<Rightarrow> path \<Rightarrow> string \<Rightarrow> string" where
  "kept_argv0 cf original override v =
     (if v \<noteq> [] then take (PATH_MAX - 1) v
      else if override \<noteq> [] then override else guest_exec_path (cf_rootfs cf) original PATH_MAX)"

text \<open>C35. A program keeps its arguments. For a program that needs the loader, is not a script and not \<open>groupadd\<close>, whose
  old vector has an argument and whose first one can be read: when the rewrite succeeds and the stack has room for what
  is put on it, the new vector is the loader with the host file as its program, the name of the program by \<open>--argv0\<close>,
  and every old argument but the first unchanged and in order. The name is the old first argument, of which no more than
  4095 characters are kept; when that argument is empty, it is the name that the caller gives, or else the program's path
  in the container.\<close>

theorem exec_keeps_arguments:
  assumes run: "exec_with_target cf w loader libpath argv0_junk original override target c x s = (1, c', x', s')"
    and kind: "\<not> file_starts_with x target ''#!''" "elf_has_interp x target \<noteq> 0" "\<not> basename_is target ''groupadd''"
    and old: "list_all2 (str_at (ts_vm s)) (read_argv_ptrs (ts_vm s) (reg 1 s) EXEC_REWRITE_MAX_ARGC []) (v0 # rest)"
      "\<forall>v\<in>set (v0 # rest). NUL \<notin> set v"
    and first: "read_tracee_string (ts_vm s) (hd (read_argv_ptrs (ts_vm s) (reg 1 s) EXEC_REWRITE_MAX_ARGC [])) PATH_MAX \<noteq> None"
    and room: "exec_scratch_span (exec_strings loader libpath (kept_argv0 cf original override v0) target None None rest) + 16
      \<le> unat (ur_sp (ts_regs s))"
  shows "argv_at (ts_vm s') (reg 1 s') (exec_argv loader libpath (kept_argv0 cf original override v0) target None None rest) \<and>
    x' = x"
proof -
  let ?ptrs = "read_argv_ptrs (ts_vm s) (reg 1 s) EXEC_REWRITE_MAX_ARGC []"
  from old(1) have rest: "list_all2 (str_at (ts_vm s)) (drop 1 ?ptrs) rest" "?ptrs \<noteq> []"
    by (auto simp: list_all2_Cons2)
  have few: "length rest \<le> 512"
    using read_argv_length[of "ts_vm s" "reg 1 s" EXEC_REWRITE_MAX_ARGC "[]"] list_all2_lengthD[OF old(1)]
    by (simp add: EXEC_REWRITE_MAX_ARGC_def)
  obtain a0 where a0: "read_tracee_string (ts_vm s) (hd ?ptrs) PATH_MAX = Some a0" using first by blast
  have "str_at (ts_vm s) (hd ?ptrs) v0" using old(1) by (auto simp: list_all2_Cons2)
  then have a0v: "a0 = take (PATH_MAX - 1) v0"
    using a0 old(2) read_str_text[of "ts_vm s" "hd ?ptrs" PATH_MAX "[]" a0 v0]
    by (auto simp: read_tracee_string_def split: if_splits)
  define nm where "nm = (if a0 \<noteq> [] then a0 else if override \<noteq> [] then override else guest_exec_path (cf_rootfs cf) original PATH_MAX)"
  have nm: "nm = kept_argv0 cf original override v0" by (cases v0) (simp_all add: nm_def kept_argv0_def a0v)
  note run' = run[unfolded exec_with_target_def, simplified kind a0 rest(2) Let_def, simplified]
  from run' obtain offs a where cp: "copy_args x (ts_vm s) (drop 1 ?ptrs) [] \<lparr>ar_data = [], ar_cap = 0\<rparr> = Some (offs, a)"
    by (cases "copy_args x (ts_vm s) (drop 1 ?ptrs) [] \<lparr>ar_data = [], ar_cap = 0\<rparr>") (auto split: if_splits)
  have args: "map (arena_string a) offs = rest" using copy_args_text[OF cp arena_init_ok rest(1)] old(2) by simp
  from run' cp args have "exec_build loader libpath nm target None None rest s = (True, s')" and "x' = x"
    by (auto simp: nm_def split: if_splits prod.splits)
  then show ?thesis using exec_vector_built'[OF _ room few] unfolding nm by blast
qed

lemma exec_keeps_arguments_witness:
  "\<forall>w c. \<exists>c' s'. exec_with_target sample_exec_conf w ''/l'' ''/p'' [] ''/t'' [] ''/t'' c sample_xfiles sample_exec_stop = (1, c', sample_xfiles, s') \<and>
     argv_at (ts_vm s') (reg 1 s') [''/l'', ''--library-path'', ''/p'', ''--argv0'', ''a'', ''/t'', ''b'']"
proof (intro allI)
  fix w c
  have vm: "ts_vm sample_exec_stop = sample_exec_vm" "reg 1 sample_exec_stop = 4096"
    by (simp_all add: sample_exec_stop_def reg_def)
  from sample_build obtain s' where b: "exec_build ''/l'' ''/p'' ''a'' ''/t'' None None [''b''] sample_exec_stop = (True, s')" by blast
  have kind: "\<not> file_starts_with sample_xfiles ''/t'' ''#!''" "elf_has_interp sample_xfiles ''/t'' \<noteq> 0" "\<not> basename_is ''/t'' ''groupadd''"
    by (simp_all add: file_starts_with_def elf_has_interp_def sample_xfiles_def) code_simp
  have st: "arena_string \<lparr>ar_data = ''b'' @ [NUL], ar_cap = 8192\<rparr> 0 = ''b''" by code_simp
  have "\<exists>c'. exec_with_target sample_exec_conf w ''/l'' ''/p'' [] ''/t'' [] ''/t'' c sample_xfiles sample_exec_stop = (1, c', sample_xfiles, s')"
    using b sample_copy st kind
    by (simp add: exec_with_target_def Let_def vm[simplified] sample_argv sample_arg0 EXEC_REWRITE_MAX_ARGC_def[symmetric])
       (simp add: EXEC_REWRITE_MAX_ARGC_def)
  then obtain c' where run: "exec_with_target sample_exec_conf w ''/l'' ''/p'' [] ''/t'' [] ''/t'' c sample_xfiles sample_exec_stop = (1, c', sample_xfiles, s')"
    by blast
  have k: "kept_argv0 sample_exec_conf ''/t'' [] ''a'' = ''a''" by (simp add: kept_argv0_def)
  have "argv_at (ts_vm s') (reg 1 s') (exec_argv ''/l'' ''/p'' (kept_argv0 sample_exec_conf ''/t'' [] ''a'') ''/t'' None None [''b'']) \<and>
    sample_xfiles = sample_xfiles"
  proof (rule exec_keeps_arguments[OF run kind])
    show "list_all2 (str_at (ts_vm sample_exec_stop)) (read_argv_ptrs (ts_vm sample_exec_stop) (reg 1 sample_exec_stop) EXEC_REWRITE_MAX_ARGC []) [''a'', ''b'']"
      by (simp only: vm sample_argv list_all2_Cons sample_texts list_all2_Nil simp_thms)
    show "read_tracee_string (ts_vm sample_exec_stop) (hd (read_argv_ptrs (ts_vm sample_exec_stop) (reg 1 sample_exec_stop) EXEC_REWRITE_MAX_ARGC [])) PATH_MAX \<noteq> None"
      by (simp only: vm sample_argv list.sel sample_arg0) simp
    show "exec_scratch_span (exec_strings ''/l'' ''/p'' (kept_argv0 sample_exec_conf ''/t'' [] ''a'') ''/t'' None None [''b'']) + 16
        \<le> unat (ur_sp (ts_regs sample_exec_stop))"
      by (simp add: sample_span k) (simp add: sample_exec_stop_def)
  qed simp_all
  with run k show "\<exists>c' s'. exec_with_target sample_exec_conf w ''/l'' ''/p'' [] ''/t'' [] ''/t'' c sample_xfiles sample_exec_stop = (1, c', sample_xfiles, s') \<and>
     argv_at (ts_vm s') (reg 1 s') [''/l'', ''--library-path'', ''/p'', ''--argv0'', ''a'', ''/t'', ''b'']" by (auto simp: exec_argv_def)
qed

text \<open>C36. The argument copy stays in its buffer. However long the process's arguments are and however short the
  transfers, the arena never holds more bytes than were allocated for it, and never more than
  \<open>EXEC_REWRITE_MAX_ARG_BYTES\<close> are allocated.\<close>

theorem exec_arena_bounded:
  assumes "length (ar_data a) \<le> ar_cap a" "ar_cap a \<le> EXEC_REWRITE_MAX_ARG_BYTES"
    and "read_tracee_string_to_arena x m addr a = (r, a')"
  shows "length (ar_data a') \<le> ar_cap a' \<and> ar_cap a' \<le> EXEC_REWRITE_MAX_ARG_BYTES \<and> prefix (ar_data a) (ar_data a')"
  using assms arena_read_ok[of x m addr 0 a]
  by (auto simp: read_tracee_string_to_arena_def arena_ok_def split: if_splits prod.splits)

lemma exec_arena_bounded_witness:
  "length (ar_data (snd (read_tracee_string_to_arena sample_xfiles sample_exec_vm 4120 \<lparr>ar_data = [], ar_cap = 0\<rparr>))) \<le> EXEC_REWRITE_MAX_ARG_BYTES"
  using exec_arena_bounded[of "\<lparr>ar_data = [], ar_cap = 0\<rparr>"] prod.collapse by (metis arena.select_convs le_trans le0 list.size(3))

text \<open>Executed paths are not validated. An absolute path is put behind the rootfs without the check that every other
  path call makes, so \<open>..\<close> leaves the container; and a host path that merely begins with the rootfs's text, a
  sibling directory, is run as it is.\<close>

theorem exec_path_unchecked:
  assumes "cf_binds cf = []" "cf_rootfs cf = CHR ''/'' # r" "length r < 1000" "loader \<noteq> ''/../'' @ p" "loader \<noteq> cf_rootfs cf @ ''2/'' @ p"
    and "hd r \<noteq> CHR ''.''" "r \<noteq> []" "length p < 1000"
  shows "exec_target cf w pid loader junk (''/../'' @ p) g = (Some (cf_rootfs cf @ ''/../'' @ p, []), g) \<and>
    exec_target cf w pid loader junk (cf_rootfs cf @ ''2/'' @ p) g = (Some (cf_rootfs cf @ ''2/'' @ p, []), g) \<and>
    \<not> allowed_host cf (cf_rootfs cf @ ''2/'' @ p)"
proof (intro conjI)
  obtain c r' where r: "r = c # r'" "c \<noteq> CHR ''.''" using assms(6,7) by (cases r) auto
  show "exec_target cf w pid loader junk (''/../'' @ p) g = (Some (cf_rootfs cf @ ''/../'' @ p, []), g)"
    using assms r by (simp add: exec_target_def bind_host_to_guest_path_def best_match_def should_rewrite_path_def c_format_def)
  show "exec_target cf w pid loader junk (cf_rootfs cf @ ''2/'' @ p) g = (Some (cf_rootfs cf @ ''2/'' @ p, []), g)"
    using assms by (simp add: exec_target_def bind_host_to_guest_path_def best_match_def)
  show "\<not> allowed_host cf (cf_rootfs cf @ ''2/'' @ p)"
    using assms(1,2) by (simp add: allowed_host_def host_path_is_under_allowed_host_path_def host_path_is_under_prefix_def
        host_path_is_under_bind_host_def)
qed

lemma exec_path_unchecked_witness:
  "\<forall>w g. exec_target sample_exec_conf w 1 ''/l'' [] ''/../x'' g = (Some (''/r/../x'', []), g)"
  using exec_path_unchecked[of sample_exec_conf "''r''" "''/l''" "''x''"] by (simp add: sample_exec_conf_def)

end
