(* ===== verification/Tracee_Table.thy ===== *)
theory Tracee_Table
  imports Exec_Rewrite Trace_Pager
begin

text \<open>
  The tracer's table of the processes it follows: one record per process, a bounded number of slots,
  and the credentials that a process is told it has.
\<close>

section \<open>The record of a process\<close>

record tstate =
  st_pid :: int
  st_active :: bool
  st_in_syscall :: bool
  st_last_nr :: int
  st_emulated_nr :: int
  st_last_emulated_nr :: int
  st_emulated_result :: u64
  st_uid :: u64
  st_euid :: u64
  st_suid :: u64
  st_gid :: u64
  st_egid :: u64
  st_sgid :: u64
  st_args :: "nat \<Rightarrow> u64"
  st_last_brk :: u64
  st_mp :: pending
  st_inval :: bool
  st_cwd :: cwd_state
  st_regions :: regions

definition zero_tstate :: tstate where
  "zero_tstate = \<lparr>st_pid = 0, st_active = False, st_in_syscall = False, st_last_nr = 0, st_emulated_nr = 0, st_last_emulated_nr = 0,
     st_emulated_result = 0, st_uid = 0, st_euid = 0, st_suid = 0, st_gid = 0, st_egid = 0, st_sgid = 0, st_args = (\<lambda>_. 0),
     st_last_brk = 0, st_mp = \<lparr>mp_len = 0, mp_prot = 0, mp_flags = 0\<rparr>, st_inval = False,
     st_cwd = \<lparr>cs_guest_cwd = [], cs_pending_cwd = [], cs_exec_path = []\<rparr>, st_regions = None\<rparr>"

definition new_tstate :: "int \<Rightarrow> tstate" where
  "new_tstate pid = zero_tstate\<lparr>st_pid := pid, st_active := True, st_last_nr := -1, st_emulated_nr := -1, st_last_emulated_nr := -1,
     st_cwd := \<lparr>cs_guest_cwd = ''/'', cs_pending_cwd = [], cs_exec_path = []\<rparr>\<rparr>"

section \<open>The table\<close>

definition MAX_TRACEES :: nat where "MAX_TRACEES = 128"

type_synonym tracees = "tstate list"

definition empty_table :: tracees where
  "empty_table = replicate MAX_TRACEES zero_tstate"

fun first_index :: "('a \<Rightarrow> bool) \<Rightarrow> 'a list \<Rightarrow> nat option" where
  "first_index P [] = None"
| "first_index P (x # xs) = (if P x then Some 0 else map_option Suc (first_index P xs))"

definition find_tracee :: "tracees \<Rightarrow> int \<Rightarrow> nat option" where
  "find_tracee ts pid = first_index (\<lambda>t. st_active t \<and> st_pid t = pid) ts"

definition add_tracee :: "tracees \<Rightarrow> int \<Rightarrow> nat option \<times> tracees" where
  "add_tracee ts pid =
     (case find_tracee ts pid of
        Some i \<Rightarrow> (Some i, ts)
      | None \<Rightarrow>
          (case first_index (\<lambda>t. \<not> st_active t) ts of
             None \<Rightarrow> (None, ts)
           | Some i \<Rightarrow> (Some i, ts[i := new_tstate pid])))"

definition remove_tracee :: "tracees \<Rightarrow> int \<Rightarrow> guard \<Rightarrow> tracees \<times> guard" where
  "remove_tracee ts pid g =
     (case find_tracee ts pid of
        None \<Rightarrow> (ts, g)
      | Some i \<Rightarrow> (ts[i := zero_tstate], if st_inval (ts ! i) then finish_path_cache_mutation g else g))"

definition tracee_count :: "tracees \<Rightarrow> nat" where
  "tracee_count ts = length (filter st_active ts)"

text \<open>\<open>kill_errno\<close> is 0 or the error of \<open>kill(pid, 0)\<close>; \<open>status\<close> the parent and tracer in \<open>/proc\<close>, \<open>None\<close> when unreadable.\<close>

definition tracee_is_still_owned :: "(int \<Rightarrow> (int \<times> int) option) \<Rightarrow> int \<Rightarrow> int \<Rightarrow> bool" where
  "tracee_is_still_owned status tracer pid = (case status pid of None \<Rightarrow> False | Some (ppid, tr) \<Rightarrow> ppid = tracer \<or> tr = tracer)"

definition prune_one :: "(int \<Rightarrow> int) \<Rightarrow> (int \<Rightarrow> (int \<times> int) option) \<Rightarrow> int \<Rightarrow> tstate \<Rightarrow> bool \<times> tstate" where
  "prune_one kill_errno status tracer t =
     (if \<not> st_active t then (False, t)
      else if kill_errno (st_pid t) = 0 \<or> kill_errno (st_pid t) = EPERM then
        (if tracee_is_still_owned status tracer (st_pid t) then (True, t) else (False, zero_tstate))
      else if kill_errno (st_pid t) = ESRCH then (False, zero_tstate)
      else (False, t))"

definition prune_dead_tracees :: "(int \<Rightarrow> int) \<Rightarrow> (int \<Rightarrow> (int \<times> int) option) \<Rightarrow> int \<Rightarrow> tracees \<Rightarrow> nat \<times> tracees" where
  "prune_dead_tracees kill_errno status tracer ts =
     (let rs = map (prune_one kill_errno status tracer) ts in (length (filter fst rs), map snd rs))"

section \<open>Credentials\<close>

definition is_minus_one_arg :: "u64 \<Rightarrow> bool" where
  "is_minus_one_arg v \<longleftrightarrow> v = 0xffffffffffffffff"

text \<open>
  A 32-bit store; when the transfer fails, one word is read, patched and written back, so a store that
  crosses a word's end keeps only its part in the first word. \<open>PTRACE_POKEDATA\<close> succeeds where \<open>PTRACE_PEEKDATA\<close> does.
\<close>

definition poke_word :: "u64 \<Rightarrow> u64 \<Rightarrow> vm \<Rightarrow> vm" where
  "poke_word a v m = m\<lparr>vm_byte := (\<lambda>b. if unat (b - a) < 8 then to_le 8 v ! unat (b - a) else vm_byte m b)\<rparr>"

definition write_tracee_u32 :: "u64 \<Rightarrow> u64 \<Rightarrow> tstop \<Rightarrow> bool \<times> tstop" where
  "write_tracee_u32 a value s =
     (if a = 0 then (False, s)
      else let v = (ucast value :: u32); (ok, s) = write_tracee_data a (to_le 4 v) s in
        if ok then (True, s)
        else let aligned = a AND NOT 7; sh = unat ((a - aligned) * 8) in
          case peek_word (ts_vm s) aligned of
            None \<Rightarrow> (False, s)
          | Some w \<Rightarrow>
              (let mask = push_bit sh 0xffffffff; patched = (w AND NOT mask) OR (push_bit sh (ucast v) AND mask)
               in (True, s\<lparr>ts_vm := poke_word aligned patched (ts_vm s)\<rparr>)))"

definition prepare_emulated_result :: "int \<Rightarrow> tstate \<Rightarrow> tstop \<Rightarrow> u64 \<times> tstate \<times> tstop" where
  "prepare_emulated_result nr t s =
     (let a0 = st_args t 0; a1 = st_args t 1; a2 = st_args t 2;
          store = (\<lambda>v0 v1 v2. snd (write_tracee_u32 a2 v2 (snd (write_tracee_u32 a1 v1 (snd (write_tracee_u32 a0 v0 s)))))) in
      if nr = 174 then (st_uid t, t, s)
      else if nr = 175 then (st_euid t, t, s)
      else if nr = 176 then (st_gid t, t, s)
      else if nr = 177 then (st_egid t, t, s)
      else if nr = 143 then
        (let t = (if is_minus_one_arg a0 then t else t\<lparr>st_gid := a0\<rparr>);
             t = (if is_minus_one_arg a1 then t else t\<lparr>st_egid := a1\<rparr>)
         in (0, t\<lparr>st_sgid := st_egid t\<rparr>, s))
      else if nr = 144 then (0, t\<lparr>st_gid := a0, st_egid := a0, st_sgid := a0\<rparr>, s)
      else if nr = 145 then
        (let t = (if is_minus_one_arg a0 then t else t\<lparr>st_uid := a0\<rparr>);
             t = (if is_minus_one_arg a1 then t else t\<lparr>st_euid := a1\<rparr>)
         in (0, t\<lparr>st_suid := st_euid t\<rparr>, s))
      else if nr = 146 then (0, t\<lparr>st_uid := a0, st_euid := a0, st_suid := a0\<rparr>, s)
      else if nr = 147 then
        (let t = (if is_minus_one_arg a0 then t else t\<lparr>st_uid := a0\<rparr>);
             t = (if is_minus_one_arg a1 then t else t\<lparr>st_euid := a1\<rparr>)
         in (0, t\<lparr>st_suid := (if is_minus_one_arg a2 then st_euid t else a2)\<rparr>, s))
      else if nr = 148 then (0, t, store (st_uid t) (st_euid t) (st_suid t))
      else if nr = 149 then
        (let t = (if is_minus_one_arg a0 then t else t\<lparr>st_gid := a0\<rparr>);
             t = (if is_minus_one_arg a1 then t else t\<lparr>st_egid := a1\<rparr>)
         in (0, t\<lparr>st_sgid := (if is_minus_one_arg a2 then st_egid t else a2)\<rparr>, s))
      else if nr = 150 then (0, t, store (st_gid t) (st_egid t) (st_sgid t))
      else (0, t, s))"

section \<open>Calls the tracer answers\<close>

definition syscall_emulate_success :: "int \<Rightarrow> bool" where
  "syscall_emulate_success nr \<longleftrightarrow>
     nr \<in> set [99, 174, 175, 176, 177, 54, 55, 143, 144, 145, 146, 147, 148, 149, 150, 151, 152, 159, 293]"

definition syscall_emulate_errno :: "int \<Rightarrow> int option" where
  "syscall_emulate_errno nr = (if 194 \<le> nr \<and> nr \<le> 197 \<or> 235 \<le> nr \<and> nr \<le> 239 \<or> nr = 450 then Some ENOSYS else None)"

definition syscall_completed_in_userland :: "int \<Rightarrow> bool" where
  "syscall_completed_in_userland nr \<longleftrightarrow>
     nr \<in> set [17, 36, 37, 48, 78, 425, 426, 427, 439] \<or> syscall_emulate_errno nr \<noteq> None \<or> syscall_emulate_success nr"

definition syscall_remap_number :: "int \<Rightarrow> int" where
  "syscall_remap_number nr = nr"

end
