(* ===== verification/Syscall_Entry.thy ===== *)
theory Syscall_Entry
  imports Tracee_Table
begin

text \<open>
  One intercepted system call, from the stop at its entry to the answer the process gets: the memory
  guard, the calls the tracer answers itself, and the rewriting of the arguments of the others.
\<close>

section \<open>The tracer's settings and globals\<close>

text \<open>
  \<open>te_meminfo\<close> is the available memory and free swap that \<open>/proc/meminfo\<close> gives, \<open>None\<close> when it cannot be
  opened. The three \<open>junk\<close> fields are what uninitialised buffers hold.
\<close>

record tenv =
  te_conf :: conf
  te_os :: os
  te_loader :: string
  te_libpath :: string
  te_target_junk :: string
  te_argv0_junk :: string
  te_sock_junk :: string
  te_trace_memory :: bool
  te_threshold :: u64
  te_memory_guard :: bool
  te_min_request :: u64
  te_min_available :: u64
  te_min_swap :: u64
  te_meminfo :: "(u64 \<times> u64) option"
  te_pager :: pager_conf

record mstat =
  mt_calls :: u64
  mt_failures :: u64
  mt_bytes :: u64
  mt_large :: u64
  mt_largest :: u64

record mstats =
  ms_denied :: u64
  ms_denied_bytes :: u64
  ms_available :: u64
  ms_swap :: u64
  ms_denied_nr :: int
  ms_denied_errno :: int
  ms_mmap :: mstat
  ms_mremap :: mstat
  ms_brk :: mstat
  ms_munmap :: mstat
  ms_mprotect :: mstat
  ms_madvise :: mstat

record tsys =
  sy_files :: xfiles
  sy_mem :: mstats

section \<open>Memory calls\<close>

definition is_memory_trace_syscall :: "int \<Rightarrow> bool" where
  "is_memory_trace_syscall nr \<longleftrightarrow> nr \<in> set [214, 215, 216, 222, 226, 233]"

definition update_memory_stat :: "tenv \<Rightarrow> u64 \<Rightarrow> bool \<Rightarrow> mstat \<Rightarrow> mstat" where
  "update_memory_stat e bytes failed m =
     (let m = m\<lparr>mt_calls := mt_calls m + 1\<rparr> in
      if failed then m\<lparr>mt_failures := mt_failures m + 1\<rparr>
      else m\<lparr>mt_bytes := mt_bytes m + bytes, mt_large := (if te_threshold e \<le> bytes then mt_large m + 1 else mt_large m),
             mt_largest := max bytes (mt_largest m)\<rparr>)"

definition memory_guard_would_deny :: "tenv \<Rightarrow> u64 \<Rightarrow> (u64 \<times> u64) option" where
  "memory_guard_would_deny e requested =
     (if \<not> te_memory_guard e \<or> requested < te_min_request e then None
      else case te_meminfo e of
        None \<Rightarrow> None
      | Some (avail, swap) \<Rightarrow>
          (if avail < te_min_available e \<or> swap < te_min_swap e \<or>
              0 < requested \<and> avail < requested + te_min_available e
           then Some (avail, swap) else None))"

definition memory_request_bytes :: "int \<Rightarrow> tstate \<Rightarrow> u64" where
  "memory_request_bytes nr t =
     (if nr = 222 then st_args t 1
      else if nr = 216 then st_args t 2
      else if nr = 214 then
        (if st_args t 0 = 0 \<or> st_last_brk t = 0 \<or> st_args t 0 \<le> st_last_brk t then 0 else st_args t 0 - st_last_brk t)
      else 0)"

text \<open>The answer is put in place of the call; whether that succeeded, and the record.\<close>

definition answer_syscall :: "u64 \<Rightarrow> tstate \<Rightarrow> tstop \<Rightarrow> bool \<times> tstate \<times> tstop" where
  "answer_syscall result t s =
     (let t = t\<lparr>st_emulated_result := result\<rparr>; (ok, s) = complete_emulated_syscall result s in
      (ok, if ok then t\<lparr>st_emulated_nr := st_last_nr t\<rparr> else t, s))"

definition maybe_guard_memory_syscall :: "tenv \<Rightarrow> tstate \<Rightarrow> tsys \<Rightarrow> tstop \<Rightarrow> bool \<times> tstate \<times> tsys \<times> tstop" where
  "maybe_guard_memory_syscall e t y s =
     (if \<not> te_memory_guard e \<or> \<not> is_memory_trace_syscall (st_last_nr t) then (False, t, y, s)
      else let requested = memory_request_bytes (st_last_nr t) t in
        if requested = 0 then (False, t, y, s)
        else case memory_guard_would_deny e requested of
          None \<Rightarrow> (False, t, y, s)
        | Some (avail, swap) \<Rightarrow>
            (let y = y\<lparr>sy_mem := (sy_mem y)\<lparr>ms_denied := ms_denied (sy_mem y) + 1, ms_denied_bytes := requested, ms_available := avail,
                        ms_swap := swap, ms_denied_nr := st_last_nr t, ms_denied_errno := ENOMEM\<rparr>\<rparr>;
                 result = (if st_last_nr t = 214 \<and> st_last_brk t \<noteq> 0 then st_last_brk t else of_int (- ENOMEM));
                 (ok, t, s) = answer_syscall result t s
             in (ok, t, y, s)))"

definition record_memory_syscall_exit :: "tenv \<Rightarrow> u64 \<Rightarrow> tstate \<Rightarrow> mstats \<Rightarrow> tstate \<times> mstats" where
  "record_memory_syscall_exit e result t m =
     (if \<not> te_trace_memory e \<or> \<not> is_memory_trace_syscall (st_last_nr t) then (t, m)
      else let failed = syscall_failed_result result; nr = st_last_nr t in
        if nr = 222 then (t, m\<lparr>ms_mmap := update_memory_stat e (st_args t 1) failed (ms_mmap m)\<rparr>)
        else if nr = 216 then (t, m\<lparr>ms_mremap := update_memory_stat e (st_args t 2) failed (ms_mremap m)\<rparr>)
        else if nr = 214 then
          (if \<not> failed \<and> result \<noteq> 0 then
             (let bytes = (if st_last_brk t \<noteq> 0 \<and> st_last_brk t < result then result - st_last_brk t else 0)
              in (t\<lparr>st_last_brk := result\<rparr>, m\<lparr>ms_brk := update_memory_stat e bytes failed (ms_brk m)\<rparr>))
           else (t, m\<lparr>ms_brk := update_memory_stat e 0 failed (ms_brk m)\<rparr>))
        else if nr = 215 then (t, m\<lparr>ms_munmap := update_memory_stat e (st_args t 1) failed (ms_munmap m)\<rparr>)
        else if nr = 226 then (t, m\<lparr>ms_mprotect := update_memory_stat e (st_args t 1) failed (ms_mprotect m)\<rparr>)
        else (t, m\<lparr>ms_madvise := update_memory_stat e (st_args t 1) failed (ms_madvise m)\<rparr>))"

section \<open>Arguments that are paths\<close>

definition syscall_names :: "(int \<times> string) list" where
  "syscall_names = [
    (17, ''getcwd''), (5, ''setxattr''), (6, ''lsetxattr''), (8, ''getxattr''), (9, ''lgetxattr''), (11, ''listxattr''),
    (12, ''llistxattr''), (14, ''removexattr''), (15, ''lremovexattr''), (23, ''dup''), (24, ''dup3''), (25, ''fcntl''),
    (29, ''ioctl''), (33, ''mknodat''), (34, ''mkdirat''), (35, ''unlinkat''), (36, ''symlinkat''), (37, ''linkat''),
    (38, ''renameat''), (43, ''statfs''), (44, ''fstatfs''), (48, ''faccessat''), (49, ''chdir''), (50, ''fchdir''),
    (53, ''fchmodat''), (54, ''fchownat''), (55, ''fchown''), (56, ''openat''), (57, ''close''), (59, ''pipe2''),
    (61, ''getdents64''), (62, ''lseek''), (63, ''read''), (64, ''write''), (78, ''readlinkat''), (79, ''newfstatat''),
    (93, ''exit''), (94, ''exit_group''), (96, ''set_tid_address''), (98, ''futex''), (99, ''set_robust_list''),
    (117, ''ptrace''), (132, ''sigaltstack''), (134, ''rt_sigaction''), (135, ''rt_sigprocmask''), (139, ''rt_sigreturn''),
    (143, ''setregid''), (144, ''setgid''), (145, ''setreuid''), (146, ''setuid''), (147, ''setresuid''), (148, ''getresuid''),
    (149, ''setresgid''), (150, ''getresgid''), (151, ''setfsuid''), (152, ''setfsgid''), (159, ''setgroups''), (160, ''uname''),
    (166, ''umask''), (167, ''prctl''), (172, ''getpid''), (173, ''getppid''), (174, ''getuid''), (175, ''geteuid''),
    (176, ''getgid''), (177, ''getegid''), (178, ''gettid''), (179, ''sysinfo''), (197, ''socket''), (198, ''socketpair''),
    (203, ''connect''), (214, ''brk''), (215, ''munmap''), (216, ''mremap''), (220, ''clone''), (221, ''execve''),
    (222, ''mmap''), (223, ''fadvise64''), (226, ''mprotect''), (227, ''msync''), (233, ''madvise''), (235, ''mbind''),
    (236, ''get_mempolicy''), (237, ''set_mempolicy''), (238, ''migrate_pages''), (239, ''move_pages''),
    (242, ''sched_getaffinity''), (260, ''wait4''), (261, ''prlimit64''), (276, ''renameat2''), (278, ''getrandom''),
    (88, ''utimensat''), (280, ''bpf''), (281, ''execveat''), (291, ''statx''), (293, ''rseq''), (437, ''openat2''),
    (439, ''faccessat2''), (425, ''io_uring_setup''), (426, ''io_uring_enter''), (427, ''io_uring_register''), (435, ''clone3''),
    (436, ''close_range''), (440, ''process_madvise''), (441, ''epoll_pwait2''), (443, ''quotactl_fd''),
    (446, ''landlock_restrict_self''), (448, ''process_mrelease''), (449, ''futex_waitv''), (450, ''set_mempolicy_home_node'')]"

definition syscall_name :: "int \<Rightarrow> string" where
  "syscall_name nr = (case map_of syscall_names nr of None \<Rightarrow> ''?'' | Some n \<Rightarrow> n)"

definition path_calls :: "int list" where "path_calls = [5, 6, 8, 9, 11, 12, 14, 15]"
definition at_calls :: "int list" where "at_calls = [33, 34, 35, 48, 53, 54, 56, 79, 88, 291, 437, 439]"

definition rewrite_syscall_paths :: "tenv \<Rightarrow> int \<Rightarrow> tstate \<Rightarrow> tsys \<Rightarrow> tstop \<Rightarrow> int \<times> tstate \<times> tsys \<times> tstop" where
  "rewrite_syscall_paths e nr t y s =
     (let cf = te_conf e; w = te_os e; pid = st_pid t;
          plain = (\<lambda>(rc, s). (rc, t, y, s)) in
      if nr \<in> set path_calls then plain (rewrite_path_arg cf w 0 s)
      else if nr \<in> set at_calls then plain (rewrite_at_path_arg cf w pid 0 1 (syscall_name nr) 8192 s)
      else if nr = 78 then plain (rewrite_path_arg cf w 1 s)
      else if nr = 36 then plain (rewrite_at_path_arg cf w pid 1 2 (syscall_name nr) 8192 s)
      else if nr = 37 \<or> nr = 38 \<or> nr = 276 then plain (rewrite_at_path_args cf w pid 0 1 2 3 (syscall_name nr) s)
      else if nr = 43 then plain (rewrite_path_arg cf w 0 s)
      else if nr = 49 then
        (let (rc, c, s) = rewrite_chdir_arg cf w (st_cwd t) s in (rc, t\<lparr>st_cwd := c\<rparr>, y, s))
      else if nr = 200 \<or> nr = 203 then plain (rewrite_unix_sockaddr_arg cf w (te_sock_junk e) s)
      else if nr = 221 then
        (let (rc, c, x, s) = rewrite_execve_arg cf w pid (te_loader e) (te_libpath e) (te_target_junk e) (te_argv0_junk e)
                               (st_cwd t) (sy_files y) s
         in (rc, t\<lparr>st_cwd := c\<rparr>, y\<lparr>sy_files := x\<rparr>, s))
      else if nr = 281 then plain (rewrite_at_path_arg cf w pid 0 1 (syscall_name nr) 8192 s)
      else (0, t, y, s))"

section \<open>The entry of a call\<close>

text \<open>The registers of a process at its stop.\<close>

definition begin_call :: "tstate \<Rightarrow> tstop \<Rightarrow> tstate \<times> tstop" where
  "begin_call t s =
     (let t = t\<lparr>st_last_nr := sint (reg 8 s), st_args := (\<lambda>i. if i < 6 then reg i s else st_args t i)\<rparr> in
      if path_syscall_invalidates_cache (st_last_nr t)
      then (t\<lparr>st_inval := True\<rparr>, s\<lparr>ts_guard := begin_path_cache_mutation (ts_guard s)\<rparr>)
      else (t, s))"

text \<open>The interception of \<open>mmap\<close>, with \<open>PTRACE_SETREGSET\<close> answering as the stop says.\<close>

definition prepare_mmap :: "tenv \<Rightarrow> tstate \<Rightarrow> tstop \<Rightarrow> tstate \<times> tstop" where
  "prepare_mmap e t s =
     (if st_last_nr t \<noteq> 222 then (t, s)
      else let (rc, p, prot, _) = maybe_prepare_managed_mmap (te_pager e) (st_args t) (st_mp t)
                 \<lparr>pw_page = (\<lambda>_. []), pw_prot = (\<lambda>_. 0), pw_file = (\<lambda>_ _. []), pw_script = [ts_setregs_ok s], pw_traced = False\<rparr>
           in (t\<lparr>st_mp := p\<rparr>, case prot of None \<Rightarrow> s | Some v \<Rightarrow> snd (set_regs (set_reg 2 v s))))"

text \<open>
  The calls the tracer may answer, in the order of the tests: \<open>Some\<close> the result when the call is taken
  over, \<open>None\<close> when it goes on.
\<close>

definition forced_result :: "tenv \<Rightarrow> tstate \<Rightarrow> tstop \<Rightarrow> u64 option \<times> tstop" where
  "forced_result e t s =
     (let cf = te_conf e; w = te_os e; pid = st_pid t; nr = st_last_nr t;
          as_u64 = map_prod (map_option (of_int :: int \<Rightarrow> u64)) id in
      if nr = 17 then (let (r, s) = emulate_getcwd cf w pid (st_cwd t) s in (Some (of_int r), s))
      else if nr = 78 then as_u64 (emulate_proc_self_exe_readlinkat (st_cwd t) s)
      else if 425 \<le> nr \<and> nr \<le> 427 then (Some (of_int (- ENOSYS)), s)
      else if nr = 57 \<and> reg_int 0 s = cf_rootfs_fd cf then (Some 0, s)
      else if nr = 37 then as_u64 (emulate_linkat_copy cf w pid s)
      else if nr = 36 then as_u64 (emulate_runtime_tmp_symlinkat cf w pid s)
      else if nr = 48 \<or> nr = 439 then (Some (of_int (emulate_faccessat_path cf w pid s)), s)
      else (None, s))"

text \<open>The part after the emulations: rewriting, refused calls, credentials.\<close>

definition unforced_call :: "tenv \<Rightarrow> tstate \<Rightarrow> tsys \<Rightarrow> tstop \<Rightarrow> bool \<times> tstate \<times> tsys \<times> tstop" where
  "unforced_call e t y s =
     (let (rewrote, t, y, s) = rewrite_syscall_paths e (st_last_nr t) t y s;
          remapped_nr = syscall_remap_number (st_last_nr t);
          remapped = (remapped_nr \<noteq> st_last_nr t);
          s = (if remapped then set_reg 8 (of_int remapped_nr) s else s) in
      case syscall_emulate_errno (st_last_nr t) of
        Some err \<Rightarrow> (let (ok, t, s) = answer_syscall (of_int (- err)) t s in (ok, t, y, s))
      | None \<Rightarrow>
          (if syscall_emulate_success (st_last_nr t) then
             (let (r, t, s) = prepare_emulated_result (st_last_nr t) t s; (ok, t, s) = answer_syscall r t s in (ok, t, y, s))
           else if rewrote \<noteq> 0 \<or> remapped then (False, t, y, snd (set_regs s))
           else (False, t, y, s)))"

text \<open>A candidate for the pager is not guarded; a call the guard answers is not looked at again.\<close>

definition guard_call :: "tenv \<Rightarrow> tstate \<Rightarrow> tsys \<Rightarrow> tstop \<Rightarrow> bool \<times> tstate \<times> tsys \<times> tstop" where
  "guard_call e t y s = (if mp_len (st_mp t) = 0 then maybe_guard_memory_syscall e t y s else (False, t, y, s))"

definition dispatch_call :: "tenv \<Rightarrow> bool \<Rightarrow> tstate \<Rightarrow> tsys \<Rightarrow> tstop \<Rightarrow> bool \<times> tstate \<times> tsys \<times> tstop" where
  "dispatch_call e guarded t y s =
     (if guarded then (True, t, y, s)
      else case forced_result e t s of
        (Some r, s) \<Rightarrow> (let (ok, t, s) = answer_syscall r t s in (ok, t, y, s))
      | (None, s) \<Rightarrow> unforced_call e t y s)"

definition close_call :: "bool \<Rightarrow> tstate \<Rightarrow> tstop \<Rightarrow> tstate \<times> tstop" where
  "close_call completed t s =
     (if path_syscall_invalidates_cache (st_last_nr t) \<and> completed
      then (t\<lparr>st_inval := False\<rparr>, s\<lparr>ts_guard := finish_path_cache_mutation (ts_guard s)\<rparr>) else (t, s))"

text \<open>Whether the call was answered in place of the kernel.\<close>

definition handle_syscall_entry :: "tenv \<Rightarrow> tstate \<Rightarrow> tsys \<Rightarrow> tstop \<Rightarrow> bool \<times> tstate \<times> tsys \<times> tstop" where
  "handle_syscall_entry e t y s =
     (let (t, s) = begin_call t s;
          (t, s) = prepare_mmap e t s;
          (guarded, t, y, s) = guard_call e t y s;
          (completed, t, y, s) = dispatch_call e guarded t y s;
          (t, s) = close_call completed t s
      in (completed, t, y, s))"

end
