(* ===== verification/Seccomp.thy ===== *)
theory Seccomp
  imports Prelude
begin

text \<open>
  The seccomp filter of the selective trace mode: the classic BPF program the tracer installs before it
  starts the container, and the kernel's interpretation of the three instructions the program uses.
\<close>

section \<open>The filter language\<close>

datatype insn = LdAbs u32 | Jeq u32 nat nat | Ret u32

text \<open>\<open>struct seccomp_data\<close>: the call's number at offset 0, the architecture at offset 4.\<close>

record seccomp_data =
  sd_nr :: u32
  sd_arch :: u32

definition sd_load :: "seccomp_data \<Rightarrow> u32 \<Rightarrow> u32" where
  "sd_load d off = (if off = 0 then sd_nr d else if off = 4 then sd_arch d else 0)"

text \<open>Running off the end of a program is \<open>None\<close>; the kernel refuses such programs.\<close>

function bpf_run :: "insn list \<Rightarrow> u32 \<Rightarrow> seccomp_data \<Rightarrow> u32 option" where
  "bpf_run [] acc d = None"
| "bpf_run (LdAbs off # p) acc d = bpf_run p (sd_load d off) d"
| "bpf_run (Jeq k jt jf # p) acc d = bpf_run (drop (if acc = k then jt else jf) p) acc d"
| "bpf_run (Ret k # p) acc d = Some k"
  by pat_completeness auto
termination by (relation "measure (\<lambda>(p, acc, d). length p)") auto

definition SECCOMP_RET_ALLOW :: u32 where "SECCOMP_RET_ALLOW = 0x7fff0000"
definition SECCOMP_RET_TRACE :: u32 where "SECCOMP_RET_TRACE = 0x7ff00000"
definition SECCOMP_RET_ERRNO :: u32 where "SECCOMP_RET_ERRNO = 0x00050000"
definition SECCOMP_RET_DATA :: u32 where "SECCOMP_RET_DATA = 0x0000ffff"
definition AUDIT_ARCH_AARCH64 :: u32 where "AUDIT_ARCH_AARCH64 = 0xC00000B7"

section \<open>The program\<close>

definition add_trace_syscall :: "u32 \<Rightarrow> insn list" where
  "add_trace_syscall nr = [Jeq nr 0 1, Ret SECCOMP_RET_TRACE]"

definition add_errno_syscall :: "int \<Rightarrow> u32 \<Rightarrow> insn list" where
  "add_errno_syscall err nr = [Jeq nr 0 1, Ret (SECCOMP_RET_ERRNO OR (of_int err AND SECCOMP_RET_DATA))]"

definition trace_all :: "u32 list \<Rightarrow> insn list" where
  "trace_all nrs = concat (map add_trace_syscall nrs)"

definition errno_all :: "int \<Rightarrow> u32 list \<Rightarrow> insn list" where
  "errno_all err nrs = concat (map (add_errno_syscall err) nrs)"

definition install_selective_seccomp_trace_filter :: "bool \<Rightarrow> bool \<Rightarrow> bool \<Rightarrow> insn list" where
  "install_selective_seccomp_trace_filter trace_stat_paths trace_memory memory_guard =
     [LdAbs 4, Jeq AUDIT_ARCH_AARCH64 1 0, Ret SECCOMP_RET_ALLOW, LdAbs 0] @
     trace_all [5, 6, 8, 9, 11, 12, 14, 15, 17, 33, 34, 35, 36, 37, 38, 43, 48, 49, 53, 54, 55, 56, 78] @
     (if trace_stat_paths then trace_all [79, 291] else []) @
     trace_all [88, 264, 276, 281, 437, 439] @
     errno_all ENOSYS [99] @
     trace_all [143, 144, 145, 146, 147, 148, 149, 150, 151, 152, 159, 174, 175, 176, 177] @
     errno_all ENOSYS [194, 195, 196, 197] @
     trace_all [200, 203, 221] @
     errno_all ENOSYS [293, 235, 236, 237, 238, 239, 425, 426, 427, 435, 436, 450] @
     (if trace_memory \<or> memory_guard then trace_all [214, 215, 216, 222, 226, 233] else []) @
     [Ret SECCOMP_RET_ALLOW]"

section \<open>What the program answers\<close>

lemma run_trace_all [simp]:
  "bpf_run (trace_all nrs @ p) acc d = (if acc \<in> set nrs then Some SECCOMP_RET_TRACE else bpf_run p acc d)"
  by (induction nrs) (auto simp: trace_all_def add_trace_syscall_def)

lemma run_errno_all [simp]:
  "bpf_run (errno_all err nrs @ p) acc d =
     (if acc \<in> set nrs then Some (SECCOMP_RET_ERRNO OR (of_int err AND SECCOMP_RET_DATA)) else bpf_run p acc d)"
  by (induction nrs) (auto simp: errno_all_def add_errno_syscall_def)

lemma length_trace_all [simp]: "length (trace_all nrs) = 2 * length nrs"
  by (induction nrs) (auto simp: trace_all_def add_trace_syscall_def)

lemma length_errno_all [simp]: "length (errno_all err nrs) = 2 * length nrs"
  by (induction nrs) (auto simp: errno_all_def add_errno_syscall_def)

definition seccomp_verdict :: "bool \<Rightarrow> bool \<Rightarrow> bool \<Rightarrow> seccomp_data \<Rightarrow> u32 option" where
  "seccomp_verdict st mem gd d = bpf_run (install_selective_seccomp_trace_filter st mem gd) 0 d"

definition on_aarch64 :: "u32 \<Rightarrow> seccomp_data" where
  "on_aarch64 nr = \<lparr>sd_nr = nr, sd_arch = AUDIT_ARCH_AARCH64\<rparr>"

text \<open>The three answers, as sets of call numbers.\<close>

definition always_traced :: "u32 list" where
  "always_traced = [5, 6, 8, 9, 11, 12, 14, 15, 17, 33, 34, 35, 36, 37, 38, 43, 48, 49, 53, 54, 55, 56, 78, 88, 264, 276, 281, 437, 439,
     143, 144, 145, 146, 147, 148, 149, 150, 151, 152, 159, 174, 175, 176, 177, 200, 203, 221]"

definition refused :: "u32 list" where
  "refused = [99, 194, 195, 196, 197, 293, 235, 236, 237, 238, 239, 425, 426, 427, 435, 436, 450]"

definition memory_calls :: "u32 list" where
  "memory_calls = [214, 215, 216, 222, 226, 233]"

definition expected_verdict :: "bool \<Rightarrow> bool \<Rightarrow> u32 \<Rightarrow> u32" where
  "expected_verdict st mem nr =
     (if nr \<in> set always_traced \<or> st \<and> nr \<in> {79, 291} \<or> mem \<and> nr \<in> set memory_calls then SECCOMP_RET_TRACE
      else if nr \<in> set refused then SECCOMP_RET_ERRNO OR 38
      else SECCOMP_RET_ALLOW)"

lemma run_choice [simp]:
  "bpf_run ((if b then trace_all nrs else []) @ p) acc d = (if b \<and> acc \<in> set nrs then Some SECCOMP_RET_TRACE else bpf_run p acc d)"
  by simp

text \<open>The sections of the program in the order of their tests, against the three sets.\<close>

lemma sections_agree:
  assumes "t1 \<union> t2 \<union> t3 \<union> t4 = t" "e1 \<union> e2 \<union> e3 = r" "(t \<union> ts \<union> tm) \<inter> r = {}"
  shows "(if nr \<in> t1 then Some T else if st \<and> nr \<in> ts then Some T else if nr \<in> t2 then Some T else if nr \<in> e1 then Some E
      else if nr \<in> t3 then Some T else if nr \<in> e2 then Some E else if nr \<in> t4 then Some T else if nr \<in> e3 then Some E
      else if mem \<and> nr \<in> tm then Some T else Some A) =
    Some (if nr \<in> t \<or> st \<and> nr \<in> ts \<or> mem \<and> nr \<in> tm then T else if nr \<in> r then E else A)"
  using assms by auto

lemma run_head:
  "bpf_run ([LdAbs 4, Jeq AUDIT_ARCH_AARCH64 1 0, Ret SECCOMP_RET_ALLOW, LdAbs 0] @ p) acc (on_aarch64 nr) = bpf_run p nr (on_aarch64 nr)"
  by (simp add: on_aarch64_def sd_load_def)

lemma verdict_table: "seccomp_verdict st mem gd (on_aarch64 nr) = Some (expected_verdict st (mem \<or> gd) nr)"
proof -
  have e: "SECCOMP_RET_ERRNO OR (of_int ENOSYS AND SECCOMP_RET_DATA) = SECCOMP_RET_ERRNO OR 38"
    by (simp add: SECCOMP_RET_DATA_def)
  have t: "set [5, 6, 8, 9, 11, 12, 14, 15, 17, 33, 34, 35, 36, 37, 38, 43, 48, 49, 53, 54, 55, 56, 78] \<union>
      set [88, 264, 276, 281, 437, 439] \<union> set [143, 144, 145, 146, 147, 148, 149, 150, 151, 152, 159, 174, 175, 176, 177] \<union>
      set [200, 203, 221] = set always_traced"
    unfolding always_traced_def set_append[symmetric] append_Cons append_Nil ..
  have r: "set [99] \<union> set [194, 195, 196, 197] \<union> set [293, 235, 236, 237, 238, 239, 425, 426, 427, 435, 436, 450] = set refused"
    unfolding refused_def set_append[symmetric] append_Cons append_Nil ..
  have "\<forall>x\<in>set (always_traced @ [79, 291] @ memory_calls). x \<notin> set refused" by code_simp
  then have d: "(set always_traced \<union> set [79, 291] \<union> set memory_calls) \<inter> set refused = {}" by fastforce
  show ?thesis
    unfolding seccomp_verdict_def install_selective_seccomp_trace_filter_def run_head run_trace_all run_errno_all run_choice
      bpf_run.simps e memory_calls_def[symmetric] sections_agree[OF t r d] expected_verdict_def
    by simp
qed

end
