(* ===== verification/Trace_Loop.thy ===== *)
theory Trace_Loop
  imports Syscall_Entry Seccomp Pager_Refine
begin

text \<open>
  The tracer's loop: what each kind of stop does to the table of processes, the path caches and the
  stopped process, and how the process is resumed.
\<close>

section \<open>The stops of one process\<close>

text \<open>The stop at a call's entry or exit, when every call is traced or a call's exit was asked for.\<close>

definition syscall_exit ::
  "tenv \<Rightarrow> (pworld \<Rightarrow> int option \<times> pworld) \<Rightarrow> tstate \<Rightarrow> tsys \<Rightarrow> tstop \<Rightarrow> pworld \<Rightarrow> tstate \<times> tsys \<times> tstop \<times> pworld" where
  "syscall_exit e open_backing t y s pw =
     (if 0 \<le> st_emulated_nr t then
        (t\<lparr>st_last_emulated_nr := st_emulated_nr t, st_emulated_nr := -1\<rparr>, y, snd (set_regs (set_reg 0 (st_emulated_result t) s)), pw)
      else if st_last_nr t = 49 \<and> reg 0 s = 0 \<and> cs_pending_cwd (st_cwd t) \<noteq> [] then
        (t\<lparr>st_cwd := (st_cwd t)\<lparr>cs_guest_cwd := cs_pending_cwd (st_cwd t), cs_pending_cwd := []\<rparr>\<rparr>, y, s, pw)
      else if is_memory_trace_syscall (st_last_nr t) then
        (let (t, m) = record_memory_syscall_exit e (reg 0 s) t (sy_mem y); y = y\<lparr>sy_mem := m\<rparr> in
         if st_last_nr t = 222 then
           (let (res, p, rs, pw) = maybe_finish_managed_mmap (te_pager e) open_backing (reg 0 s) (st_mp t) (st_regions t) pw in
            (t\<lparr>st_mp := p, st_regions := rs\<rparr>, y, case res of None \<Rightarrow> s | Some v \<Rightarrow> snd (set_regs (set_reg 0 v s)), pw))
         else (t, y, s, pw))
      else (t, y, s, pw))"

definition syscall_stop ::
  "tenv \<Rightarrow> (pworld \<Rightarrow> int option \<times> pworld) \<Rightarrow> tstate \<Rightarrow> tsys \<Rightarrow> tstop \<Rightarrow> pworld \<Rightarrow> tstate \<times> tsys \<times> tstop \<times> pworld" where
  "syscall_stop e open_backing t y s pw =
     (if \<not> st_in_syscall t then
        (let (completed, t, y, s) = handle_syscall_entry e t y s in (t\<lparr>st_in_syscall := True\<rparr>, y, s, pw))
      else
        (let (t, y, s, pw) = syscall_exit e open_backing t y s pw;
             (t, s) = (if st_inval t then (t\<lparr>st_inval := False\<rparr>, s\<lparr>ts_guard := finish_path_cache_mutation (ts_guard s)\<rparr>) else (t, s))
         in (t\<lparr>st_in_syscall := False\<rparr>, y, s, pw)))"

datatype resume = Cont | ToExit

definition seccomp_stop :: "tenv \<Rightarrow> tstate \<Rightarrow> tsys \<Rightarrow> tstop \<Rightarrow> resume \<times> tstate \<times> tsys \<times> tstop" where
  "seccomp_stop e t y s =
     (let (completed, t, y, s) = handle_syscall_entry e t y s;
          t = (if completed then t\<lparr>st_in_syscall := True\<rparr> else t) in
      if st_in_syscall t \<and> 0 \<le> st_emulated_nr t then (ToExit, t, y, s)
      else if te_trace_memory e \<and> is_memory_trace_syscall (st_last_nr t) \<or> st_inval t \<or>
              st_last_nr t = 49 \<and> cs_pending_cwd (st_cwd t) \<noteq> []
      then (ToExit, t\<lparr>st_in_syscall := True\<rparr>, y, s)
      else (Cont, t, y, s))"

text \<open>\<open>SIGSYS\<close>, from a filter of the platform: the call is answered here, or the signal is delivered.\<close>

definition sigsys_result :: "tenv \<Rightarrow> int \<Rightarrow> tstate \<Rightarrow> tstop \<Rightarrow> u64 option \<times> tstate \<times> tstop" where
  "sigsys_result e nr t s =
     (let cf = te_conf e; w = te_os e; pid = st_pid t;
          noted = t\<lparr>st_last_nr := nr, st_args := (\<lambda>i. if i < 6 then reg i s else st_args t i)\<rparr> in
      if nr = 17 then (let (r, s) = emulate_getcwd cf w pid (st_cwd t) s in (Some (of_int r), noted, s))
      else if nr = 48 \<or> nr = 439 then (Some (of_int (emulate_faccessat_path cf w pid s)), noted, s)
      else if nr = 78 then
        (case emulate_proc_self_exe_readlinkat (st_cwd t) s of
           (None, s) \<Rightarrow> (None, t, s) | (Some r, s) \<Rightarrow> (Some (of_int r), noted, s))
      else case syscall_emulate_errno nr of
        Some err \<Rightarrow> (Some (of_int (- err)), noted, s)
      | None \<Rightarrow>
          (if syscall_emulate_success nr then
             (let (r, t, s) = prepare_emulated_result nr noted s in (Some r, t, s))
           else if 425 \<le> nr \<and> nr \<le> 427 then (Some (of_int (- ENOSYS)), noted, s)
           else if nr = 57 \<and> reg_int 0 s = cf_rootfs_fd cf then (Some 0, noted, s)
           else (None, t, s)))"

definition sigsys_stop :: "tenv \<Rightarrow> tstate \<Rightarrow> tstop \<Rightarrow> bool \<times> tstate \<times> tstop" where
  "sigsys_stop e t s =
     (let nr = sint (reg 8 s);
          completed_current = (nr = -1 \<and> syscall_completed_in_userland (st_last_nr t));
          early = (0 \<le> st_emulated_nr t \<or> 0 \<le> st_last_emulated_nr t \<and> syscall_completed_in_userland (st_last_emulated_nr t) \<or>
                   completed_current);
          (suppressible, t, s) =
            (if early then (True, t, s)
             else case sigsys_result e nr t s of
               (None, t, s) \<Rightarrow> (False, t, s)
             | (Some r, t, s) \<Rightarrow>
                 (let t = t\<lparr>st_emulated_result := r\<rparr>; (ok, s) = complete_emulated_syscall r s in
                  if ok then (True, t\<lparr>st_last_emulated_nr := nr, st_emulated_nr := -1, st_in_syscall := False\<rparr>, s) else (False, t, s)))
      in if \<not> suppressible then (False, t, s)
         else if 0 \<le> st_emulated_nr t then
           (True, t\<lparr>st_emulated_nr := -1, st_in_syscall := False, st_last_emulated_nr := -1\<rparr>,
            snd (set_regs (set_reg 0 (st_emulated_result t) s)))
         else if completed_current then
           (True, t\<lparr>st_in_syscall := False, st_last_emulated_nr := -1\<rparr>, snd (set_regs (set_reg 0 (st_emulated_result t) s)))
         else (True, t\<lparr>st_last_emulated_nr := -1\<rparr>, s))"

text \<open>A new process inherits its parent's credentials, program and directory.\<close>

definition inherit :: "tstate \<Rightarrow> tstate \<Rightarrow> tstate" where
  "inherit parent t =
     t\<lparr>st_uid := st_uid parent, st_euid := st_euid parent, st_suid := st_suid parent, st_gid := st_gid parent,
       st_egid := st_egid parent, st_sgid := st_sgid parent,
       st_cwd := (st_cwd t)\<lparr>cs_exec_path := cs_exec_path (st_cwd parent),
         cs_guest_cwd := (if cs_guest_cwd (st_cwd parent) \<noteq> [] then cs_guest_cwd (st_cwd parent) else ''/'')\<rparr>\<rparr>"

section \<open>The loop\<close>

record tloop =
  tl_tracees :: tracees
  tl_sys :: tsys
  tl_guard :: guard
  tl_fs :: kernel
  tl_root :: int
  tl_root_rc :: "int option"
  tl_result :: "int option"

text \<open>
  What \<open>waitpid\<close> reports. A stop comes with the process's registers and memory; \<open>Exited\<close> has the exit
  status, or 128 plus the signal that ended the process; \<open>NewChild\<close> the number of the new process,
  \<open>Fault\<close> the address and the process's pages.
\<close>

datatype tevent =
    Exited int int
  | Fault int u64 pworld
  | SyscallStop int tstop pworld
  | SigSys int tstop
  | SeccompStop int tstop
  | NewChild int int
  | OtherStop int

fun event_pid :: "tevent \<Rightarrow> int" where
  "event_pid (Exited p rc) = p"
| "event_pid (Fault p a pw) = p"
| "event_pid (SyscallStop p s pw) = p"
| "event_pid (SigSys p s) = p"
| "event_pid (SeccompStop p s) = p"
| "event_pid (NewChild p c) = p"
| "event_pid (OtherStop p) = p"

definition at_stop :: "tloop \<Rightarrow> tstop \<Rightarrow> tstop" where
  "at_stop l s = s\<lparr>ts_guard := tl_guard l, ts_fs := tl_fs l\<rparr>"

definition put_state :: "nat \<Rightarrow> tstate \<Rightarrow> tsys \<Rightarrow> tstop \<Rightarrow> tloop \<Rightarrow> tloop" where
  "put_state i t y s l = l\<lparr>tl_tracees := (tl_tracees l)[i := t], tl_sys := y, tl_guard := ts_guard s, tl_fs := ts_fs s\<rparr>"

text \<open>The event with the slot of its process.\<close>

definition event_step :: "tenv \<Rightarrow> (pworld \<Rightarrow> int option \<times> pworld) \<Rightarrow> tevent \<Rightarrow> nat \<Rightarrow> tloop \<Rightarrow> tloop" where
  "event_step e open_backing ev i l =
     (let t = tl_tracees l ! i in
      case ev of
        Exited pid rc \<Rightarrow>
          (let (ts, g) = remove_tracee (tl_tracees l) pid (tl_guard l);
               l = l\<lparr>tl_tracees := ts, tl_guard := g, tl_root_rc := (if pid = tl_root l then Some rc else tl_root_rc l)\<rparr>
           in if tl_root_rc l \<noteq> None \<and> tracee_count ts = 0 then l\<lparr>tl_result := tl_root_rc l\<rparr> else l)
      | Fault pid a pw \<Rightarrow>
          (if \<not> pc_enabled (te_pager e) then l
           else let (rc, rs, pw) = handle_managed_memory_fault a (st_regions t) pw in
             l\<lparr>tl_tracees := (tl_tracees l)[i := t\<lparr>st_regions := rs\<rparr>]\<rparr>)
      | SyscallStop pid s pw \<Rightarrow>
          (let (t, y, s, pw) = syscall_stop e open_backing t (tl_sys l) (at_stop l s) pw in put_state i t y s l)
      | SigSys pid s \<Rightarrow>
          (let (suppressed, t, s) = sigsys_stop e t (at_stop l s) in put_state i t (tl_sys l) s l)
      | SeccompStop pid s \<Rightarrow>
          (let (how, t, y, s) = seccomp_stop e t (tl_sys l) (at_stop l s) in put_state i t y s l)
      | NewChild pid child \<Rightarrow>
          (if child \<le> 0 then l
           else case add_tracee (tl_tracees l) child of
             (None, ts) \<Rightarrow> l
           | (Some j, ts) \<Rightarrow> l\<lparr>tl_tracees := ts[j := inherit (ts ! i) (ts ! j)]\<rparr>)
      | OtherStop pid \<Rightarrow> l)"

text \<open>A process that is not in the table is added; when the table is full it is killed.\<close>

definition trace_step :: "tenv \<Rightarrow> (pworld \<Rightarrow> int option \<times> pworld) \<Rightarrow> tevent \<Rightarrow> tloop \<Rightarrow> tloop" where
  "trace_step e open_backing ev l =
     (if tl_result l \<noteq> None then l
      else case add_tracee (tl_tracees l) (event_pid ev) of
        (None, ts) \<Rightarrow> l
      | (Some i, ts) \<Rightarrow> event_step e open_backing ev i (l\<lparr>tl_tracees := ts\<rparr>))"

definition trace_init :: "int \<Rightarrow> string option \<Rightarrow> tsys \<Rightarrow> guard \<Rightarrow> kernel \<Rightarrow> tloop" where
  "trace_init child initial_cwd y g k =
     (let (j, ts) = add_tracee empty_table child;
          cwd = (case initial_cwd of
                   None \<Rightarrow> ''/'' | Some c \<Rightarrow> if c = [] then ''/'' else normalize_guest_path ''/'' c PATH_MAX)
      in \<lparr>tl_tracees = ts[0 := (ts ! 0)\<lparr>st_cwd := (st_cwd (ts ! 0))\<lparr>cs_guest_cwd := cwd\<rparr>\<rparr>], tl_sys = y, tl_guard = g, tl_fs = k,
          tl_root = child, tl_root_rc = None, tl_result = None\<rparr>)"

end
