(* ===== verification/Loop_Lemmas.thy ===== *)
theory Loop_Lemmas
  imports Trace_Loop
begin

text \<open>
  What the handling of a stop keeps: the process's identity, and the balance between the mutating calls
  that are between their entry and their exit and the counter that keeps the path caches quiet.
\<close>

section \<open>Stops\<close>

abbreviation infl :: "tstop \<Rightarrow> int" where
  "infl s \<equiv> g_inflight (ts_guard s)"

lemma set_reg_guard [simp]: "ts_guard (set_reg i v s) = ts_guard s"
  by (simp add: set_reg_def)

lemma set_regs_guard [simp]: "ts_guard (snd (set_regs s)) = ts_guard s"
  by (simp add: set_regs_def)

lemma advance_guard [simp]: "ts_guard (maybe_advance_past_svc s) = ts_guard s"
  by (simp add: maybe_advance_past_svc_def)

lemma complete_guard: "complete_emulated_syscall r s = (ok, t) \<Longrightarrow> ts_guard t = ts_guard s"
  by (auto simp: complete_emulated_syscall_def Let_def set_regs_def split: if_splits)

lemma deny_guard: "deny_path_syscall v s = (rc, t) \<Longrightarrow> ts_guard t = ts_guard s"
  by (auto simp: deny_path_syscall_def Let_def dest!: complete_guard split: prod.splits)

lemma write_data_guard: "write_tracee_data a bs s = (ok, t) \<Longrightarrow> ts_guard t = ts_guard s"
  by (auto simp: write_tracee_data_def split: prod.splits)

lemma write_string_guard: "write_tracee_string a v s = (ok, t) \<Longrightarrow> ts_guard t = ts_guard s"
  by (auto simp: write_tracee_string_def dest: write_data_guard)

lemma validate_infl: "validate_at_stop cf w p f s = (rc, t) \<Longrightarrow> infl t = infl s"
  using validate_inflight[of cf w p f "ts_guard s"] by (auto simp: validate_at_stop_def split: prod.splits)

lemma put_scratch_guard: "put_scratch i off p s = (rc, t) \<Longrightarrow> ts_guard t = ts_guard s"
  by (auto simp: put_scratch_def Let_def dest!: write_string_guard split: prod.splits if_splits)

lemma relative_infl: "validate_relative_tracee_path cf w pid d p f g = (rc, g') \<Longrightarrow> g_inflight g' = g_inflight g"
  using validate_inflight[of cf w _ f g]
  by (auto simp: validate_relative_tracee_path_def split: sum.splits if_splits) (metis snd_conv)

lemmas stop_guards = complete_guard deny_guard write_data_guard write_string_guard put_scratch_guard

lemma rewrite_scratch_infl: "rewrite_path_arg_scratch cf w i off s = (rc, t) \<Longrightarrow> infl t = infl s"
  by (auto simp: rewrite_path_arg_scratch_def Let_def dest!: stop_guards validate_infl
      split: option.splits presult.splits prod.splits if_splits)

lemma rewrite_at_infl: "rewrite_at_path_arg cf w pid di pi ctx off s = (rc, t) \<Longrightarrow> infl t = infl s"
  by (auto simp: rewrite_at_path_arg_def Let_def dest!: stop_guards validate_infl relative_infl
      split: option.splits presult.splits prod.splits if_splits)

lemma rewrite_at2_infl: "rewrite_at_path_args cf w pid di1 pi1 di2 pi2 ctx s = (rc, t) \<Longrightarrow> infl t = infl s"
  by (auto simp: rewrite_at_path_args_def Let_def dest!: rewrite_at_infl split: prod.splits if_splits)

lemma rewrite_sock_infl: "rewrite_unix_sockaddr_arg cf w junk s = (rc, t) \<Longrightarrow> infl t = infl s"
  by (auto simp: rewrite_unix_sockaddr_arg_def Let_def dest!: stop_guards
      split: option.splits presult.splits prod.splits if_splits)

lemma rewrite_chdir_infl: "rewrite_chdir_arg cf w c s = (rc, c', t) \<Longrightarrow> infl t = infl s"
  by (auto simp: rewrite_chdir_arg_def rewrite_path_arg_def Let_def dest!: rewrite_scratch_infl split: prod.splits)

lemma getcwd_guard: "emulate_getcwd cf w pid c s = (r, t) \<Longrightarrow> ts_guard t = ts_guard s"
  by (auto simp: emulate_getcwd_def Let_def dest!: stop_guards split: sum.splits prod.splits if_splits)

lemma readlink_guard: "emulate_proc_self_exe_readlinkat c s = (r, t) \<Longrightarrow> ts_guard t = ts_guard s"
  by (auto simp: emulate_proc_self_exe_readlinkat_def Let_def dest!: stop_guards split: option.splits prod.splits if_splits)

lemma linkat_stop_guard: "linkat_at_stop a b f s = (r, t) \<Longrightarrow> ts_guard t = ts_guard s"
  by (auto simp: linkat_at_stop_def split: prod.splits)

lemma linkat_guard: "emulate_linkat_copy cf w pid s = (r, t) \<Longrightarrow> ts_guard t = ts_guard s"
  by (auto simp: emulate_linkat_copy_def dest!: linkat_stop_guard split: presult.splits)

lemma symlinkat_guard: "emulate_runtime_tmp_symlinkat cf w pid s = (r, t) \<Longrightarrow> ts_guard t = ts_guard s"
  by (auto simp: emulate_runtime_tmp_symlinkat_def dest!: linkat_stop_guard split: presult.splits option.splits if_splits)

lemma write_strings_guard: "write_strings c vs addrs s = (r, c', t) \<Longrightarrow> ts_guard t = ts_guard s"
  by (induction c vs addrs s rule: write_strings.induct) (auto dest!: write_string_guard split: prod.splits bool.splits)

lemma exec_build_guard: "exec_build l lp a p sc ia args s = (ok, t) \<Longrightarrow> ts_guard t = ts_guard s"
  by (auto simp: exec_build_def Let_def dest!: write_strings_guard write_data_guard split: prod.splits option.splits if_splits)

lemma exec_static_guard: "exec_static p s = (ok, t) \<Longrightarrow> ts_guard t = ts_guard s"
  by (auto simp: exec_static_def Let_def dest!: write_string_guard split: prod.splits if_splits)

text \<open>The longer definitions are taken apart with one rule per construct, the bound values generalised.\<close>

lemma let_all: "(\<And>a. a = x \<Longrightarrow> P (f a)) \<Longrightarrow> P (let a = x in f a)"
  by simp

lemma if_all: "P a \<Longrightarrow> P b \<Longrightarrow> P (if c then a else b)"
  by simp

lemma option_all: "P a \<Longrightarrow> (\<And>v. x = Some v \<Longrightarrow> P (f v)) \<Longrightarrow> P (case x of None \<Rightarrow> a | Some v \<Rightarrow> f v)"
  by (cases x) auto

lemma pair_all: "(\<And>a b. x = (a, b) \<Longrightarrow> P (f a b)) \<Longrightarrow> P (case x of (a, b) \<Rightarrow> f a b)"
  by (cases x) auto

lemma exec_with_guard: "ts_guard (snd (snd (snd (exec_with_target cf w l lp j orig ov target c x s)))) = ts_guard s"
  unfolding exec_with_target_def
  by (intro let_all[where P = "\<lambda>r. ts_guard (snd (snd (snd r))) = ts_guard s"] if_all[where P = "\<lambda>r. ts_guard (snd (snd (snd r))) = ts_guard s"]
      option_all[where P = "\<lambda>r. ts_guard (snd (snd (snd r))) = ts_guard s"] pair_all[where P = "\<lambda>r. ts_guard (snd (snd (snd r))) = ts_guard s"])
    (auto dest: exec_build_guard[OF sym] exec_static_guard[OF sym])

lemma exec_target_infl: "exec_target cf w pid l j orig g = (r, g') \<Longrightarrow> g_inflight g' = g_inflight g"
  by (auto simp: exec_target_def Let_def dest!: relative_infl split: presult.splits prod.splits if_splits sum.splits option.splits)

lemma execve_infl: "infl (snd (snd (snd (rewrite_execve_arg cf w pid l lp j aj c x s)))) = infl s"
  unfolding rewrite_execve_arg_def
  by (intro let_all[where P = "\<lambda>r. infl (snd (snd (snd r))) = infl s"] if_all[where P = "\<lambda>r. infl (snd (snd (snd r))) = infl s"]
      option_all[where P = "\<lambda>r. infl (snd (snd (snd r))) = infl s"] pair_all[where P = "\<lambda>r. infl (snd (snd (snd r))) = infl s"])
    (auto dest: exec_target_infl simp: exec_with_guard)

lemma write_u32_guard [simp]: "ts_guard (snd (write_tracee_u32 a v s)) = ts_guard s"
  by (auto simp: write_tracee_u32_def Let_def dest!: write_data_guard split: prod.splits option.splits)


section \<open>The entry of a call\<close>

text \<open>
  What handling keeps of a process and its stop: the number, that it is followed, and the counter less
  the process's own share in it.
\<close>

definition share :: "tstate \<Rightarrow> int" where
  "share t = (if st_inval t then 1 else 0)"

definition balanced :: "tstate \<Rightarrow> tstop \<Rightarrow> tstate \<Rightarrow> tstop \<Rightarrow> bool" where
  "balanced t s t' s' \<longleftrightarrow> st_pid t' = st_pid t \<and> st_active t' = st_active t \<and> infl s' - share t' = infl s - share t"

definition quiet :: "tstate \<Rightarrow> tstop \<Rightarrow> tstate \<Rightarrow> tstop \<Rightarrow> bool" where
  "quiet t s t' s' \<longleftrightarrow> st_pid t' = st_pid t \<and> st_active t' = st_active t \<and> st_inval t' = st_inval t \<and>
     st_last_nr t' = st_last_nr t \<and> infl s' = infl s"

lemma quiet_balanced: "quiet t s t' s' \<Longrightarrow> balanced t s t' s'"
  by (simp add: quiet_def balanced_def share_def)

lemma quiet_refl [simp]: "quiet t s t s"
  by (simp add: quiet_def)

lemma quiet_trans: "quiet t s u v \<Longrightarrow> quiet u v t' s' \<Longrightarrow> quiet t s t' s'"
  by (simp add: quiet_def)

lemma balanced_trans: "balanced t s u v \<Longrightarrow> balanced u v t' s' \<Longrightarrow> balanced t s t' s'"
  by (simp add: balanced_def)

lemma answer_quiet: "answer_syscall r t s = (ok, t', s') \<Longrightarrow> quiet t s t' s'"
  by (auto simp: answer_syscall_def Let_def quiet_def dest!: complete_guard split: prod.splits if_splits)

lemma guard_quiet: "maybe_guard_memory_syscall e t y s = (ok, t', y', s') \<Longrightarrow> quiet t s t' s'"
  by (auto simp: maybe_guard_memory_syscall_def Let_def dest!: answer_quiet split: prod.splits option.splits if_splits)

lemma prepare_result_quiet: "prepare_emulated_result nr t s = (r, t', s') \<Longrightarrow> quiet t s t' s'"
  unfolding prepare_emulated_result_def Let_def quiet_def by (auto split: if_splits)

lemma forced_guard: "forced_result e t s = (r, s') \<Longrightarrow> ts_guard s' = ts_guard s"
  by (auto simp: forced_result_def Let_def map_prod_def dest!: getcwd_guard readlink_guard linkat_guard symlinkat_guard
      split: prod.splits if_splits)

lemma paths_quiet: "rewrite_syscall_paths e nr t y s = (rc, t', y', s') \<Longrightarrow> quiet t s t' s'"
  using execve_infl[of "te_conf e" "te_os e" "st_pid t" "te_loader e" "te_libpath e" "te_target_junk e" "te_argv0_junk e" "st_cwd t" "sy_files y" s]
  by (auto simp: rewrite_syscall_paths_def rewrite_path_arg_def quiet_def Let_def
      dest!: rewrite_scratch_infl rewrite_at_infl rewrite_at2_infl rewrite_sock_infl rewrite_chdir_infl split: prod.splits if_splits)

lemma unforced_quiet: "unforced_call e t y s = (ok, t', y', s') \<Longrightarrow> quiet t s t' s'"
proof -
  assume run: "unforced_call e t y s = (ok, t', y', s')"
  obtain rw t1 y1 s1 where r: "rewrite_syscall_paths e (st_last_nr t) t y s = (rw, t1, y1, s1)" by (metis prod_cases4)
  note q1 = paths_quiet[OF r]
  show ?thesis
  proof (cases "syscall_emulate_errno (st_last_nr t1)")
    case (Some err)
    with run r have "\<exists>ok. answer_syscall (of_int (- err)) t1 s1 = (ok, t', s')"
      by (auto simp: unforced_call_def Let_def syscall_remap_number_def split: prod.splits)
    then show ?thesis using quiet_trans[OF q1] answer_quiet by blast
  next
    case None
    show ?thesis
    proof (cases "syscall_emulate_success (st_last_nr t1)")
      case True
      obtain v t2 s2 where p: "prepare_emulated_result (st_last_nr t1) t1 s1 = (v, t2, s2)" by (metis prod_cases3)
      with run r None True have "\<exists>ok. answer_syscall v t2 s2 = (ok, t', s')"
        by (auto simp: unforced_call_def Let_def syscall_remap_number_def split: prod.splits)
      then show ?thesis using quiet_trans[OF quiet_trans[OF q1 prepare_result_quiet[OF p]]] answer_quiet by blast
    next
      case False
      with run r None have "t' = t1" "ts_guard s' = ts_guard s1"
        by (auto simp: unforced_call_def Let_def syscall_remap_number_def split: if_splits)
      with q1 show ?thesis by (simp add: quiet_def)
    qed
  qed
qed

lemma begin_balanced: "begin_call t s = (t', s') \<Longrightarrow> \<not> st_inval t \<Longrightarrow> balanced t s t' s' \<and>
   (path_syscall_invalidates_cache (st_last_nr t') \<longrightarrow> st_inval t')"
  by (auto simp: begin_call_def Let_def balanced_def share_def split: if_splits)

lemma prepare_mmap_quiet: "prepare_mmap e t s = (t', s') \<Longrightarrow> quiet t s t' s'"
  by (auto simp: prepare_mmap_def quiet_def Let_def split: prod.splits if_splits option.splits)


lemma dispatch_quiet:
  assumes "dispatch_call e gd t y s = (c, t', y', s')"
  shows "quiet t s t' s'"
proof (cases gd)
  case True
  with assms show ?thesis by (simp add: dispatch_call_def)
next
  case False
  obtain r s1 where fr: "forced_result e t s = (r, s1)" by fastforce
  then have q: "quiet t s t s1" using forced_guard[OF fr] by (simp add: quiet_def)
  show ?thesis
  proof (cases r)
    case None
    with assms False fr have "unforced_call e t y s1 = (c, t', y', s')" by (simp add: dispatch_call_def)
    from quiet_trans[OF q unforced_quiet[OF this]] show ?thesis .
  next
    case (Some v)
    with assms False fr have "answer_syscall v t s1 = (c, t', s')" by (auto simp: dispatch_call_def split: prod.splits)
    from quiet_trans[OF q answer_quiet[OF this]] show ?thesis .
  qed
qed

lemma entry_steps:
  assumes "handle_syscall_entry e t y s = (ok, t', y', s')"
  obtains t1 s1 t2 s2 gd t3 y3 s3 t4 s4 where "begin_call t s = (t1, s1)" "prepare_mmap e t1 s1 = (t2, s2)"
    "guard_call e t2 y s2 = (gd, t3, y3, s3)" "dispatch_call e gd t3 y3 s3 = (ok, t4, y', s4)" "close_call ok t4 s4 = (t', s')"
  using assms unfolding handle_syscall_entry_def by (auto split: prod.splits)

lemma entry_balanced:
  assumes run: "handle_syscall_entry e t y s = (ok, t', y', s')" and no: "\<not> st_inval t" and nonneg: "0 \<le> infl s"
  shows "balanced t s t' s'"
proof (rule entry_steps[OF run])
  fix t1 s1 t2 s2 gd t3 y3 s3 t4 s4
  assume b: "begin_call t s = (t1, s1)" and p: "prepare_mmap e t1 s1 = (t2, s2)" and g: "guard_call e t2 y s2 = (gd, t3, y3, s3)"
    and d: "dispatch_call e gd t3 y3 s3 = (ok, t4, y', s4)" and c: "close_call ok t4 s4 = (t', s')"
  note b1 = begin_balanced[OF b no]
  have "quiet t2 s2 t3 s3" using g by (auto simp: guard_call_def split: if_splits dest: guard_quiet)
  from quiet_trans[OF quiet_trans[OF prepare_mmap_quiet[OF p] this] dispatch_quiet[OF d]] have q: "quiet t1 s1 t4 s4" .
  show ?thesis
    using c b1 q nonneg no by (auto simp: close_call_def balanced_def quiet_def share_def split: if_splits)
qed


section \<open>The stops\<close>

lemma syscall_exit_quiet: "syscall_exit e ob t y s pw = (t', y', s', pw') \<Longrightarrow> quiet t s t' s'"
  by (auto simp: syscall_exit_def record_memory_syscall_exit_def quiet_def Let_def split: if_splits prod.splits option.splits)

lemma syscall_stop_balanced:
  assumes run: "syscall_stop e ob t y s pw = (t', y', s', pw')" and "st_in_syscall t \<or> \<not> st_inval t" "share t \<le> infl s"
  shows "balanced t s t' s'"
proof (cases "st_in_syscall t")
  case False
  obtain c t1 y1 s1 where h: "handle_syscall_entry e t y s = (c, t1, y1, s1)" by (metis prod_cases4)
  have "balanced t s t1 s1" using assms(2,3) False by (intro entry_balanced[OF h]) (auto simp: share_def)
  with run h False show ?thesis by (auto simp: syscall_stop_def balanced_def share_def)
next
  case True
  obtain t1 y1 s1 pw1 where h: "syscall_exit e ob t y s pw = (t1, y1, s1, pw1)" by (metis prod_cases4)
  from syscall_exit_quiet[OF h] run h True assms(3) show ?thesis
    by (auto simp: syscall_stop_def balanced_def quiet_def share_def Let_def split: if_splits)
qed

lemma seccomp_stop_balanced:
  assumes run: "seccomp_stop e t y s = (how, t', y', s')" and "\<not> st_inval t" "0 \<le> infl s"
  shows "balanced t s t' s'"
proof -
  obtain c t1 y1 s1 where h: "handle_syscall_entry e t y s = (c, t1, y1, s1)" by (metis prod_cases4)
  have "balanced t s t1 s1" using assms(2,3) by (intro entry_balanced[OF h])
  with run h show ?thesis by (auto simp: seccomp_stop_def balanced_def share_def Let_def split: if_splits)
qed

definition same_process :: "tstate \<Rightarrow> tstop \<Rightarrow> tstate \<Rightarrow> tstop \<Rightarrow> bool" where
  "same_process t s t' s' \<longleftrightarrow> st_pid t' = st_pid t \<and> st_active t' = st_active t \<and> st_inval t' = st_inval t \<and> infl s' = infl s"

lemma same_balanced: "same_process t s t' s' \<Longrightarrow> balanced t s t' s'"
  by (simp add: same_process_def balanced_def share_def)

lemma sigsys_result_same: "sigsys_result e nr t s = (r, t', s') \<Longrightarrow> same_process t s t' s'"
  by (auto simp: sigsys_result_def same_process_def Let_def quiet_def
      dest!: getcwd_guard readlink_guard prepare_result_quiet split: prod.splits if_splits option.splits)

lemma sigsys_balanced: "sigsys_stop e t s = (su, t', s') \<Longrightarrow> balanced t s t' s'"
proof -
  assume run: "sigsys_stop e t s = (su, t', s')"
  let ?nr = "sint (reg 8 s)"
  obtain r t1 s1 where r: "sigsys_result e ?nr t s = (r, t1, s1)" by (metis prod_cases3)
  note same = sigsys_result_same[OF r]
  show ?thesis
  proof (cases r)
    case None
    with run r same show ?thesis
      by (auto simp: sigsys_stop_def Let_def balanced_def share_def same_process_def split: if_splits)
  next
    case (Some v)
    obtain ok s2 where c: "complete_emulated_syscall v s1 = (ok, s2)" by fastforce
    from complete_guard[OF c] run r Some c same show ?thesis
      by (auto simp: sigsys_stop_def Let_def balanced_def share_def same_process_def split: if_splits)
  qed
qed

section \<open>The table\<close>

lemma first_index_Some: "first_index P xs = Some i \<Longrightarrow> i < length xs \<and> P (xs ! i) \<and> (\<forall>j < i. \<not> P (xs ! j))"
  by (induction xs arbitrary: i) (auto simp: less_Suc_eq_0_disj split: if_splits)

lemma first_index_None: "first_index P xs = None \<longleftrightarrow> (\<forall>x\<in>set xs. \<not> P x)"
  by (induction xs) auto

definition table_ok :: "tracees \<Rightarrow> bool" where
  "table_ok ts \<longleftrightarrow> length ts = MAX_TRACEES \<and>
     (\<forall>i < length ts. \<forall>j < length ts. st_active (ts ! i) \<and> st_active (ts ! j) \<and> st_pid (ts ! i) = st_pid (ts ! j) \<longrightarrow> i = j)"

definition pend :: "tracees \<Rightarrow> int" where
  "pend ts = sum_list (map (\<lambda>t. if st_active t then share t else 0) ts)"

lemma sum_update:
  fixes f :: "'a \<Rightarrow> int"
  shows "i < length xs \<Longrightarrow> sum_list (map f (xs[i := x])) = sum_list (map f xs) - f (xs ! i) + f x"
  by (induction xs arbitrary: i) (auto split: nat.splits)

lemma pend_update: "i < length ts \<Longrightarrow> pend (ts[i := t]) =
   pend ts - (if st_active (ts ! i) then share (ts ! i) else 0) + (if st_active t then share t else 0)"
  unfolding pend_def by (rule sum_update)

lemma share_bounds: "0 \<le> share t" "share t \<le> 1"
  by (auto simp: share_def)

lemma new_tstate_fields [simp]: "st_active (new_tstate p)" "st_pid (new_tstate p) = p" "\<not> st_inval (new_tstate p)"
  by (simp_all add: new_tstate_def zero_tstate_def)

lemma zero_tstate_fields [simp]: "\<not> st_active zero_tstate" "\<not> st_inval zero_tstate"
  by (simp_all add: zero_tstate_def)

lemma pend_share: "i < length ts \<Longrightarrow> st_active (ts ! i) \<Longrightarrow> share (ts ! i) \<le> pend ts"
proof -
  assume a: "i < length ts" "st_active (ts ! i)"
  have "0 \<le> pend (ts[i := zero_tstate])" by (auto simp: pend_def share_def intro!: sum_list_nonneg)
  with a show ?thesis by (simp add: pend_update)
qed

lemma table_update:
  assumes "table_ok ts" "i < length ts" "st_active t = st_active (ts ! i)" "st_pid t = st_pid (ts ! i)"
  shows "table_ok (ts[i := t])"
proof -
  have "st_active (ts[i := t] ! k) = st_active (ts ! k) \<and> st_pid (ts[i := t] ! k) = st_pid (ts ! k)" if "k < length ts" for k
    using assms that by (simp add: nth_list_update)
  with assms(1) show ?thesis by (simp add: table_ok_def)
qed

lemma add_tracee_ok:
  assumes ok: "table_ok ts" and add: "add_tracee ts pid = (Some i, ts')"
  shows "table_ok ts' \<and> i < length ts' \<and> st_active (ts' ! i) \<and> st_pid (ts' ! i) = pid \<and> pend ts' = pend ts \<and>
    (ts' ! i \<in> set ts \<or> ts' ! i = new_tstate pid) \<and> (\<forall>j < length ts. st_active (ts ! j) \<longrightarrow> ts' ! j = ts ! j)"
proof (cases "find_tracee ts pid")
  case (Some j)
  with add ok first_index_Some[OF Some[unfolded find_tracee_def]] show ?thesis by (auto simp: add_tracee_def)
next
  case None
  then have free: "\<forall>t\<in>set ts. \<not> (st_active t \<and> st_pid t = pid)" by (simp add: find_tracee_def first_index_None)
  from add None obtain j where j: "first_index (\<lambda>t. \<not> st_active t) ts = Some j" and e: "i = j" "ts' = ts[j := new_tstate pid]"
    by (auto simp: add_tracee_def split: option.splits)
  note lt = first_index_Some[OF j]
  have "pend ts' = pend ts" using lt by (simp add: e pend_update share_def)
  moreover have "table_ok ts'" using ok lt free by (auto simp: table_ok_def e nth_list_update all_set_conv_all_nth)
  ultimately show ?thesis using lt by (auto simp: e nth_list_update)
qed

lemma remove_tracee_ok:
  assumes ok: "table_ok ts" and fl: "g_inflight g = pend ts" and rm: "remove_tracee ts pid g = (ts', g')"
  shows "table_ok ts' \<and> g_inflight g' = pend ts'"
proof (cases "find_tracee ts pid")
  case None
  with assms show ?thesis by (simp add: remove_tracee_def)
next
  case (Some i)
  note i = first_index_Some[OF Some[unfolded find_tracee_def]]
  from i ok have "table_ok (ts[i := zero_tstate])" by (auto simp: table_ok_def nth_list_update)
  moreover have "pend (ts[i := zero_tstate]) = pend ts - share (ts ! i)" using i by (simp add: pend_update)
  ultimately show ?thesis using rm Some fl pend_share[of i ts] i by (auto simp: remove_tracee_def share_def split: if_splits)
qed

section \<open>The invariant of the loop\<close>

definition loop_inv :: "tloop \<Rightarrow> bool" where
  "loop_inv l \<longleftrightarrow> table_ok (tl_tracees l) \<and> g_inflight (tl_guard l) = pend (tl_tracees l)"

text \<open>
  What the kernel's reports are assumed to satisfy: a process does not enter a call while a mutating call
  of its own is under way.
\<close>

definition no_nested_entry :: "tloop \<Rightarrow> tevent \<Rightarrow> bool" where
  "no_nested_entry l ev =
     (\<forall>t\<in>set (tl_tracees l). st_active t \<and> st_pid t = event_pid ev \<longrightarrow>
        (case ev of SeccompStop p s \<Rightarrow> \<not> st_inval t | SyscallStop p s pw \<Rightarrow> st_in_syscall t \<or> \<not> st_inval t | _ \<Rightarrow> True))"

lemma put_state_inv:
  assumes inv: "loop_inv l" and i: "i < length (tl_tracees l)" "st_active (tl_tracees l ! i)"
    and bal: "balanced (tl_tracees l ! i) (at_stop l s) t' s'"
  shows "loop_inv (put_state i t' y s' l)"
  using assms table_update[of "tl_tracees l" i t'] pend_update[of i "tl_tracees l" t']
  by (auto simp: loop_inv_def put_state_def balanced_def at_stop_def)

lemma event_step_inv:
  assumes inv: "loop_inv l" and i: "i < length (tl_tracees l)" "st_active (tl_tracees l ! i)"
    and ok: "case ev of SeccompStop p s \<Rightarrow> \<not> st_inval (tl_tracees l ! i)
      | SyscallStop p s pw \<Rightarrow> st_in_syscall (tl_tracees l ! i) \<or> \<not> st_inval (tl_tracees l ! i) | _ \<Rightarrow> True"
  shows "loop_inv (event_step e ob ev i l)"
proof (cases ev)
  case (Exited p rc)
  obtain ts g where r: "remove_tracee (tl_tracees l) p (tl_guard l) = (ts, g)" by fastforce
  with remove_tracee_ok[OF _ _ r] inv show ?thesis by (simp add: Exited event_step_def loop_inv_def Let_def)
next
  case (Fault p a pw)
  with inv i table_update[of "tl_tracees l" i] pend_update[of i "tl_tracees l"] show ?thesis
    by (auto simp: event_step_def loop_inv_def Let_def share_def split: prod.splits)
next
  case (SyscallStop p s pw)
  obtain t' y' s' pw' where r: "syscall_stop e ob (tl_tracees l ! i) (tl_sys l) (at_stop l s) pw = (t', y', s', pw')" by (metis prod_cases4)
  have "balanced (tl_tracees l ! i) (at_stop l s) t' s'"
    using ok SyscallStop inv pend_share[OF i] by (intro syscall_stop_balanced[OF r]) (auto simp: at_stop_def loop_inv_def)
  from put_state_inv[OF inv i this] r show ?thesis by (simp add: SyscallStop event_step_def Let_def)
next
  case (SigSys p s)
  obtain su t' s' where r: "sigsys_stop e (tl_tracees l ! i) (at_stop l s) = (su, t', s')" by (metis prod_cases3)
  from put_state_inv[OF inv i sigsys_balanced[OF r]] r show ?thesis by (simp add: SigSys event_step_def Let_def)
next
  case (SeccompStop p s)
  obtain how t' y' s' where r: "seccomp_stop e (tl_tracees l ! i) (tl_sys l) (at_stop l s) = (how, t', y', s')" by (metis prod_cases4)
  have "balanced (tl_tracees l ! i) (at_stop l s) t' s'"
    using ok SeccompStop inv pend_share[OF i] share_bounds(1)[of "tl_tracees l ! i"]
    by (intro seccomp_stop_balanced[OF r]) (auto simp: at_stop_def loop_inv_def)
  from put_state_inv[OF inv i this] r show ?thesis by (simp add: SeccompStop event_step_def Let_def)
next
  case (NewChild p c)
  show ?thesis
  proof (cases "0 < c")
    case True
    obtain r ts where a: "add_tracee (tl_tracees l) c = (r, ts)" by fastforce
    show ?thesis
    proof (cases r)
      case None
      with a inv True show ?thesis by (simp add: NewChild event_step_def Let_def)
    next
      case (Some j)
      with add_tracee_ok[of "tl_tracees l" c j ts] a inv have ts: "table_ok ts" "j < length ts" "pend ts = pend (tl_tracees l)"
        by (auto simp: loop_inv_def)
      have "table_ok (ts[j := inherit (ts ! i) (ts ! j)])" "pend (ts[j := inherit (ts ! i) (ts ! j)]) = pend ts"
        using ts table_update[OF ts(1,2), of "inherit (ts ! i) (ts ! j)"] by (auto simp: inherit_def pend_update share_def)
      with a Some ts inv True show ?thesis by (simp add: NewChild event_step_def Let_def loop_inv_def)
    qed
  qed (use inv in \<open>simp add: NewChild event_step_def Let_def\<close>)
qed (use inv in \<open>simp add: event_step_def Let_def\<close>)

lemma trace_step_inv:
  assumes inv: "loop_inv l" and ok: "no_nested_entry l ev"
  shows "loop_inv (trace_step e ob ev l)"
proof -
  obtain r ts where a: "add_tracee (tl_tracees l) (event_pid ev) = (r, ts)" by fastforce
  show ?thesis
  proof (cases "tl_result l = None \<and> r \<noteq> None")
    case False
    with a inv show ?thesis by (auto simp: trace_step_def split: option.splits)
  next
    case True
    then obtain i where i: "r = Some i" by blast
    note add = add_tracee_ok[of "tl_tracees l" "event_pid ev" i ts]
    have t: "table_ok ts" "i < length ts" "st_active (ts ! i)" "pend ts = pend (tl_tracees l)" "st_pid (ts ! i) = event_pid ev"
      "ts ! i \<in> set (tl_tracees l) \<or> ts ! i = new_tstate (event_pid ev)"
      using add a i inv by (auto simp: loop_inv_def)
    have "loop_inv (event_step e ob ev i (l\<lparr>tl_tracees := ts\<rparr>))"
      using t ok inv by (intro event_step_inv) (auto simp: loop_inv_def no_nested_entry_def split: tevent.splits)
    with True a i show ?thesis by (auto simp: trace_step_def)
  qed
qed

interpretation trace_run: guarded_system "trace_step e ob" no_nested_entry loop_inv "\<lambda>l l'. True"
  by unfold_locales (auto intro: trace_step_inv)

lemma pend_empty [simp]: "pend (replicate n zero_tstate) = 0"
  by (simp add: pend_def sum_list_replicate)

lemma initial_slot:
  "table_ok ts \<Longrightarrow> 0 < length ts \<Longrightarrow> pend ts = 0 \<Longrightarrow>
   table_ok (ts[0 := (ts ! 0)\<lparr>st_cwd := c\<rparr>]) \<and> pend (ts[0 := (ts ! 0)\<lparr>st_cwd := c\<rparr>]) = 0"
  using table_update[of ts 0 "(ts ! 0)\<lparr>st_cwd := c\<rparr>"] pend_update[of 0 ts "(ts ! 0)\<lparr>st_cwd := c\<rparr>"] by (simp add: share_def)

lemma trace_init_inv: "g_inflight g = 0 \<Longrightarrow> loop_inv (trace_init child cwd y g k)"
proof -
  assume g: "g_inflight g = 0"
  have e: "table_ok empty_table" by (simp add: table_ok_def empty_table_def)
  have "find_tracee empty_table child = None" by (simp add: find_tracee_def first_index_None empty_table_def)
  moreover have "first_index (\<lambda>t. \<not> st_active t) empty_table = Some 0" by (simp add: empty_table_def MAX_TRACEES_def numeral_eq_Suc)
  ultimately have a: "add_tracee empty_table child = (Some 0, empty_table[0 := new_tstate child])" by (simp add: add_tracee_def)
  have "pend empty_table = 0" by (simp add: empty_table_def)
  with add_tracee_ok[OF e a] obtain ts where ts: "add_tracee empty_table child = (Some 0, ts)" "table_ok ts" "0 < length ts" "pend ts = 0"
    using a by metis
  note slot = initial_slot[OF ts(2-4)]
  show ?thesis using g slot unfolding trace_init_def ts(1) by (simp only: prod.case Let_def) (simp add: loop_inv_def)
qed

end
