(* ===== verification/Loop_Theorems.thy ===== *)
theory Loop_Theorems
  imports Loop_Lemmas Pager_Theorems
begin

text \<open>The properties of the filter, of the handling of one call, and of the tracer's loop.\<close>

section \<open>Helpers\<close>

lemma complete_runs_nothing:
  "complete_emulated_syscall r s = (True, t) \<Longrightarrow> ts_knr t = -1 \<and> ur_x (ts_kregs t) 0 = r"
  by (auto simp: complete_emulated_syscall_def Let_def set_regs_def set_reg_def maybe_advance_past_svc_def split: if_splits)

lemma answered:
  "answer_syscall r t s = (True, t', s') \<Longrightarrow> ts_knr s' = -1 \<and> ur_x (ts_kregs s') 0 = st_emulated_result t' \<and> st_emulated_nr t' = st_last_nr t"
  by (auto simp: answer_syscall_def Let_def dest: complete_runs_nothing split: prod.splits)

lemma guard_answered:
  "maybe_guard_memory_syscall e t y s = (True, t', y', s') \<Longrightarrow>
   ts_knr s' = -1 \<and> ur_x (ts_kregs s') 0 = st_emulated_result t' \<and> st_emulated_nr t' = st_last_nr t"
  by (auto simp: maybe_guard_memory_syscall_def Let_def dest: answered split: prod.splits option.splits if_splits)

lemma unforced_answered:
  assumes "unforced_call e t y s = (True, t', y', s')"
  shows "ts_knr s' = -1 \<and> ur_x (ts_kregs s') 0 = st_emulated_result t' \<and> st_emulated_nr t' = st_last_nr t"
proof -
  obtain rw t1 y1 s1 where r: "rewrite_syscall_paths e (st_last_nr t) t y s = (rw, t1, y1, s1)" by (metis prod_cases4)
  have l1: "st_last_nr t1 = st_last_nr t" using paths_quiet[OF r] by (simp add: quiet_def)
  show ?thesis
  proof (cases "syscall_emulate_errno (st_last_nr t1)")
    case (Some err)
    with assms r have "answer_syscall (of_int (- err)) t1 s1 = (True, t', s')"
      by (auto simp: unforced_call_def Let_def syscall_remap_number_def split: prod.splits)
    from answered[OF this] l1 show ?thesis by simp
  next
    case None
    obtain v t2 s2 where p: "prepare_emulated_result (st_last_nr t1) t1 s1 = (v, t2, s2)" by (metis prod_cases3)
    have "st_last_nr t2 = st_last_nr t" using prepare_result_quiet[OF p] l1 by (simp add: quiet_def)
    moreover have "answer_syscall v t2 s2 = (True, t', s')"
      using assms r None p by (auto simp: unforced_call_def Let_def syscall_remap_number_def split: prod.splits if_splits)
    ultimately show ?thesis using answered by simp
  qed
qed

lemma dispatch_answered:
  assumes "dispatch_call e False t y s = (True, t', y', s')"
  shows "ts_knr s' = -1 \<and> ur_x (ts_kregs s') 0 = st_emulated_result t' \<and> st_emulated_nr t' = st_last_nr t"
proof -
  obtain r s1 where f: "forced_result e t s = (r, s1)" by fastforce
  with assms show ?thesis
    by (cases r) (auto simp: dispatch_call_def dest: answered unforced_answered split: prod.splits)
qed

lemma distinct_filter_map:
  "(\<And>i j. i < length xs \<Longrightarrow> j < length xs \<Longrightarrow> P (xs ! i) \<Longrightarrow> P (xs ! j) \<Longrightarrow> f (xs ! i) = f (xs ! j) \<Longrightarrow> i = j) \<Longrightarrow>
   distinct (map f (filter P xs))"
proof (induction xs)
  case (Cons x xs)
  have "distinct (map f (filter P xs))"
    by (rule Cons.IH) (use Cons.prems[of "Suc _" "Suc _"] in force)
  moreover have "f x \<notin> f ` set (filter P xs)" if "P x"
  proof
    assume "f x \<in> f ` set (filter P xs)"
    then obtain j where "j < length xs" "P (xs ! j)" "f x = f (xs ! j)" by (auto simp: in_set_conv_nth)
    with Cons.prems[of 0 "Suc j"] that show False by simp
  qed
  ultimately show ?case by simp
qed simp

lemma table_distinct: "table_ok ts \<Longrightarrow> distinct (map st_pid (filter st_active ts))"
  by (rule distinct_filter_map) (auto simp: table_ok_def)

section \<open>A sample call\<close>

definition sample_tenv :: tenv where
  "sample_tenv = \<lparr>te_conf = \<lparr>cf_rootfs = ''/r'', cf_binds = [], cf_rootfd_rewrite = False, cf_rootfs_fd = -1, cf_cache = True\<rparr>,
     te_os = \<lparr>os_realpath = Inr, os_access = (\<lambda>_ _. 0), os_readlink = (\<lambda>_. Inr ''/r''), os_tty = False\<rparr>,
     te_loader = ''/l'', te_libpath = ''/p'', te_target_junk = [], te_argv0_junk = [], te_sock_junk = [],
     te_trace_memory = False, te_threshold = 0, te_memory_guard = True, te_min_request = 100, te_min_available = 1000, te_min_swap = 0,
     te_meminfo = Some (1050, 0),
     te_pager = \<lparr>pc_enabled = False, pc_min_request = 0, pc_max_region = 0, pc_resident_pages = 0, pc_page_size = 4096\<rparr>\<rparr>"

definition sample_call :: "u64 \<Rightarrow> (nat \<Rightarrow> u64) \<Rightarrow> tstop" where
  "sample_call nr args =
     (let regs = \<lparr>ur_x = (\<lambda>i. if i = 8 then nr else args i), ur_sp = 65536, ur_pc = 0\<rparr> in
      \<lparr>ts_regs = regs, ts_kregs = regs, ts_knr = sint nr,
        ts_vm = \<lparr>vm_byte = (\<lambda>_. NUL), vm_rlen = (\<lambda>_ n. Some n), vm_wlen = (\<lambda>_ n. Some n), vm_peek = (\<lambda>_. False), vm_errno = 14\<rparr>,
        ts_guard = guard_init, ts_fs = undefined, ts_setnr_ok = True, ts_setregs_ok = True\<rparr>)"

definition sample_tsys :: tsys where
  "sample_tsys = \<lparr>sy_files = \<lparr>xf_file = (\<lambda>_. None), xf_append = (\<lambda>_. False), xf_env = (\<lambda>_. None), xf_realloc = (\<lambda>_. True)\<rparr>, sy_mem = undefined\<rparr>"

lemma complete_succeeds:
  assumes "ts_setnr_ok s" "ts_setregs_ok s"
  shows "\<exists>t. complete_emulated_syscall r s = (True, t)"
  using assms by (cases "read_tracee_u32 (ts_vm s) (ur_pc (ts_regs s)) = Some 0xd4000001")
    (simp_all add: complete_emulated_syscall_def set_regs_def set_reg_def maybe_advance_past_svc_def Let_def)

lemma answer_succeeds: "ts_setnr_ok s \<Longrightarrow> ts_setregs_ok s \<Longrightarrow> \<exists>t' s'. answer_syscall r t s = (True, t', s')"
  using complete_succeeds[of s r] by (auto simp: answer_syscall_def)

lemma sample_getuid:
  "\<exists>t' s'. handle_syscall_entry sample_tenv (new_tstate 5) sample_tsys (sample_call 174 (\<lambda>_. 0)) = (True, t', sample_tsys, s')"
proof -
  let ?t = "(new_tstate 5)\<lparr>st_last_nr := 174, st_args := (\<lambda>i. if i < 6 then reg i (sample_call 174 (\<lambda>_. 0)) else st_args (new_tstate 5) i)\<rparr>"
  let ?s = "sample_call 174 (\<lambda>_. 0)"
  have b: "begin_call (new_tstate 5) ?s = (?t, ?s)"
    by (simp add: begin_call_def Let_def path_syscall_invalidates_cache_def) (simp add: sample_call_def reg_def Let_def)
  have p: "prepare_mmap sample_tenv ?t ?s = (?t, ?s)" by (simp add: prepare_mmap_def)
  have g: "guard_call sample_tenv ?t sample_tsys ?s = (False, ?t, sample_tsys, ?s)"
    by (simp add: guard_call_def maybe_guard_memory_syscall_def is_memory_trace_syscall_def)
  have "ts_setnr_ok ?s" "ts_setregs_ok ?s" by (simp_all add: sample_call_def Let_def)
  then obtain t' s' where a: "answer_syscall (st_uid ?t) ?t ?s = (True, t', s')"
    using answer_succeeds by blast
  have n: "st_last_nr t' = 174" using answer_quiet[OF a] by (simp add: quiet_def)
  have d: "dispatch_call sample_tenv False ?t sample_tsys ?s = (True, t', sample_tsys, s')"
    using a by (simp add: dispatch_call_def forced_result_def unforced_call_def rewrite_syscall_paths_def path_calls_def at_calls_def
        syscall_remap_number_def syscall_emulate_errno_def syscall_emulate_success_def prepare_emulated_result_def Let_def)
  have c: "close_call True t' s' = (t', s')" using n by (simp add: close_call_def path_syscall_invalidates_cache_def)
  show ?thesis by (simp add: handle_syscall_entry_def b p g d c)
qed

text \<open>A process 5 and its child 6, which has changed to \<open>/x\<close>.\<close>

definition sample_two_table :: tracees where
  "sample_two_table = empty_table[0 := new_tstate 5, 1 := (new_tstate 6)\<lparr>st_cwd := \<lparr>cs_guest_cwd = ''/x'', cs_pending_cwd = [], cs_exec_path = []\<rparr>\<rparr>]"

lemma sample_two_facts:
  "table_ok sample_two_table" "find_tracee sample_two_table 5 = Some 0" "find_tracee sample_two_table 6 = Some 1"
  "cs_guest_cwd (st_cwd (sample_two_table ! 0)) = ''/''"
proof -
  show "table_ok sample_two_table"
    by (auto simp: table_ok_def sample_two_table_def empty_table_def nth_list_update MAX_TRACEES_def split: if_splits)
qed code_simp+

section \<open>Properties\<close>

text \<open>C13. A call that is answered is not run. When the entry of a call reports it completed, the kernel is told to run no
  call at all, the process's result register holds exactly the answer that is on record, and the record names the call.\<close>

theorem answered_call_not_run:
  assumes "handle_syscall_entry e t y s = (True, t', y', s')"
  shows "ts_knr s' = -1 \<and> ur_x (ts_kregs s') 0 = st_emulated_result t' \<and> st_emulated_nr t' = sint (reg 8 s)"
proof (rule entry_steps[OF assms])
  fix t1 s1 t2 s2 gd t3 y3 s3 t4 s4
  assume b: "begin_call t s = (t1, s1)" and p: "prepare_mmap e t1 s1 = (t2, s2)" and g: "guard_call e t2 y s2 = (gd, t3, y3, s3)"
    and d: "dispatch_call e gd t3 y3 s3 = (True, t4, y', s4)" and c: "close_call True t4 s4 = (t', s')"
  have nr: "st_last_nr t1 = sint (reg 8 s)" using b by (auto simp: begin_call_def Let_def split: if_splits)
  have nr2: "st_last_nr t2 = st_last_nr t1" using prepare_mmap_quiet[OF p] by (simp add: quiet_def)
  have nr3: "st_last_nr t3 = st_last_nr t2" using g guard_quiet by (fastforce simp: guard_call_def quiet_def split: if_splits)
  have "ts_knr s4 = -1 \<and> ur_x (ts_kregs s4) 0 = st_emulated_result t4 \<and> st_emulated_nr t4 = st_last_nr t3"
  proof (cases gd)
    case True
    with d have "t4 = t3" "s4 = s3" by (auto simp: dispatch_call_def)
    with g True nr3 show ?thesis by (auto simp: guard_call_def dest: guard_answered split: if_splits)
  qed (use d dispatch_answered in simp)
  with c nr nr2 nr3 show ?thesis by (auto simp: close_call_def split: if_splits)
qed

lemma answered_call_not_run_witness:
  "\<exists>t' s'. handle_syscall_entry sample_tenv (new_tstate 5) sample_tsys (sample_call 174 (\<lambda>_. 0)) = (True, t', sample_tsys, s') \<and>
     ts_knr s' = -1 \<and> st_emulated_nr t' = 174"
proof -
  from sample_getuid obtain t' s' where
    h: "handle_syscall_entry sample_tenv (new_tstate 5) sample_tsys (sample_call 174 (\<lambda>_. 0)) = (True, t', sample_tsys, s')" by blast
  from answered_call_not_run[OF h] show ?thesis using h by (simp add: sample_call_def reg_def Let_def)
qed

text \<open>C14. The tracer's bookkeeping. Over every run of the loop in which no process enters a call while a mutating call of its
  own is under way: the table keeps its size and names each followed process once, and the counter that keeps the path
  caches from storing is exactly the number of processes that are between the entry and the exit of a mutating call.\<close>

theorem trace_loop_bookkeeping:
  assumes "g_inflight g = 0" "trace_run.all_allowed e ob (trace_init child cwd y g k) evs"
    and "l = fold (trace_step e ob) evs (trace_init child cwd y g k)"
  shows "length (tl_tracees l) = MAX_TRACEES \<and> distinct (map st_pid (filter st_active (tl_tracees l))) \<and>
    g_inflight (tl_guard l) = int (length (filter (\<lambda>t. st_active t \<and> st_inval t) (tl_tracees l)))"
proof -
  have "loop_inv l" unfolding assms(3) by (rule trace_run.run_inv[OF trace_init_inv[OF assms(1)] assms(2)])
  moreover have "pend ts = int (length (filter (\<lambda>t. st_active t \<and> st_inval t) ts))" for ts
    by (induction ts) (auto simp: pend_def share_def)
  ultimately show ?thesis using table_distinct by (auto simp: loop_inv_def table_ok_def)
qed

lemma trace_loop_bookkeeping_witness:
  "\<forall>s y k. g_inflight (tl_guard (fold (trace_step sample_tenv (\<lambda>w. (None, w))) [SeccompStop 5 s, NewChild 5 6, Exited 5 0] (trace_init 5 None y guard_init k))) =
     int (length (filter (\<lambda>t. st_active t \<and> st_inval t)
       (tl_tracees (fold (trace_step sample_tenv (\<lambda>w. (None, w))) [SeccompStop 5 s, NewChild 5 6, Exited 5 0] (trace_init 5 None y guard_init k)))))"
proof (intro allI)
  fix s y k
  have "\<forall>t\<in>set (tl_tracees (trace_init 5 None y guard_init k)). \<not> st_inval t"
    by (auto simp: trace_init_def add_tracee_def find_tracee_def first_index_None empty_table_def MAX_TRACEES_def numeral_eq_Suc)
  then have "trace_run.all_allowed sample_tenv (\<lambda>w. (None, w)) (trace_init 5 None y guard_init k) [SeccompStop 5 s, NewChild 5 6, Exited 5 0]"
    by (simp add: no_nested_entry_def)
  from trace_loop_bookkeeping[OF _ this refl]
  show "g_inflight (tl_guard (fold (trace_step sample_tenv (\<lambda>w. (None, w))) [SeccompStop 5 s, NewChild 5 6, Exited 5 0] (trace_init 5 None y guard_init k))) =
     int (length (filter (\<lambda>t. st_active t \<and> st_inval t)
       (tl_tracees (fold (trace_step sample_tenv (\<lambda>w. (None, w))) [SeccompStop 5 s, NewChild 5 6, Exited 5 0] (trace_init 5 None y guard_init k)))))"
    by (simp add: guard_init_def)
qed

text \<open>C33. The filter. The program fits the array it is built in, and it answers, for every call on the architecture it is made
  for, exactly the table: traced, refused with \<open>ENOSYS\<close>, or allowed; on any other architecture it allows everything.\<close>

theorem filter_verdicts:
  "length (install_selective_seccomp_trace_filter st mem gd) \<le> 192 \<and>
   seccomp_verdict st mem gd (on_aarch64 nr) = Some (expected_verdict st (mem \<or> gd) nr) \<and>
   (arch \<noteq> AUDIT_ARCH_AARCH64 \<longrightarrow> seccomp_verdict st mem gd \<lparr>sd_nr = nr, sd_arch = arch\<rparr> = Some SECCOMP_RET_ALLOW)"
  by (simp add: verdict_table) (simp add: install_selective_seccomp_trace_filter_def seccomp_verdict_def sd_load_def)

lemma filter_verdicts_witness:
  "seccomp_verdict True False False \<lparr>sd_nr = 56, sd_arch = 0x40000003\<rparr> = Some SECCOMP_RET_ALLOW"
  using filter_verdicts[of True False False 56 "0x40000003"] by (simp add: AUDIT_ARCH_AARCH64_def)

text \<open>C34. What is rewritten is traced. With stat tracing on, a call that the filter does not hand to the tracer is one whose
  arguments the tracer would not have touched.\<close>

theorem untraced_calls_not_rewritten:
  assumes "seccomp_verdict True mem gd (on_aarch64 nr) \<noteq> Some SECCOMP_RET_TRACE"
  shows "rewrite_syscall_paths e (uint nr) t y s = (0, t, y, s)"
proof -
  have "nr \<notin> set always_traced" "nr \<notin> {79, 291}"
    using assms by (auto simp: verdict_table expected_verdict_def)
  moreover have u: "uint nr = k \<Longrightarrow> nr = of_int k" for k by (drule arg_cong[where f = "of_int :: int \<Rightarrow> u32"]) simp
  ultimately have "uint nr \<notin> uint ` set always_traced" "uint nr \<noteq> 79" "uint nr \<noteq> 291"
    using u[of 79] u[of 291] u by auto (metis word_of_int_uint)
  then show ?thesis
    by (simp add: rewrite_syscall_paths_def path_calls_def at_calls_def always_traced_def)
qed

lemma untraced_calls_not_rewritten_witness:
  "\<forall>e t y s. rewrite_syscall_paths e 63 t y s = (0, t, y, s)"
  using untraced_calls_not_rewritten[of False False 63] by (simp add: verdict_table expected_verdict_def always_traced_def refused_def
      memory_calls_def SECCOMP_RET_TRACE_def SECCOMP_RET_ALLOW_def)

text \<open>Selective tracing and the pager exclude each other. The pager sees a process's \<open>mmap\<close> only if the filter traces
  that call, and then the filter traces \<open>mprotect\<close> as well, so that every call the pager injects stops before it runs
  and every fault on a managed page fails. (Enabling the pager turns memory tracing on.)\<close>

theorem selective_pager_unusable:
  assumes "seccomp_verdict st mem gd (on_aarch64 222) = Some SECCOMP_RET_TRACE"
    and "pw_traced w \<longleftrightarrow> seccomp_verdict st mem gd (on_aarch64 226) = Some SECCOMP_RET_TRACE"
    and "rg_wf r" "rg_prots r w" "idx < rg_page_count r"
  shows "fst (fault_in_region idx r w) = -1"
proof -
  have "mem \<or> gd"
    using assms(1) by (simp add: verdict_table expected_verdict_def always_traced_def refused_def memory_calls_def
        SECCOMP_RET_TRACE_def SECCOMP_RET_ALLOW_def split: if_splits)
  then have "pw_traced w" using assms(2) by (simp add: verdict_table expected_verdict_def memory_calls_def)
  then show ?thesis using traced_fault_fails[OF assms(3-5)] by blast
qed

lemma selective_pager_unusable_witness: "fst (fault_in_region 0 sample_region (sample_pworld [] True)) = -1"
proof (rule selective_pager_unusable[of True True False])
  show "seccomp_verdict True True False (on_aarch64 222) = Some SECCOMP_RET_TRACE"
    by (simp add: verdict_table expected_verdict_def memory_calls_def)
  show "pw_traced (sample_pworld [] True) \<longleftrightarrow> seccomp_verdict True True False (on_aarch64 226) = Some SECCOMP_RET_TRACE"
    by (simp add: verdict_table expected_verdict_def memory_calls_def sample_pworld_def)
qed (simp_all add: sample_wf sample_prots, simp add: sample_pager_defs)

text \<open>A 32-bit minus one is not recognised. A process that leaves the real and saved user unchanged passes the 32-bit -1,
  which the register holds without sign; the emulation takes it for an identity. The 64-bit -1 is recognised, but then the
  saved user becomes the effective one instead of staying.\<close>

theorem setresuid_wrong_ids:
  assumes "st_args t 1 = u" "u \<noteq> 0xffffffffffffffff"
  shows "(st_args t 0 = 0xffffffff \<and> st_args t 2 = 0xffffffff \<longrightarrow>
      (\<exists>t'. prepare_emulated_result 147 t s = (0, t', s) \<and> st_uid t' = 0xffffffff \<and> st_suid t' = 0xffffffff)) \<and>
    (st_args t 0 = 0xffffffffffffffff \<and> st_args t 2 = 0xffffffffffffffff \<longrightarrow>
      (\<exists>t'. prepare_emulated_result 147 t s = (0, t', s) \<and> st_uid t' = st_uid t \<and> st_suid t' = u))"
  using assms by (auto simp: prepare_emulated_result_def is_minus_one_arg_def Let_def)

lemma setresuid_wrong_ids_witness:
  "\<forall>s. \<exists>t'. prepare_emulated_result 147 ((new_tstate 5)\<lparr>st_args := (\<lambda>i. if i = 1 then 1000 else 0xffffffff)\<rparr>) s = (0, t', s) \<and> st_uid t' = 0xffffffff"
proof
  fix s
  show "\<exists>t'. prepare_emulated_result 147 ((new_tstate 5)\<lparr>st_args := (\<lambda>i. if i = 1 then 1000 else 0xffffffff)\<rparr>) s = (0, t', s) \<and> st_uid t' = 0xffffffff"
    using setresuid_wrong_ids[of "(new_tstate 5)\<lparr>st_args := (\<lambda>i. if i = 1 then 1000 else 0xffffffff)\<rparr>" 1000 s] by auto
qed

text \<open>Changing an owner always succeeds. \<open>fchownat\<close> and \<open>fchown\<close> are reported successful whatever their path is, also
  when the path was refused just before: the answer 0 replaces the refusal.\<close>

theorem chown_always_succeeds:
  assumes "st_last_nr t = 54 \<or> st_last_nr t = 55" "unforced_call e t y s = (True, t', y', s')"
  shows "ts_knr s' = -1 \<and> ur_x (ts_kregs s') 0 = 0"
proof -
  obtain rw t1 y1 s1 where r: "rewrite_syscall_paths e (st_last_nr t) t y s = (rw, t1, y1, s1)" by (metis prod_cases4)
  have l1: "st_last_nr t1 = st_last_nr t" using paths_quiet[OF r] by (simp add: quiet_def)
  then have n: "st_last_nr t1 = 54 \<or> st_last_nr t1 = 55" using assms(1) by simp
  have "syscall_emulate_errno (st_last_nr t1) = None" using n by (elim disjE) (simp_all add: syscall_emulate_errno_def)
  moreover have "syscall_emulate_success (st_last_nr t1)" using n by (elim disjE) (simp_all add: syscall_emulate_success_def)
  moreover have "prepare_emulated_result (st_last_nr t1) t1 s1 = (0, t1, s1)"
    using n by (elim disjE) (simp_all add: prepare_emulated_result_def Let_def)
  ultimately have a: "answer_syscall 0 t1 s1 = (True, t', s')"
    using assms(2) r by (auto simp: unforced_call_def Let_def syscall_remap_number_def split: prod.splits)
  then have "st_emulated_result t' = 0" by (auto simp: answer_syscall_def Let_def split: prod.splits)
  with answered[OF a] show ?thesis by simp
qed

lemma chown_always_succeeds_witness:
  "\<exists>t' y' s'. unforced_call sample_tenv ((new_tstate 5)\<lparr>st_last_nr := 55\<rparr>) sample_tsys (sample_call 55 (\<lambda>_. 0)) = (True, t', y', s') \<and>
     ur_x (ts_kregs s') 0 = 0"
proof -
  let ?t = "(new_tstate 5)\<lparr>st_last_nr := 55\<rparr>" and ?s = "sample_call 55 (\<lambda>_. 0)"
  have "ts_setnr_ok ?s" "ts_setregs_ok ?s" by (simp_all add: sample_call_def Let_def)
  then obtain t' s' where a: "answer_syscall 0 ?t ?s = (True, t', s')" using answer_succeeds by blast
  then have u: "unforced_call sample_tenv ?t sample_tsys ?s = (True, t', sample_tsys, s')"
    by (simp add: unforced_call_def rewrite_syscall_paths_def path_calls_def at_calls_def syscall_remap_number_def
        syscall_emulate_errno_def syscall_emulate_success_def prepare_emulated_result_def Let_def)
  from chown_always_succeeds[OF _ u] u show ?thesis by simp
qed

text \<open>The report of a new process can come too late. The new process may stop, run and change its directory and credentials
  before the parent's report of it is read; the report then overwrites them with the parent's.\<close>

theorem late_child_report_overwrites:
  assumes "table_ok (tl_tracees l)" "tl_result l = None" "0 < c" "p \<noteq> c"
    and "find_tracee (tl_tracees l) p = Some i" "find_tracee (tl_tracees l) c = Some j"
    and "cs_guest_cwd (st_cwd (tl_tracees l ! i)) \<noteq> []"
  shows "cs_guest_cwd (st_cwd (tl_tracees (trace_step e ob (NewChild p c) l) ! j)) = cs_guest_cwd (st_cwd (tl_tracees l ! i)) \<and>
    st_euid (tl_tracees (trace_step e ob (NewChild p c) l) ! j) = st_euid (tl_tracees l ! i)"
proof -
  have "add_tracee (tl_tracees l) p = (Some i, tl_tracees l)" "add_tracee (tl_tracees l) c = (Some j, tl_tracees l)"
    using assms(5,6) by (simp_all add: add_tracee_def)
  moreover have "j < length (tl_tracees l)" using first_index_Some assms(6) unfolding find_tracee_def by blast
  ultimately show ?thesis using assms(2,3,7) by (simp add: trace_step_def event_step_def Let_def inherit_def)
qed

lemma late_child_report_overwrites_witness:
  "\<forall>e ob y g k. cs_guest_cwd (st_cwd (tl_tracees (trace_step e ob (NewChild 5 6)
       \<lparr>tl_tracees = sample_two_table, tl_sys = y, tl_guard = g, tl_fs = k, tl_root = 5, tl_root_rc = None, tl_result = None\<rparr>) ! 1)) = ''/''"
proof (intro allI)
  fix e ob y g k
  let ?l = "\<lparr>tl_tracees = sample_two_table, tl_sys = y, tl_guard = g, tl_fs = k, tl_root = 5, tl_root_rc = None, tl_result = None\<rparr>"
  have "cs_guest_cwd (st_cwd (tl_tracees ?l ! 0)) = ''/''" using sample_two_facts by simp
  with late_child_report_overwrites[of ?l 6 5 0 1 e ob] sample_two_facts
  show "cs_guest_cwd (st_cwd (tl_tracees (trace_step e ob (NewChild 5 6) ?l) ! 1)) = ''/''" by simp
qed

text \<open>The memory guard. Where the sum of request and reserve fits in 64 bits, a request is denied exactly when the guard is on,
  the request reaches its threshold, the memory state could be read, and memory, swap or what would remain is below its bound.\<close>

theorem memory_guard_exact:
  assumes "te_meminfo e = Some (avail, swap)" "0 < requested" "unat requested + unat (te_min_available e) < 2 ^ 64"
  shows "memory_guard_would_deny e requested \<noteq> None \<longleftrightarrow>
    te_memory_guard e \<and> te_min_request e \<le> requested \<and>
    (swap < te_min_swap e \<or> unat avail < unat requested + unat (te_min_available e))"
proof -
  have "unat (requested + te_min_available e) = unat requested + unat (te_min_available e)"
    using assms(3) by (subst unat_add_lem[THEN iffD1]) auto
  then have s: "avail < requested + te_min_available e \<longleftrightarrow> unat avail < unat requested + unat (te_min_available e)"
    by (simp add: word_less_nat_alt)
  have "avail < te_min_available e \<Longrightarrow> unat avail < unat requested + unat (te_min_available e)" by (simp add: word_less_nat_alt)
  then show ?thesis using assms(1,2) s by (auto simp: memory_guard_would_deny_def not_less)
qed

lemma memory_guard_exact_witness: "memory_guard_would_deny sample_tenv 100 \<noteq> None"
  using memory_guard_exact[of sample_tenv 1050 0 100] by (simp add: sample_tenv_def)

end
