(* ===== verification/Frame_Layout.thy ===== *)
theory Frame_Layout
  imports Byte_Codec
begin

text \<open>
  The structures of a \<open>VULKAN_DISPATCH_V5\<close> frame (\<open>pdocker_gpu_abi.h\<close>) as records, and their bytes: the
  fields in order, little-endian, with the padding that the alignment of 64-bit fields asks for. The
  locale \<open>struct_layout\<close> is what a table of such structures relies on.
\<close>

section \<open>Fields of a byte string\<close>

lemma field_here: "field 0 n (to_le n w @ bs) = (take_bit (8 * n) w :: 'a::len word)"
  by (simp add: field_def of_to_le)

lemma field_last: "field 0 n (to_le n w) = (take_bit (8 * n) w :: 'a::len word)"
  using field_here[of n w "[]"] by simp

lemma field_skip: "length a \<le> off \<Longrightarrow> field off n (a @ bs) = field (off - length a) n bs"
  by (simp add: field_def)

lemmas field_steps = field_here field_last field_skip take_bit_word_eq_self

section \<open>Structures in a table\<close>

definition table_bytes :: "('r \<Rightarrow> string) \<Rightarrow> 'r list \<Rightarrow> string" where
  "table_bytes enc xs = concat (map enc xs)"

definition table_at :: "(string \<Rightarrow> 'r) \<Rightarrow> nat \<Rightarrow> nat \<Rightarrow> nat \<Rightarrow> string \<Rightarrow> 'r list" where
  "table_at dec sz off n bs = map (\<lambda>i. dec (drop (off + i * sz) bs)) [0..<n]"

locale struct_layout =
  fixes enc :: "'r \<Rightarrow> string" and dec :: "string \<Rightarrow> 'r" and sz :: nat
  assumes enc_length: "length (enc x) = sz"
    and dec_enc: "dec (enc x @ bs) = x"
begin

lemma table_length: "length (table_bytes enc xs) = sz * length xs"
  by (induction xs) (simp_all add: table_bytes_def enc_length)

lemma table_entry: "i < length xs \<Longrightarrow> dec (drop (i * sz) (table_bytes enc xs @ bs)) = xs ! i"
proof (induction xs arbitrary: i)
  case (Cons x xs)
  show ?case
  proof (cases i)
    case 0
    then show ?thesis by (simp add: table_bytes_def dec_enc)
  next
    case (Suc k)
    have "drop (Suc k * sz) (table_bytes enc (x # xs) @ bs) = drop (k * sz) (table_bytes enc xs @ bs)"
      by (simp add: table_bytes_def enc_length flip: drop_drop)
    then show ?thesis using Cons Suc by simp
  qed
qed simp

text \<open>A table that a frame holds is read back.\<close>

lemma table_read:
  assumes "off = length pre"
  shows "table_at dec sz off (length xs) (pre @ table_bytes enc xs @ bs) = xs"
  using table_entry by (intro nth_equalityI) (simp_all add: table_at_def assms)

end

section \<open>The structures\<close>

record v5_header =
  vh_magic :: string
  vh_header_size :: u16
  vh_abi_major :: u16
  vh_abi_minor :: u16
  vh_command :: u16
  vh_flags :: u32
  vh_reserved0 :: u32
  vh_frame_size :: u64
  vh_dispatch_id :: u64
  vh_fd_count :: u32
  vh_shader_fd_index :: u32
  vh_shader_size :: u64
  vh_shader_hash :: u64
  vh_gx :: u32
  vh_gy :: u32
  vh_gz :: u32
  vh_reserved1 :: u32
  vh_resource_count :: u32
  vh_resource_entry_size :: u32
  vh_resource_table_offset :: u64
  vh_resource_table_size :: u64
  vh_resource_schema_hash :: u64
  vh_descriptor_count :: u32
  vh_descriptor_entry_size :: u32
  vh_descriptor_table_offset :: u64
  vh_descriptor_table_size :: u64
  vh_descriptor_schema_hash :: u64
  vh_specialization_count :: u32
  vh_specialization_entry_size :: u32
  vh_specialization_table_offset :: u64
  vh_specialization_table_size :: u64
  vh_specialization_data_offset :: u64
  vh_specialization_data_size :: u64
  vh_specialization_hash :: u64
  vh_push_offset :: u64
  vh_push_size :: u64
  vh_push_hash :: u64
  vh_entry_name_offset :: u64
  vh_entry_name_size :: u64
  vh_option_text_offset :: u64
  vh_option_text_size :: u64
  vh_option_hash :: u64
  vh_resource_hash :: u64
  vh_descriptor_hash :: u64
  vh_dispatch_hash :: u64
  vh_frame_hash :: u64

definition v5_header_bytes :: "v5_header \<Rightarrow> string" where
  "v5_header_bytes x =
     vh_magic x @ to_le 2 (vh_header_size x) @ to_le 2 (vh_abi_major x) @ to_le 2 (vh_abi_minor x) @
     to_le 2 (vh_command x) @ to_le 4 (vh_flags x) @ to_le 4 (vh_reserved0 x) @ to_le 8 (vh_frame_size x) @
     to_le 8 (vh_dispatch_id x) @ to_le 4 (vh_fd_count x) @ to_le 4 (vh_shader_fd_index x) @
     to_le 8 (vh_shader_size x) @ to_le 8 (vh_shader_hash x) @ to_le 4 (vh_gx x) @ to_le 4 (vh_gy x) @
     to_le 4 (vh_gz x) @ to_le 4 (vh_reserved1 x) @ to_le 4 (vh_resource_count x) @
     to_le 4 (vh_resource_entry_size x) @ to_le 8 (vh_resource_table_offset x) @
     to_le 8 (vh_resource_table_size x) @ to_le 8 (vh_resource_schema_hash x) @ to_le 4 (vh_descriptor_count x) @
     to_le 4 (vh_descriptor_entry_size x) @ to_le 8 (vh_descriptor_table_offset x) @
     to_le 8 (vh_descriptor_table_size x) @ to_le 8 (vh_descriptor_schema_hash x) @
     to_le 4 (vh_specialization_count x) @ to_le 4 (vh_specialization_entry_size x) @
     to_le 8 (vh_specialization_table_offset x) @ to_le 8 (vh_specialization_table_size x) @
     to_le 8 (vh_specialization_data_offset x) @ to_le 8 (vh_specialization_data_size x) @
     to_le 8 (vh_specialization_hash x) @ to_le 8 (vh_push_offset x) @ to_le 8 (vh_push_size x) @
     to_le 8 (vh_push_hash x) @ to_le 8 (vh_entry_name_offset x) @ to_le 8 (vh_entry_name_size x) @
     to_le 8 (vh_option_text_offset x) @ to_le 8 (vh_option_text_size x) @ to_le 8 (vh_option_hash x) @
     to_le 8 (vh_resource_hash x) @ to_le 8 (vh_descriptor_hash x) @ to_le 8 (vh_dispatch_hash x) @
     to_le 8 (vh_frame_hash x)"

definition v5_header_of :: "string \<Rightarrow> v5_header" where
  "v5_header_of bs =
     \<lparr>vh_magic = take 8 bs, vh_header_size = field 8 2 bs, vh_abi_major = field 10 2 bs,
      vh_abi_minor = field 12 2 bs, vh_command = field 14 2 bs, vh_flags = field 16 4 bs,
      vh_reserved0 = field 20 4 bs, vh_frame_size = field 24 8 bs, vh_dispatch_id = field 32 8 bs,
      vh_fd_count = field 40 4 bs, vh_shader_fd_index = field 44 4 bs, vh_shader_size = field 48 8 bs,
      vh_shader_hash = field 56 8 bs, vh_gx = field 64 4 bs, vh_gy = field 68 4 bs, vh_gz = field 72 4 bs,
      vh_reserved1 = field 76 4 bs, vh_resource_count = field 80 4 bs, vh_resource_entry_size = field 84 4 bs,
      vh_resource_table_offset = field 88 8 bs, vh_resource_table_size = field 96 8 bs,
      vh_resource_schema_hash = field 104 8 bs, vh_descriptor_count = field 112 4 bs,
      vh_descriptor_entry_size = field 116 4 bs, vh_descriptor_table_offset = field 120 8 bs,
      vh_descriptor_table_size = field 128 8 bs, vh_descriptor_schema_hash = field 136 8 bs,
      vh_specialization_count = field 144 4 bs, vh_specialization_entry_size = field 148 4 bs,
      vh_specialization_table_offset = field 152 8 bs, vh_specialization_table_size = field 160 8 bs,
      vh_specialization_data_offset = field 168 8 bs, vh_specialization_data_size = field 176 8 bs,
      vh_specialization_hash = field 184 8 bs, vh_push_offset = field 192 8 bs, vh_push_size = field 200 8 bs,
      vh_push_hash = field 208 8 bs, vh_entry_name_offset = field 216 8 bs, vh_entry_name_size = field 224 8 bs,
      vh_option_text_offset = field 232 8 bs, vh_option_text_size = field 240 8 bs, vh_option_hash = field 248 8 bs,
      vh_resource_hash = field 256 8 bs, vh_descriptor_hash = field 264 8 bs, vh_dispatch_hash = field 272 8 bs,
      vh_frame_hash = field 280 8 bs\<rparr>"

lemma v5_header_bytes_length: "length (vh_magic x) = 8 \<Longrightarrow> length (v5_header_bytes x) = 288"
  by (simp add: v5_header_bytes_def)

lemma v5_header_of_bytes: "length (vh_magic x) = 8 \<Longrightarrow> v5_header_of (v5_header_bytes x @ bs) = x"
  by (simp add: v5_header_of_def v5_header_bytes_def field_steps)

record v5_objects =
  vx_image_count :: u32
  vx_image_entry_size :: u32
  vx_image_table_offset :: u64
  vx_image_table_size :: u64
  vx_image_schema_hash :: u64
  vx_image_view_count :: u32
  vx_image_view_entry_size :: u32
  vx_image_view_table_offset :: u64
  vx_image_view_table_size :: u64
  vx_image_view_schema_hash :: u64
  vx_sampler_count :: u32
  vx_sampler_entry_size :: u32
  vx_sampler_table_offset :: u64
  vx_sampler_table_size :: u64
  vx_sampler_schema_hash :: u64
  vx_object_hash :: u64

definition v5_objects_bytes :: "v5_objects \<Rightarrow> string" where
  "v5_objects_bytes x =
     to_le 4 (vx_image_count x) @ to_le 4 (vx_image_entry_size x) @ to_le 8 (vx_image_table_offset x) @
     to_le 8 (vx_image_table_size x) @ to_le 8 (vx_image_schema_hash x) @ to_le 4 (vx_image_view_count x) @
     to_le 4 (vx_image_view_entry_size x) @ to_le 8 (vx_image_view_table_offset x) @
     to_le 8 (vx_image_view_table_size x) @ to_le 8 (vx_image_view_schema_hash x) @ to_le 4 (vx_sampler_count x) @
     to_le 4 (vx_sampler_entry_size x) @ to_le 8 (vx_sampler_table_offset x) @ to_le 8 (vx_sampler_table_size x) @
     to_le 8 (vx_sampler_schema_hash x) @ to_le 8 (vx_object_hash x)"

definition v5_objects_of :: "string \<Rightarrow> v5_objects" where
  "v5_objects_of bs =
     \<lparr>vx_image_count = field 0 4 bs, vx_image_entry_size = field 4 4 bs, vx_image_table_offset = field 8 8 bs,
      vx_image_table_size = field 16 8 bs, vx_image_schema_hash = field 24 8 bs,
      vx_image_view_count = field 32 4 bs, vx_image_view_entry_size = field 36 4 bs,
      vx_image_view_table_offset = field 40 8 bs, vx_image_view_table_size = field 48 8 bs,
      vx_image_view_schema_hash = field 56 8 bs, vx_sampler_count = field 64 4 bs,
      vx_sampler_entry_size = field 68 4 bs, vx_sampler_table_offset = field 72 8 bs,
      vx_sampler_table_size = field 80 8 bs, vx_sampler_schema_hash = field 88 8 bs, vx_object_hash = field 96 8 bs\<rparr>"

lemma v5_objects_bytes_length: "length (v5_objects_bytes x) = 104"
  by (simp add: v5_objects_bytes_def)

lemma v5_objects_of_bytes: "v5_objects_of (v5_objects_bytes x @ bs) = x"
  by (simp add: v5_objects_of_def v5_objects_bytes_def field_steps)

record v5_resource =
  vr_resource_type :: u32
  vr_resource_flags :: u32
  vr_resource_id :: u64
  vr_parent_resource_index :: u32
  vr_fd_index :: u32
  vr_memory_offset :: u64
  vr_size :: u64
  vr_usage :: u64
  vr_memory_property_flags :: u64
  vr_external_offset :: u64
  vr_generation :: u64

definition v5_resource_bytes :: "v5_resource \<Rightarrow> string" where
  "v5_resource_bytes x =
     to_le 4 (vr_resource_type x) @ to_le 4 (vr_resource_flags x) @ to_le 8 (vr_resource_id x) @
     to_le 4 (vr_parent_resource_index x) @ to_le 4 (vr_fd_index x) @ to_le 8 (vr_memory_offset x) @
     to_le 8 (vr_size x) @ to_le 8 (vr_usage x) @ to_le 8 (vr_memory_property_flags x) @
     to_le 8 (vr_external_offset x) @ to_le 8 (vr_generation x)"

definition v5_resource_of :: "string \<Rightarrow> v5_resource" where
  "v5_resource_of bs =
     \<lparr>vr_resource_type = field 0 4 bs, vr_resource_flags = field 4 4 bs, vr_resource_id = field 8 8 bs,
      vr_parent_resource_index = field 16 4 bs, vr_fd_index = field 20 4 bs, vr_memory_offset = field 24 8 bs,
      vr_size = field 32 8 bs, vr_usage = field 40 8 bs, vr_memory_property_flags = field 48 8 bs,
      vr_external_offset = field 56 8 bs, vr_generation = field 64 8 bs\<rparr>"

lemma v5_resource_bytes_length: "length (v5_resource_bytes x) = 72"
  by (simp add: v5_resource_bytes_def)

lemma v5_resource_of_bytes: "v5_resource_of (v5_resource_bytes x @ bs) = x"
  by (simp add: v5_resource_of_def v5_resource_bytes_def field_steps)

record v5_descriptor =
  vd_descriptor_set :: u32
  vd_binding :: u32
  vd_array_element :: u32
  vd_descriptor_type :: u32
  vd_descriptor_flags :: u32
  vd_access_flags :: u32
  vd_resource_index :: u32
  vd_reserved0 :: u32
  vd_resource_id :: u64
  vd_buffer_offset :: u64
  vd_range :: u64
  vd_transfer_offset :: u64
  vd_transfer_size :: u64
  vd_dynamic_offset :: u64

definition v5_descriptor_bytes :: "v5_descriptor \<Rightarrow> string" where
  "v5_descriptor_bytes x =
     to_le 4 (vd_descriptor_set x) @ to_le 4 (vd_binding x) @ to_le 4 (vd_array_element x) @
     to_le 4 (vd_descriptor_type x) @ to_le 4 (vd_descriptor_flags x) @ to_le 4 (vd_access_flags x) @
     to_le 4 (vd_resource_index x) @ to_le 4 (vd_reserved0 x) @ to_le 8 (vd_resource_id x) @
     to_le 8 (vd_buffer_offset x) @ to_le 8 (vd_range x) @ to_le 8 (vd_transfer_offset x) @
     to_le 8 (vd_transfer_size x) @ to_le 8 (vd_dynamic_offset x)"

definition v5_descriptor_of :: "string \<Rightarrow> v5_descriptor" where
  "v5_descriptor_of bs =
     \<lparr>vd_descriptor_set = field 0 4 bs, vd_binding = field 4 4 bs, vd_array_element = field 8 4 bs,
      vd_descriptor_type = field 12 4 bs, vd_descriptor_flags = field 16 4 bs, vd_access_flags = field 20 4 bs,
      vd_resource_index = field 24 4 bs, vd_reserved0 = field 28 4 bs, vd_resource_id = field 32 8 bs,
      vd_buffer_offset = field 40 8 bs, vd_range = field 48 8 bs, vd_transfer_offset = field 56 8 bs,
      vd_transfer_size = field 64 8 bs, vd_dynamic_offset = field 72 8 bs\<rparr>"

lemma v5_descriptor_bytes_length: "length (v5_descriptor_bytes x) = 80"
  by (simp add: v5_descriptor_bytes_def)

lemma v5_descriptor_of_bytes: "v5_descriptor_of (v5_descriptor_bytes x @ bs) = x"
  by (simp add: v5_descriptor_of_def v5_descriptor_bytes_def field_steps)

record v5_image =
  vi_flags :: u32
  vi_image_type :: u32
  vi_image_id :: u64
  vi_memory_resource_index :: u32
  vi_reserved0 :: u32
  vi_memory_offset :: u64
  vi_memory_size :: u64
  vi_format :: u32
  vi_extent_width :: u32
  vi_extent_height :: u32
  vi_extent_depth :: u32
  vi_mip_levels :: u32
  vi_array_layers :: u32
  vi_samples :: u32
  vi_tiling :: u32
  vi_usage :: u64
  vi_create_flags :: u64
  vi_sharing_mode :: u32
  vi_initial_layout :: u32
  vi_generation :: u64

definition v5_image_bytes :: "v5_image \<Rightarrow> string" where
  "v5_image_bytes x =
     to_le 4 (vi_flags x) @ to_le 4 (vi_image_type x) @ to_le 8 (vi_image_id x) @
     to_le 4 (vi_memory_resource_index x) @ to_le 4 (vi_reserved0 x) @ to_le 8 (vi_memory_offset x) @
     to_le 8 (vi_memory_size x) @ to_le 4 (vi_format x) @ to_le 4 (vi_extent_width x) @
     to_le 4 (vi_extent_height x) @ to_le 4 (vi_extent_depth x) @ to_le 4 (vi_mip_levels x) @
     to_le 4 (vi_array_layers x) @ to_le 4 (vi_samples x) @ to_le 4 (vi_tiling x) @ to_le 8 (vi_usage x) @
     to_le 8 (vi_create_flags x) @ to_le 4 (vi_sharing_mode x) @ to_le 4 (vi_initial_layout x) @
     to_le 8 (vi_generation x)"

definition v5_image_of :: "string \<Rightarrow> v5_image" where
  "v5_image_of bs =
     \<lparr>vi_flags = field 0 4 bs, vi_image_type = field 4 4 bs, vi_image_id = field 8 8 bs,
      vi_memory_resource_index = field 16 4 bs, vi_reserved0 = field 20 4 bs, vi_memory_offset = field 24 8 bs,
      vi_memory_size = field 32 8 bs, vi_format = field 40 4 bs, vi_extent_width = field 44 4 bs,
      vi_extent_height = field 48 4 bs, vi_extent_depth = field 52 4 bs, vi_mip_levels = field 56 4 bs,
      vi_array_layers = field 60 4 bs, vi_samples = field 64 4 bs, vi_tiling = field 68 4 bs,
      vi_usage = field 72 8 bs, vi_create_flags = field 80 8 bs, vi_sharing_mode = field 88 4 bs,
      vi_initial_layout = field 92 4 bs, vi_generation = field 96 8 bs\<rparr>"

lemma v5_image_bytes_length: "length (v5_image_bytes x) = 104"
  by (simp add: v5_image_bytes_def)

lemma v5_image_of_bytes: "v5_image_of (v5_image_bytes x @ bs) = x"
  by (simp add: v5_image_of_def v5_image_bytes_def field_steps)

record v5_view =
  vv_flags :: u32
  vv_view_type :: u32
  vv_view_id :: u64
  vv_image_index :: u32
  vv_format :: u32
  vv_component_r :: u32
  vv_component_g :: u32
  vv_component_b :: u32
  vv_component_a :: u32
  vv_aspect_mask :: u32
  vv_base_mip_level :: u32
  vv_level_count :: u32
  vv_base_array_layer :: u32
  vv_layer_count :: u32
  vv_generation :: u64

definition v5_view_bytes :: "v5_view \<Rightarrow> string" where
  "v5_view_bytes x =
     to_le 4 (vv_flags x) @ to_le 4 (vv_view_type x) @ to_le 8 (vv_view_id x) @ to_le 4 (vv_image_index x) @
     to_le 4 (vv_format x) @ to_le 4 (vv_component_r x) @ to_le 4 (vv_component_g x) @ to_le 4 (vv_component_b x) @
     to_le 4 (vv_component_a x) @ to_le 4 (vv_aspect_mask x) @ to_le 4 (vv_base_mip_level x) @
     to_le 4 (vv_level_count x) @ to_le 4 (vv_base_array_layer x) @ to_le 4 (vv_layer_count x) @
     to_le 4 (0 :: u32) @ to_le 8 (vv_generation x)"

definition v5_view_of :: "string \<Rightarrow> v5_view" where
  "v5_view_of bs =
     \<lparr>vv_flags = field 0 4 bs, vv_view_type = field 4 4 bs, vv_view_id = field 8 8 bs,
      vv_image_index = field 16 4 bs, vv_format = field 20 4 bs, vv_component_r = field 24 4 bs,
      vv_component_g = field 28 4 bs, vv_component_b = field 32 4 bs, vv_component_a = field 36 4 bs,
      vv_aspect_mask = field 40 4 bs, vv_base_mip_level = field 44 4 bs, vv_level_count = field 48 4 bs,
      vv_base_array_layer = field 52 4 bs, vv_layer_count = field 56 4 bs, vv_generation = field 64 8 bs\<rparr>"

lemma v5_view_bytes_length: "length (v5_view_bytes x) = 72"
  by (simp add: v5_view_bytes_def)

lemma v5_view_of_bytes: "v5_view_of (v5_view_bytes x @ bs) = x"
  by (simp add: v5_view_of_def v5_view_bytes_def field_steps)

record v5_sampler =
  vs_flags :: u32
  vs_reserved0 :: u32
  vs_sampler_id :: u64
  vs_mag_filter :: u32
  vs_min_filter :: u32
  vs_mipmap_mode :: u32
  vs_address_mode_u :: u32
  vs_address_mode_v :: u32
  vs_address_mode_w :: u32
  vs_mip_lod_bias_bits :: u32
  vs_anisotropy_enable :: u32
  vs_max_anisotropy_bits :: u32
  vs_compare_enable :: u32
  vs_compare_op :: u32
  vs_min_lod_bits :: u32
  vs_max_lod_bits :: u32
  vs_border_color :: u32
  vs_unnormalized_coordinates :: u32
  vs_generation :: u64

definition v5_sampler_bytes :: "v5_sampler \<Rightarrow> string" where
  "v5_sampler_bytes x =
     to_le 4 (vs_flags x) @ to_le 4 (vs_reserved0 x) @ to_le 8 (vs_sampler_id x) @ to_le 4 (vs_mag_filter x) @
     to_le 4 (vs_min_filter x) @ to_le 4 (vs_mipmap_mode x) @ to_le 4 (vs_address_mode_u x) @
     to_le 4 (vs_address_mode_v x) @ to_le 4 (vs_address_mode_w x) @ to_le 4 (vs_mip_lod_bias_bits x) @
     to_le 4 (vs_anisotropy_enable x) @ to_le 4 (vs_max_anisotropy_bits x) @ to_le 4 (vs_compare_enable x) @
     to_le 4 (vs_compare_op x) @ to_le 4 (vs_min_lod_bits x) @ to_le 4 (vs_max_lod_bits x) @
     to_le 4 (vs_border_color x) @ to_le 4 (vs_unnormalized_coordinates x) @ to_le 4 (0 :: u32) @
     to_le 8 (vs_generation x)"

definition v5_sampler_of :: "string \<Rightarrow> v5_sampler" where
  "v5_sampler_of bs =
     \<lparr>vs_flags = field 0 4 bs, vs_reserved0 = field 4 4 bs, vs_sampler_id = field 8 8 bs,
      vs_mag_filter = field 16 4 bs, vs_min_filter = field 20 4 bs, vs_mipmap_mode = field 24 4 bs,
      vs_address_mode_u = field 28 4 bs, vs_address_mode_v = field 32 4 bs, vs_address_mode_w = field 36 4 bs,
      vs_mip_lod_bias_bits = field 40 4 bs, vs_anisotropy_enable = field 44 4 bs,
      vs_max_anisotropy_bits = field 48 4 bs, vs_compare_enable = field 52 4 bs, vs_compare_op = field 56 4 bs,
      vs_min_lod_bits = field 60 4 bs, vs_max_lod_bits = field 64 4 bs, vs_border_color = field 68 4 bs,
      vs_unnormalized_coordinates = field 72 4 bs, vs_generation = field 80 8 bs\<rparr>"

lemma v5_sampler_bytes_length: "length (v5_sampler_bytes x) = 88"
  by (simp add: v5_sampler_bytes_def)

lemma v5_sampler_of_bytes: "v5_sampler_of (v5_sampler_bytes x @ bs) = x"
  by (simp add: v5_sampler_of_def v5_sampler_bytes_def field_steps)

record v5_object_descriptor =
  vo_descriptor_set :: u32
  vo_binding :: u32
  vo_array_element :: u32
  vo_descriptor_type :: u32
  vo_descriptor_flags :: u32
  vo_access_flags :: u32
  vo_resource_index :: u32
  vo_image_view_index :: u32
  vo_sampler_index :: u32
  vo_image_layout :: u32
  vo_resource_id :: u64
  vo_buffer_offset :: u64
  vo_range :: u64
  vo_transfer_offset :: u64
  vo_transfer_size :: u64
  vo_dynamic_offset :: u64

definition v5_object_descriptor_bytes :: "v5_object_descriptor \<Rightarrow> string" where
  "v5_object_descriptor_bytes x =
     to_le 4 (vo_descriptor_set x) @ to_le 4 (vo_binding x) @ to_le 4 (vo_array_element x) @
     to_le 4 (vo_descriptor_type x) @ to_le 4 (vo_descriptor_flags x) @ to_le 4 (vo_access_flags x) @
     to_le 4 (vo_resource_index x) @ to_le 4 (vo_image_view_index x) @ to_le 4 (vo_sampler_index x) @
     to_le 4 (vo_image_layout x) @ to_le 8 (vo_resource_id x) @ to_le 8 (vo_buffer_offset x) @
     to_le 8 (vo_range x) @ to_le 8 (vo_transfer_offset x) @ to_le 8 (vo_transfer_size x) @
     to_le 8 (vo_dynamic_offset x)"

definition v5_object_descriptor_of :: "string \<Rightarrow> v5_object_descriptor" where
  "v5_object_descriptor_of bs =
     \<lparr>vo_descriptor_set = field 0 4 bs, vo_binding = field 4 4 bs, vo_array_element = field 8 4 bs,
      vo_descriptor_type = field 12 4 bs, vo_descriptor_flags = field 16 4 bs, vo_access_flags = field 20 4 bs,
      vo_resource_index = field 24 4 bs, vo_image_view_index = field 28 4 bs, vo_sampler_index = field 32 4 bs,
      vo_image_layout = field 36 4 bs, vo_resource_id = field 40 8 bs, vo_buffer_offset = field 48 8 bs,
      vo_range = field 56 8 bs, vo_transfer_offset = field 64 8 bs, vo_transfer_size = field 72 8 bs,
      vo_dynamic_offset = field 80 8 bs\<rparr>"

lemma v5_object_descriptor_bytes_length: "length (v5_object_descriptor_bytes x) = 88"
  by (simp add: v5_object_descriptor_bytes_def)

lemma v5_object_descriptor_of_bytes: "v5_object_descriptor_of (v5_object_descriptor_bytes x @ bs) = x"
  by (simp add: v5_object_descriptor_of_def v5_object_descriptor_bytes_def field_steps)

record v5_spec =
  vc_constant_id :: u32
  vc_offset :: u32
  vc_size :: u64

definition v5_spec_bytes :: "v5_spec \<Rightarrow> string" where
  "v5_spec_bytes x =
     to_le 4 (vc_constant_id x) @ to_le 4 (vc_offset x) @ to_le 8 (vc_size x)"

definition v5_spec_of :: "string \<Rightarrow> v5_spec" where
  "v5_spec_of bs =
     \<lparr>vc_constant_id = field 0 4 bs, vc_offset = field 4 4 bs, vc_size = field 8 8 bs\<rparr>"

lemma v5_spec_bytes_length: "length (v5_spec_bytes x) = 16"
  by (simp add: v5_spec_bytes_def)

lemma v5_spec_of_bytes: "v5_spec_of (v5_spec_bytes x @ bs) = x"
  by (simp add: v5_spec_of_def v5_spec_bytes_def field_steps)

section \<open>The layouts\<close>

interpretation resource_layout: struct_layout v5_resource_bytes v5_resource_of 72
  by unfold_locales (rule v5_resource_bytes_length, rule v5_resource_of_bytes)

interpretation descriptor_layout: struct_layout v5_descriptor_bytes v5_descriptor_of 80
  by unfold_locales (rule v5_descriptor_bytes_length, rule v5_descriptor_of_bytes)

interpretation image_layout: struct_layout v5_image_bytes v5_image_of 104
  by unfold_locales (rule v5_image_bytes_length, rule v5_image_of_bytes)

interpretation view_layout: struct_layout v5_view_bytes v5_view_of 72
  by unfold_locales (rule v5_view_bytes_length, rule v5_view_of_bytes)

interpretation sampler_layout: struct_layout v5_sampler_bytes v5_sampler_of 88
  by unfold_locales (rule v5_sampler_bytes_length, rule v5_sampler_of_bytes)

interpretation object_descriptor_layout: struct_layout v5_object_descriptor_bytes v5_object_descriptor_of 88
  by unfold_locales (rule v5_object_descriptor_bytes_length, rule v5_object_descriptor_of_bytes)

interpretation spec_layout: struct_layout v5_spec_bytes v5_spec_of 16
  by unfold_locales (rule v5_spec_bytes_length, rule v5_spec_of_bytes)

interpretation objects_layout: struct_layout v5_objects_bytes v5_objects_of 104
  by unfold_locales (rule v5_objects_bytes_length, rule v5_objects_of_bytes)

end
