(* ===== verification/Frame_Check.thy ===== *)
theory Frame_Check
  imports Frame_Layout
begin

text \<open>
  The executor's side of \<open>VULKAN_DISPATCH_V5\<close> (\<open>pdocker_gpu_executor.c\<close>): receiving a frame from a client,
  the checks of its header and tables, and the conversion of its descriptors into buffer bindings and
  image descriptors. A C result is 0 or a negated error number; \<open>off_t\<close> and \<open>size_t\<close> values are 64-bit words.
\<close>

section \<open>Constants\<close>

definition V5_MAGIC :: string where "V5_MAGIC = ''PDGPUV5'' @ [CHR 0x00]"
definition V5_ABI_MAJOR :: u16 where "V5_ABI_MAJOR = 5"
definition V5_ABI_MINOR :: u16 where "V5_ABI_MINOR = 0"
definition V5_ABI_MINOR_OBJECTS :: u16 where "V5_ABI_MINOR_OBJECTS = 1"
definition V5_COMMAND_DISPATCH :: u16 where "V5_COMMAND_DISPATCH = 1"
definition V5_RESOURCE_SCHEMA_HASH :: u64 where "V5_RESOURCE_SCHEMA_HASH = 0x5fd531f2d77e9ad1"
definition V5_DESCRIPTOR_SCHEMA_HASH :: u64 where "V5_DESCRIPTOR_SCHEMA_HASH = 0xb262ddf93c2ca096"
definition V5_IMAGE_SCHEMA_HASH :: u64 where "V5_IMAGE_SCHEMA_HASH = 0x41f750ec2c5cfc82"
definition V5_IMAGE_VIEW_SCHEMA_HASH :: u64 where "V5_IMAGE_VIEW_SCHEMA_HASH = 0xfef2d65210c4a660"
definition V5_SAMPLER_SCHEMA_HASH :: u64 where "V5_SAMPLER_SCHEMA_HASH = 0xc4c997c91fb85ab5"
definition V5_DESCRIPTOR_OBJECT_SCHEMA_HASH :: u64 where "V5_DESCRIPTOR_OBJECT_SCHEMA_HASH = 0xc7d2cec7923555f7"
definition V5_MAX_FRAME_BYTES :: u64 where "V5_MAX_FRAME_BYTES = 0x400000"
definition V5_MAX_FDS :: nat where "V5_MAX_FDS = 253"
definition V5_MAX_RESOURCES :: nat where "V5_MAX_RESOURCES = 1024"
definition V5_MAX_DESCRIPTORS :: nat where "V5_MAX_DESCRIPTORS = 2048"
definition V5_MAX_IMAGES :: nat where "V5_MAX_IMAGES = 256"
definition V5_MAX_IMAGE_VIEWS :: nat where "V5_MAX_IMAGE_VIEWS = 512"
definition V5_MAX_SAMPLERS :: nat where "V5_MAX_SAMPLERS = 512"
definition GPU_MAX_PASSED_FDS :: nat where "GPU_MAX_PASSED_FDS = 24"
definition GPU_MAX_VULKAN_BINDINGS :: nat where "GPU_MAX_VULKAN_BINDINGS = 16"
definition GPU_MAX_VULKAN_ENTRY_NAME :: nat where "GPU_MAX_VULKAN_ENTRY_NAME = 128"
definition GPU_MAX_PUSH_BYTES :: nat where "GPU_MAX_PUSH_BYTES = 256"
definition GPU_MAX_VULKAN_SPECIALIZATION_ENTRIES :: nat where "GPU_MAX_VULKAN_SPECIALIZATION_ENTRIES = 16"
definition GPU_MAX_VULKAN_SPECIALIZATION_BYTES :: nat where "GPU_MAX_VULKAN_SPECIALIZATION_BYTES = 256"
definition GPU_MAX_COMMAND_BYTES :: nat where "GPU_MAX_COMMAND_BYTES = 4096"

abbreviation RESOURCE_MEMORY :: u32 where "RESOURCE_MEMORY \<equiv> 1"
abbreviation RESOURCE_BUFFER :: u32 where "RESOURCE_BUFFER \<equiv> 2"
abbreviation RESOURCE_IMAGE :: u32 where "RESOURCE_IMAGE \<equiv> 3"
abbreviation RESOURCE_IMAGE_VIEW :: u32 where "RESOURCE_IMAGE_VIEW \<equiv> 4"
abbreviation RESOURCE_SAMPLER :: u32 where "RESOURCE_SAMPLER \<equiv> 5"
abbreviation V5_NONE :: u32 where "V5_NONE \<equiv> 0xffffffff"
abbreviation FLAG_HOST_FD_BACKED :: u32 where "FLAG_HOST_FD_BACKED \<equiv> 1"
abbreviation FLAG_DYNAMIC :: u32 where "FLAG_DYNAMIC \<equiv> 1"
abbreviation UINT64_MAX :: u64 where "UINT64_MAX \<equiv> 0xffffffffffffffff"

section \<open>Ranges\<close>

definition range_within_frame :: "u64 \<Rightarrow> u64 \<Rightarrow> u64 \<Rightarrow> bool" where
  "range_within_frame offset sz frame_size \<longleftrightarrow> \<not> (frame_size < offset) \<and> \<not> (frame_size - offset < sz)"

definition checked_u64_add3 :: "u64 \<Rightarrow> u64 \<Rightarrow> u64 \<Rightarrow> u64 option" where
  "checked_u64_add3 a b c =
     (if UINT64_MAX - b < a then None
      else if UINT64_MAX - c < a + b then None
      else Some (a + b + c))"

section \<open>The header\<close>

definition v5_entry_sizes_ok :: "v5_header \<Rightarrow> bool" where
  "v5_entry_sizes_ok h \<longleftrightarrow>
     vh_resource_entry_size h = 72 \<and> (0 < vh_specialization_count h \<longrightarrow> vh_specialization_entry_size h = 16) \<and>
     (if vh_abi_minor h = V5_ABI_MINOR
      then vh_descriptor_entry_size h = 80 \<and> vh_descriptor_schema_hash h = V5_DESCRIPTOR_SCHEMA_HASH
      else vh_descriptor_entry_size h = 88 \<and> vh_descriptor_schema_hash h = V5_DESCRIPTOR_OBJECT_SCHEMA_HASH) \<and>
     vh_resource_schema_hash h = V5_RESOURCE_SCHEMA_HASH"

definition v5_table_sizes_ok :: "v5_header \<Rightarrow> bool" where
  "v5_table_sizes_ok h \<longleftrightarrow>
     ucast (vh_resource_count h) * ucast (vh_resource_entry_size h) = vh_resource_table_size h \<and>
     ucast (vh_descriptor_count h) * ucast (vh_descriptor_entry_size h) = vh_descriptor_table_size h \<and>
     ucast (vh_specialization_count h) * ucast (vh_specialization_entry_size h) = vh_specialization_table_size h"

definition v5_ranges_ok :: "v5_header \<Rightarrow> bool" where
  "v5_ranges_ok h \<longleftrightarrow>
     list_all (\<lambda>(off, sz). range_within_frame off sz (vh_frame_size h))
       [(vh_resource_table_offset h, vh_resource_table_size h), (vh_descriptor_table_offset h, vh_descriptor_table_size h),
        (vh_specialization_table_offset h, vh_specialization_table_size h),
        (vh_specialization_data_offset h, vh_specialization_data_size h), (vh_push_offset h, vh_push_size h),
        (vh_entry_name_offset h, vh_entry_name_size h), (vh_option_text_offset h, vh_option_text_size h)]"

definition validate_vulkan_dispatch_v5_header :: "v5_header \<Rightarrow> nat \<Rightarrow> int" where
  "validate_vulkan_dispatch_v5_header h received_fd_count =
     (if vh_magic h \<noteq> V5_MAGIC then - EPROTO
      else if vh_abi_major h \<noteq> V5_ABI_MAJOR \<or> vh_command h \<noteq> V5_COMMAND_DISPATCH then - EPROTO
      else if \<not> (vh_abi_minor h = V5_ABI_MINOR \<and> vh_header_size h = 288 \<or>
                 vh_abi_minor h = V5_ABI_MINOR_OBJECTS \<and> vh_header_size h = 392) then - EPROTO
      else if vh_frame_size h < ucast (vh_header_size h) \<or> V5_MAX_FRAME_BYTES < vh_frame_size h then - EMSGSIZE
      else if V5_MAX_FDS < unat (vh_fd_count h) \<or> unat (vh_fd_count h) \<noteq> received_fd_count \<or>
              vh_fd_count h \<le> vh_shader_fd_index h then - EBADF
      else if V5_MAX_RESOURCES < unat (vh_resource_count h) \<or> V5_MAX_DESCRIPTORS < unat (vh_descriptor_count h) then - E2BIG
      else if \<not> v5_entry_sizes_ok h then - EPROTO
      else if \<not> v5_table_sizes_ok h then - EPROTO
      else if \<not> v5_ranges_ok h then - EPROTO
      else 0)"

text \<open>The object extension, which follows the header when the minor version is \<open>V5_ABI_MINOR_OBJECTS\<close>.\<close>

definition v5_objects_at :: "string \<Rightarrow> v5_objects" where
  "v5_objects_at frame = v5_objects_of (drop 288 frame)"

definition validate_vulkan_dispatch_v5_object_extension :: "string \<Rightarrow> v5_header \<Rightarrow> int" where
  "validate_vulkan_dispatch_v5_object_extension frame h =
     (if vh_abi_minor h \<noteq> V5_ABI_MINOR_OBJECTS then 0
      else if vh_header_size h \<noteq> 392 then - EPROTO
      else if \<not> range_within_frame 0 392 (vh_frame_size h) then - EPROTO
      else let x = v5_objects_at frame in
        if V5_MAX_IMAGES < unat (vx_image_count x) \<or> V5_MAX_IMAGE_VIEWS < unat (vx_image_view_count x) \<or>
           V5_MAX_SAMPLERS < unat (vx_sampler_count x) then - E2BIG
        else if 0 < vx_image_count x \<and> vx_image_entry_size x \<noteq> 104 \<or>
                0 < vx_image_view_count x \<and> vx_image_view_entry_size x \<noteq> 72 \<or>
                0 < vx_sampler_count x \<and> vx_sampler_entry_size x \<noteq> 88 then - EPROTO
        else if 0 < vx_image_count x \<and> vx_image_schema_hash x \<noteq> V5_IMAGE_SCHEMA_HASH \<or>
                0 < vx_image_view_count x \<and> vx_image_view_schema_hash x \<noteq> V5_IMAGE_VIEW_SCHEMA_HASH \<or>
                0 < vx_sampler_count x \<and> vx_sampler_schema_hash x \<noteq> V5_SAMPLER_SCHEMA_HASH then - EPROTO
        else if ucast (vx_image_count x) * ucast (vx_image_entry_size x) \<noteq> vx_image_table_size x \<or>
                ucast (vx_image_view_count x) * ucast (vx_image_view_entry_size x) \<noteq> vx_image_view_table_size x \<or>
                ucast (vx_sampler_count x) * ucast (vx_sampler_entry_size x) \<noteq> vx_sampler_table_size x then - EPROTO
        else if \<not> range_within_frame (vx_image_table_offset x) (vx_image_table_size x) (vh_frame_size h) \<or>
                \<not> range_within_frame (vx_image_view_table_offset x) (vx_image_view_table_size x) (vh_frame_size h) \<or>
                \<not> range_within_frame (vx_sampler_table_offset x) (vx_sampler_table_size x) (vh_frame_size h) then - EPROTO
        else 0)"

section \<open>Receiving a frame\<close>

text \<open>
  The bytes a client sends until it closes the connection, and the descriptors that come with the first
  of them. The control buffer has room for \<open>GPU_MAX_PASSED_FDS\<close> descriptors; the kernel drops the others.
\<close>

record sock =
  so_bytes :: string
  so_fds :: "int list"

definition recv_vulkan_dispatch_v5_header_with_fds :: "sock \<Rightarrow> int \<times> v5_header \<times> int list \<times> sock" where
  "recv_vulkan_dispatch_v5_header_with_fds s =
     (let got = take 288 (so_bytes s);
          h = v5_header_of (got @ replicate (288 - length got) (CHR 0x00));
          fds = take GPU_MAX_PASSED_FDS (so_fds s) in
      if got = [] then (0, h, [], s)
      else (validate_vulkan_dispatch_v5_header h (length fds), h, fds, s\<lparr>so_bytes := drop 288 (so_bytes s), so_fds := []\<rparr>))"

definition read_exact_bytes :: "nat \<Rightarrow> sock \<Rightarrow> (int + string) \<times> sock" where
  "read_exact_bytes n s =
     (if length (so_bytes s) < n then (Inl (- ECONNRESET), s\<lparr>so_bytes := []\<rparr>)
      else (Inr (take n (so_bytes s)), s\<lparr>so_bytes := drop n (so_bytes s)\<rparr>))"

text \<open>
  The outcome of receiving: an error, a frame with its header, or, when the first receive finds the
  connection closed, a copy of the header into a buffer of no bytes.
\<close>

datatype received = RecvError int | RecvOverrun | RecvFrame string v5_header "int list"

definition read_v5_body :: "v5_header \<Rightarrow> sock \<Rightarrow> (int + string) \<times> sock" where
  "read_v5_body h s =
     (case (if 288 < vh_header_size h then read_exact_bytes (unat (vh_header_size h) - 288) s else (Inr [], s)) of
        (Inl e, s) \<Rightarrow> (Inl e, s)
      | (Inr x, s) \<Rightarrow>
          (case read_exact_bytes (unat (vh_frame_size h - ucast (vh_header_size h))) s of
             (Inl e, s) \<Rightarrow> (Inl e, s)
           | (Inr rest, s) \<Rightarrow> (Inr (x @ rest), s)))"

definition recv_vulkan_dispatch_v5_frame :: "bool \<Rightarrow> sock \<Rightarrow> received \<times> sock" where
  "recv_vulkan_dispatch_v5_frame calloc_ok s =
     (let (rc, h, fds, s) = recv_vulkan_dispatch_v5_header_with_fds s in
      if rc \<noteq> 0 then (RecvError rc, s)
      else if \<not> calloc_ok then (RecvError (- ENOMEM), s)
      else if vh_frame_size h < 288 then (RecvOverrun, s)
      else case read_v5_body h s of
        (Inl e, s) \<Rightarrow> (RecvError e, s)
      | (Inr body, s) \<Rightarrow>
          (let frame = v5_header_bytes h @ body; rc = validate_vulkan_dispatch_v5_object_extension frame h in
           if rc \<noteq> 0 then (RecvError rc, s) else (RecvFrame frame h fds, s)))"

text \<open>The look at the first bytes that decides whether a frame follows.\<close>

definition connection_starts_with_v5_magic :: "sock \<Rightarrow> bool" where
  "connection_starts_with_v5_magic s \<longleftrightarrow> take 8 (so_bytes s) = V5_MAGIC"

section \<open>Descriptor types\<close>

text \<open>\<open>VkDescriptorType\<close>: 0 sampler, 1 combined image and sampler, 2 sampled image, 3 storage image, 6 uniform
  buffer, 7 storage buffer, 8 and 9 their dynamic forms, 10 input attachment.\<close>

definition vulkan_dispatch_descriptor_type_from_api :: "u32 \<Rightarrow> u32 option" where
  "vulkan_dispatch_descriptor_type_from_api ty =
     (if ty = 7 \<or> ty = 9 then Some 7 else if ty = 6 \<or> ty = 8 then Some 6 else None)"

definition vulkan_dispatch_image_descriptor_type_from_api :: "u32 \<Rightarrow> u32 option" where
  "vulkan_dispatch_image_descriptor_type_from_api ty = (if ty \<in> set [0, 1, 2, 3, 10] then Some ty else None)"

definition vulkan_descriptor_type_requires_image_view :: "u32 \<Rightarrow> bool" where
  "vulkan_descriptor_type_requires_image_view ty \<longleftrightarrow> ty \<in> set [1, 2, 3, 10]"

definition vulkan_descriptor_type_requires_sampler :: "u32 \<Rightarrow> bool" where
  "vulkan_descriptor_type_requires_sampler ty \<longleftrightarrow> ty \<in> set [0, 1]"

section \<open>The tables of a frame\<close>

record v5_tables =
  vt_resources :: "v5_resource list"
  vt_images :: "v5_image list"
  vt_views :: "v5_view list"
  vt_samplers :: "v5_sampler list"
  vt_fds :: "int list"

text \<open>A descriptor of the old form, as one of the new form.\<close>

definition object_copy :: "v5_descriptor \<Rightarrow> v5_object_descriptor" where
  "object_copy d =
     \<lparr>vo_descriptor_set = vd_descriptor_set d, vo_binding = vd_binding d, vo_array_element = vd_array_element d,
      vo_descriptor_type = vd_descriptor_type d, vo_descriptor_flags = vd_descriptor_flags d,
      vo_access_flags = vd_access_flags d, vo_resource_index = vd_resource_index d, vo_image_view_index = V5_NONE,
      vo_sampler_index = V5_NONE, vo_image_layout = 0, vo_resource_id = vd_resource_id d,
      vo_buffer_offset = vd_buffer_offset d, vo_range = vd_range d, vo_transfer_offset = vd_transfer_offset d,
      vo_transfer_size = vd_transfer_size d, vo_dynamic_offset = vd_dynamic_offset d\<rparr>"

definition frame_tables :: "string \<Rightarrow> v5_header \<Rightarrow> int list \<Rightarrow> v5_tables" where
  "frame_tables frame h fds =
     (let rs = table_at v5_resource_of 72 (unat (vh_resource_table_offset h)) (unat (vh_resource_count h)) frame;
          x = v5_objects_at frame in
      if vh_abi_minor h = V5_ABI_MINOR_OBJECTS then
        \<lparr>vt_resources = rs,
         vt_images = table_at v5_image_of 104 (unat (vx_image_table_offset x)) (unat (vx_image_count x)) frame,
         vt_views = table_at v5_view_of 72 (unat (vx_image_view_table_offset x)) (unat (vx_image_view_count x)) frame,
         vt_samplers = table_at v5_sampler_of 88 (unat (vx_sampler_table_offset x)) (unat (vx_sampler_count x)) frame,
         vt_fds = fds\<rparr>
      else \<lparr>vt_resources = rs, vt_images = [], vt_views = [], vt_samplers = [], vt_fds = fds\<rparr>)"

definition frame_descriptors :: "string \<Rightarrow> v5_header \<Rightarrow> v5_object_descriptor list" where
  "frame_descriptors frame h =
     (let off = unat (vh_descriptor_table_offset h); n = unat (vh_descriptor_count h) in
      if vh_abi_minor h = V5_ABI_MINOR_OBJECTS then table_at v5_object_descriptor_of 88 off n frame
      else map object_copy (table_at v5_descriptor_of 80 off n frame))"

text \<open>\<open>v5_frame_range\<close> of each table, and the tables' own checks.\<close>

definition table_ranges_ok :: "v5_header \<Rightarrow> bool" where
  "table_ranges_ok h \<longleftrightarrow>
     range_within_frame (vh_resource_table_offset h) (vh_resource_table_size h) (vh_frame_size h) \<and>
     range_within_frame (vh_descriptor_table_offset h) (vh_descriptor_table_size h) (vh_frame_size h)"

definition object_ranges_ok :: "string \<Rightarrow> v5_header \<Rightarrow> bool" where
  "object_ranges_ok frame h \<longleftrightarrow>
     (let x = v5_objects_at frame in
      vh_abi_minor h = V5_ABI_MINOR_OBJECTS \<longrightarrow>
      (vx_image_count x \<noteq> 0 \<longrightarrow> range_within_frame (vx_image_table_offset x) (vx_image_table_size x) (vh_frame_size h)) \<and>
      (vx_image_view_count x \<noteq> 0 \<longrightarrow>
         range_within_frame (vx_image_view_table_offset x) (vx_image_view_table_size x) (vh_frame_size h)) \<and>
      (vx_sampler_count x \<noteq> 0 \<longrightarrow> range_within_frame (vx_sampler_table_offset x) (vx_sampler_table_size x) (vh_frame_size h)))"

fun check_images :: "v5_resource list \<Rightarrow> v5_image list \<Rightarrow> int" where
  "check_images rs [] = 0"
| "check_images rs (im # ims) =
     (if length rs \<le> unat (vi_memory_resource_index im) then - EPROTO
      else let mem = rs ! unat (vi_memory_resource_index im) in
        if vr_resource_type mem \<noteq> RESOURCE_MEMORY then - EPROTO
        else if vr_size mem < vi_memory_offset im \<or> vr_size mem - vi_memory_offset im < vi_memory_size im then - ERANGE
        else check_images rs ims)"

definition fd_missing :: "int list \<Rightarrow> u32 \<Rightarrow> bool" where
  "fd_missing fds i \<longleftrightarrow> length fds \<le> unat i \<or> fds ! unat i < 0"

definition check_resource :: "v5_resource list \<Rightarrow> int list \<Rightarrow> v5_resource \<Rightarrow> int" where
  "check_resource rs fds r =
     (if vr_resource_type r = RESOURCE_MEMORY then
        (if vr_resource_flags r AND FLAG_HOST_FD_BACKED \<noteq> 0 \<and> (vr_fd_index r = V5_NONE \<or> fd_missing fds (vr_fd_index r))
         then - EBADF
         else if vr_parent_resource_index r \<noteq> V5_NONE then - EPROTO else 0)
      else if vr_resource_type r = RESOURCE_BUFFER then
        (if length rs \<le> unat (vr_parent_resource_index r) then - EPROTO
         else let mem = rs ! unat (vr_parent_resource_index r) in
           if vr_resource_type mem \<noteq> RESOURCE_MEMORY then - EPROTO
           else if vr_size mem < vr_memory_offset r \<or> vr_size mem - vr_memory_offset r < vr_size r then - ERANGE
           else if vr_fd_index r \<noteq> V5_NONE then - EPROTO else 0)
      else if vr_resource_type r \<in> set [RESOURCE_IMAGE, RESOURCE_IMAGE_VIEW, RESOURCE_SAMPLER] then
        (if vr_fd_index r \<noteq> V5_NONE then - EPROTO else 0)
      else - EOPNOTSUPP)"

fun check_resources :: "v5_resource list \<Rightarrow> int list \<Rightarrow> v5_resource list \<Rightarrow> int" where
  "check_resources rs fds [] = 0"
| "check_resources rs fds (r # todo) = (if check_resource rs fds r \<noteq> 0 then check_resource rs fds r else check_resources rs fds todo)"

section \<open>Bindings\<close>

record binding =
  db_set :: u32
  db_binding :: u32
  db_array_element :: u32
  db_offset :: u64
  db_size :: u64
  db_api_offset :: u64
  db_api_range :: u64
  db_api_buffer_size :: u64
  db_api_type :: u32
  db_api_dynamic :: bool
  db_api_memory_offset :: u64
  db_api_memory_size :: u64
  db_api_memory_id :: u64
  db_api_buffer_id :: u64
  db_fd :: int

record image_binding =
  ib_set :: u32
  ib_binding :: u32
  ib_array_element :: u32
  ib_api_type :: u32
  ib_flags :: u32
  ib_access :: u32
  ib_resource_index :: u32
  ib_view_index :: u32
  ib_sampler_index :: u32
  ib_layout :: u32
  ib_resource_id :: u64

text \<open>Whether a descriptor is taken for an image descriptor, and what it must then name.\<close>

definition is_image_descriptor :: "v5_object_descriptor \<Rightarrow> bool" where
  "is_image_descriptor d \<longleftrightarrow> vo_image_view_index d \<noteq> V5_NONE \<or> vo_sampler_index d \<noteq> V5_NONE \<or>
     vulkan_dispatch_image_descriptor_type_from_api (vo_descriptor_type d) \<noteq> None"

definition convert_image :: "bool \<Rightarrow> v5_tables \<Rightarrow> v5_object_descriptor \<Rightarrow> int + image_binding" where
  "convert_image objects t d =
     (let ty = vo_descriptor_type d; vi = vo_image_view_index d; si = vo_sampler_index d in
      if vulkan_dispatch_image_descriptor_type_from_api ty = None then Inl (- EOPNOTSUPP)
      else if \<not> objects then Inl (- EPROTO)
      else if vulkan_descriptor_type_requires_image_view ty \<and>
              (vi = V5_NONE \<or> length (vt_views t) \<le> unat vi \<or>
               vo_resource_id d \<noteq> 0 \<and> vo_resource_id d \<noteq> vv_view_id (vt_views t ! unat vi)) then Inl (- EPROTO)
      else if \<not> vulkan_descriptor_type_requires_image_view ty \<and> vi \<noteq> V5_NONE \<and> length (vt_views t) \<le> unat vi then Inl (- EPROTO)
      else if vulkan_descriptor_type_requires_sampler ty \<and>
              (si = V5_NONE \<or> length (vt_samplers t) \<le> unat si \<or>
               \<not> vulkan_descriptor_type_requires_image_view ty \<and> vo_resource_id d \<noteq> 0 \<and>
               vo_resource_id d \<noteq> vs_sampler_id (vt_samplers t ! unat si)) then Inl (- EPROTO)
      else if \<not> vulkan_descriptor_type_requires_sampler ty \<and> si \<noteq> V5_NONE \<and> length (vt_samplers t) \<le> unat si then Inl (- EPROTO)
      else Inr \<lparr>ib_set = vo_descriptor_set d, ib_binding = vo_binding d, ib_array_element = vo_array_element d, ib_api_type = ty,
                ib_flags = vo_descriptor_flags d, ib_access = vo_access_flags d, ib_resource_index = vo_resource_index d,
                ib_view_index = vi, ib_sampler_index = si, ib_layout = vo_image_layout d, ib_resource_id = vo_resource_id d\<rparr>)"

definition buffer_binding :: "v5_resource \<Rightarrow> v5_resource \<Rightarrow> v5_object_descriptor \<Rightarrow> int \<Rightarrow> u64 \<Rightarrow> u64 \<Rightarrow> binding" where
  "buffer_binding buf mem d fd fd_offset api_offset =
     \<lparr>db_set = vo_descriptor_set d, db_binding = vo_binding d, db_array_element = vo_array_element d,
      db_offset = fd_offset, db_size = vo_transfer_size d, db_api_offset = api_offset,
      db_api_range = (if vo_range d = UINT64_MAX then vr_size buf - vo_buffer_offset d else vo_range d),
      db_api_buffer_size = vr_size buf, db_api_type = vo_descriptor_type d,
      db_api_dynamic = (vo_descriptor_flags d AND FLAG_DYNAMIC \<noteq> 0), db_api_memory_offset = vr_memory_offset buf,
      db_api_memory_size = vr_size mem, db_api_memory_id = vr_resource_id mem, db_api_buffer_id = vr_resource_id buf,
      db_fd = fd\<rparr>"

definition convert_buffer :: "v5_tables \<Rightarrow> v5_object_descriptor \<Rightarrow> int + binding" where
  "convert_buffer t d =
     (let rs = vt_resources t in
      if length rs \<le> unat (vo_resource_index d) then Inl (- EPROTO)
      else let buf = rs ! unat (vo_resource_index d) in
        if vr_resource_type buf \<noteq> RESOURCE_BUFFER then Inl (- EPROTO)
        else let mem = rs ! unat (vr_parent_resource_index buf) in
          if vr_resource_type mem \<noteq> RESOURCE_MEMORY then Inl (- EPROTO)
          else if fd_missing (vt_fds t) (vr_fd_index mem) then Inl (- EBADF)
          else if vulkan_dispatch_descriptor_type_from_api (vo_descriptor_type d) = None then Inl (- EOPNOTSUPP)
          else if vr_size buf < vo_buffer_offset d \<or>
                  vo_range d \<noteq> UINT64_MAX \<and> vr_size buf - vo_buffer_offset d < vo_range d then Inl (- ERANGE)
          else if vr_size buf < vo_transfer_offset d \<or> vr_size buf - vo_transfer_offset d < vo_transfer_size d then Inl (- ERANGE)
          else case (checked_u64_add3 (vr_external_offset mem) (vr_memory_offset buf) (vo_transfer_offset d),
                     checked_u64_add3 (vo_buffer_offset d) (vo_dynamic_offset d) 0) of
            (Some fd_offset, Some api_offset) \<Rightarrow>
              Inr (buffer_binding buf mem d (vt_fds t ! unat (vr_fd_index mem)) fd_offset api_offset)
          | _ \<Rightarrow> Inl (- EOVERFLOW))"

text \<open>The capacity of the image descriptors is tested before the entry is filled, that of the buffers
  before the offsets are added up.\<close>

fun convert_descriptors ::
  "bool \<Rightarrow> v5_tables \<Rightarrow> v5_object_descriptor list \<Rightarrow> binding list \<Rightarrow> image_binding list \<Rightarrow> int + binding list \<times> image_binding list" where
  "convert_descriptors objects t [] bs is = Inr (bs, is)"
| "convert_descriptors objects t (d # ds) bs is =
     (if is_image_descriptor d then
        (case convert_image objects t d of
           Inl e \<Rightarrow> Inl e
         | Inr i \<Rightarrow> if GPU_MAX_VULKAN_BINDINGS \<le> length is then Inl (- E2BIG)
                    else convert_descriptors objects t ds bs (is @ [i]))
      else case convert_buffer t d of
             Inl e \<Rightarrow> Inl (if e = - EOVERFLOW \<and> GPU_MAX_VULKAN_BINDINGS \<le> length bs then - E2BIG else e)
           | Inr b \<Rightarrow> if GPU_MAX_VULKAN_BINDINGS \<le> length bs then Inl (- E2BIG)
                      else convert_descriptors objects t ds (bs @ [b]) is)"

definition convert_vulkan_dispatch_v5_to_v4_bindings ::
  "string \<Rightarrow> v5_header \<Rightarrow> int list \<Rightarrow> int + binding list \<times> image_binding list \<times> v5_tables" where
  "convert_vulkan_dispatch_v5_to_v4_bindings frame h fds =
     (let t = frame_tables frame h fds; objects = (vh_abi_minor h = V5_ABI_MINOR_OBJECTS) in
      if \<not> table_ranges_ok h then Inl (- EPROTO)
      else if \<not> object_ranges_ok frame h then Inl (- EPROTO)
      else if check_images (vt_resources t) (vt_images t) \<noteq> 0 then Inl (check_images (vt_resources t) (vt_images t))
      else if \<exists>v\<in>set (vt_views t). length (vt_images t) \<le> unat (vv_image_index v) then Inl (- EPROTO)
      else if check_resources (vt_resources t) fds (vt_resources t) \<noteq> 0
      then Inl (check_resources (vt_resources t) fds (vt_resources t))
      else case convert_descriptors objects t (frame_descriptors frame h) [] [] of
             Inl e \<Rightarrow> Inl e
           | Inr (bs, is) \<Rightarrow>
               Inr (bs, is, if objects then t
                            else \<lparr>vt_resources = [], vt_images = [], vt_views = [], vt_samplers = [], vt_fds = []\<rparr>))"

section \<open>The other parts of a frame\<close>

text \<open>
  What the dispatch is given besides its bindings: the entry point's name, the push constants, the
  specialization constants with their data, and the text of the options, \<open>None\<close> when a part is too long.
\<close>

definition v5_frame_range :: "string \<Rightarrow> v5_header \<Rightarrow> u64 \<Rightarrow> u64 \<Rightarrow> string option" where
  "v5_frame_range frame h off sz =
     (if \<not> range_within_frame off sz (vh_frame_size h) then None else Some (take (unat sz) (drop (unat off) frame)))"

record payload =
  pl_entry :: string
  pl_push :: string
  pl_specs :: "v5_spec list"
  pl_spec_data :: string
  pl_options :: string

definition frame_payload :: "string \<Rightarrow> v5_header \<Rightarrow> payload option" where
  "frame_payload frame h =
     (case v5_frame_range frame h (vh_entry_name_offset h) (vh_entry_name_size h) of
        None \<Rightarrow> None
      | Some entry \<Rightarrow>
          (if GPU_MAX_VULKAN_ENTRY_NAME \<le> unat (vh_entry_name_size h) then None
           else let push = v5_frame_range frame h (vh_push_offset h) (vh_push_size h);
                    specs = v5_frame_range frame h (vh_specialization_table_offset h) (vh_specialization_table_size h);
                    spec_data = v5_frame_range frame h (vh_specialization_data_offset h) (vh_specialization_data_size h) in
             if GPU_MAX_PUSH_BYTES < unat (vh_push_size h) \<or> 0 < vh_push_size h \<and> push = None then None
             else if GPU_MAX_VULKAN_SPECIALIZATION_ENTRIES < unat (vh_specialization_count h) \<or>
                     GPU_MAX_VULKAN_SPECIALIZATION_BYTES < unat (vh_specialization_data_size h) \<or>
                     0 < vh_specialization_count h \<and> specs = None \<or> 0 < vh_specialization_data_size h \<and> spec_data = None
             then None
             else let opts = v5_frame_range frame h (vh_option_text_offset h) (vh_option_text_size h) in
               if 0 < vh_option_text_size h \<and> (opts = None \<or> GPU_MAX_COMMAND_BYTES \<le> unat (vh_option_text_size h)) then None
               else Some \<lparr>pl_entry = entry, pl_push = (case push of None \<Rightarrow> [] | Some bs \<Rightarrow> bs),
                          pl_specs = table_at v5_spec_of 16 (unat (vh_specialization_table_offset h))
                                       (unat (vh_specialization_count h)) frame,
                          pl_spec_data = (case spec_data of None \<Rightarrow> [] | Some bs \<Rightarrow> bs),
                          pl_options = (case opts of None \<Rightarrow> [] | Some bs \<Rightarrow> bs)\<rparr>))"

section \<open>The strict contract of the bindings\<close>

text \<open>The name of the field at fault, \<open>None\<close> when the binding is accepted.\<close>

definition strict_binding_fault :: "binding \<Rightarrow> string option" where
  "strict_binding_fault b =
     (if db_offset b <s 0 then Some ''offset''
      else if db_api_memory_id b = 0 then Some ''api_memory_id''
      else if db_api_buffer_id b = 0 then Some ''api_buffer_id''
      else if db_api_buffer_size b = 0 then Some ''api_buffer_size''
      else if db_api_memory_size b = 0 then Some ''api_memory_size''
      else if db_api_memory_offset b <s 0 then Some ''api_memory_offset''
      else if db_api_offset b <s 0 then Some ''api_offset''
      else if db_api_buffer_size b < db_api_offset b \<or> db_api_buffer_size b - db_api_offset b < db_size b then Some ''api_offset''
      else if db_api_range b = 0 \<or> db_api_buffer_size b - db_api_offset b < db_api_range b \<or> db_api_range b < db_size b
      then Some ''api_range''
      else if db_api_memory_size b < db_api_memory_offset b \<or>
              db_api_memory_size b - db_api_memory_offset b < db_api_buffer_size b then Some ''api_memory_offset''
      else if UINT64_MAX - db_api_offset b < db_api_memory_offset b \<or>
              db_offset b \<noteq> db_api_memory_offset b + db_api_offset b then Some ''offset''
      else None)"

fun validate_strict_vulkan_binding_contract :: "binding list \<Rightarrow> nat \<Rightarrow> (string \<times> nat) option" where
  "validate_strict_vulkan_binding_contract [] i = None"
| "validate_strict_vulkan_binding_contract (b # bs) i =
     (case strict_binding_fault b of
        Some fault \<Rightarrow> Some (fault, i)
      | None \<Rightarrow> validate_strict_vulkan_binding_contract bs (Suc i))"

end
