(* ===== verification/Frame_Build.thy ===== *)
theory Frame_Build
  imports Frame_Check
begin

text \<open>
  The client's side of \<open>VULKAN_DISPATCH_V5\<close> (\<open>pdocker_vulkan_icd.c\<close>): the frame that a dispatch is sent in.
  The arrays of the arguments are lists of records, one per binding, image, view, sampler and image
  descriptor; a pointer is its address, floating-point numbers are their bits.
\<close>

section \<open>Arguments\<close>

record vk_memory =
  vkm_ptr :: u64
  vkm_fd :: int
  vkm_size :: u64

record vk_image =
  ic_ptr :: u64
  ic_memory :: "vk_memory option"
  ic_mixed :: bool
  ic_memory_offset :: u64
  ic_requirements :: u64
  ic_flags :: u32
  ic_type :: u32
  ic_format :: u32
  ic_width :: u32
  ic_height :: u32
  ic_depth :: u32
  ic_mips :: u32
  ic_layers :: u32
  ic_samples :: u32
  ic_tiling :: u32
  ic_usage :: u32
  ic_sharing :: u32
  ic_layout :: u32
  ic_generation :: u64

record vk_view =
  wc_ptr :: u64
  wc_image :: "u64 option"
  wc_type :: u32
  wc_format :: u32
  wc_r :: u32
  wc_g :: u32
  wc_b :: u32
  wc_a :: u32
  wc_aspect :: u32
  wc_base_mip :: u32
  wc_levels :: u32
  wc_base_layer :: u32
  wc_layers :: u32
  wc_generation :: u64

record vk_sampler =
  sc_ptr :: u64
  sc_entry :: v5_sampler

record send_binding =
  sb_fd :: int
  sb_set :: u32
  sb_array_element :: u32
  sb_binding :: u32
  sb_offset :: u64
  sb_size :: u64
  sb_api_offset :: u64
  sb_api_range :: u64
  sb_buffer_size :: u64
  sb_type :: u32
  sb_dynamic :: u32
  sb_dynamic_offset :: u64
  sb_memory_offset :: u64
  sb_memory_size :: u64
  sb_memory_id :: u64
  sb_buffer_id :: u64

record send_image =
  si_set :: u32
  si_binding :: u32
  si_array_element :: u32
  si_type :: u32
  si_view :: u32
  si_sampler :: u32
  si_layout :: u32

record dispatch =
  di_id :: u64
  di_shader_fd :: int
  di_shader_size :: u64
  di_shader_hash :: u64
  di_gx :: u32
  di_gy :: u32
  di_gz :: u32
  di_push :: string
  di_push_hash :: u64
  di_entry :: string
  di_specs :: "(u32 \<times> u32 \<times> u64) list"
  di_spec_data :: string
  di_spec_hash :: u64
  di_options :: string
  di_bindings :: "send_binding list"
  di_image_descriptors :: "send_image list"
  di_images :: "vk_image option list"
  di_views :: "vk_view option list"
  di_samplers :: "vk_sampler option list"
  di_hash :: u64

definition VK_MAX_STORAGE_BUFFERS :: nat where "VK_MAX_STORAGE_BUFFERS = 16"
definition VK_MAX_PUSH_BYTES :: nat where "VK_MAX_PUSH_BYTES = 256"
definition VK_MAX_ENTRY_NAME :: nat where "VK_MAX_ENTRY_NAME = 128"
definition VK_MAX_SPECIALIZATION_ENTRIES :: nat where "VK_MAX_SPECIALIZATION_ENTRIES = 16"
definition VK_MAX_SPECIALIZATION_BYTES :: nat where "VK_MAX_SPECIALIZATION_BYTES = 256"

section \<open>Hashes\<close>

definition fnv1a64_update_bytes :: "u64 \<Rightarrow> string \<Rightarrow> u64" where
  "fnv1a64_update_bytes hash bs = foldl (\<lambda>h c. (h XOR of_char c) * 1099511628211) hash bs"

definition fnv1a64_bytes :: "string \<Rightarrow> u64" where
  "fnv1a64_bytes bs = fnv1a64_update_bytes 1469598103934665603 bs"

definition fnv1a64_update_u64 :: "u64 \<Rightarrow> u64 \<Rightarrow> u64" where
  "fnv1a64_update_u64 hash v = fnv1a64_update_bytes hash (to_le 8 v)"

section \<open>Entries\<close>

text \<open>The memory and the buffer of binding \<open>i\<close>; \<open>memory_index\<close> and \<open>fd_index\<close> are their places.\<close>

definition memory_entry :: "u64 \<Rightarrow> u32 \<Rightarrow> u64 \<Rightarrow> u64 \<Rightarrow> v5_resource" where
  "memory_entry ident fd_index sz generation =
     \<lparr>vr_resource_type = RESOURCE_MEMORY, vr_resource_flags = 9, vr_resource_id = ident, vr_parent_resource_index = V5_NONE,
      vr_fd_index = fd_index, vr_memory_offset = 0, vr_size = sz, vr_usage = 0, vr_memory_property_flags = 6,
      vr_external_offset = 0, vr_generation = generation\<rparr>"

definition buffer_entry :: "send_binding \<Rightarrow> u32 \<Rightarrow> u64 \<Rightarrow> v5_resource" where
  "buffer_entry b memory_index generation =
     \<lparr>vr_resource_type = RESOURCE_BUFFER, vr_resource_flags = 8, vr_resource_id = sb_buffer_id b,
      vr_parent_resource_index = memory_index, vr_fd_index = V5_NONE, vr_memory_offset = sb_memory_offset b,
      vr_size = sb_buffer_size b, vr_usage = 0, vr_memory_property_flags = 0, vr_external_offset = 0, vr_generation = generation\<rparr>"

definition buffer_descriptor :: "send_binding \<Rightarrow> u32 \<Rightarrow> v5_object_descriptor" where
  "buffer_descriptor b buffer_index =
     \<lparr>vo_descriptor_set = sb_set b, vo_binding = sb_binding b, vo_array_element = sb_array_element b, vo_descriptor_type = sb_type b,
      vo_descriptor_flags = (if sb_dynamic b \<noteq> 0 then 1 else 0) OR (if sb_api_range b = UINT64_MAX then 2 else 0) OR
        (if sb_array_element b \<noteq> 0 then 4 else 0),
      vo_access_flags = 3, vo_resource_index = buffer_index, vo_image_view_index = V5_NONE, vo_sampler_index = V5_NONE,
      vo_image_layout = 0, vo_resource_id = sb_buffer_id b, vo_buffer_offset = sb_api_offset b, vo_range = sb_api_range b,
      vo_transfer_offset = sb_offset b - sb_memory_offset b, vo_transfer_size = sb_size b, vo_dynamic_offset = sb_dynamic_offset b\<rparr>"

definition transfer_outside :: "send_binding \<Rightarrow> bool" where
  "transfer_outside b \<longleftrightarrow> sb_offset b < sb_memory_offset b \<or>
     (let t = sb_offset b - sb_memory_offset b in sb_buffer_size b < t \<or> sb_buffer_size b - t < sb_size b)"

fun put_bindings :: "u64 \<Rightarrow> nat \<Rightarrow> send_binding list \<Rightarrow> (int + v5_resource list \<times> v5_object_descriptor list)" where
  "put_bindings ident i [] = Inr ([], [])"
| "put_bindings ident i (b # bs) =
     (if transfer_outside b then Inl (- ERANGE)
      else case put_bindings ident (Suc i) bs of
        Inl e \<Rightarrow> Inl e
      | Inr (rs, ds) \<Rightarrow>
          Inr (memory_entry (sb_memory_id b) (of_nat (i + 1)) (sb_memory_size b) ident #
               buffer_entry b (of_nat (2 * i)) ident # rs,
               buffer_descriptor b (of_nat (2 * i + 1)) # ds))"

definition image_entry :: "vk_image \<Rightarrow> u32 \<Rightarrow> v5_image" where
  "image_entry im memory_index =
     \<lparr>vi_flags = (if ic_flags im AND 8 \<noteq> 0 then 1 else 0) OR (if ic_flags im AND 0x10 \<noteq> 0 then 2 else 0) OR
        (if ic_flags im AND 0x400 \<noteq> 0 then 4 else 0),
      vi_image_type = ic_type im, vi_image_id = ic_ptr im, vi_memory_resource_index = memory_index, vi_reserved0 = 0,
      vi_memory_offset = ic_memory_offset im, vi_memory_size = ic_requirements im, vi_format = ic_format im,
      vi_extent_width = ic_width im, vi_extent_height = ic_height im, vi_extent_depth = ic_depth im, vi_mip_levels = ic_mips im,
      vi_array_layers = ic_layers im, vi_samples = ic_samples im, vi_tiling = ic_tiling im, vi_usage = ucast (ic_usage im),
      vi_create_flags = ucast (ic_flags im), vi_sharing_mode = ic_sharing im, vi_initial_layout = ic_layout im,
      vi_generation = ic_generation im\<rparr>"

fun put_images :: "u64 \<Rightarrow> nat \<Rightarrow> nat \<Rightarrow> vk_image option list \<Rightarrow> (int + v5_resource list \<times> v5_image list \<times> int list)" where
  "put_images ident ri fi [] = Inr ([], [], [])"
| "put_images ident ri fi (None # ims) = Inl (- EINVAL)"
| "put_images ident ri fi (Some im # ims) =
     (case ic_memory im of
        None \<Rightarrow> Inl (- EINVAL)
      | Some m \<Rightarrow>
          (if vkm_fd m < 0 then Inl (- EINVAL)
           else if ic_mixed im then Inl (- EOPNOTSUPP)
           else if vkm_size m < ic_memory_offset im \<or> vkm_size m - ic_memory_offset im < ic_requirements im then Inl (- ERANGE)
           else case put_images ident (ri + 1) (fi + 1) ims of
             Inl e \<Rightarrow> Inl e
           | Inr (rs, es, fds) \<Rightarrow>
               Inr (memory_entry (vkm_ptr m) (of_nat fi) (vkm_size m) ident # rs, image_entry im (of_nat ri) # es, vkm_fd m # fds)))"

fun find_image_table_index :: "vk_image option list \<Rightarrow> u64 \<Rightarrow> nat \<Rightarrow> nat option" where
  "find_image_table_index [] p i = None"
| "find_image_table_index (im # ims) p i =
     (if map_option ic_ptr im = Some p then Some i else find_image_table_index ims p (Suc i))"

definition view_entry :: "vk_view \<Rightarrow> u32 \<Rightarrow> v5_view" where
  "view_entry v image_index =
     \<lparr>vv_flags = 0, vv_view_type = wc_type v, vv_view_id = wc_ptr v, vv_image_index = image_index, vv_format = wc_format v,
      vv_component_r = wc_r v, vv_component_g = wc_g v, vv_component_b = wc_b v, vv_component_a = wc_a v,
      vv_aspect_mask = wc_aspect v, vv_base_mip_level = wc_base_mip v, vv_level_count = wc_levels v,
      vv_base_array_layer = wc_base_layer v, vv_layer_count = wc_layers v, vv_generation = wc_generation v\<rparr>"

fun put_views :: "vk_image option list \<Rightarrow> vk_view option list \<Rightarrow> int + v5_view list" where
  "put_views ims [] = Inr []"
| "put_views ims (None # vs) = Inl (- EINVAL)"
| "put_views ims (Some v # vs) =
     (case Option.bind (wc_image v) (\<lambda>p. find_image_table_index ims p 0) of
        None \<Rightarrow> Inl (- EINVAL)
      | Some i \<Rightarrow> map_sum id ((#) (view_entry v (of_nat i))) (put_views ims vs))"

text \<open>A sampler's entry carries its address and its fields.\<close>

fun put_samplers :: "vk_sampler option list \<Rightarrow> int + v5_sampler list" where
  "put_samplers [] = Inr []"
| "put_samplers (None # ss) = Inl (- EINVAL)"
| "put_samplers (Some s # ss) =
     map_sum id ((#) ((sc_entry s)\<lparr>vs_flags := 0, vs_reserved0 := 0, vs_sampler_id := sc_ptr s\<rparr>)) (put_samplers ss)"

definition descriptor_type_requires_image_view :: "u32 \<Rightarrow> bool" where
  "descriptor_type_requires_image_view ty \<longleftrightarrow> ty \<in> set [1, 2, 3, 10]"

definition descriptor_type_requires_sampler :: "u32 \<Rightarrow> bool" where
  "descriptor_type_requires_sampler ty \<longleftrightarrow> ty \<in> set [0, 1]"

text \<open>The address of an object named by its place; a null pointer is 0.\<close>

definition address_of :: "('a \<Rightarrow> u64) \<Rightarrow> 'a option list \<Rightarrow> u32 \<Rightarrow> u64" where
  "address_of ptr xs i = (case xs ! unat i of None \<Rightarrow> 0 | Some x \<Rightarrow> ptr x)"

definition image_descriptor :: "dispatch \<Rightarrow> send_image \<Rightarrow> v5_object_descriptor" where
  "image_descriptor di s =
     \<lparr>vo_descriptor_set = si_set s, vo_binding = si_binding s, vo_array_element = si_array_element s,
      vo_descriptor_type = si_type s, vo_descriptor_flags = 0, vo_access_flags = (if si_type s = 3 then 3 else 1),
      vo_resource_index = V5_NONE, vo_image_view_index = si_view s, vo_sampler_index = si_sampler s,
      vo_image_layout = si_layout s,
      vo_resource_id = (if si_view s \<noteq> V5_NONE then address_of wc_ptr (di_views di) (si_view s)
                        else address_of sc_ptr (di_samplers di) (si_sampler s)),
      vo_buffer_offset = 0, vo_range = 0, vo_transfer_offset = 0, vo_transfer_size = 0, vo_dynamic_offset = 0\<rparr>"

fun put_image_descriptors :: "dispatch \<Rightarrow> send_image list \<Rightarrow> int + v5_object_descriptor list" where
  "put_image_descriptors di [] = Inr []"
| "put_image_descriptors di (s # ss) =
     (if descriptor_type_requires_image_view (si_type s) \<and> si_view s = V5_NONE then Inl (- EINVAL)
      else if descriptor_type_requires_sampler (si_type s) \<and> si_sampler s = V5_NONE then Inl (- EINVAL)
      else map_sum id ((#) (image_descriptor di s)) (put_image_descriptors di ss))"

section \<open>The frame\<close>

definition align_size_8 :: "nat \<Rightarrow> nat" where
  "align_size_8 n = (n + 7) div 8 * 8"

text \<open>
  The buffer is zeroed and filled from the front: the bytes after the headers so far, with \<open>cursor\<close> at
  their end. The result has the data's offset and the bytes with the data.
\<close>

definition frame_append_bytes :: "nat \<Rightarrow> string \<Rightarrow> string \<Rightarrow> (nat \<times> string) option" where
  "frame_append_bytes capacity payload data =
     (let cursor = 392 + length payload; aligned = align_size_8 cursor in
      if capacity < aligned \<or> capacity - aligned < length data then None
      else Some (aligned, payload @ replicate (aligned - cursor) (CHR 0x00) @ data))"

fun append_all :: "nat \<Rightarrow> string list \<Rightarrow> nat list \<Rightarrow> string \<Rightarrow> (nat list \<times> string) option" where
  "append_all capacity [] offs payload = Some (offs, payload)"
| "append_all capacity (d # ds) offs payload =
     (case frame_append_bytes capacity payload d of
        None \<Rightarrow> None
      | Some (off, payload) \<Rightarrow> append_all capacity ds (offs @ [off]) payload)"

record parts =
  pa_resources :: "v5_resource list"
  pa_descriptors :: "v5_object_descriptor list"
  pa_images :: "v5_image list"
  pa_views :: "v5_view list"
  pa_samplers :: "v5_sampler list"
  pa_image_fds :: "int list"

definition spec_entries :: "dispatch \<Rightarrow> v5_spec list" where
  "spec_entries di = map (\<lambda>(c, off, sz). \<lparr>vc_constant_id = c, vc_offset = off, vc_size = sz\<rparr>) (di_specs di)"

definition sections_of :: "dispatch \<Rightarrow> parts \<Rightarrow> string list" where
  "sections_of di p =
     [table_bytes v5_resource_bytes (pa_resources p), table_bytes v5_object_descriptor_bytes (pa_descriptors p),
      table_bytes v5_image_bytes (pa_images p), table_bytes v5_view_bytes (pa_views p),
      table_bytes v5_sampler_bytes (pa_samplers p), table_bytes v5_spec_bytes (spec_entries di),
      di_spec_data di, di_push di, di_entry di, di_options di]"

definition frame_capacity :: "string list \<Rightarrow> nat" where
  "frame_capacity sections = 392 + sum_list (map (\<lambda>s. align_size_8 (length s)) sections) + 64"

definition objects_hash :: "parts \<Rightarrow> u64" where
  "objects_hash p =
     (let h = fnv1a64_update_bytes (fnv1a64_update_u64 1469598103934665603 (of_nat (length (pa_images p))))
                (table_bytes v5_image_bytes (pa_images p));
          h = fnv1a64_update_bytes (fnv1a64_update_u64 h (of_nat (length (pa_views p)))) (table_bytes v5_view_bytes (pa_views p))
      in fnv1a64_update_bytes (fnv1a64_update_u64 h (of_nat (length (pa_samplers p))))
           (table_bytes v5_sampler_bytes (pa_samplers p)))"

definition frame_header :: "dispatch \<Rightarrow> parts \<Rightarrow> nat list \<Rightarrow> nat \<Rightarrow> v5_header" where
  "frame_header di p offs frame_size =
     (let sec = (\<lambda>i. of_nat (length (sections_of di p ! i))); off = (\<lambda>i. of_nat (offs ! i)) in
     \<lparr>vh_magic = V5_MAGIC, vh_header_size = 392, vh_abi_major = V5_ABI_MAJOR, vh_abi_minor = V5_ABI_MINOR_OBJECTS,
      vh_command = V5_COMMAND_DISPATCH, vh_flags = 0, vh_reserved0 = 0, vh_frame_size = of_nat frame_size,
      vh_dispatch_id = di_id di,
      vh_fd_count = of_nat (1 + length (di_bindings di) + length (di_images di)), vh_shader_fd_index = 0,
      vh_shader_size = di_shader_size di, vh_shader_hash = di_shader_hash di,
      vh_gx = di_gx di, vh_gy = (if di_gy di \<noteq> 0 then di_gy di else 1), vh_gz = (if di_gz di \<noteq> 0 then di_gz di else 1),
      vh_reserved1 = 0,
      vh_resource_count = of_nat (length (di_bindings di) * 2 + length (di_images di)), vh_resource_entry_size = 72,
      vh_resource_table_offset = off 0, vh_resource_table_size = sec 0, vh_resource_schema_hash = V5_RESOURCE_SCHEMA_HASH,
      vh_descriptor_count = of_nat (length (di_bindings di) + length (di_image_descriptors di)), vh_descriptor_entry_size = 88,
      vh_descriptor_table_offset = off 1, vh_descriptor_table_size = sec 1,
      vh_descriptor_schema_hash = V5_DESCRIPTOR_OBJECT_SCHEMA_HASH,
      vh_specialization_count = of_nat (length (di_specs di)), vh_specialization_entry_size = 16,
      vh_specialization_table_offset = off 5, vh_specialization_table_size = sec 5,
      vh_specialization_data_offset = off 6, vh_specialization_data_size = sec 6, vh_specialization_hash = di_spec_hash di,
      vh_push_offset = off 7, vh_push_size = sec 7, vh_push_hash = di_push_hash di,
      vh_entry_name_offset = off 8, vh_entry_name_size = sec 8, vh_option_text_offset = off 9, vh_option_text_size = sec 9,
      vh_option_hash = fnv1a64_bytes (di_options di),
      vh_resource_hash = fnv1a64_bytes (table_bytes v5_resource_bytes (pa_resources p)),
      vh_descriptor_hash = fnv1a64_bytes (table_bytes v5_object_descriptor_bytes (pa_descriptors p)),
      vh_dispatch_hash = di_hash di, vh_frame_hash = 0\<rparr>)"

definition frame_objects :: "dispatch \<Rightarrow> parts \<Rightarrow> nat list \<Rightarrow> v5_objects" where
  "frame_objects di p offs =
     (let sec = (\<lambda>i. of_nat (length (sections_of di p ! i))); off = (\<lambda>i. of_nat (offs ! i)) in
     \<lparr>vx_image_count = of_nat (length (di_images di)), vx_image_entry_size = 104, vx_image_table_offset = off 2,
      vx_image_table_size = sec 2, vx_image_schema_hash = V5_IMAGE_SCHEMA_HASH,
      vx_image_view_count = of_nat (length (di_views di)), vx_image_view_entry_size = 72, vx_image_view_table_offset = off 3,
      vx_image_view_table_size = sec 3, vx_image_view_schema_hash = V5_IMAGE_VIEW_SCHEMA_HASH,
      vx_sampler_count = of_nat (length (di_samplers di)), vx_sampler_entry_size = 88, vx_sampler_table_offset = off 4,
      vx_sampler_table_size = sec 4, vx_sampler_schema_hash = V5_SAMPLER_SCHEMA_HASH, vx_object_hash = objects_hash p\<rparr>)"

definition dispatch_fds :: "dispatch \<Rightarrow> parts \<Rightarrow> int list" where
  "dispatch_fds di p = di_shader_fd di # map sb_fd (di_bindings di) @ pa_image_fds p"

definition dispatch_parts :: "dispatch \<Rightarrow> int + parts" where
  "dispatch_parts di =
     (case put_bindings (di_id di) 0 (di_bindings di) of
        Inl e \<Rightarrow> Inl e
      | Inr (rs, ds) \<Rightarrow>
          (case put_images (di_id di) (2 * length (di_bindings di)) (1 + length (di_bindings di)) (di_images di) of
             Inl e \<Rightarrow> Inl e
           | Inr (irs, ims, fds) \<Rightarrow>
               (case put_views (di_images di) (di_views di) of
                  Inl e \<Rightarrow> Inl e
                | Inr vs \<Rightarrow>
                    (case put_samplers (di_samplers di) of
                       Inl e \<Rightarrow> Inl e
                     | Inr ss \<Rightarrow>
                         (case put_image_descriptors di (di_image_descriptors di) of
                            Inl e \<Rightarrow> Inl e
                          | Inr ids \<Rightarrow>
                              Inr \<lparr>pa_resources = rs @ irs, pa_descriptors = ds @ ids, pa_images = ims, pa_views = vs,
                                   pa_samplers = ss, pa_image_fds = fds\<rparr>)))))"

definition dispatch_refused :: "dispatch \<Rightarrow> int" where
  "dispatch_refused di =
     (let nb = length (di_bindings di); ni = length (di_image_descriptors di); nim = length (di_images di) in
      if nb = 0 \<and> ni = 0 then - EINVAL
      else if VK_MAX_STORAGE_BUFFERS < nb \<or> VK_MAX_STORAGE_BUFFERS < ni \<or> V5_MAX_IMAGES < nim \<or>
              V5_MAX_IMAGE_VIEWS < length (di_views di) \<or> V5_MAX_SAMPLERS < length (di_samplers di) then - E2BIG
      else if V5_MAX_RESOURCES < nb * 2 + nim \<or> V5_MAX_DESCRIPTORS < nb + ni \<or> V5_MAX_FDS < 1 + nb + nim then - E2BIG
      else if VK_MAX_SPECIALIZATION_ENTRIES < length (di_specs di) \<or> VK_MAX_SPECIALIZATION_BYTES < length (di_spec_data di) \<or>
              VK_MAX_PUSH_BYTES < length (di_push di) then - E2BIG
      else if di_entry di = [] \<or> VK_MAX_ENTRY_NAME \<le> length (di_entry di) then - EINVAL
      else 0)"

text \<open>
  What is sent: the frame's bytes and the descriptors. The frame's own hash is taken over the frame with
  the hash still zero.
\<close>

definition send_generic_vulkan_dispatch_v5_1_op :: "dispatch \<Rightarrow> int + sock" where
  "send_generic_vulkan_dispatch_v5_1_op di =
     (if dispatch_refused di \<noteq> 0 then Inl (dispatch_refused di)
      else case dispatch_parts di of
        Inl e \<Rightarrow> Inl e
      | Inr p \<Rightarrow>
          (let sections = sections_of di p; capacity = frame_capacity sections in
           if 0x400000 < capacity then Inl (- EMSGSIZE)
           else case append_all capacity sections [] [] of
             None \<Rightarrow> Inl (- EMSGSIZE)
           | Some (offs, payload) \<Rightarrow>
               (let h = frame_header di p offs (392 + length payload);
                    ext = v5_objects_bytes (frame_objects di p offs);
                    h = h\<lparr>vh_frame_hash := fnv1a64_bytes (v5_header_bytes h @ ext @ payload)\<rparr>
                in Inr \<lparr>so_bytes = v5_header_bytes h @ ext @ payload, so_fds = dispatch_fds di p\<rparr>)))"

end
