(* ===== verification/Frame_Lemmas.thy ===== *)
theory Frame_Lemmas
  imports Frame_Build
begin

text \<open>
  What the executor's checks guarantee, and where the client's frame has its parts.
\<close>

section \<open>Words\<close>

lemma unat_ucast32 [simp]: "unat (ucast (x :: u32) :: u64) = unat x"
proof -
  have "unat x < 2 ^ 32" by (rule order_less_le_trans[OF unsigned_less]) simp
  then show ?thesis by (simp add: unsigned_ucast_eq take_bit_nat_eq_self)
qed

lemma unat_ucast16 [simp]: "unat (ucast (x :: u16) :: u64) = unat x"
proof -
  have "unat x < 2 ^ 16" by (rule order_less_le_trans[OF unsigned_less]) simp
  then show ?thesis by (simp add: unsigned_ucast_eq take_bit_nat_eq_self)
qed

lemma range_within_nat:
  "range_within_frame off sz n \<longleftrightarrow> unat off + unat sz \<le> unat n"
proof -
  have "unat (n - off) = unat n - unat off" if "\<not> n < off"
    using that by (simp add: unat_sub_if' word_less_nat_alt)
  then show ?thesis by (auto simp: range_within_frame_def word_less_nat_alt)
qed

lemma add3_nat:
  "checked_u64_add3 a b c = Some r \<longleftrightarrow> unat a + unat b + unat c < 2 ^ 64 \<and> r = a + b + c"
proof -
  have m: "unat (UINT64_MAX - x) = 2 ^ 64 - 1 - unat x" for x
    using unat_lt64[of x] by (simp add: unat_sub_if')
  have ab: "unat (a + b) = unat a + unat b" if "unat a + unat b < 2 ^ 64"
    using that by (simp add: unat_word_ariths take_bit_nat_eq_self)
  show ?thesis using ab unat_lt64[of a] unat_lt64[of b] unat_lt64[of c]
    by (auto simp: checked_u64_add3_def word_less_nat_alt m)
qed

lemma add3_unat: "checked_u64_add3 a b c = Some r \<Longrightarrow> unat r = unat a + unat b + unat c"
  by (auto simp: add3_nat unat_word_ariths take_bit_nat_eq_self)

section \<open>An accepted frame\<close>

lemma valid_header:
  assumes "validate_vulkan_dispatch_v5_header h n = 0"
  shows "unat (vh_frame_size h) \<le> 0x400000" "unat (vh_header_size h) \<le> unat (vh_frame_size h)" "288 \<le> unat (vh_header_size h)"
    "v5_entry_sizes_ok h" "v5_table_sizes_ok h" "v5_ranges_ok h" "unat (vh_fd_count h) = n"
    "vh_shader_fd_index h < vh_fd_count h" "unat (vh_resource_count h) \<le> V5_MAX_RESOURCES"
    "unat (vh_descriptor_count h) \<le> V5_MAX_DESCRIPTORS"
proof -
  note v = assms[unfolded validate_vulkan_dispatch_v5_header_def]
  have hs: "vh_header_size h = 288 \<or> vh_header_size h = 392" using v by (auto split: if_splits)
  then show "288 \<le> unat (vh_header_size h)" by auto
  have "\<not> vh_frame_size h < ucast (vh_header_size h)" "\<not> V5_MAX_FRAME_BYTES < vh_frame_size h" using v by (auto split: if_splits)
  then show "unat (vh_frame_size h) \<le> 0x400000" "unat (vh_header_size h) \<le> unat (vh_frame_size h)"
    by (auto simp: word_less_nat_alt V5_MAX_FRAME_BYTES_def not_less)
  show "v5_entry_sizes_ok h" "v5_table_sizes_ok h" "v5_ranges_ok h" "unat (vh_fd_count h) = n"
    "vh_shader_fd_index h < vh_fd_count h" "unat (vh_resource_count h) \<le> V5_MAX_RESOURCES"
    "unat (vh_descriptor_count h) \<le> V5_MAX_DESCRIPTORS"
    using v by (auto split: if_splits)
qed

lemma of_le_zeros: "of_le (replicate n (CHR 0x00)) = (0 :: 'a::len word)"
  by (induction n) simp_all

text \<open>A product of two 32-bit counts fits.\<close>

lemma mul32: "unat (ucast (c :: u32) * ucast (e :: u32) :: u64) = unat c * unat e"
proof -
  have c: "unat c < 2 ^ 32" and e: "unat e < 2 ^ 32" by (rule order_less_le_trans[OF unsigned_less], simp)+
  have "unat c * unat e < 2 ^ 32 * 2 ^ 32" using c e by (intro mult_strict_mono) auto
  then show ?thesis by (simp add: unat_word_ariths take_bit_nat_eq_self)
qed

lemma table_in_frame:
  assumes "ucast (c :: u32) * ucast (e :: u32) = (sz :: u64)" "range_within_frame off sz n"
  shows "unat off + unat e * unat c \<le> unat n"
  using assms(2) mul32[of c e] by (simp add: range_within_nat assms(1) mult.commute)

lemma read_exact_length: "read_exact_bytes n s = (Inr x, s') \<Longrightarrow> length x = n"
  by (auto simp: read_exact_bytes_def split: if_splits)

lemma header_frame_size: "vh_frame_size (v5_header_of bs) = field 24 8 bs"
  by (simp add: v5_header_of_def)

lemma header_magic: "vh_magic (v5_header_of bs) = take 8 bs"
  by (simp add: v5_header_of_def)

lemma recv_header:
  assumes "recv_vulkan_dispatch_v5_header_with_fds s = (0, h, fds, s')" "288 \<le> unat (vh_frame_size h)"
  shows "validate_vulkan_dispatch_v5_header h (length fds) = 0" "length (vh_magic h) = 8" "length fds \<le> GPU_MAX_PASSED_FDS"
proof -
  have "so_bytes s \<noteq> []"
  proof
    assume "so_bytes s = []"
    then have "h = v5_header_of (replicate 288 (CHR 0x00))"
      using assms(1) by (simp add: recv_vulkan_dispatch_v5_header_with_fds_def Let_def)
    then have "vh_frame_size h = 0" by (simp add: header_frame_size field_def of_le_zeros)
    with assms(2) show False by simp
  qed
  let ?hh = "v5_header_of (take 288 (so_bytes s) @ replicate (288 - length (take 288 (so_bytes s))) (CHR 0x00))"
  let ?ff = "take GPU_MAX_PASSED_FDS (so_fds s)"
  have h: "validate_vulkan_dispatch_v5_header ?hh (length ?ff) = 0 \<and> ?hh = h \<and> ?ff = fds"
    using assms(1) \<open>so_bytes s \<noteq> []\<close> by (auto simp: recv_vulkan_dispatch_v5_header_with_fds_def Let_def simp del: length_take)
  then show "validate_vulkan_dispatch_v5_header h (length fds) = 0" by (elim conjE) (simp only:)
  have "length (vh_magic ?hh) = 8" unfolding header_magic by simp
  with h show "length (vh_magic h) = 8" by (elim conjE) (simp only:)
  have "length ?ff \<le> GPU_MAX_PASSED_FDS" by simp
  with h show "length fds \<le> GPU_MAX_PASSED_FDS" by (elim conjE) (simp only:)
qed

text \<open>The cases are stated once for any values: the classical tools would split the header into its fields.\<close>

lemma reading_case:
  "(case q of (Inl e, s) \<Rightarrow> (Inl e, s) | (Inr x, s) \<Rightarrow> f x s) = (Inr b, s') \<longleftrightarrow> (\<exists>x s1. q = (Inr x, s1) \<and> f x s1 = (Inr b, s'))"
  by (cases q; cases "fst q") auto

lemma body_length:
  assumes "read_v5_body h s = (Inr b, s')" "288 \<le> unat (vh_header_size h)" "unat (vh_header_size h) \<le> unat (vh_frame_size h)"
  shows "length b = unat (vh_frame_size h) - 288"
proof -
  have d: "unat (vh_frame_size h - ucast (vh_header_size h)) = unat (vh_frame_size h) - unat (vh_header_size h)"
    using assms(3) by (simp add: unat_sub_if')
  obtain x s1 rest where x: "(if 288 < vh_header_size h then read_exact_bytes (unat (vh_header_size h) - 288) s else (Inr [], s)) = (Inr x, s1)"
      and r: "read_exact_bytes (unat (vh_frame_size h - ucast (vh_header_size h))) s1 = (Inr rest, s')" "b = x @ rest"
    using assms(1) unfolding read_v5_body_def reading_case by fastforce
  have "length x = unat (vh_header_size h) - 288"
  proof (cases "288 < vh_header_size h")
    case True
    then show ?thesis using x by (auto dest: read_exact_length)
  next
    case False
    then show ?thesis using x assms(2) by (simp add: word_less_nat_alt)
  qed
  then show ?thesis using read_exact_length[OF r(1)] r(2) d assms(2,3) by simp
qed

lemma receive_case:
  "(if rc \<noteq> 0 then (RecvError rc, s1) else if \<not> ok then (RecvError e1, s1) else if small then (RecvOverrun, s1)
    else case q of (Inl e, s) \<Rightarrow> (RecvError e, s)
     | (Inr b, s) \<Rightarrow> if c b \<noteq> 0 then (RecvError (c b), s) else (RecvFrame (f b) h0 fds0, s)) = (RecvFrame frame h fds, s') \<longleftrightarrow>
   rc = 0 \<and> ok \<and> \<not> small \<and> (\<exists>b. q = (Inr b, s') \<and> c b = 0 \<and> frame = f b \<and> h = h0 \<and> fds = fds0)"
  for h0 :: "v5_header"
  by (cases q; cases "fst q") (simp_all, blast)

lemma received_frame:
  assumes "recv_vulkan_dispatch_v5_frame ok s = (RecvFrame frame h fds, s')"
  shows "validate_vulkan_dispatch_v5_header h (length fds) = 0" "length frame = unat (vh_frame_size h)"
    "validate_vulkan_dispatch_v5_object_extension frame h = 0" "length fds \<le> GPU_MAX_PASSED_FDS"
proof -
  obtain rc h0 fds0 s0 where r: "recv_vulkan_dispatch_v5_header_with_fds s = (rc, h0, fds0, s0)" by (metis prod_cases4)
  note a = assms[unfolded recv_vulkan_dispatch_v5_frame_def r prod.case Let_def receive_case]
  from a obtain b where b: "read_v5_body h0 s0 = (Inr b, s')" "frame = v5_header_bytes h0 @ b" "h = h0" "fds = fds0"
      "validate_vulkan_dispatch_v5_object_extension (v5_header_bytes h0 @ b) h0 = 0" by blast
  from a have c: "rc = 0" "288 \<le> unat (vh_frame_size h0)" by (simp_all add: word_less_nat_alt)
  note rh = recv_header[OF r[unfolded c(1)] c(2)]
  note v = valid_header(1-3)[OF rh(1)]
  have "length frame = unat (vh_frame_size h)"
    using v body_length[OF b(1) v(3,2)] v5_header_bytes_length[OF rh(2)] by (simp add: b(2,3))
  then show "validate_vulkan_dispatch_v5_header h (length fds) = 0" "length frame = unat (vh_frame_size h)"
    "validate_vulkan_dispatch_v5_object_extension frame h = 0" "length fds \<le> GPU_MAX_PASSED_FDS"
    using rh b by simp_all
qed

section \<open>The conversion\<close>

lemma checked_resource:
  "check_resources rs fds todo = 0 \<Longrightarrow> r \<in> set todo \<Longrightarrow> check_resource rs fds r = 0"
  by (induction todo) (simp_all split: if_splits, metis)

lemma sub_le_nat: "\<not> (a - b < c) \<Longrightarrow> \<not> a < b \<Longrightarrow> unat b + unat c \<le> unat a" for a :: u64
  by (simp add: word_less_nat_alt unat_sub_if' not_less)

lemma checked_buffer:
  assumes "check_resource rs fds r = 0" "vr_resource_type r = RESOURCE_BUFFER"
  shows "unat (vr_parent_resource_index r) < length rs" "vr_resource_type (rs ! unat (vr_parent_resource_index r)) = RESOURCE_MEMORY"
    "unat (vr_memory_offset r) + unat (vr_size r) \<le> unat (vr_size (rs ! unat (vr_parent_resource_index r)))"
  using assms by (simp_all add: check_resource_def Let_def sub_le_nat not_le split: if_splits)

text \<open>The object and the memory that a converted binding refers to.\<close>

definition binding_of :: "v5_tables \<Rightarrow> v5_resource \<Rightarrow> v5_resource \<Rightarrow> v5_object_descriptor \<Rightarrow> binding \<Rightarrow> bool" where
  "binding_of t buf mem d b \<longleftrightarrow>
     \<not> fd_missing (vt_fds t) (vr_fd_index mem) \<and> db_fd b = vt_fds t ! unat (vr_fd_index mem) \<and>
     unat (vo_transfer_offset d) + unat (vo_transfer_size d) \<le> unat (vr_size buf) \<and> db_size b = vo_transfer_size d \<and>
     unat (db_offset b) = unat (vr_external_offset mem) + unat (vr_memory_offset buf) + unat (vo_transfer_offset d) \<and>
     db_api_memory_offset b = vr_memory_offset buf \<and> db_api_memory_size b = vr_size mem \<and> db_api_buffer_size b = vr_size buf"

lemma converted_buffer:
  assumes "convert_buffer t d = Inr b"
  shows "unat (vo_resource_index d) < length (vt_resources t)"
    "vr_resource_type (vt_resources t ! unat (vo_resource_index d)) = RESOURCE_BUFFER"
    "binding_of t (vt_resources t ! unat (vo_resource_index d))
       (vt_resources t ! unat (vr_parent_resource_index (vt_resources t ! unat (vo_resource_index d)))) d b"
proof -
  let ?buf = "vt_resources t ! unat (vo_resource_index d)" and ?mem = "vt_resources t ! unat (vr_parent_resource_index
    (vt_resources t ! unat (vo_resource_index d)))"
  show "unat (vo_resource_index d) < length (vt_resources t)" "vr_resource_type ?buf = RESOURCE_BUFFER"
    using assms by (simp_all add: convert_buffer_def Let_def not_le split: if_splits)
  have c: "\<not> fd_missing (vt_fds t) (vr_fd_index ?mem)" "\<not> vr_size ?buf < vo_transfer_offset d"
      "\<not> vr_size ?buf - vo_transfer_offset d < vo_transfer_size d"
    using assms by (simp_all add: convert_buffer_def Let_def split: if_splits)
  let ?fo = "checked_u64_add3 (vr_external_offset ?mem) (vr_memory_offset ?buf) (vo_transfer_offset d)"
  let ?ao = "checked_u64_add3 (vo_buffer_offset d) (vo_dynamic_offset d) 0"
  obtain fo ao where o: "?fo = Some fo" "?ao = Some ao"
    using assms by (cases ?fo; cases ?ao) (simp_all add: convert_buffer_def Let_def split: if_splits)
  have "b = buffer_binding ?buf ?mem d (vt_fds t ! unat (vr_fd_index ?mem)) fo ao"
    using assms by (simp add: convert_buffer_def Let_def o split: if_splits)
  then have b: "db_fd b = vt_fds t ! unat (vr_fd_index ?mem)" "db_size b = vo_transfer_size d" "db_offset b = fo"
      "db_api_memory_offset b = vr_memory_offset ?buf" "db_api_memory_size b = vr_size ?mem" "db_api_buffer_size b = vr_size ?buf"
    by (simp_all add: buffer_binding_def)
  show "binding_of t ?buf ?mem d b" using c b sub_le_nat[OF c(3,2)] add3_unat[OF o(1)] by (simp add: binding_of_def)
qed

lemma converted_bindings:
  assumes "convert_descriptors objects t ds bs is = Inr (bs', is')" "b \<in> set bs'"
  shows "b \<in> set bs \<or> (\<exists>d\<in>set ds. convert_buffer t d = Inr b)"
  using assms
proof (induction ds arbitrary: bs "is")
  case (Cons d ds)
  show ?case
  proof (cases "is_image_descriptor d")
    case True
    with Cons.prems obtain i where "convert_descriptors objects t ds bs (is @ [i]) = Inr (bs', is')"
      by (simp split: sum.splits if_splits)
    with Cons.IH Cons.prems(2) show ?thesis by fastforce
  next
    case False
    with Cons.prems obtain b0 where "convert_buffer t d = Inr b0" "convert_descriptors objects t ds (bs @ [b0]) is = Inr (bs', is')"
      by (simp split: sum.splits if_splits)
    with Cons.IH[of "bs @ [b0]" "is"] Cons.prems(2) show ?thesis by fastforce
  qed
qed simp

lemma converted_frame:
  assumes "convert_vulkan_dispatch_v5_to_v4_bindings frame h fds = Inr (bs, is, t)"
  shows "check_resources (vt_resources (frame_tables frame h fds)) fds (vt_resources (frame_tables frame h fds)) = 0"
    "convert_descriptors (vh_abi_minor h = V5_ABI_MINOR_OBJECTS) (frame_tables frame h fds) (frame_descriptors frame h) [] [] = Inr (bs, is)"
  using assms
  by (simp_all add: convert_vulkan_dispatch_v5_to_v4_bindings_def Let_def split: if_splits sum.splits prod.splits)

section \<open>The ranges of an accepted frame\<close>

lemma valid_extension:
  assumes "validate_vulkan_dispatch_v5_object_extension frame h = 0" "vh_abi_minor h = V5_ABI_MINOR_OBJECTS"
  shows "range_within_frame (vx_image_table_offset (v5_objects_at frame)) (vx_image_table_size (v5_objects_at frame)) (vh_frame_size h)"
    "range_within_frame (vx_image_view_table_offset (v5_objects_at frame)) (vx_image_view_table_size (v5_objects_at frame)) (vh_frame_size h)"
    "range_within_frame (vx_sampler_table_offset (v5_objects_at frame)) (vx_sampler_table_size (v5_objects_at frame)) (vh_frame_size h)"
    "ucast (vx_image_count (v5_objects_at frame)) * ucast (vx_image_entry_size (v5_objects_at frame)) = vx_image_table_size (v5_objects_at frame)"
    "ucast (vx_image_view_count (v5_objects_at frame)) * ucast (vx_image_view_entry_size (v5_objects_at frame)) = vx_image_view_table_size (v5_objects_at frame)"
    "ucast (vx_sampler_count (v5_objects_at frame)) * ucast (vx_sampler_entry_size (v5_objects_at frame)) = vx_sampler_table_size (v5_objects_at frame)"
    "0 < vx_image_count (v5_objects_at frame) \<Longrightarrow> vx_image_entry_size (v5_objects_at frame) = 104"
    "0 < vx_image_view_count (v5_objects_at frame) \<Longrightarrow> vx_image_view_entry_size (v5_objects_at frame) = 72"
    "0 < vx_sampler_count (v5_objects_at frame) \<Longrightarrow> vx_sampler_entry_size (v5_objects_at frame) = 88"
  using assms(1)
  unfolding validate_vulkan_dispatch_v5_object_extension_def Let_def assms(2)
  by (simp_all split: if_splits)

lemma accepted_ranges:
  assumes "validate_vulkan_dispatch_v5_header h n = 0" "validate_vulkan_dispatch_v5_object_extension frame h = 0"
  shows "table_ranges_ok h" "object_ranges_ok frame h"
  using valid_header(6)[OF assms(1)] valid_extension(1-3)[OF assms(2)]
  by (simp_all add: table_ranges_ok_def object_ranges_ok_def Let_def v5_ranges_ok_def)

end
