(* ===== verification/Frame_Sent.thy ===== *)
theory Frame_Sent
  imports Frame_Lemmas
begin

text \<open>
  The frame a client sends, from the executor's side: where its parts are, and that the checks accept it.
\<close>

section \<open>Words\<close>

lemma ucast_of_nat32: "n < 2 ^ 32 \<Longrightarrow> (ucast (of_nat n :: u32) :: u64) = of_nat n"
  by (rule word_unat_eq_iff[THEN iffD2])
    (simp add: unsigned_of_nat take_bit_nat_eq_self)

lemma unat_of_nat32: "n < 2 ^ 32 \<Longrightarrow> unat (of_nat n :: u32) = n"
  by (simp add: unsigned_of_nat take_bit_nat_eq_self)

lemma range_of_nat:
  "off + len \<le> n \<Longrightarrow> n < 2 ^ 64 \<Longrightarrow> range_within_frame (of_nat off) (of_nat len) (of_nat n)"
  by (simp add: range_within_nat unat_of_nat64)

section \<open>Where the parts are\<close>

definition placed :: "string \<Rightarrow> nat \<Rightarrow> string \<Rightarrow> bool" where
  "placed frame off d \<longleftrightarrow> (\<exists>pre post. frame = pre @ d @ post \<and> off = length pre)"

lemma placed_range: "placed frame off d \<Longrightarrow> off + length d \<le> length frame"
  by (auto simp: placed_def)

lemma placed_bytes: "placed frame off d \<Longrightarrow> take (length d) (drop off frame) = d"
  by (auto simp: placed_def)

lemma placed_after: "placed p off d \<Longrightarrow> placed (p @ q) off d"
  by (fastforce simp: placed_def)

lemma placed_before: "placed p off d \<Longrightarrow> placed (q @ p) (length q + off) d"
  unfolding placed_def by (metis append.assoc length_append)

lemma appended:
  assumes "frame_append_bytes capacity p d = Some (off, q)"
  shows "\<exists>z. q = p @ z" "392 + length q \<le> capacity" "392 \<le> off" "placed q (off - 392) d"
proof -
  have a: "392 + length p \<le> align_size_8 (392 + length p)"
    using div_mult_mod_eq[of "392 + length p + 7" 8] by (simp add: align_size_8_def)
  then show "\<exists>z. q = p @ z" "392 + length q \<le> capacity" "392 \<le> off"
    using assms by (auto simp: frame_append_bytes_def Let_def split: if_splits)
  have "q = (p @ replicate (off - (392 + length p)) (CHR 0x00)) @ d @ []" "off = align_size_8 (392 + length p)"
    using assms by (auto simp: frame_append_bytes_def Let_def split: if_splits)
  then show "placed q (off - 392) d"
    unfolding placed_def using a by (intro exI[of _ "p @ replicate (off - (392 + length p)) (CHR 0x00)"] exI[of _ "[]"]) simp
qed

lemma append_all_placed:
  assumes "append_all capacity ds offs p = Some (offs', q)"
  shows "(\<exists>z. q = p @ z) \<and> length offs' = length offs + length ds \<and> take (length offs) offs' = offs \<and>
    (ds \<noteq> [] \<longrightarrow> 392 + length q \<le> capacity) \<and>
    (\<forall>i<length ds. 392 \<le> offs' ! (length offs + i) \<and> placed q (offs' ! (length offs + i) - 392) (ds ! i))"
  using assms
proof (induction ds arbitrary: offs p)
  case (Cons d ds)
  obtain off p1 where a: "frame_append_bytes capacity p d = Some (off, p1)"
    and r: "append_all capacity ds (offs @ [off]) p1 = Some (offs', q)"
    using Cons.prems by (auto split: option.splits)
  note ap = appended[OF a] and ih = Cons.IH[OF r]
  have l: "length offs' = length offs + length (d # ds)" using ih by simp
  have t: "take (length offs + 1) offs' = offs @ [off]" using ih by simp
  then have h: "offs' ! length offs = off" using l by (metis less_add_same_cancel1 zero_less_one nth_take nth_append_length)
  have "take (length offs) offs' = offs" using arg_cong[OF t, of "take (length offs)"] by simp
  moreover have q: "\<exists>z. q = p1 @ z" using ih by blast
  then have "\<exists>z. q = p @ z" using ap(1) by fastforce
  moreover have "392 + length q \<le> capacity"
  proof (cases ds)
    case Nil
    then show ?thesis using r ap(2) by simp
  next
    case (Cons e es)
    then show ?thesis using ih by simp
  qed
  moreover have "392 \<le> offs' ! (length offs + i) \<and> placed q (offs' ! (length offs + i) - 392) ((d # ds) ! i)"
    if "i < length (d # ds)" for i
  proof (cases i)
    case 0
    then show ?thesis using ap(3,4) h q placed_after by auto
  next
    case (Suc k)
    then show ?thesis using ih that by simp
  qed
  ultimately show ?case using l by blast
qed simp

section \<open>The entries\<close>

lemma put_bindings_spec:
  assumes "put_bindings ident i bs = Inr (rs, ds)"
  shows "length rs = 2 * length bs \<and> length ds = length bs \<and>
    (\<forall>k<length bs. \<not> transfer_outside (bs ! k) \<and>
       rs ! (2 * k) = memory_entry (sb_memory_id (bs ! k)) (of_nat (i + k + 1)) (sb_memory_size (bs ! k)) ident \<and>
       rs ! (2 * k + 1) = buffer_entry (bs ! k) (of_nat (2 * (i + k))) ident \<and>
       ds ! k = buffer_descriptor (bs ! k) (of_nat (2 * (i + k) + 1)))"
  using assms
proof (induction ident i bs arbitrary: rs ds rule: put_bindings.induct)
  case (2 ident i b bs)
  from "2.prems" obtain rs1 ds1 where p: "\<not> transfer_outside b" "put_bindings ident (Suc i) bs = Inr (rs1, ds1)"
      "rs = memory_entry (sb_memory_id b) (of_nat (i + 1)) (sb_memory_size b) ident # buffer_entry b (of_nat (2 * i)) ident # rs1"
      "ds = buffer_descriptor b (of_nat (2 * i + 1)) # ds1"
    by (simp split: if_splits sum.splits prod.splits)
  note ih = "2.IH"[OF p(1,2)]
  have "rs ! (2 * k) = memory_entry (sb_memory_id ((b # bs) ! k)) (of_nat (i + k + 1)) (sb_memory_size ((b # bs) ! k)) ident \<and>
      rs ! (2 * k + 1) = buffer_entry ((b # bs) ! k) (of_nat (2 * (i + k))) ident \<and>
      ds ! k = buffer_descriptor ((b # bs) ! k) (of_nat (2 * (i + k) + 1)) \<and> \<not> transfer_outside ((b # bs) ! k)"
    if "k < length (b # bs)" for k
  proof (cases k)
    case (Suc j)
    then have "j < length bs" using that by simp
    with ih have "rs1 ! (2 * j) = memory_entry (sb_memory_id (bs ! j)) (of_nat (Suc i + j + 1)) (sb_memory_size (bs ! j)) ident \<and>
      rs1 ! (2 * j + 1) = buffer_entry (bs ! j) (of_nat (2 * (Suc i + j))) ident \<and>
      ds1 ! j = buffer_descriptor (bs ! j) (of_nat (2 * (Suc i + j) + 1)) \<and> \<not> transfer_outside (bs ! j)" by blast
    then show ?thesis using Suc by (simp add: p(3,4))
  qed (simp add: p)
  then show ?case using ih by (simp add: p(3,4))
qed simp

lemma put_images_spec:
  assumes "put_images ident ri fi ims = Inr (rs, es, fds)"
  shows "length rs = length ims \<and> length es = length ims \<and> length fds = length ims \<and>
    (\<forall>k<length ims. \<exists>im m. ims ! k = Some im \<and> ic_memory im = Some m \<and> 0 \<le> vkm_fd m \<and>
       unat (ic_memory_offset im) + unat (ic_requirements im) \<le> unat (vkm_size m) \<and>
       rs ! k = memory_entry (vkm_ptr m) (of_nat (fi + k)) (vkm_size m) ident \<and>
       es ! k = image_entry im (of_nat (ri + k)) \<and> fds ! k = vkm_fd m)"
  using assms
proof (induction ident ri fi ims arbitrary: rs es fds rule: put_images.induct)
  case (3 ident ri fi im ims)
  from "3.prems" obtain m where m: "ic_memory im = Some m" "\<not> vkm_fd m < 0" "\<not> ic_mixed im"
      "\<not> vkm_size m < ic_memory_offset im" "\<not> vkm_size m - ic_memory_offset im < ic_requirements im"
    by (simp split: if_splits option.splits)
  from "3.prems" m obtain rs1 es1 fds1 where p: "put_images ident (ri + 1) (fi + 1) ims = Inr (rs1, es1, fds1)"
      "rs = memory_entry (vkm_ptr m) (of_nat fi) (vkm_size m) ident # rs1" "es = image_entry im (of_nat ri) # es1" "fds = vkm_fd m # fds1"
    by (simp split: sum.splits prod.splits)
  have ih: "length rs1 = length ims \<and> length es1 = length ims \<and> length fds1 = length ims \<and>
    (\<forall>k<length ims. \<exists>im m. ims ! k = Some im \<and> ic_memory im = Some m \<and> 0 \<le> vkm_fd m \<and>
       unat (ic_memory_offset im) + unat (ic_requirements im) \<le> unat (vkm_size m) \<and>
       rs1 ! k = memory_entry (vkm_ptr m) (of_nat (fi + 1 + k)) (vkm_size m) ident \<and>
       es1 ! k = image_entry im (of_nat (ri + 1 + k)) \<and> fds1 ! k = vkm_fd m)"
    by (rule "3.IH"[OF m(1) m(2,3)]) (use m p in simp_all)
  have "\<exists>im' m. (Some im # ims) ! k = Some im' \<and> ic_memory im' = Some m \<and> 0 \<le> vkm_fd m \<and>
       unat (ic_memory_offset im') + unat (ic_requirements im') \<le> unat (vkm_size m) \<and>
       rs ! k = memory_entry (vkm_ptr m) (of_nat (fi + k)) (vkm_size m) ident \<and>
       es ! k = image_entry im' (of_nat (ri + k)) \<and> fds ! k = vkm_fd m"
    if "k < length (Some im # ims)" for k
  proof (cases k)
    case 0
    then show ?thesis using m sub_le_nat[OF m(5,4)] by (simp add: p(2-4))
  next
    case (Suc j)
    then have "j < length ims" using that by simp
    with ih obtain im' m' where "ims ! j = Some im' \<and> ic_memory im' = Some m' \<and> 0 \<le> vkm_fd m' \<and>
       unat (ic_memory_offset im') + unat (ic_requirements im') \<le> unat (vkm_size m') \<and>
       rs1 ! j = memory_entry (vkm_ptr m') (of_nat (fi + 1 + j)) (vkm_size m') ident \<and>
       es1 ! j = image_entry im' (of_nat (ri + 1 + j)) \<and> fds1 ! j = vkm_fd m'" by blast
    then show ?thesis by (intro exI[of _ im'] exI[of _ m']) (simp add: Suc p(2-4))
  qed
  then show ?case using ih by (simp add: p(2-4))
qed simp_all

lemma found_image: "find_image_table_index ims p i = Some j \<Longrightarrow> j < i + length ims"
  by (induction ims p i rule: find_image_table_index.induct) (simp_all split: if_splits)

lemma put_views_spec:
  assumes "put_views ims vs = Inr es"
  shows "length es = length vs \<and>
    (\<forall>k<length vs. \<exists>v j. vs ! k = Some v \<and> j < length ims \<and> es ! k = view_entry v (of_nat j))"
  using assms
proof (induction ims vs arbitrary: es rule: put_views.induct)
  case (3 ims v vs)
  from "3.prems" obtain p j where j: "wc_image v = Some p" "find_image_table_index ims p 0 = Some j"
    by (simp split: option.splits add: bind_eq_Some_conv) (metis option.exhaust)
  with "3.prems" obtain es1 where e: "put_views ims vs = Inr es1" "es = view_entry v (of_nat j) # es1"
    by (cases "put_views ims vs") simp_all
  have "j < length ims" using found_image[OF j(2)] by simp
  then show ?case using "3.IH"[OF _ e(1)] j by (simp add: e(2) All_less_Suc2) blast
qed simp_all

lemma put_samplers_spec:
  assumes "put_samplers ss = Inr es"
  shows "length es = length ss \<and> (\<forall>k<length ss. \<exists>s. ss ! k = Some s \<and> vs_sampler_id (es ! k) = sc_ptr s)"
  using assms
proof (induction ss arbitrary: es rule: put_samplers.induct)
  case (3 s ss)
  then obtain es1 where e: "put_samplers ss = Inr es1" "es = (sc_entry s)\<lparr>vs_flags := 0, vs_reserved0 := 0, vs_sampler_id := sc_ptr s\<rparr> # es1"
    by (cases "put_samplers ss") simp_all
  show ?case using "3.IH"[OF e(1)] by (simp add: e(2) All_less_Suc2)
qed simp_all

definition complete_image :: "send_image \<Rightarrow> bool" where
  "complete_image s \<longleftrightarrow> \<not> (descriptor_type_requires_image_view (si_type s) \<and> si_view s = V5_NONE) \<and>
     \<not> (descriptor_type_requires_sampler (si_type s) \<and> si_sampler s = V5_NONE)"

lemma put_image_descriptors_spec:
  "put_image_descriptors di ss = Inr ds \<Longrightarrow> ds = map (image_descriptor di) ss \<and> list_all complete_image ss"
proof (induction ss arbitrary: ds)
  case (Cons s ss)
  have c: "complete_image s"
  proof (rule ccontr)
    assume "\<not> complete_image s"
    then have "put_image_descriptors di (s # ss) = Inl (- EINVAL)" by (auto simp: complete_image_def)
    with Cons.prems show False by simp
  qed
  then have "put_image_descriptors di (s # ss) = map_sum id ((#) (image_descriptor di s)) (put_image_descriptors di ss)"
    by (auto simp: complete_image_def)
  with Cons.prems obtain ds1 where e: "put_image_descriptors di ss = Inr ds1" "ds = image_descriptor di s # ds1"
    by (cases "put_image_descriptors di ss") simp_all
  show ?case using Cons.IH[OF e(1)] c by (simp add: e(2))
qed simp

section \<open>What was sent\<close>

definition parts_fit :: "dispatch \<Rightarrow> parts \<Rightarrow> bool" where
  "parts_fit di p \<longleftrightarrow>
     length (pa_resources p) = 2 * length (di_bindings di) + length (di_images di) \<and>
     length (pa_descriptors p) = length (di_bindings di) + length (di_image_descriptors di) \<and>
     length (pa_images p) = length (di_images di) \<and> length (pa_views p) = length (di_views di) \<and>
     length (pa_samplers p) = length (di_samplers di) \<and> length (pa_image_fds p) = length (di_images di)"

lemma built_parts:
  assumes "dispatch_parts di = Inr p"
  obtains rs ds irs where
    "put_bindings (di_id di) 0 (di_bindings di) = Inr (rs, ds)"
    "put_images (di_id di) (2 * length (di_bindings di)) (1 + length (di_bindings di)) (di_images di) = Inr (irs, pa_images p, pa_image_fds p)"
    "put_views (di_images di) (di_views di) = Inr (pa_views p)" "put_samplers (di_samplers di) = Inr (pa_samplers p)"
    "pa_resources p = rs @ irs" "pa_descriptors p = ds @ map (image_descriptor di) (di_image_descriptors di)"
    "list_all complete_image (di_image_descriptors di)"
proof -
  obtain rs ds where b: "put_bindings (di_id di) 0 (di_bindings di) = Inr (rs, ds)"
    using assms by (cases "put_bindings (di_id di) 0 (di_bindings di)") (simp_all add: dispatch_parts_def, fastforce)
  obtain irs ims fds where i: "put_images (di_id di) (2 * length (di_bindings di)) (1 + length (di_bindings di)) (di_images di) = Inr (irs, ims, fds)"
    using assms b by (cases "put_images (di_id di) (2 * length (di_bindings di)) (1 + length (di_bindings di)) (di_images di)")
      (simp_all add: dispatch_parts_def, metis prod_cases3)
  obtain vs where v: "put_views (di_images di) (di_views di) = Inr vs"
    using assms b i by (cases "put_views (di_images di) (di_views di)") (simp_all add: dispatch_parts_def)
  obtain ss where s: "put_samplers (di_samplers di) = Inr ss"
    using assms b i v by (cases "put_samplers (di_samplers di)") (simp_all add: dispatch_parts_def)
  obtain ids where d: "put_image_descriptors di (di_image_descriptors di) = Inr ids"
    using assms b i v s by (cases "put_image_descriptors di (di_image_descriptors di)") (simp_all add: dispatch_parts_def)
  note p = assms[unfolded dispatch_parts_def b i v s d sum.case prod.case sum.inject(2), symmetric]
  show ?thesis using that b i v s put_image_descriptors_spec[OF d] by (simp add: p)
qed

lemma parts_fit_built:
  assumes "dispatch_parts di = Inr p"
  shows "parts_fit di p"
proof (rule built_parts[OF assms])
  fix rs ds irs
  assume b: "put_bindings (di_id di) 0 (di_bindings di) = Inr (rs, ds)"
    "put_images (di_id di) (2 * length (di_bindings di)) (1 + length (di_bindings di)) (di_images di) = Inr (irs, pa_images p, pa_image_fds p)"
    "put_views (di_images di) (di_views di) = Inr (pa_views p)" "put_samplers (di_samplers di) = Inr (pa_samplers p)"
    "pa_resources p = rs @ irs" "pa_descriptors p = ds @ map (image_descriptor di) (di_image_descriptors di)"
  show ?thesis
    using put_bindings_spec[OF b(1)] put_images_spec[OF b(2)] put_views_spec[OF b(3)] put_samplers_spec[OF b(4)]
    by (simp add: parts_fit_def b(5,6))
qed

lemma section_lengths:
  assumes "parts_fit di p"
  shows "map length (sections_of di p) =
    [72 * (2 * length (di_bindings di) + length (di_images di)), 88 * (length (di_bindings di) + length (di_image_descriptors di)),
     104 * length (di_images di), 72 * length (di_views di), 88 * length (di_samplers di), 16 * length (di_specs di),
     length (di_spec_data di), length (di_push di), length (di_entry di), length (di_options di)]"
  using assms
  by (simp add: sections_of_def parts_fit_def resource_layout.table_length object_descriptor_layout.table_length
      image_layout.table_length view_layout.table_length sampler_layout.table_length spec_layout.table_length spec_entries_def)

definition sent_header :: "dispatch \<Rightarrow> parts \<Rightarrow> nat list \<Rightarrow> string \<Rightarrow> v5_header" where
  "sent_header di p offs payload =
     (let h = frame_header di p offs (392 + length payload)
      in h\<lparr>vh_frame_hash := fnv1a64_bytes (v5_header_bytes h @ v5_objects_bytes (frame_objects di p offs) @ payload)\<rparr>)"

definition placed_all :: "string \<Rightarrow> nat list \<Rightarrow> string list \<Rightarrow> bool" where
  "placed_all frame offs ds \<longleftrightarrow> (\<forall>i<length ds. placed frame (offs ! i) (ds ! i))"

lemma header_8: "length (vh_magic (sent_header di p offs payload)) = 8"
  by (simp add: sent_header_def Let_def frame_header_def V5_MAGIC_def)

lemma sent_frame:
  assumes "send_generic_vulkan_dispatch_v5_1_op di = Inr s"
  obtains p offs payload where "dispatch_refused di = 0" "dispatch_parts di = Inr p"
    "so_bytes s = v5_header_bytes (sent_header di p offs payload) @ v5_objects_bytes (frame_objects di p offs) @ payload"
    "so_fds s = dispatch_fds di p" "392 + length payload \<le> 0x400000"
    "placed_all (so_bytes s) offs (sections_of di p)"
proof -
  have r: "dispatch_refused di = 0"
    using assms by (simp add: send_generic_vulkan_dispatch_v5_1_op_def split: if_splits)
  obtain p where p: "dispatch_parts di = Inr p"
    using assms r by (cases "dispatch_parts di") (simp_all add: send_generic_vulkan_dispatch_v5_1_op_def)
  let ?secs = "sections_of di p"
  have cap: "frame_capacity ?secs \<le> 0x400000"
    using assms r p by (simp add: send_generic_vulkan_dispatch_v5_1_op_def Let_def split: if_splits)
  then obtain offs payload where a: "append_all (frame_capacity ?secs) ?secs [] [] = Some (offs, payload)"
    using assms r p by (cases "append_all (frame_capacity ?secs) ?secs [] []") (simp_all add: send_generic_vulkan_dispatch_v5_1_op_def Let_def, fastforce)
  have s: "s = \<lparr>so_bytes = v5_header_bytes (sent_header di p offs payload) @ v5_objects_bytes (frame_objects di p offs) @ payload,
      so_fds = dispatch_fds di p\<rparr>"
    using assms r p cap a by (simp add: send_generic_vulkan_dispatch_v5_1_op_def sent_header_def Let_def)
  note ap = append_all_placed[OF a]
  have "?secs \<noteq> []" by (simp add: sections_of_def)
  then have len: "392 + length payload \<le> 0x400000" using ap cap by simp
  have h: "length (v5_header_bytes (sent_header di p offs payload) @ v5_objects_bytes (frame_objects di p offs)) = 392"
    by (simp add: v5_header_bytes_length header_8 v5_objects_bytes_length)
  have "placed (so_bytes s) (offs ! i) (?secs ! i)" if "i < length ?secs" for i
  proof -
    from ap that have "392 \<le> offs ! i" "placed payload (offs ! i - 392) (?secs ! i)" by simp_all
    then show ?thesis using placed_before[of payload "offs ! i - 392" "?secs ! i"
        "v5_header_bytes (sent_header di p offs payload) @ v5_objects_bytes (frame_objects di p offs)"]
      by (simp only: h s sock.select_convs append_assoc le_add_diff_inverse)
  qed
  then have "placed_all (so_bytes s) offs ?secs" by (simp add: placed_all_def)
  with that[OF r p] s len show ?thesis by simp
qed

section \<open>The checks accept it\<close>

lemma not_refused:
  assumes "dispatch_refused di = 0"
  shows "length (di_bindings di) \<le> 16" "length (di_image_descriptors di) \<le> 16" "length (di_images di) \<le> 256"
    "length (di_views di) \<le> 512" "length (di_samplers di) \<le> 512" "length (di_bindings di) * 2 + length (di_images di) \<le> 1024"
    "1 + length (di_bindings di) + length (di_images di) \<le> 253" "length (di_specs di) \<le> 16" "length (di_spec_data di) \<le> 256"
    "length (di_push di) \<le> 256" "length (di_entry di) < 128"
  using assms
  by (simp_all add: dispatch_refused_def Let_def VK_MAX_STORAGE_BUFFERS_def V5_MAX_IMAGES_def V5_MAX_IMAGE_VIEWS_def
      V5_MAX_SAMPLERS_def V5_MAX_RESOURCES_def V5_MAX_FDS_def VK_MAX_SPECIALIZATION_ENTRIES_def VK_MAX_SPECIALIZATION_BYTES_def
      VK_MAX_PUSH_BYTES_def VK_MAX_ENTRY_NAME_def not_less not_le split: if_splits)

lemmas header_simps = sent_header_def frame_header_def Let_def

lemma section_range:
  assumes "placed_all frame offs (sections_of di p)" "length frame \<le> 0x400000" "i < 10"
  shows "range_within_frame (of_nat (offs ! i)) (of_nat (length (sections_of di p ! i))) (of_nat (length frame))"
proof -
  have "i < length (sections_of di p)" using assms(3) by (simp add: sections_of_def)
  then have "offs ! i + length (sections_of di p ! i) \<le> length frame" using assms(1) by (simp add: placed_all_def placed_range)
  then show ?thesis by (rule range_of_nat) (use assms(2) in simp)
qed

lemma section_length:
  assumes "parts_fit di p" "i < 10"
  shows "length (sections_of di p ! i) = map length (sections_of di p) ! i"
  by (rule nth_map[symmetric]) (use assms(2) in \<open>simp add: sections_of_def\<close>)

lemma table_size_of_nat: "n < 2 ^ 32 \<Longrightarrow> (ucast (of_nat n :: u32) :: u64) * of_nat e = of_nat (e * n)"
  by (simp add: ucast_of_nat32 mult.commute)

lemma sent_header_valid:
  assumes "dispatch_refused di = 0" "parts_fit di p" "placed_all frame offs (sections_of di p)"
    and "length frame = 392 + length payload" "392 + length payload \<le> 0x400000"
  shows "validate_vulkan_dispatch_v5_header (sent_header di p offs payload) (length (dispatch_fds di p)) = 0"
proof -
  let ?h = "sent_header di p offs payload"
  note b = not_refused[OF assms(1)] and fit = assms(2)[unfolded parts_fit_def]
  have fs: "unat (vh_frame_size ?h) = 392 + length payload"
    using assms(5) by (simp add: header_simps unat_of_nat64 del: of_nat_add of_nat_numeral)
  have "vh_frame_size ?h = of_nat (length frame)" by (simp add: header_simps assms(4))
  then have rg: "range_within_frame (of_nat (offs ! i)) (of_nat (length (sections_of di p ! i))) (vh_frame_size ?h)" if "i < 10" for i
    using section_range[OF assms(3) _ that] assms(4,5) by simp
  have fd: "unat (vh_fd_count ?h) = length (dispatch_fds di p)" "0 < unat (vh_fd_count ?h)"
    using b(7) fit by (simp_all add: header_simps unat_of_nat32 dispatch_fds_def del: of_nat_add of_nat_Suc)
  have cnt: "unat (vh_resource_count ?h) \<le> 1024" "unat (vh_descriptor_count ?h) \<le> 2048"
    using b by (simp_all add: header_simps unat_of_nat32 del: of_nat_add of_nat_mult)
  have l: "length (dispatch_fds di p) \<le> 253" using b(7) fit by (simp add: dispatch_fds_def)
  have "v5_entry_sizes_ok ?h" by (simp add: v5_entry_sizes_ok_def header_simps V5_ABI_MINOR_def V5_ABI_MINOR_OBJECTS_def)
  moreover have "v5_table_sizes_ok ?h"
  proof -
    note sl = section_length[OF assms(2), unfolded section_lengths[OF assms(2)]]
    have "ucast (vh_resource_count ?h) * ucast (vh_resource_entry_size ?h) = vh_resource_table_size ?h"
      using table_size_of_nat[of "length (di_bindings di) * 2 + length (di_images di)" 72] b
      by (simp add: header_simps sl mult.commute del: of_nat_add of_nat_mult)
    moreover have "ucast (vh_descriptor_count ?h) * ucast (vh_descriptor_entry_size ?h) = vh_descriptor_table_size ?h"
      using table_size_of_nat[of "length (di_bindings di) + length (di_image_descriptors di)" 88] b
      by (simp add: header_simps sl del: of_nat_add of_nat_mult)
    moreover have "ucast (vh_specialization_count ?h) * ucast (vh_specialization_entry_size ?h) = vh_specialization_table_size ?h"
      using table_size_of_nat[of "length (di_specs di)" 16] b
      by (simp add: header_simps sl del: of_nat_add of_nat_mult)
    ultimately show ?thesis by (simp add: v5_table_sizes_ok_def)
  qed
  moreover have "v5_ranges_ok ?h"
    using rg[of 0] rg[of 1] rg[of 5] rg[of 6] rg[of 7] rg[of 8] rg[of 9]
    by (simp add: v5_ranges_ok_def) (simp add: header_simps)
  moreover have "\<not> (vh_frame_size ?h < ucast (vh_header_size ?h) \<or> V5_MAX_FRAME_BYTES < vh_frame_size ?h)"
    using fs assms(5) by (simp add: word_less_nat_alt V5_MAX_FRAME_BYTES_def) (simp add: header_simps)
  moreover have "\<not> vh_fd_count ?h \<le> vh_shader_fd_index ?h"
    using fd(2) by (simp add: word_le_nat_alt) (simp add: header_simps)
  moreover have "vh_magic ?h = V5_MAGIC" "vh_abi_major ?h = V5_ABI_MAJOR" "vh_command ?h = V5_COMMAND_DISPATCH"
      "vh_abi_minor ?h = V5_ABI_MINOR_OBJECTS" "vh_header_size ?h = 392" by (simp_all add: header_simps)
  ultimately show ?thesis
    using fd l cnt
    by (simp add: validate_vulkan_dispatch_v5_header_def V5_MAX_FDS_def V5_MAX_RESOURCES_def V5_MAX_DESCRIPTORS_def)
qed

lemma sent_objects_at:
  assumes "frame = v5_header_bytes (sent_header di p offs payload) @ v5_objects_bytes (frame_objects di p offs) @ payload"
  shows "v5_objects_at frame = frame_objects di p offs"
  by (simp add: v5_objects_at_def assms v5_header_bytes_length header_8 v5_objects_of_bytes)

lemma sent_objects_valid:
  assumes "dispatch_refused di = 0" "parts_fit di p" "placed_all frame offs (sections_of di p)"
    and "length frame = 392 + length payload" "392 + length payload \<le> 0x400000"
    and "v5_objects_at frame = frame_objects di p offs"
  shows "validate_vulkan_dispatch_v5_object_extension frame (sent_header di p offs payload) = 0"
proof -
  let ?h = "sent_header di p offs payload" and ?x = "frame_objects di p offs"
  note b = not_refused[OF assms(1)] and sl = section_length[OF assms(2), unfolded section_lengths[OF assms(2)]]
  have "vh_frame_size ?h = of_nat (length frame)" by (simp add: header_simps assms(4))
  then have rg: "range_within_frame (of_nat (offs ! i)) (of_nat (length (sections_of di p ! i))) (vh_frame_size ?h)" if "i < 10" for i
    using section_range[OF assms(3) _ that] assms(4,5) by simp
  have c: "unat (vx_image_count ?x) \<le> 256" "unat (vx_image_view_count ?x) \<le> 512" "unat (vx_sampler_count ?x) \<le> 512"
    using b by (simp_all add: frame_objects_def Let_def unat_of_nat32)
  have r: "range_within_frame 0 392 (vh_frame_size ?h)"
    using assms(4,5) by (simp add: range_within_nat header_simps unat_of_nat64 del: of_nat_add of_nat_numeral)
  have t: "ucast (vx_image_count ?x) * ucast (vx_image_entry_size ?x) = vx_image_table_size ?x"
    "ucast (vx_image_view_count ?x) * ucast (vx_image_view_entry_size ?x) = vx_image_view_table_size ?x"
    "ucast (vx_sampler_count ?x) * ucast (vx_sampler_entry_size ?x) = vx_sampler_table_size ?x"
    using table_size_of_nat[of "length (di_images di)" 104] table_size_of_nat[of "length (di_views di)" 72]
      table_size_of_nat[of "length (di_samplers di)" 88] b
    by (simp_all add: frame_objects_def Let_def sl)
  have f: "vx_image_entry_size ?x = 104" "vx_image_view_entry_size ?x = 72" "vx_sampler_entry_size ?x = 88"
    "vx_image_schema_hash ?x = V5_IMAGE_SCHEMA_HASH" "vx_image_view_schema_hash ?x = V5_IMAGE_VIEW_SCHEMA_HASH"
    "vx_sampler_schema_hash ?x = V5_SAMPLER_SCHEMA_HASH" by (simp_all add: frame_objects_def Let_def)
  have g: "range_within_frame (vx_image_table_offset ?x) (vx_image_table_size ?x) (vh_frame_size ?h)"
    "range_within_frame (vx_image_view_table_offset ?x) (vx_image_view_table_size ?x) (vh_frame_size ?h)"
    "range_within_frame (vx_sampler_table_offset ?x) (vx_sampler_table_size ?x) (vh_frame_size ?h)"
    using rg[of 2] rg[of 3] rg[of 4] by (simp_all add: frame_objects_def Let_def)
  have "vh_header_size ?h = 392" by (simp add: header_simps)
  then show ?thesis using c r t f g
    by (simp add: validate_vulkan_dispatch_v5_object_extension_def Let_def assms(6) V5_MAX_IMAGES_def V5_MAX_IMAGE_VIEWS_def
        V5_MAX_SAMPLERS_def)
qed

lemma sent_is_received:
  assumes "so_bytes s = v5_header_bytes (sent_header di p offs payload) @ v5_objects_bytes (frame_objects di p offs) @ payload"
    and "so_fds s = dispatch_fds di p" "length (so_fds s) \<le> GPU_MAX_PASSED_FDS"
    and "dispatch_refused di = 0" "parts_fit di p" "placed_all (so_bytes s) offs (sections_of di p)" "392 + length payload \<le> 0x400000"
  shows "recv_vulkan_dispatch_v5_frame True s =
    (RecvFrame (so_bytes s) (sent_header di p offs payload) (so_fds s), s\<lparr>so_bytes := [], so_fds := []\<rparr>)"
proof -
  let ?h = "sent_header di p offs payload" and ?x = "v5_objects_bytes (frame_objects di p offs)"
  have hl: "length (v5_header_bytes ?h) = 288" by (simp add: v5_header_bytes_length header_8)
  have xl: "length ?x = 104" by (rule v5_objects_bytes_length)
  have fl: "length (so_bytes s) = 392 + length payload" by (simp add: assms(1) hl xl)
  have f: "take GPU_MAX_PASSED_FDS (so_fds s) = so_fds s" using assms(3) by simp
  have "v5_header_of (v5_header_bytes ?h) = ?h" using v5_header_of_bytes[OF header_8, where bs = "[]"] by (simp only: append_Nil2)
  moreover have "v5_header_bytes ?h \<noteq> []" using hl by (metis list.size(3) zero_neq_numeral)
  ultimately have r: "recv_vulkan_dispatch_v5_header_with_fds s =
      (validate_vulkan_dispatch_v5_header ?h (length (dispatch_fds di p)), ?h, so_fds s, s\<lparr>so_bytes := ?x @ payload, so_fds := []\<rparr>)"
    unfolding recv_vulkan_dispatch_v5_header_with_fds_def Let_def f
    by (simp add: assms(1) hl flip: assms(2))
  have v: "validate_vulkan_dispatch_v5_header ?h (length (dispatch_fds di p)) = 0"
    by (rule sent_header_valid[OF assms(4,5,6) fl assms(7)])
  have o: "validate_vulkan_dispatch_v5_object_extension (v5_header_bytes ?h @ ?x @ payload) ?h = 0"
    using sent_objects_valid[OF assms(4,5,6) fl assms(7) sent_objects_at[OF assms(1)]] by (simp only: assms(1))
  have hs: "vh_header_size ?h = 392" "unat (vh_frame_size ?h) = 392 + length payload"
    using assms(7) by (simp_all add: header_simps unat_of_nat64 del: of_nat_add of_nat_numeral)
  then have d: "unat (vh_frame_size ?h - 392) = length payload" by (simp add: unat_sub_if')
  have "read_v5_body ?h (s\<lparr>so_bytes := ?x @ payload, so_fds := []\<rparr>) = (Inr (?x @ payload), s\<lparr>so_bytes := [], so_fds := []\<rparr>)"
    unfolding read_v5_body_def by (simp add: hs(1) d read_exact_bytes_def xl)
  moreover have "\<not> vh_frame_size ?h < 288" using hs(2) by (simp add: word_less_nat_alt)
  ultimately show ?thesis
    unfolding recv_vulkan_dispatch_v5_frame_def r v prod.case Let_def using o by (simp add: assms(1))
qed

end
