(* ===== verification/Frame_Roundtrip.thy ===== *)
theory Frame_Roundtrip
  imports Frame_Sent
begin

text \<open>
  The bindings and image descriptors that the executor reads from the frame of a client: those of the
  dispatch.
\<close>

section \<open>The tables\<close>

context struct_layout
begin

lemma table_placed: "placed frame off (table_bytes enc xs) \<Longrightarrow> table_at dec sz off (length xs) frame = xs"
  unfolding placed_def using table_read by blast

end

lemma sent_tables:
  assumes "dispatch_refused di = 0" "parts_fit di p" "placed_all frame offs (sections_of di p)" "length frame \<le> 0x400000"
    and "v5_objects_at frame = frame_objects di p offs"
  shows "frame_tables frame (sent_header di p offs payload) fds =
      \<lparr>vt_resources = pa_resources p, vt_images = pa_images p, vt_views = pa_views p, vt_samplers = pa_samplers p, vt_fds = fds\<rparr>"
    "frame_descriptors frame (sent_header di p offs payload) = pa_descriptors p"
proof -
  let ?h = "sent_header di p offs payload" and ?x = "frame_objects di p offs"
  note b = not_refused[OF assms(1)] and fit = assms(2)[unfolded parts_fit_def]
  have ten: "length (sections_of di p) = 10" by (simp add: sections_of_def)
  have pl: "placed frame (offs ! i) (sections_of di p ! i)" if "i < 10" for i
    using assms(3) that by (simp add: placed_all_def ten)
  have o: "unat (of_nat (offs ! i) :: u64) = offs ! i" if "i < 10" for i
    using placed_range[OF pl[OF that]] assms(4) by (intro unat_of_nat64) simp
  have s: "sections_of di p ! 0 = table_bytes v5_resource_bytes (pa_resources p)"
    "sections_of di p ! 1 = table_bytes v5_object_descriptor_bytes (pa_descriptors p)"
    "sections_of di p ! 2 = table_bytes v5_image_bytes (pa_images p)" "sections_of di p ! 3 = table_bytes v5_view_bytes (pa_views p)"
    "sections_of di p ! 4 = table_bytes v5_sampler_bytes (pa_samplers p)" by (simp_all add: sections_of_def)
  have h: "vh_resource_table_offset ?h = of_nat (offs ! 0)" "vh_descriptor_table_offset ?h = of_nat (offs ! 1)"
    "unat (vh_resource_count ?h) = length (pa_resources p)" "unat (vh_descriptor_count ?h) = length (pa_descriptors p)"
    "vh_abi_minor ?h = V5_ABI_MINOR_OBJECTS"
    using b fit by (simp_all add: header_simps unat_of_nat32 del: of_nat_add of_nat_mult)
  have x: "vx_image_table_offset ?x = of_nat (offs ! 2)" "vx_image_view_table_offset ?x = of_nat (offs ! 3)"
    "vx_sampler_table_offset ?x = of_nat (offs ! 4)" "unat (vx_image_count ?x) = length (pa_images p)"
    "unat (vx_image_view_count ?x) = length (pa_views p)" "unat (vx_sampler_count ?x) = length (pa_samplers p)"
    using b fit by (simp_all add: frame_objects_def Let_def unat_of_nat32)
  show "frame_tables frame ?h fds =
      \<lparr>vt_resources = pa_resources p, vt_images = pa_images p, vt_views = pa_views p, vt_samplers = pa_samplers p, vt_fds = fds\<rparr>"
    using resource_layout.table_placed[OF pl[of 0, unfolded s]] image_layout.table_placed[OF pl[of 2, unfolded s]]
      view_layout.table_placed[OF pl[of 3, unfolded s]] sampler_layout.table_placed[OF pl[of 4, unfolded s]]
    by (simp add: frame_tables_def Let_def h x o assms(5))
  show "frame_descriptors frame ?h = pa_descriptors p"
    using object_descriptor_layout.table_placed[OF pl[of 1, unfolded s]]
    by (simp add: frame_descriptors_def Let_def h o)
qed

section \<open>What the executor makes of it\<close>

text \<open>What a dispatch may ask for so that the executor can serve it.\<close>

definition binding_fits :: "send_binding \<Rightarrow> bool" where
  "binding_fits b \<longleftrightarrow> 0 \<le> sb_fd b \<and> sb_type b \<in> set [6, 7, 8, 9] \<and>
     unat (sb_memory_offset b) + unat (sb_buffer_size b) \<le> unat (sb_memory_size b) \<and>
     unat (sb_api_offset b) + (if sb_api_range b = UINT64_MAX then 0 else unat (sb_api_range b)) \<le> unat (sb_buffer_size b) \<and>
     unat (sb_api_offset b) + unat (sb_dynamic_offset b) < 2 ^ 64"

definition image_fits :: "dispatch \<Rightarrow> send_image \<Rightarrow> bool" where
  "image_fits di s \<longleftrightarrow> si_type s \<in> set [0, 1, 2, 3, 10] \<and>
     (si_view s = V5_NONE \<or> si_type s \<noteq> 0 \<and> unat (si_view s) < length (di_views di)) \<and>
     (si_sampler s = V5_NONE \<or> unat (si_sampler s) < length (di_samplers di))"

definition sent_binding :: "send_binding \<Rightarrow> binding" where
  "sent_binding b =
     \<lparr>db_set = sb_set b, db_binding = sb_binding b, db_array_element = sb_array_element b, db_offset = sb_offset b,
      db_size = sb_size b, db_api_offset = sb_api_offset b + sb_dynamic_offset b,
      db_api_range = (if sb_api_range b = UINT64_MAX then sb_buffer_size b - sb_api_offset b else sb_api_range b),
      db_api_buffer_size = sb_buffer_size b, db_api_type = sb_type b, db_api_dynamic = (sb_dynamic b \<noteq> 0),
      db_api_memory_offset = sb_memory_offset b, db_api_memory_size = sb_memory_size b, db_api_memory_id = sb_memory_id b,
      db_api_buffer_id = sb_buffer_id b, db_fd = sb_fd b\<rparr>"

definition sent_image :: "dispatch \<Rightarrow> send_image \<Rightarrow> image_binding" where
  "sent_image di s =
     \<lparr>ib_set = si_set s, ib_binding = si_binding s, ib_array_element = si_array_element s, ib_api_type = si_type s, ib_flags = 0,
      ib_access = (if si_type s = 3 then 3 else 1), ib_resource_index = V5_NONE, ib_view_index = si_view s,
      ib_sampler_index = si_sampler s, ib_layout = si_layout s, ib_resource_id = vo_resource_id (image_descriptor di s)\<rparr>"

section \<open>Resources\<close>

lemma all_resources_checked: "(\<And>r. r \<in> set todo \<Longrightarrow> check_resource rs fds r = 0) \<Longrightarrow> check_resources rs fds todo = 0"
  by (induction todo) simp_all

lemma fits_word: "unat a + unat b \<le> unat c \<Longrightarrow> \<not> c < a \<and> \<not> c - a < b" for a :: u64
proof -
  assume le: "unat a + unat b \<le> unat c"
  then have "unat (c - a) = unat c - unat a" by (simp add: unat_sub_if')
  with le show ?thesis by (simp add: word_less_nat_alt not_less)
qed

lemma small_not_none: "n < 2000 \<Longrightarrow> (of_nat n :: u32) \<noteq> V5_NONE"
proof
  assume "n < 2000" "(of_nat n :: u32) = V5_NONE"
  then have "n = unat V5_NONE" using unat_of_nat32[of n] by simp
  with \<open>n < 2000\<close> show False by simp
qed

lemma memory_checked:
  "n < length fds \<Longrightarrow> n < 253 \<Longrightarrow> 0 \<le> fds ! n \<Longrightarrow> check_resource rs fds (memory_entry ident (of_nat n) sz g) = 0"
  by (simp add: check_resource_def memory_entry_def fd_missing_def unat_of_nat32 small_not_none)

lemma buffer_checked:
  assumes "n < length rs" "n < 253" "vr_resource_type (rs ! n) = RESOURCE_MEMORY"
    and "unat (sb_memory_offset b) + unat (sb_buffer_size b) \<le> unat (vr_size (rs ! n))"
  shows "check_resource rs fds (buffer_entry b (of_nat n) g) = 0"
proof -
  note fits_word[OF assms(4)]
  then show ?thesis using assms by (simp add: check_resource_def buffer_entry_def Let_def unat_of_nat32)
qed

lemma image_checked:
  "(\<And>k. k < length ims \<Longrightarrow> unat (vi_memory_resource_index (ims ! k)) < length rs \<and>
      vr_resource_type (rs ! unat (vi_memory_resource_index (ims ! k))) = RESOURCE_MEMORY \<and>
      unat (vi_memory_offset (ims ! k)) + unat (vi_memory_size (ims ! k)) \<le> unat (vr_size (rs ! unat (vi_memory_resource_index (ims ! k))))) \<Longrightarrow>
   check_images rs ims = 0"
proof (induction ims)
  case (Cons im ims)
  from Cons.prems[of 0] fits_word[of "vi_memory_offset im" "vi_memory_size im"] have "\<not> length rs \<le> unat (vi_memory_resource_index im)"
      "vr_resource_type (rs ! unat (vi_memory_resource_index im)) = RESOURCE_MEMORY"
      "\<not> vr_size (rs ! unat (vi_memory_resource_index im)) < vi_memory_offset im"
      "\<not> vr_size (rs ! unat (vi_memory_resource_index im)) - vi_memory_offset im < vi_memory_size im"
    by simp_all
  moreover have "check_images rs ims = 0" by (rule Cons.IH) (use Cons.prems[of "Suc _"] in simp)
  ultimately show ?case by (simp add: Let_def)
qed simp

section \<open>A built frame passes the checks of the tables\<close>

text \<open>The entries by their places.\<close>

definition resources_as_built :: "dispatch \<Rightarrow> parts \<Rightarrow> bool" where
  "resources_as_built di p \<longleftrightarrow>
     (\<forall>k<length (di_bindings di). \<not> transfer_outside (di_bindings di ! k) \<and>
        pa_resources p ! (2 * k) = memory_entry (sb_memory_id (di_bindings di ! k)) (of_nat (k + 1)) (sb_memory_size (di_bindings di ! k)) (di_id di) \<and>
        pa_resources p ! (2 * k + 1) = buffer_entry (di_bindings di ! k) (of_nat (2 * k)) (di_id di) \<and>
        pa_descriptors p ! k = buffer_descriptor (di_bindings di ! k) (of_nat (2 * k + 1))) \<and>
     (\<forall>k<length (di_images di). \<exists>(im :: vk_image) (m :: vk_memory). 0 \<le> pa_image_fds p ! k \<and>
        unat (ic_memory_offset im) + unat (ic_requirements im) \<le> unat (vkm_size m) \<and>
        pa_resources p ! (2 * length (di_bindings di) + k) = memory_entry (vkm_ptr m) (of_nat (1 + length (di_bindings di) + k)) (vkm_size m) (di_id di) \<and>
        pa_images p ! k = image_entry im (of_nat (2 * length (di_bindings di) + k)))"

lemma as_built:
  assumes "dispatch_parts di = Inr p"
  shows "resources_as_built di p"
proof (rule built_parts[OF assms])
  fix rs ds irs
  assume b: "put_bindings (di_id di) 0 (di_bindings di) = Inr (rs, ds)"
    and i: "put_images (di_id di) (2 * length (di_bindings di)) (1 + length (di_bindings di)) (di_images di) = Inr (irs, pa_images p, pa_image_fds p)"
    and r: "pa_resources p = rs @ irs" "pa_descriptors p = ds @ map (image_descriptor di) (di_image_descriptors di)"
  note bs = put_bindings_spec[OF b] and ims = put_images_spec[OF i]
  have l: "length rs = 2 * length (di_bindings di)" "length ds = length (di_bindings di)" using bs by simp_all
  have "\<exists>(im :: vk_image) (m :: vk_memory). 0 \<le> pa_image_fds p ! k \<and> unat (ic_memory_offset im) + unat (ic_requirements im) \<le> unat (vkm_size m) \<and>
      pa_resources p ! (2 * length (di_bindings di) + k) = memory_entry (vkm_ptr m) (of_nat (1 + length (di_bindings di) + k)) (vkm_size m) (di_id di) \<and>
      pa_images p ! k = image_entry im (of_nat (2 * length (di_bindings di) + k))" if "k < length (di_images di)" for k
  proof -
    from ims that obtain im :: vk_image and m :: vk_memory where "0 \<le> vkm_fd m \<and> unat (ic_memory_offset im) + unat (ic_requirements im) \<le> unat (vkm_size m) \<and>
       irs ! k = memory_entry (vkm_ptr m) (of_nat (1 + length (di_bindings di) + k)) (vkm_size m) (di_id di) \<and>
       pa_images p ! k = image_entry im (of_nat (2 * length (di_bindings di) + k)) \<and> pa_image_fds p ! k = vkm_fd m" by blast
    then show ?thesis by (intro exI[of _ im] exI[of _ m]) (simp add: r nth_append l)
  qed
  moreover have "\<not> transfer_outside (di_bindings di ! k) \<and>
      pa_resources p ! (2 * k) = memory_entry (sb_memory_id (di_bindings di ! k)) (of_nat (k + 1)) (sb_memory_size (di_bindings di ! k)) (di_id di) \<and>
      pa_resources p ! (2 * k + 1) = buffer_entry (di_bindings di ! k) (of_nat (2 * k)) (di_id di) \<and>
      pa_descriptors p ! k = buffer_descriptor (di_bindings di ! k) (of_nat (2 * k + 1))" if "k < length (di_bindings di)" for k
    using bs that by (simp add: r nth_append l)
  ultimately show ?thesis by (simp add: resources_as_built_def)
qed

lemma dispatch_fd:
  assumes "parts_fit di p"
  shows "length (dispatch_fds di p) = 1 + length (di_bindings di) + length (di_images di)"
    "k < length (di_bindings di) \<Longrightarrow> dispatch_fds di p ! (k + 1) = sb_fd (di_bindings di ! k)"
    "j < length (di_images di) \<Longrightarrow> dispatch_fds di p ! (1 + length (di_bindings di) + j) = pa_image_fds p ! j"
  using assms by (simp_all add: parts_fit_def dispatch_fds_def nth_append)

lemma resource_places:
  assumes "parts_fit di p" "n < length (pa_resources p)"
  obtains (memory) k where "k < length (di_bindings di)" "n = 2 * k"
  | (buffer) k where "k < length (di_bindings di)" "n = 2 * k + 1"
  | (image) k where "k < length (di_images di)" "n = 2 * length (di_bindings di) + k"
proof (cases "n < 2 * length (di_bindings di)")
  case True
  show ?thesis
  proof (cases "even n")
    case e: True
    then obtain k where "n = 2 * k" by blast
    with True show ?thesis using memory[of k] by simp
  next
    case False
    then obtain k where "n = 2 * k + 1" by (blast elim: oddE)
    with True show ?thesis using buffer[of k] by simp
  qed
next
  case False
  then show ?thesis using image[of "n - 2 * length (di_bindings di)"] assms by (simp add: parts_fit_def)
qed

lemma built_tables_checked:
  assumes "dispatch_parts di = Inr p" "dispatch_refused di = 0" "list_all binding_fits (di_bindings di)"
  shows "check_resources (pa_resources p) (dispatch_fds di p) (pa_resources p) = 0"
    "check_images (pa_resources p) (pa_images p) = 0"
    "\<not> (\<exists>v\<in>set (pa_views p). length (pa_images p) \<le> unat (vv_image_index v))"
proof -
  note fit = parts_fit_built[OF assms(1)] and ab = as_built[OF assms(1), unfolded resources_as_built_def] and nr = not_refused[OF assms(2)]
  note pf = fit[unfolded parts_fit_def] and fd = dispatch_fd[OF fit]
  have "check_resource (pa_resources p) (dispatch_fds di p) (pa_resources p ! n) = 0" if "n < length (pa_resources p)" for n
    using fit that
  proof (cases rule: resource_places)
    case (memory k)
    then have "0 \<le> sb_fd (di_bindings di ! k)" using assms(3) by (simp add: list_all_length binding_fits_def)
    then show ?thesis using memory ab memory_checked[of "k + 1" "dispatch_fds di p"] fd nr by simp
  next
    case (buffer k)
    then have "pa_resources p ! (2 * k) = memory_entry (sb_memory_id (di_bindings di ! k)) (of_nat (k + 1)) (sb_memory_size (di_bindings di ! k)) (di_id di)"
      "binding_fits (di_bindings di ! k)"
      using ab assms(3) by (simp_all add: list_all_length)
    then have "check_resource (pa_resources p) (dispatch_fds di p) (buffer_entry (di_bindings di ! k) (of_nat (2 * k)) (di_id di)) = 0"
      using buffer(1) pf nr by (intro buffer_checked) (simp_all add: memory_entry_def binding_fits_def)
    then show ?thesis using buffer ab by simp
  next
    case (image k)
    then obtain m :: vk_memory where m: "0 \<le> pa_image_fds p ! k"
        "pa_resources p ! n = memory_entry (vkm_ptr m) (of_nat (1 + length (di_bindings di) + k)) (vkm_size m) (di_id di)"
      using ab unfolding image(2) by blast
    have "dispatch_fds di p ! (1 + length (di_bindings di) + k) = pa_image_fds p ! k" by (rule fd(3)[OF image(1)])
    then show ?thesis unfolding m(2) using m(1) image(1) fd(1) nr by (intro memory_checked) simp_all
  qed
  then show "check_resources (pa_resources p) (dispatch_fds di p) (pa_resources p) = 0"
    by (intro all_resources_checked) (metis in_set_conv_nth)
  show "check_images (pa_resources p) (pa_images p) = 0"
  proof (rule image_checked)
    fix k assume "k < length (pa_images p)"
    then have k: "k < length (di_images di)" using pf by simp
    with ab obtain im :: vk_image and m :: vk_memory where i: "unat (ic_memory_offset im) + unat (ic_requirements im) \<le> unat (vkm_size m)"
        "pa_resources p ! (2 * length (di_bindings di) + k) = memory_entry (vkm_ptr m) (of_nat (1 + length (di_bindings di) + k)) (vkm_size m) (di_id di)"
        "pa_images p ! k = image_entry im (of_nat (2 * length (di_bindings di) + k))" by blast
    have u: "unat (of_nat (2 * length (di_bindings di) + k) :: u32) = 2 * length (di_bindings di) + k"
      using nr k by (intro unat_of_nat32) simp
    show "unat (vi_memory_resource_index (pa_images p ! k)) < length (pa_resources p) \<and>
        vr_resource_type (pa_resources p ! unat (vi_memory_resource_index (pa_images p ! k))) = RESOURCE_MEMORY \<and>
        unat (vi_memory_offset (pa_images p ! k)) + unat (vi_memory_size (pa_images p ! k))
          \<le> unat (vr_size (pa_resources p ! unat (vi_memory_resource_index (pa_images p ! k))))"
      using i k pf by (simp add: image_entry_def u del: of_nat_add of_nat_mult) (simp add: memory_entry_def)
  qed
  show "\<not> (\<exists>v\<in>set (pa_views p). length (pa_images p) \<le> unat (vv_image_index v))"
  proof (rule built_parts[OF assms(1)])
    assume v: "put_views (di_images di) (di_views di) = Inr (pa_views p)"
    have "unat (vv_image_index (pa_views p ! k)) < length (pa_images p)" if k: "k < length (pa_views p)" for k
    proof -
      from put_views_spec[OF v] k obtain w j where "j < length (di_images di)" "pa_views p ! k = view_entry w (of_nat j)" by fastforce
      then show ?thesis using pf nr by (simp add: view_entry_def unat_of_nat32)
    qed
    then show ?thesis by (metis in_set_conv_nth not_le)
  qed
qed

section \<open>The descriptors\<close>

lemma buffers_converted:
  "list_all2 (\<lambda>d b. \<not> is_image_descriptor d \<and> convert_buffer t d = Inr b) ds bs \<Longrightarrow> length acc + length bs \<le> GPU_MAX_VULKAN_BINDINGS \<Longrightarrow>
   convert_descriptors objects t (ds @ todo) acc ims = convert_descriptors objects t todo (acc @ bs) ims"
  by (induction arbitrary: acc rule: list_all2_induct) simp_all

lemma images_converted:
  "list_all2 (\<lambda>d i. is_image_descriptor d \<and> convert_image objects t d = Inr i) ds ims \<Longrightarrow> length acc + length ims \<le> GPU_MAX_VULKAN_BINDINGS \<Longrightarrow>
   convert_descriptors objects t ds bs acc = Inr (bs, acc @ ims)"
  by (induction arbitrary: acc rule: list_all2_induct) simp_all

lemma dynamic_flag:
  "((if a then 1 else 0) OR (if b then 2 else 0) OR (if c then 4 else 0)) AND 1 = (0 :: u32) \<longleftrightarrow> \<not> a"
  by simp

lemma buffer_converted:
  assumes "binding_fits b" "\<not> transfer_outside b" "k < 16" "2 * k + 1 < length (vt_resources t)" "k + 1 < length (vt_fds t)"
    and "vt_resources t ! (2 * k) = memory_entry (sb_memory_id b) (of_nat (k + 1)) (sb_memory_size b) g"
    and "vt_resources t ! (2 * k + 1) = buffer_entry b (of_nat (2 * k)) g" "vt_fds t ! (k + 1) = sb_fd b"
  shows "\<not> is_image_descriptor (buffer_descriptor b (of_nat (2 * k + 1)))"
    "convert_buffer t (buffer_descriptor b (of_nat (2 * k + 1))) = Inr (sent_binding b)"
proof -
  note f = assms(1)[unfolded binding_fits_def]
  show "\<not> is_image_descriptor (buffer_descriptor b (of_nat (2 * k + 1)))"
    using f by (auto simp: is_image_descriptor_def buffer_descriptor_def vulkan_dispatch_image_descriptor_type_from_api_def)
  have u: "unat (of_nat (Suc (2 * k)) :: u32) = Suc (2 * k)" "unat (of_nat (2 * k) :: u32) = 2 * k" "unat (of_nat (Suc k) :: u32) = Suc k"
    using assms(3) by (intro unat_of_nat32; simp)+
  have e: "vt_resources t ! (2 * k) = memory_entry (sb_memory_id b) (of_nat (Suc k)) (sb_memory_size b) g"
    "vt_resources t ! Suc (2 * k) = buffer_entry b (of_nat (2 * k)) g" "vt_fds t ! Suc k = sb_fd b"
    using assms(6-8) by simp_all
  let ?t = "sb_offset b - sb_memory_offset b"
  have o: "\<not> sb_offset b < sb_memory_offset b" and r: "\<not> sb_buffer_size b < ?t" "\<not> sb_buffer_size b - ?t < sb_size b"
    using assms(2) by (simp_all add: transfer_outside_def Let_def)
  have "unat ?t = unat (sb_offset b) - unat (sb_memory_offset b)" using o by (simp add: unat_sub_if' word_less_nat_alt)
  then have "unat (0 :: u64) + unat (sb_memory_offset b) + unat ?t < 2 ^ 64"
    using o unat_lt64[of "sb_offset b"] by (simp add: word_less_nat_alt)
  then have fo: "checked_u64_add3 0 (sb_memory_offset b) ?t = Some (sb_offset b)" by (subst add3_nat) simp
  have "unat (sb_api_offset b) + unat (sb_dynamic_offset b) + unat (0 :: u64) < 2 ^ 64" using f by simp
  then have ao: "checked_u64_add3 (sb_api_offset b) (sb_dynamic_offset b) 0 = Some (sb_api_offset b + sb_dynamic_offset b)"
    by (subst add3_nat) simp
  have ty: "vulkan_dispatch_descriptor_type_from_api (sb_type b) \<noteq> None"
    using f by (auto simp: vulkan_dispatch_descriptor_type_from_api_def)
  have rg: "\<not> (sb_buffer_size b < sb_api_offset b \<or> sb_api_range b \<noteq> UINT64_MAX \<and> sb_buffer_size b - sb_api_offset b < sb_api_range b)"
    using f fits_word[of "sb_api_offset b" "if sb_api_range b = UINT64_MAX then 0 else sb_api_range b" "sb_buffer_size b"]
    by (simp split: if_splits)
  have fd: "\<not> fd_missing (vt_fds t) (of_nat (k + 1))" using f assms(5,8) by (simp add: fd_missing_def u(3) e(3) del: of_nat_add of_nat_Suc)
  show "convert_buffer t (buffer_descriptor b (of_nat (2 * k + 1))) = Inr (sent_binding b)"
    using assms(4) fo ao ty rg r fd
    by (simp add: convert_buffer_def Let_def buffer_descriptor_def u e buffer_entry_def memory_entry_def
        buffer_binding_def sent_binding_def dynamic_flag del: of_nat_add of_nat_mult of_nat_Suc)
qed

lemma image_converted:
  assumes "image_fits di s" "complete_image s" "length (vt_views t) = length (di_views di)" "length (vt_samplers t) = length (di_samplers di)"
    and "\<And>k. k < length (di_views di) \<Longrightarrow> map_option wc_ptr (di_views di ! k) = Some (vv_view_id (vt_views t ! k))"
    and "\<And>k. k < length (di_samplers di) \<Longrightarrow> map_option sc_ptr (di_samplers di ! k) = Some (vs_sampler_id (vt_samplers t ! k))"
  shows "is_image_descriptor (image_descriptor di s)" "convert_image True t (image_descriptor di s) = Inr (sent_image di s)"
proof -
  note f = assms(1)[unfolded image_fits_def]
  have ty: "vulkan_dispatch_image_descriptor_type_from_api (si_type s) \<noteq> None"
    using f by (simp add: vulkan_dispatch_image_descriptor_type_from_api_def)
  then show "is_image_descriptor (image_descriptor di s)" by (simp add: is_image_descriptor_def image_descriptor_def)
  have c: "vulkan_descriptor_type_requires_image_view (si_type s) \<Longrightarrow> si_view s \<noteq> V5_NONE"
    "vulkan_descriptor_type_requires_sampler (si_type s) \<Longrightarrow> si_sampler s \<noteq> V5_NONE"
    using assms(2) by (simp_all add: complete_image_def descriptor_type_requires_image_view_def descriptor_type_requires_sampler_def
        vulkan_descriptor_type_requires_image_view_def vulkan_descriptor_type_requires_sampler_def)
  have v: "\<not> length (vt_views t) \<le> unat (si_view s)" "address_of wc_ptr (di_views di) (si_view s) = vv_view_id (vt_views t ! unat (si_view s))"
    if "si_view s \<noteq> V5_NONE"
    using that f assms(3) assms(5)[of "unat (si_view s)"] by (auto simp: address_of_def split: option.splits)
  have m: "\<not> length (vt_samplers t) \<le> unat (si_sampler s)"
      "address_of sc_ptr (di_samplers di) (si_sampler s) = vs_sampler_id (vt_samplers t ! unat (si_sampler s))"
    if "si_sampler s \<noteq> V5_NONE"
    using that f assms(4) assms(6)[of "unat (si_sampler s)"] by (auto simp: address_of_def split: option.splits)
  have n: "vulkan_descriptor_type_requires_image_view (si_type s)" if "si_view s \<noteq> V5_NONE"
    using that f by (auto simp: vulkan_descriptor_type_requires_image_view_def)
  show "convert_image True t (image_descriptor di s) = Inr (sent_image di s)"
    using c v m n ty by (cases "si_view s = V5_NONE"; cases "si_sampler s = V5_NONE")
      (auto simp: convert_image_def Let_def image_descriptor_def sent_image_def)
qed

lemma descriptors_converted:
  assumes "dispatch_parts di = Inr p" "dispatch_refused di = 0" "list_all binding_fits (di_bindings di)"
    "list_all (image_fits di) (di_image_descriptors di)"
    and "vt_resources t = pa_resources p" "vt_views t = pa_views p" "vt_samplers t = pa_samplers p" "vt_fds t = dispatch_fds di p"
  shows "convert_descriptors True t (pa_descriptors p) [] [] =
    Inr (map sent_binding (di_bindings di), map (sent_image di) (di_image_descriptors di))"
proof (rule built_parts[OF assms(1)])
  fix rs ds irs
  assume b: "put_bindings (di_id di) 0 (di_bindings di) = Inr (rs, ds)" and v: "put_views (di_images di) (di_views di) = Inr (pa_views p)"
    and s: "put_samplers (di_samplers di) = Inr (pa_samplers p)"
    and d: "pa_descriptors p = ds @ map (image_descriptor di) (di_image_descriptors di)" and c: "list_all complete_image (di_image_descriptors di)"
  note fit = parts_fit_built[OF assms(1)] and ab = as_built[OF assms(1), unfolded resources_as_built_def] and nr = not_refused[OF assms(2)]
  note pf = fit[unfolded parts_fit_def] and fd = dispatch_fd[OF fit]
  have l: "length ds = length (di_bindings di)" using put_bindings_spec[OF b] by simp
  have "\<not> is_image_descriptor (ds ! k) \<and> convert_buffer t (ds ! k) = Inr (sent_binding (di_bindings di ! k))"
    if k: "k < length (di_bindings di)" for k
  proof -
    have e: "ds ! k = buffer_descriptor (di_bindings di ! k) (of_nat (2 * k + 1))" "\<not> transfer_outside (di_bindings di ! k)"
      "vt_resources t ! (2 * k) = memory_entry (sb_memory_id (di_bindings di ! k)) (of_nat (k + 1)) (sb_memory_size (di_bindings di ! k)) (di_id di)"
      "vt_resources t ! (2 * k + 1) = buffer_entry (di_bindings di ! k) (of_nat (2 * k)) (di_id di)"
      using put_bindings_spec[OF b] ab k unfolding assms(5) by simp_all
    have "binding_fits (di_bindings di ! k)" using assms(3) k by (simp add: list_all_length)
    from buffer_converted[OF this e(2) _ _ _ e(3,4)] show ?thesis unfolding e(1) using fd k pf nr assms(5,8) by simp
  qed
  then have "list_all2 (\<lambda>d b. \<not> is_image_descriptor d \<and> convert_buffer t d = Inr b) ds (map sent_binding (di_bindings di))"
    using l by (simp add: list_all2_conv_all_nth)
  note bufs = buffers_converted[OF this, of "[]", unfolded append_Nil]
  have vs: "map_option wc_ptr (di_views di ! k) = Some (vv_view_id (vt_views t ! k))" if "k < length (di_views di)" for k
    using put_views_spec[OF v] that assms(6) by (fastforce simp: view_entry_def)
  have ss: "map_option sc_ptr (di_samplers di ! k) = Some (vs_sampler_id (vt_samplers t ! k))" if "k < length (di_samplers di)" for k
    using put_samplers_spec[OF s] that assms(7) by fastforce
  have "is_image_descriptor (image_descriptor di x) \<and> convert_image True t (image_descriptor di x) = Inr (sent_image di x)"
    if "x \<in> set (di_image_descriptors di)" for x
    using image_converted[OF _ _ _ _ vs ss, of x] assms(4,6,7) c pf that by (simp add: list_all_iff)
  then have "list_all2 (\<lambda>d i. is_image_descriptor d \<and> convert_image True t d = Inr i)
      (map (image_descriptor di) (di_image_descriptors di)) (map (sent_image di) (di_image_descriptors di))"
    by (simp add: list.rel_map list.rel_refl_strong)
  note ims = images_converted[OF this, of "[]", unfolded append_Nil]
  show ?thesis using nr by (simp add: d bufs ims GPU_MAX_VULKAN_BINDINGS_def)
qed

section \<open>The other parts\<close>

lemma placed_frame_range:
  assumes "placed frame off d" "length frame = unat (vh_frame_size h)" "length frame \<le> 0x400000"
  shows "v5_frame_range frame h (of_nat off) (of_nat (length d)) = Some d"
proof -
  note r = placed_range[OF assms(1)]
  then have "unat (of_nat off :: u64) = off" "unat (of_nat (length d) :: u64) = length d" using assms(3) by (intro unat_of_nat64; simp)+
  then show ?thesis using r assms(2) by (simp add: v5_frame_range_def range_within_nat placed_bytes[OF assms(1)])
qed

definition sent_payload :: "dispatch \<Rightarrow> payload" where
  "sent_payload di =
     \<lparr>pl_entry = di_entry di, pl_push = di_push di, pl_specs = spec_entries di, pl_spec_data = di_spec_data di,
      pl_options = di_options di\<rparr>"

lemma sent_payload_read:
  assumes "dispatch_refused di = 0" "parts_fit di p" "placed_all frame offs (sections_of di p)" "length (di_options di) < GPU_MAX_COMMAND_BYTES"
    and "length frame = 392 + length payload" "392 + length payload \<le> 0x400000"
  shows "frame_payload frame (sent_header di p offs payload) = Some (sent_payload di)"
proof -
  let ?h = "sent_header di p offs payload"
  note b = not_refused[OF assms(1)]
  have ten: "length (sections_of di p) = 10" by (simp add: sections_of_def)
  have pl: "placed frame (offs ! i) (sections_of di p ! i)" if "i < 10" for i
    using assms(3) that by (simp add: placed_all_def ten)
  have fs: "length frame = unat (vh_frame_size ?h)"
    using assms(5,6) by (simp add: header_simps unat_of_nat64 del: of_nat_add of_nat_numeral)
  have rg: "v5_frame_range frame ?h (of_nat (offs ! i)) (of_nat (length (sections_of di p ! i))) = Some (sections_of di p ! i)" if "i < 10" for i
    using placed_frame_range[OF pl[OF that] fs] assms(5,6) by simp
  have s: "sections_of di p ! 5 = table_bytes v5_spec_bytes (spec_entries di)" "sections_of di p ! 6 = di_spec_data di"
    "sections_of di p ! 7 = di_push di" "sections_of di p ! 8 = di_entry di" "sections_of di p ! 9 = di_options di"
    by (simp_all add: sections_of_def)
  have h: "vh_entry_name_offset ?h = of_nat (offs ! 8)" "vh_entry_name_size ?h = of_nat (length (sections_of di p ! 8))"
    "vh_push_offset ?h = of_nat (offs ! 7)" "vh_push_size ?h = of_nat (length (sections_of di p ! 7))"
    "vh_specialization_table_offset ?h = of_nat (offs ! 5)" "vh_specialization_table_size ?h = of_nat (length (sections_of di p ! 5))"
    "vh_specialization_data_offset ?h = of_nat (offs ! 6)" "vh_specialization_data_size ?h = of_nat (length (sections_of di p ! 6))"
    "vh_option_text_offset ?h = of_nat (offs ! 9)" "vh_option_text_size ?h = of_nat (length (sections_of di p ! 9))"
    by (simp_all add: header_simps)
  have c: "unat (vh_specialization_count ?h) = length (spec_entries di)"
    using b by (simp add: header_simps unat_of_nat32 spec_entries_def)
  have u: "unat (of_nat n :: u64) = n" if "n < 5000" for n using that by (intro unat_of_nat64) simp
  have o: "unat (of_nat (offs ! 5) :: u64) = offs ! 5"
    using placed_range[OF pl[of 5]] assms(5,6) by (intro unat_of_nat64) simp
  have spec: "table_at v5_spec_of 16 (offs ! 5) (length (spec_entries di)) frame = spec_entries di"
    using spec_layout.table_placed[OF pl[of 5, unfolded s]] by simp
  have l: "length (spec_entries di) \<le> 16" using b by (simp add: spec_entries_def)
  show ?thesis
    unfolding frame_payload_def h(1-10) rg[of 8, simplified] rg[of 7, simplified] rg[of 5, simplified] rg[of 6, simplified]
      rg[of 9, simplified] option.case Let_def c o spec
    using b assms(4) l by (simp add: s u GPU_MAX_VULKAN_ENTRY_NAME_def GPU_MAX_PUSH_BYTES_def GPU_MAX_VULKAN_SPECIALIZATION_ENTRIES_def
        GPU_MAX_VULKAN_SPECIALIZATION_BYTES_def GPU_MAX_COMMAND_BYTES_def sent_payload_def)
qed

section \<open>All together\<close>

lemma sent_frame_read:
  assumes "send_generic_vulkan_dispatch_v5_1_op di = Inr s" "length (so_fds s) \<le> GPU_MAX_PASSED_FDS"
    "list_all binding_fits (di_bindings di)" "list_all (image_fits di) (di_image_descriptors di)" "length (di_options di) < GPU_MAX_COMMAND_BYTES"
  obtains p offs payload t where
    "recv_vulkan_dispatch_v5_frame True s = (RecvFrame (so_bytes s) (sent_header di p offs payload) (so_fds s), s\<lparr>so_bytes := [], so_fds := []\<rparr>)"
    "convert_vulkan_dispatch_v5_to_v4_bindings (so_bytes s) (sent_header di p offs payload) (so_fds s) =
      Inr (map sent_binding (di_bindings di), map (sent_image di) (di_image_descriptors di), t)"
    "frame_payload (so_bytes s) (sent_header di p offs payload) = Some (sent_payload di)"
proof (rule sent_frame[OF assms(1)])
  fix p offs payload
  assume nr: "dispatch_refused di = 0" and dp: "dispatch_parts di = Inr p"
    and bytes: "so_bytes s = v5_header_bytes (sent_header di p offs payload) @ v5_objects_bytes (frame_objects di p offs) @ payload"
    and fds: "so_fds s = dispatch_fds di p" and len: "392 + length payload \<le> 0x400000"
    and pl: "placed_all (so_bytes s) offs (sections_of di p)"
  let ?h = "sent_header di p offs payload" and ?f = "so_bytes s"
  note fit = parts_fit_built[OF dp]
  note recv = sent_is_received[OF bytes fds assms(2) nr fit pl len]
  have fl: "length ?f = 392 + length payload" by (simp add: bytes v5_header_bytes_length header_8 v5_objects_bytes_length)
  note ob = sent_objects_at[OF bytes]
  note hv = sent_header_valid[OF nr fit pl fl len] and ov = sent_objects_valid[OF nr fit pl fl len ob]
  have "length ?f \<le> 0x400000" using fl len by simp
  note tb = sent_tables[OF nr fit pl this ob, of payload] and bt = built_tables_checked[OF dp nr assms(3)]
  have minor: "vh_abi_minor ?h = V5_ABI_MINOR_OBJECTS" by (simp add: header_simps)
  let ?t = "frame_tables ?f ?h (so_fds s)"
  have "convert_descriptors True ?t (pa_descriptors p) [] [] = Inr (map sent_binding (di_bindings di), map (sent_image di) (di_image_descriptors di))"
    by (rule descriptors_converted[OF dp nr assms(3,4)]) (simp_all add: tb(1) fds)
  then have "convert_vulkan_dispatch_v5_to_v4_bindings ?f ?h (so_fds s) =
      Inr (map sent_binding (di_bindings di), map (sent_image di) (di_image_descriptors di), ?t)"
    unfolding convert_vulkan_dispatch_v5_to_v4_bindings_def Let_def tb(2) minor
    using accepted_ranges[OF hv ov] bt by (simp add: tb(1) fds)
  with that[OF recv] sent_payload_read[OF nr fit pl assms(5) fl len] show thesis by blast
qed

end
