(* ===== verification/Frame_Theorems.thy ===== *)
theory Frame_Theorems
  imports Frame_Roundtrip
begin

text \<open>
  The properties of a dispatch's way from the client to the executor, each with a dispatch or a frame it holds for.
\<close>

section \<open>A frame that fits is sent\<close>

lemma align_size_8_add: "align_size_8 (align_size_8 n + k) = align_size_8 n + align_size_8 k"
proof -
  have "align_size_8 n + k + 7 = (k + 7) + (n + 7) div 8 * 8" by (simp add: align_size_8_def)
  then have "(align_size_8 n + k + 7) div 8 = (n + 7) div 8 + (k + 7) div 8" by (simp only: div_mult_self1)
  then show ?thesis by (simp add: align_size_8_def distrib_right)
qed

lemma align_size_8_ge: "n \<le> align_size_8 n"
  using div_mult_mod_eq[of "n + 7" 8] mod_less_divisor[of 8 "n + 7"] unfolding align_size_8_def by linarith

lemma append_all_succeeds:
  "align_size_8 (392 + length payload) + sum_list (map (\<lambda>d. align_size_8 (length d)) ds) \<le> capacity \<Longrightarrow>
   append_all capacity ds offs payload \<noteq> None"
proof (induction ds arbitrary: offs payload)
  case (Cons d ds)
  let ?a = "align_size_8 (392 + length payload)"
  let ?p = "payload @ replicate (?a - (392 + length payload)) (CHR 0x00) @ d"
  have le: "392 + length payload \<le> ?a" "length d \<le> align_size_8 (length d)" by (rule align_size_8_ge)+
  have f: "frame_append_bytes capacity payload d = Some (?a, ?p)"
    using Cons.prems le(2) by (simp add: frame_append_bytes_def Let_def)
  have "392 + length ?p = ?a + length d" using le(1) by simp
  then have "align_size_8 (392 + length ?p) = ?a + align_size_8 (length d)" by (simp only: align_size_8_add)
  then have "append_all capacity ds (offs @ [?a]) ?p \<noteq> None" using Cons.prems by (intro Cons.IH) simp
  then show ?case by (simp add: f)
qed simp

lemma send_succeeds:
  assumes "dispatch_refused di = 0" "dispatch_parts di = Inr p" "frame_capacity (sections_of di p) \<le> 0x400000"
  shows "\<exists>s. send_generic_vulkan_dispatch_v5_1_op di = Inr s \<and> so_fds s = dispatch_fds di p"
proof -
  have "append_all (frame_capacity (sections_of di p)) (sections_of di p) [] [] \<noteq> None"
    by (rule append_all_succeeds) (simp add: frame_capacity_def align_size_8_def)
  then obtain offs payload where "append_all (frame_capacity (sections_of di p)) (sections_of di p) [] [] = Some (offs, payload)"
    by fastforce
  then show ?thesis using assms by (simp add: send_generic_vulkan_dispatch_v5_1_op_def Let_def)
qed

lemma frame_capacity_lengths:
  assumes "parts_fit di p"
  shows "frame_capacity (sections_of di p) = 392 + sum_list (map align_size_8
    [72 * (2 * length (di_bindings di) + length (di_images di)), 88 * (length (di_bindings di) + length (di_image_descriptors di)),
     104 * length (di_images di), 72 * length (di_views di), 88 * length (di_samplers di), 16 * length (di_specs di),
     length (di_spec_data di), length (di_push di), length (di_entry di), length (di_options di)]) + 64"
proof -
  have "map (\<lambda>s. align_size_8 (length s)) (sections_of di p) = map align_size_8 (map length (sections_of di p))" by simp
  then show ?thesis unfolding frame_capacity_def section_lengths[OF assms] by simp
qed

section \<open>Dispatches for the witnesses\<close>

text \<open>One buffer of 64 bytes at 4096 in a memory of 65536, bound at its byte 16.\<close>

definition one_buffer :: send_binding where
  "one_buffer =
     \<lparr>sb_fd = 8, sb_set = 0, sb_array_element = 0, sb_binding = 2, sb_offset = 4112, sb_size = 32, sb_api_offset = 16, sb_api_range = 48,
      sb_buffer_size = 64, sb_type = 7, sb_dynamic = 0, sb_dynamic_offset = 0, sb_memory_offset = 4096, sb_memory_size = 65536,
      sb_memory_id = 5, sb_buffer_id = 6\<rparr>"

definition one_image :: vk_image where
  "one_image =
     \<lparr>ic_ptr = 77, ic_memory = Some \<lparr>vkm_ptr = 78, vkm_fd = 9, vkm_size = 4096\<rparr>, ic_mixed = False, ic_memory_offset = 0,
      ic_requirements = 1024, ic_flags = 0, ic_type = 1, ic_format = 37, ic_width = 16, ic_height = 16, ic_depth = 1, ic_mips = 1,
      ic_layers = 1, ic_samples = 1, ic_tiling = 0, ic_usage = 4, ic_sharing = 0, ic_layout = 0, ic_generation = 1\<rparr>"

definition one_sampler :: vk_sampler where
  "one_sampler = \<lparr>sc_ptr = 79, sc_entry = v5_sampler_of (replicate 88 (CHR 0x00))\<rparr>"

definition small_dispatch :: "send_binding list \<Rightarrow> send_image list \<Rightarrow> vk_image option list \<Rightarrow> vk_sampler option list \<Rightarrow> dispatch" where
  "small_dispatch bs is ims ss =
     \<lparr>di_id = 3, di_shader_fd = 7, di_shader_size = 128, di_shader_hash = 1, di_gx = 4, di_gy = 1, di_gz = 1, di_push = ''push'',
      di_push_hash = 0, di_entry = ''main'', di_specs = [(0, 0, 4)], di_spec_data = ''spec'', di_spec_hash = 0, di_options = [],
      di_bindings = bs, di_image_descriptors = is, di_images = ims, di_views = [], di_samplers = ss, di_hash = 0\<rparr>"

definition one_dispatch :: dispatch where
  "one_dispatch = small_dispatch [one_buffer] [\<lparr>si_set = 0, si_binding = 3, si_array_element = 0, si_type = 0, si_view = V5_NONE,
     si_sampler = 0, si_layout = 0\<rparr>] [] [Some one_sampler]"

definition many_images :: dispatch where
  "many_images = small_dispatch [] [\<lparr>si_set = 0, si_binding = 3, si_array_element = 0, si_type = 0, si_view = V5_NONE,
     si_sampler = 0, si_layout = 0\<rparr>] (replicate 24 (Some one_image)) [Some one_sampler]"

lemmas limits = VK_MAX_STORAGE_BUFFERS_def V5_MAX_IMAGES_def V5_MAX_IMAGE_VIEWS_def V5_MAX_SAMPLERS_def V5_MAX_RESOURCES_def
  V5_MAX_DESCRIPTORS_def V5_MAX_FDS_def VK_MAX_SPECIALIZATION_ENTRIES_def VK_MAX_SPECIALIZATION_BYTES_def VK_MAX_PUSH_BYTES_def
  VK_MAX_ENTRY_NAME_def

lemmas small_defs = small_dispatch_def one_dispatch_def many_images_def one_buffer_def one_sampler_def

lemma one_dispatch_fits: "list_all binding_fits (di_bindings one_dispatch)"
    "list_all (image_fits one_dispatch) (di_image_descriptors one_dispatch)" "length (di_options one_dispatch) < GPU_MAX_COMMAND_BYTES"
  by (simp_all add: small_defs binding_fits_def image_fits_def GPU_MAX_COMMAND_BYTES_def)

lemma one_dispatch_sent: "\<exists>s. send_generic_vulkan_dispatch_v5_1_op one_dispatch = Inr s \<and> so_fds s = [7, 8]"
proof -
  have r: "dispatch_refused one_dispatch = 0" by (simp add: dispatch_refused_def small_defs limits)
  obtain p where p: "dispatch_parts one_dispatch = Inr p" "pa_image_fds p = []"
    by (simp add: dispatch_parts_def small_defs transfer_outside_def Let_def descriptor_type_requires_image_view_def
        descriptor_type_requires_sampler_def)
  have "frame_capacity (sections_of one_dispatch p) \<le> 0x400000"
    unfolding frame_capacity_lengths[OF parts_fit_built[OF p(1)]] by (simp add: small_defs align_size_8_def)
  from send_succeeds[OF r p(1) this] show ?thesis by (simp add: dispatch_fds_def p(2)) (simp add: small_defs)
qed

lemma many_images_sent: "\<exists>s. send_generic_vulkan_dispatch_v5_1_op many_images = Inr s \<and> length (so_fds s) = 25"
proof -
  have r: "dispatch_refused many_images = 0" by (simp add: dispatch_refused_def small_defs limits)
  have i: "\<exists>rs es fds. put_images ident ri fi (replicate n (Some one_image)) = Inr (rs, es, fds)" for ident ri fi n
  proof (induction n arbitrary: ri fi)
    case (Suc n)
    obtain rs es fds where "put_images ident (ri + 1) (fi + 1) (replicate n (Some one_image)) = Inr (rs, es, fds)" using Suc.IH by blast
    then show ?case by (simp add: one_image_def)
  qed simp
  obtain rs es fds where "put_images 3 0 1 (replicate 24 (Some one_image)) = Inr (rs, es, fds)" using i by blast
  then obtain p where p: "dispatch_parts many_images = Inr p"
    by (simp add: dispatch_parts_def small_defs descriptor_type_requires_image_view_def descriptor_type_requires_sampler_def)
  note fit = parts_fit_built[OF p]
  have "frame_capacity (sections_of many_images p) \<le> 0x400000"
    unfolding frame_capacity_lengths[OF fit] by (simp add: small_defs align_size_8_def)
  moreover have "length (dispatch_fds many_images p) = 25" unfolding dispatch_fd(1)[OF fit] by (simp add: small_defs)
  ultimately show ?thesis using send_succeeds[OF r p] by metis
qed

section \<open>Properties\<close>

text \<open>
  C11. What a client sends is what the executor reads, for a dispatch that keeps these rules: each buffer binding has
  an open descriptor and one of the four buffer types, its buffer lies inside its memory and its range inside the
  buffer, and its offset and dynamic offset add up without wrapping; each image descriptor has an image type, a view
  only where the type uses one, and view and sampler indices that are in their tables; the option text is shorter than
  4096 bytes. (The sender itself checks the transferred range, not these.) When such a dispatch is sent, with no more
  descriptors than the executor's control buffer holds, it is received whole, and what the executor makes of the frame
  is the dispatch: the buffer bindings, with their place in the memory object and their effective range, the image
  descriptors, the entry point, the push constants, the specialization constants, the options and the sizes of the
  grid. Nothing of the frame is left in the stream.
\<close>

theorem sent_frame_decodes:
  assumes "send_generic_vulkan_dispatch_v5_1_op di = Inr s" "length (so_fds s) \<le> GPU_MAX_PASSED_FDS"
    "list_all binding_fits (di_bindings di)" "list_all (image_fits di) (di_image_descriptors di)"
    "length (di_options di) < GPU_MAX_COMMAND_BYTES"
  shows "\<exists>h t. recv_vulkan_dispatch_v5_frame True s = (RecvFrame (so_bytes s) h (so_fds s), s\<lparr>so_bytes := [], so_fds := []\<rparr>) \<and>
    convert_vulkan_dispatch_v5_to_v4_bindings (so_bytes s) h (so_fds s) =
      Inr (map sent_binding (di_bindings di), map (sent_image di) (di_image_descriptors di), t) \<and>
    frame_payload (so_bytes s) h =
      Some \<lparr>pl_entry = di_entry di, pl_push = di_push di, pl_specs = spec_entries di, pl_spec_data = di_spec_data di,
            pl_options = di_options di\<rparr> \<and>
    so_fds s ! unat (vh_shader_fd_index h) = di_shader_fd di \<and> vh_gx h = di_gx di \<and>
    vh_gy h = (if di_gy di \<noteq> 0 then di_gy di else 1) \<and> vh_gz h = (if di_gz di \<noteq> 0 then di_gz di else 1)"
proof -
  obtain p offs payload t where r:
      "recv_vulkan_dispatch_v5_frame True s = (RecvFrame (so_bytes s) (sent_header di p offs payload) (so_fds s), s\<lparr>so_bytes := [], so_fds := []\<rparr>)"
      "convert_vulkan_dispatch_v5_to_v4_bindings (so_bytes s) (sent_header di p offs payload) (so_fds s) =
        Inr (map sent_binding (di_bindings di), map (sent_image di) (di_image_descriptors di), t)"
      "frame_payload (so_bytes s) (sent_header di p offs payload) = Some (sent_payload di)"
    by (rule sent_frame_read[OF assms])
  have "hd (so_fds s) = di_shader_fd di" "so_fds s \<noteq> []"
    using sent_frame[OF assms(1)] by (metis dispatch_fds_def list.sel(1), metis dispatch_fds_def list.discI)
  then show ?thesis using r
    by (intro exI[of _ "sent_header di p offs payload"] exI[of _ t]) (simp add: header_simps sent_payload_def hd_conv_nth)
qed

lemma sent_frame_decodes_witness:
  "\<exists>s h t. recv_vulkan_dispatch_v5_frame True s = (RecvFrame (so_bytes s) h [7, 8], \<lparr>so_bytes = [], so_fds = []\<rparr>) \<and>
    convert_vulkan_dispatch_v5_to_v4_bindings (so_bytes s) h [7, 8] =
      Inr ([\<lparr>db_set = 0, db_binding = 2, db_array_element = 0, db_offset = 4112, db_size = 32, db_api_offset = 16, db_api_range = 48,
             db_api_buffer_size = 64, db_api_type = 7, db_api_dynamic = False, db_api_memory_offset = 4096,
             db_api_memory_size = 65536, db_api_memory_id = 5, db_api_buffer_id = 6, db_fd = 8\<rparr>],
           map (sent_image one_dispatch) (di_image_descriptors one_dispatch), t) \<and>
    map_option pl_entry (frame_payload (so_bytes s) h) = Some ''main'' \<and> vh_gx h = 4"
proof -
  obtain s where s: "send_generic_vulkan_dispatch_v5_1_op one_dispatch = Inr s" "so_fds s = [7, 8]" using one_dispatch_sent by blast
  have "length (so_fds s) \<le> GPU_MAX_PASSED_FDS" by (simp add: s(2) GPU_MAX_PASSED_FDS_def)
  from sent_frame_decodes[OF s(1) this one_dispatch_fits] obtain h t where
    "recv_vulkan_dispatch_v5_frame True s = (RecvFrame (so_bytes s) h [7, 8], s\<lparr>so_bytes := [], so_fds := []\<rparr>)"
    "convert_vulkan_dispatch_v5_to_v4_bindings (so_bytes s) h [7, 8] =
      Inr (map sent_binding (di_bindings one_dispatch), map (sent_image one_dispatch) (di_image_descriptors one_dispatch), t)"
    "map_option pl_entry (frame_payload (so_bytes s) h) = Some (di_entry one_dispatch)" "vh_gx h = di_gx one_dispatch"
    unfolding s(2) by (elim exE conjE) simp
  moreover have "map sent_binding (di_bindings one_dispatch) =
      [\<lparr>db_set = 0, db_binding = 2, db_array_element = 0, db_offset = 4112, db_size = 32, db_api_offset = 16, db_api_range = 48,
        db_api_buffer_size = 64, db_api_type = 7, db_api_dynamic = False, db_api_memory_offset = 4096,
        db_api_memory_size = 65536, db_api_memory_id = 5, db_api_buffer_id = 6, db_fd = 8\<rparr>]"
    by (simp add: sent_binding_def small_defs)
  moreover have "di_entry one_dispatch = ''main''" "di_gx one_dispatch = 4" by (simp_all add: small_defs)
  moreover have "s\<lparr>so_bytes := [], so_fds := []\<rparr> = \<lparr>so_bytes = [], so_fds = []\<rparr>" by (cases s) simp
  ultimately show ?thesis by (intro exI[of _ s] exI[of _ h] exI[of _ t]) (simp only:)
qed

text \<open>
  C12. Whatever bytes a client sends: every buffer binding the executor makes of an accepted frame has one of the
  descriptors that came with it, and the bytes it may touch lie inside a memory object of the frame with this
  descriptor, counted from the object's place in the file.
\<close>

theorem converted_binding_in_memory:
  assumes "recv_vulkan_dispatch_v5_frame ok s = (RecvFrame frame h fds, s')"
    and "convert_vulkan_dispatch_v5_to_v4_bindings frame h fds = Inr (bs, ims, t)" "b \<in> set bs"
  shows "db_fd b \<in> set fds \<and> 0 \<le> db_fd b \<and>
    (\<exists>m\<in>set (vt_resources (frame_tables frame h fds)).
       vr_resource_type m = RESOURCE_MEMORY \<and> db_fd b = fds ! unat (vr_fd_index m) \<and> db_api_memory_size b = vr_size m \<and>
       unat (vr_external_offset m) + unat (db_api_memory_offset b) \<le> unat (db_offset b) \<and>
       unat (db_offset b) + unat (db_size b) \<le> unat (vr_external_offset m) + unat (vr_size m))"
proof -
  let ?t = "frame_tables frame h fds"
  have fds: "vt_fds ?t = fds" by (simp add: frame_tables_def Let_def)
  note c = converted_frame[OF assms(2)]
  from converted_bindings[OF c(2) assms(3)] obtain d where d: "convert_buffer ?t d = Inr b" by auto
  let ?buf = "vt_resources ?t ! unat (vo_resource_index d)"
  let ?mem = "vt_resources ?t ! unat (vr_parent_resource_index ?buf)"
  note cb = converted_buffer[OF d]
  have "?buf \<in> set (vt_resources ?t)" using cb(1) by simp
  note bm = checked_buffer[OF checked_resource[OF c(1) this] cb(2)]
  from cb(3) have f: "\<not> fd_missing fds (vr_fd_index ?mem)" "db_fd b = fds ! unat (vr_fd_index ?mem)"
      "unat (vo_transfer_offset d) + unat (vo_transfer_size d) \<le> unat (vr_size ?buf)" "db_size b = vo_transfer_size d"
      "unat (db_offset b) = unat (vr_external_offset ?mem) + unat (vr_memory_offset ?buf) + unat (vo_transfer_offset d)"
      "db_api_memory_size b = vr_size ?mem" "db_api_memory_offset b = vr_memory_offset ?buf" by (simp_all add: binding_of_def fds)
  have "?mem \<in> set (vt_resources ?t)" using bm(1) by simp
  moreover have "db_fd b \<in> set fds \<and> 0 \<le> db_fd b" using f(1,2) by (simp add: fd_missing_def not_le not_less)
  ultimately show ?thesis using bm(2,3) f by (intro conjI bexI[of _ ?mem]) simp_all
qed

lemma converted_binding_in_memory_witness:
  "\<exists>s frame h fds s' bs ims t b. recv_vulkan_dispatch_v5_frame True s = (RecvFrame frame h fds, s') \<and>
    convert_vulkan_dispatch_v5_to_v4_bindings frame h fds = Inr (bs, ims, t) \<and> b \<in> set bs \<and> db_fd b \<in> set [7, 8]"
proof -
  obtain s where s: "send_generic_vulkan_dispatch_v5_1_op one_dispatch = Inr s" "so_fds s = [7, 8]" using one_dispatch_sent by blast
  have "length (so_fds s) \<le> GPU_MAX_PASSED_FDS" by (simp add: s(2) GPU_MAX_PASSED_FDS_def)
  then obtain p offs payload t where
      r: "recv_vulkan_dispatch_v5_frame True s = (RecvFrame (so_bytes s) (sent_header one_dispatch p offs payload) (so_fds s), s\<lparr>so_bytes := [], so_fds := []\<rparr>)"
      and c: "convert_vulkan_dispatch_v5_to_v4_bindings (so_bytes s) (sent_header one_dispatch p offs payload) (so_fds s) =
        Inr (map sent_binding (di_bindings one_dispatch), map (sent_image one_dispatch) (di_image_descriptors one_dispatch), t)"
    using sent_frame_read[OF s(1) _ one_dispatch_fits] by metis
  have m: "sent_binding one_buffer \<in> set (map sent_binding (di_bindings one_dispatch))" by (simp add: one_dispatch_def small_dispatch_def)
  from converted_binding_in_memory[OF r c m] have "db_fd (sent_binding one_buffer) \<in> set [7, 8]" by (simp add: s(2))
  then show ?thesis using r c m by blast
qed

text \<open>
  C37. A received frame has the length its header says, at most 4 MiB, comes with at most 24 descriptors, one of
  which is the shader's, and every table and every part the executor reads lies inside the frame.
\<close>

theorem received_frame_in_bounds:
  assumes "recv_vulkan_dispatch_v5_frame ok s = (RecvFrame frame h fds, s')"
  shows "length frame = unat (vh_frame_size h) \<and> length frame \<le> 0x400000 \<and> length fds \<le> 24 \<and>
    unat (vh_shader_fd_index h) < length fds \<and>
    unat (vh_resource_table_offset h) + 72 * unat (vh_resource_count h) \<le> length frame \<and>
    unat (vh_descriptor_table_offset h) + (if vh_abi_minor h = V5_ABI_MINOR then 80 else 88) * unat (vh_descriptor_count h) \<le> length frame \<and>
    unat (vh_specialization_table_offset h) + unat (vh_specialization_table_size h) \<le> length frame \<and>
    unat (vh_specialization_data_offset h) + unat (vh_specialization_data_size h) \<le> length frame \<and>
    unat (vh_push_offset h) + unat (vh_push_size h) \<le> length frame \<and>
    unat (vh_entry_name_offset h) + unat (vh_entry_name_size h) \<le> length frame \<and>
    unat (vh_option_text_offset h) + unat (vh_option_text_size h) \<le> length frame \<and>
    (let x = v5_objects_at frame in
     vh_abi_minor h = V5_ABI_MINOR_OBJECTS \<longrightarrow>
     unat (vx_image_table_offset x) + 104 * unat (vx_image_count x) \<le> length frame \<and>
     unat (vx_image_view_table_offset x) + 72 * unat (vx_image_view_count x) \<le> length frame \<and>
     unat (vx_sampler_table_offset x) + 88 * unat (vx_sampler_count x) \<le> length frame)"
proof -
  note r = received_frame[OF assms]
  note v = valid_header[OF r(1)]
  note sz = v(4)[unfolded v5_entry_sizes_ok_def] v(5)[unfolded v5_table_sizes_ok_def] v(6)[unfolded v5_ranges_ok_def]
  have t: "unat (vh_resource_table_offset h) + unat (vh_resource_entry_size h) * unat (vh_resource_count h) \<le> unat (vh_frame_size h)"
    "unat (vh_descriptor_table_offset h) + unat (vh_descriptor_entry_size h) * unat (vh_descriptor_count h) \<le> unat (vh_frame_size h)"
    using sz(2,3) by (auto intro: table_in_frame)
  have e: "unat (vh_resource_entry_size h) = 72" "unat (vh_descriptor_entry_size h) = (if vh_abi_minor h = V5_ABI_MINOR then 80 else 88)"
    using sz(1) by (simp_all split: if_splits)
  have o: "unat (vx_image_table_offset (v5_objects_at frame)) + 104 * unat (vx_image_count (v5_objects_at frame)) \<le> unat (vh_frame_size h)"
    "unat (vx_image_view_table_offset (v5_objects_at frame)) + 72 * unat (vx_image_view_count (v5_objects_at frame)) \<le> unat (vh_frame_size h)"
    "unat (vx_sampler_table_offset (v5_objects_at frame)) + 88 * unat (vx_sampler_count (v5_objects_at frame)) \<le> unat (vh_frame_size h)"
    if m: "vh_abi_minor h = V5_ABI_MINOR_OBJECTS"
  proof -
    note x = valid_extension[OF r(3) m]
    have n: "unat off + k * unat c \<le> n" if "unat off + unat e * unat c \<le> n" "0 < c \<Longrightarrow> unat e = k" for off :: u64 and c e :: u32 and k n
      using that by (cases "c = 0") (simp_all add: word_neq_0_conv)
    show "unat (vx_image_table_offset (v5_objects_at frame)) + 104 * unat (vx_image_count (v5_objects_at frame)) \<le> unat (vh_frame_size h)"
      by (rule n[OF table_in_frame[OF x(4,1)]]) (simp add: x(7))
    show "unat (vx_image_view_table_offset (v5_objects_at frame)) + 72 * unat (vx_image_view_count (v5_objects_at frame)) \<le> unat (vh_frame_size h)"
      by (rule n[OF table_in_frame[OF x(5,2)]]) (simp add: x(8))
    show "unat (vx_sampler_table_offset (v5_objects_at frame)) + 88 * unat (vx_sampler_count (v5_objects_at frame)) \<le> unat (vh_frame_size h)"
      by (rule n[OF table_in_frame[OF x(6,3)]]) (simp add: x(9))
  qed
  have "unat (vh_shader_fd_index h) < length fds" using v(7,8) by (simp add: word_less_nat_alt)
  moreover have "length fds \<le> 24" using r(4) by (simp add: GPU_MAX_PASSED_FDS_def)
  ultimately show ?thesis using t e o v(1) r(2) sz(3) by (simp add: range_within_nat Let_def)
qed

lemma received_frame_in_bounds_witness:
  "\<exists>s frame h s'. recv_vulkan_dispatch_v5_frame True s = (RecvFrame frame h [7, 8], s') \<and> length frame = unat (vh_frame_size h) \<and>
    unat (vh_shader_fd_index h) < 2"
proof -
  obtain s where s: "send_generic_vulkan_dispatch_v5_1_op one_dispatch = Inr s" "so_fds s = [7, 8]" using one_dispatch_sent by blast
  have "length (so_fds s) \<le> GPU_MAX_PASSED_FDS" by (simp add: s(2) GPU_MAX_PASSED_FDS_def)
  then obtain h where
      r: "recv_vulkan_dispatch_v5_frame True s = (RecvFrame (so_bytes s) h [7, 8], s\<lparr>so_bytes := [], so_fds := []\<rparr>)"
    using sent_frame_read[OF s(1) _ one_dispatch_fits] unfolding s(2) by metis
  from received_frame_in_bounds[OF r] have "length (so_bytes s) = unat (vh_frame_size h)" "unat (vh_shader_fd_index h) < 2" by simp_all
  with r show ?thesis by blast
qed

text \<open>
  The client and the protocol allow 253 descriptors in a frame, the executor receives 24: a dispatch with more is
  refused after its header, with everything behind the header still in the stream, where the executor then takes it for
  a text command.
\<close>

theorem many_fds_refused:
  assumes "send_generic_vulkan_dispatch_v5_1_op di = Inr s" "GPU_MAX_PASSED_FDS < length (so_fds s)"
  shows "recv_vulkan_dispatch_v5_frame ok s = (RecvError (- EBADF), \<lparr>so_bytes = drop 288 (so_bytes s), so_fds = []\<rparr>) \<and>
    104 \<le> length (drop 288 (so_bytes s)) \<and>
    \<not> connection_starts_with_v5_magic \<lparr>so_bytes = drop 288 (so_bytes s), so_fds = []\<rparr>"
proof (rule sent_frame[OF assms(1)])
  fix p offs payload
  assume nr: "dispatch_refused di = 0" and dp: "dispatch_parts di = Inr p"
    and bytes: "so_bytes s = v5_header_bytes (sent_header di p offs payload) @ v5_objects_bytes (frame_objects di p offs) @ payload"
    and fds: "so_fds s = dispatch_fds di p" and len: "392 + length payload \<le> 0x400000"
    and pl: "placed_all (so_bytes s) offs (sections_of di p)"
  let ?h = "sent_header di p offs payload" and ?x = "v5_objects_bytes (frame_objects di p offs)"
  have hl: "length (v5_header_bytes ?h) = 288" by (simp add: v5_header_bytes_length header_8)
  have fl: "length (so_bytes s) = 392 + length payload" by (simp add: bytes hl v5_objects_bytes_length)
  have "v5_header_of (v5_header_bytes ?h) = ?h" using v5_header_of_bytes[OF header_8, where bs = "[]"] by (simp only: append_Nil2)
  moreover have "v5_header_bytes ?h \<noteq> []" using hl by (metis list.size(3) zero_neq_numeral)
  ultimately have r: "recv_vulkan_dispatch_v5_header_with_fds s =
      (validate_vulkan_dispatch_v5_header ?h 24, ?h, take 24 (so_fds s), s\<lparr>so_bytes := ?x @ payload, so_fds := []\<rparr>)"
    using assms(2) unfolding recv_vulkan_dispatch_v5_header_with_fds_def Let_def by (simp add: bytes hl GPU_MAX_PASSED_FDS_def)
  note fit = parts_fit_built[OF dp]
  have ok: "validate_vulkan_dispatch_v5_header ?h (length (dispatch_fds di p)) = 0"
    by (rule sent_header_valid[OF nr fit pl fl len])
  have "unat (vh_fd_count ?h) \<noteq> 24" using valid_header(7)[OF ok] assms(2) fds by (simp add: GPU_MAX_PASSED_FDS_def)
  moreover have "vh_header_size ?h = 392" "vh_abi_minor ?h = V5_ABI_MINOR_OBJECTS" by (simp_all add: header_simps)
  ultimately have v: "validate_vulkan_dispatch_v5_header ?h 24 = - EBADF"
    using ok unfolding validate_vulkan_dispatch_v5_header_def by (simp split: if_splits)
  have "recv_vulkan_dispatch_v5_frame ok s = (RecvError (- EBADF), s\<lparr>so_bytes := ?x @ payload, so_fds := []\<rparr>)"
    unfolding recv_vulkan_dispatch_v5_frame_def r v prod.case Let_def by simp
  moreover have d: "drop 288 (so_bytes s) = ?x @ payload" by (simp add: bytes hl)
  moreover have "s\<lparr>so_bytes := ?x @ payload, so_fds := []\<rparr> = \<lparr>so_bytes = ?x @ payload, so_fds = []\<rparr>" by (cases s) simp
  moreover have "(?x @ payload) ! 4 = CHR 0x68"
    by (simp add: v5_objects_bytes_def frame_objects_def Let_def nth_append) code_simp
  then have "\<not> connection_starts_with_v5_magic \<lparr>so_bytes = ?x @ payload, so_fds = []\<rparr>"
    unfolding connection_starts_with_v5_magic_def V5_MAGIC_def sock.select_convs
    using nth_take[of 4 8 "?x @ payload"] by fastforce
  moreover have "104 \<le> length (?x @ payload)" by (simp add: v5_objects_bytes_length)
  ultimately show ?thesis by (simp only: simp_thms)
qed

lemma many_fds_refused_witness:
  "\<exists>s. send_generic_vulkan_dispatch_v5_1_op many_images = Inr s \<and> fst (recv_vulkan_dispatch_v5_frame True s) = RecvError (- EBADF) \<and>
    drop 288 (so_bytes s) \<noteq> []"
proof -
  obtain s where s: "send_generic_vulkan_dispatch_v5_1_op many_images = Inr s" "length (so_fds s) = 25" using many_images_sent by blast
  then have "GPU_MAX_PASSED_FDS < length (so_fds s)" by (simp add: GPU_MAX_PASSED_FDS_def)
  from many_fds_refused[OF s(1) this, of True] have "fst (recv_vulkan_dispatch_v5_frame True s) = RecvError (- EBADF)"
    "drop 288 (so_bytes s) \<noteq> []" by auto
  with s(1) show ?thesis by blast
qed

text \<open>The strict contract over the integers.\<close>

definition strict_binding :: "binding \<Rightarrow> bool" where
  "strict_binding b \<longleftrightarrow>
     db_api_memory_id b \<noteq> 0 \<and> db_api_buffer_id b \<noteq> 0 \<and> 0 < unat (db_api_range b) \<and>
     unat (db_offset b) < 2 ^ 63 \<and> unat (db_api_memory_offset b) < 2 ^ 63 \<and> unat (db_api_offset b) < 2 ^ 63 \<and>
     unat (db_size b) \<le> unat (db_api_range b) \<and>
     unat (db_api_offset b) + unat (db_api_range b) \<le> unat (db_api_buffer_size b) \<and>
     unat (db_api_memory_offset b) + unat (db_api_buffer_size b) \<le> unat (db_api_memory_size b) \<and>
     unat (db_offset b) = unat (db_api_memory_offset b) + unat (db_api_offset b)"

lemma sless_zero: "(x :: u64) <s 0 \<longleftrightarrow> \<not> unat x < 2 ^ 63"
proof -
  have "x <s 0 \<longleftrightarrow> bit x 63"
    by (simp add: word_sless_alt sint_uint signed_take_bit_negative_iff bit_uint_iff)
  also have "\<dots> \<longleftrightarrow> bit (unat x) 63" by (simp add: bit_unsigned_iff)
  also have "\<dots> \<longleftrightarrow> odd (unat x div 2 ^ 63)" by (simp only: bit_iff_odd)
  also have "\<dots> \<longleftrightarrow> \<not> unat x < 2 ^ 63"
  proof (cases "unat x < 2 ^ 63")
    case False
    then have "unat x div 2 ^ 63 = 1" using unat_lt64[of x] by (intro div_nat_eqI) simp_all
    with False show ?thesis by simp
  qed simp
  finally show ?thesis .
qed

lemma add_nat: "unat a + unat b < 2 ^ 64 \<Longrightarrow> unat (a + b) = unat a + unat b" for a :: u64
  by (simp add: unat_word_ariths take_bit_nat_eq_self)

lemma strict_fault: "strict_binding_fault b = None \<longleftrightarrow> strict_binding b"
proof -
  have d: "\<not> (x < y \<or> x - y < z) \<longleftrightarrow> unat y + unat z \<le> unat x" for x y z :: u64
    using fits_word[of y z x] sub_le_nat[of x y z] by auto
  have w: "UINT64_MAX - x < y \<longleftrightarrow> \<not> unat x + unat y < 2 ^ 64" for x y :: u64
    using unat_lt64[of x] by (simp add: word_less_nat_alt unat_sub_if') linarith
  have e: "db_offset b = db_api_memory_offset b + db_api_offset b \<longleftrightarrow>
      unat (db_offset b) = unat (db_api_memory_offset b) + unat (db_api_offset b)"
    if "unat (db_api_offset b) + unat (db_api_memory_offset b) < 2 ^ 64"
    using that by (simp add: word_unat_eq_iff add_nat)
  have "strict_binding_fault b = None \<longleftrightarrow>
      \<not> db_offset b <s 0 \<and> db_api_memory_id b \<noteq> 0 \<and> db_api_buffer_id b \<noteq> 0 \<and> db_api_buffer_size b \<noteq> 0 \<and> db_api_memory_size b \<noteq> 0 \<and>
      \<not> db_api_memory_offset b <s 0 \<and> \<not> db_api_offset b <s 0 \<and>
      \<not> (db_api_buffer_size b < db_api_offset b \<or> db_api_buffer_size b - db_api_offset b < db_size b) \<and>
      db_api_range b \<noteq> 0 \<and> \<not> db_api_buffer_size b - db_api_offset b < db_api_range b \<and> \<not> db_api_range b < db_size b \<and>
      \<not> (db_api_memory_size b < db_api_memory_offset b \<or> db_api_memory_size b - db_api_memory_offset b < db_api_buffer_size b) \<and>
      \<not> UINT64_MAX - db_api_offset b < db_api_memory_offset b \<and> db_offset b = db_api_memory_offset b + db_api_offset b"
    unfolding strict_binding_fault_def by (simp split: if_split)
  also have "\<dots> \<longleftrightarrow>
      \<not> db_offset b <s 0 \<and> db_api_memory_id b \<noteq> 0 \<and> db_api_buffer_id b \<noteq> 0 \<and> db_api_buffer_size b \<noteq> 0 \<and> db_api_memory_size b \<noteq> 0 \<and>
      \<not> db_api_memory_offset b <s 0 \<and> \<not> db_api_offset b <s 0 \<and>
      \<not> (db_api_buffer_size b < db_api_offset b \<or> db_api_buffer_size b - db_api_offset b < db_size b) \<and>
      db_api_range b \<noteq> 0 \<and> \<not> (db_api_buffer_size b < db_api_offset b \<or> db_api_buffer_size b - db_api_offset b < db_api_range b) \<and>
      \<not> db_api_range b < db_size b \<and>
      \<not> (db_api_memory_size b < db_api_memory_offset b \<or> db_api_memory_size b - db_api_memory_offset b < db_api_buffer_size b) \<and>
      \<not> UINT64_MAX - db_api_offset b < db_api_memory_offset b \<and> db_offset b = db_api_memory_offset b + db_api_offset b"
    by blast
  also have "\<dots> \<longleftrightarrow> strict_binding b" (is "?l \<longleftrightarrow> _")
  proof
    assume l: ?l
    note n = l[unfolded d w sless_zero]
    then have f: "unat (db_api_offset b) + unat (db_api_memory_offset b) < 2 ^ 64"
      "unat (db_api_offset b) + unat (db_api_range b) \<le> unat (db_api_buffer_size b)"
      "unat (db_api_memory_offset b) + unat (db_api_buffer_size b) \<le> unat (db_api_memory_size b)"
      "unat (db_offset b) < 2 ^ 63" "unat (db_api_memory_offset b) < 2 ^ 63" "unat (db_api_offset b) < 2 ^ 63"
      "\<not> db_api_range b < db_size b" "db_api_range b \<noteq> 0" by blast+
    then have "unat (db_size b) \<le> unat (db_api_range b)" "0 < unat (db_api_range b)"
      by (simp_all add: word_less_nat_alt unat_gt_0 not_less)
    moreover from n e[OF f(1)] have "unat (db_offset b) = unat (db_api_memory_offset b) + unat (db_api_offset b)" by blast
    ultimately show "strict_binding b" unfolding strict_binding_def using f n by blast
  next
    assume s: "strict_binding b"
    note f = s[unfolded strict_binding_def]
    from f have g: "unat (db_api_offset b) + unat (db_api_memory_offset b) < 2 ^ 64" by simp
    with f e[OF g] have o: "db_offset b = db_api_memory_offset b + db_api_offset b" by blast
    have "unat (db_api_offset b) + unat (db_size b) \<le> unat (db_api_buffer_size b)" "db_api_range b \<noteq> 0" "db_api_buffer_size b \<noteq> 0"
      "db_api_memory_size b \<noteq> 0" using f by (auto simp: unat_gt_0[symmetric] simp del: unat_gt_0)
    moreover have "\<not> db_api_range b < db_size b" using f by (simp add: word_less_nat_alt)
    ultimately show ?l unfolding d w sless_zero using f g o by blast
  qed
  finally show ?thesis .
qed

text \<open>
  The strict contract of the bindings, written with differences so that no sum wraps around, is the contract over
  the integers: the offsets are not negative, the identities are there, the range lies in the buffer and covers the
  transfer, the buffer lies in the memory, and the place in the file is the place in the memory.
\<close>

theorem strict_contract_exact:
  "validate_strict_vulkan_binding_contract bs i = None \<longleftrightarrow> list_all strict_binding bs"
proof (induction bs i rule: validate_strict_vulkan_binding_contract.induct)
  case (2 b bs i)
  then show ?case using strict_fault[of b] by (cases "strict_binding_fault b") simp_all
qed simp

end
