(* ===== verification/Graphics_Layout.thy ===== *)
theory Graphics_Layout
  imports Frame_Check
begin

text \<open>
  The structures of the graphics frames (\<open>VULKAN_GRAPHICS_V6\<close>, \<open>pdocker_gpu_abi.h\<close>) and how the bytes of a frame are
  read as them: the entries of the tables, the header, and the tables that each of the versions 6.0 to 6.20 adds to it.
  Offsets include the padding of the C layout; a signed field is the word with its bits.
\<close>

section \<open>Entries\<close>

record g_stage =
  gst_stage_flags :: u32
  gst_shader_fd_index :: u32
  gst_shader_size :: u64
  gst_shader_hash :: u64
  gst_entry_name_offset :: u64
  gst_entry_name_size :: u64
  gst_specialization_offset :: u64
  gst_specialization_size :: u64
  gst_specialization_hash :: u64

definition g_stage_of :: "string \<Rightarrow> g_stage" where
  "g_stage_of bs =
     \<lparr>gst_stage_flags = field 0 4 bs, gst_shader_fd_index = field 4 4 bs, gst_shader_size = field 8 8 bs,
      gst_shader_hash = field 16 8 bs, gst_entry_name_offset = field 24 8 bs, gst_entry_name_size = field 32 8 bs,
      gst_specialization_offset = field 40 8 bs, gst_specialization_size = field 48 8 bs,
      gst_specialization_hash = field 56 8 bs\<rparr>"

record g_pipeline =
  gpl_pipeline_id :: u64
  gpl_layout_id :: u64
  gpl_render_pass_id :: u64
  gpl_shader_stage_first :: u32
  gpl_shader_stage_count :: u32
  gpl_vertex_binding_first :: u32
  gpl_vertex_binding_count :: u32
  gpl_vertex_attribute_first :: u32
  gpl_vertex_attribute_count :: u32
  gpl_topology :: u32
  gpl_polygon_mode :: u32
  gpl_cull_mode :: u32
  gpl_front_face :: u32
  gpl_rasterization_samples :: u32
  gpl_color_attachment_count :: u32
  gpl_subpass :: u32
  gpl_depth_stencil_flags :: u32
  gpl_dynamic_rendering_view_mask :: u32
  gpl_dynamic_rendering_depth_format :: u32
  gpl_dynamic_rendering_stencil_format :: u32
  gpl_color_attachment_format0 :: u32
  gpl_color_attachment_format1 :: u32
  gpl_color_attachment_format2 :: u32
  gpl_color_attachment_format3 :: u32
  gpl_color_attachment_format4 :: u32
  gpl_color_attachment_format5 :: u32
  gpl_color_attachment_format6 :: u32
  gpl_color_attachment_format7 :: u32
  gpl_color_attachment_format8 :: u32
  gpl_color_attachment_format9 :: u32
  gpl_color_attachment_format10 :: u32
  gpl_color_attachment_format11 :: u32
  gpl_color_attachment_format12 :: u32
  gpl_color_attachment_format13 :: u32
  gpl_color_attachment_format14 :: u32
  gpl_color_attachment_format15 :: u32
  gpl_dynamic_state_mask :: u64
  gpl_pipeline_hash :: u64

definition g_pipeline_of :: "string \<Rightarrow> g_pipeline" where
  "g_pipeline_of bs =
     \<lparr>gpl_pipeline_id = field 0 8 bs, gpl_layout_id = field 8 8 bs, gpl_render_pass_id = field 16 8 bs,
      gpl_shader_stage_first = field 24 4 bs, gpl_shader_stage_count = field 28 4 bs,
      gpl_vertex_binding_first = field 32 4 bs, gpl_vertex_binding_count = field 36 4 bs,
      gpl_vertex_attribute_first = field 40 4 bs, gpl_vertex_attribute_count = field 44 4 bs, gpl_topology = field 48 4 bs,
      gpl_polygon_mode = field 52 4 bs, gpl_cull_mode = field 56 4 bs, gpl_front_face = field 60 4 bs,
      gpl_rasterization_samples = field 64 4 bs, gpl_color_attachment_count = field 68 4 bs, gpl_subpass = field 72 4 bs,
      gpl_depth_stencil_flags = field 76 4 bs, gpl_dynamic_rendering_view_mask = field 80 4 bs,
      gpl_dynamic_rendering_depth_format = field 84 4 bs, gpl_dynamic_rendering_stencil_format = field 88 4 bs,
      gpl_color_attachment_format0 = field 92 4 bs, gpl_color_attachment_format1 = field 96 4 bs,
      gpl_color_attachment_format2 = field 100 4 bs, gpl_color_attachment_format3 = field 104 4 bs,
      gpl_color_attachment_format4 = field 108 4 bs, gpl_color_attachment_format5 = field 112 4 bs,
      gpl_color_attachment_format6 = field 116 4 bs, gpl_color_attachment_format7 = field 120 4 bs,
      gpl_color_attachment_format8 = field 124 4 bs, gpl_color_attachment_format9 = field 128 4 bs,
      gpl_color_attachment_format10 = field 132 4 bs, gpl_color_attachment_format11 = field 136 4 bs,
      gpl_color_attachment_format12 = field 140 4 bs, gpl_color_attachment_format13 = field 144 4 bs,
      gpl_color_attachment_format14 = field 148 4 bs, gpl_color_attachment_format15 = field 152 4 bs,
      gpl_dynamic_state_mask = field 160 8 bs, gpl_pipeline_hash = field 168 8 bs\<rparr>"

record g_vertex_binding =
  gvb_binding :: u32
  gvb_stride :: u32
  gvb_input_rate :: u32
  gvb_buffer_resource_index :: u32
  gvb_offset :: u64
  gvb_size :: u64

definition g_vertex_binding_of :: "string \<Rightarrow> g_vertex_binding" where
  "g_vertex_binding_of bs =
     \<lparr>gvb_binding = field 0 4 bs, gvb_stride = field 4 4 bs, gvb_input_rate = field 8 4 bs,
      gvb_buffer_resource_index = field 12 4 bs, gvb_offset = field 16 8 bs, gvb_size = field 24 8 bs\<rparr>"

record g_vertex_attribute =
  gva_location :: u32
  gva_binding :: u32
  gva_format :: u32
  gva_offset :: u32

definition g_vertex_attribute_of :: "string \<Rightarrow> g_vertex_attribute" where
  "g_vertex_attribute_of bs =
     \<lparr>gva_location = field 0 4 bs, gva_binding = field 4 4 bs, gva_format = field 8 4 bs, gva_offset = field 12 4 bs\<rparr>"

record g_attachment =
  gat_attachment_role :: u32
  gat_flags :: u32
  gat_image_view_index :: u32
  gat_resolve_image_view_index :: u32
  gat_format :: u32
  gat_samples :: u32
  gat_layout :: u32
  gat_load_op :: u32
  gat_store_op :: u32
  gat_stencil_load_op :: u32
  gat_stencil_store_op :: u32
  gat_clear_value_offset :: u64
  gat_clear_value_size :: u64
  gat_resource_id :: u64

definition g_attachment_of :: "string \<Rightarrow> g_attachment" where
  "g_attachment_of bs =
     \<lparr>gat_attachment_role = field 0 4 bs, gat_flags = field 4 4 bs, gat_image_view_index = field 8 4 bs,
      gat_resolve_image_view_index = field 12 4 bs, gat_format = field 16 4 bs, gat_samples = field 20 4 bs,
      gat_layout = field 24 4 bs, gat_load_op = field 28 4 bs, gat_store_op = field 32 4 bs,
      gat_stencil_load_op = field 36 4 bs, gat_stencil_store_op = field 40 4 bs, gat_clear_value_offset = field 48 8 bs,
      gat_clear_value_size = field 56 8 bs, gat_resource_id = field 64 8 bs\<rparr>"

record g_dynamic_state =
  gds_state_type :: u32
  gds_flags :: u32
  gds_first_index :: u32
  gds_count :: u32
  gds_data_offset :: u64
  gds_data_size :: u64
  gds_data_hash :: u64

definition g_dynamic_state_of :: "string \<Rightarrow> g_dynamic_state" where
  "g_dynamic_state_of bs =
     \<lparr>gds_state_type = field 0 4 bs, gds_flags = field 4 4 bs, gds_first_index = field 8 4 bs, gds_count = field 12 4 bs,
      gds_data_offset = field 16 8 bs, gds_data_size = field 24 8 bs, gds_data_hash = field 32 8 bs\<rparr>"

record g_command =
  gcm_command_type :: u32
  gcm_flags :: u32
  gcm_pipeline_index :: u32
  gcm_first_descriptor :: u32
  gcm_descriptor_count :: u32
  gcm_descriptor_first_set :: u32
  gcm_first_dynamic_offset :: u32
  gcm_dynamic_offset_count :: u32
  gcm_vertex_binding_first :: u32
  gcm_vertex_binding_count :: u32
  gcm_index_buffer_resource_index :: u32
  gcm_index_type :: u32
  gcm_first_vertex :: u32
  gcm_vertex_count :: u32
  gcm_first_index :: u32
  gcm_index_count :: u32
  gcm_vertex_offset :: u32
  gcm_first_instance :: u32
  gcm_instance_count :: u32
  gcm_attachment_first :: u32
  gcm_attachment_count :: u32
  gcm_render_area_offset_x :: u32
  gcm_render_area_offset_y :: u32
  gcm_render_area_extent_width :: u32
  gcm_render_area_extent_height :: u32
  gcm_rendering_layer_count :: u32
  gcm_rendering_view_mask :: u32
  gcm_dynamic_state_first :: u32
  gcm_dynamic_state_count :: u32
  gcm_index_offset :: u64
  gcm_push_offset :: u64
  gcm_push_size :: u64
  gcm_push_hash :: u64
  gcm_pipeline_layout_id :: u64

definition g_command_of :: "string \<Rightarrow> g_command" where
  "g_command_of bs =
     \<lparr>gcm_command_type = field 0 4 bs, gcm_flags = field 4 4 bs, gcm_pipeline_index = field 8 4 bs,
      gcm_first_descriptor = field 12 4 bs, gcm_descriptor_count = field 16 4 bs, gcm_descriptor_first_set = field 20 4 bs,
      gcm_first_dynamic_offset = field 24 4 bs, gcm_dynamic_offset_count = field 28 4 bs,
      gcm_vertex_binding_first = field 32 4 bs, gcm_vertex_binding_count = field 36 4 bs,
      gcm_index_buffer_resource_index = field 40 4 bs, gcm_index_type = field 44 4 bs, gcm_first_vertex = field 48 4 bs,
      gcm_vertex_count = field 52 4 bs, gcm_first_index = field 56 4 bs, gcm_index_count = field 60 4 bs,
      gcm_vertex_offset = field 64 4 bs, gcm_first_instance = field 68 4 bs, gcm_instance_count = field 72 4 bs,
      gcm_attachment_first = field 76 4 bs, gcm_attachment_count = field 80 4 bs, gcm_render_area_offset_x = field 84 4 bs,
      gcm_render_area_offset_y = field 88 4 bs, gcm_render_area_extent_width = field 92 4 bs,
      gcm_render_area_extent_height = field 96 4 bs, gcm_rendering_layer_count = field 100 4 bs,
      gcm_rendering_view_mask = field 104 4 bs, gcm_dynamic_state_first = field 108 4 bs,
      gcm_dynamic_state_count = field 112 4 bs, gcm_index_offset = field 120 8 bs, gcm_push_offset = field 128 8 bs,
      gcm_push_size = field 136 8 bs, gcm_push_hash = field 144 8 bs, gcm_pipeline_layout_id = field 152 8 bs\<rparr>"

record g_dynamic_offset =
  gdo_offset :: u32
  gdo_reserved0 :: u32

definition g_dynamic_offset_of :: "string \<Rightarrow> g_dynamic_offset" where
  "g_dynamic_offset_of bs =
     \<lparr>gdo_offset = field 0 4 bs, gdo_reserved0 = field 4 4 bs\<rparr>"

record g_push_metadata =
  gpm_command_index :: u32
  gpm_stage_flags :: u32
  gpm_layout_id :: u64
  gpm_range_offset :: u32
  gpm_range_size :: u32

definition g_push_metadata_of :: "string \<Rightarrow> g_push_metadata" where
  "g_push_metadata_of bs =
     \<lparr>gpm_command_index = field 0 4 bs, gpm_stage_flags = field 4 4 bs, gpm_layout_id = field 8 8 bs,
      gpm_range_offset = field 16 4 bs, gpm_range_size = field 20 4 bs\<rparr>"

record g_image_barrier =
  gib_command_index :: u32
  gib_image_index :: u32
  gib_old_layout :: u32
  gib_new_layout :: u32
  gib_aspect_mask :: u32
  gib_base_mip_level :: u32
  gib_level_count :: u32
  gib_base_array_layer :: u32
  gib_layer_count :: u32
  gib_src_access_mask :: u64
  gib_dst_access_mask :: u64
  gib_src_stage_mask :: u64
  gib_dst_stage_mask :: u64
  gib_src_queue_family_index :: u32
  gib_dst_queue_family_index :: u32
  gib_reserved0 :: u32

definition g_image_barrier_of :: "string \<Rightarrow> g_image_barrier" where
  "g_image_barrier_of bs =
     \<lparr>gib_command_index = field 0 4 bs, gib_image_index = field 4 4 bs, gib_old_layout = field 8 4 bs,
      gib_new_layout = field 12 4 bs, gib_aspect_mask = field 16 4 bs, gib_base_mip_level = field 20 4 bs,
      gib_level_count = field 24 4 bs, gib_base_array_layer = field 28 4 bs, gib_layer_count = field 32 4 bs,
      gib_src_access_mask = field 40 8 bs, gib_dst_access_mask = field 48 8 bs, gib_src_stage_mask = field 56 8 bs,
      gib_dst_stage_mask = field 64 8 bs, gib_src_queue_family_index = field 72 4 bs,
      gib_dst_queue_family_index = field 76 4 bs, gib_reserved0 = field 80 4 bs\<rparr>"

record g_memory_barrier =
  gmb_command_index :: u32
  gmb_reserved0 :: u32
  gmb_src_access_mask :: u64
  gmb_dst_access_mask :: u64
  gmb_src_stage_mask :: u64
  gmb_dst_stage_mask :: u64

definition g_memory_barrier_of :: "string \<Rightarrow> g_memory_barrier" where
  "g_memory_barrier_of bs =
     \<lparr>gmb_command_index = field 0 4 bs, gmb_reserved0 = field 4 4 bs, gmb_src_access_mask = field 8 8 bs,
      gmb_dst_access_mask = field 16 8 bs, gmb_src_stage_mask = field 24 8 bs, gmb_dst_stage_mask = field 32 8 bs\<rparr>"

record g_buffer_barrier =
  gbb_command_index :: u32
  gbb_resource_index :: u32
  gbb_offset :: u64
  gbb_size :: u64
  gbb_src_access_mask :: u64
  gbb_dst_access_mask :: u64
  gbb_src_stage_mask :: u64
  gbb_dst_stage_mask :: u64
  gbb_src_queue_family_index :: u32
  gbb_dst_queue_family_index :: u32
  gbb_reserved0 :: u32
  gbb_reserved1 :: u32

definition g_buffer_barrier_of :: "string \<Rightarrow> g_buffer_barrier" where
  "g_buffer_barrier_of bs =
     \<lparr>gbb_command_index = field 0 4 bs, gbb_resource_index = field 4 4 bs, gbb_offset = field 8 8 bs,
      gbb_size = field 16 8 bs, gbb_src_access_mask = field 24 8 bs, gbb_dst_access_mask = field 32 8 bs,
      gbb_src_stage_mask = field 40 8 bs, gbb_dst_stage_mask = field 48 8 bs, gbb_src_queue_family_index = field 56 4 bs,
      gbb_dst_queue_family_index = field 60 4 bs, gbb_reserved0 = field 64 4 bs, gbb_reserved1 = field 68 4 bs\<rparr>"

record g_specialization =
  gse_shader_stage_index :: u32
  gse_constant_id :: u32
  gse_offset :: u32
  gse_reserved0 :: u32
  gse_size :: u64

definition g_specialization_of :: "string \<Rightarrow> g_specialization" where
  "g_specialization_of bs =
     \<lparr>gse_shader_stage_index = field 0 4 bs, gse_constant_id = field 4 4 bs, gse_offset = field 8 4 bs,
      gse_reserved0 = field 12 4 bs, gse_size = field 16 8 bs\<rparr>"

record g_depth_stencil =
  gdp_pipeline_index :: u32
  gdp_flags :: u32
  gdp_depth_compare_op :: u32
  gdp_front_fail_op :: u32
  gdp_front_pass_op :: u32
  gdp_front_depth_fail_op :: u32
  gdp_front_compare_op :: u32
  gdp_front_compare_mask :: u32
  gdp_front_write_mask :: u32
  gdp_front_reference :: u32
  gdp_back_fail_op :: u32
  gdp_back_pass_op :: u32
  gdp_back_depth_fail_op :: u32
  gdp_back_compare_op :: u32
  gdp_back_compare_mask :: u32
  gdp_back_write_mask :: u32
  gdp_back_reference :: u32
  gdp_min_depth_bounds_bits :: u32
  gdp_max_depth_bounds_bits :: u32
  gdp_reserved0 :: u32

definition g_depth_stencil_of :: "string \<Rightarrow> g_depth_stencil" where
  "g_depth_stencil_of bs =
     \<lparr>gdp_pipeline_index = field 0 4 bs, gdp_flags = field 4 4 bs, gdp_depth_compare_op = field 8 4 bs,
      gdp_front_fail_op = field 12 4 bs, gdp_front_pass_op = field 16 4 bs, gdp_front_depth_fail_op = field 20 4 bs,
      gdp_front_compare_op = field 24 4 bs, gdp_front_compare_mask = field 28 4 bs, gdp_front_write_mask = field 32 4 bs,
      gdp_front_reference = field 36 4 bs, gdp_back_fail_op = field 40 4 bs, gdp_back_pass_op = field 44 4 bs,
      gdp_back_depth_fail_op = field 48 4 bs, gdp_back_compare_op = field 52 4 bs, gdp_back_compare_mask = field 56 4 bs,
      gdp_back_write_mask = field 60 4 bs, gdp_back_reference = field 64 4 bs, gdp_min_depth_bounds_bits = field 68 4 bs,
      gdp_max_depth_bounds_bits = field 72 4 bs, gdp_reserved0 = field 76 4 bs\<rparr>"

record g_resolve_attachment =
  gra_attachment_index :: u32
  gra_resolve_mode :: u32
  gra_resolve_layout :: u32
  gra_reserved0 :: u32

definition g_resolve_attachment_of :: "string \<Rightarrow> g_resolve_attachment" where
  "g_resolve_attachment_of bs =
     \<lparr>gra_attachment_index = field 0 4 bs, gra_resolve_mode = field 4 4 bs, gra_resolve_layout = field 8 4 bs,
      gra_reserved0 = field 12 4 bs\<rparr>"

record g_static_state =
  gss_pipeline_index :: u32
  gss_flags :: u32
  gss_depth_bias_constant_factor_bits :: u32
  gss_depth_bias_clamp_bits :: u32
  gss_depth_bias_slope_factor_bits :: u32
  gss_line_width_bits :: u32
  gss_reserved0 :: u32
  gss_reserved1 :: u32

definition g_static_state_of :: "string \<Rightarrow> g_static_state" where
  "g_static_state_of bs =
     \<lparr>gss_pipeline_index = field 0 4 bs, gss_flags = field 4 4 bs, gss_depth_bias_constant_factor_bits = field 8 4 bs,
      gss_depth_bias_clamp_bits = field 12 4 bs, gss_depth_bias_slope_factor_bits = field 16 4 bs,
      gss_line_width_bits = field 20 4 bs, gss_reserved0 = field 24 4 bs, gss_reserved1 = field 28 4 bs\<rparr>"

record g_blend_state =
  gbs_pipeline_index :: u32
  gbs_flags :: u32
  gbs_logic_op :: u32
  gbs_attachment_first :: u32
  gbs_attachment_count :: u32
  gbs_blend_constant0_bits :: u32
  gbs_blend_constant1_bits :: u32
  gbs_blend_constant2_bits :: u32
  gbs_blend_constant3_bits :: u32
  gbs_reserved0 :: u32

definition g_blend_state_of :: "string \<Rightarrow> g_blend_state" where
  "g_blend_state_of bs =
     \<lparr>gbs_pipeline_index = field 0 4 bs, gbs_flags = field 4 4 bs, gbs_logic_op = field 8 4 bs,
      gbs_attachment_first = field 12 4 bs, gbs_attachment_count = field 16 4 bs, gbs_blend_constant0_bits = field 20 4 bs,
      gbs_blend_constant1_bits = field 24 4 bs, gbs_blend_constant2_bits = field 28 4 bs,
      gbs_blend_constant3_bits = field 32 4 bs, gbs_reserved0 = field 36 4 bs\<rparr>"

record g_blend_attachment =
  gba_pipeline_index :: u32
  gba_attachment_index :: u32
  gba_flags :: u32
  gba_src_color_blend_factor :: u32
  gba_dst_color_blend_factor :: u32
  gba_color_blend_op :: u32
  gba_src_alpha_blend_factor :: u32
  gba_dst_alpha_blend_factor :: u32
  gba_alpha_blend_op :: u32
  gba_color_write_mask :: u32

definition g_blend_attachment_of :: "string \<Rightarrow> g_blend_attachment" where
  "g_blend_attachment_of bs =
     \<lparr>gba_pipeline_index = field 0 4 bs, gba_attachment_index = field 4 4 bs, gba_flags = field 8 4 bs,
      gba_src_color_blend_factor = field 12 4 bs, gba_dst_color_blend_factor = field 16 4 bs,
      gba_color_blend_op = field 20 4 bs, gba_src_alpha_blend_factor = field 24 4 bs,
      gba_dst_alpha_blend_factor = field 28 4 bs, gba_alpha_blend_op = field 32 4 bs, gba_color_write_mask = field 36 4 bs\<rparr>"

record g_viewport_state =
  gvs_pipeline_index :: u32
  gvs_flags :: u32
  gvs_viewport_static_first :: u32
  gvs_viewport_count :: u32
  gvs_scissor_static_first :: u32
  gvs_scissor_count :: u32
  gvs_reserved0 :: u32
  gvs_reserved1 :: u32

definition g_viewport_state_of :: "string \<Rightarrow> g_viewport_state" where
  "g_viewport_state_of bs =
     \<lparr>gvs_pipeline_index = field 0 4 bs, gvs_flags = field 4 4 bs, gvs_viewport_static_first = field 8 4 bs,
      gvs_viewport_count = field 12 4 bs, gvs_scissor_static_first = field 16 4 bs, gvs_scissor_count = field 20 4 bs,
      gvs_reserved0 = field 24 4 bs, gvs_reserved1 = field 28 4 bs\<rparr>"

record g_viewport =
  gvp_pipeline_index :: u32
  gvp_viewport_index :: u32
  gvp_x_bits :: u32
  gvp_y_bits :: u32
  gvp_width_bits :: u32
  gvp_height_bits :: u32
  gvp_min_depth_bits :: u32
  gvp_max_depth_bits :: u32

definition g_viewport_of :: "string \<Rightarrow> g_viewport" where
  "g_viewport_of bs =
     \<lparr>gvp_pipeline_index = field 0 4 bs, gvp_viewport_index = field 4 4 bs, gvp_x_bits = field 8 4 bs,
      gvp_y_bits = field 12 4 bs, gvp_width_bits = field 16 4 bs, gvp_height_bits = field 20 4 bs,
      gvp_min_depth_bits = field 24 4 bs, gvp_max_depth_bits = field 28 4 bs\<rparr>"

record g_scissor =
  gsc_pipeline_index :: u32
  gsc_scissor_index :: u32
  gsc_offset_x :: u32
  gsc_offset_y :: u32
  gsc_extent_width :: u32
  gsc_extent_height :: u32
  gsc_reserved0 :: u32
  gsc_reserved1 :: u32

definition g_scissor_of :: "string \<Rightarrow> g_scissor" where
  "g_scissor_of bs =
     \<lparr>gsc_pipeline_index = field 0 4 bs, gsc_scissor_index = field 4 4 bs, gsc_offset_x = field 8 4 bs,
      gsc_offset_y = field 12 4 bs, gsc_extent_width = field 16 4 bs, gsc_extent_height = field 20 4 bs,
      gsc_reserved0 = field 24 4 bs, gsc_reserved1 = field 28 4 bs\<rparr>"

record g_indirect_draw =
  gid_command_index :: u32
  gid_flags :: u32
  gid_indirect_resource_index :: u32
  gid_count_resource_index :: u32
  gid_indirect_offset :: u64
  gid_count_offset :: u64
  gid_draw_count :: u32
  gid_stride :: u32

definition g_indirect_draw_of :: "string \<Rightarrow> g_indirect_draw" where
  "g_indirect_draw_of bs =
     \<lparr>gid_command_index = field 0 4 bs, gid_flags = field 4 4 bs, gid_indirect_resource_index = field 8 4 bs,
      gid_count_resource_index = field 12 4 bs, gid_indirect_offset = field 16 8 bs, gid_count_offset = field 24 8 bs,
      gid_draw_count = field 32 4 bs, gid_stride = field 36 4 bs\<rparr>"

record g_buffer_copy =
  gbc_command_index :: u32
  gbc_src_resource_index :: u32
  gbc_dst_resource_index :: u32
  gbc_reserved0 :: u32
  gbc_src_offset :: u64
  gbc_dst_offset :: u64
  gbc_size :: u64

definition g_buffer_copy_of :: "string \<Rightarrow> g_buffer_copy" where
  "g_buffer_copy_of bs =
     \<lparr>gbc_command_index = field 0 4 bs, gbc_src_resource_index = field 4 4 bs, gbc_dst_resource_index = field 8 4 bs,
      gbc_reserved0 = field 12 4 bs, gbc_src_offset = field 16 8 bs, gbc_dst_offset = field 24 8 bs,
      gbc_size = field 32 8 bs\<rparr>"

record g_buffer_image_copy =
  gbi_command_index :: u32
  gbi_direction :: u32
  gbi_buffer_resource_index :: u32
  gbi_image_index :: u32
  gbi_image_layout :: u32
  gbi_aspect_mask :: u32
  gbi_mip_level :: u32
  gbi_base_array_layer :: u32
  gbi_layer_count :: u32
  gbi_buffer_row_length :: u32
  gbi_buffer_image_height :: u32
  gbi_image_offset_x :: u32
  gbi_image_offset_y :: u32
  gbi_image_offset_z :: u32
  gbi_image_extent_width :: u32
  gbi_image_extent_height :: u32
  gbi_image_extent_depth :: u32
  gbi_reserved0 :: u32
  gbi_buffer_offset :: u64

definition g_buffer_image_copy_of :: "string \<Rightarrow> g_buffer_image_copy" where
  "g_buffer_image_copy_of bs =
     \<lparr>gbi_command_index = field 0 4 bs, gbi_direction = field 4 4 bs, gbi_buffer_resource_index = field 8 4 bs,
      gbi_image_index = field 12 4 bs, gbi_image_layout = field 16 4 bs, gbi_aspect_mask = field 20 4 bs,
      gbi_mip_level = field 24 4 bs, gbi_base_array_layer = field 28 4 bs, gbi_layer_count = field 32 4 bs,
      gbi_buffer_row_length = field 36 4 bs, gbi_buffer_image_height = field 40 4 bs, gbi_image_offset_x = field 44 4 bs,
      gbi_image_offset_y = field 48 4 bs, gbi_image_offset_z = field 52 4 bs, gbi_image_extent_width = field 56 4 bs,
      gbi_image_extent_height = field 60 4 bs, gbi_image_extent_depth = field 64 4 bs, gbi_reserved0 = field 68 4 bs,
      gbi_buffer_offset = field 72 8 bs\<rparr>"

record g_image_copy =
  gic_command_index :: u32
  gic_src_image_index :: u32
  gic_dst_image_index :: u32
  gic_src_layout :: u32
  gic_dst_layout :: u32
  gic_src_aspect_mask :: u32
  gic_src_mip_level :: u32
  gic_src_base_array_layer :: u32
  gic_dst_aspect_mask :: u32
  gic_dst_mip_level :: u32
  gic_dst_base_array_layer :: u32
  gic_layer_count :: u32
  gic_src_offset_x :: u32
  gic_src_offset_y :: u32
  gic_src_offset_z :: u32
  gic_dst_offset_x :: u32
  gic_dst_offset_y :: u32
  gic_dst_offset_z :: u32
  gic_extent_width :: u32
  gic_extent_height :: u32
  gic_extent_depth :: u32
  gic_reserved0 :: u32

definition g_image_copy_of :: "string \<Rightarrow> g_image_copy" where
  "g_image_copy_of bs =
     \<lparr>gic_command_index = field 0 4 bs, gic_src_image_index = field 4 4 bs, gic_dst_image_index = field 8 4 bs,
      gic_src_layout = field 12 4 bs, gic_dst_layout = field 16 4 bs, gic_src_aspect_mask = field 20 4 bs,
      gic_src_mip_level = field 24 4 bs, gic_src_base_array_layer = field 28 4 bs, gic_dst_aspect_mask = field 32 4 bs,
      gic_dst_mip_level = field 36 4 bs, gic_dst_base_array_layer = field 40 4 bs, gic_layer_count = field 44 4 bs,
      gic_src_offset_x = field 48 4 bs, gic_src_offset_y = field 52 4 bs, gic_src_offset_z = field 56 4 bs,
      gic_dst_offset_x = field 60 4 bs, gic_dst_offset_y = field 64 4 bs, gic_dst_offset_z = field 68 4 bs,
      gic_extent_width = field 72 4 bs, gic_extent_height = field 76 4 bs, gic_extent_depth = field 80 4 bs,
      gic_reserved0 = field 84 4 bs\<rparr>"

record g_fill_buffer =
  gfb_command_index :: u32
  gfb_dst_resource_index :: u32
  gfb_reserved0 :: u32
  gfb_reserved1 :: u32
  gfb_dst_offset :: u64
  gfb_size :: u64
  gfb_data :: u32
  gfb_reserved2 :: u32

definition g_fill_buffer_of :: "string \<Rightarrow> g_fill_buffer" where
  "g_fill_buffer_of bs =
     \<lparr>gfb_command_index = field 0 4 bs, gfb_dst_resource_index = field 4 4 bs, gfb_reserved0 = field 8 4 bs,
      gfb_reserved1 = field 12 4 bs, gfb_dst_offset = field 16 8 bs, gfb_size = field 24 8 bs, gfb_data = field 32 4 bs,
      gfb_reserved2 = field 36 4 bs\<rparr>"

record g_update_buffer =
  gub_command_index :: u32
  gub_dst_resource_index :: u32
  gub_reserved0 :: u32
  gub_reserved1 :: u32
  gub_dst_offset :: u64
  gub_data_size :: u64
  gub_payload_offset :: u64
  gub_payload_hash :: u64

definition g_update_buffer_of :: "string \<Rightarrow> g_update_buffer" where
  "g_update_buffer_of bs =
     \<lparr>gub_command_index = field 0 4 bs, gub_dst_resource_index = field 4 4 bs, gub_reserved0 = field 8 4 bs,
      gub_reserved1 = field 12 4 bs, gub_dst_offset = field 16 8 bs, gub_data_size = field 24 8 bs,
      gub_payload_offset = field 32 8 bs, gub_payload_hash = field 40 8 bs\<rparr>"

record g_clear_color =
  gcc_command_index :: u32
  gcc_image_index :: u32
  gcc_image_layout :: u32
  gcc_aspect_mask :: u32
  gcc_base_mip_level :: u32
  gcc_level_count :: u32
  gcc_base_array_layer :: u32
  gcc_layer_count :: u32
  gcc_color_uint32_0 :: u32
  gcc_color_uint32_1 :: u32
  gcc_color_uint32_2 :: u32
  gcc_color_uint32_3 :: u32
  gcc_reserved0 :: u32
  gcc_reserved1 :: u32
  gcc_reserved2 :: u32
  gcc_reserved3 :: u32

definition g_clear_color_of :: "string \<Rightarrow> g_clear_color" where
  "g_clear_color_of bs =
     \<lparr>gcc_command_index = field 0 4 bs, gcc_image_index = field 4 4 bs, gcc_image_layout = field 8 4 bs,
      gcc_aspect_mask = field 12 4 bs, gcc_base_mip_level = field 16 4 bs, gcc_level_count = field 20 4 bs,
      gcc_base_array_layer = field 24 4 bs, gcc_layer_count = field 28 4 bs, gcc_color_uint32_0 = field 32 4 bs,
      gcc_color_uint32_1 = field 36 4 bs, gcc_color_uint32_2 = field 40 4 bs, gcc_color_uint32_3 = field 44 4 bs,
      gcc_reserved0 = field 48 4 bs, gcc_reserved1 = field 52 4 bs, gcc_reserved2 = field 56 4 bs,
      gcc_reserved3 = field 60 4 bs\<rparr>"

record g_clear_depth =
  gcd_command_index :: u32
  gcd_image_index :: u32
  gcd_image_layout :: u32
  gcd_aspect_mask :: u32
  gcd_base_mip_level :: u32
  gcd_level_count :: u32
  gcd_base_array_layer :: u32
  gcd_layer_count :: u32
  gcd_depth_bits :: u32
  gcd_stencil :: u32
  gcd_reserved0 :: u32
  gcd_reserved1 :: u32
  gcd_reserved2 :: u32
  gcd_reserved3 :: u32
  gcd_reserved4 :: u32
  gcd_reserved5 :: u32

definition g_clear_depth_of :: "string \<Rightarrow> g_clear_depth" where
  "g_clear_depth_of bs =
     \<lparr>gcd_command_index = field 0 4 bs, gcd_image_index = field 4 4 bs, gcd_image_layout = field 8 4 bs,
      gcd_aspect_mask = field 12 4 bs, gcd_base_mip_level = field 16 4 bs, gcd_level_count = field 20 4 bs,
      gcd_base_array_layer = field 24 4 bs, gcd_layer_count = field 28 4 bs, gcd_depth_bits = field 32 4 bs,
      gcd_stencil = field 36 4 bs, gcd_reserved0 = field 40 4 bs, gcd_reserved1 = field 44 4 bs,
      gcd_reserved2 = field 48 4 bs, gcd_reserved3 = field 52 4 bs, gcd_reserved4 = field 56 4 bs,
      gcd_reserved5 = field 60 4 bs\<rparr>"

record g_resolve_image =
  gri_command_index :: u32
  gri_src_image_index :: u32
  gri_dst_image_index :: u32
  gri_src_layout :: u32
  gri_dst_layout :: u32
  gri_src_aspect_mask :: u32
  gri_src_mip_level :: u32
  gri_src_base_array_layer :: u32
  gri_dst_aspect_mask :: u32
  gri_dst_mip_level :: u32
  gri_dst_base_array_layer :: u32
  gri_layer_count :: u32
  gri_src_offset_x :: u32
  gri_src_offset_y :: u32
  gri_src_offset_z :: u32
  gri_dst_offset_x :: u32
  gri_dst_offset_y :: u32
  gri_dst_offset_z :: u32
  gri_extent_width :: u32
  gri_extent_height :: u32
  gri_extent_depth :: u32
  gri_reserved0 :: u32

definition g_resolve_image_of :: "string \<Rightarrow> g_resolve_image" where
  "g_resolve_image_of bs =
     \<lparr>gri_command_index = field 0 4 bs, gri_src_image_index = field 4 4 bs, gri_dst_image_index = field 8 4 bs,
      gri_src_layout = field 12 4 bs, gri_dst_layout = field 16 4 bs, gri_src_aspect_mask = field 20 4 bs,
      gri_src_mip_level = field 24 4 bs, gri_src_base_array_layer = field 28 4 bs, gri_dst_aspect_mask = field 32 4 bs,
      gri_dst_mip_level = field 36 4 bs, gri_dst_base_array_layer = field 40 4 bs, gri_layer_count = field 44 4 bs,
      gri_src_offset_x = field 48 4 bs, gri_src_offset_y = field 52 4 bs, gri_src_offset_z = field 56 4 bs,
      gri_dst_offset_x = field 60 4 bs, gri_dst_offset_y = field 64 4 bs, gri_dst_offset_z = field 68 4 bs,
      gri_extent_width = field 72 4 bs, gri_extent_height = field 76 4 bs, gri_extent_depth = field 80 4 bs,
      gri_reserved0 = field 84 4 bs\<rparr>"

record g_blit_image =
  gbl_command_index :: u32
  gbl_src_image_index :: u32
  gbl_dst_image_index :: u32
  gbl_src_layout :: u32
  gbl_dst_layout :: u32
  gbl_src_aspect_mask :: u32
  gbl_src_mip_level :: u32
  gbl_src_base_array_layer :: u32
  gbl_dst_aspect_mask :: u32
  gbl_dst_mip_level :: u32
  gbl_dst_base_array_layer :: u32
  gbl_layer_count :: u32
  gbl_src_offset0_x :: u32
  gbl_src_offset0_y :: u32
  gbl_src_offset0_z :: u32
  gbl_src_offset1_x :: u32
  gbl_src_offset1_y :: u32
  gbl_src_offset1_z :: u32
  gbl_dst_offset0_x :: u32
  gbl_dst_offset0_y :: u32
  gbl_dst_offset0_z :: u32
  gbl_dst_offset1_x :: u32
  gbl_dst_offset1_y :: u32
  gbl_dst_offset1_z :: u32
  gbl_filter :: u32
  gbl_reserved0 :: u32
  gbl_reserved1 :: u32
  gbl_reserved2 :: u32

definition g_blit_image_of :: "string \<Rightarrow> g_blit_image" where
  "g_blit_image_of bs =
     \<lparr>gbl_command_index = field 0 4 bs, gbl_src_image_index = field 4 4 bs, gbl_dst_image_index = field 8 4 bs,
      gbl_src_layout = field 12 4 bs, gbl_dst_layout = field 16 4 bs, gbl_src_aspect_mask = field 20 4 bs,
      gbl_src_mip_level = field 24 4 bs, gbl_src_base_array_layer = field 28 4 bs, gbl_dst_aspect_mask = field 32 4 bs,
      gbl_dst_mip_level = field 36 4 bs, gbl_dst_base_array_layer = field 40 4 bs, gbl_layer_count = field 44 4 bs,
      gbl_src_offset0_x = field 48 4 bs, gbl_src_offset0_y = field 52 4 bs, gbl_src_offset0_z = field 56 4 bs,
      gbl_src_offset1_x = field 60 4 bs, gbl_src_offset1_y = field 64 4 bs, gbl_src_offset1_z = field 68 4 bs,
      gbl_dst_offset0_x = field 72 4 bs, gbl_dst_offset0_y = field 76 4 bs, gbl_dst_offset0_z = field 80 4 bs,
      gbl_dst_offset1_x = field 84 4 bs, gbl_dst_offset1_y = field 88 4 bs, gbl_dst_offset1_z = field 92 4 bs,
      gbl_filter = field 96 4 bs, gbl_reserved0 = field 100 4 bs, gbl_reserved1 = field 104 4 bs,
      gbl_reserved2 = field 108 4 bs\<rparr>"

record g_clear_command =
  gca_command_index :: u32
  gca_clear_attachment_first :: u32
  gca_clear_attachment_count :: u32
  gca_clear_rect_first :: u32
  gca_clear_rect_count :: u32
  gca_reserved0 :: u32
  gca_reserved1 :: u32
  gca_reserved2 :: u32

definition g_clear_command_of :: "string \<Rightarrow> g_clear_command" where
  "g_clear_command_of bs =
     \<lparr>gca_command_index = field 0 4 bs, gca_clear_attachment_first = field 4 4 bs,
      gca_clear_attachment_count = field 8 4 bs, gca_clear_rect_first = field 12 4 bs, gca_clear_rect_count = field 16 4 bs,
      gca_reserved0 = field 20 4 bs, gca_reserved1 = field 24 4 bs, gca_reserved2 = field 28 4 bs\<rparr>"

record g_clear_attachment =
  gct_aspect_mask :: u32
  gct_color_attachment :: u32
  gct_color_uint32_0 :: u32
  gct_color_uint32_1 :: u32
  gct_color_uint32_2 :: u32
  gct_color_uint32_3 :: u32
  gct_depth_bits :: u32
  gct_stencil :: u32
  gct_reserved0 :: u32
  gct_reserved1 :: u32
  gct_reserved2 :: u32
  gct_reserved3 :: u32

definition g_clear_attachment_of :: "string \<Rightarrow> g_clear_attachment" where
  "g_clear_attachment_of bs =
     \<lparr>gct_aspect_mask = field 0 4 bs, gct_color_attachment = field 4 4 bs, gct_color_uint32_0 = field 8 4 bs,
      gct_color_uint32_1 = field 12 4 bs, gct_color_uint32_2 = field 16 4 bs, gct_color_uint32_3 = field 20 4 bs,
      gct_depth_bits = field 24 4 bs, gct_stencil = field 28 4 bs, gct_reserved0 = field 32 4 bs,
      gct_reserved1 = field 36 4 bs, gct_reserved2 = field 40 4 bs, gct_reserved3 = field 44 4 bs\<rparr>"

record g_clear_rect =
  gcr_rect_offset_x :: u32
  gcr_rect_offset_y :: u32
  gcr_rect_extent_width :: u32
  gcr_rect_extent_height :: u32
  gcr_base_array_layer :: u32
  gcr_layer_count :: u32
  gcr_reserved0 :: u32
  gcr_reserved1 :: u32

definition g_clear_rect_of :: "string \<Rightarrow> g_clear_rect" where
  "g_clear_rect_of bs =
     \<lparr>gcr_rect_offset_x = field 0 4 bs, gcr_rect_offset_y = field 4 4 bs, gcr_rect_extent_width = field 8 4 bs,
      gcr_rect_extent_height = field 12 4 bs, gcr_base_array_layer = field 16 4 bs, gcr_layer_count = field 20 4 bs,
      gcr_reserved0 = field 24 4 bs, gcr_reserved1 = field 28 4 bs\<rparr>"

record g_query_command =
  gqc_command_index :: u32
  gqc_op :: u32
  gqc_query_pool_id :: u64
  gqc_first_query :: u32
  gqc_query_count :: u32
  gqc_stage_mask :: u64
  gqc_result_fd_index :: u32
  gqc_result_stride :: u32
  gqc_result_offset :: u64
  gqc_reserved0 :: u64

definition g_query_command_of :: "string \<Rightarrow> g_query_command" where
  "g_query_command_of bs =
     \<lparr>gqc_command_index = field 0 4 bs, gqc_op = field 4 4 bs, gqc_query_pool_id = field 8 8 bs,
      gqc_first_query = field 16 4 bs, gqc_query_count = field 20 4 bs, gqc_stage_mask = field 24 8 bs,
      gqc_result_fd_index = field 32 4 bs, gqc_result_stride = field 36 4 bs, gqc_result_offset = field 40 8 bs,
      gqc_reserved0 = field 48 8 bs\<rparr>"

record g_query_result =
  gqr_value :: u64
  gqr_available :: u32
  gqr_status :: u32

definition g_query_result_of :: "string \<Rightarrow> g_query_result" where
  "g_query_result_of bs =
     \<lparr>gqr_value = field 0 8 bs, gqr_available = field 8 4 bs, gqr_status = field 12 4 bs\<rparr>"

record g_copy_query =
  gcq_command_index :: u32
  gcq_dst_resource_index :: u32
  gcq_query_pool_id :: u64
  gcq_first_query :: u32
  gcq_query_count :: u32
  gcq_query_type :: u32
  gcq_flags :: u32
  gcq_result_fd_index :: u32
  gcq_reserved0 :: u32
  gcq_dst_offset :: u64
  gcq_stride :: u64
  gcq_reserved1 :: u64

definition g_copy_query_of :: "string \<Rightarrow> g_copy_query" where
  "g_copy_query_of bs =
     \<lparr>gcq_command_index = field 0 4 bs, gcq_dst_resource_index = field 4 4 bs, gcq_query_pool_id = field 8 8 bs,
      gcq_first_query = field 16 4 bs, gcq_query_count = field 20 4 bs, gcq_query_type = field 24 4 bs,
      gcq_flags = field 28 4 bs, gcq_result_fd_index = field 32 4 bs, gcq_reserved0 = field 36 4 bs,
      gcq_dst_offset = field 40 8 bs, gcq_stride = field 48 8 bs, gcq_reserved1 = field 56 8 bs\<rparr>"

record g_submit_sync =
  gsy_sync_type :: u32
  gsy_flags :: u32
  gsy_semaphore_id :: u64
  gsy_value :: u64
  gsy_stage_mask :: u64
  gsy_fence_id :: u64
  gsy_reserved0 :: u64

definition g_submit_sync_of :: "string \<Rightarrow> g_submit_sync" where
  "g_submit_sync_of bs =
     \<lparr>gsy_sync_type = field 0 4 bs, gsy_flags = field 4 4 bs, gsy_semaphore_id = field 8 8 bs, gsy_value = field 16 8 bs,
      gsy_stage_mask = field 24 8 bs, gsy_fence_id = field 32 8 bs, gsy_reserved0 = field 40 8 bs\<rparr>"

record g_layout_range =
  glr_image_index :: u32
  glr_aspect_mask :: u32
  glr_base_mip_level :: u32
  glr_level_count :: u32
  glr_base_array_layer :: u32
  glr_layer_count :: u32
  glr_layout :: u32
  glr_reserved0 :: u32
  glr_layout_generation :: u64

definition g_layout_range_of :: "string \<Rightarrow> g_layout_range" where
  "g_layout_range_of bs =
     \<lparr>glr_image_index = field 0 4 bs, glr_aspect_mask = field 4 4 bs, glr_base_mip_level = field 8 4 bs,
      glr_level_count = field 12 4 bs, glr_base_array_layer = field 16 4 bs, glr_layer_count = field 20 4 bs,
      glr_layout = field 24 4 bs, glr_reserved0 = field 28 4 bs, glr_layout_generation = field 32 8 bs\<rparr>"

section \<open>Tables\<close>

text \<open>The header names each table by the number and the size of its entries, its place and the hash of its layout.\<close>

record v6_table =
  ta_count :: u32
  ta_entry_size :: u32
  ta_offset :: u64
  ta_size :: u64
  ta_schema :: u64

definition v6_table_at :: "nat \<Rightarrow> nat \<Rightarrow> nat \<Rightarrow> string \<Rightarrow> v6_table" where
  "v6_table_at count_off entry_off table_off bs =
     \<lparr>ta_count = field count_off 4 bs, ta_entry_size = field entry_off 4 bs, ta_offset = field table_off 8 bs,
      ta_size = field (table_off + 8) 8 bs, ta_schema = field (table_off + 16) 8 bs\<rparr>"

text \<open>What a table must be: at most so many entries, of this size and layout, at a multiple of this alignment.\<close>

record v6_rule =
  ru_max :: u32
  ru_entry_size :: u32
  ru_schema :: u64
  ru_align :: u64

section \<open>The header\<close>

record v6_header =
  gh_magic :: string
  gh_header_size :: u16
  gh_abi_major :: u16
  gh_abi_minor :: u16
  gh_command :: u16
  gh_flags :: u32
  gh_reserved0 :: u32
  gh_frame_size :: u64
  gh_submit_id :: u64
  gh_fd_count :: u32
  gh_payload_hash :: u64
  gh_frame_hash :: u64

definition v6_header_of :: "string \<Rightarrow> v6_header" where
  "v6_header_of bs =
     \<lparr>gh_magic = take 8 bs, gh_header_size = field 8 2 bs, gh_abi_major = field 10 2 bs, gh_abi_minor = field 12 2 bs,
      gh_command = field 14 2 bs, gh_flags = field 16 4 bs, gh_reserved0 = field 20 4 bs, gh_frame_size = field 24 8 bs,
      gh_submit_id = field 32 8 bs, gh_fd_count = field 40 4 bs, gh_payload_hash = field 432 8 bs,
      gh_frame_hash = field 440 8 bs\<rparr>"

section \<open>The tables of each version\<close>

definition t_resources :: "string \<Rightarrow> v6_table" where
  "t_resources = v6_table_at 44 48 56"

definition t_descriptors :: "string \<Rightarrow> v6_table" where
  "t_descriptors = v6_table_at 80 84 88"

definition t_images :: "string \<Rightarrow> v6_table" where
  "t_images = v6_table_at 112 116 120"

definition t_image_views :: "string \<Rightarrow> v6_table" where
  "t_image_views = v6_table_at 144 148 152"

definition t_samplers :: "string \<Rightarrow> v6_table" where
  "t_samplers = v6_table_at 176 180 184"

definition t_stages :: "string \<Rightarrow> v6_table" where
  "t_stages = v6_table_at 208 212 216"

definition t_pipelines :: "string \<Rightarrow> v6_table" where
  "t_pipelines = v6_table_at 240 244 248"

definition t_vertex_bindings :: "string \<Rightarrow> v6_table" where
  "t_vertex_bindings = v6_table_at 272 276 280"

definition t_vertex_attributes :: "string \<Rightarrow> v6_table" where
  "t_vertex_attributes = v6_table_at 304 308 312"

definition t_attachments :: "string \<Rightarrow> v6_table" where
  "t_attachments = v6_table_at 336 340 344"

definition t_dynamic_states :: "string \<Rightarrow> v6_table" where
  "t_dynamic_states = v6_table_at 368 372 376"

definition t_commands :: "string \<Rightarrow> v6_table" where
  "t_commands = v6_table_at 400 404 408"

definition v6_tables :: "string \<Rightarrow> (v6_table \<times> v6_rule) list" where
  "v6_tables bs =
     [(t_resources bs, \<lparr>ru_max = 1024, ru_entry_size = 72, ru_schema = V5_RESOURCE_SCHEMA_HASH, ru_align = 8\<rparr>),
      (t_descriptors bs, \<lparr>ru_max = 2048, ru_entry_size = 88, ru_schema = V5_DESCRIPTOR_OBJECT_SCHEMA_HASH, ru_align = 8\<rparr>),
      (t_images bs, \<lparr>ru_max = 256, ru_entry_size = 104, ru_schema = V5_IMAGE_SCHEMA_HASH, ru_align = 8\<rparr>),
      (t_image_views bs, \<lparr>ru_max = 512, ru_entry_size = 72, ru_schema = V5_IMAGE_VIEW_SCHEMA_HASH, ru_align = 8\<rparr>),
      (t_samplers bs, \<lparr>ru_max = 512, ru_entry_size = 88, ru_schema = V5_SAMPLER_SCHEMA_HASH, ru_align = 8\<rparr>),
      (t_stages bs, \<lparr>ru_max = 16, ru_entry_size = 64, ru_schema = 0xc9b21285e5a281b8, ru_align = 8\<rparr>),
      (t_pipelines bs, \<lparr>ru_max = 64, ru_entry_size = 176, ru_schema = 0x37218816fe25c7dd, ru_align = 8\<rparr>),
      (t_vertex_bindings bs, \<lparr>ru_max = 64, ru_entry_size = 32, ru_schema = 0x7a735aaa6fdc4e5a, ru_align = 8\<rparr>),
      (t_vertex_attributes bs, \<lparr>ru_max = 128, ru_entry_size = 16, ru_schema = 0xa82d873c2a230c5, ru_align = 4\<rparr>),
      (t_attachments bs, \<lparr>ru_max = 64, ru_entry_size = 72, ru_schema = 0x29ca5fee670cb0e0, ru_align = 8\<rparr>),
      (t_dynamic_states bs, \<lparr>ru_max = 256, ru_entry_size = 40, ru_schema = 0x305d9e579f44e90, ru_align = 8\<rparr>),
      (t_commands bs, \<lparr>ru_max = 4096, ru_entry_size = 160, ru_schema = 0x3e932210bbed0c3c, ru_align = 8\<rparr>)]"

definition t_dynamic_offsets :: "string \<Rightarrow> v6_table" where
  "t_dynamic_offsets = v6_table_at 448 452 456"

definition t_push_metadata :: "string \<Rightarrow> v6_table" where
  "t_push_metadata = v6_table_at 480 484 488"

definition t_image_barriers :: "string \<Rightarrow> v6_table" where
  "t_image_barriers = v6_table_at 512 516 520"

definition t_memory_barriers :: "string \<Rightarrow> v6_table" where
  "t_memory_barriers = v6_table_at 544 548 552"

definition t_buffer_barriers :: "string \<Rightarrow> v6_table" where
  "t_buffer_barriers = v6_table_at 576 580 584"

definition v61_tables :: "string \<Rightarrow> (v6_table \<times> v6_rule) list" where
  "v61_tables bs =
     [(t_dynamic_offsets bs, \<lparr>ru_max = 4096, ru_entry_size = 8, ru_schema = 0x4fed60f52743cc94, ru_align = 4\<rparr>),
      (t_push_metadata bs, \<lparr>ru_max = 4096, ru_entry_size = 24, ru_schema = 0xfec2e2aff5874940, ru_align = 8\<rparr>),
      (t_image_barriers bs, \<lparr>ru_max = 4096, ru_entry_size = 88, ru_schema = 0xfab42820638bfb19, ru_align = 8\<rparr>),
      (t_memory_barriers bs, \<lparr>ru_max = 4096, ru_entry_size = 40, ru_schema = 0x80fba87057d8753d, ru_align = 8\<rparr>),
      (t_buffer_barriers bs, \<lparr>ru_max = 4096, ru_entry_size = 72, ru_schema = 0xec42d150dc692354, ru_align = 8\<rparr>)]"

definition t_specializations :: "string \<Rightarrow> v6_table" where
  "t_specializations = v6_table_at 616 620 624"

definition v62_tables :: "string \<Rightarrow> (v6_table \<times> v6_rule) list" where
  "v62_tables bs =
     [(t_specializations bs, \<lparr>ru_max = 1024, ru_entry_size = 24, ru_schema = 0xeaa6b0ee1be40c1, ru_align = 8\<rparr>)]"

definition t_depth_stencils :: "string \<Rightarrow> v6_table" where
  "t_depth_stencils = v6_table_at 664 668 672"

definition v63_tables :: "string \<Rightarrow> (v6_table \<times> v6_rule) list" where
  "v63_tables bs =
     [(t_depth_stencils bs, \<lparr>ru_max = 64, ru_entry_size = 80, ru_schema = 0x4da182d1f0ea5a83, ru_align = 4\<rparr>)]"

definition t_resolve_attachments :: "string \<Rightarrow> v6_table" where
  "t_resolve_attachments = v6_table_at 712 716 720"

definition v64_tables :: "string \<Rightarrow> (v6_table \<times> v6_rule) list" where
  "v64_tables bs =
     [(t_resolve_attachments bs, \<lparr>ru_max = 64, ru_entry_size = 16, ru_schema = 0xf601060db3fe6d70, ru_align = 4\<rparr>)]"

definition t_static_states :: "string \<Rightarrow> v6_table" where
  "t_static_states = v6_table_at 760 764 768"

definition v65_tables :: "string \<Rightarrow> (v6_table \<times> v6_rule) list" where
  "v65_tables bs =
     [(t_static_states bs, \<lparr>ru_max = 64, ru_entry_size = 32, ru_schema = 0xf2d422fe89c57221, ru_align = 4\<rparr>)]"

definition t_blend_states :: "string \<Rightarrow> v6_table" where
  "t_blend_states = v6_table_at 808 812 816"

definition t_blend_attachments :: "string \<Rightarrow> v6_table" where
  "t_blend_attachments = v6_table_at 848 852 856"

definition v66_tables :: "string \<Rightarrow> (v6_table \<times> v6_rule) list" where
  "v66_tables bs =
     [(t_blend_states bs, \<lparr>ru_max = 64, ru_entry_size = 40, ru_schema = 0xa2b61fe8cccf0ea6, ru_align = 4\<rparr>),
      (t_blend_attachments bs, \<lparr>ru_max = 64, ru_entry_size = 40, ru_schema = 0x763f1cd2b92a7710, ru_align = 4\<rparr>)]"

definition t_viewport_states :: "string \<Rightarrow> v6_table" where
  "t_viewport_states = v6_table_at 896 900 904"

definition t_viewports :: "string \<Rightarrow> v6_table" where
  "t_viewports = v6_table_at 936 940 944"

definition t_scissors :: "string \<Rightarrow> v6_table" where
  "t_scissors = v6_table_at 976 980 984"

definition v67_tables :: "string \<Rightarrow> (v6_table \<times> v6_rule) list" where
  "v67_tables bs =
     [(t_viewport_states bs, \<lparr>ru_max = 64, ru_entry_size = 32, ru_schema = 0xa76b96bdcf2c00ea, ru_align = 4\<rparr>),
      (t_viewports bs, \<lparr>ru_max = 1024, ru_entry_size = 32, ru_schema = 0x1b32b902609358a7, ru_align = 4\<rparr>),
      (t_scissors bs, \<lparr>ru_max = 1024, ru_entry_size = 32, ru_schema = 0x57b0da55f6a9871a, ru_align = 4\<rparr>)]"

definition t_indirect_draws :: "string \<Rightarrow> v6_table" where
  "t_indirect_draws = v6_table_at 1024 1028 1032"

definition v68_tables :: "string \<Rightarrow> (v6_table \<times> v6_rule) list" where
  "v68_tables bs =
     [(t_indirect_draws bs, \<lparr>ru_max = 4096, ru_entry_size = 40, ru_schema = 0xc0f27c9d746a371, ru_align = 8\<rparr>)]"

definition t_buffer_copies :: "string \<Rightarrow> v6_table" where
  "t_buffer_copies = v6_table_at 1072 1076 1080"

definition v69_tables :: "string \<Rightarrow> (v6_table \<times> v6_rule) list" where
  "v69_tables bs =
     [(t_buffer_copies bs, \<lparr>ru_max = 4096, ru_entry_size = 40, ru_schema = 0x7fb0d4996f0e6919, ru_align = 8\<rparr>)]"

definition t_buffer_image_copies :: "string \<Rightarrow> v6_table" where
  "t_buffer_image_copies = v6_table_at 1120 1124 1128"

definition t_image_copies :: "string \<Rightarrow> v6_table" where
  "t_image_copies = v6_table_at 1160 1164 1168"

definition v610_tables :: "string \<Rightarrow> (v6_table \<times> v6_rule) list" where
  "v610_tables bs =
     [(t_buffer_image_copies bs, \<lparr>ru_max = 4096, ru_entry_size = 80, ru_schema = 0x2d3b53d05c5cb70d, ru_align = 8\<rparr>),
      (t_image_copies bs, \<lparr>ru_max = 4096, ru_entry_size = 88, ru_schema = 0x3a3de925dfb62446, ru_align = 4\<rparr>)]"

definition t_fill_buffers :: "string \<Rightarrow> v6_table" where
  "t_fill_buffers = v6_table_at 1208 1212 1216"

definition t_update_buffers :: "string \<Rightarrow> v6_table" where
  "t_update_buffers = v6_table_at 1248 1252 1256"

definition v611_tables :: "string \<Rightarrow> (v6_table \<times> v6_rule) list" where
  "v611_tables bs =
     [(t_fill_buffers bs, \<lparr>ru_max = 4096, ru_entry_size = 40, ru_schema = 0xc1f23a447ec9ea61, ru_align = 8\<rparr>),
      (t_update_buffers bs, \<lparr>ru_max = 4096, ru_entry_size = 48, ru_schema = 0x53e9386aec8278af, ru_align = 8\<rparr>)]"

definition t_clear_colors :: "string \<Rightarrow> v6_table" where
  "t_clear_colors = v6_table_at 1320 1324 1328"

definition v612_tables :: "string \<Rightarrow> (v6_table \<times> v6_rule) list" where
  "v612_tables bs =
     [(t_clear_colors bs, \<lparr>ru_max = 4096, ru_entry_size = 64, ru_schema = 0x4264b293962f7a49, ru_align = 4\<rparr>)]"

definition t_clear_depths :: "string \<Rightarrow> v6_table" where
  "t_clear_depths = v6_table_at 1368 1372 1376"

definition v613_tables :: "string \<Rightarrow> (v6_table \<times> v6_rule) list" where
  "v613_tables bs =
     [(t_clear_depths bs, \<lparr>ru_max = 4096, ru_entry_size = 64, ru_schema = 0x849d3b264f940cb5, ru_align = 4\<rparr>)]"

definition t_resolve_images :: "string \<Rightarrow> v6_table" where
  "t_resolve_images = v6_table_at 1416 1420 1424"

definition v614_tables :: "string \<Rightarrow> (v6_table \<times> v6_rule) list" where
  "v614_tables bs =
     [(t_resolve_images bs, \<lparr>ru_max = 4096, ru_entry_size = 88, ru_schema = 0x934b7c2de01fa856, ru_align = 4\<rparr>)]"

definition t_blit_images :: "string \<Rightarrow> v6_table" where
  "t_blit_images = v6_table_at 1464 1468 1472"

definition v615_tables :: "string \<Rightarrow> (v6_table \<times> v6_rule) list" where
  "v615_tables bs =
     [(t_blit_images bs, \<lparr>ru_max = 4096, ru_entry_size = 112, ru_schema = 0xb5f09d34a6e7182c, ru_align = 4\<rparr>)]"

definition t_clear_commands :: "string \<Rightarrow> v6_table" where
  "t_clear_commands = v6_table_at 1512 1516 1520"

definition t_clear_attachments :: "string \<Rightarrow> v6_table" where
  "t_clear_attachments = v6_table_at 1552 1556 1560"

definition t_clear_rects :: "string \<Rightarrow> v6_table" where
  "t_clear_rects = v6_table_at 1592 1596 1600"

definition v616_tables :: "string \<Rightarrow> (v6_table \<times> v6_rule) list" where
  "v616_tables bs =
     [(t_clear_commands bs, \<lparr>ru_max = 4096, ru_entry_size = 32, ru_schema = 0x34f0a54df6dfbb3b, ru_align = 4\<rparr>),
      (t_clear_attachments bs, \<lparr>ru_max = 16384, ru_entry_size = 48, ru_schema = 0x476ab6f70c8d8c29, ru_align = 4\<rparr>),
      (t_clear_rects bs, \<lparr>ru_max = 16384, ru_entry_size = 32, ru_schema = 0x4dc34ebad138ca87, ru_align = 4\<rparr>)]"

definition t_query_commands :: "string \<Rightarrow> v6_table" where
  "t_query_commands = v6_table_at 1640 1644 1648"

definition v617_tables :: "string \<Rightarrow> (v6_table \<times> v6_rule) list" where
  "v617_tables bs =
     [(t_query_commands bs, \<lparr>ru_max = 4096, ru_entry_size = 56, ru_schema = 0xe3769b15473cbe2d, ru_align = 8\<rparr>)]"

definition t_copy_queries :: "string \<Rightarrow> v6_table" where
  "t_copy_queries = v6_table_at 1704 1708 1712"

definition v618_tables :: "string \<Rightarrow> (v6_table \<times> v6_rule) list" where
  "v618_tables bs =
     [(t_copy_queries bs, \<lparr>ru_max = 4096, ru_entry_size = 64, ru_schema = 0x2bac69814aa2f274, ru_align = 8\<rparr>)]"

definition t_submit_syncs :: "string \<Rightarrow> v6_table" where
  "t_submit_syncs = v6_table_at 1752 1756 1760"

definition v619_tables :: "string \<Rightarrow> (v6_table \<times> v6_rule) list" where
  "v619_tables bs =
     [(t_submit_syncs bs, \<lparr>ru_max = 64, ru_entry_size = 48, ru_schema = 0x80cc036640ce0a3a, ru_align = 8\<rparr>)]"

definition t_layout_ranges :: "string \<Rightarrow> v6_table" where
  "t_layout_ranges = v6_table_at 1800 1804 1808"

definition v620_tables :: "string \<Rightarrow> (v6_table \<times> v6_rule) list" where
  "v620_tables bs =
     [(t_layout_ranges bs, \<lparr>ru_max = 4096, ru_entry_size = 40, ru_schema = 0xa61770e90fd06da7, ru_align = 8\<rparr>)]"

text \<open>The sizes of the headers: each version adds its extension to the one before.\<close>

definition v6_header_sizes :: "u16 list" where
  "v6_header_sizes = [448, 616, 664, 712, 760, 808, 896, 1024, 1072, 1120, 1208, 1320, 1368, 1416, 1464, 1512, 1640, 1704, 1752, 1800, 1848]"

definition v6_extensions :: "(string \<Rightarrow> (v6_table \<times> v6_rule) list) list" where
  "v6_extensions =
     [v61_tables, v62_tables, v63_tables, v64_tables, v65_tables, v66_tables, v67_tables, v68_tables, v69_tables,
      v610_tables, v611_tables, v612_tables, v613_tables, v614_tables, v615_tables, v616_tables, v617_tables, v618_tables,
      v619_tables, v620_tables]"

end
