(* ===== verification/Graphics_Header.thy ===== *)
theory Graphics_Header
  imports Graphics_Layout
begin

text \<open>
  The checks of the header of a graphics frame (\<open>pdocker_gpu_executor.c\<close>), from the version it announces to the
  places of its tables, and the view of the frame that the later steps use. A C result is 0 or a negated error number.
\<close>

section \<open>Ranges\<close>

definition payload_range_valid :: "u64 \<Rightarrow> u64 \<Rightarrow> u64 \<Rightarrow> bool" where
  "payload_range_valid offset sz frame_size \<longleftrightarrow> (if sz = 0 then offset = 0 else range_within_frame offset sz frame_size)"

definition range_add_u32 :: "u32 \<Rightarrow> u32 \<Rightarrow> u32 \<Rightarrow> bool" where
  "range_add_u32 first count limit \<longleftrightarrow> \<not> limit < first \<and> \<not> limit - first < count"

definition table_range_valid :: "v6_table \<Rightarrow> u64 \<Rightarrow> u64 \<Rightarrow> u64 \<Rightarrow> bool" where
  "table_range_valid t align frame_size header_size \<longleftrightarrow>
     (if ta_count t = 0 \<or> ta_size t = 0 then ta_count t = 0 \<and> ta_size t = 0 \<and> ta_offset t = 0
      else \<not> ta_offset t < header_size \<and> \<not> (align \<noteq> 0 \<and> ta_offset t mod align \<noteq> 0) \<and>
           ucast (ta_count t) * ucast (ta_entry_size t) = ta_size t \<and>
           range_within_frame (ta_offset t) (ta_size t) frame_size)"

text \<open>The inner and the outer loop of the test for overlaps.\<close>

fun clear_of :: "u64 \<Rightarrow> u64 \<Rightarrow> (u64 \<times> u64) list \<Rightarrow> bool" where
  "clear_of a0 a1 [] \<longleftrightarrow> True"
| "clear_of a0 a1 ((b0, sz) # rs) \<longleftrightarrow>
     (if sz = 0 then clear_of a0 a1 rs
      else \<not> b0 + sz < b0 \<and> \<not> (a0 < b0 + sz \<and> b0 < a1) \<and> clear_of a0 a1 rs)"

fun frame_ranges_do_not_overlap :: "(u64 \<times> u64) list \<Rightarrow> bool" where
  "frame_ranges_do_not_overlap [] \<longleftrightarrow> True"
| "frame_ranges_do_not_overlap ((a0, sz) # rs) \<longleftrightarrow>
     (if sz = 0 then frame_ranges_do_not_overlap rs
      else \<not> a0 + sz < a0 \<and> clear_of a0 (a0 + sz) rs \<and> frame_ranges_do_not_overlap rs)"

section \<open>The version\<close>

definition V6_MAGIC :: string where "V6_MAGIC = ''PDGPUG6'' @ [CHR 0x00]"
definition V6_MAX_FRAME_BYTES :: u64 where "V6_MAX_FRAME_BYTES = 0x800000"

definition validate_vulkan_graphics_v6_header_prefix :: "v6_header \<Rightarrow> nat \<Rightarrow> int" where
  "validate_vulkan_graphics_v6_header_prefix h received_fd_count =
     (if gh_magic h \<noteq> V6_MAGIC then - EPROTO
      else if gh_abi_major h \<noteq> 6 \<or> gh_command h \<noteq> 1 \<or> gh_flags h \<noteq> 0 \<or> gh_reserved0 h \<noteq> 0 then - EPROTO
      else if 20 < gh_abi_minor h then - EPROTO
      else if gh_header_size h \<noteq> v6_header_sizes ! unat (gh_abi_minor h) then - EPROTO
      else if gh_frame_size h < ucast (gh_header_size h) \<or> V6_MAX_FRAME_BYTES < gh_frame_size h then - EMSGSIZE
      else if GPU_MAX_PASSED_FDS < unat (gh_fd_count h) \<or> unat (gh_fd_count h) \<noteq> received_fd_count then - EBADF
      else 0)"

text \<open>A version has the tables of all versions before it.\<close>

definition is_v6 :: "u16 \<Rightarrow> v6_header \<Rightarrow> bool" where
  "is_v6 k h \<longleftrightarrow> k \<le> gh_abi_minor h \<and> gh_abi_minor h \<le> 20"

definition v6_all_tables :: "string \<Rightarrow> (v6_table \<times> v6_rule) list" where
  "v6_all_tables frame =
     v6_tables frame @ concat (map (\<lambda>ext. ext frame) (take (unat (gh_abi_minor (v6_header_of frame))) v6_extensions))"

section \<open>The tables\<close>

text \<open>Version 6.11 has a block of data beside its tables, version 6.17 names the layout of the query results.\<close>

definition update_payload :: "string \<Rightarrow> u64 \<times> u64" where
  "update_payload frame = (field 1288 8 frame, field 1296 8 frame)"

definition query_result_layout_ok :: "string \<Rightarrow> bool" where
  "query_result_layout_ok frame \<longleftrightarrow> field 1680 4 frame = (16 :: u32) \<and> field 1688 8 frame = (0x58e90c4d9a3f672b :: u64)"

definition v6_ranges :: "string \<Rightarrow> v6_header \<Rightarrow> (u64 \<times> u64) list" where
  "v6_ranges frame h =
     map (\<lambda>(t, r). (ta_offset t, ta_size t)) (v6_all_tables frame) @ (if is_v6 11 h then [update_payload frame] else [])"

definition validate_vulkan_graphics_v6_header :: "string \<Rightarrow> nat \<Rightarrow> int" where
  "validate_vulkan_graphics_v6_header frame received_fd_count =
     (let h = v6_header_of frame; prefix_rc = validate_vulkan_graphics_v6_header_prefix h received_fd_count;
          ts = v6_all_tables frame in
      if prefix_rc \<noteq> 0 then prefix_rc
      else if \<exists>(t, r)\<in>set ts. ru_max r < ta_count t then - E2BIG
      else if \<exists>(t, r)\<in>set ts. ta_entry_size t \<noteq> ru_entry_size r \<or> ta_schema t \<noteq> ru_schema r then - EPROTO
      else if is_v6 17 h \<and> \<not> query_result_layout_ok frame then - EPROTO
      else if \<exists>(t, r)\<in>set ts. \<not> table_range_valid t (ru_align r) (gh_frame_size h) (ucast (gh_header_size h)) then - EPROTO
      else if is_v6 11 h \<and> \<not> payload_range_valid (fst (update_payload frame)) (snd (update_payload frame)) (gh_frame_size h)
      then - EPROTO
      else if \<not> frame_ranges_do_not_overlap (v6_ranges frame h) then - EPROTO
      else 0)"

section \<open>The view of a frame\<close>

text \<open>A table is null when it is empty or outside the frame.\<close>

definition graphics_v6_table_ptr :: "v6_table \<Rightarrow> u64 \<Rightarrow> u64 option" where
  "graphics_v6_table_ptr t frame_size =
     (if ta_size t = 0 then None
      else if \<not> range_within_frame (ta_offset t) (ta_size t) frame_size then None else Some (ta_offset t))"

definition v6_table_missing :: "v6_header \<Rightarrow> v6_table \<Rightarrow> bool" where
  "v6_table_missing h t \<longleftrightarrow> ta_count t \<noteq> 0 \<and> graphics_v6_table_ptr t (gh_frame_size h) = None"

definition entries :: "(string \<Rightarrow> 'a) \<Rightarrow> nat \<Rightarrow> v6_table \<Rightarrow> string \<Rightarrow> 'a list" where
  "entries dec sz t frame = table_at dec sz (unat (ta_offset t)) (unat (ta_count t)) frame"

record v6_view =
  gv_frame :: string
  gv_header :: v6_header
  gv_fds :: "int list"
  gv_resources :: "v5_resource list"
  gv_descriptors :: "v5_object_descriptor list"
  gv_images :: "v5_image list"
  gv_image_views :: "v5_view list"
  gv_samplers :: "v5_sampler list"
  gv_stages :: "g_stage list"
  gv_pipelines :: "g_pipeline list"
  gv_vertex_bindings :: "g_vertex_binding list"
  gv_vertex_attributes :: "g_vertex_attribute list"
  gv_attachments :: "g_attachment list"
  gv_dynamic_states :: "g_dynamic_state list"
  gv_commands :: "g_command list"
  gv_dynamic_offsets :: "g_dynamic_offset list"
  gv_push_metadata :: "g_push_metadata list"
  gv_image_barriers :: "g_image_barrier list"
  gv_memory_barriers :: "g_memory_barrier list"
  gv_buffer_barriers :: "g_buffer_barrier list"
  gv_specializations :: "g_specialization list"
  gv_depth_stencils :: "g_depth_stencil list"
  gv_resolve_attachments :: "g_resolve_attachment list"
  gv_static_states :: "g_static_state list"
  gv_blend_states :: "g_blend_state list"
  gv_blend_attachments :: "g_blend_attachment list"
  gv_viewport_states :: "g_viewport_state list"
  gv_viewports :: "g_viewport list"
  gv_scissors :: "g_scissor list"
  gv_indirect_draws :: "g_indirect_draw list"
  gv_buffer_copies :: "g_buffer_copy list"
  gv_buffer_image_copies :: "g_buffer_image_copy list"
  gv_image_copies :: "g_image_copy list"
  gv_fill_buffers :: "g_fill_buffer list"
  gv_update_buffers :: "g_update_buffer list"
  gv_clear_colors :: "g_clear_color list"
  gv_clear_depths :: "g_clear_depth list"
  gv_resolve_images :: "g_resolve_image list"
  gv_blit_images :: "g_blit_image list"
  gv_clear_commands :: "g_clear_command list"
  gv_clear_attachments :: "g_clear_attachment list"
  gv_clear_rects :: "g_clear_rect list"
  gv_query_commands :: "g_query_command list"
  gv_copy_queries :: "g_copy_query list"
  gv_submit_syncs :: "g_submit_sync list"
  gv_layout_ranges :: "g_layout_range list"

definition view_of :: "string \<Rightarrow> int list \<Rightarrow> v6_view" where
  "view_of frame fds =
     (let h = v6_header_of frame in
      \<lparr>gv_frame = frame, gv_header = h, gv_fds = fds,
       gv_resources = entries v5_resource_of 72 (t_resources frame) frame,
       gv_descriptors = entries v5_object_descriptor_of 88 (t_descriptors frame) frame,
       gv_images = entries v5_image_of 104 (t_images frame) frame,
       gv_image_views = entries v5_view_of 72 (t_image_views frame) frame,
       gv_samplers = entries v5_sampler_of 88 (t_samplers frame) frame,
       gv_stages = entries g_stage_of 64 (t_stages frame) frame,
       gv_pipelines = entries g_pipeline_of 176 (t_pipelines frame) frame,
       gv_vertex_bindings = entries g_vertex_binding_of 32 (t_vertex_bindings frame) frame,
       gv_vertex_attributes = entries g_vertex_attribute_of 16 (t_vertex_attributes frame) frame,
       gv_attachments = entries g_attachment_of 72 (t_attachments frame) frame,
       gv_dynamic_states = entries g_dynamic_state_of 40 (t_dynamic_states frame) frame,
       gv_commands = entries g_command_of 160 (t_commands frame) frame,
       gv_dynamic_offsets = (if is_v6 1 h then entries g_dynamic_offset_of 8 (t_dynamic_offsets frame) frame else []),
       gv_push_metadata = (if is_v6 1 h then entries g_push_metadata_of 24 (t_push_metadata frame) frame else []),
       gv_image_barriers = (if is_v6 1 h then entries g_image_barrier_of 88 (t_image_barriers frame) frame else []),
       gv_memory_barriers = (if is_v6 1 h then entries g_memory_barrier_of 40 (t_memory_barriers frame) frame else []),
       gv_buffer_barriers = (if is_v6 1 h then entries g_buffer_barrier_of 72 (t_buffer_barriers frame) frame else []),
       gv_specializations = (if is_v6 2 h then entries g_specialization_of 24 (t_specializations frame) frame else []),
       gv_depth_stencils = (if is_v6 3 h then entries g_depth_stencil_of 80 (t_depth_stencils frame) frame else []),
       gv_resolve_attachments = (if is_v6 4 h then entries g_resolve_attachment_of 16 (t_resolve_attachments frame) frame else []),
       gv_static_states = (if is_v6 5 h then entries g_static_state_of 32 (t_static_states frame) frame else []),
       gv_blend_states = (if is_v6 6 h then entries g_blend_state_of 40 (t_blend_states frame) frame else []),
       gv_blend_attachments = (if is_v6 6 h then entries g_blend_attachment_of 40 (t_blend_attachments frame) frame else []),
       gv_viewport_states = (if is_v6 7 h then entries g_viewport_state_of 32 (t_viewport_states frame) frame else []),
       gv_viewports = (if is_v6 7 h then entries g_viewport_of 32 (t_viewports frame) frame else []),
       gv_scissors = (if is_v6 7 h then entries g_scissor_of 32 (t_scissors frame) frame else []),
       gv_indirect_draws = (if is_v6 8 h then entries g_indirect_draw_of 40 (t_indirect_draws frame) frame else []),
       gv_buffer_copies = (if is_v6 9 h then entries g_buffer_copy_of 40 (t_buffer_copies frame) frame else []),
       gv_buffer_image_copies = (if is_v6 10 h then entries g_buffer_image_copy_of 80 (t_buffer_image_copies frame) frame else []),
       gv_image_copies = (if is_v6 10 h then entries g_image_copy_of 88 (t_image_copies frame) frame else []),
       gv_fill_buffers = (if is_v6 11 h then entries g_fill_buffer_of 40 (t_fill_buffers frame) frame else []),
       gv_update_buffers = (if is_v6 11 h then entries g_update_buffer_of 48 (t_update_buffers frame) frame else []),
       gv_clear_colors = (if is_v6 12 h then entries g_clear_color_of 64 (t_clear_colors frame) frame else []),
       gv_clear_depths = (if is_v6 13 h then entries g_clear_depth_of 64 (t_clear_depths frame) frame else []),
       gv_resolve_images = (if is_v6 14 h then entries g_resolve_image_of 88 (t_resolve_images frame) frame else []),
       gv_blit_images = (if is_v6 15 h then entries g_blit_image_of 112 (t_blit_images frame) frame else []),
       gv_clear_commands = (if is_v6 16 h then entries g_clear_command_of 32 (t_clear_commands frame) frame else []),
       gv_clear_attachments = (if is_v6 16 h then entries g_clear_attachment_of 48 (t_clear_attachments frame) frame else []),
       gv_clear_rects = (if is_v6 16 h then entries g_clear_rect_of 32 (t_clear_rects frame) frame else []),
       gv_query_commands = (if is_v6 17 h then entries g_query_command_of 56 (t_query_commands frame) frame else []),
       gv_copy_queries = (if is_v6 18 h then entries g_copy_query_of 64 (t_copy_queries frame) frame else []),
       gv_submit_syncs = (if is_v6 19 h then entries g_submit_sync_of 48 (t_submit_syncs frame) frame else []),
       gv_layout_ranges = (if is_v6 20 h then entries g_layout_range_of 40 (t_layout_ranges frame) frame else [])\<rparr>)"

definition init_vulkan_graphics_v6_frame_view :: "string \<Rightarrow> int list \<Rightarrow> int + v6_view" where
  "init_vulkan_graphics_v6_frame_view frame fds =
     (let rc = validate_vulkan_graphics_v6_header frame (length fds) in
      if rc \<noteq> 0 then Inl rc
      else if \<exists>(t, r)\<in>set (v6_all_tables frame). v6_table_missing (v6_header_of frame) t then Inl (- EPROTO)
      else Inr (view_of frame fds))"

end
