(* ===== verification/Graphics_Ranges.thy ===== *)
theory Graphics_Ranges
  imports Graphics_Header
begin

text \<open>
  What the checks of a graphics frame's contents share (\<open>pdocker_gpu_executor.c\<close>): the outcome of a check, reads of a
  table and of the arrays that mark the commands already seen, the hash, and the checks of ranges of buffers and images.
\<close>

section \<open>Outcomes\<close>

text \<open>
  A check passes, refuses the frame with a C result, or strays: it reads outside a table or shifts a 32-bit value by 32
  bits or more, which C leaves undefined.
\<close>

datatype verdict = Pass | Refuse int | Stray

fun first_fault :: "verdict list \<Rightarrow> verdict" where
  "first_fault [] = Pass"
| "first_fault (v # vs) = (if v = Pass then first_fault vs else v)"

definition refuse_if :: "bool \<Rightarrow> int \<Rightarrow> verdict" where
  "refuse_if b e = (if b then Refuse (- e) else Pass)"

definition at :: "'a list \<Rightarrow> u32 \<Rightarrow> ('a \<Rightarrow> verdict) \<Rightarrow> verdict" where
  "at xs i k = (if unat i < length xs then k (xs ! unat i) else Stray)"

definition each :: "('a \<Rightarrow> verdict) \<Rightarrow> 'a list \<Rightarrow> verdict" where
  "each f xs = first_fault (map f xs)"

text \<open>The entries \<open>first\<close>, \<open>first + 1\<close>, ... of a table.\<close>

definition indices :: "u32 \<Rightarrow> u32 \<Rightarrow> u32 list" where
  "indices first n = map (\<lambda>d. first + of_nat d) [0..<unat n]"

definition each_at :: "'a list \<Rightarrow> u32 list \<Rightarrow> ('a \<Rightarrow> verdict) \<Rightarrow> verdict" where
  "each_at xs is f = each (\<lambda>i. at xs i f) is"

definition unmarked :: "nat \<Rightarrow> bool list" where
  "unmarked n = replicate n False"

lemma length_unmarked [simp]: "length (unmarked n) = n"
  by (simp add: unmarked_def)

text \<open>A loop that marks in the array \<open>seen\<close> what each entry is for, and the array after it.\<close>

definition mark :: "u32 \<Rightarrow> bool list \<Rightarrow> bool list" where
  "mark i seen = seen[unat i := True]"

fun each_once :: "('a \<Rightarrow> u32) \<Rightarrow> (bool list \<Rightarrow> 'a \<Rightarrow> verdict) \<Rightarrow> bool list \<Rightarrow> 'a list \<Rightarrow> verdict" where
  "each_once key f seen [] = Pass"
| "each_once key f seen (x # xs) = first_fault [f seen x, each_once key f (mark (key x) seen) xs]"

fun each_at_once ::
  "'a list \<Rightarrow> ('a \<Rightarrow> u32) \<Rightarrow> (bool list \<Rightarrow> 'a \<Rightarrow> verdict) \<Rightarrow> bool list \<Rightarrow> u32 list \<Rightarrow> verdict" where
  "each_at_once xs key f seen [] = Pass"
| "each_at_once xs key f seen (i # is) =
     at xs i (\<lambda>x. first_fault [f seen x, each_at_once xs key f (mark (key x) seen) is])"

definition marked :: "nat \<Rightarrow> u32 list \<Rightarrow> bool list" where
  "marked n ks = fold mark ks (unmarked n)"

definition as_error :: "int \<Rightarrow> verdict \<Rightarrow> verdict" where
  "as_error e v = (case v of Refuse x \<Rightarrow> Refuse (- e) | _ \<Rightarrow> v)"

lemma first_fault_Pass [simp]: "first_fault vs = Pass \<longleftrightarrow> (\<forall>v\<in>set vs. v = Pass)"
  by (induction vs) auto

lemma first_fault_Stray [simp]: "first_fault (v # vs) = Stray \<longleftrightarrow> v = Stray \<or> v = Pass \<and> first_fault vs = Stray"
  by auto

lemma refuse_if_Pass [simp]: "refuse_if b e = Pass \<longleftrightarrow> \<not> b"
  and refuse_if_Stray [simp]: "refuse_if b e \<noteq> Stray"
  by (simp_all add: refuse_if_def)

lemma at_Pass [simp]: "at xs i k = Pass \<longleftrightarrow> unat i < length xs \<and> k (xs ! unat i) = Pass"
  and at_Stray [simp]: "at xs i k = Stray \<longleftrightarrow> (unat i < length xs \<longrightarrow> k (xs ! unat i) = Stray)"
  by (auto simp: at_def)

lemma each_Pass [simp]: "each f xs = Pass \<longleftrightarrow> (\<forall>x\<in>set xs. f x = Pass)"
  by (simp add: each_def)

lemma each_safe [intro]: "(\<And>x. x \<in> set xs \<Longrightarrow> f x \<noteq> Stray) \<Longrightarrow> each f xs \<noteq> Stray"
  unfolding each_def by (induction xs) auto

lemma as_error_Pass [simp]: "as_error e v = Pass \<longleftrightarrow> v = Pass"
  and as_error_Stray [simp]: "as_error e v = Stray \<longleftrightarrow> v = Stray"
  by (auto simp: as_error_def split: verdict.splits)

section \<open>Hashes\<close>

abbreviation FNV_INIT :: u64 where "FNV_INIT \<equiv> 1469598103934665603"

definition fnv1a64_update :: "u64 \<Rightarrow> string \<Rightarrow> u64" where
  "fnv1a64_update h bs = foldl (\<lambda>h c. (h XOR of_char c) * 1099511628211) h bs"

lemma fnv1a64_update_append: "fnv1a64_update h (xs @ ys) = fnv1a64_update (fnv1a64_update h xs) ys"
  by (simp add: fnv1a64_update_def)

definition bytes_at :: "string \<Rightarrow> u64 \<Rightarrow> u64 \<Rightarrow> string" where
  "bytes_at frame off sz = take (unat sz) (drop (unat off) frame)"

text \<open>The hash of a file's first bytes, read in pieces of 16384; 0 when a read returns less than it was asked for.\<close>

function hash_chunks :: "string \<Rightarrow> nat \<Rightarrow> nat \<Rightarrow> u64 \<Rightarrow> u64" where
  "hash_chunks file pos sz h =
     (if pos < sz then
        let chunk = min (sz - pos) 16384; got = take chunk (drop pos file) in
        if length got \<noteq> chunk then 0 else hash_chunks file (pos + chunk) sz (fnv1a64_update h got)
      else h)"
  by auto
termination by (relation "measure (\<lambda>(file, pos, sz, h). sz - pos)") (auto simp: min_def)

declare hash_chunks.simps [simp del]

definition full_fd_hash :: "(int \<Rightarrow> string) \<Rightarrow> int \<Rightarrow> nat \<Rightarrow> u64" where
  "full_fd_hash files fd sz = (if fd < 0 then 0 else hash_chunks (files fd) 0 sz FNV_INIT)"

section \<open>Ranges of buffers\<close>

definition u64_range_within_size :: "u64 \<Rightarrow> u64 \<Rightarrow> u64 \<Rightarrow> bool" where
  "u64_range_within_size offset sz limit \<longleftrightarrow> \<not> limit < offset \<and> \<not> limit - offset < sz"

definition checked_mul_u64_executor :: "u64 \<Rightarrow> u64 \<Rightarrow> u64 option" where
  "checked_mul_u64_executor a b = (if a \<noteq> 0 \<and> UINT64_MAX div a < b then None else Some (a * b))"

section \<open>Formats\<close>

definition vulkan_format_bytes_per_pixel_conservative :: "u32 \<Rightarrow> u32" where
  "vulkan_format_bytes_per_pixel_conservative f =
     (if f \<in> set [9, 10, 13, 14] then 1
      else if f \<in> set [16, 17, 20, 21, 76, 74, 75] then 2
      else if f \<in> set [37, 38, 41, 42, 44, 83, 100, 98, 99] then 4
      else if f \<in> set [97, 103, 101, 102] then 8
      else 16)"

abbreviation (input) ASPECT_COLOR :: u32 where "ASPECT_COLOR \<equiv> 1"
abbreviation (input) ASPECT_DEPTH :: u32 where "ASPECT_DEPTH \<equiv> 2"
abbreviation (input) ASPECT_STENCIL :: u32 where "ASPECT_STENCIL \<equiv> 4"

definition vulkan_format_bytes_per_pixel_for_aspect :: "u32 \<Rightarrow> u32 \<Rightarrow> u32" where
  "vulkan_format_bytes_per_pixel_for_aspect f aspect =
     (if aspect = ASPECT_DEPTH then
        (if f \<in> set [124, 128] then 2 else if f \<in> set [125, 129, 126, 130] then 4 else 0)
      else if aspect = ASPECT_STENCIL then (if f \<in> set [127, 128, 129, 130] then 1 else 0)
      else if aspect = ASPECT_COLOR then vulkan_format_bytes_per_pixel_conservative f
      else 0)"

section \<open>Ranges of images\<close>

text \<open>The extent of a mip level; the shift by 32 or more is undefined.\<close>

definition mip_extent :: "u32 \<Rightarrow> u32 \<Rightarrow> u32" where
  "mip_extent extent level = (let e = drop_bit (unat level) extent in if e = 0 then 1 else e)"

definition outside_extent :: "u32 \<Rightarrow> u32 \<Rightarrow> u32 \<Rightarrow> bool" where
  "outside_extent offset extent limit \<longleftrightarrow> limit < offset \<or> limit - offset < extent"

definition vulkan_graphics_v610_image_subresource_range_valid ::
  "v5_image \<Rightarrow> u32 \<Rightarrow> u32 \<Rightarrow> u32 \<Rightarrow> u32 \<Rightarrow> u32 \<times> u32 \<times> u32 \<Rightarrow> u32 \<times> u32 \<times> u32 \<Rightarrow> verdict" where
  "vulkan_graphics_v610_image_subresource_range_valid im aspect mip base layers offs ext =
     (let (x, y, z) = offs; (w, h, d) = ext in
      if aspect \<noteq> ASPECT_COLOR \<or> layers = 0 \<or> w = 0 \<or> h = 0 \<or> d = 0 \<or> x <s 0 \<or> y <s 0 \<or> z <s 0 \<or>
         vi_mip_levels im \<le> mip \<or> vi_array_layers im \<le> base \<or> vi_array_layers im - base < layers
      then Refuse (- EINVAL)
      else if 32 \<le> mip then Stray
      else refuse_if (outside_extent x w (mip_extent (vi_extent_width im) mip) \<or>
                      outside_extent y h (mip_extent (vi_extent_height im) mip) \<or>
                      outside_extent z d (mip_extent (vi_extent_depth im) mip)) ERANGE)"

definition vulkan_graphics_v615_image_blit_subresource_valid ::
  "v5_image \<Rightarrow> u32 \<Rightarrow> u32 \<Rightarrow> u32 \<Rightarrow> u32 \<Rightarrow> u32 \<times> u32 \<times> u32 \<Rightarrow> u32 \<times> u32 \<times> u32 \<Rightarrow> verdict" where
  "vulkan_graphics_v615_image_blit_subresource_valid im aspect mip base layers offs0 offs1 =
     (let (x0, y0, z0) = offs0; (x1, y1, z1) = offs1 in
      if aspect \<noteq> ASPECT_COLOR \<or> layers = 0 \<or> x0 <s 0 \<or> y0 <s 0 \<or> z0 <s 0 \<or> x1 <s 0 \<or> y1 <s 0 \<or> z1 <s 0 \<or>
         x0 = x1 \<or> y0 = y1 \<or> z0 = z1 \<or>
         vi_mip_levels im \<le> mip \<or> vi_array_layers im \<le> base \<or> vi_array_layers im - base < layers
      then Refuse (- EINVAL)
      else if 32 \<le> mip then Stray
      else let mw = mip_extent (vi_extent_width im) mip; mh = mip_extent (vi_extent_height im) mip;
               md = mip_extent (vi_extent_depth im) mip in
        refuse_if (mw < x0 \<or> mw < x1 \<or> mh < y0 \<or> mh < y1 \<or> md < z0 \<or> md < z1) ERANGE)"

text \<open>The bytes of a buffer that a copy to or from an image takes: the error, or the number of bytes.\<close>

definition copy_row_texels :: "g_buffer_image_copy \<Rightarrow> u64" where
  "copy_row_texels c = ucast (if gbi_buffer_row_length c \<noteq> 0 then gbi_buffer_row_length c else gbi_image_extent_width c)"

definition copy_image_rows :: "g_buffer_image_copy \<Rightarrow> u64" where
  "copy_image_rows c = ucast (if gbi_buffer_image_height c \<noteq> 0 then gbi_buffer_image_height c else gbi_image_extent_height c)"

definition copy_span_bytes :: "g_buffer_image_copy \<Rightarrow> u64 \<Rightarrow> u64 option" where
  "copy_span_bytes c bpp =
     Option.bind (checked_mul_u64_executor (copy_row_texels c) bpp) (\<lambda>row_bytes.
     Option.bind (checked_mul_u64_executor row_bytes (copy_image_rows c)) (\<lambda>slice_bytes.
     Option.bind (checked_mul_u64_executor slice_bytes (ucast (gbi_image_extent_depth c))) (\<lambda>layer_bytes.
     Option.bind (checked_mul_u64_executor layer_bytes (ucast (gbi_layer_count c - 1))) (\<lambda>layer_skip.
     Option.bind (checked_mul_u64_executor slice_bytes (ucast (gbi_image_extent_depth c - 1))) (\<lambda>z_skip.
     Option.bind (checked_mul_u64_executor row_bytes (ucast (gbi_image_extent_height c - 1))) (\<lambda>y_skip.
     Option.bind (checked_mul_u64_executor (ucast (gbi_image_extent_width c)) bpp) (\<lambda>last_row.
     Option.bind (checked_u64_add3 layer_skip z_skip y_skip) (\<lambda>span. checked_u64_add3 span last_row 0))))))))"

definition vulkan_graphics_v610_buffer_image_copy_span :: "g_buffer_image_copy \<Rightarrow> v5_image \<Rightarrow> int + u64" where
  "vulkan_graphics_v610_buffer_image_copy_span c im =
     (let bpp = vulkan_format_bytes_per_pixel_conservative (vi_format im) in
      if gbi_image_extent_width c = 0 \<or> gbi_image_extent_height c = 0 \<or> gbi_image_extent_depth c = 0 \<or> gbi_layer_count c = 0
      then Inl (- EINVAL)
      else if bpp = 0 then Inl (- EOPNOTSUPP)
      else if copy_row_texels c < ucast (gbi_image_extent_width c) \<or> copy_image_rows c < ucast (gbi_image_extent_height c)
      then Inl (- EINVAL)
      else case copy_span_bytes c (ucast bpp) of None \<Rightarrow> Inl (- EOVERFLOW) | Some n \<Rightarrow> Inr n)"

definition vulkan_graphics_v618_copy_query_result_item_size :: "u32 \<Rightarrow> int + u64" where
  "vulkan_graphics_v618_copy_query_result_item_size flags =
     (if flags AND NOT 15 \<noteq> 0 then Inl (- EOPNOTSUPP)
      else let scalar = (if flags AND 1 \<noteq> 0 then 8 else 4) in
        Inr (if flags AND 4 \<noteq> 0 then scalar + scalar else scalar))"

definition vulkan_graphics_v618_copy_query_result_span :: "g_copy_query \<Rightarrow> int + u64" where
  "vulkan_graphics_v618_copy_query_result_span e =
     (if gcq_query_count e = 0 then Inl (- EINVAL)
      else case vulkan_graphics_v618_copy_query_result_item_size (gcq_flags e) of
        Inl rc \<Rightarrow> Inl rc
      | Inr item \<Rightarrow>
          (if gcq_stride e mod 4 \<noteq> 0 \<or> gcq_stride e < item then Inl (- EPROTO)
           else case Option.bind (checked_mul_u64_executor (ucast (gcq_query_count e - 1)) (gcq_stride e))
                       (\<lambda>last. checked_u64_add3 last item 0) of
             None \<Rightarrow> Inl (- EOVERFLOW) | Some n \<Rightarrow> Inr n))"

section \<open>Layouts\<close>

abbreviation (input) LAYOUT_GENERAL :: u32 where "LAYOUT_GENERAL \<equiv> 1"
abbreviation (input) LAYOUT_COLOR :: u32 where "LAYOUT_COLOR \<equiv> 2"
abbreviation (input) LAYOUT_DEPTH_STENCIL :: u32 where "LAYOUT_DEPTH_STENCIL \<equiv> 3"
abbreviation (input) LAYOUT_DEPTH :: u32 where "LAYOUT_DEPTH \<equiv> 1000241000"
abbreviation (input) LAYOUT_STENCIL :: u32 where "LAYOUT_STENCIL \<equiv> 1000241002"
abbreviation (input) LAYOUT_ATTACHMENT :: u32 where "LAYOUT_ATTACHMENT \<equiv> 1000314001"

definition vulkan_graphics_v620_layout_value_valid :: "v5_image \<Rightarrow> u32 \<Rightarrow> bool" where
  "vulkan_graphics_v620_layout_value_valid im layout \<longleftrightarrow>
     layout \<in> set [0, LAYOUT_GENERAL, LAYOUT_COLOR, LAYOUT_DEPTH_STENCIL, 4, 5, 6, 7, 1000117000, 1000117001, LAYOUT_DEPTH,
                   1000241001, LAYOUT_STENCIL, 1000241003, 1000314000, LAYOUT_ATTACHMENT] \<or>
     layout = 8 \<and> vi_tiling im = 1"

definition vulkan_graphics_v620_image_aspect_valid :: "v5_image \<Rightarrow> u32 \<Rightarrow> bool" where
  "vulkan_graphics_v620_image_aspect_valid im aspect \<longleftrightarrow>
     (if aspect = 0 then False
      else if aspect = ASPECT_COLOR then vulkan_format_bytes_per_pixel_for_aspect (vi_format im) aspect \<noteq> 0
      else \<not> aspect AND NOT (ASPECT_DEPTH OR ASPECT_STENCIL) \<noteq> 0 \<and>
           \<not> (aspect AND ASPECT_DEPTH \<noteq> 0 \<and> vulkan_format_bytes_per_pixel_for_aspect (vi_format im) ASPECT_DEPTH = 0) \<and>
           \<not> (aspect AND ASPECT_STENCIL \<noteq> 0 \<and> vulkan_format_bytes_per_pixel_for_aspect (vi_format im) ASPECT_STENCIL = 0))"

definition vulkan_graphics_v620_image_layout_ranges_overlap :: "g_layout_range \<Rightarrow> g_layout_range \<Rightarrow> bool" where
  "vulkan_graphics_v620_image_layout_ranges_overlap a b \<longleftrightarrow>
     (if glr_image_index a \<noteq> glr_image_index b then False
      else if glr_aspect_mask a AND glr_aspect_mask b = 0 then False
      else let a_mip_end = (ucast (glr_base_mip_level a) + ucast (glr_level_count a) :: u64);
               b_mip_end = (ucast (glr_base_mip_level b) + ucast (glr_level_count b) :: u64);
               a_layer_end = (ucast (glr_base_array_layer a) + ucast (glr_layer_count a) :: u64);
               b_layer_end = (ucast (glr_base_array_layer b) + ucast (glr_layer_count b) :: u64) in
        ucast (glr_base_mip_level a) < b_mip_end \<and> ucast (glr_base_mip_level b) < a_mip_end \<and>
        ucast (glr_base_array_layer a) < b_layer_end \<and> ucast (glr_base_array_layer b) < a_layer_end)"

definition levels_outside :: "v5_image \<Rightarrow> u32 \<Rightarrow> u32 \<Rightarrow> u32 \<Rightarrow> u32 \<Rightarrow> bool" where
  "levels_outside im base_mip levels base_layer layers \<longleftrightarrow>
     vi_mip_levels im \<le> base_mip \<or> vi_mip_levels im - base_mip < levels \<or>
     vi_array_layers im \<le> base_layer \<or> vi_array_layers im - base_layer < layers"

definition check_layout_range :: "v5_image list \<Rightarrow> g_layout_range \<Rightarrow> g_layout_range list \<Rightarrow> verdict" where
  "check_layout_range images e others =
     first_fault
       [refuse_if (glr_reserved0 e \<noteq> 0 \<or> length images \<le> unat (glr_image_index e) \<or> glr_level_count e = 0 \<or>
                   glr_layer_count e = 0) EPROTO,
        at images (glr_image_index e) (\<lambda>im.
          refuse_if (\<not> vulkan_graphics_v620_image_aspect_valid im (glr_aspect_mask e) \<or>
                     \<not> vulkan_graphics_v620_layout_value_valid im (glr_layout e) \<or>
                     levels_outside im (glr_base_mip_level e) (glr_level_count e) (glr_base_array_layer e) (glr_layer_count e))
            ERANGE),
        each (\<lambda>x. refuse_if (vulkan_graphics_v620_image_layout_ranges_overlap e x \<and> glr_layout e \<noteq> glr_layout x) EOPNOTSUPP)
          others]"

fun validate_vulkan_graphics_v620_image_layout_ranges :: "v5_image list \<Rightarrow> g_layout_range list \<Rightarrow> verdict" where
  "validate_vulkan_graphics_v620_image_layout_ranges images [] = Pass"
| "validate_vulkan_graphics_v620_image_layout_ranges images (e # es) =
     first_fault [check_layout_range images e es, validate_vulkan_graphics_v620_image_layout_ranges images es]"

definition vulkan_graphics_attachment_layout_supported :: "u32 \<Rightarrow> u32 \<Rightarrow> bool" where
  "vulkan_graphics_attachment_layout_supported role layout \<longleftrightarrow>
     (if role = 1 then layout = LAYOUT_COLOR \<or> layout = LAYOUT_GENERAL \<or> layout = LAYOUT_ATTACHMENT
      else if role = 2 then layout = LAYOUT_DEPTH \<or> layout = LAYOUT_DEPTH_STENCIL \<or> layout = LAYOUT_GENERAL \<or>
        layout = LAYOUT_ATTACHMENT
      else if role = 3 then layout = LAYOUT_STENCIL \<or> layout = LAYOUT_DEPTH_STENCIL \<or> layout = LAYOUT_GENERAL \<or>
        layout = LAYOUT_ATTACHMENT
      else False)"

definition vulkan_graphics_barrier_queue_family_replayable :: "u32 \<Rightarrow> u32 \<Rightarrow> bool" where
  "vulkan_graphics_barrier_queue_family_replayable src dst \<longleftrightarrow> src = 0xffffffff \<and> dst = 0xffffffff \<or> src = dst"

end
