(* ===== verification/Graphics_Content.thy ===== *)
theory Graphics_Content
  imports Graphics_Ranges
begin

text \<open>
  The checks of a graphics frame's contents that do not depend on its commands: the hashes, the objects (memories,
  buffers, images, views, descriptors), the shader stages and the state of the pipelines
  (\<open>validate_vulkan_graphics_v6_frame_content\<close>, \<open>pdocker_gpu_executor.c\<close>). One definition per block of the C
  function, in its order within this theory; the whole function is put together in \<open>Graphics_Commands\<close>.
\<close>

definition since :: "u16 \<Rightarrow> v6_view \<Rightarrow> verdict \<Rightarrow> verdict" where
  "since k v check = (if is_v6 k (gv_header v) then check else Pass)"

section \<open>Hashes\<close>

definition table_bytes_of :: "v6_view \<Rightarrow> v6_table \<Rightarrow> string" where
  "table_bytes_of v t = bytes_at (gv_frame v) (ta_offset t) (ta_size t)"

definition extension_hash :: "v6_view \<Rightarrow> (string \<Rightarrow> v6_table) list \<Rightarrow> u64" where
  "extension_hash v ts = foldl (\<lambda>h t. fnv1a64_update h (table_bytes_of v (t (gv_frame v)))) FNV_INIT ts"

text \<open>The hash of each table of an extension, and the hash of all of them.\<close>

definition check_hashes :: "(((string \<Rightarrow> v6_table) \<times> nat) list \<times> nat) \<Rightarrow> v6_view \<Rightarrow> verdict" where
  "check_hashes x v =
     (let (ts, ext) = x in
      refuse_if ((\<exists>(t, off)\<in>set ts. extension_hash v [t] \<noteq> field off 8 (gv_frame v)) \<or>
                 extension_hash v (map fst ts) \<noteq> field ext 8 (gv_frame v)) EPROTO)"

definition check_frame_hashes :: "v6_view \<Rightarrow> verdict" where
  "check_frame_hashes v =
     (let h = gv_header v; frame = gv_frame v; sz = unat (gh_header_size h) in
      first_fault
        [refuse_if (fnv1a64_update FNV_INIT (take (unat (gh_frame_size h) - sz) (drop sz frame)) \<noteq> gh_payload_hash h) EPROTO,
         refuse_if (fnv1a64_update FNV_INIT
                      (take 440 frame @ replicate 8 (CHR 0x00) @ take (unat (gh_frame_size h) - 448) (drop 448 frame))
                    \<noteq> gh_frame_hash h) EPROTO])"

definition check_hashes_v61_v67 :: "v6_view \<Rightarrow> verdict" where
  "check_hashes_v61_v67 v =
     first_fault
       [since 1 v (refuse_if (extension_hash v [t_dynamic_offsets, t_push_metadata, t_image_barriers, t_memory_barriers,
          t_buffer_barriers] \<noteq> field 608 8 (gv_frame v)) EPROTO),
        since 2 v (check_hashes ([(t_specializations, 648)], 656) v),
        since 3 v (check_hashes ([(t_depth_stencils, 696)], 704) v),
        since 4 v (check_hashes ([(t_resolve_attachments, 744)], 752) v),
        since 5 v (check_hashes ([(t_static_states, 792)], 800) v),
        since 6 v (check_hashes ([(t_blend_states, 840), (t_blend_attachments, 880)], 888) v),
        since 7 v (check_hashes ([(t_viewport_states, 928), (t_viewports, 968), (t_scissors, 1008)], 1016) v)]"

definition check_hashes_v611 :: "v6_view \<Rightarrow> verdict" where
  "check_hashes_v611 v =
     (let frame = gv_frame v; (off, sz) = update_payload frame; payload = bytes_at frame off sz in
      refuse_if (extension_hash v [t_fill_buffers] \<noteq> field 1240 8 frame \<or>
                 extension_hash v [t_update_buffers] \<noteq> field 1280 8 frame \<or>
                 fnv1a64_update FNV_INIT payload \<noteq> field 1304 8 frame \<or>
                 fnv1a64_update (extension_hash v [t_fill_buffers, t_update_buffers]) payload \<noteq> field 1312 8 frame) EPROTO)"

definition check_hashes_v68_v616 :: "v6_view \<Rightarrow> verdict" where
  "check_hashes_v68_v616 v =
     first_fault
       [since 8 v (check_hashes ([(t_indirect_draws, 1056)], 1064) v),
        since 9 v (check_hashes ([(t_buffer_copies, 1104)], 1112) v),
        since 10 v (check_hashes ([(t_buffer_image_copies, 1152), (t_image_copies, 1192)], 1200) v),
        since 11 v (check_hashes_v611 v),
        since 12 v (check_hashes ([(t_clear_colors, 1352)], 1360) v),
        since 13 v (check_hashes ([(t_clear_depths, 1400)], 1408) v),
        since 14 v (check_hashes ([(t_resolve_images, 1448)], 1456) v),
        since 15 v (check_hashes ([(t_blit_images, 1496)], 1504) v),
        since 16 v (check_hashes ([(t_clear_commands, 1544), (t_clear_attachments, 1584), (t_clear_rects, 1624)], 1632) v)]"

section \<open>The submission's waits, signals and fences\<close>

abbreviation (input) SYNC_TIMELINE :: u32 where "SYNC_TIMELINE \<equiv> 1"
abbreviation (input) SYNC_BINARY :: u32 where "SYNC_BINARY \<equiv> 2"

definition check_submit_sync :: "g_submit_sync \<Rightarrow> verdict" where
  "check_submit_sync e =
     (let modes = SYNC_TIMELINE OR SYNC_BINARY; mode_flags = gsy_flags e AND modes in
      first_fault
        [refuse_if (gsy_reserved0 e \<noteq> 0 \<or> gsy_flags e AND NOT modes \<noteq> 0 \<or> mode_flags = modes) EPROTO,
         (if gsy_sync_type e = 1 \<or> gsy_sync_type e = 2 then
            refuse_if (mode_flags = 0 \<or> gsy_semaphore_id e = 0 \<or> gsy_fence_id e \<noteq> 0) EPROTO
          else if gsy_sync_type e = 3 then
            refuse_if (mode_flags \<noteq> 0 \<or> gsy_flags e \<noteq> 0 \<or> gsy_value e \<noteq> 0 \<or> gsy_fence_id e = 0 \<or>
                       gsy_semaphore_id e \<noteq> 0 \<or> gsy_stage_mask e \<noteq> 0) EPROTO
          else Refuse (- EPROTO)),
         refuse_if (gsy_flags e AND SYNC_BINARY \<noteq> 0 \<and> gsy_value e \<noteq> 0) EPROTO])"

definition check_hashes_v617_v620 :: "v6_view \<Rightarrow> verdict" where
  "check_hashes_v617_v620 v =
     first_fault
       [since 17 v (check_hashes ([(t_query_commands, 1672)], 1696) v),
        since 18 v (check_hashes ([(t_copy_queries, 1736)], 1744) v),
        since 19 v (first_fault
          [check_hashes ([(t_submit_syncs, 1784)], 1792) v, each check_submit_sync (gv_submit_syncs v)]),
        since 20 v (first_fault
          [check_hashes ([(t_layout_ranges, 1832)], 1840) v,
           validate_vulkan_graphics_v620_image_layout_ranges (gv_images v) (gv_layout_ranges v)])]"

section \<open>Objects\<close>

definition check_v6_resource :: "v5_resource list \<Rightarrow> int list \<Rightarrow> v5_resource \<Rightarrow> verdict" where
  "check_v6_resource rs fds r =
     first_fault
       [(if vr_resource_type r = RESOURCE_MEMORY then
           refuse_if (vr_parent_resource_index r \<noteq> V5_NONE \<or>
                      vr_fd_index r \<noteq> V5_NONE \<and> length fds \<le> unat (vr_fd_index r)) EPROTO
         else if vr_resource_type r = RESOURCE_BUFFER then
           first_fault
             [refuse_if (vr_fd_index r \<noteq> V5_NONE \<or> length rs \<le> unat (vr_parent_resource_index r)) EPROTO,
              at rs (vr_parent_resource_index r) (\<lambda>mem.
                if vr_resource_type mem \<noteq> RESOURCE_MEMORY then Refuse (- EPROTO)
                else refuse_if (\<not> u64_range_within_size (vr_memory_offset r) (vr_size r) (vr_size mem)) ERANGE)]
         else if vr_resource_type r \<in> set [RESOURCE_IMAGE, RESOURCE_IMAGE_VIEW, RESOURCE_SAMPLER] then
           refuse_if (vr_fd_index r \<noteq> V5_NONE) EPROTO
         else Refuse (- EPROTO)),
        refuse_if (vr_parent_resource_index r \<noteq> V5_NONE \<and> length rs \<le> unat (vr_parent_resource_index r)) EPROTO]"

definition check_v6_image :: "v5_resource list \<Rightarrow> v5_image \<Rightarrow> verdict" where
  "check_v6_image rs im =
     first_fault
       [refuse_if (length rs \<le> unat (vi_memory_resource_index im)) EPROTO,
        at rs (vi_memory_resource_index im) (\<lambda>mem.
          if vr_resource_type mem \<noteq> RESOURCE_MEMORY then Refuse (- EPROTO)
          else refuse_if (\<not> u64_range_within_size (vi_memory_offset im) (vi_memory_size im) (vr_size mem)) ERANGE)]"

text \<open>The bytes of the buffer that a descriptor names, from its offset (given) on.\<close>

definition check_descriptor_range :: "v5_resource \<Rightarrow> v5_object_descriptor \<Rightarrow> u64 \<Rightarrow> verdict" where
  "check_descriptor_range buf d dyn =
     (case checked_u64_add3 (vo_buffer_offset d) dyn 0 of
        None \<Rightarrow> Refuse (- EOVERFLOW)
      | Some off \<Rightarrow>
          (if vo_range d = UINT64_MAX \<and> vr_size buf < off then Refuse (- ERANGE)
           else let range = (if vo_range d = UINT64_MAX then vr_size buf - off else vo_range d) in
             refuse_if (\<not> u64_range_within_size off range (vr_size buf)) ERANGE))"

definition check_v6_descriptor :: "v6_view \<Rightarrow> v5_object_descriptor \<Rightarrow> verdict" where
  "check_v6_descriptor v d =
     (let rs = gv_resources v; ri = vo_resource_index d; vi = vo_image_view_index d; si = vo_sampler_index d;
          ty = vo_descriptor_type d in
      if vulkan_dispatch_descriptor_type_from_api ty \<noteq> None then
        first_fault
          [refuse_if (ri = V5_NONE \<or> length rs \<le> unat ri) EPROTO,
           refuse_if (vi \<noteq> V5_NONE \<or> si \<noteq> V5_NONE) EPROTO,
           at rs ri (\<lambda>buf.
             if vr_resource_type buf \<noteq> RESOURCE_BUFFER then Refuse (- EPROTO)
             else first_fault
               [check_descriptor_range buf d (vo_dynamic_offset d),
                refuse_if (\<not> u64_range_within_size (vo_transfer_offset d) (vo_transfer_size d) (vr_size buf)) ERANGE])]
      else case vulkan_dispatch_image_descriptor_type_from_api ty of
        None \<Rightarrow> Refuse (- EOPNOTSUPP)
      | Some k \<Rightarrow>
          first_fault
            [refuse_if (ri \<noteq> V5_NONE) EPROTO,
             refuse_if (if vulkan_descriptor_type_requires_image_view k then vi = V5_NONE \<or> length (gv_image_views v) \<le> unat vi
                        else vi \<noteq> V5_NONE) EPROTO,
             refuse_if (if vulkan_descriptor_type_requires_sampler k then si = V5_NONE \<or> length (gv_samplers v) \<le> unat si
                        else si \<noteq> V5_NONE) EPROTO])"

definition check_objects :: "v6_view \<Rightarrow> verdict" where
  "check_objects v =
     first_fault
       [each (check_v6_resource (gv_resources v) (gv_fds v)) (gv_resources v),
        each (check_v6_image (gv_resources v)) (gv_images v),
        each (\<lambda>w. refuse_if (length (gv_images v) \<le> unat (vv_image_index w)) EPROTO) (gv_image_views v),
        each (check_v6_descriptor v) (gv_descriptors v)]"

section \<open>Shader stages\<close>

text \<open>The files behind the passed descriptors are given by their contents.\<close>

definition check_stage :: "(int \<Rightarrow> string) \<Rightarrow> v6_view \<Rightarrow> g_stage \<Rightarrow> verdict" where
  "check_stage files v s =
     (let frame_size = gh_frame_size (gv_header v) in
      first_fault
        [refuse_if (length (gv_fds v) \<le> unat (gst_shader_fd_index s) \<or> gst_shader_size s = 0) EPROTO,
         refuse_if (\<not> payload_range_valid (gst_entry_name_offset s) (gst_entry_name_size s) frame_size \<or>
                    \<not> payload_range_valid (gst_specialization_offset s) (gst_specialization_size s) frame_size) EPROTO,
         refuse_if (gst_shader_hash s = 0) EPROTO,
         at (gv_fds v) (gst_shader_fd_index s) (\<lambda>fd.
           refuse_if (full_fd_hash files fd (unat (gst_shader_size s)) \<noteq> gst_shader_hash s) EPROTO),
         (if 0 < gst_specialization_size s then
            refuse_if (fnv1a64_update FNV_INIT (bytes_at (gv_frame v) (gst_specialization_offset s) (gst_specialization_size s))
                       \<noteq> gst_specialization_hash s) EPROTO
          else refuse_if (gst_specialization_hash s \<noteq> 0 \<and> gst_specialization_hash s \<noteq> FNV_INIT) EPROTO)])"

definition check_specialization :: "v6_view \<Rightarrow> g_specialization \<Rightarrow> verdict" where
  "check_specialization v e =
     first_fault
       [refuse_if (gse_reserved0 e \<noteq> 0 \<or> length (gv_stages v) \<le> unat (gse_shader_stage_index e)) EPROTO,
        at (gv_stages v) (gse_shader_stage_index e) (\<lambda>s.
          refuse_if (gse_size e = 0 \<or> \<not> u64_range_within_size (ucast (gse_offset e)) (gse_size e) (gst_specialization_size s))
            ERANGE)]"

section \<open>The state of the pipelines\<close>

definition check_depth_stencil :: "v6_view \<Rightarrow> g_depth_stencil \<Rightarrow> verdict" where
  "check_depth_stencil v e =
     first_fault
       [refuse_if (length (gv_pipelines v) \<le> unat (gdp_pipeline_index e) \<or> gdp_reserved0 e \<noteq> 0) EPROTO,
        refuse_if (gdp_flags e AND NOT 15 \<noteq> 0) EOPNOTSUPP,
        at (gv_pipelines v) (gdp_pipeline_index e) (\<lambda>p. refuse_if (gpl_depth_stencil_flags p \<noteq> gdp_flags e) EPROTO)]"

text \<open>The source of a resolve is looked up by the attachment's view, which no check has seen yet.\<close>

definition check_resolve_images :: "v6_view \<Rightarrow> g_attachment \<Rightarrow> v5_view \<Rightarrow> v5_view \<Rightarrow> verdict" where
  "check_resolve_images v a src dst =
     first_fault
       [refuse_if (length (gv_images v) \<le> unat (vv_image_index src) \<or> length (gv_images v) \<le> unat (vv_image_index dst)) EPROTO,
        at (gv_images v) (vv_image_index src) (\<lambda>src_im. at (gv_images v) (vv_image_index dst) (\<lambda>dst_im.
          refuse_if (vi_samples src_im \<noteq> gat_samples a \<or> vi_samples src_im = 1 \<or> vi_samples dst_im \<noteq> 1 \<or>
                     vv_format src \<noteq> vv_format dst \<or> vv_aspect_mask src \<noteq> vv_aspect_mask dst) EOPNOTSUPP))]"

definition check_resolve :: "v6_view \<Rightarrow> bool list \<Rightarrow> g_resolve_attachment \<Rightarrow> verdict" where
  "check_resolve v seen e =
     first_fault
       [refuse_if (length (gv_attachments v) \<le> unat (gra_attachment_index e) \<or> gra_reserved0 e \<noteq> 0) EPROTO,
        at seen (gra_attachment_index e) (\<lambda>dup. refuse_if dup EPROTO),
        at (gv_attachments v) (gra_attachment_index e) (\<lambda>a.
          first_fault
            [refuse_if (gat_resolve_image_view_index a = V5_NONE \<or>
                        length (gv_image_views v) \<le> unat (gat_resolve_image_view_index a) \<or>
                        gra_resolve_mode e = 0 \<or>
                        \<not> vulkan_graphics_attachment_layout_supported (gat_attachment_role a) (gra_resolve_layout e)) EPROTO,
             at (gv_image_views v) (gat_image_view_index a) (\<lambda>src.
             at (gv_image_views v) (gat_resolve_image_view_index a) (\<lambda>dst. check_resolve_images v a src dst))])]"

definition check_static_state :: "v6_view \<Rightarrow> bool list \<Rightarrow> g_static_state \<Rightarrow> verdict" where
  "check_static_state v seen e =
     first_fault
       [refuse_if (length (gv_pipelines v) \<le> unat (gss_pipeline_index e) \<or> gss_reserved0 e \<noteq> 0 \<or> gss_reserved1 e \<noteq> 0 \<or>
                   gss_flags e AND NOT 31 \<noteq> 0) EPROTO,
        at seen (gss_pipeline_index e) (\<lambda>dup. refuse_if dup EPROTO),
        refuse_if (gss_flags e AND 8 = 0 \<and> (gss_depth_bias_constant_factor_bits e \<noteq> 0 \<or> gss_depth_bias_clamp_bits e \<noteq> 0 \<or>
                   gss_depth_bias_slope_factor_bits e \<noteq> 0)) EPROTO,
        refuse_if (gss_flags e AND 16 = 0 \<and> gss_line_width_bits e \<noteq> 0x3f800000) EPROTO]"

text \<open>The attachments of a blend state are marked per pipeline and attachment, in rows of 16. A row is used for one
  pipeline only, since a second state for it is refused: it starts empty.\<close>

definition check_blend_attachment :: "g_blend_state \<Rightarrow> g_pipeline \<Rightarrow> bool list \<Rightarrow> g_blend_attachment \<Rightarrow> verdict" where
  "check_blend_attachment e p seen a =
     first_fault
       [refuse_if (gba_pipeline_index a \<noteq> gbs_pipeline_index e \<or> gpl_color_attachment_count p \<le> gba_attachment_index a \<or>
                   16 \<le> gba_attachment_index a \<or> gba_flags a AND NOT 1 \<noteq> 0 \<or> gba_color_write_mask a AND NOT 15 \<noteq> 0) EPROTO,
        at seen (gba_attachment_index a) (\<lambda>dup. refuse_if dup EPROTO),
        refuse_if (gba_flags a AND 1 = 0 \<and>
                   (gba_src_color_blend_factor a \<noteq> 1 \<or> gba_dst_color_blend_factor a \<noteq> 0 \<or> gba_color_blend_op a \<noteq> 0 \<or>
                    gba_src_alpha_blend_factor a \<noteq> 1 \<or> gba_dst_alpha_blend_factor a \<noteq> 0 \<or> gba_alpha_blend_op a \<noteq> 0)) EPROTO]"

definition check_blend_state :: "v6_view \<Rightarrow> bool list \<Rightarrow> g_blend_state \<Rightarrow> verdict" where
  "check_blend_state v seen e =
     first_fault
       [refuse_if (length (gv_pipelines v) \<le> unat (gbs_pipeline_index e) \<or> gbs_reserved0 e \<noteq> 0 \<or>
                   gbs_flags e AND NOT 3 \<noteq> 0) EPROTO,
        at seen (gbs_pipeline_index e) (\<lambda>dup. refuse_if dup EPROTO),
        refuse_if (gbs_flags e AND 1 = 0 \<and> gbs_logic_op e \<noteq> 0) EPROTO,
        refuse_if (gbs_flags e AND 2 = 0 \<and> (gbs_blend_constant0_bits e \<noteq> 0 \<or> gbs_blend_constant1_bits e \<noteq> 0 \<or>
                   gbs_blend_constant2_bits e \<noteq> 0 \<or> gbs_blend_constant3_bits e \<noteq> 0)) EPROTO,
        refuse_if (\<not> range_add_u32 (gbs_attachment_first e) (gbs_attachment_count e)
                        (of_nat (length (gv_blend_attachments v)))) EPROTO,
        at (gv_pipelines v) (gbs_pipeline_index e) (\<lambda>p.
          first_fault
            [refuse_if (gbs_attachment_count e \<noteq> gpl_color_attachment_count p) EPROTO,
             each_at_once (gv_blend_attachments v) gba_attachment_index (check_blend_attachment e p) (unmarked 16)
               (indices (gbs_attachment_first e) (gbs_attachment_count e))])]"

definition check_viewport :: "g_viewport_state \<Rightarrow> bool list \<Rightarrow> g_viewport \<Rightarrow> verdict" where
  "check_viewport e seen w =
     first_fault
       [refuse_if (gvp_pipeline_index w \<noteq> gvs_pipeline_index e \<or> gvs_viewport_count e \<le> gvp_viewport_index w) EPROTO,
        at seen (gvp_viewport_index w) (\<lambda>dup. refuse_if dup EPROTO)]"

definition check_scissor :: "g_viewport_state \<Rightarrow> bool list \<Rightarrow> g_scissor \<Rightarrow> verdict" where
  "check_scissor e seen s =
     first_fault
       [refuse_if (gsc_pipeline_index s \<noteq> gvs_pipeline_index e \<or> gvs_scissor_count e \<le> gsc_scissor_index s) EPROTO,
        at seen (gsc_scissor_index s) (\<lambda>dup. refuse_if dup EPROTO)]"

definition check_viewport_state :: "v6_view \<Rightarrow> bool list \<Rightarrow> g_viewport_state \<Rightarrow> verdict" where
  "check_viewport_state v seen e =
     first_fault
       [refuse_if (length (gv_pipelines v) \<le> unat (gvs_pipeline_index e) \<or> gvs_reserved0 e \<noteq> 0 \<or> gvs_reserved1 e \<noteq> 0 \<or>
                   gvs_flags e AND NOT 3 \<noteq> 0) EPROTO,
        at seen (gvs_pipeline_index e) (\<lambda>dup. refuse_if dup EPROTO),
        refuse_if (16 < gvs_viewport_count e \<or> 16 < gvs_scissor_count e) E2BIG,
        (if gvs_flags e AND 1 \<noteq> 0 then
           first_fault
             [refuse_if (gvs_viewport_count e = 0 \<or>
                         \<not> range_add_u32 (gvs_viewport_static_first e) (gvs_viewport_count e)
                              (of_nat (length (gv_viewports v)))) EPROTO,
              each_at_once (gv_viewports v) gvp_viewport_index (check_viewport e) (unmarked 16)
                (indices (gvs_viewport_static_first e) (gvs_viewport_count e))]
         else refuse_if (gvs_viewport_static_first e \<noteq> V5_NONE) EPROTO),
        (if gvs_flags e AND 2 \<noteq> 0 then
           first_fault
             [refuse_if (gvs_scissor_count e = 0 \<or>
                         \<not> range_add_u32 (gvs_scissor_static_first e) (gvs_scissor_count e)
                              (of_nat (length (gv_scissors v)))) EPROTO,
              each_at_once (gv_scissors v) gsc_scissor_index (check_scissor e) (unmarked 16)
                (indices (gvs_scissor_static_first e) (gvs_scissor_count e))]
         else refuse_if (gvs_scissor_static_first e \<noteq> V5_NONE) EPROTO)]"

definition check_pipeline_states :: "v6_view \<Rightarrow> verdict" where
  "check_pipeline_states v =
     first_fault
       [since 2 v (each (check_specialization v) (gv_specializations v)),
        since 3 v (each (check_depth_stencil v) (gv_depth_stencils v)),
        since 4 v (each_once gra_attachment_index (check_resolve v) (unmarked 64) (gv_resolve_attachments v)),
        since 5 v (each_once gss_pipeline_index (check_static_state v) (unmarked 64) (gv_static_states v)),
        since 6 v (each_once gbs_pipeline_index (check_blend_state v) (unmarked 64) (gv_blend_states v)),
        since 7 v (each_once gvs_pipeline_index (check_viewport_state v) (unmarked 64) (gv_viewport_states v))]"

section \<open>Pipelines\<close>

text \<open>The search for the binding of an attribute stops at the first that fits.\<close>

fun find_binding :: "v6_view \<Rightarrow> g_vertex_attribute \<Rightarrow> u32 list \<Rightarrow> verdict" where
  "find_binding v a [] = Refuse (- EPROTO)"
| "find_binding v a (i # is) =
     at (gv_vertex_bindings v) i (\<lambda>b. if gva_binding a = gvb_binding b then Pass else find_binding v a is)"

definition check_pipeline :: "v6_view \<Rightarrow> g_pipeline \<Rightarrow> verdict" where
  "check_pipeline v p =
     first_fault
       [refuse_if (\<not> range_add_u32 (gpl_shader_stage_first p) (gpl_shader_stage_count p) (of_nat (length (gv_stages v))) \<or>
                   \<not> range_add_u32 (gpl_vertex_binding_first p) (gpl_vertex_binding_count p)
                        (of_nat (length (gv_vertex_bindings v))) \<or>
                   \<not> range_add_u32 (gpl_vertex_attribute_first p) (gpl_vertex_attribute_count p)
                        (of_nat (length (gv_vertex_attributes v)))) EPROTO,
        each_at (gv_vertex_attributes v) (indices (gpl_vertex_attribute_first p) (gpl_vertex_attribute_count p))
          (\<lambda>a. find_binding v a (indices (gpl_vertex_binding_first p) (gpl_vertex_binding_count p)))]"

definition check_vertex_binding :: "v6_view \<Rightarrow> g_vertex_binding \<Rightarrow> verdict" where
  "check_vertex_binding v b =
     (if gvb_buffer_resource_index b = V5_NONE then refuse_if (gvb_offset b \<noteq> 0 \<or> gvb_size b \<noteq> 0) EPROTO
      else first_fault
        [refuse_if (length (gv_resources v) \<le> unat (gvb_buffer_resource_index b)) EPROTO,
         at (gv_resources v) (gvb_buffer_resource_index b) (\<lambda>buf.
           if vr_resource_type buf \<noteq> RESOURCE_BUFFER then Refuse (- EPROTO)
           else refuse_if (\<not> u64_range_within_size (gvb_offset b) (gvb_size b) (vr_size buf)) ERANGE)])"

definition check_attachment :: "v6_view \<Rightarrow> g_attachment \<Rightarrow> verdict" where
  "check_attachment v a =
     refuse_if
       (gat_image_view_index a \<noteq> V5_NONE \<and> length (gv_image_views v) \<le> unat (gat_image_view_index a) \<or>
        gat_resolve_image_view_index a \<noteq> V5_NONE \<and> length (gv_image_views v) \<le> unat (gat_resolve_image_view_index a) \<or>
        \<not> payload_range_valid (gat_clear_value_offset a) (gat_clear_value_size a) (gh_frame_size (gv_header v))) EPROTO"

definition check_dynamic_state :: "v6_view \<Rightarrow> g_dynamic_state \<Rightarrow> verdict" where
  "check_dynamic_state v s =
     first_fault
       [refuse_if (\<not> payload_range_valid (gds_data_offset s) (gds_data_size s) (gh_frame_size (gv_header v))) EPROTO,
        refuse_if (fnv1a64_update FNV_INIT (bytes_at (gv_frame v) (gds_data_offset s) (gds_data_size s)) \<noteq> gds_data_hash s)
          EPROTO]"

definition check_pipelines :: "v6_view \<Rightarrow> verdict" where
  "check_pipelines v =
     first_fault
       [each (check_pipeline v) (gv_pipelines v), each (check_vertex_binding v) (gv_vertex_bindings v),
        each (check_attachment v) (gv_attachments v), each (check_dynamic_state v) (gv_dynamic_states v)]"

end
