(* ===== verification/Graphics_Commands.thy ===== *)
theory Graphics_Commands
  imports Graphics_Content
begin

text \<open>
  The checks of a graphics frame's commands and of the entries that belong to them (transfers, clears, queries, indirect
  draws), and the whole check of the contents, \<open>validate_vulkan_graphics_v6_frame_content\<close>
  (\<open>pdocker_gpu_executor.c\<close>).
\<close>

section \<open>Command types\<close>

abbreviation (input) CMD_BIND_DESCRIPTOR_SETS :: u32 where "CMD_BIND_DESCRIPTOR_SETS \<equiv> 4"
abbreviation (input) CMD_PUSH_CONSTANTS :: u32 where "CMD_PUSH_CONSTANTS \<equiv> 5"
abbreviation (input) CMD_BIND_VERTEX_BUFFERS :: u32 where "CMD_BIND_VERTEX_BUFFERS \<equiv> 6"
abbreviation (input) CMD_DRAW :: u32 where "CMD_DRAW \<equiv> 9"
abbreviation (input) CMD_DRAW_INDEXED :: u32 where "CMD_DRAW_INDEXED \<equiv> 10"
abbreviation (input) CMD_BARRIER :: u32 where "CMD_BARRIER \<equiv> 11"
abbreviation (input) CMD_COPY_BUFFER :: u32 where "CMD_COPY_BUFFER \<equiv> 12"
abbreviation (input) CMD_COPY_BUFFER_TO_IMAGE :: u32 where "CMD_COPY_BUFFER_TO_IMAGE \<equiv> 13"
abbreviation (input) CMD_COPY_IMAGE_TO_BUFFER :: u32 where "CMD_COPY_IMAGE_TO_BUFFER \<equiv> 14"
abbreviation (input) CMD_COPY_IMAGE :: u32 where "CMD_COPY_IMAGE \<equiv> 15"
abbreviation (input) CMD_FILL_BUFFER :: u32 where "CMD_FILL_BUFFER \<equiv> 16"
abbreviation (input) CMD_UPDATE_BUFFER :: u32 where "CMD_UPDATE_BUFFER \<equiv> 17"
abbreviation (input) CMD_CLEAR_COLOR_IMAGE :: u32 where "CMD_CLEAR_COLOR_IMAGE \<equiv> 18"
abbreviation (input) CMD_CLEAR_DEPTH_STENCIL_IMAGE :: u32 where "CMD_CLEAR_DEPTH_STENCIL_IMAGE \<equiv> 19"
abbreviation (input) CMD_RESOLVE_IMAGE :: u32 where "CMD_RESOLVE_IMAGE \<equiv> 20"
abbreviation (input) CMD_BLIT_IMAGE :: u32 where "CMD_BLIT_IMAGE \<equiv> 21"
abbreviation (input) CMD_CLEAR_ATTACHMENTS :: u32 where "CMD_CLEAR_ATTACHMENTS \<equiv> 22"
abbreviation (input) CMD_RESET_QUERY_POOL :: u32 where "CMD_RESET_QUERY_POOL \<equiv> 23"
abbreviation (input) CMD_WRITE_TIMESTAMP :: u32 where "CMD_WRITE_TIMESTAMP \<equiv> 24"
abbreviation (input) CMD_BEGIN_QUERY :: u32 where "CMD_BEGIN_QUERY \<equiv> 25"
abbreviation (input) CMD_END_QUERY :: u32 where "CMD_END_QUERY \<equiv> 26"
abbreviation (input) CMD_COPY_QUERY_POOL_RESULTS :: u32 where "CMD_COPY_QUERY_POOL_RESULTS \<equiv> 27"

definition QUERY_COMMANDS :: "u32 list" where
  "QUERY_COMMANDS = [CMD_RESET_QUERY_POOL, CMD_WRITE_TIMESTAMP, CMD_BEGIN_QUERY, CMD_END_QUERY]"

section \<open>Entries and their commands\<close>

abbreviation (input) MAX_COMMANDS :: nat where "MAX_COMMANDS \<equiv> 4096"

text \<open>
  An entry names its command: the command exists, no earlier entry of the table names it, and it has the type of the
  entry. \<open>bad\<close> stands for the other reasons to refuse the entry, which come with the same error.
\<close>

definition claim :: "v6_view \<Rightarrow> bool list \<Rightarrow> u32 \<Rightarrow> u32 list \<Rightarrow> bool \<Rightarrow> verdict" where
  "claim v seen ci types bad =
     (if length (gv_commands v) \<le> unat ci then Refuse (- EPROTO)
      else at seen ci (\<lambda>dup.
        if dup \<or> bad then Refuse (- EPROTO)
        else at (gv_commands v) ci (\<lambda>c. refuse_if (gcm_command_type c \<notin> set types) EPROTO)))"

text \<open>Afterwards every command of these types must be marked.\<close>

definition all_claimed :: "v6_view \<Rightarrow> u32 list \<Rightarrow> u32 list \<Rightarrow> verdict" where
  "all_claimed v types keys =
     each (\<lambda>(i, c). if gcm_command_type c \<in> set types
                    then at (marked MAX_COMMANDS keys) (of_nat i) (\<lambda>seen. refuse_if (\<not> seen) EPROTO) else Pass)
       (enumerate 0 (gv_commands v))"

definition buffer_range_bad :: "v5_resource \<Rightarrow> u64 \<Rightarrow> u64 \<Rightarrow> bool" where
  "buffer_range_bad r offset sz \<longleftrightarrow> vr_resource_type r \<noteq> RESOURCE_BUFFER \<or> \<not> u64_range_within_size offset sz (vr_size r)"

section \<open>Filling and updating buffers\<close>

definition check_fill :: "v6_view \<Rightarrow> bool list \<Rightarrow> g_fill_buffer \<Rightarrow> verdict" where
  "check_fill v seen e =
     first_fault
       [claim v seen (gfb_command_index e) [CMD_FILL_BUFFER]
          (gfb_reserved0 e \<noteq> 0 \<or> gfb_reserved1 e \<noteq> 0 \<or> gfb_reserved2 e \<noteq> 0 \<or>
           length (gv_resources v) \<le> unat (gfb_dst_resource_index e) \<or>
           gfb_size e = 0 \<or> gfb_dst_offset e AND 3 \<noteq> 0 \<or> gfb_size e AND 3 \<noteq> 0),
        at (gv_resources v) (gfb_dst_resource_index e) (\<lambda>dst.
          refuse_if (buffer_range_bad dst (gfb_dst_offset e) (gfb_size e)) ERANGE)]"

definition check_update :: "v6_view \<Rightarrow> bool list \<Rightarrow> g_update_buffer \<Rightarrow> verdict" where
  "check_update v seen e =
     first_fault
       [claim v seen (gub_command_index e) [CMD_UPDATE_BUFFER]
          (gub_reserved0 e \<noteq> 0 \<or> gub_reserved1 e \<noteq> 0 \<or> length (gv_resources v) \<le> unat (gub_dst_resource_index e) \<or>
           gub_data_size e = 0 \<or> 65536 < gub_data_size e \<or> gub_dst_offset e AND 3 \<noteq> 0 \<or> gub_data_size e AND 3 \<noteq> 0 \<or>
           \<not> payload_range_valid (gub_payload_offset e) (gub_data_size e) (gh_frame_size (gv_header v))),
        at (gv_resources v) (gub_dst_resource_index e) (\<lambda>dst.
          refuse_if (buffer_range_bad dst (gub_dst_offset e) (gub_data_size e)) ERANGE),
        refuse_if (fnv1a64_update FNV_INIT (bytes_at (gv_frame v) (gub_payload_offset e) (gub_data_size e))
                   \<noteq> gub_payload_hash e) EPROTO]"

text \<open>One loop looks for both kinds of commands; both refusals are the same.\<close>

definition check_fills_and_updates :: "v6_view \<Rightarrow> verdict" where
  "check_fills_and_updates v =
     first_fault
       [each_once gfb_command_index (check_fill v) (unmarked MAX_COMMANDS) (gv_fill_buffers v),
        each_once gub_command_index (check_update v) (unmarked MAX_COMMANDS) (gv_update_buffers v),
        all_claimed v [CMD_FILL_BUFFER] (map gfb_command_index (gv_fill_buffers v)),
        all_claimed v [CMD_UPDATE_BUFFER] (map gub_command_index (gv_update_buffers v))]"

section \<open>Clearing images\<close>

definition check_clear_color :: "v6_view \<Rightarrow> bool list \<Rightarrow> g_clear_color \<Rightarrow> verdict" where
  "check_clear_color v seen e =
     first_fault
       [claim v seen (gcc_command_index e) [CMD_CLEAR_COLOR_IMAGE]
          (gcc_reserved0 e \<noteq> 0 \<or> gcc_reserved1 e \<noteq> 0 \<or> gcc_reserved2 e \<noteq> 0 \<or> gcc_reserved3 e \<noteq> 0 \<or>
           length (gv_images v) \<le> unat (gcc_image_index e) \<or> gcc_aspect_mask e \<noteq> ASPECT_COLOR \<or>
           gcc_level_count e = 0 \<or> gcc_layer_count e = 0),
        at (gv_images v) (gcc_image_index e) (\<lambda>im.
          refuse_if (vi_usage im AND 2 = 0 \<or>
                     levels_outside im (gcc_base_mip_level e) (gcc_level_count e) (gcc_base_array_layer e) (gcc_layer_count e))
            ERANGE)]"

definition check_clear_colors :: "v6_view \<Rightarrow> verdict" where
  "check_clear_colors v =
     first_fault
       [each_once gcc_command_index (check_clear_color v) (unmarked MAX_COMMANDS) (gv_clear_colors v),
        all_claimed v [CMD_CLEAR_COLOR_IMAGE] (map gcc_command_index (gv_clear_colors v))]"

definition check_clear_depth :: "v6_view \<Rightarrow> bool list \<Rightarrow> g_clear_depth \<Rightarrow> verdict" where
  "check_clear_depth v seen e =
     first_fault
       [claim v seen (gcd_command_index e) [CMD_CLEAR_DEPTH_STENCIL_IMAGE]
          (gcd_reserved0 e \<noteq> 0 \<or> gcd_reserved1 e \<noteq> 0 \<or> gcd_reserved2 e \<noteq> 0 \<or> gcd_reserved3 e \<noteq> 0 \<or>
           gcd_reserved4 e \<noteq> 0 \<or> gcd_reserved5 e \<noteq> 0 \<or>
           length (gv_images v) \<le> unat (gcd_image_index e) \<or> gcd_aspect_mask e = 0 \<or>
           gcd_aspect_mask e AND NOT (ASPECT_DEPTH OR ASPECT_STENCIL) \<noteq> 0 \<or>
           gcd_aspect_mask e \<noteq> ASPECT_DEPTH \<and> gcd_aspect_mask e \<noteq> ASPECT_STENCIL \<or>
           gcd_level_count e = 0 \<or> gcd_layer_count e = 0),
        at (gv_images v) (gcd_image_index e) (\<lambda>im.
          refuse_if (vi_usage im AND 2 = 0 \<or> vulkan_format_bytes_per_pixel_for_aspect (vi_format im) (gcd_aspect_mask e) = 0 \<or>
                     levels_outside im (gcd_base_mip_level e) (gcd_level_count e) (gcd_base_array_layer e) (gcd_layer_count e))
            ERANGE)]"

definition check_clear_depths :: "v6_view \<Rightarrow> verdict" where
  "check_clear_depths v =
     first_fault
       [each_once gcd_command_index (check_clear_depth v) (unmarked MAX_COMMANDS) (gv_clear_depths v),
        all_claimed v [CMD_CLEAR_DEPTH_STENCIL_IMAGE] (map gcd_command_index (gv_clear_depths v))]"

section \<open>Dynamic offsets, push constants and barriers\<close>

definition check_push_metadata :: "v6_view \<Rightarrow> g_push_metadata \<Rightarrow> verdict" where
  "check_push_metadata v m =
     first_fault
       [refuse_if (length (gv_commands v) \<le> unat (gpm_command_index m)) EPROTO,
        at (gv_commands v) (gpm_command_index m) (\<lambda>c. refuse_if (gcm_command_type c \<noteq> CMD_PUSH_CONSTANTS) EPROTO),
        refuse_if (gpm_stage_flags m = 0) EPROTO,
        refuse_if (gpm_range_offset m AND 3 \<noteq> 0 \<or> gpm_range_size m AND 3 \<noteq> 0) EINVAL,
        refuse_if (checked_u64_add3 (ucast (gpm_range_offset m)) (ucast (gpm_range_size m)) 0 = None) EOVERFLOW]"

definition check_barrier_command :: "v6_view \<Rightarrow> u32 \<Rightarrow> verdict" where
  "check_barrier_command v ci =
     first_fault
       [refuse_if (length (gv_commands v) \<le> unat ci) EPROTO,
        at (gv_commands v) ci (\<lambda>c. refuse_if (gcm_command_type c \<noteq> CMD_BARRIER) EPROTO)]"

definition check_memory_barrier :: "v6_view \<Rightarrow> g_memory_barrier \<Rightarrow> verdict" where
  "check_memory_barrier v b =
     first_fault
       [refuse_if (gmb_reserved0 b \<noteq> 0) EPROTO, check_barrier_command v (gmb_command_index b),
        refuse_if (gmb_src_stage_mask b = 0 \<or> gmb_dst_stage_mask b = 0) EINVAL]"

definition check_buffer_barrier :: "v6_view \<Rightarrow> g_buffer_barrier \<Rightarrow> verdict" where
  "check_buffer_barrier v b =
     first_fault
       [refuse_if (gbb_reserved0 b \<noteq> 0 \<or> gbb_reserved1 b \<noteq> 0) EPROTO, check_barrier_command v (gbb_command_index b),
        refuse_if (length (gv_resources v) \<le> unat (gbb_resource_index b)) EPROTO,
        refuse_if (gbb_size b = 0) EINVAL,
        at (gv_resources v) (gbb_resource_index b) (\<lambda>buf.
          if vr_resource_type buf \<noteq> RESOURCE_BUFFER then Refuse (- EPROTO)
          else refuse_if (\<not> u64_range_within_size (gbb_offset b) (gbb_size b) (vr_size buf)) ERANGE),
        refuse_if (\<not> vulkan_graphics_barrier_queue_family_replayable (gbb_src_queue_family_index b)
                        (gbb_dst_queue_family_index b)) EOPNOTSUPP,
        refuse_if (gbb_src_stage_mask b = 0 \<or> gbb_dst_stage_mask b = 0) EINVAL]"

definition check_image_barrier :: "v6_view \<Rightarrow> g_image_barrier \<Rightarrow> verdict" where
  "check_image_barrier v b =
     first_fault
       [refuse_if (gib_reserved0 b \<noteq> 0) EPROTO, check_barrier_command v (gib_command_index b),
        refuse_if (length (gv_images v) \<le> unat (gib_image_index b)) EPROTO,
        refuse_if (gib_aspect_mask b = 0 \<or> gib_level_count b = 0 \<or> gib_layer_count b = 0) EINVAL,
        at (gv_images v) (gib_image_index b) (\<lambda>im.
          refuse_if (levels_outside im (gib_base_mip_level b) (gib_level_count b) (gib_base_array_layer b) (gib_layer_count b))
            ERANGE),
        refuse_if (\<not> vulkan_graphics_barrier_queue_family_replayable (gib_src_queue_family_index b)
                        (gib_dst_queue_family_index b)) EOPNOTSUPP,
        refuse_if (gib_src_stage_mask b = 0 \<or> gib_dst_stage_mask b = 0) EINVAL]"

definition check_v61_entries :: "v6_view \<Rightarrow> verdict" where
  "check_v61_entries v =
     first_fault
       [each (\<lambda>d. first_fault [refuse_if (gdo_reserved0 d \<noteq> 0) EPROTO, refuse_if (gdo_offset d AND 3 \<noteq> 0) EINVAL])
          (gv_dynamic_offsets v),
        each (check_push_metadata v) (gv_push_metadata v),
        each (check_memory_barrier v) (gv_memory_barriers v),
        each (check_buffer_barrier v) (gv_buffer_barriers v),
        each (check_image_barrier v) (gv_image_barriers v)]"

section \<open>Commands\<close>

text \<open>
  The dynamic descriptors of a command take its dynamic offsets one after the other: \<open>n\<close> of them are taken when the
  remaining descriptors are looked at.
\<close>

fun take_dynamic_offsets :: "v6_view \<Rightarrow> g_command \<Rightarrow> u32 \<Rightarrow> u32 list \<Rightarrow> verdict" where
  "take_dynamic_offsets v c n [] = refuse_if (n \<noteq> gcm_dynamic_offset_count c) EPROTO"
| "take_dynamic_offsets v c n (i # is) =
     at (gv_descriptors v) i (\<lambda>d.
       if vo_descriptor_flags d AND FLAG_DYNAMIC = 0 then
         (if vo_dynamic_offset d \<noteq> 0 then Refuse (- EPROTO) else take_dynamic_offsets v c n is)
       else if gcm_dynamic_offset_count c \<le> n then Refuse (- EPROTO)
       else if vulkan_dispatch_descriptor_type_from_api (vo_descriptor_type d) = None then Refuse (- EPROTO)
       else
         at (gv_resources v) (vo_resource_index d) (\<lambda>buf.
         at (gv_dynamic_offsets v) (gcm_first_dynamic_offset c + n) (\<lambda>dyn.
           first_fault
             [check_descriptor_range buf d (ucast (gdo_offset dyn)), take_dynamic_offsets v c (n + 1) is])))"

definition check_command_ranges :: "v6_view \<Rightarrow> g_command \<Rightarrow> verdict" where
  "check_command_ranges v c =
     refuse_if
       (\<not> range_add_u32 (gcm_first_descriptor c) (gcm_descriptor_count c) (of_nat (length (gv_descriptors v))) \<or>
        \<not> range_add_u32 (gcm_vertex_binding_first c) (gcm_vertex_binding_count c) (of_nat (length (gv_vertex_bindings v))) \<or>
        \<not> range_add_u32 (gcm_attachment_first c) (gcm_attachment_count c) (of_nat (length (gv_attachments v))) \<or>
        \<not> range_add_u32 (gcm_dynamic_state_first c) (gcm_dynamic_state_count c) (of_nat (length (gv_dynamic_states v))) \<or>
        is_v6 1 (gv_header v) \<and>
        \<not> range_add_u32 (gcm_first_dynamic_offset c) (gcm_dynamic_offset_count c) (of_nat (length (gv_dynamic_offsets v)))) EPROTO"

text \<open>The version that brings each type of command.\<close>

definition command_since :: "u32 \<Rightarrow> u16" where
  "command_since ty =
     (if ty = CMD_COPY_BUFFER then 9
      else if ty \<in> set [CMD_COPY_BUFFER_TO_IMAGE, CMD_COPY_IMAGE_TO_BUFFER, CMD_COPY_IMAGE] then 10
      else if ty \<in> set [CMD_FILL_BUFFER, CMD_UPDATE_BUFFER] then 11
      else if ty = CMD_CLEAR_COLOR_IMAGE then 12
      else if ty = CMD_CLEAR_DEPTH_STENCIL_IMAGE then 13
      else if ty = CMD_RESOLVE_IMAGE then 14
      else if ty = CMD_BLIT_IMAGE then 15
      else if ty = CMD_CLEAR_ATTACHMENTS then 16
      else if ty \<in> set QUERY_COMMANDS then 17
      else if ty = CMD_COPY_QUERY_POOL_RESULTS then 18
      else 0)"

text \<open>A transfer has nothing of a draw; a clear of attachments and a query have no index buffer either.\<close>

definition has_draw_state :: "g_command \<Rightarrow> bool" where
  "has_draw_state c \<longleftrightarrow>
     gcm_pipeline_index c \<noteq> V5_NONE \<or> gcm_first_descriptor c \<noteq> 0 \<or> gcm_descriptor_count c \<noteq> 0 \<or>
     gcm_vertex_binding_count c \<noteq> 0 \<or> gcm_attachment_count c \<noteq> 0 \<or> gcm_dynamic_state_count c \<noteq> 0 \<or> gcm_push_size c \<noteq> 0"

definition check_plain_command :: "v6_view \<Rightarrow> g_command \<Rightarrow> verdict" where
  "check_plain_command v c =
     (let ty = gcm_command_type c in
      first_fault
        [refuse_if (command_since ty \<noteq> 0 \<and> \<not> is_v6 (command_since ty) (gv_header v)) EPROTO,
         refuse_if (12 \<le> ty \<and> ty \<le> 21 \<and> has_draw_state c) EPROTO,
         refuse_if ((ty = CMD_CLEAR_ATTACHMENTS \<or> ty \<in> set QUERY_COMMANDS \<or> ty = CMD_COPY_QUERY_POOL_RESULTS) \<and>
                    (has_draw_state c \<or> gcm_index_buffer_resource_index c \<noteq> V5_NONE)) EPROTO,
         refuse_if (ty = CMD_DRAW \<and> gcm_index_buffer_resource_index c \<noteq> V5_NONE) EPROTO])"

definition check_index_buffer :: "v6_view \<Rightarrow> g_command \<Rightarrow> verdict" where
  "check_index_buffer v c =
     (let ib = gcm_index_buffer_resource_index c in
      if gcm_command_type c = CMD_DRAW_INDEXED then
        first_fault
          [refuse_if (ib = V5_NONE \<or> length (gv_resources v) \<le> unat ib) EPROTO,
           at (gv_resources v) ib (\<lambda>buf.
             if vr_resource_type buf \<noteq> RESOURCE_BUFFER then Refuse (- EPROTO)
             else refuse_if (vr_size buf < gcm_index_offset c) ERANGE)]
      else refuse_if (ib \<noteq> V5_NONE \<and> length (gv_resources v) \<le> unat ib) EPROTO)"

definition check_push_command :: "v6_view \<Rightarrow> nat \<Rightarrow> g_command \<Rightarrow> verdict" where
  "check_push_command v i c =
     (let metas = filter (\<lambda>m. unat (gpm_command_index m) = i) (gv_push_metadata v); frame_size = gh_frame_size (gv_header v) in
      first_fault
        [each (\<lambda>m. first_fault
           [refuse_if (ucast (gpm_range_size m) \<noteq> gcm_push_size c) EPROTO,
            refuse_if (\<not> payload_range_valid (gcm_push_offset c) (gcm_push_size c) frame_size) EPROTO,
            refuse_if (fnv1a64_update FNV_INIT (bytes_at (gv_frame v) (gcm_push_offset c) (gcm_push_size c)) \<noteq> gcm_push_hash c)
              EPROTO]) metas,
         refuse_if (length metas \<noteq> 1) EPROTO])"

definition check_command :: "v6_view \<Rightarrow> nat \<times> g_command \<Rightarrow> verdict" where
  "check_command v ic =
     (let (i, c) = ic; ty = gcm_command_type c; frame_size = gh_frame_size (gv_header v) in
      first_fault
        [refuse_if (\<not> (1 \<le> ty \<and> ty \<le> 27)) EPROTO,
         refuse_if (gcm_pipeline_index c \<noteq> V5_NONE \<and> length (gv_pipelines v) \<le> unat (gcm_pipeline_index c)) EPROTO,
         check_command_ranges v c,
         refuse_if ((ty = CMD_DRAW \<or> ty = CMD_DRAW_INDEXED) \<and> gcm_pipeline_index c = V5_NONE) EPROTO,
         (if ty = CMD_BIND_VERTEX_BUFFERS then
            each_at (gv_vertex_bindings v) (indices (gcm_vertex_binding_first c) (gcm_vertex_binding_count c))
              (\<lambda>b. refuse_if (gvb_buffer_resource_index b = V5_NONE) EPROTO)
          else Pass),
         refuse_if (ty = CMD_BIND_DESCRIPTOR_SETS \<and> gcm_descriptor_first_set c = V5_NONE) EPROTO,
         (if is_v6 1 (gv_header v) \<and> ty = CMD_BIND_DESCRIPTOR_SETS
          then take_dynamic_offsets v c 0 (indices (gcm_first_descriptor c) (gcm_descriptor_count c)) else Pass),
         check_plain_command v c,
         check_index_buffer v c,
         refuse_if (\<not> payload_range_valid (gcm_push_offset c) (gcm_push_size c) frame_size) EPROTO,
         (if is_v6 1 (gv_header v) \<and> ty = CMD_PUSH_CONSTANTS then check_push_command v i c else Pass)])"

definition check_commands :: "v6_view \<Rightarrow> verdict" where
  "check_commands v = each (check_command v) (enumerate 0 (gv_commands v))"

section \<open>Copies\<close>

definition check_buffer_copy :: "v6_view \<Rightarrow> bool list \<Rightarrow> g_buffer_copy \<Rightarrow> verdict" where
  "check_buffer_copy v seen e =
     first_fault
       [claim v seen (gbc_command_index e) [CMD_COPY_BUFFER]
          (gbc_reserved0 e \<noteq> 0 \<or> length (gv_resources v) \<le> unat (gbc_src_resource_index e) \<or>
           length (gv_resources v) \<le> unat (gbc_dst_resource_index e) \<or> gbc_size e = 0),
        at (gv_resources v) (gbc_src_resource_index e) (\<lambda>src. at (gv_resources v) (gbc_dst_resource_index e) (\<lambda>dst.
          refuse_if (buffer_range_bad src (gbc_src_offset e) (gbc_size e) \<or> buffer_range_bad dst (gbc_dst_offset e) (gbc_size e))
            ERANGE))]"

definition check_buffer_copies :: "v6_view \<Rightarrow> verdict" where
  "check_buffer_copies v =
     first_fault
       [each_once gbc_command_index (check_buffer_copy v) (unmarked MAX_COMMANDS) (gv_buffer_copies v),
        all_claimed v [CMD_COPY_BUFFER] (map gbc_command_index (gv_buffer_copies v))]"

definition copy_command_of :: "u32 \<Rightarrow> u32 list" where
  "copy_command_of direction =
     (if direction = 1 then [CMD_COPY_BUFFER_TO_IMAGE] else if direction = 2 then [CMD_COPY_IMAGE_TO_BUFFER] else [])"

definition check_buffer_image_copy :: "v6_view \<Rightarrow> bool list \<Rightarrow> g_buffer_image_copy \<Rightarrow> verdict" where
  "check_buffer_image_copy v seen e =
     first_fault
       [claim v seen (gbi_command_index e) (copy_command_of (gbi_direction e))
          (gbi_reserved0 e \<noteq> 0 \<or> length (gv_resources v) \<le> unat (gbi_buffer_resource_index e) \<or>
           length (gv_images v) \<le> unat (gbi_image_index e)),
        at (gv_resources v) (gbi_buffer_resource_index e) (\<lambda>buf. at (gv_images v) (gbi_image_index e) (\<lambda>im.
          first_fault
            [refuse_if (vr_resource_type buf \<noteq> RESOURCE_BUFFER) EPROTO,
             as_error ERANGE (vulkan_graphics_v610_image_subresource_range_valid im (gbi_aspect_mask e) (gbi_mip_level e)
               (gbi_base_array_layer e) (gbi_layer_count e) (gbi_image_offset_x e, gbi_image_offset_y e, gbi_image_offset_z e)
               (gbi_image_extent_width e, gbi_image_extent_height e, gbi_image_extent_depth e)),
             refuse_if (gbi_direction e = 1 \<and> vi_usage im AND 2 = 0) EOPNOTSUPP,
             refuse_if (gbi_direction e = 2 \<and> vi_usage im AND 1 = 0) EOPNOTSUPP,
             (case vulkan_graphics_v610_buffer_image_copy_span e im of
                Inl rc \<Rightarrow> Refuse rc
              | Inr n \<Rightarrow> refuse_if (\<not> u64_range_within_size (gbi_buffer_offset e) n (vr_size buf)) ERANGE)]))]"

definition check_image_copy :: "v6_view \<Rightarrow> bool list \<Rightarrow> g_image_copy \<Rightarrow> verdict" where
  "check_image_copy v seen e =
     first_fault
       [claim v seen (gic_command_index e) [CMD_COPY_IMAGE]
          (gic_reserved0 e \<noteq> 0 \<or> length (gv_images v) \<le> unat (gic_src_image_index e) \<or>
           length (gv_images v) \<le> unat (gic_dst_image_index e)),
        at (gv_images v) (gic_src_image_index e) (\<lambda>src. at (gv_images v) (gic_dst_image_index e) (\<lambda>dst.
          first_fault
            [refuse_if (vi_usage src AND 1 = 0 \<or> vi_usage dst AND 2 = 0) ERANGE,
             as_error ERANGE (vulkan_graphics_v610_image_subresource_range_valid src (gic_src_aspect_mask e) (gic_src_mip_level e)
               (gic_src_base_array_layer e) (gic_layer_count e) (gic_src_offset_x e, gic_src_offset_y e, gic_src_offset_z e)
               (gic_extent_width e, gic_extent_height e, gic_extent_depth e)),
             as_error ERANGE (vulkan_graphics_v610_image_subresource_range_valid dst (gic_dst_aspect_mask e) (gic_dst_mip_level e)
               (gic_dst_base_array_layer e) (gic_layer_count e) (gic_dst_offset_x e, gic_dst_offset_y e, gic_dst_offset_z e)
               (gic_extent_width e, gic_extent_height e, gic_extent_depth e))]))]"

definition check_image_copies :: "v6_view \<Rightarrow> verdict" where
  "check_image_copies v =
     first_fault
       [each_once gbi_command_index (check_buffer_image_copy v) (unmarked MAX_COMMANDS) (gv_buffer_image_copies v),
        each_once gic_command_index (check_image_copy v) (unmarked MAX_COMMANDS) (gv_image_copies v),
        all_claimed v [CMD_COPY_BUFFER_TO_IMAGE, CMD_COPY_IMAGE_TO_BUFFER] (map gbi_command_index (gv_buffer_image_copies v)),
        all_claimed v [CMD_COPY_IMAGE] (map gic_command_index (gv_image_copies v))]"

definition check_resolve_image :: "v6_view \<Rightarrow> bool list \<Rightarrow> g_resolve_image \<Rightarrow> verdict" where
  "check_resolve_image v seen e =
     first_fault
       [claim v seen (gri_command_index e) [CMD_RESOLVE_IMAGE]
          (gri_reserved0 e \<noteq> 0 \<or> length (gv_images v) \<le> unat (gri_src_image_index e) \<or>
           length (gv_images v) \<le> unat (gri_dst_image_index e) \<or> gri_src_aspect_mask e \<noteq> ASPECT_COLOR \<or>
           gri_dst_aspect_mask e \<noteq> ASPECT_COLOR \<or> gri_layer_count e = 0 \<or> gri_extent_width e = 0 \<or>
           gri_extent_height e = 0 \<or> gri_extent_depth e = 0),
        at (gv_images v) (gri_src_image_index e) (\<lambda>src. at (gv_images v) (gri_dst_image_index e) (\<lambda>dst.
          first_fault
            [refuse_if (vi_usage src AND 1 = 0 \<or> vi_usage dst AND 2 = 0 \<or> vi_format src \<noteq> vi_format dst \<or>
                        vi_samples src = 1 \<or> vi_samples dst \<noteq> 1) ERANGE,
             as_error ERANGE (vulkan_graphics_v610_image_subresource_range_valid src (gri_src_aspect_mask e) (gri_src_mip_level e)
               (gri_src_base_array_layer e) (gri_layer_count e) (gri_src_offset_x e, gri_src_offset_y e, gri_src_offset_z e)
               (gri_extent_width e, gri_extent_height e, gri_extent_depth e)),
             as_error ERANGE (vulkan_graphics_v610_image_subresource_range_valid dst (gri_dst_aspect_mask e) (gri_dst_mip_level e)
               (gri_dst_base_array_layer e) (gri_layer_count e) (gri_dst_offset_x e, gri_dst_offset_y e, gri_dst_offset_z e)
               (gri_extent_width e, gri_extent_height e, gri_extent_depth e))]))]"

definition check_image_resolves :: "v6_view \<Rightarrow> verdict" where
  "check_image_resolves v =
     first_fault
       [each_once gri_command_index (check_resolve_image v) (unmarked MAX_COMMANDS) (gv_resolve_images v),
        all_claimed v [CMD_RESOLVE_IMAGE] (map gri_command_index (gv_resolve_images v))]"

definition check_blit :: "v6_view \<Rightarrow> bool list \<Rightarrow> g_blit_image \<Rightarrow> verdict" where
  "check_blit v seen e =
     first_fault
       [claim v seen (gbl_command_index e) [CMD_BLIT_IMAGE]
          (gbl_reserved0 e \<noteq> 0 \<or> gbl_reserved1 e \<noteq> 0 \<or> gbl_reserved2 e \<noteq> 0 \<or>
           length (gv_images v) \<le> unat (gbl_src_image_index e) \<or> length (gv_images v) \<le> unat (gbl_dst_image_index e) \<or>
           gbl_src_aspect_mask e \<noteq> ASPECT_COLOR \<or> gbl_dst_aspect_mask e \<noteq> ASPECT_COLOR \<or> gbl_layer_count e = 0 \<or>
           gbl_filter e \<noteq> 0 \<and> gbl_filter e \<noteq> 1),
        at (gv_images v) (gbl_src_image_index e) (\<lambda>src. at (gv_images v) (gbl_dst_image_index e) (\<lambda>dst.
          first_fault
            [refuse_if (vi_usage src AND 1 = 0 \<or> vi_usage dst AND 2 = 0 \<or> vi_samples src \<noteq> 1 \<or> vi_samples dst \<noteq> 1) ERANGE,
             as_error ERANGE (vulkan_graphics_v615_image_blit_subresource_valid src (gbl_src_aspect_mask e) (gbl_src_mip_level e)
               (gbl_src_base_array_layer e) (gbl_layer_count e)
               (gbl_src_offset0_x e, gbl_src_offset0_y e, gbl_src_offset0_z e)
               (gbl_src_offset1_x e, gbl_src_offset1_y e, gbl_src_offset1_z e)),
             as_error ERANGE (vulkan_graphics_v615_image_blit_subresource_valid dst (gbl_dst_aspect_mask e) (gbl_dst_mip_level e)
               (gbl_dst_base_array_layer e) (gbl_layer_count e)
               (gbl_dst_offset0_x e, gbl_dst_offset0_y e, gbl_dst_offset0_z e)
               (gbl_dst_offset1_x e, gbl_dst_offset1_y e, gbl_dst_offset1_z e))]))]"

definition check_blits :: "v6_view \<Rightarrow> verdict" where
  "check_blits v =
     first_fault
       [each_once gbl_command_index (check_blit v) (unmarked MAX_COMMANDS) (gv_blit_images v),
        all_claimed v [CMD_BLIT_IMAGE] (map gbl_command_index (gv_blit_images v))]"

section \<open>Clearing attachments\<close>

definition check_clear_attachment :: "g_clear_attachment \<Rightarrow> verdict" where
  "check_clear_attachment a =
     (let aspect = gct_aspect_mask a; has_color = aspect AND ASPECT_COLOR \<noteq> 0; has_depth = aspect AND ASPECT_DEPTH \<noteq> 0;
          has_stencil = aspect AND ASPECT_STENCIL \<noteq> 0 in
      first_fault
        [refuse_if (gct_reserved0 a \<noteq> 0 \<or> gct_reserved1 a \<noteq> 0 \<or> gct_reserved2 a \<noteq> 0 \<or> gct_reserved3 a \<noteq> 0 \<or>
                    aspect = 0 \<or> aspect AND NOT 7 \<noteq> 0 \<or> has_color \<and> (has_depth \<or> has_stencil)) EPROTO,
         refuse_if (has_color \<and> gct_color_attachment a = V5_NONE) EPROTO,
         refuse_if (\<not> has_color \<and> gct_color_attachment a \<noteq> V5_NONE) EPROTO])"

definition check_clear_rect :: "g_clear_rect \<Rightarrow> verdict" where
  "check_clear_rect r =
     refuse_if (gcr_reserved0 r \<noteq> 0 \<or> gcr_reserved1 r \<noteq> 0 \<or> gcr_rect_extent_width r = 0 \<or> gcr_rect_extent_height r = 0 \<or>
                gcr_layer_count r = 0) EPROTO"

definition check_clear_command :: "v6_view \<Rightarrow> bool list \<Rightarrow> g_clear_command \<Rightarrow> verdict" where
  "check_clear_command v seen e =
     first_fault
       [claim v seen (gca_command_index e) [CMD_CLEAR_ATTACHMENTS]
          (gca_reserved0 e \<noteq> 0 \<or> gca_reserved1 e \<noteq> 0 \<or> gca_reserved2 e \<noteq> 0 \<or>
           gca_clear_attachment_count e = 0 \<or> gca_clear_rect_count e = 0 \<or>
           \<not> range_add_u32 (gca_clear_attachment_first e) (gca_clear_attachment_count e)
                (of_nat (length (gv_clear_attachments v))) \<or>
           \<not> range_add_u32 (gca_clear_rect_first e) (gca_clear_rect_count e) (of_nat (length (gv_clear_rects v)))),
        each_at (gv_clear_attachments v) (indices (gca_clear_attachment_first e) (gca_clear_attachment_count e))
          check_clear_attachment,
        each_at (gv_clear_rects v) (indices (gca_clear_rect_first e) (gca_clear_rect_count e)) check_clear_rect]"

definition check_clear_commands :: "v6_view \<Rightarrow> verdict" where
  "check_clear_commands v =
     first_fault
       [each_once gca_command_index (check_clear_command v) (unmarked MAX_COMMANDS) (gv_clear_commands v),
        all_claimed v [CMD_CLEAR_ATTACHMENTS] (map gca_command_index (gv_clear_commands v))]"

section \<open>Queries\<close>

text \<open>The command and the number of queries for each operation: reset, write a timestamp, begin, end.\<close>

definition query_command_of :: "u32 \<Rightarrow> u32 list" where
  "query_command_of op =
     (if op = 1 then [CMD_RESET_QUERY_POOL] else if op = 2 then [CMD_WRITE_TIMESTAMP]
      else if op = 3 then [CMD_BEGIN_QUERY] else if op = 4 then [CMD_END_QUERY] else [])"

definition check_query :: "v6_view \<Rightarrow> bool list \<Rightarrow> g_query_command \<Rightarrow> verdict" where
  "check_query v seen e =
     (let last_offset = gqc_result_offset e + ucast (gqc_query_count e - 1) * ucast (gqc_result_stride e) in
      first_fault
        [claim v seen (gqc_command_index e) (query_command_of (gqc_op e))
           (gqc_reserved0 e \<noteq> 0 \<or> gqc_query_count e = 0 \<or> fd_missing (gv_fds v) (gqc_result_fd_index e) \<or>
            gqc_result_stride e < 16),
         refuse_if (gqc_op e \<noteq> 1 \<and> gqc_query_count e \<noteq> 1) EPROTO,
         refuse_if (last_offset < gqc_result_offset e \<or> UINT64_MAX - 16 < last_offset) EOVERFLOW])"

definition check_queries :: "v6_view \<Rightarrow> verdict" where
  "check_queries v =
     first_fault
       [each_once gqc_command_index (check_query v) (unmarked MAX_COMMANDS) (gv_query_commands v),
        all_claimed v QUERY_COMMANDS (map gqc_command_index (gv_query_commands v))]"

definition check_copy_query :: "v6_view \<Rightarrow> bool list \<Rightarrow> g_copy_query \<Rightarrow> verdict" where
  "check_copy_query v seen e =
     first_fault
       [claim v seen (gcq_command_index e) [CMD_COPY_QUERY_POOL_RESULTS]
          (gcq_reserved0 e \<noteq> 0 \<or> gcq_reserved1 e \<noteq> 0 \<or> gcq_query_count e = 0 \<or>
           length (gv_resources v) \<le> unat (gcq_dst_resource_index e) \<or> fd_missing (gv_fds v) (gcq_result_fd_index e) \<or>
           gcq_query_type e \<noteq> 2 \<and> gcq_query_type e \<noteq> 0),
        (case vulkan_graphics_v618_copy_query_result_span e of
           Inl rc \<Rightarrow> Refuse (- EPROTO)
         | Inr n \<Rightarrow> at (gv_resources v) (gcq_dst_resource_index e) (\<lambda>dst.
             refuse_if (buffer_range_bad dst (gcq_dst_offset e) n) ERANGE))]"

definition check_copy_queries :: "v6_view \<Rightarrow> verdict" where
  "check_copy_queries v =
     first_fault
       [each_once gcq_command_index (check_copy_query v) (unmarked MAX_COMMANDS) (gv_copy_queries v),
        all_claimed v [CMD_COPY_QUERY_POOL_RESULTS] (map gcq_command_index (gv_copy_queries v))]"

section \<open>Indirect draws\<close>

definition indirect_command_size :: "g_command \<Rightarrow> u64" where
  "indirect_command_size c = (if gcm_command_type c = CMD_DRAW_INDEXED then 20 else 16)"

definition check_draw_count :: "v6_view \<Rightarrow> g_indirect_draw \<Rightarrow> verdict" where
  "check_draw_count v e =
     (if gid_flags e AND 1 \<noteq> 0 then
        first_fault
          [refuse_if (length (gv_resources v) \<le> unat (gid_count_resource_index e)) EPROTO,
           at (gv_resources v) (gid_count_resource_index e) (\<lambda>buf.
             refuse_if (buffer_range_bad buf (gid_count_offset e) 4) ERANGE)]
      else refuse_if (gid_count_resource_index e \<noteq> V5_NONE \<or> gid_count_offset e \<noteq> 0) EPROTO)"

definition check_indirect_draw :: "v6_view \<Rightarrow> bool list \<Rightarrow> g_indirect_draw \<Rightarrow> verdict" where
  "check_indirect_draw v seen e =
     first_fault
       [claim v seen (gid_command_index e) [CMD_DRAW, CMD_DRAW_INDEXED]
          (gid_flags e AND NOT 1 \<noteq> 0 \<or> length (gv_resources v) \<le> unat (gid_indirect_resource_index e) \<or>
           gid_draw_count e = 0 \<or> gid_stride e mod 4 \<noteq> 0),
        at (gv_commands v) (gid_command_index e) (\<lambda>c.
          if ucast (gid_stride e) < indirect_command_size c then Refuse (- EPROTO)
          else at (gv_resources v) (gid_indirect_resource_index e) (\<lambda>buf.
            if vr_resource_type buf \<noteq> RESOURCE_BUFFER then Refuse (- EPROTO)
            else case Option.bind (checked_mul_u64_executor (ucast (gid_draw_count e - 1)) (ucast (gid_stride e)))
                        (\<lambda>last. checked_u64_add3 last (indirect_command_size c) 0) of
              None \<Rightarrow> Refuse (- ERANGE)
            | Some n \<Rightarrow> refuse_if (\<not> u64_range_within_size (gid_indirect_offset e) n (vr_size buf)) ERANGE)),
        check_draw_count v e]"

section \<open>The whole check\<close>

definition validate_vulkan_graphics_v6_content :: "(int \<Rightarrow> string) \<Rightarrow> v6_view \<Rightarrow> verdict" where
  "validate_vulkan_graphics_v6_content files v =
     first_fault
       [check_frame_hashes v,
        check_hashes_v61_v67 v,
        since 11 v (check_fills_and_updates v),
        since 12 v (check_clear_colors v),
        since 13 v (check_clear_depths v),
        check_hashes_v617_v620 v,
        check_hashes_v68_v616 v,
        check_objects v,
        each (check_stage files v) (gv_stages v),
        check_pipeline_states v,
        check_pipelines v,
        since 1 v (check_v61_entries v),
        check_commands v,
        since 9 v (check_buffer_copies v),
        since 10 v (check_image_copies v),
        since 14 v (check_image_resolves v),
        since 15 v (check_blits v),
        since 16 v (check_clear_commands v),
        since 17 v (check_queries v),
        since 18 v (check_copy_queries v),
        since 8 v (each_once gid_command_index (check_indirect_draw v) (unmarked MAX_COMMANDS) (gv_indirect_draws v))]"

datatype v6_outcome = V6_Refused int | V6_Stray | V6_Overrun | V6_Accepted v6_view

definition validate_vulkan_graphics_v6_frame_content :: "(int \<Rightarrow> string) \<Rightarrow> string \<Rightarrow> int list \<Rightarrow> v6_outcome" where
  "validate_vulkan_graphics_v6_frame_content files frame fds =
     (case init_vulkan_graphics_v6_frame_view frame fds of
        Inl rc \<Rightarrow> V6_Refused rc
      | Inr v \<Rightarrow> (case validate_vulkan_graphics_v6_content files v of
                    Pass \<Rightarrow> V6_Accepted v | Refuse rc \<Rightarrow> V6_Refused rc | Stray \<Rightarrow> V6_Stray))"

section \<open>Receiving a frame\<close>

text \<open>
  The kernel drops descriptors beyond the room of the control buffer and says so (\<open>MSG_CTRUNC\<close>). A receive of no bytes
  counts as success with a header of zeros, whose 448 bytes are then copied into a buffer of none.
\<close>

definition connection_starts_with_graphics_v6_magic :: "sock \<Rightarrow> bool" where
  "connection_starts_with_graphics_v6_magic s \<longleftrightarrow> take 8 (so_bytes s) = V6_MAGIC"

definition recv_vulkan_graphics_v6_header_with_fds :: "sock \<Rightarrow> int \<times> string \<times> int list \<times> sock" where
  "recv_vulkan_graphics_v6_header_with_fds s =
     (let got = take 448 (so_bytes s); header = got @ replicate (448 - length got) (CHR 0x00);
          fds = take GPU_MAX_PASSED_FDS (so_fds s); s' = s\<lparr>so_bytes := drop 448 (so_bytes s), so_fds := []\<rparr> in
      if got = [] then (0, header, [], s)
      else if length got \<noteq> 448 \<or> GPU_MAX_PASSED_FDS < length (so_fds s) then (- EMSGSIZE, header, fds, s')
      else (validate_vulkan_graphics_v6_header_prefix (v6_header_of header) (length fds), header, fds, s'))"

definition handle_vulkan_graphics_v6_frame :: "(int \<Rightarrow> string) \<Rightarrow> bool \<Rightarrow> sock \<Rightarrow> v6_outcome" where
  "handle_vulkan_graphics_v6_frame files malloc_ok s =
     (let (rc, header, fds, s) = recv_vulkan_graphics_v6_header_with_fds s; frame_size = gh_frame_size (v6_header_of header) in
      if rc \<noteq> 0 then V6_Refused rc
      else if \<not> malloc_ok then V6_Refused (- ENOMEM)
      else if frame_size < 448 then V6_Overrun
      else case fst (read_exact_bytes (unat frame_size - 448) s) of
        Inl e \<Rightarrow> V6_Refused e
      | Inr rest \<Rightarrow> validate_vulkan_graphics_v6_frame_content files (header @ rest) fds)"

end
