(* ===== verification/Graphics_Safety.thy ===== *)
theory Graphics_Safety
  imports Graphics_Commands
begin

text \<open>
  Where the checks of a graphics frame's contents can read outside a table: nowhere but at the source of a resolve
  attachment and at the mip level of an image with more than 32 levels.
\<close>

named_theorems safe "checks that do not stray"

declare first_fault.simps(2) [simp del]

section \<open>Combining checks\<close>

lemma first_fault_safe: "(\<And>v. v \<in> set vs \<Longrightarrow> v \<noteq> Stray) \<Longrightarrow> first_fault vs \<noteq> Stray"
  by (induction vs) auto

lemma range_add_nat: "range_add_u32 first n limit \<longleftrightarrow> unat first + unat n \<le> unat limit"
proof -
  have "unat (limit - first) = unat limit - unat first" if "\<not> limit < first"
    using that by (simp add: unat_sub_if' word_less_nat_alt)
  then show ?thesis by (auto simp: range_add_u32_def word_less_nat_alt)
qed

lemma entry_index:
  assumes "range_add_u32 first n (of_nat k)" "k < 2 ^ 32" "d < unat n"
  shows "unat (first + of_nat d) < k" and "unat (first + of_nat d) = unat first + d"
proof -
  have "unat first + unat n \<le> k"
    using assms(1,2) by (simp add: range_add_nat unsigned_of_nat take_bit_nat_eq_self)
  moreover have "unat (of_nat d :: u32) = d"
    using assms(2,3) calculation by (simp add: unsigned_of_nat take_bit_nat_eq_self)
  ultimately show "unat (first + of_nat d) < k" "unat (first + of_nat d) = unat first + d"
    using assms(2,3) by (auto simp: unat_word_ariths take_bit_nat_eq_self)
qed

lemma indices_safe:
  assumes "range_add_u32 first n (of_nat (length xs))" "length xs < 2 ^ 32" "i \<in> set (indices first n)"
  shows "unat i < length xs"
  using entry_index(1)[OF assms(1,2)] assms(3) by (auto simp: indices_def)

lemma each_at_safe:
  "(\<And>i. i \<in> set is \<Longrightarrow> unat i < length xs) \<Longrightarrow> (\<And>x. x \<in> set xs \<Longrightarrow> f x \<noteq> Stray) \<Longrightarrow> each_at xs is f \<noteq> Stray"
  unfolding each_at_def by (intro each_safe) auto

lemma length_mark [simp]: "length (mark i seen) = length seen"
  by (simp add: mark_def)

lemma length_marked [simp]: "length (marked n ks) = n"
  unfolding marked_def by (induction ks rule: rev_induct) auto

lemma each_once_safe:
  "(\<And>s x. length s = length seen \<Longrightarrow> x \<in> set xs \<Longrightarrow> f s x \<noteq> Stray) \<Longrightarrow> each_once key f seen xs \<noteq> Stray"
proof (induction xs arbitrary: seen)
  case (Cons x xs)
  from Cons.prems have "f seen x \<noteq> Stray" by simp
  moreover have "each_once key f (mark (key x) seen) xs \<noteq> Stray"
    by (rule Cons.IH) (use Cons.prems in auto)
  ultimately show ?case by simp
qed simp

lemma each_at_once_safe:
  "(\<And>s x. length s = length seen \<Longrightarrow> f s x \<noteq> Stray) \<Longrightarrow> (\<And>i. i \<in> set is \<Longrightarrow> unat i < length xs) \<Longrightarrow>
   each_at_once xs key f seen is \<noteq> Stray"
proof (induction "is" arbitrary: seen)
  case (Cons i "is")
  let ?x = "xs ! unat i"
  have "f seen ?x \<noteq> Stray" using Cons.prems(1) by simp
  moreover have "each_at_once xs key f (mark (key ?x) seen) is \<noteq> Stray"
    by (rule Cons.IH) (use Cons.prems in auto)
  ultimately show ?case using Cons.prems(2)[of i] by simp
qed simp

lemma each_once_StrayD [dest!]:
  "each_once key f seen xs = Stray \<Longrightarrow> \<exists>s x. length s = length seen \<and> x \<in> set xs \<and> f s x = Stray"
  using each_once_safe by metis

lemma since_Stray [simp]: "since k v c = Stray \<longleftrightarrow> is_v6 k (gv_header v) \<and> c = Stray"
  and since_Pass [simp]: "since k v c = Pass \<longleftrightarrow> (is_v6 k (gv_header v) \<longrightarrow> c = Pass)"
  by (simp_all add: since_def)

lemma check_hashes_safe [safe]: "check_hashes x v \<noteq> Stray"
  by (simp add: check_hashes_def split: prod.splits)

lemma claim_safe [safe]: "length seen = MAX_COMMANDS \<Longrightarrow> length (gv_commands v) \<le> MAX_COMMANDS \<Longrightarrow> claim v seen ci types bad \<noteq> Stray"
  by (auto simp: claim_def)

lemma claim_Pass:
  "claim v seen ci types bad = Pass \<longleftrightarrow>
     unat ci < length (gv_commands v) \<and> unat ci < length seen \<and> \<not> seen ! unat ci \<and> \<not> bad \<and>
     gcm_command_type (gv_commands v ! unat ci) \<in> set types"
  by (auto simp: claim_def)


section \<open>The checks one by one\<close>

lemma each_StrayD [dest!]: "each f xs = Stray \<Longrightarrow> \<exists>x\<in>set xs. f x = Stray"
  using each_safe by metis

lemma layout_ranges_safe [safe]: "validate_vulkan_graphics_v620_image_layout_ranges images rs \<noteq> Stray"
  by (induction rs) (auto simp: check_layout_range_def)

lemma check_submit_sync_safe [safe]: "check_submit_sync e \<noteq> Stray"
  by (auto simp: check_submit_sync_def Let_def)

lemma check_v6_resource_safe [safe]: "check_v6_resource rs fds r \<noteq> Stray"
  by (auto simp: check_v6_resource_def)

lemma check_v6_image_safe [safe]: "check_v6_image rs im \<noteq> Stray"
  by (auto simp: check_v6_image_def)

lemma check_descriptor_range_safe [safe]: "check_descriptor_range buf d dyn \<noteq> Stray"
  by (auto simp: check_descriptor_range_def Let_def split: option.splits)

lemma check_v6_descriptor_safe [safe]: "check_v6_descriptor v d \<noteq> Stray"
  by (auto simp: check_v6_descriptor_def Let_def safe split: option.splits)

lemma check_stage_safe [safe]: "check_stage files v s \<noteq> Stray"
  by (auto simp: check_stage_def Let_def)

lemma check_specialization_safe [safe]: "check_specialization v e \<noteq> Stray"
  by (auto simp: check_specialization_def)

lemma check_depth_stencil_safe [safe]: "check_depth_stencil v e \<noteq> Stray"
  by (auto simp: check_depth_stencil_def)

lemma check_vertex_binding_safe [safe]: "check_vertex_binding v b \<noteq> Stray"
  by (auto simp: check_vertex_binding_def)

lemma check_attachment_safe [safe]: "check_attachment v a \<noteq> Stray"
  by (simp add: check_attachment_def)

lemma check_dynamic_state_safe [safe]: "check_dynamic_state v s \<noteq> Stray"
  by (auto simp: check_dynamic_state_def)

lemma check_push_metadata_safe [safe]: "check_push_metadata v m \<noteq> Stray"
  by (auto simp: check_push_metadata_def)

lemma check_barrier_command_safe [safe]: "check_barrier_command v ci \<noteq> Stray"
  by (auto simp: check_barrier_command_def)

lemma check_memory_barrier_safe [safe]: "check_memory_barrier v b \<noteq> Stray"
  by (auto simp: check_memory_barrier_def safe)

lemma check_buffer_barrier_safe [safe]: "check_buffer_barrier v b \<noteq> Stray"
  by (auto simp: check_buffer_barrier_def safe)

lemma check_image_barrier_safe [safe]: "check_image_barrier v b \<noteq> Stray"
  by (auto simp: check_image_barrier_def safe)

lemma check_index_buffer_safe [safe]: "check_index_buffer v c \<noteq> Stray"
  by (auto simp: check_index_buffer_def Let_def)

lemma check_plain_command_safe [safe]: "check_plain_command v c \<noteq> Stray"
  by (auto simp: check_plain_command_def Let_def)

lemma check_command_ranges_safe [safe]: "check_command_ranges v c \<noteq> Stray"
  by (simp add: check_command_ranges_def)

lemma check_push_command_safe [safe]: "check_push_command v i c \<noteq> Stray"
  by (auto simp: check_push_command_def Let_def)

lemma check_clear_attachment_safe [safe]: "check_clear_attachment a \<noteq> Stray"
  by (auto simp: check_clear_attachment_def Let_def)

lemma check_clear_rect_safe [safe]: "check_clear_rect r \<noteq> Stray"
  by (simp add: check_clear_rect_def)

lemma check_draw_count_safe [safe]: "check_draw_count v e \<noteq> Stray"
  by (auto simp: check_draw_count_def)


section \<open>Checks that read entries of a table by their place\<close>

text \<open>What the checks of the header leave true of the tables: none is longer than its bound.\<close>

definition tables_fit :: "v6_view \<Rightarrow> bool" where
  "tables_fit v \<longleftrightarrow>
     length (gv_commands v) \<le> MAX_COMMANDS \<and> length (gv_pipelines v) \<le> 64 \<and> length (gv_attachments v) \<le> 64 \<and>
     list_all (\<lambda>n. n < 2 ^ 32)
       [length (gv_stages v), length (gv_descriptors v), length (gv_vertex_bindings v), length (gv_vertex_attributes v),
        length (gv_blend_attachments v), length (gv_viewports v), length (gv_scissors v), length (gv_dynamic_states v),
        length (gv_dynamic_offsets v), length (gv_clear_attachments v), length (gv_clear_rects v)]"

lemma check_blend_attachment_safe: "length seen = 16 \<Longrightarrow> check_blend_attachment e p seen x \<noteq> Stray"
  by (auto simp: check_blend_attachment_def not_le word_less_nat_alt)

lemma check_viewport_safe: "length seen = 16 \<Longrightarrow> gvs_viewport_count e \<le> 16 \<Longrightarrow> check_viewport e seen x \<noteq> Stray"
  by (auto simp: check_viewport_def not_le word_less_nat_alt word_le_nat_alt)

lemma check_scissor_safe: "length seen = 16 \<Longrightarrow> gvs_scissor_count e \<le> 16 \<Longrightarrow> check_scissor e seen x \<noteq> Stray"
  by (auto simp: check_scissor_def not_le word_less_nat_alt word_le_nat_alt)

lemma check_static_state_safe: "tables_fit v \<Longrightarrow> length seen = 64 \<Longrightarrow> check_static_state v seen e \<noteq> Stray"
  by (auto simp: check_static_state_def tables_fit_def)

lemma check_blend_state_safe:
  assumes fit: "tables_fit v" and l: "length seen = 64"
  shows "check_blend_state v seen e \<noteq> Stray"
proof -
  have "each_at_once (gv_blend_attachments v) gba_attachment_index (check_blend_attachment e p) (unmarked 16)
      (indices (gbs_attachment_first e) (gbs_attachment_count e)) \<noteq> Stray"
    if "range_add_u32 (gbs_attachment_first e) (gbs_attachment_count e) (of_nat (length (gv_blend_attachments v)))" for p
    by (rule each_at_once_safe) (use that fit in \<open>auto dest: indices_safe simp: check_blend_attachment_safe tables_fit_def\<close>)
  then show ?thesis using fit l by (auto simp: check_blend_state_def tables_fit_def)
qed

lemma check_viewport_state_safe:
  assumes fit: "tables_fit v" and l: "length seen = 64"
  shows "check_viewport_state v seen e \<noteq> Stray"
proof -
  have "each_at_once (gv_viewports v) gvp_viewport_index (check_viewport e) (unmarked 16)
      (indices (gvs_viewport_static_first e) (gvs_viewport_count e)) \<noteq> Stray"
    if "range_add_u32 (gvs_viewport_static_first e) (gvs_viewport_count e) (of_nat (length (gv_viewports v)))"
      "\<not> 16 < gvs_viewport_count e"
    by (rule each_at_once_safe) (use that fit in \<open>auto dest: indices_safe simp: check_viewport_safe tables_fit_def not_less\<close>)
  moreover have "each_at_once (gv_scissors v) gsc_scissor_index (check_scissor e) (unmarked 16)
      (indices (gvs_scissor_static_first e) (gvs_scissor_count e)) \<noteq> Stray"
    if "range_add_u32 (gvs_scissor_static_first e) (gvs_scissor_count e) (of_nat (length (gv_scissors v)))"
      "\<not> 16 < gvs_scissor_count e"
    by (rule each_at_once_safe) (use that fit in \<open>auto dest: indices_safe simp: check_scissor_safe tables_fit_def not_less\<close>)
  ultimately show ?thesis using fit l by (auto simp: check_viewport_state_def tables_fit_def)
qed


lemma find_binding_safe: "(\<And>i. i \<in> set is \<Longrightarrow> unat i < length (gv_vertex_bindings v)) \<Longrightarrow> find_binding v a is \<noteq> Stray"
  by (induction "is") auto

lemma check_pipeline_safe:
  assumes fit: "tables_fit v"
  shows "check_pipeline v p \<noteq> Stray"
proof -
  have "each_at (gv_vertex_attributes v) (indices (gpl_vertex_attribute_first p) (gpl_vertex_attribute_count p))
      (\<lambda>a. find_binding v a (indices (gpl_vertex_binding_first p) (gpl_vertex_binding_count p))) \<noteq> Stray"
    if "range_add_u32 (gpl_vertex_binding_first p) (gpl_vertex_binding_count p) (of_nat (length (gv_vertex_bindings v)))"
      "range_add_u32 (gpl_vertex_attribute_first p) (gpl_vertex_attribute_count p) (of_nat (length (gv_vertex_attributes v)))"
    by (intro each_at_safe find_binding_safe) (use that fit in \<open>auto dest: indices_safe simp: tables_fit_def\<close>)
  then show ?thesis by (auto simp: check_pipeline_def)
qed

text \<open>The dynamic descriptors: a buffer descriptor that was accepted names a resource.\<close>

lemma accepted_buffer_descriptor:
  "check_v6_descriptor v d = Pass \<Longrightarrow> vulkan_dispatch_descriptor_type_from_api (vo_descriptor_type d) \<noteq> None \<Longrightarrow>
   unat (vo_resource_index d) < length (gv_resources v)"
  by (simp add: check_v6_descriptor_def Let_def)

lemma take_dynamic_offsets_safe:
  assumes "each (check_v6_descriptor v) (gv_descriptors v) = Pass"
    and "range_add_u32 (gcm_first_dynamic_offset c) (gcm_dynamic_offset_count c) (of_nat (length (gv_dynamic_offsets v)))"
    and "length (gv_dynamic_offsets v) < 2 ^ 32"
    and "\<And>i. i \<in> set is \<Longrightarrow> unat i < length (gv_descriptors v)"
  shows "take_dynamic_offsets v c n is \<noteq> Stray"
  using assms(4)
proof (induction "is" arbitrary: n)
  case (Cons i "is")
  let ?d = "gv_descriptors v ! unat i"
  have i: "unat i < length (gv_descriptors v)" and IH: "\<And>n. take_dynamic_offsets v c n is \<noteq> Stray"
    using Cons by auto
  have "check_v6_descriptor v ?d = Pass" using assms(1) i by simp
  note rs = accepted_buffer_descriptor[OF this]
  have dyn: "unat (gcm_first_dynamic_offset c + n) < length (gv_dynamic_offsets v)" if "\<not> gcm_dynamic_offset_count c \<le> n"
    using entry_index(1)[OF assms(2,3), of "unat n"] that by (simp add: word_le_nat_alt)
  show ?case using i IH rs dyn by (auto simp: safe)
qed simp

lemma check_command_safe:
  assumes fit: "tables_fit v" and ds: "each (check_v6_descriptor v) (gv_descriptors v) = Pass"
  shows "check_command v ic \<noteq> Stray"
proof -
  obtain i c where ic: "ic = (i, c)" by fastforce
  have "each_at (gv_vertex_bindings v) (indices (gcm_vertex_binding_first c) (gcm_vertex_binding_count c))
      (\<lambda>b. refuse_if (gvb_buffer_resource_index b = V5_NONE) EPROTO) \<noteq> Stray" if "check_command_ranges v c = Pass"
    by (intro each_at_safe) (use that fit in \<open>auto dest: indices_safe simp: tables_fit_def check_command_ranges_def\<close>)
  moreover have "take_dynamic_offsets v c 0 (indices (gcm_first_descriptor c) (gcm_descriptor_count c)) \<noteq> Stray"
    if "check_command_ranges v c = Pass" "is_v6 1 (gv_header v)"
    by (intro take_dynamic_offsets_safe[OF ds])
      (use that fit in \<open>auto dest: indices_safe simp: tables_fit_def check_command_ranges_def\<close>)
  ultimately show ?thesis by (auto simp: check_command_def ic Let_def safe)
qed

section \<open>The entries of the commands\<close>

lemma fit_commands: "tables_fit v \<Longrightarrow> length (gv_commands v) \<le> MAX_COMMANDS"
  by (simp add: tables_fit_def)

lemma all_claimed_safe: "tables_fit v \<Longrightarrow> all_claimed v types keys \<noteq> Stray"
  unfolding all_claimed_def
  by (intro each_safe) (auto simp: tables_fit_def in_set_enumerate_eq unsigned_of_nat take_bit_nat_eq_self
      split: if_splits)

lemma check_fill_safe: "tables_fit v \<Longrightarrow> length seen = MAX_COMMANDS \<Longrightarrow> check_fill v seen e \<noteq> Stray"
  by (auto simp: check_fill_def claim_Pass safe fit_commands)

lemma check_update_safe: "tables_fit v \<Longrightarrow> length seen = MAX_COMMANDS \<Longrightarrow> check_update v seen e \<noteq> Stray"
  by (auto simp: check_update_def claim_Pass safe fit_commands)

lemma check_clear_color_safe: "tables_fit v \<Longrightarrow> length seen = MAX_COMMANDS \<Longrightarrow> check_clear_color v seen e \<noteq> Stray"
  by (auto simp: check_clear_color_def claim_Pass safe fit_commands)

lemma check_clear_depth_safe: "tables_fit v \<Longrightarrow> length seen = MAX_COMMANDS \<Longrightarrow> check_clear_depth v seen e \<noteq> Stray"
  by (auto simp: check_clear_depth_def claim_Pass safe fit_commands)

lemma check_buffer_copy_safe: "tables_fit v \<Longrightarrow> length seen = MAX_COMMANDS \<Longrightarrow> check_buffer_copy v seen e \<noteq> Stray"
  by (auto simp: check_buffer_copy_def claim_Pass safe fit_commands)

lemma check_query_safe: "tables_fit v \<Longrightarrow> length seen = MAX_COMMANDS \<Longrightarrow> check_query v seen e \<noteq> Stray"
  by (auto simp: check_query_def Let_def safe fit_commands)

lemma check_copy_query_safe: "tables_fit v \<Longrightarrow> length seen = MAX_COMMANDS \<Longrightarrow> check_copy_query v seen e \<noteq> Stray"
  by (auto simp: check_copy_query_def claim_Pass safe fit_commands split: sum.splits)

lemma check_indirect_draw_safe: "tables_fit v \<Longrightarrow> length seen = MAX_COMMANDS \<Longrightarrow> check_indirect_draw v seen e \<noteq> Stray"
  by (auto simp: check_indirect_draw_def claim_Pass safe fit_commands split: option.splits)

lemma indexed_safe:
  "range_add_u32 first n (of_nat (length xs)) \<Longrightarrow> length xs < 2 ^ 32 \<Longrightarrow> (\<And>x. f x \<noteq> Stray) \<Longrightarrow>
   each_at xs (indices first n) f \<noteq> Stray"
  by (intro each_at_safe) (auto dest: indices_safe)

lemma check_clear_command_safe: "tables_fit v \<Longrightarrow> length seen = MAX_COMMANDS \<Longrightarrow> check_clear_command v seen e \<noteq> Stray"
  by (auto simp: check_clear_command_def claim_Pass indexed_safe safe tables_fit_def)

section \<open>Where a check can stray\<close>

text \<open>A resolve attachment whose attachment has no source view in the table; an image with more than 32 mip levels.\<close>

definition unchecked_source :: "v6_view \<Rightarrow> bool" where
  "unchecked_source v \<longleftrightarrow> is_v6 4 (gv_header v) \<and>
     (\<exists>e\<in>set (gv_resolve_attachments v). unat (gra_attachment_index e) < length (gv_attachments v) \<and>
        length (gv_image_views v) \<le> unat (gat_image_view_index (gv_attachments v ! unat (gra_attachment_index e))))"

definition deep_image :: "v6_view \<Rightarrow> bool" where
  "deep_image v \<longleftrightarrow> is_v6 10 (gv_header v) \<and> (\<exists>im\<in>set (gv_images v). 32 < vi_mip_levels im)"

lemma check_resolve_images_safe [safe]: "check_resolve_images v a src dst \<noteq> Stray"
  by (auto simp: check_resolve_images_def)

lemma check_resolve_safe:
  assumes "tables_fit v" "\<not> unchecked_source v" "is_v6 4 (gv_header v)" "e \<in> set (gv_resolve_attachments v)" "length seen = 64"
  shows "check_resolve v seen e \<noteq> Stray"
proof -
  have "unat (gat_image_view_index (gv_attachments v ! unat (gra_attachment_index e))) < length (gv_image_views v)"
    if "unat (gra_attachment_index e) < length (gv_attachments v)"
    using assms(2-4) that by (auto simp: unchecked_source_def)
  then show ?thesis using assms(1,5) by (auto simp: check_resolve_def tables_fit_def safe)
qed

lemma subresource_safe:
  "vi_mip_levels im \<le> 32 \<Longrightarrow> vulkan_graphics_v610_image_subresource_range_valid im aspect mip base layers offs ext \<noteq> Stray"
  by (auto simp: vulkan_graphics_v610_image_subresource_range_valid_def Let_def word_le_nat_alt split: prod.splits)

lemma blit_subresource_safe:
  "vi_mip_levels im \<le> 32 \<Longrightarrow> vulkan_graphics_v615_image_blit_subresource_valid im aspect mip base layers offs ext \<noteq> Stray"
  by (auto simp: vulkan_graphics_v615_image_blit_subresource_valid_def Let_def word_le_nat_alt split: prod.splits)

lemma shallow: "is_v6 10 (gv_header v) \<Longrightarrow> \<not> deep_image v \<Longrightarrow> i < length (gv_images v) \<Longrightarrow> vi_mip_levels (gv_images v ! i) \<le> 32"
  by (auto simp: deep_image_def not_less)

lemma since_later: "is_v6 k h \<Longrightarrow> j \<le> k \<Longrightarrow> is_v6 j h"
  by (auto simp: is_v6_def)

lemma check_buffer_image_copy_safe:
  "tables_fit v \<Longrightarrow> \<not> deep_image v \<Longrightarrow> is_v6 10 (gv_header v) \<Longrightarrow> length seen = MAX_COMMANDS \<Longrightarrow>
   check_buffer_image_copy v seen e \<noteq> Stray"
  by (auto simp: check_buffer_image_copy_def claim_Pass subresource_safe shallow safe fit_commands split: sum.splits)

lemma check_image_copy_safe:
  "tables_fit v \<Longrightarrow> \<not> deep_image v \<Longrightarrow> is_v6 10 (gv_header v) \<Longrightarrow> length seen = MAX_COMMANDS \<Longrightarrow>
   check_image_copy v seen e \<noteq> Stray"
  by (auto simp: check_image_copy_def claim_Pass subresource_safe shallow safe fit_commands)

lemma check_resolve_image_safe:
  "tables_fit v \<Longrightarrow> \<not> deep_image v \<Longrightarrow> is_v6 10 (gv_header v) \<Longrightarrow> length seen = MAX_COMMANDS \<Longrightarrow>
   check_resolve_image v seen e \<noteq> Stray"
  by (auto simp: check_resolve_image_def claim_Pass subresource_safe shallow safe fit_commands)

lemma check_blit_safe:
  "tables_fit v \<Longrightarrow> \<not> deep_image v \<Longrightarrow> is_v6 10 (gv_header v) \<Longrightarrow> length seen = MAX_COMMANDS \<Longrightarrow>
   check_blit v seen e \<noteq> Stray"
  by (auto simp: check_blit_def claim_Pass blit_subresource_safe shallow safe fit_commands)


section \<open>The whole check\<close>

lemma frame_hashes_safe: "check_frame_hashes v \<noteq> Stray"
  by (simp add: check_frame_hashes_def Let_def)

lemma hash_blocks_safe:
  "check_hashes_v61_v67 v \<noteq> Stray" "check_hashes_v68_v616 v \<noteq> Stray" "check_hashes_v617_v620 v \<noteq> Stray"
proof -
  have "check_hashes_v611 v \<noteq> Stray" by (simp add: check_hashes_v611_def Let_def split: prod.splits)
  then show "check_hashes_v61_v67 v \<noteq> Stray" "check_hashes_v68_v616 v \<noteq> Stray" "check_hashes_v617_v620 v \<noteq> Stray"
    unfolding check_hashes_v61_v67_def check_hashes_v68_v616_def check_hashes_v617_v620_def by (auto simp: safe)
qed

lemma check_objects_safe: "check_objects v \<noteq> Stray"
  by (auto simp: check_objects_def safe)

lemma check_pipeline_states_safe: "tables_fit v \<Longrightarrow> \<not> unchecked_source v \<Longrightarrow> check_pipeline_states v \<noteq> Stray"
  by (auto simp: check_pipeline_states_def safe check_resolve_safe check_static_state_safe check_blend_state_safe
      check_viewport_state_safe)

lemma check_pipelines_safe: "tables_fit v \<Longrightarrow> check_pipelines v \<noteq> Stray"
  by (auto simp: check_pipelines_def safe check_pipeline_safe)

lemma check_v61_entries_safe: "check_v61_entries v \<noteq> Stray"
  by (auto simp: check_v61_entries_def safe)

lemma check_commands_safe:
  "tables_fit v \<Longrightarrow> each (check_v6_descriptor v) (gv_descriptors v) = Pass \<Longrightarrow> check_commands v \<noteq> Stray"
  unfolding check_commands_def by (intro each_safe check_command_safe)

lemma entries_safe:
  assumes "tables_fit v"
  shows "check_fills_and_updates v \<noteq> Stray" "check_clear_colors v \<noteq> Stray" "check_clear_depths v \<noteq> Stray"
    "check_buffer_copies v \<noteq> Stray" "check_clear_commands v \<noteq> Stray" "check_queries v \<noteq> Stray"
    "check_copy_queries v \<noteq> Stray"
    "each_once gid_command_index (check_indirect_draw v) (unmarked MAX_COMMANDS) (gv_indirect_draws v) \<noteq> Stray"
  using assms
  by (auto simp: check_fills_and_updates_def check_clear_colors_def check_clear_depths_def check_buffer_copies_def
      check_clear_commands_def check_queries_def check_copy_queries_def check_fill_safe check_update_safe
      check_clear_color_safe check_clear_depth_safe check_buffer_copy_safe check_clear_command_safe check_query_safe
      check_copy_query_safe check_indirect_draw_safe all_claimed_safe)

lemma image_entries_safe:
  assumes "tables_fit v" "\<not> deep_image v" "is_v6 10 (gv_header v)"
  shows "check_image_copies v \<noteq> Stray" "check_image_resolves v \<noteq> Stray" "check_blits v \<noteq> Stray"
  using assms
  by (auto simp: check_image_copies_def check_image_resolves_def check_blits_def check_buffer_image_copy_safe
      check_image_copy_safe check_resolve_image_safe check_blit_safe all_claimed_safe)

lemma content_safe:
  assumes fit: "tables_fit v" and "\<not> unchecked_source v" "\<not> deep_image v"
  shows "validate_vulkan_graphics_v6_content files v \<noteq> Stray"
proof
  assume s: "validate_vulkan_graphics_v6_content files v = Stray"
  have ds: "each (check_v6_descriptor v) (gv_descriptors v) = Pass" if "check_objects v = Pass"
    using that by (simp add: check_objects_def)
  have ten: "is_v6 10 (gv_header v)" if "is_v6 14 (gv_header v) \<or> is_v6 15 (gv_header v)"
    using that by (auto elim: since_later)
  have stages: "each (check_stage files v) (gv_stages v) \<noteq> Stray" by (auto simp: safe)
  show False
    using s ds ten check_commands_safe[OF fit] image_entries_safe[OF fit \<open>\<not> deep_image v\<close>]
    unfolding validate_vulkan_graphics_v6_content_def
    by (simp only: first_fault_Stray since_Stray first_fault.simps(1) frame_hashes_safe hash_blocks_safe check_objects_safe
        stages check_pipeline_states_safe[OF assms(1,2)] check_pipelines_safe[OF fit] check_v61_entries_safe entries_safe[OF fit]
        verdict.simps) blast
qed

end
