(* ===== verification/Graphics_Places.thy ===== *)
theory Graphics_Places
  imports Graphics_Safety Frame_Lemmas
begin

text \<open>
  What the checks of a graphics frame's header guarantee: where the tables are, and that no two of them share a byte.
\<close>

section \<open>Ranges as sets of bytes\<close>

definition bytes_of_range :: "u64 \<times> u64 \<Rightarrow> nat set" where
  "bytes_of_range r = {unat (fst r)..<unat (fst r) + unat (snd r)}"

lemma no_wrap64: "\<not> a + b < a \<longleftrightarrow> unat a + unat b < 2 ^ 64" for a b :: u64
proof (cases "unat a + unat b < 2 ^ 64")
  case True
  then have "unat (a + b) = unat a + unat b" by (simp add: unat_word_ariths take_bit_nat_eq_self)
  then show ?thesis using True by (simp add: word_less_nat_alt)
next
  case False
  have "unat (a + b) = (unat a + unat b) mod 2 ^ 64" by (simp add: unat_word_ariths take_bit_eq_mod)
  also have "\<dots> = unat a + unat b - 2 ^ 64"
    using False unat_lt64[of a] unat_lt64[of b] by (simp add: mod_if)
  finally show ?thesis using False unat_lt64[of b] by (simp add: word_less_nat_alt)
qed

lemma sum64: "unat a + unat b < 2 ^ 64 \<Longrightarrow> unat (a + b) = unat a + unat b" for a b :: u64
  by (simp add: unat_word_ariths take_bit_nat_eq_self)

lemma clear_of_sets:
  assumes "unat a0 + unat sz < 2 ^ 64" "sz \<noteq> 0"
  shows "clear_of a0 (a0 + sz) rs \<longleftrightarrow>
    list_all (\<lambda>r. unat (fst r) + unat (snd r) < 2 ^ 64 \<and> bytes_of_range (a0, sz) \<inter> bytes_of_range r = {}) rs"
  using assms(2)
proof (induction rs)
  case (Cons r rs)
  obtain b0 s where r: "r = (b0, s)" by fastforce
  show ?case
  proof (cases "s = 0")
    case True
    then show ?thesis using Cons unat_lt64[of b0] by (simp add: r bytes_of_range_def)
  next
    case False
    then have "0 < unat s" "0 < unat sz" using Cons.prems by (simp_all add: unat_gt_0)
    then have "bytes_of_range (a0, sz) \<inter> bytes_of_range (b0, s) = {} \<longleftrightarrow> \<not> (a0 < b0 + s \<and> b0 < a0 + sz)"
      if "unat b0 + unat s < 2 ^ 64"
      using that sum64[OF that] sum64[OF assms(1)] by (auto simp: bytes_of_range_def word_less_nat_alt)
    then show ?thesis using False Cons no_wrap64[of b0 s] by (auto simp: r)
  qed
qed simp

lemma no_overlap_sets:
  "frame_ranges_do_not_overlap rs \<longleftrightarrow>
     list_all (\<lambda>r. unat (fst r) + unat (snd r) < 2 ^ 64) rs \<and>
     sorted_wrt (\<lambda>a b. bytes_of_range a \<inter> bytes_of_range b = {}) rs"
proof (induction rs)
  case (Cons r rs)
  obtain a0 sz where r: "r = (a0, sz)" by fastforce
  show ?case
  proof (cases "sz = 0")
    case True
    then show ?thesis using Cons unat_lt64[of a0] by (simp add: r bytes_of_range_def)
  next
    case False
    then show ?thesis
      using Cons no_wrap64[of a0 sz] clear_of_sets[of a0 sz rs] by (auto simp: r list_all_iff)
  qed
qed simp

section \<open>An accepted header\<close>

lemma v6_prefix_sizes:
  assumes "validate_vulkan_graphics_v6_header_prefix h n = 0"
  shows "gh_abi_minor h \<le> 20" "448 \<le> unat (gh_header_size h)" "unat (gh_header_size h) \<le> unat (gh_frame_size h)"
    "unat (gh_frame_size h) \<le> 0x800000" "unat (gh_fd_count h) = n" "n \<le> GPU_MAX_PASSED_FDS"
proof -
  note v = assms[unfolded validate_vulkan_graphics_v6_header_prefix_def]
  show m: "gh_abi_minor h \<le> 20" using v by (auto split: if_splits)
  have s: "gh_header_size h = v6_header_sizes ! unat (gh_abi_minor h)" using v by (auto split: if_splits)
  have "unat (gh_abi_minor h) < length v6_header_sizes" using m by (simp add: v6_header_sizes_def word_le_nat_alt)
  then have "v6_header_sizes ! unat (gh_abi_minor h) \<in> set v6_header_sizes" by (rule nth_mem)
  then show "448 \<le> unat (gh_header_size h)" unfolding s by (auto simp: v6_header_sizes_def)
  have "\<not> gh_frame_size h < ucast (gh_header_size h)" "\<not> V6_MAX_FRAME_BYTES < gh_frame_size h" using v by (auto split: if_splits)
  then show "unat (gh_header_size h) \<le> unat (gh_frame_size h)" "unat (gh_frame_size h) \<le> 0x800000"
    by (auto simp: word_less_nat_alt V6_MAX_FRAME_BYTES_def not_less)
  show "unat (gh_fd_count h) = n" "n \<le> GPU_MAX_PASSED_FDS" using v by (auto split: if_splits)
qed

lemma v6_header_checks:
  assumes "validate_vulkan_graphics_v6_header frame n = 0"
  shows "validate_vulkan_graphics_v6_header_prefix (v6_header_of frame) n = 0"
    "\<And>t r. (t, r) \<in> set (v6_all_tables frame) \<Longrightarrow> ta_count t \<le> ru_max r"
    "\<And>t r. (t, r) \<in> set (v6_all_tables frame) \<Longrightarrow> ta_entry_size t = ru_entry_size r"
    "\<And>t r. (t, r) \<in> set (v6_all_tables frame) \<Longrightarrow>
       table_range_valid t (ru_align r) (gh_frame_size (v6_header_of frame)) (ucast (gh_header_size (v6_header_of frame)))"
    "frame_ranges_do_not_overlap (v6_ranges frame (v6_header_of frame))"
  using assms by (auto simp: validate_vulkan_graphics_v6_header_def Let_def not_less split: if_splits)

text \<open>A table is empty, or lies behind the header, at its alignment and inside the frame.\<close>

definition table_in_place :: "v6_header \<Rightarrow> v6_table \<Rightarrow> v6_rule \<Rightarrow> bool" where
  "table_in_place h t r \<longleftrightarrow>
     ta_count t = 0 \<and> ta_size t = 0 \<or>
     unat (gh_header_size h) \<le> unat (ta_offset t) \<and> (ru_align r = 0 \<or> unat (ta_offset t) mod unat (ru_align r) = 0) \<and>
     unat (ta_offset t) + unat (ta_count t) * unat (ru_entry_size r) \<le> unat (gh_frame_size h)"

lemma table_range_in_place:
  assumes "table_range_valid t (ru_align r) (gh_frame_size h) (ucast (gh_header_size h))" "ta_entry_size t = ru_entry_size r"
  shows "table_in_place h t r"
proof (cases "ta_count t = 0 \<or> ta_size t = 0")
  case False
  then have "unat (ta_size t) = unat (ta_count t) * unat (ta_entry_size t)"
    using assms(1) mul32[of "ta_count t" "ta_entry_size t"] by (auto simp: table_range_valid_def)
  then show ?thesis using False assms
    by (auto simp: table_range_valid_def table_in_place_def range_within_nat word_less_nat_alt not_less unat_mod
        simp flip: unat_eq_zero)
qed (use assms in \<open>auto simp: table_range_valid_def table_in_place_def\<close>)

lemma length_entries [simp]: "length (entries dec sz t frame) = unat (ta_count t)"
  by (simp add: entries_def table_at_def)

lemma unat_lt32: "unat (x :: u32) < 2 ^ 32"
  by (rule order_less_le_trans[OF unsigned_less]) simp

lemma init_view:
  assumes "init_vulkan_graphics_v6_frame_view frame fds = Inr v"
  shows "v = view_of frame fds" "validate_vulkan_graphics_v6_header frame (length fds) = 0"
  using assms by (auto simp: init_vulkan_graphics_v6_frame_view_def Let_def split: if_splits)

lemma view_tables_fit:
  assumes "validate_vulkan_graphics_v6_header frame n = 0"
  shows "tables_fit (view_of frame fds)"
proof -
  have "set (v6_tables frame) \<subseteq> set (v6_all_tables frame)" by (simp add: v6_all_tables_def)
  then have max: "ta_count t \<le> ru_max r" if "(t, r) \<in> set (v6_tables frame)" for t r
    using v6_header_checks(2)[OF assms] that by auto
  have "ta_count (t_commands frame) \<le> 4096" "ta_count (t_pipelines frame) \<le> 64" "ta_count (t_attachments frame) \<le> 64"
    using max by (force simp: v6_tables_def)+
  then show ?thesis by (simp add: tables_fit_def view_of_def Let_def unat_lt32[simplified] word_le_nat_alt)
qed

section \<open>A received frame\<close>

lemma table_present:
  assumes "table_range_valid t a (gh_frame_size h) hs"
  shows "\<not> v6_table_missing h t"
proof -
  have "ta_count t = 0 \<or> ta_size t \<noteq> 0 \<and> range_within_frame (ta_offset t) (ta_size t) (gh_frame_size h)"
    using assms unfolding table_range_valid_def by argo
  then show ?thesis by (auto simp: v6_table_missing_def graphics_v6_table_ptr_def)
qed

lemma init_accepted:
  assumes "validate_vulkan_graphics_v6_header frame (length fds) = 0"
  shows "init_vulkan_graphics_v6_frame_view frame fds = Inr (view_of frame fds)"
  using v6_header_checks(4)[OF assms] assms table_present
  unfolding init_vulkan_graphics_v6_frame_view_def Let_def by fastforce

text \<open>A frame whose header is accepted is received whole, and its contents are checked.\<close>

lemma handle_whole_frame:
  assumes "validate_vulkan_graphics_v6_header frame (length fds) = 0"
    "length frame = unat (gh_frame_size (v6_header_of frame))"
  shows "handle_vulkan_graphics_v6_frame files True \<lparr>so_bytes = frame, so_fds = fds\<rparr> =
    validate_vulkan_graphics_v6_frame_content files frame fds"
proof -
  let ?rest = "\<lparr>so_bytes = drop 448 frame, so_fds = []\<rparr>"
  note p = v6_header_checks(1)[OF assms(1)]
  have len: "448 \<le> length frame" "frame \<noteq> []" using v6_prefix_sizes(2,3)[OF p] assms(2) by auto
  have t: "v6_header_of (take 448 frame) = v6_header_of frame" by (simp add: v6_header_of_def field_def drop_take)
  have r: "recv_vulkan_graphics_v6_header_with_fds \<lparr>so_bytes = frame, so_fds = fds\<rparr> = (0, take 448 frame, fds, ?rest)"
    using p len v6_prefix_sizes(6)[OF p]
    by (simp add: recv_vulkan_graphics_v6_header_with_fds_def Let_def t min_absorb2)
  have "\<not> gh_frame_size (v6_header_of frame) < 448" using len(1) assms(2) by (simp add: word_less_nat_alt)
  moreover have "fst (read_exact_bytes (length frame - 448) ?rest) = Inr (drop 448 frame)" by (simp add: read_exact_bytes_def)
  ultimately show ?thesis
    by (simp add: handle_vulkan_graphics_v6_frame_def r t Let_def assms(2)[symmetric])
qed

text \<open>What is known of a frame that is accepted.\<close>

lemma accepted_frame:
  assumes "handle_vulkan_graphics_v6_frame files ok s = V6_Accepted v"
  obtains frame fds where "v = view_of frame fds" "validate_vulkan_graphics_v6_header frame (length fds) = 0"
    "validate_vulkan_graphics_v6_content files v = Pass" "length frame = unat (gh_frame_size (v6_header_of frame))"
proof -
  obtain rc header fds s' where r: "recv_vulkan_graphics_v6_header_with_fds s = (rc, header, fds, s')"
    by (metis prod_cases4)
  have hl: "length header = 448" using r by (auto simp: recv_vulkan_graphics_v6_header_with_fds_def Let_def split: if_splits)
  obtain rest where rest: "fst (read_exact_bytes (unat (gh_frame_size (v6_header_of header)) - 448) s') = Inr rest"
    and big: "\<not> gh_frame_size (v6_header_of header) < 448"
    and a: "validate_vulkan_graphics_v6_frame_content files (header @ rest) fds = V6_Accepted v"
    using assms by (auto simp: handle_vulkan_graphics_v6_frame_def r Let_def split: if_splits sum.splits)
  have h: "v6_header_of (header @ rest) = v6_header_of header" by (simp add: v6_header_of_def field_def hl)
  have "length rest = unat (gh_frame_size (v6_header_of header)) - 448"
    using rest by (auto simp: read_exact_bytes_def split: if_splits)
  then have "length (header @ rest) = unat (gh_frame_size (v6_header_of (header @ rest)))"
    using hl big unfolding h by (simp add: word_less_nat_alt)
  moreover obtain w where "init_vulkan_graphics_v6_frame_view (header @ rest) fds = Inr w" "w = v"
      "validate_vulkan_graphics_v6_content files v = Pass"
    using a by (auto simp: validate_vulkan_graphics_v6_frame_content_def split: sum.splits verdict.splits)
  ultimately show thesis using that init_view by blast
qed

end
