(* ===== verification/Graphics_Types.thy ===== *)
theory Graphics_Types
  imports Graphics_Places
begin

text \<open>
  A typing of graphics frames, first half: what the indices and ranges of the objects, the pipelines, the commands and the
  entries of the commands have to name. \<open>Graphics_Typed\<close> adds the shader stages, the state of the pipelines and the whole
  frame.
\<close>

section \<open>Ranges as numbers\<close>

lemma u64_range_nat: "u64_range_within_size off sz limit \<longleftrightarrow> unat off + unat sz \<le> unat limit"
  using range_within_nat[of off sz limit] by (simp add: u64_range_within_size_def range_within_frame_def)

lemma sub_nat32: "a \<le> b \<Longrightarrow> unat (b - a) = unat b - unat a" for a b :: u32
  by (simp add: unat_sub word_le_nat_alt)

lemma outside_extent_nat: "outside_extent off ext limit \<longleftrightarrow> unat limit < unat off + unat ext"
proof (cases "limit < off")
  case False
  then have "unat (limit - off) = unat limit - unat off" by (simp add: sub_nat32 not_less)
  then show ?thesis using False by (auto simp: outside_extent_def word_less_nat_alt)
qed (auto simp: outside_extent_def word_less_nat_alt)

lemma levels_outside_nat:
  "\<not> levels_outside im base_mip levels base_layer layers \<longleftrightarrow>
     unat base_mip < unat (vi_mip_levels im) \<and> unat base_mip + unat levels \<le> unat (vi_mip_levels im) \<and>
     unat base_layer < unat (vi_array_layers im) \<and> unat base_layer + unat layers \<le> unat (vi_array_layers im)"
  using sub_nat32[of base_mip "vi_mip_levels im"] sub_nat32[of base_layer "vi_array_layers im"]
  by (auto simp: levels_outside_def word_less_nat_alt word_le_nat_alt not_le not_less)

section \<open>Objects\<close>

definition is_kind :: "v5_resource list \<Rightarrow> u32 \<Rightarrow> u32 \<Rightarrow> bool" where
  "is_kind rs kind i \<longleftrightarrow> unat i < length rs \<and> vr_resource_type (rs ! unat i) = kind"

definition inside :: "v5_resource list \<Rightarrow> u32 \<Rightarrow> u32 \<Rightarrow> u64 \<Rightarrow> u64 \<Rightarrow> bool" where
  "inside rs kind i off sz \<longleftrightarrow> is_kind rs kind i \<and> unat off + unat sz \<le> unat (vr_size (rs ! unat i))"

definition none_or_below :: "u32 \<Rightarrow> 'a list \<Rightarrow> bool" where
  "none_or_below i xs \<longleftrightarrow> i = V5_NONE \<or> unat i < length xs"

text \<open>An index that is used names an entry, and one that is not used is none.\<close>

definition names_iff :: "bool \<Rightarrow> u32 \<Rightarrow> 'a list \<Rightarrow> bool" where
  "names_iff used i xs \<longleftrightarrow> (if used then i \<noteq> V5_NONE \<and> unat i < length xs else i = V5_NONE)"

definition in_frame :: "v6_view \<Rightarrow> u64 \<Rightarrow> u64 \<Rightarrow> bool" where
  "in_frame v off sz \<longleftrightarrow> unat off + unat sz \<le> unat (gh_frame_size (gv_header v))"

lemma payload_in_frame: "payload_range_valid off sz (gh_frame_size (gv_header v)) \<Longrightarrow> in_frame v off sz"
  by (auto simp: payload_range_valid_def in_frame_def range_within_nat split: if_splits)

definition resource_typed :: "v6_view \<Rightarrow> v5_resource \<Rightarrow> bool" where
  "resource_typed v r \<longleftrightarrow>
     none_or_below (vr_parent_resource_index r) (gv_resources v) \<and> none_or_below (vr_fd_index r) (gv_fds v) \<and>
     (if vr_resource_type r = RESOURCE_MEMORY then vr_parent_resource_index r = V5_NONE
      else vr_fd_index r = V5_NONE \<and>
        (if vr_resource_type r = RESOURCE_BUFFER
         then inside (gv_resources v) RESOURCE_MEMORY (vr_parent_resource_index r) (vr_memory_offset r) (vr_size r)
         else vr_resource_type r \<in> set [RESOURCE_IMAGE, RESOURCE_IMAGE_VIEW, RESOURCE_SAMPLER]))"

definition image_typed :: "v6_view \<Rightarrow> v5_image \<Rightarrow> bool" where
  "image_typed v im \<longleftrightarrow>
     inside (gv_resources v) RESOURCE_MEMORY (vi_memory_resource_index im) (vi_memory_offset im) (vi_memory_size im)"

text \<open>The bytes a descriptor binds: to the end of the buffer when its range is the largest number.\<close>

definition bound_bytes_inside :: "v5_resource \<Rightarrow> v5_object_descriptor \<Rightarrow> u64 \<Rightarrow> bool" where
  "bound_bytes_inside buf d dyn \<longleftrightarrow>
     unat (vo_buffer_offset d) + unat dyn + (if vo_range d = UINT64_MAX then 0 else unat (vo_range d)) \<le> unat (vr_size buf)"

definition descriptor_typed :: "v6_view \<Rightarrow> v5_object_descriptor \<Rightarrow> bool" where
  "descriptor_typed v d \<longleftrightarrow>
     (if vulkan_dispatch_descriptor_type_from_api (vo_descriptor_type d) \<noteq> None then
        inside (gv_resources v) RESOURCE_BUFFER (vo_resource_index d) (vo_transfer_offset d) (vo_transfer_size d) \<and>
        bound_bytes_inside (gv_resources v ! unat (vo_resource_index d)) d (vo_dynamic_offset d) \<and>
        vo_image_view_index d = V5_NONE \<and> vo_sampler_index d = V5_NONE
      else case vulkan_dispatch_image_descriptor_type_from_api (vo_descriptor_type d) of
        None \<Rightarrow> False
      | Some k \<Rightarrow> vo_resource_index d = V5_NONE \<and>
          names_iff (vulkan_descriptor_type_requires_image_view k) (vo_image_view_index d) (gv_image_views v) \<and>
          names_iff (vulkan_descriptor_type_requires_sampler k) (vo_sampler_index d) (gv_samplers v))"

definition objects_typed :: "v6_view \<Rightarrow> bool" where
  "objects_typed v \<longleftrightarrow>
     list_all (resource_typed v) (gv_resources v) \<and> list_all (image_typed v) (gv_images v) \<and>
     list_all (\<lambda>w. unat (vv_image_index w) < length (gv_images v)) (gv_image_views v) \<and>
     list_all (descriptor_typed v) (gv_descriptors v)"

lemma v6_resource_typed:
  assumes "check_v6_resource (gv_resources v) (gv_fds v) r = Pass"
  shows "resource_typed v r"
proof (cases "vr_resource_type r = RESOURCE_MEMORY \<or> vr_resource_type r = RESOURCE_BUFFER")
  case True
  then show ?thesis using assms
    by (auto simp: check_v6_resource_def resource_typed_def none_or_below_def inside_def is_kind_def u64_range_nat not_le
        split: if_splits)
next
  case False
  then show ?thesis using assms
    by (auto simp: check_v6_resource_def resource_typed_def none_or_below_def not_le split: if_splits)
qed


lemma descriptor_range_inside: "check_descriptor_range buf d dyn = Pass \<Longrightarrow> bound_bytes_inside buf d dyn"
  by (auto simp: check_descriptor_range_def bound_bytes_inside_def u64_range_nat word_less_nat_alt not_less add3_unat Let_def
      split: option.splits if_splits dest!: add3_unat)

lemma v6_descriptor_typed:
  assumes "check_v6_descriptor v d = Pass"
  shows "descriptor_typed v d"
proof (cases "vulkan_dispatch_descriptor_type_from_api (vo_descriptor_type d)")
  case None
  then show ?thesis using assms
    by (auto simp: check_v6_descriptor_def descriptor_typed_def names_iff_def Let_def split: option.splits if_splits)
next
  case (Some k)
  then show ?thesis using assms
    by (auto simp: check_v6_descriptor_def descriptor_typed_def inside_def is_kind_def u64_range_nat Let_def
        intro: descriptor_range_inside split: if_splits)
qed

lemma checked_objects_typed:
  assumes "check_objects v = Pass"
  shows "objects_typed v"
proof -
  have "image_typed v im" if "check_v6_image (gv_resources v) im = Pass" for im
    using that by (auto simp: check_v6_image_def image_typed_def inside_def is_kind_def u64_range_nat split: if_splits)
  then show ?thesis using assms
    by (auto simp: check_objects_def objects_typed_def list_all_iff v6_resource_typed v6_descriptor_typed)
qed

section \<open>Pipelines\<close>

definition vertex_binding_typed :: "v6_view \<Rightarrow> g_vertex_binding \<Rightarrow> bool" where
  "vertex_binding_typed v b \<longleftrightarrow>
     gvb_buffer_resource_index b = V5_NONE \<or>
     inside (gv_resources v) RESOURCE_BUFFER (gvb_buffer_resource_index b) (gvb_offset b) (gvb_size b)"

definition slice_inside :: "u32 \<Rightarrow> u32 \<Rightarrow> 'a list \<Rightarrow> bool" where
  "slice_inside first n xs \<longleftrightarrow> unat first + unat n \<le> length xs"

definition pipeline_typed :: "v6_view \<Rightarrow> g_pipeline \<Rightarrow> bool" where
  "pipeline_typed v p \<longleftrightarrow>
     slice_inside (gpl_shader_stage_first p) (gpl_shader_stage_count p) (gv_stages v) \<and>
     slice_inside (gpl_vertex_binding_first p) (gpl_vertex_binding_count p) (gv_vertex_bindings v) \<and>
     slice_inside (gpl_vertex_attribute_first p) (gpl_vertex_attribute_count p) (gv_vertex_attributes v)"

definition attachment_typed :: "v6_view \<Rightarrow> g_attachment \<Rightarrow> bool" where
  "attachment_typed v a \<longleftrightarrow>
     none_or_below (gat_image_view_index a) (gv_image_views v) \<and>
     none_or_below (gat_resolve_image_view_index a) (gv_image_views v) \<and>
     in_frame v (gat_clear_value_offset a) (gat_clear_value_size a)"

definition pipelines_typed :: "v6_view \<Rightarrow> bool" where
  "pipelines_typed v \<longleftrightarrow>
     list_all (pipeline_typed v) (gv_pipelines v) \<and> list_all (vertex_binding_typed v) (gv_vertex_bindings v) \<and>
     list_all (attachment_typed v) (gv_attachments v)"

lemma slice_inside_range: "range_add_u32 first n (of_nat (length xs)) \<Longrightarrow> length xs < 2 ^ 32 \<Longrightarrow> slice_inside first n xs"
  by (simp add: range_add_nat slice_inside_def unsigned_of_nat take_bit_nat_eq_self)

lemma checked_pipelines_typed:
  assumes fit: "tables_fit v" and "check_pipelines v = Pass"
  shows "pipelines_typed v"
proof -
  have "pipeline_typed v p" if "check_pipeline v p = Pass" for p
    using that fit by (auto simp: check_pipeline_def pipeline_typed_def tables_fit_def intro: slice_inside_range)
  moreover have "vertex_binding_typed v b" if "check_vertex_binding v b = Pass" for b
    using that by (auto simp: check_vertex_binding_def vertex_binding_typed_def inside_def is_kind_def u64_range_nat
        split: if_splits)
  moreover have "attachment_typed v a" if "check_attachment v a = Pass" for a
    using that by (auto simp: check_attachment_def attachment_typed_def none_or_below_def not_le intro: payload_in_frame)
  ultimately show ?thesis using assms(2) by (auto simp: check_pipelines_def pipelines_typed_def list_all_iff)
qed

section \<open>Commands\<close>

definition command_typed :: "v6_view \<Rightarrow> g_command \<Rightarrow> bool" where
  "command_typed v c \<longleftrightarrow>
     none_or_below (gcm_pipeline_index c) (gv_pipelines v) \<and>
     (gcm_command_type c \<in> set [CMD_DRAW, CMD_DRAW_INDEXED] \<longrightarrow> gcm_pipeline_index c \<noteq> V5_NONE) \<and>
     in_frame v (gcm_push_offset c) (gcm_push_size c) \<and>
     (is_v6 1 (gv_header v) \<longrightarrow>
        slice_inside (gcm_first_dynamic_offset c) (gcm_dynamic_offset_count c) (gv_dynamic_offsets v)) \<and>
     slice_inside (gcm_first_descriptor c) (gcm_descriptor_count c) (gv_descriptors v) \<and>
     slice_inside (gcm_vertex_binding_first c) (gcm_vertex_binding_count c) (gv_vertex_bindings v) \<and>
     slice_inside (gcm_attachment_first c) (gcm_attachment_count c) (gv_attachments v) \<and>
     slice_inside (gcm_dynamic_state_first c) (gcm_dynamic_state_count c) (gv_dynamic_states v) \<and>
     (if gcm_command_type c = CMD_DRAW_INDEXED
      then inside (gv_resources v) RESOURCE_BUFFER (gcm_index_buffer_resource_index c) (gcm_index_offset c) 0
      else none_or_below (gcm_index_buffer_resource_index c) (gv_resources v))"

lemma checked_command_typed:
  assumes fit: "tables_fit v" and "check_command v (i, c) = Pass"
  shows "command_typed v c"
proof -
  have r: "check_command_ranges v c = Pass" "check_index_buffer v c = Pass"
    and p: "none_or_below (gcm_pipeline_index c) (gv_pipelines v)" "in_frame v (gcm_push_offset c) (gcm_push_size c)"
      "gcm_command_type c \<in> set [CMD_DRAW, CMD_DRAW_INDEXED] \<longrightarrow> gcm_pipeline_index c \<noteq> V5_NONE"
    using assms(2) by (auto simp: check_command_def Let_def none_or_below_def not_le intro: payload_in_frame)
  from r(2) have "if gcm_command_type c = CMD_DRAW_INDEXED
      then inside (gv_resources v) RESOURCE_BUFFER (gcm_index_buffer_resource_index c) (gcm_index_offset c) 0
      else none_or_below (gcm_index_buffer_resource_index c) (gv_resources v)"
    by (auto simp: check_index_buffer_def Let_def inside_def is_kind_def none_or_below_def not_le word_le_nat_alt not_less
        split: if_splits)
  then show ?thesis
    using r(1) p fit
    by (auto simp: command_typed_def check_command_ranges_def tables_fit_def intro: slice_inside_range)
qed

lemma checked_commands_typed: "tables_fit v \<Longrightarrow> check_commands v = Pass \<Longrightarrow> list_all (command_typed v) (gv_commands v)"
  by (auto simp: check_commands_def list_all_length in_set_enumerate_eq intro!: checked_command_typed)


section \<open>Entries of the commands\<close>

lemma each_once_entry: "each_once key f seen xs = Pass \<Longrightarrow> x \<in> set xs \<Longrightarrow> \<exists>s. f s x = Pass"
  by (induction xs arbitrary: seen) auto

lemma each_once_typed:
  assumes "each_once key f seen xs = Pass" "\<And>s x. f s x = Pass \<Longrightarrow> P x"
  shows "list_all P xs"
  using each_once_entry[OF assms(1)] assms(2) by (auto simp: list_all_iff)

lemma checked_mul_nat: "checked_mul_u64_executor a b = Some r \<longleftrightarrow> unat a * unat b < 2 ^ 64 \<and> r = a * b"
proof (cases "a = 0")
  case False
  then have a: "0 < unat a" by (simp add: unat_gt_0)
  have "UINT64_MAX div a < b \<longleftrightarrow> (2 ^ 64 - 1) div unat a < unat b"
    by (simp add: word_less_nat_alt unat_div)
  also have "\<dots> \<longleftrightarrow> 2 ^ 64 - 1 < unat b * unat a" using a by (rule div_less_iff_less_mult)
  also have "\<dots> \<longleftrightarrow> \<not> unat a * unat b < 2 ^ 64" by (auto simp: mult.commute[of "unat b"])
  finally show ?thesis using False by (simp add: checked_mul_u64_executor_def) blast
qed (auto simp: checked_mul_u64_executor_def)

lemma checked_mul_unat: "checked_mul_u64_executor a b = Some r \<Longrightarrow> unat r = unat a * unat b"
  by (auto simp: checked_mul_nat unat_word_ariths take_bit_nat_eq_self)

definition claims :: "v6_view \<Rightarrow> u32 \<Rightarrow> u32 list \<Rightarrow> bool" where
  "claims v ci types \<longleftrightarrow> unat ci < length (gv_commands v) \<and> gcm_command_type (gv_commands v ! unat ci) \<in> set types"

definition levels_inside :: "v6_view \<Rightarrow> u32 \<Rightarrow> u32 \<Rightarrow> u32 \<Rightarrow> u32 \<Rightarrow> u32 \<Rightarrow> bool" where
  "levels_inside v i base_mip levels base_layer layers \<longleftrightarrow>
     unat i < length (gv_images v) \<and>
     (let im = gv_images v ! unat i in
      unat base_mip + unat levels \<le> unat (vi_mip_levels im) \<and> unat base_layer + unat layers \<le> unat (vi_array_layers im))"

definition region_inside :: "v6_view \<Rightarrow> u32 \<Rightarrow> u32 \<Rightarrow> u32 \<Rightarrow> u32 \<Rightarrow> u32 \<times> u32 \<times> u32 \<Rightarrow> u32 \<times> u32 \<times> u32 \<Rightarrow> bool" where
  "region_inside v i mip base layers offs ext \<longleftrightarrow>
     levels_inside v i mip 1 base layers \<and>
     (let im = gv_images v ! unat i; (x, y, z) = offs; (w, h, d) = ext in
      0 < unat w \<and> 0 < unat h \<and> 0 < unat d \<and>
      unat x + unat w \<le> unat (mip_extent (vi_extent_width im) mip) \<and>
      unat y + unat h \<le> unat (mip_extent (vi_extent_height im) mip) \<and>
      unat z + unat d \<le> unat (mip_extent (vi_extent_depth im) mip))"

lemma region_inside_checked:
  assumes "unat i < length (gv_images v)"
    "vulkan_graphics_v610_image_subresource_range_valid (gv_images v ! unat i) aspect mip base layers offs ext = Pass"
  shows "region_inside v i mip base layers offs ext"
proof -
  obtain x y z where offs: "offs = (x, y, z)" by (cases offs)
  obtain w h d where ext: "ext = (w, h, d)" by (cases ext)
  let ?im = "gv_images v ! unat i"
  have "\<not> levels_outside ?im mip 1 base layers"
    using assms(2) by (auto simp: vulkan_graphics_v610_image_subresource_range_valid_def levels_outside_def offs ext
        word_le_nat_alt word_less_nat_alt sub_nat32 split: if_splits)
  then show ?thesis using assms
    by (auto simp: vulkan_graphics_v610_image_subresource_range_valid_def region_inside_def levels_inside_def Let_def offs ext
        outside_extent_nat levels_outside_nat not_less unat_gt_0 split: if_splits)
qed


definition corner_inside :: "v6_view \<Rightarrow> u32 \<Rightarrow> u32 \<Rightarrow> u32 \<times> u32 \<times> u32 \<Rightarrow> bool" where
  "corner_inside v i mip corner \<longleftrightarrow>
     (let im = gv_images v ! unat i; (x, y, z) = corner in
      x \<le> mip_extent (vi_extent_width im) mip \<and> y \<le> mip_extent (vi_extent_height im) mip \<and>
      z \<le> mip_extent (vi_extent_depth im) mip)"

lemma blit_inside_checked:
  assumes "unat i < length (gv_images v)"
    "vulkan_graphics_v615_image_blit_subresource_valid (gv_images v ! unat i) aspect mip base layers c0 c1 = Pass"
  shows "levels_inside v i mip 1 base layers \<and> corner_inside v i mip c0 \<and> corner_inside v i mip c1"
proof -
  obtain x y z where c0: "c0 = (x, y, z)" by (cases c0)
  obtain w h d where c1: "c1 = (w, h, d)" by (cases c1)
  let ?im = "gv_images v ! unat i"
  have "\<not> levels_outside ?im mip 1 base layers"
    using assms(2) by (auto simp: vulkan_graphics_v615_image_blit_subresource_valid_def levels_outside_def c0 c1
        word_le_nat_alt word_less_nat_alt sub_nat32 split: if_splits)
  then show ?thesis using assms
    by (auto simp: vulkan_graphics_v615_image_blit_subresource_valid_def levels_inside_def corner_inside_def Let_def c0 c1
        levels_outside_nat not_less split: if_splits)
qed

text \<open>A copy between a buffer and an image: where the texel of a layer, a depth, a row and a column is in the buffer.\<close>

definition texel_size :: "v5_image \<Rightarrow> nat" where
  "texel_size im = unat (vulkan_format_bytes_per_pixel_conservative (vi_format im))"

definition texel_offset :: "g_buffer_image_copy \<Rightarrow> v5_image \<Rightarrow> nat \<Rightarrow> nat \<Rightarrow> nat \<Rightarrow> nat \<Rightarrow> nat" where
  "texel_offset e im layer z y x =
     unat (gbi_buffer_offset e) + texel_size im *
       (((layer * unat (gbi_image_extent_depth e) + z) * unat (copy_image_rows e) + y) * unat (copy_row_texels e) + x)"

definition texels_inside :: "v6_view \<Rightarrow> g_buffer_image_copy \<Rightarrow> bool" where
  "texels_inside v e \<longleftrightarrow>
     is_kind (gv_resources v) RESOURCE_BUFFER (gbi_buffer_resource_index e) \<and>
     (\<forall>layer < unat (gbi_layer_count e). \<forall>z < unat (gbi_image_extent_depth e). \<forall>y < unat (gbi_image_extent_height e).
      \<forall>x < unat (gbi_image_extent_width e).
        texel_offset e (gv_images v ! unat (gbi_image_index e)) layer z y x +
          texel_size (gv_images v ! unat (gbi_image_index e))
        \<le> unat (vr_size (gv_resources v ! unat (gbi_buffer_resource_index e))))"

definition span_texels :: "g_buffer_image_copy \<Rightarrow> nat" where
  "span_texels e =
     (let row = unat (copy_row_texels e); slice = row * unat (copy_image_rows e) in
      slice * unat (gbi_image_extent_depth e) * (unat (gbi_layer_count e) - 1) +
      slice * (unat (gbi_image_extent_depth e) - 1) + row * (unat (gbi_image_extent_height e) - 1) +
      unat (gbi_image_extent_width e))"

lemma unat_pred: "x \<noteq> 0 \<Longrightarrow> unat x - Suc 0 = unat (x - 1)" for x :: u32
  by (simp add: unat_minus_one)

lemma copy_span_nat:
  assumes "vulkan_graphics_v610_buffer_image_copy_span e im = Inr n"
  shows "unat n = texel_size im * span_texels e" "unat (gbi_image_extent_height e) \<le> unat (copy_image_rows e)"
    "unat (gbi_image_extent_width e) \<le> unat (copy_row_texels e)"
proof -
  let ?b = "ucast (vulkan_format_bytes_per_pixel_conservative (vi_format im)) :: u64"
  note d = vulkan_graphics_v610_buffer_image_copy_span_def
  have nz: "gbi_image_extent_height e \<noteq> 0" "gbi_image_extent_depth e \<noteq> 0" "gbi_layer_count e \<noteq> 0"
    and sp: "copy_span_bytes e ?b = Some n"
    and rows: "\<not> copy_row_texels e < ucast (gbi_image_extent_width e)" "\<not> copy_image_rows e < ucast (gbi_image_extent_height e)"
    using assms by (auto simp: d Let_def split: if_splits option.splits)
  show "unat (gbi_image_extent_height e) \<le> unat (copy_image_rows e)"
    "unat (gbi_image_extent_width e) \<le> unat (copy_row_texels e)"
    using rows by (simp_all add: word_less_nat_alt)
  from sp show "unat n = texel_size im * span_texels e"
    by (auto simp: copy_span_bytes_def bind_eq_Some_conv texel_size_def span_texels_def Let_def unat_pred[OF nz(1)]
        unat_pred[OF nz(2)] unat_pred[OF nz(3)] algebra_simps dest!: checked_mul_unat add3_unat)
qed

lemma mul_pred_le: "i < n \<Longrightarrow> i * k + (k::nat) \<le> n * k"
  by (metis Suc_leI mult_le_mono1 mult_Suc add.commute)

lemma texel_in_span:
  assumes "layer < unat (gbi_layer_count e)" "z < unat (gbi_image_extent_depth e)" "y < unat (gbi_image_extent_height e)"
    "x < unat (gbi_image_extent_width e)"
  shows "((layer * unat (gbi_image_extent_depth e) + z) * unat (copy_image_rows e) + y) * unat (copy_row_texels e) + x + 1
    \<le> span_texels e"
proof -
  let ?R = "unat (copy_row_texels e)" and ?H = "unat (copy_image_rows e)" and ?D = "unat (gbi_image_extent_depth e)"
  have "((layer * ?D + z) * ?H + y) * ?R + x + 1 = layer * (?R * ?H * ?D) + z * (?R * ?H) + y * ?R + (x + 1)"
    by (simp add: algebra_simps)
  also have "\<dots> \<le> (unat (gbi_layer_count e) - 1) * (?R * ?H * ?D) + (?D - 1) * (?R * ?H) +
      (unat (gbi_image_extent_height e) - 1) * ?R + unat (gbi_image_extent_width e)"
    using assms by (intro add_mono mult_le_mono1) auto
  also have "\<dots> = span_texels e" by (simp add: span_texels_def Let_def mult.commute)
  finally show ?thesis .
qed

lemma buffer_image_copy_texels:
  assumes "check_buffer_image_copy v seen e = Pass"
  shows "texels_inside v e"
proof -
  let ?im = "gv_images v ! unat (gbi_image_index e)" and ?buf = "gv_resources v ! unat (gbi_buffer_resource_index e)"
  obtain n where n: "vulkan_graphics_v610_buffer_image_copy_span e ?im = Inr n"
    and r: "u64_range_within_size (gbi_buffer_offset e) n (vr_size ?buf)"
    and k: "is_kind (gv_resources v) RESOURCE_BUFFER (gbi_buffer_resource_index e)"
    using assms by (auto simp: check_buffer_image_copy_def is_kind_def split: sum.splits)
  have "texel_offset e ?im layer z y x + texel_size ?im \<le> unat (vr_size ?buf)"
    if "layer < unat (gbi_layer_count e)" "z < unat (gbi_image_extent_depth e)" "y < unat (gbi_image_extent_height e)"
      "x < unat (gbi_image_extent_width e)" for layer z y x
  proof -
    let ?t = "((layer * unat (gbi_image_extent_depth e) + z) * unat (copy_image_rows e) + y) * unat (copy_row_texels e) + x"
    have "texel_offset e ?im layer z y x + texel_size ?im = unat (gbi_buffer_offset e) + texel_size ?im * (?t + 1)"
      by (simp add: texel_offset_def)
    also have "\<dots> \<le> unat (gbi_buffer_offset e) + texel_size ?im * span_texels e"
      using texel_in_span[OF that] by (intro add_left_mono mult_le_mono2)
    also have "\<dots> \<le> unat (vr_size ?buf)" using r copy_span_nat(1)[OF n] by (simp add: u64_range_nat)
    finally show ?thesis .
  qed
  then show ?thesis using k by (simp add: texels_inside_def)
qed


section \<open>The typing of the entries\<close>

definition fill_typed :: "v6_view \<Rightarrow> g_fill_buffer \<Rightarrow> bool" where
  "fill_typed v e \<longleftrightarrow> claims v (gfb_command_index e) [CMD_FILL_BUFFER] \<and>
     inside (gv_resources v) RESOURCE_BUFFER (gfb_dst_resource_index e) (gfb_dst_offset e) (gfb_size e)"

definition update_typed :: "v6_view \<Rightarrow> g_update_buffer \<Rightarrow> bool" where
  "update_typed v e \<longleftrightarrow> claims v (gub_command_index e) [CMD_UPDATE_BUFFER] \<and>
     inside (gv_resources v) RESOURCE_BUFFER (gub_dst_resource_index e) (gub_dst_offset e) (gub_data_size e) \<and>
     unat (gub_payload_offset e) + unat (gub_data_size e) \<le> unat (gh_frame_size (gv_header v))"

definition clear_color_typed :: "v6_view \<Rightarrow> g_clear_color \<Rightarrow> bool" where
  "clear_color_typed v e \<longleftrightarrow> claims v (gcc_command_index e) [CMD_CLEAR_COLOR_IMAGE] \<and>
     levels_inside v (gcc_image_index e) (gcc_base_mip_level e) (gcc_level_count e) (gcc_base_array_layer e) (gcc_layer_count e)"

definition clear_depth_typed :: "v6_view \<Rightarrow> g_clear_depth \<Rightarrow> bool" where
  "clear_depth_typed v e \<longleftrightarrow> claims v (gcd_command_index e) [CMD_CLEAR_DEPTH_STENCIL_IMAGE] \<and>
     levels_inside v (gcd_image_index e) (gcd_base_mip_level e) (gcd_level_count e) (gcd_base_array_layer e) (gcd_layer_count e)"

definition buffer_barrier_typed :: "v6_view \<Rightarrow> g_buffer_barrier \<Rightarrow> bool" where
  "buffer_barrier_typed v b \<longleftrightarrow> claims v (gbb_command_index b) [CMD_BARRIER] \<and>
     inside (gv_resources v) RESOURCE_BUFFER (gbb_resource_index b) (gbb_offset b) (gbb_size b)"

definition image_barrier_typed :: "v6_view \<Rightarrow> g_image_barrier \<Rightarrow> bool" where
  "image_barrier_typed v b \<longleftrightarrow> claims v (gib_command_index b) [CMD_BARRIER] \<and>
     levels_inside v (gib_image_index b) (gib_base_mip_level b) (gib_level_count b) (gib_base_array_layer b) (gib_layer_count b)"

definition buffer_copy_typed :: "v6_view \<Rightarrow> g_buffer_copy \<Rightarrow> bool" where
  "buffer_copy_typed v e \<longleftrightarrow> claims v (gbc_command_index e) [CMD_COPY_BUFFER] \<and>
     inside (gv_resources v) RESOURCE_BUFFER (gbc_src_resource_index e) (gbc_src_offset e) (gbc_size e) \<and>
     inside (gv_resources v) RESOURCE_BUFFER (gbc_dst_resource_index e) (gbc_dst_offset e) (gbc_size e)"

definition buffer_image_copy_typed :: "v6_view \<Rightarrow> g_buffer_image_copy \<Rightarrow> bool" where
  "buffer_image_copy_typed v e \<longleftrightarrow> claims v (gbi_command_index e) (copy_command_of (gbi_direction e)) \<and> texels_inside v e \<and>
     region_inside v (gbi_image_index e) (gbi_mip_level e) (gbi_base_array_layer e) (gbi_layer_count e)
       (gbi_image_offset_x e, gbi_image_offset_y e, gbi_image_offset_z e)
       (gbi_image_extent_width e, gbi_image_extent_height e, gbi_image_extent_depth e)"

definition image_copy_typed :: "v6_view \<Rightarrow> g_image_copy \<Rightarrow> bool" where
  "image_copy_typed v e \<longleftrightarrow> claims v (gic_command_index e) [CMD_COPY_IMAGE] \<and>
     region_inside v (gic_src_image_index e) (gic_src_mip_level e) (gic_src_base_array_layer e) (gic_layer_count e)
       (gic_src_offset_x e, gic_src_offset_y e, gic_src_offset_z e) (gic_extent_width e, gic_extent_height e, gic_extent_depth e) \<and>
     region_inside v (gic_dst_image_index e) (gic_dst_mip_level e) (gic_dst_base_array_layer e) (gic_layer_count e)
       (gic_dst_offset_x e, gic_dst_offset_y e, gic_dst_offset_z e) (gic_extent_width e, gic_extent_height e, gic_extent_depth e)"

definition resolve_image_typed :: "v6_view \<Rightarrow> g_resolve_image \<Rightarrow> bool" where
  "resolve_image_typed v e \<longleftrightarrow> claims v (gri_command_index e) [CMD_RESOLVE_IMAGE] \<and>
     region_inside v (gri_src_image_index e) (gri_src_mip_level e) (gri_src_base_array_layer e) (gri_layer_count e)
       (gri_src_offset_x e, gri_src_offset_y e, gri_src_offset_z e) (gri_extent_width e, gri_extent_height e, gri_extent_depth e) \<and>
     region_inside v (gri_dst_image_index e) (gri_dst_mip_level e) (gri_dst_base_array_layer e) (gri_layer_count e)
       (gri_dst_offset_x e, gri_dst_offset_y e, gri_dst_offset_z e) (gri_extent_width e, gri_extent_height e, gri_extent_depth e)"

definition blit_end_typed :: "v6_view \<Rightarrow> u32 \<Rightarrow> u32 \<Rightarrow> u32 \<Rightarrow> u32 \<Rightarrow> u32 \<times> u32 \<times> u32 \<Rightarrow> u32 \<times> u32 \<times> u32 \<Rightarrow> bool" where
  "blit_end_typed v i mip base layers c0 c1 \<longleftrightarrow>
     levels_inside v i mip 1 base layers \<and> corner_inside v i mip c0 \<and> corner_inside v i mip c1"

definition blit_typed :: "v6_view \<Rightarrow> g_blit_image \<Rightarrow> bool" where
  "blit_typed v e \<longleftrightarrow> claims v (gbl_command_index e) [CMD_BLIT_IMAGE] \<and>
     blit_end_typed v (gbl_src_image_index e) (gbl_src_mip_level e) (gbl_src_base_array_layer e) (gbl_layer_count e)
       (gbl_src_offset0_x e, gbl_src_offset0_y e, gbl_src_offset0_z e) (gbl_src_offset1_x e, gbl_src_offset1_y e, gbl_src_offset1_z e) \<and>
     blit_end_typed v (gbl_dst_image_index e) (gbl_dst_mip_level e) (gbl_dst_base_array_layer e) (gbl_layer_count e)
       (gbl_dst_offset0_x e, gbl_dst_offset0_y e, gbl_dst_offset0_z e) (gbl_dst_offset1_x e, gbl_dst_offset1_y e, gbl_dst_offset1_z e)"

definition clear_command_typed :: "v6_view \<Rightarrow> g_clear_command \<Rightarrow> bool" where
  "clear_command_typed v e \<longleftrightarrow> claims v (gca_command_index e) [CMD_CLEAR_ATTACHMENTS] \<and>
     slice_inside (gca_clear_attachment_first e) (gca_clear_attachment_count e) (gv_clear_attachments v) \<and>
     slice_inside (gca_clear_rect_first e) (gca_clear_rect_count e) (gv_clear_rects v)"

definition query_typed :: "v6_view \<Rightarrow> g_query_command \<Rightarrow> bool" where
  "query_typed v e \<longleftrightarrow> claims v (gqc_command_index e) (query_command_of (gqc_op e)) \<and> \<not> fd_missing (gv_fds v) (gqc_result_fd_index e)"

definition query_item :: "g_copy_query \<Rightarrow> nat" where
  "query_item e = (if gcq_flags e AND 1 \<noteq> 0 then 8 else 4) * (if gcq_flags e AND 4 \<noteq> 0 then 2 else 1)"

text \<open>The result of the last query ends inside the buffer, and the results do not overlap.\<close>

definition copy_query_typed :: "v6_view \<Rightarrow> g_copy_query \<Rightarrow> bool" where
  "copy_query_typed v e \<longleftrightarrow> claims v (gcq_command_index e) [CMD_COPY_QUERY_POOL_RESULTS] \<and>
     \<not> fd_missing (gv_fds v) (gcq_result_fd_index e) \<and>
     is_kind (gv_resources v) RESOURCE_BUFFER (gcq_dst_resource_index e) \<and> query_item e \<le> unat (gcq_stride e) \<and>
     unat (gcq_dst_offset e) + ((unat (gcq_query_count e) - 1) * unat (gcq_stride e) + query_item e)
     \<le> unat (vr_size (gv_resources v ! unat (gcq_dst_resource_index e)))"

definition indirect_draw_typed :: "v6_view \<Rightarrow> g_indirect_draw \<Rightarrow> bool" where
  "indirect_draw_typed v e \<longleftrightarrow> claims v (gid_command_index e) [CMD_DRAW, CMD_DRAW_INDEXED] \<and>
     is_kind (gv_resources v) RESOURCE_BUFFER (gid_indirect_resource_index e) \<and>
     unat (gid_indirect_offset e) + ((unat (gid_draw_count e) - 1) * unat (gid_stride e) +
       unat (indirect_command_size (gv_commands v ! unat (gid_command_index e))))
     \<le> unat (vr_size (gv_resources v ! unat (gid_indirect_resource_index e))) \<and>
     (gid_flags e AND 1 = 0 \<or> inside (gv_resources v) RESOURCE_BUFFER (gid_count_resource_index e) (gid_count_offset e) 4)"

lemma claim_claims: "claim v seen ci types bad = Pass \<Longrightarrow> claims v ci types \<and> \<not> bad"
  by (auto simp: claim_Pass claims_def)

lemma buffer_range_inside:
  "unat i < length rs \<Longrightarrow> \<not> buffer_range_bad (rs ! unat i) off sz \<Longrightarrow> inside rs RESOURCE_BUFFER i off sz"
  by (simp add: buffer_range_bad_def inside_def is_kind_def u64_range_nat)

lemma levels_insideI:
  "unat i < length (gv_images v) \<Longrightarrow> \<not> levels_outside (gv_images v ! unat i) m n l k \<Longrightarrow> levels_inside v i m n l k"
  by (simp add: levels_outside_nat levels_inside_def Let_def)

lemmas entry_typed = buffer_range_inside levels_insideI region_inside_checked

lemma checked_fill: "check_fill v s e = Pass \<Longrightarrow> fill_typed v e"
  by (auto simp: check_fill_def fill_typed_def intro: entry_typed dest!: claim_claims)

lemma checked_update: "check_update v s e = Pass \<Longrightarrow> update_typed v e"
  by (auto simp: check_update_def update_typed_def payload_range_valid_def range_within_nat intro: entry_typed
      dest!: claim_claims split: if_splits)

lemma checked_clear_color: "check_clear_color v s e = Pass \<Longrightarrow> clear_color_typed v e"
  by (auto simp: check_clear_color_def clear_color_typed_def intro: entry_typed dest!: claim_claims)

lemma checked_clear_depth: "check_clear_depth v s e = Pass \<Longrightarrow> clear_depth_typed v e"
  by (auto simp: check_clear_depth_def clear_depth_typed_def intro: entry_typed dest!: claim_claims)

lemma checked_barrier_command: "check_barrier_command v ci = Pass \<Longrightarrow> claims v ci [CMD_BARRIER]"
  by (auto simp: check_barrier_command_def claims_def)

lemma checked_buffer_barrier: "check_buffer_barrier v b = Pass \<Longrightarrow> buffer_barrier_typed v b"
  by (auto simp: check_buffer_barrier_def buffer_barrier_typed_def inside_def is_kind_def u64_range_nat
      intro: checked_barrier_command split: if_splits)

lemma checked_image_barrier: "check_image_barrier v b = Pass \<Longrightarrow> image_barrier_typed v b"
  by (auto simp: check_image_barrier_def image_barrier_typed_def intro: entry_typed checked_barrier_command)

lemma checked_buffer_copy: "check_buffer_copy v s e = Pass \<Longrightarrow> buffer_copy_typed v e"
  by (auto simp: check_buffer_copy_def buffer_copy_typed_def intro: entry_typed dest!: claim_claims)

lemma checked_buffer_image_copy:
  assumes "check_buffer_image_copy v s e = Pass"
  shows "buffer_image_copy_typed v e"
  using buffer_image_copy_texels[OF assms] assms
  by (auto simp: check_buffer_image_copy_def buffer_image_copy_typed_def intro: entry_typed dest!: claim_claims)

lemma checked_image_copy: "check_image_copy v s e = Pass \<Longrightarrow> image_copy_typed v e"
  by (auto simp: check_image_copy_def image_copy_typed_def intro: entry_typed dest!: claim_claims)

lemma checked_resolve_image: "check_resolve_image v s e = Pass \<Longrightarrow> resolve_image_typed v e"
  by (auto simp: check_resolve_image_def resolve_image_typed_def intro: entry_typed dest!: claim_claims)

lemma checked_blit: "check_blit v s e = Pass \<Longrightarrow> blit_typed v e"
  by (auto simp: check_blit_def blit_typed_def blit_end_typed_def dest!: claim_claims blit_inside_checked[rotated])

lemma checked_clear_command: "tables_fit v \<Longrightarrow> check_clear_command v s e = Pass \<Longrightarrow> clear_command_typed v e"
  by (auto simp: check_clear_command_def clear_command_typed_def tables_fit_def intro: slice_inside_range dest!: claim_claims)

lemma checked_query: "check_query v s e = Pass \<Longrightarrow> query_typed v e"
  by (auto simp: check_query_def query_typed_def Let_def dest!: claim_claims)


lemma query_item_size: "vulkan_graphics_v618_copy_query_result_item_size flags = Inr n \<Longrightarrow> flags = gcq_flags e \<Longrightarrow> unat n = query_item e"
  by (auto simp: vulkan_graphics_v618_copy_query_result_item_size_def query_item_def Let_def split: if_splits)

lemma checked_copy_query:
  assumes "check_copy_query v s e = Pass"
  shows "copy_query_typed v e"
proof -
  let ?dst = "gv_resources v ! unat (gcq_dst_resource_index e)"
  obtain n where c: "claims v (gcq_command_index e) [CMD_COPY_QUERY_POOL_RESULTS]" "gcq_query_count e \<noteq> 0"
    and n: "vulkan_graphics_v618_copy_query_result_span e = Inr n"
    and d: "unat (gcq_dst_resource_index e) < length (gv_resources v)" "\<not> buffer_range_bad ?dst (gcq_dst_offset e) n"
      "\<not> fd_missing (gv_fds v) (gcq_result_fd_index e)"
    using assms by (auto simp: check_copy_query_def dest!: claim_claims split: sum.splits)
  obtain item last where item: "vulkan_graphics_v618_copy_query_result_item_size (gcq_flags e) = Inr item"
    and stride: "\<not> gcq_stride e < item"
    and last: "checked_mul_u64_executor (ucast (gcq_query_count e - 1)) (gcq_stride e) = Some last"
    and sum: "checked_u64_add3 last item 0 = Some n"
    using n by (auto simp: vulkan_graphics_v618_copy_query_result_span_def bind_eq_Some_conv
        split: if_splits sum.splits option.splits)
  have "unat n = (unat (gcq_query_count e) - 1) * unat (gcq_stride e) + query_item e"
    using checked_mul_unat[OF last] add3_unat[OF sum] query_item_size[OF item refl] by (simp add: unat_minus_one[OF c(2)])
  then show ?thesis using c d stride query_item_size[OF item refl]
    by (simp add: copy_query_typed_def buffer_range_bad_def is_kind_def u64_range_nat word_less_nat_alt not_less)
qed

lemma checked_indirect_draw:
  assumes "check_indirect_draw v s e = Pass"
  shows "indirect_draw_typed v e"
proof -
  let ?size = "indirect_command_size (gv_commands v ! unat (gid_command_index e))"
  let ?buf = "gv_resources v ! unat (gid_indirect_resource_index e)"
  have c: "claims v (gid_command_index e) [CMD_DRAW, CMD_DRAW_INDEXED]" "gid_draw_count e \<noteq> 0"
    and k: "is_kind (gv_resources v) RESOURCE_BUFFER (gid_indirect_resource_index e)"
    and cnt: "check_draw_count v e = Pass"
    using assms by (auto simp: check_indirect_draw_def is_kind_def dest!: claim_claims split: if_splits)
  obtain last n where last: "checked_mul_u64_executor (ucast (gid_draw_count e - 1)) (ucast (gid_stride e)) = Some last"
    and sum: "checked_u64_add3 last ?size 0 = Some n" and r: "u64_range_within_size (gid_indirect_offset e) n (vr_size ?buf)"
    using assms by (auto simp: check_indirect_draw_def bind_eq_Some_conv split: if_splits option.splits)
  have "unat n = (unat (gid_draw_count e) - 1) * unat (gid_stride e) + unat ?size"
    using checked_mul_unat[OF last] add3_unat[OF sum] by (simp add: unat_minus_one[OF c(2)])
  moreover have "gid_flags e AND 1 = 0 \<or> inside (gv_resources v) RESOURCE_BUFFER (gid_count_resource_index e) (gid_count_offset e) 4"
    using cnt by (auto simp: check_draw_count_def intro: entry_typed split: if_splits)
  ultimately show ?thesis using c(1) k r by (simp add: indirect_draw_typed_def u64_range_nat)
qed

end
