(* ===== verification/Graphics_Typed.thy ===== *)
theory Graphics_Typed
  imports Graphics_Types
begin

text \<open>
  A typing of graphics frames, second half: the shader stages, the state of the pipelines, the barriers and push constants,
  the dynamic offsets and the layouts, and the frame as a whole. An accepted frame is well typed.
\<close>

section \<open>Shader stages\<close>

definition stage_typed :: "v6_view \<Rightarrow> g_stage \<Rightarrow> bool" where
  "stage_typed v s \<longleftrightarrow> \<not> fd_missing (gv_fds v) (gst_shader_fd_index s) \<and>
     in_frame v (gst_entry_name_offset s) (gst_entry_name_size s) \<and>
     in_frame v (gst_specialization_offset s) (gst_specialization_size s)"

definition specialization_typed :: "v6_view \<Rightarrow> g_specialization \<Rightarrow> bool" where
  "specialization_typed v e \<longleftrightarrow> unat (gse_shader_stage_index e) < length (gv_stages v) \<and> 0 < unat (gse_size e) \<and>
     unat (gse_offset e) + unat (gse_size e) \<le> unat (gst_specialization_size (gv_stages v ! unat (gse_shader_stage_index e)))"

lemma checked_stage: "check_stage files v s = Pass \<Longrightarrow> stage_typed v s"
  by (auto simp: check_stage_def stage_typed_def fd_missing_def full_fd_hash_def Let_def intro: payload_in_frame)

lemma checked_specialization: "check_specialization v e = Pass \<Longrightarrow> specialization_typed v e"
  by (auto simp: check_specialization_def specialization_typed_def u64_range_nat unat_gt_0 unsigned_ucast_eq)

section \<open>The state of the pipelines\<close>

definition resolve_typed :: "v6_view \<Rightarrow> g_resolve_attachment \<Rightarrow> bool" where
  "resolve_typed v e \<longleftrightarrow> unat (gra_attachment_index e) < length (gv_attachments v) \<and>
     (let a = gv_attachments v ! unat (gra_attachment_index e) in
      list_all (\<lambda>i. unat i < length (gv_image_views v) \<and>
                    unat (vv_image_index (gv_image_views v ! unat i)) < length (gv_images v))
        [gat_image_view_index a, gat_resolve_image_view_index a])"

definition entry_slice :: "u32 \<Rightarrow> u32 \<Rightarrow> 'a list \<Rightarrow> 'a list" where
  "entry_slice first n xs = take (unat n) (drop (unat first) xs)"

text \<open>The entries of a slice, all for one pipeline, name different places below a number.\<close>

definition slice_typed :: "('a \<Rightarrow> u32) \<Rightarrow> ('a \<Rightarrow> u32) \<Rightarrow> 'a list \<Rightarrow> u32 \<Rightarrow> u32 \<Rightarrow> u32 \<Rightarrow> u32 \<Rightarrow> bool" where
  "slice_typed pipeline place xs first n p limit \<longleftrightarrow> slice_inside first n xs \<and>
     list_all (\<lambda>x. pipeline x = p \<and> place x < limit) (entry_slice first n xs) \<and>
     distinct (map place (entry_slice first n xs))"

definition blend_state_typed :: "v6_view \<Rightarrow> g_blend_state \<Rightarrow> bool" where
  "blend_state_typed v e \<longleftrightarrow> unat (gbs_pipeline_index e) < length (gv_pipelines v) \<and>
     gbs_attachment_count e = gpl_color_attachment_count (gv_pipelines v ! unat (gbs_pipeline_index e)) \<and>
     slice_typed gba_pipeline_index gba_attachment_index (gv_blend_attachments v)
       (gbs_attachment_first e) (gbs_attachment_count e) (gbs_pipeline_index e) (gbs_attachment_count e)"

definition viewport_state_typed :: "v6_view \<Rightarrow> g_viewport_state \<Rightarrow> bool" where
  "viewport_state_typed v e \<longleftrightarrow> unat (gvs_pipeline_index e) < length (gv_pipelines v) \<and>
     (if gvs_flags e AND 1 \<noteq> 0
      then slice_typed gvp_pipeline_index gvp_viewport_index (gv_viewports v)
             (gvs_viewport_static_first e) (gvs_viewport_count e) (gvs_pipeline_index e) (gvs_viewport_count e)
      else gvs_viewport_static_first e = V5_NONE) \<and>
     (if gvs_flags e AND 2 \<noteq> 0
      then slice_typed gsc_pipeline_index gsc_scissor_index (gv_scissors v)
             (gvs_scissor_static_first e) (gvs_scissor_count e) (gvs_pipeline_index e) (gvs_scissor_count e)
      else gvs_scissor_static_first e = V5_NONE)"

text \<open>A loop over a slice that marks what it has seen finds different places.\<close>

lemma nth_mark: "i < length seen \<Longrightarrow> mark k seen ! i \<longleftrightarrow> seen ! i \<or> i = unat k"
  by (cases "i = unat k") (auto simp: mark_def)

lemma each_at_once_fresh:
  assumes "each_at_once xs key f seen is = Pass"
    and f: "\<And>s x. f s x = Pass \<Longrightarrow> unat (key x) < length s \<and> \<not> s ! unat (key x) \<and> P x"
  shows "list_all (\<lambda>i. unat i < length xs) is \<and>
    list_all (\<lambda>x. unat (key x) < length seen \<and> \<not> seen ! unat (key x) \<and> P x) (map (\<lambda>i. xs ! unat i) is) \<and>
    distinct (map key (map (\<lambda>i. xs ! unat i) is))"
  using assms(1)
proof (induction "is" arbitrary: seen)
  case (Cons i "is")
  let ?x = "xs ! unat i" and ?ys = "map (\<lambda>i. xs ! unat i) is"
  have x: "unat i < length xs" "unat (key ?x) < length seen" "\<not> seen ! unat (key ?x)" "P ?x"
    using Cons.prems f[of seen ?x] by auto
  have IH: "list_all (\<lambda>i. unat i < length xs) is"
    "list_all (\<lambda>x. unat (key x) < length (mark (key ?x) seen) \<and> \<not> mark (key ?x) seen ! unat (key x) \<and> P x) ?ys"
    "distinct (map key ?ys)"
    using Cons.IH[of "mark (key ?x) seen"] Cons.prems by simp_all
  have y: "unat (key y) < length seen \<and> \<not> seen ! unat (key y) \<and> P y \<and> key y \<noteq> key ?x" if "y \<in> set ?ys" for y
    using IH(2) that by (auto simp: list_all_iff nth_mark)
  have "list_all (\<lambda>x. unat (key x) < length seen \<and> \<not> seen ! unat (key x) \<and> P x) ?ys" "key ?x \<notin> key ` set ?ys"
    using y by (auto simp: list_all_iff simp del: set_map) metis
  then show ?case using x IH(1,3) by (simp add: image_image)
qed simp

lemma slice_of_indices:
  assumes "range_add_u32 first n (of_nat (length xs))" "length xs < 2 ^ 32"
  shows "map (\<lambda>i. xs ! unat i) (indices first n) = entry_slice first n xs"
proof -
  have "unat first + unat n \<le> length xs" using slice_inside_range[OF assms] by (simp add: slice_inside_def)
  then show ?thesis
    using entry_index(2)[OF assms] by (auto simp: entry_slice_def indices_def intro!: nth_equalityI)
qed

lemma marked_slice_typed:
  assumes "range_add_u32 first n (of_nat (length xs))" "length xs < 2 ^ 32"
    and "each_at_once xs place f seen (indices first n) = Pass"
    and "\<And>s x. f s x = Pass \<Longrightarrow> unat (place x) < length s \<and> \<not> s ! unat (place x) \<and> pipeline x = p \<and> place x < limit"
  shows "slice_typed pipeline place xs first n p limit"
  using each_at_once_fresh[OF assms(3), of "\<lambda>x. pipeline x = p \<and> place x < limit"] assms(4)
    slice_inside_range[OF assms(1,2)]
  by (simp add: slice_typed_def slice_of_indices[OF assms(1,2)] list_all_iff)

lemma checked_resolve: "check_resolve v seen e = Pass \<Longrightarrow> resolve_typed v e"
  by (auto simp: check_resolve_def check_resolve_images_def resolve_typed_def Let_def)

lemma checked_blend_state:
  assumes fit: "tables_fit v" and c: "check_blend_state v seen e = Pass"
  shows "blend_state_typed v e"
proof -
  let ?p = "gv_pipelines v ! unat (gbs_pipeline_index e)"
  have r: "range_add_u32 (gbs_attachment_first e) (gbs_attachment_count e) (of_nat (length (gv_blend_attachments v)))"
    and p: "unat (gbs_pipeline_index e) < length (gv_pipelines v)" "gbs_attachment_count e = gpl_color_attachment_count ?p"
    and l: "each_at_once (gv_blend_attachments v) gba_attachment_index (check_blend_attachment e ?p) (unmarked 16)
      (indices (gbs_attachment_first e) (gbs_attachment_count e)) = Pass"
    using c by (auto simp: check_blend_state_def)
  have "slice_typed gba_pipeline_index gba_attachment_index (gv_blend_attachments v)
      (gbs_attachment_first e) (gbs_attachment_count e) (gbs_pipeline_index e) (gbs_attachment_count e)"
    by (rule marked_slice_typed[OF r _ l]) (use fit p in \<open>auto simp: tables_fit_def check_blend_attachment_def not_le\<close>)
  then show ?thesis using p by (simp add: blend_state_typed_def)
qed

lemma checked_viewport_state:
  assumes fit: "tables_fit v" and c: "check_viewport_state v seen e = Pass"
  shows "viewport_state_typed v e"
proof -
  have "slice_typed gvp_pipeline_index gvp_viewport_index (gv_viewports v)
      (gvs_viewport_static_first e) (gvs_viewport_count e) (gvs_pipeline_index e) (gvs_viewport_count e)"
    if "gvs_flags e AND 1 \<noteq> 0"
    by (rule marked_slice_typed[where f = "check_viewport e" and seen = "unmarked 16"])
      (use that fit c in \<open>auto simp: tables_fit_def check_viewport_state_def check_viewport_def not_le split: if_splits\<close>)
  moreover have "slice_typed gsc_pipeline_index gsc_scissor_index (gv_scissors v)
      (gvs_scissor_static_first e) (gvs_scissor_count e) (gvs_pipeline_index e) (gvs_scissor_count e)"
    if "gvs_flags e AND 2 \<noteq> 0"
    by (rule marked_slice_typed[where f = "check_scissor e" and seen = "unmarked 16"])
      (use that fit c in \<open>auto simp: tables_fit_def check_viewport_state_def check_scissor_def not_le split: if_splits\<close>)
  ultimately show ?thesis using c by (auto simp: viewport_state_typed_def check_viewport_state_def split: if_splits)
qed

section \<open>Dynamic offsets\<close>

text \<open>
  The dynamic descriptors that a command binds take its dynamic offsets in order: there are as many, and the bytes of each
  descriptor lie inside its buffer at its offset.
\<close>

definition is_dynamic :: "v5_object_descriptor \<Rightarrow> bool" where
  "is_dynamic d \<longleftrightarrow> vo_descriptor_flags d AND FLAG_DYNAMIC \<noteq> 0"

definition dynamic_bytes_inside :: "v6_view \<Rightarrow> v5_object_descriptor \<times> g_dynamic_offset \<Rightarrow> bool" where
  "dynamic_bytes_inside v = (\<lambda>(d, dyn). bound_bytes_inside (gv_resources v ! unat (vo_resource_index d)) d (ucast (gdo_offset dyn)))"

definition dynamic_typed :: "v6_view \<Rightarrow> g_command \<Rightarrow> bool" where
  "dynamic_typed v c \<longleftrightarrow> (is_v6 1 (gv_header v) \<and> gcm_command_type c = CMD_BIND_DESCRIPTOR_SETS \<longrightarrow>
     (let ds = filter is_dynamic (entry_slice (gcm_first_descriptor c) (gcm_descriptor_count c) (gv_descriptors v));
          os = entry_slice (gcm_first_dynamic_offset c) (gcm_dynamic_offset_count c) (gv_dynamic_offsets v) in
      length ds = length os \<and> list_all (dynamic_bytes_inside v) (zip ds os)))"

lemma taken_offsets:
  assumes "take_dynamic_offsets v c n is = Pass" "n \<le> gcm_dynamic_offset_count c"
    and range: "range_add_u32 (gcm_first_dynamic_offset c) (gcm_dynamic_offset_count c) (of_nat (length (gv_dynamic_offsets v)))"
      "length (gv_dynamic_offsets v) < 2 ^ 32"
  shows "let ds = filter is_dynamic (map (\<lambda>i. gv_descriptors v ! unat i) is);
      os = drop (unat n) (entry_slice (gcm_first_dynamic_offset c) (gcm_dynamic_offset_count c) (gv_dynamic_offsets v)) in
    length ds = length os \<and> list_all (dynamic_bytes_inside v) (zip ds os)"
  using assms(1,2)
proof (induction "is" arbitrary: n)
  case Nil
  have "length (entry_slice (gcm_first_dynamic_offset c) (gcm_dynamic_offset_count c) (gv_dynamic_offsets v))
      \<le> unat (gcm_dynamic_offset_count c)" by (simp add: entry_slice_def)
  then show ?case using Nil by simp
next
  case (Cons i "is")
  let ?os = "entry_slice (gcm_first_dynamic_offset c) (gcm_dynamic_offset_count c) (gv_dynamic_offsets v)"
  let ?d = "gv_descriptors v ! unat i" and ?o = "gv_dynamic_offsets v ! unat (gcm_first_dynamic_offset c + n)"
  show ?case
  proof (cases "is_dynamic ?d")
    case False
    then show ?thesis using Cons by (auto simp: is_dynamic_def split: if_splits)
  next
    case True
    have n: "n < gcm_dynamic_offset_count c" and r: "check_descriptor_range (gv_resources v ! unat (vo_resource_index ?d)) ?d (ucast (gdo_offset ?o)) = Pass"
      and rest: "take_dynamic_offsets v c (n + 1) is = Pass"
      using Cons.prems True by (auto simp: is_dynamic_def not_le split: if_splits)
    have n1: "unat (n + 1) = Suc (unat n)" "n + 1 \<le> gcm_dynamic_offset_count c"
      using n unat_lt32[of "gcm_dynamic_offset_count c"]
      by (simp_all add: word_le_nat_alt word_less_nat_alt unat_word_ariths take_bit_nat_eq_self)
    have "unat (gcm_first_dynamic_offset c + n) = unat (gcm_first_dynamic_offset c) + unat n"
      using entry_index(2)[OF range, of "unat n"] n by (simp add: word_less_nat_alt)
    moreover have "unat (gcm_first_dynamic_offset c) + unat (gcm_dynamic_offset_count c) \<le> length (gv_dynamic_offsets v)"
      using slice_inside_range[OF range] by (simp add: slice_inside_def)
    ultimately have "drop (unat n) ?os = ?o # drop (unat (n + 1)) ?os"
      using n by (subst Cons_nth_drop_Suc[symmetric]) (simp_all add: entry_slice_def n1 word_less_nat_alt)
    then show ?thesis
      using Cons.IH[OF rest n1(2)] True descriptor_range_inside[OF r] by (simp add: Let_def dynamic_bytes_inside_def)
  qed
qed

lemma checked_dynamic:
  assumes fit: "tables_fit v" and c: "check_command v (i, c) = Pass"
  shows "dynamic_typed v c"
proof (cases "is_v6 1 (gv_header v) \<and> gcm_command_type c = CMD_BIND_DESCRIPTOR_SETS")
  case True
  have t: "take_dynamic_offsets v c 0 (indices (gcm_first_descriptor c) (gcm_descriptor_count c)) = Pass"
    and r: "range_add_u32 (gcm_first_dynamic_offset c) (gcm_dynamic_offset_count c) (of_nat (length (gv_dynamic_offsets v)))"
      "range_add_u32 (gcm_first_descriptor c) (gcm_descriptor_count c) (of_nat (length (gv_descriptors v)))"
    using c True by (auto simp: check_command_def check_command_ranges_def Let_def)
  have l: "length (gv_dynamic_offsets v) < 2 ^ 32" "length (gv_descriptors v) < 2 ^ 32" using fit by (auto simp: tables_fit_def)
  show ?thesis using taken_offsets[OF t _ r(1) l(1)] by (simp add: dynamic_typed_def slice_of_indices[OF r(2) l(2)] Let_def)
qed (auto simp: dynamic_typed_def)

section \<open>Barriers, push constants and layouts\<close>

definition push_typed :: "v6_view \<Rightarrow> g_push_metadata \<Rightarrow> bool" where
  "push_typed v m \<longleftrightarrow> claims v (gpm_command_index m) [CMD_PUSH_CONSTANTS]"

definition memory_barrier_typed :: "v6_view \<Rightarrow> g_memory_barrier \<Rightarrow> bool" where
  "memory_barrier_typed v b \<longleftrightarrow> claims v (gmb_command_index b) [CMD_BARRIER]"

definition layout_range_typed :: "v6_view \<Rightarrow> g_layout_range \<Rightarrow> bool" where
  "layout_range_typed v e \<longleftrightarrow> levels_inside v (glr_image_index e) (glr_base_mip_level e) (glr_level_count e)
     (glr_base_array_layer e) (glr_layer_count e)"

lemma checked_push: "check_push_metadata v m = Pass \<Longrightarrow> push_typed v m"
  by (auto simp: check_push_metadata_def push_typed_def claims_def)

lemma checked_memory_barrier: "check_memory_barrier v b = Pass \<Longrightarrow> memory_barrier_typed v b"
  by (auto simp: check_memory_barrier_def memory_barrier_typed_def intro: checked_barrier_command)

lemma checked_layout_ranges:
  "validate_vulkan_graphics_v620_image_layout_ranges (gv_images v) es = Pass \<Longrightarrow> list_all (layout_range_typed v) es"
  by (induction es) (auto simp: check_layout_range_def layout_range_typed_def intro: levels_insideI)

section \<open>The state of a frame\<close>

definition states_typed :: "v6_view \<Rightarrow> bool" where
  "states_typed v \<longleftrightarrow>
     list_all (stage_typed v) (gv_stages v) \<and> list_all (specialization_typed v) (gv_specializations v) \<and>
     list_all (\<lambda>e. unat (gdp_pipeline_index e) < length (gv_pipelines v)) (gv_depth_stencils v) \<and>
     list_all (resolve_typed v) (gv_resolve_attachments v) \<and>
     list_all (\<lambda>e. unat (gss_pipeline_index e) < length (gv_pipelines v)) (gv_static_states v) \<and>
     list_all (blend_state_typed v) (gv_blend_states v) \<and> list_all (viewport_state_typed v) (gv_viewport_states v) \<and>
     list_all (\<lambda>s. in_frame v (gds_data_offset s) (gds_data_size s)) (gv_dynamic_states v) \<and>
     list_all (dynamic_typed v) (gv_commands v) \<and> list_all (push_typed v) (gv_push_metadata v) \<and>
     list_all (memory_barrier_typed v) (gv_memory_barriers v) \<and> list_all (layout_range_typed v) (gv_layout_ranges v)"

section \<open>The typing of a frame\<close>

definition entries_typed :: "v6_view \<Rightarrow> bool" where
  "entries_typed v \<longleftrightarrow>
     list_all (fill_typed v) (gv_fill_buffers v) \<and> list_all (update_typed v) (gv_update_buffers v) \<and>
     list_all (clear_color_typed v) (gv_clear_colors v) \<and> list_all (clear_depth_typed v) (gv_clear_depths v) \<and>
     list_all (buffer_barrier_typed v) (gv_buffer_barriers v) \<and> list_all (image_barrier_typed v) (gv_image_barriers v) \<and>
     list_all (buffer_copy_typed v) (gv_buffer_copies v) \<and>
     list_all (buffer_image_copy_typed v) (gv_buffer_image_copies v) \<and> list_all (image_copy_typed v) (gv_image_copies v) \<and>
     list_all (resolve_image_typed v) (gv_resolve_images v) \<and> list_all (blit_typed v) (gv_blit_images v) \<and>
     list_all (clear_command_typed v) (gv_clear_commands v) \<and> list_all (query_typed v) (gv_query_commands v) \<and>
     list_all (copy_query_typed v) (gv_copy_queries v) \<and> list_all (indirect_draw_typed v) (gv_indirect_draws v)"

definition well_typed :: "v6_view \<Rightarrow> bool" where
  "well_typed v \<longleftrightarrow> objects_typed v \<and> pipelines_typed v \<and> list_all (command_typed v) (gv_commands v) \<and> entries_typed v \<and>
     states_typed v"

text \<open>The tables of a version the frame does not have are empty.\<close>

definition absent_empty :: "v6_view \<Rightarrow> bool" where
  "absent_empty v \<longleftrightarrow>
     list_all (\<lambda>(k, n). is_v6 k (gv_header v) \<or> n = 0)
       [(1, length (gv_buffer_barriers v)), (1, length (gv_image_barriers v)), (8, length (gv_indirect_draws v)),
        (9, length (gv_buffer_copies v)), (10, length (gv_buffer_image_copies v)), (10, length (gv_image_copies v)),
        (11, length (gv_fill_buffers v)), (11, length (gv_update_buffers v)), (12, length (gv_clear_colors v)),
        (13, length (gv_clear_depths v)), (14, length (gv_resolve_images v)), (15, length (gv_blit_images v)),
        (16, length (gv_clear_commands v)), (17, length (gv_query_commands v)), (18, length (gv_copy_queries v)),
        (1, length (gv_push_metadata v)), (1, length (gv_memory_barriers v)), (2, length (gv_specializations v)),
        (3, length (gv_depth_stencils v)), (4, length (gv_resolve_attachments v)), (5, length (gv_static_states v)),
        (6, length (gv_blend_states v)), (7, length (gv_viewport_states v)), (20, length (gv_layout_ranges v))]"

lemma view_absent_empty: "absent_empty (view_of frame fds)"
  by (simp add: absent_empty_def view_of_def Let_def)

lemma typed_if_present:
  assumes "is_v6 k (gv_header v) \<longrightarrow> each_once key f seen xs = Pass" "is_v6 k (gv_header v) \<or> xs = []"
    "\<And>s x. f s x = Pass \<Longrightarrow> P x"
  shows "list_all P xs"
  using assms(1,2) each_once_typed[of key f seen xs P, OF _ assms(3)] by auto

lemma checked_content:
  assumes "validate_vulkan_graphics_v6_content files v = Pass"
  shows "check_objects v = Pass" "check_pipelines v = Pass" "check_commands v = Pass"
    "is_v6 1 (gv_header v) \<longrightarrow> check_v61_entries v = Pass"
    "is_v6 8 (gv_header v) \<longrightarrow> each_once gid_command_index (check_indirect_draw v) (unmarked MAX_COMMANDS) (gv_indirect_draws v) = Pass"
    "is_v6 9 (gv_header v) \<longrightarrow> check_buffer_copies v = Pass"
    "is_v6 10 (gv_header v) \<longrightarrow> check_image_copies v = Pass"
    "is_v6 11 (gv_header v) \<longrightarrow> check_fills_and_updates v = Pass"
    "is_v6 12 (gv_header v) \<longrightarrow> check_clear_colors v = Pass"
    "is_v6 13 (gv_header v) \<longrightarrow> check_clear_depths v = Pass"
    "is_v6 14 (gv_header v) \<longrightarrow> check_image_resolves v = Pass"
    "is_v6 15 (gv_header v) \<longrightarrow> check_blits v = Pass"
    "is_v6 16 (gv_header v) \<longrightarrow> check_clear_commands v = Pass"
    "is_v6 17 (gv_header v) \<longrightarrow> check_queries v = Pass"
    "is_v6 18 (gv_header v) \<longrightarrow> check_copy_queries v = Pass"
    "list_all (\<lambda>s. check_stage files v s = Pass) (gv_stages v)" "check_pipeline_states v = Pass"
    "is_v6 20 (gv_header v) \<longrightarrow> validate_vulkan_graphics_v620_image_layout_ranges (gv_images v) (gv_layout_ranges v) = Pass"
  using assms by (simp_all add: validate_vulkan_graphics_v6_content_def check_hashes_v617_v620_def list_all_iff)

lemma checked_entries:
  assumes fit: "tables_fit v" and "absent_empty v" and "validate_vulkan_graphics_v6_content files v = Pass"
  shows "entries_typed v"
proof -
  note c = checked_content[OF assms(3)]
  note e = assms(2)[unfolded absent_empty_def, simplified]
  have fill: "list_all (fill_typed v) (gv_fill_buffers v)"
    by (rule typed_if_present[where k = 11 and v = v and key = gfb_command_index and f = "check_fill v"
          and seen = "unmarked MAX_COMMANDS"])
      (use c(8) in \<open>simp add: check_fills_and_updates_def\<close>, use e in simp, erule checked_fill)
  have update: "list_all (update_typed v) (gv_update_buffers v)"
    by (rule typed_if_present[where k = 11 and v = v and key = gub_command_index and f = "check_update v"
          and seen = "unmarked MAX_COMMANDS"])
      (use c(8) in \<open>simp add: check_fills_and_updates_def\<close>, use e in simp, erule checked_update)
  have clear_color: "list_all (clear_color_typed v) (gv_clear_colors v)"
    by (rule typed_if_present[where k = 12 and v = v and key = gcc_command_index and f = "check_clear_color v"
          and seen = "unmarked MAX_COMMANDS"])
      (use c(9) in \<open>simp add: check_clear_colors_def\<close>, use e in simp, erule checked_clear_color)
  have clear_depth: "list_all (clear_depth_typed v) (gv_clear_depths v)"
    by (rule typed_if_present[where k = 13 and v = v and key = gcd_command_index and f = "check_clear_depth v"
          and seen = "unmarked MAX_COMMANDS"])
      (use c(10) in \<open>simp add: check_clear_depths_def\<close>, use e in simp, erule checked_clear_depth)
  have buffer_copy: "list_all (buffer_copy_typed v) (gv_buffer_copies v)"
    by (rule typed_if_present[where k = 9 and v = v and key = gbc_command_index and f = "check_buffer_copy v"
          and seen = "unmarked MAX_COMMANDS"])
      (use c(6) in \<open>simp add: check_buffer_copies_def\<close>, use e in simp, erule checked_buffer_copy)
  have buffer_image_copy: "list_all (buffer_image_copy_typed v) (gv_buffer_image_copies v)"
    by (rule typed_if_present[where k = 10 and v = v and key = gbi_command_index and f = "check_buffer_image_copy v"
          and seen = "unmarked MAX_COMMANDS"])
      (use c(7) in \<open>simp add: check_image_copies_def\<close>, use e in simp, erule checked_buffer_image_copy)
  have image_copy: "list_all (image_copy_typed v) (gv_image_copies v)"
    by (rule typed_if_present[where k = 10 and v = v and key = gic_command_index and f = "check_image_copy v"
          and seen = "unmarked MAX_COMMANDS"])
      (use c(7) in \<open>simp add: check_image_copies_def\<close>, use e in simp, erule checked_image_copy)
  have resolve_image: "list_all (resolve_image_typed v) (gv_resolve_images v)"
    by (rule typed_if_present[where k = 14 and v = v and key = gri_command_index and f = "check_resolve_image v"
          and seen = "unmarked MAX_COMMANDS"])
      (use c(11) in \<open>simp add: check_image_resolves_def\<close>, use e in simp, erule checked_resolve_image)
  have blit: "list_all (blit_typed v) (gv_blit_images v)"
    by (rule typed_if_present[where k = 15 and v = v and key = gbl_command_index and f = "check_blit v"
          and seen = "unmarked MAX_COMMANDS"])
      (use c(12) in \<open>simp add: check_blits_def\<close>, use e in simp, erule checked_blit)
  have clear_command: "list_all (clear_command_typed v) (gv_clear_commands v)"
    by (rule typed_if_present[where k = 16 and v = v and key = gca_command_index and f = "check_clear_command v"
          and seen = "unmarked MAX_COMMANDS"])
      (use c(13) in \<open>simp add: check_clear_commands_def\<close>, use e in simp, erule checked_clear_command[OF fit])
  have query: "list_all (query_typed v) (gv_query_commands v)"
    by (rule typed_if_present[where k = 17 and v = v and key = gqc_command_index and f = "check_query v"
          and seen = "unmarked MAX_COMMANDS"])
      (use c(14) in \<open>simp add: check_queries_def\<close>, use e in simp, erule checked_query)
  have copy_query: "list_all (copy_query_typed v) (gv_copy_queries v)"
    by (rule typed_if_present[where k = 18 and v = v and key = gcq_command_index and f = "check_copy_query v"
          and seen = "unmarked MAX_COMMANDS"])
      (use c(15) in \<open>simp add: check_copy_queries_def\<close>, use e in simp, erule checked_copy_query)
  have indirect_draw: "list_all (indirect_draw_typed v) (gv_indirect_draws v)"
    by (rule typed_if_present[where k = 8 and v = v and key = gid_command_index and f = "check_indirect_draw v"
          and seen = "unmarked MAX_COMMANDS"])
      (use c(5) in \<open>simp\<close>, use e in simp, erule checked_indirect_draw)
  have v1: "is_v6 1 (gv_header v) \<or> gv_buffer_barriers v = []" "is_v6 1 (gv_header v) \<or> gv_image_barriers v = []"
    using e by simp_all
  have barriers: "list_all (buffer_barrier_typed v) (gv_buffer_barriers v)" "list_all (image_barrier_typed v) (gv_image_barriers v)"
    using c(4) v1 checked_buffer_barrier[of v] checked_image_barrier[of v] by (auto simp: check_v61_entries_def list_all_iff)
  show ?thesis unfolding entries_typed_def
    by (intro conjI) fact+
qed


lemma each_if_present:
  "is_v6 k (gv_header v) \<longrightarrow> each f xs = Pass \<Longrightarrow> is_v6 k (gv_header v) \<or> xs = [] \<Longrightarrow> (\<And>x. f x = Pass \<Longrightarrow> P x) \<Longrightarrow>
   list_all P xs"
  by (auto simp: list_all_iff)
lemma checked_states:
  assumes fit: "tables_fit v" and "absent_empty v" and "validate_vulkan_graphics_v6_content files v = Pass"
  shows "states_typed v"
proof -
  note c = checked_content[OF assms(3)]
  note e = assms(2)[unfolded absent_empty_def, simplified]
  have s: "is_v6 2 (gv_header v) \<longrightarrow> each (check_specialization v) (gv_specializations v) = Pass"
    "is_v6 3 (gv_header v) \<longrightarrow> each (check_depth_stencil v) (gv_depth_stencils v) = Pass"
    "is_v6 4 (gv_header v) \<longrightarrow> each_once gra_attachment_index (check_resolve v) (unmarked 64) (gv_resolve_attachments v) = Pass"
    "is_v6 5 (gv_header v) \<longrightarrow> each_once gss_pipeline_index (check_static_state v) (unmarked 64) (gv_static_states v) = Pass"
    "is_v6 6 (gv_header v) \<longrightarrow> each_once gbs_pipeline_index (check_blend_state v) (unmarked 64) (gv_blend_states v) = Pass"
    "is_v6 7 (gv_header v) \<longrightarrow> each_once gvs_pipeline_index (check_viewport_state v) (unmarked 64) (gv_viewport_states v) = Pass"
    using c(17) by (simp_all add: check_pipeline_states_def)
  have "list_all (stage_typed v) (gv_stages v)" using c(16) by (auto simp: list_all_iff intro: checked_stage)
  moreover have "list_all (specialization_typed v) (gv_specializations v)"
    by (rule each_if_present[OF s(1)]) (use e in simp, erule checked_specialization)
  moreover have "list_all (\<lambda>e. unat (gdp_pipeline_index e) < length (gv_pipelines v)) (gv_depth_stencils v)"
    by (rule each_if_present[OF s(2)]) (use e in simp, simp add: check_depth_stencil_def)
  moreover have "list_all (resolve_typed v) (gv_resolve_attachments v)"
    by (rule typed_if_present[OF s(3)]) (use e in simp, erule checked_resolve)
  moreover have "list_all (\<lambda>e. unat (gss_pipeline_index e) < length (gv_pipelines v)) (gv_static_states v)"
    by (rule typed_if_present[OF s(4)]) (use e in simp, simp add: check_static_state_def)
  moreover have "list_all (blend_state_typed v) (gv_blend_states v)"
    by (rule typed_if_present[OF s(5)]) (use e in simp, erule checked_blend_state[OF fit])
  moreover have "list_all (viewport_state_typed v) (gv_viewport_states v)"
    by (rule typed_if_present[OF s(6)]) (use e in simp, erule checked_viewport_state[OF fit])
  moreover have "list_all (\<lambda>s. in_frame v (gds_data_offset s) (gds_data_size s)) (gv_dynamic_states v)"
    using c(2) by (auto simp: check_pipelines_def check_dynamic_state_def list_all_iff intro: payload_in_frame)
  moreover have "list_all (dynamic_typed v) (gv_commands v)"
    using c(3) by (auto simp: check_commands_def list_all_length in_set_enumerate_eq intro!: checked_dynamic[OF fit])
  moreover have "list_all (push_typed v) (gv_push_metadata v)"
    by (rule each_if_present[where k = 1 and v = v and f = "check_push_metadata v"])
      (use c(4) in \<open>simp add: check_v61_entries_def\<close>, use e in simp, erule checked_push)
  moreover have "list_all (memory_barrier_typed v) (gv_memory_barriers v)"
    by (rule each_if_present[where k = 1 and v = v and f = "check_memory_barrier v"])
      (use c(4) in \<open>simp add: check_v61_entries_def\<close>, use e in simp, erule checked_memory_barrier)
  moreover have "list_all (layout_range_typed v) (gv_layout_ranges v)"
  proof (cases "is_v6 20 (gv_header v)")
    case False
    then show ?thesis using e by simp
  qed (use c(18) checked_layout_ranges in blast)
  ultimately show ?thesis by (simp only: states_typed_def simp_thms)
qed

lemma content_well_typed:
  assumes "tables_fit v" "absent_empty v" "validate_vulkan_graphics_v6_content files v = Pass"
  shows "well_typed v"
  using checked_content(1-3)[OF assms(3)] checked_objects_typed checked_pipelines_typed[OF assms(1)]
    checked_commands_typed[OF assms(1)] checked_entries[OF assms] checked_states[OF assms]
  by (simp add: well_typed_def)

end
