(* ===== verification/Graphics_Claims.thy ===== *)
theory Graphics_Claims
  imports Graphics_Typed
begin

text \<open>
  The entries of a graphics frame and its commands: each transfer, clear and query command has exactly one entry in the
  table of its kind, and each entry names such a command.
\<close>

section \<open>The marks of a loop\<close>

lemma nth_fold_mark: "i < length seen \<Longrightarrow> fold mark ks seen ! i \<longleftrightarrow> seen ! i \<or> i \<in> unat ` set ks"
proof (induction ks arbitrary: seen)
  case (Cons k ks)
  then show ?case by (cases "i = unat k") (auto simp: mark_def)
qed simp

lemma nth_marked: "i < n \<Longrightarrow> marked n ks ! i \<longleftrightarrow> i \<in> unat ` set ks"
  by (simp add: marked_def nth_fold_mark) (simp add: unmarked_def)

text \<open>An entry names a command of its type that no entry before it has named.\<close>

definition fresh_claim :: "v6_view \<Rightarrow> bool list \<Rightarrow> u32 \<Rightarrow> u32 list \<Rightarrow> bool" where
  "fresh_claim v seen ci types \<longleftrightarrow>
     unat ci < length seen \<and> \<not> seen ! unat ci \<and> unat ci < length (gv_commands v) \<and>
     gcm_command_type (gv_commands v ! unat ci) \<in> set types"

lemma claim_fresh: "claim v seen ci ts bad = Pass \<Longrightarrow> set ts \<subseteq> set types \<Longrightarrow> fresh_claim v seen ci types"
  by (auto simp: claim_Pass fresh_claim_def)

lemma fresh_claims_distinct:
  assumes "each_once key f seen xs = Pass" "\<And>s x. f s x = Pass \<Longrightarrow> fresh_claim v s (key x) types"
  shows "distinct (map key xs) \<and> list_all (\<lambda>x. fresh_claim v seen (key x) types) xs"
  using assms(1)
proof (induction xs arbitrary: seen)
  case (Cons x xs)
  have x: "fresh_claim v seen (key x) types" using Cons.prems assms(2) by simp
  have IH: "distinct (map key xs)" "list_all (\<lambda>y. fresh_claim v (mark (key x) seen) (key y) types) xs"
    using Cons by auto
  have "key x \<noteq> key y \<and> fresh_claim v seen (key y) types" if "y \<in> set xs" for y
    using IH(2) that x by (auto simp: list_all_iff fresh_claim_def mark_def nth_list_update split: if_splits)
  then show ?case using x IH(1) by (auto simp: list_all_iff)
qed simp

section \<open>One entry for each command\<close>

definition one_each :: "v6_view \<Rightarrow> u32 list \<Rightarrow> u32 list \<Rightarrow> bool" where
  "one_each v types keys \<longleftrightarrow>
     list_all (\<lambda>i. count_list keys (of_nat i) = (if gcm_command_type (gv_commands v ! i) \<in> set types then 1 else 0))
       [0..<length (gv_commands v)] \<and>
     list_all (\<lambda>k. unat k < length (gv_commands v)) keys"

lemma count_distinct: "distinct xs \<Longrightarrow> count_list xs x = (if x \<in> set xs then 1 else 0)"
  by (induction xs) auto

lemma one_each_entry:
  assumes fit: "tables_fit v" and k: "is_v6 k (gv_header v) \<or> xs = []"
    and once: "is_v6 k (gv_header v) \<longrightarrow> each_once key f (unmarked MAX_COMMANDS) xs = Pass"
    and all: "is_v6 k (gv_header v) \<longrightarrow> all_claimed v types (map key xs) = Pass"
    and f: "\<And>s x. f s x = Pass \<Longrightarrow> fresh_claim v s (key x) types"
    and old: "list_all (\<lambda>c. gcm_command_type c \<notin> set types \<or> is_v6 k (gv_header v)) (gv_commands v)"
  shows "one_each v types (map key xs)"
proof (cases "is_v6 k (gv_header v)")
  case True
  have d: "distinct (map key xs)" and fresh: "list_all (\<lambda>x. fresh_claim v (unmarked MAX_COMMANDS) (key x) types) xs"
    using fresh_claims_distinct[of key f _ xs v types] once f True by auto
  have len: "length (gv_commands v) \<le> MAX_COMMANDS" using fit by (rule fit_commands)
  have iff: "of_nat i \<in> set (map key xs) \<longleftrightarrow> gcm_command_type (gv_commands v ! i) \<in> set types"
    if i: "i < length (gv_commands v)" for i
  proof -
    have u: "unat (of_nat i :: u32) = i" using i len by (simp add: unsigned_of_nat take_bit_nat_eq_self)
    have "(i, gv_commands v ! i) \<in> set (enumerate 0 (gv_commands v))" using i by (simp add: in_set_enumerate_eq)
    then have "marked MAX_COMMANDS (map key xs) ! i" if "gcm_command_type (gv_commands v ! i) \<in> set types"
      using all True that u by (force simp: all_claimed_def)
    then have "of_nat i \<in> set (map key xs)" if "gcm_command_type (gv_commands v ! i) \<in> set types"
      using that i len u nth_marked[of i MAX_COMMANDS "map key xs"] by auto
    moreover have "gcm_command_type (gv_commands v ! i) \<in> set types" if "of_nat i \<in> set (map key xs)"
      using that fresh u by (auto simp: list_all_iff fresh_claim_def)
    ultimately show ?thesis by blast
  qed
  show ?thesis unfolding one_each_def
    using iff fresh by (auto simp: list_all_iff count_distinct[OF d] fresh_claim_def)
next
  case False
  then show ?thesis using k old by (auto simp: one_each_def list_all_length)
qed


section \<open>The kinds of entries\<close>

lemma copy_command_types: "set (copy_command_of d) \<subseteq> set [CMD_COPY_BUFFER_TO_IMAGE, CMD_COPY_IMAGE_TO_BUFFER]"
  by (auto simp: copy_command_of_def)

lemma query_command_types: "set (query_command_of op) \<subseteq> set QUERY_COMMANDS"
  by (auto simp: query_command_of_def QUERY_COMMANDS_def)

lemma fill_fresh: "check_fill v s e = Pass \<Longrightarrow> fresh_claim v s (gfb_command_index e) [CMD_FILL_BUFFER]"
  by (auto simp: check_fill_def intro: claim_fresh[OF _ order_refl])

lemma update_fresh: "check_update v s e = Pass \<Longrightarrow> fresh_claim v s (gub_command_index e) [CMD_UPDATE_BUFFER]"
  by (auto simp: check_update_def intro: claim_fresh[OF _ order_refl])

lemma clear_color_fresh: "check_clear_color v s e = Pass \<Longrightarrow> fresh_claim v s (gcc_command_index e) [CMD_CLEAR_COLOR_IMAGE]"
  by (auto simp: check_clear_color_def intro: claim_fresh[OF _ order_refl])

lemma clear_depth_fresh: "check_clear_depth v s e = Pass \<Longrightarrow> fresh_claim v s (gcd_command_index e) [CMD_CLEAR_DEPTH_STENCIL_IMAGE]"
  by (auto simp: check_clear_depth_def intro: claim_fresh[OF _ order_refl])

lemma buffer_copy_fresh: "check_buffer_copy v s e = Pass \<Longrightarrow> fresh_claim v s (gbc_command_index e) [CMD_COPY_BUFFER]"
  by (auto simp: check_buffer_copy_def intro: claim_fresh[OF _ order_refl])

lemma buffer_image_copy_fresh: "check_buffer_image_copy v s e = Pass \<Longrightarrow> fresh_claim v s (gbi_command_index e) [CMD_COPY_BUFFER_TO_IMAGE, CMD_COPY_IMAGE_TO_BUFFER]"
  by (auto simp: check_buffer_image_copy_def intro: claim_fresh[OF _ copy_command_types])

lemma image_copy_fresh: "check_image_copy v s e = Pass \<Longrightarrow> fresh_claim v s (gic_command_index e) [CMD_COPY_IMAGE]"
  by (auto simp: check_image_copy_def intro: claim_fresh[OF _ order_refl])

lemma resolve_image_fresh: "check_resolve_image v s e = Pass \<Longrightarrow> fresh_claim v s (gri_command_index e) [CMD_RESOLVE_IMAGE]"
  by (auto simp: check_resolve_image_def intro: claim_fresh[OF _ order_refl])

lemma blit_fresh: "check_blit v s e = Pass \<Longrightarrow> fresh_claim v s (gbl_command_index e) [CMD_BLIT_IMAGE]"
  by (auto simp: check_blit_def intro: claim_fresh[OF _ order_refl])

lemma clear_command_fresh: "check_clear_command v s e = Pass \<Longrightarrow> fresh_claim v s (gca_command_index e) [CMD_CLEAR_ATTACHMENTS]"
  by (auto simp: check_clear_command_def intro: claim_fresh[OF _ order_refl])

lemma query_fresh: "check_query v s e = Pass \<Longrightarrow> fresh_claim v s (gqc_command_index e) QUERY_COMMANDS"
  by (auto simp: check_query_def Let_def intro: claim_fresh[OF _ query_command_types])

lemma copy_query_fresh: "check_copy_query v s e = Pass \<Longrightarrow> fresh_claim v s (gcq_command_index e) [CMD_COPY_QUERY_POOL_RESULTS]"
  by (auto simp: check_copy_query_def intro: claim_fresh[OF _ order_refl])

text \<open>The version that brings each kind, its commands, and the commands its entries name.\<close>

definition claim_tables :: "v6_view \<Rightarrow> (u16 \<times> u32 list \<times> u32 list) list" where
  "claim_tables v =
     [(11, [CMD_FILL_BUFFER], map gfb_command_index (gv_fill_buffers v)),
      (11, [CMD_UPDATE_BUFFER], map gub_command_index (gv_update_buffers v)),
      (12, [CMD_CLEAR_COLOR_IMAGE], map gcc_command_index (gv_clear_colors v)),
      (13, [CMD_CLEAR_DEPTH_STENCIL_IMAGE], map gcd_command_index (gv_clear_depths v)),
      (9, [CMD_COPY_BUFFER], map gbc_command_index (gv_buffer_copies v)),
      (10, [CMD_COPY_BUFFER_TO_IMAGE, CMD_COPY_IMAGE_TO_BUFFER], map gbi_command_index (gv_buffer_image_copies v)),
      (10, [CMD_COPY_IMAGE], map gic_command_index (gv_image_copies v)),
      (14, [CMD_RESOLVE_IMAGE], map gri_command_index (gv_resolve_images v)),
      (15, [CMD_BLIT_IMAGE], map gbl_command_index (gv_blit_images v)),
      (16, [CMD_CLEAR_ATTACHMENTS], map gca_command_index (gv_clear_commands v)),
      (17, QUERY_COMMANDS, map gqc_command_index (gv_query_commands v)),
      (18, [CMD_COPY_QUERY_POOL_RESULTS], map gcq_command_index (gv_copy_queries v))]"

lemma command_version:
  assumes "check_commands v = Pass" "c \<in> set (gv_commands v)" "command_since (gcm_command_type c) \<noteq> 0"
  shows "is_v6 (command_since (gcm_command_type c)) (gv_header v)"
proof -
  obtain i where i: "i < length (gv_commands v)" "c = gv_commands v ! i" using assms(2) by (auto simp: in_set_conv_nth)
  then have "(i, c) \<in> set (enumerate 0 (gv_commands v))" by (simp add: in_set_enumerate_eq)
  then have "check_plain_command v c = Pass" using assms(1) by (auto simp: check_commands_def check_command_def Let_def)
  then show ?thesis using assms(3) by (simp add: check_plain_command_def Let_def)
qed

lemma commands_new:
  assumes "check_commands v = Pass" "list_all (\<lambda>ty. command_since ty = k) types" "k \<noteq> 0"
  shows "list_all (\<lambda>c. gcm_command_type c \<notin> set types \<or> is_v6 k (gv_header v)) (gv_commands v)"
  using command_version[OF assms(1)] assms(2,3) by (auto simp: list_all_iff)

lemma checked_claims:
  assumes fit: "tables_fit v" and "absent_empty v" and "validate_vulkan_graphics_v6_content files v = Pass"
  shows "list_all (\<lambda>(k, types, keys). one_each v types keys) (claim_tables v)"
proof -
  note c = checked_content[OF assms(3)]
  note e = assms(2)[unfolded absent_empty_def, simplified]
  note new = commands_new[OF c(3)]
  have fill: "one_each v [CMD_FILL_BUFFER] (map gfb_command_index (gv_fill_buffers v))"
    by (rule one_each_entry[OF fit, where k = 11 and f = "check_fill v"])
      (use e in simp, use c(8) in \<open>simp add: check_fills_and_updates_def\<close>, use c(8) in \<open>simp add: check_fills_and_updates_def\<close>,
       erule fill_fresh, rule new, simp_all add: command_since_def QUERY_COMMANDS_def)
  have update: "one_each v [CMD_UPDATE_BUFFER] (map gub_command_index (gv_update_buffers v))"
    by (rule one_each_entry[OF fit, where k = 11 and f = "check_update v"])
      (use e in simp, use c(8) in \<open>simp add: check_fills_and_updates_def\<close>, use c(8) in \<open>simp add: check_fills_and_updates_def\<close>,
       erule update_fresh, rule new, simp_all add: command_since_def QUERY_COMMANDS_def)
  have clear_color: "one_each v [CMD_CLEAR_COLOR_IMAGE] (map gcc_command_index (gv_clear_colors v))"
    by (rule one_each_entry[OF fit, where k = 12 and f = "check_clear_color v"])
      (use e in simp, use c(9) in \<open>simp add: check_clear_colors_def\<close>, use c(9) in \<open>simp add: check_clear_colors_def\<close>,
       erule clear_color_fresh, rule new, simp_all add: command_since_def QUERY_COMMANDS_def)
  have clear_depth: "one_each v [CMD_CLEAR_DEPTH_STENCIL_IMAGE] (map gcd_command_index (gv_clear_depths v))"
    by (rule one_each_entry[OF fit, where k = 13 and f = "check_clear_depth v"])
      (use e in simp, use c(10) in \<open>simp add: check_clear_depths_def\<close>, use c(10) in \<open>simp add: check_clear_depths_def\<close>,
       erule clear_depth_fresh, rule new, simp_all add: command_since_def QUERY_COMMANDS_def)
  have buffer_copy: "one_each v [CMD_COPY_BUFFER] (map gbc_command_index (gv_buffer_copies v))"
    by (rule one_each_entry[OF fit, where k = 9 and f = "check_buffer_copy v"])
      (use e in simp, use c(6) in \<open>simp add: check_buffer_copies_def\<close>, use c(6) in \<open>simp add: check_buffer_copies_def\<close>,
       erule buffer_copy_fresh, rule new, simp_all add: command_since_def QUERY_COMMANDS_def)
  have buffer_image_copy: "one_each v [CMD_COPY_BUFFER_TO_IMAGE, CMD_COPY_IMAGE_TO_BUFFER] (map gbi_command_index (gv_buffer_image_copies v))"
    by (rule one_each_entry[OF fit, where k = 10 and f = "check_buffer_image_copy v"])
      (use e in simp, use c(7) in \<open>simp add: check_image_copies_def\<close>, use c(7) in \<open>simp add: check_image_copies_def\<close>,
       erule buffer_image_copy_fresh, rule new, simp_all add: command_since_def QUERY_COMMANDS_def)
  have image_copy: "one_each v [CMD_COPY_IMAGE] (map gic_command_index (gv_image_copies v))"
    by (rule one_each_entry[OF fit, where k = 10 and f = "check_image_copy v"])
      (use e in simp, use c(7) in \<open>simp add: check_image_copies_def\<close>, use c(7) in \<open>simp add: check_image_copies_def\<close>,
       erule image_copy_fresh, rule new, simp_all add: command_since_def QUERY_COMMANDS_def)
  have resolve_image: "one_each v [CMD_RESOLVE_IMAGE] (map gri_command_index (gv_resolve_images v))"
    by (rule one_each_entry[OF fit, where k = 14 and f = "check_resolve_image v"])
      (use e in simp, use c(11) in \<open>simp add: check_image_resolves_def\<close>, use c(11) in \<open>simp add: check_image_resolves_def\<close>,
       erule resolve_image_fresh, rule new, simp_all add: command_since_def QUERY_COMMANDS_def)
  have blit: "one_each v [CMD_BLIT_IMAGE] (map gbl_command_index (gv_blit_images v))"
    by (rule one_each_entry[OF fit, where k = 15 and f = "check_blit v"])
      (use e in simp, use c(12) in \<open>simp add: check_blits_def\<close>, use c(12) in \<open>simp add: check_blits_def\<close>,
       erule blit_fresh, rule new, simp_all add: command_since_def QUERY_COMMANDS_def)
  have clear_command: "one_each v [CMD_CLEAR_ATTACHMENTS] (map gca_command_index (gv_clear_commands v))"
    by (rule one_each_entry[OF fit, where k = 16 and f = "check_clear_command v"])
      (use e in simp, use c(13) in \<open>simp add: check_clear_commands_def\<close>, use c(13) in \<open>simp add: check_clear_commands_def\<close>,
       erule clear_command_fresh, rule new, simp_all add: command_since_def QUERY_COMMANDS_def)
  have query: "one_each v QUERY_COMMANDS (map gqc_command_index (gv_query_commands v))"
    by (rule one_each_entry[OF fit, where k = 17 and f = "check_query v"])
      (use e in simp, use c(14) in \<open>simp add: check_queries_def\<close>, use c(14) in \<open>simp add: check_queries_def\<close>,
       erule query_fresh, rule new, simp_all add: command_since_def QUERY_COMMANDS_def)
  have copy_query: "one_each v [CMD_COPY_QUERY_POOL_RESULTS] (map gcq_command_index (gv_copy_queries v))"
    by (rule one_each_entry[OF fit, where k = 18 and f = "check_copy_query v"])
      (use e in simp, use c(15) in \<open>simp add: check_copy_queries_def\<close>, use c(15) in \<open>simp add: check_copy_queries_def\<close>,
       erule copy_query_fresh, rule new, simp_all add: command_since_def QUERY_COMMANDS_def)
  show ?thesis unfolding claim_tables_def list.pred_inject(2) list.pred_inject(1) split by (intro conjI TrueI) fact+
qed

end
