(* ===== verification/Graphics_Example.thy ===== *)
theory Graphics_Example
  imports Graphics_Claims
begin

text \<open>
  How an example frame is given: as 64-bit words, with its two hashes filled in; and the first one, which the executor
  accepts: version 6.10, with a memory, a buffer and an image in it, and two commands, a copy inside the buffer and a copy
  from the buffer to the image.
\<close>

section \<open>Bytes from 64-bit words\<close>

definition le_words :: "u64 list \<Rightarrow> string" where
  "le_words ws = concat (map (to_le 8) ws)"

lemma length_le_words [simp]: "length (le_words ws) = 8 * length ws"
  by (induction ws) (simp_all add: le_words_def)

lemma take_to_le: "m \<le> n \<Longrightarrow> take m (to_le n w) = to_le m w"
  by (induction n arbitrary: m w) (auto simp: take_Cons split: nat.splits)

lemma drop_to_le: "drop m (to_le n w) = to_le (n - m) (drop_bit (8 * m) w)"
  by (induction n arbitrary: m w) (auto simp: drop_Cons add.commute split: nat.splits)

lemma le_words_drop: "k < length ws \<Longrightarrow> drop (8 * k) (le_words ws @ bs) = to_le 8 (ws ! k) @ le_words (drop (Suc k) ws) @ bs"
proof (induction ws arbitrary: k)
  case (Cons w ws)
  then show ?case by (cases k) (simp_all add: le_words_def)
qed simp

lemma le_words_append: "le_words (xs @ ys) = le_words xs @ le_words ys"
  by (simp add: le_words_def)

lemma drop_le_words: "drop (8 * i) (le_words xs) = le_words (drop i xs)"
  by (cases "i \<le> length xs") (metis le_words_append append_eq_conv_conj append_take_drop_id length_le_words length_take
    min.absorb2, simp add: le_words_def[of "[]"])

lemma take_le_words: "take (8 * i) (le_words xs) = le_words (take i xs)"
  by (cases "i \<le> length xs") (metis le_words_append append_eq_conv_conj append_take_drop_id length_le_words length_take
    min.absorb2, simp)

lemma of_le_cast: "(ucast (of_le bs :: u64) :: 'b::len word) = of_le bs" if "LENGTH('b) \<le> 64"
proof (induction bs)
  case (Cons c cs)
  have "(ucast (of_nat n :: u64) :: 'b word) = of_nat n" for n
    unfolding unsigned_of_nat using that by (intro bit_word_eqI) (simp add: bit_simps)
  from this[of "of_char c"] have c: "(of_char c :: 'b word) = ucast (of_char c :: u64)" by (simp only: of_nat_of_char)
  show ?case unfolding of_le.simps c Cons[symmetric] using that by (intro bit_word_eqI) (auto simp: bit_simps)
qed simp


lemma word_field:
  assumes "off div 8 < length ws" "off mod 8 + n \<le> 8" "LENGTH('b) \<le> 64"
  shows "(field off n (le_words ws) :: 'b::len word) = ucast (take_bit (8 * n) (drop_bit (8 * (off mod 8)) (ws ! (off div 8))))"
proof -
  let ?k = "off div 8" and ?j = "off mod 8"
  have "drop off (le_words ws) = drop ?j (drop (8 * ?k) (le_words ws @ []))" by simp
  also have "take n \<dots> = take n (drop ?j (to_le 8 (ws ! ?k)))"
    unfolding le_words_drop[OF assms(1)] using assms(2) by simp
  also have "\<dots> = to_le n (drop_bit (8 * ?j) (ws ! ?k))" using assms(2) by (simp add: drop_to_le take_to_le)
  finally have "(of_le (take n (drop off (le_words ws))) :: u64) = take_bit (8 * n) (drop_bit (8 * ?j) (ws ! ?k))"
    by (simp add: of_to_le)
  then show ?thesis using of_le_cast[OF assms(3), of "take n (drop off (le_words ws))"] by (simp add: field_def)
qed

lemma drop_field: "field off n (drop k bs) = field (k + off) n bs"
  by (simp add: field_def add.commute)

section \<open>Frames with their hashes\<close>

text \<open>The words of a frame, with the hash of what follows the header in word 54 and the hash of the frame in word 55.\<close>

definition seal :: "nat \<Rightarrow> u64 list \<Rightarrow> u64 list" where
  "seal k ws = (let ws = ws[54 := fnv1a64_update FNV_INIT (le_words (drop k ws))] in
     ws[55 := fnv1a64_update FNV_INIT (le_words ws)])"

lemma length_seal [simp]: "length (seal k ws) = length ws"
  by (simp add: seal_def Let_def)

lemma nth_seal: "i \<noteq> 54 \<Longrightarrow> i \<noteq> 55 \<Longrightarrow> seal k ws ! i = ws ! i"
  by (simp add: seal_def Let_def)

definition sealed :: "nat \<Rightarrow> u64 list \<Rightarrow> string" where
  "sealed k ws = le_words (seal k ws)"

lemma sealed_field:
  assumes "off div 8 < length ws" "off div 8 \<noteq> 54" "off div 8 \<noteq> 55" "off mod 8 + n \<le> 8" "LENGTH('b) \<le> 64"
  shows "(field off n (sealed k ws) :: 'b::len word) =
    ucast (take_bit (8 * n) (drop_bit (8 * (off mod 8)) (ws ! (off div 8))))"
  using word_field[of off "seal k ws" n, where 'b = 'b] assms by (simp add: sealed_def nth_seal)

lemma sealed_magic: "0 < length ws \<Longrightarrow> take 8 (sealed k ws) = to_le 8 (ws ! 0)"
  using le_words_drop[of 0 "seal k ws" "[]"] by (simp add: sealed_def nth_seal)

lemma sealed_hash_fields:
  assumes "56 \<le> k" "k \<le> length ws" "ws ! 55 = 0"
  shows "field 432 8 (sealed k ws) = fnv1a64_update FNV_INIT (drop (8 * k) (sealed k ws))"
    and "field 440 8 (sealed k ws) =
      fnv1a64_update FNV_INIT (take 440 (sealed k ws) @ replicate 8 (CHR 0x00) @ drop 448 (sealed k ws))"
proof -
  let ?ws = "ws[54 := fnv1a64_update FNV_INIT (le_words (drop k ws))]"
  have z: "to_le 8 (0 :: u64) = replicate 8 (CHR 0x00)" by code_simp
  have "seal k ws ! 54 = fnv1a64_update FNV_INIT (le_words (drop k ws))" "seal k ws ! 55 = fnv1a64_update FNV_INIT (le_words ?ws)"
    using assms by (simp_all add: seal_def Let_def)
  moreover have "drop k (seal k ws) = drop k ws" using assms by (simp add: seal_def Let_def)
  ultimately show "field 432 8 (sealed k ws) = fnv1a64_update FNV_INIT (drop (8 * k) (sealed k ws))"
    using assms word_field[of 432 "seal k ws" 8, where 'b = 64] by (simp add: sealed_def drop_le_words take_bit_word_eq_self)
  have "?ws = take 55 (seal k ws) @ [0] @ drop 56 (seal k ws)"
    using assms by (intro nth_equalityI) (auto simp: seal_def Let_def nth_append nth_list_update nth_Cons')
  then have "le_words ?ws = take 440 (sealed k ws) @ replicate 8 (CHR 0x00) @ drop 448 (sealed k ws)"
    using take_le_words[of 55 "seal k ws"] drop_le_words[of 56 "seal k ws"] z by (simp add: le_words_append sealed_def) (simp add: le_words_def)
  then show "field 440 8 (sealed k ws) =
      fnv1a64_update FNV_INIT (take 440 (sealed k ws) @ replicate 8 (CHR 0x00) @ drop 448 (sealed k ws))"
    using assms word_field[of 440 "seal k ws" 8, where 'b = 64] \<open>seal k ws ! 55 = _\<close>
    by (simp add: sealed_def take_bit_word_eq_self)
qed


lemma sealed_bytes:
  assumes "56 \<le> i" "unat off = 8 * i" "unat sz = 8 * n"
  shows "bytes_at (sealed k ws) off sz = le_words (take n (drop i ws))"
proof -
  have "drop i (seal k ws) = drop i ws" using assms(1) by (simp add: seal_def Let_def)
  then show ?thesis by (simp add: bytes_at_def sealed_def assms(2,3) drop_le_words take_le_words)
qed

lemma sealed_frame_hashes:
  assumes "56 \<le> k" "k \<le> length ws" "ws ! 55 = 0" "unat (gh_header_size (v6_header_of (sealed k ws))) = 8 * k"
    "unat (gh_frame_size (v6_header_of (sealed k ws))) = 8 * length ws"
  shows "check_frame_hashes (view_of (sealed k ws) fds) = Pass"
proof -
  have t: "take (8 * length ws - 8 * i) (drop (8 * i) (sealed k ws)) = drop (8 * i) (sealed k ws)" for i
    by (simp add: sealed_def)
  show ?thesis
    using t[of k] t[of 56] sealed_hash_fields[OF assms(1-3)] assms(4,5)
    by (simp add: check_frame_hashes_def view_of_def Let_def v6_header_of_def)
qed

lemmas table_defs = t_resources_def t_descriptors_def t_images_def t_image_views_def t_samplers_def t_stages_def
  t_pipelines_def t_vertex_bindings_def t_vertex_attributes_def t_attachments_def t_dynamic_states_def t_commands_def
  t_dynamic_offsets_def t_push_metadata_def t_image_barriers_def t_memory_barriers_def t_buffer_barriers_def
  t_specializations_def t_depth_stencils_def t_resolve_attachments_def t_static_states_def t_blend_states_def
  t_blend_attachments_def t_viewport_states_def t_viewports_def t_scissors_def t_indirect_draws_def
  t_buffer_copies_def t_buffer_image_copies_def t_image_copies_def

lemmas tables_defs = v6_tables_def v61_tables_def v62_tables_def v63_tables_def v64_tables_def v65_tables_def v66_tables_def
  v67_tables_def v68_tables_def v69_tables_def v610_tables_def

lemmas schema_defs = V5_RESOURCE_SCHEMA_HASH_def V5_DESCRIPTOR_OBJECT_SCHEMA_HASH_def V5_IMAGE_SCHEMA_HASH_def
  V5_IMAGE_VIEW_SCHEMA_HASH_def V5_SAMPLER_SCHEMA_HASH_def

text \<open>What the checks of the header ask of the tables, as one condition.\<close>

definition tables_ok :: "u64 \<Rightarrow> u64 \<Rightarrow> (v6_table \<times> v6_rule) list \<Rightarrow> bool" where
  "tables_ok frame_size header_size ts \<longleftrightarrow>
     list_all (\<lambda>(t, r). ta_count t \<le> ru_max r \<and> ta_entry_size t = ru_entry_size r \<and> ta_schema t = ru_schema r \<and>
       table_range_valid t (ru_align r) frame_size header_size) ts \<and>
     frame_ranges_do_not_overlap (map (\<lambda>(t, r). (ta_offset t, ta_size t)) ts)"

lemma header_accepted:
  assumes "validate_vulkan_graphics_v6_header_prefix (v6_header_of frame) n = 0" "gh_abi_minor (v6_header_of frame) < 11"
    "tables_ok (gh_frame_size (v6_header_of frame)) (ucast (gh_header_size (v6_header_of frame))) (v6_all_tables frame)"
  shows "validate_vulkan_graphics_v6_header frame n = 0"
proof -
  have "\<not> is_v6 17 (v6_header_of frame)" "\<not> is_v6 11 (v6_header_of frame)" using assms(2) by (auto simp: is_v6_def word_le_nat_alt word_less_nat_alt)
  then show ?thesis using assms(1,3)
    by (auto simp: validate_vulkan_graphics_v6_header_def Let_def v6_ranges_def tables_ok_def list_all_iff)
qed

section \<open>The frame that is accepted\<close>

definition good_words :: "u64 list" where
  "good_words =
     [0x36475550474450, 0x1000a000604b8, 0, 1896, 7, 0x200000001, 72, 1208, 144, 0x5fd531f2d77e9ad1, 0x5800000000, 0,
      0, 0xc7d2cec7923555f7, 0x6800000001, 1352, 104, 0x41f750ec2c5cfc82, 0x4800000000, 0, 0, 0xfef2d65210c4a660,
      0x5800000000, 0, 0, 0xc4c997c91fb85ab5, 0x4000000000, 0, 0, 0xc9b21285e5a281b8, 0xb000000000, 0, 0,
      0x37218816fe25c7dd, 0x2000000000, 0, 0, 0x7a735aaa6fdc4e5a, 0x1000000000, 0, 0, 0xa82d873c2a230c5,
      0x4800000000, 0, 0, 0x29ca5fee670cb0e0, 0x2800000000, 0, 0, 0x305d9e579f44e90, 0xa000000002, 1456, 320,
      0x3e932210bbed0c3c, 0, 0, 0x800000000, 0, 0, 0x4fed60f52743cc94, 0x1800000000, 0, 0, 0xfec2e2aff5874940,
      0x5800000000, 0, 0, 0xfab42820638bfb19, 0x2800000000, 0, 0, 0x80fba87057d8753d, 0x4800000000, 0, 0,
      0xec42d150dc692354, 0x14650fb0739d0383, 0x1800000000, 0, 0, 0xeaa6b0ee1be40c1, 0x14650fb0739d0383,
      0x14650fb0739d0383, 0x5000000000, 0, 0, 0x4da182d1f0ea5a83, 0x14650fb0739d0383, 0x14650fb0739d0383,
      0x1000000000, 0, 0, 0xf601060db3fe6d70, 0x14650fb0739d0383, 0x14650fb0739d0383, 0x2000000000, 0, 0,
      0xf2d422fe89c57221, 0x14650fb0739d0383, 0x14650fb0739d0383, 0x2800000000, 0, 0, 0xa2b61fe8cccf0ea6,
      0x14650fb0739d0383, 0x2800000000, 0, 0, 0x763f1cd2b92a7710, 0x14650fb0739d0383, 0x14650fb0739d0383,
      0x2000000000, 0, 0, 0xa76b96bdcf2c00ea, 0x14650fb0739d0383, 0x2000000000, 0, 0, 0x1b32b902609358a7,
      0x14650fb0739d0383, 0x2000000000, 0, 0, 0x57b0da55f6a9871a, 0x14650fb0739d0383, 0x14650fb0739d0383,
      0x2800000000, 0, 0, 0xc0f27c9d746a371, 0x14650fb0739d0383, 0x14650fb0739d0383, 0x2800000001, 1776, 40,
      0x7fb0d4996f0e6919, 0x5dbf73f93c53246e, 0x5dbf73f93c53246e, 0x5000000001, 1816, 80, 0x2d3b53d05c5cb70d,
      0x8fbb37f6fbee9bb9, 0x5800000000, 0, 0, 0x3a3de925dfb62446, 0x14650fb0739d0383, 0x8fbb37f6fbee9bb9, 1, 1,
      0xffffffff, 0, 4096, 0, 0, 0, 0, 2, 2, 0xffffffff00000000, 256, 1024, 0, 0, 0, 0, 0, 3, 0, 2048, 1024,
      0x1000000025, 0x100000010, 0x100000001, 1, 3, 0, 0, 0, 12, 0xffffffff, 0, 0, 0, 0xffffffff, 0, 0, 0, 0, 0, 0,
      0, 0, 0, 0, 0, 0, 0, 0, 13, 0xffffffff, 0, 0, 0, 0xffffffff, 0, 0, 0, 0, 0, 0, 0, 0, 0, 0, 0, 0, 0, 0,
      0x100000000, 1, 0, 512, 256, 0x100000001, 1, 0x100000000, 0, 1, 0, 0, 0x800000008, 1, 512]"

definition good_frame :: string where
  "good_frame = sealed 151 good_words"

lemma length_good_words [simp]: "length good_words = 237"
  by (simp add: good_words_def)

lemma good_field:
  assumes "off div 8 < 237" "off div 8 \<noteq> 54" "off div 8 \<noteq> 55" "off mod 8 + n \<le> 8" "LENGTH('b) \<le> 64"
  shows "(field off n good_frame :: 'b::len word) =
    ucast (take_bit (8 * n) (drop_bit (8 * (off mod 8)) (good_words ! (off div 8))))"
  unfolding good_frame_def by (rule sealed_field) (use assms in simp_all)

lemma good_header:
  obtains ph fh where "v6_header_of good_frame =
    \<lparr>gh_magic = V6_MAGIC, gh_header_size = 1208, gh_abi_major = 6, gh_abi_minor = 10, gh_command = 1, gh_flags = 0,
     gh_reserved0 = 0, gh_frame_size = 1896, gh_submit_id = 7, gh_fd_count = 1, gh_payload_hash = ph, gh_frame_hash = fh\<rparr>"
proof
  have "take 8 good_frame = to_le 8 (0x36475550474450 :: u64)"
    by (simp add: good_frame_def sealed_magic) (simp add: good_words_def)
  also have "\<dots> = V6_MAGIC" by code_simp
  finally show "v6_header_of good_frame =
    \<lparr>gh_magic = V6_MAGIC, gh_header_size = 1208, gh_abi_major = 6, gh_abi_minor = 10, gh_command = 1, gh_flags = 0,
     gh_reserved0 = 0, gh_frame_size = 1896, gh_submit_id = 7, gh_fd_count = 1, gh_payload_hash = field 432 8 good_frame,
     gh_frame_hash = field 440 8 good_frame\<rparr>"
    by (simp add: v6_header_of_def good_field) (simp add: good_words_def)
qed

lemma good_tables: "tables_ok 1896 1208 (v6_all_tables good_frame)"
proof -
  have minor: "unat (gh_abi_minor (v6_header_of good_frame)) = 10" by (rule good_header) simp
  show ?thesis
    by (simp add: tables_ok_def v6_all_tables_def minor v6_extensions_def tables_defs schema_defs table_defs v6_table_at_def
        good_field good_words_def table_range_valid_def range_within_frame_def)
qed

lemma good_header_ok: "validate_vulkan_graphics_v6_header good_frame 1 = 0"
proof (rule header_accepted)
  show "validate_vulkan_graphics_v6_header_prefix (v6_header_of good_frame) 1 = 0"
    by (rule good_header) (simp add: validate_vulkan_graphics_v6_header_prefix_def v6_header_sizes_def V6_MAX_FRAME_BYTES_def
        GPU_MAX_PASSED_FDS_def)
  show "gh_abi_minor (v6_header_of good_frame) < 11" by (rule good_header) simp
  show "tables_ok (gh_frame_size (v6_header_of good_frame)) (ucast (gh_header_size (v6_header_of good_frame)))
      (v6_all_tables good_frame)"
    by (rule good_header) (simp add: good_tables)
qed

lemma good_table:
  "t_resources good_frame =
     \<lparr>ta_count = 2, ta_entry_size = 72, ta_offset = 1208, ta_size = 144, ta_schema = V5_RESOURCE_SCHEMA_HASH\<rparr>"
  "t_images good_frame =
     \<lparr>ta_count = 1, ta_entry_size = 104, ta_offset = 1352, ta_size = 104, ta_schema = V5_IMAGE_SCHEMA_HASH\<rparr>"
  "t_commands good_frame =
     \<lparr>ta_count = 2, ta_entry_size = 160, ta_offset = 1456, ta_size = 320, ta_schema = 0x3e932210bbed0c3c\<rparr>"
  "t_buffer_copies good_frame =
     \<lparr>ta_count = 1, ta_entry_size = 40, ta_offset = 1776, ta_size = 40, ta_schema = 0x7fb0d4996f0e6919\<rparr>"
  "t_buffer_image_copies good_frame =
     \<lparr>ta_count = 1, ta_entry_size = 80, ta_offset = 1816, ta_size = 80, ta_schema = 0x2d3b53d05c5cb70d\<rparr>"
  by (simp_all add: table_defs v6_table_at_def good_field good_words_def schema_defs)

text \<open>The other tables are empty.\<close>

lemma good_empty_table:
  "list_all (\<lambda>t. ta_count (t good_frame) = 0 \<and> ta_offset (t good_frame) = 0 \<and> ta_size (t good_frame) = 0)
     [t_descriptors, t_image_views, t_samplers, t_stages, t_pipelines, t_vertex_bindings, t_vertex_attributes, t_attachments,
      t_dynamic_states, t_dynamic_offsets, t_push_metadata, t_image_barriers, t_memory_barriers, t_buffer_barriers,
      t_specializations, t_depth_stencils, t_resolve_attachments, t_static_states, t_blend_states, t_blend_attachments,
      t_viewport_states, t_viewports, t_scissors, t_indirect_draws, t_image_copies]"
  by (simp add: table_defs v6_table_at_def good_field good_words_def)

definition good_view :: v6_view where
  "good_view = view_of good_frame [7]"

lemma entries_empty: "ta_count t = 0 \<Longrightarrow> entries dec sz t frame = []"
  by (simp add: entries_def table_at_def)

lemma good_empty:
  "gv_descriptors good_view = []" "gv_image_views good_view = []" "gv_stages good_view = []" "gv_pipelines good_view = []"
  "gv_vertex_bindings good_view = []" "gv_vertex_attributes good_view = []" "gv_attachments good_view = []"
  "gv_dynamic_states good_view = []" "gv_dynamic_offsets good_view = []" "gv_push_metadata good_view = []"
  "gv_image_barriers good_view = []" "gv_memory_barriers good_view = []" "gv_buffer_barriers good_view = []"
  "gv_specializations good_view = []" "gv_depth_stencils good_view = []" "gv_resolve_attachments good_view = []"
  "gv_static_states good_view = []" "gv_blend_states good_view = []" "gv_viewport_states good_view = []"
  "gv_indirect_draws good_view = []" "gv_image_copies good_view = []"
  using good_empty_table by (simp_all add: good_view_def view_of_def Let_def entries_empty)

lemma good_extension_hashes:
  "extension_hash good_view [t_buffer_copies] = field 1104 8 good_frame"
  "extension_hash good_view [t_buffer_image_copies] = field 1152 8 good_frame"
proof -
  have b: "bytes_at good_frame 1776 40 = le_words [0x100000000, 1, 0, 512, 256]"
    unfolding good_frame_def by (subst sealed_bytes[where i = 222 and n = 5]) (simp_all add: good_words_def)
  have i: "bytes_at good_frame 1816 80 =
      le_words [0x100000001, 1, 0x100000000, 0, 1, 0, 0, 0x800000008, 1, 512]"
    unfolding good_frame_def by (subst sealed_bytes[where i = 227 and n = 10]) (simp_all add: good_words_def)
  have "fnv1a64_update FNV_INIT (le_words [0x100000000, 1, 0, 512, 256]) = 0x5dbf73f93c53246e"
    by code_simp
  then show "extension_hash good_view [t_buffer_copies] = field 1104 8 good_frame"
    by (simp add: extension_hash_def table_bytes_of_def good_view_def view_of_def Let_def good_table b good_field)
      (simp add: good_words_def)
  have "fnv1a64_update FNV_INIT
      (le_words [0x100000001, 1, 0x100000000, 0, 1, 0, 0, 0x800000008, 1, 512]) = 0x8fbb37f6fbee9bb9"
    by code_simp
  then show "extension_hash good_view [t_buffer_image_copies] = field 1152 8 good_frame"
    by (simp add: extension_hash_def table_bytes_of_def good_view_def view_of_def Let_def good_table i good_field)
      (simp add: good_words_def)
qed

lemma good_since: "is_v6 k (gv_header good_view) \<longleftrightarrow> k \<le> 10"
proof -
  have "gv_header good_view = v6_header_of good_frame" by (simp add: good_view_def view_of_def Let_def)
  then show ?thesis by (rule_tac good_header) (auto simp: is_v6_def)
qed

lemma good_hashes: "check_frame_hashes good_view = Pass" "check_hashes_v61_v67 good_view = Pass"
  "check_hashes_v68_v616 good_view = Pass" "check_hashes_v617_v620 good_view = Pass"
proof -
  show "check_frame_hashes good_view = Pass"
    unfolding good_view_def good_frame_def
    by (rule sealed_frame_hashes; rule good_header[unfolded good_frame_def]) (simp_all add: good_words_def)
  have f: "gv_frame good_view = good_frame" by (simp add: good_view_def view_of_def Let_def)
  have none: "bytes_at good_frame 0 0 = []" "fnv1a64_update h [] = h" for h by (simp_all add: bytes_at_def fnv1a64_update_def)
  show "check_hashes_v61_v67 good_view = Pass"
    using good_empty_table
    by (simp add: check_hashes_v61_v67_def check_hashes_def f extension_hash_def table_bytes_of_def none good_field)
      (simp add: good_words_def)
  have "extension_hash good_view [t_indirect_draws] = FNV_INIT" "extension_hash good_view [t_image_copies] = FNV_INIT"
    "extension_hash good_view [t_buffer_image_copies, t_image_copies] = extension_hash good_view [t_buffer_image_copies]"
    using good_empty_table by (simp_all add: extension_hash_def table_bytes_of_def f none)
  then show "check_hashes_v68_v616 good_view = Pass"
    by (simp add: check_hashes_v68_v616_def check_hashes_def f good_since good_extension_hashes)
      (simp add: good_field good_words_def)
  show "check_hashes_v617_v620 good_view = Pass" by (simp add: check_hashes_v617_v620_def good_since)
qed

definition good_memory :: v5_resource where
  "good_memory =
     \<lparr>vr_resource_type = RESOURCE_MEMORY, vr_resource_flags = 0, vr_resource_id = 1, vr_parent_resource_index = V5_NONE,
      vr_fd_index = 0, vr_memory_offset = 0, vr_size = 4096, vr_usage = 0, vr_memory_property_flags = 0,
      vr_external_offset = 0, vr_generation = 0\<rparr>"

definition good_buffer :: v5_resource where
  "good_buffer =
     \<lparr>vr_resource_type = RESOURCE_BUFFER, vr_resource_flags = 0, vr_resource_id = 2, vr_parent_resource_index = 0,
      vr_fd_index = V5_NONE, vr_memory_offset = 256, vr_size = 1024, vr_usage = 0, vr_memory_property_flags = 0,
      vr_external_offset = 0, vr_generation = 0\<rparr>"

definition good_image :: v5_image where
  "good_image =
     \<lparr>vi_flags = 0, vi_image_type = 0, vi_image_id = 3, vi_memory_resource_index = 0, vi_reserved0 = 0, vi_memory_offset = 2048,
      vi_memory_size = 1024, vi_format = 37, vi_extent_width = 16, vi_extent_height = 16, vi_extent_depth = 1,
      vi_mip_levels = 1, vi_array_layers = 1, vi_samples = 1, vi_tiling = 0, vi_usage = 3, vi_create_flags = 0,
      vi_sharing_mode = 0, vi_initial_layout = 0, vi_generation = 0\<rparr>"

definition good_buffer_copy :: g_buffer_copy where
  "good_buffer_copy =
     \<lparr>gbc_command_index = 0, gbc_src_resource_index = 1, gbc_dst_resource_index = 1, gbc_reserved0 = 0, gbc_src_offset = 0,
      gbc_dst_offset = 512, gbc_size = 256\<rparr>"

definition good_image_copy :: g_buffer_image_copy where
  "good_image_copy =
     \<lparr>gbi_command_index = 1, gbi_direction = 1, gbi_buffer_resource_index = 1, gbi_image_index = 0, gbi_image_layout = 0,
      gbi_aspect_mask = 1, gbi_mip_level = 0, gbi_base_array_layer = 0, gbi_layer_count = 1, gbi_buffer_row_length = 0,
      gbi_buffer_image_height = 0, gbi_image_offset_x = 0, gbi_image_offset_y = 0, gbi_image_offset_z = 0,
      gbi_image_extent_width = 8, gbi_image_extent_height = 8, gbi_image_extent_depth = 1, gbi_reserved0 = 0,
      gbi_buffer_offset = 512\<rparr>"

lemma good_entries:
  "gv_resources good_view = [good_memory, good_buffer]" "gv_images good_view = [good_image]"
  "gv_buffer_copies good_view = [good_buffer_copy]" "gv_buffer_image_copies good_view = [good_image_copy]"
proof -
  have "is_v6 9 (gv_header good_view)" "is_v6 10 (gv_header good_view)" by (simp_all add: good_since)
  then have v: "is_v6 9 (v6_header_of good_frame)" "is_v6 10 (v6_header_of good_frame)"
    by (simp_all add: good_view_def view_of_def Let_def)
  show "gv_resources good_view = [good_memory, good_buffer]" "gv_images good_view = [good_image]"
    "gv_buffer_copies good_view = [good_buffer_copy]" "gv_buffer_image_copies good_view = [good_image_copy]"
    by (simp_all add: good_view_def view_of_def Let_def v entries_def good_table table_at_def upt_rec v5_resource_of_def
        v5_image_of_def g_buffer_copy_of_def g_buffer_image_copy_of_def drop_field good_field)
      (simp_all add: good_words_def good_memory_def good_buffer_def good_image_def good_buffer_copy_def good_image_copy_def)
qed

text \<open>A command that only names its type.\<close>

definition bare_command :: "u32 \<Rightarrow> g_command \<Rightarrow> bool" where
  "bare_command ty c \<longleftrightarrow> gcm_command_type c = ty \<and> \<not> has_draw_state c \<and> gcm_vertex_binding_first c = 0 \<and>
     gcm_attachment_first c = 0 \<and> gcm_dynamic_state_first c = 0 \<and> gcm_first_dynamic_offset c = 0 \<and>
     gcm_dynamic_offset_count c = 0 \<and> gcm_index_buffer_resource_index c = V5_NONE \<and> gcm_push_offset c = 0"

lemma good_commands:
  obtains c d where "gv_commands good_view = [c, d]" "bare_command CMD_COPY_BUFFER c" "bare_command CMD_COPY_BUFFER_TO_IMAGE d"
proof
  show "gv_commands good_view = [g_command_of (drop 1456 good_frame), g_command_of (drop 1616 good_frame)]"
    by (simp add: good_view_def view_of_def Let_def entries_def good_table table_at_def upt_rec)
qed (simp_all add: bare_command_def has_draw_state_def g_command_of_def drop_field good_field, simp_all add: good_words_def)

lemma bare_command_checked:
  "bare_command ty c \<Longrightarrow> ty = CMD_COPY_BUFFER \<or> ty = CMD_COPY_BUFFER_TO_IMAGE \<Longrightarrow>
   is_v6 (command_since ty) (gv_header v) \<Longrightarrow> check_command v (i, c) = Pass"
  by (auto simp: bare_command_def has_draw_state_def check_command_def Let_def check_command_ranges_def range_add_u32_def
      check_plain_command_def check_index_buffer_def payload_range_valid_def QUERY_COMMANDS_def)

lemma good_content: "validate_vulkan_graphics_v6_content files good_view = Pass"
proof -
  obtain c d where cs: "gv_commands good_view = [c, d]" "bare_command CMD_COPY_BUFFER c" "bare_command CMD_COPY_BUFFER_TO_IMAGE d"
    by (rule good_commands)
  have ty: "gcm_command_type c = 12" "gcm_command_type d = 13" using cs(2,3) by (simp_all add: bare_command_def)
  have fds: "gv_fds good_view = [7]" by (simp add: good_view_def view_of_def Let_def)
  have objects: "check_objects good_view = Pass"
    by (simp add: check_objects_def good_entries good_empty fds check_v6_resource_def check_v6_image_def
        u64_range_within_size_def good_memory_def good_buffer_def good_image_def)
  have states: "check_pipeline_states good_view = Pass" "check_pipelines good_view = Pass" "check_v61_entries good_view = Pass"
    by (simp_all add: check_pipeline_states_def check_pipelines_def check_v61_entries_def good_empty)
  have commands: "check_commands good_view = Pass"
    using cs by (auto simp: check_commands_def command_since_def good_since intro!: bare_command_checked)
  have marks: "marked MAX_COMMANDS [k] ! i \<longleftrightarrow> i = unat k" if "i < MAX_COMMANDS" for i and k :: u32
    using nth_marked[OF that, of "[k]"] by simp
  have copies: "check_buffer_copies good_view = Pass"
    by (simp add: check_buffer_copies_def good_entries check_buffer_copy_def claim_Pass cs ty good_buffer_copy_def
        buffer_range_bad_def u64_range_within_size_def good_buffer_def all_claimed_def marks)
      (simp add: unmarked_def)
  have images: "check_image_copies good_view = Pass"
    by (simp add: check_image_copies_def good_entries good_empty check_buffer_image_copy_def claim_Pass cs ty
        good_image_copy_def copy_command_of_def good_buffer_def good_image_def all_claimed_def marks
        vulkan_graphics_v610_image_subresource_range_valid_def vulkan_graphics_v610_buffer_image_copy_span_def
        copy_span_bytes_def copy_row_texels_def copy_image_rows_def checked_mul_u64_executor_def checked_u64_add3_def
        vulkan_format_bytes_per_pixel_conservative_def u64_range_within_size_def outside_extent_def mip_extent_def Let_def)
      (simp add: unmarked_def)
  show ?thesis
    by (simp add: validate_vulkan_graphics_v6_content_def good_hashes good_since objects states commands copies images good_empty)
qed

text \<open>The frame is accepted as a client sends it, with one descriptor.\<close>

lemma good_accepted:
  "handle_vulkan_graphics_v6_frame files True \<lparr>so_bytes = good_frame, so_fds = [7]\<rparr> = V6_Accepted good_view"
proof -
  have "gh_frame_size (v6_header_of good_frame) = 1896" by (rule good_header) simp
  then have "length good_frame = unat (gh_frame_size (v6_header_of good_frame))" by (simp add: good_frame_def sealed_def)
  then show ?thesis
    using good_header_ok handle_whole_frame[of good_frame "[7]" files]
    by (simp add: validate_vulkan_graphics_v6_frame_content_def init_accepted good_view_def[symmetric] good_content)
qed

end
