(* ===== verification/Graphics_Stray.thy ===== *)
theory Graphics_Stray
  imports Graphics_Example
begin

text \<open>
  The second example: a frame of version 6.4 with a memory, an image, a view of it, an attachment without a view of its
  own and a resolve entry for that attachment. All hashes are right and every check before the resolve entries passes.
\<close>

definition bad_words :: "u64 list" where
  "bad_words =
     [0x36475550474450, 0x10004000602f8, 0, 1096, 7, 0x100000001, 72, 760, 72, 0x5fd531f2d77e9ad1, 0x5800000000, 0,
      0, 0xc7d2cec7923555f7, 0x6800000001, 832, 104, 0x41f750ec2c5cfc82, 0x4800000001, 936, 72, 0xfef2d65210c4a660,
      0x5800000000, 0, 0, 0xc4c997c91fb85ab5, 0x4000000000, 0, 0, 0xc9b21285e5a281b8, 0xb000000000, 0, 0,
      0x37218816fe25c7dd, 0x2000000000, 0, 0, 0x7a735aaa6fdc4e5a, 0x1000000000, 0, 0, 0xa82d873c2a230c5,
      0x4800000001, 1008, 72, 0x29ca5fee670cb0e0, 0x2800000000, 0, 0, 0x305d9e579f44e90, 0xa000000000, 0, 0,
      0x3e932210bbed0c3c, 0, 0, 0x800000000, 0, 0, 0x4fed60f52743cc94, 0x1800000000, 0, 0, 0xfec2e2aff5874940,
      0x5800000000, 0, 0, 0xfab42820638bfb19, 0x2800000000, 0, 0, 0x80fba87057d8753d, 0x4800000000, 0, 0,
      0xec42d150dc692354, 0x14650fb0739d0383, 0x1800000000, 0, 0, 0xeaa6b0ee1be40c1, 0x14650fb0739d0383,
      0x14650fb0739d0383, 0x5000000000, 0, 0, 0x4da182d1f0ea5a83, 0x14650fb0739d0383, 0x14650fb0739d0383,
      0x1000000001, 1080, 16, 0xf601060db3fe6d70, 0x6fe5156da5445f50, 0x6fe5156da5445f50, 1, 1, 0xffffffff, 0, 4096,
      0, 0, 0, 0, 0, 3, 0, 2048, 1024, 0x1000000025, 0x100000010, 0x100000001, 1, 3, 0, 0, 0, 0, 4, 0, 0, 0, 0, 0, 0,
      0, 1, 0xffffffff, 0x400000000, 0, 0, 0, 0, 0, 0, 0x100000000, 2]"

definition bad_frame :: string where
  "bad_frame = sealed 95 bad_words"

lemma length_bad_words [simp]: "length bad_words = 137"
  by (simp add: bad_words_def)

lemma bad_field:
  assumes "off div 8 < 137" "off div 8 \<noteq> 54" "off div 8 \<noteq> 55" "off mod 8 + n \<le> 8" "LENGTH('b) \<le> 64"
  shows "(field off n bad_frame :: 'b::len word) =
    ucast (take_bit (8 * n) (drop_bit (8 * (off mod 8)) (bad_words ! (off div 8))))"
  unfolding bad_frame_def by (rule sealed_field) (use assms in simp_all)

lemma bad_header:
  obtains ph fh where "v6_header_of bad_frame =
    \<lparr>gh_magic = V6_MAGIC, gh_header_size = 760, gh_abi_major = 6, gh_abi_minor = 4, gh_command = 1, gh_flags = 0,
     gh_reserved0 = 0, gh_frame_size = 1096, gh_submit_id = 7, gh_fd_count = 1, gh_payload_hash = ph, gh_frame_hash = fh\<rparr>"
proof
  have "take 8 bad_frame = to_le 8 (0x36475550474450 :: u64)"
    by (simp add: bad_frame_def sealed_magic) (simp add: bad_words_def)
  also have "\<dots> = V6_MAGIC" by code_simp
  finally show "v6_header_of bad_frame =
    \<lparr>gh_magic = V6_MAGIC, gh_header_size = 760, gh_abi_major = 6, gh_abi_minor = 4, gh_command = 1, gh_flags = 0,
     gh_reserved0 = 0, gh_frame_size = 1096, gh_submit_id = 7, gh_fd_count = 1, gh_payload_hash = field 432 8 bad_frame,
     gh_frame_hash = field 440 8 bad_frame\<rparr>"
    by (simp add: v6_header_of_def bad_field) (simp add: bad_words_def)
qed

lemma bad_tables: "tables_ok 1096 760 (v6_all_tables bad_frame)"
proof -
  have minor: "unat (gh_abi_minor (v6_header_of bad_frame)) = 4" by (rule bad_header) simp
  show ?thesis
    by (simp add: tables_ok_def v6_all_tables_def minor v6_extensions_def tables_defs schema_defs table_defs v6_table_at_def
        bad_field bad_words_def table_range_valid_def range_within_frame_def)
qed

lemma bad_header_ok: "validate_vulkan_graphics_v6_header bad_frame 1 = 0"
proof (rule header_accepted)
  show "validate_vulkan_graphics_v6_header_prefix (v6_header_of bad_frame) 1 = 0"
    by (rule bad_header) (simp add: validate_vulkan_graphics_v6_header_prefix_def v6_header_sizes_def V6_MAX_FRAME_BYTES_def
        GPU_MAX_PASSED_FDS_def)
  show "gh_abi_minor (v6_header_of bad_frame) < 11" by (rule bad_header) simp
  show "tables_ok (gh_frame_size (v6_header_of bad_frame)) (ucast (gh_header_size (v6_header_of bad_frame)))
      (v6_all_tables bad_frame)"
    by (rule bad_header) (simp add: bad_tables)
qed

lemma bad_table:
  "t_resources bad_frame = \<lparr>ta_count = 1, ta_entry_size = 72, ta_offset = 760, ta_size = 72, ta_schema = V5_RESOURCE_SCHEMA_HASH\<rparr>"
  "t_images bad_frame = \<lparr>ta_count = 1, ta_entry_size = 104, ta_offset = 832, ta_size = 104, ta_schema = V5_IMAGE_SCHEMA_HASH\<rparr>"
  "t_image_views bad_frame =
     \<lparr>ta_count = 1, ta_entry_size = 72, ta_offset = 936, ta_size = 72, ta_schema = V5_IMAGE_VIEW_SCHEMA_HASH\<rparr>"
  "t_attachments bad_frame =
     \<lparr>ta_count = 1, ta_entry_size = 72, ta_offset = 1008, ta_size = 72, ta_schema = 0x29ca5fee670cb0e0\<rparr>"
  "t_resolve_attachments bad_frame =
     \<lparr>ta_count = 1, ta_entry_size = 16, ta_offset = 1080, ta_size = 16, ta_schema = 0xf601060db3fe6d70\<rparr>"
  by (simp_all add: table_defs v6_table_at_def bad_field bad_words_def schema_defs)

lemma bad_empty_table:
  "list_all (\<lambda>t. ta_count (t bad_frame) = 0 \<and> ta_offset (t bad_frame) = 0 \<and> ta_size (t bad_frame) = 0)
     [t_descriptors, t_stages, t_dynamic_offsets, t_push_metadata, t_image_barriers, t_memory_barriers, t_buffer_barriers,
      t_specializations, t_depth_stencils]"
  by (simp add: table_defs v6_table_at_def bad_field bad_words_def)

definition bad_view :: v6_view where
  "bad_view = view_of bad_frame [7]"

lemma bad_since: "is_v6 k (gv_header bad_view) \<longleftrightarrow> k \<le> 4"
proof -
  have "gv_header bad_view = v6_header_of bad_frame" by (simp add: bad_view_def view_of_def Let_def)
  then show ?thesis by (rule_tac bad_header) (auto simp: is_v6_def)
qed

lemma bad_empty:
  "gv_descriptors bad_view = []" "gv_stages bad_view = []" "gv_specializations bad_view = []" "gv_depth_stencils bad_view = []"
  using bad_empty_table by (simp_all add: bad_view_def view_of_def Let_def entries_empty)

lemma bad_hashes: "check_frame_hashes bad_view = Pass" "check_hashes_v61_v67 bad_view = Pass"
  "check_hashes_v68_v616 bad_view = Pass" "check_hashes_v617_v620 bad_view = Pass"
proof -
  show "check_frame_hashes bad_view = Pass"
    unfolding bad_view_def bad_frame_def
    by (rule sealed_frame_hashes; rule bad_header[unfolded bad_frame_def]) (simp_all add: bad_words_def)
  have f: "gv_frame bad_view = bad_frame" by (simp add: bad_view_def view_of_def Let_def)
  have none: "bytes_at bad_frame 0 0 = []" "fnv1a64_update h [] = h" for h by (simp_all add: bytes_at_def fnv1a64_update_def)
  have b: "bytes_at bad_frame 1080 16 = le_words [0x100000000, 2]"
    unfolding bad_frame_def by (subst sealed_bytes[where i = 135 and n = 2]) (simp_all add: bad_words_def)
  have "fnv1a64_update FNV_INIT (le_words [0x100000000, 2]) = 0x6fe5156da5445f50" by code_simp
  then have r: "extension_hash bad_view [t_resolve_attachments] = 0x6fe5156da5445f50"
    by (simp add: extension_hash_def table_bytes_of_def f bad_table b)
  have e: "extension_hash bad_view [t_dynamic_offsets, t_push_metadata, t_image_barriers, t_memory_barriers, t_buffer_barriers] = FNV_INIT"
    "extension_hash bad_view [t_specializations] = FNV_INIT" "extension_hash bad_view [t_depth_stencils] = FNV_INIT"
    using bad_empty_table by (simp_all add: extension_hash_def table_bytes_of_def f none)
  show "check_hashes_v61_v67 bad_view = Pass"
    by (simp add: check_hashes_v61_v67_def check_hashes_def f bad_since r e bad_field) (simp add: bad_words_def)
  show "check_hashes_v68_v616 bad_view = Pass" "check_hashes_v617_v620 bad_view = Pass"
    by (simp_all add: check_hashes_v68_v616_def check_hashes_v617_v620_def bad_since)
qed

lemma bad_objects: "check_objects bad_view = Pass"
proof -
  have "gv_resources bad_view = [v5_resource_of (drop 760 bad_frame)]" "gv_images bad_view = [v5_image_of (drop 832 bad_frame)]"
    "gv_image_views bad_view = [v5_view_of (drop 936 bad_frame)]" "gv_fds bad_view = [7]"
    by (simp_all add: bad_view_def view_of_def Let_def entries_def bad_table table_at_def)
  moreover have "vr_resource_type (v5_resource_of (drop 760 bad_frame)) = 1"
    "vr_parent_resource_index (v5_resource_of (drop 760 bad_frame)) = V5_NONE"
    "vr_fd_index (v5_resource_of (drop 760 bad_frame)) = 0" "vr_size (v5_resource_of (drop 760 bad_frame)) = 4096"
    by (simp_all add: v5_resource_of_def drop_field bad_field) (simp_all add: bad_words_def)
  moreover have "vi_memory_resource_index (v5_image_of (drop 832 bad_frame)) = 0"
    "vi_memory_offset (v5_image_of (drop 832 bad_frame)) = 2048" "vi_memory_size (v5_image_of (drop 832 bad_frame)) = 1024"
    by (simp_all add: v5_image_of_def drop_field bad_field) (simp_all add: bad_words_def)
  moreover have "vv_image_index (v5_view_of (drop 936 bad_frame)) = 0"
    by (simp add: v5_view_of_def drop_field bad_field) (simp add: bad_words_def)
  ultimately show ?thesis
    by (simp add: check_objects_def bad_empty check_v6_resource_def check_v6_image_def u64_range_within_size_def)
qed

text \<open>The entry is looked at before any check has seen the attachment: the view it names is none.\<close>

definition bad_entry :: g_resolve_attachment where
  "bad_entry = \<lparr>gra_attachment_index = 0, gra_resolve_mode = 1, gra_resolve_layout = 2, gra_reserved0 = 0\<rparr>"

lemma bad_resolve: "gv_resolve_attachments bad_view = [bad_entry]" "length (gv_attachments bad_view) = 1"
  "length (gv_image_views bad_view) = 1"
proof -
  have v4: "is_v6 4 (v6_header_of bad_frame)" using bad_since[of 4] by (simp add: bad_view_def view_of_def Let_def)
  have "g_resolve_attachment_of (drop 1080 bad_frame) = bad_entry"
    by (simp add: g_resolve_attachment_of_def drop_field bad_field) (simp add: bad_words_def bad_entry_def)
  then show "gv_resolve_attachments bad_view = [bad_entry]" "length (gv_attachments bad_view) = 1"
    "length (gv_image_views bad_view) = 1"
    by (simp_all add: bad_view_def view_of_def Let_def v4 entries_def bad_table table_at_def)
qed

lemma bad_attachment:
  "gat_image_view_index (gv_attachments bad_view ! 0) = V5_NONE" "gat_resolve_image_view_index (gv_attachments bad_view ! 0) = 0"
  "gat_attachment_role (gv_attachments bad_view ! 0) = 1"
proof -
  have a: "gv_attachments bad_view ! 0 = g_attachment_of (drop 1008 bad_frame)"
    by (simp add: bad_view_def view_of_def Let_def entries_def bad_table table_at_def)
  show "gat_image_view_index (gv_attachments bad_view ! 0) = V5_NONE" "gat_resolve_image_view_index (gv_attachments bad_view ! 0) = 0"
    "gat_attachment_role (gv_attachments bad_view ! 0) = 1"
    by (simp_all add: a g_attachment_of_def drop_field bad_field) (simp_all add: bad_words_def)
qed

lemma bad_entry_strays: "check_resolve bad_view (unmarked 64) bad_entry = Stray"
  by (simp add: check_resolve_def bad_resolve bad_attachment bad_entry_def vulkan_graphics_attachment_layout_supported_def)
    (simp add: unmarked_def)

text \<open>The checks that come before the one of the resolve entries, in the order of the code.\<close>

definition checks_before_resolve :: "(int \<Rightarrow> string) \<Rightarrow> v6_view \<Rightarrow> verdict list" where
  "checks_before_resolve files v =
     [check_frame_hashes v, check_hashes_v61_v67 v, since 11 v (check_fills_and_updates v), since 12 v (check_clear_colors v),
      since 13 v (check_clear_depths v), check_hashes_v617_v620 v, check_hashes_v68_v616 v, check_objects v,
      each (check_stage files v) (gv_stages v), since 2 v (each (check_specialization v) (gv_specializations v)),
      since 3 v (each (check_depth_stencil v) (gv_depth_stencils v))]"

lemma bad_before: "list_all (\<lambda>c. c = Pass) (checks_before_resolve files bad_view)"
  by (simp add: checks_before_resolve_def bad_hashes bad_objects bad_since bad_empty)

lemma bad_states: "check_pipeline_states bad_view = Stray"
  by (simp add: check_pipeline_states_def bad_since bad_empty bad_resolve bad_entry_strays)

lemma bad_init: "init_vulkan_graphics_v6_frame_view bad_frame [7] = Inr bad_view"
  using bad_header_ok by (simp add: init_accepted bad_view_def)

lemma bad_frame_strays:
  "handle_vulkan_graphics_v6_frame files True \<lparr>so_bytes = bad_frame, so_fds = [7]\<rparr> = V6_Stray"
proof -
  have "gh_frame_size (v6_header_of bad_frame) = 1096" by (rule bad_header) simp
  then have "length bad_frame = unat (gh_frame_size (v6_header_of bad_frame))" by (simp add: bad_frame_def sealed_def)
  moreover have "validate_vulkan_graphics_v6_content files bad_view = Stray"
    by (simp add: validate_vulkan_graphics_v6_content_def bad_hashes bad_objects bad_states bad_since bad_empty)
  ultimately show ?thesis
    using bad_header_ok handle_whole_frame[of bad_frame "[7]" files]
    by (simp add: validate_vulkan_graphics_v6_frame_content_def init_accepted bad_view_def)
qed

end
