(* ===== verification/Graphics_Theorems.thy ===== *)
theory Graphics_Theorems
  imports Graphics_Stray
begin

text \<open>
  The properties of receiving a graphics frame: where the tables of an accepted frame are, the typing of its contents, the
  one read that leaves its table, and the equivalence of its optimised routines with what they compute.
\<close>

section \<open>Hashes of files\<close>

lemma hash_chunks_whole:
  "pos \<le> sz \<Longrightarrow> hash_chunks file pos sz (fnv1a64_update FNV_INIT (take pos file)) =
     (if pos < sz \<and> length file < sz then 0 else fnv1a64_update FNV_INIT (take sz file))"
proof (induction "sz - pos" arbitrary: pos rule: less_induct)
  case less
  let ?chunk = "min (sz - pos) 16384" and ?h = "fnv1a64_update FNV_INIT (take pos file)"
  show ?case
  proof (cases "pos < sz")
    case True
    let ?got = "take ?chunk (drop pos file)"
    have step: "hash_chunks file pos sz ?h =
        (if length ?got \<noteq> ?chunk then 0 else hash_chunks file (pos + ?chunk) sz (fnv1a64_update ?h ?got))"
      using True by (subst hash_chunks.simps) (simp add: Let_def)
    show ?thesis
    proof (cases "length ?got = ?chunk")
      case full: True
      have "fnv1a64_update ?h ?got = fnv1a64_update FNV_INIT (take (pos + ?chunk) file)"
        by (simp add: take_add fnv1a64_update_append)
      moreover have "pos + ?chunk \<le> length file" using full True by auto
      moreover have "hash_chunks file (pos + ?chunk) sz (fnv1a64_update FNV_INIT (take (pos + ?chunk) file)) =
          (if pos + ?chunk < sz \<and> length file < sz then 0 else fnv1a64_update FNV_INIT (take sz file))"
        by (rule less.hyps) (use True in auto)
      ultimately show ?thesis using full True step by auto
    next
      case False
      then have "length file < sz" using True by auto
      then show ?thesis using False True step by simp
    qed
  next
    case False
    then show ?thesis using less.prems by (subst hash_chunks.simps) simp
  qed
qed

text \<open>
  The hash of a shader's file, read in pieces of 16384 bytes, is the hash of its first bytes at once; it is 0 for a
  bad descriptor and for a file that is too short.
\<close>

theorem full_fd_hash_whole:
  "full_fd_hash files fd sz =
     (if fd < 0 \<or> length (files fd) < sz then 0 else fnv1a64_update FNV_INIT (take sz (files fd)))"
  using hash_chunks_whole[of 0 sz "files fd"] by (auto simp: full_fd_hash_def fnv1a64_update_def)

section \<open>Places\<close>

text \<open>
  C22. In a frame whose header is accepted every table has at most the entries its version allows and lies, when it has
  any, behind the header, at its alignment and inside the frame; no two tables share a byte; and the frame has at most
  8 MiB and at most 24 descriptors.
\<close>

theorem accepted_tables_in_place:
  assumes "validate_vulkan_graphics_v6_header frame n = 0"
  shows "list_all (\<lambda>(t, r). ta_count t \<le> ru_max r \<and> table_in_place (v6_header_of frame) t r) (v6_all_tables frame) \<and>
    sorted_wrt (\<lambda>(t, _) (u, _). bytes_of_range (ta_offset t, ta_size t) \<inter> bytes_of_range (ta_offset u, ta_size u) = {})
      (v6_all_tables frame) \<and>
    448 \<le> unat (gh_header_size (v6_header_of frame)) \<and> unat (gh_frame_size (v6_header_of frame)) \<le> 0x800000 \<and> n \<le> 24"
proof -
  let ?h = "v6_header_of frame"
  note c = v6_header_checks[OF assms]
  have "list_all (\<lambda>(t, r). ta_count t \<le> ru_max r \<and> table_in_place ?h t r) (v6_all_tables frame)"
    using c(2) table_range_in_place[OF c(4) c(3)] by (auto simp: list_all_iff)
  moreover have "sorted_wrt (\<lambda>a b. bytes_of_range a \<inter> bytes_of_range b = {})
      (map (\<lambda>(t, r). (ta_offset t, ta_size t)) (v6_all_tables frame))"
    using c(5) by (auto simp: no_overlap_sets v6_ranges_def sorted_wrt_append)
  ultimately show ?thesis
    using v6_prefix_sizes[OF c(1)] by (simp add: sorted_wrt_map case_prod_unfold GPU_MAX_PASSED_FDS_def)
qed

lemma accepted_tables_in_place_witness:
  "table_in_place (v6_header_of good_frame) (t_buffer_copies good_frame)
     \<lparr>ru_max = 4096, ru_entry_size = 40, ru_schema = 0x7fb0d4996f0e6919, ru_align = 8\<rparr>"
proof -
  have minor: "unat (gh_abi_minor (v6_header_of good_frame)) = 10" by (rule good_header) simp
  have "(t_buffer_copies good_frame, \<lparr>ru_max = 4096, ru_entry_size = 40, ru_schema = 0x7fb0d4996f0e6919, ru_align = 8\<rparr>)
      \<in> set (v6_all_tables good_frame)"
    by (simp add: v6_all_tables_def minor v6_extensions_def v69_tables_def)
  then show ?thesis using accepted_tables_in_place[OF good_header_ok] unfolding list_all_iff by fast
qed

text \<open>
  The test that the ranges of a frame do not overlap, with its sums of 64 bits, is exact: it passes when and only
  when no range wraps around and the ranges, as sets of bytes, are disjoint.
\<close>

theorem overlap_test_exact:
  "frame_ranges_do_not_overlap rs \<longleftrightarrow>
     list_all (\<lambda>r. unat (fst r) + unat (snd r) < 2 ^ 64) rs \<and>
     sorted_wrt (\<lambda>a b. {unat (fst a)..<unat (fst a) + unat (snd a)} \<inter> {unat (fst b)..<unat (fst b) + unat (snd b)} = {}) rs"
  using no_overlap_sets[of rs] by (simp add: bytes_of_range_def)

section \<open>Accepted frames\<close>



text \<open>
  C18. In an accepted frame each transfer, clear and query command has exactly one entry in the table of its kind, and
  each entry names a command of that kind.
\<close>

theorem one_entry_per_command:
  assumes "handle_vulkan_graphics_v6_frame files ok s = V6_Accepted v"
  shows "list_all (\<lambda>(version, types, keys). one_each v types keys) (claim_tables v)"
proof (rule accepted_frame[OF assms])
  fix frame fds
  assume v: "v = view_of frame fds" and h: "validate_vulkan_graphics_v6_header frame (length fds) = 0"
    and c: "validate_vulkan_graphics_v6_content files v = Pass"
  show ?thesis using checked_claims[OF _ _ c] view_tables_fit[OF h] view_absent_empty unfolding v by blast
qed

lemma one_entry_per_command_witness:
  "one_each good_view [CMD_COPY_BUFFER] [0] \<and> one_each good_view [CMD_COPY_BUFFER_TO_IMAGE, CMD_COPY_IMAGE_TO_BUFFER] [1]"
  using one_entry_per_command[OF good_accepted[of "\<lambda>_. []"]]
  by (simp add: claim_tables_def good_entries good_buffer_copy_def good_image_copy_def)

text \<open>
  C23. A copy between a buffer and an image in an accepted frame touches only bytes of the memory the buffer is in: the
  buffer is part of a memory of the frame, and each texel of each layer, whatever the lengths of the rows and the images
  in the buffer, ends before the end of that memory.
\<close>

theorem copied_texels_in_memory:
  assumes "handle_vulkan_graphics_v6_frame files ok s = V6_Accepted v" "e \<in> set (gv_buffer_image_copies v)"
    "layer < unat (gbi_layer_count e)" "z < unat (gbi_image_extent_depth e)" "y < unat (gbi_image_extent_height e)"
    "x < unat (gbi_image_extent_width e)"
  shows "let buf = gv_resources v ! unat (gbi_buffer_resource_index e); im = gv_images v ! unat (gbi_image_index e) in
    is_kind (gv_resources v) RESOURCE_MEMORY (vr_parent_resource_index buf) \<and>
    unat (vr_memory_offset buf) + texel_offset e im layer z y x + texel_size im
    \<le> unat (vr_size (gv_resources v ! unat (vr_parent_resource_index buf)))"
proof -
  let ?buf = "gv_resources v ! unat (gbi_buffer_resource_index e)" and ?im = "gv_images v ! unat (gbi_image_index e)"
  have wt: "objects_typed v" "entries_typed v"
  proof (rule_tac [!] accepted_frame[OF assms(1)])
    fix frame fds
    assume v: "v = view_of frame fds" and h: "validate_vulkan_graphics_v6_header frame (length fds) = 0"
      and c: "validate_vulkan_graphics_v6_content files v = Pass"
    show "objects_typed v" "entries_typed v"
      using content_well_typed[OF _ _ c] view_tables_fit[OF h] view_absent_empty unfolding v well_typed_def by blast+
  qed
  have t: "texels_inside v e" using wt(2) assms(2) by (simp add: entries_typed_def buffer_image_copy_typed_def list_all_iff)
  then have "?buf \<in> set (gv_resources v)" "vr_resource_type ?buf = RESOURCE_BUFFER" by (simp_all add: texels_inside_def is_kind_def)
  then have "inside (gv_resources v) RESOURCE_MEMORY (vr_parent_resource_index ?buf) (vr_memory_offset ?buf) (vr_size ?buf)"
    using wt(1) by (auto simp: objects_typed_def list_all_iff resource_typed_def)
  moreover have "texel_offset e ?im layer z y x + texel_size ?im \<le> unat (vr_size ?buf)"
    using t assms(3-6) unfolding texels_inside_def by blast
  ultimately show ?thesis by (simp add: inside_def Let_def)
qed

lemma copied_texels_in_memory_witness:
  "unat (vr_memory_offset good_buffer) + texel_offset good_image_copy good_image 0 0 7 7 + texel_size good_image \<le> 4096"
  using copied_texels_in_memory[OF good_accepted[of "\<lambda>_. []"], of good_image_copy 0 0 7 7]
  by (simp add: good_entries good_image_copy_def good_buffer_def good_memory_def Let_def)

section \<open>Reads outside a table\<close>

text \<open>
  C3. The checks of a frame's contents read each table inside its bounds and shift by fewer than 32 bits, unless the
  frame is of version 6.4 or later and resolves an attachment that names no view of the frame, or is of version 6.10 or
  later and has an image with more than 32 mip levels.
\<close>

theorem content_checks_stay_in_tables:
  assumes "\<not> unchecked_source (view_of frame fds)" "\<not> deep_image (view_of frame fds)"
  shows "validate_vulkan_graphics_v6_frame_content files frame fds \<noteq> V6_Stray"
proof (cases "init_vulkan_graphics_v6_frame_view frame fds")
  case (Inr v)
  have "tables_fit (view_of frame fds)" using view_tables_fit init_view(2)[OF Inr] .
  from content_safe[OF this assms] show ?thesis
    using init_view(1)[OF Inr] Inr by (auto simp: validate_vulkan_graphics_v6_frame_content_def split: verdict.splits)
qed (simp add: validate_vulkan_graphics_v6_frame_content_def)

lemma content_checks_stay_in_tables_witness:
  "validate_vulkan_graphics_v6_frame_content (\<lambda>_. []) good_frame [7] \<noteq> V6_Stray"
proof (rule content_checks_stay_in_tables)
  show "\<not> unchecked_source (view_of good_frame [7])"
    using good_empty by (simp add: unchecked_source_def good_view_def)
  show "\<not> deep_image (view_of good_frame [7])"
    using good_entries(2) by (simp add: deep_image_def good_view_def good_image_def)
qed

text \<open>
  C4. There is a frame, complete and with all its hashes right, on which the check of the resolve attachments reads outside
  the table of the image views. Every check before it passes; the resolve entry names an attachment of the frame, the
  attachment's resolve view is one of the frame, but the attachment's own view index is the one that stands for no view,
  which no check has looked at yet; the check of that entry looks it up in the table of views, and so does the executor
  that receives the frame.
\<close>

theorem resolve_check_strays:
  "\<exists>s v e. connection_starts_with_graphics_v6_magic s \<and> handle_vulkan_graphics_v6_frame files True s = V6_Stray \<and>
     init_vulkan_graphics_v6_frame_view (so_bytes s) (so_fds s) = Inr v \<and>
     list_all (\<lambda>c. c = Pass) (checks_before_resolve files v) \<and> gv_resolve_attachments v = [e] \<and>
     unat (gra_attachment_index e) < length (gv_attachments v) \<and>
     (let a = gv_attachments v ! unat (gra_attachment_index e) in
      gat_image_view_index a = V5_NONE \<and> length (gv_image_views v) \<le> unat (gat_image_view_index a) \<and>
      unat (gat_resolve_image_view_index a) < length (gv_image_views v)) \<and>
     check_resolve v (unmarked 64) e = Stray"
proof (intro exI conjI)
  let ?s = "\<lparr>so_bytes = bad_frame, so_fds = [7]\<rparr>"
  show "handle_vulkan_graphics_v6_frame files True ?s = V6_Stray" by (rule bad_frame_strays)
  show "connection_starts_with_graphics_v6_magic ?s"
    by (rule bad_header) (simp add: connection_starts_with_graphics_v6_magic_def v6_header_of_def)
  show "init_vulkan_graphics_v6_frame_view (so_bytes ?s) (so_fds ?s) = Inr bad_view" by (simp add: bad_init)
  show "list_all (\<lambda>c. c = Pass) (checks_before_resolve files bad_view)" by (rule bad_before)
  show "check_resolve bad_view (unmarked 64) bad_entry = Stray" by (rule bad_entry_strays)
  show "gv_resolve_attachments bad_view = [bad_entry]" by (rule bad_resolve)
qed (simp_all add: bad_entry_def bad_resolve bad_attachment)

end
