(* ===== verification/Graphics_Replay.thy ===== *)
theory Graphics_Replay
  imports Graphics_Commands
begin

text \<open>
  What the executor checks and collects before it replays an accepted graphics frame (\<open>pdocker_gpu_executor.c\<close>): the
  entries that belong to a command or a pipeline, the walk over the commands that follows the state of the rendering
  (\<open>preflight_vulkan_graphics_v6_replay_supported\<close>), and what a pipeline needs of the frame: its shaders, their
  constants, its push ranges and the layout of its descriptor sets. Reads of a table are by \<open>at\<close>, as in the checks of the
  contents.
\<close>

section \<open>The entries of a command or a pipeline\<close>

text \<open>The first entry with the given index; a version without the table has none.\<close>

definition entry_for :: "u16 \<Rightarrow> ('a \<Rightarrow> u32) \<Rightarrow> v6_view \<Rightarrow> 'a list \<Rightarrow> nat \<Rightarrow> 'a option" where
  "entry_for k key v xs i = (if is_v6 k (gv_header v) then find (\<lambda>x. unat (key x) = i) xs else None)"

definition find_vulkan_graphics_v63_depth_stencil_state :: "v6_view \<Rightarrow> nat \<Rightarrow> g_depth_stencil option" where
  "find_vulkan_graphics_v63_depth_stencil_state v = entry_for 3 gdp_pipeline_index v (gv_depth_stencils v)"

definition find_vulkan_graphics_v64_resolve_attachment :: "v6_view \<Rightarrow> nat \<Rightarrow> g_resolve_attachment option" where
  "find_vulkan_graphics_v64_resolve_attachment v = entry_for 4 gra_attachment_index v (gv_resolve_attachments v)"

definition find_vulkan_graphics_v69_buffer_copy :: "v6_view \<Rightarrow> nat \<Rightarrow> g_buffer_copy option" where
  "find_vulkan_graphics_v69_buffer_copy v = entry_for 9 gbc_command_index v (gv_buffer_copies v)"

definition find_vulkan_graphics_v610_buffer_image_copy :: "v6_view \<Rightarrow> nat \<Rightarrow> g_buffer_image_copy option" where
  "find_vulkan_graphics_v610_buffer_image_copy v = entry_for 10 gbi_command_index v (gv_buffer_image_copies v)"

definition find_vulkan_graphics_v610_image_copy :: "v6_view \<Rightarrow> nat \<Rightarrow> g_image_copy option" where
  "find_vulkan_graphics_v610_image_copy v = entry_for 10 gic_command_index v (gv_image_copies v)"

definition find_vulkan_graphics_v611_fill_buffer :: "v6_view \<Rightarrow> nat \<Rightarrow> g_fill_buffer option" where
  "find_vulkan_graphics_v611_fill_buffer v = entry_for 11 gfb_command_index v (gv_fill_buffers v)"

definition find_vulkan_graphics_v611_update_buffer :: "v6_view \<Rightarrow> nat \<Rightarrow> g_update_buffer option" where
  "find_vulkan_graphics_v611_update_buffer v = entry_for 11 gub_command_index v (gv_update_buffers v)"

definition find_vulkan_graphics_v612_clear_color_image :: "v6_view \<Rightarrow> nat \<Rightarrow> g_clear_color option" where
  "find_vulkan_graphics_v612_clear_color_image v = entry_for 12 gcc_command_index v (gv_clear_colors v)"

definition find_vulkan_graphics_v613_clear_depth_stencil_image :: "v6_view \<Rightarrow> nat \<Rightarrow> g_clear_depth option" where
  "find_vulkan_graphics_v613_clear_depth_stencil_image v = entry_for 13 gcd_command_index v (gv_clear_depths v)"

definition find_vulkan_graphics_v614_resolve_image :: "v6_view \<Rightarrow> nat \<Rightarrow> g_resolve_image option" where
  "find_vulkan_graphics_v614_resolve_image v = entry_for 14 gri_command_index v (gv_resolve_images v)"

definition find_vulkan_graphics_v615_blit_image :: "v6_view \<Rightarrow> nat \<Rightarrow> g_blit_image option" where
  "find_vulkan_graphics_v615_blit_image v = entry_for 15 gbl_command_index v (gv_blit_images v)"

definition find_vulkan_graphics_v616_clear_attachments :: "v6_view \<Rightarrow> nat \<Rightarrow> g_clear_command option" where
  "find_vulkan_graphics_v616_clear_attachments v = entry_for 16 gca_command_index v (gv_clear_commands v)"

definition find_vulkan_graphics_v617_query_command :: "v6_view \<Rightarrow> nat \<Rightarrow> g_query_command option" where
  "find_vulkan_graphics_v617_query_command v = entry_for 17 gqc_command_index v (gv_query_commands v)"

section \<open>Dynamic states, operations and layouts\<close>

definition vulkan_graphics_dynamic_state_bit_index :: "u32 \<Rightarrow> u32" where
  "vulkan_graphics_dynamic_state_bit_index ty =
     (case map_of [(0, 0), (1, 1), (2, 2), (1000267000, 3), (1000267001, 4), (1000267002, 5), (3, 6), (4, 7), (5, 8), (6, 9),
                   (7, 10), (8, 11), (1000267006, 12), (1000267007, 13), (1000267008, 14), (1000267010, 15),
                   (1000267011, 16)] ty of
        Some n \<Rightarrow> n | None \<Rightarrow> 0xffffffff)"

definition vulkan_graphics_dynamic_state_bit :: "u32 \<Rightarrow> u64" where
  "vulkan_graphics_dynamic_state_bit ty =
     (let n = vulkan_graphics_dynamic_state_bit_index ty in if n < 64 then push_bit (unat n) 1 else 0)"

text \<open>A payload of the given number of 32-bit values from the first on, \<open>bytes\<close> in all.\<close>

definition fixed_payload :: "u32 \<Rightarrow> u64 \<Rightarrow> g_dynamic_state \<Rightarrow> verdict" where
  "fixed_payload n bytes e =
     refuse_if (\<not> (gds_first_index e = 0 \<and> gds_count e = n \<and> gds_data_size e = bytes)) EPROTO"

definition vulkan_graphics_dynamic_state_payload_supported :: "g_dynamic_state \<Rightarrow> verdict" where
  "vulkan_graphics_dynamic_state_payload_supported e =
     (let ty = gds_state_type e in
      if ty = 0 then refuse_if (\<not> (0 < gds_count e \<and> gds_data_size e = ucast (gds_count e) * 24)) EPROTO
      else if ty = 1 then refuse_if (\<not> (0 < gds_count e \<and> gds_data_size e = ucast (gds_count e) * 16)) EPROTO
      else if ty \<in> set [2, 1000267000, 1000267001, 1000267002] then fixed_payload 1 4 e
      else if ty = 3 then fixed_payload 3 12 e
      else if ty = 4 then fixed_payload 4 16 e
      else if ty = 5 then fixed_payload 2 8 e
      else if ty \<in> set [6, 7, 8] then fixed_payload 2 8 e
      else if ty \<in> set [1000267006, 1000267007, 1000267010] then fixed_payload 1 4 e
      else if ty = 1000267008 then fixed_payload 1 4 e
      else if ty = 1000267011 then fixed_payload 5 20 e
      else Refuse (- EOPNOTSUPP))"

definition vulkan_graphics_index_stride :: "u32 \<Rightarrow> u64 option" where
  "vulkan_graphics_index_stride ty =
     (if ty = 0 then Some 2 else if ty = 1 then Some 4 else if ty = 1000265000 then Some 1 else None)"

definition vulkan_graphics_attachment_ops_supported :: "g_attachment \<Rightarrow> u32 \<Rightarrow> bool" where
  "vulkan_graphics_attachment_ops_supported a role \<longleftrightarrow>
     (let load_op = (if role = 3 then gat_stencil_load_op a else gat_load_op a);
          store_op = (if role = 3 then gat_stencil_store_op a else gat_store_op a) in
      load_op \<in> set [0, 1, 2] \<and> store_op \<in> set [0, 1])"

definition vulkan_image_descriptor_layout_valid :: "u32 \<Rightarrow> u32 \<Rightarrow> bool" where
  "vulkan_image_descriptor_layout_valid ty layout \<longleftrightarrow>
     (if ty = 3 then layout = 1
      else if ty = 1 \<or> ty = 2 then layout = 5 \<or> layout = 1
      else if ty = 0 then True
      else if ty = 10 then layout = 5 \<or> layout = 1 \<or> layout = 1000314000
      else False)"

section \<open>Clearing attachments\<close>

text \<open>The offsets are signed; the sums are of 64 bits and cannot wrap around.\<close>

definition vulkan_graphics_v616_rect_inside_render_area :: "g_clear_rect \<Rightarrow> g_command \<Rightarrow> bool" where
  "vulkan_graphics_v616_rect_inside_render_area r c \<longleftrightarrow>
     gcr_rect_extent_width r \<noteq> 0 \<and> gcr_rect_extent_height r \<noteq> 0 \<and>
     (let rx0 = sint (gcr_rect_offset_x r); ry0 = sint (gcr_rect_offset_y r);
          rx1 = rx0 + uint (gcr_rect_extent_width r); ry1 = ry0 + uint (gcr_rect_extent_height r);
          ax0 = sint (gcm_render_area_offset_x c); ay0 = sint (gcm_render_area_offset_y c);
          ax1 = ax0 + uint (gcm_render_area_extent_width c); ay1 = ay0 + uint (gcm_render_area_extent_height c) in
      ax0 \<le> rx0 \<and> ay0 \<le> ry0 \<and> rx1 \<le> ax1 \<and> ry1 \<le> ay1)"

definition attachment_clearable :: "g_attachment \<Rightarrow> verdict" where
  "attachment_clearable a = refuse_if (gat_flags a AND 1 \<noteq> 0 \<or> gat_image_view_index a = V5_NONE) EPROTO"

fun vulkan_graphics_v616_color_slot_is_clearable :: "v6_view \<Rightarrow> u32 list \<Rightarrow> u32 \<Rightarrow> u32 \<Rightarrow> verdict" where
  "vulkan_graphics_v616_color_slot_is_clearable v [] slot n = Refuse (- EPROTO)"
| "vulkan_graphics_v616_color_slot_is_clearable v (i # is) slot n =
     at (gv_attachments v) i (\<lambda>a.
       if gat_attachment_role a \<noteq> 1 then vulkan_graphics_v616_color_slot_is_clearable v is slot n
       else if slot = n then attachment_clearable a
       else vulkan_graphics_v616_color_slot_is_clearable v is (slot + 1) n)"

fun vulkan_graphics_v616_depth_stencil_target_is_clearable :: "v6_view \<Rightarrow> u32 list \<Rightarrow> u32 \<Rightarrow> verdict" where
  "vulkan_graphics_v616_depth_stencil_target_is_clearable v [] role = Refuse (- EPROTO)"
| "vulkan_graphics_v616_depth_stencil_target_is_clearable v (i # is) role =
     at (gv_attachments v) i (\<lambda>a.
       if gat_attachment_role a = role then attachment_clearable a
       else vulkan_graphics_v616_depth_stencil_target_is_clearable v is role)"

definition clear_matches_attachments :: "v6_view \<Rightarrow> u32 list \<Rightarrow> g_clear_attachment \<Rightarrow> verdict" where
  "clear_matches_attachments v is e =
     (let aspect = gct_aspect_mask e in
      first_fault
        [if aspect AND ASPECT_COLOR \<noteq> 0 then vulkan_graphics_v616_color_slot_is_clearable v is 0 (gct_color_attachment e) else Pass,
         if aspect AND ASPECT_DEPTH \<noteq> 0 then vulkan_graphics_v616_depth_stencil_target_is_clearable v is 2 else Pass,
         if aspect AND ASPECT_STENCIL \<noteq> 0 then vulkan_graphics_v616_depth_stencil_target_is_clearable v is 3 else Pass])"

definition clear_rect_matches :: "g_command \<Rightarrow> g_clear_rect \<Rightarrow> verdict" where
  "clear_rect_matches c r =
     (let layers = (if gcm_rendering_layer_count c \<noteq> 0 then gcm_rendering_layer_count c else 1) in
      refuse_if (\<not> vulkan_graphics_v616_rect_inside_render_area r c \<or> layers < gcr_base_array_layer r \<or>
                 layers - gcr_base_array_layer r < gcr_layer_count r) ERANGE)"

definition vulkan_graphics_v616_clear_attachments_match_rendering :: "v6_view \<Rightarrow> g_clear_command \<Rightarrow> g_command \<Rightarrow> verdict" where
  "vulkan_graphics_v616_clear_attachments_match_rendering v e c =
     first_fault
       [refuse_if (\<not> is_v6 16 (gv_header v) \<or> gv_clear_attachments v = [] \<or> gv_clear_rects v = [] \<or>
          \<not> range_add_u32 (gca_clear_attachment_first e) (gca_clear_attachment_count e) (of_nat (length (gv_clear_attachments v))) \<or>
          \<not> range_add_u32 (gca_clear_rect_first e) (gca_clear_rect_count e) (of_nat (length (gv_clear_rects v))) \<or>
          \<not> range_add_u32 (gcm_attachment_first c) (gcm_attachment_count c) (of_nat (length (gv_attachments v)))) EPROTO,
        each_at (gv_clear_attachments v) (indices (gca_clear_attachment_first e) (gca_clear_attachment_count e))
          (clear_matches_attachments v (indices (gcm_attachment_first c) (gcm_attachment_count c))),
        each_at (gv_clear_rects v) (indices (gca_clear_rect_first e) (gca_clear_rect_count e)) (clear_rect_matches c)]"

section \<open>The walk over the commands\<close>

text \<open>The command that began the rendering, inside one, and whether a pipeline has been bound.\<close>

record replay =
  rp_rendering :: "g_command option"
  rp_bound :: bool

definition idle :: replay where "idle = \<lparr>rp_rendering = None, rp_bound = False\<rparr>"

abbreviation (input) CMD_BEGIN_RENDERING :: u32 where "CMD_BEGIN_RENDERING \<equiv> 1"
abbreviation (input) CMD_END_RENDERING :: u32 where "CMD_END_RENDERING \<equiv> 2"
abbreviation (input) CMD_BIND_PIPELINE :: u32 where "CMD_BIND_PIPELINE \<equiv> 3"
abbreviation (input) CMD_BIND_INDEX_BUFFER :: u32 where "CMD_BIND_INDEX_BUFFER \<equiv> 7"
abbreviation (input) CMD_SET_DYNAMIC_STATE :: u32 where "CMD_SET_DYNAMIC_STATE \<equiv> 8"

text \<open>A slot without an attachment is a color attachment of which everything else is unset.\<close>

definition unused_slot_bad :: "g_attachment \<Rightarrow> bool" where
  "unused_slot_bad a \<longleftrightarrow>
     gat_attachment_role a \<noteq> 1 \<or> gat_image_view_index a \<noteq> V5_NONE \<or> gat_resolve_image_view_index a \<noteq> V5_NONE \<or>
     gat_format a \<noteq> 0 \<or> gat_samples a \<noteq> 1 \<or> gat_layout a \<noteq> 0 \<or> gat_load_op a \<noteq> 2 \<or> gat_store_op a \<noteq> 1 \<or>
     gat_stencil_load_op a \<noteq> 2 \<or> gat_stencil_store_op a \<noteq> 1 \<or> gat_clear_value_size a \<noteq> 0 \<or> gat_resource_id a \<noteq> 0"

definition preflight_attachment :: "v6_view \<Rightarrow> u32 \<Rightarrow> g_attachment \<Rightarrow> verdict" where
  "preflight_attachment v i a =
     (if gat_flags a AND NOT 1 \<noteq> 0 then Refuse (- EPROTO)
      else if gat_attachment_role a \<notin> set [1, 2, 3] then Refuse (- EOPNOTSUPP)
      else if gat_flags a AND 1 \<noteq> 0 then refuse_if (unused_slot_bad a) EPROTO
      else first_fault
        [refuse_if (if gat_resolve_image_view_index a \<noteq> V5_NONE
                    then (case find_vulkan_graphics_v64_resolve_attachment v (unat i) of
                            None \<Rightarrow> True | Some e \<Rightarrow> gra_resolve_mode e = 0)
                    else gat_samples a \<noteq> 1) EOPNOTSUPP,
         refuse_if (gat_image_view_index a = V5_NONE) EOPNOTSUPP,
         refuse_if (\<not> vulkan_graphics_attachment_layout_supported (gat_attachment_role a) (gat_layout a)) EOPNOTSUPP,
         refuse_if (\<not> vulkan_graphics_attachment_ops_supported a (gat_attachment_role a)) EOPNOTSUPP])"

definition preflight_begin :: "v6_view \<Rightarrow> replay \<Rightarrow> g_command \<Rightarrow> verdict" where
  "preflight_begin v st c =
     first_fault
       [refuse_if (rp_rendering st \<noteq> None) EOPNOTSUPP,
        refuse_if (gcm_attachment_count c = 0) EOPNOTSUPP,
        refuse_if (gcm_flags c \<noteq> 0) EOPNOTSUPP,
        refuse_if (gcm_rendering_view_mask c \<noteq> 0) EOPNOTSUPP,
        each (\<lambda>i. at (gv_attachments v) i (preflight_attachment v i)) (indices (gcm_attachment_first c) (gcm_attachment_count c))]"

definition preflight_stage :: "v6_view \<Rightarrow> g_stage \<Rightarrow> verdict" where
  "preflight_stage v s =
     first_fault
       [refuse_if (gst_stage_flags s AND NOT 0x11 \<noteq> 0) EOPNOTSUPP,
        refuse_if (gst_specialization_size s \<noteq> 0 \<and> \<not> is_v6 2 (gv_header v)) EOPNOTSUPP]"

definition preflight_bind_pipeline :: "v6_view \<Rightarrow> g_command \<Rightarrow> verdict" where
  "preflight_bind_pipeline v c =
     (let pi = gcm_pipeline_index c in
      if pi = V5_NONE \<or> length (gv_pipelines v) \<le> unat pi then Refuse (- EPROTO)
      else at (gv_pipelines v) pi (\<lambda>p. first_fault
        [refuse_if (gpl_depth_stencil_flags p \<noteq> 0 \<and> find_vulkan_graphics_v63_depth_stencil_state v (unat pi) = None) EOPNOTSUPP,
         refuse_if (gpl_rasterization_samples p \<notin> set [1, 2, 4, 8, 16, 32, 64]) EOPNOTSUPP,
         each_at (gv_stages v) (indices (gpl_shader_stage_first p) (gpl_shader_stage_count p)) (preflight_stage v)]))"

definition preflight_dynamic_state :: "g_dynamic_state \<Rightarrow> verdict" where
  "preflight_dynamic_state e =
     first_fault
       [vulkan_graphics_dynamic_state_payload_supported e,
        refuse_if (vulkan_graphics_dynamic_state_bit (gds_state_type e) = 0) EOPNOTSUPP]"

definition preflight_draw :: "replay \<Rightarrow> verdict" where
  "preflight_draw st = first_fault [refuse_if (rp_rendering st = None) EPROTO, refuse_if (\<not> rp_bound st) EPROTO]"

definition preflight_clear :: "v6_view \<Rightarrow> replay \<Rightarrow> nat \<Rightarrow> verdict" where
  "preflight_clear v st i =
     (case rp_rendering st of
        None \<Rightarrow> Refuse (- EPROTO)
      | Some c \<Rightarrow> (case find_vulkan_graphics_v616_clear_attachments v i of
                    None \<Rightarrow> Refuse (- EPROTO)
                  | Some e \<Rightarrow> vulkan_graphics_v616_clear_attachments_match_rendering v e c))"

text \<open>The type of a descriptor as the replay uses it.\<close>

definition descriptor_type_of :: "v5_object_descriptor \<Rightarrow> u32 option" where
  "descriptor_type_of d =
     (case vulkan_dispatch_descriptor_type_from_api (vo_descriptor_type d) of
        Some ty \<Rightarrow> Some ty | None \<Rightarrow> vulkan_dispatch_image_descriptor_type_from_api (vo_descriptor_type d))"

definition write_unsupported :: "u32 \<Rightarrow> v5_object_descriptor \<Rightarrow> bool" where
  "write_unsupported ty d \<longleftrightarrow> vo_access_flags d AND 2 \<noteq> 0 \<and> ty \<noteq> 7 \<and> ty \<noteq> 3"

definition preflight_descriptor :: "v5_object_descriptor \<Rightarrow> verdict" where
  "preflight_descriptor d =
     (case descriptor_type_of d of
        None \<Rightarrow> Refuse (- EOPNOTSUPP)
      | Some ty \<Rightarrow> first_fault
          [refuse_if (vulkan_dispatch_descriptor_type_from_api (vo_descriptor_type d) = None \<and>
                      \<not> vulkan_image_descriptor_layout_valid ty (vo_image_layout d)) EOPNOTSUPP,
           refuse_if (write_unsupported ty d) EOPNOTSUPP])"

definition preflight_transfer :: "replay \<Rightarrow> bool \<Rightarrow> verdict" where
  "preflight_transfer st found =
     first_fault [refuse_if (rp_rendering st \<noteq> None) EOPNOTSUPP, refuse_if (\<not> found) EPROTO]"

definition preflight_barrier :: "v6_view \<Rightarrow> nat \<Rightarrow> g_command \<Rightarrow> verdict" where
  "preflight_barrier v i c =
     (let ms = filter (\<lambda>b. unat (gmb_command_index b) = i) (gv_memory_barriers v);
          bs = filter (\<lambda>b. unat (gbb_command_index b) = i) (gv_buffer_barriers v);
          is = filter (\<lambda>b. unat (gib_command_index b) = i) (gv_image_barriers v) in
      first_fault
        [refuse_if (gcm_flags c AND NOT 1 \<noteq> 0) EOPNOTSUPP,
         each (\<lambda>b. refuse_if (\<not> vulkan_graphics_barrier_queue_family_replayable
                                 (gbb_src_queue_family_index b) (gbb_dst_queue_family_index b)) EOPNOTSUPP) bs,
         each (\<lambda>b. refuse_if (\<not> vulkan_graphics_barrier_queue_family_replayable
                                 (gib_src_queue_family_index b) (gib_dst_queue_family_index b)) EOPNOTSUPP) is,
         refuse_if (length ms + length bs + length is = 0) EOPNOTSUPP,
         refuse_if (GPU_MAX_VULKAN_BINDINGS < length ms \<or> GPU_MAX_VULKAN_BINDINGS < length bs \<or>
                    GPU_MAX_VULKAN_BINDINGS < length is) E2BIG])"

text \<open>The types of commands that copy, resolve, fill, update or clear outside a rendering, and whether their entry is there.\<close>

definition transfer_found :: "v6_view \<Rightarrow> nat \<Rightarrow> u32 \<Rightarrow> bool option" where
  "transfer_found v i ty =
     (if ty = CMD_COPY_BUFFER then Some (find_vulkan_graphics_v69_buffer_copy v i \<noteq> None)
      else if ty = CMD_COPY_BUFFER_TO_IMAGE \<or> ty = CMD_COPY_IMAGE_TO_BUFFER
      then Some (find_vulkan_graphics_v610_buffer_image_copy v i \<noteq> None)
      else if ty = CMD_COPY_IMAGE then Some (find_vulkan_graphics_v610_image_copy v i \<noteq> None)
      else if ty = CMD_RESOLVE_IMAGE then Some (find_vulkan_graphics_v614_resolve_image v i \<noteq> None)
      else if ty = CMD_BLIT_IMAGE then Some (find_vulkan_graphics_v615_blit_image v i \<noteq> None)
      else if ty = CMD_FILL_BUFFER then Some (find_vulkan_graphics_v611_fill_buffer v i \<noteq> None)
      else if ty = CMD_UPDATE_BUFFER then Some (find_vulkan_graphics_v611_update_buffer v i \<noteq> None)
      else if ty = CMD_CLEAR_COLOR_IMAGE then Some (find_vulkan_graphics_v612_clear_color_image v i \<noteq> None)
      else if ty = CMD_CLEAR_DEPTH_STENCIL_IMAGE then Some (find_vulkan_graphics_v613_clear_depth_stencil_image v i \<noteq> None)
      else None)"

definition preflight_command :: "v6_view \<Rightarrow> replay \<Rightarrow> nat \<times> g_command \<Rightarrow> verdict" where
  "preflight_command v st ic =
     (let (i, c) = ic; ty = gcm_command_type c in
      if ty = CMD_BEGIN_RENDERING then preflight_begin v st c
      else if ty = CMD_END_RENDERING then refuse_if (rp_rendering st = None) EPROTO
      else if ty = CMD_BIND_PIPELINE then preflight_bind_pipeline v c
      else if ty = CMD_SET_DYNAMIC_STATE then
        each_at (gv_dynamic_states v) (indices (gcm_dynamic_state_first c) (gcm_dynamic_state_count c)) preflight_dynamic_state
      else if ty \<in> set [CMD_BIND_VERTEX_BUFFERS, CMD_BIND_INDEX_BUFFER, CMD_PUSH_CONSTANTS] then Pass
      else if ty = CMD_DRAW then preflight_draw st
      else if ty = CMD_DRAW_INDEXED then
        first_fault [preflight_draw st, refuse_if (vulkan_graphics_index_stride (gcm_index_type c) = None) EOPNOTSUPP]
      else if ty = CMD_CLEAR_ATTACHMENTS then preflight_clear v st i
      else if ty \<in> set QUERY_COMMANDS then refuse_if (find_vulkan_graphics_v617_query_command v i = None) EPROTO
      else if ty = CMD_BIND_DESCRIPTOR_SETS then
        each_at (gv_descriptors v) (indices (gcm_first_descriptor c) (gcm_descriptor_count c)) preflight_descriptor
      else if ty = CMD_BARRIER then preflight_barrier v i c
      else case transfer_found v i ty of
        Some found \<Rightarrow> preflight_transfer st found
      | None \<Rightarrow> Refuse (- EPROTO))"

definition preflight_next :: "g_command \<Rightarrow> replay \<Rightarrow> replay" where
  "preflight_next c st =
     (if gcm_command_type c = CMD_BEGIN_RENDERING then st\<lparr>rp_rendering := Some c\<rparr>
      else if gcm_command_type c = CMD_END_RENDERING then st\<lparr>rp_rendering := None\<rparr>
      else if gcm_command_type c = CMD_BIND_PIPELINE then st\<lparr>rp_bound := True\<rparr>
      else st)"

fun preflight_commands :: "v6_view \<Rightarrow> replay \<Rightarrow> (nat \<times> g_command) list \<Rightarrow> verdict" where
  "preflight_commands v st [] = refuse_if (rp_rendering st \<noteq> None) EPROTO"
| "preflight_commands v st (ic # ics) =
     first_fault [preflight_command v st ic, preflight_commands v (preflight_next (snd ic) st) ics]"

definition preflight_vulkan_graphics_v6_replay_supported :: "v6_view \<Rightarrow> verdict" where
  "preflight_vulkan_graphics_v6_replay_supported v =
     (if \<not> is_v6 1 (gv_header v) then Refuse (- EOPNOTSUPP)
      else if gv_commands v = [] then Pass
      else preflight_commands v idle (enumerate 0 (gv_commands v)))"

abbreviation EIO :: int where "EIO \<equiv> 5"

section \<open>What a pipeline needs of the frame\<close>

text \<open>The code of a shader stage is read again from its file, and its hash compared again.\<close>

definition read_graphics_shader_fd :: "(int \<Rightarrow> string) \<Rightarrow> bool \<Rightarrow> v6_view \<Rightarrow> g_stage \<Rightarrow> int + string" where
  "read_graphics_shader_fd files malloc_ok v s =
     (let sz = unat (gst_shader_size s); i = unat (gst_shader_fd_index s) in
      if gst_shader_size s = 0 \<or> gst_shader_size s AND 3 \<noteq> 0 \<or> length (gv_fds v) \<le> i \<or> gv_fds v ! i < 0 then Inl (- EINVAL)
      else if \<not> malloc_ok then Inl (- ENOMEM)
      else let file = files (gv_fds v ! i) in
        if length file < sz then Inl (- EIO)
        else if fnv1a64_update FNV_INIT (take sz file) \<noteq> gst_shader_hash s then Inl (- EPROTO)
        else Inr (take sz file))"

definition copy_graphics_entry_name :: "v6_view \<Rightarrow> g_stage \<Rightarrow> u64 \<Rightarrow> int + string" where
  "copy_graphics_entry_name v s out_size =
     (if gst_entry_name_size s = 0 then Inr ''main''
      else if out_size \<le> gst_entry_name_size s \<or>
              \<not> payload_range_valid (gst_entry_name_offset s) (gst_entry_name_size s) (gh_frame_size (gv_header v))
      then Inl (- ENAMETOOLONG)
      else Inr (bytes_at (gv_frame v) (gst_entry_name_offset s) (gst_entry_name_size s)))"

fun collect_specializations :: "nat \<Rightarrow> u32 \<Rightarrow> (u32 \<times> u32 \<times> u64) list \<Rightarrow> g_specialization list \<Rightarrow> (u32 \<times> u32 \<times> u64) list option" where
  "collect_specializations limit i acc [] = Some acc"
| "collect_specializations limit i acc (e # es) =
     (if gse_shader_stage_index e \<noteq> i then collect_specializations limit i acc es
      else if limit \<le> length acc then None
      else collect_specializations limit i (acc @ [(gse_constant_id e, gse_offset e, gse_size e)]) es)"

definition collect_vulkan_graphics_v62_specialization_entries :: "v6_view \<Rightarrow> u32 \<Rightarrow> nat \<Rightarrow> (u32 \<times> u32 \<times> u64) list option" where
  "collect_vulkan_graphics_v62_specialization_entries v i limit =
     (if \<not> is_v6 2 (gv_header v) then Some [] else collect_specializations limit i [] (gv_specializations v))"

definition MAX_PUSH_RANGES :: nat where "MAX_PUSH_RANGES = 8"

fun collect_push_ranges :: "u64 \<Rightarrow> (u32 \<times> u32 \<times> u32) list \<Rightarrow> g_push_metadata list \<Rightarrow> int + (u32 \<times> u32 \<times> u32) list" where
  "collect_push_ranges layout acc [] = Inr acc"
| "collect_push_ranges layout acc (m # ms) =
     (if gpm_layout_id m \<noteq> layout then collect_push_ranges layout acc ms
      else if MAX_PUSH_RANGES \<le> length acc then Inl (- E2BIG)
      else collect_push_ranges layout (acc @ [(gpm_stage_flags m, gpm_range_offset m, gpm_range_size m)]) ms)"

definition collect_graphics_push_ranges_for_layout :: "v6_view \<Rightarrow> u64 \<Rightarrow> int + (u32 \<times> u32 \<times> u32) list" where
  "collect_graphics_push_ranges_for_layout v layout =
     (if \<not> is_v6 1 (gv_header v) then Inr [] else collect_push_ranges layout [] (gv_push_metadata v))"

section \<open>The layout of the descriptor sets\<close>

definition MAX_DESCRIPTOR_SETS :: nat where "MAX_DESCRIPTOR_SETS = 8"

text \<open>
  For each of the 8 sets the number of its bindings, for each of its 16 bindings the type and the number of
  descriptors, and the number of sets of the layout.
\<close>

record set_layout =
  sl_bindings :: "u32 list"
  sl_types :: "u32 list list"
  sl_descriptors :: "u32 list list"
  sl_sets :: u32

definition empty_layout :: set_layout where
  "empty_layout =
     \<lparr>sl_bindings = replicate MAX_DESCRIPTOR_SETS 0,
      sl_types = replicate MAX_DESCRIPTOR_SETS (replicate GPU_MAX_VULKAN_BINDINGS 0),
      sl_descriptors = replicate MAX_DESCRIPTOR_SETS (replicate GPU_MAX_VULKAN_BINDINGS 0), sl_sets = 0\<rparr>"

definition set_entry :: "nat \<Rightarrow> nat \<Rightarrow> 'a \<Rightarrow> 'a list list \<Rightarrow> 'a list list" where
  "set_entry s b x xss = xss[s := (xss ! s)[b := x]]"

text \<open>One descriptor: the checks, and the layout with room for it.\<close>

definition check_layout_descriptor :: "g_command \<Rightarrow> set_layout \<Rightarrow> v5_object_descriptor \<Rightarrow> verdict" where
  "check_layout_descriptor c L d =
     first_fault
       [refuse_if (MAX_DESCRIPTOR_SETS \<le> unat (vo_descriptor_set d) \<or> GPU_MAX_VULKAN_BINDINGS \<le> unat (vo_binding d) \<or>
                   GPU_MAX_VULKAN_BINDINGS \<le> unat (vo_array_element d) \<or> vo_descriptor_set d < gcm_descriptor_first_set c) EPROTO,
        (case descriptor_type_of d of
           None \<Rightarrow> Refuse (- EOPNOTSUPP)
         | Some ty \<Rightarrow>
             (let s = unat (vo_descriptor_set d); b = unat (vo_binding d) in
              first_fault
                [refuse_if (write_unsupported ty d) EOPNOTSUPP,
                 refuse_if (vulkan_descriptor_type_requires_image_view ty \<and>
                            \<not> vulkan_image_descriptor_layout_valid ty (vo_image_layout d)) EOPNOTSUPP,
                 refuse_if (0 < sl_descriptors L ! s ! b \<and> sl_types L ! s ! b \<noteq> ty) EPROTO]))]"

definition add_descriptor :: "v5_object_descriptor \<Rightarrow> set_layout \<Rightarrow> set_layout" where
  "add_descriptor d L =
     (let s = unat (vo_descriptor_set d); b = unat (vo_binding d) in
      L\<lparr>sl_types := set_entry s b (case descriptor_type_of d of Some ty \<Rightarrow> ty | None \<Rightarrow> 0) (sl_types L),
        sl_descriptors := set_entry s b (max (vo_array_element d + 1) (sl_descriptors L ! s ! b)) (sl_descriptors L),
        sl_bindings := (sl_bindings L)[s := max (vo_binding d + 1) (sl_bindings L ! s)]\<rparr>)"

fun collect_descriptors :: "v6_view \<Rightarrow> g_command \<Rightarrow> u32 list \<Rightarrow> u32 \<Rightarrow> set_layout \<Rightarrow> verdict \<times> u32 \<times> set_layout" where
  "collect_descriptors v c [] max_set L = (Pass, max_set, L)"
| "collect_descriptors v c (i # is) max_set L =
     (case at (gv_descriptors v) i (check_layout_descriptor c L) of
        Pass \<Rightarrow> (let d = gv_descriptors v ! unat i in
                 collect_descriptors v c is (max (vo_descriptor_set d) max_set) (add_descriptor d L))
      | fault \<Rightarrow> (fault, max_set, L))"

text \<open>The commands that bind sets for this layout, one after the other; each has at least the sets up to its first.\<close>

fun collect_layout :: "v6_view \<Rightarrow> u64 \<Rightarrow> g_command list \<Rightarrow> set_layout \<Rightarrow> verdict \<times> set_layout" where
  "collect_layout v layout [] L = (Pass, L)"
| "collect_layout v layout (c # cs) L =
     (if gcm_command_type c \<noteq> CMD_BIND_DESCRIPTOR_SETS \<or> gcm_pipeline_layout_id c \<noteq> layout then collect_layout v layout cs L
      else case collect_descriptors v c (indices (gcm_first_descriptor c) (gcm_descriptor_count c)) (gcm_descriptor_first_set c) L of
        (Pass, max_set, L') \<Rightarrow> collect_layout v layout cs (L'\<lparr>sl_sets := max (max_set + 1) (sl_sets L')\<rparr>)
      | (fault, _, L') \<Rightarrow> (fault, L'))"

definition collect_graphics_descriptor_layout_for_layout :: "v6_view \<Rightarrow> u64 \<Rightarrow> verdict \<times> set_layout" where
  "collect_graphics_descriptor_layout_for_layout v layout = collect_layout v layout (gv_commands v) empty_layout"

text \<open>
  The bindings of one set, as the pipeline gives them to Vulkan: the array of the numbers of bindings has 8 entries, which
  the loop over the sets of the layout reads.
\<close>

definition set_layout_bindings :: "set_layout \<Rightarrow> nat \<Rightarrow> (nat \<times> u32 \<times> u32) list" where
  "set_layout_bindings L s =
     map (\<lambda>b. (b, sl_types L ! s ! b, sl_descriptors L ! s ! b))
       (filter (\<lambda>b. sl_descriptors L ! s ! b \<noteq> 0) [0..<unat (sl_bindings L ! s)])"

text \<open>
  The calls to Vulkan that make a shader module and the layout of a set are functions of what they are given, and may fail.
\<close>

definition layout_sets :: "((nat \<times> u32 \<times> u32) list \<Rightarrow> bool) \<Rightarrow> set_layout \<Rightarrow> verdict" where
  "layout_sets set_ok L =
     each (\<lambda>s. at (sl_bindings L) s (\<lambda>n. refuse_if (\<not> set_ok (set_layout_bindings L (unat s))) EIO)) (indices 0 (sl_sets L))"

definition pipeline_set_layouts :: "((nat \<times> u32 \<times> u32) list \<Rightarrow> bool) \<Rightarrow> v6_view \<Rightarrow> g_pipeline \<Rightarrow> verdict" where
  "pipeline_set_layouts set_ok v p =
     (case collect_graphics_descriptor_layout_for_layout v (gpl_layout_id p) of
        (Pass, L) \<Rightarrow> layout_sets set_ok L
      | (fault, _) \<Rightarrow> fault)"

section \<open>From the pipeline to its layout\<close>

definition MAX_SHADER_STAGES :: u32 where "MAX_SHADER_STAGES = 4"
definition MAX_COLOR_ATTACHMENTS :: u32 where "MAX_COLOR_ATTACHMENTS = 16"


definition materialize_stage :: "(int \<Rightarrow> string) \<Rightarrow> bool \<Rightarrow> (string \<Rightarrow> bool) \<Rightarrow> v6_view \<Rightarrow> u32 \<Rightarrow> g_stage \<Rightarrow> verdict" where
  "materialize_stage files malloc_ok shader_ok v i s =
     (case read_graphics_shader_fd files malloc_ok v s of
        Inl rc \<Rightarrow> Refuse rc
      | Inr code \<Rightarrow> first_fault
          [refuse_if (\<not> shader_ok code) EIO,
           (case copy_graphics_entry_name v s 128 of Inl rc \<Rightarrow> Refuse rc | Inr name \<Rightarrow> Pass),
           (if gst_specialization_size s = 0 then Pass
            else if \<not> is_v6 2 (gv_header v) then Refuse (- EOPNOTSUPP)
            else refuse_if (collect_vulkan_graphics_v62_specialization_entries v i GPU_MAX_VULKAN_SPECIALIZATION_ENTRIES = None) E2BIG)])"

definition materialize_pipeline_stages :: "(int \<Rightarrow> string) \<Rightarrow> bool \<Rightarrow> (string \<Rightarrow> bool) \<Rightarrow> v6_view \<Rightarrow> g_pipeline \<Rightarrow> verdict" where
  "materialize_pipeline_stages files malloc_ok shader_ok v p =
     first_fault
       [refuse_if (gpl_shader_stage_count p = 0 \<or> MAX_SHADER_STAGES < gpl_shader_stage_count p \<or>
                   MAX_COLOR_ATTACHMENTS < gpl_color_attachment_count p) EOPNOTSUPP,
        each (\<lambda>i. at (gv_stages v) i (materialize_stage files malloc_ok shader_ok v i))
          (indices (gpl_shader_stage_first p) (gpl_shader_stage_count p))]"

definition materialize_pipeline_layout :: "(int \<Rightarrow> string) \<Rightarrow> bool \<Rightarrow> (string \<Rightarrow> bool) \<Rightarrow> ((nat \<times> u32 \<times> u32) list \<Rightarrow> bool) \<Rightarrow>
    v6_view \<Rightarrow> g_pipeline \<Rightarrow> verdict" where
  "materialize_pipeline_layout files malloc_ok shader_ok set_ok v p =
     first_fault
       [materialize_pipeline_stages files malloc_ok shader_ok v p,
        (case collect_graphics_push_ranges_for_layout v (gpl_layout_id p) of Inl rc \<Rightarrow> Refuse rc | Inr rs \<Rightarrow> Pass),
        pipeline_set_layouts set_ok v p]"

end
