(* ===== verification/Graphics_Preflight.thy ===== *)
theory Graphics_Preflight
  imports Graphics_Replay Graphics_Typed
begin

text \<open>
  What the walk over the commands of an accepted frame guarantees: it reads no table outside its bounds, and it passes
  exactly the frames whose commands follow the order that the replay needs.
\<close>

declare first_fault.simps(2) [simp del]

section \<open>Reads of the walk\<close>

lemma slice_inside_index:
  assumes "slice_inside first n xs" "i \<in> set (indices first n)"
  shows "unat i < length xs"
proof -
  obtain d where d: "d < unat n" "i = first + of_nat d" using assms(2) by (auto simp: indices_def)
  have "unat i \<le> unat first + unat (of_nat d :: u32)" unfolding d(2) unat_word_ariths by (rule mod_less_eq_dividend)
  also have "\<dots> \<le> unat first + d" by (simp add: unsigned_of_nat take_bit_nat_less_eq_self)
  finally show ?thesis using assms(1) d(1) by (simp add: slice_inside_def)
qed

lemma slice_safe: "slice_inside first n xs \<Longrightarrow> (\<And>x. f x \<noteq> Stray) \<Longrightarrow> each_at xs (indices first n) f \<noteq> Stray"
  by (intro each_at_safe) (auto dest: slice_inside_index)

lemma color_slot_safe:
  "(\<And>i. i \<in> set is \<Longrightarrow> unat i < length (gv_attachments v)) \<Longrightarrow>
   vulkan_graphics_v616_color_slot_is_clearable v is slot n \<noteq> Stray"
  by (induction "is" arbitrary: slot) (auto simp: attachment_clearable_def)

lemma depth_stencil_target_safe:
  "(\<And>i. i \<in> set is \<Longrightarrow> unat i < length (gv_attachments v)) \<Longrightarrow>
   vulkan_graphics_v616_depth_stencil_target_is_clearable v is role \<noteq> Stray"
  by (induction "is") (auto simp: attachment_clearable_def)

lemma clear_matches_safe:
  assumes fit: "tables_fit v"
  shows "vulkan_graphics_v616_clear_attachments_match_rendering v e c \<noteq> Stray"
proof -
  have k: "length (gv_attachments v) < 2 ^ 32" using fit by (simp add: tables_fit_def)
  have "clear_matches_attachments v (indices (gcm_attachment_first c) (gcm_attachment_count c)) x \<noteq> Stray"
    if r: "range_add_u32 (gcm_attachment_first c) (gcm_attachment_count c) (of_nat (length (gv_attachments v)))" for x
    using indices_safe[OF r k]
    by (auto simp: clear_matches_attachments_def Let_def color_slot_safe depth_stencil_target_safe)
  moreover have "clear_rect_matches c x \<noteq> Stray" for x by (simp add: clear_rect_matches_def Let_def refuse_if_def)
  ultimately show ?thesis using fit
    by (auto simp: vulkan_graphics_v616_clear_attachments_match_rendering_def tables_fit_def indexed_safe)
qed

lemma preflight_attachment_safe: "preflight_attachment v i a \<noteq> Stray"
  by (auto simp: preflight_attachment_def)

lemma payload_supported_safe: "vulkan_graphics_dynamic_state_payload_supported e \<noteq> Stray"
  by (simp add: vulkan_graphics_dynamic_state_payload_supported_def fixed_payload_def refuse_if_def Let_def)

lemma preflight_descriptor_safe: "preflight_descriptor d \<noteq> Stray"
  by (auto simp: preflight_descriptor_def split: option.split)

lemma preflight_command_safe:
  assumes fit: "tables_fit v" and p: "pipelines_typed v" and c: "command_typed v c"
  shows "preflight_command v st (i, c) \<noteq> Stray"
proof -
  note t = c[unfolded command_typed_def]
  have "preflight_begin v st c \<noteq> Stray"
    using t by (auto simp: preflight_begin_def preflight_attachment_safe dest: slice_inside_index intro!: each_safe)
  moreover have "preflight_bind_pipeline v c \<noteq> Stray"
  proof -
    have "each_at (gv_stages v) (indices (gpl_shader_stage_first p) (gpl_shader_stage_count p)) (preflight_stage v) \<noteq> Stray"
      if "p \<in> set (gv_pipelines v)" for p
      using p that by (intro slice_safe)
        (auto simp: pipelines_typed_def pipeline_typed_def list_all_iff preflight_stage_def)
    then show ?thesis by (simp add: preflight_bind_pipeline_def Let_def refuse_if_def)
  qed
  moreover have "each_at (gv_dynamic_states v) (indices (gcm_dynamic_state_first c) (gcm_dynamic_state_count c))
      preflight_dynamic_state \<noteq> Stray"
    using t by (intro slice_safe) (auto simp: preflight_dynamic_state_def payload_supported_safe)
  moreover have "each_at (gv_descriptors v) (indices (gcm_first_descriptor c) (gcm_descriptor_count c))
      preflight_descriptor \<noteq> Stray"
    using t by (intro slice_safe) (auto simp: preflight_descriptor_safe)
  moreover have "preflight_clear v st i \<noteq> Stray"
    by (simp add: preflight_clear_def clear_matches_safe[OF fit] split: option.split)
  moreover have "preflight_barrier v i c \<noteq> Stray"
    by (auto simp: preflight_barrier_def Let_def intro!: each_safe)
  moreover have "preflight_draw st \<noteq> Stray" "preflight_transfer st found \<noteq> Stray" for found
    by (auto simp: preflight_draw_def preflight_transfer_def)
  ultimately show ?thesis by (simp add: preflight_command_def Let_def refuse_if_def split: option.split)
qed

lemma preflight_commands_safe:
  assumes "tables_fit v" "pipelines_typed v" "list_all (command_typed v) (map snd ics)"
  shows "preflight_commands v st ics \<noteq> Stray"
  using assms(3)
proof (induction ics arbitrary: st)
  case (Cons ic ics)
  then have "preflight_command v st (fst ic, snd ic) \<noteq> Stray"
    by (intro preflight_command_safe[OF assms(1,2)]) simp
  then show ?case using Cons by auto
qed simp

lemma preflight_safe:
  assumes "tables_fit v" "well_typed v"
  shows "preflight_vulkan_graphics_v6_replay_supported v \<noteq> Stray"
  using preflight_commands_safe[OF assms(1), of "enumerate 0 (gv_commands v)" idle] assms(2)
  by (simp add: preflight_vulkan_graphics_v6_replay_supported_def well_typed_def)

section \<open>The state of the rendering before each command\<close>

definition state_at :: "g_command list \<Rightarrow> nat \<Rightarrow> replay" where
  "state_at cs i = fold preflight_next (take i cs) idle"

lemma preflight_commands_Pass:
  "preflight_commands v st (enumerate n cs) = Pass \<longleftrightarrow>
     (\<forall>i<length cs. preflight_command v (fold preflight_next (take i cs) st) (n + i, cs ! i) = Pass) \<and>
     rp_rendering (fold preflight_next cs st) = None"
proof (induction cs arbitrary: n st)
  case (Cons c cs)
  have "(\<forall>i<Suc m. P i) \<longleftrightarrow> P 0 \<and> (\<forall>i<m. P (Suc i))" for m and P :: "nat \<Rightarrow> bool"
    by (auto simp: less_Suc_eq_0_disj)
  then show ?case by (simp add: Cons.IH)
qed simp

lemma preflight_Pass:
  "preflight_vulkan_graphics_v6_replay_supported v = Pass \<longleftrightarrow>
     is_v6 1 (gv_header v) \<and> rp_rendering (state_at (gv_commands v) (length (gv_commands v))) = None \<and>
     (\<forall>i<length (gv_commands v). preflight_command v (state_at (gv_commands v) i) (i, gv_commands v ! i) = Pass)"
  using preflight_commands_Pass[of v idle 0 "gv_commands v"]
  by (auto simp: preflight_vulkan_graphics_v6_replay_supported_def state_at_def idle_def)

text \<open>A rendering is active at a command: one begins before it, and none ends in between.\<close>

definition rendering_at :: "g_command list \<Rightarrow> nat \<Rightarrow> bool" where
  "rendering_at cs i \<longleftrightarrow>
     (\<exists>j<i. gcm_command_type (cs ! j) = CMD_BEGIN_RENDERING \<and>
          (\<forall>k<i. j < k \<longrightarrow> gcm_command_type (cs ! k) \<noteq> CMD_END_RENDERING))"

definition pipeline_bound_at :: "g_command list \<Rightarrow> nat \<Rightarrow> bool" where
  "pipeline_bound_at cs i \<longleftrightarrow> (\<exists>j<i. gcm_command_type (cs ! j) = CMD_BIND_PIPELINE)"

lemma rendering_at_Suc:
  "rendering_at cs (Suc i) \<longleftrightarrow>
     gcm_command_type (cs ! i) = CMD_BEGIN_RENDERING \<or> rendering_at cs i \<and> gcm_command_type (cs ! i) \<noteq> CMD_END_RENDERING"
  by (auto simp: rendering_at_def less_Suc_eq)

lemma state_at_Suc: "i < length cs \<Longrightarrow> state_at cs (Suc i) = preflight_next (cs ! i) (state_at cs i)"
  by (simp add: state_at_def take_Suc_conv_app_nth)

lemma state_at_spec:
  "i \<le> length cs \<Longrightarrow> (rp_rendering (state_at cs i) \<noteq> None \<longleftrightarrow> rendering_at cs i) \<and>
     (rp_bound (state_at cs i) \<longleftrightarrow> pipeline_bound_at cs i)"
proof (induction i)
  case (Suc i)
  then show ?case
    by (auto simp: state_at_Suc rendering_at_Suc pipeline_bound_at_def less_Suc_eq preflight_next_def)
qed (simp add: state_at_def idle_def rendering_at_def pipeline_bound_at_def)

text \<open>Where a command of each type may stand.\<close>

definition TRANSFER_COMMANDS :: "u32 list" where
  "TRANSFER_COMMANDS =
     [CMD_COPY_BUFFER, CMD_COPY_BUFFER_TO_IMAGE, CMD_COPY_IMAGE_TO_BUFFER, CMD_COPY_IMAGE, CMD_FILL_BUFFER, CMD_UPDATE_BUFFER,
      CMD_CLEAR_COLOR_IMAGE, CMD_CLEAR_DEPTH_STENCIL_IMAGE, CMD_RESOLVE_IMAGE, CMD_BLIT_IMAGE]"

definition command_in_order :: "g_command list \<Rightarrow> nat \<Rightarrow> bool" where
  "command_in_order cs i \<longleftrightarrow>
     (let ty = gcm_command_type (cs ! i) in
      (ty = CMD_BEGIN_RENDERING \<longrightarrow> \<not> rendering_at cs i) \<and>
      (ty \<in> set [CMD_END_RENDERING, CMD_DRAW, CMD_DRAW_INDEXED, CMD_CLEAR_ATTACHMENTS] \<longrightarrow> rendering_at cs i) \<and>
      (ty \<in> set [CMD_DRAW, CMD_DRAW_INDEXED] \<longrightarrow> pipeline_bound_at cs i) \<and>
      (ty \<in> set TRANSFER_COMMANDS \<longrightarrow> \<not> rendering_at cs i) \<and> ty \<noteq> CMD_COPY_QUERY_POOL_RESULTS)"

lemma transfer_command:
  "gcm_command_type c \<in> set TRANSFER_COMMANDS \<Longrightarrow> \<exists>found. preflight_command v st (i, c) = preflight_transfer st found"
  by (auto simp: TRANSFER_COMMANDS_def preflight_command_def QUERY_COMMANDS_def transfer_found_def)

lemma preflight_command_order:
  assumes "i < length cs" "preflight_command v (state_at cs i) (i, cs ! i) = Pass"
  shows "command_in_order cs i"
proof -
  let ?ty = "gcm_command_type (cs ! i)"
  have st: "rp_rendering (state_at cs i) = None \<longleftrightarrow> \<not> rendering_at cs i" "rp_bound (state_at cs i) = pipeline_bound_at cs i"
    using state_at_spec[of i cs] assms(1) by auto
  have b: "\<not> rendering_at cs i" if "?ty = CMD_BEGIN_RENDERING"
    using assms(2) that st by (simp add: preflight_command_def preflight_begin_def)
  have e: "rendering_at cs i" if "?ty = CMD_END_RENDERING"
    using assms(2) that st by (simp add: preflight_command_def)
  have d: "rendering_at cs i \<and> pipeline_bound_at cs i" if "?ty = CMD_DRAW \<or> ?ty = CMD_DRAW_INDEXED"
    using assms(2) that st by (auto simp: preflight_command_def preflight_draw_def)
  have c: "rendering_at cs i" if "?ty = CMD_CLEAR_ATTACHMENTS"
    using assms(2) that st by (auto simp: preflight_command_def preflight_clear_def split: option.splits)
  have t: "\<not> rendering_at cs i" if tr: "?ty \<in> set TRANSFER_COMMANDS"
  proof -
    obtain found where "preflight_transfer (state_at cs i) found = Pass"
      using transfer_command[OF tr, of v "state_at cs i" i] assms(2) by metis
    then show ?thesis using st by (simp add: preflight_transfer_def)
  qed
  have q: "?ty \<noteq> CMD_COPY_QUERY_POOL_RESULTS"
    using assms(2) by (auto simp: preflight_command_def transfer_found_def QUERY_COMMANDS_def)
  show ?thesis unfolding command_in_order_def Let_def using b e d c t q by auto
qed

text \<open>The active rendering is the one that began last.\<close>

lemma active_rendering:
  "i \<le> length cs \<Longrightarrow> rp_rendering (state_at cs i) = Some c \<Longrightarrow>
   \<exists>j<i. c = cs ! j \<and> gcm_command_type (cs ! j) = CMD_BEGIN_RENDERING \<and>
     (\<forall>k<i. j < k \<longrightarrow> gcm_command_type (cs ! k) \<notin> set [CMD_BEGIN_RENDERING, CMD_END_RENDERING])"
proof (induction i)
  case (Suc i)
  then show ?case
    by (auto simp: state_at_Suc preflight_next_def less_Suc_eq split: if_splits)
qed (simp add: state_at_def idle_def)

lemma each_at_entry: "each_at xs is f = Pass \<Longrightarrow> i \<in> set is \<Longrightarrow> f (xs ! unat i) = Pass"
  by (auto simp: each_at_def at_def split: if_splits)

lemma cleared_in_area:
  assumes "preflight_vulkan_graphics_v6_replay_supported v = Pass" "i < length (gv_commands v)"
    "gcm_command_type (gv_commands v ! i) = CMD_CLEAR_ATTACHMENTS"
  shows "\<exists>j<i. \<exists>e\<in>set (gv_clear_commands v). unat (gca_command_index e) = i \<and>
    gcm_command_type (gv_commands v ! j) = CMD_BEGIN_RENDERING \<and>
    (\<forall>k<i. j < k \<longrightarrow> gcm_command_type (gv_commands v ! k) \<notin> set [CMD_BEGIN_RENDERING, CMD_END_RENDERING]) \<and>
    (\<forall>k\<in>set (indices (gca_clear_rect_first e) (gca_clear_rect_count e)).
       vulkan_graphics_v616_rect_inside_render_area (gv_clear_rects v ! unat k) (gv_commands v ! j))"
proof -
  let ?cs = "gv_commands v"
  have "preflight_clear v (state_at ?cs i) i = Pass"
  proof -
    have "preflight_command v (state_at ?cs i) (i, ?cs ! i) = Pass" using assms(1,2) unfolding preflight_Pass by blast
    then show ?thesis using assms(3) by (simp add: preflight_command_def)
  qed
  then obtain c e where c: "rp_rendering (state_at ?cs i) = Some c"
      and e: "find_vulkan_graphics_v616_clear_attachments v i = Some e"
      and m: "vulkan_graphics_v616_clear_attachments_match_rendering v e c = Pass"
    by (auto simp: preflight_clear_def split: option.splits)
  obtain j where "j < i" "c = ?cs ! j" "gcm_command_type (?cs ! j) = CMD_BEGIN_RENDERING"
      "\<forall>k<i. j < k \<longrightarrow> gcm_command_type (?cs ! k) \<notin> set [CMD_BEGIN_RENDERING, CMD_END_RENDERING]"
    using active_rendering[OF _ c] assms(2) by auto
  moreover have "e \<in> set (gv_clear_commands v)" "unat (gca_command_index e) = i"
    using e by (auto simp: find_vulkan_graphics_v616_clear_attachments_def entry_for_def find_Some_iff split: if_splits)
  moreover have "vulkan_graphics_v616_rect_inside_render_area (gv_clear_rects v ! unat k) c"
    if "k \<in> set (indices (gca_clear_rect_first e) (gca_clear_rect_count e))" for k
  proof -
    have "each_at (gv_clear_rects v) (indices (gca_clear_rect_first e) (gca_clear_rect_count e)) (clear_rect_matches c) = Pass"
      using m by (simp add: vulkan_graphics_v616_clear_attachments_match_rendering_def)
    from each_at_entry[OF this that] show ?thesis by (simp add: clear_rect_matches_def Let_def)
  qed
  ultimately show ?thesis by blast
qed

end
