(* ===== verification/Graphics_Sets.thy ===== *)
theory Graphics_Sets
  imports Graphics_Preflight Graphics_Places
begin

text \<open>
  The layout of the descriptor sets that is collected for a pipeline: what it holds for each binding, and when the loop
  over its sets leaves the arrays of 8.
\<close>

section \<open>The pairs of a command and a descriptor, in the order they are looked at\<close>

fun checked_pairs :: "(g_command \<times> v5_object_descriptor) list \<Rightarrow> set_layout \<Rightarrow> bool" where
  "checked_pairs [] L = True"
| "checked_pairs ((c, d) # cds) L \<longleftrightarrow> check_layout_descriptor c L d = Pass \<and> checked_pairs cds (add_descriptor d L)"

definition add_pairs :: "(g_command \<times> v5_object_descriptor) list \<Rightarrow> set_layout \<Rightarrow> set_layout" where
  "add_pairs cds L = fold (\<lambda>(c, d). add_descriptor d) cds L"

definition descriptor_pairs :: "v6_view \<Rightarrow> g_command \<Rightarrow> u32 list \<Rightarrow> (g_command \<times> v5_object_descriptor) list" where
  "descriptor_pairs v c is = map (\<lambda>i. (c, gv_descriptors v ! unat i)) is"

definition binds_layout :: "u64 \<Rightarrow> g_command \<Rightarrow> bool" where
  "binds_layout layout c \<longleftrightarrow> gcm_command_type c = CMD_BIND_DESCRIPTOR_SETS \<and> gcm_pipeline_layout_id c = layout"

definition layout_pairs :: "v6_view \<Rightarrow> u64 \<Rightarrow> g_command list \<Rightarrow> (g_command \<times> v5_object_descriptor) list" where
  "layout_pairs v layout cs =
     concat (map (\<lambda>c. descriptor_pairs v c (indices (gcm_first_descriptor c) (gcm_descriptor_count c)))
       (filter (binds_layout layout) cs))"

lemma add_pairs_simps [simp]:
  "add_pairs [] L = L" "add_pairs ((c, d) # cds) L = add_pairs cds (add_descriptor d L)"
  "add_pairs (xs @ ys) L = add_pairs ys (add_pairs xs L)"
  by (simp_all add: add_pairs_def)

lemma checked_pairs_append [simp]:
  "checked_pairs (xs @ ys) L \<longleftrightarrow> checked_pairs xs L \<and> checked_pairs ys (add_pairs xs L)"
  by (induction xs arbitrary: L) auto

lemma add_descriptor_sets [simp]: "add_descriptor d (L\<lparr>sl_sets := n\<rparr>) = (add_descriptor d L)\<lparr>sl_sets := n\<rparr>"
  by (simp add: add_descriptor_def Let_def)

lemma sl_sets_add [simp]: "sl_sets (add_descriptor d L) = sl_sets L"
  by (simp add: add_descriptor_def Let_def)

lemma sl_sets_add_pairs [simp]: "sl_sets (add_pairs cds L) = sl_sets L"
  by (induction cds arbitrary: L) auto

lemma add_pairs_sets [simp]: "add_pairs cds (L\<lparr>sl_sets := n\<rparr>) = (add_pairs cds L)\<lparr>sl_sets := n\<rparr>"
  by (induction cds arbitrary: L) auto

lemma check_layout_sets [simp]: "check_layout_descriptor c (L\<lparr>sl_sets := n\<rparr>) = check_layout_descriptor c L"
  by (rule ext) (simp add: check_layout_descriptor_def Let_def split: option.split)

lemma checked_pairs_sets [simp]: "checked_pairs cds (L\<lparr>sl_sets := n\<rparr>) = checked_pairs cds L"
  by (induction cds arbitrary: L) auto

lemma checked_pair_place:
  "check_layout_descriptor c L d = Pass \<Longrightarrow> unat (vo_descriptor_set d) < 8 \<and> unat (vo_binding d) < 16 \<and>
     unat (vo_array_element d) < 16 \<and> gcm_descriptor_first_set c \<le> vo_descriptor_set d \<and> descriptor_type_of d \<noteq> None"
  by (auto simp: check_layout_descriptor_def MAX_DESCRIPTOR_SETS_def GPU_MAX_VULKAN_BINDINGS_def not_le not_less
      split: option.splits)

lemma checked_pairs_place:
  "checked_pairs cds L \<Longrightarrow> (c, d) \<in> set cds \<Longrightarrow> unat (vo_descriptor_set d) < 8 \<and> unat (vo_binding d) < 16 \<and>
     unat (vo_array_element d) < 16 \<and> gcm_descriptor_first_set c \<le> vo_descriptor_set d \<and> descriptor_type_of d \<noteq> None"
proof (induction cds arbitrary: L)
  case (Cons cd cds)
  obtain c' d' where cd: "cd = (c', d')" by fastforce
  show ?case using Cons checked_pair_place[of c' L d'] unfolding cd by auto
qed simp

section \<open>Collecting adds the pairs one after the other\<close>

lemma collect_descriptors_Pass:
  "collect_descriptors v c is m L = (Pass, m', L') \<Longrightarrow>
     checked_pairs (descriptor_pairs v c is) L \<and> L' = add_pairs (descriptor_pairs v c is) L \<and>
     m \<le> m' \<and> (m' = m \<or> (\<exists>i\<in>set is. m' = vo_descriptor_set (gv_descriptors v ! unat i)))"
proof (induction "is" arbitrary: m L)
  case (Cons i "is")
  let ?d = "gv_descriptors v ! unat i"
  have p: "at (gv_descriptors v) i (check_layout_descriptor c L) = Pass"
    using Cons.prems by (simp split: verdict.splits)
  then have d: "check_layout_descriptor c L ?d = Pass" by (simp add: at_def split: if_splits)
  have "collect_descriptors v c is (max (vo_descriptor_set ?d) m) (add_descriptor ?d L) = (Pass, m', L')"
    using Cons.prems p by (simp add: Let_def)
  from Cons.IH[OF this] show ?case using d by (auto simp: descriptor_pairs_def max_def split: if_splits)
qed (simp add: descriptor_pairs_def)

lemma collect_layout_Pass:
  "collect_layout v layout cs L = (Pass, L') \<Longrightarrow>
     checked_pairs (layout_pairs v layout cs) L \<and> (\<exists>n. L' = (add_pairs (layout_pairs v layout cs) L)\<lparr>sl_sets := n\<rparr>)"
proof (induction cs arbitrary: L)
  case Nil
  then show ?case by (auto simp: layout_pairs_def intro!: exI[of _ "sl_sets L"])
next
  case (Cons c cs)
  show ?case
  proof (cases "binds_layout layout c")
    case False
    then show ?thesis using Cons by (auto simp: layout_pairs_def binds_layout_def)
  next
    case True
    let ?is = "indices (gcm_first_descriptor c) (gcm_descriptor_count c)"
    obtain r m' L1 where r: "collect_descriptors v c ?is (gcm_descriptor_first_set c) L = (r, m', L1)" by (metis prod_cases3)
    with Cons.prems True have p: "r = Pass" "collect_layout v layout cs (L1\<lparr>sl_sets := max (m' + 1) (sl_sets L1)\<rparr>) = (Pass, L')"
      by (auto simp: binds_layout_def split: verdict.splits)
    show ?thesis using collect_descriptors_Pass[OF r[unfolded p(1)]] Cons.IH[OF p(2)] True by (auto simp: layout_pairs_def)
  qed
qed

section \<open>What the arrays hold afterwards\<close>

definition shaped :: "set_layout \<Rightarrow> bool" where
  "shaped L \<longleftrightarrow> length (sl_bindings L) = 8 \<and> length (sl_types L) = 8 \<and> length (sl_descriptors L) = 8 \<and>
     (\<forall>s<8. length (sl_types L ! s) = 16 \<and> length (sl_descriptors L ! s) = 16)"

definition placed :: "v5_object_descriptor \<Rightarrow> bool" where
  "placed d \<longleftrightarrow> unat (vo_descriptor_set d) < 8 \<and> unat (vo_binding d) < 16 \<and> unat (vo_array_element d) < 16"

definition in_place :: "nat \<Rightarrow> nat \<Rightarrow> v5_object_descriptor \<Rightarrow> bool" where
  "in_place s b d \<longleftrightarrow> unat (vo_descriptor_set d) = s \<and> unat (vo_binding d) = b"

lemma empty_shaped: "shaped empty_layout"
  by (simp add: shaped_def empty_layout_def MAX_DESCRIPTOR_SETS_def GPU_MAX_VULKAN_BINDINGS_def)

lemma unat_Suc_small: "unat x < 16 \<Longrightarrow> unat (x + 1) = Suc (unat x)" for x :: u32
  by (simp add: unat_word_ariths)

lemma unat_max_word: "unat (max x y) = max (unat x) (unat y)" for x y :: "'a :: len word"
  by (auto simp: max_def word_le_nat_alt)

lemma add_descriptor_at:
  assumes "shaped L" "placed d" "s < 8" "b < 16"
  shows "shaped (add_descriptor d L)"
    and "unat (sl_descriptors (add_descriptor d L) ! s ! b) =
      (if in_place s b d then max (Suc (unat (vo_array_element d))) (unat (sl_descriptors L ! s ! b))
       else unat (sl_descriptors L ! s ! b))"
    and "sl_types (add_descriptor d L) ! s ! b =
      (if in_place s b d then (case descriptor_type_of d of Some ty \<Rightarrow> ty | None \<Rightarrow> 0) else sl_types L ! s ! b)"
    and "unat (sl_bindings (add_descriptor d L) ! s) =
      (if unat (vo_descriptor_set d) = s then max (Suc (unat (vo_binding d))) (unat (sl_bindings L ! s)) else unat (sl_bindings L ! s))"
  using assms
  by (auto simp: add_descriptor_def Let_def shaped_def placed_def in_place_def set_entry_def nth_list_update unat_max_word
      unat_Suc_small)

definition greatest :: "nat list \<Rightarrow> nat" where
  "greatest xs = foldr max xs 0"

lemma greatest_simps [simp]: "greatest [] = 0" "greatest (x # xs) = max x (greatest xs)"
  by (simp_all add: greatest_def)

lemma add_pairs_at:
  assumes "shaped L" "list_all (\<lambda>(c, d). placed d) cds" "s < 8" "b < 16"
  shows "shaped (add_pairs cds L) \<and>
    unat (sl_descriptors (add_pairs cds L) ! s ! b) =
      max (unat (sl_descriptors L ! s ! b)) (greatest (map (\<lambda>(c, d). Suc (unat (vo_array_element d))) (filter (\<lambda>(c, d). in_place s b d) cds))) \<and>
    unat (sl_bindings (add_pairs cds L) ! s) =
      max (unat (sl_bindings L ! s)) (greatest (map (\<lambda>(c, d). Suc (unat (vo_binding d))) (filter (\<lambda>(c, d). unat (vo_descriptor_set d) = s) cds)))"
  using assms(1,2)
proof (induction cds arbitrary: L)
  case (Cons cd cds)
  obtain c d where cd: "cd = (c, d)" by fastforce
  have "placed d" "list_all (\<lambda>(c, d). placed d) cds" using Cons.prems(2) by (simp_all add: cd)
  note a = add_descriptor_at[OF Cons.prems(1) this(1) assms(3,4)]
  from Cons.IH[OF a(1) \<open>list_all _ cds\<close>] a(2,4) show ?case by (auto simp: cd max.assoc max.left_commute)
qed simp

text \<open>A binding that has descriptors keeps its type.\<close>

lemma checked_type:
  assumes "check_layout_descriptor c L d = Pass" "in_place s b d"
  shows "\<exists>ty. descriptor_type_of d = Some ty \<and> (0 < sl_descriptors L ! s ! b \<longrightarrow> sl_types L ! s ! b = ty)"
  using assms by (auto simp: check_layout_descriptor_def in_place_def Let_def split: option.splits)

lemma add_pairs_type:
  assumes "s < 8" "b < 16"
  shows "shaped L \<Longrightarrow> checked_pairs cds L \<Longrightarrow> list_all (\<lambda>(c, d). placed d) cds \<Longrightarrow>
    (0 < sl_descriptors L ! s ! b \<longrightarrow> sl_types (add_pairs cds L) ! s ! b = sl_types L ! s ! b) \<and>
    (\<forall>(c, d)\<in>set cds. in_place s b d \<longrightarrow> descriptor_type_of d = Some (sl_types (add_pairs cds L) ! s ! b))"
proof (induction cds arbitrary: L)
  case (Cons cd cds)
  obtain c d where cd: "cd = (c, d)" by fastforce
  have p: "placed d" "list_all (\<lambda>(c, d). placed d) cds" and ch: "check_layout_descriptor c L d = Pass"
      "checked_pairs cds (add_descriptor d L)"
    using Cons.prems by (simp_all add: cd)
  note a = add_descriptor_at[OF Cons.prems(1) p(1) assms]
  note IH = Cons.IH[OF a(1) ch(2) p(2)]
  have g: "0 < sl_descriptors (add_descriptor d L) ! s ! b" if "in_place s b d \<or> 0 < sl_descriptors L ! s ! b"
    using that a(2) by (auto simp: word_less_nat_alt split: if_splits)
  show ?case
  proof (cases "in_place s b d")
    case True
    from checked_type[OF ch(1) True] obtain ty where "descriptor_type_of d = Some ty"
        "0 < sl_descriptors L ! s ! b \<longrightarrow> sl_types L ! s ! b = ty" by blast
    then show ?thesis using IH g True a(3) by (auto simp: cd)
  next
    case False
    then show ?thesis using IH g a(3) by (simp add: cd)
  qed
qed simp

lemma collected_layout:
  assumes "collect_graphics_descriptor_layout_for_layout v layout = (Pass, L)" "s < 8" "b < 16"
  defines "cds \<equiv> layout_pairs v layout (gv_commands v)"
  shows "unat (sl_descriptors L ! s ! b) = greatest (map (\<lambda>(c, d). Suc (unat (vo_array_element d))) (filter (\<lambda>(c, d). in_place s b d) cds))"
    and "unat (sl_bindings L ! s) = greatest (map (\<lambda>(c, d). Suc (unat (vo_binding d))) (filter (\<lambda>(c, d). unat (vo_descriptor_set d) = s) cds))"
    and "list_all (\<lambda>(c, d). in_place s b d \<longrightarrow> descriptor_type_of d = Some (sl_types L ! s ! b)) cds"
    and "length (sl_bindings L) = 8"
    and "list_all (\<lambda>(c, d). gcm_descriptor_first_set c \<le> vo_descriptor_set d) cds"
proof -
  obtain n where c: "checked_pairs cds empty_layout" and L: "L = (add_pairs cds empty_layout)\<lparr>sl_sets := n\<rparr>"
    using collect_layout_Pass assms(1) unfolding collect_graphics_descriptor_layout_for_layout_def cds_def by blast
  have p: "list_all (\<lambda>(c, d). placed d) cds" using checked_pairs_place[OF c] by (auto simp: list_all_iff placed_def)
  have e: "sl_descriptors empty_layout ! s ! b = 0" "sl_bindings empty_layout ! s = 0"
    using assms(2,3) by (simp_all add: empty_layout_def MAX_DESCRIPTOR_SETS_def GPU_MAX_VULKAN_BINDINGS_def)
  note a = add_pairs_at[OF empty_shaped p assms(2,3)]
  show "unat (sl_descriptors L ! s ! b) = greatest (map (\<lambda>(c, d). Suc (unat (vo_array_element d))) (filter (\<lambda>(c, d). in_place s b d) cds))"
    "unat (sl_bindings L ! s) = greatest (map (\<lambda>(c, d). Suc (unat (vo_binding d))) (filter (\<lambda>(c, d). unat (vo_descriptor_set d) = s) cds))"
    using a by (simp_all add: L e)
  show "length (sl_bindings L) = 8" using a by (simp add: L shaped_def)
  show "list_all (\<lambda>(c, d). in_place s b d \<longrightarrow> descriptor_type_of d = Some (sl_types L ! s ! b)) cds"
    using add_pairs_type[OF assms(2,3) empty_shaped c p] by (auto simp: L list_all_iff)
  show "list_all (\<lambda>(c, d). gcm_descriptor_first_set c \<le> vo_descriptor_set d) cds"
    using checked_pairs_place[OF c] by (auto simp: list_all_iff)
qed

section \<open>The number of sets\<close>

lemma unat_Suc_below:
  fixes x :: u32
  assumes "x \<noteq> V5_NONE"
  shows "unat (x + 1) = Suc (unat x)"
proof -
  have "1 + x \<noteq> 0"
  proof
    assume "1 + x = 0"
    then have "x = - 1" by (simp add: eq_neg_iff_add_eq_0 add.commute)
    then show False using assms by simp
  qed
  then show ?thesis using unatSuc[of x] by (simp add: add.commute)
qed

lemma collected_max_set:
  assumes "collect_descriptors v c is m L = (Pass, m', L')" "m = gcm_descriptor_first_set c"
  shows "m' = m \<or> unat m' < 8 \<and> unat m < 8"
proof -
  note p = collect_descriptors_Pass[OF assms(1)]
  have "unat m' < 8" if "m' \<noteq> m"
  proof -
    obtain i where "i \<in> set is" "m' = vo_descriptor_set (gv_descriptors v ! unat i)" using p \<open>m' \<noteq> m\<close> by blast
    then show ?thesis using checked_pairs_place[of "descriptor_pairs v c is" L c] p by (auto simp: descriptor_pairs_def)
  qed
  then show ?thesis using p by (auto simp: word_le_nat_alt)
qed

lemma collect_layout_sets:
  assumes "collect_layout v layout cs L = (Pass, L')"
    "list_all (\<lambda>c. binds_layout layout c \<longrightarrow> gcm_descriptor_first_set c \<noteq> V5_NONE) cs"
  shows "8 < unat (sl_sets L') \<longleftrightarrow>
    8 < unat (sl_sets L) \<or> list_ex (\<lambda>c. binds_layout layout c \<and> 8 \<le> unat (gcm_descriptor_first_set c)) cs"
  using assms
proof (induction cs arbitrary: L)
  case (Cons c cs)
  show ?case
  proof (cases "binds_layout layout c")
    case False
    then show ?thesis using Cons by (auto simp: binds_layout_def)
  next
    case True
    let ?is = "indices (gcm_first_descriptor c) (gcm_descriptor_count c)" and ?f = "gcm_descriptor_first_set c"
    obtain r m' L1 where r: "collect_descriptors v c ?is ?f L = (r, m', L1)" by (metis prod_cases3)
    with Cons.prems True have p: "r = Pass" "collect_layout v layout cs (L1\<lparr>sl_sets := max (m' + 1) (sl_sets L1)\<rparr>) = (Pass, L')"
      by (auto simp: binds_layout_def split: verdict.splits)
    have "sl_sets L1 = sl_sets L" using collect_descriptors_Pass[OF r[unfolded p(1)]] by simp
    moreover have "8 < unat (m' + 1) \<longleftrightarrow> 8 \<le> unat ?f"
    proof -
      have "?f \<noteq> V5_NONE" using Cons.prems(2) True by simp
      moreover have "unat V5_NONE = 4294967295" by simp
      ultimately have "m' \<noteq> V5_NONE" "m' = ?f \<or> unat m' < 8 \<and> unat ?f < 8"
        using collected_max_set[OF r[unfolded p(1)] refl] by auto
      then show ?thesis using unat_Suc_below[of m'] by auto
    qed
    ultimately show ?thesis using Cons.IH[OF p(2)] Cons.prems(2) True by (auto simp: unat_max_word)
  qed
qed simp

lemma first_fault_append_Stray:
  "first_fault (vs @ ws) = Stray \<longleftrightarrow> first_fault vs = Stray \<or> (\<forall>v\<in>set vs. v = Pass) \<and> first_fault ws = Stray"
  by (induction vs) auto

lemma first_fault_no_Stray: "(\<And>v. v \<in> set vs \<Longrightarrow> v \<noteq> Stray) \<Longrightarrow> first_fault vs \<noteq> Stray"
  by (induction vs) auto

text \<open>The loop over the sets leaves its arrays when it comes to set 8, which it does unless a set before is refused.\<close>

lemma layout_sets_at:
  assumes "length (sl_bindings L) = 8"
  shows "layout_sets set_ok L = Stray \<longleftrightarrow>
    8 < unat (sl_sets L) \<and> list_all (\<lambda>s. set_ok (set_layout_bindings L s)) [0..<8]"
proof -
  define f where "f = (\<lambda>s. at (sl_bindings L) s (\<lambda>n. refuse_if (\<not> set_ok (set_layout_bindings L (unat s))) EIO))"
  have ls: "layout_sets set_ok L = first_fault (map f (indices 0 (sl_sets L)))" by (simp add: layout_sets_def each_def f_def)
  have at: "f i = (if unat i < 8 then refuse_if (\<not> set_ok (set_layout_bindings L (unat i))) EIO else Stray)" for i
    using assms by (simp add: f_def at_def)
  have u: "unat (of_nat d :: u32) = d" if "d < unat (sl_sets L)" for d
    using that unat_lt32[of "sl_sets L"] by (simp add: unsigned_of_nat take_bit_nat_eq_self)
  have ind: "indices 0 (sl_sets L) = map of_nat [0..<unat (sl_sets L)]" by (simp add: indices_def)
  show ?thesis
  proof (cases "unat (sl_sets L) \<le> 8")
    case True
    then have "first_fault (map f (indices 0 (sl_sets L))) \<noteq> Stray"
      by (intro first_fault_no_Stray) (auto simp: ind at u refuse_if_def split: if_splits)
    then show ?thesis using True by (simp add: ls)
  next
    case False
    then have "[0..<unat (sl_sets L)] = [0..<8] @ 8 # [9..<unat (sl_sets L)]"
      using upt_add_eq_append[of 0 8 "unat (sl_sets L) - 8"] upt_conv_Cons[of 8 "unat (sl_sets L)"] by simp
    then have i: "indices 0 (sl_sets L) = map of_nat [0..<8] @ 8 # map of_nat [9..<unat (sl_sets L)]"
      unfolding ind by simp
    have u8: "unat (of_nat d :: u32) = d" if "d < 8" for d using u[of d] that False by simp
    have no: "first_fault (map f (map of_nat [0..<8])) \<noteq> Stray"
      by (intro first_fault_no_Stray) (auto simp: at u8 refuse_if_def split: if_splits)
    have "f 8 = Stray" by (simp only: at) simp
    then have "first_fault (map f (indices 0 (sl_sets L))) = Stray \<longleftrightarrow> (\<forall>w\<in>set (map f (map of_nat [0..<8])). w = Pass)"
      unfolding i map_append list.map first_fault_append_Stray using no by simp
    also have "\<dots> \<longleftrightarrow> list_all (\<lambda>s. set_ok (set_layout_bindings L s)) [0..<8]"
      by (auto simp: list_all_iff at u8 refuse_if_def split: if_splits)
    finally show ?thesis using False by (simp add: ls)
  qed
qed

section \<open>Accepted frames\<close>

lemma collect_descriptors_safe:
  "(\<And>i. i \<in> set is \<Longrightarrow> unat i < length (gv_descriptors v)) \<Longrightarrow> fst (collect_descriptors v c is m L) \<noteq> Stray"
proof (induction "is" arbitrary: m L)
  case (Cons i "is")
  then show ?case
    by (auto simp: at_def check_layout_descriptor_def Let_def split: verdict.splits option.splits if_splits)
qed simp

lemma collect_layout_safe:
  "list_all (command_typed v) cs \<Longrightarrow> fst (collect_layout v layout cs L) \<noteq> Stray"
proof (induction cs arbitrary: L)
  case (Cons c cs)
  have "fst (collect_descriptors v c (indices (gcm_first_descriptor c) (gcm_descriptor_count c)) (gcm_descriptor_first_set c) L) \<noteq> Stray"
    by (rule collect_descriptors_safe) (use Cons.prems in \<open>auto simp: command_typed_def dest: slice_inside_index\<close>)
  then show ?case using Cons by (auto split: verdict.splits prod.splits)
qed simp

lemma pipeline_sets_stray:
  assumes "well_typed v"
    "list_all (\<lambda>c. gcm_command_type c = CMD_BIND_DESCRIPTOR_SETS \<longrightarrow> gcm_descriptor_first_set c \<noteq> V5_NONE) (gv_commands v)"
  shows "pipeline_set_layouts set_ok v p = Stray \<longleftrightarrow>
    fst (collect_graphics_descriptor_layout_for_layout v (gpl_layout_id p)) = Pass \<and>
    list_ex (\<lambda>c. binds_layout (gpl_layout_id p) c \<and> 8 \<le> unat (gcm_descriptor_first_set c)) (gv_commands v) \<and>
    list_all (\<lambda>s. set_ok (set_layout_bindings (snd (collect_graphics_descriptor_layout_for_layout v (gpl_layout_id p))) s)) [0..<8]"
proof -
  obtain r L where c: "collect_graphics_descriptor_layout_for_layout v (gpl_layout_id p) = (r, L)" by fastforce
  have ns: "r \<noteq> Stray" using collect_layout_safe[of v "gv_commands v" "gpl_layout_id p" empty_layout] assms(1) c
    by (simp add: collect_graphics_descriptor_layout_for_layout_def well_typed_def)
  show ?thesis
  proof (cases "r = Pass")
    case True
    have "8 < unat (sl_sets L) \<longleftrightarrow>
        list_ex (\<lambda>c. binds_layout (gpl_layout_id p) c \<and> 8 \<le> unat (gcm_descriptor_first_set c)) (gv_commands v)"
      using collect_layout_sets[of v "gpl_layout_id p" "gv_commands v" empty_layout L] c True assms(2)
      by (simp add: collect_graphics_descriptor_layout_for_layout_def empty_layout_def binds_layout_def list_all_iff)
    moreover have "length (sl_bindings L) = 8" using collected_layout(4)[of v "gpl_layout_id p" L 0 0] c True by simp
    ultimately show ?thesis using c True by (auto simp: pipeline_set_layouts_def layout_sets_at)
  next
    case False
    then show ?thesis using c ns by (simp add: pipeline_set_layouts_def split: verdict.splits)
  qed
qed

end
