(* ===== verification/Graphics_Wide.thy ===== *)
theory Graphics_Wide
  imports Graphics_Example Graphics_Sets
begin

text \<open>
  The third example: a frame of version 6.1 with a shader of 4 bytes, a pipeline of that stage, and one command that binds
  no descriptors, from set 8 on. It is accepted and its commands are supported.
\<close>

definition wide_words :: "u64 list" where
  "wide_words =
     [0x36475550474450, 0x1000100060268, 0, 1016, 7, 1, 72, 0, 0, 0x5fd531f2d77e9ad1, 0x5800000000, 0, 0,
      0xc7d2cec7923555f7, 0x6800000000, 0, 0, 0x41f750ec2c5cfc82, 0x4800000000, 0, 0, 0xfef2d65210c4a660,
      0x5800000000, 0, 0, 0xc4c997c91fb85ab5, 0x4000000001, 616, 64, 0xc9b21285e5a281b8, 0xb000000001, 680, 176,
      0x37218816fe25c7dd, 0x2000000000, 0, 0, 0x7a735aaa6fdc4e5a, 0x1000000000, 0, 0, 0xa82d873c2a230c5,
      0x4800000000, 0, 0, 0x29ca5fee670cb0e0, 0x2800000000, 0, 0, 0x305d9e579f44e90, 0xa000000001, 856, 160,
      0x3e932210bbed0c3c, 0, 0, 0x800000000, 0, 0, 0x4fed60f52743cc94, 0x1800000000, 0, 0, 0xfec2e2aff5874940,
      0x5800000000, 0, 0, 0xfab42820638bfb19, 0x2800000000, 0, 0, 0x80fba87057d8753d, 0x4800000000, 0, 0,
      0xec42d150dc692354, 0x14650fb0739d0383, 1, 4, 0x62470b878d71a4a8, 0, 0, 0, 0, 0, 0, 9, 0, 0x100000000, 0, 0, 0,
      0, 0, 0, 0, 0, 0, 0, 0, 0, 0, 0, 0, 0, 0, 0, 4, 0xffffffff, 0x800000000, 0, 0, 0xffffffff, 0, 0, 0, 0, 0, 0, 0,
      0, 0, 0, 0, 0, 0, 9]"

definition wide_frame :: string where
  "wide_frame = sealed 77 wide_words"

lemma length_wide_words [simp]: "length wide_words = 127"
  by (simp add: wide_words_def)

lemma wide_field:
  assumes "off div 8 < 127" "off div 8 \<noteq> 54" "off div 8 \<noteq> 55" "off mod 8 + n \<le> 8" "LENGTH('b) \<le> 64"
  shows "(field off n wide_frame :: 'b::len word) =
    ucast (take_bit (8 * n) (drop_bit (8 * (off mod 8)) (wide_words ! (off div 8))))"
  unfolding wide_frame_def by (rule sealed_field) (use assms in simp_all)

lemma wide_header:
  obtains ph fh where "v6_header_of wide_frame =
    \<lparr>gh_magic = V6_MAGIC, gh_header_size = 616, gh_abi_major = 6, gh_abi_minor = 1, gh_command = 1, gh_flags = 0,
     gh_reserved0 = 0, gh_frame_size = 1016, gh_submit_id = 7, gh_fd_count = 1, gh_payload_hash = ph, gh_frame_hash = fh\<rparr>"
proof
  have "take 8 wide_frame = to_le 8 (0x36475550474450 :: u64)"
    by (simp add: wide_frame_def sealed_magic) (simp add: wide_words_def)
  also have "\<dots> = V6_MAGIC" by code_simp
  finally show "v6_header_of wide_frame =
    \<lparr>gh_magic = V6_MAGIC, gh_header_size = 616, gh_abi_major = 6, gh_abi_minor = 1, gh_command = 1, gh_flags = 0,
     gh_reserved0 = 0, gh_frame_size = 1016, gh_submit_id = 7, gh_fd_count = 1, gh_payload_hash = field 432 8 wide_frame,
     gh_frame_hash = field 440 8 wide_frame\<rparr>"
    by (simp add: v6_header_of_def wide_field) (simp add: wide_words_def)
qed

lemma wide_tables: "tables_ok 1016 616 (v6_all_tables wide_frame)"
proof -
  have minor: "unat (gh_abi_minor (v6_header_of wide_frame)) = 1" by (rule wide_header) simp
  show ?thesis
    by (simp add: tables_ok_def v6_all_tables_def minor v6_extensions_def tables_defs schema_defs table_defs v6_table_at_def
        wide_field wide_words_def table_range_valid_def range_within_frame_def)
qed

lemma wide_header_ok: "validate_vulkan_graphics_v6_header wide_frame 1 = 0"
proof (rule header_accepted)
  show "validate_vulkan_graphics_v6_header_prefix (v6_header_of wide_frame) 1 = 0"
    by (rule wide_header) (simp add: validate_vulkan_graphics_v6_header_prefix_def v6_header_sizes_def V6_MAX_FRAME_BYTES_def
        GPU_MAX_PASSED_FDS_def)
  show "gh_abi_minor (v6_header_of wide_frame) < 11" by (rule wide_header) simp
  show "tables_ok (gh_frame_size (v6_header_of wide_frame)) (ucast (gh_header_size (v6_header_of wide_frame)))
      (v6_all_tables wide_frame)"
    by (rule wide_header) (simp add: wide_tables)
qed

lemma wide_table:
  "t_stages wide_frame = \<lparr>ta_count = 1, ta_entry_size = 64, ta_offset = 616, ta_size = 64, ta_schema = 0xc9b21285e5a281b8\<rparr>"
  "t_pipelines wide_frame = \<lparr>ta_count = 1, ta_entry_size = 176, ta_offset = 680, ta_size = 176, ta_schema = 0x37218816fe25c7dd\<rparr>"
  "t_commands wide_frame = \<lparr>ta_count = 1, ta_entry_size = 160, ta_offset = 856, ta_size = 160, ta_schema = 0x3e932210bbed0c3c\<rparr>"
  by (simp_all add: table_defs v6_table_at_def wide_field wide_words_def)

lemma wide_empty_table:
  "list_all (\<lambda>t. ta_count (t wide_frame) = 0 \<and> ta_offset (t wide_frame) = 0 \<and> ta_size (t wide_frame) = 0)
     [t_resources, t_descriptors, t_images, t_image_views, t_samplers, t_vertex_bindings, t_vertex_attributes, t_attachments,
      t_dynamic_states, t_dynamic_offsets, t_push_metadata, t_image_barriers, t_memory_barriers, t_buffer_barriers]"
  by (simp add: table_defs v6_table_at_def wide_field wide_words_def)

definition wide_view :: v6_view where
  "wide_view = view_of wide_frame [7]"

lemma wide_header_at: "gv_header wide_view = v6_header_of wide_frame"
  by (simp add: wide_view_def view_of_def Let_def)

lemma wide_since: "is_v6 k (gv_header wide_view) \<longleftrightarrow> unat k \<le> 1"
  unfolding wide_header_at by (rule wide_header) (auto simp: is_v6_def word_le_nat_alt)

lemma wide_empty:
  "gv_resources wide_view = []" "gv_descriptors wide_view = []" "gv_images wide_view = []" "gv_image_views wide_view = []"
  "gv_vertex_bindings wide_view = []" "gv_vertex_attributes wide_view = []" "gv_attachments wide_view = []"
  "gv_dynamic_states wide_view = []" "gv_dynamic_offsets wide_view = []" "gv_push_metadata wide_view = []"
  "gv_image_barriers wide_view = []" "gv_memory_barriers wide_view = []" "gv_buffer_barriers wide_view = []"
  using wide_empty_table by (simp_all add: wide_view_def view_of_def Let_def entries_empty)

lemma wide_hashes: "check_frame_hashes wide_view = Pass" "check_hashes_v61_v67 wide_view = Pass"
  "check_hashes_v68_v616 wide_view = Pass" "check_hashes_v617_v620 wide_view = Pass"
proof -
  show "check_frame_hashes wide_view = Pass"
    unfolding wide_view_def wide_frame_def
    by (rule sealed_frame_hashes; rule wide_header[unfolded wide_frame_def]) (simp_all add: wide_words_def)
  have f: "gv_frame wide_view = wide_frame" by (simp add: wide_view_def view_of_def Let_def)
  have none: "bytes_at wide_frame 0 0 = []" "fnv1a64_update h [] = h" for h by (simp_all add: bytes_at_def fnv1a64_update_def)
  have e: "extension_hash wide_view [t_dynamic_offsets, t_push_metadata, t_image_barriers, t_memory_barriers, t_buffer_barriers] = FNV_INIT"
    using wide_empty_table by (simp add: extension_hash_def table_bytes_of_def f none)
  show "check_hashes_v61_v67 wide_view = Pass"
    by (simp add: check_hashes_v61_v67_def check_hashes_def f wide_since e wide_field) (simp add: wide_words_def)
  show "check_hashes_v68_v616 wide_view = Pass" "check_hashes_v617_v620 wide_view = Pass"
    by (simp_all add: check_hashes_v68_v616_def check_hashes_v617_v620_def wide_since)
qed

section \<open>The entries\<close>

abbreviation (input) wide_stage :: g_stage where "wide_stage \<equiv> g_stage_of (drop 616 wide_frame)"
abbreviation (input) wide_pipeline :: g_pipeline where "wide_pipeline \<equiv> g_pipeline_of (drop 680 wide_frame)"
abbreviation (input) wide_command :: g_command where "wide_command \<equiv> g_command_of (drop 856 wide_frame)"

lemma wide_entries:
  "gv_stages wide_view = [wide_stage]" "gv_pipelines wide_view = [wide_pipeline]" "gv_commands wide_view = [wide_command]"
  "gv_fds wide_view = [7]"
  by (simp_all add: wide_view_def view_of_def Let_def entries_def wide_table table_at_def)

lemma wide_stage_fields:
  "gst_stage_flags wide_stage = 1" "gst_shader_fd_index wide_stage = 0" "gst_shader_size wide_stage = 4"
  "gst_shader_hash wide_stage = 0x62470b878d71a4a8" "gst_entry_name_offset wide_stage = 0" "gst_entry_name_size wide_stage = 0"
  "gst_specialization_offset wide_stage = 0" "gst_specialization_size wide_stage = 0" "gst_specialization_hash wide_stage = 0"
  by (simp_all add: g_stage_of_def drop_field wide_field) (simp_all add: wide_words_def)

lemma wide_pipeline_fields:
  "gpl_layout_id wide_pipeline = 9" "gpl_shader_stage_first wide_pipeline = 0" "gpl_shader_stage_count wide_pipeline = 1"
  "gpl_vertex_binding_first wide_pipeline = 0" "gpl_vertex_binding_count wide_pipeline = 0"
  "gpl_vertex_attribute_first wide_pipeline = 0" "gpl_vertex_attribute_count wide_pipeline = 0"
  "gpl_color_attachment_count wide_pipeline = 0"
  by (simp_all add: g_pipeline_of_def drop_field wide_field) (simp_all add: wide_words_def)

lemma wide_command_fields:
  "gcm_command_type wide_command = 4" "gcm_pipeline_index wide_command = V5_NONE"
  "gcm_index_buffer_resource_index wide_command = V5_NONE" "gcm_descriptor_first_set wide_command = 8"
  "gcm_pipeline_layout_id wide_command = 9" "gcm_first_descriptor wide_command = 0" "gcm_descriptor_count wide_command = 0"
  "gcm_vertex_binding_first wide_command = 0" "gcm_vertex_binding_count wide_command = 0"
  "gcm_attachment_first wide_command = 0" "gcm_attachment_count wide_command = 0"
  "gcm_dynamic_state_first wide_command = 0" "gcm_dynamic_state_count wide_command = 0"
  "gcm_first_dynamic_offset wide_command = 0" "gcm_dynamic_offset_count wide_command = 0"
  "gcm_push_offset wide_command = 0" "gcm_push_size wide_command = 0"
  by (simp_all add: g_command_of_def drop_field wide_field) (simp_all add: wide_words_def)

text \<open>The shader's file has the first word of a SPIR-V module.\<close>

definition wide_files :: "int \<Rightarrow> string" where
  "wide_files fd = to_le 4 (0x07230203 :: u32)"

lemma wide_shader_hash:
  "full_fd_hash wide_files 7 4 = 0x62470b878d71a4a8" "fnv1a64_update FNV_INIT (take 4 (wide_files 7)) = 0x62470b878d71a4a8"
  "length (wide_files 7) = 4"
  by code_simp+

lemma no_entries: "each_at xs (indices i 0) f = Pass"
  by (simp add: each_at_def indices_def)

lemma wide_content: "validate_vulkan_graphics_v6_content wide_files wide_view = Pass"
proof -
  have objects: "check_objects wide_view = Pass" by (simp add: check_objects_def wide_empty)
  have states: "check_pipeline_states wide_view = Pass" "check_v61_entries wide_view = Pass"
    by (simp_all add: check_pipeline_states_def check_v61_entries_def wide_since wide_empty)
  have stage: "each (check_stage wide_files wide_view) (gv_stages wide_view) = Pass"
    by (simp add: wide_entries check_stage_def wide_stage_fields payload_range_valid_def wide_shader_hash)
  have pipelines: "check_pipelines wide_view = Pass"
    by (simp add: check_pipelines_def wide_entries wide_empty check_pipeline_def wide_pipeline_fields range_add_u32_def
        no_entries)
  have commands: "check_commands wide_view = Pass"
    by (simp add: check_commands_def wide_entries check_command_def Let_def wide_command_fields check_command_ranges_def
        range_add_u32_def wide_empty check_plain_command_def command_since_def QUERY_COMMANDS_def check_index_buffer_def
        payload_range_valid_def indices_def)
  show ?thesis
    by (simp add: validate_vulkan_graphics_v6_content_def wide_hashes wide_since objects states stage pipelines commands)
qed

lemma wide_accepted:
  "handle_vulkan_graphics_v6_frame wide_files True \<lparr>so_bytes = wide_frame, so_fds = [7]\<rparr> = V6_Accepted wide_view"
proof -
  have "gh_frame_size (v6_header_of wide_frame) = 1016" by (rule wide_header) simp
  then have "length wide_frame = unat (gh_frame_size (v6_header_of wide_frame))" by (simp add: wide_frame_def sealed_def)
  then show ?thesis
    using wide_header_ok handle_whole_frame[of wide_frame "[7]" wide_files]
    by (simp add: validate_vulkan_graphics_v6_frame_content_def init_accepted wide_view_def[symmetric] wide_content)
qed

lemma wide_preflight: "preflight_vulkan_graphics_v6_replay_supported wide_view = Pass"
  by (simp add: preflight_vulkan_graphics_v6_replay_supported_def wide_since wide_entries preflight_command_def
      wide_command_fields QUERY_COMMANDS_def preflight_next_def idle_def no_entries)

end
