(* ===== verification/Replay_Theorems.thy ===== *)
theory Replay_Theorems
  imports Graphics_Wide
begin

text \<open>
  The properties of what follows the acceptance of a graphics frame: the walk over its commands before the replay, and the
  layout of the descriptor sets of its pipelines.
\<close>

section \<open>The walk over the commands\<close>

lemma accepted_fit:
  assumes "handle_vulkan_graphics_v6_frame files ok s = V6_Accepted v"
  shows "tables_fit v" "well_typed v" "check_commands v = Pass"
proof -
  obtain frame fds where v: "v = view_of frame fds" and h: "validate_vulkan_graphics_v6_header frame (length fds) = 0"
    and c: "validate_vulkan_graphics_v6_content files v = Pass"
    by (rule accepted_frame[OF assms])
  show "tables_fit v" using view_tables_fit[OF h] unfolding v .
  then show "well_typed v" using content_well_typed[OF _ _ c] view_absent_empty unfolding v by blast
  show "check_commands v = Pass" by (rule checked_content(3)[OF c])
qed

text \<open>
  C19. On an accepted frame the walk over the commands, with the entries, attachments, stages, descriptors, barriers and
  clear rectangles it looks at, reads no table outside its bounds.
\<close>

theorem preflight_stays_in_tables:
  assumes "handle_vulkan_graphics_v6_frame files ok s = V6_Accepted v"
  shows "preflight_vulkan_graphics_v6_replay_supported v \<noteq> Stray"
  using accepted_fit[OF assms] by (intro preflight_safe)

lemma preflight_stays_in_tables_witness:
  "preflight_vulkan_graphics_v6_replay_supported good_view \<noteq> Stray \<and>
   handle_vulkan_graphics_v6_frame wide_files True \<lparr>so_bytes = wide_frame, so_fds = [7]\<rparr> = V6_Accepted wide_view"
  using preflight_stays_in_tables[OF good_accepted[of "\<lambda>_. []"]] wide_accepted by simp

lemma good_preflight: "preflight_vulkan_graphics_v6_replay_supported good_view = Pass"
proof -
  obtain c d where cs: "gv_commands good_view = [c, d]" "bare_command CMD_COPY_BUFFER c" "bare_command CMD_COPY_BUFFER_TO_IMAGE d"
    by (rule good_commands)
  have ty: "gcm_command_type c = 12" "gcm_command_type d = 13" using cs(2,3) by (simp_all add: bare_command_def)
  show ?thesis
    by (simp add: preflight_vulkan_graphics_v6_replay_supported_def good_since cs(1) preflight_command_def ty QUERY_COMMANDS_def
        transfer_found_def preflight_transfer_def preflight_next_def idle_def find_vulkan_graphics_v69_buffer_copy_def
        find_vulkan_graphics_v610_buffer_image_copy_def entry_for_def good_entries good_buffer_copy_def good_image_copy_def)
qed

text \<open>
  C20. The commands of a frame that passes the walk are in order: no rendering begins inside another, each rendering that
  begins ends, draws and clears of attachments are inside a rendering, draws after a pipeline is bound, and copies,
  resolves, fills, updates and clears of images outside of any rendering.
\<close>

theorem replay_commands_in_order:
  assumes "preflight_vulkan_graphics_v6_replay_supported v = Pass"
  shows "list_all (command_in_order (gv_commands v)) [0..<length (gv_commands v)] \<and>
    \<not> rendering_at (gv_commands v) (length (gv_commands v))"
  using assms preflight_command_order[of _ "gv_commands v" v] state_at_spec[of "length (gv_commands v)" "gv_commands v"]
  unfolding preflight_Pass by (auto simp: list_all_iff)

lemma replay_commands_in_order_witness:
  "length (gv_commands good_view) = 2 \<and> \<not> rendering_at (gv_commands good_view) 2"
  using replay_commands_in_order[OF good_preflight] good_commands by (metis length_Cons list.size(3) One_nat_def Suc_1)

text \<open>
  A frame with a command that copies the results of queries never passes the walk: the walk refuses this type of
  command as unknown, although the checks of the contents know it.
\<close>

theorem copy_query_never_replayed:
  assumes "list_ex (\<lambda>c. gcm_command_type c = CMD_COPY_QUERY_POOL_RESULTS) (gv_commands v)"
  shows "preflight_vulkan_graphics_v6_replay_supported v \<noteq> Pass"
proof
  assume "preflight_vulkan_graphics_v6_replay_supported v = Pass"
  then have "command_in_order (gv_commands v) i" if "i < length (gv_commands v)" for i
    using that preflight_command_order[of i "gv_commands v" v] unfolding preflight_Pass by blast
  then show False using assms by (auto simp: list_ex_iff in_set_conv_nth command_in_order_def Let_def)
qed

text \<open>A command that copies query results: the checks of version 6.18 pass it.\<close>

definition query_view :: v6_view where
  "query_view = good_view\<lparr>gv_header := (gv_header good_view)\<lparr>gh_abi_minor := 18\<rparr>,
     gv_commands := [(hd (gv_commands good_view))\<lparr>gcm_command_type := CMD_COPY_QUERY_POOL_RESULTS\<rparr>]\<rparr>"

lemma copy_query_never_replayed_witness:
  "check_commands query_view = Pass \<and> preflight_vulkan_graphics_v6_replay_supported query_view \<noteq> Pass"
proof
  obtain c d where cs: "gv_commands good_view = [c, d]" "bare_command CMD_COPY_BUFFER c"
    by (rule good_commands)
  have v: "is_v6 18 (gv_header query_view)" by (simp add: query_view_def is_v6_def)
  have "gv_commands query_view = [c\<lparr>gcm_command_type := CMD_COPY_QUERY_POOL_RESULTS\<rparr>]" by (simp add: query_view_def cs)
  then show "check_commands query_view = Pass"
    using cs(2) v by (simp add: check_commands_def bare_command_def has_draw_state_def check_command_def Let_def check_command_ranges_def
        range_add_u32_def check_plain_command_def check_index_buffer_def payload_range_valid_def QUERY_COMMANDS_def command_since_def)
  show "preflight_vulkan_graphics_v6_replay_supported query_view \<noteq> Pass"
    by (rule copy_query_never_replayed) (simp add: query_view_def)
qed

text \<open>
  C32. Each rectangle that a command clears, in a frame that passes the walk, lies inside the render area of the rendering
  the command is in: the one that began last before it and has not ended. The coordinates are signed.
\<close>

theorem cleared_rects_in_render_area:
  assumes "preflight_vulkan_graphics_v6_replay_supported v = Pass" "i < length (gv_commands v)"
    "gcm_command_type (gv_commands v ! i) = CMD_CLEAR_ATTACHMENTS"
  shows "\<exists>j<i. gcm_command_type (gv_commands v ! j) = CMD_BEGIN_RENDERING \<and>
    list_all (\<lambda>k. gcm_command_type (gv_commands v ! k) \<notin> set [CMD_BEGIN_RENDERING, CMD_END_RENDERING]) [Suc j..<i] \<and>
    list_ex (\<lambda>e. unat (gca_command_index e) = i \<and>
      list_all (\<lambda>k. vulkan_graphics_v616_rect_inside_render_area (gv_clear_rects v ! unat k) (gv_commands v ! j))
        (indices (gca_clear_rect_first e) (gca_clear_rect_count e))) (gv_clear_commands v)"
proof -
  obtain j e where "j < i" "e \<in> set (gv_clear_commands v)" "unat (gca_command_index e) = i"
    "gcm_command_type (gv_commands v ! j) = CMD_BEGIN_RENDERING"
    "\<forall>k<i. j < k \<longrightarrow> gcm_command_type (gv_commands v ! k) \<notin> set [CMD_BEGIN_RENDERING, CMD_END_RENDERING]"
    "\<forall>k\<in>set (indices (gca_clear_rect_first e) (gca_clear_rect_count e)).
       vulkan_graphics_v616_rect_inside_render_area (gv_clear_rects v ! unat k) (gv_commands v ! j)"
    using cleared_in_area[OF assms] by blast
  then show ?thesis unfolding list_all_iff list_ex_iff by (intro exI[of _ j]) auto
qed

definition begin_command :: g_command where
  "begin_command = (g_command_of [])\<lparr>gcm_command_type := CMD_BEGIN_RENDERING, gcm_attachment_count := 1,
     gcm_render_area_offset_x := - 4, gcm_render_area_extent_width := 16, gcm_render_area_extent_height := 16\<rparr>"

definition clear_command :: g_command where
  "clear_command = (g_command_of [])\<lparr>gcm_command_type := CMD_CLEAR_ATTACHMENTS\<rparr>"

definition end_command :: g_command where
  "end_command = (g_command_of [])\<lparr>gcm_command_type := CMD_END_RENDERING\<rparr>"

definition clear_entry :: g_clear_command where
  "clear_entry = (g_clear_command_of [])\<lparr>gca_command_index := 1, gca_clear_attachment_count := 1, gca_clear_rect_count := 1\<rparr>"

definition clear_rect :: g_clear_rect where
  "clear_rect = (g_clear_rect_of [])\<lparr>gcr_rect_offset_x := - 2, gcr_rect_extent_width := 14, gcr_rect_extent_height := 16,
     gcr_layer_count := 1\<rparr>"

definition clear_target :: g_attachment where
  "clear_target = (g_attachment_of [])\<lparr>gat_attachment_role := 1, gat_resolve_image_view_index := V5_NONE, gat_samples := 1,
     gat_layout := 2, gat_load_op := 1\<rparr>"

definition clear_view :: v6_view where
  "clear_view = good_view\<lparr>gv_header := (gv_header good_view)\<lparr>gh_abi_minor := 16\<rparr>, gv_attachments := [clear_target],
     gv_commands := [begin_command, clear_command, end_command], gv_clear_commands := [clear_entry],
     gv_clear_attachments := [(g_clear_attachment_of [])\<lparr>gct_aspect_mask := 1\<rparr>], gv_clear_rects := [clear_rect]\<rparr>"

lemma zero_field: "field k n [] = 0"
  by (simp add: field_def)

lemma clear_view_fields:
  "is_v6 1 (gv_header clear_view)" "is_v6 16 (gv_header clear_view)" "gv_attachments clear_view = [clear_target]"
  "gv_commands clear_view = [begin_command, clear_command, end_command]" "gv_clear_commands clear_view = [clear_entry]"
  "gv_clear_attachments clear_view = [(g_clear_attachment_of [])\<lparr>gct_aspect_mask := 1\<rparr>]" "gv_clear_rects clear_view = [clear_rect]"
  by (simp_all add: clear_view_def is_v6_def)

lemma clear_types:
  "gcm_command_type begin_command = 1" "gcm_command_type clear_command = 22" "gcm_command_type end_command = 2"
  by (simp_all add: begin_command_def clear_command_def end_command_def)

lemma indices_one: "indices i 1 = [i]"
  by (simp add: indices_def)

lemma begin_passes: "preflight_begin clear_view idle begin_command = Pass"
  by (simp add: preflight_begin_def idle_def begin_command_def g_command_of_def zero_field indices_one at_def clear_view_fields
      preflight_attachment_def clear_target_def g_attachment_of_def vulkan_graphics_attachment_layout_supported_def
      vulkan_graphics_attachment_ops_supported_def)

lemma clear_rect_passes: "clear_rect_matches begin_command clear_rect = Pass"
  by (simp add: clear_rect_matches_def vulkan_graphics_v616_rect_inside_render_area_def begin_command_def clear_rect_def
      g_command_of_def g_clear_rect_of_def zero_field Let_def)

lemma clear_passes: "preflight_clear clear_view (idle\<lparr>rp_rendering := Some begin_command\<rparr>) 1 = Pass"
proof -
  have e: "find_vulkan_graphics_v616_clear_attachments clear_view 1 = Some clear_entry"
    by (simp add: find_vulkan_graphics_v616_clear_attachments_def entry_for_def clear_view_fields clear_entry_def
        g_clear_command_of_def zero_field)
  have r: "gca_clear_attachment_first clear_entry = 0" "gca_clear_attachment_count clear_entry = 1"
    "gca_clear_rect_first clear_entry = 0" "gca_clear_rect_count clear_entry = 1" "gcm_attachment_first begin_command = 0"
    "gcm_attachment_count begin_command = 1"
    by (simp_all add: clear_entry_def begin_command_def g_clear_command_of_def g_command_of_def zero_field)
  have t: "clear_matches_attachments clear_view [0] ((g_clear_attachment_of [])\<lparr>gct_aspect_mask := 1\<rparr>) = Pass"
    by (simp add: clear_matches_attachments_def Let_def at_def clear_view_fields g_clear_attachment_of_def zero_field
        clear_target_def g_attachment_of_def attachment_clearable_def)
  show ?thesis
    by (simp add: preflight_clear_def e[unfolded One_nat_def] vulkan_graphics_v616_clear_attachments_match_rendering_def r clear_view_fields
        range_add_u32_def indices_one each_at_def at_def t clear_rect_passes)
qed

lemma clear_preflight: "preflight_vulkan_graphics_v6_replay_supported clear_view = Pass"
  using begin_passes clear_passes
  by (simp add: preflight_vulkan_graphics_v6_replay_supported_def clear_view_fields preflight_command_def clear_types
      preflight_next_def QUERY_COMMANDS_def idle_def)

lemma cleared_rects_in_render_area_witness:
  "list_ex (\<lambda>e. unat (gca_command_index e) = 1 \<and>
     list_all (\<lambda>k. vulkan_graphics_v616_rect_inside_render_area (gv_clear_rects clear_view ! unat k) begin_command)
       (indices (gca_clear_rect_first e) (gca_clear_rect_count e))) (gv_clear_commands clear_view)"
  using cleared_rects_in_render_area[OF clear_preflight, of 1] by (simp add: clear_view_fields clear_types)

section \<open>The layout of the descriptor sets\<close>

lemma first_set_given:
  assumes "check_commands v = Pass"
  shows "list_all (\<lambda>c. gcm_command_type c = CMD_BIND_DESCRIPTOR_SETS \<longrightarrow> gcm_descriptor_first_set c \<noteq> V5_NONE) (gv_commands v)"
proof -
  have "gcm_command_type c = CMD_BIND_DESCRIPTOR_SETS \<Longrightarrow> gcm_descriptor_first_set c \<noteq> V5_NONE"
    if c: "c \<in> set (gv_commands v)" for c
  proof -
    obtain i where "(i, c) \<in> set (enumerate 0 (gv_commands v))" using c by (metis in_set_impl_in_set_zip2 length_enumerate enumerate_eq_zip length_upt add_diff_cancel_left')
    then have "check_command v (i, c) = Pass" using assms by (simp add: check_commands_def)
    then show "gcm_command_type c = CMD_BIND_DESCRIPTOR_SETS \<Longrightarrow> gcm_descriptor_first_set c \<noteq> V5_NONE"
      by (simp add: check_command_def Let_def)
  qed
  then show ?thesis by (simp add: list_all_iff)
qed

lemma materialize_stage_safe: "materialize_stage files malloc_ok shader_ok v i s \<noteq> Stray"
  by (auto simp: materialize_stage_def refuse_if_def split: sum.split)

lemma materialize_stages_safe:
  assumes "pipelines_typed v" "p \<in> set (gv_pipelines v)"
  shows "materialize_pipeline_stages files malloc_ok shader_ok v p \<noteq> Stray"
proof -
  have "slice_inside (gpl_shader_stage_first p) (gpl_shader_stage_count p) (gv_stages v)"
    using assms by (auto simp: pipelines_typed_def pipeline_typed_def list_all_iff)
  then show ?thesis
    by (auto simp: materialize_pipeline_stages_def materialize_stage_safe dest: slice_inside_index intro!: each_safe)
qed

text \<open>
  C24. Making the layout of a pipeline of an accepted frame leaves the arrays of 8 sets when, and only when, a command of
  the frame binds descriptor sets for this layout from set 8 on or later, everything before the loop over the sets
  succeeds, and so does the making of each of the 8 sets that the arrays have; no check bounds the first set of a command
  without descriptors.
\<close>

theorem pipeline_layout_strays_exactly:
  assumes "handle_vulkan_graphics_v6_frame files ok s = V6_Accepted v" "p \<in> set (gv_pipelines v)"
  shows "materialize_pipeline_layout files' malloc_ok shader_ok set_ok v p = Stray \<longleftrightarrow>
    materialize_pipeline_stages files' malloc_ok shader_ok v p = Pass \<and>
    \<not> isl (collect_graphics_push_ranges_for_layout v (gpl_layout_id p)) \<and>
    fst (collect_graphics_descriptor_layout_for_layout v (gpl_layout_id p)) = Pass \<and>
    list_ex (\<lambda>c. binds_layout (gpl_layout_id p) c \<and> 8 \<le> unat (gcm_descriptor_first_set c)) (gv_commands v) \<and>
    list_all (\<lambda>s. set_ok (set_layout_bindings (snd (collect_graphics_descriptor_layout_for_layout v (gpl_layout_id p))) s)) [0..<8]"
proof -
  note a = accepted_fit[OF assms(1)]
  have s: "materialize_pipeline_stages files' malloc_ok shader_ok v p \<noteq> Stray"
    using a(2) assms(2) by (intro materialize_stages_safe) (simp_all add: well_typed_def)
  show ?thesis using s pipeline_sets_stray[OF a(2) first_set_given[OF a(3)], of set_ok p]
    by (auto simp: materialize_pipeline_layout_def first_fault.simps split: sum.split verdict.split)
qed

lemma wide_file_hash: "fnv1a64_update FNV_INIT (wide_files 7) = 0x62470b878d71a4a8"
  by code_simp

lemma pipeline_layout_strays_exactly_witness:
  "materialize_pipeline_layout wide_files True (\<lambda>_. True) (\<lambda>_. True) wide_view wide_pipeline = Stray \<and>
   preflight_vulkan_graphics_v6_replay_supported wide_view = Pass"
proof
  have "materialize_pipeline_stages wide_files True (\<lambda>_. True) wide_view wide_pipeline = Pass"
    by (simp add: materialize_pipeline_stages_def wide_pipeline_fields MAX_SHADER_STAGES_def MAX_COLOR_ATTACHMENTS_def indices_one
        at_def wide_entries materialize_stage_def read_graphics_shader_fd_def wide_stage_fields wide_shader_hash
        wide_file_hash copy_graphics_entry_name_def)
  moreover have "\<not> isl (collect_graphics_push_ranges_for_layout wide_view (gpl_layout_id wide_pipeline))"
    by (simp add: collect_graphics_push_ranges_for_layout_def wide_empty)
  moreover have "fst (collect_graphics_descriptor_layout_for_layout wide_view (gpl_layout_id wide_pipeline)) = Pass"
    by (simp add: collect_graphics_descriptor_layout_for_layout_def wide_entries wide_command_fields indices_def)
  ultimately show "materialize_pipeline_layout wide_files True (\<lambda>_. True) (\<lambda>_. True) wide_view wide_pipeline = Stray"
    using pipeline_layout_strays_exactly[OF wide_accepted, where p = wide_pipeline and files' = wide_files and malloc_ok = True
      and shader_ok = "\<lambda>_. True" and set_ok = "\<lambda>_. True"]
    by (simp add: list_all_iff wide_entries binds_layout_def wide_command_fields wide_pipeline_fields)
qed (rule wide_preflight)

text \<open>
  C21. The layout collected for a pipeline has, at each binding of each set, room for exactly the greatest array element
  that any descriptor bound for this layout has there, and the type of all of them; each set has exactly the bindings up to
  the greatest; no descriptor is in a set before the first set of its command.
\<close>

theorem collected_layout_exact:
  assumes "collect_graphics_descriptor_layout_for_layout v layout = (Pass, L)" "s < 8" "b < 16"
  shows "unat (sl_descriptors L ! s ! b) = greatest (map (\<lambda>(c, d). Suc (unat (vo_array_element d)))
      (filter (\<lambda>(c, d). in_place s b d) (layout_pairs v layout (gv_commands v)))) \<and>
    unat (sl_bindings L ! s) = greatest (map (\<lambda>(c, d). Suc (unat (vo_binding d)))
      (filter (\<lambda>(c, d). unat (vo_descriptor_set d) = s) (layout_pairs v layout (gv_commands v)))) \<and>
    list_all (\<lambda>(c, d). (in_place s b d \<longrightarrow> descriptor_type_of d = Some (sl_types L ! s ! b)) \<and>
      gcm_descriptor_first_set c \<le> vo_descriptor_set d) (layout_pairs v layout (gv_commands v))"
  using collected_layout[OF assms] by (auto simp: list_all_iff)

definition layout_command :: g_command where
  "layout_command = (g_command_of [])\<lparr>gcm_command_type := CMD_BIND_DESCRIPTOR_SETS, gcm_descriptor_count := 2,
     gcm_descriptor_first_set := 1, gcm_pipeline_layout_id := 5\<rparr>"

definition storage_at :: "u32 \<Rightarrow> u32 \<Rightarrow> v5_object_descriptor" where
  "storage_at k ty = (v5_object_descriptor_of [])\<lparr>vo_descriptor_set := 1, vo_binding := 3, vo_array_element := k,
     vo_descriptor_type := ty\<rparr>"

definition layout_view :: v6_view where
  "layout_view = good_view\<lparr>gv_descriptors := [storage_at 0 7, storage_at 4 9], gv_commands := [layout_command]\<rparr>"

lemma layout_fields:
  "gv_descriptors layout_view = [storage_at 0 7, storage_at 4 9]" "gv_commands layout_view = [layout_command]"
  "gcm_command_type layout_command = 4" "gcm_pipeline_layout_id layout_command = 5" "gcm_first_descriptor layout_command = 0"
  "gcm_descriptor_count layout_command = 2" "gcm_descriptor_first_set layout_command = 1"
  by (simp_all add: layout_view_def layout_command_def g_command_of_def zero_field)

lemma storage_fields:
  "vo_descriptor_set (storage_at k ty) = 1" "vo_binding (storage_at k ty) = 3" "vo_array_element (storage_at k ty) = k"
  "vo_descriptor_type (storage_at k ty) = ty" "vo_access_flags (storage_at k ty) = 0"
  by (simp_all add: storage_at_def v5_object_descriptor_of_def zero_field)

lemma storage_type: "ty = 7 \<or> ty = 9 \<Longrightarrow> descriptor_type_of (storage_at k ty) = Some 7"
  by (auto simp: descriptor_type_of_def storage_fields vulkan_dispatch_descriptor_type_from_api_def)

lemma storage_checked:
  "ty = 7 \<or> ty = 9 \<Longrightarrow> unat k < 16 \<Longrightarrow> sl_descriptors L ! 1 ! 3 = 0 \<or> sl_types L ! 1 ! 3 = 7 \<Longrightarrow>
   check_layout_descriptor layout_command L (storage_at k ty) = Pass"
  by (auto simp: check_layout_descriptor_def storage_fields layout_fields storage_type write_unsupported_def Let_def
      vulkan_descriptor_type_requires_image_view_def MAX_DESCRIPTOR_SETS_def GPU_MAX_VULKAN_BINDINGS_def)

lemma layout_collected: "fst (collect_graphics_descriptor_layout_for_layout layout_view 5) = Pass"
proof -
  have i: "indices 0 2 = [0, 1]" by (simp add: indices_def upt_rec)
  have "check_layout_descriptor layout_command empty_layout (storage_at 0 7) = Pass"
    by (rule storage_checked) (simp_all add: empty_layout_def MAX_DESCRIPTOR_SETS_def GPU_MAX_VULKAN_BINDINGS_def)
  moreover have "check_layout_descriptor layout_command (add_descriptor (storage_at 0 7) empty_layout) (storage_at 4 9) = Pass"
    by (rule storage_checked) (simp_all add: add_descriptor_def storage_fields storage_type set_entry_def Let_def
      empty_layout_def MAX_DESCRIPTOR_SETS_def GPU_MAX_VULKAN_BINDINGS_def)
  ultimately show ?thesis
    by (simp add: collect_graphics_descriptor_layout_for_layout_def layout_fields i at_def Let_def)
qed

lemma collected_layout_exact_witness:
  "unat (sl_descriptors (snd (collect_graphics_descriptor_layout_for_layout layout_view 5)) ! 1 ! 3) = 5"
proof -
  have i: "indices 0 2 = [0, 1]" by (simp add: indices_def upt_rec)
  have "collect_graphics_descriptor_layout_for_layout layout_view 5 =
      (Pass, snd (collect_graphics_descriptor_layout_for_layout layout_view 5))"
    using layout_collected by (metis prod.collapse)
  from collected_layout_exact[OF this, of 1 3] show ?thesis
    by (simp add: layout_pairs_def descriptor_pairs_def binds_layout_def layout_fields storage_fields i in_place_def)
qed

end
