(* ===== verification/Image_Objects.thy ===== *)
theory Image_Objects
  imports Graphics_Commands
begin

text \<open>
  The images the executor makes of a frame (\<open>VulkanDispatchImageObject\<close>, \<open>pdocker_gpu_executor.c\<close>): where the bytes of
  each mip level and layer lie in the buffer an image is staged in, the part of the image that is copied, and the layout
  each part of it is in.
\<close>

section \<open>Parts of an image\<close>

text \<open>\<open>VkImageSubresourceRange\<close>\<close>

record subrange =
  sr_aspect :: u32
  sr_base_level :: u32
  sr_levels :: u32
  sr_base_layer :: u32
  sr_layers :: u32

record layout_entry =
  le_range :: subrange
  le_layout :: u32
  le_generation :: u64

record image_object =
  io_source_index :: u32
  io_current_layout :: u32
  io_ranges :: "layout_entry list"
  io_has_ranges :: bool
  io_ranges_active :: bool
  io_width :: u32
  io_height :: u32
  io_depth :: u32
  io_format :: u32
  io_array_layers :: u32
  io_mip_levels :: u32
  io_copy_aspect :: u32
  io_copy_base_mip :: u32
  io_copy_levels :: u32
  io_copy_base_layer :: u32
  io_copy_layers :: u32

definition MAX_LAYOUT_RANGES :: nat where "MAX_LAYOUT_RANGES = 64"

section \<open>Where the bytes of a part lie\<close>

definition checked_add_u64_executor :: "u64 \<Rightarrow> u64 \<Rightarrow> u64 option" where
  "checked_add_u64_executor a b = (if UINT64_MAX - b < a then None else Some (a + b))"

text \<open>A level is at least one texel wide. Shifts by 32 or more, which C leaves open, are only met by images of more than 32 levels.\<close>

definition vulkan_image_mip_extent :: "image_object \<Rightarrow> u32 \<Rightarrow> (u32 \<times> u32 \<times> u32) option" where
  "vulkan_image_mip_extent im mip =
     (if io_mip_levels im \<le> mip then None
      else let half = (\<lambda>n :: u32. if drop_bit (unat mip) n = 0 then 1 else drop_bit (unat mip) n) in
        Some (half (io_width im), half (io_height im), half (io_depth im)))"

definition vulkan_image_tight_mip_size :: "image_object \<Rightarrow> u32 \<Rightarrow> u64 option" where
  "vulkan_image_tight_mip_size im mip =
     (case vulkan_image_mip_extent im mip of
        None \<Rightarrow> None
      | Some (w, h, d) \<Rightarrow>
          (case checked_mul_u64_executor (ucast w) (ucast h) of
             None \<Rightarrow> None
           | Some n \<Rightarrow> (case checked_mul_u64_executor n (ucast d) of
                         None \<Rightarrow> None
                       | Some n \<Rightarrow> checked_mul_u64_executor n (ucast (vulkan_format_bytes_per_pixel_conservative (io_format im))))))"

definition vulkan_image_tight_mip_size_for_aspect :: "image_object \<Rightarrow> u32 \<Rightarrow> u32 \<Rightarrow> u64 option" where
  "vulkan_image_tight_mip_size_for_aspect im mip aspect =
     (case vulkan_image_mip_extent im mip of
        None \<Rightarrow> None
      | Some (w, h, d) \<Rightarrow>
          (let bpp = vulkan_format_bytes_per_pixel_for_aspect (io_format im) aspect in
           if bpp = 0 then None
           else case checked_mul_u64_executor (ucast w) (ucast h) of
             None \<Rightarrow> None
           | Some n \<Rightarrow> (case checked_mul_u64_executor n (ucast d) of
                         None \<Rightarrow> None
                       | Some n \<Rightarrow> checked_mul_u64_executor n (ucast bpp))))"

text \<open>The sum over the first levels.\<close>

fun add_sizes :: "(u32 \<Rightarrow> u64 option) \<Rightarrow> u64 \<Rightarrow> u32 list \<Rightarrow> u64 option" where
  "add_sizes sz acc [] = Some acc"
| "add_sizes sz acc (mip # mips) =
     (case sz mip of
        None \<Rightarrow> None
      | Some n \<Rightarrow> (case checked_add_u64_executor acc n of None \<Rightarrow> None | Some acc \<Rightarrow> add_sizes sz acc mips))"

definition vulkan_image_tight_layer_stride :: "image_object \<Rightarrow> u64 option" where
  "vulkan_image_tight_layer_stride im = add_sizes (vulkan_image_tight_mip_size im) 0 (indices 0 (io_mip_levels im))"

definition vulkan_image_tight_layer_stride_for_aspect :: "image_object \<Rightarrow> u32 \<Rightarrow> u64 option" where
  "vulkan_image_tight_layer_stride_for_aspect im aspect =
     add_sizes (\<lambda>mip. vulkan_image_tight_mip_size_for_aspect im mip aspect) 0 (indices 0 (io_mip_levels im))"

definition vulkan_image_tight_subresource_offset :: "image_object \<Rightarrow> u32 \<Rightarrow> u32 \<Rightarrow> u64 option" where
  "vulkan_image_tight_subresource_offset im mip layer =
     (if io_mip_levels im \<le> mip \<or> io_array_layers im \<le> layer then None
      else case vulkan_image_tight_layer_stride im of
        None \<Rightarrow> None
      | Some stride \<Rightarrow> (case checked_mul_u64_executor stride (ucast layer) of
                         None \<Rightarrow> None
                       | Some off \<Rightarrow> add_sizes (vulkan_image_tight_mip_size im) off (indices 0 mip)))"

definition vulkan_image_tight_subresource_offset_for_aspect :: "image_object \<Rightarrow> u32 \<Rightarrow> u32 \<Rightarrow> u32 \<Rightarrow> u64 option" where
  "vulkan_image_tight_subresource_offset_for_aspect im mip layer aspect =
     (if io_mip_levels im \<le> mip \<or> io_array_layers im \<le> layer then None
      else case vulkan_image_tight_layer_stride_for_aspect im aspect of
        None \<Rightarrow> None
      | Some stride \<Rightarrow>
          (case checked_mul_u64_executor stride (ucast layer) of
             None \<Rightarrow> None
           | Some off \<Rightarrow> add_sizes (\<lambda>mip. vulkan_image_tight_mip_size_for_aspect im mip aspect) off (indices 0 mip)))"

definition vulkan_image_tight_copy_size_for_aspect :: "image_object \<Rightarrow> u32 \<Rightarrow> u32 \<Rightarrow> u32 \<Rightarrow> u64 option" where
  "vulkan_image_tight_copy_size_for_aspect im mip layers aspect =
     (if layers = 0 then None
      else case vulkan_image_tight_mip_size_for_aspect im mip aspect of
        None \<Rightarrow> None | Some n \<Rightarrow> checked_mul_u64_executor n (ucast layers))"

section \<open>The part that is copied\<close>

definition vulkan_graphics_merge_image_copy_range_for_aspect :: "image_object \<Rightarrow> subrange \<Rightarrow> u32 \<Rightarrow> int \<times> image_object" where
  "vulkan_graphics_merge_image_copy_range_for_aspect im r required =
     (if required = 0 \<or> sr_aspect r \<noteq> required \<or> sr_levels r = 0 \<or> sr_layers r = 0 \<or>
         io_mip_levels im \<le> sr_base_level r \<or> io_mip_levels im - sr_base_level r < sr_levels r \<or>
         io_array_layers im \<le> sr_base_layer r \<or> io_array_layers im - sr_base_layer r < sr_layers r
      then (- EOPNOTSUPP, im)
      else if io_copy_aspect im \<noteq> 0 \<and> io_copy_aspect im \<noteq> required then (- EOPNOTSUPP, im)
      else if io_copy_levels im \<noteq> 0 \<and>
         (io_copy_base_mip im \<noteq> sr_base_level r \<or> io_copy_levels im \<noteq> sr_levels r \<or>
          io_copy_base_layer im \<noteq> sr_base_layer r \<or> io_copy_layers im \<noteq> sr_layers r)
      then (- EOPNOTSUPP, im)
      else (0, im\<lparr>io_copy_aspect := required, io_copy_base_mip := sr_base_level r, io_copy_levels := sr_levels r,
                io_copy_base_layer := sr_base_layer r, io_copy_layers := sr_layers r\<rparr>))"

definition vulkan_graphics_attachment_aspect_mask :: "u32 \<Rightarrow> u32" where
  "vulkan_graphics_attachment_aspect_mask role =
     (if role = 1 then ASPECT_COLOR else if role = 2 then ASPECT_DEPTH else if role = 3 then ASPECT_STENCIL else 0)"

definition vulkan_graphics_merge_attachment_copy_range :: "image_object \<Rightarrow> subrange \<Rightarrow> u32 \<Rightarrow> int \<times> image_object" where
  "vulkan_graphics_merge_attachment_copy_range im r role =
     vulkan_graphics_merge_image_copy_range_for_aspect im r (vulkan_graphics_attachment_aspect_mask role)"

definition vulkan_graphics_merge_descriptor_image_copy_range :: "image_object \<Rightarrow> subrange \<Rightarrow> u32 \<Rightarrow> int \<times> image_object" where
  "vulkan_graphics_merge_descriptor_image_copy_range im r ty =
     (if ty \<in> set [1, 2, 3, 10] then vulkan_graphics_merge_image_copy_range_for_aspect im r ASPECT_COLOR
      else (- EOPNOTSUPP, im))"

section \<open>The layout of each part\<close>

definition vulkan_replay_subresource_ranges_overlap :: "subrange \<Rightarrow> subrange \<Rightarrow> bool" where
  "vulkan_replay_subresource_ranges_overlap a b \<longleftrightarrow>
     sr_aspect a AND sr_aspect b \<noteq> 0 \<and>
     sr_base_level a < sr_base_level b + sr_levels b \<and> sr_base_level b < sr_base_level a + sr_levels a \<and>
     sr_base_layer a < sr_base_layer b + sr_layers b \<and> sr_base_layer b < sr_base_layer a + sr_layers a"

definition vulkan_replay_subresource_range_contains :: "subrange \<Rightarrow> subrange \<Rightarrow> bool" where
  "vulkan_replay_subresource_range_contains outer inner \<longleftrightarrow>
     sr_aspect inner AND NOT (sr_aspect outer) = 0 \<and>
     sr_base_level outer \<le> sr_base_level inner \<and> sr_base_level inner + sr_levels inner \<le> sr_base_level outer + sr_levels outer \<and>
     sr_base_layer outer \<le> sr_base_layer inner \<and> sr_base_layer inner + sr_layers inner \<le> sr_base_layer outer + sr_layers outer"

text \<open>The layout of the entries that a range lies in, given the one found so far.\<close>

fun find_layout :: "subrange \<Rightarrow> layout_entry list \<Rightarrow> u32 option \<Rightarrow> int + u32 option" where
  "find_layout r [] found = Inr found"
| "find_layout r (e # es) found =
     (if \<not> vulkan_replay_subresource_ranges_overlap (le_range e) r then find_layout r es found
      else if \<not> vulkan_replay_subresource_range_contains (le_range e) r then Inl (- EOPNOTSUPP)
      else if found \<noteq> None \<and> found \<noteq> Some (le_layout e) then Inl (- EOPNOTSUPP)
      else find_layout r es (Some (le_layout e)))"

definition vulkan_replay_image_layout_for_range :: "image_object \<Rightarrow> subrange \<Rightarrow> int + u32" where
  "vulkan_replay_image_layout_for_range im r =
     (if \<not> io_ranges_active im then Inr (io_current_layout im)
      else case find_layout r (io_ranges im) None of
        Inl rc \<Rightarrow> Inl rc | Inr None \<Rightarrow> Inr (io_current_layout im) | Inr (Some l) \<Rightarrow> Inr l)"

text \<open>The entries that are this range get the layout; an entry that overlaps it otherwise ends the walk where it is.\<close>

fun set_layouts :: "subrange \<Rightarrow> u32 \<Rightarrow> layout_entry list \<Rightarrow> int \<times> bool \<times> layout_entry list" where
  "set_layouts r l [] = (0, False, [])"
| "set_layouts r l (e # es) =
     (if \<not> vulkan_replay_subresource_ranges_overlap (le_range e) r
      then (let (rc, updated, es') = set_layouts r l es in (rc, updated, e # es'))
      else if \<not> vulkan_replay_subresource_range_contains (le_range e) r \<or> \<not> vulkan_replay_subresource_range_contains r (le_range e)
      then (- EOPNOTSUPP, False, e # es)
      else (let (rc, updated, es') = set_layouts r l es in (rc, True, e\<lparr>le_layout := l\<rparr> # es')))"

definition vulkan_replay_image_set_layout_for_range :: "image_object \<Rightarrow> subrange \<Rightarrow> u32 \<Rightarrow> int \<times> image_object" where
  "vulkan_replay_image_set_layout_for_range im r l =
     (if \<not> io_ranges_active im then (0, im\<lparr>io_current_layout := l\<rparr>)
      else case set_layouts r l (io_ranges im) of (rc, updated, es) \<Rightarrow>
        if rc \<noteq> 0 then (rc, im\<lparr>io_ranges := es\<rparr>)
        else if updated then (0, im\<lparr>io_ranges := es\<rparr>)
        else if MAX_LAYOUT_RANGES \<le> length (io_ranges im) then (- E2BIG, im)
        else (0, im\<lparr>io_ranges := io_ranges im @ [\<lparr>le_range = r, le_layout = l, le_generation = 0\<rparr>]\<rparr>))"

section \<open>The layouts a frame begins with\<close>

definition vulkan_replay_image_layout_range_valid :: "image_object \<Rightarrow> subrange \<Rightarrow> bool" where
  "vulkan_replay_image_layout_range_valid im r \<longleftrightarrow>
     sr_aspect r \<noteq> 0 \<and> sr_levels r \<noteq> 0 \<and> sr_layers r \<noteq> 0 \<and> sr_base_level r < io_mip_levels im \<and>
     sr_base_layer r < io_array_layers im \<and>
     (let level_end = sr_base_level r + sr_levels r; layer_end = sr_base_layer r + sr_layers r in
      sr_base_level r \<le> level_end \<and> level_end \<le> io_mip_levels im \<and> sr_base_layer r \<le> layer_end \<and> layer_end \<le> io_array_layers im)"

definition add_layout_range :: "g_layout_range \<Rightarrow> image_object \<Rightarrow> int \<times> image_object" where
  "add_layout_range e im =
     (let r = \<lparr>sr_aspect = glr_aspect_mask e, sr_base_level = glr_base_mip_level e, sr_levels = glr_level_count e,
               sr_base_layer = glr_base_array_layer e, sr_layers = glr_layer_count e\<rparr> in
      if MAX_LAYOUT_RANGES \<le> length (io_ranges im) then (- E2BIG, im)
      else if \<not> vulkan_replay_image_layout_range_valid im r then (- ERANGE, im)
      else (0, im\<lparr>io_ranges := io_ranges im @ [\<lparr>le_range = r, le_layout = glr_layout e, le_generation = glr_layout_generation e\<rparr>],
                io_has_ranges := True\<rparr>))"

text \<open>The first image with the index gets the entry.\<close>

fun add_to_image :: "g_layout_range \<Rightarrow> image_object list \<Rightarrow> int \<times> image_object list" where
  "add_to_image e [] = (- EPROTO, [])"
| "add_to_image e (im # ims) =
     (if io_source_index im = glr_image_index e then (case add_layout_range e im of (rc, im') \<Rightarrow> (rc, im' # ims))
      else (case add_to_image e ims of (rc, ims') \<Rightarrow> (rc, im # ims')))"

fun add_layout_ranges :: "g_layout_range list \<Rightarrow> image_object list \<Rightarrow> int \<times> image_object list" where
  "add_layout_ranges [] ims = (0, ims)"
| "add_layout_ranges (e # es) ims =
     (case add_to_image e ims of (rc, ims') \<Rightarrow> if rc \<noteq> 0 then (rc, ims') else add_layout_ranges es ims')"

definition materialize_vulkan_graphics_v620_image_layout_ranges :: "v6_view \<Rightarrow> image_object list \<Rightarrow> int \<times> image_object list" where
  "materialize_vulkan_graphics_v620_image_layout_ranges v ims =
     (if \<not> is_v6 20 (gv_header v) then (0, ims) else add_layout_ranges (gv_layout_ranges v) ims)"

text \<open>
  The barriers that bring the parts of the images into their first layouts, as they are recorded: at most 64 in one call.
  Each is the image, the part, the old and the new layout.
\<close>

definition image_barriers :: "image_object \<Rightarrow> (u32 \<times> subrange \<times> u32 \<times> u32) list" where
  "image_barriers im =
     (if io_has_ranges im
      then map (\<lambda>e. (io_source_index im, le_range e, io_current_layout im, le_layout e))
             (filter (\<lambda>e. le_layout e \<noteq> io_current_layout im) (io_ranges im))
      else [])"

fun flush_barriers :: "'a list \<Rightarrow> 'a list \<Rightarrow> 'a list list" where
  "flush_barriers batch [] = (if batch = [] then [] else [batch])"
| "flush_barriers batch (b # bs) =
     (if MAX_LAYOUT_RANGES \<le> length batch then batch # flush_barriers [b] bs else flush_barriers (batch @ [b]) bs)"

definition record_vulkan_graphics_v620_initial_image_layout_ranges ::
    "image_object list \<Rightarrow> (u32 \<times> subrange \<times> u32 \<times> u32) list list \<times> image_object list" where
  "record_vulkan_graphics_v620_initial_image_layout_ranges ims =
     (flush_barriers [] (concat (map image_barriers ims)),
      map (\<lambda>im. if io_has_ranges im then im\<lparr>io_ranges_active := True\<rparr> else im) ims)"

end
