(* ===== verification/Image_Layouts.thy ===== *)
theory Image_Layouts
  imports Image_Objects Simulation
begin

text \<open>
  What the bookkeeping of an image's layouts implements: a function from the cells of the image, one for each aspect, mip
  level and layer, to a layout.
\<close>

section \<open>Ranges as sets of cells\<close>

type_synonym cell = "nat \<times> nat \<times> nat"

definition cells :: "subrange \<Rightarrow> cell set" where
  "cells r = {(a, l, y). bit (sr_aspect r) a \<and>
     unat (sr_base_level r) \<le> l \<and> l < unat (sr_base_level r) + unat (sr_levels r) \<and>
     unat (sr_base_layer r) \<le> y \<and> y < unat (sr_base_layer r) + unat (sr_layers r)}"

definition proper_range :: "subrange \<Rightarrow> bool" where
  "proper_range r \<longleftrightarrow> sr_aspect r \<noteq> 0 \<and> sr_levels r \<noteq> 0 \<and> sr_layers r \<noteq> 0 \<and>
     unat (sr_base_level r) + unat (sr_levels r) < 2 ^ 32 \<and> unat (sr_base_layer r) + unat (sr_layers r) < 2 ^ 32"

lemma bit_below: "bit a i \<Longrightarrow> i < 32" for a :: u32
  using bit_imp_le_length[of a i] by simp

lemma and_nonzero: "a AND b \<noteq> 0 \<longleftrightarrow> (\<exists>i. bit a i \<and> bit b i)" for a b :: u32
  using bit_below by (fastforce simp: bit_eq_iff bit_simps)

lemma and_not_zero: "a AND NOT b = 0 \<longleftrightarrow> (\<forall>i. bit a i \<longrightarrow> bit b i)" for a b :: u32
  using bit_below by (fastforce simp: bit_eq_iff bit_simps)

lemma sum32: "unat a + unat b < 2 ^ 32 \<Longrightarrow> unat (a + b) = unat a + unat b" for a b :: u32
  by (simp add: unat_word_ariths take_bit_nat_eq_self)

lemma proper_ends:
  assumes "proper_range r"
  shows "unat (sr_base_level r + sr_levels r) = unat (sr_base_level r) + unat (sr_levels r)"
    "unat (sr_base_layer r + sr_layers r) = unat (sr_base_layer r) + unat (sr_layers r)"
    "0 < unat (sr_levels r)" "0 < unat (sr_layers r)"
  using assms sum32 by (simp_all add: proper_range_def unat_gt_0)

lemma overlap_cells:
  assumes "proper_range a" "proper_range b"
  shows "vulkan_replay_subresource_ranges_overlap a b \<longleftrightarrow> cells a \<inter> cells b \<noteq> {}"
proof -
  note e = proper_ends[OF assms(1)] proper_ends[OF assms(2)]
  have meet: "(\<exists>n. x \<le> n \<and> n < x + k \<and> y \<le> n \<and> n < y + m) \<longleftrightarrow> x < y + m \<and> y < x + k" if "0 < k" "0 < m" for x k y m :: nat
    using that by (auto intro: exI[of _ "max x y"])
  have "cells a \<inter> cells b \<noteq> {} \<longleftrightarrow>
      (\<exists>i. bit (sr_aspect a) i \<and> bit (sr_aspect b) i) \<and>
      (\<exists>n. unat (sr_base_level a) \<le> n \<and> n < unat (sr_base_level a) + unat (sr_levels a) \<and>
           unat (sr_base_level b) \<le> n \<and> n < unat (sr_base_level b) + unat (sr_levels b)) \<and>
      (\<exists>n. unat (sr_base_layer a) \<le> n \<and> n < unat (sr_base_layer a) + unat (sr_layers a) \<and>
           unat (sr_base_layer b) \<le> n \<and> n < unat (sr_base_layer b) + unat (sr_layers b))"
    unfolding cells_def by blast
  then show ?thesis
    unfolding meet[OF e(3) e(7)] meet[OF e(4) e(8)] and_nonzero[symmetric] vulkan_replay_subresource_ranges_overlap_def
    by (simp add: word_less_nat_alt e)
qed

lemma contains_cells:
  assumes "proper_range a" "proper_range b"
  shows "vulkan_replay_subresource_range_contains a b \<longleftrightarrow> cells b \<subseteq> cells a"
proof -
  note e = proper_ends[OF assms(1)] proper_ends[OF assms(2)]
  let ?l = "\<lambda>r. {unat (sr_base_level r)..<unat (sr_base_level r) + unat (sr_levels r)}"
  let ?y = "\<lambda>r. {unat (sr_base_layer r)..<unat (sr_base_layer r) + unat (sr_layers r)}"
  have prod: "cells r = {i. bit (sr_aspect r) i} \<times> (?l r \<times> ?y r)" for r by (auto simp: cells_def)
  have ne: "{i. bit (sr_aspect b) i} \<noteq> {}" using assms(2) by (auto simp: proper_range_def bit_eq_iff)
  have "cells b \<subseteq> cells a \<longleftrightarrow> {i. bit (sr_aspect b) i} \<subseteq> {i. bit (sr_aspect a) i} \<and> ?l b \<subseteq> ?l a \<and> ?y b \<subseteq> ?y a"
    unfolding prod using ne e(7,8) by (auto simp: times_subset_iff)
  also have "\<dots> \<longleftrightarrow> vulkan_replay_subresource_range_contains a b"
    using e by (auto simp: vulkan_replay_subresource_range_contains_def and_not_zero word_le_nat_alt)
  finally show ?thesis ..
qed

lemma cells_nonempty: "proper_range r \<Longrightarrow> cells r \<noteq> {}"
  using overlap_cells[of r r] proper_ends[of r]
  by (auto simp: vulkan_replay_subresource_ranges_overlap_def word_less_nat_alt proper_range_def)

section \<open>Entries\<close>

text \<open>Entries that share a cell agree on the layout.\<close>

definition consistent :: "layout_entry list \<Rightarrow> bool" where
  "consistent es \<longleftrightarrow> list_all (\<lambda>e. proper_range (le_range e)) es \<and>
     (\<forall>e\<in>set es. \<forall>e'\<in>set es. cells (le_range e) \<inter> cells (le_range e') \<noteq> {} \<longrightarrow> le_layout e = le_layout e')"

definition layout_in :: "layout_entry list \<Rightarrow> u32 \<Rightarrow> cell \<Rightarrow> u32" where
  "layout_in es current c = (case find (\<lambda>e. c \<in> cells (le_range e)) es of Some e \<Rightarrow> le_layout e | None \<Rightarrow> current)"

lemma layout_in_entry:
  "consistent es \<Longrightarrow> e \<in> set es \<Longrightarrow> c \<in> cells (le_range e) \<Longrightarrow> layout_in es current c = le_layout e"
  unfolding layout_in_def consistent_def by (auto simp: find_Some_iff find_None_iff split: option.split dest: nth_mem)

lemma layout_in_none: "(\<And>e. e \<in> set es \<Longrightarrow> c \<notin> cells (le_range e)) \<Longrightarrow> layout_in es current c = current"
  unfolding layout_in_def by (auto simp: find_None_iff find_Some_iff split: option.split dest: nth_mem)

lemma find_layout_result:
  assumes "find_layout r es found = Inr res" "proper_range r" "list_all (\<lambda>e. proper_range (le_range e)) es"
  shows "(found \<noteq> None \<longrightarrow> res = found) \<and>
    (\<forall>e\<in>set es. cells (le_range e) \<inter> cells r \<noteq> {} \<longrightarrow> cells r \<subseteq> cells (le_range e) \<and> res = Some (le_layout e)) \<and>
    (found = None \<and> res \<noteq> None \<longrightarrow> (\<exists>e\<in>set es. cells (le_range e) \<inter> cells r \<noteq> {}))"
  using assms
proof (induction es arbitrary: found)
  case (Cons e es)
  have e: "proper_range (le_range e)" using Cons.prems(3) by simp
  note o = overlap_cells[OF e Cons.prems(2)] contains_cells[OF e Cons.prems(2)]
  show ?case
  proof (cases "vulkan_replay_subresource_ranges_overlap (le_range e) r")
    case False
    then show ?thesis using Cons.IH[of found] Cons.prems o by auto
  next
    case True
    with Cons.prems have "find_layout r es (Some (le_layout e)) = Inr res" "cells r \<subseteq> cells (le_range e)"
      "found = None \<or> found = Some (le_layout e)"
      using o by (auto split: if_splits)
    then show ?thesis using Cons.IH[of "Some (le_layout e)"] Cons.prems(2,3) True o by auto
  qed
qed auto

lemma find_layout_uniform:
  assumes "find_layout r es None = Inr res" "proper_range r" "consistent es"
  shows "layout_in es current ` cells r = {case res of Some l \<Rightarrow> l | None \<Rightarrow> current}"
proof -
  note f = find_layout_result[OF assms(1,2)] assms(3)[unfolded consistent_def]
  have "layout_in es current c = (case res of Some l \<Rightarrow> l | None \<Rightarrow> current)" if c: "c \<in> cells r" for c
  proof (cases "\<exists>e\<in>set es. cells (le_range e) \<inter> cells r \<noteq> {}")
    case True
    then obtain e where e: "e \<in> set es" "cells (le_range e) \<inter> cells r \<noteq> {}" by blast
    then have "cells r \<subseteq> cells (le_range e)" "res = Some (le_layout e)" using f by auto
    then have "c \<in> cells (le_range e)" using c by blast
    then show ?thesis using layout_in_entry[OF assms(3) e(1)] \<open>res = _\<close> by simp
  next
    case False
    then have "res = None" using f by auto
    then show ?thesis using False c layout_in_none[of es c current] by auto
  qed
  then show ?thesis using cells_nonempty[OF assms(2)] by auto
qed

text \<open>When the walk succeeds it has set the layout of the entries that are the range, and no other entry shares a cell with it.\<close>

lemma set_layouts_result:
  assumes "set_layouts r l es = (0, updated, es')" "proper_range r" "list_all (\<lambda>e. proper_range (le_range e)) es"
  shows "es' = map (\<lambda>e. if cells (le_range e) \<inter> cells r \<noteq> {} then e\<lparr>le_layout := l\<rparr> else e) es \<and>
    (\<forall>e\<in>set es. cells (le_range e) \<inter> cells r \<noteq> {} \<longrightarrow> cells (le_range e) = cells r) \<and>
    (updated \<longleftrightarrow> (\<exists>e\<in>set es. cells (le_range e) \<inter> cells r \<noteq> {}))"
  using assms
proof (induction es arbitrary: updated es')
  case (Cons e es)
  have e: "proper_range (le_range e)" using Cons.prems(3) by simp
  note o = overlap_cells[OF e Cons.prems(2)] contains_cells[OF e Cons.prems(2)] contains_cells[OF Cons.prems(2) e]
  obtain rc u es1 where s: "set_layouts r l es = (rc, u, es1)" by (metis prod_cases3)
  show ?case
  proof (cases "vulkan_replay_subresource_ranges_overlap (le_range e) r")
    case False
    then have "rc = 0" "updated = u" "es' = e # es1" using Cons.prems(1) s by auto
    then show ?thesis using Cons.IH[of u es1] s Cons.prems(2,3) False o by auto
  next
    case True
    then have "rc = 0" "updated" "es' = e\<lparr>le_layout := l\<rparr> # es1" "cells (le_range e) = cells r"
      using Cons.prems(1) s o by (auto split: if_splits)
    then show ?thesis using Cons.IH[of u es1] s Cons.prems(2,3) True o by auto
  qed
qed simp

lemma consistent_updated:
  assumes "consistent es" "\<forall>e\<in>set es. cells (le_range e) \<inter> cells r \<noteq> {} \<longrightarrow> cells (le_range e) = cells r"
  shows "consistent (map (\<lambda>e. if cells (le_range e) \<inter> cells r \<noteq> {} then e\<lparr>le_layout := l\<rparr> else e) es)" (is "consistent (map ?f es)")
proof -
  have f: "le_range (?f e) = le_range e" for e by simp
  have "le_layout (?f e) = le_layout (?f e')" if "e \<in> set es" "e' \<in> set es" "cells (le_range e) \<inter> cells (le_range e') \<noteq> {}" for e e'
  proof (cases "cells (le_range e) \<inter> cells r \<noteq> {} \<or> cells (le_range e') \<inter> cells r \<noteq> {}")
    case True
    then have "cells (le_range e) \<inter> cells r \<noteq> {}" "cells (le_range e') \<inter> cells r \<noteq> {}" using assms(2) that by auto
    then show ?thesis by simp
  next
    case False
    then show ?thesis using assms(1) that by (simp add: consistent_def)
  qed
  then show ?thesis using assms(1) unfolding consistent_def list_all_iff set_map ball_simps f by blast
qed

section \<open>An image whose parts are followed\<close>

definition followed :: "image_object \<Rightarrow> bool" where
  "followed im \<longleftrightarrow> io_ranges_active im \<and> consistent (io_ranges im) \<and> length (io_ranges im) \<le> MAX_LAYOUT_RANGES"

definition layout_at :: "image_object \<Rightarrow> cell \<Rightarrow> u32" where
  "layout_at im = layout_in (io_ranges im) (io_current_layout im)"

lemma set_layout_followed:
  assumes im: "followed im" and r: "proper_range r"
    and set: "vulkan_replay_image_set_layout_for_range im r l = (0, im')"
  shows "followed im' \<and> layout_at im' = (\<lambda>c. if c \<in> cells r then l else layout_at im c)"
proof -
  note c = im[unfolded followed_def]
  have p: "list_all (\<lambda>e. proper_range (le_range e)) (io_ranges im)" using c by (simp add: consistent_def)
  obtain rc u es where s: "set_layouts r l (io_ranges im) = (rc, u, es)" by (metis prod_cases3)
  with set c have rc: "rc = 0" by (auto simp: vulkan_replay_image_set_layout_for_range_def split: if_splits)
  note res = set_layouts_result[OF s[unfolded rc] r p]
  show ?thesis
  proof (cases u)
    case True
    then have im': "im' = im\<lparr>io_ranges := es\<rparr>" using set c s rc by (simp add: vulkan_replay_image_set_layout_for_range_def)
    have es: "es = map (\<lambda>e. if cells (le_range e) \<inter> cells r \<noteq> {} then e\<lparr>le_layout := l\<rparr> else e) (io_ranges im)" using res by simp
    have con: "consistent es" using c res unfolding es by (intro consistent_updated) auto
    have "layout_in es cur x = (if x \<in> cells r then l else layout_in (io_ranges im) cur x)" for x cur
    proof (cases "\<exists>e\<in>set (io_ranges im). x \<in> cells (le_range e)")
      case True
      then obtain e where e: "e \<in> set (io_ranges im)" "x \<in> cells (le_range e)" by blast
      let ?e = "if cells (le_range e) \<inter> cells r \<noteq> {} then e\<lparr>le_layout := l\<rparr> else e"
      have "?e \<in> set es" using e(1) unfolding es by (simp only: set_map) (rule imageI)
      moreover have "x \<in> cells (le_range ?e)" using e(2) by simp
      ultimately have "layout_in es cur x = le_layout ?e" by (rule layout_in_entry[OF con])
      moreover have "layout_in (io_ranges im) cur x = le_layout e" using c e by (intro layout_in_entry) auto
      ultimately show ?thesis using res e by auto
    next
      case False
      then have "layout_in (io_ranges im) cur x = cur" "layout_in es cur x = cur"
        by (auto intro!: layout_in_none simp: es split: if_splits)
      moreover have "x \<notin> cells r" using False res True by auto
      ultimately show ?thesis by simp
    qed
    then show ?thesis using con c im' by (auto simp: followed_def layout_at_def es)
  next
    case False
    let ?e = "\<lparr>le_range = r, le_layout = l, le_generation = 0\<rparr>"
    have im': "im' = im\<lparr>io_ranges := io_ranges im @ [?e]\<rparr>" "length (io_ranges im) < MAX_LAYOUT_RANGES"
      using set c s rc False by (auto simp: vulkan_replay_image_set_layout_for_range_def split: if_splits)
    have none: "\<forall>e\<in>set (io_ranges im). cells (le_range e) \<inter> cells r = {}" using False res by auto
    have con: "consistent (io_ranges im @ [?e])" using c none r by (auto simp: consistent_def)
    have "layout_in (io_ranges im @ [?e]) cur x = (if x \<in> cells r then l else layout_in (io_ranges im) cur x)" for x cur
    proof (cases "x \<in> cells r")
      case True
      then show ?thesis using layout_in_entry[OF con, of ?e x] by simp
    next
      case False
      show ?thesis
      proof (cases "\<exists>e\<in>set (io_ranges im). x \<in> cells (le_range e)")
        case True
        then obtain e where "e \<in> set (io_ranges im)" "x \<in> cells (le_range e)" by blast
        then show ?thesis using layout_in_entry[OF con, of e x cur] layout_in_entry[of "io_ranges im" e x cur] c False by simp
      next
        case none: False
        then show ?thesis
          using False by (simp, subst layout_in_none, force, subst layout_in_none, auto)
      qed
    qed
    then show ?thesis using con c im' by (auto simp: followed_def layout_at_def)
  qed
qed

datatype layout_op = Layout_of subrange | Set_layout subrange u32

text \<open>A query that succeeds answers one layout, an update nothing. Ranges wrap around nowhere and are not empty.\<close>

definition layout_step :: "layout_op \<Rightarrow> image_object \<Rightarrow> (u32 set \<times> image_object) option" where
  "layout_step op im =
     (case op of
        Layout_of r \<Rightarrow>
          (if proper_range r then case vulkan_replay_image_layout_for_range im r of Inl rc \<Rightarrow> None | Inr l \<Rightarrow> Some ({l}, im)
           else None)
      | Set_layout r l \<Rightarrow>
          (if proper_range r
           then case vulkan_replay_image_set_layout_for_range im r l of (rc, im') \<Rightarrow> if rc = 0 then Some ({}, im') else None
           else None))"

definition cell_step :: "layout_op \<Rightarrow> (cell \<Rightarrow> u32) \<Rightarrow> u32 set \<times> (cell \<Rightarrow> u32)" where
  "cell_step op f =
     (case op of Layout_of r \<Rightarrow> (f ` cells r, f) | Set_layout r l \<Rightarrow> ({}, \<lambda>c. if c \<in> cells r then l else f c))"

interpretation layouts: simulation layout_step cell_step layout_at followed
proof unfold_locales
  fix im a out im'
  assume f: "followed im" and s: "layout_step a im = Some (out, im')"
  have "followed im' \<and> cell_step a (layout_at im) = (out, layout_at im')"
  proof (cases a)
    case (Layout_of r)
    then obtain l where r: "proper_range r" "vulkan_replay_image_layout_for_range im r = Inr l" "out = {l}" "im' = im"
      using s by (auto simp: layout_step_def split: if_splits sum.splits)
    then obtain res where "find_layout r (io_ranges im) None = Inr res" "l = (case res of Some l \<Rightarrow> l | None \<Rightarrow> io_current_layout im)"
      using f by (auto simp: vulkan_replay_image_layout_for_range_def followed_def split: sum.splits option.splits)
    then show ?thesis using find_layout_uniform[of r "io_ranges im" res "io_current_layout im"] r f Layout_of
      by (simp add: cell_step_def layout_at_def followed_def)
  next
    case (Set_layout r l)
    then have "proper_range r" "vulkan_replay_image_set_layout_for_range im r l = (0, im')" "out = {}"
      using s by (auto simp: layout_step_def split: if_splits prod.splits)
    then show ?thesis using set_layout_followed[OF f] Set_layout by (simp add: cell_step_def)
  qed
  then show "followed im'" "cell_step a (layout_at im) = (out, layout_at im')" by auto
qed

end
