(* ===== verification/Image_Theorems.thy ===== *)
theory Image_Theorems
  imports Image_Layouts Graphics_Example
begin

text \<open>
  The properties of the images of a graphics frame: where their parts lie when they are staged, and the layouts that are
  kept for them.
\<close>

declare first_fault.simps(2) [simp del]

section \<open>Where the bytes of a part lie\<close>

lemma checked_add_exact: "checked_add_u64_executor a b = Some c \<Longrightarrow> unat c = unat a + unat b"
proof -
  assume "checked_add_u64_executor a b = Some c"
  then have "a \<le> UINT64_MAX - b" "c = a + b" by (auto simp: checked_add_u64_executor_def not_less split: if_splits)
  moreover have "b \<le> UINT64_MAX" using unat_lt64[of b] by (simp add: word_le_nat_alt)
  ultimately have "unat a + unat b < 2 ^ 64" using unat_lt64[of b] by (simp add: word_le_nat_alt unat_sub)
  then show ?thesis using \<open>c = a + b\<close> by (simp add: unat_word_ariths take_bit_nat_eq_self)
qed

text \<open>The bytes of the first levels.\<close>

definition levels_bytes :: "(u32 \<Rightarrow> u64 option) \<Rightarrow> nat \<Rightarrow> nat" where
  "levels_bytes sz k = (\<Sum>m<k. case sz (of_nat m) of Some n \<Rightarrow> unat n | None \<Rightarrow> 0)"

lemma levels_bytes_mono: "j \<le> k \<Longrightarrow> levels_bytes sz j \<le> levels_bytes sz k"
  unfolding levels_bytes_def by (rule sum_mono2) auto

lemma levels_bytes_Suc: "sz (of_nat k) = Some n \<Longrightarrow> levels_bytes sz (Suc k) = levels_bytes sz k + unat n"
  by (simp add: levels_bytes_def)

lemma add_sizes_sum:
  "add_sizes sz acc mips = Some t \<Longrightarrow>
   unat t = unat acc + sum_list (map (\<lambda>m. case sz m of Some n \<Rightarrow> unat n | None \<Rightarrow> 0) mips)"
  by (induction mips arbitrary: acc) (auto simp: checked_add_exact split: option.splits)

lemma add_sizes_levels:
  assumes "add_sizes sz acc (indices 0 n) = Some t"
  shows "unat t = unat acc + levels_bytes sz (unat n)"
proof -
  have "sum_list (map f (indices 0 n)) = (\<Sum>m<unat n. f (of_nat m))" for f :: "u32 \<Rightarrow> nat"
    by (simp add: indices_def sum_list_distinct_conv_sum_set lessThan_atLeast0 comp_def)
  then show ?thesis using add_sizes_sum[OF assms] by (simp add: levels_bytes_def)
qed

lemma offset_exact:
  assumes "vulkan_image_tight_subresource_offset_for_aspect im mip layer aspect = Some off"
  defines "sz \<equiv> \<lambda>m. vulkan_image_tight_mip_size_for_aspect im m aspect"
  shows "unat off = levels_bytes sz (unat (io_mip_levels im)) * unat layer + levels_bytes sz (unat mip)"
    "unat mip < unat (io_mip_levels im)" "unat layer < unat (io_array_layers im)"
proof -
  obtain stride base where s: "vulkan_image_tight_layer_stride_for_aspect im aspect = Some stride"
    "checked_mul_u64_executor stride (ucast layer) = Some base" "add_sizes sz base (indices 0 mip) = Some off"
    using assms by (auto simp: vulkan_image_tight_subresource_offset_for_aspect_def split: if_splits option.splits)
  have "unat stride = levels_bytes sz (unat (io_mip_levels im))"
    using add_sizes_levels[of sz 0] s(1) by (simp add: vulkan_image_tight_layer_stride_for_aspect_def sz_def)
  then show "unat off = levels_bytes sz (unat (io_mip_levels im)) * unat layer + levels_bytes sz (unat mip)"
    using add_sizes_levels[OF s(3)] checked_mul_unat[OF s(2)] by simp
  show "unat mip < unat (io_mip_levels im)" "unat layer < unat (io_array_layers im)"
    using assms by (auto simp: vulkan_image_tight_subresource_offset_for_aspect_def not_le word_less_nat_alt split: if_splits)
qed

lemma part_exact:
  assumes "vulkan_image_tight_subresource_offset_for_aspect im mip layer aspect = Some off"
    "vulkan_image_tight_mip_size_for_aspect im mip aspect = Some n"
  defines "sz \<equiv> \<lambda>m. vulkan_image_tight_mip_size_for_aspect im m aspect"
  shows "unat off + unat n = levels_bytes sz (unat (io_mip_levels im)) * unat layer + levels_bytes sz (Suc (unat mip))"
    "levels_bytes sz (Suc (unat mip)) \<le> levels_bytes sz (unat (io_mip_levels im))"
proof -
  have "levels_bytes sz (Suc (unat mip)) = levels_bytes sz (unat mip) + unat n"
    using levels_bytes_Suc[of sz "unat mip"] assms(2) by (simp add: sz_def)
  then show "unat off + unat n = levels_bytes sz (unat (io_mip_levels im)) * unat layer + levels_bytes sz (Suc (unat mip))"
    using offset_exact[OF assms(1)] by (simp add: sz_def)
  show "levels_bytes sz (Suc (unat mip)) \<le> levels_bytes sz (unat (io_mip_levels im))"
    using offset_exact(2)[OF assms(1)] by (intro levels_bytes_mono) simp
qed

text \<open>One part ends before the other begins: it is in an earlier layer, or in the same layer at an earlier level.\<close>

lemma part_before:
  assumes "vulkan_image_tight_subresource_offset_for_aspect im mip layer aspect = Some off"
    "vulkan_image_tight_mip_size_for_aspect im mip aspect = Some n"
    "vulkan_image_tight_subresource_offset_for_aspect im mip' layer' aspect = Some off'"
    "layer < layer' \<or> layer = layer' \<and> mip < mip'"
  shows "unat off + unat n \<le> unat off'"
proof -
  let ?sz = "\<lambda>m. vulkan_image_tight_mip_size_for_aspect im m aspect" and ?k = "unat (io_mip_levels im)"
  note e = part_exact[OF assms(1,2)] offset_exact(1)[OF assms(3)]
  show ?thesis
  proof (cases "layer < layer'")
    case True
    then have "Suc (unat layer) \<le> unat layer'" by (simp add: word_less_nat_alt)
    then have "levels_bytes ?sz ?k * Suc (unat layer) \<le> levels_bytes ?sz ?k * unat layer'" by (rule mult_le_mono2)
    then show ?thesis using e by simp
  next
    case False
    then have "levels_bytes ?sz (Suc (unat mip)) \<le> levels_bytes ?sz (unat mip')"
      using assms(4) by (intro levels_bytes_mono) (auto simp: word_less_nat_alt)
    then show ?thesis using e False assms(4) by simp
  qed
qed

lemma color_sizes:
  "vulkan_image_tight_mip_size_for_aspect im mip ASPECT_COLOR = vulkan_image_tight_mip_size im mip"
  "vulkan_image_tight_subresource_offset_for_aspect im mip layer ASPECT_COLOR = vulkan_image_tight_subresource_offset im mip layer"
  "vulkan_image_tight_layer_stride_for_aspect im ASPECT_COLOR = vulkan_image_tight_layer_stride im"
proof -
  have "vulkan_format_bytes_per_pixel_conservative f \<noteq> 0" for f
    by (simp add: vulkan_format_bytes_per_pixel_conservative_def Let_def)
  then show m: "vulkan_image_tight_mip_size_for_aspect im mip ASPECT_COLOR = vulkan_image_tight_mip_size im mip" for mip
    by (simp add: vulkan_image_tight_mip_size_for_aspect_def vulkan_image_tight_mip_size_def Let_def
        vulkan_format_bytes_per_pixel_for_aspect_def split: option.split)
  show "vulkan_image_tight_subresource_offset_for_aspect im mip layer ASPECT_COLOR = vulkan_image_tight_subresource_offset im mip layer"
    by (simp add: vulkan_image_tight_subresource_offset_for_aspect_def vulkan_image_tight_subresource_offset_def m
        vulkan_image_tight_layer_stride_for_aspect_def vulkan_image_tight_layer_stride_def cong: option.case_cong)
  show "vulkan_image_tight_layer_stride_for_aspect im ASPECT_COLOR = vulkan_image_tight_layer_stride im"
    by (simp add: m vulkan_image_tight_layer_stride_for_aspect_def vulkan_image_tight_layer_stride_def)
qed

text \<open>
  C30. In the buffer an image is staged in, two parts of the image of one aspect that differ in their mip level or layer, and
  whose places and sizes the code can compute, share no byte, and each part ends inside the layers of the image. For the aspect of color the places and sizes of the parts and the
  size of a layer are those that the code computes without an aspect.
\<close>

theorem staged_parts_apart:
  assumes "vulkan_image_tight_subresource_offset_for_aspect im mip layer aspect = Some off"
    "vulkan_image_tight_mip_size_for_aspect im mip aspect = Some n"
    "vulkan_image_tight_subresource_offset_for_aspect im mip' layer' aspect = Some off'"
    "vulkan_image_tight_mip_size_for_aspect im mip' aspect = Some n'"
    "(mip, layer) \<noteq> (mip', layer')"
    "vulkan_image_tight_layer_stride_for_aspect im aspect = Some stride"
  shows "{unat off..<unat off + unat n} \<inter> {unat off'..<unat off' + unat n'} = {} \<and>
    unat off + unat n \<le> unat stride * unat (io_array_layers im) \<and>
    (if aspect = ASPECT_COLOR
     then vulkan_image_tight_subresource_offset im mip layer = Some off \<and> vulkan_image_tight_mip_size im mip = Some n \<and>
       vulkan_image_tight_layer_stride im = Some stride else True)"
proof (intro conjI)
  have "unat off + unat n \<le> unat off' \<or> unat off' + unat n' \<le> unat off"
    using part_before[OF assms(1,2,3)] part_before[OF assms(3,4,1)] assms(5) by (cases layer layer' rule: linorder_cases; cases mip mip' rule: linorder_cases) auto
  then show "{unat off..<unat off + unat n} \<inter> {unat off'..<unat off' + unat n'} = {}" by auto
  let ?sz = "\<lambda>m. vulkan_image_tight_mip_size_for_aspect im m aspect"
  have "unat stride = levels_bytes ?sz (unat (io_mip_levels im))"
    using add_sizes_levels[of ?sz 0 "io_mip_levels im" stride] assms(6)
    by (simp add: vulkan_image_tight_layer_stride_for_aspect_def)
  moreover have "unat stride * Suc (unat layer) \<le> unat stride * unat (io_array_layers im)"
    using offset_exact(3)[OF assms(1)] by (intro mult_le_mono2) simp
  ultimately show "unat off + unat n \<le> unat stride * unat (io_array_layers im)" using part_exact[OF assms(1,2)] by simp
  show "if aspect = ASPECT_COLOR
     then vulkan_image_tight_subresource_offset im mip layer = Some off \<and> vulkan_image_tight_mip_size im mip = Some n \<and>
       vulkan_image_tight_layer_stride im = Some stride else True"
    using assms(1,2,6) color_sizes by (cases "aspect = ASPECT_COLOR") simp_all
qed

text \<open>An image of 16 by 8 texels of 4 bytes with 3 levels and 2 layers.\<close>

definition sample_image :: image_object where
  "sample_image =
     \<lparr>io_source_index = 0, io_current_layout = 0, io_ranges = [], io_has_ranges = False, io_ranges_active = False,
      io_width = 16, io_height = 8, io_depth = 1, io_format = 37, io_array_layers = 2, io_mip_levels = 3, io_copy_aspect = 0,
      io_copy_base_mip = 0, io_copy_levels = 0, io_copy_base_layer = 0, io_copy_layers = 0\<rparr>"

lemma staged_parts_apart_witness:
  "vulkan_image_tight_subresource_offset_for_aspect sample_image 2 0 ASPECT_COLOR = Some 640 \<and>
   vulkan_image_tight_subresource_offset_for_aspect sample_image 0 1 ASPECT_COLOR = Some 672 \<and>
   {640..<672 :: nat} \<inter> {672..<1184} = {}"
proof -
  have v: "vulkan_image_tight_subresource_offset_for_aspect sample_image 2 0 ASPECT_COLOR = Some 640"
    "vulkan_image_tight_mip_size_for_aspect sample_image 2 ASPECT_COLOR = Some 32"
    "vulkan_image_tight_subresource_offset_for_aspect sample_image 0 1 ASPECT_COLOR = Some 672"
    "vulkan_image_tight_mip_size_for_aspect sample_image 0 ASPECT_COLOR = Some 512"
    "vulkan_image_tight_layer_stride_for_aspect sample_image ASPECT_COLOR = Some 672"
    by code_simp+
  show ?thesis using staged_parts_apart[OF v(1-4) _ v(5)] v(1,3) by simp
qed

section \<open>Layouts\<close>

text \<open>
  C29. The layouts kept for an image whose parts are followed are a function from its cells (aspect, mip level and layer)
  to layouts: over every run of queries and updates that all succeed, whatever entries are split off and matched, each
  query answers the one layout that all cells of its range have, each update changes the cells of its range and no others,
  and at the end the image stands for the function the updates made.
\<close>

theorem layouts_follow_cells:
  assumes "followed im" "run_steps layout_step ops im = Some (outs, im')"
  shows "spec_steps cell_step ops (layout_at im) = (outs, layout_at im') \<and> followed im'"
  using layouts.run_refines[OF assms] by simp

definition level_range :: "u32 \<Rightarrow> subrange" where
  "level_range l = \<lparr>sr_aspect = 1, sr_base_level = l, sr_levels = 1, sr_base_layer = 0, sr_layers = 2\<rparr>"

lemma layouts_follow_cells_witness:
  "run_steps layout_step
     [Set_layout (level_range 0) 7, Set_layout (level_range 1) 5, Layout_of (level_range 0), Layout_of (level_range 2)]
     (sample_image\<lparr>io_ranges_active := True\<rparr>) =
   Some ([{}, {}, {7}, {0}], sample_image\<lparr>io_ranges_active := True, io_ranges :=
     [\<lparr>le_range = level_range 0, le_layout = 7, le_generation = 0\<rparr>, \<lparr>le_range = level_range 1, le_layout = 5, le_generation = 0\<rparr>]\<rparr>) \<and>
   cells (level_range 2) \<noteq> {} \<and>
   fst (spec_steps cell_step
     [Set_layout (level_range 0) 7, Set_layout (level_range 1) 5, Layout_of (level_range 0), Layout_of (level_range 2)]
     (layout_at (sample_image\<lparr>io_ranges_active := True\<rparr>))) = [{}, {}, {7}, {0}]"
proof -
  let ?im = "sample_image\<lparr>io_ranges_active := True\<rparr>"
  let ?ops = "[Set_layout (level_range 0) 7, Set_layout (level_range 1) 5, Layout_of (level_range 0), Layout_of (level_range 2)]"
  let ?after = "sample_image\<lparr>io_ranges_active := True, io_ranges :=
     [\<lparr>le_range = level_range 0, le_layout = 7, le_generation = 0\<rparr>, \<lparr>le_range = level_range 1, le_layout = 5, le_generation = 0\<rparr>]\<rparr>"
  have f: "sr_aspect (level_range l) = 1" "sr_base_level (level_range l) = l" "sr_levels (level_range l) = 1"
    "sr_base_layer (level_range l) = 0" "sr_layers (level_range l) = 2" for l
    by (simp_all add: level_range_def)
  have p: "proper_range (level_range 0)" "proper_range (level_range 1)" "proper_range (level_range 2)"
    by (simp_all add: proper_range_def f)
  have run: "run_steps layout_step ?ops ?im = Some ([{}, {}, {7}, {0}], ?after)"
    by (simp add: layout_step_def p vulkan_replay_image_set_layout_for_range_def vulkan_replay_image_layout_for_range_def
        sample_image_def MAX_LAYOUT_RANGES_def f vulkan_replay_subresource_ranges_overlap_def
        vulkan_replay_subresource_range_contains_def)
  have "followed ?im" by (simp add: followed_def sample_image_def consistent_def)
  from layouts_follow_cells[OF this run] show ?thesis using run cells_nonempty[OF p(3)] by simp
qed

text \<open>The entry of a frame as the image keeps it.\<close>

definition range_of_entry :: "g_layout_range \<Rightarrow> subrange" where
  "range_of_entry e =
     \<lparr>sr_aspect = glr_aspect_mask e, sr_base_level = glr_base_mip_level e, sr_levels = glr_level_count e,
      sr_base_layer = glr_base_array_layer e, sr_layers = glr_layer_count e\<rparr>"

definition kept_entry :: "g_layout_range \<Rightarrow> layout_entry" where
  "kept_entry e = \<lparr>le_range = range_of_entry e, le_layout = glr_layout e, le_generation = glr_layout_generation e\<rparr>"

lemma kept_entry_simps [simp]: "le_range (kept_entry e) = range_of_entry e" "le_layout (kept_entry e) = glr_layout e"
  by (simp_all add: kept_entry_def)

lemma valid_proper:
  assumes "vulkan_replay_image_layout_range_valid im r"
  shows "proper_range r"
proof -
  have wrap: "unat a + unat b < 2 ^ 32" if "a \<le> a + b" for a b :: u32
    using that no_olen_add_nat[of a b] by simp
  show ?thesis
    using assms wrap[of "sr_base_level r" "sr_levels r"] wrap[of "sr_base_layer r" "sr_layers r"]
    by (simp add: vulkan_replay_image_layout_range_valid_def Let_def proper_range_def)
qed

text \<open>What an image has taken in of the entries so far.\<close>

definition with_entries :: "g_layout_range list \<Rightarrow> image_object \<Rightarrow> image_object" where
  "with_entries es im =
     (let mine = filter (\<lambda>e. glr_image_index e = io_source_index im) es in
      im\<lparr>io_ranges := io_ranges im @ map kept_entry mine, io_has_ranges := io_has_ranges im \<or> mine \<noteq> []\<rparr>)"

lemma with_entries_simps [simp]:
  "with_entries [] im = im" "io_source_index (with_entries es im) = io_source_index im"
  "with_entries es (with_entries [e] im) = with_entries (e # es) im"
  "glr_image_index e \<noteq> io_source_index im \<Longrightarrow> with_entries (e # es) im = with_entries es im"
  by (simp_all add: with_entries_def Let_def)

lemma add_to_image_exact:
  assumes "add_to_image e ims = (0, ims')" "distinct (map io_source_index ims)"
  shows "ims' = map (with_entries [e]) ims \<and>
    (\<exists>im\<in>set ims. io_source_index im = glr_image_index e \<and> vulkan_replay_image_layout_range_valid im (range_of_entry e) \<and>
       length (io_ranges im) < MAX_LAYOUT_RANGES)"
  using assms
proof (induction ims arbitrary: ims')
  case (Cons im ims)
  show ?case
  proof (cases "io_source_index im = glr_image_index e")
    case True
    then have "map (with_entries [e]) ims = ims" using Cons.prems(2) by (intro map_idI) (auto simp: image_iff)
    moreover have "add_layout_range e im = (0, with_entries [e] im)" "vulkan_replay_image_layout_range_valid im (range_of_entry e)"
      "length (io_ranges im) < MAX_LAYOUT_RANGES" "ims' = with_entries [e] im # ims"
      using Cons.prems(1) True
      by (auto simp: add_layout_range_def with_entries_def kept_entry_def range_of_entry_def Let_def split: if_splits)
    ultimately show ?thesis using True by simp
  next
    case False
    then obtain ims1 where "add_to_image e ims = (0, ims1)" "ims' = im # ims1" using Cons.prems(1) by (auto split: prod.splits)
    then show ?thesis using Cons.IH Cons.prems(2) False by auto
  qed
qed simp

lemma add_layout_ranges_exact:
  assumes "add_layout_ranges es ims = (0, ims')" "distinct (map io_source_index ims)"
    "list_all (\<lambda>im. length (io_ranges im) \<le> MAX_LAYOUT_RANGES) ims"
  shows "ims' = map (with_entries es) ims \<and> list_all (\<lambda>e. proper_range (range_of_entry e)) es \<and>
    list_all (\<lambda>im. length (io_ranges im) \<le> MAX_LAYOUT_RANGES) ims'"
  using assms
proof (induction es arbitrary: ims)
  case (Cons e es)
  then obtain ims1 where a: "add_to_image e ims = (0, ims1)" "add_layout_ranges es ims1 = (0, ims')"
    by (auto split: prod.splits if_splits)
  note e = add_to_image_exact[OF a(1) Cons.prems(2)]
  have "list_all (\<lambda>im. length (io_ranges im) \<le> MAX_LAYOUT_RANGES) ims1"
  proof -
    have "length (io_ranges (with_entries [e] im)) \<le> MAX_LAYOUT_RANGES" if "im \<in> set ims" for im
    proof (cases "io_source_index im = glr_image_index e")
      case True
      obtain im0 where im0: "im0 \<in> set ims" "io_source_index im0 = glr_image_index e" "length (io_ranges im0) < MAX_LAYOUT_RANGES"
        using e by blast
      moreover have "im0 = im" using Cons.prems(2) im0(1,2) that True unfolding distinct_map by (metis inj_onD)
      ultimately have "length (io_ranges im) < MAX_LAYOUT_RANGES" by simp
      then show ?thesis by (simp add: with_entries_def Let_def)
    next
      case False
      then show ?thesis using Cons.prems(3) that by (auto simp: list_all_iff)
    qed
    then show ?thesis using e by (simp add: list_all_iff)
  qed
  moreover have "distinct (map io_source_index ims1)" using e Cons.prems(2) by (simp add: comp_def)
  ultimately show ?case using Cons.IH[OF a(2)] e valid_proper by (auto simp: comp_def)
qed (simp add: map_idI)

lemma entries_overlap:
  assumes "proper_range (range_of_entry a)" "proper_range (range_of_entry b)" "glr_image_index a = glr_image_index b"
  shows "vulkan_graphics_v620_image_layout_ranges_overlap a b \<longleftrightarrow> cells (range_of_entry a) \<inter> cells (range_of_entry b) \<noteq> {}"
proof -
  have sum: "unat (ucast x + ucast y :: u64) = unat x + unat y" for x y :: u32
    using unat_lt32[of x] unat_lt32[of y] by (subst sum64) simp_all
  have "vulkan_graphics_v620_image_layout_ranges_overlap a b \<longleftrightarrow>
      vulkan_replay_subresource_ranges_overlap (range_of_entry a) (range_of_entry b)"
    using proper_ends[OF assms(1)] proper_ends[OF assms(2)] assms(3)
    by (simp add: vulkan_graphics_v620_image_layout_ranges_overlap_def vulkan_replay_subresource_ranges_overlap_def Let_def
        word_less_nat_alt sum range_of_entry_def)
  then show ?thesis using overlap_cells[OF assms(1,2)] by simp
qed

lemma ranges_agree:
  "validate_vulkan_graphics_v620_image_layout_ranges images es = Pass \<Longrightarrow>
   sorted_wrt (\<lambda>a b. vulkan_graphics_v620_image_layout_ranges_overlap a b \<longrightarrow> glr_layout a = glr_layout b) es"
  by (induction es) (auto simp: check_layout_range_def)

lemma checked_entries_consistent:
  assumes "validate_vulkan_graphics_v620_image_layout_ranges images es = Pass"
    "list_all (\<lambda>e. proper_range (range_of_entry e)) es"
  shows "consistent (map kept_entry (filter (\<lambda>e. glr_image_index e = k) es))"
proof -
  have "sorted_wrt (\<lambda>a b. glr_image_index a = k \<and> glr_image_index b = k \<longrightarrow>
      cells (range_of_entry a) \<inter> cells (range_of_entry b) \<noteq> {} \<longrightarrow> glr_layout a = glr_layout b) es"
  proof (rule sorted_wrt_mono_rel[OF _ ranges_agree[OF assms(1)]])
    fix a b assume ab: "a \<in> set es" "b \<in> set es"
      and agree: "vulkan_graphics_v620_image_layout_ranges_overlap a b \<longrightarrow> glr_layout a = glr_layout b"
    then have "proper_range (range_of_entry a)" "proper_range (range_of_entry b)" using assms(2) by (simp_all add: list_all_iff)
    from entries_overlap[OF this] agree
    show "glr_image_index a = k \<and> glr_image_index b = k \<longrightarrow>
      cells (range_of_entry a) \<inter> cells (range_of_entry b) \<noteq> {} \<longrightarrow> glr_layout a = glr_layout b" by simp
  qed
  then have "glr_layout a = glr_layout b" if "a \<in> set es" "b \<in> set es" "glr_image_index a = k" "glr_image_index b = k"
    "cells (range_of_entry a) \<inter> cells (range_of_entry b) \<noteq> {}" for a b
    using that by (induction es) auto
  then show ?thesis using assms(2) by (auto simp: consistent_def list_all_iff)
qed

lemma flush_barriers_concat: "concat (flush_barriers batch bs) = batch @ bs"
  by (induction bs arbitrary: batch) auto

lemma flush_barriers_batches:
  "length batch \<le> MAX_LAYOUT_RANGES \<Longrightarrow> list_all (\<lambda>b. b \<noteq> [] \<and> length b \<le> MAX_LAYOUT_RANGES) (flush_barriers batch bs)"
  by (induction bs arbitrary: batch) (auto simp: MAX_LAYOUT_RANGES_def)

text \<open>An image with the ranges of a checked frame, once they are in force.\<close>

lemma with_entries_fields:
  assumes "io_ranges im = []" "\<not> io_has_ranges im"
  shows "io_ranges (with_entries es im) = map kept_entry (filter (\<lambda>e. glr_image_index e = io_source_index im) es)"
    "io_has_ranges (with_entries es im) \<longleftrightarrow> filter (\<lambda>e. glr_image_index e = io_source_index im) es \<noteq> []"
    "io_current_layout (with_entries es im) = io_current_layout im"
  using assms by (auto simp: with_entries_def Let_def)

lemma checked_ranges_in_force:
  assumes ok: "validate_vulkan_graphics_v620_image_layout_ranges images es = Pass"
    and p: "list_all (\<lambda>e. proper_range (range_of_entry e)) es"
    and im: "io_ranges im = []" "\<not> io_has_ranges im" "length (io_ranges (with_entries es im)) \<le> MAX_LAYOUT_RANGES"
    and e: "e \<in> set es" "glr_image_index e = io_source_index im"
  shows "followed ((with_entries es im)\<lparr>io_ranges_active := True\<rparr>)"
    "layout_at ((with_entries es im)\<lparr>io_ranges_active := True\<rparr>) ` cells (range_of_entry e) = {glr_layout e}"
proof -
  let ?im = "(with_entries es im)\<lparr>io_ranges_active := True\<rparr>"
  note r = with_entries_fields[OF im(1,2), of es]
  have con: "consistent (io_ranges (with_entries es im))" using checked_entries_consistent[OF ok p] r(1) by simp
  then show "followed ?im" using im(3) by (simp add: followed_def)
  have "kept_entry e \<in> set (io_ranges (with_entries es im))" using r(1) e by auto
  then have "layout_at ?im c = glr_layout e" if "c \<in> cells (range_of_entry e)" for c
    using layout_in_entry[OF con, of "kept_entry e" c] that by (simp add: layout_at_def)
  moreover have "cells (range_of_entry e) \<noteq> {}" using p e(1) by (intro cells_nonempty) (simp add: list_all_iff)
  ultimately show "layout_at ?im ` cells (range_of_entry e) = {glr_layout e}" by auto
qed

lemma image_barriers_with_entries:
  assumes "io_ranges im = []" "\<not> io_has_ranges im"
  shows "image_barriers (with_entries es im) =
    map (\<lambda>e. (io_source_index im, range_of_entry e, io_current_layout im, glr_layout e))
      (filter (\<lambda>e. glr_image_index e = io_source_index im \<and> glr_layout e \<noteq> io_current_layout im) es)"
  using with_entries_fields[OF assms, of es]
  by (auto simp: image_barriers_def filter_map comp_def conj_commute filter_empty_conv)

text \<open>The layout a cell of an image begins with: that of a range of the frame it lies in, or else that of the image.\<close>

definition initial_layout :: "g_layout_range list \<Rightarrow> image_object \<Rightarrow> cell \<Rightarrow> u32" where
  "initial_layout es im c =
     (case List.find (\<lambda>e. glr_image_index e = io_source_index im \<and> c \<in> cells (range_of_entry e)) es of
        Some e \<Rightarrow> glr_layout e | None \<Rightarrow> io_current_layout im)"

lemma find_kept_entry:
  "map_option le_layout (List.find (\<lambda>k. c \<in> cells (le_range k)) (map kept_entry (filter (\<lambda>e. glr_image_index e = n) es))) =
   map_option glr_layout (List.find (\<lambda>e. glr_image_index e = n \<and> c \<in> cells (range_of_entry e)) es)"
  by (induction es) (auto simp: kept_entry_def)

lemma with_entries_layouts:
  assumes "io_ranges im = []" "\<not> io_has_ranges im"
  shows "layout_at ((with_entries es im)\<lparr>io_ranges_active := True\<rparr>) = initial_layout es im"
    "\<not> io_has_ranges (with_entries es im) \<Longrightarrow> with_entries es im = im"
    "io_has_ranges (with_entries es im) \<longleftrightarrow> list_ex (\<lambda>e. glr_image_index e = io_source_index im) es"
proof
  note r = with_entries_fields[OF assms, of es]
  fix c
  have "case_option (io_current_layout im) le_layout x = case_option (io_current_layout im) glr_layout y"
    if "map_option le_layout x = map_option glr_layout y" for x y
    using that by (cases x; cases y) auto
  from this[OF find_kept_entry]
  show "layout_at ((with_entries es im)\<lparr>io_ranges_active := True\<rparr>) c = initial_layout es im c"
    by (simp add: layout_at_def layout_in_def initial_layout_def r)
next
  show "\<not> io_has_ranges (with_entries es im) \<Longrightarrow> with_entries es im = im"
    using assms by (simp add: with_entries_def Let_def)
  show "io_has_ranges (with_entries es im) \<longleftrightarrow> list_ex (\<lambda>e. glr_image_index e = io_source_index im) es"
    using with_entries_fields(2)[OF assms, of es] by (auto simp: filter_empty_conv list_ex_iff)
qed

text \<open>
  C31. The layouts a frame of version 6.20 or later begins with. The images made of it have different indices of the frame
  and no ranges yet; its ranges pass their checks and fit the images. Then exactly the images that a range names are
  followed from then on, and a cell of such an image has the layout of the frame's ranges that it lies in, which agree, or,
  in no range, the layout the whole image had; the other images stay as they are. The barriers recorded for this are exactly
  one for each range whose layout is not the image's, in calls of 1 to 64.
\<close>

theorem initial_layouts_exact:
  assumes "validate_vulkan_graphics_v620_image_layout_ranges (gv_images v) (gv_layout_ranges v) = Pass"
    "is_v6 20 (gv_header v)" "distinct (map io_source_index ims)" "list_all (\<lambda>im. io_ranges im = [] \<and> \<not> io_has_ranges im) ims"
    "materialize_vulkan_graphics_v620_image_layout_ranges v ims = (0, ims1)"
    "record_vulkan_graphics_v620_initial_image_layout_ranges ims1 = (calls, ims2)"
  shows "list_all (\<lambda>im. io_has_ranges im \<longrightarrow> followed im \<and>
      list_all (\<lambda>e. glr_image_index e = io_source_index im \<longrightarrow>
        layout_at im ` cells (range_of_entry e) = {glr_layout e}) (gv_layout_ranges v)) ims2 \<and>
    list_all2 (\<lambda>im im2. if list_ex (\<lambda>e. glr_image_index e = io_source_index im) (gv_layout_ranges v)
      then io_has_ranges im2 \<and> io_source_index im2 = io_source_index im \<and> layout_at im2 = initial_layout (gv_layout_ranges v) im
      else im2 = im) ims ims2 \<and>
    concat calls = concat (map (\<lambda>im. map (\<lambda>e. (io_source_index im, range_of_entry e, io_current_layout im, glr_layout e))
      (filter (\<lambda>e. glr_image_index e = io_source_index im \<and> glr_layout e \<noteq> io_current_layout im) (gv_layout_ranges v))) ims) \<and>
    list_all (\<lambda>b. b \<noteq> [] \<and> length b \<le> MAX_LAYOUT_RANGES) calls"
proof -
  let ?es = "gv_layout_ranges v"
  have fresh: "io_ranges im = []" "\<not> io_has_ranges im" if "im \<in> set ims" for im
    using assms(4) that by (simp_all add: list_all_iff)
  have "add_layout_ranges ?es ims = (0, ims1)"
    using assms(2,5) by (simp add: materialize_vulkan_graphics_v620_image_layout_ranges_def)
  then have m: "ims1 = map (with_entries ?es) ims" "list_all (\<lambda>e. proper_range (range_of_entry e)) ?es"
    "list_all (\<lambda>im. length (io_ranges im) \<le> MAX_LAYOUT_RANGES) ims1"
    using add_layout_ranges_exact[OF _ assms(3)] fresh by (auto simp: list_all_iff)
  have rec: "calls = flush_barriers [] (concat (map image_barriers ims1))"
    "ims2 = map (\<lambda>im. if io_has_ranges im then im\<lparr>io_ranges_active := True\<rparr> else im) ims1"
    using assms(6) by (simp_all add: record_vulkan_graphics_v620_initial_image_layout_ranges_def)
  have "followed im2 \<and> (\<forall>e\<in>set ?es. glr_image_index e = io_source_index im2 \<longrightarrow>
      layout_at im2 ` cells (range_of_entry e) = {glr_layout e})" if im2: "im2 \<in> set ims2" "io_has_ranges im2" for im2
  proof -
    obtain im where im: "im \<in> set ims" "im2 = (with_entries ?es im)\<lparr>io_ranges_active := True\<rparr>" "io_has_ranges (with_entries ?es im)"
      using im2 unfolding rec(2) m(1) by (auto split: if_splits)
    have len: "length (io_ranges (with_entries ?es im)) \<le> MAX_LAYOUT_RANGES" using m(1,3) im(1) by (simp add: list_all_iff)
    obtain e where "e \<in> set ?es" "glr_image_index e = io_source_index im"
      using im(3) with_entries_fields(2)[OF fresh[OF im(1)]] by (auto simp: filter_empty_conv)
    then show ?thesis using checked_ranges_in_force[OF assms(1) m(2) fresh[OF im(1)] len] unfolding im(2) by simp
  qed
  then have "list_all (\<lambda>im. io_has_ranges im \<longrightarrow> followed im \<and>
      list_all (\<lambda>e. glr_image_index e = io_source_index im \<longrightarrow>
        layout_at im ` cells (range_of_entry e) = {glr_layout e}) ?es) ims2"
    by (simp add: list_all_iff)
  moreover have "list_all2 (\<lambda>im im2. if list_ex (\<lambda>e. glr_image_index e = io_source_index im) ?es
      then io_has_ranges im2 \<and> io_source_index im2 = io_source_index im \<and> layout_at im2 = initial_layout ?es im
      else im2 = im) ims ims2"
    unfolding rec(2) m(1) using with_entries_layouts[OF fresh, of _ ?es] fresh
    by (auto simp: list_all2_conv_all_nth)
  moreover have "concat calls = concat (map (\<lambda>im. map (\<lambda>e. (io_source_index im, range_of_entry e, io_current_layout im, glr_layout e))
      (filter (\<lambda>e. glr_image_index e = io_source_index im \<and> glr_layout e \<noteq> io_current_layout im) ?es)) ims)"
    unfolding rec(1) flush_barriers_concat m(1) using image_barriers_with_entries[OF fresh] by (simp add: comp_def cong: map_cong)
  ultimately show ?thesis using flush_barriers_batches[of "[]"] rec(1) by (simp add: MAX_LAYOUT_RANGES_def)
qed

definition general_entry :: g_layout_range where
  "general_entry = (g_layout_range_of [])\<lparr>glr_aspect_mask := 1, glr_level_count := 1, glr_layer_count := 1, glr_layout := 1\<rparr>"

definition layouts_view :: v6_view where
  "layouts_view = good_view\<lparr>gv_header := (gv_header good_view)\<lparr>gh_abi_minor := 20\<rparr>, gv_layout_ranges := [general_entry]\<rparr>"

lemma initial_layouts_exact_witness:
  "fst (record_vulkan_graphics_v620_initial_image_layout_ranges
     (snd (materialize_vulkan_graphics_v620_image_layout_ranges layouts_view [sample_image]))) =
   [[(0, range_of_entry general_entry, 0, 1)]]"
proof -
  let ?m = "materialize_vulkan_graphics_v620_image_layout_ranges layouts_view [sample_image]"
  let ?r = "record_vulkan_graphics_v620_initial_image_layout_ranges (snd ?m)"
  have z: "field k n [] = 0" for k n by (simp add: field_def)
  have e: "glr_image_index general_entry = 0" "glr_aspect_mask general_entry = 1" "glr_base_mip_level general_entry = 0"
    "glr_level_count general_entry = 1" "glr_base_array_layer general_entry = 0" "glr_layer_count general_entry = 1"
    "glr_layout general_entry = 1" "glr_reserved0 general_entry = 0"
    by (simp_all add: general_entry_def g_layout_range_of_def z)
  have v: "gv_layout_ranges layouts_view = [general_entry]" "is_v6 20 (gv_header layouts_view)" "gv_images layouts_view = [good_image]"
    by (simp_all add: layouts_view_def is_v6_def good_entries)
  have ok: "validate_vulkan_graphics_v620_image_layout_ranges (gv_images layouts_view) (gv_layout_ranges layouts_view) = Pass"
    by (simp add: v check_layout_range_def e at_def good_image_def vulkan_graphics_v620_image_aspect_valid_def
        vulkan_graphics_v620_layout_value_valid_def levels_outside_def vulkan_format_bytes_per_pixel_for_aspect_def
        vulkan_format_bytes_per_pixel_conservative_def Let_def)
  have "fst ?m = 0"
    by (simp add: materialize_vulkan_graphics_v620_image_layout_ranges_def v sample_image_def e add_layout_range_def
        MAX_LAYOUT_RANGES_def vulkan_replay_image_layout_range_valid_def)
  then have m: "?m = (0, snd ?m)" by (metis prod.collapse)
  have src: "io_source_index sample_image = 0" "io_current_layout sample_image = 0" "io_ranges sample_image = []"
    "\<not> io_has_ranges sample_image"
    by (simp_all add: sample_image_def)
  have "concat (fst ?r) = [(0, range_of_entry general_entry, 0, 1)] \<and> list_all (\<lambda>b. b \<noteq> [] \<and> length b \<le> MAX_LAYOUT_RANGES) (fst ?r)"
    using initial_layouts_exact[OF ok v(2) _ _ m, of "fst ?r" "snd ?r"] by (simp add: v e src)
  then show ?thesis by (cases "fst ?r") (auto simp: append_eq_Cons_conv concat_eq_Nil_conv list_all_iff)
qed

end
