(* ===== verification/Replay_Buffers.thy ===== *)
theory Replay_Buffers
  imports Graphics_Replay Graphics_Typed
begin

text \<open>
  The buffers of a replay (\<open>pdocker_gpu_executor.c\<close>): for each buffer the commands of a frame use, one range that covers
  all they touch is copied from the client's memory before the commands run, and what they may have written is copied
  back. A client's memory is a file whose descriptor came with the frame.
\<close>

section \<open>The table of buffers\<close>

text \<open>\<open>VulkanGraphicsReplayBuffer\<close>; \<open>rb_bytes\<close> are the bytes of the device's buffer, once it is made.\<close>

record replay_buffer =
  rb_resource :: u32
  rb_base :: u64
  rb_end :: u64
  rb_written :: bool
  rb_write_base :: u64
  rb_write_end :: u64
  rb_usage :: u32
  rb_bytes :: string

type_synonym staging = "replay_buffer list \<Rightarrow> verdict \<times> replay_buffer list"

definition MAX_REPLAY_BUFFERS :: nat where "MAX_REPLAY_BUFFERS = 64"

abbreviation (input) USAGE_TRANSFER_SRC :: u32 where "USAGE_TRANSFER_SRC \<equiv> 1"
abbreviation (input) USAGE_TRANSFER_DST :: u32 where "USAGE_TRANSFER_DST \<equiv> 2"
abbreviation (input) USAGE_UNIFORM :: u32 where "USAGE_UNIFORM \<equiv> 0x10"
abbreviation (input) USAGE_STORAGE :: u32 where "USAGE_STORAGE \<equiv> 0x20"
abbreviation (input) USAGE_INDEX :: u32 where "USAGE_INDEX \<equiv> 0x40"
abbreviation (input) USAGE_VERTEX :: u32 where "USAGE_VERTEX \<equiv> 0x80"
abbreviation (input) USAGE_INDIRECT :: u32 where "USAGE_INDIRECT \<equiv> 0x100"

definition find_vulkan_graphics_replay_buffer :: "replay_buffer list \<Rightarrow> u32 \<Rightarrow> nat option" where
  "find_vulkan_graphics_replay_buffer bs k = find (\<lambda>i. rb_resource (bs ! i) = k) [0..<length bs]"

text \<open>A buffer whose memory is a file of the frame.\<close>

definition buffer_backed :: "v6_view \<Rightarrow> v5_resource \<Rightarrow> bool" where
  "buffer_backed v mem \<longleftrightarrow>
     vr_resource_type mem = RESOURCE_MEMORY \<and> vr_resource_flags mem AND 1 \<noteq> 0 \<and> unat (vr_fd_index mem) < length (gv_fds v) \<and>
     0 \<le> gv_fds v ! unat (vr_fd_index mem)"

definition new_replay_buffer :: "u32 \<Rightarrow> u64 \<Rightarrow> u64 \<Rightarrow> u32 \<Rightarrow> replay_buffer" where
  "new_replay_buffer k off e usage =
     \<lparr>rb_resource = k, rb_base = off, rb_end = e, rb_written = False, rb_write_base = 0, rb_write_end = 0, rb_usage = usage,
      rb_bytes = []\<rparr>"

definition widen :: "u64 \<Rightarrow> u64 \<Rightarrow> u32 \<Rightarrow> replay_buffer \<Rightarrow> replay_buffer" where
  "widen off e usage b = b\<lparr>rb_base := min off (rb_base b), rb_end := max e (rb_end b), rb_usage := rb_usage b OR usage\<rparr>"

definition add_vulkan_graphics_replay_buffer_range :: "v6_view \<Rightarrow> u32 \<Rightarrow> u64 \<Rightarrow> u64 \<Rightarrow> u32 \<Rightarrow> staging" where
  "add_vulkan_graphics_replay_buffer_range v k off sz usage bs =
     (let rs = gv_resources v; buf = rs ! unat k; mem = rs ! unat (vr_parent_resource_index buf) in
      if length rs \<le> unat k then (Refuse (- EINVAL), bs)
      else if sz = 0 then (Refuse (- EOPNOTSUPP), bs)
      else if vr_resource_type buf \<noteq> RESOURCE_BUFFER \<or> length rs \<le> unat (vr_parent_resource_index buf) \<or>
              \<not> u64_range_within_size off sz (vr_size buf)
      then (Refuse (- EPROTO), bs)
      else if \<not> buffer_backed v mem \<or> \<not> u64_range_within_size (vr_memory_offset buf) (vr_size buf) (vr_size mem)
      then (Refuse (- EPROTO), bs)
      else case checked_u64_add3 off sz 0 of
        None \<Rightarrow> (Refuse (- EOVERFLOW), bs)
      | Some e \<Rightarrow>
          (case find_vulkan_graphics_replay_buffer bs k of
             None \<Rightarrow> if MAX_REPLAY_BUFFERS \<le> length bs then (Refuse (- E2BIG), bs) else (Pass, bs @ [new_replay_buffer k off e usage])
           | Some i \<Rightarrow> (Pass, bs[i := widen off e usage (bs ! i)])))"

definition widen_write :: "u64 \<Rightarrow> u64 \<Rightarrow> replay_buffer \<Rightarrow> replay_buffer" where
  "widen_write off e b =
     (if rb_written b then b\<lparr>rb_write_base := min off (rb_write_base b), rb_write_end := max e (rb_write_end b)\<rparr>
      else b\<lparr>rb_written := True, rb_write_base := off, rb_write_end := e\<rparr>)"

definition mark_vulkan_graphics_replay_buffer_writeback_range :: "v6_view \<Rightarrow> u32 \<Rightarrow> u64 \<Rightarrow> u64 \<Rightarrow> staging" where
  "mark_vulkan_graphics_replay_buffer_writeback_range v k off sz bs =
     (let rs = gv_resources v; buf = rs ! unat k in
      if length rs \<le> unat k \<or> sz = 0 then (Refuse (- EINVAL), bs)
      else if vr_resource_type buf \<noteq> RESOURCE_BUFFER \<or> \<not> u64_range_within_size off sz (vr_size buf) then (Refuse (- EPROTO), bs)
      else case checked_u64_add3 off sz 0 of
        None \<Rightarrow> (Refuse (- EOVERFLOW), bs)
      | Some e \<Rightarrow>
          (case find_vulkan_graphics_replay_buffer bs k of
             None \<Rightarrow> (Refuse (- ENOENT), bs)
           | Some i \<Rightarrow>
               if off < rb_base (bs ! i) \<or> rb_end (bs ! i) < e then (Refuse (- ERANGE), bs)
               else (Pass, bs[i := widen_write off e (bs ! i)])))"

section \<open>What each command uses\<close>

definition refused :: "int \<Rightarrow> staging" where
  "refused rc bs = (Refuse (- rc), bs)"

definition skip :: staging where
  "skip bs = (Pass, bs)"

definition next_staging :: "staging \<Rightarrow> staging \<Rightarrow> staging" where
  "next_staging f g bs = (case f bs of (Pass, bs') \<Rightarrow> g bs' | (fault, bs') \<Rightarrow> (fault, bs'))"

fun all_stagings :: "staging list \<Rightarrow> staging" where
  "all_stagings [] = skip"
| "all_stagings (f # fs) = next_staging f (all_stagings fs)"

definition staging_at :: "'a list \<Rightarrow> u32 \<Rightarrow> ('a \<Rightarrow> staging) \<Rightarrow> staging" where
  "staging_at xs i f = (if unat i < length xs then f (xs ! unat i) else (\<lambda>bs. (Stray, bs)))"

text \<open>A range that is read, and one that is also written back.\<close>

definition add_and_mark :: "v6_view \<Rightarrow> u32 \<Rightarrow> u64 \<Rightarrow> u64 \<Rightarrow> u32 \<Rightarrow> staging" where
  "add_and_mark v k off sz usage =
     next_staging (add_vulkan_graphics_replay_buffer_range v k off sz usage)
       (mark_vulkan_graphics_replay_buffer_writeback_range v k off sz)"

definition stage_descriptor :: "v6_view \<Rightarrow> v5_object_descriptor \<Rightarrow> staging" where
  "stage_descriptor v d =
     (let rs = gv_resources v; k = vo_resource_index d; writes = vo_access_flags d AND 2 \<noteq> 0 in
      case vulkan_dispatch_descriptor_type_from_api (vo_descriptor_type d) of
        None \<Rightarrow>
          (case vulkan_dispatch_image_descriptor_type_from_api (vo_descriptor_type d) of
             Some ty \<Rightarrow> if vulkan_image_descriptor_layout_valid ty (vo_image_layout d) \<and> (\<not> writes \<or> ty = 3) then skip
                        else refused EOPNOTSUPP
           | None \<Rightarrow> refused EOPNOTSUPP)
      | Some ty \<Rightarrow>
          if writes \<and> ty \<noteq> 7 then refused EOPNOTSUPP
          else if length rs \<le> unat k then refused EPROTO
          else if vr_resource_type (rs ! unat k) \<noteq> RESOURCE_BUFFER then refused EPROTO
          else case checked_u64_add3 (vo_buffer_offset d) (vo_dynamic_offset d) 0 of
            None \<Rightarrow> refused EOVERFLOW
          | Some off \<Rightarrow>
              if vo_range d = UINT64_MAX \<and> vr_size (rs ! unat k) < off then refused ERANGE
              else let range = (if vo_range d = UINT64_MAX then vr_size (rs ! unat k) - off else vo_range d);
                       usage = (if ty = 6 then USAGE_UNIFORM else USAGE_STORAGE) in
                if writes then add_and_mark v k off range usage else add_vulkan_graphics_replay_buffer_range v k off range usage)"

definition find_vulkan_graphics_v68_indirect_draw :: "v6_view \<Rightarrow> nat \<Rightarrow> g_indirect_draw option" where
  "find_vulkan_graphics_v68_indirect_draw v i = entry_for 8 gid_command_index v (gv_indirect_draws v) i"

definition find_vulkan_graphics_v618_copy_query_result :: "v6_view \<Rightarrow> nat \<Rightarrow> g_copy_query option" where
  "find_vulkan_graphics_v618_copy_query_result v i = entry_for 18 gcq_command_index v (gv_copy_queries v) i"

text \<open>The indices of a draw; those of an indirect draw are not known, so the rest of the buffer is taken.\<close>

definition stage_indices :: "v6_view \<Rightarrow> nat \<Rightarrow> g_command \<Rightarrow> staging" where
  "stage_indices v i c =
     (let rs = gv_resources v; k = gcm_index_buffer_resource_index c in
      if find_vulkan_graphics_v68_indirect_draw v i \<noteq> None then
        (if length rs \<le> unat k \<or> vr_resource_type (rs ! unat k) \<noteq> RESOURCE_BUFFER \<or> vr_size (rs ! unat k) < gcm_index_offset c
         then refused EPROTO
         else add_vulkan_graphics_replay_buffer_range v k (gcm_index_offset c) (vr_size (rs ! unat k) - gcm_index_offset c) USAGE_INDEX)
      else case vulkan_graphics_index_stride (gcm_index_type c) of
        None \<Rightarrow> refused EOPNOTSUPP
      | Some stride \<Rightarrow>
          (case (checked_mul_u64_executor (ucast (gcm_first_index c)) stride, checked_mul_u64_executor (ucast (gcm_index_count c)) stride) of
             (Some first, Some span) \<Rightarrow>
               (case checked_u64_add3 (gcm_index_offset c) first 0 of
                  None \<Rightarrow> refused EOVERFLOW
                | Some off \<Rightarrow> add_vulkan_graphics_replay_buffer_range v k off span USAGE_INDEX)
           | _ \<Rightarrow> refused EOVERFLOW))"

definition stage_buffer_image_copy :: "v6_view \<Rightarrow> g_command \<Rightarrow> g_buffer_image_copy \<Rightarrow> staging" where
  "stage_buffer_image_copy v c e =
     (if length (gv_images v) \<le> unat (gbi_image_index e) then refused EPROTO
      else case vulkan_graphics_v610_buffer_image_copy_span e (gv_images v ! unat (gbi_image_index e)) of
        Inl rc \<Rightarrow> (\<lambda>bs. (Refuse rc, bs))
      | Inr n \<Rightarrow>
          if gcm_command_type c = CMD_COPY_BUFFER_TO_IMAGE
          then add_vulkan_graphics_replay_buffer_range v (gbi_buffer_resource_index e) (gbi_buffer_offset e) n USAGE_TRANSFER_SRC
          else add_and_mark v (gbi_buffer_resource_index e) (gbi_buffer_offset e) n USAGE_TRANSFER_DST)"

definition stage_command :: "v6_view \<Rightarrow> nat \<times> g_command \<Rightarrow> staging" where
  "stage_command v ic =
     (let (i, c) = ic; ty = gcm_command_type c in
      if ty = CMD_BIND_VERTEX_BUFFERS then
        all_stagings (map (\<lambda>j. staging_at (gv_vertex_bindings v) j (\<lambda>b.
          add_vulkan_graphics_replay_buffer_range v (gvb_buffer_resource_index b) (gvb_offset b) (gvb_size b) USAGE_VERTEX))
          (indices (gcm_vertex_binding_first c) (gcm_vertex_binding_count c)))
      else if ty = CMD_BIND_DESCRIPTOR_SETS then
        all_stagings (map (\<lambda>j. staging_at (gv_descriptors v) j (stage_descriptor v))
          (indices (gcm_first_descriptor c) (gcm_descriptor_count c)))
      else if ty = CMD_DRAW_INDEXED then stage_indices v i c
      else if ty = CMD_BARRIER \<and> is_v6 1 (gv_header v) then
        all_stagings (map (\<lambda>b. add_vulkan_graphics_replay_buffer_range v (gbb_resource_index b) (gbb_offset b) (gbb_size b)
            (USAGE_TRANSFER_SRC OR USAGE_TRANSFER_DST))
          (filter (\<lambda>b. unat (gbb_command_index b) = i) (gv_buffer_barriers v)))
      else if ty = CMD_COPY_BUFFER \<and> is_v6 9 (gv_header v) then
        (case find_vulkan_graphics_v69_buffer_copy v i of
           None \<Rightarrow> refused EPROTO
         | Some e \<Rightarrow> next_staging
             (add_vulkan_graphics_replay_buffer_range v (gbc_src_resource_index e) (gbc_src_offset e) (gbc_size e) USAGE_TRANSFER_SRC)
             (add_and_mark v (gbc_dst_resource_index e) (gbc_dst_offset e) (gbc_size e) USAGE_TRANSFER_DST))
      else if ty = CMD_COPY_QUERY_POOL_RESULTS \<and> is_v6 18 (gv_header v) then
        (case find_vulkan_graphics_v618_copy_query_result v i of
           None \<Rightarrow> refused EPROTO
         | Some e \<Rightarrow> (case vulkan_graphics_v618_copy_query_result_span e of
                       Inl rc \<Rightarrow> refused EPROTO
                     | Inr n \<Rightarrow> add_and_mark v (gcq_dst_resource_index e) (gcq_dst_offset e) n USAGE_TRANSFER_DST))
      else if ty = CMD_FILL_BUFFER \<and> is_v6 11 (gv_header v) then
        (case find_vulkan_graphics_v611_fill_buffer v i of
           None \<Rightarrow> refused EPROTO
         | Some e \<Rightarrow> add_and_mark v (gfb_dst_resource_index e) (gfb_dst_offset e) (gfb_size e) USAGE_TRANSFER_DST)
      else if ty = CMD_UPDATE_BUFFER \<and> is_v6 11 (gv_header v) then
        (case find_vulkan_graphics_v611_update_buffer v i of
           None \<Rightarrow> refused EPROTO
         | Some e \<Rightarrow> add_and_mark v (gub_dst_resource_index e) (gub_dst_offset e) (gub_data_size e) USAGE_TRANSFER_DST)
      else if (ty = CMD_COPY_BUFFER_TO_IMAGE \<or> ty = CMD_COPY_IMAGE_TO_BUFFER) \<and> is_v6 10 (gv_header v) then
        (case find_vulkan_graphics_v610_buffer_image_copy v i of None \<Rightarrow> refused EPROTO | Some e \<Rightarrow> stage_buffer_image_copy v c e)
      else skip)"

text \<open>The parameters of indirect draws.\<close>

definition stage_indirect :: "v6_view \<Rightarrow> g_indirect_draw \<Rightarrow> staging" where
  "stage_indirect v e =
     staging_at (gv_commands v) (gid_command_index e) (\<lambda>c.
       case Option.bind (checked_mul_u64_executor (ucast (gid_draw_count e - 1)) (ucast (gid_stride e)))
              (\<lambda>last. checked_u64_add3 last (indirect_command_size c) 0) of
         None \<Rightarrow> refused EOVERFLOW
       | Some n \<Rightarrow> next_staging
           (add_vulkan_graphics_replay_buffer_range v (gid_indirect_resource_index e) (gid_indirect_offset e) n USAGE_INDIRECT)
           (if gid_flags e AND 1 \<noteq> 0
            then add_vulkan_graphics_replay_buffer_range v (gid_count_resource_index e) (gid_count_offset e) 4 USAGE_INDIRECT
            else skip))"

definition stage_frame :: "v6_view \<Rightarrow> staging" where
  "stage_frame v =
     next_staging (all_stagings (map (stage_command v) (enumerate 0 (gv_commands v))))
       (if is_v6 8 (gv_header v) then all_stagings (map (stage_indirect v) (gv_indirect_draws v)) else skip)"

section \<open>The client's bytes\<close>

text \<open>
  The memory of a client is a set of files. A script holds the kernel's choices: a call moves some bytes, or fails with
  \<open>Failed e\<close>, the errno \<open>e + 1\<close>; with an empty script every call moves all it is asked for. A read moves at least one byte
  unless the file ends.
\<close>

datatype transfer = Moved nat | Failed nat

record client =
  cl_data :: "nat \<Rightarrow> string"
  cl_script :: "transfer list"

definition next_transfer :: "nat \<Rightarrow> transfer list \<Rightarrow> transfer \<times> transfer list" where
  "next_transfer n sc = (case sc of [] \<Rightarrow> (Moved n, []) | t # ts \<Rightarrow> (t, ts))"

definition OFF_MAX :: nat where "OFF_MAX = 0x7fffffffffffffff"
definition SSIZE_MAX :: nat where "SSIZE_MAX = 0x7fffffffffffffff"

function read_fd_exact :: "string \<Rightarrow> nat \<Rightarrow> nat \<Rightarrow> transfer list \<Rightarrow> (int + string) \<times> transfer list" where
  "read_fd_exact file off n sc =
     (if n = 0 then (Inr [], sc)
      else if OFF_MAX < off then (Inl (- EOVERFLOW), sc)
      else case next_transfer n sc of
        (Failed e, sc') \<Rightarrow> (Inl (- int e - 1), sc')
      | (Moved k, sc') \<Rightarrow>
          (let m = min (max 1 k) (min (min n SSIZE_MAX) (length file - off)) in
           if m = 0 then (Inl (- EIO), sc')
           else case read_fd_exact file (off + m) (n - m) sc' of
             (Inl rc, sc'') \<Rightarrow> (Inl rc, sc'')
           | (Inr bytes, sc'') \<Rightarrow> (Inr (take m (drop off file) @ bytes), sc'')))"
  by pat_completeness auto
termination by (relation "measure (\<lambda>(file, off, n, sc). n)") auto

text \<open>Bytes put into a file at an offset; a gap before them is zeros.\<close>

definition write_at :: "string \<Rightarrow> nat \<Rightarrow> string \<Rightarrow> string" where
  "write_at file off bytes = take off (file @ replicate (off - length file) (CHR 0x00)) @ bytes @ drop (off + length bytes) file"

function write_fd_exact :: "nat \<Rightarrow> string \<Rightarrow> string \<Rightarrow> transfer list \<Rightarrow> int \<times> string \<times> transfer list" where
  "write_fd_exact off bytes file sc =
     (if bytes = [] then (0, file, sc)
      else if OFF_MAX < off then (- EOVERFLOW, file, sc)
      else case next_transfer (length bytes) sc of
        (Failed e, sc') \<Rightarrow> (- int e - 1, file, sc')
      | (Moved k, sc') \<Rightarrow>
          (let m = min k (min (length bytes) SSIZE_MAX) in
           if m = 0 then (- EIO, file, sc')
           else write_fd_exact (off + m) (drop m bytes) (write_at file off (take m bytes)) sc'))"
  by pat_completeness auto
termination by (relation "measure (\<lambda>(off, bytes, file, sc). length bytes)") auto

declare read_fd_exact.simps [simp del] write_fd_exact.simps [simp del]

definition checked_u64_to_off_t :: "u64 \<Rightarrow> nat option" where
  "checked_u64_to_off_t x = (if 0x7fffffffffffffff < x then None else Some (unat x))"

text \<open>Where the byte of a buffer at an offset lies in the file of its memory.\<close>

definition buffer_of :: "v6_view \<Rightarrow> replay_buffer \<Rightarrow> v5_resource" where
  "buffer_of v b = gv_resources v ! unat (rb_resource b)"

definition memory_of :: "v6_view \<Rightarrow> replay_buffer \<Rightarrow> v5_resource" where
  "memory_of v b = gv_resources v ! unat (vr_parent_resource_index (buffer_of v b))"

definition fd_of :: "v6_view \<Rightarrow> replay_buffer \<Rightarrow> int" where
  "fd_of v b = gv_fds v ! unat (vr_fd_index (memory_of v b))"

definition file_offset :: "v6_view \<Rightarrow> replay_buffer \<Rightarrow> u64 \<Rightarrow> nat option" where
  "file_offset v b off =
     Option.bind (checked_u64_add3 (vr_external_offset (memory_of v b)) (vr_memory_offset (buffer_of v b)) off) checked_u64_to_off_t"

text \<open>
  \<open>file_of\<close> tells which file a descriptor is open on; two descriptors may be open on one. Making a buffer on the device may
  fail; it is a function of the size and the usage.
\<close>

definition upload_buffer ::
    "(int \<Rightarrow> nat) \<Rightarrow> (u64 \<Rightarrow> u32 \<Rightarrow> int) \<Rightarrow> v6_view \<Rightarrow> replay_buffer \<Rightarrow> client \<Rightarrow> (int + replay_buffer) \<times> client" where
  "upload_buffer file_of create v b cl =
     (if rb_end b \<le> rb_base b then (Inl (- EOPNOTSUPP), cl)
      else let n = rb_end b - rb_base b; rc = create n (rb_usage b OR USAGE_TRANSFER_DST) in
        if rc \<noteq> 0 then (Inl rc, cl)
        else case file_offset v b (rb_base b) of
          None \<Rightarrow> (Inl (- EOVERFLOW), cl)
        | Some off \<Rightarrow>
            (case read_fd_exact (cl_data cl (file_of (fd_of v b))) off (unat n) (cl_script cl) of
               (Inl rc, sc) \<Rightarrow> (Inl (- EIO), cl\<lparr>cl_script := sc\<rparr>)
             | (Inr bytes, sc) \<Rightarrow> (Inr (b\<lparr>rb_bytes := bytes\<rparr>), cl\<lparr>cl_script := sc\<rparr>)))"

fun upload_buffers ::
    "(int \<Rightarrow> nat) \<Rightarrow> (u64 \<Rightarrow> u32 \<Rightarrow> int) \<Rightarrow> v6_view \<Rightarrow> replay_buffer list \<Rightarrow> client \<Rightarrow> (int + replay_buffer list) \<times> client" where
  "upload_buffers file_of create v [] cl = (Inr [], cl)"
| "upload_buffers file_of create v (b # bs) cl =
     (case upload_buffer file_of create v b cl of
        (Inl rc, cl) \<Rightarrow> (Inl rc, cl)
      | (Inr b', cl) \<Rightarrow>
          (case upload_buffers file_of create v bs cl of (Inl rc, cl) \<Rightarrow> (Inl rc, cl) | (Inr bs', cl) \<Rightarrow> (Inr (b' # bs'), cl)))"

text \<open>A fault ends with no buffers.\<close>

definition materialize_vulkan_graphics_v6_buffers ::
    "(int \<Rightarrow> nat) \<Rightarrow> (u64 \<Rightarrow> u32 \<Rightarrow> int) \<Rightarrow> v6_view \<Rightarrow> client \<Rightarrow> verdict \<times> replay_buffer list \<times> client" where
  "materialize_vulkan_graphics_v6_buffers file_of create v cl =
     (case stage_frame v [] of
        (Pass, bs) \<Rightarrow>
          (case upload_buffers file_of create v bs cl of (Inl rc, cl) \<Rightarrow> (Refuse rc, [], cl) | (Inr bs', cl) \<Rightarrow> (Pass, bs', cl))
      | (fault, bs) \<Rightarrow> (fault, [], cl))"

text \<open>What was written goes back, buffer after buffer; a fault leaves what is done. The bytes are counted.\<close>

definition writeback_buffer :: "(int \<Rightarrow> nat) \<Rightarrow> v6_view \<Rightarrow> replay_buffer \<Rightarrow> u64 \<Rightarrow> client \<Rightarrow> verdict \<times> u64 \<times> client" where
  "writeback_buffer file_of v b moved cl =
     (let rs = gv_resources v; n = rb_write_end b - rb_write_base b; f = file_of (fd_of v b) in
      if length rs \<le> unat (rb_resource b) \<or> rb_write_end b \<le> rb_write_base b \<or> rb_write_base b < rb_base b \<or>
         rb_end b < rb_write_end b
      then (Refuse (- EPROTO), moved, cl)
      else if vr_resource_type (buffer_of v b) \<noteq> RESOURCE_BUFFER \<or> length rs \<le> unat (vr_parent_resource_index (buffer_of v b)) \<or>
              \<not> buffer_backed v (memory_of v b)
      then (Refuse (- EPROTO), moved, cl)
      else case file_offset v b (rb_write_base b) of
        None \<Rightarrow> (Refuse (- EOVERFLOW), moved, cl)
      | Some off \<Rightarrow>
          (case write_fd_exact off (take (unat n) (drop (unat (rb_write_base b - rb_base b)) (rb_bytes b))) (cl_data cl f) (cl_script cl) of
             (rc, file, sc) \<Rightarrow>
               (let cl' = cl\<lparr>cl_data := (cl_data cl)(f := file), cl_script := sc\<rparr> in
                if rc \<noteq> 0 then (Refuse (- EIO), moved, cl')
                else if UINT64_MAX - moved < n then (Refuse (- EOVERFLOW), moved, cl')
                else (Pass, moved + n, cl'))))"

fun writeback_buffers :: "(int \<Rightarrow> nat) \<Rightarrow> v6_view \<Rightarrow> replay_buffer list \<Rightarrow> u64 \<Rightarrow> client \<Rightarrow> verdict \<times> client" where
  "writeback_buffers file_of v [] moved cl = (Pass, cl)"
| "writeback_buffers file_of v (b # bs) moved cl =
     (if \<not> rb_written b then writeback_buffers file_of v bs moved cl
      else case writeback_buffer file_of v b moved cl of
        (Pass, moved', cl') \<Rightarrow> writeback_buffers file_of v bs moved' cl'
      | (fault, moved', cl') \<Rightarrow> (fault, cl'))"

definition writeback_vulkan_graphics_v6_storage_buffers ::
    "(int \<Rightarrow> nat) \<Rightarrow> v6_view \<Rightarrow> replay_buffer list \<Rightarrow> client \<Rightarrow> verdict \<times> client" where
  "writeback_vulkan_graphics_v6_storage_buffers file_of v bs cl = writeback_buffers file_of v bs 0 cl"

end
