(* ===== verification/Replay_Record.thy ===== *)
theory Replay_Record
  imports Replay_Buffers
begin

text \<open>
  Recording the commands that use buffers (\<open>pdocker_gpu_executor.c\<close>): which bytes of the buffers on the device each command
  is given. The errors that concern pipelines and images are left out, and so are those of the query commands but for the
  copy of results into a buffer.
\<close>

section \<open>The use of a buffer\<close>

text \<open>A buffer of the table, and a range of the device's bytes; offsets are the client's less the first byte staged.\<close>

record buffer_use =
  bu_index :: nat
  bu_offset :: u64
  bu_size :: u64
  bu_writes :: bool

type_synonym uses = "verdict \<times> buffer_use list"

text \<open>A query pool that was made for the frame, and what the device can do.\<close>

record query_pool =
  qp_id :: u64
  qp_fd :: u32
  qp_count :: u32

record replay_runtime =
  rt_index_uint8 :: bool
  rt_draw_count :: bool
  rt_draw_indexed_count :: bool
  rt_barrier2 :: bool
  rt_query_pools :: "query_pool list"

definition no_uses :: "int \<Rightarrow> uses" where
  "no_uses rc = (Refuse (- rc), [])"

definition and_uses :: "uses \<Rightarrow> uses \<Rightarrow> uses" where
  "and_uses u w = (case u of
     (Pass, a) \<Rightarrow> (case w of (Pass, b) \<Rightarrow> (Pass, a @ b) | (fault, b) \<Rightarrow> (fault, [])) | (fault, a) \<Rightarrow> (fault, []))"

fun all_uses :: "uses list \<Rightarrow> uses" where
  "all_uses [] = (Pass, [])"
| "all_uses (u # us) = and_uses u (all_uses us)"

definition uses_at :: "'a list \<Rightarrow> u32 \<Rightarrow> ('a \<Rightarrow> uses) \<Rightarrow> uses" where
  "uses_at xs i f = (if unat i < length xs then f (xs ! unat i) else (Stray, []))"

definition with_buffer :: "replay_buffer list \<Rightarrow> u32 \<Rightarrow> (nat \<Rightarrow> uses) \<Rightarrow> uses" where
  "with_buffer bs k f = (case find_vulkan_graphics_replay_buffer bs k of None \<Rightarrow> no_uses ENOENT | Some i \<Rightarrow> f i)"

definition outside_staged :: "replay_buffer \<Rightarrow> u64 \<Rightarrow> u64 \<Rightarrow> bool" where
  "outside_staged b off sz \<longleftrightarrow> off < rb_base b \<or> rb_end b < off \<or> rb_end b - off < sz"

definition use_of :: "replay_buffer list \<Rightarrow> nat \<Rightarrow> u64 \<Rightarrow> u64 \<Rightarrow> bool \<Rightarrow> buffer_use" where
  "use_of bs i off sz w = \<lparr>bu_index = i, bu_offset = off - rb_base (bs ! i), bu_size = sz, bu_writes = w\<rparr>"

definition checked_use :: "replay_buffer list \<Rightarrow> u64 \<Rightarrow> u64 \<Rightarrow> bool \<Rightarrow> nat \<Rightarrow> uses" where
  "checked_use bs off sz w i = (if outside_staged (bs ! i) off sz then no_uses ERANGE else (Pass, [use_of bs i off sz w]))"

section \<open>Each command\<close>

text \<open>Vertex buffers, whose binding numbers follow the first one; the largest number stands for none yet.\<close>

fun vertex_uses :: "v6_view \<Rightarrow> replay_buffer list \<Rightarrow> u32 list \<Rightarrow> u32 \<Rightarrow> u32 \<Rightarrow> uses" where
  "vertex_uses v bs [] first n = (Pass, [])"
| "vertex_uses v bs (j # js) first n =
     uses_at (gv_vertex_bindings v) j (\<lambda>b.
       let first = (if first = 0xffffffff then gvb_binding b else first) in
       if gvb_binding b \<noteq> first + n then no_uses EOPNOTSUPP
       else and_uses (with_buffer bs (gvb_buffer_resource_index b) (checked_use bs (gvb_offset b) (gvb_size b) False))
              (vertex_uses v bs js first (n + 1)))"

definition record_vertex_buffers :: "v6_view \<Rightarrow> replay_buffer list \<Rightarrow> g_command \<Rightarrow> uses" where
  "record_vertex_buffers v bs c =
     (if MAX_REPLAY_BUFFERS < unat (gcm_vertex_binding_count c) then no_uses E2BIG
      else vertex_uses v bs (indices (gcm_vertex_binding_first c) (gcm_vertex_binding_count c)) 0xffffffff 0)"

text \<open>An indirect draw reads its parameters and perhaps their number; neither is compared with what is staged.\<close>

definition record_indirect :: "bool \<Rightarrow> replay_buffer list \<Rightarrow> g_command \<Rightarrow> g_indirect_draw \<Rightarrow> uses" where
  "record_indirect counts bs c e =
     (let n = ucast (gid_draw_count e - 1) * ucast (gid_stride e) + indirect_command_size c in
      with_buffer bs (gid_indirect_resource_index e) (\<lambda>i.
        if gid_flags e AND 1 = 0 then (Pass, [use_of bs i (gid_indirect_offset e) n False])
        else if \<not> counts then no_uses EOPNOTSUPP
        else with_buffer bs (gid_count_resource_index e) (\<lambda>j.
          (Pass, [use_of bs i (gid_indirect_offset e) n False, use_of bs j (gid_count_offset e) 4 False]))))"

definition record_draw :: "replay_runtime \<Rightarrow> v6_view \<Rightarrow> replay_buffer list \<Rightarrow> nat \<Rightarrow> g_command \<Rightarrow> uses" where
  "record_draw rt v bs i c =
     (case find_vulkan_graphics_v68_indirect_draw v i of
        None \<Rightarrow> (Pass, []) | Some e \<Rightarrow> record_indirect (rt_draw_count rt) bs c e)"

definition vulkan_graphics_index_type_supported_by_runtime :: "replay_runtime \<Rightarrow> u32 \<Rightarrow> bool" where
  "vulkan_graphics_index_type_supported_by_runtime rt ty \<longleftrightarrow> (ty = 1000265000 \<longrightarrow> rt_index_uint8 rt)"

text \<open>An index buffer may be used to its end.\<close>

definition record_bind_index :: "replay_runtime \<Rightarrow> replay_buffer list \<Rightarrow> g_command \<Rightarrow> uses" where
  "record_bind_index rt bs c =
     (if vulkan_graphics_index_stride (gcm_index_type c) = None then no_uses EOPNOTSUPP
      else if \<not> vulkan_graphics_index_type_supported_by_runtime rt (gcm_index_type c) then no_uses EOPNOTSUPP
      else with_buffer bs (gcm_index_buffer_resource_index c) (\<lambda>i.
        if gcm_index_offset c < rb_base (bs ! i) \<or> rb_end (bs ! i) < gcm_index_offset c then no_uses ERANGE
        else (Pass, [use_of bs i (gcm_index_offset c) (rb_end (bs ! i) - gcm_index_offset c) False])))"

text \<open>
  An indexed draw binds the index buffer anew, at the place of its index offset on the device, and reads from there on up to
  its last index; only its own indices are compared with what is staged, not the place that is bound.
\<close>

definition bound_index_offset :: "replay_buffer \<Rightarrow> g_command \<Rightarrow> u64" where
  "bound_index_offset b c = gcm_index_offset c - rb_base b"

definition record_draw_indexed :: "replay_runtime \<Rightarrow> v6_view \<Rightarrow> replay_buffer list \<Rightarrow> nat \<Rightarrow> g_command \<Rightarrow> uses" where
  "record_draw_indexed rt v bs i c =
     (case vulkan_graphics_index_stride (gcm_index_type c) of
        None \<Rightarrow> no_uses EOPNOTSUPP
      | Some stride \<Rightarrow>
          if \<not> vulkan_graphics_index_type_supported_by_runtime rt (gcm_index_type c) then no_uses EOPNOTSUPP
          else case (checked_mul_u64_executor (ucast (gcm_first_index c)) stride, checked_mul_u64_executor (ucast (gcm_index_count c)) stride) of
            (Some first, Some span) \<Rightarrow>
              (case checked_u64_add3 (gcm_index_offset c) first 0 of
                 None \<Rightarrow> no_uses EOVERFLOW
               | Some off \<Rightarrow>
                   (case checked_u64_add3 off span 0 of
                      None \<Rightarrow> no_uses EOVERFLOW
                    | Some e \<Rightarrow> with_buffer bs (gcm_index_buffer_resource_index c) (\<lambda>k.
                        if off < rb_base (bs ! k) \<or> rb_end (bs ! k) < e then no_uses ERANGE
                        else and_uses
                          (Pass, [\<lparr>bu_index = k, bu_offset = bound_index_offset (bs ! k) c, bu_size = first + span, bu_writes = False\<rparr>])
                          (case find_vulkan_graphics_v68_indirect_draw v i of
                             None \<Rightarrow> (Pass, []) | Some x \<Rightarrow> record_indirect (rt_draw_indexed_count rt) bs c x))))
          | _ \<Rightarrow> no_uses EOVERFLOW)"

definition record_buffer_copy :: "replay_buffer list \<Rightarrow> g_buffer_copy \<Rightarrow> uses" where
  "record_buffer_copy bs e =
     with_buffer bs (gbc_src_resource_index e) (\<lambda>i. with_buffer bs (gbc_dst_resource_index e) (\<lambda>j.
       if outside_staged (bs ! i) (gbc_src_offset e) (gbc_size e) \<or> outside_staged (bs ! j) (gbc_dst_offset e) (gbc_size e)
       then no_uses ERANGE
       else (Pass, [use_of bs i (gbc_src_offset e) (gbc_size e) False, use_of bs j (gbc_dst_offset e) (gbc_size e) True])))"

definition record_fill_buffer :: "replay_buffer list \<Rightarrow> g_fill_buffer \<Rightarrow> uses" where
  "record_fill_buffer bs e = with_buffer bs (gfb_dst_resource_index e) (checked_use bs (gfb_dst_offset e) (gfb_size e) True)"

definition record_update_buffer :: "v6_view \<Rightarrow> replay_buffer list \<Rightarrow> g_update_buffer \<Rightarrow> uses" where
  "record_update_buffer v bs e =
     (if \<not> payload_range_valid (gub_payload_offset e) (gub_data_size e) (gh_frame_size (gv_header v)) then no_uses EPROTO
      else with_buffer bs (gub_dst_resource_index e) (checked_use bs (gub_dst_offset e) (gub_data_size e) True))"

definition record_buffer_image_copy :: "v6_view \<Rightarrow> replay_buffer list \<Rightarrow> g_command \<Rightarrow> g_buffer_image_copy \<Rightarrow> uses" where
  "record_buffer_image_copy v bs c e =
     (if length (gv_images v) \<le> unat (gbi_image_index e) then no_uses EPROTO
      else with_buffer bs (gbi_buffer_resource_index e) (\<lambda>i.
        case vulkan_graphics_v610_buffer_image_copy_span e (gv_images v ! unat (gbi_image_index e)) of
          Inl rc \<Rightarrow> (Refuse rc, [])
        | Inr n \<Rightarrow> checked_use bs (gbi_buffer_offset e) n (gcm_command_type c = CMD_COPY_IMAGE_TO_BUFFER) i))"

text \<open>The results of queries are copied into a buffer; a range outside of what was staged is another error here.\<close>

definition find_vulkan_graphics_replay_query_pool :: "query_pool list \<Rightarrow> u64 \<Rightarrow> u32 \<Rightarrow> query_pool option" where
  "find_vulkan_graphics_replay_query_pool qs pool fd = List.find (\<lambda>q. qp_id q = pool \<and> qp_fd q = fd) qs"

definition record_copy_query :: "replay_runtime \<Rightarrow> v6_view \<Rightarrow> replay_buffer list \<Rightarrow> g_copy_query \<Rightarrow> uses" where
  "record_copy_query rt v bs e =
     (if length (gv_fds v) \<le> unat (gcq_result_fd_index e) then no_uses EPROTO
      else case find_vulkan_graphics_replay_query_pool (rt_query_pools rt) (gcq_query_pool_id e) (gcq_result_fd_index e) of
        None \<Rightarrow> no_uses ENOENT
      | Some q \<Rightarrow> with_buffer bs (gcq_dst_resource_index e) (\<lambda>i.
          case vulkan_graphics_v618_copy_query_result_span e of
            Inl rc \<Rightarrow> (Refuse rc, [])
          | Inr n \<Rightarrow>
              if outside_staged (bs ! i) (gcq_dst_offset e) n \<or> qp_count q < gcq_first_query e \<or>
                 qp_count q - gcq_first_query e < gcq_query_count e
              then no_uses EPROTO
              else (Pass, [use_of bs i (gcq_dst_offset e) n True])))"

fun barrier_uses :: "replay_buffer list \<Rightarrow> nat \<Rightarrow> g_buffer_barrier list \<Rightarrow> uses" where
  "barrier_uses bs n [] = (Pass, [])"
| "barrier_uses bs n (b # rest) =
     (if GPU_MAX_VULKAN_BINDINGS \<le> n then no_uses E2BIG
      else and_uses (with_buffer bs (gbb_resource_index b) (checked_use bs (gbb_offset b) (gbb_size b) False))
             (barrier_uses bs (n + 1) rest))"

definition record_barrier :: "replay_runtime \<Rightarrow> v6_view \<Rightarrow> replay_buffer list \<Rightarrow> nat \<Rightarrow> uses" where
  "record_barrier rt v bs i =
     (if \<not> rt_barrier2 rt then no_uses EOPNOTSUPP
      else if GPU_MAX_VULKAN_BINDINGS < length (filter (\<lambda>b. unat (gmb_command_index b) = i) (gv_memory_barriers v)) then no_uses E2BIG
      else barrier_uses bs 0 (filter (\<lambda>b. unat (gbb_command_index b) = i) (gv_buffer_barriers v)))"

text \<open>The buffers written into the descriptor sets. Behind the end of the staged range the difference wraps around.\<close>

definition descriptor_use :: "v6_view \<Rightarrow> replay_buffer list \<Rightarrow> v5_object_descriptor \<Rightarrow> uses" where
  "descriptor_use v bs d =
     (case vulkan_dispatch_descriptor_type_from_api (vo_descriptor_type d) of
        None \<Rightarrow> if vulkan_dispatch_image_descriptor_type_from_api (vo_descriptor_type d) = None then no_uses EOPNOTSUPP else (Pass, [])
      | Some ty \<Rightarrow>
          (case checked_u64_add3 (vo_buffer_offset d) (vo_dynamic_offset d) 0 of
             None \<Rightarrow> no_uses EOVERFLOW
           | Some off \<Rightarrow> uses_at (gv_resources v) (vo_resource_index d) (\<lambda>buf.
               if vo_range d = UINT64_MAX \<and> vr_size buf < off then no_uses ERANGE
               else let range = (if vo_range d = UINT64_MAX then vr_size buf - off else vo_range d) in
                 with_buffer bs (vo_resource_index d) (\<lambda>i.
                   if off < rb_base (bs ! i) \<or> rb_end (bs ! i) - off < range then no_uses ERANGE
                   else (Pass, [use_of bs i off range (vo_access_flags d AND 2 \<noteq> 0)])))))"

definition record_descriptors :: "v6_view \<Rightarrow> replay_buffer list \<Rightarrow> g_command \<Rightarrow> uses" where
  "record_descriptors v bs c =
     (if GPU_MAX_VULKAN_BINDINGS < unat (gcm_descriptor_count c) then no_uses E2BIG
      else all_uses (map (\<lambda>j. uses_at (gv_descriptors v) j (descriptor_use v bs)) (indices (gcm_first_descriptor c) (gcm_descriptor_count c))))"

definition no_entry :: "'a option \<Rightarrow> ('a \<Rightarrow> uses) \<Rightarrow> uses" where
  "no_entry x f = (case x of None \<Rightarrow> no_uses EPROTO | Some e \<Rightarrow> f e)"

definition record_uses :: "replay_runtime \<Rightarrow> v6_view \<Rightarrow> replay_buffer list \<Rightarrow> nat \<times> g_command \<Rightarrow> uses" where
  "record_uses rt v bs ic =
     (let (i, c) = ic; ty = gcm_command_type c in
      if ty = CMD_BIND_VERTEX_BUFFERS then record_vertex_buffers v bs c
      else if ty = CMD_DRAW then record_draw rt v bs i c
      else if ty = CMD_BIND_INDEX_BUFFER then record_bind_index rt bs c
      else if ty = CMD_DRAW_INDEXED then record_draw_indexed rt v bs i c
      else if ty = CMD_BIND_DESCRIPTOR_SETS then record_descriptors v bs c
      else if ty = CMD_COPY_BUFFER then no_entry (find_vulkan_graphics_v69_buffer_copy v i) (record_buffer_copy bs)
      else if ty = CMD_FILL_BUFFER then no_entry (find_vulkan_graphics_v611_fill_buffer v i) (record_fill_buffer bs)
      else if ty = CMD_UPDATE_BUFFER then no_entry (find_vulkan_graphics_v611_update_buffer v i) (record_update_buffer v bs)
      else if ty = CMD_COPY_BUFFER_TO_IMAGE \<or> ty = CMD_COPY_IMAGE_TO_BUFFER
      then no_entry (find_vulkan_graphics_v610_buffer_image_copy v i) (record_buffer_image_copy v bs c)
      else if ty = CMD_COPY_QUERY_POOL_RESULTS
      then no_entry (find_vulkan_graphics_v618_copy_query_result v i) (record_copy_query rt v bs)
      else if ty = CMD_BARRIER then record_barrier rt v bs i
      else (Pass, []))"

definition record_frame_uses :: "replay_runtime \<Rightarrow> v6_view \<Rightarrow> replay_buffer list \<Rightarrow> uses" where
  "record_frame_uses rt v bs = all_uses (map (record_uses rt v bs) (enumerate 0 (gv_commands v)))"

section \<open>The barriers before the results are read\<close>

text \<open>One barrier for each buffer that is written back: its index, the offset and size on the device.\<close>

fun record_vulkan_graphics_v6_buffer_writeback_barriers :: "nat \<Rightarrow> replay_buffer list \<Rightarrow> int + (nat \<times> u64 \<times> u64) list" where
  "record_vulkan_graphics_v6_buffer_writeback_barriers i [] = Inr []"
| "record_vulkan_graphics_v6_buffer_writeback_barriers i (b # bs) =
     (if \<not> rb_written b then record_vulkan_graphics_v6_buffer_writeback_barriers (i + 1) bs
      else if rb_write_end b \<le> rb_write_base b \<or> rb_write_base b < rb_base b \<or> rb_end b < rb_write_end b then Inl (- EPROTO)
      else case record_vulkan_graphics_v6_buffer_writeback_barriers (i + 1) bs of
        Inl rc \<Rightarrow> Inl rc
      | Inr ws \<Rightarrow> Inr ((i, rb_write_base b - rb_base b, rb_write_end b - rb_write_base b) # ws))"

end
