(* ===== verification/Buffer_Staging.thy ===== *)
theory Buffer_Staging
  imports Replay_Record
begin

text \<open>
  The table of buffers of a replay: every operation on it keeps its entries inside the client's buffers and only widens
  them, so what any command of a frame uses is covered at the end.
\<close>

declare first_fault.simps(2) [simp del]

section \<open>Entries\<close>

definition entry_ok :: "v6_view \<Rightarrow> replay_buffer \<Rightarrow> bool" where
  "entry_ok v b \<longleftrightarrow>
     unat (rb_resource b) < length (gv_resources v) \<and> vr_resource_type (buffer_of v b) = RESOURCE_BUFFER \<and>
     unat (vr_parent_resource_index (buffer_of v b)) < length (gv_resources v) \<and> buffer_backed v (memory_of v b) \<and>
     unat (vr_memory_offset (buffer_of v b)) + unat (vr_size (buffer_of v b)) \<le> unat (vr_size (memory_of v b)) \<and>
     rb_base b < rb_end b \<and> rb_end b \<le> vr_size (buffer_of v b) \<and>
     (rb_written b \<longrightarrow> rb_base b \<le> rb_write_base b \<and> rb_write_base b < rb_write_end b \<and> rb_write_end b \<le> rb_end b)"

definition table_ok :: "v6_view \<Rightarrow> replay_buffer list \<Rightarrow> bool" where
  "table_ok v bs \<longleftrightarrow> length bs \<le> MAX_REPLAY_BUFFERS \<and> distinct (map rb_resource bs) \<and> list_all (entry_ok v) bs"

definition wider :: "replay_buffer \<Rightarrow> replay_buffer \<Rightarrow> bool" where
  "wider b b' \<longleftrightarrow> rb_resource b' = rb_resource b \<and> rb_base b' \<le> rb_base b \<and> rb_end b \<le> rb_end b' \<and>
     (rb_written b \<longrightarrow> rb_written b' \<and> rb_write_base b' \<le> rb_write_base b \<and> rb_write_end b \<le> rb_write_end b')"

definition grown :: "replay_buffer list \<Rightarrow> replay_buffer list \<Rightarrow> bool" where
  "grown bs bs' \<longleftrightarrow> length bs \<le> length bs' \<and> (\<forall>i<length bs. wider (bs ! i) (bs' ! i))"

lemma wider_refl [simp]: "wider b b"
  by (simp add: wider_def)

lemma wider_trans: "wider a b \<Longrightarrow> wider b c \<Longrightarrow> wider a c"
  by (auto simp: wider_def)

lemma grown_refl [simp]: "grown bs bs"
  by (simp add: grown_def)

lemma grown_trans: "grown a b \<Longrightarrow> grown b c \<Longrightarrow> grown a c"
  unfolding grown_def by (meson less_le_trans order_trans wider_trans)

lemma grown_update: "wider (bs ! i) b \<Longrightarrow> grown bs (bs[i := b])"
  unfolding grown_def by (metis length_list_update nth_list_update_eq nth_list_update_neq order_refl wider_refl)

lemma grown_append: "grown bs (bs @ bs')"
  by (simp add: grown_def nth_append)

section \<open>Look-up\<close>

lemma find_buffer_Some:
  "find_vulkan_graphics_replay_buffer bs k = Some i \<longleftrightarrow>
     i < length bs \<and> rb_resource (bs ! i) = k \<and> (\<forall>j<i. rb_resource (bs ! j) \<noteq> k)"
  unfolding find_vulkan_graphics_replay_buffer_def find_Some_iff by (auto intro: exI[of _ i])

lemma find_buffer_None:
  "find_vulkan_graphics_replay_buffer bs k = None \<longleftrightarrow> k \<notin> rb_resource ` set bs"
  unfolding find_vulkan_graphics_replay_buffer_def find_None_iff by (force simp: in_set_conv_nth)

lemma find_buffer_grown:
  "find_vulkan_graphics_replay_buffer bs k = Some i \<Longrightarrow> grown bs bs' \<Longrightarrow> find_vulkan_graphics_replay_buffer bs' k = Some i"
  by (auto simp: find_buffer_Some grown_def wider_def)

definition covers_in :: "replay_buffer \<Rightarrow> u64 \<Rightarrow> u64 \<Rightarrow> bool \<Rightarrow> bool" where
  "covers_in b off sz w \<longleftrightarrow> unat (rb_base b) \<le> unat off \<and> unat off + unat sz \<le> unat (rb_end b) \<and>
     (w \<longrightarrow> rb_written b \<and> unat (rb_write_base b) \<le> unat off \<and> unat off + unat sz \<le> unat (rb_write_end b))"

definition covers :: "replay_buffer list \<Rightarrow> u32 \<Rightarrow> u64 \<Rightarrow> u64 \<Rightarrow> bool \<Rightarrow> bool" where
  "covers bs k off sz w \<longleftrightarrow> (\<exists>i. find_vulkan_graphics_replay_buffer bs k = Some i \<and> covers_in (bs ! i) off sz w)"

lemma covers_in_wider: "covers_in b off sz w \<Longrightarrow> wider b b' \<Longrightarrow> covers_in b' off sz w"
  by (auto simp: covers_in_def wider_def word_le_nat_alt)

lemma covers_grown: "covers bs k off sz w \<Longrightarrow> grown bs bs' \<Longrightarrow> covers bs' k off sz w"
  unfolding covers_def by (metis covers_in_wider find_buffer_Some find_buffer_grown grown_def)

lemma covers_read: "covers bs k off sz w \<Longrightarrow> covers bs k off sz False"
  by (auto simp: covers_def covers_in_def)

section \<open>One range\<close>

lemma end_nat: "checked_u64_add3 off sz 0 = Some e \<Longrightarrow> unat e = unat off + unat sz"
  using add3_unat by fastforce

lemma add_range_ok:
  assumes "table_ok v bs" "add_vulkan_graphics_replay_buffer_range v k off sz usage bs = (Pass, bs')"
  shows "table_ok v bs'" "grown bs bs'" "covers bs' k off sz False"
proof -
  define buf where "buf = gv_resources v ! unat k"
  from assms(2) obtain e where g: "unat k < length (gv_resources v)" "sz \<noteq> 0" "vr_resource_type buf = RESOURCE_BUFFER"
    "unat (vr_parent_resource_index buf) < length (gv_resources v)" "unat off + unat sz \<le> unat (vr_size buf)"
    "buffer_backed v (gv_resources v ! unat (vr_parent_resource_index buf))"
    "unat (vr_memory_offset buf) + unat (vr_size buf) \<le> unat (vr_size (gv_resources v ! unat (vr_parent_resource_index buf)))"
    "checked_u64_add3 off sz 0 = Some e"
    and bs': "bs' = (case find_vulkan_graphics_replay_buffer bs k of
      None \<Rightarrow> bs @ [new_replay_buffer k off e usage] | Some i \<Rightarrow> bs[i := widen off e usage (bs ! i)])"
      "find_vulkan_graphics_replay_buffer bs k = None \<Longrightarrow> length bs < MAX_REPLAY_BUFFERS"
    by (auto simp: add_vulkan_graphics_replay_buffer_range_def Let_def buf_def u64_range_nat split: if_splits option.splits)
  note e = end_nat[OF g(8)]
  have pos: "off < e" "e \<le> vr_size buf" using g(2,5) e by (auto simp: word_less_nat_alt word_le_nat_alt unat_gt_0)
  have new: "entry_ok v (new_replay_buffer k off e usage)"
    using g pos by (simp add: entry_ok_def new_replay_buffer_def buffer_of_def memory_of_def buf_def)
  have old: "entry_ok v (widen off e usage b)" if "entry_ok v b" "rb_resource b = k" for b
    using that pos by (auto simp: entry_ok_def widen_def buffer_of_def memory_of_def buf_def min_def max_def)
  have wide: "wider b (widen off e usage b)" for b by (simp add: wider_def widen_def)
  have res: "rb_resource (new_replay_buffer k off e usage) = k" "rb_resource (widen off e usage b) = rb_resource b" for b
    by (simp_all add: new_replay_buffer_def widen_def)
  consider (fresh) "k \<notin> set (map rb_resource bs)" "length bs < MAX_REPLAY_BUFFERS" "bs' = bs @ [new_replay_buffer k off e usage]"
    | (known) i where "find_vulkan_graphics_replay_buffer bs k = Some i" "i < length bs" "rb_resource (bs ! i) = k"
      "bs' = bs[i := widen off e usage (bs ! i)]"
    using bs' find_buffer_None[of bs k] find_buffer_Some[of bs k]
    by (cases "find_vulkan_graphics_replay_buffer bs k") auto
  then have "table_ok v bs' \<and> grown bs bs' \<and> covers bs' k off sz False"
  proof cases
    case fresh
    have "table_ok v bs'" using assms(1) new fresh res by (simp add: table_ok_def)
    moreover have "grown bs bs'" unfolding fresh(3) by (rule grown_append)
    moreover have "find_vulkan_graphics_replay_buffer bs' k = Some (length bs)"
      using fresh res by (auto simp: find_buffer_Some nth_append)
    then have "covers bs' k off sz False"
      using e by (simp add: covers_def covers_in_def fresh(3)) (simp add: new_replay_buffer_def)
    ultimately show ?thesis by simp
  next
    case (known i)
    have "map rb_resource bs' = map rb_resource bs"
      unfolding known(4) map_update res by (metis known(2) list_update_id map_update)
    then have "table_ok v bs'" using assms(1) old known by (auto simp: table_ok_def list_all_length nth_list_update)
    moreover have "grown bs bs'" unfolding known(4) by (rule grown_update) (rule wide)
    moreover have "find_vulkan_graphics_replay_buffer bs' k = Some i" "bs' ! i = widen off e usage (bs ! i)"
      using known res by (auto simp: find_buffer_Some nth_list_update)
    then have "covers bs' k off sz False"
      using e by (auto simp: covers_def covers_in_def widen_def min_def max_def word_le_nat_alt)
    ultimately show ?thesis by simp
  qed
  then show "table_ok v bs'" "grown bs bs'" "covers bs' k off sz False" by simp_all
qed

lemma mark_range_ok:
  assumes "table_ok v bs" "mark_vulkan_graphics_replay_buffer_writeback_range v k off sz bs = (Pass, bs')"
  shows "table_ok v bs'" "grown bs bs'" "covers bs' k off sz True"
proof -
  from assms(2) obtain e i where g: "sz \<noteq> 0" "checked_u64_add3 off sz 0 = Some e"
    and i: "find_vulkan_graphics_replay_buffer bs k = Some i" "rb_base (bs ! i) \<le> off" "e \<le> rb_end (bs ! i)"
    and bs': "bs' = bs[i := widen_write off e (bs ! i)]"
    by (auto simp: mark_vulkan_graphics_replay_buffer_writeback_range_def Let_def not_less split: if_splits option.splits)
  note e = end_nat[OF g(2)]
  have pos: "off < e" using g(1) e by (auto simp: word_less_nat_alt unat_gt_0)
  have ii: "i < length bs" "rb_resource (bs ! i) = k" using i(1) by (auto simp: find_buffer_Some)
  have same: "rb_resource (widen_write off e b) = rb_resource b" "rb_base (widen_write off e b) = rb_base b"
    "rb_end (widen_write off e b) = rb_end b" for b by (simp_all add: widen_write_def)
  have "entry_ok v (widen_write off e (bs ! i))"
    using assms(1) ii(1) i(2,3) pos unfolding table_ok_def list_all_length
    by (auto simp: entry_ok_def widen_write_def buffer_of_def memory_of_def min_def max_def)
  moreover have "map rb_resource bs' = map rb_resource bs"
    unfolding bs' map_update same by (metis ii(1) list_update_id map_update)
  ultimately show "table_ok v bs'" using assms(1) ii(1) bs' by (auto simp: table_ok_def list_all_length nth_list_update)
  show "grown bs bs'" unfolding bs' by (rule grown_update) (simp add: wider_def widen_write_def)
  have "find_vulkan_graphics_replay_buffer bs' k = Some i" "bs' ! i = widen_write off e (bs ! i)"
    using i(1) bs' by (auto simp: find_buffer_Some nth_list_update widen_write_def)
  then show "covers bs' k off sz True"
    using i(2,3) e by (auto simp: covers_def covers_in_def widen_write_def min_def max_def word_le_nat_alt)
qed

section \<open>Runs\<close>

definition sound :: "v6_view \<Rightarrow> staging \<Rightarrow> bool" where
  "sound v f \<longleftrightarrow> (\<forall>bs bs'. table_ok v bs \<longrightarrow> f bs = (Pass, bs') \<longrightarrow> table_ok v bs' \<and> grown bs bs')"

definition reaches :: "v6_view \<Rightarrow> staging \<Rightarrow> (replay_buffer list \<Rightarrow> bool) \<Rightarrow> bool" where
  "reaches v f P \<longleftrightarrow> (\<forall>bs bs'. table_ok v bs \<longrightarrow> f bs = (Pass, bs') \<longrightarrow> P bs')"

definition lasting :: "(replay_buffer list \<Rightarrow> bool) \<Rightarrow> bool" where
  "lasting P \<longleftrightarrow> (\<forall>bs bs'. P bs \<longrightarrow> grown bs bs' \<longrightarrow> P bs')"

interpretation staging_run: guarded_system "\<lambda>f bs. snd (f bs)" "\<lambda>bs f. fst (f bs) = Pass \<and> sound v f" "table_ok v" grown for v
proof unfold_locales
  fix bs f
  assume "table_ok v bs" "fst (f bs) = Pass \<and> sound v f"
  then show "table_ok v (snd (f bs))" "grown bs (snd (f bs))" unfolding sound_def by (metis prod.collapse)+
qed (auto intro: grown_trans)

lemma next_staging_Pass:
  "next_staging f g bs = (Pass, bs') \<longleftrightarrow> (\<exists>bs1. f bs = (Pass, bs1) \<and> g bs1 = (Pass, bs'))"
  by (cases "f bs"; cases "fst (f bs)") (auto simp: next_staging_def)

lemma all_stagings_run:
  assumes "all_stagings fs bs = (Pass, bs')" "list_all (sound v) fs"
  shows "staging_run.all_allowed v bs fs \<and> bs' = fold (\<lambda>f bs. snd (f bs)) fs bs"
  using assms by (induction fs arbitrary: bs) (auto simp: skip_def next_staging_Pass)

lemma all_stagings_split:
  assumes "all_stagings (fs @ gs) bs = (Pass, bs')"
  obtains bs1 where "all_stagings fs bs = (Pass, bs1)" "all_stagings gs bs1 = (Pass, bs')"
  using assms by (induction fs arbitrary: bs thesis) (auto simp: skip_def next_staging_Pass)

lemma sound_all [intro]: "list_all (sound v) fs \<Longrightarrow> sound v (all_stagings fs)"
proof -
  assume s: "list_all (sound v) fs"
  have "table_ok v bs' \<and> grown bs bs'" if "table_ok v bs" "all_stagings fs bs = (Pass, bs')" for bs bs'
    using all_stagings_run[OF that(2) s] staging_run.run_inv[of v bs fs] staging_run.run_same[of v bs fs] that(1) by simp
  then show ?thesis unfolding sound_def by blast
qed

lemma sound_next [intro]: "sound v f \<Longrightarrow> sound v g \<Longrightarrow> sound v (next_staging f g)"
  unfolding sound_def next_staging_Pass by (meson grown_trans)

lemma sound_skip [intro, simp]: "sound v skip"
  by (simp add: sound_def skip_def)

lemma sound_refused [intro, simp]: "sound v (refused rc)" "sound v (\<lambda>bs. (Refuse r, bs))"
  by (simp_all add: sound_def refused_def)

lemma sound_at [intro]: "(\<And>x. sound v (f x)) \<Longrightarrow> sound v (staging_at xs i f)"
  by (simp add: sound_def staging_at_def)

lemma sound_add [intro, simp]: "sound v (add_vulkan_graphics_replay_buffer_range v k off sz usage)"
  unfolding sound_def by (blast intro: add_range_ok(1,2))

lemma sound_mark [intro, simp]: "sound v (mark_vulkan_graphics_replay_buffer_writeback_range v k off sz)"
  unfolding sound_def by (blast intro: mark_range_ok(1,2))

lemma sound_add_and_mark [intro, simp]: "sound v (add_and_mark v k off sz usage)"
  unfolding add_and_mark_def by blast

lemma lasting_covers [intro, simp]: "lasting (\<lambda>bs. covers bs k off sz w)"
  unfolding lasting_def using covers_grown by blast

lemma lasting_const [intro, simp]: "lasting (\<lambda>bs. P)"
  by (simp add: lasting_def)

lemma lasting_conj [intro]: "lasting P \<Longrightarrow> lasting Q \<Longrightarrow> lasting (\<lambda>bs. P bs \<and> Q bs)"
  unfolding lasting_def by blast

lemma reaches_add [intro, simp]: "reaches v (add_vulkan_graphics_replay_buffer_range v k off sz usage) (\<lambda>bs. covers bs k off sz False)"
  unfolding reaches_def by (blast intro: add_range_ok(3))

lemma reaches_add_and_mark [intro, simp]: "reaches v (add_and_mark v k off sz usage) (\<lambda>bs. covers bs k off sz True)"
  unfolding reaches_def add_and_mark_def next_staging_Pass by (meson add_range_ok(1) mark_range_ok(3))

lemma reaches_refused [intro, simp]: "reaches v (refused rc) P" "reaches v (\<lambda>bs. (Refuse r, bs)) P"
  by (simp_all add: reaches_def refused_def)

lemma reaches_first: "reaches v f P \<Longrightarrow> sound v f \<Longrightarrow> sound v g \<Longrightarrow> lasting P \<Longrightarrow> reaches v (next_staging f g) P"
  unfolding reaches_def sound_def lasting_def next_staging_Pass by meson

lemma reaches_second: "reaches v g P \<Longrightarrow> sound v f \<Longrightarrow> reaches v (next_staging f g) P"
  unfolding reaches_def sound_def next_staging_Pass by meson

lemma reaches_all:
  assumes "f \<in> set fs" "reaches v f P" "list_all (sound v) fs" "lasting P"
  shows "reaches v (all_stagings fs) P"
proof -
  obtain as gs where fs: "fs = as @ f # gs" using assms(1) by (meson split_list)
  have "sound v (all_stagings as)" "sound v f" "sound v (all_stagings gs)" using assms(3) unfolding fs by auto
  then have "reaches v (next_staging f (all_stagings gs)) P" by (intro reaches_first assms)
  then show ?thesis
    unfolding reaches_def fs using \<open>sound v (all_stagings as)\<close>[unfolded sound_def] by (metis all_stagings.simps(2) all_stagings_split)
qed

lemma reaches_at: "reaches v (f (xs ! unat i)) P \<Longrightarrow> reaches v (staging_at xs i f) P"
  by (simp add: reaches_def staging_at_def)

lemma reaches_conj: "reaches v f P \<Longrightarrow> reaches v f Q \<Longrightarrow> reaches v f (\<lambda>bs. P bs \<and> Q bs)"
  unfolding reaches_def by blast

lemma sound_if: "sound v f \<Longrightarrow> sound v g \<Longrightarrow> sound v (if P then f else g)"
  by simp

lemma sound_option: "sound v f \<Longrightarrow> (\<And>x. sound v (g x)) \<Longrightarrow> sound v (case z of None \<Rightarrow> f | Some x \<Rightarrow> g x)"
  by (cases z) simp_all

lemma sound_sum: "(\<And>x. sound v (f x)) \<Longrightarrow> (\<And>x. sound v (g x)) \<Longrightarrow> sound v (case z of Inl x \<Rightarrow> f x | Inr x \<Rightarrow> g x)"
  by (cases z) simp_all

lemma sound_map: "(\<And>x. sound v (f x)) \<Longrightarrow> sound v (all_stagings (map f xs))"
  by (intro sound_all) (simp add: list_all_iff)

section \<open>The whole frame\<close>

lemma sound_descriptor [intro, simp]: "sound v (stage_descriptor v d)"
  by (simp add: stage_descriptor_def Let_def split: option.splits)

lemma sound_indices [intro, simp]: "sound v (stage_indices v i c)"
  by (simp add: stage_indices_def Let_def split: option.splits)

lemma sound_buffer_image_copy [intro, simp]: "sound v (stage_buffer_image_copy v c e)"
  by (simp add: stage_buffer_image_copy_def split: sum.splits)

lemma sound_command [intro, simp]: "sound v (stage_command v ic)"
  unfolding stage_command_def Let_def prod.case_eq_if
  by (intro sound_if sound_map sound_option sound_sum sound_next sound_at sound_add sound_add_and_mark sound_skip sound_refused
      sound_descriptor sound_indices sound_buffer_image_copy)

lemma sound_indirect [intro, simp]: "sound v (stage_indirect v e)"
  unfolding stage_indirect_def by (intro sound_at) (auto intro!: sound_next split: option.splits)

lemma stage_frame_reaches:
  assumes "stage_frame v [] = (Pass, bs)"
  shows "table_ok v bs"
    "(i, c) \<in> set (enumerate 0 (gv_commands v)) \<Longrightarrow> reaches v (stage_command v (i, c)) P \<Longrightarrow> lasting P \<Longrightarrow> P bs"
    "is_v6 8 (gv_header v) \<Longrightarrow> e \<in> set (gv_indirect_draws v) \<Longrightarrow> reaches v (stage_indirect v e) P \<Longrightarrow> lasting P \<Longrightarrow> P bs"
proof -
  let ?cs = "map (stage_command v) (enumerate 0 (gv_commands v))" and ?es = "map (stage_indirect v) (gv_indirect_draws v)"
  have s: "list_all (sound v) ?cs" "list_all (sound v) ?es" by (simp_all add: list_all_iff)
  have s2: "sound v (if is_v6 8 (gv_header v) then all_stagings ?es else skip)" using s(2) by auto
  have e: "table_ok v []" by (simp add: table_ok_def)
  have "sound v (stage_frame v)" unfolding stage_frame_def by (intro sound_next sound_all s s2)
  then show "table_ok v bs" using assms e unfolding sound_def by blast
  show "P bs" if "(i, c) \<in> set (enumerate 0 (gv_commands v))" "reaches v (stage_command v (i, c)) P" "lasting P"
  proof -
    have "reaches v (all_stagings ?cs) P" using that by (intro reaches_all[OF _ that(2)] s) auto
    then have "reaches v (stage_frame v) P" unfolding stage_frame_def by (intro reaches_first sound_all s s2 that)
    then show ?thesis using assms e unfolding reaches_def by blast
  qed
  show "P bs" if v: "is_v6 8 (gv_header v)" "e \<in> set (gv_indirect_draws v)" "reaches v (stage_indirect v e) P" "lasting P"
  proof -
    have "reaches v (all_stagings ?es) P" using v by (intro reaches_all[OF _ v(3)] s) auto
    then have "reaches v (stage_frame v) P" unfolding stage_frame_def using v(1) by (simp add: reaches_second sound_all s)
    then show ?thesis using assms e unfolding reaches_def by blast
  qed
qed

section \<open>Buffers with their bytes\<close>

text \<open>A table that the staging of a frame leaves, whatever bytes its buffers hold.\<close>

definition unloaded :: "replay_buffer \<Rightarrow> replay_buffer" where
  "unloaded b = b\<lparr>rb_bytes := []\<rparr>"

definition staged :: "v6_view \<Rightarrow> replay_buffer list \<Rightarrow> bool" where
  "staged v bs \<longleftrightarrow> (\<exists>bs0. stage_frame v [] = (Pass, bs0) \<and> map unloaded bs = map unloaded bs0)"

lemma unloaded_fields [simp]:
  "rb_resource (unloaded b) = rb_resource b" "rb_base (unloaded b) = rb_base b" "rb_end (unloaded b) = rb_end b"
  "rb_written (unloaded b) = rb_written b" "rb_write_base (unloaded b) = rb_write_base b"
  "rb_write_end (unloaded b) = rb_write_end b"
  by (simp_all add: unloaded_def)

lemma unloaded_nth: "map unloaded bs = map unloaded bs' \<Longrightarrow> i < length bs \<Longrightarrow> i < length bs' \<and> unloaded (bs ! i) = unloaded (bs' ! i)"
  by (metis length_map nth_map)

lemma covers_unloaded: "covers (map unloaded bs) k off sz w = covers bs k off sz w"
  by (auto simp: covers_def find_buffer_Some covers_in_def)

lemma table_ok_unloaded: "table_ok v (map unloaded bs) = table_ok v bs"
  by (simp add: table_ok_def list_all_iff entry_ok_def buffer_of_def memory_of_def comp_def)

lemma staged_table_ok: "staged v bs \<Longrightarrow> table_ok v bs"
  unfolding staged_def by (metis stage_frame_reaches(1) table_ok_unloaded)

lemma staged_reaches:
  assumes "staged v bs"
  shows "(i, c) \<in> set (enumerate 0 (gv_commands v)) \<Longrightarrow> reaches v (stage_command v (i, c)) (\<lambda>bs. covers bs k off sz w) \<Longrightarrow>
      covers bs k off sz w"
    "is_v6 8 (gv_header v) \<Longrightarrow> e \<in> set (gv_indirect_draws v) \<Longrightarrow>
      reaches v (stage_indirect v e) (\<lambda>bs. covers bs k off sz w) \<Longrightarrow> covers bs k off sz w"
  using assms stage_frame_reaches(2,3)[of v, where P = "\<lambda>bs. covers bs k off sz w"] covers_unloaded
  unfolding staged_def by (metis lasting_covers)+

lemma staged_facts:
  "staged v bs \<Longrightarrow> (i, c) \<in> set (enumerate 0 (gv_commands v)) \<Longrightarrow> reaches v (stage_command v (i, c)) (\<lambda>bs. Q) \<Longrightarrow> Q"
  using stage_frame_reaches(2)[of v, where P = "\<lambda>bs. Q"] unfolding staged_def by (metis lasting_const)

end
