(* ===== verification/Buffer_Uses.thy ===== *)
theory Buffer_Uses
  imports Buffer_Staging
begin

text \<open>
  What a command is given on the device lies inside what was staged for it.
\<close>

section \<open>Uses inside the staged ranges\<close>

text \<open>A use lies inside the buffer on the device, and inside the range that is written back when it writes.\<close>

definition use_inside :: "replay_buffer list \<Rightarrow> buffer_use \<Rightarrow> bool" where
  "use_inside bs u \<longleftrightarrow> bu_index u < length bs \<and>
     (let b = bs ! bu_index u; first = unat (rb_base b) + unat (bu_offset u) in
      first + unat (bu_size u) \<le> unat (rb_end b) \<and>
      (bu_writes u \<longrightarrow> rb_written b \<and> unat (rb_write_base b) \<le> first \<and> first + unat (bu_size u) \<le> unat (rb_write_end b)))"

definition good_uses :: "replay_buffer list \<Rightarrow> uses \<Rightarrow> bool" where
  "good_uses bs u \<longleftrightarrow> fst u \<notin> set [Refuse (- ERANGE), Refuse (- ENOENT)] \<and> list_all (use_inside bs) (snd u)"

definition inside_uses :: "replay_buffer list \<Rightarrow> uses \<Rightarrow> bool" where
  "inside_uses bs u \<longleftrightarrow> list_all (use_inside bs) (snd u)"

lemma good_inside: "good_uses bs u \<Longrightarrow> inside_uses bs u"
  by (simp add: good_uses_def inside_uses_def)

lemma inside_entry: "(\<And>e. x = Some e \<Longrightarrow> inside_uses bs (f e)) \<Longrightarrow> inside_uses bs (no_entry x f)"
  by (cases x) (simp_all add: no_entry_def inside_uses_def no_uses_def)

lemma good_and [intro]: "good_uses bs u \<Longrightarrow> good_uses bs w \<Longrightarrow> good_uses bs (and_uses u w)"
  by (cases u; cases w; cases "fst u"; cases "fst w") (auto simp: good_uses_def and_uses_def)

lemma good_nothing [intro, simp]: "good_uses bs (Pass, [])" "good_uses bs (Stray, [])"
  by (simp_all add: good_uses_def)

lemma good_no_uses [intro, simp]: "rc \<noteq> ERANGE \<Longrightarrow> rc \<noteq> ENOENT \<Longrightarrow> good_uses bs (no_uses rc)"
  by (simp add: good_uses_def no_uses_def)

lemma good_all: "list_all (good_uses bs) us \<Longrightarrow> good_uses bs (all_uses us)"
  by (induction us) auto

lemma good_at: "(unat i < length xs \<Longrightarrow> good_uses bs (f (xs ! unat i))) \<Longrightarrow> good_uses bs (uses_at xs i f)"
  by (simp add: uses_at_def)

lemma good_entry: "(\<And>e. x = Some e \<Longrightarrow> good_uses bs (f e)) \<Longrightarrow> good_uses bs (no_entry x f)"
  by (cases x) (simp_all add: no_entry_def)

lemma covered_use:
  assumes "find_vulkan_graphics_replay_buffer bs k = Some i" "covers_in (bs ! i) off sz w'" "w \<longrightarrow> w'"
  shows "use_inside bs (use_of bs i off sz w)" "\<not> outside_staged (bs ! i) off sz" "rb_base (bs ! i) \<le> off" "off \<le> rb_end (bs ! i)"
proof -
  have d: "unat (off - rb_base (bs ! i)) = unat off - unat (rb_base (bs ! i))" "unat (rb_end (bs ! i) - off) = unat (rb_end (bs ! i)) - unat off"
    using assms(2) by (auto simp: covers_in_def unat_sub word_le_nat_alt)
  show "use_inside bs (use_of bs i off sz w)"
    using assms d by (auto simp: use_inside_def use_of_def covers_in_def find_buffer_Some Let_def)
  show "\<not> outside_staged (bs ! i) off sz"
    using assms(2) d by (auto simp: outside_staged_def covers_in_def word_less_nat_alt)
  show "rb_base (bs ! i) \<le> off" "off \<le> rb_end (bs ! i)" using assms(2) by (auto simp: covers_in_def word_le_nat_alt)
qed

lemma good_checked: "covers bs k off sz w \<Longrightarrow> good_uses bs (with_buffer bs k (checked_use bs off sz w))"
proof -
  assume "covers bs k off sz w"
  then obtain i where i: "find_vulkan_graphics_replay_buffer bs k = Some i" "covers_in (bs ! i) off sz w" by (auto simp: covers_def)
  show ?thesis using covered_use[OF i, of w] i(1) by (simp add: with_buffer_def checked_use_def good_uses_def)
qed

lemma good_with:
  assumes "covers bs k off sz w"
  obtains i where "find_vulkan_graphics_replay_buffer bs k = Some i" "covers_in (bs ! i) off sz w" "use_inside bs (use_of bs i off sz w)"
    "with_buffer bs k = (\<lambda>f. f i)"
  using assms covered_use(1) by (force simp: covers_def with_buffer_def)

section \<open>What the staging of each command reaches\<close>

lemma list_all_sound_map: "(\<And>x. sound v (f x)) \<Longrightarrow> list_all (sound v) (map f xs)"
  by (simp add: list_all_iff)

lemma reaches_map: "x \<in> set xs \<Longrightarrow> reaches v (f x) P \<Longrightarrow> (\<And>x. sound v (f x)) \<Longrightarrow> lasting P \<Longrightarrow> reaches v (all_stagings (map f xs)) P"
  by (rule reaches_all[of "f x"]) (auto intro: list_all_sound_map)

lemma staged_vertex:
  assumes "gcm_command_type c = CMD_BIND_VERTEX_BUFFERS" "j \<in> set (indices (gcm_vertex_binding_first c) (gcm_vertex_binding_count c))"
    "b = gv_vertex_bindings v ! unat j"
  shows "reaches v (stage_command v (i, c)) (\<lambda>bs. covers bs (gvb_buffer_resource_index b) (gvb_offset b) (gvb_size b) False)"
  using assms by (simp add: stage_command_def) (auto intro!: reaches_map[OF assms(2)] reaches_at sound_at)

lemma reaches_descriptor:
  assumes "vulkan_dispatch_descriptor_type_from_api (vo_descriptor_type d) = Some ty"
    "checked_u64_add3 (vo_buffer_offset d) (vo_dynamic_offset d) 0 = Some off"
    "n = (if vo_range d = UINT64_MAX then vr_size (gv_resources v ! unat (vo_resource_index d)) - off else vo_range d)"
  shows "reaches v (stage_descriptor v d) (\<lambda>bs. covers bs (vo_resource_index d) off n (vo_access_flags d AND 2 \<noteq> 0))"
  using assms by (simp add: stage_descriptor_def Let_def)

lemma staged_descriptor:
  assumes "gcm_command_type c = CMD_BIND_DESCRIPTOR_SETS" "j \<in> set (indices (gcm_first_descriptor c) (gcm_descriptor_count c))"
    "reaches v (stage_descriptor v (gv_descriptors v ! unat j)) P" "lasting P"
  shows "reaches v (stage_command v (i, c)) P"
  using assms by (simp add: stage_command_def) (auto intro!: reaches_map[OF assms(2)] reaches_at sound_at)

lemma staged_barrier:
  assumes "gcm_command_type c = CMD_BARRIER" "is_v6 1 (gv_header v)" "b \<in> set (gv_buffer_barriers v)" "unat (gbb_command_index b) = i"
  shows "reaches v (stage_command v (i, c)) (\<lambda>bs. covers bs (gbb_resource_index b) (gbb_offset b) (gbb_size b) False)"
  using assms by (simp add: stage_command_def) (rule reaches_map[of b], auto)

lemma staged_buffer_copy:
  assumes "gcm_command_type c = CMD_COPY_BUFFER" "find_vulkan_graphics_v69_buffer_copy v i = Some e"
  shows "reaches v (stage_command v (i, c)) (\<lambda>bs. covers bs (gbc_src_resource_index e) (gbc_src_offset e) (gbc_size e) False)"
    "reaches v (stage_command v (i, c)) (\<lambda>bs. covers bs (gbc_dst_resource_index e) (gbc_dst_offset e) (gbc_size e) True)"
proof -
  have "is_v6 9 (gv_header v)" using assms(2) by (auto simp: find_vulkan_graphics_v69_buffer_copy_def entry_for_def split: if_splits)
  then show "reaches v (stage_command v (i, c)) (\<lambda>bs. covers bs (gbc_src_resource_index e) (gbc_src_offset e) (gbc_size e) False)"
    "reaches v (stage_command v (i, c)) (\<lambda>bs. covers bs (gbc_dst_resource_index e) (gbc_dst_offset e) (gbc_size e) True)"
    using assms by (simp_all add: stage_command_def reaches_first reaches_second)
qed

lemma staged_fill:
  assumes "gcm_command_type c = CMD_FILL_BUFFER" "find_vulkan_graphics_v611_fill_buffer v i = Some e"
  shows "reaches v (stage_command v (i, c)) (\<lambda>bs. covers bs (gfb_dst_resource_index e) (gfb_dst_offset e) (gfb_size e) True)"
proof -
  have "is_v6 11 (gv_header v)" using assms(2) by (auto simp: find_vulkan_graphics_v611_fill_buffer_def entry_for_def split: if_splits)
  then show ?thesis using assms by (simp add: stage_command_def)
qed

lemma staged_copy_query:
  assumes "gcm_command_type c = CMD_COPY_QUERY_POOL_RESULTS" "find_vulkan_graphics_v618_copy_query_result v i = Some e"
  shows "reaches v (stage_command v (i, c)) (\<lambda>bs. \<exists>n. vulkan_graphics_v618_copy_query_result_span e = Inr n)"
    "vulkan_graphics_v618_copy_query_result_span e = Inr n \<Longrightarrow>
      reaches v (stage_command v (i, c)) (\<lambda>bs. covers bs (gcq_dst_resource_index e) (gcq_dst_offset e) n True)"
proof -
  have v: "is_v6 18 (gv_header v)" using assms(2) by (auto simp: find_vulkan_graphics_v618_copy_query_result_def entry_for_def split: if_splits)
  show "reaches v (stage_command v (i, c)) (\<lambda>bs. \<exists>n. vulkan_graphics_v618_copy_query_result_span e = Inr n)"
    using assms v by (cases "vulkan_graphics_v618_copy_query_result_span e") (simp_all add: stage_command_def, simp_all add: reaches_def)
  show "vulkan_graphics_v618_copy_query_result_span e = Inr n \<Longrightarrow>
      reaches v (stage_command v (i, c)) (\<lambda>bs. covers bs (gcq_dst_resource_index e) (gcq_dst_offset e) n True)"
    using assms v by (simp add: stage_command_def)
qed

lemma staged_update:
  assumes "gcm_command_type c = CMD_UPDATE_BUFFER" "find_vulkan_graphics_v611_update_buffer v i = Some e"
  shows "reaches v (stage_command v (i, c)) (\<lambda>bs. covers bs (gub_dst_resource_index e) (gub_dst_offset e) (gub_data_size e) True)"
proof -
  have "is_v6 11 (gv_header v)" using assms(2) by (auto simp: find_vulkan_graphics_v611_update_buffer_def entry_for_def split: if_splits)
  then show ?thesis using assms by (simp add: stage_command_def)
qed

lemma staged_buffer_image:
  assumes "gcm_command_type c = CMD_COPY_BUFFER_TO_IMAGE \<or> gcm_command_type c = CMD_COPY_IMAGE_TO_BUFFER"
    "find_vulkan_graphics_v610_buffer_image_copy v i = Some e" "unat (gbi_image_index e) < length (gv_images v)"
  shows "reaches v (stage_command v (i, c)) (\<lambda>bs. \<exists>n. vulkan_graphics_v610_buffer_image_copy_span e (gv_images v ! unat (gbi_image_index e)) = Inr n)"
    "vulkan_graphics_v610_buffer_image_copy_span e (gv_images v ! unat (gbi_image_index e)) = Inr n \<Longrightarrow>
      reaches v (stage_command v (i, c))
        (\<lambda>bs. covers bs (gbi_buffer_resource_index e) (gbi_buffer_offset e) n (gcm_command_type c = CMD_COPY_IMAGE_TO_BUFFER))"
proof -
  have v: "is_v6 10 (gv_header v)" using assms(2) by (auto simp: find_vulkan_graphics_v610_buffer_image_copy_def entry_for_def split: if_splits)
  let ?span = "vulkan_graphics_v610_buffer_image_copy_span e (gv_images v ! unat (gbi_image_index e))"
  have "stage_command v (i, c) = stage_buffer_image_copy v c e" using assms v by (auto simp: stage_command_def)
  moreover have "reaches v (stage_buffer_image_copy v c e) (\<lambda>bs. \<exists>n. ?span = Inr n)"
    using assms(3) by (cases ?span) (simp_all add: stage_buffer_image_copy_def reaches_def)
  moreover have "?span = Inr n \<Longrightarrow> reaches v (stage_buffer_image_copy v c e)
      (\<lambda>bs. covers bs (gbi_buffer_resource_index e) (gbi_buffer_offset e) n (gcm_command_type c = CMD_COPY_IMAGE_TO_BUFFER))"
    using assms(1,3) by (auto simp: stage_buffer_image_copy_def)
  ultimately show "reaches v (stage_command v (i, c)) (\<lambda>bs. \<exists>n. ?span = Inr n)"
    "?span = Inr n \<Longrightarrow> reaches v (stage_command v (i, c))
        (\<lambda>bs. covers bs (gbi_buffer_resource_index e) (gbi_buffer_offset e) n (gcm_command_type c = CMD_COPY_IMAGE_TO_BUFFER))"
    by simp_all
qed

section \<open>Recording each command\<close>

lemma good_vertex:
  assumes "\<And>j b. j \<in> set js \<Longrightarrow> b = gv_vertex_bindings v ! unat j \<Longrightarrow>
    covers bs (gvb_buffer_resource_index b) (gvb_offset b) (gvb_size b) False"
  shows "good_uses bs (vertex_uses v bs js first n)"
  using assms by (induction js arbitrary: first n) (auto simp: Let_def intro!: good_at good_and good_checked)

lemma good_barriers:
  assumes "\<And>b. b \<in> set xs \<Longrightarrow> covers bs (gbb_resource_index b) (gbb_offset b) (gbb_size b) False"
  shows "good_uses bs (barrier_uses bs n xs)"
  using assms by (induction xs arbitrary: n) (auto intro!: good_and good_checked)

lemma good_descriptor:
  assumes "\<And>ty off n. vulkan_dispatch_descriptor_type_from_api (vo_descriptor_type d) = Some ty \<Longrightarrow>
    checked_u64_add3 (vo_buffer_offset d) (vo_dynamic_offset d) 0 = Some off \<Longrightarrow>
    n = (if vo_range d = UINT64_MAX then vr_size (gv_resources v ! unat (vo_resource_index d)) - off else vo_range d) \<Longrightarrow>
    covers bs (vo_resource_index d) off n (vo_access_flags d AND 2 \<noteq> 0) \<and>
    \<not> (vo_range d = UINT64_MAX \<and> vr_size (gv_resources v ! unat (vo_resource_index d)) < off)"
  shows "good_uses bs (descriptor_use v bs d)"
proof (cases "vulkan_dispatch_descriptor_type_from_api (vo_descriptor_type d)")
  case None
  then show ?thesis by (simp add: descriptor_use_def)
next
  case ty: (Some ty)
  show ?thesis
  proof (cases "checked_u64_add3 (vo_buffer_offset d) (vo_dynamic_offset d) 0")
    case None
    then show ?thesis using ty by (simp add: descriptor_use_def)
  next
    case (Some off)
    define n where "n = (if vo_range d = UINT64_MAX then vr_size (gv_resources v ! unat (vo_resource_index d)) - off else vo_range d)"
    from assms[OF ty Some n_def] have c: "covers bs (vo_resource_index d) off n (vo_access_flags d AND 2 \<noteq> 0)"
      and ok: "\<not> (vo_range d = UINT64_MAX \<and> vr_size (gv_resources v ! unat (vo_resource_index d)) < off)" by auto
    obtain i where i: "find_vulkan_graphics_replay_buffer bs (vo_resource_index d) = Some i"
      "covers_in (bs ! i) off n (vo_access_flags d AND 2 \<noteq> 0)" "use_inside bs (use_of bs i off n (vo_access_flags d AND 2 \<noteq> 0))"
      "with_buffer bs (vo_resource_index d) = (\<lambda>f. f i)"
      by (rule good_with[OF c]) 
    have "\<not> (off < rb_base (bs ! i) \<or> rb_end (bs ! i) - off < n)"
      using covered_use(2,3)[OF i(1,2)] by (auto simp: outside_staged_def)
    then have "good_uses bs (if off < rb_base (bs ! i) \<or> rb_end (bs ! i) - off < n then no_uses ERANGE
        else (Pass, [use_of bs i off n (vo_access_flags d AND 2 \<noteq> 0)]))"
      using i(3) by (simp add: good_uses_def)
    then show ?thesis using ty Some ok i(4) by (auto simp: descriptor_use_def Let_def n_def intro!: good_at)
  qed
qed

lemma good_descriptors:
  assumes "staged v bs" "(i, c) \<in> set (enumerate 0 (gv_commands v))" "gcm_command_type c = CMD_BIND_DESCRIPTOR_SETS"
    "j \<in> set (indices (gcm_first_descriptor c) (gcm_descriptor_count c))"
  shows "good_uses bs (descriptor_use v bs (gv_descriptors v ! unat j))"
proof (rule good_descriptor, intro conjI)
  fix ty off n
  let ?d = "gv_descriptors v ! unat j"
  assume d: "vulkan_dispatch_descriptor_type_from_api (vo_descriptor_type ?d) = Some ty"
    "checked_u64_add3 (vo_buffer_offset ?d) (vo_dynamic_offset ?d) 0 = Some off"
    "n = (if vo_range ?d = UINT64_MAX then vr_size (gv_resources v ! unat (vo_resource_index ?d)) - off else vo_range ?d)"
  show "covers bs (vo_resource_index ?d) off n (vo_access_flags ?d AND 2 \<noteq> 0)"
    by (rule staged_reaches(1)[OF assms(1,2)] staged_descriptor[OF assms(3,4)] reaches_descriptor[OF d] lasting_covers)+
  let ?over = "vo_range ?d = UINT64_MAX \<and> vr_size (gv_resources v ! unat (vo_resource_index ?d)) < off"
  have "reaches v (stage_descriptor v ?d) (\<lambda>bs. \<not> ?over)"
    using d(1,2) by (cases ?over) (simp_all add: stage_descriptor_def Let_def, simp_all add: reaches_def)
  then show "\<not> ?over" by (rule staged_facts[OF assms(1,2) staged_descriptor[OF assms(3,4)]]) simp
qed

lemma good_buffer_image:
  assumes "staged v bs" "(i, c) \<in> set (enumerate 0 (gv_commands v))"
    "gcm_command_type c = CMD_COPY_BUFFER_TO_IMAGE \<or> gcm_command_type c = CMD_COPY_IMAGE_TO_BUFFER"
    "find_vulkan_graphics_v610_buffer_image_copy v i = Some e"
  shows "good_uses bs (record_buffer_image_copy v bs c e)"
proof (cases "unat (gbi_image_index e) < length (gv_images v)")
  case True
  note s = staged_buffer_image[OF assms(3,4) True]
  obtain n where n: "vulkan_graphics_v610_buffer_image_copy_span e (gv_images v ! unat (gbi_image_index e)) = Inr n"
    using staged_facts[OF assms(1,2) s(1)] by blast
  from staged_reaches(1)[OF assms(1,2) s(2)[OF n]] show ?thesis
    using good_checked[of bs] True n by (simp add: record_buffer_image_copy_def)
qed (simp add: record_buffer_image_copy_def)

lemma good_buffer_copy:
  assumes "covers bs (gbc_src_resource_index e) (gbc_src_offset e) (gbc_size e) False"
    "covers bs (gbc_dst_resource_index e) (gbc_dst_offset e) (gbc_size e) True"
  shows "good_uses bs (record_buffer_copy bs e)"
proof -
  obtain i where i: "find_vulkan_graphics_replay_buffer bs (gbc_src_resource_index e) = Some i"
    "covers_in (bs ! i) (gbc_src_offset e) (gbc_size e) False" "use_inside bs (use_of bs i (gbc_src_offset e) (gbc_size e) False)"
    "with_buffer bs (gbc_src_resource_index e) = (\<lambda>f. f i)" by (rule good_with[OF assms(1)])
  obtain j where j: "find_vulkan_graphics_replay_buffer bs (gbc_dst_resource_index e) = Some j"
    "covers_in (bs ! j) (gbc_dst_offset e) (gbc_size e) True" "use_inside bs (use_of bs j (gbc_dst_offset e) (gbc_size e) True)"
    "with_buffer bs (gbc_dst_resource_index e) = (\<lambda>f. f j)" by (rule good_with[OF assms(2)])
  show ?thesis
    using i(3) j(3) covered_use(2)[OF i(1,2)] covered_use(2)[OF j(1,2)] by (simp add: record_buffer_copy_def i(4) j(4) good_uses_def)
qed

text \<open>The copy of query results fails with the error of a missing buffer when its query pool is missing.\<close>

definition query_pool_found :: "replay_runtime \<Rightarrow> g_copy_query \<Rightarrow> bool" where
  "query_pool_found rt e \<longleftrightarrow>
     find_vulkan_graphics_replay_query_pool (rt_query_pools rt) (gcq_query_pool_id e) (gcq_result_fd_index e) \<noteq> None"

lemma good_copy_query:
  assumes "staged v bs" "(i, c) \<in> set (enumerate 0 (gv_commands v))" "gcm_command_type c = CMD_COPY_QUERY_POOL_RESULTS"
    "find_vulkan_graphics_v618_copy_query_result v i = Some e"
  shows "inside_uses bs (record_copy_query rt v bs e)" "query_pool_found rt e \<Longrightarrow> good_uses bs (record_copy_query rt v bs e)"
proof -
  note s = staged_copy_query[OF assms(3,4)]
  obtain n where n: "vulkan_graphics_v618_copy_query_result_span e = Inr n" using staged_facts[OF assms(1,2) s(1)] by blast
  obtain k where k: "use_inside bs (use_of bs k (gcq_dst_offset e) n True)" "with_buffer bs (gcq_dst_resource_index e) = (\<lambda>f. f k)"
    by (rule good_with[OF staged_reaches(1)[OF assms(1,2) s(2)[OF n]]]) simp
  show "inside_uses bs (record_copy_query rt v bs e)" "query_pool_found rt e \<Longrightarrow> good_uses bs (record_copy_query rt v bs e)"
    using k by (auto simp: record_copy_query_def n inside_uses_def good_uses_def query_pool_found_def no_uses_def split: option.splits)
qed

lemma indirect_span:
  assumes "Option.bind (checked_mul_u64_executor a b) (\<lambda>last. checked_u64_add3 last m 0) = Some n"
  shows "n = a * b + m"
  using assms by (auto simp: bind_eq_Some_conv checked_mul_nat add3_nat)

lemma good_indirect:
  assumes "staged v bs" "find_vulkan_graphics_v68_indirect_draw v i = Some e"
    "(i, c) \<in> set (enumerate 0 (gv_commands v))"
  shows "good_uses bs (record_indirect counts bs c e)"
proof -
  from assms(2) have e: "is_v6 8 (gv_header v)" "e \<in> set (gv_indirect_draws v)" "unat (gid_command_index e) = i"
    by (auto simp: find_vulkan_graphics_v68_indirect_draw_def entry_for_def find_Some_iff split: if_splits)
  have c: "gv_commands v ! i = c" using assms(3) by (auto simp: in_set_enumerate_eq)
  define n where "n = ucast (gid_draw_count e - 1) * ucast (gid_stride e) + indirect_command_size c"
  let ?k = "gid_indirect_resource_index e" and ?j = "gid_count_resource_index e"
  have r1: "reaches v (stage_indirect v e) (\<lambda>bs. covers bs ?k (gid_indirect_offset e) n False)"
    unfolding stage_indirect_def
    by (rule reaches_at) (auto simp: e(3) c n_def dest!: indirect_span split: option.splits intro!: reaches_first)
  have r2: "reaches v (stage_indirect v e) (\<lambda>bs. covers bs ?j (gid_count_offset e) 4 False)" if "gid_flags e AND 1 \<noteq> 0"
    unfolding stage_indirect_def using that by (intro reaches_at) (auto split: option.splits intro!: reaches_second)
  note r = staged_reaches(2)[OF assms(1) e(1,2) r1] staged_reaches(2)[OF assms(1) e(1,2) r2]
  obtain x where x: "use_inside bs (use_of bs x (gid_indirect_offset e) n False)" "with_buffer bs ?k = (\<lambda>f. f x)"
    by (rule good_with[OF r(1)])
  show ?thesis
  proof (cases "gid_flags e AND 1 = 0")
    case True
    then show ?thesis using x by (simp add: record_indirect_def n_def good_uses_def)
  next
    case False
    obtain y where "use_inside bs (use_of bs y (gid_count_offset e) 4 False)" "with_buffer bs ?j = (\<lambda>f. f y)"
      by (rule good_with[OF r(2)[OF False]])
    then show ?thesis using x False by (simp add: record_indirect_def n_def good_uses_def no_uses_def)
  qed
qed

lemma stage_indices_reaches:
  assumes "gcm_command_type c = CMD_DRAW_INDEXED" "vulkan_graphics_index_stride (gcm_index_type c) = Some stride"
    "checked_mul_u64_executor (ucast (gcm_first_index c)) stride = Some first"
    "checked_mul_u64_executor (ucast (gcm_index_count c)) stride = Some span"
    "checked_u64_add3 (gcm_index_offset c) first 0 = Some off"
  shows "find_vulkan_graphics_v68_indirect_draw v i = None \<Longrightarrow>
      reaches v (stage_command v (i, c)) (\<lambda>bs. covers bs (gcm_index_buffer_resource_index c) off span False)"
    "find_vulkan_graphics_v68_indirect_draw v i = Some e \<Longrightarrow>
      reaches v (stage_command v (i, c)) (\<lambda>bs. covers bs (gcm_index_buffer_resource_index c) (gcm_index_offset c)
        (vr_size (gv_resources v ! unat (gcm_index_buffer_resource_index c)) - gcm_index_offset c) False)"
  using assms by (simp_all add: stage_command_def stage_indices_def Let_def)

text \<open>The indices of an indirect draw are not in the frame; its own count is zero.\<close>

definition own_indices :: "v6_view \<Rightarrow> nat \<times> g_command \<Rightarrow> bool" where
  "own_indices v ic \<longleftrightarrow>
     find_vulkan_graphics_v68_indirect_draw v (fst ic) = None \<or> gcm_first_index (snd ic) = 0 \<and> gcm_index_count (snd ic) = 0"

lemma indices_covered:
  assumes "staged v bs" "(i, c) \<in> set (enumerate 0 (gv_commands v))" "gcm_command_type c = CMD_DRAW_INDEXED" "own_indices v (i, c)"
    and x: "vulkan_graphics_index_stride (gcm_index_type c) = Some stride"
    "checked_mul_u64_executor (ucast (gcm_first_index c)) stride = Some first"
    "checked_mul_u64_executor (ucast (gcm_index_count c)) stride = Some span"
    "checked_u64_add3 (gcm_index_offset c) first 0 = Some off"
  shows "covers bs (gcm_index_buffer_resource_index c) off span False"
proof (cases "find_vulkan_graphics_v68_indirect_draw v i")
  case None
  then show ?thesis using staged_reaches(1)[OF assms(1,2)] stage_indices_reaches(1)[OF assms(3) x] by blast
next
  case (Some d)
  then have z: "first = 0" "span = 0" using assms(4) x(2,3) by (simp_all add: own_indices_def checked_mul_nat)
  then have "off = gcm_index_offset c" using x(4) by (simp add: add3_nat)
  then show ?thesis using staged_reaches(1)[OF assms(1,2) stage_indices_reaches(2)[OF assms(3) x Some]] z(2)
    by (auto simp: covers_def covers_in_def)
qed

text \<open>The place that an indexed draw binds is in the staged range of its index buffer.\<close>

definition index_start_staged :: "replay_buffer list \<Rightarrow> g_command \<Rightarrow> bool" where
  "index_start_staged bs c \<longleftrightarrow> (case find_vulkan_graphics_replay_buffer bs (gcm_index_buffer_resource_index c) of
     None \<Rightarrow> True | Some k \<Rightarrow> rb_base (bs ! k) \<le> gcm_index_offset c)"

lemma and_uses_Pass: "fst (and_uses (Pass, a) w) = fst w" "u \<in> set (snd (and_uses (Pass, a) w)) \<Longrightarrow> u \<in> set a \<or> u \<in> set (snd w)"
  by (cases w; cases "fst w"; auto simp: and_uses_def)+

lemma bound_index_inside:
  assumes "find_vulkan_graphics_replay_buffer bs k = Some j" "rb_base (bs ! j) \<le> gcm_index_offset c" "e \<le> rb_end (bs ! j)"
    "unat e = unat (gcm_index_offset c) + unat first + unat span"
  shows "use_inside bs \<lparr>bu_index = j, bu_offset = bound_index_offset (bs ! j) c, bu_size = first + span, bu_writes = False\<rparr>"
proof -
  have "unat (bound_index_offset (bs ! j) c) = unat (gcm_index_offset c) - unat (rb_base (bs ! j))"
    using assms(2) by (simp add: bound_index_offset_def unat_sub)
  moreover have "unat (first + span) = unat first + unat span"
    using assms(4) unat_lt64[of e] by (intro sum64) simp
  ultimately show ?thesis using assms by (simp add: use_inside_def find_buffer_Some Let_def word_le_nat_alt)
qed

lemma good_draw_indexed:
  assumes "staged v bs" "(i, c) \<in> set (enumerate 0 (gv_commands v))" "gcm_command_type c = CMD_DRAW_INDEXED" "own_indices v (i, c)"
  shows "fst (record_draw_indexed rt v bs i c) \<notin> set [Refuse (- ERANGE), Refuse (- ENOENT)]"
    "index_start_staged bs c \<Longrightarrow> inside_uses bs (record_draw_indexed rt v bs i c)"
proof -
  let ?r = "record_draw_indexed rt v bs i c"
  have "fst ?r \<notin> set [Refuse (- ERANGE), Refuse (- ENOENT)] \<and> (index_start_staged bs c \<longrightarrow> inside_uses bs ?r)"
  proof (cases "\<exists>stride first span off e. vulkan_graphics_index_stride (gcm_index_type c) = Some stride \<and>
      checked_mul_u64_executor (ucast (gcm_first_index c)) stride = Some first \<and>
      checked_mul_u64_executor (ucast (gcm_index_count c)) stride = Some span \<and>
      checked_u64_add3 (gcm_index_offset c) first 0 = Some off \<and> checked_u64_add3 off span 0 = Some e")
    case False
    then show ?thesis by (auto simp: record_draw_indexed_def no_uses_def inside_uses_def split: option.splits)
  next
    case True
    then obtain stride first span off e where x: "vulkan_graphics_index_stride (gcm_index_type c) = Some stride"
      "checked_mul_u64_executor (ucast (gcm_first_index c)) stride = Some first"
      "checked_mul_u64_executor (ucast (gcm_index_count c)) stride = Some span"
      "checked_u64_add3 (gcm_index_offset c) first 0 = Some off" "checked_u64_add3 off span 0 = Some e" by blast
    let ?k = "gcm_index_buffer_resource_index c"
    obtain j where j: "find_vulkan_graphics_replay_buffer bs ?k = Some j" "covers_in (bs ! j) off span False"
      "with_buffer bs ?k = (\<lambda>f. f j)" by (rule good_with[OF indices_covered[OF assms x(1-4)]])
    let ?rest = "case find_vulkan_graphics_v68_indirect_draw v i of
      None \<Rightarrow> (Pass, []) | Some d \<Rightarrow> record_indirect (rt_draw_indexed_count rt) bs c d"
    have rest: "good_uses bs ?rest" using good_indirect[OF assms(1) _ assms(2)] by (auto split: option.splits)
    have e: "unat e = unat (gcm_index_offset c) + unat first + unat span" using end_nat[OF x(4)] end_nat[OF x(5)] by simp
    then have in_range: "\<not> (off < rb_base (bs ! j) \<or> rb_end (bs ! j) < e)"
      using j(2) end_nat[OF x(4)] by (auto simp: covers_in_def word_less_nat_alt)
    then have "index_start_staged bs c \<Longrightarrow>
        use_inside bs \<lparr>bu_index = j, bu_offset = bound_index_offset (bs ! j) c, bu_size = first + span, bu_writes = False\<rparr>"
      using bound_index_inside[OF j(1) _ _ e] j(1) by (simp add: index_start_staged_def not_less)
    then show ?thesis
      using rest in_range x j(3) and_uses_Pass
      by (auto simp: record_draw_indexed_def inside_uses_def good_uses_def list_all_iff no_uses_def split del: option.split
          dest!: and_uses_Pass(2))
  qed
  then show "fst ?r \<notin> set [Refuse (- ERANGE), Refuse (- ENOENT)]" "index_start_staged bs c \<Longrightarrow> inside_uses bs ?r" by simp_all
qed

lemma good_command:
  assumes "staged v bs" "(i, c) \<in> set (enumerate 0 (gv_commands v))"
    "gcm_command_type c \<notin> set [CMD_BIND_INDEX_BUFFER, CMD_DRAW_INDEXED, CMD_COPY_QUERY_POOL_RESULTS]"
    "gcm_command_type c = CMD_BARRIER \<Longrightarrow> is_v6 1 (gv_header v)"
  shows "good_uses bs (record_uses rt v bs (i, c))"
proof -
  note r = staged_reaches(1)[OF assms(1,2)]
  let ?ty = "gcm_command_type c"
  have "?ty = CMD_BIND_VERTEX_BUFFERS \<Longrightarrow> good_uses bs (record_vertex_buffers v bs c)"
    by (auto simp: record_vertex_buffers_def intro!: good_vertex r[OF staged_vertex])
  moreover have "good_uses bs (record_draw rt v bs i c)"
    using good_indirect[OF assms(1) _ assms(2)] by (auto simp: record_draw_def split: option.splits)
  moreover have "?ty = CMD_BIND_DESCRIPTOR_SETS \<Longrightarrow> good_uses bs (record_descriptors v bs c)"
    by (auto simp: record_descriptors_def list_all_iff simp del: all_uses.simps intro!: good_all good_at good_descriptors[OF assms(1,2)])
  moreover have "?ty = CMD_COPY_BUFFER \<Longrightarrow> good_uses bs (no_entry (find_vulkan_graphics_v69_buffer_copy v i) (record_buffer_copy bs))"
    by (auto intro!: good_entry good_buffer_copy r[OF staged_buffer_copy(1)] r[OF staged_buffer_copy(2)])
  moreover have "?ty = CMD_FILL_BUFFER \<Longrightarrow> good_uses bs (no_entry (find_vulkan_graphics_v611_fill_buffer v i) (record_fill_buffer bs))"
    by (auto simp: record_fill_buffer_def intro!: good_entry good_checked r[OF staged_fill])
  moreover have "?ty = CMD_UPDATE_BUFFER \<Longrightarrow> good_uses bs (no_entry (find_vulkan_graphics_v611_update_buffer v i) (record_update_buffer v bs))"
    by (auto simp: record_update_buffer_def intro!: good_entry good_checked r[OF staged_update])
  moreover have "?ty = CMD_COPY_BUFFER_TO_IMAGE \<or> ?ty = CMD_COPY_IMAGE_TO_BUFFER \<Longrightarrow>
      good_uses bs (no_entry (find_vulkan_graphics_v610_buffer_image_copy v i) (record_buffer_image_copy v bs c))"
    by (intro good_entry good_buffer_image[OF assms(1,2)])
  moreover have "?ty = CMD_BARRIER \<Longrightarrow> good_uses bs (record_barrier rt v bs i)"
    using assms(4) by (auto simp: record_barrier_def intro!: good_barriers r[OF staged_barrier])
  ultimately show ?thesis using assms(3) by (simp add: record_uses_def Let_def)
qed

text \<open>The commands that recording does not refuse for a buffer, and those that stay inside of what was staged.\<close>

definition staged_exactly :: "replay_runtime \<Rightarrow> v6_view \<Rightarrow> nat \<times> g_command \<Rightarrow> bool" where
  "staged_exactly rt v ic \<longleftrightarrow>
     gcm_command_type (snd ic) \<noteq> CMD_BIND_INDEX_BUFFER \<and> (gcm_command_type (snd ic) = CMD_DRAW_INDEXED \<longrightarrow> own_indices v ic) \<and>
     (gcm_command_type (snd ic) = CMD_BARRIER \<longrightarrow> is_v6 1 (gv_header v)) \<and>
     (gcm_command_type (snd ic) = CMD_COPY_QUERY_POOL_RESULTS \<longrightarrow>
        (case find_vulkan_graphics_v618_copy_query_result v (fst ic) of None \<Rightarrow> True | Some e \<Rightarrow> query_pool_found rt e))"

lemma staged_command:
  assumes "staged v bs" "(i, c) \<in> set (enumerate 0 (gv_commands v))" "staged_exactly rt v (i, c)"
  shows "fst (record_uses rt v bs (i, c)) \<notin> set [Refuse (- ERANGE), Refuse (- ENOENT)]"
    "gcm_command_type c = CMD_DRAW_INDEXED \<Longrightarrow> index_start_staged bs c \<Longrightarrow> inside_uses bs (record_uses rt v bs (i, c))"
    "gcm_command_type c \<noteq> CMD_DRAW_INDEXED \<Longrightarrow> inside_uses bs (record_uses rt v bs (i, c))"
proof -
  have d: "gcm_command_type c = CMD_DRAW_INDEXED \<Longrightarrow> record_uses rt v bs (i, c) = record_draw_indexed rt v bs i c"
    by (simp add: record_uses_def)
  have q: "good_uses bs (record_uses rt v bs (i, c))" if "gcm_command_type c = CMD_COPY_QUERY_POOL_RESULTS"
    using assms(3) that good_copy_query(2)[OF assms(1,2) that]
    by (auto simp: record_uses_def staged_exactly_def intro!: good_entry)
  have g: "good_uses bs (record_uses rt v bs (i, c))" if "gcm_command_type c \<noteq> CMD_DRAW_INDEXED"
    using assms(3) that q good_command[OF assms(1,2), of rt] by (auto simp: staged_exactly_def)
  show "fst (record_uses rt v bs (i, c)) \<notin> set [Refuse (- ERANGE), Refuse (- ENOENT)]"
    "gcm_command_type c = CMD_DRAW_INDEXED \<Longrightarrow> index_start_staged bs c \<Longrightarrow> inside_uses bs (record_uses rt v bs (i, c))"
    "gcm_command_type c \<noteq> CMD_DRAW_INDEXED \<Longrightarrow> inside_uses bs (record_uses rt v bs (i, c))"
    using d g good_draw_indexed[OF assms(1,2)] assms(3) good_inside
    by (cases "gcm_command_type c = CMD_DRAW_INDEXED"; auto simp: staged_exactly_def good_uses_def)+
qed

section \<open>What is written\<close>

definition reads_only :: "uses \<Rightarrow> bool" where
  "reads_only u \<longleftrightarrow> list_all (\<lambda>u. \<not> bu_writes u) (snd u)"

lemma reads_and: "reads_only u \<Longrightarrow> reads_only w \<Longrightarrow> reads_only (and_uses u w)"
  by (cases u; cases w; cases "fst u"; cases "fst w") (auto simp: reads_only_def and_uses_def)

lemma reads_indirect: "reads_only (record_indirect counts bs c e)"
  by (auto simp: record_indirect_def with_buffer_def reads_only_def use_of_def no_uses_def Let_def split: option.splits)

lemma reads_barrier: "reads_only (barrier_uses bs n xs)"
  by (induction xs arbitrary: n)
    (auto intro!: reads_and, auto simp: reads_only_def no_uses_def with_buffer_def checked_use_def use_of_def split: option.splits)

lemma index_commands_read:
  "reads_only (record_bind_index rt bs c)" "reads_only (record_draw_indexed rt v bs i c)" "reads_only (record_barrier rt v bs i)"
proof -
  show "reads_only (record_bind_index rt bs c)"
    by (auto simp: record_bind_index_def with_buffer_def reads_only_def use_of_def no_uses_def split: option.splits)
  have "reads_only (no_uses rc)" "reads_only (Pass, [])"
    "reads_only (Pass, [\<lparr>bu_index = k, bu_offset = x, bu_size = n, bu_writes = False\<rparr>])" for rc k x n
    by (simp_all add: reads_only_def no_uses_def)
  then show "reads_only (record_draw_indexed rt v bs i c)"
    unfolding record_draw_indexed_def with_buffer_def by (auto intro!: reads_and reads_indirect split: option.splits)
  show "reads_only (record_barrier rt v bs i)"
    using reads_barrier by (auto simp: record_barrier_def) (simp_all add: reads_only_def no_uses_def)
qed

lemma writes_inside:
  assumes "staged v bs" "record_frame_uses rt v bs = (Pass, us)" "u \<in> set us" "bu_writes u"
  shows "use_inside bs u"
proof -
  have "all_uses xs = (Pass, us) \<Longrightarrow> u \<in> set us \<Longrightarrow> \<exists>x\<in>set xs. u \<in> set (snd x)" for xs :: "uses list" and us
  proof (induction xs arbitrary: us)
    case (Cons x xs)
    then show ?case by (cases x; cases "all_uses xs") (fastforce simp: and_uses_def split: verdict.splits)
  qed simp
  from this[OF assms(2)[unfolded record_frame_uses_def] assms(3)]
  obtain ic where ic: "ic \<in> set (enumerate 0 (gv_commands v))" "u \<in> set (snd (record_uses rt v bs ic))"
    unfolding set_map by blast
  obtain i c where c: "ic = (i, c)" by (cases ic)
  have "gcm_command_type c \<noteq> ty" if "ty = CMD_BIND_INDEX_BUFFER \<or> ty = CMD_DRAW_INDEXED \<or> ty = CMD_BARRIER" for ty
    using ic(2) assms(4) that index_commands_read(1)[of rt bs c] index_commands_read(2)[of rt v bs i c] index_commands_read(3)[of rt v bs i]
    by (auto simp: c record_uses_def Let_def reads_only_def list_all_iff)
  then have ty: "gcm_command_type c \<notin> set [CMD_BIND_INDEX_BUFFER, CMD_DRAW_INDEXED, CMD_BARRIER]" by auto
  have "inside_uses bs (record_uses rt v bs (i, c))"
  proof (cases "gcm_command_type c = CMD_COPY_QUERY_POOL_RESULTS")
    case True
    then have "record_uses rt v bs (i, c) = no_entry (find_vulkan_graphics_v618_copy_query_result v i) (record_copy_query rt v bs)"
      by (simp add: record_uses_def)
    then show ?thesis using good_copy_query(1)[OF assms(1) _ True] ic(1) by (auto simp: c intro!: inside_entry)
  next
    case False
    then show ?thesis using ty ic(1) by (intro good_inside good_command assms(1)) (auto simp: c)
  qed
  then show ?thesis using ic(2) by (auto simp: inside_uses_def list_all_iff c)
qed

end
