(* ===== verification/Buffer_Writeback.thy ===== *)
theory Buffer_Writeback
  imports Buffer_Uses
begin

text \<open>
  The bytes of the client: what reading and writing exactly so many bytes do to a file whatever the kernel moves at a time,
  what a buffer holds after the upload, and what the files hold after the results are written back.
\<close>

section \<open>One transfer\<close>

lemma read_fd_exact_bytes:
  "read_fd_exact file off n sc = (Inr bytes, sc') \<Longrightarrow> bytes = take n (drop off file) \<and> length bytes = n"
proof (induction "file" off n sc arbitrary: bytes sc' rule: read_fd_exact.induct)
  case (1 "file" off n sc)
  note w = 1(2)[unfolded read_fd_exact.simps[of "file" off n sc]]
  show ?case
  proof (cases "n = 0")
    case True
    then show ?thesis using w by simp
  next
    case False
    with w obtain k sc1 where t: "\<not> OFF_MAX < off" "next_transfer n sc = (Moved k, sc1)"
      by (auto split: if_splits prod.splits transfer.splits)
    define m where "m = min (max 1 k) (min (min n SSIZE_MAX) (length file - off))"
    have w2: "(if m = 0 then (Inl (- EIO), sc1) else case read_fd_exact file (off + m) (n - m) sc1 of
        (Inl rc, sc'') \<Rightarrow> (Inl rc, sc'') | (Inr bytes, sc'') \<Rightarrow> (Inr (take m (drop off file) @ bytes), sc'')) = (Inr bytes, sc')"
      using w False t unfolding Let_def m_def by simp
    then have m: "m \<noteq> 0" by (auto split: if_splits)
    then obtain rest sc2 where r: "read_fd_exact file (off + m) (n - m) sc1 = (Inr rest, sc2)" "bytes = take m (drop off file) @ rest"
      using w2 by (auto split: prod.splits sum.splits)
    have le: "m \<le> n" "off + m \<le> length file" using m by (auto simp: m_def)
    from 1(1)[OF False t(1) t(2)[symmetric] refl m_def m r(1)]
    have rest: "rest = take (n - m) (drop (off + m) file)" "length rest = n - m" by blast+
    then have "length (take m (drop off file) @ rest) = n" using le by (simp only: length_append) simp
    moreover have "take m (drop off file) @ rest = take n (drop off file)"
      using le take_add[of m "n - m" "drop off file"] rest(1) by (simp add: add.commute)
    ultimately show ?thesis using r(2) by simp
  qed
qed

text \<open>A file with its bytes from an offset on replaced, as far as a number of them.\<close>

definition replaced :: "string \<Rightarrow> nat \<Rightarrow> string \<Rightarrow> nat \<Rightarrow> string \<Rightarrow> bool" where
  "replaced file off bytes m file' \<longleftrightarrow>
     length file' = length file \<and>
     (\<forall>p<length file. file' ! p = (if off \<le> p \<and> p < off + m then bytes ! (p - off) else file ! p))"

lemma write_at_replaced:
  assumes "off + length bytes \<le> length file"
  shows "replaced file off bytes (length bytes) (write_at file off bytes)"
  using assms by (auto simp: replaced_def write_at_def nth_append)

lemma replaced_step:
  assumes "replaced file off (take m bytes) m file1" "replaced file1 (off + m) (drop m bytes) k file2" "m \<le> length bytes"
  shows "replaced file off bytes (m + k) file2"
  using assms by (auto simp: replaced_def) 

lemma write_fd_exact_bytes:
  "write_fd_exact off bytes file sc = (rc, file', sc') \<Longrightarrow> off + length bytes \<le> length file \<Longrightarrow>
   \<exists>m\<le>length bytes. replaced file off bytes m file' \<and> (rc = 0 \<longrightarrow> m = length bytes)"
proof (induction off bytes "file" sc arbitrary: rc file' sc' rule: write_fd_exact.induct)
  case (1 off bytes "file" sc)
  have none: "replaced file off bytes 0 file" by (auto simp: replaced_def)
  note w = 1(2)[unfolded write_fd_exact.simps[of off bytes "file" sc]]
  show ?case
  proof (cases "\<exists>k sc1 m. bytes \<noteq> [] \<and> \<not> OFF_MAX < off \<and> next_transfer (length bytes) sc = (Moved k, sc1) \<and>
      m = min k (min (length bytes) SSIZE_MAX) \<and> m \<noteq> 0")
    case False
    then have "file' = file \<and> (rc = 0 \<longrightarrow> bytes = [])"
      using w by (auto simp: Let_def split: if_splits prod.splits transfer.splits)
    then show ?thesis using none by (intro exI[of _ 0]) auto
  next
    case True
    then obtain k sc1 m where t: "bytes \<noteq> []" "\<not> OFF_MAX < off" "next_transfer (length bytes) sc = (Moved k, sc1)"
      "m = min k (min (length bytes) SSIZE_MAX)" "m \<noteq> 0" by blast
    have le: "m \<le> length bytes" using t(4) by simp
    let ?file = "write_at file off (take m bytes)"
    have s: "replaced file off (take m bytes) m ?file" using write_at_replaced[of off "take m bytes" "file"] le 1(3) by simp
    have "write_fd_exact (off + m) (drop m bytes) ?file sc1 = (rc, file', sc')" using w t by (simp add: Let_def)
    moreover have "off + m + length (drop m bytes) \<le> length ?file" using s le 1(3) by (simp add: replaced_def)
    ultimately obtain j where j: "j \<le> length (drop m bytes)" "replaced ?file (off + m) (drop m bytes) j file'"
      "rc = 0 \<longrightarrow> j = length (drop m bytes)"
      using 1(1)[OF t(1,2) t(3)[symmetric] refl t(4,5)] by blast
    then show ?thesis using replaced_step[OF s j(2) le] le by (intro exI[of _ "m + j"]) auto
  qed
qed

section \<open>Where a buffer lies\<close>

text \<open>The first byte of a buffer in the file of its memory, and the file.\<close>

definition buffer_start :: "v6_view \<Rightarrow> replay_buffer \<Rightarrow> nat" where
  "buffer_start v b = unat (vr_external_offset (memory_of v b)) + unat (vr_memory_offset (buffer_of v b))"

definition in_file :: "(int \<Rightarrow> nat) \<Rightarrow> v6_view \<Rightarrow> replay_buffer \<Rightarrow> nat" where
  "in_file file_of v b = file_of (fd_of v b)"

lemma file_offset_at: "file_offset v b x = Some off \<Longrightarrow> off = buffer_start v b + unat x"
  by (auto simp: file_offset_def checked_u64_to_off_t_def buffer_start_def bind_eq_Some_conv dest!: add3_unat split: if_splits)

lemma place_unloaded [simp]: "buffer_start v (unloaded b) = buffer_start v b" "in_file file_of v (unloaded b) = in_file file_of v b"
  by (simp_all add: buffer_start_def in_file_def buffer_of_def memory_of_def fd_of_def)

lemma same_place:
  assumes "unloaded b = unloaded b'"
  shows "buffer_start v b = buffer_start v b'" "in_file file_of v b = in_file file_of v b'"
  using place_unloaded(1)[of v b] place_unloaded(1)[of v b'] place_unloaded(2)[of file_of v b] place_unloaded(2)[of file_of v b'] assms by simp_all

text \<open>A buffer that holds the client's bytes, and one whose bytes would fit where they come from.\<close>

definition fits :: "(int \<Rightarrow> nat) \<Rightarrow> v6_view \<Rightarrow> client \<Rightarrow> replay_buffer \<Rightarrow> bool" where
  "fits file_of v cl b \<longleftrightarrow> length (rb_bytes b) = unat (rb_end b) - unat (rb_base b) \<and> rb_base b \<le> rb_end b \<and>
     buffer_start v b + unat (rb_end b) \<le> length (cl_data cl (in_file file_of v b))"

definition loaded :: "(int \<Rightarrow> nat) \<Rightarrow> v6_view \<Rightarrow> client \<Rightarrow> replay_buffer \<Rightarrow> bool" where
  "loaded file_of v cl b \<longleftrightarrow> fits file_of v cl b \<and>
     (\<forall>x<length (rb_bytes b). rb_bytes b ! x = cl_data cl (in_file file_of v b) ! (buffer_start v b + unat (rb_base b) + x))"

lemma upload_buffer_loaded:
  assumes "upload_buffer file_of create v b cl = (Inr b', cl')"
  shows "unloaded b' = unloaded b" "cl_data cl' = cl_data cl" "loaded file_of v cl b'"
proof -
  from assms obtain off bytes sc where u: "rb_base b < rb_end b" "file_offset v b (rb_base b) = Some off"
    "read_fd_exact (cl_data cl (in_file file_of v b)) off (unat (rb_end b - rb_base b)) (cl_script cl) = (Inr bytes, sc)"
    "b' = b\<lparr>rb_bytes := bytes\<rparr>" "cl' = cl\<lparr>cl_script := sc\<rparr>"
    by (auto simp: upload_buffer_def Let_def in_file_def not_le split: if_splits option.splits prod.splits sum.splits)
  show ub: "unloaded b' = unloaded b" and "cl_data cl' = cl_data cl" using u(4,5) by (simp_all add: unloaded_def)
  have n: "unat (rb_end b - rb_base b) = unat (rb_end b) - unat (rb_base b)" using u(1) by (simp add: unat_sub less_imp_le)
  have le: "unat (rb_base b) < unat (rb_end b)" using u(1) by (simp add: word_less_nat_alt)
  note rd = read_fd_exact_bytes[OF u(3)]
  have o: "off = buffer_start v b + unat (rb_base b)" by (rule file_offset_at[OF u(2)])
  have f: "rb_base b' = rb_base b" "rb_end b' = rb_end b" "rb_bytes b' = bytes" using u(4) by simp_all
  have "length (drop off (cl_data cl (in_file file_of v b))) \<ge> unat (rb_end b) - unat (rb_base b)"
    using rd n by (metis length_take min.cobounded1)
  then show "loaded file_of v cl b'"
    using rd n o le u(1) by (auto simp: loaded_def fits_def f same_place[OF ub])
qed

lemma upload_buffers_loaded:
  "upload_buffers file_of create v bs cl = (Inr bs', cl') \<Longrightarrow>
   map unloaded bs' = map unloaded bs \<and> cl_data cl' = cl_data cl \<and> list_all (loaded file_of v cl) bs'"
proof (induction bs arbitrary: bs' cl)
  case (Cons b bs)
  from Cons.prems obtain b1 cl1 bs1 where u: "upload_buffer file_of create v b cl = (Inr b1, cl1)"
    "upload_buffers file_of create v bs cl1 = (Inr bs1, cl')" "bs' = b1 # bs1"
    by (auto split: prod.splits sum.splits)
  have "loaded file_of v cl1 = loaded file_of v cl"
    using upload_buffer_loaded(2)[OF u(1)] by (simp add: loaded_def fits_def fun_eq_iff)
  then show ?case using upload_buffer_loaded[OF u(1)] Cons.IH[OF u(2)] u(3) by simp
qed simp

lemma materialized:
  assumes "materialize_vulkan_graphics_v6_buffers file_of create v cl = (Pass, bs, cl')"
  shows "staged v bs" "cl_data cl' = cl_data cl" "list_all (loaded file_of v cl) bs"
proof -
  from assms obtain bs0 where u: "stage_frame v [] = (Pass, bs0)" "upload_buffers file_of create v bs0 cl = (Inr bs, cl')"
    by (auto simp: materialize_vulkan_graphics_v6_buffers_def split: prod.splits sum.splits verdict.splits)
  then show "staged v bs" "cl_data cl' = cl_data cl" "list_all (loaded file_of v cl) bs"
    using upload_buffers_loaded[OF u(2)] by (auto simp: staged_def)
qed

section \<open>Writing back\<close>

definition written_place :: "(int \<Rightarrow> nat) \<Rightarrow> v6_view \<Rightarrow> replay_buffer \<Rightarrow> nat \<Rightarrow> nat \<Rightarrow> bool" where
  "written_place file_of v b f p \<longleftrightarrow> rb_written b \<and> f = in_file file_of v b \<and>
     buffer_start v b + unat (rb_write_base b) \<le> p \<and> p < buffer_start v b + unat (rb_write_end b)"

definition device_byte :: "v6_view \<Rightarrow> replay_buffer \<Rightarrow> nat \<Rightarrow> char" where
  "device_byte v b p = rb_bytes b ! (p - (buffer_start v b + unat (rb_base b)))"

definition write_range_ok :: "replay_buffer \<Rightarrow> bool" where
  "write_range_ok b \<longleftrightarrow> (rb_written b \<longrightarrow> unat (rb_base b) \<le> unat (rb_write_base b) \<and>
     unat (rb_write_base b) < unat (rb_write_end b) \<and> unat (rb_write_end b) \<le> unat (rb_end b))"

definition same_sizes :: "client \<Rightarrow> client \<Rightarrow> bool" where
  "same_sizes cl cl' \<longleftrightarrow> (\<forall>f. length (cl_data cl' f) = length (cl_data cl f))"

lemma fits_same_sizes: "same_sizes cl cl' \<Longrightarrow> fits file_of v cl' b = fits file_of v cl b"
  by (simp add: fits_def same_sizes_def)

lemma write_part:
  assumes "fits file_of v cl b" "write_range_ok b" "rb_written b" "file_offset v b (rb_write_base b) = Some off"
    "write_fd_exact off (take (unat (rb_write_end b - rb_write_base b)) (drop (unat (rb_write_base b - rb_base b)) (rb_bytes b)))
      (cl_data cl (in_file file_of v b)) sc = (rc, file, sc')"
    "cl' = cl\<lparr>cl_data := (cl_data cl)(in_file file_of v b := file), cl_script := sc'\<rparr>"
  shows "same_sizes cl cl'"
    "cl_data cl' f ! p = cl_data cl f ! p \<or> length (cl_data cl f) \<le> p \<or> written_place file_of v b f p \<and> cl_data cl' f ! p = device_byte v b p"
    "rc = 0 \<Longrightarrow> written_place file_of v b f p \<Longrightarrow> cl_data cl' f ! p = device_byte v b p"
proof -
  let ?n = "unat (rb_write_end b - rb_write_base b)" and ?d = "unat (rb_write_base b - rb_base b)" and ?f = "in_file file_of v b"
  let ?bytes = "take ?n (drop ?d (rb_bytes b))"
  have w: "unat (rb_base b) \<le> unat (rb_write_base b)" "unat (rb_write_base b) < unat (rb_write_end b)"
    "unat (rb_write_end b) \<le> unat (rb_end b)" using assms(2,3) by (simp_all add: write_range_ok_def)
  then have nat: "?n = unat (rb_write_end b) - unat (rb_write_base b)" "?d = unat (rb_write_base b) - unat (rb_base b)"
    by (simp_all add: unat_sub word_le_nat_alt)
  have off: "off = buffer_start v b + unat (rb_write_base b)" by (rule file_offset_at[OF assms(4)])
  have len: "length ?bytes = ?n" "off + ?n \<le> length (cl_data cl ?f)"
    using assms(1) w by (auto simp: fits_def nat off)
  obtain m where m: "m \<le> ?n" "replaced (cl_data cl ?f) off ?bytes m file" "rc = 0 \<longrightarrow> m = ?n"
    using write_fd_exact_bytes[OF assms(5)] len by auto
  show "same_sizes cl cl'" using m(2) by (simp add: same_sizes_def assms(6) replaced_def)
  have byte: "?bytes ! (p - off) = device_byte v b p" if "off \<le> p" "p < off + ?n" for p
    using that w len(1) by (auto simp: device_byte_def off nat intro!: arg_cong[of _ _ "nth (rb_bytes b)"])
  show "cl_data cl' f ! p = cl_data cl f ! p \<or> length (cl_data cl f) \<le> p \<or> written_place file_of v b f p \<and> cl_data cl' f ! p = device_byte v b p"
  proof (cases "f = ?f \<and> off \<le> p \<and> p < off + m \<and> p < length (cl_data cl ?f)")
    case True
    then have p: "off \<le> p" "p < off + ?n" using m(1) by linarith+
    have "cl_data cl' f ! p = ?bytes ! (p - off)" using m(2) True by (simp add: assms(6) replaced_def)
    moreover have "off + ?n = buffer_start v b + unat (rb_write_end b)" using w by (simp add: off nat)
    then have "written_place file_of v b f p" using p True assms(3) by (simp add: written_place_def off)
    ultimately show ?thesis using byte[OF p] by simp
  next
    case False
    then have "cl_data cl' f ! p = cl_data cl f ! p \<or> length (cl_data cl f) \<le> p"
      using m(2) by (cases "f = ?f") (auto simp: assms(6) replaced_def not_le)
    then show ?thesis by blast
  qed
  show "cl_data cl' f ! p = device_byte v b p" if "rc = 0" "written_place file_of v b f p"
  proof -
    have p: "f = ?f" "off \<le> p" "p < off + ?n" using that(2) w by (auto simp: written_place_def off nat)
    then show ?thesis using m(2,3) byte[OF p(2,3)] that(1) len(2) by (simp add: assms(6) replaced_def)
  qed
qed

lemma writeback_buffer_exact:
  assumes "fits file_of v cl b" "write_range_ok b" "rb_written b" "writeback_buffer file_of v b moved cl = (r, moved', cl')"
  shows "same_sizes cl cl'"
    "cl_data cl' f ! p = cl_data cl f ! p \<or> length (cl_data cl f) \<le> p \<or> written_place file_of v b f p \<and> cl_data cl' f ! p = device_byte v b p"
    "r = Pass \<Longrightarrow> written_place file_of v b f p \<Longrightarrow> cl_data cl' f ! p = device_byte v b p"
proof -
  have "cl' = cl \<and> r \<noteq> Pass \<or> (\<exists>off rc file sc. file_offset v b (rb_write_base b) = Some off \<and>
    write_fd_exact off (take (unat (rb_write_end b - rb_write_base b)) (drop (unat (rb_write_base b - rb_base b)) (rb_bytes b)))
      (cl_data cl (in_file file_of v b)) (cl_script cl) = (rc, file, sc) \<and>
    cl' = cl\<lparr>cl_data := (cl_data cl)(in_file file_of v b := file), cl_script := sc\<rparr> \<and> (r = Pass \<longrightarrow> rc = 0))"
    using assms(4) by (auto simp: writeback_buffer_def Let_def in_file_def split: if_splits option.splits prod.splits)
  then consider "cl' = cl" "r \<noteq> Pass" | off rc "file" sc where "file_offset v b (rb_write_base b) = Some off"
    "write_fd_exact off (take (unat (rb_write_end b - rb_write_base b)) (drop (unat (rb_write_base b - rb_base b)) (rb_bytes b)))
      (cl_data cl (in_file file_of v b)) (cl_script cl) = (rc, file, sc)"
    "cl' = cl\<lparr>cl_data := (cl_data cl)(in_file file_of v b := file), cl_script := sc\<rparr>" "r = Pass \<longrightarrow> rc = 0" by blast
  then have "same_sizes cl cl' \<and> (cl_data cl' f ! p = cl_data cl f ! p \<or> length (cl_data cl f) \<le> p \<or>
      written_place file_of v b f p \<and> cl_data cl' f ! p = device_byte v b p) \<and>
    (r = Pass \<longrightarrow> written_place file_of v b f p \<longrightarrow> cl_data cl' f ! p = device_byte v b p)"
  proof cases
    case 1
    then show ?thesis by (simp add: same_sizes_def)
  next
    case 2
    then show ?thesis using write_part[OF assms(1-3) 2(1,2,3)] by blast
  qed
  then show "same_sizes cl cl'"
    "cl_data cl' f ! p = cl_data cl f ! p \<or> length (cl_data cl f) \<le> p \<or> written_place file_of v b f p \<and> cl_data cl' f ! p = device_byte v b p"
    "r = Pass \<Longrightarrow> written_place file_of v b f p \<Longrightarrow> cl_data cl' f ! p = device_byte v b p" by blast+
qed

text \<open>Each byte of the files is as before, or is that of a buffer that is written back there.\<close>

lemma writeback_bytes:
  assumes "list_all (fits file_of v cl) bs" "list_all write_range_ok bs" "writeback_buffers file_of v bs moved cl = (r, cl')"
  shows "same_sizes cl cl' \<and> (cl_data cl' f ! p = cl_data cl f ! p \<or> length (cl_data cl f) \<le> p \<or>
    (\<exists>b\<in>set bs. written_place file_of v b f p \<and> cl_data cl' f ! p = device_byte v b p))"
  using assms
proof (induction bs arbitrary: moved cl)
  case Nil
  then show ?case by (simp add: same_sizes_def)
next
  case (Cons b bs)
  show ?case
  proof (cases "rb_written b")
    case False
    then show ?thesis using Cons by auto
  next
    case True
    obtain r1 moved1 cl1 where w: "writeback_buffer file_of v b moved cl = (r1, moved1, cl1)" by (cases "writeback_buffer file_of v b moved cl") auto
    have b: "fits file_of v cl b" "write_range_ok b" using Cons.prems by simp_all
    note e = writeback_buffer_exact(1)[OF b True w] writeback_buffer_exact(2)[OF b True w, of f p]
    have "cl' = cl1 \<or> r1 = Pass \<and> writeback_buffers file_of v bs moved1 cl1 = (r, cl')"
      using Cons.prems(3) True w by (auto split: verdict.splits)
    then show ?thesis
    proof
      assume "r1 = Pass \<and> writeback_buffers file_of v bs moved1 cl1 = (r, cl')"
      moreover have "list_all (fits file_of v cl1) bs" using Cons.prems(1) fits_same_sizes[OF e(1)] by (simp add: list_all_iff)
      ultimately have "same_sizes cl1 cl' \<and> (cl_data cl' f ! p = cl_data cl1 f ! p \<or> length (cl_data cl1 f) \<le> p \<or>
          (\<exists>b\<in>set bs. written_place file_of v b f p \<and> cl_data cl' f ! p = device_byte v b p))"
        using Cons.IH Cons.prems(2) unfolding list.pred_inject by blast
      then show ?thesis using e by (auto simp: same_sizes_def)
    qed (use e in auto)
  qed
qed

text \<open>Where no other buffer is written back, a buffer that is written back has its bytes there.\<close>

definition writes_apart :: "(int \<Rightarrow> nat) \<Rightarrow> v6_view \<Rightarrow> replay_buffer \<Rightarrow> replay_buffer \<Rightarrow> bool" where
  "writes_apart file_of v a b \<longleftrightarrow>
     rb_written a \<longrightarrow> rb_written b \<longrightarrow> in_file file_of v a \<noteq> in_file file_of v b \<or>
       buffer_start v a + unat (rb_write_end a) \<le> buffer_start v b + unat (rb_write_base b) \<or>
       buffer_start v b + unat (rb_write_end b) \<le> buffer_start v a + unat (rb_write_base a)"

lemma writes_apart_place: "writes_apart file_of v a b \<Longrightarrow> written_place file_of v a f p \<Longrightarrow> \<not> written_place file_of v b f p"
  by (auto simp: writes_apart_def written_place_def)

lemma writeback_complete:
  assumes "list_all (fits file_of v cl) bs" "list_all write_range_ok bs" "writeback_buffers file_of v bs moved cl = (Pass, cl')"
    "sorted_wrt (writes_apart file_of v) bs" "b \<in> set bs" "written_place file_of v b f p"
  shows "cl_data cl' f ! p = device_byte v b p"
  using assms
proof (induction bs arbitrary: moved cl)
  case (Cons a bs)
  show ?case
  proof (cases "rb_written a")
    case False
    then have "b \<in> set bs" using Cons.prems(5,6) by (auto simp: written_place_def)
    then show ?thesis using Cons False by auto
  next
    case True
    obtain r1 moved1 cl1 where w: "writeback_buffer file_of v a moved cl = (r1, moved1, cl1)" by (cases "writeback_buffer file_of v a moved cl") auto
    have a: "fits file_of v cl a" "write_range_ok a" using Cons.prems by simp_all
    note e = writeback_buffer_exact(1)[OF a True w] writeback_buffer_exact(3)[OF a True w, of f p]
    have rest: "r1 = Pass" "writeback_buffers file_of v bs moved1 cl1 = (Pass, cl')"
      using Cons.prems(3) True w by (auto split: verdict.splits)
    have fit: "list_all (fits file_of v cl1) bs" using Cons.prems(1) fits_same_sizes[OF e(1)] by (simp add: list_all_iff)
    show ?thesis
    proof (cases "b \<in> set bs")
      case True
      then show ?thesis using Cons.IH[OF fit _ rest(2)] Cons.prems by simp
    next
      case False
      then have ba: "b = a" using Cons.prems(5) by simp
      have in_range: "p < length (cl_data cl1 f)"
        using Cons.prems(6) a e(1) by (auto simp: ba written_place_def fits_def write_range_ok_def same_sizes_def)
      have "\<not> written_place file_of v c f p" if "c \<in> set bs" for c
        using writes_apart_place[of file_of v b c f p] Cons.prems(4,6) that ba by auto
      then have "cl_data cl' f ! p = cl_data cl1 f ! p"
        using writeback_bytes[OF fit _ rest(2), of f p] Cons.prems(2) in_range by auto
      then show ?thesis using e(2)[OF rest(1)] Cons.prems(6) ba by simp
    qed
  qed
qed simp

end
