(* ===== verification/Buffer_Theorems.thy ===== *)
theory Buffer_Theorems
  imports Buffer_Writeback Graphics_Example
begin

text \<open>
  The properties of the buffers of a replay: what a command is given lies in what was staged for it, what is written back
  is what the commands wrote, and the frames for which this fails.
\<close>

section \<open>Three small frames\<close>

text \<open>With a kernel that moves all it is asked for.\<close>

lemma read_fd_exact_quiet:
  "off + n \<le> length file \<Longrightarrow> n \<le> SSIZE_MAX \<Longrightarrow> off \<le> OFF_MAX \<Longrightarrow> read_fd_exact file off n [] = (Inr (take n (drop off file)), [])"
  by (subst read_fd_exact.simps) (auto simp: next_transfer_def Let_def min_def read_fd_exact.simps[of _ _ 0])

lemma write_fd_exact_quiet:
  "length bytes \<le> SSIZE_MAX \<Longrightarrow> off \<le> OFF_MAX \<Longrightarrow>
   write_fd_exact off bytes file [] = (0, if bytes = [] then file else write_at file off bytes, [])"
  by (subst write_fd_exact.simps) (auto simp: next_transfer_def Let_def min_def write_fd_exact.simps[of _ "[]"])

text \<open>Two buffers of 16 bytes in one memory of a client, which lie on each other, in a frame of commands and fills.\<close>

definition backed_memory :: v5_resource where
  "backed_memory = good_memory\<lparr>vr_resource_flags := 1, vr_size := 16\<rparr>"

definition small_buffer :: v5_resource where
  "small_buffer = good_buffer\<lparr>vr_memory_offset := 0, vr_size := 16\<rparr>"

definition buffers_view :: "g_command list \<Rightarrow> g_buffer_copy list \<Rightarrow> g_fill_buffer list \<Rightarrow> v6_view" where
  "buffers_view cs copies fills = good_view\<lparr>gv_header := (gv_header good_view)\<lparr>gh_abi_minor := 11\<rparr>, gv_fds := [7],
     gv_resources := [backed_memory, small_buffer, small_buffer], gv_commands := cs, gv_buffer_copies := copies,
     gv_buffer_image_copies := [], gv_images := [], gv_fill_buffers := fills, gv_update_buffers := []\<rparr>"

definition blank_command :: "u32 \<Rightarrow> g_command" where
  "blank_command ty = (g_command_of [])\<lparr>gcm_command_type := ty, gcm_index_buffer_resource_index := V5_NONE,
     gcm_pipeline_index := V5_NONE\<rparr>"

definition sixteen_bytes :: client where
  "sixteen_bytes = \<lparr>cl_data = (\<lambda>f. ''abcdefghijklmnop''), cl_script = []\<rparr>"

lemma buffers_view_fields [simp]:
  "gv_resources (buffers_view cs copies fills) = [backed_memory, small_buffer, small_buffer]"
  "gv_commands (buffers_view cs copies fills) = cs" "gv_buffer_copies (buffers_view cs copies fills) = copies"
  "gv_fill_buffers (buffers_view cs copies fills) = fills" "gv_fds (buffers_view cs copies fills) = [7]"
  "is_v6 k (gv_header (buffers_view cs copies fills)) \<longleftrightarrow> k \<le> 11" "gv_indirect_draws (buffers_view cs copies fills) = []"
  by (simp_all add: buffers_view_def is_v6_def good_empty)

lemma small_fields [simp]:
  "vr_resource_type small_buffer = RESOURCE_BUFFER" "vr_parent_resource_index small_buffer = 0" "vr_memory_offset small_buffer = 0"
  "vr_size small_buffer = 16" "vr_resource_type backed_memory = RESOURCE_MEMORY" "vr_resource_flags backed_memory = 1"
  "vr_fd_index backed_memory = 0" "vr_size backed_memory = 16" "vr_external_offset backed_memory = 0"
  by (simp_all add: small_buffer_def backed_memory_def good_buffer_def good_memory_def)

lemma blank_fields [simp]:
  "gcm_command_type (blank_command ty) = ty" "gcm_index_offset (blank_command ty) = 0" "gcm_index_type (blank_command ty) = 0"
  "gcm_first_index (blank_command ty) = 0" "gcm_index_count (blank_command ty) = 0"
  "gcm_index_buffer_resource_index (blank_command ty) = V5_NONE"
  by (simp_all add: blank_command_def g_command_of_def field_def)

lemmas staging_defs = stage_frame_def stage_command_def next_staging_def skip_def add_and_mark_def add_vulkan_graphics_replay_buffer_range_def
  mark_vulkan_graphics_replay_buffer_writeback_range_def Let_def u64_range_within_size_def buffer_backed_def checked_u64_add3_def
  find_vulkan_graphics_replay_buffer_def new_replay_buffer_def widen_def widen_write_def MAX_REPLAY_BUFFERS_def entry_for_def
  find_vulkan_graphics_v69_buffer_copy_def find_vulkan_graphics_v611_fill_buffer_def find_vulkan_graphics_v68_indirect_draw_def upt_rec

lemmas upload_defs = upload_buffer_def file_offset_def memory_of_def buffer_of_def fd_of_def checked_u64_to_off_t_def
  read_fd_exact_quiet OFF_MAX_def SSIZE_MAX_def sixteen_bytes_def

definition copy_view :: v6_view where
  "copy_view = buffers_view [blank_command CMD_COPY_BUFFER]
     [\<lparr>gbc_command_index = 0, gbc_src_resource_index = 1, gbc_dst_resource_index = 1, gbc_reserved0 = 0, gbc_src_offset = 0,
       gbc_dst_offset = 8, gbc_size = 4\<rparr>] []"

definition copy_buffer :: "string \<Rightarrow> replay_buffer" where
  "copy_buffer bytes = \<lparr>rb_resource = 1, rb_base = 0, rb_end = 12, rb_written = True, rb_write_base = 8, rb_write_end = 12,
     rb_usage = USAGE_TRANSFER_SRC OR USAGE_TRANSFER_DST, rb_bytes = bytes\<rparr>"

lemma copy_materialized:
  "materialize_vulkan_graphics_v6_buffers (\<lambda>fd. 0) (\<lambda>n u. 0) copy_view sixteen_bytes = (Pass, [copy_buffer ''abcdefghijkl''], sixteen_bytes)"
proof -
  have "stage_frame copy_view [] = (Pass, [copy_buffer []])"
    by (simp add: copy_view_def staging_defs copy_buffer_def)
  then show ?thesis
    by (simp add: materialize_vulkan_graphics_v6_buffers_def Let_def upload_defs copy_buffer_def checked_u64_add3_def copy_view_def)
qed

section \<open>Recording\<close>


definition full_runtime :: replay_runtime where
  "full_runtime = \<lparr>rt_index_uint8 = True, rt_draw_count = True, rt_draw_indexed_count = True, rt_barrier2 = True,
     rt_query_pools = []\<rparr>"

lemmas record_defs = record_uses_def record_buffer_copy_def record_fill_buffer_def no_entry_def with_buffer_def checked_use_def
  outside_staged_def use_of_def entry_for_def find_vulkan_graphics_v69_buffer_copy_def find_vulkan_graphics_v611_fill_buffer_def
  find_vulkan_graphics_v68_indirect_draw_def find_vulkan_graphics_replay_buffer_def upt_rec

definition copy_uses :: "buffer_use list" where
  "copy_uses = [\<lparr>bu_index = 0, bu_offset = 0, bu_size = 4, bu_writes = False\<rparr>, \<lparr>bu_index = 0, bu_offset = 8, bu_size = 4, bu_writes = True\<rparr>]"

lemma copy_recorded: "record_uses full_runtime copy_view [copy_buffer bytes] (0, blank_command CMD_COPY_BUFFER) = (Pass, copy_uses)"
  by (simp add: record_defs copy_view_def copy_buffer_def copy_uses_def Let_def)



text \<open>A draw of three indices of 16 bits from the third on.\<close>

definition skipping_draw :: g_command where
  "skipping_draw = (blank_command CMD_DRAW_INDEXED)\<lparr>gcm_first_index := 3, gcm_index_count := 3, gcm_index_buffer_resource_index := 1\<rparr>"


lemma skipping_fields [simp]:
  "gcm_command_type skipping_draw = CMD_DRAW_INDEXED" "gcm_index_offset skipping_draw = 0" "gcm_index_type skipping_draw = 0"
  "gcm_first_index skipping_draw = 3" "gcm_index_count skipping_draw = 3" "gcm_index_buffer_resource_index skipping_draw = 1"
  using blank_fields by (simp_all add: skipping_draw_def)


section \<open>Writing back\<close>

text \<open>
  The device ran: the bytes of its buffers differ only where a recorded use writes. A place of the client's memory that a use
  writes.
\<close>

definition device_ran :: "buffer_use list \<Rightarrow> replay_buffer list \<Rightarrow> replay_buffer list \<Rightarrow> bool" where
  "device_ran us bs bs' \<longleftrightarrow> map unloaded bs' = map unloaded bs \<and>
     (\<forall>i<length bs. length (rb_bytes (bs' ! i)) = length (rb_bytes (bs ! i)) \<and>
       (\<forall>x<length (rb_bytes (bs ! i)). rb_bytes (bs' ! i) ! x = rb_bytes (bs ! i) ! x \<or>
         list_ex (\<lambda>u. bu_writes u \<and> bu_index u = i \<and> unat (bu_offset u) \<le> x \<and> x < unat (bu_offset u) + unat (bu_size u)) us))"

definition written_by :: "(int \<Rightarrow> nat) \<Rightarrow> v6_view \<Rightarrow> replay_buffer list \<Rightarrow> nat \<Rightarrow> nat \<Rightarrow> buffer_use \<Rightarrow> bool" where
  "written_by file_of v bs f p u \<longleftrightarrow>
     (let b = bs ! bu_index u; first = buffer_start v b + unat (rb_base b) + unat (bu_offset u) in
      bu_writes u \<and> f = in_file file_of v b \<and> first \<le> p \<and> p < first + unat (bu_size u))"

lemma device_ran_nth:
  assumes "device_ran us bs bs'" "i < length bs"
  shows "i < length bs'" "unloaded (bs' ! i) = unloaded (bs ! i)" "length (rb_bytes (bs' ! i)) = length (rb_bytes (bs ! i))"
  using assms unloaded_nth[of bs' bs i] by (auto simp: device_ran_def dest: map_eq_imp_length_eq)

lemma unloaded_eqD:
  assumes "unloaded b = unloaded b'"
  shows "rb_base b = rb_base b'" "rb_end b = rb_end b'" "rb_written b = rb_written b'" "rb_write_base b = rb_write_base b'"
    "rb_write_end b = rb_write_end b'"
  using assms unloaded_fields by metis+

lemma device_ran_fits:
  assumes "device_ran us bs bs'" "list_all (loaded file_of v cl) bs" "table_ok v bs"
  shows "list_all (fits file_of v cl) bs'" "list_all write_range_ok bs'" 
proof -
  have len: "length bs' = length bs" using assms(1) by (auto simp: device_ran_def dest: map_eq_imp_length_eq)
  have "fits file_of v cl (bs' ! i) \<and> write_range_ok (bs' ! i)" if i: "i < length bs" for i
  proof -
    note d = device_ran_nth[OF assms(1) i]
    have "fits file_of v cl (bs ! i)" "entry_ok v (bs ! i)" using assms(2,3) i by (simp_all add: list_all_length loaded_def table_ok_def)
    then show ?thesis using d(3) unloaded_eqD[OF d(2)] same_place(1)[OF d(2), of v] same_place(2)[OF d(2), of file_of v]
      by (auto simp: fits_def write_range_ok_def entry_ok_def word_le_nat_alt word_less_nat_alt)
  qed
  then show "list_all (fits file_of v cl) bs'" "list_all write_range_ok bs'" using len by (simp_all add: list_all_length)
qed

lemma stale_byte:
  assumes "device_ran us bs bs'" "list_all (loaded file_of v cl) bs" "table_ok v bs" "b' \<in> set bs'" "written_place file_of v b' f p"
  shows "device_byte v b' p = cl_data cl f ! p \<or> list_ex (written_by file_of v bs f p) us"
proof -
  have len: "length bs' = length bs" using assms(1) by (auto simp: device_ran_def dest: map_eq_imp_length_eq)
  obtain i where i: "i < length bs" "b' = bs' ! i" using assms(4) len by (auto simp: in_set_conv_nth)
  let ?b = "bs ! i"
  note d = device_ran_nth[OF assms(1) i(1)] note u = unloaded_eqD[OF d(2)] same_place(1)[OF d(2), of v] same_place(2)[OF d(2), of file_of v]
  have l: "loaded file_of v cl ?b" "entry_ok v ?b" using assms(2,3) i(1) by (simp_all add: list_all_length table_ok_def)
  define x where "x = p - (buffer_start v ?b + unat (rb_base ?b))"
  have p: "p = buffer_start v ?b + unat (rb_base ?b) + x" "x < length (rb_bytes ?b)" "f = in_file file_of v ?b"
    using assms(5) l u unfolding i(2)
    by (auto simp: written_place_def x_def loaded_def fits_def entry_ok_def word_le_nat_alt word_less_nat_alt)
  have dev: "device_byte v b' p = rb_bytes (bs' ! i) ! x" using u by (simp add: device_byte_def i(2) p(1))
  have "rb_bytes (bs' ! i) ! x = rb_bytes ?b ! x \<or>
      list_ex (\<lambda>u. bu_writes u \<and> bu_index u = i \<and> unat (bu_offset u) \<le> x \<and> x < unat (bu_offset u) + unat (bu_size u)) us"
    using assms(1) i(1) p(2) by (simp add: device_ran_def)
  moreover have "rb_bytes ?b ! x = cl_data cl f ! p" using l(1) p by (simp add: loaded_def)
  ultimately show ?thesis unfolding dev using p(1,3) by (auto simp: list_ex_iff written_by_def Let_def)
qed

text \<open>
  C26. What the writing back of the buffers changes in the memory of the client, when the device has changed bytes of its
  buffers only where a recorded command writes (in particular no shader writes a buffer whose descriptor is not flagged as
  written). Whatever the kernel moves at a time and wherever a fault ends the writing back: no file changes its length, and
  a byte that changes is one that a command of the frame was recorded to write; the bytes between, which are written back
  too, keep their values. When the writing back succeeds and no two of the ranges written back share a byte, each byte that
  a command was recorded to write is the one of the device. The results of queries and the images, which a replay writes
  separately, are not part of this.
\<close>

theorem replay_changes_exactly:
  assumes "materialize_vulkan_graphics_v6_buffers file_of create v cl = (Pass, bs, cl1)"
    "record_frame_uses rt v bs = (Pass, us)" "device_ran us bs bs'"
    "writeback_vulkan_graphics_v6_storage_buffers file_of v bs' cl1 = (r, cl2)"
  shows "length (cl_data cl2 f) = length (cl_data cl f) \<and>
    (cl_data cl2 f ! p = cl_data cl f ! p \<or> length (cl_data cl f) \<le> p \<or> list_ex (written_by file_of v bs f p) us) \<and>
    (r = Pass \<longrightarrow> sorted_wrt (writes_apart file_of v) bs' \<longrightarrow>
      list_all (\<lambda>u. written_by file_of v bs f p u \<longrightarrow> cl_data cl2 f ! p = device_byte v (bs' ! bu_index u) p) us)"
proof -
  have m: "staged v bs" "cl_data cl1 = cl_data cl" "list_all (loaded file_of v cl) bs" using materialized[OF assms(1)] by simp_all
  note t = staged_table_ok[OF m(1)] note ok = device_ran_fits[OF assms(3) m(3) t]
  have "same_sizes cl cl1" by (simp add: same_sizes_def m(2))
  then have fit: "list_all (fits file_of v cl1) bs'" using ok(1) by (simp add: list_all_iff fits_same_sizes)
  note w = assms(4)[unfolded writeback_vulkan_graphics_v6_storage_buffers_def]
  have b: "same_sizes cl1 cl2" "cl_data cl2 f ! p = cl_data cl1 f ! p \<or> length (cl_data cl1 f) \<le> p \<or>
      (\<exists>b\<in>set bs'. written_place file_of v b f p \<and> cl_data cl2 f ! p = device_byte v b p)"
    using writeback_bytes[OF fit ok(2) w, of f p] by simp_all
  have "cl_data cl2 f ! p = device_byte v (bs' ! bu_index u) p"
    if r: "r = Pass" "sorted_wrt (writes_apart file_of v) bs'" and u: "u \<in> set us" "written_by file_of v bs f p u" for u
  proof (rule writeback_complete[OF fit ok(2) w[unfolded r(1)] r(2)])
    have i: "use_inside bs u" using writes_inside[OF m(1) assms(2) u(1)] u(2) by (simp add: written_by_def Let_def)
    then have k: "bu_index u < length bs" by (simp add: use_inside_def)
    note d = device_ran_nth[OF assms(3) k]
    show "bs' ! bu_index u \<in> set bs'" using d(1) by simp
    show "written_place file_of v (bs' ! bu_index u) f p"
      using i u(2) unloaded_eqD[OF d(2)] same_place(1)[OF d(2), of v] same_place(2)[OF d(2), of file_of v]
      by (auto simp: use_inside_def written_by_def written_place_def Let_def)
  qed
  moreover have "cl_data cl2 f ! p = cl_data cl f ! p \<or> length (cl_data cl f) \<le> p \<or> list_ex (written_by file_of v bs f p) us"
    using b(2) stale_byte[OF assms(3) m(3) t] unfolding m(2) by metis
  ultimately show ?thesis using b(1) by (simp add: same_sizes_def m(2) list_all_iff)
qed

lemma all_below: "(\<forall>x<n. P x) \<longleftrightarrow> list_all P [0..<n]"
  by (auto simp: list_all_iff)

lemma replay_changes_exactly_witness:
  "cl_data (snd (writeback_vulkan_graphics_v6_storage_buffers (\<lambda>fd. 0) copy_view [copy_buffer ''abcdefghabcd''] sixteen_bytes)) 0 ! 9 = CHR ''b''"
proof -
  let ?w = "writeback_vulkan_graphics_v6_storage_buffers (\<lambda>fd. 0) copy_view [copy_buffer ''abcdefghabcd''] sixteen_bytes"
  have rec: "record_frame_uses full_runtime copy_view [copy_buffer ''abcdefghijkl''] = (Pass, copy_uses)"
  proof -
    have "enumerate 0 (gv_commands copy_view) = [(0, blank_command CMD_COPY_BUFFER)]" by (simp add: copy_view_def)
    then show ?thesis by (simp add: record_frame_uses_def copy_recorded and_uses_def)
  qed
  have ran: "device_ran copy_uses [copy_buffer ''abcdefghijkl''] [copy_buffer ''abcdefghabcd'']"
    unfolding device_ran_def all_below by (simp add: unloaded_def copy_buffer_def copy_uses_def upt_rec)
  have pass: "fst ?w = Pass"
    by (simp add: writeback_vulkan_graphics_v6_storage_buffers_def writeback_buffer_def Let_def copy_view_def upload_defs
        copy_buffer_def checked_u64_add3_def buffer_backed_def write_fd_exact_quiet)
  have at: "written_by (\<lambda>fd. 0) copy_view [copy_buffer ''abcdefghijkl''] 0 9 \<lparr>bu_index = 0, bu_offset = 8, bu_size = 4, bu_writes = True\<rparr>"
    "device_byte copy_view (copy_buffer ''abcdefghabcd'') 9 = CHR ''b''"
    by (simp_all add: written_by_def Let_def buffer_start_def memory_of_def buffer_of_def copy_buffer_def copy_view_def in_file_def device_byte_def)
  have "list_all (\<lambda>u. written_by (\<lambda>fd. 0) copy_view [copy_buffer ''abcdefghijkl''] 0 9 u \<longrightarrow>
      cl_data (snd ?w) 0 ! 9 = device_byte copy_view ([copy_buffer ''abcdefghabcd''] ! bu_index u) 9) copy_uses"
    using replay_changes_exactly[OF copy_materialized rec ran prod.collapse[symmetric], of 0 9] pass by simp
  then show ?thesis using at unfolding copy_uses_def by simp
qed

definition fill :: "u32 \<Rightarrow> u32 \<Rightarrow> u64 \<Rightarrow> u32 \<Rightarrow> g_fill_buffer" where
  "fill i k off x = \<lparr>gfb_command_index = i, gfb_dst_resource_index = k, gfb_reserved0 = 0, gfb_reserved1 = 0, gfb_dst_offset = off,
     gfb_size = 4, gfb_data = x, gfb_reserved2 = 0\<rparr>"

definition aliased_view :: v6_view where
  "aliased_view = buffers_view (replicate 3 (blank_command CMD_FILL_BUFFER)) []
     [fill 0 1 4 0x78787878, fill 1 2 0 0x79797979, fill 2 2 8 0x79797979]"

definition first_fill :: "string \<Rightarrow> replay_buffer" where
  "first_fill bytes = \<lparr>rb_resource = 1, rb_base = 4, rb_end = 8, rb_written = True, rb_write_base = 4, rb_write_end = 8,
     rb_usage = USAGE_TRANSFER_DST, rb_bytes = bytes\<rparr>"

definition second_fill :: "string \<Rightarrow> replay_buffer" where
  "second_fill bytes = \<lparr>rb_resource = 2, rb_base = 0, rb_end = 12, rb_written = True, rb_write_base = 0, rb_write_end = 12,
     rb_usage = USAGE_TRANSFER_DST, rb_bytes = bytes\<rparr>"

definition fill_uses :: "buffer_use list" where
  "fill_uses = [\<lparr>bu_index = 0, bu_offset = 0, bu_size = 4, bu_writes = True\<rparr>, \<lparr>bu_index = 1, bu_offset = 0, bu_size = 4, bu_writes = True\<rparr>,
     \<lparr>bu_index = 1, bu_offset = 8, bu_size = 4, bu_writes = True\<rparr>]"

lemma aliased_checked:
  "check_objects aliased_view = Pass" "check_commands aliased_view = Pass" "check_fills_and_updates aliased_view = Pass"
  "preflight_vulkan_graphics_v6_replay_supported aliased_view = Pass"
proof -
  show "check_objects aliased_view = Pass"
    by (simp add: check_objects_def aliased_view_def buffers_view_def good_empty check_v6_resource_def u64_range_within_size_def
        backed_memory_def small_buffer_def good_memory_def good_buffer_def)
  have "bare_command ty (blank_command ty)" for ty
    by (simp add: bare_command_def has_draw_state_def blank_command_def g_command_of_def field_def)
  then have "check_command aliased_view (i, blank_command CMD_FILL_BUFFER) = Pass" for i
    using blank_fields[of CMD_FILL_BUFFER]
    by (simp add: check_command_def Let_def check_command_ranges_def range_add_u32_def check_plain_command_def check_index_buffer_def
        payload_range_valid_def QUERY_COMMANDS_def command_since_def aliased_view_def bare_command_def has_draw_state_def)
  then show "check_commands aliased_view = Pass" by (simp add: check_commands_def aliased_view_def numeral_3_eq_3)
  have marks: "marked MAX_COMMANDS [0, 1, 2] ! i \<longleftrightarrow> i \<in> unat ` set [0, 1, 2 :: u32]" if "i < MAX_COMMANDS" for i
    by (rule nth_marked[OF that])
  have m: "mark k seen ! i \<longleftrightarrow> i = unat k \<or> seen ! i" if "i < length seen" for i k seen
    using that by (cases "i = unat k") (simp_all add: mark_def)
  have none: "\<not> unmarked n ! i" if "i < n" for i n using that by (simp add: unmarked_def)
  have fills: "gv_fill_buffers aliased_view = [fill 0 1 4 0x78787878, fill 1 2 0 0x79797979, fill 2 2 8 0x79797979]"
    "gv_commands aliased_view = replicate 3 (blank_command CMD_FILL_BUFFER)" "gv_update_buffers aliased_view = []"
    "gv_resources aliased_view = [backed_memory, small_buffer, small_buffer]"
    by (simp_all add: aliased_view_def buffers_view_def)
  show "check_fills_and_updates aliased_view = Pass"
    by (simp add: check_fills_and_updates_def fills check_fill_def claim_Pass buffer_range_bad_def u64_range_within_size_def
        all_claimed_def marks m none fill_def at_def numeral_3_eq_3)
  show "preflight_vulkan_graphics_v6_replay_supported aliased_view = Pass"
    by (simp add: preflight_vulkan_graphics_v6_replay_supported_def fills(1,2) preflight_command_def QUERY_COMMANDS_def numeral_3_eq_3
        transfer_found_def preflight_transfer_def preflight_next_def idle_def find_vulkan_graphics_v611_fill_buffer_def entry_for_def)
      (simp add: aliased_view_def fill_def)
qed

text \<open>
  C28. A write that is lost. There is a frame whose objects, commands and fills pass their checks and the walk before the
  replay, with two buffers at the same place of a client's memory, one filled from 4 to 8, the other from 0 to 4 and from 8
  to 12. The buffers are staged, the fills are recorded, the device carries them out and the writing back succeeds; but the
  bytes from 4 to 8 are those from before the frame: the range written back for the second buffer covers them, with what
  was read before the commands ran.
\<close>

theorem aliased_write_lost:
  "check_objects aliased_view = Pass \<and> check_commands aliased_view = Pass \<and> check_fills_and_updates aliased_view = Pass \<and>
   preflight_vulkan_graphics_v6_replay_supported aliased_view = Pass \<and>
   materialize_vulkan_graphics_v6_buffers (\<lambda>fd. 0) (\<lambda>n u. 0) aliased_view sixteen_bytes =
     (Pass, [first_fill ''efgh'', second_fill ''abcdefghijkl''], sixteen_bytes) \<and>
   record_frame_uses full_runtime aliased_view [first_fill ''efgh'', second_fill ''abcdefghijkl''] = (Pass, fill_uses) \<and>
   device_ran fill_uses [first_fill ''efgh'', second_fill ''abcdefghijkl''] [first_fill ''xxxx'', second_fill ''yyyyefghyyyy''] \<and>
   (case writeback_vulkan_graphics_v6_storage_buffers (\<lambda>fd. 0) aliased_view [first_fill ''xxxx'', second_fill ''yyyyefghyyyy''] sixteen_bytes of
      (r, cl) \<Rightarrow> r = Pass \<and> cl_data cl 0 = ''yyyyefghyyyymnop'')"
proof (intro conjI aliased_checked)
  have v: "gv_resources aliased_view = [backed_memory, small_buffer, small_buffer]" "gv_fds aliased_view = [7]"
    "gv_fill_buffers aliased_view = [fill 0 1 4 0x78787878, fill 1 2 0 0x79797979, fill 2 2 8 0x79797979]"
    "is_v6 k (gv_header aliased_view) \<longleftrightarrow> k \<le> 11" "gv_indirect_draws aliased_view = []" for k
    by (simp_all add: aliased_view_def)
  have cmds: "enumerate 0 (gv_commands aliased_view) = [(0, blank_command CMD_FILL_BUFFER), (1, blank_command CMD_FILL_BUFFER), (2, blank_command CMD_FILL_BUFFER)]"
    by (simp add: aliased_view_def numeral_3_eq_3)
  have st: "stage_frame aliased_view [] = (Pass, [first_fill [], second_fill []])"
    by (simp add: staging_defs cmds v fill_def) (simp add: first_fill_def second_fill_def)
  then show "materialize_vulkan_graphics_v6_buffers (\<lambda>fd. 0) (\<lambda>n u. 0) aliased_view sixteen_bytes =
     (Pass, [first_fill ''efgh'', second_fill ''abcdefghijkl''], sixteen_bytes)"
    by (simp add: materialize_vulkan_graphics_v6_buffers_def Let_def upload_defs first_fill_def second_fill_def checked_u64_add3_def aliased_view_def)
  show "record_frame_uses full_runtime aliased_view [first_fill ''efgh'', second_fill ''abcdefghijkl''] = (Pass, fill_uses)"
    by (simp add: record_frame_uses_def cmds record_defs Let_def and_uses_def v fill_def first_fill_def second_fill_def)
      (simp add: fill_uses_def)
  show "device_ran fill_uses [first_fill ''efgh'', second_fill ''abcdefghijkl''] [first_fill ''xxxx'', second_fill ''yyyyefghyyyy'']"
    unfolding device_ran_def all_below by (simp add: unloaded_def first_fill_def second_fill_def fill_uses_def upt_rec)
  show "case writeback_vulkan_graphics_v6_storage_buffers (\<lambda>fd. 0) aliased_view [first_fill ''xxxx'', second_fill ''yyyyefghyyyy''] sixteen_bytes of
      (r, cl) \<Rightarrow> r = Pass \<and> cl_data cl 0 = ''yyyyefghyyyymnop''"
    by (simp add: writeback_vulkan_graphics_v6_storage_buffers_def writeback_buffer_def Let_def aliased_view_def upload_defs
        first_fill_def second_fill_def checked_u64_add3_def buffer_backed_def write_fd_exact_quiet write_at_def)
qed

end
