(* ===== verification/Spec2Isabelle.thy ===== *)
theory Spec2Isabelle
  imports Cow_Theorems Path_Theorems Pager_Theorems Exec_Theorems Loop_Theorems Frame_Theorems Graphics_Theorems
    Replay_Theorems Image_Theorems Buffer_Theorems
begin

text \<open>
  Verification library for the C core of skydnir, which runs Linux containers on unrooted Android devices.

  \<^bold>\<open>The program.\<close> Three C programs carry its logic. A preload library (\<open>docker-proot-setup/src/overlay/libcow.c\<close>) stands
  between a container's processes and libc; the container's files are hard links to those of an image, and the library
  copies a file up before anything writes to it. A tracer (\<open>app/src/main/cpp/pdocker_direct_exec.c\<close>) runs the container's
  processes under ptrace: it translates their paths, refuses those that leave the container, rewrites \<open>execve\<close>, answers
  privileged calls itself and pages large mappings to a file. A GPU executor (\<open>pdocker_gpu_executor.c\<close>, with the
  structures of \<open>pdocker_gpu_abi.h\<close>) receives frames of bytes from a Vulkan driver inside the container
  (\<open>docker-proot-setup/src/gpu/pdocker_vulkan_icd.c\<close>) and replays them on the device; the frames come from the untrusted
  side. The tracer and the shim meet in the file system, the driver and the executor in the frames: \<open>VULKAN_DISPATCH_V5\<close>
  for compute dispatches and \<open>VULKAN_GRAPHICS_V6\<close>, versions 6.0 to 6.20, for graphics.

  \<^bold>\<open>Conventions.\<close> Integers of C are words of their width (\<open>u16\<close>, \<open>u32\<close>, \<open>u64\<close>); where the source computes in a wider
  type that cannot overflow, \<open>int\<close> or \<open>nat\<close>. Strings are character lists without the terminating zero, frames are
  character lists of their bytes. A function that fails returns the negative errno as in C, or a sum with the errno on the
  left. State is passed explicitly: the kernel's state (\<open>Posix_Fs\<close>) holds inodes, names and open files, and a script of the
  kernel's free choices (short transfers, interruptions, failures), so that a property over all states is a property over
  all behaviours of the kernel. Output for logs and statistics is left out everywhere.

  \<^bold>\<open>Shared theories.\<close> \<open>Prelude\<close>: widths, errno values, list lemmas, and the locale \<open>guarded_system\<close>, by which an invariant
  kept by every allowed step holds over every run. \<open>Byte_Codec\<close>: little-endian integers and fields of byte strings.
  \<open>Simulation\<close>: the locale \<open>simulation\<close> of a component that implements a simpler one. \<open>Posix_Fs\<close>: the calls of the
  kernel; \<open>Copy_Steps\<close>: one read and one write of a copy.

  \<^bold>\<open>The copy-on-write shim\<close> (\<open>libcow.c\<close>). \<open>Cow_Model\<close>: the state \<open>cow\<close> (the kernel, the table of descriptors and their
  paths, the switches), path resolution and the copy loops. \<open>Cow_Hooks\<close>: the copy-up \<open>break_hardlink_copy_stat\<close> and every
  intercepted symbol, \<open>hook_open\<close> for \<open>open\<close> and so on. The copy-up calls the library's own hooks; their nesting is fuel
  \<open>break_fuel\<close>, one more than the table has slots, which \<open>Cow_Theorems\<close> shows is never used up. The fuel of the copy loops
  is the length of the file and two, and \<open>Cow_Copy\<close> shows that it is enough. \<open>Cow_Frame\<close>, \<open>Cow_Calls\<close>, \<open>Cow_Breaks\<close>,
  \<open>Cow_Safety\<close>, \<open>Cow_Run\<close>, \<open>Cow_Isolation\<close>: no call of the shim changes an inode of the lower layer as long as no \<open>stat\<close>
  fails for want of anything but the file; the locale \<open>guarded_system\<close> is interpreted (\<open>shim\<close>) on the steps of a process.
  \<open>Cow_Atomic\<close>: the copy-up happens or does not, and after a failed \<open>stat\<close> it is left out and reported as done.

  \<^bold>\<open>Paths\<close> (\<open>pdocker_direct_exec.c\<close>). \<open>Bind_Paths\<close>: bind mounts, lexical normalisation and the translation between guest
  and host. \<open>Path_Lemmas\<close>: what they compute, with the locale \<open>longest_prefix\<close>, interpreted for both directions
  (\<open>guest_side\<close>, \<open>host_side\<close>). \<open>Path_Guard\<close>: \<open>validate_host_path_under_allowed\<close> and the two caches of its verdicts, with
  the counter of changes under way; \<open>guard_run\<close> interprets \<open>guarded_system\<close>. \<open>Linkat_Copy\<close>: hard links emulated by copies,
  with fuel \<open>linkat_fuel\<close>, the length of the file and two. \<open>Tracee_Args\<close>: registers and memory of a stopped process and
  the rewriting of its path arguments. The symbolic links that the kernel follows are limited to 40, as Linux does.

  \<^bold>\<open>The tracer\<close> (\<open>pdocker_direct_exec.c\<close>). \<open>Exec_Rewrite\<close> and \<open>Exec_Lemmas\<close>: the rewriting of \<open>execve\<close> and what it leaves
  in memory. \<open>Trace_Pager\<close>: the regions of the transparent pager, eviction and loading; \<open>Pager_Refine\<close> interprets
  \<open>simulation\<close> (\<open>pg\<close>): the pager is flat memory. The scan for a page to evict goes at most twice round. \<open>Seccomp\<close>: the
  program of the filter and the instructions of the kernel that run it. \<open>Tracee_Table\<close>, \<open>Syscall_Entry\<close>, \<open>Trace_Loop\<close>:
  the followed processes, one intercepted call, and what each reported stop does. \<open>Loop_Lemmas\<close>: the bookkeeping kept by
  every step (\<open>trace_run\<close>, again \<open>guarded_system\<close>).

  \<^bold>\<open>Dispatch frames.\<close> \<open>Frame_Layout\<close>: each structure as a record with its bytes, the locale \<open>struct_layout\<close> and its
  interpretations. \<open>Frame_Check\<close>: the executor's receiving and checking and the bindings it makes of a frame.
  \<open>Frame_Build\<close>: the driver's builder. \<open>Frame_Lemmas\<close>, \<open>Frame_Sent\<close>, \<open>Frame_Roundtrip\<close>: what the checks guarantee, and
  that what the driver sends is what the executor reads.

  \<^bold>\<open>Graphics frames\<close> (\<open>pdocker_gpu_executor.c\<close>). \<open>Graphics_Layout\<close>: the structures of the twenty-one versions and the view
  of a frame (\<open>VulkanGraphicsV6FrameView\<close>). \<open>Graphics_Header\<close>: the checks of header and tables. \<open>Graphics_Ranges\<close>,
  \<open>Graphics_Content\<close>, \<open>Graphics_Commands\<close>: \<open>validate_vulkan_graphics_v6_frame_content\<close>, one definition per block, and
  receiving a frame. The outcome of a check is a \<open>verdict\<close>: \<open>Pass\<close>, \<open>Refuse\<close> with the errno, or \<open>Stray\<close> when the code would
  read or write outside a table or array or shift by the width of a word or more; the arrays of marks have 4096, 64 and 16
  entries as in the code. \<open>Graphics_Safety\<close>: where checks stray. \<open>Graphics_Places\<close>, \<open>Graphics_Types\<close>,
  \<open>Graphics_Typed\<close>, \<open>Graphics_Claims\<close>: what an accepted frame is. \<open>Graphics_Replay\<close>: the walk over the commands before the replay
  (\<open>preflight_vulkan_graphics_v6_replay_supported\<close>) and the layout of a pipeline
  (\<open>materialize_vulkan_graphics_v6_pipelines\<close>, up to the layout), with 8 descriptor sets of 16 bindings.
  \<open>Graphics_Preflight\<close>, \<open>Graphics_Sets\<close>: what they compute. \<open>Image_Objects\<close>: the executor's images
  (\<open>VulkanDispatchImageObject\<close>), where their parts lie when staged, and the table of the layouts of their parts, of at
  most 64 entries; \<open>Image_Layouts\<close> interprets \<open>simulation\<close> (\<open>layouts\<close>): the table is a function from cells to layouts.
  \<open>Replay_Buffers\<close>: the table of at most 64 buffers, the files of the client and a script of the kernel's transfers, and
  the copies from and to them (\<open>materialize_vulkan_graphics_v6_buffers\<close>, \<open>writeback_vulkan_graphics_v6_storage_buffers\<close>).
  \<open>Replay_Record\<close>: the bytes of the device that each recorded command is given. \<open>Buffer_Staging\<close>: what staging keeps and
  reaches (\<open>staging_run\<close>, again \<open>guarded_system\<close>); \<open>Buffer_Uses\<close>, \<open>Buffer_Writeback\<close>: recording and writing back.
  \<open>Graphics_Example\<close>, \<open>Graphics_Stray\<close>, \<open>Graphics_Wide\<close>: three
  complete frames, one accepted, one that makes the checks stray, and one that is accepted and makes the layout stray.

  \<^bold>\<open>The properties.\<close> \<open>Cow_Theorems\<close>: isolation of the image over any run without failing \<open>stat\<close>s, what a failing one
  does, the atomic copy-up, exactness and termination of the copy, and the table of descriptors. \<open>Path_Theorems\<close>: cached verdicts are those of the uncached check, accepted paths
  are confined, rewritten arguments are mediated, normalisation and binds against their specifications, round trip.
  \<open>Exec_Theorems\<close>: the vector a program is started with. \<open>Pager_Theorems\<close>: refinement of flat memory, faults are resolved.
  \<open>Loop_Theorems\<close>: the filter against its table, calls answered by the tracer are not run, the table and the counter over
  every run. \<open>Frame_Theorems\<close>: the round trip of a dispatch and the bounds of what is received. \<open>Graphics_Theorems\<close>: an
  accepted frame is well typed, its tables are apart and in place, each command has one entry, copies stay in memory, and
  the one frame on which the check of a resolve attachment strays. \<open>Replay_Theorems\<close>: the walk reads inside the tables, the commands it passes
  are in order, and the layout it collects is exact, with the frames on which making it strays. \<open>Image_Theorems\<close>: parts
  of a staged image lie apart, and the table of layouts over any run of queries and updates. \<open>Buffer_Theorems\<close>: commands
  are given bytes that were staged, the writing back of the buffers changes the bytes that commands write and no others, and
  the frames where an index buffer is bound behind its end or a write is lost.

  \<^bold>\<open>Environment.\<close> Vulkan's calls, \<open>malloc\<close>, \<open>realpath\<close> on the host and the contents of passed files are arguments or part
  of the kernel's state; the properties hold for all of them.

  \<^bold>\<open>Not modelled.\<close> Recording the graphics commands, apart from the buffers they are given, and submitting them, executing
  dispatches and the executor's caches of device objects are sequences of calls to Vulkan; the older text commands, the JSON descriptions, timings and self tests
  are output. The entry points of the Vulkan driver other than the builder of dispatch frames, the OpenCL driver, the
  shim that probes the socket, the media executor, the pseudo terminal and the stub for other platforms forward calls or
  print. Of the tracer: option parsing, the stand-alone pager demonstrations, log and statistics output, and of its loop
  the ownership check of stopped processes, errors of \<open>waitpid\<close> and the terminal hand-over. Data races between processes
  that share memory with a stopped one are outside of the model, and so is everything that is not C.
\<close>

end
